(* ===== verification/Prelude.thy ===== *)
theory Prelude
  imports Complex_Main "HOL-Library.AList" "HOL-Library.Char_ord" "HOL-Library.List_Lexorder"
begin

text \<open>
  What every component of the model shares: the fragment of the JavaScript string, array and
  \<open>Map\<close> library that the backend uses, the reading of environment variables, and the lemma
  collections the component proofs draw on.

  A JavaScript string is a \<^typ>\<open>string\<close> (a list of code units below 256); case conversion is that of
  ASCII.  A JavaScript \<open>Map\<close> iterates in insertion order, and \<open>Map.set\<close> on a present key keeps the
  key's place, so a \<open>Map\<close> is an association list with \<^const>\<open>AList.update\<close> as its \<open>set\<close> and
  \<^const>\<open>AList.delete\<close> as its \<open>delete\<close>.  A time is the number of milliseconds \<open>Date.now()\<close>
  returns, and an ISO-8601 string the source stores is represented by the time it denotes.
\<close>

named_theorems js_defs \<open>definitions of the JavaScript library fragment\<close>

type_synonym time = int
type_synonym env = "string \<Rightarrow> string option"
type_synonym ('k, 'v) js_map = "('k \<times> 'v) list"

section \<open>Strings\<close>

definition js_ws :: "char \<Rightarrow> bool" where
  "js_ws c \<longleftrightarrow> of_char c \<in> {9, 10, 11, 12, 13, 32, 160 :: nat}"

definition js_trim :: "string \<Rightarrow> string" where
  "js_trim s = rev (dropWhile js_ws (rev (dropWhile js_ws s)))"

definition js_upper_char :: "char \<Rightarrow> char" where
  "js_upper_char c =
     (let n = of_char c :: nat in if 97 \<le> n \<and> n \<le> 122 then char_of (n - 32) else c)"

definition js_lower_char :: "char \<Rightarrow> char" where
  "js_lower_char c =
     (let n = of_char c :: nat in if 65 \<le> n \<and> n \<le> 90 then char_of (n + 32) else c)"

definition js_upper :: "string \<Rightarrow> string" where
  "js_upper s = map js_upper_char s"

definition js_lower :: "string \<Rightarrow> string" where
  "js_lower s = map js_lower_char s"

definition is_digit :: "char \<Rightarrow> bool" where
  "is_digit c \<longleftrightarrow> (let n = of_char c :: nat in 48 \<le> n \<and> n \<le> 57)"

definition is_lower :: "char \<Rightarrow> bool" where
  "is_lower c \<longleftrightarrow> (let n = of_char c :: nat in 97 \<le> n \<and> n \<le> 122)"

definition is_upper :: "char \<Rightarrow> bool" where
  "is_upper c \<longleftrightarrow> (let n = of_char c :: nat in 65 \<le> n \<and> n \<le> 90)"

fun starts_with :: "string \<Rightarrow> string \<Rightarrow> bool" where
  "starts_with [] s = True"
| "starts_with (p # ps) [] = False"
| "starts_with (p # ps) (c # cs) = (p = c \<and> starts_with ps cs)"

fun contains_sub :: "string \<Rightarrow> string \<Rightarrow> bool" where
  "contains_sub p [] = (p = [])"
| "contains_sub p (c # cs) = (starts_with p (c # cs) \<or> contains_sub p cs)"

fun js_split :: "char \<Rightarrow> string \<Rightarrow> string list" where
  "js_split d [] = [[]]"
| "js_split d (c # cs) =
     (if c = d then [] # js_split d cs
      else (case js_split d cs of [] \<Rightarrow> [[c]] | w # ws \<Rightarrow> (c # w) # ws))"

fun js_join :: "string \<Rightarrow> string list \<Rightarrow> string" where
  "js_join d [] = []"
| "js_join d [w] = w"
| "js_join d (w # v # ws) = w @ d @ js_join d (v # ws)"

definition last_n :: "nat \<Rightarrow> 'a list \<Rightarrow> 'a list" where
  "last_n n xs = drop (length xs - n) xs"

fun show_nat :: "nat \<Rightarrow> string" where
  "show_nat n =
     (if n < 10 then [char_of (48 + n)] else show_nat (n div 10) @ [char_of (48 + n mod 10)])"

declare show_nat.simps [simp del]

lemma is_digit_char_of: "(d :: nat) < 10 \<Longrightarrow> is_digit (char_of (48 + d))"
  by (simp add: is_digit_def Let_def)

lemma show_nat_digits: "c \<in> set (show_nat n) \<Longrightarrow> is_digit c"
proof (induction n rule: less_induct)
  case (less n)
  show ?case
  proof (cases "n < 10")
    case True
    with less.prems show ?thesis by (subst (asm) show_nat.simps) (simp add: is_digit_char_of)
  next
    case False
    then have "n div 10 < n" by simp
    then have "c \<in> set (show_nat (n div 10)) \<Longrightarrow> is_digit c" by (rule less.IH)
    moreover have "is_digit (char_of (48 + n mod 10))" by (simp add: is_digit_char_of)
    ultimately show ?thesis using less.prems False by (subst (asm) show_nat.simps) auto
  qed
qed

definition show_int :: "int \<Rightarrow> string" where
  "show_int i = (if i < 0 then CHR ''-'' # show_nat (nat (- i)) else show_nat (nat i))"

definition digits_value :: "string \<Rightarrow> int" where
  "digits_value ds = foldl (\<lambda>acc c. 10 * acc + int (of_char c - 48)) 0 ds"

text \<open>\<open>parseInt(s, 10)\<close>: leading white space, an optional sign, the longest run of digits; no
  digit at all is \<open>NaN\<close>, here \<^const>\<open>None\<close>.\<close>

definition js_parse_int :: "string \<Rightarrow> int option" where
  "js_parse_int s =
     (let t = dropWhile js_ws s;
          neg = (case t of c # _ \<Rightarrow> c = CHR ''-'' | [] \<Rightarrow> False);
          u = (case t of c # r \<Rightarrow> if c = CHR ''-'' \<or> c = CHR ''+'' then r else t | [] \<Rightarrow> []);
          ds = takeWhile is_digit u
      in if ds = [] then None else Some (if neg then - digits_value ds else digits_value ds))"

text \<open>\<open>parseFloat\<close> on a finite decimal literal: an optional sign, digits with an optional point, an
  optional exponent; \<^const>\<open>None\<close> when there is no digit.\<close>

definition js_exponent :: "string \<Rightarrow> int" where
  "js_exponent s =
     (case s of
        c # r \<Rightarrow>
          if c = CHR ''e'' \<or> c = CHR ''E'' then
            (let neg = (case r of d # _ \<Rightarrow> d = CHR ''-'' | [] \<Rightarrow> False);
                 u = (case r of d # t \<Rightarrow> if d = CHR ''-'' \<or> d = CHR ''+'' then t else r | [] \<Rightarrow> []);
                 ds = takeWhile is_digit u
             in if neg then - digits_value ds else digits_value ds)
          else 0
      | [] \<Rightarrow> 0)"

definition js_parse_float :: "string \<Rightarrow> rat option" where
  "js_parse_float s =
     (let t = dropWhile js_ws s;
          neg = (case t of c # _ \<Rightarrow> c = CHR ''-'' | [] \<Rightarrow> False);
          u = (case t of c # r \<Rightarrow> if c = CHR ''-'' \<or> c = CHR ''+'' then r else t | [] \<Rightarrow> []);
          ip = takeWhile is_digit u;
          r = dropWhile is_digit u;
          dot = (case r of c # _ \<Rightarrow> c = CHR ''.'' | [] \<Rightarrow> False);
          fp = (if dot then takeWhile is_digit (tl r) else []);
          rest = (if dot then dropWhile is_digit (tl r) else r);
          m = of_int (digits_value (ip @ fp)) / 10 ^ length fp;
          e = js_exponent rest;
          v = (if 0 \<le> e then m * 10 ^ nat e else m / 10 ^ nat (- e))
      in if ip = [] \<and> fp = [] then None else Some (if neg then - v else v))"

text \<open>\<open>Math.round\<close>.\<close>

definition js_round :: "rat \<Rightarrow> int" where
  "js_round r = \<lfloor>r + 1 / 2\<rfloor>"

lemma js_ws_upper [simp]: "js_ws (js_upper_char c) = js_ws c"
  by (auto simp: js_ws_def js_upper_char_def Let_def)

lemma js_upper_char_idem [simp]: "js_upper_char (js_upper_char c) = js_upper_char c"
  by (auto simp: js_upper_char_def Let_def)

lemma js_upper_idem [simp]: "js_upper (js_upper s) = js_upper s"
  by (simp add: js_upper_def comp_def)

lemma js_upper_Nil [simp]: "js_upper [] = []"
  by (simp add: js_upper_def)

lemma js_trim_Nil [simp]: "js_trim [] = []"
  by (simp add: js_trim_def)

lemma length_js_upper [simp]: "length (js_upper s) = length s"
  by (simp add: js_upper_def)

lemma dropWhile_idem_hd: "dropWhile P (dropWhile P xs) = dropWhile P xs"
  by (induction xs) auto

lemma dropWhile_rev_dropWhile:
  "dropWhile P (rev (dropWhile P (rev (dropWhile P xs)))) = rev (dropWhile P (rev (dropWhile P xs)))"
proof (cases "dropWhile P xs")
  case (Cons y ys)
  then have "\<not> P y" by (metis hd_dropWhile list.distinct(1) list.sel(1))
  then show ?thesis
    using Cons by (simp add: dropWhile_append)
next
  case Nil
  show ?thesis unfolding Nil by simp
qed

lemma js_trim_idem [simp]: "js_trim (js_trim s) = js_trim s"
  by (simp add: js_trim_def dropWhile_rev_dropWhile dropWhile_idem_hd)

lemma js_trim_upper: "js_trim (js_upper s) = js_upper (js_trim s)"
  by (simp add: js_trim_def js_upper_def dropWhile_map rev_map comp_def)

lemma starts_with_append [simp]: "starts_with p (p @ s)"
  by (induction p) auto

lemma starts_with_iff: "starts_with p s \<longleftrightarrow> (\<exists>t. s = p @ t)"
  by (induction p s rule: starts_with.induct) auto

lemma js_split_nonempty [simp]: "js_split d s \<noteq> []"
  by (induction s) (auto split: list.splits)

lemma js_join_split: "js_join [d] (js_split d s) = s"
proof (induction s)
  case (Cons c cs)
  obtain w ws where w: "js_split d cs = w # ws"
    by (metis js_split_nonempty neq_Nil_conv)
  with Cons show ?case
    by (cases ws) auto
qed simp

lemma js_split_no_delim: "d \<notin> set w \<Longrightarrow> js_split d w = [w]"
  by (induction w) auto

lemma js_split_append: "d \<notin> set w \<Longrightarrow> js_split d (w @ d # s) = w # js_split d s"
  by (induction w) auto

lemma js_split_join:
  "ws \<noteq> [] \<Longrightarrow> \<forall>w \<in> set ws. d \<notin> set w \<Longrightarrow> js_split d (js_join [d] ws) = ws"
proof (induction ws)
  case (Cons w ws)
  then show ?case by (cases ws) (auto simp: js_split_no_delim js_split_append)
qed simp

lemma js_join_inject:
  assumes "ws \<noteq> []" "vs \<noteq> []" "\<forall>w \<in> set ws. d \<notin> set w" "\<forall>w \<in> set vs. d \<notin> set w"
    and "js_join [d] ws = js_join [d] vs"
  shows "ws = vs"
  using js_split_join[OF assms(1,3)] js_split_join[OF assms(2,4)] unfolding assms(5) by (rule trans[OF sym])

lemma set_js_trim: "set (js_trim s) \<subseteq> set s"
proof -
  have sub: "set (dropWhile js_ws t) \<subseteq> set t" for t by (meson set_dropWhileD subsetI)
  have "set (js_trim s) \<subseteq> set (rev (dropWhile js_ws s))"
    unfolding js_trim_def set_rev by (rule sub[THEN subset_trans]) simp
  then show ?thesis using sub[of s] by simp
qed

lemma js_upper_char_newline [simp]: "js_upper_char c = CHR 0x0A \<longleftrightarrow> c = CHR 0x0A"
proof
  assume a: "js_upper_char c = CHR 0x0A"
  show "c = CHR 0x0A"
  proof (cases "97 \<le> (of_char c :: nat) \<and> (of_char c :: nat) \<le> 122")
    case True
    then have "(of_char c - 32) mod 256 = (of_char c - 32 :: nat)" by (intro mod_less) linarith
    with True have "(of_char (js_upper_char c) :: nat) = of_char c - 32"
      by (simp add: js_upper_char_def Let_def)
    moreover have "(of_char (js_upper_char c) :: nat) = 10" using a by simp
    ultimately show ?thesis using True by linarith
  qed (use a in \<open>auto simp: js_upper_char_def Let_def\<close>)
qed (simp add: js_upper_char_def)

section \<open>Environment variables and truthiness\<close>

text \<open>\<open>process.env.X || d\<close>: an absent or empty variable reads as the default.\<close>

definition env_or :: "env \<Rightarrow> string \<Rightarrow> string \<Rightarrow> string" where
  "env_or E k d = (case E k of None \<Rightarrow> d | Some v \<Rightarrow> if v = [] then d else v)"

text \<open>\<open>a || b\<close> on optional strings: an empty string is falsy.\<close>

definition js_or :: "string option \<Rightarrow> string option \<Rightarrow> string option" where
  "js_or a b = (case a of None \<Rightarrow> b | Some s \<Rightarrow> if s = [] then b else Some s)"

definition truthy_str :: "string option \<Rightarrow> bool" where
  "truthy_str a = (case a of None \<Rightarrow> False | Some s \<Rightarrow> s \<noteq> [])"

text \<open>\<open>a ?? b\<close>.\<close>

definition nullish :: "'a option \<Rightarrow> 'a \<Rightarrow> 'a" where
  "nullish a b = (case a of None \<Rightarrow> b | Some x \<Rightarrow> x)"

lemma nullish_simps [simp]: "nullish None b = b" "nullish (Some x) b = x"
  by (simp_all add: nullish_def)

section \<open>Maps in insertion order\<close>

locale keyed_store =
  fixes look :: "'s \<Rightarrow> 'k \<Rightarrow> 'v option"
    and put :: "'k \<Rightarrow> 'v \<Rightarrow> 's \<Rightarrow> 's"
    and del :: "'k \<Rightarrow> 's \<Rightarrow> 's"
  assumes look_put: "look (put k v s) = (look s)(k \<mapsto> v)"
    and look_del: "look (del k s) = (look s)(k := None)"
begin

lemma look_put_same: "look (put k v s) k = Some v"
  by (simp add: look_put)

lemma look_put_other: "k' \<noteq> k \<Longrightarrow> look (put k v s) k' = look s k'"
  by (simp add: look_put)

lemma look_del_same: "look (del k s) k = None"
  by (simp add: look_del)

lemma look_del_other: "k' \<noteq> k \<Longrightarrow> look (del k s) k' = look s k'"
  by (simp add: look_del)

lemma dom_put: "dom (look (put k v s)) = insert k (dom (look s))"
  by (simp add: look_put)

lemma look_fold_del: "look (fold del ks s) k = (if k \<in> set ks then None else look s k)"
  by (induction ks arbitrary: s) (auto simp: look_del)

end

interpretation jmap: keyed_store map_of AList.update AList.delete
  by unfold_locales (auto simp: update_conv' delete_conv')

definition jm_keys :: "('k, 'v) js_map \<Rightarrow> 'k list" where
  "jm_keys m = map fst m"

definition jm_has :: "('k, 'v) js_map \<Rightarrow> 'k \<Rightarrow> bool" where
  "jm_has m k \<longleftrightarrow> map_of m k \<noteq> None"

definition jm_wf :: "('k, 'v) js_map \<Rightarrow> bool" where
  "jm_wf m \<longleftrightarrow> distinct (map fst m)"

lemma map_of_Some_key: "map_of m k = Some v \<Longrightarrow> k \<in> fst ` set m"
  by (force dest: map_of_SomeD)

lemma jm_wf_Nil [simp]: "jm_wf []"
  by (simp add: jm_wf_def)

lemma jm_wf_update [simp]: "jm_wf m \<Longrightarrow> jm_wf (AList.update k v m)"
  by (simp add: jm_wf_def distinct_update)

lemma jm_wf_delete [simp]: "jm_wf m \<Longrightarrow> jm_wf (AList.delete k m)"
  by (simp add: jm_wf_def distinct_delete)

lemma set_keys_update [simp]: "fst ` set (AList.update k v m) = insert k (fst ` set m)"
  by (simp add: dom_map_of_conv_image_fst[symmetric] jmap.dom_put)

lemma length_update_present:
  "map_of m k \<noteq> None \<Longrightarrow> length (AList.update k v m) = length m"
  by (induction m) (auto split: if_splits)

lemma length_update_absent:
  "map_of m k = None \<Longrightarrow> length (AList.update k v m) = Suc (length m)"
  by (induction m) (auto split: if_splits)

lemma length_delete_le': "length (AList.delete k m) \<le> length m"
  by (rule length_delete_le)

lemma length_delete_present:
  "jm_wf m \<Longrightarrow> map_of m k \<noteq> None \<Longrightarrow> Suc (length (AList.delete k m)) = length m"
proof (induction m)
  case (Cons p m)
  show ?case
  proof (cases "fst p = k")
    case True
    with Cons.prems(1) have "k \<notin> fst ` set m" by (auto simp: jm_wf_def)
    then have "AList.delete k m = m" by (simp add: delete_idem)
    with True show ?thesis by (cases p) simp
  next
    case False
    with Cons show ?thesis by (cases p) (auto simp: jm_wf_def)
  qed
qed simp

section \<open>Stable sorting by a comparator\<close>

text \<open>\<open>Array.prototype.sort\<close> is stable.  \<open>gt a b\<close> says that the comparator returns a positive
  number on \<open>(a, b)\<close>, that is, that \<open>a\<close> goes after \<open>b\<close>.\<close>

fun js_insert :: "('a \<Rightarrow> 'a \<Rightarrow> bool) \<Rightarrow> 'a \<Rightarrow> 'a list \<Rightarrow> 'a list" where
  "js_insert gt x [] = [x]"
| "js_insert gt x (y # ys) = (if gt x y then y # js_insert gt x ys else x # y # ys)"

definition js_sort :: "('a \<Rightarrow> 'a \<Rightarrow> bool) \<Rightarrow> 'a list \<Rightarrow> 'a list" where
  "js_sort gt xs = foldr (js_insert gt) xs []"

lemma set_js_insert [simp]: "set (js_insert gt x ys) = insert x (set ys)"
  by (induction ys) auto

lemma length_js_insert [simp]: "length (js_insert gt x ys) = Suc (length ys)"
  by (induction ys) auto

lemma distinct_js_insert [simp]: "distinct (js_insert gt x ys) \<longleftrightarrow> x \<notin> set ys \<and> distinct ys"
  by (induction ys) auto

lemma js_sort_simps [simp]:
  "js_sort gt [] = []" "js_sort gt (x # xs) = js_insert gt x (js_sort gt xs)"
  by (simp_all add: js_sort_def)

lemma set_js_sort [simp]: "set (js_sort gt xs) = set xs"
  by (induction xs) auto

lemma length_js_sort [simp]: "length (js_sort gt xs) = length xs"
  by (induction xs) auto

lemma distinct_js_sort [simp]: "distinct (js_sort gt xs) = distinct xs"
  by (induction xs) auto

lemma sorted_js_insert:
  assumes tr: "\<And>x y z. \<not> gt x y \<Longrightarrow> \<not> gt y z \<Longrightarrow> \<not> gt x z"
    and total: "\<And>x y. gt x y \<Longrightarrow> \<not> gt y x"
    and "sorted_wrt (\<lambda>a b. \<not> gt a b) ys"
  shows "sorted_wrt (\<lambda>a b. \<not> gt a b) (js_insert gt x ys)"
  using assms(3)
proof (induction ys)
  case (Cons y ys)
  show ?case
  proof (cases "gt x y")
    case True
    then have "\<not> gt y x" by (rule total)
    with True Cons show ?thesis by simp
  next
    case False
    have "\<forall>z \<in> set ys. \<not> gt x z"
    proof
      fix z assume "z \<in> set ys"
      with Cons.prems have "\<not> gt y z" by simp
      with False show "\<not> gt x z" by (rule tr)
    qed
    with False Cons.prems show ?thesis by simp
  qed
qed simp

lemma sorted_js_sort:
  assumes "\<And>x y z. \<not> gt x y \<Longrightarrow> \<not> gt y z \<Longrightarrow> \<not> gt x z"
    and "\<And>x y. gt x y \<Longrightarrow> \<not> gt y x"
  shows "sorted_wrt (\<lambda>a b. \<not> gt a b) (js_sort gt xs)"
  by (induction xs) (simp_all add: sorted_js_insert[where gt = gt, OF assms])

section \<open>Slices\<close>

definition js_slice :: "nat \<Rightarrow> nat \<Rightarrow> 'a list \<Rightarrow> 'a list" where
  "js_slice i j xs = take (j - i) (drop i xs)"

lemma length_js_slice: "length (js_slice i j xs) = min (j - i) (length xs - i)"
  by (simp add: js_slice_def min.commute)

lemma set_js_slice: "set (js_slice i j xs) \<subseteq> set xs"
  by (auto simp: js_slice_def dest: in_set_takeD in_set_dropD)

text \<open>\<open>Array.prototype.findIndex\<close>, with \<^const>\<open>None\<close> for \<open>-1\<close>.\<close>

fun find_index :: "('a \<Rightarrow> bool) \<Rightarrow> 'a list \<Rightarrow> nat option" where
  "find_index P [] = None"
| "find_index P (x # xs) = (if P x then Some 0 else map_option Suc (find_index P xs))"

lemma find_index_None [simp]: "find_index P xs = None \<longleftrightarrow> (\<forall>x \<in> set xs. \<not> P x)"
  by (induction xs) auto

lemma find_index_Some:
  "find_index P xs = Some i \<Longrightarrow> i < length xs \<and> P (xs ! i) \<and> (\<forall>j < i. \<not> P (xs ! j))"
  by (induction xs arbitrary: i) (auto split: if_splits simp: nth_Cons split: nat.splits)

lemma find_index_unique:
  assumes "i < length xs" and "P (xs ! i)" and "\<And>j. j < length xs \<Longrightarrow> P (xs ! j) \<Longrightarrow> j = i"
  shows "find_index P xs = Some i"
proof (cases "find_index P xs")
  case None
  with assms(1,2) show ?thesis
    using nth_mem[OF assms(1)] unfolding find_index_None by blast
next
  case (Some k)
  then have "k < length xs" "P (xs ! k)" by (simp_all add: find_index_Some)
  then have "k = i" by (rule assms(3))
  with Some show ?thesis by simp
qed

text \<open>\<open>Array.prototype.find\<close> is \<^const>\<open>List.find\<close>.\<close>

lemma find_SomeD: "List.find P xs = Some x \<Longrightarrow> x \<in> set xs \<and> P x"
  by (induction xs) (auto split: if_splits)

lemma find_NoneD: "List.find P xs = None \<longleftrightarrow> (\<forall>x \<in> set xs. \<not> P x)"
  by (induction xs) auto

text \<open>\<open>Math.ceil(a / b)\<close> for a positive integer \<open>b\<close>.\<close>

definition ceil_div :: "int \<Rightarrow> int \<Rightarrow> int" where
  "ceil_div a b = - ((- a) div b)"

lemma ceil_div_bounds:
  assumes "0 < b" shows "a \<le> ceil_div a b * b" and "ceil_div a b * b < a + b"
proof -
  have eq: "(- a) div b * b + (- a) mod b = - a" by simp
  have "0 \<le> (- a) mod b" "(- a) mod b < b" using assms by simp_all
  with eq show "a \<le> ceil_div a b * b" "ceil_div a b * b < a + b"
    unfolding ceil_div_def by linarith+
qed

lemma ceil_div_pos: "0 < b \<Longrightarrow> 0 < a \<Longrightarrow> 0 < ceil_div a b"
  using ceil_div_bounds(1)[of b a] by (smt (verit) mult_nonpos_nonneg)

end
