(* ===== verification/Http.thy ===== *)
theory Http
  imports Prelude
begin

text \<open>
  The values that cross the HTTP boundary: JSON, the Express request as the handlers read it and
  the response they send.  Header names are lower case, as Node stores them.  A middleware either
  calls \<open>next()\<close>, with the request it may have annotated, or sends a response and returns.
\<close>

datatype json =
    JNull
  | JBool bool
  | JNum rat
  | JStr string
  | JArr "json list"
  | JObj "(string \<times> json) list"

datatype api_key_role = Viewer | Operator | Admin | SuperAdmin

record jwt_payload =
  jwt_sub :: string
  jwt_iat :: int
  jwt_exp :: int
  jwt_jti :: string

record request =
  rq_method :: string
  rq_baseUrl :: string
  rq_path :: string
  rq_originalUrl :: string
  rq_headers :: "string \<Rightarrow> string option"
  rq_ip :: "string option"
  rq_remote :: "string option"
  rq_body :: json
  rq_query :: "string \<Rightarrow> string option"
  rq_authApiKeyHash :: "string option"
  rq_authApiKeyRole :: "api_key_role option"
  rq_jwtPayload :: "jwt_payload option"
  rq_exportAsAdmin :: "bool option"
  rq_auditAction :: "string option"
  rq_auditMetadata :: json

record response =
  rs_status :: int
  rs_headers :: "(string \<times> json) list"
  rs_body :: json

text \<open>A request with every field empty.\<close>

definition blank_request :: request where
  "blank_request = \<lparr>rq_method = ''POST'', rq_baseUrl = [], rq_path = ''/'', rq_originalUrl = ''/'',
     rq_headers = (\<lambda>h. None), rq_ip = None, rq_remote = None, rq_body = JObj [],
     rq_query = (\<lambda>k. None), rq_authApiKeyHash = None, rq_authApiKeyRole = None,
     rq_jwtPayload = None, rq_exportAsAdmin = None, rq_auditAction = None, rq_auditMetadata = JNull\<rparr>"

datatype outcome = Next request | Respond response

text \<open>\<open>res.status(n).json(b)\<close>, possibly after some \<open>res.setHeader\<close> calls.\<close>

definition send_json :: "int \<Rightarrow> json \<Rightarrow> response" where
  "send_json st b = \<lparr>rs_status = st, rs_headers = [], rs_body = b\<rparr>"

definition send_json_with :: "(string \<times> json) list \<Rightarrow> int \<Rightarrow> json \<Rightarrow> response" where
  "send_json_with hs st b = \<lparr>rs_status = st, rs_headers = hs, rs_body = b\<rparr>"

definition jint :: "int \<Rightarrow> json" where
  "jint i = JNum (of_int i)"

text \<open>The error envelope \<open>{ error, status, message }\<close> most handlers send.\<close>

definition error_body :: "string \<Rightarrow> int \<Rightarrow> string \<Rightarrow> (string \<times> json) list" where
  "error_body e st msg = [(''error'', JStr e), (''status'', jint st), (''message'', JStr msg)]"

definition send_error :: "string \<Rightarrow> int \<Rightarrow> string \<Rightarrow> response" where
  "send_error e st msg = send_json st (JObj (error_body e st msg))"

text \<open>A property whose value is \<open>undefined\<close> is absent from the serialised object.\<close>

definition opt_prop :: "string \<Rightarrow> json option \<Rightarrow> (string \<times> json) list" where
  "opt_prop k v = (case v of None \<Rightarrow> [] | Some j \<Rightarrow> [(k, j)])"

definition json_opt :: "('a \<Rightarrow> json) \<Rightarrow> 'a option \<Rightarrow> json" where
  "json_opt f v = (case v of None \<Rightarrow> JNull | Some x \<Rightarrow> f x)"

text \<open>\<open>req.body?.k\<close>, and the same under a cast to a string: the handlers read fields they have
  cast to \<open>string\<close>, so a field that holds no string reads as absent here.\<close>

definition body_field :: "request \<Rightarrow> string \<Rightarrow> json option" where
  "body_field r k = (case rq_body r of JObj fs \<Rightarrow> map_of fs k | _ \<Rightarrow> None)"

definition body_string :: "request \<Rightarrow> string \<Rightarrow> string option" where
  "body_string r k = (case body_field r k of Some (JStr s) \<Rightarrow> Some s | _ \<Rightarrow> None)"

definition header_or_empty :: "request \<Rightarrow> string \<Rightarrow> string" where
  "header_or_empty r h = nullish (rq_headers r h) []"

text \<open>The regular expression \<open>/^Scheme\s+(.+)$/\<close>, with the flag \<open>i\<close> when \<open>ci\<close>: the scheme, white
  space, and the rest of the line; when only white space follows, its last character is the group.\<close>

definition line_char :: "char \<Rightarrow> bool" where
  "line_char c \<longleftrightarrow> c \<noteq> CHR 0x0A \<and> c \<noteq> CHR 0x0D"

definition scheme_match :: "bool \<Rightarrow> string \<Rightarrow> string \<Rightarrow> string option" where
  "scheme_match ci scheme header =
     (let fold_case = (if ci then js_lower else id)
      in if fold_case (take (length scheme) header) \<noteq> fold_case scheme then None
         else
           let rest = drop (length scheme) header;
               ws = takeWhile js_ws rest;
               r = dropWhile js_ws rest
           in if ws = [] then None
              else if r \<noteq> [] then (if list_all line_char r then Some r else None)
              else if 2 \<le> length ws \<and> line_char (last ws) then Some [last ws] else None)"

definition is_next :: "outcome \<Rightarrow> bool" where
  "is_next o1 = (case o1 of Next _ \<Rightarrow> True | Respond _ \<Rightarrow> False)"

text \<open>Express runs the middlewares of a route in order and stops at the first that responds.\<close>

fun run_middlewares :: "(request \<Rightarrow> outcome) list \<Rightarrow> request \<Rightarrow> outcome" where
  "run_middlewares [] r = Next r"
| "run_middlewares (m # ms) r =
     (case m r of Next r' \<Rightarrow> run_middlewares ms r' | Respond s \<Rightarrow> Respond s)"

lemma send_json_simps [simp]:
  "rs_status (send_json st b) = st" "rs_body (send_json st b) = b"
  "rs_status (send_json_with hs st b) = st" "rs_body (send_json_with hs st b) = b"
  "rs_headers (send_json_with hs st b) = hs" "rs_headers (send_json st b) = []"
  by (simp_all add: send_json_def send_json_with_def)

lemma send_error_status [simp]: "rs_status (send_error e st msg) = st"
  by (simp add: send_error_def)

lemma is_next_simps [simp]: "is_next (Next r)" "\<not> is_next (Respond s)"
  by (simp_all add: is_next_def)

lemma run_middlewares_append:
  "run_middlewares (ms @ ns) r =
     (case run_middlewares ms r of Next r' \<Rightarrow> run_middlewares ns r' | Respond s \<Rightarrow> Respond s)"
  by (induction ms arbitrary: r) (auto split: outcome.splits)

text \<open>The roles are ordered by privilege.\<close>

instantiation api_key_role :: linorder
begin

definition role_rank :: "api_key_role \<Rightarrow> nat" where
  "role_rank r = (case r of Viewer \<Rightarrow> 0 | Operator \<Rightarrow> 1 | Admin \<Rightarrow> 2 | SuperAdmin \<Rightarrow> 3)"

definition less_eq_api_key_role :: "api_key_role \<Rightarrow> api_key_role \<Rightarrow> bool" where
  "less_eq_api_key_role r s \<longleftrightarrow> role_rank r \<le> role_rank s"

definition less_api_key_role :: "api_key_role \<Rightarrow> api_key_role \<Rightarrow> bool" where
  "less_api_key_role r s \<longleftrightarrow> role_rank r < role_rank s"

instance
  by standard
    (auto simp: less_eq_api_key_role_def less_api_key_role_def role_rank_def
      split: api_key_role.splits)

end

end
