(* ===== verification/Wallet.thy ===== *)
theory Wallet
  imports Http
begin

text \<open>
  Wallet addresses (\<open>backend/src/walletUtils.ts\<close>) and the per-wallet lock of the vault operations
  (\<open>backend/src/walletLock.ts\<close>).  The lock's state is the module's set of in-flight wallets; the
  \<open>release\<close> closure an acquisition returns is the value of the lock result that says which key it
  deletes, if any.
\<close>

section \<open>walletUtils.ts\<close>

definition normalizeWalletAddress :: "string option \<Rightarrow> string" where
  "normalizeWalletAddress address =
     (case address of None \<Rightarrow> []
      | Some a \<Rightarrow> if a = [] then [] else js_upper (js_trim a))"

definition isValidStellarAddress :: "string option \<Rightarrow> bool" where
  "isValidStellarAddress address =
     (case address of None \<Rightarrow> False
      | Some a \<Rightarrow>
          if a = [] then False
          else (case normalizeWalletAddress (Some a) of
                  [] \<Rightarrow> False
                | c # cs \<Rightarrow> c = CHR ''G'' \<and> 55 \<le> length cs \<and> length cs \<le> 63
                    \<and> list_all (\<lambda>x. is_upper x \<or> is_digit x) cs))"

lemma normalizeWalletAddress_Some: "normalizeWalletAddress (Some a) = js_upper (js_trim a)"
  by (simp add: normalizeWalletAddress_def)

lemma normalizeWalletAddress_None [simp]: "normalizeWalletAddress None = []"
  by (simp add: normalizeWalletAddress_def)

lemma normalizeWalletAddress_idem [simp]:
  "normalizeWalletAddress (Some (normalizeWalletAddress a)) = normalizeWalletAddress a"
  by (cases a) (simp_all add: normalizeWalletAddress_Some js_trim_upper)

section \<open>walletLock.ts\<close>

datatype release_fn = ReleaseNothing | ReleaseKey string

record wallet_lock_result =
  wl_acquired :: bool
  wl_key :: string
  wl_release :: release_fn

type_synonym in_flight = "string set"

definition tryAcquireWalletLock :: "string \<Rightarrow> in_flight \<Rightarrow> wallet_lock_result \<times> in_flight" where
  "tryAcquireWalletLock walletAddress inFlight =
     (let key = normalizeWalletAddress (Some walletAddress)
      in if key = [] then
           (\<lparr>wl_acquired = False, wl_key = key, wl_release = ReleaseNothing\<rparr>, inFlight)
         else if key \<in> inFlight then
           (\<lparr>wl_acquired = False, wl_key = key, wl_release = ReleaseNothing\<rparr>, inFlight)
         else
           (\<lparr>wl_acquired = True, wl_key = key, wl_release = ReleaseKey key\<rparr>, insert key inFlight))"

fun run_release :: "release_fn \<Rightarrow> in_flight \<Rightarrow> in_flight" where
  "run_release ReleaseNothing inFlight = inFlight"
| "run_release (ReleaseKey k) inFlight = inFlight - {k}"

definition clearWalletLocksForTests :: "in_flight \<Rightarrow> in_flight" where
  "clearWalletLocksForTests inFlight = {}"

lemma acquire_empty_key:
  "normalizeWalletAddress (Some w) = [] \<Longrightarrow> \<not> wl_acquired (fst (tryAcquireWalletLock w s))"
  by (simp add: tryAcquireWalletLock_def)

lemma acquire_key [simp]:
  "wl_key (fst (tryAcquireWalletLock w s)) = normalizeWalletAddress (Some w)"
  by (simp add: tryAcquireWalletLock_def Let_def)

lemma acquire_iff:
  "wl_acquired (fst (tryAcquireWalletLock w s)) \<longleftrightarrow>
     normalizeWalletAddress (Some w) \<noteq> [] \<and> normalizeWalletAddress (Some w) \<notin> s"
  by (auto simp: tryAcquireWalletLock_def Let_def)

lemma acquire_state:
  "snd (tryAcquireWalletLock w s) =
     (if wl_acquired (fst (tryAcquireWalletLock w s))
      then insert (normalizeWalletAddress (Some w)) s else s)"
  by (auto simp: tryAcquireWalletLock_def Let_def)

lemma acquire_release_inverse:
  "wl_acquired (fst (tryAcquireWalletLock w s)) \<Longrightarrow>
     run_release (wl_release (fst (tryAcquireWalletLock w s))) (snd (tryAcquireWalletLock w s)) = s"
  by (auto simp: tryAcquireWalletLock_def Let_def split: if_splits)

text \<open>
  The interface the vault operations rely on: an acquisition of a key that is held fails and
  changes nothing, one that succeeds adds exactly its key, and a release takes exactly it away.
\<close>

locale key_lock =
  fixes acquire :: "'k \<Rightarrow> 's \<Rightarrow> bool \<times> 's"
    and release :: "'k \<Rightarrow> 's \<Rightarrow> 's"
    and held :: "'s \<Rightarrow> 'k set"
  assumes acquire_held: "k \<in> held s \<Longrightarrow> \<not> fst (acquire k s)"
    and acquire_true: "fst (acquire k s) \<Longrightarrow> held (snd (acquire k s)) = insert k (held s)"
    and acquire_false: "\<not> fst (acquire k s) \<Longrightarrow> snd (acquire k s) = s"
    and held_release: "held (release k s) = held s - {k}"
begin

text \<open>Clients, each holding at most one key; \<open>owns\<close> agrees with the lock's state and no two
  clients own one key.\<close>

lemma acquire_exclusive:
  assumes inv: "\<And>c k. owns c = Some k \<Longrightarrow> k \<in> held s"
    and excl: "\<And>c d k. owns c = Some k \<Longrightarrow> owns d = Some k \<Longrightarrow> c = d"
    and got: "fst (acquire k0 s)"
    and o: "(owns(c0 := Some k0)) c = Some k" "(owns(c0 := Some k0)) d = Some k"
  shows "c = d"
proof -
  have fresh: "owns e \<noteq> Some k0" for e
    using inv[of e k0] acquire_held[of k0 s] got by blast
  show ?thesis using o excl fresh by (auto split: if_splits)
qed

lemma acquire_covers:
  assumes inv: "\<And>c k. owns c = Some k \<Longrightarrow> k \<in> held s"
    and got: "fst (acquire k0 s)"
    and o: "(owns(c0 := Some k0)) c = Some k"
  shows "k \<in> held (snd (acquire k0 s))"
  using o inv got by (auto simp: acquire_true split: if_splits)

lemma release_covers:
  assumes inv: "\<And>c k. owns c = Some k \<Longrightarrow> k \<in> held s"
    and excl: "\<And>c d k. owns c = Some k \<Longrightarrow> owns d = Some k \<Longrightarrow> c = d"
    and o0: "owns c0 = Some k0"
    and o: "(owns(c0 := None)) c = Some k"
  shows "k \<in> held (release k0 s)"
proof -
  from o have c: "c \<noteq> c0" and oc: "owns c = Some k" by (auto split: if_splits)
  then have "k \<noteq> k0" using excl o0 by blast
  with inv[OF oc] show ?thesis by (simp add: held_release)
qed

end

text \<open>The lock of \<open>walletLock.ts\<close> on normalised, non-empty keys.\<close>

definition wallet_acquire :: "string \<Rightarrow> in_flight \<Rightarrow> bool \<times> in_flight" where
  "wallet_acquire w s = (let (r, s') = tryAcquireWalletLock w s in (wl_acquired r, s'))"

typedef wallet_key = "{w. normalizeWalletAddress (Some w) = w}"
  by (rule exI[of _ "[]"]) (simp add: normalizeWalletAddress_def)

interpretation wlock: key_lock
  "\<lambda>k. wallet_acquire (Rep_wallet_key k)"
  "\<lambda>k. run_release (ReleaseKey (Rep_wallet_key k))"
  "\<lambda>s. {k. Rep_wallet_key k \<in> s}"
proof unfold_locales
  fix k :: wallet_key and s :: in_flight
  have norm: "normalizeWalletAddress (Some (Rep_wallet_key k)) = Rep_wallet_key k"
    using Rep_wallet_key[of k] by simp
  show "k \<in> {k. Rep_wallet_key k \<in> s} \<Longrightarrow> \<not> fst (wallet_acquire (Rep_wallet_key k) s)"
    by (simp add: wallet_acquire_def split_beta acquire_iff norm)
  show "fst (wallet_acquire (Rep_wallet_key k) s) \<Longrightarrow>
      {j. Rep_wallet_key j \<in> snd (wallet_acquire (Rep_wallet_key k) s)} =
      insert k {j. Rep_wallet_key j \<in> s}"
    by (auto simp: wallet_acquire_def split_beta acquire_state norm Rep_wallet_key_inject)
  show "\<not> fst (wallet_acquire (Rep_wallet_key k) s) \<Longrightarrow>
      snd (wallet_acquire (Rep_wallet_key k) s) = s"
    by (simp add: wallet_acquire_def split_beta acquire_state)
  show "{j. Rep_wallet_key j \<in> run_release (ReleaseKey (Rep_wallet_key k)) s} =
      {j. Rep_wallet_key j \<in> s} - {k}"
    by (auto simp: Rep_wallet_key_inject)
qed

end
