(* ===== verification/Stores.thy ===== *)
theory Stores
  imports Prelude
begin

text \<open>
  The two key-value services the backend keeps short-lived state in: the \<open>node-cache\<close> package and
  a Redis server reached through \<open>ioredis\<close>.  Their code is not part of the repository, so every
  definition that uses one takes its operations as a record argument, and the behaviour their
  documentation promises is stated as the laws of a locale.  Both are shown consistent on a map
  from keys to values with a deadline.

  The values kept in Redis are written with \<open>JSON.stringify\<close> and read with \<open>JSON.parse\<close>; on the flat
  records stored here that round trip is the identity, so the model stores the records.
\<close>

section \<open>node-cache\<close>

text \<open>\<open>nc_set now key value ttl\<close>: the life time, in seconds in the package, is in
  milliseconds here (a caller may pass a fraction of a second), \<^const>\<open>None\<close> when the caller leaves
  it out and the cache's \<open>stdTTL\<close> applies.\<close>

record ('c, 'v) node_cache_ops =
  nc_get :: "time \<Rightarrow> string \<Rightarrow> 'c \<Rightarrow> 'v option"
  nc_set :: "time \<Rightarrow> string \<Rightarrow> 'v \<Rightarrow> int option \<Rightarrow> 'c \<Rightarrow> 'c"
  nc_del :: "string \<Rightarrow> 'c \<Rightarrow> int \<times> 'c"
  nc_keys :: "'c \<Rightarrow> string list"
  nc_flush :: "'c \<Rightarrow> 'c"

locale node_cache =
  fixes C :: "('c, 'v) node_cache_ops"
    and std_ttl :: int
  assumes nc_get_set_other: "k' \<noteq> k \<Longrightarrow> nc_get C t' k' (nc_set C t k v ttl c) = nc_get C t' k' c"
    and nc_get_set_range:
      "nc_get C t' k (nc_set C t k v ttl c) = None \<or> nc_get C t' k (nc_set C t k v ttl c) = Some v"
    and nc_get_set_live:
      "t' < t + (case ttl of None \<Rightarrow> std_ttl | Some ms \<Rightarrow> ms) \<Longrightarrow>
         nc_get C t' k (nc_set C t k v ttl c) = Some v"
    and nc_get_del_same: "nc_get C t k (snd (nc_del C k c)) = None"
    and nc_get_del_other: "k' \<noteq> k \<Longrightarrow> nc_get C t k' (snd (nc_del C k c)) = nc_get C t k' c"
    and nc_del_count: "nc_get C t k c \<noteq> None \<Longrightarrow> 0 < fst (nc_del C k c)"
    and nc_get_flush: "nc_get C t k (nc_flush C c) = None"
    and nc_keys_flush: "nc_keys C (nc_flush C c) = []"
    and nc_expired: "nc_get C t k c = None \<Longrightarrow> t \<le> t' \<Longrightarrow> nc_get C t' k c = None"
    and nc_get_stable: "nc_get C t k c = Some v \<Longrightarrow> nc_get C t' k c = None \<or> nc_get C t' k c = Some v"
    and nc_get_keys: "nc_get C t k c = Some v \<Longrightarrow> k \<in> set (nc_keys C c)"

type_synonym 'v deadline_map = "(string, 'v \<times> time) js_map"

definition dm_get :: "time \<Rightarrow> string \<Rightarrow> 'v deadline_map \<Rightarrow> 'v option" where
  "dm_get t k m = (case map_of m k of None \<Rightarrow> None | Some (v, d) \<Rightarrow> if t \<le> d then Some v else None)"

definition deadline_cache :: "int \<Rightarrow> ('v deadline_map, 'v) node_cache_ops" where
  "deadline_cache std =
     \<lparr>nc_get = dm_get,
      nc_set = (\<lambda>t k v ttl m. AList.update k (v, t + nullish ttl std) m),
      nc_del = (\<lambda>k m. (if jm_has m k then 1 else 0, AList.delete k m)),
      nc_keys = jm_keys,
      nc_flush = (\<lambda>m. [])\<rparr>"

interpretation deadline: node_cache "deadline_cache std" std
  by unfold_locales
    (auto simp: deadline_cache_def dm_get_def jmap.look_put jmap.look_del nullish_def jm_has_def
       jm_keys_def split: option.splits if_splits dest: map_of_Some_key)

section \<open>Redis\<close>

text \<open>The commands the stores send: \<open>GET\<close>, \<open>SET key value EX s\<close>, \<open>TTL\<close>, \<open>DEL\<close> on values, and
  \<open>SADD\<close>, \<open>EXPIRE\<close>, \<open>SMEMBERS\<close> on sets of strings.  The server answers a command on a key that
  holds the other kind of value with an error; the keys of values and of sets are taken to be
  apart, so that \<open>EXPIRE\<close>, sent for set keys only, leaves every value as it is.\<close>

record ('d, 'v) redis_ops =
  rd_get :: "time \<Rightarrow> string \<Rightarrow> 'd \<Rightarrow> 'v option"
  rd_set_ex :: "time \<Rightarrow> string \<Rightarrow> 'v \<Rightarrow> int \<Rightarrow> 'd \<Rightarrow> 'd"
  rd_ttl :: "time \<Rightarrow> string \<Rightarrow> 'd \<Rightarrow> int"
  rd_del :: "string \<Rightarrow> 'd \<Rightarrow> 'd"
  rd_sadd :: "time \<Rightarrow> string \<Rightarrow> string \<Rightarrow> 'd \<Rightarrow> 'd"
  rd_expire :: "time \<Rightarrow> string \<Rightarrow> int \<Rightarrow> 'd \<Rightarrow> 'd"
  rd_smembers :: "time \<Rightarrow> string \<Rightarrow> 'd \<Rightarrow> string list"

locale redis =
  fixes R :: "('d, 'v) redis_ops"
  assumes rd_get_set_other: "k' \<noteq> k \<Longrightarrow> rd_get R t' k' (rd_set_ex R t k v s d) = rd_get R t' k' d"
    and rd_get_set_range:
      "rd_get R t' k (rd_set_ex R t k v s d) = None \<or> rd_get R t' k (rd_set_ex R t k v s d) = Some v"
    and rd_get_set_live: "t' < t + 1000 * s \<Longrightarrow> rd_get R t' k (rd_set_ex R t k v s d) = Some v"
    and rd_get_del_same: "rd_get R t k (rd_del R k d) = None"
    and rd_get_del_other: "k' \<noteq> k \<Longrightarrow> rd_get R t k' (rd_del R k d) = rd_get R t k' d"
    and rd_get_sadd: "rd_get R t' k' (rd_sadd R t k x d) = rd_get R t' k' d"
    and rd_get_expire: "rd_get R t' k' (rd_expire R t k s d) = rd_get R t' k' d"
    and rd_expired: "rd_get R t k d = None \<Longrightarrow> t \<le> t' \<Longrightarrow> rd_get R t' k d = None"
    and rd_get_stable: "rd_get R t k d = Some v \<Longrightarrow> rd_get R t' k d = None \<or> rd_get R t' k d = Some v"

text \<open>Values and sets with a deadline; a set created by \<open>SADD\<close> has none until \<open>EXPIRE\<close>.\<close>

record 'v redis_db =
  db_vals :: "'v deadline_map"
  db_sets :: "(string, string list \<times> time option) js_map"

definition add_member :: "string \<Rightarrow> string list \<Rightarrow> string list" where
  "add_member x xs = (if x \<in> set xs then xs else xs @ [x])"

definition live_set :: "time \<Rightarrow> string \<Rightarrow> 'v redis_db \<Rightarrow> string list" where
  "live_set t k d = (case map_of (db_sets d) k of None \<Rightarrow> []
     | Some (xs, None) \<Rightarrow> xs | Some (xs, Some e) \<Rightarrow> if t < e then xs else [])"

definition redis_model :: "('v redis_db, 'v) redis_ops" where
  "redis_model =
     \<lparr>rd_get = (\<lambda>t k d. dm_get t k (db_vals d)),
      rd_set_ex = (\<lambda>t k v s d. d\<lparr>db_vals := AList.update k (v, t + 1000 * s) (db_vals d)\<rparr>),
      rd_ttl = (\<lambda>t k d. case map_of (db_vals d) k of None \<Rightarrow> - 2
                  | Some (v, e) \<Rightarrow> if t \<le> e then ceil_div (e - t) 1000 else - 2),
      rd_del = (\<lambda>k d. d\<lparr>db_vals := AList.delete k (db_vals d), db_sets := AList.delete k (db_sets d)\<rparr>),
      rd_sadd = (\<lambda>t k x d. d\<lparr>db_sets := AList.update k
                  (add_member x (live_set t k d),
                   (case map_of (db_sets d) k of Some (xs, Some e) \<Rightarrow> if t < e then Some e else None
                     | _ \<Rightarrow> None)) (db_sets d)\<rparr>),
      rd_expire = (\<lambda>t k s d. case map_of (db_sets d) k of None \<Rightarrow> d
                  | Some (xs, e) \<Rightarrow> d\<lparr>db_sets := AList.update k (xs, Some (t + 1000 * s)) (db_sets d)\<rparr>),
      rd_smembers = live_set\<rparr>"

interpretation redis_m: redis redis_model
  by unfold_locales
    (auto simp: redis_model_def dm_get_def jmap.look_put jmap.look_del split: option.splits if_splits)

end
