(* ===== verification/Calendar.thy ===== *)
theory Calendar
  imports Prelude
begin

text \<open>
  The part of the JavaScript \<open>Date\<close> library the backend uses, on the proleptic Gregorian calendar
  in UTC: the split of a time into a day and the milliseconds of the day, the civil date of a day
  number (days since 1970-01-01) and \<open>toISOString\<close> for the years 0 to 9999.
\<close>

definition ms_per_day :: int where
  "ms_per_day = 86400000"

definition utc_day :: "time \<Rightarrow> int" where
  "utc_day t = t div ms_per_day"

definition day_start :: "int \<Rightarrow> time" where
  "day_start d = d * ms_per_day"

lemma day_start_le: "day_start (utc_day t) \<le> t"
  and lt_next_day_start: "t < day_start (utc_day t + 1)"
proof -
  have "t div 86400000 * 86400000 + t mod 86400000 = t" by simp
  moreover have "0 \<le> t mod 86400000" "t mod 86400000 < 86400000" by simp_all
  ultimately show "day_start (utc_day t) \<le> t" "t < day_start (utc_day t + 1)"
    unfolding day_start_def utc_day_def ms_per_day_def by (simp_all add: algebra_simps)
qed

lemma utc_day_unique:
  assumes "day_start d \<le> t" and "t < day_start (d + 1)"
  shows "utc_day t = d"
proof -
  have "d * 86400000 \<le> t" "t < d * 86400000 + 86400000"
    using assms by (simp_all add: day_start_def ms_per_day_def algebra_simps)
  then have "t div 86400000 = d"
    by (intro int_div_pos_eq [where r = "t - 86400000 * d"]) simp_all
  then show ?thesis by (simp add: utc_day_def ms_per_day_def)
qed

definition civil_of_day :: "int \<Rightarrow> int \<times> int \<times> int" where
  "civil_of_day day =
     (let z = day + 719468;
          era = z div 146097;
          doe = z mod 146097;
          yoe = (doe - doe div 1460 + doe div 36524 - doe div 146096) div 365;
          doy = doe - (365 * yoe + yoe div 4 - yoe div 100);
          mp = (5 * doy + 2) div 153;
          d = doy - (153 * mp + 2) div 5 + 1;
          m = (if mp < 10 then mp + 3 else mp - 9);
          y = yoe + era * 400 + (if m \<le> 2 then 1 else 0)
      in (y, m, d))"

definition day_of_civil :: "int \<Rightarrow> int \<Rightarrow> int \<Rightarrow> int" where
  "day_of_civil y0 m d =
     (let y = (if m \<le> 2 then y0 - 1 else y0);
          era = y div 400;
          yoe = y mod 400;
          doy = (153 * (if m > 2 then m - 3 else m + 9) + 2) div 5 + d - 1;
          doe = yoe * 365 + yoe div 4 - yoe div 100 + doy
      in era * 146097 + doe - 719468)"

fun pad_left :: "nat \<Rightarrow> string \<Rightarrow> string" where
  "pad_left n s = replicate (n - length s) (CHR ''0'') @ s"

definition iso_date :: "int \<Rightarrow> string" where
  "iso_date day =
     (let (y, m, d) = civil_of_day day
      in pad_left 4 (show_int y) @ ''-'' @ pad_left 2 (show_int m) @ ''-'' @ pad_left 2 (show_int d))"

definition to_iso_string :: "time \<Rightarrow> string" where
  "to_iso_string t =
     (let r = t mod ms_per_day
      in iso_date (utc_day t) @ ''T'' @ pad_left 2 (show_int (r div 3600000)) @ '':''
         @ pad_left 2 (show_int (r div 60000 mod 60)) @ '':''
         @ pad_left 2 (show_int (r div 1000 mod 60)) @ ''.''
         @ pad_left 3 (show_int (r mod 1000)) @ ''Z'')"

end
