(* ===== verification/WalletNonce.thy ===== *)
theory WalletNonce
  imports Wallet Stores Calendar
begin

text \<open>
  Single-use nonces for signed wallet actions (\<open>backend/src/walletNonce.ts\<close>): the store interface
  \<open>INonceStore\<close> with its in-memory and its Redis implementation, and the service that issues,
  validates and consumes nonces.  The interface is the locale \<open>nonce_store\<close>; both implementations
  are interpretations of it, and replay protection is proved once from its laws.
\<close>

section \<open>Types\<close>

datatype wallet_action = Login | DepositAction | WithdrawalAction

fun show_action :: "wallet_action \<Rightarrow> string" where
  "show_action Login = ''login''"
| "show_action DepositAction = ''deposit''"
| "show_action WithdrawalAction = ''withdrawal''"

record issued_wallet_nonce =
  in_nonce :: string
  in_walletAddress :: string
  in_action :: wallet_action
  in_issuedAt :: time
  in_expiresAt :: time
  in_expiresIn :: int
  in_message :: string

record stored_nonce =
  sn_nonce :: string
  sn_walletAddress :: string
  sn_action :: wallet_action
  sn_issuedAt :: time
  sn_expiresAt :: time
  sn_used :: bool

record nonce_store_metrics =
  nm_issued :: nat
  nm_consumed :: nat
  nm_replayRejected :: nat
  nm_expiredRejected :: nat
  nm_notFoundRejected :: nat

datatype nonce_error =
    NonceNotFoundError
  | NonceExpiredError
  | NonceReplayError
  | NonceActionMismatchError
  | NonceWalletMismatchError
  | TooManyActiveNonces int

fun nonce_error_code :: "nonce_error \<Rightarrow> string option" where
  "nonce_error_code NonceNotFoundError = Some ''NONCE_NOT_FOUND''"
| "nonce_error_code NonceExpiredError = Some ''NONCE_EXPIRED''"
| "nonce_error_code NonceReplayError = Some ''NONCE_REPLAY''"
| "nonce_error_code NonceActionMismatchError = Some ''NONCE_ACTION_MISMATCH''"
| "nonce_error_code NonceWalletMismatchError = Some ''NONCE_WALLET_MISMATCH''"
| "nonce_error_code (TooManyActiveNonces n) = None"

fun nonce_error_message :: "nonce_error \<Rightarrow> string" where
  "nonce_error_message NonceNotFoundError = ''Nonce was not issued for this wallet and action''"
| "nonce_error_message NonceExpiredError =
     ''Nonce has expired. Request a new nonce and sign again.''"
| "nonce_error_message NonceReplayError =
     ''Nonce has already been used. Request a new nonce and sign again.''"
| "nonce_error_message NonceActionMismatchError = ''Nonce was issued for a different action''"
| "nonce_error_message NonceWalletMismatchError = ''Nonce was issued for a different wallet''"
| "nonce_error_message (TooManyActiveNonces n) =
     ''Too many active nonces for wallet (max '' @ show_int n @ ''). '' @
     ''Complete or wait for existing nonces to expire.''"

text \<open>The module's constants, read from the environment at load time.\<close>

record nonce_config =
  DEFAULT_NONCE_TTL_SECONDS :: int
  MAX_ACTIVE_NONCES_PER_WALLET :: int

definition load_nonce_config :: "env \<Rightarrow> nonce_config option" where
  "load_nonce_config E =
     (case (js_parse_int (env_or E ''WALLET_NONCE_TTL_SECONDS'' ''300''),
            js_parse_int (env_or E ''WALLET_NONCE_MAX_ACTIVE_PER_WALLET'' ''10'')) of
        (Some ttl, Some mx) \<Rightarrow>
          Some \<lparr>DEFAULT_NONCE_TTL_SECONDS = ttl, MAX_ACTIVE_NONCES_PER_WALLET = mx\<rparr>
      | _ \<Rightarrow> None)"

section \<open>The store interface\<close>

text \<open>\<open>INonceStore\<close>, its operations taking the time they run at and the store's state.\<close>

record 's nonce_store_ops =
  ns_save :: "time \<Rightarrow> stored_nonce \<Rightarrow> int \<Rightarrow> 's \<Rightarrow> 's"
  ns_get :: "time \<Rightarrow> string \<Rightarrow> 's \<Rightarrow> stored_nonce option"
  ns_markUsed :: "time \<Rightarrow> string \<Rightarrow> 's \<Rightarrow> bool \<times> 's"
  ns_countActiveForWallet :: "time \<Rightarrow> string \<Rightarrow> 's \<Rightarrow> nat"

text \<open>A nonce is spent when no read from now on finds it unused.\<close>

definition spent :: "'s nonce_store_ops \<Rightarrow> string \<Rightarrow> 's \<Rightarrow> bool" where
  "spent S n s \<longleftrightarrow> (\<forall>t e. ns_get S t n s = Some e \<longrightarrow> sn_used e)"

locale nonce_store =
  fixes S :: "'s nonce_store_ops"
  assumes get_save_other:
      "n \<noteq> sn_nonce e \<Longrightarrow> ns_get S t' n (ns_save S t e ttl s) = ns_get S t' n s"
    and get_save_range:
      "ns_get S t' (sn_nonce e) (ns_save S t e ttl s) = None
       \<or> ns_get S t' (sn_nonce e) (ns_save S t e ttl s) = Some e"
    and get_save_live:
      "t' < t + 1000 * ttl \<Longrightarrow> ns_get S t' (sn_nonce e) (ns_save S t e ttl s) = Some e"
    and mark_none: "ns_get S t n s = None \<Longrightarrow> ns_markUsed S t n s = (False, s)"
    and mark_used: "ns_get S t n s = Some e \<Longrightarrow> sn_used e \<Longrightarrow> ns_markUsed S t n s = (False, s)"
    and mark_fresh: "ns_get S t n s = Some e \<Longrightarrow> \<not> sn_used e \<Longrightarrow> fst (ns_markUsed S t n s)"
    and mark_spends: "fst (ns_markUsed S t n s) \<Longrightarrow> spent S n (snd (ns_markUsed S t n s))"
    and mark_other: "m \<noteq> n \<Longrightarrow> ns_get S t' m (snd (ns_markUsed S t n s)) = ns_get S t' m s"
begin

lemma spent_not_marked: "spent S n s \<Longrightarrow> ns_markUsed S t n s = (False, s)"
  by (cases "ns_get S t n s") (auto simp: spent_def mark_none mark_used)

lemma mark_iff:
  "fst (ns_markUsed S t n s) \<longleftrightarrow> (\<exists>e. ns_get S t n s = Some e \<and> \<not> sn_used e)"
proof (cases "ns_get S t n s")
  case (Some e)
  then show ?thesis by (cases "sn_used e") (simp_all add: mark_used mark_fresh)
qed (simp add: mark_none)

lemma mark_false_state: "\<not> fst (ns_markUsed S t n s) \<Longrightarrow> snd (ns_markUsed S t n s) = s"
  by (cases "ns_get S t n s") (auto simp: mark_none mark_used mark_iff)

lemma spent_save: "spent S n s \<Longrightarrow> n \<noteq> sn_nonce e \<Longrightarrow> spent S n (ns_save S t e ttl s)"
  by (auto simp: spent_def get_save_other)

lemma spent_mark: "spent S n s \<Longrightarrow> spent S n (snd (ns_markUsed S t m s))"
  by (cases "m = n") (auto simp: spent_not_marked, auto simp: spent_def mark_other)

lemma unsaved_is_spent: "(\<And>t. ns_get S t n s = None) \<Longrightarrow> spent S n s"
  by (simp add: spent_def)

end

section \<open>InMemoryNonceStore\<close>

record 'c mem_nonce_store =
  byNonce :: 'c
  walletIndex :: "(string, string list) js_map"

definition mem_save ::
  "('c, stored_nonce) node_cache_ops \<Rightarrow> time \<Rightarrow> stored_nonce \<Rightarrow> int \<Rightarrow> 'c mem_nonce_store \<Rightarrow> 'c mem_nonce_store" where
  "mem_save C t entry ttlSeconds s =
     (let s1 = s\<lparr>byNonce := nc_set C t (sn_nonce entry) entry (Some (1000 * ttlSeconds)) (byNonce s)\<rparr>;
          xs = nullish (map_of (walletIndex s) (sn_walletAddress entry)) []
      in s1\<lparr>walletIndex := AList.update (sn_walletAddress entry) (add_member (sn_nonce entry) xs)
              (walletIndex s)\<rparr>)"

definition mem_get ::
  "('c, stored_nonce) node_cache_ops \<Rightarrow> time \<Rightarrow> string \<Rightarrow> 'c mem_nonce_store \<Rightarrow> stored_nonce option" where
  "mem_get C t nonce s = nc_get C t nonce (byNonce s)"

definition mem_markUsed ::
  "('c, stored_nonce) node_cache_ops \<Rightarrow> time \<Rightarrow> string \<Rightarrow> 'c mem_nonce_store \<Rightarrow> bool \<times> 'c mem_nonce_store" where
  "mem_markUsed C t nonce s =
     (case nc_get C t nonce (byNonce s) of
        None \<Rightarrow> (False, s)
      | Some entry \<Rightarrow>
          if sn_used entry then (False, s)
          else (True, s\<lparr>byNonce := nc_set C t nonce (entry\<lparr>sn_used := True\<rparr>) None (byNonce s)\<rparr>))"

definition mem_countActiveForWallet ::
  "('c, stored_nonce) node_cache_ops \<Rightarrow> time \<Rightarrow> string \<Rightarrow> 'c mem_nonce_store \<Rightarrow> nat" where
  "mem_countActiveForWallet C t walletAddress s =
     (case map_of (walletIndex s) walletAddress of
        None \<Rightarrow> 0
      | Some ns \<Rightarrow> length (filter (\<lambda>n. case nc_get C t n (byNonce s) of
                     None \<Rightarrow> False | Some entry \<Rightarrow> \<not> sn_used entry) ns))"

definition mem_flushAll :: "('c, stored_nonce) node_cache_ops \<Rightarrow> 'c mem_nonce_store \<Rightarrow> 'c mem_nonce_store" where
  "mem_flushAll C s = s\<lparr>byNonce := nc_flush C (byNonce s), walletIndex := []\<rparr>"

definition mem_nonce_ops :: "('c, stored_nonce) node_cache_ops \<Rightarrow> 'c mem_nonce_store nonce_store_ops" where
  "mem_nonce_ops C = \<lparr>ns_save = mem_save C, ns_get = mem_get C, ns_markUsed = mem_markUsed C,
     ns_countActiveForWallet = mem_countActiveForWallet C\<rparr>"

lemma mem_nonce_ops_simps [simp]:
  "ns_save (mem_nonce_ops C) = mem_save C" "ns_get (mem_nonce_ops C) = mem_get C"
  "ns_markUsed (mem_nonce_ops C) = mem_markUsed C"
  "ns_countActiveForWallet (mem_nonce_ops C) = mem_countActiveForWallet C"
  by (simp_all add: mem_nonce_ops_def)


locale mem_nonce_cache = node_cache C std_ttl
  for C :: "('c, stored_nonce) node_cache_ops" and std_ttl :: int

sublocale mem_nonce_cache \<subseteq> mem: nonce_store "mem_nonce_ops C"
proof unfold_locales
  fix n e t t' ttl and s :: "'c mem_nonce_store"
  show "n \<noteq> sn_nonce e \<Longrightarrow>
      ns_get (mem_nonce_ops C) t' n (ns_save (mem_nonce_ops C) t e ttl s) =
      ns_get (mem_nonce_ops C) t' n s"
    by (simp add: mem_get_def mem_save_def Let_def nc_get_set_other)
next
  fix n e t t' ttl and s :: "'c mem_nonce_store"
  show "ns_get (mem_nonce_ops C) t' (sn_nonce e) (ns_save (mem_nonce_ops C) t e ttl s) = None \<or>
      ns_get (mem_nonce_ops C) t' (sn_nonce e) (ns_save (mem_nonce_ops C) t e ttl s) = Some e"
    using nc_get_set_range[of t' "sn_nonce e" t e "Some (1000 * ttl)" "byNonce s"]
    by (simp add: mem_get_def mem_save_def Let_def)
next
  fix e t t' ttl and s :: "'c mem_nonce_store"
  show "t' < t + 1000 * ttl \<Longrightarrow>
      ns_get (mem_nonce_ops C) t' (sn_nonce e) (ns_save (mem_nonce_ops C) t e ttl s) = Some e"
    by (simp add: mem_get_def mem_save_def Let_def nc_get_set_live)
next
  fix t n and s :: "'c mem_nonce_store"
  show "ns_get (mem_nonce_ops C) t n s = None \<Longrightarrow> ns_markUsed (mem_nonce_ops C) t n s = (False, s)"
    by (simp add: mem_get_def mem_markUsed_def)
next
  fix t n e and s :: "'c mem_nonce_store"
  show "ns_get (mem_nonce_ops C) t n s = Some e \<Longrightarrow> sn_used e \<Longrightarrow>
      ns_markUsed (mem_nonce_ops C) t n s = (False, s)"
    by (simp add: mem_get_def mem_markUsed_def)
next
  fix t n e and s :: "'c mem_nonce_store"
  show "ns_get (mem_nonce_ops C) t n s = Some e \<Longrightarrow> \<not> sn_used e \<Longrightarrow>
      fst (ns_markUsed (mem_nonce_ops C) t n s)"
    by (simp add: mem_get_def mem_markUsed_def)
next
  fix t n and s :: "'c mem_nonce_store"
  assume m: "fst (ns_markUsed (mem_nonce_ops C) t n s)"
  then obtain e where e: "nc_get C t n (byNonce s) = Some e" "\<not> sn_used e"
    by (auto simp: mem_markUsed_def split: option.splits if_splits)
  show "spent (mem_nonce_ops C) n (snd (ns_markUsed (mem_nonce_ops C) t n s))"
    unfolding spent_def
    using e nc_get_set_range[of _ n t "e\<lparr>sn_used := True\<rparr>" None "byNonce s"]
    by (auto simp: mem_get_def mem_markUsed_def) (metis option.distinct(1) option.inject stored_nonce.select_convs(6) stored_nonce.surjective stored_nonce.update_convs(6))
next
  fix t t' m n and s :: "'c mem_nonce_store"
  show "m \<noteq> n \<Longrightarrow> ns_get (mem_nonce_ops C) t' m (snd (ns_markUsed (mem_nonce_ops C) t n s)) =
      ns_get (mem_nonce_ops C) t' m s"
    by (simp add: mem_get_def mem_markUsed_def nc_get_set_other split: option.split)
qed

context mem_nonce_cache
begin

lemma mem_store_laws: "nonce_store (mem_nonce_ops C)"
  by (rule mem.nonce_store_axioms)

end

interpretation mem_cache: mem_nonce_cache "deadline_cache std" std
  by unfold_locales

section \<open>RedisNonceStore\<close>

definition entryKey :: "string \<Rightarrow> string" where
  "entryKey nonce = ''wallet-nonce:'' @ nonce"

definition walletSetKey :: "string \<Rightarrow> string" where
  "walletSetKey walletAddress = ''wallet-nonce:active:'' @ walletAddress"

definition redis_save ::
  "('d, stored_nonce) redis_ops \<Rightarrow> time \<Rightarrow> stored_nonce \<Rightarrow> int \<Rightarrow> 'd \<Rightarrow> 'd" where
  "redis_save R t entry ttlSeconds d =
     (let d1 = rd_set_ex R t (entryKey (sn_nonce entry)) entry ttlSeconds d;
          d2 = rd_sadd R t (walletSetKey (sn_walletAddress entry)) (sn_nonce entry) d1
      in rd_expire R t (walletSetKey (sn_walletAddress entry)) ttlSeconds d2)"

definition redis_get ::
  "('d, stored_nonce) redis_ops \<Rightarrow> time \<Rightarrow> string \<Rightarrow> 'd \<Rightarrow> stored_nonce option" where
  "redis_get R t nonce d = rd_get R t (entryKey nonce) d"

text \<open>\<open>markUsed\<close> waits for the server three times.  Its parts between the waits are named, so that
  they can be run one by one; run together at one time they are the whole operation.\<close>

definition mark_check :: "stored_nonce option \<Rightarrow> stored_nonce option" where
  "mark_check entry =
     (case entry of None \<Rightarrow> None | Some e \<Rightarrow> if sn_used e then None else Some (e\<lparr>sn_used := True\<rparr>))"

definition mark_write ::
  "nonce_config \<Rightarrow> ('d, stored_nonce) redis_ops \<Rightarrow> time \<Rightarrow> string \<Rightarrow> stored_nonce \<Rightarrow> int \<Rightarrow> 'd \<Rightarrow> 'd" where
  "mark_write cfg R t nonce entry ttl d =
     rd_set_ex R t (entryKey nonce) entry (if 0 < ttl then ttl else DEFAULT_NONCE_TTL_SECONDS cfg) d"

definition redis_markUsed ::
  "nonce_config \<Rightarrow> ('d, stored_nonce) redis_ops \<Rightarrow> time \<Rightarrow> string \<Rightarrow> 'd \<Rightarrow> bool \<times> 'd" where
  "redis_markUsed cfg R t nonce d =
     (case mark_check (redis_get R t nonce d) of
        None \<Rightarrow> (False, d)
      | Some entry \<Rightarrow>
          let ttl = rd_ttl R t (entryKey nonce) d
          in (True, mark_write cfg R t nonce entry ttl d))"

definition redis_countActiveForWallet ::
  "('d, stored_nonce) redis_ops \<Rightarrow> time \<Rightarrow> string \<Rightarrow> 'd \<Rightarrow> nat" where
  "redis_countActiveForWallet R t walletAddress d =
     length (filter (\<lambda>n. case redis_get R t n d of None \<Rightarrow> False | Some entry \<Rightarrow> \<not> sn_used entry)
       (rd_smembers R t (walletSetKey walletAddress) d))"

definition redis_nonce_ops ::
  "nonce_config \<Rightarrow> ('d, stored_nonce) redis_ops \<Rightarrow> 'd nonce_store_ops" where
  "redis_nonce_ops cfg R = \<lparr>ns_save = redis_save R, ns_get = redis_get R,
     ns_markUsed = redis_markUsed cfg R, ns_countActiveForWallet = redis_countActiveForWallet R\<rparr>"

lemma redis_nonce_ops_simps [simp]:
  "ns_save (redis_nonce_ops cfg R) = redis_save R" "ns_get (redis_nonce_ops cfg R) = redis_get R"
  "ns_markUsed (redis_nonce_ops cfg R) = redis_markUsed cfg R"
  "ns_countActiveForWallet (redis_nonce_ops cfg R) = redis_countActiveForWallet R"
  by (simp_all add: redis_nonce_ops_def)

lemma entryKey_inject [simp]: "entryKey m = entryKey n \<longleftrightarrow> m = n"
  by (simp add: entryKey_def)

locale redis_nonce_server = redis R for R :: "('d, stored_nonce) redis_ops" +
  fixes cfg :: nonce_config
begin

lemma get_save:
  "redis_get R t' n (redis_save R t e ttl d) =
     rd_get R t' (entryKey n) (rd_set_ex R t (entryKey (sn_nonce e)) e ttl d)"
  by (simp add: redis_get_def redis_save_def Let_def rd_get_expire rd_get_sadd)

lemma get_mark:
  "redis_get R t n d = Some e \<Longrightarrow> \<not> sn_used e \<Longrightarrow>
     redis_markUsed cfg R t n d =
       (True, mark_write cfg R t n (e\<lparr>sn_used := True\<rparr>) (rd_ttl R t (entryKey n) d) d)"
  by (simp add: redis_markUsed_def mark_check_def)

lemma mark_write_used:
  "redis_get R t' n (mark_write cfg R t n (e\<lparr>sn_used := True\<rparr>) ttl d) = Some e' \<Longrightarrow> sn_used e'"
  using rd_get_set_range[of t' "entryKey n" t "e\<lparr>sn_used := True\<rparr>"
      "if 0 < ttl then ttl else DEFAULT_NONCE_TTL_SECONDS cfg" d]
  by (auto simp: redis_get_def mark_write_def)

lemma mark_write_other:
  "m \<noteq> n \<Longrightarrow> redis_get R t' m (mark_write cfg R t n e ttl d) = redis_get R t' m d"
  by (simp add: redis_get_def mark_write_def rd_get_set_other)

end

sublocale redis_nonce_server \<subseteq> rn: nonce_store "redis_nonce_ops cfg R"
proof unfold_locales
  fix t n and d :: 'd
  show "ns_get (redis_nonce_ops cfg R) t n d = None \<Longrightarrow>
      ns_markUsed (redis_nonce_ops cfg R) t n d = (False, d)"
    by (simp add: redis_markUsed_def mark_check_def)
next
  fix t n e and d :: 'd
  show "ns_get (redis_nonce_ops cfg R) t n d = Some e \<Longrightarrow> sn_used e \<Longrightarrow>
      ns_markUsed (redis_nonce_ops cfg R) t n d = (False, d)"
    by (simp add: redis_markUsed_def mark_check_def)
next
  fix t n and d :: 'd
  assume "fst (ns_markUsed (redis_nonce_ops cfg R) t n d)"
  then obtain e where "redis_get R t n d = Some e" "\<not> sn_used e"
    by (auto simp: redis_markUsed_def mark_check_def split: option.splits if_splits)
  then show "spent (redis_nonce_ops cfg R) n (snd (ns_markUsed (redis_nonce_ops cfg R) t n d))"
    by (auto simp: get_mark spent_def dest: mark_write_used)
next
  fix t t' m n and d :: 'd
  show "m \<noteq> n \<Longrightarrow> ns_get (redis_nonce_ops cfg R) t' m (snd (ns_markUsed (redis_nonce_ops cfg R) t n d)) =
      ns_get (redis_nonce_ops cfg R) t' m d"
    by (simp add: redis_markUsed_def mark_write_other Let_def split: option.split)
next
  fix t t' e ttl and d :: 'd
  show "t' < t + 1000 * ttl \<Longrightarrow>
     ns_get (redis_nonce_ops cfg R) t' (sn_nonce e) (ns_save (redis_nonce_ops cfg R) t e ttl d) = Some e"
    by (simp add: get_save rd_get_set_live)
next
  fix t t' e ttl and d :: 'd
  show "ns_get (redis_nonce_ops cfg R) t' (sn_nonce e) (ns_save (redis_nonce_ops cfg R) t e ttl d) = None \<or>
     ns_get (redis_nonce_ops cfg R) t' (sn_nonce e) (ns_save (redis_nonce_ops cfg R) t e ttl d) = Some e"
    by (simp add: get_save rd_get_set_range)
next
  fix n t t' e ttl and d :: 'd
  show "n \<noteq> sn_nonce e \<Longrightarrow>
     ns_get (redis_nonce_ops cfg R) t' n (ns_save (redis_nonce_ops cfg R) t e ttl d) =
     ns_get (redis_nonce_ops cfg R) t' n d"
    by (simp add: get_save rd_get_set_other) (simp add: redis_get_def)
qed (simp add: get_mark)

context redis_nonce_server
begin

lemma redis_store_laws: "nonce_store (redis_nonce_ops cfg R)"
  by (rule rn.nonce_store_axioms)

end

interpretation redis_nonce: redis_nonce_server redis_model cfg for cfg
  by unfold_locales

section \<open>WalletNonceService\<close>

text \<open>\<open>createNonceStore\<close>: Redis when \<open>REDIS_URL\<close> is set and not empty, else the in-memory store.\<close>

definition uses_redis :: "env \<Rightarrow> bool" where
  "uses_redis E = truthy_str (E ''REDIS_URL'')"

record 's nonce_service =
  nv_store :: 's
  nv_metrics :: nonce_store_metrics

definition zero_nonce_metrics :: nonce_store_metrics where
  "zero_nonce_metrics = \<lparr>nm_issued = 0, nm_consumed = 0, nm_replayRejected = 0,
     nm_expiredRejected = 0, nm_notFoundRejected = 0\<rparr>"

definition new_nonce_service :: "'s \<Rightarrow> 's nonce_service" where
  "new_nonce_service s = \<lparr>nv_store = s, nv_metrics = zero_nonce_metrics\<rparr>"

definition nonce_getMetrics :: "'s nonce_service \<Rightarrow> nonce_store_metrics" where
  "nonce_getMetrics v = nv_metrics v"

definition getTtlSeconds :: "nonce_config \<Rightarrow> int" where
  "getTtlSeconds cfg = DEFAULT_NONCE_TTL_SECONDS cfg"

definition count_issued :: "'s nonce_service \<Rightarrow> 's nonce_service" where
  "count_issued v = v\<lparr>nv_metrics := (nv_metrics v)\<lparr>nm_issued := Suc (nm_issued (nv_metrics v))\<rparr>\<rparr>"

definition count_consumed :: "'s nonce_service \<Rightarrow> 's nonce_service" where
  "count_consumed v = v\<lparr>nv_metrics := (nv_metrics v)\<lparr>nm_consumed := Suc (nm_consumed (nv_metrics v))\<rparr>\<rparr>"

definition count_replay :: "'s nonce_service \<Rightarrow> 's nonce_service" where
  "count_replay v = v\<lparr>nv_metrics := (nv_metrics v)\<lparr>nm_replayRejected := Suc (nm_replayRejected (nv_metrics v))\<rparr>\<rparr>"

definition count_expired :: "'s nonce_service \<Rightarrow> 's nonce_service" where
  "count_expired v = v\<lparr>nv_metrics := (nv_metrics v)\<lparr>nm_expiredRejected := Suc (nm_expiredRejected (nv_metrics v))\<rparr>\<rparr>"

definition count_notFound :: "'s nonce_service \<Rightarrow> 's nonce_service" where
  "count_notFound v = v\<lparr>nv_metrics := (nv_metrics v)\<lparr>nm_notFoundRejected := Suc (nm_notFoundRejected (nv_metrics v))\<rparr>\<rparr>"

text \<open>\<open>issue\<close>.  The nonce \<open>crypto.randomBytes(24).toString('hex')\<close> draws is the argument \<open>fresh\<close>; the
  clock readings of one call are one time \<open>t\<close>.\<close>

definition issue ::
  "nonce_config \<Rightarrow> 's nonce_store_ops \<Rightarrow> time \<Rightarrow> string \<Rightarrow> string \<Rightarrow> wallet_action \<Rightarrow>
   (issued_wallet_nonce \<Rightarrow> string) \<Rightarrow> 's nonce_service \<Rightarrow>
   (nonce_error + issued_wallet_nonce) \<times> 's nonce_service" where
  "issue cfg S t fresh walletAddress action buildMessage v =
     (let wallet = normalizeWalletAddress (Some walletAddress);
          active = ns_countActiveForWallet S t wallet (nv_store v)
      in if MAX_ACTIVE_NONCES_PER_WALLET cfg \<le> int active
         then (Inl (TooManyActiveNonces (MAX_ACTIVE_NONCES_PER_WALLET cfg)), v)
         else
           let expiresAt = t + DEFAULT_NONCE_TTL_SECONDS cfg * 1000;
               base = \<lparr>in_nonce = fresh, in_walletAddress = wallet, in_action = action,
                        in_issuedAt = t, in_expiresAt = expiresAt,
                        in_expiresIn = DEFAULT_NONCE_TTL_SECONDS cfg, in_message = []\<rparr>;
               issued = base\<lparr>in_message := buildMessage base\<rparr>;
               stored = \<lparr>sn_nonce = fresh, sn_walletAddress = wallet, sn_action = action,
                          sn_issuedAt = t, sn_expiresAt = expiresAt, sn_used = False\<rparr>
           in (Inr issued,
               count_issued (v\<lparr>nv_store :=
                 ns_save S t stored (DEFAULT_NONCE_TTL_SECONDS cfg) (nv_store v)\<rparr>)))"

definition validateForUse ::
  "'s nonce_store_ops \<Rightarrow> time \<Rightarrow> string \<Rightarrow> wallet_action \<Rightarrow> string \<Rightarrow> 's nonce_service \<Rightarrow>
   (nonce_error + issued_wallet_nonce) \<times> 's nonce_service" where
  "validateForUse S t walletAddress action nonce v =
     (let wallet = normalizeWalletAddress (Some walletAddress);
          trimmed = js_trim nonce
      in case ns_get S t trimmed (nv_store v) of
           None \<Rightarrow> (Inl NonceNotFoundError, count_notFound v)
         | Some entry \<Rightarrow>
             if sn_walletAddress entry \<noteq> wallet then (Inl NonceWalletMismatchError, count_notFound v)
             else if sn_action entry \<noteq> action then (Inl NonceActionMismatchError, count_notFound v)
             else if sn_expiresAt entry < t then (Inl NonceExpiredError, count_expired v)
             else if sn_used entry then (Inl NonceReplayError, count_replay v)
             else (Inr \<lparr>in_nonce = trimmed, in_walletAddress = wallet, in_action = action,
                         in_issuedAt = sn_issuedAt entry, in_expiresAt = sn_expiresAt entry,
                         in_expiresIn = max 0 ((sn_expiresAt entry - t) div 1000),
                         in_message = []\<rparr>, v))"

text \<open>\<open>consume\<close> awaits the validation and then the marking; the part after the first wait is named, so
  that other requests can run between the two.\<close>

definition finish_consume ::
  "'s nonce_store_ops \<Rightarrow> time \<Rightarrow> string \<Rightarrow> 's nonce_service \<Rightarrow> (nonce_error + unit) \<times> 's nonce_service" where
  "finish_consume S t nonce v =
     (let (marked, store') = ns_markUsed S t (js_trim nonce) (nv_store v);
          v' = v\<lparr>nv_store := store'\<rparr>
      in if \<not> marked then (Inl NonceReplayError, count_replay v')
         else (Inr (), count_consumed v'))"

definition consume ::
  "'s nonce_store_ops \<Rightarrow> time \<Rightarrow> string \<Rightarrow> wallet_action \<Rightarrow> string \<Rightarrow> 's nonce_service \<Rightarrow>
   (nonce_error + unit) \<times> 's nonce_service" where
  "consume S t walletAddress action nonce v =
     (case validateForUse S t walletAddress action nonce v of
        (Inl e, v') \<Rightarrow> (Inl e, v')
      | (Inr _, v') \<Rightarrow> finish_consume S t nonce v')"

text \<open>\<open>flush\<close> and \<open>inMemory\<close> are the in-memory store's \<open>flushAll\<close> and \<open>instanceof\<close> test.\<close>

definition clearForTests :: "bool \<Rightarrow> ('s \<Rightarrow> 's) \<Rightarrow> 's nonce_service \<Rightarrow> 's nonce_service" where
  "clearForTests inMemory flush v =
     \<lparr>nv_store = (if inMemory then flush (nv_store v) else nv_store v),
      nv_metrics = zero_nonce_metrics\<rparr>"

definition expireNonceForTests ::
  "'s nonce_store_ops \<Rightarrow> bool \<Rightarrow> time \<Rightarrow> string \<Rightarrow> 's nonce_service \<Rightarrow> 's nonce_service" where
  "expireNonceForTests S inMemory t nonce v =
     (if \<not> inMemory then v
      else case ns_get S t nonce (nv_store v) of
             None \<Rightarrow> v
           | Some entry \<Rightarrow>
               v\<lparr>nv_store := ns_save S t (entry\<lparr>sn_expiresAt := t - 1000\<rparr>) 1 (nv_store v)\<rparr>)"

lemmas count_defs = count_issued_def count_consumed_def count_replay_def count_expired_def
  count_notFound_def

lemma nv_store_count [simp]:
  "nv_store (count_issued v) = nv_store v" "nv_store (count_consumed v) = nv_store v"
  "nv_store (count_replay v) = nv_store v" "nv_store (count_expired v) = nv_store v"
  "nv_store (count_notFound v) = nv_store v"
  by (simp_all add: count_defs)

lemma validate_store [simp]: "nv_store (snd (validateForUse S t w a n v)) = nv_store v"
  by (simp add: validateForUse_def Let_def split: option.split)

section \<open>Replay protection under interleaved requests\<close>

text \<open>
  The calls the service serves, cut at the waits of \<open>consume\<close>: a validation and a marking are
  separate calls, so a sequence of calls is any interleaving of any number of requests.  The run
  records the nonces whose consumption succeeded, in order.
\<close>

datatype nonce_call =
    CallIssue time string string wallet_action
  | CallValidate time string wallet_action string
  | CallFinish time string
  | CallConsume time string wallet_action string

definition succeeded :: "string \<Rightarrow> (nonce_error + unit) \<times> 's nonce_service \<Rightarrow> string list \<times> 's nonce_service" where
  "succeeded nonce r = (case r of (Inl e, v) \<Rightarrow> ([], v) | (Inr _, v) \<Rightarrow> ([js_trim nonce], v))"

fun nonce_step ::
  "nonce_config \<Rightarrow> 's nonce_store_ops \<Rightarrow> (issued_wallet_nonce \<Rightarrow> string) \<Rightarrow> nonce_call \<Rightarrow>
   's nonce_service \<Rightarrow> string list \<times> 's nonce_service" where
  "nonce_step cfg S bm (CallIssue t fresh w a) v = ([], snd (issue cfg S t fresh w a bm v))"
| "nonce_step cfg S bm (CallValidate t w a n) v = ([], snd (validateForUse S t w a n v))"
| "nonce_step cfg S bm (CallFinish t n) v = succeeded n (finish_consume S t n v)"
| "nonce_step cfg S bm (CallConsume t w a n) v = succeeded n (consume S t w a n v)"

fun nonce_run ::
  "nonce_config \<Rightarrow> 's nonce_store_ops \<Rightarrow> (issued_wallet_nonce \<Rightarrow> string) \<Rightarrow> nonce_call list \<Rightarrow>
   's nonce_service \<Rightarrow> string list \<times> 's nonce_service" where
  "nonce_run cfg S bm [] v = ([], v)"
| "nonce_run cfg S bm (c # cs) v =
     (let (ns, v1) = nonce_step cfg S bm c v; (ms, v2) = nonce_run cfg S bm cs v1 in (ns @ ms, v2))"

fun issued_in :: "nonce_call list \<Rightarrow> string list" where
  "issued_in [] = []"
| "issued_in (CallIssue t fresh w a # cs) = fresh # issued_in cs"
| "issued_in (_ # cs) = issued_in cs"

context nonce_store
begin

definition outstanding :: "string \<Rightarrow> 's nonce_service \<Rightarrow> nat" where
  "outstanding n v = (if spent S n (nv_store v) then 0 else 1)"

lemma finish_cases:
  "finish_consume S t n v =
     (if fst (ns_markUsed S t (js_trim n) (nv_store v))
      then (Inr (), count_consumed (v\<lparr>nv_store := snd (ns_markUsed S t (js_trim n) (nv_store v))\<rparr>))
      else (Inl NonceReplayError, count_replay v))"
  by (auto simp: finish_consume_def Let_def split_beta mark_false_state)

lemma outstanding_count [simp]:
  "outstanding n (count_replay v) = outstanding n v"
  "outstanding n (count_consumed v) = outstanding n v"
  by (simp_all add: outstanding_def)

lemma outstanding_issue:
  "outstanding n (snd (issue cfg S t fresh w a bm v)) \<le> outstanding n v + (if fresh = n then 1 else 0)"
  by (auto simp: outstanding_def issue_def Let_def spent_save)

lemma outstanding_mark:
  "outstanding n (v\<lparr>nv_store := snd (ns_markUsed S t m (nv_store v))\<rparr>) \<le> outstanding n v"
  by (simp add: outstanding_def spent_mark)

lemma outstanding_finish:
  "count_list (fst (succeeded m (finish_consume S t m v))) n
     + outstanding n (snd (succeeded m (finish_consume S t m v))) \<le> outstanding n v"
proof (cases "fst (ns_markUsed S t (js_trim m) (nv_store v))")
  case True
  show ?thesis
  proof (cases "js_trim m = n")
    case n: True
    have "\<not> spent S n (nv_store v)" using True n spent_not_marked by force
    moreover have "spent S n (snd (ns_markUsed S t n (nv_store v)))"
      using True n mark_spends by blast
    ultimately show ?thesis using True n
      by (simp add: finish_cases succeeded_def) (simp add: outstanding_def)
  qed (use True outstanding_mark in \<open>simp add: finish_cases succeeded_def\<close>)
qed (simp add: finish_cases succeeded_def)

lemma outstanding_consume:
  "count_list (fst (succeeded m (consume S t w a m v))) n
     + outstanding n (snd (succeeded m (consume S t w a m v))) \<le> outstanding n v"
proof -
  define v' where "v' = snd (validateForUse S t w a m v)"
  have o: "outstanding n v' = outstanding n v"
    by (simp add: v'_def outstanding_def)
  show ?thesis
  proof (cases "fst (validateForUse S t w a m v)")
    case (Inl e)
    then have "consume S t w a m v = (Inl e, v')"
      by (simp add: consume_def v'_def split_beta)
    then show ?thesis using o by (simp add: succeeded_def)
  next
    case (Inr i)
    then have "consume S t w a m v = finish_consume S t m v'"
      by (simp add: consume_def v'_def split_beta)
    then show ?thesis using o outstanding_finish[of m t v' n] by simp
  qed
qed

lemma consumed_le_issued:
  "count_list (fst (nonce_run cfg S bm cs v)) n \<le> count_list (issued_in cs) n + outstanding n v"
proof (induction cs arbitrary: v)
  case (Cons c cs)
  let ?r = "nonce_step cfg S bm c v"
  have "count_list (fst ?r) n + outstanding n (snd ?r) \<le>
      outstanding n v + (case c of CallIssue t fresh w a \<Rightarrow> if fresh = n then 1 else 0 | _ \<Rightarrow> 0)"
    by (cases c)
      (simp_all add: outstanding_issue outstanding_finish outstanding_consume,
       simp add: outstanding_def)
  with Cons[of "snd ?r"] show ?case
    by (cases c) (auto simp: split_beta Let_def split: if_splits)
qed simp

lemma consume_accepts:
  assumes "ns_get S t (js_trim n) (nv_store v) = Some e"
    and "sn_walletAddress e = normalizeWalletAddress (Some w)" and "sn_action e = a"
    and "t \<le> sn_expiresAt e" and "\<not> sn_used e"
  shows "fst (consume S t w a n v) = Inr ()"
  using assms by (simp add: consume_def validateForUse_def finish_cases mark_fresh)

lemma consume_rejects:
  assumes "fst (consume S t w a n v) = Inr ()"
  obtains e where "ns_get S t (js_trim n) (nv_store v) = Some e"
    and "sn_walletAddress e = normalizeWalletAddress (Some w)" and "sn_action e = a"
    and "t \<le> sn_expiresAt e" and "\<not> sn_used e"
proof (cases "ns_get S t (js_trim n) (nv_store v)")
  case (Some e)
  with assms show ?thesis
    by (intro that[of e]) (auto simp: consume_def validateForUse_def Let_def split: if_splits)
qed (use assms in \<open>simp add: consume_def validateForUse_def Let_def\<close>)

text \<open>A nonce just issued is accepted, once, by its wallet for its action until it expires.\<close>

lemma issued_then_consumed:
  assumes ok: "fst (issue cfg S t fresh w a bm v) = Inr i"
    and fr: "js_trim n = fresh"
    and t': "t' < t + 1000 * DEFAULT_NONCE_TTL_SECONDS cfg"
    and w': "normalizeWalletAddress (Some w') = normalizeWalletAddress (Some w)"
  shows "fst (consume S t' w' a n (snd (issue cfg S t fresh w a bm v))) = Inr ()"
proof -
  let ?st = "\<lparr>sn_nonce = fresh, sn_walletAddress = normalizeWalletAddress (Some w), sn_action = a,
      sn_issuedAt = t, sn_expiresAt = t + DEFAULT_NONCE_TTL_SECONDS cfg * 1000, sn_used = False\<rparr>"
  have st: "nv_store (snd (issue cfg S t fresh w a bm v)) =
      ns_save S t ?st (DEFAULT_NONCE_TTL_SECONDS cfg) (nv_store v)"
    using ok by (auto simp: issue_def Let_def split: if_splits)
  have "ns_get S t' fresh (nv_store (snd (issue cfg S t fresh w a bm v))) = Some ?st"
    unfolding st using get_save_live[of t' t "DEFAULT_NONCE_TTL_SECONDS cfg" ?st] t' by simp
  then show ?thesis using fr t' w' by (intro consume_accepts[where e = ?st]) simp_all
qed

end

section \<open>The Redis store step by step\<close>

text \<open>\<open>markUsed\<close> on Redis waits between its \<open>GET\<close>, its \<open>TTL\<close> and its \<open>SET\<close>.  A client runs from \<open>MkGet\<close>
  to \<open>MkDone\<close>, one command per step, and two clients may be scheduled in any order.\<close>

datatype mark_pc = MkGet | MkTtl stored_nonce | MkSet stored_nonce int | MkDone bool

fun mark_step ::
  "nonce_config \<Rightarrow> ('d, stored_nonce) redis_ops \<Rightarrow> time \<Rightarrow> string \<Rightarrow> mark_pc \<times> 'd \<Rightarrow> mark_pc \<times> 'd" where
  "mark_step cfg R t n (MkGet, d) =
     (case mark_check (redis_get R t n d) of None \<Rightarrow> (MkDone False, d) | Some e \<Rightarrow> (MkTtl e, d))"
| "mark_step cfg R t n (MkTtl e, d) = (MkSet e (rd_ttl R t (entryKey n) d), d)"
| "mark_step cfg R t n (MkSet e ttl, d) = (MkDone True, mark_write cfg R t n e ttl d)"
| "mark_step cfg R t n (MkDone b, d) = (MkDone b, d)"

fun mark_schedule ::
  "nonce_config \<Rightarrow> ('d, stored_nonce) redis_ops \<Rightarrow> time \<Rightarrow> string \<Rightarrow> bool list \<Rightarrow>
   mark_pc \<times> mark_pc \<times> 'd \<Rightarrow> mark_pc \<times> mark_pc \<times> 'd" where
  "mark_schedule cfg R t n [] s = s"
| "mark_schedule cfg R t n (first # bs) (p, q, d) =
     mark_schedule cfg R t n bs
       (if first then (case mark_step cfg R t n (p, d) of (p', d') \<Rightarrow> (p', q, d'))
        else (case mark_step cfg R t n (q, d) of (q', d') \<Rightarrow> (p, q', d')))"

lemma mark_steps_sequential:
  "(mark_step cfg R t n ^^ 3) (MkGet, d) =
     (case redis_markUsed cfg R t n d of (b, d') \<Rightarrow> (MkDone b, d'))"
  by (simp add: numeral_3_eq_3 redis_markUsed_def Let_def split: option.split)

text \<open>
  C9.  Replay protection of the in-memory store.  Whatever requests are served, and however the
  two halves of concurrent \<open>consume\<close> calls interleave, a nonce is consumed successfully at most as
  often as it was issued; with the random nonces of \<open>issue\<close> that is at most once.
\<close>

theorem memory_nonce_consumed_at_most_once:
  assumes "node_cache C std" and "\<And>t k. nc_get C t k c = None"
  shows "count_list (fst (nonce_run cfg (mem_nonce_ops C) bm calls
            (new_nonce_service \<lparr>byNonce = c, walletIndex = []\<rparr>))) n
         \<le> count_list (issued_in calls) n"
proof -
  have cache: "mem_nonce_cache C std" by (rule mem_nonce_cache.intro[OF assms(1)])
  have store: "nonce_store (mem_nonce_ops C)" by (rule mem_nonce_cache.mem_store_laws[OF cache])
  have "spent (mem_nonce_ops C) n \<lparr>byNonce = c, walletIndex = []\<rparr>"
    by (simp add: spent_def mem_get_def assms(2))
  then have "nonce_store.outstanding (mem_nonce_ops C) n
      (new_nonce_service \<lparr>byNonce = c, walletIndex = []\<rparr>) = 0"
    by (simp add: nonce_store.outstanding_def[OF store] new_nonce_service_def)
  then show ?thesis
    using nonce_store.consumed_le_issued[OF store, of cfg bm calls
        "new_nonce_service \<lparr>byNonce = c, walletIndex = []\<rparr>" n] by simp
qed

definition sample_nonce_config :: nonce_config where
  "sample_nonce_config = \<lparr>DEFAULT_NONCE_TTL_SECONDS = 300, MAX_ACTIVE_NONCES_PER_WALLET = 10\<rparr>"

definition sample_nonce_calls :: "nonce_call list" where
  "sample_nonce_calls =
     [CallIssue 0 ''aa'' '' gw '' Login, CallValidate 5 ''GW'' Login ''aa'',
      CallConsume 6 ''gw'' Login ''aa'', CallFinish 7 '' aa'', CallConsume 8 ''gw'' Login ''aa'']"

lemma sample_nonce_run:
  "fst (nonce_run sample_nonce_config (mem_nonce_ops (deadline_cache 300000)) in_message
     sample_nonce_calls (new_nonce_service \<lparr>byNonce = [], walletIndex = []\<rparr>)) = [''aa'']"
  by code_simp

lemma deadline_cache_laws: "node_cache (deadline_cache std) std"
  by (rule deadline.node_cache_axioms)

lemma deadline_cache_empty: "nc_get (deadline_cache std) t k [] = None"
  by (simp add: deadline_cache_def dm_get_def)

theorem memory_nonce_consumed_at_most_once_witness:
  "count_list (fst (nonce_run sample_nonce_config (mem_nonce_ops (deadline_cache 300000)) in_message
     sample_nonce_calls (new_nonce_service \<lparr>byNonce = [], walletIndex = []\<rparr>))) ''aa'' = 1
   \<and> (1::nat) \<le> count_list (issued_in sample_nonce_calls) ''aa''"
  using memory_nonce_consumed_at_most_once[OF deadline_cache_laws deadline_cache_empty,
      of sample_nonce_config 300000 in_message sample_nonce_calls "''aa''"]
  by (simp add: sample_nonce_run)

text \<open>
  A nonce just issued by the in-memory store is accepted by \<open>consume\<close> for its wallet (in any
  spelling with the same normal form) and its action until its time to live is over.
\<close>

theorem memory_issued_nonce_accepted:
  assumes "node_cache C std"
    and "fst (issue cfg (mem_nonce_ops C) t fresh w a bm v) = Inr i"
    and "js_trim n = fresh" and "t' < t + 1000 * DEFAULT_NONCE_TTL_SECONDS cfg"
    and "normalizeWalletAddress (Some w') = normalizeWalletAddress (Some w)"
  shows "fst (consume (mem_nonce_ops C) t' w' a n (snd (issue cfg (mem_nonce_ops C) t fresh w a bm v)))
         = Inr ()"
  by (rule nonce_store.issued_then_consumed[OF mem_nonce_cache.mem_store_laws[OF
        mem_nonce_cache.intro[OF assms(1)]] assms(2-5)])

lemma sample_issue:
  "fst (issue sample_nonce_config (mem_nonce_ops (deadline_cache 300000)) 0 ''aa'' '' gw '' Login
     in_message (new_nonce_service \<lparr>byNonce = [], walletIndex = []\<rparr>)) =
   Inr \<lparr>in_nonce = ''aa'', in_walletAddress = ''GW'', in_action = Login, in_issuedAt = 0,
        in_expiresAt = 300000, in_expiresIn = 300, in_message = []\<rparr>"
  by code_simp

theorem memory_issued_nonce_accepted_witness:
  "fst (consume (mem_nonce_ops (deadline_cache 300000)) 299999 ''Gw'' Login '' aa ''
     (snd (issue sample_nonce_config (mem_nonce_ops (deadline_cache 300000)) 0 ''aa'' '' gw '' Login
       in_message (new_nonce_service \<lparr>byNonce = [], walletIndex = []\<rparr>)))) = Inr ()"
proof (rule memory_issued_nonce_accepted[OF deadline_cache_laws sample_issue])
  show "js_trim '' aa '' = ''aa''" by code_simp
  show "(299999::int) < 0 + 1000 * DEFAULT_NONCE_TTL_SECONDS sample_nonce_config"
    by (simp add: sample_nonce_config_def)
  show "normalizeWalletAddress (Some ''Gw'') = normalizeWalletAddress (Some '' gw '')"
    by code_simp
qed

text \<open>
  On Redis the marking is not atomic: when an unused nonce is read by two clients before
  either has written, both \<open>markUsed\<close> calls return true, so two requests consume one nonce.
\<close>

theorem redis_mark_race:
  assumes "redis_get R t n d = Some e" and "\<not> sn_used e"
  shows "\<exists>d'. mark_schedule cfg R t n [True, False, True, False, True, False] (MkGet, MkGet, d)
           = (MkDone True, MkDone True, d')"
  using assms by (simp add: mark_check_def)

definition sample_redis_nonce :: "stored_nonce redis_db" where
  "sample_redis_nonce = redis_save redis_model 0
     \<lparr>sn_nonce = ''aa'', sn_walletAddress = ''GW'', sn_action = Login, sn_issuedAt = 0,
      sn_expiresAt = 300000, sn_used = False\<rparr> 300 \<lparr>db_vals = [], db_sets = []\<rparr>"

lemma sample_redis_get:
  "redis_get redis_model 5 ''aa'' sample_redis_nonce =
     Some \<lparr>sn_nonce = ''aa'', sn_walletAddress = ''GW'', sn_action = Login, sn_issuedAt = 0,
      sn_expiresAt = 300000, sn_used = False\<rparr>"
  by code_simp

theorem redis_mark_race_witness:
  "\<exists>d'. mark_schedule sample_nonce_config redis_model 5 ''aa'' [True, False, True, False, True, False]
     (MkGet, MkGet, sample_redis_nonce) = (MkDone True, MkDone True, d')"
  by (rule redis_mark_race[OF sample_redis_get]) simp

end
