(* ===== verification/Base64.thy ===== *)
theory Base64
  imports Prelude
begin

text \<open>
  The base-64 codings of Node's \<open>Buffer\<close>, which session tokens, cursors and wallet signatures go
  through: \<open>'base64'\<close> with padding, \<open>'base64url'\<close> without, and the one lenient decoder of both, which
  reads both alphabets, skips every other character and stops at the padding.  Strings are ASCII,
  so a string and its UTF-8 bytes are one list.
\<close>

definition sextet_char :: "bool \<Rightarrow> nat \<Rightarrow> char" where
  "sextet_char url n =
     (if n < 26 then char_of (65 + n)
      else if n < 52 then char_of (71 + n)
      else if n < 62 then char_of (n - 4)
      else if n = 62 then (if url then CHR ''-'' else CHR ''+'')
      else (if url then CHR ''_'' else CHR ''/''))"

definition char_sextet :: "char \<Rightarrow> nat option" where
  "char_sextet c =
     (let n = of_char c :: nat
      in if 65 \<le> n \<and> n \<le> 90 then Some (n - 65)
         else if 97 \<le> n \<and> n \<le> 122 then Some (n - 71)
         else if 48 \<le> n \<and> n \<le> 57 then Some (n + 4)
         else if n = 43 \<or> n = 45 then Some 62
         else if n = 47 \<or> n = 95 then Some 63
         else None)"

fun sextets :: "nat list \<Rightarrow> nat list" where
  "sextets [] = []"
| "sextets [a] = [a div 4, a mod 4 * 16]"
| "sextets [a, b] = [a div 4, a mod 4 * 16 + b div 16, b mod 16 * 4]"
| "sextets (a # b # c # r) =
     a div 4 # (a mod 4 * 16 + b div 16) # (b mod 16 * 4 + c div 64) # c mod 64 # sextets r"

fun bytes_of_sextets :: "nat list \<Rightarrow> nat list" where
  "bytes_of_sextets [] = []"
| "bytes_of_sextets [x] = []"
| "bytes_of_sextets [x, y] = [x * 4 + y div 16]"
| "bytes_of_sextets [x, y, z] = [x * 4 + y div 16, y mod 16 * 16 + z div 4]"
| "bytes_of_sextets (x # y # z # w # r) =
     (x * 4 + y div 16) # (y mod 16 * 16 + z div 4) # (z mod 4 * 64 + w) # bytes_of_sextets r"

definition base64url :: "string \<Rightarrow> string" where
  "base64url s = map (sextet_char True) (sextets (map of_char s))"

definition base64 :: "string \<Rightarrow> string" where
  "base64 s = map (sextet_char False) (sextets (map of_char s))
     @ replicate ((3 - length s mod 3) mod 3) (CHR ''='')"

definition from_base64 :: "string \<Rightarrow> string" where
  "from_base64 s =
     map char_of (bytes_of_sextets (List.map_filter char_sextet (takeWhile (\<lambda>c. c \<noteq> CHR ''='') s)))"

lemma bytes_of_sextets_inverse: "\<forall>b \<in> set bs. b < 256 \<Longrightarrow> bytes_of_sextets (sextets bs) = bs"
proof (induction bs rule: sextets.induct)
  case (4 a b c r)
  have c4: "c div 64 < 4" using 4 by (simp add: less_mult_imp_div_less)
  have q: "b div 16 div 16 = 0" "c div 64 div 4 = 0" "c div 64 mod 4 = c div 64"
    using 4 c4 by (simp_all add: div_mult2_eq[symmetric])
  have "a div 4 * 4 + (a mod 4 * 16 + b div 16) div 16 = a"
    using 4 q by simp
  moreover have "(a mod 4 * 16 + b div 16) mod 16 * 16 + (b mod 16 * 4 + c div 64) div 4 = b"
    using 4 q by simp
  moreover have "(b mod 16 * 4 + c div 64) mod 4 * 64 + c mod 64 = c"
    using q by simp
  ultimately show ?case using 4 by simp
qed auto

lemma sextets_bound: "\<forall>b \<in> set bs. b < 256 \<Longrightarrow> x \<in> set (sextets bs) \<Longrightarrow> x < 64"
proof (induction bs rule: sextets.induct)
  case (4 a b c r)
  have "a mod 4 * 16 + b div 16 < 64" "b mod 16 * 4 + c div 64 < 64" "a div 4 < 64"
    using 4 by (simp_all, linarith+)
  then show ?case using 4 by auto
next
  case (3 a b)
  have "a mod 4 * 16 + b div 16 < 64" "a div 4 < 64" "b mod 16 * 4 < 64"
    using 3 by (simp_all, linarith+)
  then show ?case using 3 by auto
next
  case (2 a)
  have "a mod 4 < 4" by simp
  then have "a mod 4 * 16 < 64" by linarith
  moreover have "a div 4 < 64" using 2 by auto
  ultimately show ?case using 2 by auto
qed simp

lemma char_sextet_inverse: "n < 64 \<Longrightarrow> char_sextet (sextet_char u n) = Some n"
  by (auto simp: char_sextet_def sextet_char_def Let_def)

lemma sextet_char_not_pad: "n < 64 \<Longrightarrow> sextet_char u n \<noteq> CHR ''=''"
proof
  assume "n < 64" "sextet_char u n = CHR ''=''"
  then have "char_sextet (CHR ''='') = Some n" using char_sextet_inverse by metis
  then show False by (simp add: char_sextet_def)
qed

lemma decode_sextets:
  assumes "\<And>n. n \<in> set ns \<Longrightarrow> n < 64" and "pad = replicate k (CHR ''='')"
  shows "List.map_filter char_sextet (takeWhile (\<lambda>c. c \<noteq> CHR ''='') (map (sextet_char u) ns @ pad)) = ns"
  using assms(1)
proof (induction ns)
  case Nil
  show ?case using assms(2) by (cases k) (auto simp: List.map_filter_def)
next
  case (Cons n ns)
  then have "n < 64" by simp
  with Cons show ?case
    by (simp add: sextet_char_not_pad char_sextet_inverse map_filter_simps)
qed

lemma char_bytes: "\<forall>b \<in> set (map of_char s). b < (256 :: nat)"
  by auto

lemma from_base64url: "from_base64 (base64url s) = s"
  using decode_sextets[of "sextets (map of_char s)" "[]" 0 True] sextets_bound[OF char_bytes[of s]]
  by (simp add: from_base64_def base64url_def bytes_of_sextets_inverse[OF char_bytes] comp_def)

lemma from_base64: "from_base64 (base64 s) = s"
  using decode_sextets[of "sextets (map of_char s)" _ "(3 - length s mod 3) mod 3" False, OF _ refl]
    sextets_bound[OF char_bytes[of s]]
  by (simp add: from_base64_def base64_def bytes_of_sextets_inverse[OF char_bytes] comp_def)

lemma base64_inject [simp]: "base64 s = base64 t \<longleftrightarrow> s = t"
  by (metis from_base64)

lemma base64url_inject [simp]: "base64url s = base64url t \<longleftrightarrow> s = t"
  by (metis from_base64url)

definition url_char :: "char \<Rightarrow> bool" where
  "url_char c \<longleftrightarrow> char_sextet c \<noteq> None \<and> c \<noteq> CHR ''+'' \<and> c \<noteq> CHR ''/''"

lemma sextet_char_url: "n < 64 \<Longrightarrow> url_char (sextet_char True n)"
proof -
  assume n: "n < 64"
  have "sextet_char True n \<noteq> CHR ''+''"
  proof
    assume "sextet_char True n = CHR ''+''"
    then have "char_sextet (CHR ''+'') = Some n" using char_sextet_inverse[OF n] by metis
    then have "n = 62" by (simp add: char_sextet_def)
    with \<open>sextet_char True n = CHR ''+''\<close> show False by (simp add: sextet_char_def)
  qed
  moreover have "sextet_char True n \<noteq> CHR ''/''"
  proof
    assume "sextet_char True n = CHR ''/''"
    then have "char_sextet (CHR ''/'') = Some n" using char_sextet_inverse[OF n] by metis
    then have "n = 63" by (simp add: char_sextet_def)
    with \<open>sextet_char True n = CHR ''/''\<close> show False by (simp add: sextet_char_def)
  qed
  ultimately show ?thesis using n by (simp add: url_char_def char_sextet_inverse)
qed

lemma base64url_chars: "c \<in> set (base64url s) \<Longrightarrow> url_char c"
  using sextets_bound[OF char_bytes[of s]] by (auto simp: base64url_def intro!: sextet_char_url)

lemma base64_sample: "base64 ''hello'' = ''aGVsbG8=''" "base64url ''a?>'' = ''YT8-''"
  by code_simp+

end
