(* ===== verification/WalletSignature.thy ===== *)
theory WalletSignature
  imports WalletNonce Base64
begin

text \<open>
  The canonical signing payload and its verification (\<open>backend/src/walletSignature.ts\<close>) and the
  middleware that guards signed wallet actions (\<open>backend/src/middleware/walletSignedAction.ts\<close>).
  Node's HMAC and the Stellar key pair of \<open>@stellar/stellar-base\<close> are the record \<open>signature_ops\<close>.
\<close>

section \<open>walletSignature.ts\<close>

text \<open>\<open>so_hmac secret message\<close> is the hexadecimal HMAC-SHA256; \<open>so_verify wallet message signature\<close>
  is \<open>Keypair.fromPublicKey(wallet).verify(\<dots>)\<close>, \<^const>\<open>None\<close> where either call throws.\<close>

record signature_ops =
  so_hmac :: "string \<Rightarrow> string \<Rightarrow> string"
  so_verify :: "string \<Rightarrow> string \<Rightarrow> string \<Rightarrow> bool option"

record sign_message_params =
  sm_walletAddress :: string
  sm_action :: wallet_action
  sm_nonce :: string
  sm_issuedAt :: string
  sm_expiresAt :: string

datatype signature_mode = HmacMode | StellarMode

definition HMAC_SECRET :: "env \<Rightarrow> string" where
  "HMAC_SECRET E = env_or E ''WALLET_ACTION_HMAC_SECRET''
     (env_or E ''JWT_SECRET'' ''wallet-action-hmac-dev-secret-change-me'')"

definition buildWalletSignMessage :: "sign_message_params \<Rightarrow> string" where
  "buildWalletSignMessage params =
     (let wallet = normalizeWalletAddress (Some (sm_walletAddress params))
      in js_join [CHR 0x0A]
           [''YieldVault Signed Action'',
            ''Wallet: '' @ wallet,
            ''Action: '' @ show_action (sm_action params),
            ''Nonce: '' @ sm_nonce params,
            ''Issued At: '' @ sm_issuedAt params,
            ''Expires At: '' @ sm_expiresAt params])"

definition getWalletSignatureMode :: "env \<Rightarrow> signature_mode" where
  "getWalletSignatureMode E =
     (let configured = map_option js_lower (E ''WALLET_SIGNATURE_MODE'')
      in if configured = Some ''hmac'' then HmacMode
         else if configured = Some ''stellar'' then StellarMode
         else if E ''NODE_ENV'' = Some ''production'' then StellarMode else HmacMode)"

definition isWalletSignatureEnforced :: "env \<Rightarrow> bool" where
  "isWalletSignatureEnforced E =
     (let flag = map_option js_lower (E ''WALLET_NONCE_ENFORCEMENT'')
      in if flag \<in> {Some ''off'', Some ''false'', Some ''0''} then False
         else if flag \<in> {Some ''strict'', Some ''on'', Some ''true'', Some ''1''} then True
         else E ''NODE_ENV'' = Some ''production'')"

definition verifyHmacSignature :: "signature_ops \<Rightarrow> env \<Rightarrow> string \<Rightarrow> string \<Rightarrow> bool" where
  "verifyHmacSignature so E message signature =
     (let expected = so_hmac so (HMAC_SECRET E) message;
          provided = js_lower (js_trim signature)
      in if length expected \<noteq> length provided then False else expected = provided)"

definition verifyStellarSignature :: "signature_ops \<Rightarrow> string \<Rightarrow> string \<Rightarrow> string \<Rightarrow> bool" where
  "verifyStellarSignature so walletAddress message signature =
     (case so_verify so (normalizeWalletAddress (Some walletAddress)) message
             (from_base64 (js_trim signature)) of
        None \<Rightarrow> False | Some ok \<Rightarrow> ok)"

text \<open>\<open>True\<close> where \<open>verifyWalletActionSignature\<close> returns, \<open>False\<close> where it throws
  \<open>InvalidWalletSignatureError\<close>.\<close>

definition verifyWalletActionSignature ::
  "signature_ops \<Rightarrow> env \<Rightarrow> sign_message_params \<Rightarrow> string \<Rightarrow> bool" where
  "verifyWalletActionSignature so E params signature =
     (let message = buildWalletSignMessage params
      in case getWalletSignatureMode E of
           StellarMode \<Rightarrow> verifyStellarSignature so (sm_walletAddress params) message signature
         | HmacMode \<Rightarrow> verifyHmacSignature so E message signature)"

definition signWalletActionForTests :: "signature_ops \<Rightarrow> env \<Rightarrow> sign_message_params \<Rightarrow> string" where
  "signWalletActionForTests so E params = so_hmac so (HMAC_SECRET E) (buildWalletSignMessage params)"

section \<open>middleware/walletSignedAction.ts\<close>

datatype signed_action_error = SaNonce nonce_error | SaSignature

definition coded_error :: "string \<Rightarrow> string option \<Rightarrow> string \<Rightarrow> response" where
  "coded_error e code msg = send_json 401 (JObj
     [(''error'', JStr e), (''status'', jint 401), (''code'', json_opt JStr code), (''message'', JStr msg)])"

fun sendSignedActionError :: "signed_action_error \<Rightarrow> response" where
  "sendSignedActionError (SaNonce NonceReplayError) =
     coded_error ''Nonce Replay'' (nonce_error_code NonceReplayError) (nonce_error_message NonceReplayError)"
| "sendSignedActionError (SaNonce NonceExpiredError) =
     coded_error ''Nonce Expired'' (nonce_error_code NonceExpiredError) (nonce_error_message NonceExpiredError)"
| "sendSignedActionError (SaNonce (TooManyActiveNonces n)) =
     send_error ''Internal Server Error'' 500 (nonce_error_message (TooManyActiveNonces n))"
| "sendSignedActionError (SaNonce e) =
     coded_error ''Invalid Nonce'' (nonce_error_code e) (nonce_error_message e)"
| "sendSignedActionError SaSignature =
     coded_error ''Invalid Signature'' (Some ''SIGNATURE_INVALID'') ''Wallet signature verification failed''"

definition signed_action_required :: response where
  "signed_action_required = send_json 400 (JObj
     [(''error'', JStr ''Bad Request''), (''status'', jint 400),
      (''code'', JStr ''SIGNED_ACTION_REQUIRED''),
      (''message'', JStr (''walletAddress, nonce, and signature are required. '' @
         ''Obtain a nonce from POST /api/v1/auth/nonce before signing.''))])"

definition set_body_field :: "string \<Rightarrow> json \<Rightarrow> json \<Rightarrow> json" where
  "set_body_field k v b = (case b of JObj fs \<Rightarrow> JObj (AList.update k v fs) | _ \<Rightarrow> b)"

definition requireSignedWalletAction ::
  "signature_ops \<Rightarrow> env \<Rightarrow> 's nonce_store_ops \<Rightarrow> time \<Rightarrow> wallet_action \<Rightarrow> request \<Rightarrow> 's nonce_service \<Rightarrow>
   outcome \<times> 's nonce_service" where
  "requireSignedWalletAction so E S t action req v =
     (if \<not> isWalletSignatureEnforced E then (Next req, v)
      else
        let walletAddress = nullish (body_string req ''walletAddress'') [];
            nonce = nullish (body_string req ''nonce'') [];
            signature = nullish (body_string req ''signature'') []
        in if walletAddress = [] \<or> nonce = [] \<or> signature = [] then (Respond signed_action_required, v)
           else case validateForUse S t walletAddress action nonce v of
               (Inl e, v1) \<Rightarrow> (Respond (sendSignedActionError (SaNonce e)), v1)
             | (Inr meta, v1) \<Rightarrow>
                 if \<not> verifyWalletActionSignature so E
                      \<lparr>sm_walletAddress = walletAddress, sm_action = action,
                       sm_nonce = in_nonce meta, sm_issuedAt = to_iso_string (in_issuedAt meta),
                       sm_expiresAt = to_iso_string (in_expiresAt meta)\<rparr> signature
                 then (Respond (sendSignedActionError SaSignature), v1)
                 else case consume S t walletAddress action nonce v1 of
                     (Inl e, v2) \<Rightarrow> (Respond (sendSignedActionError (SaNonce e)), v2)
                   | (Inr _, v2) \<Rightarrow>
                       (Next (req\<lparr>rq_body := set_body_field ''walletAddress''
                          (JStr (normalizeWalletAddress (Some walletAddress))) (rq_body req)\<rparr>), v2))"

section \<open>The message is unambiguous\<close>

definition newline_free :: "sign_message_params \<Rightarrow> bool" where
  "newline_free p \<longleftrightarrow> list_all (\<lambda>w. CHR 0x0A \<notin> set w)
     [sm_walletAddress p, sm_nonce p, sm_issuedAt p, sm_expiresAt p]"

lemma normalizeWalletAddress_newline:
  "CHR 0x0A \<notin> set a \<Longrightarrow> CHR 0x0A \<notin> set (normalizeWalletAddress (Some a))"
  using set_js_trim[of a]
  by (auto simp: normalizeWalletAddress_Some js_upper_def) (metis js_upper_char_newline subsetD)

lemma show_action_newline [simp]: "CHR 0x0A \<notin> set (show_action a)"
  by (cases a) simp_all

lemma show_action_inject [simp]: "show_action a = show_action b \<longleftrightarrow> a = b"
  by (cases a; cases b) simp_all

text \<open>
  The canonical message is unambiguous: two parameter sets without line breaks that yield the
  same message agree on the normal form of the wallet, the action, the nonce and both times, so a
  signature given for one action, nonce or wallet cannot be presented for another.
\<close>

theorem sign_message_injective:
  assumes "newline_free p" and "newline_free q"
    and "buildWalletSignMessage p = buildWalletSignMessage q"
  shows "normalizeWalletAddress (Some (sm_walletAddress p)) =
           normalizeWalletAddress (Some (sm_walletAddress q))
    \<and> sm_action p = sm_action q \<and> sm_nonce p = sm_nonce q
    \<and> sm_issuedAt p = sm_issuedAt q \<and> sm_expiresAt p = sm_expiresAt q"
proof -
  define fields where "fields = (\<lambda>p :: sign_message_params. [''YieldVault Signed Action'',
      ''Wallet: '' @ normalizeWalletAddress (Some (sm_walletAddress p)),
      ''Action: '' @ show_action (sm_action p), ''Nonce: '' @ sm_nonce p,
      ''Issued At: '' @ sm_issuedAt p, ''Expires At: '' @ sm_expiresAt p])"
  have free: "\<forall>w \<in> set (fields p). CHR 0x0A \<notin> set w" if "newline_free p" for p
    using that by (simp add: fields_def newline_free_def normalizeWalletAddress_newline)
  have "js_join [CHR 0x0A] (fields p) = js_join [CHR 0x0A] (fields q)"
    using assms(3) by (simp only: buildWalletSignMessage_def fields_def Let_def)
  then have "fields p = fields q"
    by (intro js_join_inject[OF _ _ free[OF assms(1)] free[OF assms(2)]]) (simp_all add: fields_def)
  then show ?thesis by (simp add: fields_def)
qed

definition sample_sign_params :: sign_message_params where
  "sample_sign_params = \<lparr>sm_walletAddress = '' gw'', sm_action = Login, sm_nonce = ''aa'',
     sm_issuedAt = ''1970-01-01T00:00:00.000Z'', sm_expiresAt = ''1970-01-01T00:05:00.000Z''\<rparr>"

theorem sign_message_injective_witness:
  "normalizeWalletAddress (Some '' gw'') = normalizeWalletAddress (Some ''GW'')"
  using sign_message_injective[of sample_sign_params
      "sample_sign_params\<lparr>sm_walletAddress := ''GW''\<rparr>"]
  by (simp add: sample_sign_params_def newline_free_def buildWalletSignMessage_def
      normalizeWalletAddress_Some) (code_simp)

section \<open>The guard\<close>

lemma hmac_signature_accepted:
  assumes "getWalletSignatureMode E = HmacMode"
    and "js_lower (js_trim (signWalletActionForTests so E p)) = signWalletActionForTests so E p"
  shows "verifyWalletActionSignature so E p (signWalletActionForTests so E p)"
  using assms
  by (simp add: verifyWalletActionSignature_def verifyHmacSignature_def signWalletActionForTests_def)

context nonce_store
begin

lemma signed_action_cases:
  assumes "requireSignedWalletAction so E S t a req v = (Next req', v')"
    and enf: "isWalletSignatureEnforced E"
  obtains w n sg e where "body_string req ''walletAddress'' = Some w"
    and "body_string req ''nonce'' = Some n" and "body_string req ''signature'' = Some sg"
    and "ns_get S t (js_trim n) (nv_store v) = Some e"
    and "sn_walletAddress e = normalizeWalletAddress (Some w)" and "sn_action e = a"
    and "t \<le> sn_expiresAt e" and "\<not> sn_used e"
    and "verifyWalletActionSignature so E \<lparr>sm_walletAddress = w, sm_action = a,
           sm_nonce = js_trim n, sm_issuedAt = to_iso_string (sn_issuedAt e),
           sm_expiresAt = to_iso_string (sn_expiresAt e)\<rparr> sg"
    and "consume S t w a n v = (Inr (), v')"
    and "req' = req\<lparr>rq_body := set_body_field ''walletAddress''
           (JStr (normalizeWalletAddress (Some w))) (rq_body req)\<rparr>"
proof -
  define w where "w = nullish (body_string req ''walletAddress'') []"
  define n where "n = nullish (body_string req ''nonce'') []"
  define sg where "sg = nullish (body_string req ''signature'') []"
  note D = requireSignedWalletAction_def Let_def w_def[symmetric] n_def[symmetric] sg_def[symmetric]
  have ne: "w \<noteq> []" "n \<noteq> []" "sg \<noteq> []" using assms by (auto simp: D split: if_splits)
  then have b: "body_string req ''walletAddress'' = Some w" "body_string req ''nonce'' = Some n"
    "body_string req ''signature'' = Some sg"
    by (simp_all add: w_def n_def sg_def nullish_def split: option.splits)
  obtain r1 v1 where r1: "validateForUse S t w a n v = (r1, v1)" by fastforce
  then obtain meta where m: "r1 = Inr meta" using assms ne by (cases r1) (auto simp: D)
  have v1: "v1 = v" using r1 m by (auto simp: validateForUse_def Let_def split: option.splits if_splits)
  obtain r2 v2 where r2: "consume S t w a n v = (r2, v2)" by fastforce
  have r2ok: "r2 = Inr ()" "v2 = v'"
    and req': "req' = req\<lparr>rq_body := set_body_field ''walletAddress''
           (JStr (normalizeWalletAddress (Some w))) (rq_body req)\<rparr>"
    and ver: "verifyWalletActionSignature so E \<lparr>sm_walletAddress = w, sm_action = a,
           sm_nonce = in_nonce meta, sm_issuedAt = to_iso_string (in_issuedAt meta),
           sm_expiresAt = to_iso_string (in_expiresAt meta)\<rparr> sg"
    using assms ne r1 m v1 r2 by (cases r2; auto simp: D split: if_splits)+
  have "fst (consume S t w a n v) = Inr ()" using r2 r2ok by simp
  then obtain e where e: "ns_get S t (js_trim n) (nv_store v) = Some e"
    "sn_walletAddress e = normalizeWalletAddress (Some w)" "sn_action e = a"
    "t \<le> sn_expiresAt e" "\<not> sn_used e" by (rule consume_rejects)
  have meta: "in_nonce meta = js_trim n" "in_issuedAt meta = sn_issuedAt e"
    "in_expiresAt meta = sn_expiresAt e"
    using r1 m e by (auto simp: validateForUse_def)
  show ?thesis
    using b e ver meta req' r2 r2ok by (intro that[of w n sg e]) simp_all
qed

lemma consume_spends:
  assumes "consume S t w a n v = (Inr (), v')"
  shows "spent S (js_trim n) (nv_store v')"
proof -
  obtain i v1 where i: "validateForUse S t w a n v = (i, v1)" by fastforce
  then obtain m where "i = Inr m" using assms by (cases i) (auto simp: consume_def)
  with i assms have f: "finish_consume S t n v1 = (Inr (), v')" by (simp add: consume_def)
  then have "fst (ns_markUsed S t (js_trim n) (nv_store v1))"
    by (simp add: finish_cases split: if_splits)
  then show ?thesis using f mark_spends by (auto simp: finish_cases)
qed

lemma consume_failure_store:
  assumes "consume S t w a n v = (Inl e, v')"
  shows "nv_store v' = nv_store v"
proof -
  obtain i v1 where i: "validateForUse S t w a n v = (i, v1)" by fastforce
  have v1: "nv_store v1 = nv_store v" using validate_store[of S t w a n v] i by simp
  show ?thesis
    using assms i v1 by (cases i) (auto simp: consume_def finish_cases split: if_splits)
qed

lemma signed_action_store:
  assumes "requireSignedWalletAction so E S t a req v = (Respond r, v')"
  shows "nv_store v' = nv_store v"
proof -
  define w where "w = nullish (body_string req ''walletAddress'') []"
  define n where "n = nullish (body_string req ''nonce'') []"
  define sg where "sg = nullish (body_string req ''signature'') []"
  note D = requireSignedWalletAction_def Let_def w_def[symmetric] n_def[symmetric] sg_def[symmetric]
  obtain r1 v1 where r1: "validateForUse S t w a n v = (r1, v1)" by fastforce
  then have v1: "nv_store v1 = nv_store v" using validate_store[of S t w a n v] by simp
  obtain r2 v2 where r2: "consume S t w a n v1 = (r2, v2)" by fastforce
  have "nv_store v2 = nv_store v" if "r2 = Inl e" for e
    using consume_failure_store[of t w a n v1 e v2] r2 that v1 by simp
  then show ?thesis
    using assms r1 r2 v1 by (auto simp: D split: if_splits sum.splits)
qed

end

text \<open>
  C30.  With enforcement on, \<open>requireSignedWalletAction\<close> passes a request on only if the signature
  verifies for the canonical message of an issued, unexpired, unused nonce of that wallet and
  action; the handler sees the normalised wallet address and the nonce is spent from then on.
\<close>

theorem signed_action_guard:
  assumes "node_cache C std" and "isWalletSignatureEnforced E"
    and "requireSignedWalletAction so E (mem_nonce_ops C) t a req v = (Next req', v')"
  shows "\<exists>w n sg e. body_string req ''walletAddress'' = Some w \<and> body_string req ''nonce'' = Some n
    \<and> body_string req ''signature'' = Some sg
    \<and> nc_get C t (js_trim n) (byNonce (nv_store v)) = Some e
    \<and> sn_walletAddress e = normalizeWalletAddress (Some w) \<and> sn_action e = a
    \<and> t \<le> sn_expiresAt e \<and> \<not> sn_used e
    \<and> verifyWalletActionSignature so E \<lparr>sm_walletAddress = w, sm_action = a,
         sm_nonce = js_trim n, sm_issuedAt = to_iso_string (sn_issuedAt e),
         sm_expiresAt = to_iso_string (sn_expiresAt e)\<rparr> sg
    \<and> req' = req\<lparr>rq_body := set_body_field ''walletAddress''
         (JStr (normalizeWalletAddress (Some w))) (rq_body req)\<rparr>
    \<and> spent (mem_nonce_ops C) (js_trim n) (nv_store v')"
proof -
  have store: "nonce_store (mem_nonce_ops C)"
    by (rule mem_nonce_cache.mem_store_laws[OF mem_nonce_cache.intro[OF assms(1)]])
  show ?thesis
    by (rule nonce_store.signed_action_cases[OF store assms(3,2)])
      (use nonce_store.consume_spends[OF store] in \<open>auto simp: mem_get_def\<close>)
qed

text \<open>
  A request the guard turns away, for whatever reason (a missing field, an unknown, foreign,
  expired or replayed nonce, a wrong signature), leaves the nonce store as it was: a bad signature
  does not burn the nonce.
\<close>

theorem signed_action_rejection_keeps_nonces:
  assumes "node_cache C std"
    and "requireSignedWalletAction so E (mem_nonce_ops C) t a req v = (Respond r, v')"
  shows "nv_store v' = nv_store v"
  by (rule nonce_store.signed_action_store[OF mem_nonce_cache.mem_store_laws[OF
        mem_nonce_cache.intro[OF assms(1)]] assms(2)])

text \<open>A concrete request: the HMAC of the sample instance returns the message's length in digits.\<close>

definition sample_signature_ops :: signature_ops where
  "sample_signature_ops = \<lparr>so_hmac = (\<lambda>secret m. show_nat (length m)),
     so_verify = (\<lambda>w m sg. None)\<rparr>"

definition strict_env :: env where
  "strict_env k = (if k = ''WALLET_NONCE_ENFORCEMENT'' then Some ''Strict'' else None)"

definition signed_request :: "string \<Rightarrow> request" where
  "signed_request sg = blank_request\<lparr>rq_body := JObj [(''walletAddress'', JStr ''gw''),
     (''nonce'', JStr '' aa''), (''signature'', JStr sg)]\<rparr>"

definition sample_service :: "stored_nonce deadline_map mem_nonce_store nonce_service" where
  "sample_service = snd (issue sample_nonce_config (mem_nonce_ops (deadline_cache 300000)) 0 ''aa'' ''gw'' Login
     in_message (new_nonce_service \<lparr>byNonce = [], walletIndex = []\<rparr>))"

lemma strict_env_enforced: "isWalletSignatureEnforced strict_env"
  by code_simp

lemma signed_request_accepted:
  "is_next (fst (requireSignedWalletAction sample_signature_ops strict_env
     (mem_nonce_ops (deadline_cache 300000)) 5 Login (signed_request ''132'') sample_service))"
  by code_simp

lemma signed_request_refused:
  "\<not> is_next (fst (requireSignedWalletAction sample_signature_ops strict_env
     (mem_nonce_ops (deadline_cache 300000)) 5 Login (signed_request ''141'') sample_service))"
  by code_simp

theorem signed_action_guard_witness:
  "\<exists>e s'. nc_get (deadline_cache 300000) 5 ''aa'' (byNonce (nv_store sample_service)) = Some e
     \<and> \<not> sn_used e \<and> spent (mem_nonce_ops (deadline_cache 300000)) ''aa'' s'"
proof -
  obtain req' v' where r: "requireSignedWalletAction sample_signature_ops strict_env
      (mem_nonce_ops (deadline_cache 300000)) 5 Login (signed_request ''132'') sample_service = (Next req', v')"
    using signed_request_accepted
    by (metis (no_types, lifting) is_next_simps(2) outcome.exhaust prod.exhaust_sel)
  have "js_trim '' aa'' = ''aa''" by code_simp
  moreover have "body_string (signed_request ''132'') ''nonce'' = Some '' aa''" by code_simp
  ultimately show ?thesis
    using signed_action_guard[OF deadline_cache_laws strict_env_enforced r]
    by auto
qed

theorem signed_action_rejection_keeps_nonces_witness:
  "nv_store (snd (requireSignedWalletAction sample_signature_ops strict_env
     (mem_nonce_ops (deadline_cache 300000)) 5 Login (signed_request ''141'') sample_service))
   = nv_store sample_service"
proof -
  obtain resp v' where r: "requireSignedWalletAction sample_signature_ops strict_env
      (mem_nonce_ops (deadline_cache 300000)) 5 Login (signed_request ''141'') sample_service = (Respond resp, v')"
    using signed_request_refused
    by (metis (no_types, lifting) is_next_simps(1) outcome.exhaust prod.exhaust_sel)
  show ?thesis using signed_action_rejection_keeps_nonces[OF deadline_cache_laws r] r by simp
qed

end
