(* ===== verification/CircuitBreaker.thy ===== *)
theory CircuitBreaker
  imports Prelude
begin

text \<open>
  The circuit breaker around the Soroban RPC calls (\<open>backend/src/circuitBreaker.ts\<close>).  The object's
  fields are a record; \<open>execute\<close> waits for the protected call, so its part before the wait
  (\<open>admit\<close>) and its part after (\<open>onSuccess\<close> or \<open>onFailure\<close>) are separate, and a run is any
  interleaving of them.
\<close>

section \<open>The breaker\<close>

datatype circuit_state = CLOSED | OPEN | HALF_OPEN

record circuit_config =
  failureThreshold :: int
  windowMs :: int
  cooldownMs :: int

record circuit_breaker =
  cb_state :: circuit_state
  cb_failures :: int
  cb_windowStart :: time
  cb_openedAt :: "time option"

definition load_circuit_config ::
  "env \<Rightarrow> int option \<Rightarrow> int option \<Rightarrow> int option \<Rightarrow> circuit_config option" where
  "load_circuit_config E optThreshold optWindow optCooldown =
     (let pick = (\<lambda>opt k d. case opt of Some n \<Rightarrow> Some n | None \<Rightarrow> js_parse_int (env_or E k d))
      in case (pick optThreshold ''CIRCUIT_BREAKER_FAILURE_THRESHOLD'' ''5'',
               pick optWindow ''CIRCUIT_BREAKER_WINDOW_MS'' ''30000'',
               pick optCooldown ''CIRCUIT_BREAKER_COOLDOWN_MS'' ''30000'') of
           (Some a, Some b, Some c) \<Rightarrow>
             Some \<lparr>failureThreshold = a, windowMs = b, cooldownMs = c\<rparr>
         | _ \<Rightarrow> None)"

definition new_breaker :: "time \<Rightarrow> circuit_breaker" where
  "new_breaker now = \<lparr>cb_state = CLOSED, cb_failures = 0, cb_windowStart = now, cb_openedAt = None\<rparr>"

definition maybeTransitionToHalfOpen :: "circuit_config \<Rightarrow> time \<Rightarrow> circuit_breaker \<Rightarrow> circuit_breaker" where
  "maybeTransitionToHalfOpen cfg now b =
     (if cb_state b = OPEN \<and>
         (case cb_openedAt b of None \<Rightarrow> False | Some o1 \<Rightarrow> cooldownMs cfg \<le> now - o1)
      then b\<lparr>cb_state := HALF_OPEN\<rparr> else b)"

definition currentState :: "circuit_config \<Rightarrow> time \<Rightarrow> circuit_breaker \<Rightarrow> circuit_state \<times> circuit_breaker" where
  "currentState cfg now b =
     (let b' = maybeTransitionToHalfOpen cfg now b in (cb_state b', b'))"

definition retryAfterMs :: "circuit_config \<Rightarrow> time \<Rightarrow> circuit_breaker \<Rightarrow> int" where
  "retryAfterMs cfg now b =
     (case cb_openedAt b of
        None \<Rightarrow> 0
      | Some o1 \<Rightarrow> if cb_state b \<noteq> OPEN then 0 else max 0 (cooldownMs cfg - (now - o1)))"

definition onSuccess :: "time \<Rightarrow> circuit_breaker \<Rightarrow> circuit_breaker" where
  "onSuccess now b = b\<lparr>cb_failures := 0, cb_windowStart := now, cb_state := CLOSED, cb_openedAt := None\<rparr>"

definition onFailure :: "circuit_config \<Rightarrow> time \<Rightarrow> circuit_breaker \<Rightarrow> circuit_breaker" where
  "onFailure cfg now b =
     (let b1 = (if now - cb_windowStart b > windowMs cfg
                then b\<lparr>cb_failures := 0, cb_windowStart := now\<rparr> else b);
          b2 = b1\<lparr>cb_failures := cb_failures b1 + 1\<rparr>
      in if failureThreshold cfg \<le> cb_failures b2
         then b2\<lparr>cb_state := OPEN, cb_openedAt := Some now\<rparr> else b2)"

text \<open>The part of \<open>execute\<close> before it calls \<open>fn\<close>: \<open>Inl\<close> is the thrown \<open>CircuitOpenError\<close> with its
  \<open>retryAfterMs\<close>.\<close>

definition admit :: "circuit_config \<Rightarrow> time \<Rightarrow> circuit_breaker \<Rightarrow> (int + unit) \<times> circuit_breaker" where
  "admit cfg now b =
     (let b' = maybeTransitionToHalfOpen cfg now b
      in if cb_state b' = OPEN then (Inl (retryAfterMs cfg now b'), b') else (Inr (), b'))"

datatype 'e execute_error = CircuitOpen int | CallFailed 'e

text \<open>\<open>execute\<close> when nothing else runs while it waits: \<open>now'\<close> is the time at which \<open>fn\<close> settles.\<close>

definition execute ::
  "circuit_config \<Rightarrow> time \<Rightarrow> time \<Rightarrow> ('e + 'a) \<Rightarrow> circuit_breaker \<Rightarrow>
   ('e execute_error + 'a) \<times> circuit_breaker" where
  "execute cfg now now' fn b =
     (case admit cfg now b of
        (Inl ms, b1) \<Rightarrow> (Inl (CircuitOpen ms), b1)
      | (Inr _, b1) \<Rightarrow>
          (case fn of
             Inr result \<Rightarrow> (Inr result, onSuccess now' b1)
           | Inl err \<Rightarrow> (Inl (CallFailed err), onFailure cfg now' b1)))"

record circuit_snapshot =
  snap_state :: circuit_state
  snap_failures :: int
  snap_retryAfterMs :: int

definition toHealthSnapshot :: "circuit_config \<Rightarrow> time \<Rightarrow> circuit_breaker \<Rightarrow> circuit_snapshot \<times> circuit_breaker" where
  "toHealthSnapshot cfg now b =
     (let (st, b1) = currentState cfg now b
      in (\<lparr>snap_state = st, snap_failures = cb_failures b1, snap_retryAfterMs = retryAfterMs cfg now b1\<rparr>, b1))"

section \<open>Steps\<close>

text \<open>What happens to the breaker: a call asks for admission, an admitted call settles, the state is
  read for the health endpoint.\<close>

datatype breaker_event = Admit | Succeed | Fail | Snapshot

fun breaker_step :: "circuit_config \<Rightarrow> breaker_event \<Rightarrow> time \<Rightarrow> circuit_breaker \<Rightarrow> circuit_breaker" where
  "breaker_step cfg Admit now b = snd (admit cfg now b)"
| "breaker_step cfg Succeed now b = onSuccess now b"
| "breaker_step cfg Fail now b = onFailure cfg now b"
| "breaker_step cfg Snapshot now b = snd (toHealthSnapshot cfg now b)"

inductive breaker_reach :: "circuit_config \<Rightarrow> time \<Rightarrow> circuit_breaker \<Rightarrow> bool" for cfg :: circuit_config where
  start: "breaker_reach cfg now (new_breaker now)"
| step: "breaker_reach cfg now b \<Longrightarrow> now \<le> now' \<Longrightarrow> breaker_reach cfg now' (breaker_step cfg ev now' b)"

definition breaker_inv :: "circuit_config \<Rightarrow> time \<Rightarrow> circuit_breaker \<Rightarrow> bool" where
  "breaker_inv cfg now b \<longleftrightarrow>
     0 \<le> cb_failures b \<and> cb_windowStart b \<le> now
     \<and> (cb_state b = CLOSED \<longleftrightarrow> cb_openedAt b = None)
     \<and> (cb_state b = CLOSED \<longrightarrow> cb_failures b < max 1 (failureThreshold cfg))
     \<and> (\<forall>o1. cb_openedAt b = Some o1 \<longrightarrow> o1 \<le> now)"

lemmas breaker_defs = admit_def maybeTransitionToHalfOpen_def onSuccess_def onFailure_def
  toHealthSnapshot_def currentState_def retryAfterMs_def

inductive_cases breaker_reachE: "breaker_reach cfg now b"

lemma breaker_inv_new: "breaker_inv cfg now (new_breaker now)"
  by (simp add: breaker_inv_def new_breaker_def)

lemma breaker_inv_half_open:
  "breaker_inv cfg now b \<Longrightarrow> now \<le> now' \<Longrightarrow> breaker_inv cfg now' (maybeTransitionToHalfOpen cfg now' b)"
  by (auto simp: breaker_inv_def maybeTransitionToHalfOpen_def split: option.splits)

lemma breaker_inv_success: "now \<le> now' \<Longrightarrow> breaker_inv cfg now' (onSuccess now' b)"
  by (simp add: breaker_inv_def onSuccess_def)

lemma breaker_inv_failure:
  "breaker_inv cfg now b \<Longrightarrow> now \<le> now' \<Longrightarrow> breaker_inv cfg now' (onFailure cfg now' b)"
  by (auto simp: breaker_inv_def onFailure_def Let_def)

lemma snd_admit [simp]: "snd (admit cfg now b) = maybeTransitionToHalfOpen cfg now b"
  by (simp add: admit_def Let_def)

lemma snd_snapshot [simp]: "snd (toHealthSnapshot cfg now b) = maybeTransitionToHalfOpen cfg now b"
  by (simp add: toHealthSnapshot_def currentState_def Let_def)

lemma breaker_inv_step:
  "breaker_inv cfg now b \<Longrightarrow> now \<le> now' \<Longrightarrow> breaker_inv cfg now' (breaker_step cfg ev now' b)"
  by (cases ev) (simp_all add: breaker_inv_half_open breaker_inv_success breaker_inv_failure)

lemma breaker_reach_inv: "breaker_reach cfg now b \<Longrightarrow> breaker_inv cfg now b"
  by (induction rule: breaker_reach.induct) (auto intro: breaker_inv_new breaker_inv_step)

section \<open>What the breaker guarantees\<close>

text \<open>
  In every reachable state a closed breaker has counted fewer failures than its threshold and
  keeps no opening time, and an open or half-open one keeps the time it opened.
\<close>

theorem breaker_reachable_invariant:
  assumes "breaker_reach cfg now b"
  shows "0 \<le> cb_failures b \<and> (cb_state b = CLOSED \<longleftrightarrow> cb_openedAt b = None)
    \<and> (cb_state b = CLOSED \<longrightarrow> cb_failures b < max 1 (failureThreshold cfg))"
  using breaker_reach_inv[OF assms] by (simp add: breaker_inv_def)

definition default_circuit :: circuit_config where
  "default_circuit = \<lparr>failureThreshold = 5, windowMs = 30000, cooldownMs = 30000\<rparr>"

definition after_failures :: "circuit_config \<Rightarrow> time list \<Rightarrow> circuit_breaker \<Rightarrow> circuit_breaker" where
  "after_failures cfg ts b = fold (breaker_step cfg Fail) ts b"

lemma reach_failures:
  "breaker_reach cfg now b \<Longrightarrow> sorted (now # ts) \<Longrightarrow>
     breaker_reach cfg (last (now # ts)) (after_failures cfg ts b)"
proof (induction ts arbitrary: now b)
  case (Cons t ts)
  then have "breaker_reach cfg t (breaker_step cfg Fail t b)"
    by (intro breaker_reach.step) auto
  from Cons.IH[OF this] Cons.prems(2) show ?case by (simp add: after_failures_def)
qed (simp add: after_failures_def)

lemma tripped_reachable:
  "breaker_reach default_circuit 5 (after_failures default_circuit [1, 2, 3, 4, 5] (new_breaker 0))"
  using reach_failures[OF breaker_reach.start, of 0 "[1, 2, 3, 4, 5]" default_circuit] by simp

lemma tripped_state:
  "after_failures default_circuit [1, 2, 3, 4, 5] (new_breaker 0) =
     \<lparr>cb_state = OPEN, cb_failures = 5, cb_windowStart = 0, cb_openedAt = Some 5\<rparr>"
  by code_simp

theorem breaker_reachable_invariant_witness:
  "cb_openedAt (after_failures default_circuit [1, 2, 3, 4, 5] (new_breaker 0)) \<noteq> None"
  using breaker_reachable_invariant[OF tripped_reachable] by (simp add: tripped_state)

lemma failures_within_window:
  assumes "\<forall>t \<in> set ts. t - t0 \<le> windowMs cfg" and "int (length ts) < failureThreshold cfg"
  shows "after_failures cfg ts (onSuccess t0 b) =
    (onSuccess t0 b)\<lparr>cb_failures := int (length ts)\<rparr>"
  using assms
proof (induction ts rule: rev_induct)
  case (snoc t ts)
  then have "after_failures cfg ts (onSuccess t0 b) = (onSuccess t0 b)\<lparr>cb_failures := int (length ts)\<rparr>"
    by simp
  with snoc.prems show ?case
    by (simp add: after_failures_def onFailure_def onSuccess_def)
qed (simp add: after_failures_def onSuccess_def)

text \<open>
  C32.  A breaker trips exactly at its threshold: after a success at \<open>t0\<close>, calls that fail within the
  window leave it closed while they are fewer than the threshold, and the one that reaches the
  threshold opens it at its own time.
\<close>

theorem breaker_trips_at_threshold:
  assumes "\<forall>t \<in> set (ts @ [t]). t - t0 \<le> windowMs cfg"
    and "int (length ts) + 1 = failureThreshold cfg"
  shows "cb_state (after_failures cfg ts (onSuccess t0 b)) = CLOSED
    \<and> cb_state (after_failures cfg (ts @ [t]) (onSuccess t0 b)) = OPEN
    \<and> cb_openedAt (after_failures cfg (ts @ [t]) (onSuccess t0 b)) = Some t"
proof -
  have "after_failures cfg ts (onSuccess t0 b) = (onSuccess t0 b)\<lparr>cb_failures := int (length ts)\<rparr>"
    by (rule failures_within_window) (use assms in simp_all)
  moreover from this have "after_failures cfg (ts @ [t]) (onSuccess t0 b) =
      onFailure cfg t ((onSuccess t0 b)\<lparr>cb_failures := int (length ts)\<rparr>)"
    by (simp add: after_failures_def)
  ultimately show ?thesis using assms by (simp add: onSuccess_def onFailure_def)
qed

theorem breaker_trips_at_threshold_witness:
  "cb_state (after_failures default_circuit [1, 2, 3, 4, 5] (onSuccess 0 (new_breaker 0))) = OPEN"
  using breaker_trips_at_threshold[of "[1, 2, 3, 4]" 5 0 default_circuit "new_breaker 0"]
  by (simp add: default_circuit_def)

text \<open>
  A tripped breaker fails fast exactly during its cool-down: until then every call is refused
  with the time left, positive and at most the cool-down, and nothing changes; from then on a call
  is let through and the breaker is half open.
\<close>

theorem open_breaker_admission:
  assumes "breaker_reach cfg now b" and "cb_state b = OPEN" and "now \<le> now'"
  shows "\<exists>o1. cb_openedAt b = Some o1 \<and>
    admit cfg now' b =
      (if now' - o1 < cooldownMs cfg then (Inl (cooldownMs cfg - (now' - o1)), b)
       else (Inr (), b\<lparr>cb_state := HALF_OPEN\<rparr>))"
proof -
  from breaker_reach_inv[OF assms(1)] assms(2) obtain o1 where "cb_openedAt b = Some o1"
    by (cases "cb_openedAt b") (auto simp: breaker_inv_def)
  with assms(2) show ?thesis
    by (auto simp: admit_def maybeTransitionToHalfOpen_def retryAfterMs_def)
qed

theorem open_breaker_admission_witness:
  "admit default_circuit 10 (after_failures default_circuit [1, 2, 3, 4, 5] (new_breaker 0)) =
     (Inl 29995, after_failures default_circuit [1, 2, 3, 4, 5] (new_breaker 0))"
  using open_breaker_admission[OF tripped_reachable, of 10]
  by (simp add: tripped_state) (simp add: default_circuit_def)

text \<open>
  With a threshold above one, a probe that fails after the failure window is over (with the
  default, equal, window and cool-down every probe does) does not reopen the breaker: the count
  restarts at one, the breaker stays half open and every later call is let through.
\<close>

theorem failed_probe_stays_half_open:
  assumes "cb_state b = OPEN" and "admit cfg t1 b = (Inr (), b1)"
    and "windowMs cfg < t2 - cb_windowStart b" and "1 < failureThreshold cfg"
  shows "cb_state (onFailure cfg t2 b1) = HALF_OPEN \<and> cb_failures (onFailure cfg t2 b1) = 1
    \<and> admit cfg t3 (onFailure cfg t2 b1) = (Inr (), onFailure cfg t2 b1)"
proof -
  from assms(1,2) have "b1 = b\<lparr>cb_state := HALF_OPEN\<rparr>"
    by (auto simp: admit_def maybeTransitionToHalfOpen_def Let_def split: if_splits)
  then show ?thesis
    using assms(3,4) by (simp add: onFailure_def admit_def maybeTransitionToHalfOpen_def)
qed

theorem failed_probe_stays_half_open_witness:
  "cb_state (onFailure default_circuit 30006
     ((after_failures default_circuit [1, 2, 3, 4, 5] (new_breaker 0))\<lparr>cb_state := HALF_OPEN\<rparr>)) = HALF_OPEN"
  using failed_probe_stays_half_open[of
      "after_failures default_circuit [1, 2, 3, 4, 5] (new_breaker 0)" default_circuit 30005
      "(after_failures default_circuit [1, 2, 3, 4, 5] (new_breaker 0))\<lparr>cb_state := HALF_OPEN\<rparr>" 30006 0]
  by (simp add: tripped_state) (simp add: default_circuit_def admit_def maybeTransitionToHalfOpen_def)

end
