(* ===== verification/Idempotency.thy ===== *)
theory Idempotency
  imports Stores Http "HOL-Library.Multiset"
begin

text \<open>
  The idempotency-key store of the mutating endpoints (\<open>backend/src/idempotency.ts\<close>).  \<open>execute\<close>
  waits for the operation it protects, so it is modelled by the parts between its waits:
  \<open>begin_execute\<close> up to the first wait, \<open>settle\<close> when the operation's promise settles,
  \<open>finish_execute\<close> the \<open>finally\<close> block.  Promises live in an explicit heap of operations, which the
  pending map, the first caller and the waiting callers all refer to.
\<close>

section \<open>State\<close>

datatype key_status = Pending | Completed

record idem_metadata =
  im_createdAt :: time
  im_lastAccessedAt :: time
  im_replayCount :: nat
  im_status :: key_status

record 'b operation_result =
  or_statusCode :: int
  or_body :: 'b

record 'b stored_response = "'b operation_result" +
  st_fingerprint :: string
  st_metadata :: idem_metadata

datatype ('b, 'e) promise = Running | Fulfilled "'b stored_response" | Rejected 'e

record ('b, 'e) pending_operation =
  po_key :: string
  po_fingerprint :: string
  po_promise :: "('b, 'e) promise"
  po_metadata :: idem_metadata

record ('c, 'b, 'e) idempotency_store =
  completedResponses :: 'c
  pendingResponses :: "(string, nat) js_map"
  heap :: "(nat, ('b, 'e) pending_operation) js_map"
  next_op :: nat
  hits :: nat
  conflicts :: nat
  evictions :: nat

definition idem_ttl_seconds :: "int \<Rightarrow> int" where
  "idem_ttl_seconds ttlMs = max 1 (ceil_div ttlMs 1000)"

definition new_idempotency_store :: "'c \<Rightarrow> ('c, 'b, 'e) idempotency_store" where
  "new_idempotency_store c = \<lparr>completedResponses = c, pendingResponses = [], heap = [], next_op = 0,
     hits = 0, conflicts = 0, evictions = 0\<rparr>"

section \<open>execute\<close>

datatype 'b begun = Conflict | Replay "'b operation_result" | AwaitOp nat | Started nat

definition touch :: "time \<Rightarrow> idem_metadata \<Rightarrow> idem_metadata" where
  "touch now m = m\<lparr>im_lastAccessedAt := now, im_replayCount := Suc (im_replayCount m)\<rparr>"

definition result_of :: "'b stored_response \<Rightarrow> 'b operation_result" where
  "result_of r = \<lparr>or_statusCode = or_statusCode r, or_body = or_body r\<rparr>"

definition initial_metadata :: "time \<Rightarrow> idem_metadata" where
  "initial_metadata now = \<lparr>im_createdAt = now, im_lastAccessedAt = now, im_replayCount = 0, im_status = Pending\<rparr>"

definition begin_execute ::
  "('c, 'b stored_response) node_cache_ops \<Rightarrow> time \<Rightarrow> string \<Rightarrow> string \<Rightarrow>
   ('c, 'b, 'e) idempotency_store \<Rightarrow> 'b begun \<times> ('c, 'b, 'e) idempotency_store" where
  "begin_execute C now key fingerprint s =
     (case nc_get C now key (completedResponses s) of
        Some completed \<Rightarrow>
          if st_fingerprint completed \<noteq> fingerprint
          then (Conflict, s\<lparr>conflicts := Suc (conflicts s)\<rparr>)
          else
            (Replay (result_of completed),
             s\<lparr>hits := Suc (hits s),
               completedResponses := nc_set C now key
                 (completed\<lparr>st_metadata := touch now (st_metadata completed)\<rparr>) None (completedResponses s)\<rparr>)
      | None \<Rightarrow>
          (case map_of (pendingResponses s) key of
             Some p \<Rightarrow>
               (case map_of (heap s) p of
                  Some pending \<Rightarrow>
                    if po_fingerprint pending \<noteq> fingerprint
                    then (Conflict, s\<lparr>conflicts := Suc (conflicts s)\<rparr>)
                    else (AwaitOp p,
                          s\<lparr>hits := Suc (hits s),
                            heap := AList.update p
                              (pending\<lparr>po_metadata := touch now (po_metadata pending)\<rparr>) (heap s)\<rparr>)
                | None \<Rightarrow> (Conflict, s))
           | None \<Rightarrow>
               (Started (next_op s),
                s\<lparr>heap := AList.update (next_op s)
                    \<lparr>po_key = key, po_fingerprint = fingerprint, po_promise = Running,
                     po_metadata = initial_metadata now\<rparr> (heap s),
                  pendingResponses := AList.update key (next_op s) (pendingResponses s),
                  next_op := Suc (next_op s)\<rparr>)))"

text \<open>The operation's promise settles: a result is stored under the operation's key for \<open>ttlMs\<close>.\<close>

definition settle ::
  "('c, 'b stored_response) node_cache_ops \<Rightarrow> int \<Rightarrow> time \<Rightarrow> nat \<Rightarrow> 'e + 'b operation_result \<Rightarrow>
   ('c, 'b, 'e) idempotency_store \<Rightarrow> ('c, 'b, 'e) idempotency_store" where
  "settle C ttlMs now p outcome s =
     (case map_of (heap s) p of
        None \<Rightarrow> s
      | Some q \<Rightarrow>
          (case outcome of
             Inl err \<Rightarrow> s\<lparr>heap := AList.update p (q\<lparr>po_promise := Rejected err\<rparr>) (heap s)\<rparr>
           | Inr result \<Rightarrow>
               let stored = \<lparr>or_statusCode = or_statusCode result, or_body = or_body result,
                             st_fingerprint = po_fingerprint q,
                             st_metadata = (po_metadata q)\<lparr>im_status := Completed, im_lastAccessedAt := now\<rparr>\<rparr>
               in s\<lparr>completedResponses :=
                      nc_set C now (po_key q) stored (Some ttlMs) (completedResponses s),
                    heap := AList.update p (q\<lparr>po_promise := Fulfilled stored\<rparr>) (heap s)\<rparr>))"

text \<open>The first caller wakes up: the \<open>finally\<close> block drops the pending entry of its key.\<close>

definition finish_execute :: "nat \<Rightarrow> ('c, 'b, 'e) idempotency_store \<Rightarrow> ('c, 'b, 'e) idempotency_store" where
  "finish_execute p s =
     (case map_of (heap s) p of
        None \<Rightarrow> s
      | Some q \<Rightarrow> s\<lparr>pendingResponses := AList.delete (po_key q) (pendingResponses s)\<rparr>)"

text \<open>What a caller that waits on a settled promise gets: the stored result, or the error.\<close>

definition awaited :: "nat \<Rightarrow> ('c, 'b, 'e) idempotency_store \<Rightarrow> ('e + 'b operation_result) option" where
  "awaited p s =
     (case map_of (heap s) p of
        None \<Rightarrow> None
      | Some q \<Rightarrow> (case po_promise q of
            Running \<Rightarrow> None
          | Fulfilled r \<Rightarrow> Some (Inr (result_of r))
          | Rejected e \<Rightarrow> Some (Inl e)))"

definition on_expired :: "('c, 'b, 'e) idempotency_store \<Rightarrow> ('c, 'b, 'e) idempotency_store" where
  "on_expired s = s\<lparr>evictions := Suc (evictions s)\<rparr>"

section \<open>Inspection and administration\<close>

definition prefix_matches :: "string option \<Rightarrow> string \<Rightarrow> bool" where
  "prefix_matches prefix key = (case prefix of None \<Rightarrow> True | Some p \<Rightarrow> p = [] \<or> starts_with p key)"

definition completed_infos ::
  "('c, 'b stored_response) node_cache_ops \<Rightarrow> time \<Rightarrow> string option \<Rightarrow> ('c, 'b, 'e) idempotency_store \<Rightarrow>
   (string \<times> idem_metadata) list" where
  "completed_infos C now prefix s =
     List.map_filter (\<lambda>key. if \<not> prefix_matches prefix key then None
         else map_option (\<lambda>entry. (key, st_metadata entry)) (nc_get C now key (completedResponses s)))
       (nc_keys C (completedResponses s))"

definition pending_infos ::
  "string option \<Rightarrow> string list \<Rightarrow> ('c, 'b, 'e) idempotency_store \<Rightarrow> (string \<times> idem_metadata) list" where
  "pending_infos prefix seen s =
     List.map_filter (\<lambda>(key, p). if \<not> prefix_matches prefix key \<or> key \<in> set seen then None
         else map_option (\<lambda>q. (key, po_metadata q)) (map_of (heap s) p))
       (pendingResponses s)"

definition inspectKeys ::
  "('c, 'b stored_response) node_cache_ops \<Rightarrow> time \<Rightarrow> string option \<Rightarrow> ('c, 'b, 'e) idempotency_store \<Rightarrow>
   (string \<times> idem_metadata) list" where
  "inspectKeys C now prefix s =
     (let done1 = completed_infos C now prefix s in done1 @ pending_infos prefix (map fst done1) s)"

definition deleteKey ::
  "('c, 'b stored_response) node_cache_ops \<Rightarrow> string \<Rightarrow> ('c, 'b, 'e) idempotency_store \<Rightarrow>
   bool \<times> ('c, 'b, 'e) idempotency_store" where
  "deleteKey C key s =
     (let (n, c) = nc_del C key (completedResponses s);
          deletedCompleted = 0 < n;
          deletedPending = jm_has (pendingResponses s) key;
          s1 = s\<lparr>completedResponses := c, pendingResponses := AList.delete key (pendingResponses s)\<rparr>
      in if deletedCompleted \<or> deletedPending then (True, s1\<lparr>evictions := Suc (evictions s)\<rparr>)
         else (False, s1))"

definition clear_store ::
  "('c, 'b stored_response) node_cache_ops \<Rightarrow> ('c, 'b, 'e) idempotency_store \<Rightarrow> ('c, 'b, 'e) idempotency_store" where
  "clear_store C s =
     (let completedCount = length (nc_keys C (completedResponses s));
          pendingCount = length (pendingResponses s)
      in s\<lparr>evictions := evictions s + (completedCount + pendingCount),
           completedResponses := nc_flush C (completedResponses s), pendingResponses := []\<rparr>)"

record idempotency_metrics =
  ix_hits :: nat
  ix_conflicts :: nat
  ix_evictions :: nat
  ix_activeKeys :: nat
  ix_pendingKeys :: nat

definition idem_getMetrics ::
  "('c, 'b stored_response) node_cache_ops \<Rightarrow> ('c, 'b, 'e) idempotency_store \<Rightarrow> idempotency_metrics" where
  "idem_getMetrics C s = \<lparr>ix_hits = hits s, ix_conflicts = conflicts s, ix_evictions = evictions s,
     ix_activeKeys = length (nc_keys C (completedResponses s)),
     ix_pendingKeys = length (pendingResponses s)\<rparr>"

section \<open>Steps\<close>

text \<open>Any interleaving of requests, the administrative deletions left out: a request begins, an
  operation that runs settles, the first caller of a settled operation finishes.\<close>

inductive idem_step ::
  "('c, 'b stored_response) node_cache_ops \<Rightarrow> int \<Rightarrow> time \<times> ('c, 'b, 'e) idempotency_store \<Rightarrow>
   time \<times> ('c, 'b, 'e) idempotency_store \<Rightarrow> bool"
  for C :: "('c, 'b stored_response) node_cache_ops" and ttlMs :: int where
  step_begin: "now \<le> now' \<Longrightarrow> idem_step C ttlMs (now, s) (now', snd (begin_execute C now' key fp s))"
| step_settle: "now \<le> now' \<Longrightarrow> map_of (heap s) p = Some q \<Longrightarrow> po_promise q = Running \<Longrightarrow>
     idem_step C ttlMs (now, s) (now', settle C ttlMs now' p outcome s)"
| step_finish: "now \<le> now' \<Longrightarrow> map_of (heap s) p = Some q \<Longrightarrow> po_promise q \<noteq> Running \<Longrightarrow>
     map_of (pendingResponses s) (po_key q) = Some p \<Longrightarrow>
     idem_step C ttlMs (now, s) (now', finish_execute p s)"
| step_expired: "now \<le> now' \<Longrightarrow> idem_step C ttlMs (now, s) (now', on_expired s)"

inductive_cases idem_stepE: "idem_step C ttlMs x y"

definition idem_steps ::
  "('c, 'b stored_response) node_cache_ops \<Rightarrow> int \<Rightarrow> time \<times> ('c, 'b, 'e) idempotency_store \<Rightarrow>
   time \<times> ('c, 'b, 'e) idempotency_store \<Rightarrow> bool" where
  "idem_steps C ttlMs = (idem_step C ttlMs)\<^sup>*\<^sup>*"

text \<open>Every running operation is the pending one of its key, and every pending entry refers to an
  operation of its key.\<close>

definition single_flight :: "('c, 'b, 'e) idempotency_store \<Rightarrow> bool" where
  "single_flight s \<longleftrightarrow>
     (\<forall>p q. map_of (heap s) p = Some q \<longrightarrow> p < next_op s)
     \<and> (\<forall>k p. map_of (pendingResponses s) k = Some p \<longrightarrow> (\<exists>q. map_of (heap s) p = Some q \<and> po_key q = k))
     \<and> (\<forall>p q. map_of (heap s) p = Some q \<and> po_promise q = Running \<longrightarrow>
          map_of (pendingResponses s) (po_key q) = Some p)"

lemma single_flight_new: "single_flight (new_idempotency_store c)"
  by (simp add: single_flight_def new_idempotency_store_def)

lemma single_flight_cong:
  "heap s = heap s' \<Longrightarrow> pendingResponses s = pendingResponses s' \<Longrightarrow> next_op s = next_op s' \<Longrightarrow>
     single_flight s = single_flight s'"
  by (simp add: single_flight_def)

lemma single_flight_pending:
  "single_flight s \<Longrightarrow> map_of (pendingResponses s) k = Some p \<Longrightarrow> map_of (heap s) p = Some q \<Longrightarrow> po_key q = k"
  unfolding single_flight_def by (metis option.inject)

lemma single_flight_running:
  "single_flight s \<Longrightarrow> map_of (heap s) p = Some q \<Longrightarrow> po_promise q = Running \<Longrightarrow>
     map_of (pendingResponses s) (po_key q) = Some p"
  unfolding single_flight_def by blast

lemma single_flight_update:
  assumes "single_flight s" and "map_of (heap s) p = Some q" and "po_key q' = po_key q"
    and "po_promise q' = Running \<Longrightarrow> po_promise q = Running"
  shows "single_flight (s\<lparr>heap := AList.update p q' (heap s)\<rparr>)"
  unfolding single_flight_def
proof (intro conjI allI impI)
  fix p' q1 assume "map_of (heap (s\<lparr>heap := AList.update p q' (heap s)\<rparr>)) p' = Some q1"
  then show "p' < next_op (s\<lparr>heap := AList.update p q' (heap s)\<rparr>)"
    using assms(1,2) by (auto simp: jmap.look_put single_flight_def split: if_splits)
next
  fix k p' assume "map_of (pendingResponses (s\<lparr>heap := AList.update p q' (heap s)\<rparr>)) k = Some p'"
  then have k: "map_of (pendingResponses s) k = Some p'" by simp
  then obtain q1 where "map_of (heap s) p' = Some q1" "po_key q1 = k"
    using assms(1) unfolding single_flight_def by blast
  then show "\<exists>q1. map_of (heap (s\<lparr>heap := AList.update p q' (heap s)\<rparr>)) p' = Some q1 \<and> po_key q1 = k"
    using assms(2,3) by (auto simp: jmap.look_put)
next
  fix p' q1 assume "map_of (heap (s\<lparr>heap := AList.update p q' (heap s)\<rparr>)) p' = Some q1 \<and> po_promise q1 = Running"
  then show "map_of (pendingResponses (s\<lparr>heap := AList.update p q' (heap s)\<rparr>)) (po_key q1) = Some p'"
    using assms single_flight_running[OF assms(1)] by (auto simp: jmap.look_put split: if_splits)
qed

lemma single_flight_begin:
  assumes "single_flight s" shows "single_flight (snd (begin_execute C now key fp s))"
proof (cases "nc_get C now key (completedResponses s)")
  case (Some completed)
  then show ?thesis using assms
    by (auto simp: begin_execute_def single_flight_def)
next
  case None
  show ?thesis
  proof (cases "map_of (pendingResponses s) key")
    case (Some p)
    with assms obtain q where q: "map_of (heap s) p = Some q" "po_key q = key"
      unfolding single_flight_def by blast
    let ?h = "AList.update p (q\<lparr>po_metadata := touch now (po_metadata q)\<rparr>) (heap s)"
    have "single_flight (s\<lparr>heap := ?h\<rparr>)" by (rule single_flight_update[OF assms q(1)]) simp_all
    then have "single_flight (s\<lparr>hits := Suc (hits s), heap := ?h\<rparr>)"
      by (rule single_flight_cong[THEN iffD1, rotated -1]) simp_all
    moreover have "single_flight (s\<lparr>conflicts := n\<rparr>)" for n
      using assms by (rule single_flight_cong[THEN iffD1, rotated -1]) simp_all
    ultimately show ?thesis using None Some q by (simp add: begin_execute_def)
  next
    case None': None
    have "map_of (heap s) (next_op s) = None"
      using assms unfolding single_flight_def by (meson less_irrefl not_None_eq)
    moreover from this have "map_of (pendingResponses s) k \<noteq> Some (next_op s)" for k
      using assms unfolding single_flight_def by (metis option.distinct(1))
    ultimately show ?thesis using None None' assms
      by (auto simp: begin_execute_def single_flight_def jmap.look_put less_SucI split: if_splits)
  qed
qed

lemma single_flight_settle:
  assumes "single_flight s" and "map_of (heap s) p = Some q"
  shows "single_flight (settle C ttlMs now p outcome s)"
proof -
  have up: "single_flight (s\<lparr>heap := AList.update p (q\<lparr>po_promise := pr\<rparr>) (heap s)\<rparr>)"
    if "pr \<noteq> Running" for pr
    by (rule single_flight_update[OF assms]) (use that in simp_all)
  have "single_flight (s\<lparr>completedResponses := c, heap := AList.update p (q\<lparr>po_promise := pr\<rparr>) (heap s)\<rparr>)"
    if "pr \<noteq> Running" for pr c
    using up[OF that] by (rule single_flight_cong[THEN iffD1, rotated -1]) simp_all
  with up assms(2) show ?thesis by (cases outcome) (simp_all add: settle_def Let_def)
qed

lemma single_flight_finish:
  assumes sf: "single_flight s" and q: "map_of (heap s) p = Some q" and "po_promise q \<noteq> Running"
    and pend: "map_of (pendingResponses s) (po_key q) = Some p"
  shows "single_flight (finish_execute p s)"
proof -
  have "po_key q1 \<noteq> po_key q" if "map_of (heap s) p1 = Some q1" "po_promise q1 = Running" for p1 q1
  proof
    assume "po_key q1 = po_key q"
    with single_flight_running[OF sf that] pend have "p1 = p" by simp
    with that q assms(3) show False by simp
  qed
  with assms show ?thesis
    by (auto simp: finish_execute_def single_flight_def jmap.look_del)
qed

lemma single_flight_step:
  "idem_step C ttlMs x y \<Longrightarrow> single_flight (snd x) \<Longrightarrow> single_flight (snd y)"
  by (erule idem_stepE)
    (auto simp: single_flight_begin single_flight_settle single_flight_finish,
     simp add: on_expired_def single_flight_def)

lemma single_flight_steps: "idem_steps C ttlMs x y \<Longrightarrow> single_flight (snd x) \<Longrightarrow> single_flight (snd y)"
  unfolding idem_steps_def by (induction rule: rtranclp_induct) (auto intro: single_flight_step)

lemma idem_step_time: "idem_step C ttlMs x y \<Longrightarrow> fst x \<le> fst y"
  by (erule idem_stepE) auto

lemma idem_steps_time: "idem_steps C ttlMs x y \<Longrightarrow> fst x \<le> fst y"
  unfolding idem_steps_def
  by (induction rule: rtranclp_induct) (auto dest: idem_step_time)

section \<open>A stored result answers every later request\<close>

text \<open>\<open>answers C key fp res D s\<close>: until time \<open>D\<close> the store holds result \<open>res\<close> of fingerprint \<open>fp\<close>
  under \<open>key\<close>, and no operation of that key runs.\<close>

definition answers ::
  "('c, 'b stored_response) node_cache_ops \<Rightarrow> string \<Rightarrow> string \<Rightarrow> 'b operation_result \<Rightarrow> time \<Rightarrow>
   ('c, 'b, 'e) idempotency_store \<Rightarrow> bool" where
  "answers C key fp res D s \<longleftrightarrow>
     (\<forall>t < D. \<exists>r. nc_get C t key (completedResponses s) = Some r \<and> st_fingerprint r = fp \<and> result_of r = res)
     \<and> (\<forall>p q. map_of (heap s) p = Some q \<and> po_promise q = Running \<longrightarrow> po_key q \<noteq> key)"

lemma result_of_metadata [simp]: "result_of (r\<lparr>st_metadata := m\<rparr>) = result_of r"
  by (simp add: result_of_def)

context node_cache
begin

lemma get_set_live_None: "t' < t + std_ttl \<Longrightarrow> nc_get C t' k (nc_set C t k v None c) = Some v"
  using nc_get_set_live[of t' t None] by simp

end

locale idem_cache = node_cache C std_ttl
  for C :: "('c, 'b stored_response) node_cache_ops" and std_ttl :: int +
  fixes ttlMs :: int
  assumes std_covers: "ttlMs \<le> std_ttl"
begin

lemma answers_begin:
  assumes "answers C key fp res D s" and "now < D" and "D \<le> now + std_ttl"
  shows "answers C key fp res D (snd (begin_execute C now key' fp' s))"
proof (cases "key' = key")
  case True
  from assms obtain r where r: "nc_get C now key (completedResponses s) = Some r"
    "st_fingerprint r = fp" "result_of r = res" unfolding answers_def by blast
  let ?r = "r\<lparr>st_metadata := touch now (st_metadata r)\<rparr>"
  have "nc_get C t key (nc_set C now key ?r None (completedResponses s)) = Some ?r" if "t < D" for t
    using get_set_live_None[of t now] that assms(3) by simp
  with True r assms(1) show ?thesis
    by (auto simp: begin_execute_def answers_def)
next
  case False
  with assms(1) show ?thesis
    by (auto simp: begin_execute_def answers_def jmap.look_put nc_get_set_other
        split: option.splits if_splits)
qed

lemma answers_settle:
  assumes "answers C key fp res D s" and "map_of (heap s) p = Some q" and "po_promise q = Running"
  shows "answers C key fp res D (settle C ttlMs now p outcome s)"
proof -
  have "key \<noteq> po_key q" using assms unfolding answers_def by blast
  with assms show ?thesis
    by (auto simp: settle_def answers_def jmap.look_put nc_get_set_other Let_def split: sum.splits)
qed

lemma answers_step:
  assumes "idem_step C ttlMs x y" and "answers C key fp res D (snd x)"
    and "fst y < D" and "D \<le> fst x + std_ttl"
  shows "answers C key fp res D (snd y)"
  using assms
proof (cases rule: idem_step.cases)
  case (step_begin now now' s key' fp')
  then show ?thesis using assms answers_begin[of key fp res D s now' key' fp'] by simp
next
  case (step_settle now now' s p q outcome)
  then show ?thesis using assms answers_settle by simp
next
  case (step_finish now now' s p q)
  then show ?thesis using assms by (auto simp: finish_execute_def answers_def)
next
  case (step_expired now now' s)
  then show ?thesis using assms by (auto simp: on_expired_def answers_def)
qed

lemma answers_steps:
  assumes "idem_steps C ttlMs x y" and "answers C key fp res D (snd x)"
    and "fst y < D" and "D \<le> fst x + std_ttl"
  shows "answers C key fp res D (snd y)"
  using assms(1,3) unfolding idem_steps_def
proof (induction rule: rtranclp_induct)
  case (step y z)
  then have "fst y \<le> fst z" by (simp add: idem_step_time)
  moreover have "fst x \<le> fst y" using step.hyps(1) idem_steps_time[of C ttlMs x y] by (simp add: idem_steps_def)
  ultimately show ?case
    using step answers_step[OF step.hyps(2)] assms(4) by simp
qed (use assms(2) in simp)

lemma answers_after_settle:
  assumes "single_flight s" and "map_of (heap s) p = Some q" and "po_promise q = Running"
  shows "answers C (po_key q) (po_fingerprint q) \<lparr>or_statusCode = or_statusCode res, or_body = or_body res\<rparr> (now + ttlMs)
     (settle C ttlMs now p (Inr res) s)"
proof -
  let ?st = "\<lparr>or_statusCode = or_statusCode res, or_body = or_body res, st_fingerprint = po_fingerprint q,
     st_metadata = (po_metadata q)\<lparr>im_status := Completed, im_lastAccessedAt := now\<rparr>\<rparr>"
  have "nc_get C t (po_key q) (nc_set C now (po_key q) ?st (Some ttlMs) (completedResponses s)) = Some ?st"
    if "t < now + ttlMs" for t
    using nc_get_set_live[of t now "Some ttlMs"] that by simp
  moreover have "po_key q' \<noteq> po_key q"
    if "map_of (heap s) p' = Some q'" "po_promise q' = Running" "p' \<noteq> p" for p' q'
  proof
    assume "po_key q' = po_key q"
    with that assms show False unfolding single_flight_def by (metis option.inject)
  qed
  ultimately show ?thesis using assms(2)
    by (auto simp: settle_def answers_def jmap.look_put result_of_def Let_def split: if_splits)
qed

lemma replay_or_conflict:
  assumes "answers C key fp res D s" and "now < D"
  shows "fst (begin_execute C now key fp' s) = (if fp' = fp then Replay res else Conflict)"
proof -
  from assms obtain r where "nc_get C now key (completedResponses s) = Some r"
    "st_fingerprint r = fp" "result_of r = res" unfolding answers_def by blast
  then show ?thesis by (auto simp: begin_execute_def)
qed

end

interpretation idem_deadline: idem_cache "deadline_cache ttl" ttl ttl
  by (rule idem_cache.intro[OF deadline.node_cache_axioms]) (simp add: idem_cache_axioms_def)

section \<open>Properties of the store\<close>

text \<open>
  C8.  Single flight: in every reachable state (no administrative deletion) at most one operation
  per key runs, and a request starts an operation only when none is running and nothing is stored
  for its key; otherwise it replays, waits for the running one, or is refused as a conflict.
\<close>

theorem idempotency_single_flight:
  assumes "idem_steps C ttlMs (t0, new_idempotency_store c) (now, s)"
  shows "(\<forall>p q p' q'. map_of (heap s) p = Some q \<and> map_of (heap s) p' = Some q'
            \<and> po_promise q = Running \<and> po_promise q' = Running \<and> po_key q = po_key q' \<longrightarrow> p = p')
    \<and> (\<forall>key fp n. fst (begin_execute C now key fp s) = Started n \<longrightarrow>
         nc_get C now key (completedResponses s) = None
         \<and> (\<forall>p q. map_of (heap s) p = Some q \<and> po_promise q = Running \<longrightarrow> po_key q \<noteq> key))"
proof -
  have sf: "single_flight s" using single_flight_steps[OF assms] by (simp add: single_flight_new)
  have "p = p'" if "map_of (heap s) p = Some q" "map_of (heap s) p' = Some q'"
    "po_promise q = Running" "po_promise q' = Running" "po_key q = po_key q'" for p q p' q'
    using single_flight_running[OF sf] that by (metis option.inject)
  moreover have "nc_get C now key (completedResponses s) = None
      \<and> (\<forall>p q. map_of (heap s) p = Some q \<and> po_promise q = Running \<longrightarrow> po_key q \<noteq> key)"
    if "fst (begin_execute C now key fp s) = Started n" for key fp n
  proof -
    have "nc_get C now key (completedResponses s) = None" "map_of (pendingResponses s) key = None"
      using that by (auto simp: begin_execute_def split: option.splits if_splits)
    then show ?thesis using single_flight_running[OF sf] by auto
  qed
  ultimately show ?thesis by blast
qed

type_synonym sample_store = "(int stored_response deadline_map, int, string) idempotency_store"

definition sample_started :: sample_store where
  "sample_started = snd (begin_execute (deadline_cache 1000) 0 ''k'' ''f'' (new_idempotency_store []))"

lemma sample_started_steps:
  "idem_steps (deadline_cache 1000) 1000 (0, new_idempotency_store []) (0, sample_started)"
  unfolding idem_steps_def sample_started_def
  by (rule r_into_rtranclp) (rule step_begin, simp)

lemma sample_started_heap:
  "map_of (heap sample_started) 0 = Some \<lparr>po_key = ''k'', po_fingerprint = ''f'',
     po_promise = Running, po_metadata = initial_metadata 0\<rparr>"
  by code_simp

theorem idempotency_single_flight_witness:
  "\<forall>n. fst (begin_execute (deadline_cache 1000) 0 ''k'' ''f'' sample_started) \<noteq> Started n"
  using idempotency_single_flight[OF sample_started_steps] sample_started_heap by fastforce

text \<open>
  C7.  Exactly-once answers.  When the operation of a key completes with a result at \<open>now\<close>, every
  request for that key that begins before \<open>now + ttlMs\<close>, after any interleaving of other requests,
  gets that very result without running the operation again if its fingerprint is the same, and is
  refused with a conflict if it is not.
\<close>

theorem idempotency_exactly_once:
  assumes "node_cache C std" and "ttlMs \<le> std"
    and "idem_steps C ttlMs (t0, new_idempotency_store c) (t1, s)"
    and "map_of (heap s) p = Some q" and "po_promise q = Running" and "t1 \<le> now"
    and "idem_steps C ttlMs (now, settle C ttlMs now p (Inr res) s) (now', s')"
    and "now' < now + ttlMs"
  shows "fst (begin_execute C now' (po_key q) fp s') =
    (if fp = po_fingerprint q
     then Replay \<lparr>or_statusCode = or_statusCode res, or_body = or_body res\<rparr> else Conflict)"
proof -
  have cache: "idem_cache C std ttlMs"
    by (rule idem_cache.intro[OF assms(1)]) (simp add: idem_cache_axioms_def assms(2))
  have "single_flight s" using single_flight_steps[OF assms(3)] by (simp add: single_flight_new)
  note a = idem_cache.answers_after_settle[OF cache this assms(4,5), of res now]
  have "answers C (po_key q) (po_fingerprint q)
      \<lparr>or_statusCode = or_statusCode res, or_body = or_body res\<rparr> (now + ttlMs) s'"
    using idem_cache.answers_steps[OF cache assms(7), of "po_key q" "po_fingerprint q" _ "now + ttlMs"]
      a assms(2,8) by simp
  from idem_cache.replay_or_conflict[OF cache this assms(8)] show ?thesis .
qed

theorem idempotency_exactly_once_witness:
  "fst (begin_execute (deadline_cache 1000) 999 ''k'' ''f'' (snd (begin_execute (deadline_cache 1000) 999 ''o'' ''f''
     (settle (deadline_cache 1000) 1000 0 0 (Inr \<lparr>or_statusCode = 201, or_body = 7\<rparr>) sample_started))))
   = Replay \<lparr>or_statusCode = 201, or_body = 7\<rparr>"
proof -
  let ?s = "settle (deadline_cache 1000) 1000 0 0 (Inr \<lparr>or_statusCode = 201, or_body = 7\<rparr>) sample_started"
  have "idem_steps (deadline_cache 1000) 1000 (0, ?s)
      (999, snd (begin_execute (deadline_cache 1000) 999 ''o'' ''f'' ?s))"
    unfolding idem_steps_def by (rule r_into_rtranclp) (rule step_begin, simp)
  from idempotency_exactly_once[OF deadline.node_cache_axioms order_refl sample_started_steps
      sample_started_heap _ _ this, of "''f''"]
  show ?thesis by simp
qed

text \<open>
  A failed operation is not remembered: when it settles with an error and its first caller
  has finished, the next request for the key starts afresh (nothing being stored under the key).
\<close>

theorem idempotency_failure_releases:
  assumes "map_of (heap s) p = Some q" and "nc_get C now (po_key q) (completedResponses s) = None"
  shows "fst (begin_execute C now (po_key q) fp (finish_execute p (settle C ttlMs t p (Inl err) s)))
    = Started (next_op s)"
  using assms by (simp add: begin_execute_def settle_def finish_execute_def jmap.look_put jmap.look_del)

theorem idempotency_failure_releases_witness:
  "fst (begin_execute (deadline_cache 1000) 5 ''k'' ''g''
     (finish_execute 0 (settle (deadline_cache 1000) 1000 4 0 (Inl ''boom'') sample_started))) = Started 1"
  using idempotency_failure_releases[OF sample_started_heap, of "deadline_cache 1000" 5]
  by (simp add: sample_started_def begin_execute_def deadline_cache_def dm_get_def
      new_idempotency_store_def)

text \<open>
  A replay does not keep the remaining life time of the entry, as the comment in \<open>execute\<close>
  says it does: it restarts it, so the entry is still replayed a full default life time after the
  last replay, however old it is.
\<close>

theorem idempotency_replay_restarts_ttl:
  assumes "node_cache C std"
    and "fst (begin_execute C t1 key fp s) = Replay res" and "t2 < t1 + std"
  shows "fst (begin_execute C t2 key fp (snd (begin_execute C t1 key fp s))) = Replay res"
proof -
  obtain r where r: "nc_get C t1 key (completedResponses s) = Some r" "st_fingerprint r = fp"
    "result_of r = res"
    using assms(2) by (auto simp: begin_execute_def split: option.splits if_splits)
  let ?r = "r\<lparr>st_metadata := touch t1 (st_metadata r)\<rparr>"
  have "nc_get C t2 key (nc_set C t1 key ?r None (completedResponses s)) = Some ?r"
    using node_cache.get_set_live_None[OF assms(1)] assms(3) by blast
  then show ?thesis using r by (simp add: begin_execute_def)
qed

theorem idempotency_replay_restarts_ttl_witness:
  "fst (begin_execute (deadline_cache 1000) 1998 ''k'' ''f'' (snd (begin_execute (deadline_cache 1000) 999 ''k'' ''f''
     (settle (deadline_cache 1000) 1000 0 0 (Inr \<lparr>or_statusCode = 201, or_body = 7\<rparr>) sample_started))))
   = Replay \<lparr>or_statusCode = 201, or_body = 7\<rparr>"
  by (rule idempotency_replay_restarts_ttl[OF deadline.node_cache_axioms]) (code_simp, simp)

section \<open>Fingerprints\<close>

text \<open>\<open>JSON.stringify\<close> of a string escapes the quotation mark, the backslash and the control
  characters; a number is printed by the engine, here the argument \<open>num\<close>; \<open>sha256\<close> is Node's hash.\<close>

definition hex_digit :: "nat \<Rightarrow> char" where
  "hex_digit n = (if n < 10 then char_of (48 + n) else char_of (87 + n))"

definition json_escape :: "char \<Rightarrow> string" where
  "json_escape c =
     (let n = of_char c :: nat
      in if n = 34 then [CHR 0x5C, CHR 0x22] else if n = 92 then [CHR 0x5C, CHR 0x5C]
         else if n = 8 then [CHR 0x5C, CHR ''b''] else if n = 9 then [CHR 0x5C, CHR ''t'']
         else if n = 10 then [CHR 0x5C, CHR ''n''] else if n = 12 then [CHR 0x5C, CHR ''f'']
         else if n = 13 then [CHR 0x5C, CHR ''r'']
         else if n < 32 then CHR 0x5C # ''u00'' @ [hex_digit (n div 16), hex_digit (n mod 16)]
         else [c])"

definition json_string :: "string \<Rightarrow> string" where
  "json_string s = CHR 0x22 # concat (map json_escape s) @ [CHR 0x22]"

definition key_gt :: "string \<times> string \<Rightarrow> string \<times> string \<Rightarrow> bool" where
  "key_gt a b \<longleftrightarrow> fst b < fst a"

definition serialize_fields :: "(string \<times> string) list \<Rightarrow> string" where
  "serialize_fields kvs =
     ''{'' @ js_join '','' (map (\<lambda>(k, v). json_string k @ '':'' @ v) (js_sort key_gt kvs)) @ ''}''"

primrec stableStringify :: "(rat \<Rightarrow> string) \<Rightarrow> json \<Rightarrow> string" where
  "stableStringify num JNull = ''null''"
| "stableStringify num (JBool b) = (if b then ''true'' else ''false'')"
| "stableStringify num (JNum r) = num r"
| "stableStringify num (JStr s) = json_string s"
| "stableStringify num (JArr xs) = ''['' @ js_join '','' (map (stableStringify num) xs) @ '']''"
| "stableStringify num (JObj kvs) = serialize_fields (map (map_prod id (stableStringify num)) kvs)"

definition getIdempotencyHashThreshold :: "env \<Rightarrow> int option" where
  "getIdempotencyHashThreshold E = js_parse_int (env_or E ''IDEMPOTENCY_HASH_THRESHOLD_BYTES'' ''4096'')"

definition buildIdempotencyFingerprint ::
  "(string \<Rightarrow> string) \<Rightarrow> (rat \<Rightarrow> string) \<Rightarrow> env \<Rightarrow> json \<Rightarrow> string" where
  "buildIdempotencyFingerprint sha256 num E payload =
     (let stable = stableStringify num payload
      in case getIdempotencyHashThreshold E of
           None \<Rightarrow> stable
         | Some threshold \<Rightarrow>
             if threshold < int (length stable) then ''hashv1:'' @ sha256 stable else stable)"

text \<open>Two JSON values are the same request when they differ in the order of object keys only.\<close>

inductive json_eq :: "json \<Rightarrow> json \<Rightarrow> bool" where
  json_eq_refl: "json_eq j j"
| json_eq_arr: "list_all2 json_eq xs ys \<Longrightarrow> json_eq (JArr xs) (JArr ys)"
| json_eq_obj: "distinct (map fst kvs) \<Longrightarrow> distinct (map fst kvs') \<Longrightarrow>
     fst ` set kvs = fst ` set kvs' \<Longrightarrow>
     (\<And>k v v'. (k, v) \<in> set kvs \<Longrightarrow> (k, v') \<in> set kvs' \<Longrightarrow> json_eq v v') \<Longrightarrow>
     json_eq (JObj kvs) (JObj kvs')"

lemma key_gt_sorted: "sorted (map fst (js_sort key_gt kvs))"
proof -
  have "sorted_wrt (\<lambda>a b. \<not> key_gt a b) (js_sort key_gt kvs)"
    by (rule sorted_js_sort) (auto simp: key_gt_def)
  then show ?thesis by (simp add: sorted_map key_gt_def not_less)
qed

lemma mset_js_insert: "mset (js_insert gt x ys) = add_mset x (mset ys)"
  by (induction ys) auto

lemma mset_js_sort [simp]: "mset (js_sort gt xs) = mset xs"
  by (induction xs) (simp_all add: mset_js_insert)

lemma distinct_keys_sort: "distinct (map fst (js_sort gt kvs)) = distinct (map fst kvs)"
  by (metis mset_eq_imp_distinct_iff mset_js_sort mset_map)

lemma sort_keys_unique:
  assumes "distinct (map fst kvs)" and "distinct (map fst kvs')" and "set kvs = set kvs'"
  shows "js_sort key_gt kvs = js_sort key_gt kvs'"
proof (rule map_sorted_distinct_set_unique[where f = fst])
  show "inj_on fst (set (js_sort key_gt kvs) \<union> set (js_sort key_gt kvs'))"
    using assms by (simp add: distinct_map)
qed (use assms in \<open>simp_all add: key_gt_sorted distinct_keys_sort\<close>)

lemma list_all2_map_eq: "list_all2 (\<lambda>a b. R a b \<and> f a = f b) xs ys \<Longrightarrow> map f xs = map f ys"
  by (induction rule: list_all2_induct) auto

text \<open>
  The fingerprint of a request body does not depend on the order of object keys, at any
  depth, so a retry that serialises its fields in another order replays instead of conflicting.
\<close>

theorem fingerprint_key_order:
  assumes "json_eq a b"
  shows "buildIdempotencyFingerprint sha256 num E a = buildIdempotencyFingerprint sha256 num E b"
proof -
  have "stableStringify num a = stableStringify num b"
    using assms
  proof (induction rule: json_eq.induct)
    case (json_eq_arr xs ys)
    then show ?case using list_all2_map_eq[of json_eq "stableStringify num" xs ys] by simp
  next
    case (json_eq_obj kvs kvs')
    let ?S = "\<lambda>kvs. map (map_prod id (stableStringify num)) kvs"
    have "(k, stableStringify num v) \<in> set (?S kvs')" if m: "(k, v) \<in> set kvs" for k v
    proof -
      from m json_eq_obj(3) obtain v' where "(k, v') \<in> set kvs'"
        by (metis (no_types, lifting) fst_conv image_iff prod.collapse)
      with json_eq_obj.IH[OF m this] show ?thesis by force
    qed
    moreover have "(k, stableStringify num v) \<in> set (?S kvs)" if m: "(k, v) \<in> set kvs'" for k v
    proof -
      from m json_eq_obj(3) obtain v' where v': "(k, v') \<in> set kvs"
        by (metis (no_types, lifting) fst_conv image_iff prod.collapse)
      with json_eq_obj.IH[OF v' m] show ?thesis by force
    qed
    ultimately have "set (?S kvs) = set (?S kvs')" by auto
    then have "js_sort key_gt (?S kvs) = js_sort key_gt (?S kvs')"
      using json_eq_obj(1,2) by (intro sort_keys_unique) (simp_all add: comp_def)
    then show ?case by (simp add: serialize_fields_def)
  qed simp
  then show ?thesis by (simp add: buildIdempotencyFingerprint_def)
qed

theorem fingerprint_key_order_witness:
  "buildIdempotencyFingerprint id (\<lambda>r. ''0'') (\<lambda>k. None)
     (JObj [(''b'', JArr [JObj [(''x'', JNull), (''y'', JNum 0)]]), (''a'', JStr ''v'')]) =
   buildIdempotencyFingerprint id (\<lambda>r. ''0'') (\<lambda>k. None)
     (JObj [(''a'', JStr ''v''), (''b'', JArr [JObj [(''y'', JNum 0), (''x'', JNull)]])])"
proof (rule fingerprint_key_order)
  have "json_eq (JObj [(''x'', JNull), (''y'', JNum 0)]) (JObj [(''y'', JNum 0), (''x'', JNull)])"
    by (rule json_eq_obj) (auto intro: json_eq_refl)
  then have "json_eq (JArr [JObj [(''x'', JNull), (''y'', JNum 0)]])
      (JArr [JObj [(''y'', JNum 0), (''x'', JNull)]])"
    by (intro json_eq_arr) simp
  then show "json_eq (JObj [(''b'', JArr [JObj [(''x'', JNull), (''y'', JNum 0)]]), (''a'', JStr ''v'')])
      (JObj [(''a'', JStr ''v''), (''b'', JArr [JObj [(''y'', JNum 0), (''x'', JNull)]])])"
    by (intro json_eq_obj) (auto intro: json_eq_refl)
qed

end
