(* ===== verification/RateLimiter.thy ===== *)
theory RateLimiter
  imports Http
begin

text \<open>
  Rate limiting (\<open>backend/src/rateLimiter.ts\<close>): the configuration, the key of a request, the
  in-memory limiter whose handler counts the requests of each key per window, and the choice
  between it and \<open>express-rate-limit\<close> on Redis, which is made once, when the limiter is created.
\<close>

section \<open>Configuration\<close>

record limit =
  lm_max :: int
  lm_windowMs :: int

record rate_limiter_config =
  rl_auth :: limit
  rl_writes :: limit
  rl_reads :: limit
  rl_admin :: limit
  rl_deposits :: limit
  rl_summary :: limit
  rl_default :: limit

definition parseEnv :: "env \<Rightarrow> string \<Rightarrow> int \<Rightarrow> int" where
  "parseEnv E key defaultValue =
     (case E key of
        None \<Rightarrow> defaultValue
      | Some raw \<Rightarrow> if raw = [] then defaultValue
          else (case js_parse_int raw of None \<Rightarrow> defaultValue | Some parsed \<Rightarrow> parsed))"

definition loadConfig :: "env \<Rightarrow> rate_limiter_config" where
  "loadConfig E =
     \<lparr>rl_auth = \<lparr>lm_max = parseEnv E ''RATE_LIMIT_AUTH_MAX'' 5,
                 lm_windowMs = parseEnv E ''RATE_LIMIT_AUTH_WINDOW_MS'' 60000\<rparr>,
      rl_writes = \<lparr>lm_max = parseEnv E ''RATE_LIMIT_WRITES_MAX'' (parseEnv E ''DEPOSITS_RATE_LIMIT_MAX'' 10),
                   lm_windowMs = parseEnv E ''RATE_LIMIT_WRITES_WINDOW_MS''
                     (parseEnv E ''DEPOSITS_RATE_LIMIT_WINDOW_MS'' 60000)\<rparr>,
      rl_reads = \<lparr>lm_max = parseEnv E ''RATE_LIMIT_READS_MAX'' 60,
                  lm_windowMs = parseEnv E ''RATE_LIMIT_READS_WINDOW_MS'' 60000\<rparr>,
      rl_admin = \<lparr>lm_max = parseEnv E ''RATE_LIMIT_ADMIN_MAX'' 20,
                  lm_windowMs = parseEnv E ''RATE_LIMIT_ADMIN_WINDOW_MS'' 60000\<rparr>,
      rl_deposits = \<lparr>lm_max = parseEnv E ''DEPOSITS_RATE_LIMIT_MAX'' 10,
                     lm_windowMs = parseEnv E ''DEPOSITS_RATE_LIMIT_WINDOW_MS'' 60000\<rparr>,
      rl_summary = \<lparr>lm_max = parseEnv E ''SUMMARY_RATE_LIMIT_MAX'' 30,
                    lm_windowMs = parseEnv E ''SUMMARY_RATE_LIMIT_WINDOW_MS'' 60000\<rparr>,
      rl_default = \<lparr>lm_max = parseEnv E ''API_RATE_LIMIT_MAX_REQUESTS'' 30,
                    lm_windowMs = parseEnv E ''API_RATE_LIMIT_WINDOW_MS'' 60000\<rparr>\<rparr>"

record endpoint_limiter_config =
  el_tier :: "string option"
  el_routePrefix :: "string option"
  el_max :: int
  el_windowMs :: int

definition tier_name :: "endpoint_limiter_config \<Rightarrow> string" where
  "tier_name cfg = nullish (el_tier cfg) (nullish (el_routePrefix cfg) ''default'')"

section \<open>Keys\<close>

definition maskWalletAddress :: "env \<Rightarrow> string \<Rightarrow> string" where
  "maskWalletAddress E addr =
     (if E ''NODE_ENV'' = Some ''production'' \<and> 8 < length addr
      then take 4 addr @ ''...'' @ last_n 4 addr else addr)"

definition extractRateLimitKey :: "request \<Rightarrow> string" where
  "extractRateLimitKey req =
     (if truthy_str (body_string req ''walletAddress'') then the (body_string req ''walletAddress'')
      else if truthy_str (rq_headers req ''x-wallet-address'') then the (rq_headers req ''x-wallet-address'')
      else if truthy_str (rq_headers req ''x-api-key'') then the (rq_headers req ''x-api-key'')
      else if truthy_str (rq_ip req) then the (rq_ip req)
      else ''unknown'')"

definition buildRedisKey :: "string \<Rightarrow> string \<Rightarrow> string" where
  "buildRedisKey routePrefix identifier = ''rl:'' @ routePrefix @ '':'' @ identifier"

section \<open>The in-memory limiter\<close>

record rate_limit_entry =
  re_count :: int
  re_resetAt :: time

text \<open>An Express application is a number here; \<open>appIds\<close> is the weak map from applications.\<close>

record limiter_state =
  ls_entries :: "(string, rate_limit_entry) js_map"
  ls_appIds :: "(nat, nat) js_map"
  ls_nextAppId :: nat

definition new_limiter_state :: limiter_state where
  "new_limiter_state = \<lparr>ls_entries = [], ls_appIds = [], ls_nextAppId = 1\<rparr>"

definition request_url :: "request \<Rightarrow> string" where
  "request_url req = rq_baseUrl req @ (if rq_path req = [] then rq_originalUrl req else rq_path req)"

definition testHarnessDefaults :: "string \<Rightarrow> int option" where
  "testHarnessDefaults = map_of [(''auth'', 5), (''writes'', 10), (''reads'', 60), (''admin'', 20)]"

definition effective_max :: "env \<Rightarrow> endpoint_limiter_config \<Rightarrow> request \<Rightarrow> int" where
  "effective_max E cfg req =
     (let tier = tier_name cfg;
          isTierHarnessRoute = E ''NODE_ENV'' = Some ''test'' \<and> rq_baseUrl req = []
            \<and> rq_path req \<in> {''/auth'', ''/write'', ''/read'', ''/admin''};
          isSummaryRoute = E ''NODE_ENV'' = Some ''test'' \<and> tier = ''reads''
            \<and> request_url req = ''/api/v1/vault/summary''
      in if isTierHarnessRoute then nullish (testHarnessDefaults tier) (el_max cfg)
         else if isSummaryRoute then 30 else el_max cfg)"

definition app_id :: "nat \<Rightarrow> limiter_state \<Rightarrow> nat \<times> limiter_state" where
  "app_id app s =
     (case map_of (ls_appIds s) app of
        Some i \<Rightarrow> (i, s)
      | None \<Rightarrow> (ls_nextAppId s,
          s\<lparr>ls_nextAppId := Suc (ls_nextAppId s), ls_appIds := AList.update app (ls_nextAppId s) (ls_appIds s)\<rparr>))"

definition limiter_key :: "endpoint_limiter_config \<Rightarrow> nat \<Rightarrow> request \<Rightarrow> string" where
  "limiter_key cfg appId req =
     buildRedisKey (show_nat appId @ '':'' @ tier_name cfg @ '':'' @ request_url req) (extractRateLimitKey req)"

definition current_entry :: "int \<Rightarrow> time \<Rightarrow> string \<Rightarrow> limiter_state \<Rightarrow> rate_limit_entry" where
  "current_entry windowMs now key s =
     (case map_of (ls_entries s) key of
        Some e \<Rightarrow> if now < re_resetAt e then e else \<lparr>re_count = 0, re_resetAt = now + windowMs\<rparr>
      | None \<Rightarrow> \<lparr>re_count = 0, re_resetAt = now + windowMs\<rparr>)"

definition rate_limit_headers :: "int \<Rightarrow> rate_limit_entry \<Rightarrow> (string \<times> json) list" where
  "rate_limit_headers mx entry =
     [(''RateLimit-Limit'', jint mx), (''RateLimit-Remaining'', jint (max 0 (mx - re_count entry))),
      (''RateLimit-Reset'', jint (ceil_div (re_resetAt entry) 1000))]"

text \<open>\<open>sendRateLimitResponse\<close>: the header \<open>RateLimit-Reset\<close>, when set, gives the reset time.\<close>

definition retry_after :: "time \<Rightarrow> int \<Rightarrow> int option \<Rightarrow> int" where
  "retry_after now windowMs resetHeader =
     (let resetTime = nullish resetHeader ((now + windowMs) div 1000) in max 0 (resetTime - now div 1000))"

definition sendRateLimitResponse :: "time \<Rightarrow> int \<Rightarrow> (string \<times> json) list \<Rightarrow> int option \<Rightarrow> response" where
  "sendRateLimitResponse now windowMs headers resetHeader =
     (let retryAfter = retry_after now windowMs resetHeader
      in send_json_with (headers @ [(''Retry-After'', jint retryAfter)]) 429
           (JObj [(''error'', JStr ''Rate limit exceeded''), (''status'', jint 429),
             (''message'', JStr (''Too many requests. Please try again in '' @ show_int retryAfter @ '' seconds.'')),
             (''retryAfter'', jint retryAfter)]))"

definition in_memory_limiter ::
  "env \<Rightarrow> endpoint_limiter_config \<Rightarrow> time \<Rightarrow> nat \<Rightarrow> request \<Rightarrow> limiter_state \<Rightarrow> outcome \<times> limiter_state" where
  "in_memory_limiter E cfg now app req s =
     (let (appId, s1) = app_id app s;
          key = limiter_key cfg appId req;
          effectiveMax = effective_max E cfg req;
          e0 = current_entry (el_windowMs cfg) now key s1;
          entry = e0\<lparr>re_count := re_count e0 + 1\<rparr>;
          s2 = s1\<lparr>ls_entries := AList.update key entry (ls_entries s1)\<rparr>
      in if effectiveMax < re_count entry
         then (Respond (sendRateLimitResponse now (el_windowMs cfg) (rate_limit_headers effectiveMax entry)
                 (Some (ceil_div (re_resetAt entry) 1000))), s2)
         else (Next req, s2))"

section \<open>Choice of the limiter\<close>

record redis_manager =
  rm_client :: bool
  rm_available :: bool

definition new_redis_manager :: "env \<Rightarrow> redis_manager" where
  "new_redis_manager E = \<lparr>rm_client = truthy_str (E ''REDIS_URL''), rm_available = False\<rparr>"

datatype redis_event = RedisConnect | RedisReconnecting | RedisError

fun on_redis_event :: "redis_event \<Rightarrow> redis_manager \<Rightarrow> redis_manager" where
  "on_redis_event RedisConnect m = m\<lparr>rm_available := True\<rparr>"
| "on_redis_event RedisReconnecting m = m"
| "on_redis_event RedisError m = m\<lparr>rm_available := False\<rparr>"

definition isReady :: "redis_manager \<Rightarrow> bool" where
  "isReady m = rm_available m"

text \<open>An \<open>express-rate-limit\<close> handler is fixed by its store prefix, if it has one, and the value its
  \<open>skip\<close> function returns, which depends on constants of the creation only.\<close>

datatype limiter = MemoryLimiter endpoint_limiter_config
  | ExpressLimiter endpoint_limiter_config "string option" bool

definition createLimiter :: "redis_manager \<Rightarrow> endpoint_limiter_config \<Rightarrow> limiter" where
  "createLimiter m cfg =
     (let redisConfigured = rm_client m;
          redisReady = redisConfigured \<and> isReady m;
          usingRedis = redisConfigured \<and> redisReady
      in if \<not> redisConfigured then MemoryLimiter cfg
         else ExpressLimiter cfg
                (if usingRedis then Some (''rl:'' @ tier_name cfg @ '':'') else None)
                (redisConfigured \<and> \<not> redisReady))"

text \<open>One request through a limiter; \<open>express\<close> is the \<open>express-rate-limit\<close> package: the decision it
  takes for a request it does not skip.\<close>

definition limit_request ::
  "(endpoint_limiter_config \<Rightarrow> string option \<Rightarrow> time \<Rightarrow> string \<Rightarrow> bool) \<Rightarrow> env \<Rightarrow> limiter \<Rightarrow> time \<Rightarrow> nat \<Rightarrow>
   request \<Rightarrow> limiter_state \<Rightarrow> outcome \<times> limiter_state" where
  "limit_request express E l now app req s =
     (case l of
        MemoryLimiter cfg \<Rightarrow> in_memory_limiter E cfg now app req s
      | ExpressLimiter cfg store skip \<Rightarrow>
          if skip \<or> express cfg store now (extractRateLimitKey req) then (Next req, s)
          else (Respond (sendRateLimitResponse now (el_windowMs cfg) [] None), s))"

definition load_limiters :: "env \<Rightarrow> limiter list" where
  "load_limiters E =
     (let m = new_redis_manager E; c = loadConfig E;
          mk = (\<lambda>tier l. createLimiter m \<lparr>el_tier = Some tier, el_routePrefix = None,
                  el_max = lm_max l, el_windowMs = lm_windowMs l\<rparr>)
      in [mk ''auth'' (rl_auth c), mk ''writes'' (rl_writes c), mk ''reads'' (rl_reads c),
          mk ''admin'' (rl_admin c)])"

section \<open>Counting per window\<close>

record hit =
  h_time :: time
  h_app :: nat
  h_req :: request

definition hit_key :: "endpoint_limiter_config \<Rightarrow> hit \<Rightarrow> limiter_state \<Rightarrow> string" where
  "hit_key cfg h s = limiter_key cfg (fst (app_id (h_app h) s)) (h_req h)"

definition hit_step :: "env \<Rightarrow> endpoint_limiter_config \<Rightarrow> hit \<Rightarrow> limiter_state \<Rightarrow> outcome \<times> limiter_state" where
  "hit_step E cfg h s = in_memory_limiter E cfg (h_time h) (h_app h) (h_req h) s"

text \<open>The requests of a run with their keys, and whether each was let through.\<close>

fun limiter_run :: "env \<Rightarrow> endpoint_limiter_config \<Rightarrow> hit list \<Rightarrow> limiter_state \<Rightarrow> (string \<times> bool) list" where
  "limiter_run E cfg [] s = []"
| "limiter_run E cfg (h # hs) s =
     (hit_key cfg h s, is_next (fst (hit_step E cfg h s))) # limiter_run E cfg hs (snd (hit_step E cfg h s))"

definition bump :: "int \<Rightarrow> time \<Rightarrow> string \<Rightarrow> limiter_state \<Rightarrow> rate_limit_entry" where
  "bump windowMs now key s =
     (let e0 = current_entry windowMs now key s in e0\<lparr>re_count := re_count e0 + 1\<rparr>)"

lemma entries_app_id [simp]: "ls_entries (snd (app_id app s)) = ls_entries s"
  by (simp add: app_id_def split: option.split)

lemma current_entry_app_id [simp]:
  "current_entry w now key (snd (app_id app s)) = current_entry w now key s"
  by (simp add: current_entry_def)

lemma hit_step_passes:
  "is_next (fst (hit_step E cfg h s)) \<longleftrightarrow>
     re_count (bump (el_windowMs cfg) (h_time h) (hit_key cfg h s) s) \<le> effective_max E cfg (h_req h)"
  by (auto simp: hit_step_def in_memory_limiter_def hit_key_def bump_def Let_def split_beta)

lemma hit_step_entries:
  "ls_entries (snd (hit_step E cfg h s)) =
     AList.update (hit_key cfg h s) (bump (el_windowMs cfg) (h_time h) (hit_key cfg h s) s) (ls_entries s)"
  by (auto simp: hit_step_def in_memory_limiter_def hit_key_def bump_def Let_def split_beta)

lemma current_entry_live:
  "map_of (ls_entries s) k = Some e \<Longrightarrow> now < re_resetAt e \<Longrightarrow> current_entry w now k s = e"
  by (simp add: current_entry_def)

lemma current_entry_fresh:
  "(\<forall>e. map_of (ls_entries s) k = Some e \<longrightarrow> re_resetAt e \<le> now) \<Longrightarrow>
     current_entry w now k s = \<lparr>re_count = 0, re_resetAt = now + w\<rparr>"
  by (auto simp: current_entry_def split: option.split)

lemma passes_live:
  assumes "map_of (ls_entries s) k = Some e" and "\<forall>h \<in> set hs. h_time h < re_resetAt e"
    and "\<forall>h \<in> set hs. effective_max E cfg (h_req h) = mx"
  shows "int (count_list (limiter_run E cfg hs s) (k, True)) =
    min (int (count_list (map fst (limiter_run E cfg hs s)) k)) (max 0 (mx - re_count e))"
  using assms
proof (induction hs arbitrary: s e)
  case (Cons h hs)
  let ?s = "snd (hit_step E cfg h s)"
  show ?case
  proof (cases "hit_key cfg h s = k")
    case True
    define e' where "e' = e\<lparr>re_count := re_count e + 1\<rparr>"
    have b: "bump (el_windowMs cfg) (h_time h) k s = e'"
      using Cons.prems by (simp add: bump_def current_entry_live e'_def)
    have s': "map_of (ls_entries ?s) k = Some e'"
      by (simp add: hit_step_entries True b jmap.look_put)
    have "int (count_list (limiter_run E cfg hs ?s) (k, True)) =
        min (int (count_list (map fst (limiter_run E cfg hs ?s)) k)) (max 0 (mx - re_count e'))"
      using Cons.prems by (intro Cons.IH[OF s']) (simp_all add: e'_def)
    then show ?thesis
      using Cons.prems True by (auto simp: hit_step_passes b e'_def)
  next
    case False
    then have "map_of (ls_entries ?s) k = Some e"
      using Cons.prems by (simp add: hit_step_entries jmap.look_put)
    from Cons.IH[OF this] Cons.prems False show ?thesis by simp
  qed
qed simp

lemma effective_max_production:
  "E ''NODE_ENV'' \<noteq> Some ''test'' \<Longrightarrow> effective_max E cfg req = el_max cfg"
  by (simp add: effective_max_def Let_def)


definition sample_limit :: endpoint_limiter_config where
  "sample_limit = \<lparr>el_tier = Some ''auth'', el_routePrefix = None, el_max = 2, el_windowMs = 60000\<rparr>"

definition sample_hits :: "hit list" where
  "sample_hits =
     (let r = blank_request\<lparr>rq_ip := Some ''10.0.0.1''\<rparr>; q = blank_request\<lparr>rq_ip := Some ''10.0.0.2''\<rparr>
      in [\<lparr>h_time = 0, h_app = 7, h_req = r\<rparr>, \<lparr>h_time = 5, h_app = 7, h_req = q\<rparr>,
          \<lparr>h_time = 9, h_app = 7, h_req = r\<rparr>, \<lparr>h_time = 59999, h_app = 7, h_req = r\<rparr>])"

lemma sample_limiter_run:
  "limiter_run (\<lambda>k. None) sample_limit sample_hits new_limiter_state =
     [(''rl:1:auth:/:10.0.0.1'', True), (''rl:1:auth:/:10.0.0.2'', True),
      (''rl:1:auth:/:10.0.0.1'', True), (''rl:1:auth:/:10.0.0.1'', False)]"
  by code_simp


lemma wait_covers: "a \<le> x * 1000 \<Longrightarrow> y * 1000 \<le> b \<Longrightarrow> x - y \<le> m \<Longrightarrow> a \<le> b + 1000 * m" for a b x y m :: int
  by linarith

lemma ceil_minus_floor: "a \<le> b + 1000 * max 0 (ceil_div a 1000 - b div 1000)"
  by (rule wait_covers[of _ "ceil_div a 1000" "b div 1000"]) (simp_all add: ceil_div_bounds)

text \<open>
  The \<open>Retry-After\<close> header of a refusal is honest: its value is never negative, and the same
  request made that many seconds later, with no request of its key in between, is let through
  (when the limit allows any request at all).
\<close>

theorem rate_limit_retry_after:
  assumes "in_memory_limiter E cfg now app req s = (Respond resp, s')"
    and "1 \<le> effective_max E cfg req"
    and "now + 1000 * r \<le> now'" and "map_of (rs_headers resp) ''Retry-After'' = Some (jint r)"
  shows "0 \<le> r \<and> is_next (fst (in_memory_limiter E cfg now' app req s'))"
proof -
  let ?h = "\<lparr>h_time = now, h_app = app, h_req = req\<rparr>"
  let ?h' = "\<lparr>h_time = now', h_app = app, h_req = req\<rparr>"
  let ?k = "hit_key cfg ?h s"
  define e where "e = bump (el_windowMs cfg) now ?k s"
  have resp: "resp = sendRateLimitResponse now (el_windowMs cfg) (rate_limit_headers (effective_max E cfg req) e)
      (Some (ceil_div (re_resetAt e) 1000))"
    using assms(1)
    by (auto simp: in_memory_limiter_def e_def bump_def hit_key_def Let_def split_beta split: if_splits)
  have s': "s' = snd (hit_step E cfg ?h s)" using assms(1) by (simp add: hit_step_def)
  have app: "fst (app_id app s') = fst (app_id app s)"
  proof -
    have "ls_appIds s' = ls_appIds (snd (app_id app s))"
      using assms(1) by (auto simp: in_memory_limiter_def Let_def split_beta split: if_splits)
    then show ?thesis by (simp add: app_id_def jmap.look_put split: option.splits)
  qed
  then have k: "hit_key cfg ?h' s' = ?k" by (simp add: hit_key_def)
  have entry: "map_of (ls_entries s') ?k = Some e"
    by (simp add: s' hit_step_entries e_def jmap.look_put)
  have r: "r = max 0 (ceil_div (re_resetAt e) 1000 - now div 1000)"
    using assms(4) by (simp add: resp sendRateLimitResponse_def rate_limit_headers_def retry_after_def jint_def Let_def)
  then have "re_resetAt e \<le> now'" using ceil_minus_floor[of "re_resetAt e" now] assms(3) by simp
  then have "bump (el_windowMs cfg) now' ?k s' = \<lparr>re_count = 1, re_resetAt = now' + el_windowMs cfg\<rparr>"
    using entry by (simp add: bump_def current_entry_fresh)
  then have "is_next (fst (hit_step E cfg ?h' s'))"
    using assms(2) by (simp add: hit_step_passes k)
  then show ?thesis using r by (simp add: hit_step_def)
qed

definition sample_refusing :: limiter_state where
  "sample_refusing = \<lparr>ls_entries = [(''rl:1:auth:/:unknown'', \<lparr>re_count = 2, re_resetAt = 60000\<rparr>)],
     ls_appIds = [(7, 1)], ls_nextAppId = 2\<rparr>"

lemma sample_refusal:
  "in_memory_limiter (\<lambda>k. None) sample_limit 1500 7 blank_request sample_refusing =
     (Respond (sendRateLimitResponse 1500 60000
        (rate_limit_headers 2 \<lparr>re_count = 3, re_resetAt = 60000\<rparr>) (Some 60)),
      sample_refusing\<lparr>ls_entries := [(''rl:1:auth:/:unknown'', \<lparr>re_count = 3, re_resetAt = 60000\<rparr>)]\<rparr>)"
proof -
  have "limiter_key sample_limit (Suc 0) blank_request = ''rl:1:auth:/:unknown''" by code_simp
  moreover have "effective_max (\<lambda>k. None) sample_limit blank_request = 2" by code_simp
  moreover have "ceil_div 60000 1000 = 60" by code_simp
  ultimately show ?thesis
    by (simp add: in_memory_limiter_def app_id_def current_entry_def sample_refusing_def)
      (simp add: sample_limit_def Let_def)
qed

theorem rate_limit_retry_after_witness:
  "is_next (fst (in_memory_limiter (\<lambda>k. None) sample_limit 60500 7 blank_request
     (sample_refusing\<lparr>ls_entries := [(''rl:1:auth:/:unknown'', \<lparr>re_count = 3, re_resetAt = 60000\<rparr>)]\<rparr>)))"
proof -
  have "effective_max (\<lambda>k. None) sample_limit blank_request = 2" by code_simp
  then show ?thesis
    using rate_limit_retry_after[OF sample_refusal, of 59 60500]
    by (simp add: sendRateLimitResponse_def rate_limit_headers_def retry_after_def jint_def)
qed

text \<open>
  The limiters of the module are created when it is loaded, before the lazily connecting Redis
  client can be ready, and \<open>skip\<close> remembers that for good: with \<open>REDIS_URL\<close> set, every one of them
  lets every request through at every later time, whatever Redis or the package would say.
\<close>

theorem redis_limiters_never_limit:
  assumes "truthy_str (E ''REDIS_URL'')" and "l \<in> set (load_limiters E)"
  shows "limit_request express E l now app req s = (Next req, s)"
  using assms
  by (auto simp: load_limiters_def createLimiter_def new_redis_manager_def isReady_def limit_request_def Let_def)

definition redis_env :: env where
  "redis_env k = (if k = ''REDIS_URL'' then Some ''redis://localhost'' else None)"

theorem redis_limiters_never_limit_witness:
  "limit_request (\<lambda>cfg store now k. False) redis_env (hd (load_limiters redis_env)) 5 0 blank_request
     new_limiter_state = (Next blank_request, new_limiter_state)"
  by (rule redis_limiters_never_limit) (simp_all add: redis_env_def truthy_str_def load_limiters_def Let_def)

end
