(* ===== verification/ResponseCache.thy ===== *)
theory ResponseCache
  imports Http "HOL-Library.Multiset"
begin

text \<open>
  The response cache (\<open>backend/src/middleware/cache.ts\<close>): the LRU store, the cache key of a request,
  the middleware in its two halves (the lookup before the handler, the interception of
  \<open>res.json\<close> after it), invalidation and statistics.  The regular-expression engine behind
  \<open>invalidateCache\<close> is the argument \<open>rx\<close>; the Prometheus eviction counter is a field of the store.
\<close>

section \<open>The LRU store\<close>

record cache_entry =
  ce_data :: json
  ce_statusCode :: int
  ce_headers :: "(string \<times> string) list"
  ce_expiresAt :: time
  ce_ttl :: int
  ce_lastUsed :: time

record lru_store =
  lru_map :: "(string, cache_entry) js_map"
  lru_maxEntries :: int
  lru_evictions :: nat

definition DEFAULT_MAX_ENTRIES :: int where
  "DEFAULT_MAX_ENTRIES = 500"

definition resolveMaxEntries :: "env \<Rightarrow> int" where
  "resolveMaxEntries E =
     (case E ''CACHE_MAX_ENTRIES'' of
        None \<Rightarrow> DEFAULT_MAX_ENTRIES
      | Some raw \<Rightarrow> if raw = [] then DEFAULT_MAX_ENTRIES
          else (case js_parse_int raw of
                  None \<Rightarrow> DEFAULT_MAX_ENTRIES
                | Some n \<Rightarrow> if n < 1 then DEFAULT_MAX_ENTRIES else n))"

definition new_lru :: "env \<Rightarrow> lru_store" where
  "new_lru E = \<lparr>lru_map = [], lru_maxEntries = resolveMaxEntries E, lru_evictions = 0\<rparr>"

definition lru_get :: "time \<Rightarrow> string \<Rightarrow> lru_store \<Rightarrow> cache_entry option \<times> lru_store" where
  "lru_get now key s =
     (case map_of (lru_map s) key of
        None \<Rightarrow> (None, s)
      | Some entry \<Rightarrow>
          let entry' = entry\<lparr>ce_lastUsed := now\<rparr>
          in (Some entry', s\<lparr>lru_map := AList.update key entry' (lru_map s)\<rparr>))"

text \<open>The loop of \<open>_evictLru\<close>: the first key, in map order, with the least \<open>lastUsed\<close>.\<close>

fun oldest_from :: "(string \<times> time) option \<Rightarrow> (string, cache_entry) js_map \<Rightarrow> (string \<times> time) option" where
  "oldest_from best [] = best"
| "oldest_from best ((k, e) # m) =
     oldest_from (case best of
         None \<Rightarrow> Some (k, ce_lastUsed e)
       | Some (k0, t0) \<Rightarrow> if ce_lastUsed e < t0 then Some (k, ce_lastUsed e) else best) m"

definition evictLru :: "lru_store \<Rightarrow> lru_store" where
  "evictLru s =
     (case oldest_from None (lru_map s) of
        None \<Rightarrow> s
      | Some (oldestKey, t) \<Rightarrow>
          s\<lparr>lru_map := AList.delete oldestKey (lru_map s), lru_evictions := Suc (lru_evictions s)\<rparr>)"

definition lru_set :: "time \<Rightarrow> string \<Rightarrow> cache_entry \<Rightarrow> lru_store \<Rightarrow> lru_store" where
  "lru_set now key entry s =
     (let isUpdate = jm_has (lru_map s) key;
          s1 = (if \<not> isUpdate \<and> lru_maxEntries s \<le> int (length (lru_map s)) then evictLru s else s)
      in s1\<lparr>lru_map := AList.update key (entry\<lparr>ce_lastUsed := now\<rparr>) (lru_map s1)\<rparr>)"

definition lru_delete :: "string \<Rightarrow> lru_store \<Rightarrow> bool \<times> lru_store" where
  "lru_delete key s = (jm_has (lru_map s) key, s\<lparr>lru_map := AList.delete key (lru_map s)\<rparr>)"

definition lru_clear :: "lru_store \<Rightarrow> lru_store" where
  "lru_clear s = s\<lparr>lru_map := []\<rparr>"

section \<open>The key and the middleware\<close>

text \<open>The query is the list of its parameters with their values, in the order Express parsed them;
  a parameter given once has one value.\<close>

type_synonym query_params = "(string \<times> string list) list"

definition str_gt :: "string \<Rightarrow> string \<Rightarrow> bool" where
  "str_gt a b \<longleftrightarrow> b < a"

definition buildCacheKey :: "string \<Rightarrow> string \<Rightarrow> query_params \<Rightarrow> string" where
  "buildCacheKey method path query =
     (let keys = js_sort str_gt (map fst query)
      in if keys = [] then method @ '':'' @ path
         else method @ '':'' @ path @ '':'' @
           js_join ''&'' (map (\<lambda>k. k @ ''='' @
             js_join '','' (js_sort str_gt (nullish (map_of query k) []))) keys))"

record cache_options =
  co_ttl :: int
  co_sharedCache :: bool

datatype cache_lookup = Bypass | Hit response | Miss string

definition cache_request ::
  "cache_options \<Rightarrow> time \<Rightarrow> request \<Rightarrow> query_params \<Rightarrow> lru_store \<Rightarrow> cache_lookup \<times> lru_store" where
  "cache_request opts now req query s =
     (if rq_method req \<noteq> ''GET'' then (Bypass, s)
      else if \<not> co_sharedCache opts \<and> truthy_str (rq_headers req ''authorization'') then (Bypass, s)
      else if starts_with ''/admin/audit'' (rq_path req) then (Bypass, s)
      else
        let cacheKey = buildCacheKey (rq_method req) (rq_path req) query;
            (cached, s1) = lru_get now cacheKey s
        in case cached of
             None \<Rightarrow> (Miss cacheKey, s1)
           | Some e \<Rightarrow>
               if now < ce_expiresAt e then
                 (Hit (send_json_with
                    ([(''X-Cache-Hit'', JStr ''true''),
                      (''Cache-Control'', JStr (''public, max-age='' @
                         show_int (max (ceil_div (ce_expiresAt e - now) 1000) 0)))]
                     @ map (\<lambda>(n, v). (n, JStr v))
                         (filter (\<lambda>(n, v). n \<noteq> ''Cache-Control'' \<and> n \<noteq> ''X-Cache-Hit'') (ce_headers e)))
                    (ce_statusCode e) (ce_data e)), s1)
               else (Miss cacheKey, s1))"

text \<open>The replacement of \<open>res.json\<close> after a miss, called with the handler's status and data.\<close>

definition cache_response ::
  "cache_options \<Rightarrow> time \<Rightarrow> string \<Rightarrow> int \<Rightarrow> json \<Rightarrow> lru_store \<Rightarrow> response \<times> lru_store" where
  "cache_response opts now cacheKey status data s =
     (if 200 \<le> status \<and> status < 300 then
        (send_json_with [(''X-Cache-Hit'', JStr ''false''),
           (''Cache-Control'', JStr (''public, max-age='' @ show_int (ceil_div (co_ttl opts) 1000)))] status data,
         lru_set now cacheKey
           \<lparr>ce_data = data, ce_statusCode = status, ce_headers = [], ce_expiresAt = now + co_ttl opts,
            ce_ttl = co_ttl opts, ce_lastUsed = now\<rparr> s)
      else (send_json status data, s))"

definition invalidateCache :: "(string \<Rightarrow> string \<Rightarrow> bool) \<Rightarrow> string option \<Rightarrow> lru_store \<Rightarrow> nat \<times> lru_store" where
  "invalidateCache rx pattern s =
     (if \<not> truthy_str pattern then (length (lru_map s), lru_clear s)
      else
        let victims = filter (rx (the pattern)) (jm_keys (lru_map s))
        in (length victims, fold (\<lambda>k s. snd (lru_delete k s)) victims s))"

definition getCacheStats :: "lru_store \<Rightarrow> nat \<times> string list" where
  "getCacheStats s = (length (lru_map s), jm_keys (lru_map s))"

section \<open>The store is bounded and evicts the least recently used entry\<close>

lemma oldest_from_None: "oldest_from best m = None \<longleftrightarrow> best = None \<and> m = []"
  by (induction best m rule: oldest_from.induct) (auto split: option.splits)

lemma oldest_from_spec:
  "oldest_from best m = Some (k, t) \<Longrightarrow>
     (best = Some (k, t) \<or> (\<exists>e. (k, e) \<in> set m \<and> ce_lastUsed e = t))
     \<and> (\<forall>(k', e') \<in> set m. t \<le> ce_lastUsed e') \<and> (\<forall>k0 t0. best = Some (k0, t0) \<longrightarrow> t \<le> t0)"
proof (induction best m rule: oldest_from.induct)
  case (2 best k' e' m)
  show ?case
  proof (cases best)
    case None
    with 2 have "(k' = k \<and> ce_lastUsed e' = t \<or> (\<exists>e. (k, e) \<in> set m \<and> ce_lastUsed e = t))
        \<and> (\<forall>(k', e') \<in> set m. t \<le> ce_lastUsed e') \<and> t \<le> ce_lastUsed e'" by simp
    with None show ?thesis by auto
  next
    case (Some b)
    obtain k0 t0 where b: "b = (k0, t0)" by fastforce
    show ?thesis
    proof (cases "ce_lastUsed e' < t0")
      case True
      with 2 Some b have "(k' = k \<and> ce_lastUsed e' = t \<or> (\<exists>e. (k, e) \<in> set m \<and> ce_lastUsed e = t))
        \<and> (\<forall>(k', e') \<in> set m. t \<le> ce_lastUsed e') \<and> t \<le> ce_lastUsed e'" by simp
      with True Some b show ?thesis by auto
    next
      case False
      with 2 Some b have "(best = Some (k, t) \<or> (\<exists>e. (k, e) \<in> set m \<and> ce_lastUsed e = t))
        \<and> (\<forall>(k', e') \<in> set m. t \<le> ce_lastUsed e') \<and> t \<le> t0" by simp
      with False Some b show ?thesis by auto
    qed
  qed
qed simp

definition lru_wf :: "lru_store \<Rightarrow> bool" where
  "lru_wf s \<longleftrightarrow> jm_wf (lru_map s) \<and> int (length (lru_map s)) \<le> lru_maxEntries s \<and> 1 \<le> lru_maxEntries s"

lemma lru_wf_new: "lru_wf (new_lru E)"
  by (auto simp: lru_wf_def new_lru_def resolveMaxEntries_def DEFAULT_MAX_ENTRIES_def split: option.splits)

lemma lru_wf_get: "lru_wf s \<Longrightarrow> lru_wf (snd (lru_get now key s))"
  by (auto simp: lru_wf_def lru_get_def length_update_present Let_def split: option.splits)

lemma evict_present:
  assumes "lru_map s \<noteq> []" and "jm_wf (lru_map s)"
  obtains k e where "map_of (lru_map s) k = Some e" and "\<And>k' e'. map_of (lru_map s) k' = Some e' \<Longrightarrow> ce_lastUsed e \<le> ce_lastUsed e'"
    and "lru_map (evictLru s) = AList.delete k (lru_map s)"
    and "lru_maxEntries (evictLru s) = lru_maxEntries s"
proof -
  obtain k t where kt: "oldest_from None (lru_map s) = Some (k, t)"
    using assms(1) oldest_from_None[of None "lru_map s"] by (cases "oldest_from None (lru_map s)") auto
  then obtain e where e: "(k, e) \<in> set (lru_map s)" "ce_lastUsed e = t"
    and least: "\<forall>(k', e') \<in> set (lru_map s). t \<le> ce_lastUsed e'"
    using oldest_from_spec[OF kt] by auto
  have "map_of (lru_map s) k = Some e" using e assms(2) by (simp add: jm_wf_def)
  then show ?thesis
  proof (rule that)
    show "ce_lastUsed e \<le> ce_lastUsed e'" if "map_of (lru_map s) k' = Some e'" for k' e'
      using that least e(2) by (auto dest: map_of_SomeD)
  qed (simp_all add: evictLru_def kt)
qed

lemma lru_wf_set: "lru_wf s \<Longrightarrow> lru_wf (lru_set now key entry s)"
proof -
  assume wf: "lru_wf s"
  show ?thesis
  proof (cases "\<not> jm_has (lru_map s) key \<and> lru_maxEntries s \<le> int (length (lru_map s))")
    case True
    then have "lru_map s \<noteq> []" using wf by (auto simp: lru_wf_def)
    with wf obtain k e where k: "map_of (lru_map s) k = Some e"
      "lru_map (evictLru s) = AList.delete k (lru_map s)" "lru_maxEntries (evictLru s) = lru_maxEntries s"
      by (elim evict_present) (auto simp: lru_wf_def)
    have "Suc (length (AList.delete k (lru_map s))) = length (lru_map s)"
      using k wf by (simp add: length_delete_present lru_wf_def)
    moreover have "map_of (AList.delete k (lru_map s)) key = None"
      using True by (auto simp: jmap.look_del jm_has_def)
    ultimately show ?thesis using True k wf
      by (simp add: lru_wf_def lru_set_def Let_def length_update_absent)
  next
    case False
    then show ?thesis using wf
      by (cases "jm_has (lru_map s) key")
        (auto simp: lru_wf_def lru_set_def Let_def length_update_absent length_update_present jm_has_def)
  qed
qed

lemma lru_wf_delete: "lru_wf s \<Longrightarrow> lru_wf (snd (lru_delete key s))"
  using length_delete_le'[of key "lru_map s"] by (auto simp: lru_wf_def lru_delete_def)

lemma lru_wf_clear: "lru_wf s \<Longrightarrow> lru_wf (lru_clear s)"
  by (simp add: lru_wf_def lru_clear_def)

section \<open>Runs\<close>

datatype cache_event =
    CacheRequest cache_options time request query_params
  | CacheResponse cache_options time string int json
  | CacheInvalidate "string \<Rightarrow> string \<Rightarrow> bool" "string option"

fun cache_step :: "cache_event \<Rightarrow> lru_store \<Rightarrow> lru_store" where
  "cache_step (CacheRequest opts now req q) s = snd (cache_request opts now req q s)"
| "cache_step (CacheResponse opts now key st d) s = snd (cache_response opts now key st d s)"
| "cache_step (CacheInvalidate rx p) s = snd (invalidateCache rx p s)"

definition cache_run :: "env \<Rightarrow> cache_event list \<Rightarrow> lru_store" where
  "cache_run E evs = fold cache_step evs (new_lru E)"

lemma snd_cache_request:
  "snd (cache_request opts now req q s) \<in>
     {s, snd (lru_get now (buildCacheKey (rq_method req) (rq_path req) q) s)}"
  by (auto simp: cache_request_def Let_def split_beta split: option.splits)

lemma lru_wf_fold_delete: "lru_wf s \<Longrightarrow> lru_wf (fold (\<lambda>k s. snd (lru_delete k s)) ks s)"
  by (induction ks arbitrary: s) (simp_all add: lru_wf_delete)

lemma lru_wf_step: "lru_wf s \<Longrightarrow> lru_wf (cache_step ev s)"
proof (cases ev)
  case (CacheRequest opts now req q)
  then show "lru_wf s \<Longrightarrow> ?thesis"
    using snd_cache_request[of opts now req q s] by (auto simp: lru_wf_get)
next
  case (CacheResponse opts now key st d)
  then show "lru_wf s \<Longrightarrow> ?thesis" by (auto simp: cache_response_def lru_wf_set)
next
  case (CacheInvalidate rx p)
  then show "lru_wf s \<Longrightarrow> ?thesis"
    by (auto simp: invalidateCache_def Let_def lru_wf_clear lru_wf_fold_delete)
qed

lemma fold_invariant': "P s \<Longrightarrow> (\<And>x s. P s \<Longrightarrow> P (f x s)) \<Longrightarrow> P (fold f xs s)"
  by (induction xs arbitrary: s) auto

lemma maxEntries_step [simp]: "lru_maxEntries (cache_step ev s) = lru_maxEntries s"
proof -
  have d: "lru_maxEntries (fold (\<lambda>k s. snd (lru_delete k s)) ks s) = lru_maxEntries s" for ks s
    by (induction ks arbitrary: s) (simp_all add: lru_delete_def)
  have e: "lru_maxEntries (evictLru s) = lru_maxEntries s" for s
    by (simp add: evictLru_def split: option.split)
  have g: "lru_maxEntries (snd (lru_get now k s)) = lru_maxEntries s" for now k
    by (simp add: lru_get_def Let_def split: option.split)
  show ?thesis
  proof (cases ev)
    case (CacheRequest opts now req q)
    then show ?thesis using snd_cache_request[of opts now req q s] g by auto
  next
    case (CacheResponse opts now key st dt)
    then show ?thesis by (auto simp: cache_response_def lru_set_def Let_def e)
  next
    case (CacheInvalidate rx p)
    then show ?thesis by (auto simp: invalidateCache_def Let_def lru_clear_def d)
  qed
qed

lemma maxEntries_run [simp]: "lru_maxEntries (cache_run E evs) = resolveMaxEntries E"
proof -
  have "lru_maxEntries (fold cache_step evs (new_lru E)) = resolveMaxEntries E"
    by (rule fold_invariant') (simp_all add: new_lru_def)
  then show ?thesis by (simp add: cache_run_def)
qed

text \<open>
  The cache is bounded: whatever requests, responses and invalidations come, it never holds
  more entries than the configured maximum (the default when the variable is no positive number),
  and never two entries under one key.
\<close>

theorem cache_bounded:
  "int (fst (getCacheStats (cache_run E evs))) \<le> resolveMaxEntries E
   \<and> distinct (snd (getCacheStats (cache_run E evs)))"
proof -
  have "lru_wf (cache_run E evs)"
    unfolding cache_run_def by (rule fold_invariant') (simp_all add: lru_wf_new lru_wf_step)
  then show ?thesis
    using maxEntries_run[of E evs] by (simp add: lru_wf_def getCacheStats_def jm_wf_def jm_keys_def)
qed

section \<open>A hit returns a response that was stored\<close>

definition sourced :: "cache_event set \<Rightarrow> lru_store \<Rightarrow> bool" where
  "sourced evs s \<longleftrightarrow> (\<forall>k e. map_of (lru_map s) k = Some e \<longrightarrow>
     (\<exists>opts t. CacheResponse opts t k (ce_statusCode e) (ce_data e) \<in> evs
        \<and> 200 \<le> ce_statusCode e \<and> ce_statusCode e < 300 \<and> ce_expiresAt e = t + co_ttl opts))"

lemma sourced_get: "sourced evs s \<Longrightarrow> sourced evs (snd (lru_get now key s))"
  by (auto simp: sourced_def lru_get_def Let_def jmap.look_put split: option.splits if_splits)

lemma sourced_evict: "sourced evs s \<Longrightarrow> sourced evs (evictLru s)"
  by (auto simp: sourced_def evictLru_def jmap.look_del split: option.splits if_splits)

lemma sourced_delete: "sourced evs s \<Longrightarrow> sourced evs (snd (lru_delete key s))"
  by (auto simp: sourced_def lru_delete_def jmap.look_del split: if_splits)

lemma sourced_fold_delete: "sourced evs s \<Longrightarrow> sourced evs (fold (\<lambda>k s. snd (lru_delete k s)) ks s)"
  by (rule fold_invariant') (simp_all add: sourced_delete)

lemma sourced_mono: "sourced evs s \<Longrightarrow> evs \<subseteq> evs' \<Longrightarrow> sourced evs' s"
  unfolding sourced_def by blast

lemma sourced_insert: "sourced evs s \<Longrightarrow> sourced (insert ev evs) s"
  by (erule sourced_mono) blast

lemma sourced_put:
  "sourced evs s \<Longrightarrow> CacheResponse opts t key (ce_statusCode e) (ce_data e) \<in> evs \<Longrightarrow>
     200 \<le> ce_statusCode e \<Longrightarrow> ce_statusCode e < 300 \<Longrightarrow> ce_expiresAt e = t + co_ttl opts \<Longrightarrow>
     sourced evs (s\<lparr>lru_map := AList.update key e (lru_map s)\<rparr>)"
  unfolding sourced_def by (auto simp: jmap.look_put)

lemma sourced_response:
  assumes "sourced evs s"
  shows "sourced (insert (CacheResponse opts now key st d) evs) (snd (cache_response opts now key st d s))"
proof -
  let ?evs = "insert (CacheResponse opts now key st d) evs"
  let ?s1 = "if \<not> jm_has (lru_map s) key \<and> lru_maxEntries s \<le> int (length (lru_map s)) then evictLru s else s"
  have s: "sourced ?evs s" "sourced ?evs ?s1"
    using assms sourced_evict by (auto intro: sourced_mono)
  show ?thesis
  proof (cases "200 \<le> st \<and> st < 300")
    case True
    then have "snd (cache_response opts now key st d s) = ?s1\<lparr>lru_map := AList.update key
        \<lparr>ce_data = d, ce_statusCode = st, ce_headers = [], ce_expiresAt = now + co_ttl opts,
         ce_ttl = co_ttl opts, ce_lastUsed = now\<rparr> (lru_map ?s1)\<rparr>"
      by (simp add: cache_response_def lru_set_def Let_def)
    with True show ?thesis by (simp only:) (rule sourced_put[OF s(2)], auto)
  qed (use s in \<open>auto simp: cache_response_def\<close>)
qed

lemma sourced_step: "sourced evs s \<Longrightarrow> sourced (insert ev evs) (cache_step ev s)"
proof (cases ev)
  case (CacheRequest opts now req q)
  then show "sourced evs s \<Longrightarrow> ?thesis"
    using snd_cache_request[of opts now req q s]
    by (auto intro!: sourced_insert sourced_get)
next
  case (CacheResponse opts now key st d)
  then show "sourced evs s \<Longrightarrow> ?thesis" by (simp add: sourced_response)
next
  case (CacheInvalidate rx p)
  have "sourced evs s \<Longrightarrow> sourced evs (snd (invalidateCache rx p s))"
    by (auto simp: invalidateCache_def Let_def sourced_fold_delete lru_clear_def sourced_def[of _ "s\<lparr>lru_map := []\<rparr>"])
  then show "sourced evs s \<Longrightarrow> ?thesis" using CacheInvalidate by (auto intro: sourced_mono)
qed

lemma sourced_run: "sourced (set evs) (cache_run E evs)"
  unfolding cache_run_def
proof (induction evs rule: rev_induct)
  case (snoc ev evs)
  then show ?case using sourced_step[OF snoc, of ev] by simp
qed (simp add: sourced_def new_lru_def)

text \<open>
  C31.  Fidelity and freshness: a cache hit sends the status and the body of a successful response
  that was stored earlier under the very key of the request and whose time to live is not over.
\<close>

theorem cache_hit_is_stored_response:
  assumes "cache_request opts now req q (cache_run E evs) = (Hit r, s')"
  shows "\<exists>opts0 t. CacheResponse opts0 t (buildCacheKey (rq_method req) (rq_path req) q) (rs_status r) (rs_body r)
            \<in> set evs \<and> 200 \<le> rs_status r \<and> rs_status r < 300 \<and> now < t + co_ttl opts0"
proof -
  let ?k = "buildCacheKey (rq_method req) (rq_path req) q"
  let ?s = "cache_run E evs"
  obtain e where e: "map_of (lru_map ?s) ?k = Some e" "now < ce_expiresAt e"
    "rs_status r = ce_statusCode e" "rs_body r = ce_data e"
    using assms
    by (cases "map_of (lru_map ?s) ?k")
      (auto simp: cache_request_def lru_get_def Let_def split: if_splits)
  with sourced_run[of evs E] show ?thesis unfolding sourced_def by metis
qed

definition sample_cache_events :: "cache_event list" where
  "sample_cache_events =
     [CacheResponse \<lparr>co_ttl = 1000, co_sharedCache = False\<rparr> 5 ''GET:/p'' 200 (JStr ''v'')]"

definition sample_get :: request where
  "sample_get = blank_request\<lparr>rq_method := ''GET'', rq_path := ''/p''\<rparr>"

lemma sample_hit:
  "\<exists>r s'. cache_request \<lparr>co_ttl = 1000, co_sharedCache = False\<rparr> 10 sample_get []
     (cache_run (\<lambda>k. None) sample_cache_events) = (Hit r, s') \<and> rs_body r = JStr ''v''"
proof -
  have k: "buildCacheKey ''GET'' ''/p'' [] = ''GET:/p''" by code_simp
  have "\<not> starts_with ''/admin/audit'' ''/p''" by simp
  with k show ?thesis
    by (simp add: sample_cache_events_def cache_run_def new_lru_def cache_response_def lru_set_def
        jm_has_def resolveMaxEntries_def DEFAULT_MAX_ENTRIES_def cache_request_def sample_get_def
        blank_request_def lru_get_def truthy_str_def Let_def)
qed

theorem cache_hit_is_stored_response_witness:
  "\<exists>opts0 t st. CacheResponse opts0 t (buildCacheKey ''GET'' ''/p'' []) st (JStr ''v'')
     \<in> set sample_cache_events \<and> 10 < t + co_ttl opts0"
proof -
  obtain r s' where h: "cache_request \<lparr>co_ttl = 1000, co_sharedCache = False\<rparr> 10 sample_get []
     (cache_run (\<lambda>k. None) sample_cache_events) = (Hit r, s')" "rs_body r = JStr ''v''"
    using sample_hit by blast
  have "rq_method sample_get = ''GET''" "rq_path sample_get = ''/p''"
    by (simp_all add: sample_get_def)
  with cache_hit_is_stored_response[OF h(1)] h(2) show ?thesis by metis
qed

text \<open>
  Least recently used: storing a new key in a full cache drops exactly one entry, one that no
  other entry was used before, and keeps every other entry.
\<close>

theorem cache_evicts_least_recently_used:
  assumes "lru_wf s" and "map_of (lru_map s) key = None"
    and "int (length (lru_map s)) = lru_maxEntries s"
  shows "\<exists>k e. map_of (lru_map s) k = Some e
    \<and> (\<forall>k' e'. map_of (lru_map s) k' = Some e' \<longrightarrow> ce_lastUsed e \<le> ce_lastUsed e')
    \<and> map_of (lru_map (lru_set now key entry s)) =
        ((map_of (lru_map s))(k := None))(key \<mapsto> entry\<lparr>ce_lastUsed := now\<rparr>)"
proof -
  have "lru_map s \<noteq> []" "jm_wf (lru_map s)" using assms by (auto simp: lru_wf_def)
  then obtain k e where k: "map_of (lru_map s) k = Some e"
    "\<And>k' e'. map_of (lru_map s) k' = Some e' \<Longrightarrow> ce_lastUsed e \<le> ce_lastUsed e'"
    "lru_map (evictLru s) = AList.delete k (lru_map s)" by (rule evict_present) blast
  have "lru_map (lru_set now key entry s) =
      AList.update key (entry\<lparr>ce_lastUsed := now\<rparr>) (AList.delete k (lru_map s))"
    using assms k(3) by (simp add: lru_set_def jm_has_def Let_def)
  with k(1,2) show ?thesis
    by (intro exI[of _ k] exI[of _ e]) (simp add: jmap.look_put jmap.look_del)
qed

definition sample_full :: lru_store where
  "sample_full = \<lparr>lru_map =
     [(''a'', \<lparr>ce_data = JNull, ce_statusCode = 200, ce_headers = [], ce_expiresAt = 9, ce_ttl = 9, ce_lastUsed = 7\<rparr>),
      (''b'', \<lparr>ce_data = JNull, ce_statusCode = 200, ce_headers = [], ce_expiresAt = 9, ce_ttl = 9, ce_lastUsed = 3\<rparr>)],
     lru_maxEntries = 2, lru_evictions = 0\<rparr>"

theorem cache_evicts_least_recently_used_witness:
  "\<exists>k. map_of (lru_map (lru_set 8 ''c'' (snd (hd (lru_map sample_full))) sample_full)) k = None
     \<and> map_of (lru_map sample_full) k \<noteq> None"
proof -
  have c: "lru_wf sample_full" "map_of (lru_map sample_full) ''c'' = None"
    "int (length (lru_map sample_full)) = lru_maxEntries sample_full"
    by (simp_all add: sample_full_def lru_wf_def jm_wf_def)
  obtain k e where "map_of (lru_map sample_full) k = Some e"
    and set: "map_of (lru_map (lru_set 8 ''c'' (snd (hd (lru_map sample_full))) sample_full)) =
      ((map_of (lru_map sample_full))(k := None))
        (''c'' \<mapsto> (snd (hd (lru_map sample_full)))\<lparr>ce_lastUsed := 8\<rparr>)"
    using cache_evicts_least_recently_used[OF c, of 8 "snd (hd (lru_map sample_full))"] by blast
  moreover from this c(2) have "k \<noteq> ''c''" by force
  ultimately show ?thesis unfolding set by (intro exI[of _ k]) (simp del: map_of.simps)
qed

section \<open>The cache key\<close>

lemma str_gt_sort_unique:
  assumes "mset xs = mset ys" shows "js_sort str_gt xs = js_sort str_gt ys"
proof -
  have s: "sorted (js_sort str_gt zs)" for zs
    using sorted_js_sort[of str_gt zs] by (auto simp: str_gt_def not_less)
  have "mset (js_sort str_gt zs) = mset zs" for zs
  proof -
    have "mset (js_insert str_gt x ws) = add_mset x (mset ws)" for x ws by (induction ws) auto
    then show ?thesis by (induction zs) simp_all
  qed
  with assms have "mset (js_sort str_gt xs) = mset (js_sort str_gt ys)" by simp
  then show ?thesis using s by (metis properties_for_sort sorted_sort_id)
qed

text \<open>
  The key depends neither on the order of the query parameters nor on the order of the values
  of a repeated parameter.
\<close>

theorem cache_key_order_independent:
  assumes "distinct (map fst q)" and "mset (map fst q) = mset (map fst q')"
    and "\<forall>k vs. map_of q k = Some vs \<longrightarrow> (\<exists>vs'. map_of q' k = Some vs' \<and> mset vs = mset vs')"
  shows "buildCacheKey m p q = buildCacheKey m p q'"
proof -
  let ?show = "\<lambda>q k. k @ ''='' @ js_join '','' (js_sort str_gt (nullish (map_of q k) []))"
  have keys: "js_sort str_gt (map fst q) = js_sort str_gt (map fst q')"
    by (rule str_gt_sort_unique[OF assms(2)])
  have "?show q k = ?show q' k" if "k \<in> set (map fst q)" for k
  proof -
    from that obtain vs where vs: "map_of q k = Some vs"
      by (cases "map_of q k") (auto simp: map_of_eq_None_iff)
    with assms(3) obtain vs' where "map_of q' k = Some vs'" "mset vs = mset vs'" by blast
    with vs show ?thesis using str_gt_sort_unique[of vs vs'] by simp
  qed
  then have "map (?show q) (js_sort str_gt (map fst q)) = map (?show q') (js_sort str_gt (map fst q))"
    by simp
  then show ?thesis unfolding buildCacheKey_def Let_def keys by metis
qed

theorem cache_key_order_independent_witness:
  "buildCacheKey ''GET'' ''/p'' [(''a'', [''2'', ''1'']), (''b'', [''3''])] =
   buildCacheKey ''GET'' ''/p'' [(''b'', [''3'']), (''a'', [''1'', ''2''])]"
  by (rule cache_key_order_independent) (auto split: if_splits)

text \<open>
  The key is not injective: parameter values are joined without escaping, so a request whose
  one value contains \<open>&\<close> and \<open>=\<close> (percent-encoded in the URL) has the key of a request with two
  parameters, and the response to one is served to the other.
\<close>

theorem cache_key_collision:
  "buildCacheKey ''GET'' ''/api/v1/transactions'' [(''limit'', [''1'']), (''type'', [''deposit''])] =
   buildCacheKey ''GET'' ''/api/v1/transactions'' [(''limit'', [''1&type=deposit''])]"
  by code_simp

end
