(* ===== verification/DateRange.thy ===== *)
theory DateRange
  imports Calendar Http
begin

text \<open>
  UTC date ranges of the list endpoints (\<open>backend/src/dateRange.ts\<close>).  \<open>Date.parse\<close> accepts formats the
  standard leaves to the engine, so it is the argument \<open>parse\<close>; \<open>toISOString\<close> is the one of the
  calendar.
\<close>

record parsed_utc_date_range =
  dr_start :: "string option"
  dr_end :: "string option"
  dr_rawStart :: "string option"
  dr_rawEnd :: "string option"
  dr_normalizedStart :: "string option"
  dr_normalizedEnd :: "string option"

datatype boundary = From | To

fun show_boundary :: "boundary \<Rightarrow> string" where
  "show_boundary From = ''from''"
| "show_boundary To = ''to''"

definition default_max_range_days :: "env \<Rightarrow> int option" where
  "default_max_range_days E = js_parse_int (env_or E ''MAX_UTC_DATE_RANGE_DAYS'' ''366'')"

definition isDateOnly :: "string \<Rightarrow> bool" where
  "isDateOnly value \<longleftrightarrow>
     length value = 10 \<and> value ! 4 = CHR ''-'' \<and> value ! 7 = CHR ''-''
     \<and> list_all (\<lambda>i. is_digit (value ! i)) [0, 1, 2, 3, 5, 6, 8, 9]"

text \<open>The regular expression \<open>/(?:Z|[+-]\d{2}:?\d{2})$/i\<close>, on the reversed string.\<close>

definition hasTimezone :: "string \<Rightarrow> bool" where
  "hasTimezone value =
     (case rev value of
        [] \<Rightarrow> False
      | c # r \<Rightarrow> c = CHR ''Z'' \<or> c = CHR ''z'' \<or>
          (case c # r of
             d4 # d3 # x # d2 # y # rest \<Rightarrow>
               list_all is_digit [d4, d3] \<and>
               (if x = CHR '':''
                then is_digit d2 \<and> is_digit y \<and>
                     (case rest of z # _ \<Rightarrow> z = CHR ''+'' \<or> z = CHR ''-'' | [] \<Rightarrow> False)
                else is_digit x \<and> is_digit d2 \<and> (y = CHR ''+'' \<or> y = CHR ''-''))
           | _ \<Rightarrow> False))"

definition startOfUtcDay :: "string \<Rightarrow> string" where
  "startOfUtcDay date = date @ ''T00:00:00.000Z''"

definition endOfUtcDay :: "string \<Rightarrow> string" where
  "endOfUtcDay date = date @ ''T23:59:59.999Z''"

text \<open>\<open>Inl\<close> is the message of the thrown \<open>DateRangeParseError\<close>.\<close>

definition normalizeBoundary ::
  "(string \<Rightarrow> time option) \<Rightarrow> string option \<Rightarrow> boundary \<Rightarrow> string + string option" where
  "normalizeBoundary parse v boundary =
     (case v of
        None \<Rightarrow> Inr None
      | Some value \<Rightarrow>
          if value = [] then Inr None
          else if isDateOnly value then
            Inr (Some (case boundary of From \<Rightarrow> startOfUtcDay value | To \<Rightarrow> endOfUtcDay value))
          else if \<not> hasTimezone value then
            Inl (''Invalid '' @ show_boundary boundary
              @ '' value. Use an ISO 8601 timestamp with timezone or YYYY-MM-DD.'')
          else (case parse value of
              None \<Rightarrow> Inl (''Invalid '' @ show_boundary boundary @ '' value. Unable to parse date.'')
            | Some timestamp \<Rightarrow> Inr (Some (to_iso_string timestamp))))"

text \<open>A comparison with \<open>NaN\<close> is false, so an end that does not parse passes both checks.\<close>

definition range_error :: "(string \<Rightarrow> time option) \<Rightarrow> int \<Rightarrow> string \<Rightarrow> string \<Rightarrow> string option" where
  "range_error parse maxRangeDays s e =
     (case (parse s, parse e) of
        (Some startTime, Some endTime) \<Rightarrow>
          if endTime < startTime
          then Some ''Invalid date range. `to` must be greater than or equal to `from`.''
          else if (maxRangeDays - 1) * 24 * 60 * 60 * 1000 + 999 < endTime - startTime
          then Some (''Invalid date range. Maximum allowed range is '' @ show_int maxRangeDays @ '' days.'')
          else None
      | _ \<Rightarrow> None)"

definition parseUtcDateRange ::
  "(string \<Rightarrow> time option) \<Rightarrow> int \<Rightarrow> string option \<Rightarrow> string option \<Rightarrow> int option \<Rightarrow>
   string + parsed_utc_date_range" where
  "parseUtcDateRange parse defaultMax inFrom inTo optMax =
     (case normalizeBoundary parse inFrom From of
        Inl msg \<Rightarrow> Inl msg
      | Inr normalizedStart \<Rightarrow>
          (case normalizeBoundary parse inTo To of
             Inl msg \<Rightarrow> Inl msg
           | Inr normalizedEnd \<Rightarrow>
               (case (case (normalizedStart, normalizedEnd) of
                        (Some s, Some e) \<Rightarrow> range_error parse (nullish optMax defaultMax) s e
                      | _ \<Rightarrow> None) of
                  Some msg \<Rightarrow> Inl msg
                | None \<Rightarrow> Inr \<lparr>dr_start = normalizedStart, dr_end = normalizedEnd,
                    dr_rawStart = inFrom, dr_rawEnd = inTo,
                    dr_normalizedStart = normalizedStart, dr_normalizedEnd = normalizedEnd\<rparr>)))"

section \<open>Ranges of whole days\<close>

text \<open>The dates \<open>YYYY-MM-DD\<close> the engine reads as the day numbers \<open>a\<close>: midnight parses to the start of
  the day, the last millisecond to the end.\<close>

definition names_day :: "(string \<Rightarrow> time option) \<Rightarrow> string \<Rightarrow> int \<Rightarrow> bool" where
  "names_day parse d a \<longleftrightarrow> isDateOnly d
     \<and> parse (startOfUtcDay d) = Some (day_start a) \<and> parse (endOfUtcDay d) = Some (day_start (a + 1) - 1)"

lemma normalize_date_only:
  "isDateOnly d \<Longrightarrow> normalizeBoundary parse (Some d) b =
     Inr (Some (case b of From \<Rightarrow> startOfUtcDay d | To \<Rightarrow> endOfUtcDay d))"
  by (auto simp: normalizeBoundary_def isDateOnly_def)

text \<open>
  A range given by two dates, of \<open>b - a + 1\<close> whole days, is accepted exactly when it is not
  empty and has fewer days than the maximum: the range of exactly the maximum is refused with the
  message that the maximum is allowed.
\<close>

theorem date_only_range_limit:
  assumes "names_day parse d1 a" and "names_day parse d2 b"
  shows "parseUtcDateRange parse defaultMax (Some d1) (Some d2) (Some maxDays) =
    (if b < a then Inl ''Invalid date range. `to` must be greater than or equal to `from`.''
     else if maxDays \<le> b - a + 1
     then Inl (''Invalid date range. Maximum allowed range is '' @ show_int maxDays @ '' days.'')
     else Inr \<lparr>dr_start = Some (startOfUtcDay d1), dr_end = Some (endOfUtcDay d2),
        dr_rawStart = Some d1, dr_rawEnd = Some d2,
        dr_normalizedStart = Some (startOfUtcDay d1), dr_normalizedEnd = Some (endOfUtcDay d2)\<rparr>)"
proof -
  have lt: "day_start (b + 1) - 1 < day_start a \<longleftrightarrow> b < a"
    by (auto simp: day_start_def ms_per_day_def)
  have gt: "(maxDays - 1) * 24 * 60 * 60 * 1000 + 999 < day_start (b + 1) - 1 - day_start a
      \<longleftrightarrow> maxDays \<le> b - a + 1"
    by (auto simp: day_start_def ms_per_day_def)
  show ?thesis
    using assms lt gt
    by (simp add: parseUtcDateRange_def names_day_def normalize_date_only range_error_def)
qed

definition sample_parse :: "string \<Rightarrow> time option" where
  "sample_parse = map_of
     [(''2024-01-01T00:00:00.000Z'', day_start 19723), (''2024-01-01T23:59:59.999Z'', day_start 19724 - 1),
      (''2024-01-07T00:00:00.000Z'', day_start 19729), (''2024-01-07T23:59:59.999Z'', day_start 19730 - 1)]"

theorem date_only_range_limit_witness:
  "parseUtcDateRange sample_parse 366 (Some ''2024-01-01'') (Some ''2024-01-07'') (Some 7) =
     Inl ''Invalid date range. Maximum allowed range is 7 days.''"
proof -
  have "names_day sample_parse ''2024-01-01'' 19723" "names_day sample_parse ''2024-01-07'' 19729"
    by (simp_all add: names_day_def sample_parse_def isDateOnly_def startOfUtcDay_def endOfUtcDay_def is_digit_def)
  from date_only_range_limit[OF this, of 366 7] have
    "parseUtcDateRange sample_parse 366 (Some ''2024-01-01'') (Some ''2024-01-07'') (Some 7) =
      Inl (''Invalid date range. Maximum allowed range is '' @ show_int 7 @ '' days.'')" by simp
  moreover have "show_int 7 = ''7''" by code_simp
  ultimately show ?thesis by simp
qed

text \<open>A date that does not exist is not refused: it has the shape of a date and is never parsed
  when the other end is open.\<close>

lemma impossible_date_accepted:
  "isDateOnly d \<Longrightarrow> \<exists>r. parseUtcDateRange parse defaultMax (Some d) None m = Inr r \<and> dr_start r = Some (startOfUtcDay d)"
  by (simp add: parseUtcDateRange_def normalize_date_only normalizeBoundary_def[of _ None])

end
