(* ===== verification/Pagination.thy ===== *)
theory Pagination
  imports DateRange Base64
begin

text \<open>
  Pagination of the list endpoints (\<open>backend/src/pagination.ts\<close>): query parsing, cursor and offset
  pages with their metadata, sorting, and cursor coding.  Numbers are \<^typ>\<open>int\<close>; a query parameter
  is a string or absent.
\<close>

section \<open>Types\<close>

datatype sort_order = Asc | Desc

record pagination_query =
  pq_limit :: "int option"
  pq_cursor :: "string option"
  pq_page :: "int option"
  pq_sortBy :: "string option"
  pq_sortOrder :: "sort_order option"

record pagination_meta =
  pm_count :: int
  pm_limit :: int
  pm_total :: "int option"
  pm_nextCursor :: "string option"
  pm_prevCursor :: "string option"
  pm_currentPage :: "int option"
  pm_totalPages :: "int option"
  pm_hasNextPage :: bool
  pm_hasPrevPage :: bool

record 'a paginated_response =
  pr_data :: "'a list"
  pr_pagination :: pagination_meta
  pr_timestamp :: time
  pr_normalizedDateRange :: "parsed_utc_date_range option"

record pagination_config =
  pc_defaultLimit :: int
  pc_maxLimit :: int
  pc_includeTotal :: bool
  pc_defaultSortBy :: "string option"
  pc_defaultSortOrder :: sort_order

definition DEFAULT_PAGINATION_CONFIG :: pagination_config where
  "DEFAULT_PAGINATION_CONFIG = \<lparr>pc_defaultLimit = 20, pc_maxLimit = 100, pc_includeTotal = True,
     pc_defaultSortBy = None, pc_defaultSortOrder = Desc\<rparr>"

section \<open>Query parsing\<close>

text \<open>\<open>a || d\<close> on an optional number: absent and zero are falsy.\<close>

definition num_or :: "int option \<Rightarrow> int \<Rightarrow> int" where
  "num_or a d = (case a of None \<Rightarrow> d | Some n \<Rightarrow> if n = 0 then d else n)"

definition positive_param :: "string option \<Rightarrow> int option" where
  "positive_param raw =
     (case raw of None \<Rightarrow> None
      | Some v \<Rightarrow> (case js_parse_int v of None \<Rightarrow> None | Some n \<Rightarrow> if 0 < n then Some n else None))"

definition parsePaginationQuery :: "request \<Rightarrow> pagination_config \<Rightarrow> pagination_query" where
  "parsePaginationQuery req cfg =
     (let q = rq_query req;
          limit = map_option (\<lambda>n. min n (pc_maxLimit cfg)) (positive_param (q ''limit''));
          order = (case q ''sortOrder'' of None \<Rightarrow> None
                   | Some v \<Rightarrow> if js_lower v = ''asc'' then Some Asc
                       else if js_lower v = ''desc'' then Some Desc else None)
      in \<lparr>pq_limit = Some (num_or limit (pc_defaultLimit cfg)),
          pq_cursor = q ''cursor'',
          pq_page = (case q ''page'' of None \<Rightarrow> None | Some v \<Rightarrow> Some (nullish (positive_param (Some v)) 1)),
          pq_sortBy = (case q ''sortBy'' of Some v \<Rightarrow> Some v
             | None \<Rightarrow> if truthy_str (pc_defaultSortBy cfg) then pc_defaultSortBy cfg else None),
          pq_sortOrder = Some (nullish order (pc_defaultSortOrder cfg))\<rparr>)"

section \<open>Pages\<close>

text \<open>\<open>Array.prototype.slice\<close>: negative positions count from the end.\<close>

definition slice_pos :: "int \<Rightarrow> 'a list \<Rightarrow> nat" where
  "slice_pos i xs = nat (if i < 0 then max 0 (int (length xs) + i) else min i (int (length xs)))"

definition array_slice :: "int \<Rightarrow> int \<Rightarrow> 'a list \<Rightarrow> 'a list" where
  "array_slice i j xs = js_slice (slice_pos i xs) (slice_pos j xs) xs"

definition createPaginationEnvelope ::
  "int \<Rightarrow> int \<Rightarrow> int option \<Rightarrow> string option \<Rightarrow> string option \<Rightarrow> int option \<Rightarrow> int option \<Rightarrow> bool \<Rightarrow> bool \<Rightarrow>
   pagination_meta" where
  "createPaginationEnvelope count limit totalItems nextC prevC currentPage totalPages hasNext hasPrev =
     \<lparr>pm_count = count, pm_limit = limit, pm_total = totalItems, pm_nextCursor = nextC, pm_prevCursor = prevC,
      pm_currentPage = currentPage, pm_totalPages = totalPages, pm_hasNextPage = hasNext,
      pm_hasPrevPage = hasPrev\<rparr>"

definition page_count :: "int \<Rightarrow> 'a list \<Rightarrow> int" where
  "page_count limit items = ceil_div (int (length items)) limit"

text \<open>The page that starts at \<open>startIndex\<close>.\<close>

definition page_from ::
  "'a list \<Rightarrow> pagination_query \<Rightarrow> ('a \<Rightarrow> string) \<Rightarrow> int \<Rightarrow> int \<Rightarrow> 'a list \<times> pagination_meta" where
  "page_from items query getCursor limit startIndex =
     (let pageItems = array_slice startIndex (startIndex + limit + 1) items;
          hasMore = limit < int (length pageItems);
          data = (if hasMore then array_slice 0 limit pageItems else pageItems);
          prevIndex = max 0 (startIndex - limit - 1);
          page = (if num_or (pq_page query) 0 = 0 then None else pq_page query)
      in (data, createPaginationEnvelope (int (length data)) limit (Some (int (length items)))
           (if hasMore \<and> data \<noteq> [] then Some (getCursor (last data)) else None)
           (if 0 < startIndex \<and> data \<noteq> [] \<and> prevIndex < int (length items)
            then Some (getCursor (items ! nat prevIndex)) else None)
           page
           (if page = None then None else Some (max 1 (page_count limit items)))
           hasMore (0 < startIndex)))"

definition paginateWithCursor ::
  "'a list \<Rightarrow> pagination_query \<Rightarrow> ('a \<Rightarrow> string) \<Rightarrow> 'a list \<times> pagination_meta" where
  "paginateWithCursor items query getCursor =
     (let limit = num_or (pq_limit query) (pc_defaultLimit DEFAULT_PAGINATION_CONFIG);
          page = num_or (pq_page query) 0;
          startIndex = (if 0 < page then (page - 1) * limit else 0)
      in if truthy_str (pq_cursor query)
         then (case find_index (\<lambda>item. getCursor item = the (pq_cursor query)) items of
                 None \<Rightarrow> ([], createPaginationEnvelope 0 limit
                   (if page \<noteq> 0 then Some (int (length items)) else None) None None
                   (if page \<noteq> 0 then Some (max 1 page) else None)
                   (if page \<noteq> 0 then Some (max 1 (page_count limit items)) else None) False False)
               | Some cursorIndex \<Rightarrow> page_from items query getCursor limit (int cursorIndex + 1))
         else page_from items query getCursor limit startIndex)"

definition paginateWithOffset :: "'a list \<Rightarrow> pagination_query \<Rightarrow> 'a list \<times> pagination_meta" where
  "paginateWithOffset items query =
     (let limit = num_or (pq_limit query) (pc_defaultLimit DEFAULT_PAGINATION_CONFIG);
          page = num_or (pq_page query) 1;
          startIndex = (page - 1) * limit;
          endIndex = startIndex + limit;
          data = array_slice startIndex endIndex items;
          totalPages = page_count limit items
      in (data, createPaginationEnvelope (int (length data)) limit (Some (int (length items))) None None
           (Some page) (Some totalPages) (page < totalPages) (1 < page)))"

section \<open>Sorting and responses\<close>

text \<open>A field of an item; \<open>lc\<close> is \<open>localeCompare\<close> and \<open>str\<close> is \<open>String\<close> on the other values.\<close>

datatype field_value = FString string | FNumber rat | FDate time | FOther json

type_synonym item = "string \<Rightarrow> field_value option"

definition compare_values ::
  "(string \<Rightarrow> string \<Rightarrow> int) \<Rightarrow> (field_value \<Rightarrow> string) \<Rightarrow> field_value \<Rightarrow> field_value \<Rightarrow> rat" where
  "compare_values lc str a b =
     (case (a, b) of
        (FString x, FString y) \<Rightarrow> of_int (lc x y)
      | (FNumber x, FNumber y) \<Rightarrow> x - y
      | (FDate x, FDate y) \<Rightarrow> of_int (x - y)
      | _ \<Rightarrow> of_int (lc (str a) (str b)))"

definition compare_items ::
  "(string \<Rightarrow> string \<Rightarrow> int) \<Rightarrow> (field_value \<Rightarrow> string) \<Rightarrow> string \<Rightarrow> sort_order \<Rightarrow> item \<Rightarrow> item \<Rightarrow> rat" where
  "compare_items lc str sortBy sortOrder a b =
     (case (a sortBy, b sortBy) of
        (None, None) \<Rightarrow> 0
      | (None, Some _) \<Rightarrow> if sortOrder = Asc then 1 else - 1
      | (Some _, None) \<Rightarrow> if sortOrder = Asc then - 1 else 1
      | (Some x, Some y) \<Rightarrow>
          let comparison = compare_values lc str x y in if sortOrder = Asc then comparison else - comparison)"

definition sortItems ::
  "(string \<Rightarrow> string \<Rightarrow> int) \<Rightarrow> (field_value \<Rightarrow> string) \<Rightarrow> item list \<Rightarrow> string \<Rightarrow> sort_order \<Rightarrow> item list" where
  "sortItems lc str items sortBy sortOrder =
     js_sort (\<lambda>a b. 0 < compare_items lc str sortBy sortOrder a b) items"

definition createPaginatedResponse ::
  "time \<Rightarrow> 'a list \<Rightarrow> pagination_meta \<Rightarrow> parsed_utc_date_range option \<Rightarrow> 'a paginated_response" where
  "createPaginatedResponse now data pagination extras =
     \<lparr>pr_data = data, pr_pagination = pagination, pr_timestamp = now, pr_normalizedDateRange = extras\<rparr>"

definition encodeCursor :: "string \<Rightarrow> string" where
  "encodeCursor value = base64url value"

definition decodeCursor :: "string \<Rightarrow> string" where
  "decodeCursor cursor = from_base64 cursor"

section \<open>Lemmas\<close>

lemma array_slice_nonneg:
  "0 \<le> i \<Longrightarrow> 0 \<le> j \<Longrightarrow> array_slice i j xs = take (nat j - nat i) (drop (nat i) xs)"
proof -
  assume "0 \<le> i" "0 \<le> j"
  then have "slice_pos i xs = min (nat i) (length xs)" "slice_pos j xs = min (nat j) (length xs)"
    by (auto simp: slice_pos_def min_def)
  then show ?thesis by (auto simp: array_slice_def js_slice_def min_def)
qed

lemma num_or_pos: "0 < d \<Longrightarrow> (\<forall>n. a = Some n \<longrightarrow> 0 \<le> n) \<Longrightarrow> 0 < num_or a d"
  by (auto simp: num_or_def split: option.split)

text \<open>
  Whatever the client sends, the parsed page size is positive and at most the maximum, and the
  page number, when there is one, is positive.
\<close>

theorem parsed_limit_bounds:
  assumes "0 < pc_defaultLimit cfg" and "pc_defaultLimit cfg \<le> pc_maxLimit cfg"
  shows "\<exists>l. pq_limit (parsePaginationQuery req cfg) = Some l \<and> 0 < l \<and> l \<le> pc_maxLimit cfg
    \<and> (\<forall>p. pq_page (parsePaginationQuery req cfg) = Some p \<longrightarrow> 0 < p)"
  using assms
  by (auto simp: parsePaginationQuery_def Let_def num_or_def positive_param_def nullish_def min_def
      split: option.splits if_splits)

theorem parsed_limit_bounds_witness:
  "\<exists>l. pq_limit (parsePaginationQuery (blank_request\<lparr>rq_query := (\<lambda>k. Some ''-5'')\<rparr>) DEFAULT_PAGINATION_CONFIG)
     = Some l \<and> 0 < l \<and> l \<le> 100"
  using parsed_limit_bounds[of DEFAULT_PAGINATION_CONFIG "blank_request\<lparr>rq_query := (\<lambda>k. Some ''-5'')\<rparr>"]
  by (auto simp: DEFAULT_PAGINATION_CONFIG_def)

section \<open>Walking through the pages\<close>

text \<open>A client that follows \<open>nextCursor\<close> until there is none; at most \<open>fuel\<close> pages.\<close>

fun walk_pages :: "nat \<Rightarrow> 'a list \<Rightarrow> int \<Rightarrow> ('a \<Rightarrow> string) \<Rightarrow> string option \<Rightarrow> 'a list list" where
  "walk_pages 0 items limit getCursor cursor = []"
| "walk_pages (Suc fuel) items limit getCursor cursor =
     (let (data, meta) = paginateWithCursor items
            \<lparr>pq_limit = Some limit, pq_cursor = cursor, pq_page = None, pq_sortBy = None, pq_sortOrder = None\<rparr>
            getCursor
      in data # (case pm_nextCursor meta of None \<Rightarrow> []
                 | Some c \<Rightarrow> walk_pages fuel items limit getCursor (Some c)))"

definition cursor_query :: "int \<Rightarrow> string option \<Rightarrow> pagination_query" where
  "cursor_query limit cursor =
     \<lparr>pq_limit = Some limit, pq_cursor = cursor, pq_page = None, pq_sortBy = None, pq_sortOrder = None\<rparr>"

lemma page_from_data:
  assumes "0 < limit" and "0 \<le> i"
  shows "fst (page_from items q g limit i) = take (nat limit) (drop (nat i) items)"
    and "pm_nextCursor (snd (page_from items q g limit i)) =
      (if nat i + nat limit < length items then Some (g (items ! (nat i + nat limit - 1))) else None)"
proof -
  let ?l = "nat limit"
  have p: "array_slice i (i + limit + 1) items = take (Suc ?l) (drop (nat i) items)"
    using assms by (subst array_slice_nonneg) (simp_all add: nat_add_distrib)
  have more: "limit < int (length (take (Suc ?l) (drop (nat i) items))) \<longleftrightarrow> nat i + ?l < length items"
    using assms by (simp add: min_def) linarith
  have d: "fst (page_from items q g limit i) = take ?l (drop (nat i) items)"
    using assms by (auto simp: page_from_def p Let_def array_slice_nonneg more min_def)
  then show "fst (page_from items q g limit i) = take ?l (drop (nat i) items)" .
  show "pm_nextCursor (snd (page_from items q g limit i)) =
      (if nat i + ?l < length items then Some (g (items ! (nat i + ?l - 1))) else None)"
  proof (cases "nat i + ?l < length items")
    case True
    then have "last (take ?l (drop (nat i) items)) = items ! (nat i + ?l - 1)"
      using assms by (subst last_conv_nth) (auto simp: min_def)
    with True assms show ?thesis
      by (auto simp: page_from_def p Let_def array_slice_nonneg more createPaginationEnvelope_def min_def)
  qed (use more in \<open>simp add: page_from_def p Let_def createPaginationEnvelope_def\<close>)
qed

lemma paginate_from_cursor:
  assumes "0 < limit" and "distinct (map g items)" and "i < length items" and "g (items ! i) \<noteq> []"
  shows "paginateWithCursor items (cursor_query limit (Some (g (items ! i)))) g =
    page_from items (cursor_query limit (Some (g (items ! i)))) g limit (int i + 1)"
proof -
  have "find_index (\<lambda>item. g item = g (items ! i)) items = Some i"
    using assms(2,3) by (intro find_index_unique) (auto simp: distinct_conv_nth)
  with assms show ?thesis
    by (simp add: paginateWithCursor_def cursor_query_def truthy_str_def num_or_def)
qed

lemma walk_from:
  assumes l: "0 < limit" and d: "distinct (map g items)" and ne: "\<forall>x \<in> set items. g x \<noteq> []"
    and "i < length items" and "length items - i \<le> fuel"
  shows "concat (walk_pages fuel items limit g (Some (g (items ! i)))) = drop (Suc i) items"
  using assms(4,5)
proof (induction fuel arbitrary: i)
  case (Suc fuel)
  let ?q = "cursor_query limit (Some (g (items ! i)))"
  have nat_i: "nat (int i + 1) = Suc i" by simp
  have page: "paginateWithCursor items ?q g = page_from items ?q g limit (int i + 1)"
    using l d Suc.prems(1) ne by (intro paginate_from_cursor) auto
  have data: "fst (page_from items ?q g limit (int i + 1)) = take (nat limit) (drop (Suc i) items)"
    and nxt: "pm_nextCursor (snd (page_from items ?q g limit (int i + 1))) =
      (if Suc i + nat limit < length items then Some (g (items ! (i + nat limit))) else None)"
    using page_from_data[OF l, of "int i + 1" items ?q g] by (simp_all add: nat_i)
  show ?case
  proof (cases "Suc i + nat limit < length items")
    case True
    have "concat (walk_pages fuel items limit g (Some (g (items ! (i + nat limit))))) =
        drop (Suc (i + nat limit)) items"
      using True Suc.prems l by (intro Suc.IH) auto
    moreover have "drop (Suc (i + nat limit)) items = drop (nat limit) (drop (Suc i) items)"
      by (simp add: add.commute)
    moreover have "concat (walk_pages (Suc fuel) items limit g (Some (g (items ! i)))) =
        take (nat limit) (drop (Suc i) items) @
        concat (walk_pages fuel items limit g (Some (g (items ! (i + nat limit)))))"
      using True page data nxt by (simp add: cursor_query_def split_beta Let_def)
    ultimately show ?thesis by (simp only: append_take_drop_id)
  next
    case False
    then show ?thesis
      using page data nxt by (simp add: cursor_query_def split_beta Let_def)
  qed
qed simp



text \<open>
  The cursor to the previous page is off by one at the start: following the \<open>prevCursor\<close> of the
  second page leads to the items from the second on, so the first item is never shown again.
\<close>

theorem prev_cursor_skips_first_item:
  assumes "0 < limit" and "distinct (map g items)" and "\<forall>x \<in> set items. g x \<noteq> []"
    and "nat limit < length items"
    and "paginateWithCursor items (cursor_query limit (Some (g (items ! (nat limit - 1))))) g = (data, meta)"
  shows "pm_prevCursor meta = Some (g (items ! 0))
    \<and> fst (paginateWithCursor items (cursor_query limit (pm_prevCursor meta)) g) =
        take (nat limit) (drop 1 items)"
proof -
  let ?q = "cursor_query limit (Some (g (items ! (nat limit - 1))))"
  have "paginateWithCursor items ?q g = page_from items ?q g limit (int (nat limit - 1) + 1)"
    using assms by (intro paginate_from_cursor) auto
  then have page: "(data, meta) = page_from items ?q g limit limit"
    using assms(1,5) by simp
  have "data = take (nat limit) (drop (nat limit) items)"
    using page_from_data(1)[OF assms(1), of limit items ?q g] page assms(1) by (metis fst_conv order_less_imp_le)
  then have "data \<noteq> []" using assms(1,4) by auto
  then have prev: "pm_prevCursor meta = Some (g (items ! 0))"
    using page assms(1,4) by (auto simp: page_from_def Let_def createPaginationEnvelope_def)
  have ne: "0 < length items" using assms(4) by linarith
  have "paginateWithCursor items (cursor_query limit (Some (g (items ! 0)))) g =
      page_from items (cursor_query limit (Some (g (items ! 0)))) g limit (int 0 + 1)"
    using assms ne by (intro paginate_from_cursor) auto
  then show ?thesis
    using prev page_from_data(1)[OF assms(1), of 1 items "cursor_query limit (Some (g (items ! 0)))" g] by simp
qed

theorem prev_cursor_skips_first_item_witness:
  "fst (paginateWithCursor [1::nat, 2, 3] (cursor_query 2
     (pm_prevCursor (snd (paginateWithCursor [1::nat, 2, 3] (cursor_query 2 (Some ''2'')) show_nat)))) show_nat)
   = [2, 3]"
proof -
  have s: "show_nat 1 = ''1''" "show_nat 2 = ''2''" "show_nat 3 = ''3''" by code_simp+
  let ?r = "paginateWithCursor [1::nat, 2, 3] (cursor_query 2 (Some (show_nat ([1, 2, 3] ! (nat 2 - 1))))) show_nat"
  have "?r = (fst ?r, snd ?r)" by simp
  from prev_cursor_skips_first_item[OF _ _ _ _ this] s show ?thesis by (auto simp: numeral_eq_Suc)
qed

text \<open>A cursor survives its coding.\<close>

lemma cursor_roundtrip: "decodeCursor (encodeCursor c) = c"
  by (simp add: decodeCursor_def encodeCursor_def from_base64url)

end
