(* ===== verification/Auth.thy ===== *)
theory Auth
  imports WalletSignature
begin

text \<open>
  Session tokens (\<open>backend/src/auth.ts\<close>): the checks on the JWT secret, HS256 access tokens, opaque
  refresh tokens with rotation and theft detection over the store interface
  \<open>IRefreshTokenStore\<close>, the \<open>requireAuth\<close> middleware and the route handlers.  The HMAC of Node's
  \<open>crypto\<close> is the argument \<open>hmac\<close>, a function from secret and message to the base-64 digest;
  \<open>JSON.parse\<close> on a payload is the argument \<open>parse\<close>; random tokens and identifiers are arguments.
\<close>

section \<open>The secret and the time-to-live settings\<close>

definition DEFAULT_JWT_SECRET :: string where
  "DEFAULT_JWT_SECRET = ''change-me-in-production-must-be-at-least-32-characters''"

definition MIN_SECRET_LENGTH :: nat where
  "MIN_SECRET_LENGTH = 32"

definition countCharacterClasses :: "string \<Rightarrow> nat" where
  "countCharacterClasses s =
     length (filter (\<lambda>p. list_ex p s)
       [is_lower, is_upper, is_digit, \<lambda>c. \<not> (is_lower c \<or> is_upper c \<or> is_digit c)])"

definition validateJwtSecret :: "string \<Rightarrow> string option" where
  "validateJwtSecret secret =
     (if secret = [] \<or> js_trim secret = [] then
        Some ''JWT_SECRET is not set. Set a strong secret before starting in production.''
      else if length secret < MIN_SECRET_LENGTH then
        Some (''JWT_SECRET is too short ('' @ show_nat (length secret) @ '' chars). '' @
              ''Production requires at least '' @ show_nat MIN_SECRET_LENGTH @ '' characters.'')
      else if countCharacterClasses secret < 3 then
        Some (''JWT_SECRET has insufficient entropy. '' @
              ''Use a mix of uppercase, lowercase, digits, and symbols '' @
              ''(at least 3 of the 4 character classes).'')
      else None)"

text \<open>Whether \<open>assertJwtSecretValid\<close> lets the process go on.\<close>

definition assertJwtSecretValid :: "env \<Rightarrow> bool" where
  "assertJwtSecretValid E =
     (if E ''NODE_ENV'' = Some ''production''
      then validateJwtSecret (env_or E ''JWT_SECRET'' []) = None else True)"

definition getSecret :: "env \<Rightarrow> string" where
  "getSecret E = env_or E ''JWT_SECRET'' DEFAULT_JWT_SECRET"

text \<open>\<open>getAccessTtl\<close> and \<open>getRefreshTtl\<close>; \<^const>\<open>None\<close> is \<open>NaN\<close>, which a deployment must not configure,
  so the issuing functions take the numbers.\<close>

definition getAccessTtl :: "env \<Rightarrow> int option" where
  "getAccessTtl E = js_parse_int (env_or E ''JWT_ACCESS_TTL_SECONDS'' ''900'')"

definition getRefreshTtl :: "env \<Rightarrow> int option" where
  "getRefreshTtl E = js_parse_int (env_or E ''JWT_REFRESH_TTL_SECONDS'' ''604800'')"

section \<open>HS256 tokens\<close>

definition to_url_alphabet :: "string \<Rightarrow> string" where
  "to_url_alphabet s =
     filter (\<lambda>c. c \<noteq> CHR ''='')
       (map (\<lambda>c. if c = CHR ''+'' then CHR ''-'' else if c = CHR ''/'' then CHR ''_'' else c) s)"

definition base64UrlEncode :: "string \<Rightarrow> string" where
  "base64UrlEncode input = to_url_alphabet (base64 input)"

definition base64UrlDecode :: "string \<Rightarrow> string" where
  "base64UrlDecode input =
     (let padded = input @ replicate ((4 - length input mod 4) mod 4) (CHR ''='')
      in from_base64 (map (\<lambda>c. if c = CHR ''-'' then CHR ''+'' else if c = CHR ''_'' then CHR ''/'' else c) padded))"

definition json_prop :: "string \<Rightarrow> string \<Rightarrow> string" where
  "json_prop k v = [CHR 0x22] @ k @ [CHR 0x22] @ '':'' @ v"

definition json_quote :: "string \<Rightarrow> string" where
  "json_quote s = [CHR 0x22] @ s @ [CHR 0x22]"

definition jwt_header :: string where
  "jwt_header = ''{'' @ json_prop ''alg'' (json_quote ''HS256'') @ '','' @ json_prop ''typ'' (json_quote ''JWT'') @ ''}''"

definition jwt_signature :: "(string \<Rightarrow> string \<Rightarrow> string) \<Rightarrow> env \<Rightarrow> string \<Rightarrow> string" where
  "jwt_signature hmac E signingInput = to_url_alphabet (hmac (getSecret E) signingInput)"

text \<open>\<open>stringify\<close> is \<open>JSON.stringify\<close> on payloads.\<close>

definition signJwt ::
  "(string \<Rightarrow> string \<Rightarrow> string) \<Rightarrow> (jwt_payload \<Rightarrow> string) \<Rightarrow> env \<Rightarrow> jwt_payload \<Rightarrow> string" where
  "signJwt hmac stringify E payload =
     (let header = base64UrlEncode jwt_header;
          body = base64UrlEncode (stringify payload);
          signingInput = header @ ''.'' @ body
      in signingInput @ ''.'' @ jwt_signature hmac E signingInput)"

definition verifyJwt ::
  "(string \<Rightarrow> string \<Rightarrow> string) \<Rightarrow> (string \<Rightarrow> jwt_payload option) \<Rightarrow> env \<Rightarrow> time \<Rightarrow> string \<Rightarrow> string + jwt_payload" where
  "verifyJwt hmac parse E now token =
     (case js_split (CHR ''.'') token of
        [header, body, providedSig] \<Rightarrow>
          let signingInput = header @ ''.'' @ body;
              expectedSig = jwt_signature hmac E signingInput
          in if length providedSig \<noteq> length expectedSig
             then Inl ''Input buffers must have the same byte length''
             else if providedSig \<noteq> expectedSig then Inl ''Invalid JWT signature''
             else (case parse (base64UrlDecode body) of
                 None \<Rightarrow> Inl ''Malformed JWT payload''
               | Some payload \<Rightarrow>
                   if jwt_exp payload < now div 1000 then Inl ''JWT has expired'' else Inr payload)
      | _ \<Rightarrow> Inl ''Malformed JWT'')"

lemma to_url_append [simp]: "to_url_alphabet (s @ t) = to_url_alphabet s @ to_url_alphabet t"
  by (simp add: to_url_alphabet_def)

lemma to_url_Cons: "to_url_alphabet (x # xs) = to_url_alphabet [x] @ to_url_alphabet xs"
  by (metis append_Cons append_Nil to_url_append)

lemma to_url_sextets:
  "(\<And>n. n \<in> set ns \<Longrightarrow> n < 64) \<Longrightarrow>
     to_url_alphabet (map (sextet_char False) ns) = map (sextet_char True) ns"
proof (induction ns)
  case (Cons n ns)
  have n: "n < 64" using Cons.prems by simp
  have "to_url_alphabet [sextet_char False n] = [sextet_char True n]"
  proof (cases "n < 62")
    case True
    then have same: "sextet_char False n = sextet_char True n" by (simp add: sextet_char_def)
    have u: "url_char (sextet_char True n)" by (rule sextet_char_url[OF n])
    have "sextet_char True n \<noteq> CHR ''=''" by (rule sextet_char_not_pad[OF n])
    with u show ?thesis by (auto simp: same to_url_alphabet_def url_char_def)
  next
    case False
    with n have "n = 62 \<or> n = 63" by linarith
    then show ?thesis by (auto simp: to_url_alphabet_def sextet_char_def)
  qed
  moreover have "to_url_alphabet (map (sextet_char False) ns) = map (sextet_char True) ns"
    using Cons by simp
  ultimately show ?case
    using to_url_Cons[of "sextet_char False n" "map (sextet_char False) ns"] by simp
qed (simp add: to_url_alphabet_def)

lemma base64UrlEncode_eq: "base64UrlEncode s = base64url s"
proof -
  have pad: "to_url_alphabet (replicate k (CHR ''='')) = []" for k
    by (simp add: to_url_alphabet_def)
  show ?thesis
    using to_url_sextets[of "sextets (map of_char s)"] sextets_bound[OF char_bytes[of s]]
    by (simp add: base64UrlEncode_def base64_def base64url_def pad)
qed

lemma char_sextet_std:
  "char_sextet (if c = CHR ''-'' then CHR ''+'' else if c = CHR ''_'' then CHR ''/'' else c) = char_sextet c"
  by (auto simp: char_sextet_def)

lemma base64UrlDecode_encode: "base64UrlDecode (base64UrlEncode s) = s"
proof -
  let ?f = "\<lambda>c. if c = CHR ''-'' then CHR ''+'' else if c = CHR ''_'' then CHR ''/'' else (c :: char)"
  have tw: "takeWhile (\<lambda>c. c \<noteq> CHR ''='') (map ?f t) = map ?f (takeWhile (\<lambda>c. c \<noteq> CHR ''='') t)" for t
    by (induction t) auto
  have mf: "List.map_filter char_sextet (map ?f t) = List.map_filter char_sextet t" for t
    by (simp add: List.map_filter_def filter_map comp_def char_sextet_std)
  let ?pad = "replicate ((4 - length (base64url s) mod 4) mod 4) (CHR ''='')"
  have "base64UrlDecode (base64UrlEncode s) = from_base64 (map ?f (base64url s @ ?pad))"
    by (simp add: base64UrlDecode_def base64UrlEncode_eq)
  also have "\<dots> = map char_of (bytes_of_sextets (List.map_filter char_sextet
      (takeWhile (\<lambda>c. c \<noteq> CHR ''='') (base64url s @ ?pad))))"
    unfolding from_base64_def tw mf ..
  also have "\<dots> = s"
    using decode_sextets[of "sextets (map of_char s)" ?pad _ True, OF _ refl] sextets_bound[OF char_bytes[of s]]
    by (simp add: base64url_def bytes_of_sextets_inverse[OF char_bytes] comp_def)
  finally show ?thesis .
qed

section \<open>Token properties\<close>

lemma base64url_no_dot: "CHR ''.'' \<notin> set (base64url s)"
  using base64url_chars[of "CHR ''.''" s] by (auto simp: url_char_def char_sextet_def)

lemma to_url_no_dot: "CHR ''.'' \<notin> set s \<Longrightarrow> CHR ''.'' \<notin> set (to_url_alphabet s)"
  by (auto simp: to_url_alphabet_def split: if_splits)

lemma split_jwt:
  assumes "CHR ''.'' \<notin> set a" and "CHR ''.'' \<notin> set b" and "CHR ''.'' \<notin> set c"
  shows "js_split (CHR ''.'') ((a @ ''.'' @ b) @ ''.'' @ c) = [a, b, c]"
  using assms by (simp add: js_split_append js_split_no_delim)

text \<open>
  A signed access token verifies, until the second of its expiry is over, to the very payload
  it was made from (for an HMAC whose base-64 digests contain no dot and a JSON codec that reads
  back what it wrote).
\<close>

theorem jwt_roundtrip:
  assumes "\<And>k m. CHR ''.'' \<notin> set (hmac k m)" and "parse (stringify p) = Some p"
    and "now div 1000 \<le> jwt_exp p"
  shows "verifyJwt hmac parse E now (signJwt hmac stringify E p) = Inr p"
proof -
  let ?h = "base64UrlEncode jwt_header" and ?b = "base64UrlEncode (stringify p)"
  let ?sig = "jwt_signature hmac E (?h @ ''.'' @ ?b)"
  have dots: "CHR ''.'' \<notin> set ?h" "CHR ''.'' \<notin> set ?b" "CHR ''.'' \<notin> set ?sig"
    using assms(1) by (simp_all add: base64UrlEncode_eq base64url_no_dot jwt_signature_def to_url_no_dot)
  have "js_split (CHR ''.'') (signJwt hmac stringify E p) = [?h, ?b, ?sig]"
    using split_jwt[OF dots] by (simp add: signJwt_def Let_def)
  then show ?thesis
    using assms(2,3) by (simp add: verifyJwt_def Let_def base64UrlDecode_encode)
qed

definition sample_payload :: jwt_payload where
  "sample_payload = \<lparr>jwt_sub = ''GW'', jwt_iat = 0, jwt_exp = 900, jwt_jti = ''j''\<rparr>"

theorem jwt_roundtrip_witness:
  "verifyJwt (\<lambda>k m. show_nat (length m)) (\<lambda>s. if s = ''payload'' then Some sample_payload else None)
     (\<lambda>k. None) 900999 (signJwt (\<lambda>k m. show_nat (length m)) (\<lambda>p. ''payload'') (\<lambda>k. None) sample_payload)
   = Inr sample_payload"
proof (rule jwt_roundtrip)
  show "CHR ''.'' \<notin> set (show_nat (length m))" for m :: string
    using show_nat_digits[of "CHR ''.''" "length m"] by (auto simp: is_digit_def)
qed (simp_all add: sample_payload_def)



end
