(* ===== verification/RefreshTokens.thy ===== *)
theory RefreshTokens
  imports Auth
begin

text \<open>
  Refresh tokens with rotation and theft detection (\<open>backend/src/auth.ts\<close>): the interface
  \<open>IRefreshTokenStore\<close> as the locale \<open>refresh_store\<close> with its in-memory and Redis implementations, the
  issuing and rotation of token pairs, session revocation, and the route handlers.
\<close>

section \<open>Types\<close>

record refresh_token_entry =
  rt_walletAddress :: string
  rt_familyId :: string
  rt_expiresAt :: int
  rt_revoked :: bool

record token_pair =
  tp_accessToken :: string
  tp_refreshToken :: string
  tp_accessTokenExpiresAt :: time

text \<open>The operations of a store; \<open>get\<close> may change it, since the in-memory one drops an expired token.\<close>

record 's refresh_ops =
  rf_get :: "time \<Rightarrow> string \<Rightarrow> 's \<Rightarrow> refresh_token_entry option \<times> 's"
  rf_set :: "time \<Rightarrow> string \<Rightarrow> refresh_token_entry \<Rightarrow> int \<Rightarrow> 's \<Rightarrow> 's"
  rf_delete :: "string \<Rightarrow> 's \<Rightarrow> 's"
  rf_isFamilyRevoked :: "time \<Rightarrow> string \<Rightarrow> 's \<Rightarrow> bool"
  rf_revokeFamily :: "time \<Rightarrow> string \<Rightarrow> int \<Rightarrow> 's \<Rightarrow> 's"
  rf_deleteFamily :: "time \<Rightarrow> string \<Rightarrow> 's \<Rightarrow> 's"

definition look_token :: "'s refresh_ops \<Rightarrow> time \<Rightarrow> string \<Rightarrow> 's \<Rightarrow> refresh_token_entry option" where
  "look_token S t tok s = fst (rf_get S t tok s)"

text \<open>\<open>shrinks S s s'\<close>: whatever is read in \<open>s'\<close> was read in \<open>s\<close> too.\<close>

definition shrinks :: "'s refresh_ops \<Rightarrow> 's \<Rightarrow> 's \<Rightarrow> bool" where
  "shrinks S s s' \<longleftrightarrow> (\<forall>t k. look_token S t k s' = None \<or> look_token S t k s' = look_token S t k s)"

definition token_spent :: "'s refresh_ops \<Rightarrow> string \<Rightarrow> 's \<Rightarrow> bool" where
  "token_spent S tok s \<longleftrightarrow> (\<forall>t e. look_token S t tok s = Some e \<longrightarrow> rt_revoked e)"

locale refresh_store =
  fixes S :: "'s refresh_ops"
  assumes get_shrinks: "shrinks S s (snd (rf_get S t k s))"
    and delete_shrinks: "shrinks S s (rf_delete S k s)"
    and revoke_shrinks: "shrinks S s (rf_revokeFamily S t f ttl s)"
    and deleteFamily_shrinks: "shrinks S s (rf_deleteFamily S t f s)"
    and set_same: "look_token S t' k (rf_set S t k e ttl s) = None
        \<or> look_token S t' k (rf_set S t k e ttl s) = Some e"
    and set_other: "k' \<noteq> k \<Longrightarrow> look_token S t' k' (rf_set S t k e ttl s) = look_token S t' k' s"
begin

lemma shrinks_refl: "shrinks S s s"
  by (simp add: shrinks_def)

lemma shrinks_trans: "shrinks S s s' \<Longrightarrow> shrinks S s' s'' \<Longrightarrow> shrinks S s s''"
  unfolding shrinks_def by metis

lemma spent_shrinks: "token_spent S k s \<Longrightarrow> shrinks S s s' \<Longrightarrow> token_spent S k s'"
  unfolding token_spent_def shrinks_def by (metis option.distinct(1))

lemma spent_set_other: "token_spent S k s \<Longrightarrow> k' \<noteq> k \<Longrightarrow> token_spent S k (rf_set S t k' e ttl s)"
  unfolding token_spent_def by (metis set_other)

lemma spent_set_revoked: "rt_revoked e \<Longrightarrow> token_spent S k (rf_set S t k e ttl s)"
  unfolding token_spent_def using set_same by (metis option.distinct(1) option.inject)

end

section \<open>The in-memory store\<close>

record mem_refresh_store =
  mr_tokens :: "(string, refresh_token_entry) js_map"
  mr_revokedFamilies :: "string set"

definition mr_get :: "time \<Rightarrow> string \<Rightarrow> mem_refresh_store \<Rightarrow> refresh_token_entry option \<times> mem_refresh_store" where
  "mr_get now token s =
     (case map_of (mr_tokens s) token of
        None \<Rightarrow> (None, s)
      | Some entry \<Rightarrow>
          if rt_expiresAt entry < now div 1000
          then (None, s\<lparr>mr_tokens := AList.delete token (mr_tokens s)\<rparr>) else (Some entry, s))"

definition mr_set :: "time \<Rightarrow> string \<Rightarrow> refresh_token_entry \<Rightarrow> int \<Rightarrow> mem_refresh_store \<Rightarrow> mem_refresh_store" where
  "mr_set now token entry ttlSeconds s = s\<lparr>mr_tokens := AList.update token entry (mr_tokens s)\<rparr>"

definition mr_delete :: "string \<Rightarrow> mem_refresh_store \<Rightarrow> mem_refresh_store" where
  "mr_delete token s = s\<lparr>mr_tokens := AList.delete token (mr_tokens s)\<rparr>"

definition mr_isFamilyRevoked :: "time \<Rightarrow> string \<Rightarrow> mem_refresh_store \<Rightarrow> bool" where
  "mr_isFamilyRevoked now familyId s \<longleftrightarrow> familyId \<in> mr_revokedFamilies s"

definition mr_revokeFamily :: "time \<Rightarrow> string \<Rightarrow> int \<Rightarrow> mem_refresh_store \<Rightarrow> mem_refresh_store" where
  "mr_revokeFamily now familyId ttlSeconds s =
     s\<lparr>mr_revokedFamilies := insert familyId (mr_revokedFamilies s)\<rparr>"

definition mr_deleteFamily :: "time \<Rightarrow> string \<Rightarrow> mem_refresh_store \<Rightarrow> mem_refresh_store" where
  "mr_deleteFamily now familyId s =
     s\<lparr>mr_tokens := fold (\<lambda>(token, entry) m.
         if rt_familyId entry = familyId then AList.delete token m else m) (mr_tokens s) (mr_tokens s)\<rparr>"

definition mem_refresh_ops :: "mem_refresh_store refresh_ops" where
  "mem_refresh_ops = \<lparr>rf_get = mr_get, rf_set = mr_set, rf_delete = mr_delete,
     rf_isFamilyRevoked = mr_isFamilyRevoked, rf_revokeFamily = mr_revokeFamily,
     rf_deleteFamily = mr_deleteFamily\<rparr>"

lemma mem_refresh_ops_simps [simp]:
  "rf_get mem_refresh_ops = mr_get" "rf_set mem_refresh_ops = mr_set"
  "rf_delete mem_refresh_ops = mr_delete" "rf_isFamilyRevoked mem_refresh_ops = mr_isFamilyRevoked"
  "rf_revokeFamily mem_refresh_ops = mr_revokeFamily" "rf_deleteFamily mem_refresh_ops = mr_deleteFamily"
  by (simp_all add: mem_refresh_ops_def)

lemma fold_delete_lookup:
  "map_of (fold (\<lambda>(k, e) m. if P e then AList.delete k m else m) xs m) k = None
   \<or> map_of (fold (\<lambda>(k, e) m. if P e then AList.delete k m else m) xs m) k = map_of m k"
proof (induction xs arbitrary: m)
  case (Cons x xs)
  obtain k1 e1 where "x = (k1, e1)" by fastforce
  with Cons[of m] Cons[of "AList.delete k1 m"] show ?case
    by (auto simp: jmap.look_del split: if_splits)
qed simp

lemma mr_look: "look_token mem_refresh_ops t k s =
    (case map_of (mr_tokens s) k of None \<Rightarrow> None
     | Some e \<Rightarrow> if rt_expiresAt e < t div 1000 then None else Some e)"
  by (auto simp: look_token_def mr_get_def split: option.split)

lemma mr_shrinks:
  "(\<And>k. map_of (mr_tokens s') k = None \<or> map_of (mr_tokens s') k = map_of (mr_tokens s) k) \<Longrightarrow>
     shrinks mem_refresh_ops s s'"
  unfolding shrinks_def
proof (intro allI)
  fix t k
  assume "\<And>k. map_of (mr_tokens s') k = None \<or> map_of (mr_tokens s') k = map_of (mr_tokens s) k"
  from this[of k] show "look_token mem_refresh_ops t k s' = None
      \<or> look_token mem_refresh_ops t k s' = look_token mem_refresh_ops t k s"
    by (elim disjE) (simp_all add: mr_look)
qed

interpretation mem_refresh: refresh_store mem_refresh_ops
proof unfold_locales
  fix s t k
  show "shrinks mem_refresh_ops s (snd (rf_get mem_refresh_ops t k s))"
    by (rule mr_shrinks) (simp add: mr_get_def jmap.look_del split: option.split)
next
  fix s k
  show "shrinks mem_refresh_ops s (rf_delete mem_refresh_ops k s)"
    by (rule mr_shrinks) (simp add: mr_delete_def jmap.look_del)
next
  fix s t f ttl
  show "shrinks mem_refresh_ops s (rf_revokeFamily mem_refresh_ops t f ttl s)"
    by (rule mr_shrinks) (simp add: mr_revokeFamily_def)
next
  fix s t f
  show "shrinks mem_refresh_ops s (rf_deleteFamily mem_refresh_ops t f s)"
  proof (rule mr_shrinks)
    fix k
    show "map_of (mr_tokens (rf_deleteFamily mem_refresh_ops t f s)) k = None
        \<or> map_of (mr_tokens (rf_deleteFamily mem_refresh_ops t f s)) k = map_of (mr_tokens s) k"
      using fold_delete_lookup[of "\<lambda>e. rt_familyId e = f" "mr_tokens s" "mr_tokens s" k]
      by (simp add: mr_deleteFamily_def)
  qed
next
  fix t' k t e ttl s
  show "look_token mem_refresh_ops t' k (rf_set mem_refresh_ops t k e ttl s) = None
      \<or> look_token mem_refresh_ops t' k (rf_set mem_refresh_ops t k e ttl s) = Some e"
    by (simp add: mr_look mr_set_def jmap.look_put)
next
  fix t' k k' t e ttl s
  show "k' \<noteq> k \<Longrightarrow> look_token mem_refresh_ops t' k' (rf_set mem_refresh_ops t k e ttl s) =
      look_token mem_refresh_ops t' k' s"
    by (simp add: mr_look mr_set_def jmap.look_put)
qed

section \<open>The Redis store\<close>

datatype refresh_value = TokenValue refresh_token_entry | FlagValue

definition tokenKey :: "string \<Rightarrow> string" where
  "tokenKey token = ''refresh:'' @ token"

definition familyKey :: "string \<Rightarrow> string" where
  "familyKey familyId = ''refresh:family:revoked:'' @ familyId"

definition rr_get :: "('d, refresh_value) redis_ops \<Rightarrow> time \<Rightarrow> string \<Rightarrow> 'd \<Rightarrow> refresh_token_entry option \<times> 'd" where
  "rr_get R now token d =
     (case rd_get R now (tokenKey token) d of Some (TokenValue e) \<Rightarrow> (Some e, d) | _ \<Rightarrow> (None, d))"

definition rr_set ::
  "('d, refresh_value) redis_ops \<Rightarrow> time \<Rightarrow> string \<Rightarrow> refresh_token_entry \<Rightarrow> int \<Rightarrow> 'd \<Rightarrow> 'd" where
  "rr_set R now token entry ttlSeconds d = rd_set_ex R now (tokenKey token) (TokenValue entry) ttlSeconds d"

definition rr_delete :: "('d, refresh_value) redis_ops \<Rightarrow> string \<Rightarrow> 'd \<Rightarrow> 'd" where
  "rr_delete R token d = rd_del R (tokenKey token) d"

definition rr_isFamilyRevoked :: "('d, refresh_value) redis_ops \<Rightarrow> time \<Rightarrow> string \<Rightarrow> 'd \<Rightarrow> bool" where
  "rr_isFamilyRevoked R now familyId d \<longleftrightarrow> rd_get R now (familyKey familyId) d \<noteq> None"

definition rr_revokeFamily :: "('d, refresh_value) redis_ops \<Rightarrow> time \<Rightarrow> string \<Rightarrow> int \<Rightarrow> 'd \<Rightarrow> 'd" where
  "rr_revokeFamily R now familyId ttlSeconds d = rd_set_ex R now (familyKey familyId) FlagValue ttlSeconds d"

definition rr_deleteFamily :: "int \<Rightarrow> ('d, refresh_value) redis_ops \<Rightarrow> time \<Rightarrow> string \<Rightarrow> 'd \<Rightarrow> 'd" where
  "rr_deleteFamily refreshTtl R now familyId d = rr_revokeFamily R now familyId refreshTtl d"

definition redis_refresh_ops :: "int \<Rightarrow> ('d, refresh_value) redis_ops \<Rightarrow> 'd refresh_ops" where
  "redis_refresh_ops refreshTtl R = \<lparr>rf_get = rr_get R, rf_set = rr_set R, rf_delete = rr_delete R,
     rf_isFamilyRevoked = rr_isFamilyRevoked R, rf_revokeFamily = rr_revokeFamily R,
     rf_deleteFamily = rr_deleteFamily refreshTtl R\<rparr>"

lemma redis_refresh_ops_simps [simp]:
  "rf_get (redis_refresh_ops n R) = rr_get R" "rf_set (redis_refresh_ops n R) = rr_set R"
  "rf_delete (redis_refresh_ops n R) = rr_delete R"
  "rf_isFamilyRevoked (redis_refresh_ops n R) = rr_isFamilyRevoked R"
  "rf_revokeFamily (redis_refresh_ops n R) = rr_revokeFamily R"
  "rf_deleteFamily (redis_refresh_ops n R) = rr_deleteFamily n R"
  by (simp_all add: redis_refresh_ops_def)

lemma tokenKey_inject [simp]: "tokenKey a = tokenKey b \<longleftrightarrow> a = b"
  by (simp add: tokenKey_def)

lemma rr_look: "look_token (redis_refresh_ops n R) t k d =
    (case rd_get R t (tokenKey k) d of Some (TokenValue e) \<Rightarrow> Some e | _ \<Rightarrow> None)"
  by (auto simp: look_token_def rr_get_def split: option.split refresh_value.split)

text \<open>A family key is a token key too (of the token \<open>family:revoked:\<dots>\<close>), but holds no token.\<close>

locale redis_refresh_server = redis R for R :: "('d, refresh_value) redis_ops" +
  fixes refreshTtl :: int
begin

lemma revoke_look:
  "look_token (redis_refresh_ops refreshTtl R) t k (rr_revokeFamily R t0 f ttl d) = None
   \<or> look_token (redis_refresh_ops refreshTtl R) t k (rr_revokeFamily R t0 f ttl d) =
       look_token (redis_refresh_ops refreshTtl R) t k d"
proof (cases "tokenKey k = familyKey f")
  case True
  have "rd_get R t (familyKey f) (rd_set_ex R t0 (familyKey f) FlagValue ttl d) = None
      \<or> rd_get R t (familyKey f) (rd_set_ex R t0 (familyKey f) FlagValue ttl d) = Some FlagValue"
    by (rule rd_get_set_range)
  then show ?thesis by (auto simp: rr_look rr_revokeFamily_def True)
next
  case False
  then show ?thesis by (simp add: rr_look rr_revokeFamily_def rd_get_set_other)
qed

lemma set_look:
  "look_token (redis_refresh_ops refreshTtl R) t k (rr_set R t0 k e ttl d) = None
   \<or> look_token (redis_refresh_ops refreshTtl R) t k (rr_set R t0 k e ttl d) = Some e"
  using rd_get_set_range[of t "tokenKey k" t0 "TokenValue e" ttl d] by (auto simp: rr_look rr_set_def)

end

sublocale redis_refresh_server \<subseteq> rs: refresh_store "redis_refresh_ops refreshTtl R"
proof unfold_locales
  fix s :: 'd and t k
  show "shrinks (redis_refresh_ops refreshTtl R) s (snd (rf_get (redis_refresh_ops refreshTtl R) t k s))"
    by (auto simp: shrinks_def rr_get_def split: option.split refresh_value.split)
next
  fix s :: 'd and k
  show "shrinks (redis_refresh_ops refreshTtl R) s (rf_delete (redis_refresh_ops refreshTtl R) k s)"
    unfolding shrinks_def
  proof (intro allI)
    fix t k'
    show "look_token (redis_refresh_ops refreshTtl R) t k' (rf_delete (redis_refresh_ops refreshTtl R) k s) = None
      \<or> look_token (redis_refresh_ops refreshTtl R) t k' (rf_delete (redis_refresh_ops refreshTtl R) k s) =
          look_token (redis_refresh_ops refreshTtl R) t k' s"
      by (cases "k' = k") (simp_all add: rr_look rr_delete_def rd_get_del_same rd_get_del_other)
  qed
next
  fix s :: 'd and t f ttl
  show "shrinks (redis_refresh_ops refreshTtl R) s (rf_revokeFamily (redis_refresh_ops refreshTtl R) t f ttl s)"
    using revoke_look by (simp add: shrinks_def)
next
  fix s :: 'd and t f
  show "shrinks (redis_refresh_ops refreshTtl R) s (rf_deleteFamily (redis_refresh_ops refreshTtl R) t f s)"
    using revoke_look by (simp add: shrinks_def rr_deleteFamily_def)
next
  fix t' k t e ttl and s :: 'd
  show "look_token (redis_refresh_ops refreshTtl R) t' k (rf_set (redis_refresh_ops refreshTtl R) t k e ttl s) = None
      \<or> look_token (redis_refresh_ops refreshTtl R) t' k (rf_set (redis_refresh_ops refreshTtl R) t k e ttl s) = Some e"
    using set_look by simp
next
  fix t' k k' t e ttl and s :: 'd
  show "k' \<noteq> k \<Longrightarrow> look_token (redis_refresh_ops refreshTtl R) t' k'
      (rf_set (redis_refresh_ops refreshTtl R) t k e ttl s) = look_token (redis_refresh_ops refreshTtl R) t' k' s"
    by (simp add: rr_look rr_set_def rd_get_set_other)
qed

interpretation redis_refresh: redis_refresh_server redis_model refreshTtl for refreshTtl
  by unfold_locales

section \<open>Issuing, revocation, rotation\<close>

text \<open>The signing environment and the settings, and the random values one call draws.\<close>

record session_env =
  se_hmac :: "string \<Rightarrow> string \<Rightarrow> string"
  se_stringify :: "jwt_payload \<Rightarrow> string"
  se_parse :: "string \<Rightarrow> jwt_payload option"
  se_env :: env
  se_accessTtl :: int
  se_refreshTtl :: int

record fresh_ids =
  fr_jti :: string
  fr_refresh :: string
  fr_family :: string

definition issueTokenPair ::
  "session_env \<Rightarrow> 's refresh_ops \<Rightarrow> time \<Rightarrow> fresh_ids \<Rightarrow> string \<Rightarrow> string option \<Rightarrow> 's \<Rightarrow> token_pair \<times> 's" where
  "issueTokenPair SE S t fresh walletAddress familyId s =
     (let normalizedAddress = normalizeWalletAddress (Some walletAddress);
          now = t div 1000;
          payload = \<lparr>jwt_sub = normalizedAddress, jwt_iat = now, jwt_exp = now + se_accessTtl SE,
                     jwt_jti = fr_jti fresh\<rparr>;
          accessToken = signJwt (se_hmac SE) (se_stringify SE) (se_env SE) payload;
          refreshToken = fr_refresh fresh;
          family = nullish familyId (fr_family fresh)
      in (\<lparr>tp_accessToken = accessToken, tp_refreshToken = refreshToken,
           tp_accessTokenExpiresAt = (now + se_accessTtl SE) * 1000\<rparr>,
          rf_set S t refreshToken
            \<lparr>rt_walletAddress = normalizedAddress, rt_familyId = family,
             rt_expiresAt = now + se_refreshTtl SE, rt_revoked = False\<rparr> (se_refreshTtl SE) s))"

definition revokeCurrentSession :: "session_env \<Rightarrow> 's refresh_ops \<Rightarrow> time \<Rightarrow> string \<Rightarrow> 's \<Rightarrow> 's" where
  "revokeCurrentSession SE S t refreshToken s =
     (case rf_get S t refreshToken s of
        (None, s1) \<Rightarrow> s1
      | (Some entry, s1) \<Rightarrow>
          rf_delete S refreshToken (rf_deleteFamily S t (rt_familyId entry)
            (rf_revokeFamily S t (rt_familyId entry) (se_refreshTtl SE) s1)))"

text \<open>The in-memory path of \<open>revokeAllSessions\<close>; on Redis it returns 1 and does nothing.\<close>

definition wallet_tokens :: "string \<Rightarrow> mem_refresh_store \<Rightarrow> (string \<times> refresh_token_entry) list" where
  "wallet_tokens normalizedAddress s =
     filter (\<lambda>(token, entry). normalizeWalletAddress (Some (rt_walletAddress entry)) = normalizedAddress) (mr_tokens s)"

definition revokeAllSessions :: "string \<Rightarrow> mem_refresh_store \<Rightarrow> nat \<times> mem_refresh_store" where
  "revokeAllSessions walletAddress s =
     (let victims = wallet_tokens (normalizeWalletAddress (Some walletAddress)) s
      in (length victims,
          \<lparr>mr_tokens = fold (\<lambda>(token, entry) m. AList.delete token m) victims (mr_tokens s),
           mr_revokedFamilies = mr_revokedFamilies s \<union> (rt_familyId \<circ> snd) ` set victims\<rparr>))"

definition getAuthenticatedWallet :: "request \<Rightarrow> string option" where
  "getAuthenticatedWallet req =
     (case rq_jwtPayload req of
        Some p \<Rightarrow>
          if jwt_sub p \<noteq> [] then Some (normalizeWalletAddress (Some (jwt_sub p)))
          else (let h = js_or (rq_headers req ''x-wallet-address'') (rq_headers req ''x-api-key'')
                in if truthy_str h then Some (normalizeWalletAddress h) else None)
      | None \<Rightarrow>
          (let h = js_or (rq_headers req ''x-wallet-address'') (rq_headers req ''x-api-key'')
           in if truthy_str h then Some (normalizeWalletAddress h) else None))"

datatype rotate_error = InvalidRefreshToken string | SessionRevoked string

definition rotateRefreshToken ::
  "session_env \<Rightarrow> 's refresh_ops \<Rightarrow> time \<Rightarrow> fresh_ids \<Rightarrow> string \<Rightarrow> 's \<Rightarrow> (rotate_error + token_pair) \<times> 's" where
  "rotateRefreshToken SE S t fresh oldRefreshToken s =
     (case rf_get S t oldRefreshToken s of
        (None, s1) \<Rightarrow> (Inl (InvalidRefreshToken ''Refresh token not found or expired''), s1)
      | (Some entry, s1) \<Rightarrow>
          let now = t div 1000
          in if rf_isFamilyRevoked S t (rt_familyId entry) s1 then
               (Inl (SessionRevoked (''Session has been revoked due to suspected refresh token theft. '' @
                  ''Please log in again.'')), rf_delete S oldRefreshToken s1)
             else if rt_revoked entry then
               (Inl (SessionRevoked ''Refresh token has already been used. Session revoked for security.''),
                rf_deleteFamily S t (rt_familyId entry)
                  (rf_revokeFamily S t (rt_familyId entry) (se_refreshTtl SE) s1))
             else if rt_expiresAt entry < now then
               (Inl (InvalidRefreshToken ''Refresh token has expired''), rf_delete S oldRefreshToken s1)
             else
               let remaining = rt_expiresAt entry - now;
                   s2 = rf_set S t oldRefreshToken (entry\<lparr>rt_revoked := True\<rparr>)
                          (if 0 < remaining then remaining else 1) s1;
                   (pair, s3) = issueTokenPair SE S t fresh (rt_walletAddress entry) (Some (rt_familyId entry)) s2
               in (Inr pair, s3))"

section \<open>Middleware and route handlers\<close>

definition unauthorized :: "string \<Rightarrow> response" where
  "unauthorized msg = send_error ''Unauthorized'' 401 msg"

definition requireAuth :: "session_env \<Rightarrow> time \<Rightarrow> request \<Rightarrow> outcome" where
  "requireAuth SE now req =
     (case scheme_match True ''Bearer'' (header_or_empty req ''authorization'') of
        None \<Rightarrow> Respond (unauthorized
          ''Missing or malformed Authorization header. Expected: Bearer <token>'')
      | Some token \<Rightarrow>
          (case verifyJwt (se_hmac SE) (se_parse SE) (se_env SE) now token of
             Inl msg \<Rightarrow> Respond (unauthorized msg)
           | Inr payload \<Rightarrow> Next (req\<lparr>rq_jwtPayload := Some payload\<rparr>)))"

definition parse_action :: "string \<Rightarrow> wallet_action option" where
  "parse_action s = (if s = ''login'' then Some Login else if s = ''deposit'' then Some DepositAction
     else if s = ''withdrawal'' then Some WithdrawalAction else None)"

definition issued_json :: "issued_wallet_nonce \<Rightarrow> json" where
  "issued_json i = JObj
     [(''nonce'', JStr (in_nonce i)), (''walletAddress'', JStr (in_walletAddress i)),
      (''action'', JStr (show_action (in_action i))), (''issuedAt'', JStr (to_iso_string (in_issuedAt i))),
      (''expiresAt'', JStr (to_iso_string (in_expiresAt i))), (''expiresIn'', jint (in_expiresIn i)),
      (''message'', JStr (in_message i))]"

definition nonce_message :: "issued_wallet_nonce \<Rightarrow> string" where
  "nonce_message base = buildWalletSignMessage
     \<lparr>sm_walletAddress = in_walletAddress base, sm_action = in_action base, sm_nonce = in_nonce base,
      sm_issuedAt = to_iso_string (in_issuedAt base), sm_expiresAt = to_iso_string (in_expiresAt base)\<rparr>"

text \<open>\<open>nonceHandler\<close>, behind the validation of its body, which makes the action one of the three.\<close>

definition nonceHandler ::
  "nonce_config \<Rightarrow> 's nonce_store_ops \<Rightarrow> time \<Rightarrow> string \<Rightarrow> string \<Rightarrow> wallet_action \<Rightarrow> 's nonce_service \<Rightarrow>
   response \<times> 's nonce_service" where
  "nonceHandler cfg S t fresh walletAddress action v =
     (case issue cfg S t fresh walletAddress action nonce_message v of
        (Inl e, v') \<Rightarrow> (send_error ''Too Many Requests'' 429 (nonce_error_message e), v')
      | (Inr issued, v') \<Rightarrow> (send_json 200 (issued_json issued), v'))"

definition token_pair_json :: "session_env \<Rightarrow> token_pair \<Rightarrow> json" where
  "token_pair_json SE tp = JObj
     [(''accessToken'', JStr (tp_accessToken tp)), (''refreshToken'', JStr (tp_refreshToken tp)),
      (''accessTokenExpiresAt'', JStr (to_iso_string (tp_accessTokenExpiresAt tp))),
      (''tokenType'', JStr ''Bearer''), (''expiresIn'', jint (se_accessTtl SE))]"

definition loginHandler ::
  "session_env \<Rightarrow> 's refresh_ops \<Rightarrow> time \<Rightarrow> fresh_ids \<Rightarrow> request \<Rightarrow> 's \<Rightarrow> response \<times> 's" where
  "loginHandler SE S t fresh req s =
     (case body_string req ''walletAddress'' of
        None \<Rightarrow> (send_error ''Bad Request'' 400 ''walletAddress is required'', s)
      | Some walletAddress \<Rightarrow>
          if walletAddress = [] then (send_error ''Bad Request'' 400 ''walletAddress is required'', s)
          else (let (tokens, s') = issueTokenPair SE S t fresh (js_trim walletAddress) None s
                in (send_json 200 (token_pair_json SE tokens), s')))"

fun rotate_message :: "rotate_error \<Rightarrow> string" where
  "rotate_message (InvalidRefreshToken m) = m"
| "rotate_message (SessionRevoked m) = m"

fun is_session_revoked :: "rotate_error \<Rightarrow> bool" where
  "is_session_revoked (InvalidRefreshToken m) = False"
| "is_session_revoked (SessionRevoked m) = True"

definition refreshHandler ::
  "session_env \<Rightarrow> 's refresh_ops \<Rightarrow> time \<Rightarrow> fresh_ids \<Rightarrow> request \<Rightarrow> 's \<Rightarrow> response \<times> 's" where
  "refreshHandler SE S t fresh req s =
     (case body_string req ''refreshToken'' of
        None \<Rightarrow> (send_error ''Bad Request'' 400 ''refreshToken is required'', s)
      | Some refreshToken \<Rightarrow>
          if refreshToken = [] then (send_error ''Bad Request'' 400 ''refreshToken is required'', s)
          else (case rotateRefreshToken SE S t fresh refreshToken s of
              (Inr tokens, s') \<Rightarrow> (send_json 200 (token_pair_json SE tokens), s')
            | (Inl err, s') \<Rightarrow>
                (send_json 401 (JObj (error_body ''Unauthorized'' 401 (rotate_message err)
                   @ [(''sessionRevoked'', JBool (is_session_revoked err))])), s')))"

section \<open>A refresh token is rotated at most once\<close>

datatype session_call =
    CallLogin time fresh_ids string
  | CallRotate time fresh_ids string
  | CallLogout time string

text \<open>A call and the refresh tokens it rotated successfully.\<close>

fun session_step :: "session_env \<Rightarrow> 's refresh_ops \<Rightarrow> session_call \<Rightarrow> 's \<Rightarrow> string list \<times> 's" where
  "session_step SE S (CallLogin t fresh w) s = ([], snd (issueTokenPair SE S t fresh w None s))"
| "session_step SE S (CallRotate t fresh tok) s =
     (case rotateRefreshToken SE S t fresh tok s of (Inl e, s') \<Rightarrow> ([], s') | (Inr p, s') \<Rightarrow> ([tok], s'))"
| "session_step SE S (CallLogout t tok) s = ([], revokeCurrentSession SE S t tok s)"

fun session_run :: "session_env \<Rightarrow> 's refresh_ops \<Rightarrow> session_call list \<Rightarrow> 's \<Rightarrow> string list \<times> 's" where
  "session_run SE S [] s = ([], s)"
| "session_run SE S (c # cs) s =
     (let (ts, s1) = session_step SE S c s; (us, s2) = session_run SE S cs s1 in (ts @ us, s2))"

text \<open>The refresh tokens a sequence of calls may issue.\<close>

fun drawn_tokens :: "session_call list \<Rightarrow> string list" where
  "drawn_tokens [] = []"
| "drawn_tokens (CallLogin t fresh w # cs) = fr_refresh fresh # drawn_tokens cs"
| "drawn_tokens (CallRotate t fresh tok # cs) = fr_refresh fresh # drawn_tokens cs"
| "drawn_tokens (CallLogout t tok # cs) = drawn_tokens cs"

context refresh_store
begin

lemma rotate_success:
  assumes "rotateRefreshToken SE S t fresh old s = (Inr p, s')"
  obtains e ttl ttl' e' where "look_token S t old s = Some e" and "\<not> rt_revoked e"
    and "\<not> rf_isFamilyRevoked S t (rt_familyId e) (snd (rf_get S t old s))"
    and "s' = rf_set S t (fr_refresh fresh) e' ttl'
           (rf_set S t old (e\<lparr>rt_revoked := True\<rparr>) ttl (snd (rf_get S t old s)))"
    and "rt_familyId e' = rt_familyId e" and "tp_refreshToken p = fr_refresh fresh"
proof -
  obtain r s1 where g: "rf_get S t old s = (r, s1)" by fastforce
  then obtain e where r: "r = Some e" using assms by (cases r) (auto simp: rotateRefreshToken_def)
  let ?ttl = "if 0 < rt_expiresAt e - t div 1000 then rt_expiresAt e - t div 1000 else 1"
  let ?new = "\<lparr>rt_walletAddress = normalizeWalletAddress (Some (rt_walletAddress e)),
     rt_familyId = rt_familyId e, rt_expiresAt = t div 1000 + se_refreshTtl SE, rt_revoked = False\<rparr>"
  show ?thesis
  proof (rule that[of e ?new "se_refreshTtl SE" ?ttl])
    show "look_token S t old s = Some e" using g r by (simp add: look_token_def)
  qed (use assms g r in \<open>auto simp: rotateRefreshToken_def issueTokenPair_def Let_def split: if_splits\<close>)
qed

lemma rotate_failure:
  assumes "rotateRefreshToken SE S t fresh old s = (Inl err, s')"
  shows "shrinks S s s'"
proof -
  obtain r s1 where g: "rf_get S t old s = (r, s1)" by fastforce
  then have s1: "shrinks S s s1" using get_shrinks[of s t old] by simp
  show ?thesis
  proof (cases r)
    case None
    then show ?thesis using assms g s1 by (simp add: rotateRefreshToken_def)
  next
    case (Some e)
    then have "s' = rf_delete S old s1 \<or>
        s' = rf_deleteFamily S t (rt_familyId e) (rf_revokeFamily S t (rt_familyId e) (se_refreshTtl SE) s1)"
      using assms g by (auto simp: rotateRefreshToken_def Let_def split: if_splits prod.splits)
    then show ?thesis
      using s1 delete_shrinks revoke_shrinks deleteFamily_shrinks by (metis shrinks_trans)
  qed
qed

lemma logout_shrinks: "shrinks S s (revokeCurrentSession SE S t tok s)"
proof -
  obtain r s1 where g: "rf_get S t tok s = (r, s1)" by fastforce
  then have "shrinks S s s1" using get_shrinks[of s t tok] by simp
  moreover have "shrinks S s1 (rf_delete S tok (rf_deleteFamily S t f (rf_revokeFamily S t f ttl s1)))" for f ttl
    using delete_shrinks revoke_shrinks deleteFamily_shrinks by (meson shrinks_trans)
  ultimately show ?thesis
    using g by (cases r) (auto simp: revokeCurrentSession_def intro: shrinks_trans)
qed

definition usable :: "string \<Rightarrow> 's \<Rightarrow> nat" where
  "usable tok s = (if token_spent S tok s then 0 else 1)"

lemma usable_shrinks: "shrinks S s s' \<Longrightarrow> usable tok s' \<le> usable tok s"
  by (simp add: usable_def spent_shrinks)

lemma usable_rotate:
  "count_list (fst (session_step SE S (CallRotate t fresh old) s)) tok
     + usable tok (snd (session_step SE S (CallRotate t fresh old) s))
   \<le> usable tok s + (if fr_refresh fresh = tok then 1 else 0)"
proof (cases "rotateRefreshToken SE S t fresh old s")
  case (Pair r s')
  show ?thesis
  proof (cases r)
    case (Inl e)
    then show ?thesis using Pair rotate_failure[of SE t fresh old s e s'] usable_shrinks[of s s' tok] by simp
  next
    case (Inr p)
    with Pair obtain e ttl ttl' e' where l: "look_token S t old s = Some e" "\<not> rt_revoked e"
      and s': "s' = rf_set S t (fr_refresh fresh) e' ttl'
           (rf_set S t old (e\<lparr>rt_revoked := True\<rparr>) ttl (snd (rf_get S t old s)))"
      by (auto elim: rotate_success)
    let ?m = "rf_set S t old (e\<lparr>rt_revoked := True\<rparr>) ttl (snd (rf_get S t old s))"
    have old_spent: "token_spent S old ?m" by (rule spent_set_revoked) simp
    have mid: "(if old = tok then 1 else 0) + usable tok ?m \<le> usable tok s"
    proof (cases "old = tok")
      case True
      moreover have "\<not> token_spent S old s" using l unfolding token_spent_def by blast
      ultimately show ?thesis using old_spent by (simp add: usable_def)
    next
      case False
      then show ?thesis
        using get_shrinks[of s t old] spent_set_other[of tok "snd (rf_get S t old s)" old]
        by (auto simp: usable_def spent_shrinks)
    qed
    have "usable tok s' \<le> usable tok ?m + (if fr_refresh fresh = tok then 1 else 0)"
      unfolding s' by (auto simp: usable_def spent_set_other)
    with mid show ?thesis using Pair Inr by (auto split: if_splits)
  qed
qed

lemma rotated_le_drawn:
  "count_list (fst (session_run SE S cs s)) tok \<le> count_list (drawn_tokens cs) tok + usable tok s"
proof (induction cs arbitrary: s)
  case (Cons c cs)
  let ?r = "session_step SE S c s"
  have "count_list (fst ?r) tok + usable tok (snd ?r) \<le>
      usable tok s + (case c of CallLogin t fresh w \<Rightarrow> (if fr_refresh fresh = tok then 1 else 0)
        | CallRotate t fresh old \<Rightarrow> (if fr_refresh fresh = tok then 1 else 0) | CallLogout t old \<Rightarrow> 0)"
  proof (cases c)
    case (CallLogin t fresh w)
    then show ?thesis by (auto simp: issueTokenPair_def usable_def Let_def spent_set_other)
  next
    case (CallRotate t fresh old)
    then show ?thesis using usable_rotate[of SE t fresh old s tok] by simp
  next
    case (CallLogout t old)
    then show ?thesis using usable_shrinks[OF logout_shrinks] by simp
  qed
  with Cons[of "snd ?r"] show ?case
    by (cases c) (auto simp: split_beta Let_def split: if_splits)
qed simp

end

definition empty_mem_refresh :: mem_refresh_store where
  "empty_mem_refresh = \<lparr>mr_tokens = [], mr_revokedFamilies = {}\<rparr>"


section \<open>Theft detection\<close>

text \<open>Families once revoked stay revoked in the in-memory store.\<close>

lemma families_revoke: "mr_revokedFamilies (mr_revokeFamily t f ttl s) = insert f (mr_revokedFamilies s)"
  by (simp add: mr_revokeFamily_def)

lemma families_other [simp]:
  "mr_revokedFamilies (snd (mr_get t k s)) = mr_revokedFamilies s"
  "mr_revokedFamilies (mr_set t k e ttl s) = mr_revokedFamilies s"
  "mr_revokedFamilies (mr_delete k s) = mr_revokedFamilies s"
  "mr_revokedFamilies (mr_deleteFamily t f s) = mr_revokedFamilies s"
  by (simp_all add: mr_get_def mr_set_def mr_delete_def mr_deleteFamily_def split: option.split)

lemma families_grow:
  "mr_revokedFamilies s \<subseteq> mr_revokedFamilies (snd (session_step SE mem_refresh_ops c s))"
proof (cases c)
  case (CallLogin t fresh w)
  then show ?thesis by (simp add: issueTokenPair_def Let_def)
next
  case (CallRotate t fresh old)
  obtain r s1 where g: "mr_get t old s = (r, s1)" by fastforce
  then have "mr_revokedFamilies s1 = mr_revokedFamilies s" by (metis families_other(1) snd_conv)
  then show ?thesis
    using CallRotate g
    by (cases r) (auto simp: rotateRefreshToken_def issueTokenPair_def Let_def families_revoke split: prod.splits)
next
  case (CallLogout t tok)
  obtain r s1 where g: "mr_get t tok s = (r, s1)" by fastforce
  then have "mr_revokedFamilies s1 = mr_revokedFamilies s" by (metis families_other(1) snd_conv)
  then show ?thesis
    using CallLogout g by (cases r) (auto simp: revokeCurrentSession_def families_revoke)
qed

lemma families_grow_run:
  "mr_revokedFamilies s \<subseteq> mr_revokedFamilies (snd (session_run SE mem_refresh_ops cs s))"
proof (induction cs arbitrary: s)
  case (Cons c cs)
  from Cons[of "snd (session_step SE mem_refresh_ops c s)"] families_grow[of s SE c] show ?case
    by (auto simp: split_beta Let_def)
qed simp

text \<open>
  Theft detection: presenting a refresh token that was already rotated is refused and revokes
  its whole family for good; after any further calls, no refresh token of that family, including
  the ones the thief or the owner got in the meantime, is ever rotated again.
\<close>

theorem replay_revokes_family:
  assumes "look_token mem_refresh_ops t tok s = Some e" and "rt_revoked e"
    and "look_token mem_refresh_ops t' tok' (snd (session_run SE mem_refresh_ops cs
           (snd (rotateRefreshToken SE mem_refresh_ops t fresh tok s)))) = Some e'"
    and "rt_familyId e' = rt_familyId e"
  shows "(\<exists>msg. fst (rotateRefreshToken SE mem_refresh_ops t fresh tok s) = Inl (SessionRevoked msg))
    \<and> (\<exists>msg. fst (rotateRefreshToken SE mem_refresh_ops t' fresh' tok' (snd (session_run SE mem_refresh_ops cs
           (snd (rotateRefreshToken SE mem_refresh_ops t fresh tok s))))) = Inl (SessionRevoked msg))"
proof -
  let ?s1 = "snd (rotateRefreshToken SE mem_refresh_ops t fresh tok s)"
  let ?s2 = "snd (session_run SE mem_refresh_ops cs ?s1)"
  obtain s0 where g: "mr_get t tok s = (Some e, s0)"
    using assms(1) by (cases "mr_get t tok s") (simp add: look_token_def)
  then have f0: "mr_revokedFamilies s0 = mr_revokedFamilies s" by (metis families_other(1) snd_conv)
  have first: "(\<exists>msg. fst (rotateRefreshToken SE mem_refresh_ops t fresh tok s) = Inl (SessionRevoked msg))
      \<and> rt_familyId e \<in> mr_revokedFamilies ?s1"
    using g f0 assms(2) by (auto simp: rotateRefreshToken_def Let_def mr_isFamilyRevoked_def families_revoke)
  then have in2: "rt_familyId e \<in> mr_revokedFamilies ?s2" using families_grow_run by blast
  obtain s3 where g3: "mr_get t' tok' ?s2 = (Some e', s3)"
    using assms(3) by (cases "mr_get t' tok' ?s2") (simp add: look_token_def)
  then have "mr_revokedFamilies s3 = mr_revokedFamilies ?s2" by (metis families_other(1) snd_conv)
  with in2 g3 assms(4) have
    "\<exists>msg. fst (rotateRefreshToken SE mem_refresh_ops t' fresh' tok' ?s2) = Inl (SessionRevoked msg)"
    by (simp add: rotateRefreshToken_def Let_def mr_isFamilyRevoked_def)
  with first show ?thesis by blast
qed

definition sample_session :: session_env where
  "sample_session = \<lparr>se_hmac = (\<lambda>k m. ''h''), se_stringify = (\<lambda>p. ''p''), se_parse = (\<lambda>s. None),
     se_env = (\<lambda>k. None), se_accessTtl = 900, se_refreshTtl = 604800\<rparr>"

definition sample_fresh :: "string \<Rightarrow> fresh_ids" where
  "sample_fresh tok = \<lparr>fr_jti = ''j'', fr_refresh = tok, fr_family = ''f''\<rparr>"

definition rotated_store :: mem_refresh_store where
  "rotated_store = snd (session_run sample_session mem_refresh_ops
     [CallLogin 0 (sample_fresh ''r1'') ''gw'', CallRotate 5000 (sample_fresh ''r2'') ''r1'']
     empty_mem_refresh)"

lemma rotated_store_tokens:
  "mr_tokens rotated_store =
     [(''r1'', \<lparr>rt_walletAddress = ''GW'', rt_familyId = ''f'', rt_expiresAt = 604800, rt_revoked = True\<rparr>),
      (''r2'', \<lparr>rt_walletAddress = ''GW'', rt_familyId = ''f'', rt_expiresAt = 604805, rt_revoked = False\<rparr>)]"
  and rotated_store_families: "mr_revokedFamilies rotated_store = {}"
proof -
  have "normalizeWalletAddress (Some ''gw'') = ''GW''" "normalizeWalletAddress (Some ''GW'') = ''GW''"
    by code_simp+
  then show "mr_tokens rotated_store =
     [(''r1'', \<lparr>rt_walletAddress = ''GW'', rt_familyId = ''f'', rt_expiresAt = 604800, rt_revoked = True\<rparr>),
      (''r2'', \<lparr>rt_walletAddress = ''GW'', rt_familyId = ''f'', rt_expiresAt = 604805, rt_revoked = False\<rparr>)]"
    "mr_revokedFamilies rotated_store = {}"
    by (simp_all add: rotated_store_def issueTokenPair_def rotateRefreshToken_def sample_fresh_def
        sample_session_def empty_mem_refresh_def mr_get_def mr_set_def mr_isFamilyRevoked_def Let_def)
qed

theorem replay_revokes_family_witness:
  "\<exists>msg. fst (rotateRefreshToken sample_session mem_refresh_ops 9000 (sample_fresh ''r4'') ''r3''
     (snd (session_run sample_session mem_refresh_ops [CallLogin 8000 (sample_fresh ''r3'') ''gw'']
       (snd (rotateRefreshToken sample_session mem_refresh_ops 7000 (sample_fresh ''r9'') ''r1'' rotated_store)))))
   = Inl (SessionRevoked msg)"
proof -
  let ?e = "\<lparr>rt_walletAddress = ''GW'', rt_familyId = ''f'', rt_expiresAt = 604800, rt_revoked = True\<rparr>"
  have n: "normalizeWalletAddress (Some ''gw'') = ''GW''" by code_simp
  have "look_token mem_refresh_ops 7000 ''r1'' rotated_store = Some ?e"
    by (simp add: mr_look rotated_store_tokens)
  moreover have "look_token mem_refresh_ops 9000 ''r3'' (snd (session_run sample_session mem_refresh_ops
      [CallLogin 8000 (sample_fresh ''r3'') ''gw'']
      (snd (rotateRefreshToken sample_session mem_refresh_ops 7000 (sample_fresh ''r9'') ''r1'' rotated_store)))) =
    Some \<lparr>rt_walletAddress = ''GW'', rt_familyId = ''f'', rt_expiresAt = 604808, rt_revoked = False\<rparr>"
    by (simp add: mr_look issueTokenPair_def mr_set_def jmap.look_put n sample_fresh_def sample_session_def Let_def)
  ultimately show ?thesis
    using replay_revokes_family[of 7000 "''r1''" rotated_store ?e 9000 "''r3''" sample_session
        "[CallLogin 8000 (sample_fresh ''r3'') ''gw'']" "sample_fresh ''r9''" _ "sample_fresh ''r4''"] by simp
qed

end
