(* ===== verification/AccessControl.thy ===== *)
theory AccessControl
  imports Wallet
begin

text \<open>
  Who may call what: the normalised request path and the payload tiers
  (\<open>backend/src/middleware/payloadLimit.ts\<close>), API keys (\<open>middleware/apiKeyAuth.ts\<close>) and role-based
  access control (\<open>middleware/rbac.ts\<close>).  SHA-256 is the argument \<open>sha256\<close>.
\<close>

section \<open>payloadLimit.ts\<close>

datatype tier = TGlobal | TAuth | TAdmin | TWrites

fun tier_env_var :: "tier \<Rightarrow> string" where
  "tier_env_var TGlobal = ''PAYLOAD_LIMIT_GLOBAL''"
| "tier_env_var TAuth = ''PAYLOAD_LIMIT_AUTH''"
| "tier_env_var TAdmin = ''PAYLOAD_LIMIT_ADMIN''"
| "tier_env_var TWrites = ''PAYLOAD_LIMIT_WRITES''"

fun tier_default :: "tier \<Rightarrow> string" where
  "tier_default TGlobal = ''1mb''"
| "tier_default TAuth = ''4kb''"
| "tier_default TAdmin = ''16kb''"
| "tier_default TWrites = ''32kb''"

fun show_tier :: "tier \<Rightarrow> string" where
  "show_tier TGlobal = ''global''"
| "show_tier TAuth = ''auth''"
| "show_tier TAdmin = ''admin''"
| "show_tier TWrites = ''writes''"

definition resolveTierLimit :: "env \<Rightarrow> tier \<Rightarrow> string" where
  "resolveTierLimit E t =
     (case E (tier_env_var t) of
        None \<Rightarrow> tier_default t
      | Some v \<Rightarrow> if v \<noteq> [] \<and> js_trim v \<noteq> [] then js_trim v else tier_default t)"

text \<open>\<open>replace(/\/+/g, '/')\<close>.\<close>

fun collapse_slashes :: "string \<Rightarrow> string" where
  "collapse_slashes [] = []"
| "collapse_slashes [c] = [c]"
| "collapse_slashes (c # d # cs) =
     (if c = CHR ''/'' \<and> d = CHR ''/'' then collapse_slashes (d # cs) else c # collapse_slashes (d # cs))"

definition getNormalizedPath :: "request \<Rightarrow> string" where
  "getNormalizedPath req =
     (let path = (if rq_path req = [] then ''/'' else rq_path req);
          c0 = collapse_slashes (rq_baseUrl req @ path);
          combined = (if c0 = [] then ''/'' else c0)
      in if 1 < length combined \<and> last combined = CHR ''/'' then butlast combined else combined)"

definition is_vault_write_path :: "string \<Rightarrow> bool" where
  "is_vault_write_path path \<longleftrightarrow>
     path \<in> (\<lambda>p. ''/api/v1/vault/'' @ p) `
       {''deposits'', ''deposits/'', ''deposits/v2'', ''deposits/v2/'', ''withdrawals'', ''withdrawals/'',
        ''strategy'', ''strategy/''}"

definition resolvePayloadTier :: "request \<Rightarrow> tier" where
  "resolvePayloadTier req =
     (let path = getNormalizedPath req; verb = js_upper (rq_method req)
      in if starts_with ''/admin'' path then TAdmin
         else if starts_with ''/api/v1/auth'' path \<or> starts_with ''/auth/'' path then TAuth
         else if verb = ''POST'' \<and> is_vault_write_path path then TWrites
         else TGlobal)"

text \<open>An error of the body parser, as the handler reads it: its \<open>status\<close>, \<open>statusCode\<close> and \<open>type\<close>.\<close>

record parser_error =
  pe_status :: "int option"
  pe_statusCode :: "int option"
  pe_type :: "string option"

definition payload_error_response :: "env \<Rightarrow> tier \<Rightarrow> parser_error \<Rightarrow> response option" where
  "payload_error_response E t err =
     (if pe_status err = Some 413 \<or> pe_statusCode err = Some 413 \<or> pe_type err = Some ''entity.too.large''
      then let limit = resolveTierLimit E t in
        Some (send_json 413 (JObj
          [(''error'', JStr ''Payload Too Large''), (''status'', jint 413),
           (''message'', JStr (''Request body exceeds the '' @ limit @ '' limit for '' @ show_tier t @
              '' routes. Reduce the payload size and retry.'')),
           (''limit'', JStr limit)]))
      else None)"

section \<open>apiKeyAuth.ts\<close>

record api_key_metadata =
  ak_createdAt :: time
  ak_rotatedAt :: "time option"

type_synonym api_keys = "(string, api_key_metadata) js_map"

definition hashApiKey :: "(string \<Rightarrow> string) \<Rightarrow> string \<Rightarrow> string" where
  "hashApiKey sha256 key = sha256 key"

definition validateApiKey :: "(string \<Rightarrow> string) \<Rightarrow> api_keys \<Rightarrow> request \<Rightarrow> outcome" where
  "validateApiKey sha256 keys req =
     (case scheme_match False ''ApiKey'' (header_or_empty req ''authorization'') of
        None \<Rightarrow> Respond (send_json 401 (JObj
          [(''error'', JStr ''Unauthorized''), (''message'', JStr ''Missing or invalid API key'')]))
      | Some providedKey \<Rightarrow>
          if \<not> jm_has keys (hashApiKey sha256 providedKey)
          then Respond (send_json 401 (JObj
            [(''error'', JStr ''Unauthorized''), (''message'', JStr ''Invalid API key'')]))
          else Next req)"

definition registerApiKey :: "(string \<Rightarrow> string) \<Rightarrow> time \<Rightarrow> string \<Rightarrow> api_keys \<Rightarrow> string \<times> api_keys" where
  "registerApiKey sha256 now key keys =
     (let h = hashApiKey sha256 key
      in (h, AList.update h \<lparr>ak_createdAt = now, ak_rotatedAt = None\<rparr> keys))"

definition revokeApiKey :: "string \<Rightarrow> api_keys \<Rightarrow> bool \<times> api_keys" where
  "revokeApiKey h keys = (jm_has keys h, AList.delete h keys)"

definition rotateApiKey ::
  "(string \<Rightarrow> string) \<Rightarrow> time \<Rightarrow> string \<Rightarrow> string \<Rightarrow> api_keys \<Rightarrow> string option \<times> api_keys" where
  "rotateApiKey sha256 now oldHash newKey keys =
     (case map_of keys oldHash of
        None \<Rightarrow> (None, keys)
      | Some metadata \<Rightarrow>
          let newHash = hashApiKey sha256 newKey
          in (Some newHash,
              AList.update newHash \<lparr>ak_createdAt = ak_createdAt metadata, ak_rotatedAt = Some now\<rparr>
                (AList.delete oldHash keys)))"

text \<open>\<open>req.get\<close> of a key presented in the header.\<close>

definition with_api_key :: "string \<Rightarrow> request \<Rightarrow> request" where
  "with_api_key key req = req\<lparr>rq_headers := (rq_headers req)(''authorization'' \<mapsto> ''ApiKey '' @ key)\<rparr>"

section \<open>rbac.ts\<close>

datatype permission =
    ADMIN_READ | CONFIG_WRITE | ALLOWLIST_WRITE | WEBHOOKS_WRITE | WEBHOOKS_PRIVILEGED
  | API_KEYS_WRITE | API_KEYS_SUPER | EXPORTS_WRITE | JOBS_WRITE | IDEMPOTENCY_WRITE
  | IDEMPOTENCY_FLUSH | IMPERSONATE

fun show_permission :: "permission \<Rightarrow> string" where
  "show_permission ADMIN_READ = ''admin.read''"
| "show_permission CONFIG_WRITE = ''admin.config.write''"
| "show_permission ALLOWLIST_WRITE = ''admin.allowlist.write''"
| "show_permission WEBHOOKS_WRITE = ''admin.webhooks.write''"
| "show_permission WEBHOOKS_PRIVILEGED = ''admin.webhooks.privileged''"
| "show_permission API_KEYS_WRITE = ''admin.api_keys.write''"
| "show_permission API_KEYS_SUPER = ''admin.api_keys.super''"
| "show_permission EXPORTS_WRITE = ''admin.exports.write''"
| "show_permission JOBS_WRITE = ''admin.jobs.write''"
| "show_permission IDEMPOTENCY_WRITE = ''admin.idempotency.write''"
| "show_permission IDEMPOTENCY_FLUSH = ''admin.idempotency.flush''"
| "show_permission IMPERSONATE = ''admin.impersonate''"

fun show_role :: "api_key_role \<Rightarrow> string" where
  "show_role Viewer = ''viewer''"
| "show_role Operator = ''operator''"
| "show_role Admin = ''admin''"
| "show_role SuperAdmin = ''super-admin''"

definition ALL_PERMISSIONS :: "permission list" where
  "ALL_PERMISSIONS =
     [ADMIN_READ, CONFIG_WRITE, ALLOWLIST_WRITE, WEBHOOKS_WRITE, WEBHOOKS_PRIVILEGED, API_KEYS_WRITE,
      API_KEYS_SUPER, EXPORTS_WRITE, JOBS_WRITE, IDEMPOTENCY_WRITE, IDEMPOTENCY_FLUSH, IMPERSONATE]"

fun ROLE_PERMISSIONS :: "api_key_role \<Rightarrow> permission list" where
  "ROLE_PERMISSIONS Viewer = [ADMIN_READ]"
| "ROLE_PERMISSIONS Operator =
     [ADMIN_READ, CONFIG_WRITE, ALLOWLIST_WRITE, WEBHOOKS_WRITE, EXPORTS_WRITE, JOBS_WRITE, IDEMPOTENCY_WRITE]"
| "ROLE_PERMISSIONS Admin =
     [ADMIN_READ, CONFIG_WRITE, ALLOWLIST_WRITE, WEBHOOKS_WRITE, WEBHOOKS_PRIVILEGED, API_KEYS_WRITE,
      EXPORTS_WRITE, JOBS_WRITE, IDEMPOTENCY_WRITE]"
| "ROLE_PERMISSIONS SuperAdmin = ALL_PERMISSIONS"

definition WEBHOOK_PRIVILEGED_PARAMETER_KEYS :: "string list" where
  "WEBHOOK_PRIVILEGED_PARAMETER_KEYS = [''url'', ''secret'']"

definition MAINTENANCE_PARAMETER_KEYS :: "string list" where
  "MAINTENANCE_PARAMETER_KEYS = [''enabled'', ''reason'', ''retryAfterSeconds'']"

text \<open>The patterns of the route rules: literal segments and \<open>[^/]+\<close>.\<close>

datatype route_segment = Lit string | AnySegment

record route_rule =
  rr_methods :: "string list"
  rr_pattern :: "route_segment list"
  rr_permission :: permission

definition mk_rule :: "string \<Rightarrow> route_segment list \<Rightarrow> permission \<Rightarrow> route_rule" where
  "mk_rule m segs p = \<lparr>rr_methods = [m], rr_pattern = Lit ''admin'' # segs, rr_permission = p\<rparr>"

definition ADMIN_ROUTE_RULES :: "route_rule list" where
  "ADMIN_ROUTE_RULES =
     [mk_rule ''GET'' [Lit ''impersonate'', AnySegment] IMPERSONATE,
      mk_rule ''DELETE'' [Lit ''idempotency'', Lit ''keys''] IDEMPOTENCY_FLUSH,
      mk_rule ''POST'' [Lit ''maintenance''] CONFIG_WRITE,
      mk_rule ''POST'' [Lit ''cache'', Lit ''invalidate''] CONFIG_WRITE,
      mk_rule ''POST'' [Lit ''allowlist'', Lit ''add''] ALLOWLIST_WRITE,
      mk_rule ''DELETE'' [Lit ''allowlist'', Lit ''remove''] ALLOWLIST_WRITE,
      mk_rule ''POST'' [Lit ''apy'', Lit ''backfill''] JOBS_WRITE,
      mk_rule ''POST'' [Lit ''events'', Lit ''replay''] JOBS_WRITE,
      mk_rule ''POST'' [Lit ''api-keys'', Lit ''register''] API_KEYS_WRITE,
      mk_rule ''POST'' [Lit ''api-keys'', Lit ''rotate''] API_KEYS_WRITE,
      mk_rule ''POST'' [Lit ''api-keys'', Lit ''revoke''] API_KEYS_WRITE,
      mk_rule ''POST'' [Lit ''webhooks''] WEBHOOKS_WRITE,
      mk_rule ''PATCH'' [Lit ''webhooks'', AnySegment] WEBHOOKS_WRITE,
      mk_rule ''DELETE'' [Lit ''webhooks'', AnySegment] WEBHOOKS_WRITE,
      mk_rule ''POST'' [Lit ''webhooks'', AnySegment, Lit ''restore''] WEBHOOKS_WRITE,
      mk_rule ''POST'' [Lit ''exports'', Lit ''bulk''] EXPORTS_WRITE,
      mk_rule ''POST'' [Lit ''exports'', Lit ''bulk'', Lit ''jobs'', AnySegment, Lit ''cancel''] EXPORTS_WRITE,
      mk_rule ''POST'' [Lit ''exports'', Lit ''jobs'', AnySegment, Lit ''verify''] EXPORTS_WRITE,
      mk_rule ''DELETE'' [Lit ''idempotency'', Lit ''keys'', AnySegment] IDEMPOTENCY_WRITE]"

fun segments_match :: "route_segment list \<Rightarrow> string list \<Rightarrow> bool" where
  "segments_match [] [] = True"
| "segments_match (Lit l # ps) (s # ss) = (l = s \<and> segments_match ps ss)"
| "segments_match (AnySegment # ps) (s # ss) = (s \<noteq> [] \<and> segments_match ps ss)"
| "segments_match _ _ = False"

definition pattern_test :: "route_segment list \<Rightarrow> string \<Rightarrow> bool" where
  "pattern_test ps path =
     (case js_split (CHR ''/'') path of [] \<Rightarrow> False | r # ss \<Rightarrow> r = [] \<and> segments_match ps ss)"

definition resolveApiKeyRole :: "request \<Rightarrow> api_key_role" where
  "resolveApiKeyRole req = nullish (rq_authApiKeyRole req) Admin"

definition roleHasPermission :: "api_key_role \<Rightarrow> permission \<Rightarrow> bool" where
  "roleHasPermission role p \<longleftrightarrow> p \<in> set (ROLE_PERMISSIONS role)"

definition hasPermission :: "request \<Rightarrow> permission \<Rightarrow> bool" where
  "hasPermission req p = roleHasPermission (resolveApiKeyRole req) p"

definition resolveAdminRoutePermission :: "request \<Rightarrow> permission" where
  "resolveAdminRoutePermission req =
     (let path = getNormalizedPath req; verb = js_upper (rq_method req)
      in case filter (\<lambda>r. verb \<in> set (rr_methods r) \<and> pattern_test (rr_pattern r) path) ADMIN_ROUTE_RULES of
           rule # _ \<Rightarrow> rr_permission rule
         | [] \<Rightarrow> if verb = ''GET'' \<or> verb = ''HEAD'' then ADMIN_READ else API_KEYS_WRITE)"

definition forbiddenResponse :: "string \<Rightarrow> permission option \<Rightarrow> response" where
  "forbiddenResponse msg required = send_json 403 (JObj (error_body ''Forbidden'' 403 msg
     @ opt_prop ''requiredPermission'' (map_option (\<lambda>p. JStr (show_permission p)) required)))"

definition body_keys :: "request \<Rightarrow> string list" where
  "body_keys req = (case rq_body req of JObj fs \<Rightarrow> map fst fs | _ \<Rightarrow> [])"

text \<open>The guards return \<^const>\<open>None\<close> for \<open>true\<close> and the response they sent for \<open>false\<close>.\<close>

definition assertMaintenanceParameterUpdate :: "request \<Rightarrow> response option" where
  "assertMaintenanceParameterUpdate req =
     (let keys = filter (\<lambda>k. k \<in> set MAINTENANCE_PARAMETER_KEYS) (body_keys req)
      in if keys = [] then None
         else if \<not> hasPermission req CONFIG_WRITE then
           Some (forbiddenResponse ''Operator role or higher is required to update maintenance mode parameters''
             (Some CONFIG_WRITE))
         else None)"

definition assertWebhookParameterUpdate :: "request \<Rightarrow> response option" where
  "assertWebhookParameterUpdate req =
     (let keys = body_keys req;
          privileged = filter (\<lambda>k. k \<in> set WEBHOOK_PRIVILEGED_PARAMETER_KEYS) keys;
          operational = filter (\<lambda>k. k \<notin> set privileged) keys
      in if keys = [] then None
         else if privileged \<noteq> [] \<and> \<not> hasPermission req WEBHOOKS_PRIVILEGED then
           Some (forbiddenResponse (''Admin role or higher is required to update webhook parameters: ''
             @ js_join '', '' privileged) (Some WEBHOOKS_PRIVILEGED))
         else if operational \<noteq> [] \<and> \<not> hasPermission req WEBHOOKS_WRITE then
           Some (forbiddenResponse ''Operator role or higher is required to update webhook configuration''
             (Some WEBHOOKS_WRITE))
         else None)"

definition impersonated_wallet :: "string \<Rightarrow> string option" where
  "impersonated_wallet path =
     (case js_split (CHR ''/'') path of
        [r, a, i, w] \<Rightarrow> if r = [] \<and> a = ''admin'' \<and> i = ''impersonate'' \<and> w \<noteq> [] then Some w else None
      | _ \<Rightarrow> None)"

definition tagImpersonationDenied :: "request \<Rightarrow> request" where
  "tagImpersonationDenied req =
     (let wallet = nullish (impersonated_wallet (getNormalizedPath req)) ''unknown'';
          h = rq_headers req;
          actor = nullish (js_or (h ''x-admin-address'') (js_or (h ''x-admin-id'')
                    (js_or (h ''x-wallet-address'') (Some ''unknown'')))) ''unknown''
      in req\<lparr>rq_auditAction := Some ''admin.impersonate.denied'',
             rq_auditMetadata := JObj
               [(''actingAdminAddress'', JStr actor), (''adminRole'', JStr (show_role (resolveApiKeyRole req))),
                (''targetWallet'', JStr wallet), (''impersonation'', JBool True)]\<rparr>)"

text \<open>The middleware, with the request as the audit log sees it afterwards.\<close>

definition adminRbac :: "request \<Rightarrow> outcome \<times> request" where
  "adminRbac req =
     (let required = resolveAdminRoutePermission req
      in if \<not> hasPermission req required then
           (Respond (forbiddenResponse (''Insufficient permissions. Required: '' @ show_permission required)
              (Some required)),
            if required = IMPERSONATE then tagImpersonationDenied req else req)
         else (Next req, req))"

definition adminRbacMiddleware :: "request \<Rightarrow> outcome" where
  "adminRbacMiddleware req = fst (adminRbac req)"

definition requirePermission :: "permission list \<Rightarrow> request \<Rightarrow> outcome" where
  "requirePermission permissions req =
     (if \<not> list_ex (hasPermission req) permissions then
        Respond (forbiddenResponse (''Insufficient permissions. Required one of: ''
          @ js_join '', '' (map show_permission permissions))
          (case permissions of [] \<Rightarrow> None | p # _ \<Rightarrow> Some p))
      else Next req)"

section \<open>Roles\<close>

text \<open>
  The roles form a hierarchy: whatever a role may do, every role above it may do too, and
  impersonation, the global idempotency flush and super-admin keys are for super-admins only.
\<close>

theorem role_hierarchy:
  "(r \<le> s \<longrightarrow> roleHasPermission r p \<longrightarrow> roleHasPermission s p)
   \<and> (p \<in> {IMPERSONATE, IDEMPOTENCY_FLUSH, API_KEYS_SUPER} \<longrightarrow> roleHasPermission r p = (r = SuperAdmin))"
  by (cases r; cases s)
    (auto simp: roleHasPermission_def ALL_PERMISSIONS_def less_eq_api_key_role_def role_rank_def)

theorem role_hierarchy_witness:
  "roleHasPermission Admin JOBS_WRITE \<and> \<not> roleHasPermission Admin IMPERSONATE"
proof -
  have "Operator \<le> Admin" by (simp add: less_eq_api_key_role_def role_rank_def)
  moreover have "roleHasPermission Operator JOBS_WRITE" by (simp add: roleHasPermission_def)
  ultimately show ?thesis
    using role_hierarchy[of Operator Admin JOBS_WRITE] role_hierarchy[of Admin Admin IMPERSONATE] by simp
qed

lemma adminRbac_Next: "adminRbacMiddleware req = Next req' \<longleftrightarrow>
    req' = req \<and> hasPermission req (resolveAdminRoutePermission req)"
  by (auto simp: adminRbacMiddleware_def adminRbac_def Let_def)

lemma validateApiKey_Next: "validateApiKey sha256 keys req = Next req' \<longleftrightarrow>
    req' = req \<and> (\<exists>key. scheme_match False ''ApiKey'' (header_or_empty req ''authorization'') = Some key
       \<and> jm_has keys (sha256 key))"
  by (auto simp: validateApiKey_def hashApiKey_def split: option.split)

text \<open>
  On the \<open>/admin\<close> routes the role of a key does not exist: \<open>validateApiKey\<close> sets none and RBAC
  then assumes \<open>admin\<close>.  So every registered key passes on every route an admin may use, and no key
  at all ever passes on a route that needs a super-admin.
\<close>

theorem admin_pipeline_ignores_roles:
  assumes "rq_authApiKeyRole req = None"
  shows "run_middlewares [validateApiKey sha256 keys, adminRbacMiddleware] req = Next req' \<longleftrightarrow>
    req' = req
    \<and> (\<exists>key. scheme_match False ''ApiKey'' (header_or_empty req ''authorization'') = Some key
         \<and> jm_has keys (sha256 key))
    \<and> resolveAdminRoutePermission req \<notin> {IMPERSONATE, IDEMPOTENCY_FLUSH, API_KEYS_SUPER}"
proof -
  have perm: "hasPermission req p \<longleftrightarrow> p \<notin> {IMPERSONATE, IDEMPOTENCY_FLUSH, API_KEYS_SUPER}" for p
    using assms by (cases p) (simp_all add: hasPermission_def resolveApiKeyRole_def roleHasPermission_def)
  let ?ok = "\<exists>key. scheme_match False ''ApiKey'' (header_or_empty req ''authorization'') = Some key
      \<and> jm_has keys (sha256 key)"
  have "run_middlewares [validateApiKey sha256 keys, adminRbacMiddleware] req = Next req' \<longleftrightarrow>
      (\<exists>r1. validateApiKey sha256 keys req = Next r1 \<and> adminRbacMiddleware r1 = Next req')"
    by (auto split: outcome.splits)
  also have "\<dots> \<longleftrightarrow> ?ok \<and> adminRbacMiddleware req = Next req'"
    unfolding validateApiKey_Next by blast
  also have "\<dots> \<longleftrightarrow> ?ok \<and> req' = req \<and> hasPermission req (resolveAdminRoutePermission req)"
    unfolding adminRbac_Next ..
  finally show ?thesis unfolding perm by blast
qed

definition impersonate_request :: request where
  "impersonate_request = with_api_key ''k'' (blank_request\<lparr>rq_method := ''GET'', rq_baseUrl := ''/admin'',
     rq_path := ''/impersonate/GW''\<rparr>)"

lemma impersonate_request_permission: "resolveAdminRoutePermission impersonate_request = IMPERSONATE"
  by code_simp

theorem admin_pipeline_ignores_roles_witness:
  "\<not> is_next (run_middlewares [validateApiKey id [(''k'', \<lparr>ak_createdAt = 0, ak_rotatedAt = None\<rparr>)],
     adminRbacMiddleware] impersonate_request)"
proof -
  have "rq_authApiKeyRole impersonate_request = None"
    by (simp add: impersonate_request_def with_api_key_def blank_request_def)
  from admin_pipeline_ignores_roles[OF this] show ?thesis
    by (auto simp: impersonate_request_permission is_next_def split: outcome.splits)
qed

text \<open>The rules are case-sensitive and name \<open>GET\<close> only, while Express routes \<open>HEAD\<close> requests and paths
  in any case to the same handlers: those need read permission only.\<close>

lemma impersonate_case_variant:
  "resolveAdminRoutePermission (impersonate_request\<lparr>rq_path := ''/Impersonate/GW''\<rparr>) = ADMIN_READ"
  "resolveAdminRoutePermission (impersonate_request\<lparr>rq_method := ''HEAD''\<rparr>) = ADMIN_READ"
  by code_simp+

section \<open>The life of an API key\<close>

lemma jm_has_put [simp]: "jm_has (AList.update k v m) k' \<longleftrightarrow> k' = k \<or> jm_has m k'"
  by (simp add: jm_has_def jmap.look_put)

lemma jm_has_del [simp]: "jm_has (AList.delete k m) k' \<longleftrightarrow> k' \<noteq> k \<and> jm_has m k'"
  by (simp add: jm_has_def jmap.look_del)

text \<open>
  A key works from its registration until its revocation or rotation: after any of the three
  operations exactly the expected hashes are accepted, and rotation keeps the creation time.
\<close>

theorem api_key_lifecycle:
  "(\<forall>h. jm_has (snd (registerApiKey sha256 now key keys)) h \<longleftrightarrow> h = sha256 key \<or> jm_has keys h)
   \<and> (\<forall>h. jm_has (snd (revokeApiKey h0 keys)) h \<longleftrightarrow> h \<noteq> h0 \<and> jm_has keys h)
   \<and> fst (revokeApiKey h0 keys) = jm_has keys h0
   \<and> (\<forall>h. jm_has (snd (rotateApiKey sha256 now h0 key keys)) h \<longleftrightarrow>
        (if jm_has keys h0 then h = sha256 key \<or> h \<noteq> h0 \<and> jm_has keys h else jm_has keys h))
   \<and> (\<forall>m. map_of keys h0 = Some m \<longrightarrow>
        map_of (snd (rotateApiKey sha256 now h0 key keys)) (sha256 key) =
          Some \<lparr>ak_createdAt = ak_createdAt m, ak_rotatedAt = Some now\<rparr>)"
  by (auto simp: registerApiKey_def revokeApiKey_def rotateApiKey_def hashApiKey_def Let_def
      jmap.look_put split: option.splits) (auto simp: jm_has_def)

theorem api_key_lifecycle_witness:
  "map_of (snd (rotateApiKey id 5 ''a'' ''b'' [(''a'', \<lparr>ak_createdAt = 1, ak_rotatedAt = None\<rparr>)])) ''b'' =
     Some \<lparr>ak_createdAt = 1, ak_rotatedAt = Some 5\<rparr>"
  using api_key_lifecycle[of id 5 "''b''" "[(''a'', \<lparr>ak_createdAt = 1, ak_rotatedAt = None\<rparr>)]" "''a''"]
  by simp

end
