(* ===== verification/Decimals.thy ===== *)
theory Decimals
  imports Calendar
begin

text \<open>
  The decimal numbers of the \<open>decimal.js\<close> package, as far as the backend uses them: its operations as
  a record, the laws its documentation gives (sums, differences and comparisons of amounts are exact,
  quotients of positive numbers are positive, \<open>toFixed(6)\<close> rounds to the nearest sixth digit and
  reads back) as the locale \<open>decimals\<close>, and the rational numbers as an instance.
\<close>

record 'd decimal_ops =
  dc_of :: "string \<Rightarrow> 'd option"
  dc_of_number :: "rat \<Rightarrow> 'd"
  dc_plus :: "'d \<Rightarrow> 'd \<Rightarrow> 'd"
  dc_minus :: "'d \<Rightarrow> 'd \<Rightarrow> 'd"
  dc_mul :: "'d \<Rightarrow> 'd \<Rightarrow> 'd"
  dc_div :: "'d \<Rightarrow> 'd \<Rightarrow> 'd"
  dc_lte :: "'d \<Rightarrow> 'd \<Rightarrow> bool"
  dc_isFinite :: "'d \<Rightarrow> bool"
  dc_toDecimalPlaces :: "nat \<Rightarrow> 'd \<Rightarrow> 'd"
  dc_toFixed :: "nat \<Rightarrow> 'd \<Rightarrow> string"
  dc_toString :: "'d \<Rightarrow> string"

definition dc_zero :: "'d decimal_ops \<Rightarrow> 'd" where
  "dc_zero D = dc_of_number D 0"

definition dc_one :: "'d decimal_ops \<Rightarrow> 'd" where
  "dc_one D = dc_of_number D 1"

definition dc_gt :: "'d decimal_ops \<Rightarrow> 'd \<Rightarrow> 'd \<Rightarrow> bool" where
  "dc_gt D a b \<longleftrightarrow> \<not> dc_lte D a b"

definition dc_max :: "'d decimal_ops \<Rightarrow> 'd \<Rightarrow> 'd \<Rightarrow> 'd" where
  "dc_max D a b = (if dc_lte D a b then b else a)"

locale decimals =
  fixes D :: "'d decimal_ops" and val :: "'d \<Rightarrow> rat"
  assumes val_of_number: "val (dc_of_number D r) = r"
    and val_plus: "val (dc_plus D a b) = val a + val b"
    and val_minus: "val (dc_minus D a b) = val a - val b"
    and val_mul: "val (dc_mul D a b) = val a * val b"
    and val_div_pos: "0 \<le> val a \<Longrightarrow> 0 < val b \<Longrightarrow> 0 \<le> val (dc_div D a b)"
    and val_div_gt: "0 < val a \<Longrightarrow> 0 < val b \<Longrightarrow> 0 < val (dc_div D a b)"
    and lte_val: "dc_lte D a b \<longleftrightarrow> val a \<le> val b"
    and places_close: "\<bar>val (dc_toDecimalPlaces D 6 a) - val a\<bar> \<le> 1 / 2000000"
    and places_exact: "val a = of_int k / 1000000 \<Longrightarrow> val (dc_toDecimalPlaces D 6 a) = val a"
    and places_nonneg: "0 \<le> val a \<Longrightarrow> 0 \<le> val (dc_toDecimalPlaces D 6 a)"
    and fixed_reads: "0 \<le> val a \<Longrightarrow>
      \<exists>b. dc_of D (dc_toFixed D 6 a) = Some b \<and> 0 \<le> val b \<and> \<bar>val b - val a\<bar> \<le> 1 / 2000000"
begin

lemma val_zero [simp]: "val (dc_zero D) = 0" and val_one [simp]: "val (dc_one D) = 1"
  by (simp_all add: dc_zero_def dc_one_def val_of_number)

lemma gt_val: "dc_gt D a b \<longleftrightarrow> val b < val a"
  by (simp add: dc_gt_def lte_val not_le)

lemma val_max: "val (dc_max D a b) = max (val a) (val b)"
  by (simp add: dc_max_def lte_val max_def)

lemma val_foldl_plus: "val (foldl (dc_plus D) a xs) = val a + sum_list (map val xs)"
  by (induction xs arbitrary: a) (simp_all add: val_plus)

end

text \<open>The same without the rounding of quotients to the package's precision (twenty significant
  digits): the ideal arithmetic in which the accounting identities are stated.\<close>

locale exact_decimals = decimals +
  assumes val_div: "0 < val b \<Longrightarrow> val (dc_div D a b) = val a / val b"
begin

lemma div_mul_cancel: "0 < val b \<Longrightarrow> val (dc_mul D (dc_div D a b) b) = val a"
  by (simp add: val_mul val_div)

end

text \<open>JavaScript prints a number as the shortest decimal that denotes it; numbers are identified with
  that decimal.  \<open>reads_back D val num r\<close>: \<open>new Decimal(String(r))\<close> has the value \<open>r\<close>.\<close>

definition reads_back :: "'d decimal_ops \<Rightarrow> ('d \<Rightarrow> rat) \<Rightarrow> (rat \<Rightarrow> string) \<Rightarrow> rat \<Rightarrow> bool" where
  "reads_back D val num r \<longleftrightarrow> num r \<noteq> [] \<and> (\<exists>a. dc_of D (num r) = Some a \<and> val a = r)"

section \<open>Reading digits back\<close>

lemma digits_value_append:
  "digits_value (xs @ [c]) = 10 * digits_value xs + int (of_char c - 48)"
  by (simp add: digits_value_def)

lemma digits_value_Nil [simp]: "digits_value [] = 0"
  by (simp add: digits_value_def)

lemma digits_value_show_nat: "digits_value (show_nat n) = int n"
proof (induction n rule: less_induct)
  case (less n)
  have d: "int ((of_char (char_of (48 + k) :: char) :: nat) - 48) = int k" if "k < 10" for k :: nat
    using that by simp
  show ?case
  proof (cases "n < 10")
    case True
    then have "show_nat n = [] @ [char_of (48 + n)]" by (subst show_nat.simps) simp
    with True show ?thesis by (simp only: digits_value_append digits_value_Nil d)
  next
    case False
    then have "n div 10 < n" by simp
    then have "digits_value (show_nat (n div 10)) = int (n div 10)" by (rule less)
    moreover have "show_nat n = show_nat (n div 10) @ [char_of (48 + n mod 10)]"
      using False by (subst show_nat.simps) simp
    moreover have "10 * int (n div 10) + int (n mod 10) = int n" by presburger
    ultimately show ?thesis by (simp add: digits_value_append d)
  qed
qed

lemma digits_value_pad: "digits_value (replicate k (CHR ''0'') @ s) = digits_value s"
proof (induction k)
  case (Suc k)
  have "digits_value (CHR ''0'' # t) = digits_value t" for t
    by (simp add: digits_value_def)
  with Suc show ?case by simp
qed simp

section \<open>The rational instance\<close>

definition round_to :: "nat \<Rightarrow> rat \<Rightarrow> int" where
  "round_to n x = (if 0 \<le> x then \<lfloor>x * 10 ^ n + 1 / 2\<rfloor> else - \<lfloor>- x * 10 ^ n + 1 / 2\<rfloor>)"

definition show_fixed :: "nat \<Rightarrow> int \<Rightarrow> string" where
  "show_fixed n k =
     (let a = nat \<bar>k\<bar>
      in (if k < 0 then ''-'' else []) @ show_nat (a div 10 ^ n) @ ''.'' @ pad_left n (show_nat (a mod 10 ^ n)))"

definition parse_unsigned :: "string \<Rightarrow> rat option" where
  "parse_unsigned s =
     (let i = takeWhile is_digit s; r = dropWhile is_digit s
      in if i = [] then None
         else case r of
             [] \<Rightarrow> Some (of_int (digits_value i))
           | c # f \<Rightarrow> if c = CHR ''.'' \<and> list_all is_digit f
               then Some (of_int (digits_value i) + of_int (digits_value f) / 10 ^ length f) else None)"

definition parse_decimal :: "string \<Rightarrow> rat option" where
  "parse_decimal s =
     (case s of c # r \<Rightarrow> if c = CHR ''-'' then map_option uminus (parse_unsigned r) else parse_unsigned s
      | [] \<Rightarrow> None)"

definition rat_decimals :: "rat decimal_ops" where
  "rat_decimals = \<lparr>dc_of = parse_decimal, dc_of_number = (\<lambda>r. r), dc_plus = (+), dc_minus = (-),
     dc_mul = (*), dc_div = (/), dc_lte = (\<le>), dc_isFinite = (\<lambda>r. True),
     dc_toDecimalPlaces = (\<lambda>n x. of_int (round_to n x) / 10 ^ n),
     dc_toFixed = (\<lambda>n x. show_fixed n (round_to n x)), dc_toString = (\<lambda>x. show_fixed 6 (round_to 6 x))\<rparr>"

lemma show_nat_nonempty [simp]: "show_nat n \<noteq> []"
  by (subst show_nat.simps) simp

lemma length_show_nat_le: "n < 10 ^ k \<Longrightarrow> 0 < k \<Longrightarrow> length (show_nat n) \<le> k"
proof (induction n arbitrary: k rule: less_induct)
  case (less n)
  show ?case
  proof (cases "n < 10")
    case True
    then show ?thesis using less.prems by (subst show_nat.simps) simp
  next
    case False
    obtain j where k0: "k = Suc j" using less.prems(2) gr0_conv_Suc by blast
    then have "0 < j" using less.prems False by (cases j) auto
    note k = k0 this
    then have "n div 10 < 10 ^ j" using less.prems by (simp add: less_mult_imp_div_less)
    then have "length (show_nat (n div 10)) \<le> j" using k False by (intro less.IH) simp_all
    then show ?thesis using False k by (subst show_nat.simps) simp
  qed
qed

lemma digits_all [simp]: "list_all is_digit (show_nat n)"
  by (simp add: list_all_iff show_nat_digits)

lemma is_digit_zero [simp]: "is_digit (CHR ''0'')"
  by (simp add: is_digit_def)

lemma list_all_pad: "list_all is_digit (pad_left n (show_nat a))"
  by (auto simp: list_all_iff show_nat_digits)

lemma takeWhile_digits: "list_all is_digit i \<Longrightarrow> \<not> is_digit c \<Longrightarrow>
    takeWhile is_digit (i @ c # f) = i \<and> dropWhile is_digit (i @ c # f) = c # f"
  by (induction i) auto

lemma not_digit_dot [simp]: "\<not> is_digit (CHR ''.'')" and not_digit_minus [simp]: "\<not> is_digit (CHR ''-'')"
  by (simp_all add: is_digit_def)

lemma parse_unsigned_fixed:
  assumes "0 < n"
  shows "parse_unsigned (show_nat (a div 10 ^ n) @ ''.'' @ pad_left n (show_nat (a mod 10 ^ n)))
    = Some (of_nat a / 10 ^ n)"
proof -
  have len: "length (pad_left n (show_nat (a mod 10 ^ n))) = n"
    using length_show_nat_le[of "a mod 10 ^ n" n] assms by simp
  have dv: "digits_value (pad_left n (show_nat (a mod 10 ^ n))) = int (a mod 10 ^ n)"
    by (simp add: digits_value_pad digits_value_show_nat)
  have "(of_nat (a div 10 ^ n * 10 ^ n + a mod 10 ^ n) :: rat) = of_nat (a div 10 ^ n) * 10 ^ n + of_nat (a mod 10 ^ n)"
    by (simp only: of_nat_add of_nat_mult of_nat_power of_nat_numeral)
  then have "(of_nat a :: rat) = of_nat (a div 10 ^ n) * 10 ^ n + of_nat (a mod 10 ^ n)"
    by (simp only: div_mult_mod_eq)
  then have "of_nat (a div 10 ^ n) + of_nat (a mod 10 ^ n) / 10 ^ n = (of_nat a :: rat) / 10 ^ n"
    by (simp add: field_simps)
  then show ?thesis
    using takeWhile_digits[of "show_nat (a div 10 ^ n)" "CHR ''.''" "pad_left n (show_nat (a mod 10 ^ n))"]
    by (simp add: parse_unsigned_def Let_def list_all_pad len dv digits_value_show_nat
        del: pad_left.simps)
qed

lemma parse_show_fixed:
  assumes "0 < n" and "0 \<le> k"
  shows "parse_decimal (show_fixed n k) = Some (of_int k / 10 ^ n)"
proof -
  let ?u = "show_nat (nat k div 10 ^ n) @ ''.'' @ pad_left n (show_nat (nat k mod 10 ^ n))"
  have u: "parse_unsigned ?u = Some (of_int k / 10 ^ n)"
    using parse_unsigned_fixed[OF assms(1), of "nat k"] assms(2) by simp
  obtain c r where cr: "show_nat (nat k div 10 ^ n) = c # r"
    by (meson neq_Nil_conv show_nat_nonempty)
  then have "c \<noteq> CHR ''-''" using show_nat_digits[of c "nat k div 10 ^ n"] by auto
  with u cr assms(2) show ?thesis
    by (simp add: parse_decimal_def show_fixed_def Let_def del: pad_left.simps)
qed

lemma round_to_close: "0 \<le> x \<Longrightarrow> 0 \<le> round_to n x \<and> \<bar>of_int (round_to n x) / 10 ^ n - x\<bar> \<le> 1 / (2 * 10 ^ n)"
proof
  assume x: "0 \<le> x"
  then have "0 \<le> x * 10 ^ n + 1 / 2" by simp
  then show "0 \<le> round_to n x" using x by (simp add: round_to_def)
  let ?k = "of_int (round_to n x) :: rat"
  have "?k \<le> x * 10 ^ n + 1 / 2" "x * 10 ^ n + 1 / 2 < ?k + 1"
    using x floor_correct[of "x * 10 ^ n + 1 / 2"] by (simp_all add: round_to_def)
  then have "\<bar>?k - x * 10 ^ n\<bar> \<le> 1 / 2" by linarith
  moreover have "\<bar>?k / 10 ^ n - x\<bar> * 10 ^ n = \<bar>?k - x * 10 ^ n\<bar>"
  proof -
    have "(?k / 10 ^ n - x) * 10 ^ n = ?k - x * 10 ^ n" by (simp add: field_simps)
    then show ?thesis by (metis abs_mult abs_of_nonneg zero_le_numeral zero_le_power)
  qed
  ultimately have "\<bar>?k / 10 ^ n - x\<bar> * 10 ^ n \<le> 1 / 2" by simp
  then show "\<bar>?k / 10 ^ n - x\<bar> \<le> 1 / (2 * 10 ^ n)" by (simp add: field_simps)
qed

lemma round_to_neg: "x < 0 \<Longrightarrow> round_to n x = - round_to n (- x)"
  by (simp add: round_to_def)

lemma round_to_abs: "\<bar>of_int (round_to n x) / 10 ^ n - x\<bar> \<le> 1 / (2 * 10 ^ n)"
proof (cases "0 \<le> x")
  case False
  then have "\<bar>of_int (round_to n (- x)) / 10 ^ n - - x\<bar> \<le> 1 / (2 * 10 ^ n)"
    using round_to_close[of "- x" n] by simp
  moreover have "of_int (round_to n x) / 10 ^ n - x = - (of_int (round_to n (- x)) / 10 ^ n - - x)"
    using False round_to_neg[of x n] by simp
  ultimately show ?thesis by (simp only: abs_minus_cancel)
qed (use round_to_close[of x n] in simp)

lemma round_to_int_nonneg: "0 \<le> k \<Longrightarrow> round_to n (of_int k / 10 ^ n) = k"
proof -
  assume "0 \<le> k"
  then have nn: "0 \<le> (of_int k / 10 ^ n :: rat)" by simp
  have "of_int k / 10 ^ n * 10 ^ n + (1 / 2 :: rat) = of_int k + 1 / 2" by simp
  then have "\<lfloor>of_int k / 10 ^ n * 10 ^ n + (1 / 2 :: rat)\<rfloor> = \<lfloor>of_int k + (1 / 2 :: rat)\<rfloor>"
    by (simp only:)
  also have "\<dots> = k" by linarith
  finally show ?thesis using nn by (simp only: round_to_def if_True)
qed

lemma round_to_int: "round_to n (of_int k / 10 ^ n) = k"
proof (cases "0 \<le> k")
  case False
  then have "(of_int k / 10 ^ n :: rat) < 0" by (simp add: divide_neg_pos)
  then have "round_to n (of_int k / 10 ^ n) = - round_to n (of_int (- k) / 10 ^ n)"
    using round_to_neg[of "of_int k / 10 ^ n" n] by simp
  with False round_to_int_nonneg[of "- k" n] show ?thesis by simp
qed (rule round_to_int_nonneg)

interpretation rat_dec: exact_decimals rat_decimals "\<lambda>r. r"
proof unfold_locales
  fix a :: rat
  show "\<bar>dc_toDecimalPlaces rat_decimals 6 a - a\<bar> \<le> 1 / 2000000"
    using round_to_abs[of 6 a] by (simp add: rat_decimals_def)
next
  fix a :: rat and k
  assume a: "a = of_int k / 1000000"
  show "dc_toDecimalPlaces rat_decimals 6 a = a"
    unfolding a using round_to_int[of 6 k] by (simp add: rat_decimals_def)
next
  fix a :: rat
  assume "0 \<le> a"
  with round_to_close[OF this, of 6] show "0 \<le> dc_toDecimalPlaces rat_decimals 6 a"
    by (simp add: rat_decimals_def)
next
  fix a :: rat
  assume "0 \<le> a"
  from round_to_close[OF this, of 6] have
    r: "0 \<le> round_to 6 a" "\<bar>of_int (round_to 6 a) / 10 ^ 6 - a\<bar> \<le> 1 / (2 * 10 ^ 6)" by simp_all
  then show "\<exists>b. dc_of rat_decimals (dc_toFixed rat_decimals 6 a) = Some b \<and> 0 \<le> b \<and> \<bar>b - a\<bar> \<le> 1 / 2000000"
    by (intro exI[of _ "of_int (round_to 6 a) / 10 ^ 6"]) (simp add: rat_decimals_def parse_show_fixed)
qed (simp_all add: rat_decimals_def)

lemma rat_decimals_laws: "decimals rat_decimals (\<lambda>r. r)"
  by (rule rat_dec.decimals_axioms)

lemma rat_exact_laws: "exact_decimals rat_decimals (\<lambda>r. r)"
  by (rule rat_dec.exact_decimals_axioms)

definition num_fixed6 :: "rat \<Rightarrow> string" where
  "num_fixed6 r = show_fixed 6 (round_to 6 r)"

lemma reads_back_int: "0 \<le> i \<Longrightarrow> reads_back rat_decimals (\<lambda>r. r) num_fixed6 (of_int i)"
proof -
  assume i: "0 \<le> i"
  have "round_to 6 (of_int i) = i * 10 ^ 6"
  proof -
    have "\<lfloor>of_int i * 10 ^ 6 + (1 / 2 :: rat)\<rfloor> = i * 10 ^ 6"
    proof -
      have "of_int i * 10 ^ 6 + (1 / 2 :: rat) = of_int (i * 10 ^ 6) + 1 / 2" by simp
      also have "\<lfloor>\<dots>\<rfloor> = i * 10 ^ 6" by linarith
      finally show ?thesis .
    qed
    with i show ?thesis by (simp add: round_to_def)
  qed
  moreover have "show_fixed 6 k \<noteq> []" for k by (simp add: show_fixed_def Let_def)
  ultimately show ?thesis
    using parse_show_fixed[of 6 "i * 10 ^ 6"] i
    by (simp add: reads_back_def num_fixed6_def rat_decimals_def)
qed

end
