(* ===== verification/Database.thy ===== *)
theory Database
  imports Prelude "HOL-Library.Multiset"
begin

text \<open>
  The tables of \<open>backend/prisma/schema.prisma\<close> the modelled code reads and writes, and the Prisma
  client as a parameter: what a table holds, and the calls that change one.  The locale \<open>prisma\<close>
  states what its documentation promises (a created row is in its table and nothing else changes, an
  upsert replaces the row); the tables as lists are an instance.  A \<open>findMany\<close> is a filter of the
  table's rows, an \<open>orderBy\<close> a stable sort of them.
\<close>

record transaction_row =
  tx_id :: string
  tx_user :: string
  tx_amount :: string
  tx_type :: string
  tx_status :: "string option"
  tx_referralCode :: "string option"
  tx_timestamp :: time

record vault_state_row =
  vs_totalAssets :: string
  vs_totalShares :: string

record snapshot_row =
  sn_sharePrice :: string
  sn_totalAssets :: string
  sn_totalShares :: string
  sn_source :: string
  sn_recordedAt :: time
  sn_createdAt :: time
  sn_id :: string

record referral_row =
  rf_referrerAddress :: string
  rf_referredAddress :: string
  rf_firstDepositAt :: "time option"

record referral_code_row =
  rc_code :: string
  rc_ownerAddress :: string

record 'd prisma_ops =
  px_transactions :: "'d \<Rightarrow> transaction_row list"
  px_vaultState :: "'d \<Rightarrow> vault_state_row option"
  px_snapshots :: "'d \<Rightarrow> snapshot_row list"
  px_referrals :: "'d \<Rightarrow> referral_row list"
  px_referralCodes :: "'d \<Rightarrow> referral_code_row list"
  px_create_transaction :: "transaction_row \<Rightarrow> 'd \<Rightarrow> 'd"
  px_upsert_vaultState :: "vault_state_row \<Rightarrow> 'd \<Rightarrow> 'd"
  px_create_snapshot :: "snapshot_row \<Rightarrow> 'd \<Rightarrow> 'd"
  px_create_referral :: "referral_row \<Rightarrow> 'd \<Rightarrow> 'd"
  px_set_firstDepositAt :: "string \<Rightarrow> time \<Rightarrow> 'd \<Rightarrow> 'd"
  px_create_referralCode :: "referral_code_row \<Rightarrow> 'd \<Rightarrow> 'd"

definition stamp_first_deposit :: "string \<Rightarrow> time \<Rightarrow> referral_row \<Rightarrow> referral_row" where
  "stamp_first_deposit a t r = (if rf_referredAddress r = a then r\<lparr>rf_firstDepositAt := Some t\<rparr> else r)"

locale prisma =
  fixes P :: "'d prisma_ops"
  assumes transactions_create:
      "mset (px_transactions P (px_create_transaction P r d)) = add_mset r (mset (px_transactions P d))"
    and transactions_frame:
      "mset (px_transactions P (px_upsert_vaultState P v d)) = mset (px_transactions P d)"
      "mset (px_transactions P (px_create_snapshot P sn d)) = mset (px_transactions P d)"
      "mset (px_transactions P (px_create_referral P rf d)) = mset (px_transactions P d)"
      "mset (px_transactions P (px_set_firstDepositAt P a t d)) = mset (px_transactions P d)"
    and vaultState_upsert: "px_vaultState P (px_upsert_vaultState P v d) = Some v"
    and vaultState_frame:
      "px_vaultState P (px_create_transaction P r d) = px_vaultState P d"
      "px_vaultState P (px_create_snapshot P sn d) = px_vaultState P d"
      "px_vaultState P (px_create_referral P rf d) = px_vaultState P d"
      "px_vaultState P (px_set_firstDepositAt P a t d) = px_vaultState P d"
    and snapshots_create:
      "mset (px_snapshots P (px_create_snapshot P sn d)) = add_mset sn (mset (px_snapshots P d))"
    and snapshots_frame:
      "mset (px_snapshots P (px_create_transaction P r d)) = mset (px_snapshots P d)"
      "mset (px_snapshots P (px_upsert_vaultState P v d)) = mset (px_snapshots P d)"
      "mset (px_snapshots P (px_create_referral P rf d)) = mset (px_snapshots P d)"
      "mset (px_snapshots P (px_set_firstDepositAt P a t d)) = mset (px_snapshots P d)"
    and referrals_create:
      "mset (px_referrals P (px_create_referral P rf d)) = add_mset rf (mset (px_referrals P d))"
    and referrals_stamp:
      "mset (px_referrals P (px_set_firstDepositAt P a t d)) =
         image_mset (stamp_first_deposit a t) (mset (px_referrals P d))"
    and referralCodes_create:
      "mset (px_referralCodes P (px_create_referralCode P c d)) = add_mset c (mset (px_referralCodes P d))"
    and referralCodes_frame:
      "mset (px_referralCodes P (px_create_referral P rf d)) = mset (px_referralCodes P d)"
      "mset (px_referralCodes P (px_set_firstDepositAt P a t d)) = mset (px_referralCodes P d)"
begin

lemmas tables = transactions_create transactions_frame vaultState_upsert vaultState_frame
  snapshots_create snapshots_frame referrals_create referrals_stamp referralCodes_create referralCodes_frame

lemma referrals_create_set:
  "set (px_referrals P (px_create_referral P rf d)) = insert rf (set (px_referrals P d))"
  using arg_cong[OF referrals_create, of set_mset] by simp

lemma referrals_stamp_set:
  "set (px_referrals P (px_set_firstDepositAt P a t d)) = stamp_first_deposit a t ` set (px_referrals P d)"
  using arg_cong[OF referrals_stamp, of set_mset] by simp

lemma codes_create_set:
  "set (px_referralCodes P (px_create_referralCode P c d)) = insert c (set (px_referralCodes P d))"
  using arg_cong[OF referralCodes_create, of set_mset] by simp

end

text \<open>The tables as lists.\<close>

record tables_db =
  tb_transactions :: "transaction_row list"
  tb_vaultState :: "vault_state_row option"
  tb_snapshots :: "snapshot_row list"
  tb_referrals :: "referral_row list"
  tb_referralCodes :: "referral_code_row list"

definition empty_db :: tables_db where
  "empty_db = \<lparr>tb_transactions = [], tb_vaultState = None, tb_snapshots = [], tb_referrals = [], tb_referralCodes = []\<rparr>"

definition list_prisma :: "tables_db prisma_ops" where
  "list_prisma = \<lparr>px_transactions = tb_transactions, px_vaultState = tb_vaultState,
     px_snapshots = tb_snapshots, px_referrals = tb_referrals, px_referralCodes = tb_referralCodes,
     px_create_transaction = (\<lambda>r d. d\<lparr>tb_transactions := tb_transactions d @ [r]\<rparr>),
     px_upsert_vaultState = (\<lambda>v d. d\<lparr>tb_vaultState := Some v\<rparr>),
     px_create_snapshot = (\<lambda>sn d. d\<lparr>tb_snapshots := tb_snapshots d @ [sn]\<rparr>),
     px_create_referral = (\<lambda>rf d. d\<lparr>tb_referrals := tb_referrals d @ [rf]\<rparr>),
     px_set_firstDepositAt = (\<lambda>a t d. d\<lparr>tb_referrals := map (stamp_first_deposit a t) (tb_referrals d)\<rparr>),
     px_create_referralCode = (\<lambda>c d. d\<lparr>tb_referralCodes := tb_referralCodes d @ [c]\<rparr>)\<rparr>"

interpretation list_px: prisma list_prisma
  by unfold_locales (simp_all add: list_prisma_def)

lemma list_prisma_laws: "prisma list_prisma"
  by (rule list_px.prisma_axioms)

end
