(* ===== verification/Gates.thy ===== *)
theory Gates
  imports Wallet Calendar "HOL-Library.List_Lexorder" "HOL-Library.Char_ord"
begin

text \<open>
  The request gates of the backend: the wallet allowlist (\<open>middleware/allowlist.ts\<close>), geofencing
  (\<open>middleware/geofencing.ts\<close>), feature flags (\<open>featureFlags.ts\<close>) and maintenance mode
  (\<open>maintenanceMode.ts\<close>).  The module-level sets and variables are arguments; \<open>JSON.parse\<close> of the
  flag and country maps, the file system and the GeoIP database are parameters.
\<close>

section \<open>Allowlist\<close>

text \<open>The JavaScript \<open>Set\<close> of addresses, in insertion order.\<close>

type_synonym allowlist = "string list"

definition set_add :: "string \<Rightarrow> allowlist \<Rightarrow> allowlist" where
  "set_add a s = (if a \<in> set s then s else s @ [a])"

definition seedFromEnv :: "env \<Rightarrow> allowlist" where
  "seedFromEnv E =
     fold set_add
       (filter (\<lambda>a. a \<noteq> []) (map (\<lambda>a. normalizeWalletAddress (Some a)) (js_split (CHR '','') (env_or E ''ALLOWLIST_ADDRESSES'' []))))
       []"

definition isAllowed :: "string \<Rightarrow> allowlist \<Rightarrow> bool" where
  "isAllowed walletAddress s \<longleftrightarrow> normalizeWalletAddress (Some walletAddress) \<in> set s"

definition addAddress :: "string \<Rightarrow> allowlist \<Rightarrow> bool \<times> allowlist" where
  "addAddress walletAddress s =
     (let normalised = normalizeWalletAddress (Some walletAddress)
      in if normalised \<in> set s then (False, s) else (True, set_add normalised s))"

definition removeAddress :: "string \<Rightarrow> allowlist \<Rightarrow> bool \<times> allowlist" where
  "removeAddress walletAddress s =
     (let normalised = normalizeWalletAddress (Some walletAddress)
      in (normalised \<in> set s, filter (\<lambda>a. a \<noteq> normalised) s))"

definition listAddresses :: "allowlist \<Rightarrow> string list" where
  "listAddresses s = js_sort (\<lambda>a b. b < a) s"

definition allowlistSize :: "allowlist \<Rightarrow> nat" where
  "allowlistSize s = length s"

definition clearAllowlist :: "allowlist \<Rightarrow> allowlist" where
  "clearAllowlist s = []"

definition allowlistMiddleware :: "env \<Rightarrow> allowlist \<Rightarrow> request \<Rightarrow> outcome" where
  "allowlistMiddleware E s req =
     (if E ''ALLOWLIST_ENABLED'' = Some ''false'' then Next req
      else
        let wallet = js_or (body_string req ''walletAddress'') (rq_headers req ''x-wallet-address'')
        in if \<not> truthy_str wallet then
             Respond (send_error ''Forbidden'' 403
               ''Wallet address is required and must be approved for private beta access.'')
           else if \<not> isAllowed (the wallet) s then
             Respond (send_error ''Forbidden'' 403
               (''Your wallet address is not approved for private beta access. '' @
                ''Please contact the YieldVault team to request access.''))
           else Next req)"

lemma set_set_add [simp]: "set (set_add a s) = insert a (set s)"
  by (auto simp: set_add_def)

lemma distinct_set_add [simp]: "distinct s \<Longrightarrow> distinct (set_add a s)"
  by (simp add: set_add_def)

lemma set_fold_add: "set (fold set_add xs s) = set xs \<union> set s"
  by (induction xs arbitrary: s) auto

text \<open>The list acts on the set of normalised addresses: it starts as the seeded addresses, and each
  operation inserts or removes one.\<close>

lemma seed_addresses:
  "set (seedFromEnv E) =
     {normalizeWalletAddress (Some a) | a. a \<in> set (js_split (CHR '','') (env_or E ''ALLOWLIST_ADDRESSES'' []))} - {[]}"
  by (auto simp: seedFromEnv_def set_fold_add)

lemma add_address_set: "set (snd (addAddress w s)) = insert (normalizeWalletAddress (Some w)) (set s)"
  by (auto simp: addAddress_def Let_def)

lemma remove_address_set: "set (snd (removeAddress w s)) = set s - {normalizeWalletAddress (Some w)}"
  by (auto simp: removeAddress_def Let_def)

lemma add_address_result: "fst (addAddress w s) \<longleftrightarrow> \<not> isAllowed w s"
  by (simp add: addAddress_def isAllowed_def Let_def)

lemma remove_address_result: "fst (removeAddress w s) \<longleftrightarrow> isAllowed w s"
  by (simp add: removeAddress_def isAllowed_def Let_def)

lemma listAddresses_set [simp]: "set (listAddresses s) = set s"
  by (simp add: listAddresses_def)

lemma listAddresses_sorted: "sorted (listAddresses s)"
  using sorted_js_sort[of "\<lambda>a b :: string. b < a" s]
  by (auto simp: listAddresses_def not_less)

lemma allowlist_passes_iff:
  "is_next (allowlistMiddleware E s req) \<longleftrightarrow>
     E ''ALLOWLIST_ENABLED'' = Some ''false'' \<or>
     (\<exists>w. js_or (body_string req ''walletAddress'') (rq_headers req ''x-wallet-address'') = Some w
        \<and> w \<noteq> [] \<and> isAllowed w s)"
  by (auto simp: allowlistMiddleware_def Let_def truthy_str_def split: option.splits)

section \<open>Feature flags\<close>

record flag_definition =
  fd_enabled :: bool
  fd_allowlist :: "string list option"

type_synonym flag_map = "string \<Rightarrow> flag_definition option"

definition loadFlags :: "(string \<Rightarrow> flag_map option) \<Rightarrow> (string \<Rightarrow> string option) \<Rightarrow> env \<Rightarrow> flag_map" where
  "loadFlags parse readFile E =
     (let from_file =
            (case E ''FEATURE_FLAGS_PATH'' of
               None \<Rightarrow> None
             | Some filePath \<Rightarrow>
                 if filePath = [] then None
                 else (case readFile filePath of None \<Rightarrow> None | Some txt \<Rightarrow> parse txt))
      in case from_file of
           Some m \<Rightarrow> m
         | None \<Rightarrow>
             (case E ''FEATURE_FLAGS'' of
                None \<Rightarrow> Map.empty
              | Some inline \<Rightarrow> if inline = [] then Map.empty else nullish (parse inline) Map.empty))"

definition isEnabled :: "flag_map \<Rightarrow> string \<Rightarrow> string option \<Rightarrow> bool" where
  "isEnabled flags flag walletAddress =
     (case flags flag of
        None \<Rightarrow> False
      | Some d \<Rightarrow>
          if \<not> fd_enabled d then False
          else (case fd_allowlist d of
                  None \<Rightarrow> True
                | Some al \<Rightarrow>
                    if al = [] then True
                    else if \<not> truthy_str walletAddress then False
                    else the walletAddress \<in> set al))"

definition requireFlag :: "flag_map \<Rightarrow> string \<Rightarrow> request \<Rightarrow> outcome" where
  "requireFlag flags flag req =
     (let wallet = js_or (rq_headers req ''x-wallet-address'') (body_string req ''walletAddress'')
      in if \<not> isEnabled flags flag wallet
         then Respond (send_error ''Not Found'' 404 ''Endpoint not available'')
         else Next req)"

text \<open>The header wins over the body, so any caller who knows one targeted wallet passes the gate,
  whatever wallet the body operates on.\<close>

lemma flag_header_wins:
  assumes "flags flag = Some d" and "fd_enabled d" and "fd_allowlist d = Some al" and "w \<in> set al" and "w \<noteq> []"
    and "rq_headers req ''x-wallet-address'' = Some w"
  shows "requireFlag flags flag req = Next req"
  using assms by (auto simp: requireFlag_def isEnabled_def js_or_def truthy_str_def Let_def)

section \<open>Maintenance mode\<close>

text \<open>\<open>retryAfterSeconds\<close> is \<^const>\<open>None\<close> where the code has \<open>NaN\<close>.\<close>

record maintenance_state =
  mm_enabled :: bool
  mm_reason :: "string option"
  mm_updatedAt :: time
  mm_updatedBy :: "string option"
  mm_retryAfterSeconds :: "int option"

text \<open>\<open>reason\<close> of an update is absent, \<open>null\<close> or a string.\<close>

datatype reason_update = ReasonAbsent | ReasonNull | ReasonText string

record maintenance_update =
  mu_enabled :: "bool option"
  mu_reason :: reason_update
  mu_retryAfterSeconds :: "int option"
  mu_actor :: "string option"

definition default_retry_after_seconds :: "env \<Rightarrow> int option" where
  "default_retry_after_seconds E = js_parse_int (env_or E ''MAINTENANCE_MODE_RETRY_AFTER_SECONDS'' ''300'')"

definition parseBooleanEnv :: "string option \<Rightarrow> bool" where
  "parseBooleanEnv value \<longleftrightarrow> value = Some ''1'' \<or> map_option js_lower value = Some ''true''"

definition parseRetryAfterSeconds :: "env \<Rightarrow> string option \<Rightarrow> int option" where
  "parseRetryAfterSeconds E value =
     (case js_parse_int (nullish value []) of
        None \<Rightarrow> default_retry_after_seconds E
      | Some parsed \<Rightarrow> if parsed \<le> 0 then default_retry_after_seconds E else Some parsed)"

definition non_blank :: "string option \<Rightarrow> string option" where
  "non_blank v = (case v of None \<Rightarrow> None | Some s \<Rightarrow> if s = [] then None else Some s)"

definition readEnvState :: "env \<Rightarrow> time \<Rightarrow> maintenance_state" where
  "readEnvState E now = \<lparr>mm_enabled = parseBooleanEnv (E ''MAINTENANCE_MODE_ENABLED''),
     mm_reason = non_blank (map_option js_trim (E ''MAINTENANCE_MODE_REASON'')),
     mm_updatedAt = now, mm_updatedBy = None,
     mm_retryAfterSeconds = parseRetryAfterSeconds E (E ''MAINTENANCE_MODE_RETRY_AFTER_SECONDS'')\<rparr>"

definition getMaintenanceModeState :: "maintenance_state \<Rightarrow> maintenance_state option \<Rightarrow> maintenance_state" where
  "getMaintenanceModeState envState runtimeState = nullish runtimeState envState"

definition updateMaintenanceModeState ::
  "maintenance_state \<Rightarrow> time \<Rightarrow> maintenance_update \<Rightarrow> maintenance_state option \<Rightarrow>
   maintenance_state \<times> maintenance_state option" where
  "updateMaintenanceModeState envState now upd runtimeState =
     (let previous = getMaintenanceModeState envState runtimeState;
          n = \<lparr>mm_enabled = nullish (mu_enabled upd) (mm_enabled previous),
               mm_reason = (case mu_reason upd of
                   ReasonAbsent \<Rightarrow> mm_reason previous
                 | ReasonNull \<Rightarrow> None
                 | ReasonText s \<Rightarrow> non_blank (Some (js_trim s))),
               mm_updatedAt = now,
               mm_updatedBy = (case mu_actor upd of None \<Rightarrow> mm_updatedBy previous | Some a \<Rightarrow> Some a),
               mm_retryAfterSeconds = (case mu_retryAfterSeconds upd of
                   None \<Rightarrow> mm_retryAfterSeconds previous | Some r \<Rightarrow> Some r)\<rparr>
      in (n, Some n))"

definition resetMaintenanceModeState :: "maintenance_state option \<Rightarrow> maintenance_state option" where
  "resetMaintenanceModeState runtimeState = None"

definition isMaintenanceBypassPath :: "string \<Rightarrow> bool" where
  "isMaintenanceBypassPath pathname \<longleftrightarrow>
     pathname \<in> {''/health'', ''/ready'', ''/metrics''} \<or> starts_with ''/admin/maintenance'' pathname"

definition isMutatingMethod :: "string \<Rightarrow> bool" where
  "isMutatingMethod method \<longleftrightarrow> js_upper method \<in> {''POST'', ''PUT'', ''PATCH'', ''DELETE''}"

definition show_seconds :: "int option \<Rightarrow> string" where
  "show_seconds n = (case n of None \<Rightarrow> ''NaN'' | Some i \<Rightarrow> show_int i)"

definition maintenanceModeMiddleware :: "maintenance_state \<Rightarrow> request \<Rightarrow> outcome" where
  "maintenanceModeMiddleware state req =
     (if \<not> mm_enabled state \<or> \<not> isMutatingMethod (rq_method req) \<or> isMaintenanceBypassPath (rq_path req)
      then Next req
      else Respond (send_json_with [(''Retry-After'', JStr (show_seconds (mm_retryAfterSeconds state)))] 503
        (JObj [(''error'', JStr ''Service Unavailable''), (''status'', jint 503),
               (''message'', JStr (case mm_reason state of
                    Some r \<Rightarrow> ''Maintenance mode is enabled. '' @ r
                  | None \<Rightarrow> ''Maintenance mode is enabled. Please retry later.'')),
               (''retryAfterSeconds'', json_opt jint (mm_retryAfterSeconds state)),
               (''maintenanceMode'', JObj ([(''enabled'', JBool True)]
                  @ opt_prop ''reason'' (map_option JStr (mm_reason state))
                  @ [(''updatedAt'', JStr (to_iso_string (mm_updatedAt state)))]))])))"

text \<open>Maintenance mode is a read-only mode: a request is refused, with status 503, exactly when it is
  mutating and not one of the bypass paths, and reads always pass.\<close>

lemma maintenance_refuses_iff:
  "(\<exists>r. maintenanceModeMiddleware st req = Respond r \<and> rs_status r = 503) \<longleftrightarrow>
     mm_enabled st \<and> isMutatingMethod (rq_method req) \<and> \<not> isMaintenanceBypassPath (rq_path req)"
  by (auto simp: maintenanceModeMiddleware_def)

text \<open>The way out of maintenance mode stays open: the update that switches it off is never refused.\<close>

lemma maintenance_switch_reachable:
  "starts_with ''/admin/maintenance'' (rq_path req) \<Longrightarrow> maintenanceModeMiddleware st req = Next req"
  by (simp add: maintenanceModeMiddleware_def isMaintenanceBypassPath_def)

lemma update_then_get:
  "getMaintenanceModeState e (snd (updateMaintenanceModeState e now u r)) = fst (updateMaintenanceModeState e now u r)"
  by (simp add: updateMaintenanceModeState_def getMaintenanceModeState_def Let_def)

lemma non_blank_reason: "mm_reason (readEnvState E now) \<noteq> Some []"
  by (auto simp: readEnvState_def non_blank_def split: option.splits)

text \<open>The fallback for an unusable retry time is read from the very variable that is unusable, so a
  negative value is not replaced.\<close>

lemma retry_fallback_same_variable:
  assumes "E ''MAINTENANCE_MODE_RETRY_AFTER_SECONDS'' = Some v" and "v \<noteq> []" and "js_parse_int v = Some n"
  shows "mm_retryAfterSeconds (readEnvState E now) = Some n"
  using assms by (simp add: readEnvState_def parseRetryAfterSeconds_def default_retry_after_seconds_def env_or_def)

section \<open>Geofencing\<close>

text \<open>\<open>geoip-lite\<close>, when installed, is a parameter; otherwise the JSON map of the environment is used.\<close>

definition env_geoip_lookup ::
  "(string \<Rightarrow> string option) option \<Rightarrow> (string \<Rightarrow> (string \<Rightarrow> string option) option) \<Rightarrow> env \<Rightarrow> string \<Rightarrow> string option" where
  "env_geoip_lookup geoipLite parse E ip =
     (case geoipLite of
        Some lk \<Rightarrow> lk ip
      | None \<Rightarrow>
          (case E ''GEOIP_COUNTRY_MAP'' of
             None \<Rightarrow> None
           | Some mapRaw \<Rightarrow>
               if mapRaw = [] then None
               else (case parse mapRaw of None \<Rightarrow> None | Some m \<Rightarrow> m ip)))"

definition loadBlocklist :: "env \<Rightarrow> string list" where
  "loadBlocklist E =
     filter (\<lambda>c. length c = 2)
       (map (\<lambda>c. js_upper (js_trim c)) (js_split (CHR '','') (env_or E ''GEOIP_BLOCKED_COUNTRIES'' [])))"

definition extractClientIp :: "request \<Rightarrow> string option" where
  "extractClientIp req =
     (if truthy_str (rq_headers req ''x-forwarded-for'') then
        non_blank (Some (js_trim (hd (js_split (CHR '','') (the (rq_headers req ''x-forwarded-for''))))))
      else (case rq_ip req of Some ip \<Rightarrow> Some ip | None \<Rightarrow> rq_remote req))"

definition blocked_response :: "string \<Rightarrow> response" where
  "blocked_response country =
     send_json 451 (JObj (error_body ''Unavailable For Legal Reasons'' 451
       (''Access to YieldVault is not available in your jurisdiction ('' @ country @ ''). '' @
        ''This restriction is required by applicable regulations. '' @
        ''If you believe this is an error, please contact support@yieldvault.finance.'')
       @ [(''country'', JStr country)]))"

definition geofencingMiddleware :: "(string \<Rightarrow> string option) \<Rightarrow> env \<Rightarrow> request \<Rightarrow> outcome" where
  "geofencingMiddleware lookup E req =
     (if E ''GEOIP_ENABLED'' = Some ''false'' then Next req
      else
        let blocklist = loadBlocklist E
        in if blocklist = [] then Next req
           else
             let ip = extractClientIp req
             in if \<not> truthy_str ip then Next req
                else
                  let country = lookup (the ip)
                  in if \<not> truthy_str country then Next req
                     else if the country \<in> set blocklist then Respond (blocked_response (the country))
                     else Next req)"

lemma geofencing_blocks_iff:
  "geofencingMiddleware lookup E req = Respond (blocked_response c) \<longrightarrow>
     E ''GEOIP_ENABLED'' \<noteq> Some ''false'' \<and> (\<exists>ip. extractClientIp req = Some ip \<and> ip \<noteq> [])"
  by (auto simp: geofencingMiddleware_def Let_def truthy_str_def split: option.splits if_splits)

lemma js_split_no_sep: "d \<notin> set s \<Longrightarrow> js_split d s = [s]"
  by (induction s) auto

text \<open>
  Geofencing blocks nobody who sets a header.  \<open>X-Forwarded-For\<close> is believed whoever sent it, so
  a caller from a blocked country passes by naming any address the GeoIP database cannot place in one.
\<close>

theorem geofencing_header_bypass:
  assumes "ip \<noteq> []" and "CHR '','' \<notin> set ip" and "js_trim ip = ip"
    and "case lookup ip of None \<Rightarrow> True | Some c \<Rightarrow> c \<notin> set (loadBlocklist E)"
  shows "geofencingMiddleware lookup E (req\<lparr>rq_headers := (rq_headers req)(''x-forwarded-for'' \<mapsto> ip)\<rparr>)
     = Next (req\<lparr>rq_headers := (rq_headers req)(''x-forwarded-for'' \<mapsto> ip)\<rparr>)"
proof -
  let ?req = "req\<lparr>rq_headers := (rq_headers req)(''x-forwarded-for'' \<mapsto> ip)\<rparr>"
  have "extractClientIp ?req = Some ip"
    using assms(1-3) by (simp add: extractClientIp_def truthy_str_def non_blank_def js_split_no_sep)
  then show ?thesis
    using assms(4) by (auto simp: geofencingMiddleware_def Let_def truthy_str_def split: option.splits)
qed

definition blocking_env :: env where
  "blocking_env = [''GEOIP_BLOCKED_COUNTRIES'' \<mapsto> ''KP, ir'']"

definition sample_geoip :: "string \<Rightarrow> string option" where
  "sample_geoip = [''175.45.176.1'' \<mapsto> ''KP'']"

definition blocked_request :: request where
  "blocked_request = blank_request\<lparr>rq_ip := Some ''175.45.176.1''\<rparr>"

theorem geofencing_header_bypass_witness:
  "\<not> is_next (geofencingMiddleware sample_geoip blocking_env blocked_request)
   \<and> is_next (geofencingMiddleware sample_geoip blocking_env
        (blocked_request\<lparr>rq_headers := (rq_headers blocked_request)(''x-forwarded-for'' \<mapsto> ''10.0.0.1'')\<rparr>))"
proof
  show "\<not> is_next (geofencingMiddleware sample_geoip blocking_env blocked_request)"
    by code_simp
  have "sample_geoip ''10.0.0.1'' = None" "js_trim ''10.0.0.1'' = ''10.0.0.1''" by code_simp+
  then show "is_next (geofencingMiddleware sample_geoip blocking_env
        (blocked_request\<lparr>rq_headers := (rq_headers blocked_request)(''x-forwarded-for'' \<mapsto> ''10.0.0.1'')\<rparr>))"
    by (subst geofencing_header_bypass) simp_all
qed

end
