(* ===== verification/WithdrawalLimit.thy ===== *)
theory WithdrawalLimit
  imports Decimals Database Wallet
begin

text \<open>
  The daily withdrawal limit (\<open>backend/src/middleware/withdrawalDailyLimit.ts\<close>): the evaluation over
  the transactions of the current UTC day, the overrides and the middleware.  Decimals, the database
  and the two functions the file imports from \<open>apiKeyAuth\<close>, which does not define them, are parameters.
  A call that throws, so that the promise of the middleware rejects, is \<^const>\<open>None\<close>.  Entries of the
  administrative audit log are collected as triples of action, status and metadata.
\<close>

record override_record =
  ov_wallet :: string
  ov_reason :: string
  ov_actor :: string
  ov_expiresAt :: time
  ov_createdAt :: time

record limit_state =
  inMemoryOverrides :: "(string, override_record) js_map"
  inMemoryAuditLog :: "json list"
  adminAuditLog :: "(string \<times> int \<times> json) list"

record limit_check =
  lc_allowed :: bool
  lc_limit :: string
  lc_used :: string
  lc_remaining :: string
  lc_requested :: string
  lc_resetsAt :: time
  lc_overridden :: bool

definition getDailyLimit :: "'d decimal_ops \<Rightarrow> env \<Rightarrow> 'd option" where
  "getDailyLimit D E =
     (case dc_of D (env_or E ''WITHDRAWAL_DAILY_LIMIT_USDC'' ''10000'') of
        None \<Rightarrow> None
      | Some parsed \<Rightarrow>
          if \<not> dc_isFinite D parsed \<or> dc_lte D parsed (dc_zero D) then Some (dc_of_number D 10000) else Some parsed)"

definition getUtcDayBounds :: "time \<Rightarrow> time \<times> time" where
  "getUtcDayBounds now = (day_start (utc_day now), day_start (utc_day now + 1))"

definition day_withdrawal :: "string \<Rightarrow> time \<Rightarrow> time \<Rightarrow> transaction_row \<Rightarrow> bool" where
  "day_withdrawal wallet start end r \<longleftrightarrow>
     tx_user r = wallet \<and> tx_type r = ''withdrawal'' \<and> start \<le> tx_timestamp r \<and> tx_timestamp r < end"

definition row_amount :: "'d decimal_ops \<Rightarrow> transaction_row \<Rightarrow> 'd option" where
  "row_amount D r = dc_of D (if tx_amount r = [] then ''0'' else tx_amount r)"

fun sum_rows :: "'d decimal_ops \<Rightarrow> 'd \<Rightarrow> transaction_row list \<Rightarrow> 'd option" where
  "sum_rows D acc [] = Some acc"
| "sum_rows D acc (r # rs) =
     (case row_amount D r of None \<Rightarrow> None | Some a \<Rightarrow> sum_rows D (dc_plus D acc a) rs)"

definition sumWithdrawalsForDay ::
  "'d decimal_ops \<Rightarrow> 'p prisma_ops \<Rightarrow> 'p \<Rightarrow> string \<Rightarrow> time \<Rightarrow> time \<Rightarrow> 'd option" where
  "sumWithdrawalsForDay D P db wallet start end =
     sum_rows D (dc_zero D) (filter (day_withdrawal wallet start end) (px_transactions P db))"

definition getActiveOverride :: "time \<Rightarrow> string \<Rightarrow> limit_state \<Rightarrow> override_record option \<times> limit_state" where
  "getActiveOverride now wallet s =
     (case map_of (inMemoryOverrides s) wallet of
        None \<Rightarrow> (None, s)
      | Some ov \<Rightarrow>
          if ov_expiresAt ov \<le> now
          then (None, s\<lparr>inMemoryOverrides := AList.delete wallet (inMemoryOverrides s)\<rparr>)
          else (Some ov, s))"

definition setWithdrawalLimitOverride ::
  "time \<Rightarrow> string \<Rightarrow> string \<Rightarrow> string \<Rightarrow> rat \<Rightarrow> limit_state \<Rightarrow> override_record \<times> limit_state" where
  "setWithdrawalLimitOverride now wallet reason actor ttlSeconds s =
     (let normalizedWallet = normalizeWalletAddress (Some wallet);
          r = \<lparr>ov_wallet = normalizedWallet, ov_reason = js_trim reason, ov_actor = actor,
               ov_expiresAt = now + \<lfloor>ttlSeconds * 1000\<rfloor>, ov_createdAt = now\<rparr>
      in (r, s\<lparr>inMemoryOverrides := AList.update normalizedWallet r (inMemoryOverrides s)\<rparr>))"

definition evaluateWithdrawalLimit ::
  "'d decimal_ops \<Rightarrow> 'p prisma_ops \<Rightarrow> env \<Rightarrow> time \<Rightarrow> 'p \<Rightarrow> string \<Rightarrow> 'd option \<Rightarrow> bool \<Rightarrow> limit_state \<Rightarrow>
   limit_check option \<times> limit_state" where
  "evaluateWithdrawalLimit D P E now db walletAddress amount option_overridden s =
     (let wallet = normalizeWalletAddress (Some walletAddress);
          (start, end) = getUtcDayBounds now
      in case (getDailyLimit D E, amount, sumWithdrawalsForDay D P db wallet start end) of
           (Some limit, Some requested, Some used) \<Rightarrow>
             let remaining = dc_max D (dc_minus D limit used) (dc_zero D);
                 (active, s1) = getActiveOverride now wallet s;
                 overridden = (option_overridden \<or> active \<noteq> None)
             in (Some \<lparr>lc_allowed = (overridden \<or> dc_lte D (dc_plus D used requested) limit),
                       lc_limit = dc_toString D limit, lc_used = dc_toString D used,
                       lc_remaining = dc_toString D remaining, lc_requested = dc_toString D requested,
                       lc_resetsAt = end, lc_overridden = overridden\<rparr>, s1)
         | _ \<Rightarrow> (None, s))"

section \<open>Middleware\<close>

definition evaluation_fields :: "limit_check \<Rightarrow> (string \<times> json) list" where
  "evaluation_fields e =
     [(''allowed'', JBool (lc_allowed e)), (''limit'', JStr (lc_limit e)), (''used'', JStr (lc_used e)),
      (''remaining'', JStr (lc_remaining e)), (''requested'', JStr (lc_requested e)),
      (''resetsAt'', JStr (to_iso_string (lc_resetsAt e))), (''overridden'', JBool (lc_overridden e))]"

definition limit_exceeded_response :: "limit_check \<Rightarrow> response" where
  "limit_exceeded_response e =
     send_json 429 (JObj (error_body ''Too Many Requests'' 429 ''Daily withdrawal limit exceeded'' @
       [(''limit'', JObj [(''dailyLimit'', JStr (lc_limit e)), (''usedToday'', JStr (lc_used e)),
          (''remaining'', JStr (lc_remaining e)), (''requested'', JStr (lc_requested e)),
          (''resetsAt'', JStr (to_iso_string (lc_resetsAt e)))])]))"

text \<open>\<open>new Decimal(amount)\<close> on the body's amount.\<close>

definition decimal_of_json :: "'d decimal_ops \<Rightarrow> json \<Rightarrow> 'd option" where
  "decimal_of_json D j =
     (case j of JNum r \<Rightarrow> Some (dc_of_number D r) | JStr s \<Rightarrow> dc_of D s | _ \<Rightarrow> None)"

definition admin_override_requested :: "request \<Rightarrow> bool" where
  "admin_override_requested req \<longleftrightarrow>
     rq_headers req ''x-admin-override-withdrawal'' = Some ''true''
     \<or> rq_headers req ''x-withdrawal-limit-override'' = Some ''true''"

definition attach_api_key :: "(string \<Rightarrow> (string \<times> api_key_role) option) \<Rightarrow> request \<Rightarrow> request" where
  "attach_api_key authenticate req =
     (case scheme_match True ''ApiKey'' (header_or_empty req ''authorization'') of
        None \<Rightarrow> req
      | Some key \<Rightarrow>
          (case authenticate key of
             None \<Rightarrow> req
           | Some (h, role) \<Rightarrow> req\<lparr>rq_authApiKeyHash := Some h, rq_authApiKeyRole := Some role\<rparr>))"

definition withdrawalDailyLimitMiddleware ::
  "'d decimal_ops \<Rightarrow> 'p prisma_ops \<Rightarrow> (string \<Rightarrow> (string \<times> api_key_role) option) \<Rightarrow>
   (request \<Rightarrow> api_key_role \<Rightarrow> bool) \<Rightarrow> env \<Rightarrow> time \<Rightarrow> 'p \<Rightarrow> request \<Rightarrow> limit_state \<Rightarrow>
   outcome option \<times> limit_state" where
  "withdrawalDailyLimitMiddleware D P authenticate hasRole E now db req s =
     (case (body_string req ''walletAddress'', body_field req ''amount'') of
        (Some walletAddress, Some amount) \<Rightarrow>
          if walletAddress = [] then (Some (Next req), s)
          else
            let requested = admin_override_requested req;
                req1 = (if requested then attach_api_key authenticate req else req);
                reason = nullish (body_string req ''overrideReason'') [];
                overridden = (requested \<and> hasRole req1 SuperAdmin \<and> js_trim reason \<noteq> [])
            in if requested \<and> \<not> overridden then
                 (Some (Respond (send_error ''Forbidden'' 403
                    ''Super-admin role and overrideReason are required to override withdrawal limits'')),
                  s\<lparr>adminAuditLog := adminAuditLog s @ [(''withdrawal.limit.override.denied'', 403,
                      JObj [(''walletAddress'', JStr walletAddress),
                        (''reason'', JStr ''Super-admin role and overrideReason are required for withdrawal limit override'')])]\<rparr>)
               else
                 (case evaluateWithdrawalLimit D P E now db walletAddress (decimal_of_json D amount) overridden s of
                    (None, s1) \<Rightarrow> (None, s1)
                  | (Some evaluation, s1) \<Rightarrow>
                      let fields = (''walletAddress'', JStr (normalizeWalletAddress (Some walletAddress)))
                                   # evaluation_fields evaluation;
                          override_fields = (''walletAddress'', JStr (normalizeWalletAddress (Some walletAddress)))
                                   # (''overrideReason'', JStr reason) # evaluation_fields evaluation;
                          stamp = (''at'', JStr (to_iso_string now))
                      in if \<not> lc_allowed evaluation then
                           (Some (Respond (limit_exceeded_response evaluation)),
                            s1\<lparr>adminAuditLog := adminAuditLog s1 @ [(''withdrawal.limit.blocked'', 429, JObj fields)],
                               inMemoryAuditLog :=
                                 JObj ((''type'', JStr ''blocked'') # fields @ [stamp]) # inMemoryAuditLog s1\<rparr>)
                         else if overridden then
                           (Some (Next req1),
                            s1\<lparr>adminAuditLog := adminAuditLog s1 @ [(''withdrawal.limit.override'', 200, JObj override_fields)],
                               inMemoryAuditLog :=
                                 JObj ((''type'', JStr ''override'') # override_fields @ [stamp]) # inMemoryAuditLog s1\<rparr>)
                         else (Some (Next req1), s1))
      | _ \<Rightarrow> (Some (Next req), s))"

definition listWithdrawalLimitAuditEntries :: "nat \<Rightarrow> limit_state \<Rightarrow> json list" where
  "listWithdrawalLimitAuditEntries limit s = take limit (inMemoryAuditLog s)"

definition clearWithdrawalLimitStateForTests :: "limit_state \<Rightarrow> limit_state" where
  "clearWithdrawalLimitStateForTests s = s\<lparr>inMemoryOverrides := [], inMemoryAuditLog := []\<rparr>"

section \<open>The day's total\<close>

context decimals
begin

lemma sum_rows_defined:
  "sum_rows D acc rs \<noteq> None \<longleftrightarrow> (\<forall>r \<in> set rs. row_amount D r \<noteq> None)"
  by (induction rs arbitrary: acc) (auto split: option.splits)

lemma sum_rows_val:
  "sum_rows D acc rs = Some u \<Longrightarrow> val u = val acc + (\<Sum>r \<in># mset rs. val (the (row_amount D r)))"
  by (induction rs arbitrary: acc) (auto simp: val_plus split: option.splits)

lemma sum_rows_add:
  assumes "mset rs' = add_mset r (mset rs)" and "sum_rows D acc rs = Some u" and "row_amount D r = Some a"
  shows "\<exists>u'. sum_rows D acc rs' = Some u' \<and> val u' = val u + val a"
proof -
  have "set rs' = insert r (set rs)" using arg_cong[OF assms(1), of set_mset] by simp
  moreover have "\<forall>r \<in> set rs. row_amount D r \<noteq> None"
    using sum_rows_defined[of acc rs] assms(2) by simp
  ultimately have "\<forall>x \<in> set rs'. row_amount D x \<noteq> None" using assms(3) by simp
  then have "sum_rows D acc rs' \<noteq> None" by (rule iffD2[OF sum_rows_defined])
  then obtain u' where u': "sum_rows D acc rs' = Some u'" by auto
  from sum_rows_val[OF u'] sum_rows_val[OF assms(2)] assms(1,3) show ?thesis
    by (intro exI[of _ u']) (simp add: u')
qed

lemma sum_rows_same:
  assumes "mset rs' = mset rs" and "sum_rows D acc rs = Some u"
  shows "\<exists>u'. sum_rows D acc rs' = Some u' \<and> val u' = val u"
proof -
  have "set rs' = set rs" using arg_cong[OF assms(1), of set_mset] by simp
  then have "sum_rows D acc rs' \<noteq> None"
    using sum_rows_defined[of acc rs] sum_rows_defined[of acc rs'] assms(2) by simp
  then obtain u' where u': "sum_rows D acc rs' = Some u'" by auto
  with sum_rows_val[OF u'] sum_rows_val[OF assms(2)] assms(1) show ?thesis by auto
qed

end

text \<open>What the handler records for a withdrawal that passed the gate (\<open>transaction.create\<close> in
  \<open>vaultEndpoints.ts\<close>); \<open>num\<close> is \<open>String\<close> on numbers and \<open>ident\<close> gives the
  identifiers Prisma draws.\<close>

definition withdrawal_row :: "(rat \<Rightarrow> string) \<Rightarrow> (time \<Rightarrow> string) \<Rightarrow> time \<Rightarrow> string \<Rightarrow> rat \<Rightarrow> transaction_row" where
  "withdrawal_row num ident now wallet amount =
     \<lparr>tx_id = ident now, tx_user = normalizeWalletAddress (Some wallet), tx_amount = num amount, tx_type = ''withdrawal'',
      tx_status = Some ''completed'', tx_referralCode = None, tx_timestamp = now\<rparr>"

text \<open>A validated withdrawal request that asks for no override.\<close>

definition plain_withdrawal :: "string \<Rightarrow> rat \<Rightarrow> request \<Rightarrow> bool" where
  "plain_withdrawal wallet amount req \<longleftrightarrow> wallet \<noteq> [] \<and> body_string req ''walletAddress'' = Some wallet
     \<and> body_field req ''amount'' = Some (JNum amount) \<and> \<not> admin_override_requested req"

lemma plain_withdrawal_passes_iff:
  assumes "plain_withdrawal wallet amount req"
    and "getDailyLimit D E = Some limit"
    and "sumWithdrawalsForDay D P db (normalizeWalletAddress (Some wallet)) (day_start (utc_day now))
           (day_start (utc_day now + 1)) = Some used"
    and "inMemoryOverrides s = []"
  shows "fst (withdrawalDailyLimitMiddleware D P auth role E now db req s) = Some (Next req) \<longleftrightarrow>
     dc_lte D (dc_plus D used (dc_of_number D amount)) limit"
    and "inMemoryOverrides (snd (withdrawalDailyLimitMiddleware D P auth role E now db req s)) = []"
  using assms
  by (auto simp: plain_withdrawal_def withdrawalDailyLimitMiddleware_def evaluateWithdrawalLimit_def
      getUtcDayBounds_def decimal_of_json_def getActiveOverride_def Let_def split: if_splits)

text \<open>Withdrawals one after another: each is checked against the database its predecessors left, and
  recorded if it passes.\<close>

fun checked_withdrawals ::
  "'d decimal_ops \<Rightarrow> 'p prisma_ops \<Rightarrow> (string \<Rightarrow> (string \<times> api_key_role) option) \<Rightarrow>
   (request \<Rightarrow> api_key_role \<Rightarrow> bool) \<Rightarrow> env \<Rightarrow> (rat \<Rightarrow> string) \<Rightarrow> (time \<Rightarrow> string) \<Rightarrow>
   (time \<times> string \<times> rat \<times> request) list \<Rightarrow> 'p \<Rightarrow> limit_state \<Rightarrow> 'p \<times> limit_state" where
  "checked_withdrawals D P auth role E num ident [] db s = (db, s)"
| "checked_withdrawals D P auth role E num ident ((now, wallet, amount, req) # rest) db s =
     (let (r, s1) = withdrawalDailyLimitMiddleware D P auth role E now db req s
      in checked_withdrawals D P auth role E num ident rest
           (if r = Some (Next req) then px_create_transaction P (withdrawal_row num ident now wallet amount) db else db) s1)"

definition within_limit :: "'d decimal_ops \<Rightarrow> ('d \<Rightarrow> rat) \<Rightarrow> 'p prisma_ops \<Rightarrow> 'd \<Rightarrow> 'p \<Rightarrow> bool" where
  "within_limit D val P limit db \<longleftrightarrow>
     (\<forall>w d. \<exists>u. sumWithdrawalsForDay D P db w (day_start d) (day_start (d + 1)) = Some u \<and> val u \<le> val limit)"

lemma within_limit_day:
  "within_limit D val P limit db \<Longrightarrow>
     \<exists>u. sumWithdrawalsForDay D P db w (day_start d) (day_start (d + 1)) = Some u \<and> val u \<le> val limit"
  by (simp add: within_limit_def)

lemma record_within_limit:
  assumes "decimals D val" and "prisma P" and "within_limit D val P limit db"
    and num: "reads_back D val num amount"
    and used: "sumWithdrawalsForDay D P db (normalizeWalletAddress (Some wallet)) (day_start (utc_day now))
           (day_start (utc_day now + 1)) = Some used"
    and fits: "dc_lte D (dc_plus D used (dc_of_number D amount)) limit"
  shows "within_limit D val P limit (px_create_transaction P (withdrawal_row num ident now wallet amount) db)"
  unfolding within_limit_def
proof (intro allI)
  fix w d
  let ?row = "withdrawal_row num ident now wallet amount"
  let ?db = "px_create_transaction P ?row db"
  let ?Q = "day_withdrawal w (day_start d) (day_start (d + 1))"
  have m: "mset (filter ?Q (px_transactions P ?db)) = filter_mset ?Q (add_mset ?row (mset (px_transactions P db)))"
    using prisma.transactions_create[OF assms(2), of ?row db] by simp
  from within_limit_day[OF assms(3), of w d] obtain u where
    u: "sum_rows D (dc_zero D) (filter ?Q (px_transactions P db)) = Some u" "val u \<le> val limit"
    by (auto simp: sumWithdrawalsForDay_def)
  show "\<exists>u. sumWithdrawalsForDay D P ?db w (day_start d) (day_start (d + 1)) = Some u \<and> val u \<le> val limit"
  proof (cases "?Q ?row")
    case True
    then have "w = normalizeWalletAddress (Some wallet)" "utc_day now = d"
      by (auto simp: day_withdrawal_def withdrawal_row_def intro: utc_day_unique)
    with used u(1) have "u = used" by (simp add: sumWithdrawalsForDay_def)
    moreover obtain a where "row_amount D ?row = Some a" "val a = amount"
      using num by (auto simp: reads_back_def row_amount_def withdrawal_row_def)
    moreover have "mset (filter ?Q (px_transactions P ?db)) = add_mset ?row (mset (filter ?Q (px_transactions P db)))"
      using m True by simp
    ultimately obtain u' where "sum_rows D (dc_zero D) (filter ?Q (px_transactions P ?db)) = Some u'"
        "val u' = val used + amount"
      using decimals.sum_rows_add[OF assms(1) _ u(1)] by blast
    moreover have "val used + amount \<le> val limit"
      using fits by (simp add: decimals.lte_val[OF assms(1)] decimals.val_plus[OF assms(1)]
          decimals.val_of_number[OF assms(1)])
    ultimately show ?thesis by (simp add: sumWithdrawalsForDay_def)
  next
    case False
    then have "mset (filter ?Q (px_transactions P ?db)) = mset (filter ?Q (px_transactions P db))"
      using m by simp
    from decimals.sum_rows_same[OF assms(1) this u(1)] u(2) show ?thesis
      by (auto simp: sumWithdrawalsForDay_def)
  qed
qed

text \<open>
  C10.  Checked one after another, withdrawals never exceed the daily limit: from a database in which
  no wallet has withdrawn more than the limit on any UTC day, after any sequence of requests at any
  times, without an override, this still holds of every wallet and day.
\<close>

theorem withdrawal_daily_cap:
  assumes "decimals D val" and "prisma P"
    and "getDailyLimit D E = Some limit"
    and "\<forall>(now, wallet, amount, req) \<in> set requests.
           plain_withdrawal wallet amount req \<and> reads_back D val num amount"
    and "inMemoryOverrides s = []" and "within_limit D val P limit db"
  shows "within_limit D val P limit (fst (checked_withdrawals D P auth role E num ident requests db s))"
  using assms(4-6)
proof (induction requests arbitrary: db s)
  case (Cons q rest)
  obtain now wallet amount req where q: "q = (now, wallet, amount, req)" by (cases q) auto
  with Cons.prems(1) have p: "plain_withdrawal wallet amount req" "reads_back D val num amount" by simp_all
  obtain used where used: "sumWithdrawalsForDay D P db (normalizeWalletAddress (Some wallet))
      (day_start (utc_day now)) (day_start (utc_day now + 1)) = Some used"
    using within_limit_day[OF Cons.prems(3)] by blast
  note mw = plain_withdrawal_passes_iff[OF p(1) assms(3) used Cons.prems(2), where auth = auth and role = role]
  obtain r s1 where r: "withdrawalDailyLimitMiddleware D P auth role E now db req s = (r, s1)" by fastforce
  have "within_limit D val P limit
      (if r = Some (Next req) then px_create_transaction P (withdrawal_row num ident now wallet amount) db else db)"
    using record_within_limit[OF assms(1,2) Cons.prems(3) p(2) used] mw(1) r Cons.prems(3)
    by simp
  moreover have "inMemoryOverrides s1 = []" using mw(2) r by simp
  ultimately show ?case using Cons.IH Cons.prems(1) q r by simp
qed simp

text \<open>
  The check and the recording are separate: two withdrawals of a wallet that are both checked
  before either is recorded both pass although together they exceed the limit of the day.
\<close>

theorem withdrawal_limit_race:
  assumes "decimals D val" and "prisma P"
    and "reads_back D val num a" and "reads_back D val num b"
    and "getDailyLimit D E = Some limit" and "inMemoryOverrides s = []"
    and "sumWithdrawalsForDay D P db (normalizeWalletAddress (Some wallet)) (day_start (utc_day now))
           (day_start (utc_day now + 1)) = Some used"
    and "plain_withdrawal wallet a reqa" and "plain_withdrawal wallet b reqb"
    and "val used + a \<le> val limit" and "val used + b \<le> val limit" and "val limit < val used + a + b"
  shows "fst (withdrawalDailyLimitMiddleware D P auth role E now db reqa s) = Some (Next reqa)
    \<and> fst (withdrawalDailyLimitMiddleware D P auth role E now db reqb
        (snd (withdrawalDailyLimitMiddleware D P auth role E now db reqa s))) = Some (Next reqb)
    \<and> (\<exists>u. sumWithdrawalsForDay D P
          (px_create_transaction P (withdrawal_row num ident now wallet b)
            (px_create_transaction P (withdrawal_row num ident now wallet a) db))
          (normalizeWalletAddress (Some wallet)) (day_start (utc_day now)) (day_start (utc_day now + 1)) = Some u
        \<and> val limit < val u)"
proof -
  note dec = decimals.lte_val[OF assms(1)] decimals.val_plus[OF assms(1)] decimals.val_of_number[OF assms(1)]
  note pa = plain_withdrawal_passes_iff[OF assms(8,5,7,6), where auth = auth and role = role]
  note pb = plain_withdrawal_passes_iff[OF assms(9,5,7) pa(2), where auth = auth and role = role]
  let ?Q = "day_withdrawal (normalizeWalletAddress (Some wallet)) (day_start (utc_day now)) (day_start (utc_day now + 1))"
  have Q: "?Q (withdrawal_row num ident now wallet x)" for x
    using day_start_le[of now] lt_next_day_start[of now] by (simp add: day_withdrawal_def withdrawal_row_def)
  have grow: "\<exists>u'. sum_rows D (dc_zero D) (filter ?Q (px_transactions P (px_create_transaction P (withdrawal_row num ident now wallet x) d)))
        = Some u' \<and> val u' = val u + x"
    if tot: "sum_rows D (dc_zero D) (filter ?Q (px_transactions P d)) = Some u"
      and rb: "reads_back D val num x" for d u x
  proof -
    obtain y where y: "row_amount D (withdrawal_row num ident now wallet x) = Some y" "val y = x"
      using rb by (auto simp: reads_back_def row_amount_def withdrawal_row_def)
    have "mset (filter ?Q (px_transactions P (px_create_transaction P (withdrawal_row num ident now wallet x) d)))
        = add_mset (withdrawal_row num ident now wallet x) (mset (filter ?Q (px_transactions P d)))"
      using prisma.transactions_create[OF assms(2), of "withdrawal_row num ident now wallet x" d] Q by simp
    from decimals.sum_rows_add[OF assms(1) this tot y(1)] y(2) show ?thesis by simp
  qed
  from grow[OF assms(7)[unfolded sumWithdrawalsForDay_def] assms(3)] obtain u1 where
    u1: "sum_rows D (dc_zero D) (filter ?Q (px_transactions P (px_create_transaction P (withdrawal_row num ident now wallet a) db))) = Some u1"
      "val u1 = val used + a" by blast
  from grow[OF u1(1) assms(4)] u1(2) assms(12) pa(1) pb(1) assms(10,11) show ?thesis
    by (auto simp: dec sumWithdrawalsForDay_def)
qed

section \<open>Concrete runs\<close>

definition sample_withdrawal :: "rat \<Rightarrow> request" where
  "sample_withdrawal a = blank_request\<lparr>rq_body := JObj [(''walletAddress'', JStr ''GA''), (''amount'', JNum a)]\<rparr>"

definition limit_env :: env where
  "limit_env = [''WITHDRAWAL_DAILY_LIMIT_USDC'' \<mapsto> ''100'']"

definition empty_limit_state :: limit_state where
  "empty_limit_state = \<lparr>inMemoryOverrides = [], inMemoryAuditLog = [], adminAuditLog = []\<rparr>"

lemma sample_plain: "plain_withdrawal ''GA'' a (sample_withdrawal a)"
  by (simp add: plain_withdrawal_def sample_withdrawal_def body_string_def body_field_def
      admin_override_requested_def blank_request_def)

lemma sample_limit: "getDailyLimit rat_decimals limit_env = Some 100"
proof -
  have "takeWhile is_digit ''100'' = ''100''" "dropWhile is_digit ''100'' = []" "digits_value ''100'' = 100"
    by code_simp+
  then have "parse_decimal ''100'' = Some 100"
    by (simp add: parse_decimal_def parse_unsigned_def)
  moreover have "env_or limit_env ''WITHDRAWAL_DAILY_LIMIT_USDC'' ''10000'' = ''100''"
    by (simp add: env_or_def limit_env_def)
  ultimately show ?thesis by (simp add: getDailyLimit_def rat_decimals_def dc_zero_def)
qed

lemma empty_total: "sumWithdrawalsForDay rat_decimals list_prisma empty_db w a b = Some 0"
  by (simp add: sumWithdrawalsForDay_def list_prisma_def empty_db_def dc_zero_def rat_decimals_def)

lemma sample_reads_back: "reads_back rat_decimals (\<lambda>r. r) num_fixed6 60" "reads_back rat_decimals (\<lambda>r. r) num_fixed6 50"
  using reads_back_int[of 60] reads_back_int[of 50] by simp_all

lemma empty_within_limit: "within_limit rat_decimals (\<lambda>r. r) list_prisma 100 empty_db"
  by (simp add: within_limit_def empty_total)

lemma sample_overrides: "inMemoryOverrides empty_limit_state = []"
  by (simp add: empty_limit_state_def)

theorem withdrawal_daily_cap_witness:
  "within_limit rat_decimals (\<lambda>r. r) list_prisma 100 (fst (checked_withdrawals rat_decimals list_prisma (\<lambda>k. None)
     (\<lambda>r q. False) limit_env num_fixed6 to_iso_string
     [(0, ''GA'', 60, sample_withdrawal 60), (1, ''GA'', 50, sample_withdrawal 50)] empty_db empty_limit_state))"
proof (rule withdrawal_daily_cap[OF rat_decimals_laws list_prisma_laws sample_limit _ sample_overrides empty_within_limit])
  show "\<forall>(now, wallet, amount, req) \<in> set [(0, ''GA'', 60, sample_withdrawal 60), (1, ''GA'', 50, sample_withdrawal 50)].
      plain_withdrawal wallet amount req \<and> reads_back rat_decimals (\<lambda>r. r) num_fixed6 amount"
    by (simp only: list.set ball_simps split case_prod_conv sample_plain sample_reads_back)
qed

theorem withdrawal_limit_race_witness:
  "fst (withdrawalDailyLimitMiddleware rat_decimals list_prisma (\<lambda>k. None) (\<lambda>r q. False) limit_env 0 empty_db
     (sample_withdrawal 60) empty_limit_state) = Some (Next (sample_withdrawal 60))"
proof -
  have "(0 :: rat) + 60 \<le> 100" "(0 :: rat) + 50 \<le> 100" "(100 :: rat) < 0 + 60 + 50" by simp_all
  from withdrawal_limit_race[OF rat_decimals_laws list_prisma_laws sample_reads_back sample_limit sample_overrides
      empty_total sample_plain sample_plain this, where auth = "\<lambda>k. None" and role = "\<lambda>r q. False" and now = 0]
  show ?thesis by blast
qed

end
