(* ===== verification/Referral.thy ===== *)
theory Referral
  imports Decimals Database Wallet ResponseCache "HOL-Library.List_Lexorder" "HOL-Library.Char_ord"
begin

text \<open>
  The referral programme (\<open>backend/src/referralService.ts\<close> and the handlers of
  \<open>backend/src/referralEndpoints.ts\<close>): the recording of a referred wallet's deposit, the yield of a
  wallet from its transactions and the share price snapshots, the rewards of a referrer and the
  referral codes.  Decimals and the database are parameters, a failed database transaction is one that
  did not commit, and the random numbers of the code generator are an argument.
\<close>

section \<open>Recording deposits\<close>

definition find_code :: "'p prisma_ops \<Rightarrow> string \<Rightarrow> 'p \<Rightarrow> referral_code_row option" where
  "find_code P code db = List.find (\<lambda>c. rc_code c = code) (px_referralCodes P db)"

definition find_referral :: "'p prisma_ops \<Rightarrow> string \<Rightarrow> 'p \<Rightarrow> referral_row option" where
  "find_referral P referred db = List.find (\<lambda>r. rf_referredAddress r = referred) (px_referrals P db)"

text \<open>The two steps of the database transaction.\<close>

definition ensure_referral :: "'p prisma_ops \<Rightarrow> string \<Rightarrow> string option \<Rightarrow> 'p \<Rightarrow> 'p" where
  "ensure_referral P normalizedReferred referralCode db =
     (if \<not> truthy_str referralCode then db
      else case find_code P (the referralCode) db of
             None \<Rightarrow> db
           | Some code \<Rightarrow>
               (case find_referral P normalizedReferred db of
                  Some _ \<Rightarrow> db
                | None \<Rightarrow> px_create_referral P
                    \<lparr>rf_referrerAddress = normalizeWalletAddress (Some (rc_ownerAddress code)),
                     rf_referredAddress = normalizedReferred, rf_firstDepositAt = None\<rparr> db))"

definition stamp_referral :: "'p prisma_ops \<Rightarrow> time \<Rightarrow> string \<Rightarrow> 'p \<Rightarrow> 'p" where
  "stamp_referral P now normalizedReferred db =
     (case find_referral P normalizedReferred db of
        None \<Rightarrow> db
      | Some referral \<Rightarrow>
          if rf_firstDepositAt referral = None then px_set_firstDepositAt P normalizedReferred now db else db)"

definition recordDeposit ::
  "'p prisma_ops \<Rightarrow> (string \<Rightarrow> string \<Rightarrow> bool) \<Rightarrow> bool \<Rightarrow> time \<Rightarrow> string \<Rightarrow> string option \<Rightarrow>
   'p \<times> lru_store \<Rightarrow> 'p \<times> lru_store" where
  "recordDeposit P rx commits now walletAddress referralCode st =
     (let normalizedReferred = normalizeWalletAddress (Some walletAddress)
      in if \<not> commits then st
         else (stamp_referral P now normalizedReferred (ensure_referral P normalizedReferred referralCode (fst st)),
               snd (invalidateCache rx (Some ''GET:/api/v1/referrals'') (snd st))))"

section \<open>Yield and rewards\<close>

definition parse_amount :: "'d decimal_ops \<Rightarrow> string \<Rightarrow> 'd" where
  "parse_amount D v = nullish (dc_of D (if v = [] then ''0'' else v)) (dc_zero D)"

definition resolveLatestSharePrice :: "'d decimal_ops \<Rightarrow> snapshot_row list \<Rightarrow> 'd" where
  "resolveLatestSharePrice D snapshots =
     (if snapshots = [] then dc_one D
      else dc_max D (dc_one D) (parse_amount D (sn_sharePrice (last snapshots))))"

definition resolveSharePriceForTimestamp :: "'d decimal_ops \<Rightarrow> snapshot_row list \<Rightarrow> time \<Rightarrow> 'd" where
  "resolveSharePriceForTimestamp D snapshots timestamp =
     (let beforeOrAt = filter (\<lambda>s. sn_recordedAt s \<le> timestamp) snapshots
      in if beforeOrAt \<noteq> [] then dc_max D (dc_one D) (parse_amount D (sn_sharePrice (last beforeOrAt)))
         else if snapshots \<noteq> [] then dc_max D (dc_one D) (parse_amount D (sn_sharePrice (hd snapshots)))
         else dc_one D)"

definition yield_row :: "string \<Rightarrow> transaction_row \<Rightarrow> bool" where
  "yield_row wallet r \<longleftrightarrow> tx_user r = wallet \<and> tx_type r \<in> {''deposit'', ''withdrawal''}
     \<and> tx_status r \<in> {None, Some ''completed'', Some ''pending''}"

definition tx_after :: "transaction_row \<Rightarrow> transaction_row \<Rightarrow> bool" where
  "tx_after a b \<longleftrightarrow> tx_timestamp b < tx_timestamp a \<or> tx_timestamp a = tx_timestamp b \<and> tx_id b < tx_id a"

definition snapshot_after :: "snapshot_row \<Rightarrow> snapshot_row \<Rightarrow> bool" where
  "snapshot_after a b \<longleftrightarrow> sn_recordedAt b < sn_recordedAt a
     \<or> sn_recordedAt a = sn_recordedAt b \<and> (sn_createdAt b < sn_createdAt a
         \<or> sn_createdAt a = sn_createdAt b \<and> sn_id b < sn_id a)"

text \<open>One turn of the loop over the transactions; the state is the total deposited, the total
  withdrawn and the shares owned.\<close>

definition yield_step ::
  "'d decimal_ops \<Rightarrow> snapshot_row list \<Rightarrow> 'd \<times> 'd \<times> 'd \<Rightarrow> transaction_row \<Rightarrow> 'd \<times> 'd \<times> 'd" where
  "yield_step D snapshots st tx =
     (case st of (totalDeposited, totalWithdrawn, sharesOwned) \<Rightarrow>
        let amount = parse_amount D (tx_amount tx)
        in if dc_lte D amount (dc_zero D) then st
           else
             let sharePrice = resolveSharePriceForTimestamp D snapshots (tx_timestamp tx)
             in if tx_type tx = ''deposit'' then
                  (dc_plus D totalDeposited amount, totalWithdrawn, dc_plus D sharesOwned (dc_div D amount sharePrice))
                else
                  (totalDeposited, dc_plus D totalWithdrawn amount,
                   dc_max D (dc_zero D) (dc_minus D sharesOwned (dc_div D amount sharePrice))))"

definition net_yield :: "'d decimal_ops \<Rightarrow> snapshot_row list \<Rightarrow> transaction_row list \<Rightarrow> 'd" where
  "net_yield D snapshots transactions =
     (let (totalDeposited, totalWithdrawn, sharesOwned) =
            foldl (yield_step D snapshots) (dc_zero D, dc_zero D, dc_zero D) transactions;
          endingValue = dc_mul D sharesOwned (resolveLatestSharePrice D snapshots)
      in dc_max D (dc_zero D) (dc_minus D (dc_plus D endingValue totalWithdrawn) totalDeposited))"

definition calculateUserYield :: "'d decimal_ops \<Rightarrow> 'p prisma_ops \<Rightarrow> 'p \<Rightarrow> string \<Rightarrow> 'd" where
  "calculateUserYield D P db walletAddress =
     (let normalizedWallet = normalizeWalletAddress (Some walletAddress);
          transactions = js_sort tx_after (filter (yield_row normalizedWallet) (px_transactions P db));
          snapshots = js_sort snapshot_after (px_snapshots P db)
      in if transactions = [] then dc_zero D
         else dc_toDecimalPlaces D 6 (net_yield D snapshots transactions))"

record referral_stats =
  rs_referral_count :: nat
  rs_total_reward_earned :: string

definition reward_percentage :: "'d decimal_ops \<Rightarrow> env \<Rightarrow> 'd option" where
  "reward_percentage D E = dc_of D (env_or E ''REFERRAL_REWARD_PERCENTAGE'' ''0.05'')"

definition total_reward :: "'d decimal_ops \<Rightarrow> 'd \<Rightarrow> 'd list \<Rightarrow> 'd" where
  "total_reward D pct yields =
     foldl (\<lambda>acc y. if dc_gt D y (dc_zero D) then dc_plus D acc (dc_mul D y pct) else acc) (dc_zero D) yields"

definition getReferralStats :: "'d decimal_ops \<Rightarrow> 'p prisma_ops \<Rightarrow> 'd \<Rightarrow> 'p \<Rightarrow> string \<Rightarrow> referral_stats option" where
  "getReferralStats D P pct db referrerAddress =
     (let normalizedReferrer = normalizeWalletAddress (Some referrerAddress);
          referrals = filter (\<lambda>r. rf_referrerAddress r = normalizedReferrer \<and> rf_firstDepositAt r \<noteq> None) (px_referrals P db)
      in if referrals = [] then None
         else Some \<lparr>rs_referral_count = length referrals,
                rs_total_reward_earned = dc_toFixed D 6 (dc_toDecimalPlaces D 6 (total_reward D pct
                  (map (\<lambda>r. calculateUserYield D P db (normalizeWalletAddress (Some (rf_referredAddress r)))) referrals)))\<rparr>)"

section \<open>Referral codes\<close>

definition code_chars :: string where
  "code_chars = ''ABCDEFGHIJKLMNOPQRSTUVWXYZ0123456789''"

text \<open>One call of \<open>generateReferralCode\<close>: \<open>draws\<close> are the eight values of \<open>Math.random\<close>.\<close>

definition generateReferralCode :: "rat list \<Rightarrow> string" where
  "generateReferralCode draws = map (\<lambda>r. code_chars ! nat \<lfloor>r * of_nat (length code_chars)\<rfloor>) draws"

text \<open>The retry loop: the eleventh code is drawn only to give up.\<close>

fun first_free :: "(string \<Rightarrow> bool) \<Rightarrow> string list \<Rightarrow> string option" where
  "first_free taken [] = None"
| "first_free taken (c # cs) = (if taken c then first_free taken cs else Some c)"

definition getOrCreateReferralCode :: "'p prisma_ops \<Rightarrow> rat list list \<Rightarrow> string \<Rightarrow> 'p \<Rightarrow> (string + string) \<times> 'p" where
  "getOrCreateReferralCode P draws ownerAddress db =
     (let normalizedOwner = normalizeWalletAddress (Some ownerAddress)
      in case List.find (\<lambda>c. rc_ownerAddress c = normalizedOwner) (px_referralCodes P db) of
           Some existing \<Rightarrow> (Inr (rc_code existing), db)
         | None \<Rightarrow>
             (case first_free (\<lambda>c. find_code P c db \<noteq> None) (map generateReferralCode (take 10 draws)) of
                None \<Rightarrow> (Inl ''Failed to generate unique referral code after 10 attempts'', db)
              | Some code \<Rightarrow>
                  (Inr code, px_create_referralCode P \<lparr>rc_code = code, rc_ownerAddress = normalizedOwner\<rparr> db)))"

definition createReferralCode :: "'p prisma_ops \<Rightarrow> string \<Rightarrow> string \<Rightarrow> 'p \<Rightarrow> 'p" where
  "createReferralCode P ownerAddress code db =
     px_create_referralCode P \<lparr>rc_code = code, rc_ownerAddress = normalizeWalletAddress (Some ownerAddress)\<rparr> db"

section \<open>Handlers\<close>

text \<open>\<open>GET /api/v1/referrals/:wallet\<close> and \<open>/code/:wallet\<close>; \<open>Inl\<close> is a rejected service call.\<close>

definition wallet_required :: response where
  "wallet_required = send_error ''Bad Request'' 400 ''Wallet address is required''"

definition referralStatsHandler :: "string \<Rightarrow> ('e + referral_stats option) \<Rightarrow> response" where
  "referralStatsHandler wallet outcome =
     (if wallet = [] then wallet_required
      else case outcome of
             Inl _ \<Rightarrow> send_error ''Internal Server Error'' 500 ''Failed to fetch referral stats''
           | Inr None \<Rightarrow> send_error ''Not Found'' 404 ''No referral activity found for this wallet''
           | Inr (Some stats) \<Rightarrow> send_json 200 (JObj [(''referral_count'', jint (int (rs_referral_count stats))),
               (''total_reward_earned'', JStr (rs_total_reward_earned stats))]))"

definition referralCodeHandler :: "string \<Rightarrow> ('e + string) \<Rightarrow> response" where
  "referralCodeHandler wallet outcome =
     (if wallet = [] then wallet_required
      else case outcome of
             Inl _ \<Rightarrow> send_error ''Internal Server Error'' 500 ''Failed to get referral code''
           | Inr code \<Rightarrow> send_json 200 (JObj [(''code'', JStr code)]))"

section \<open>Referral relationships\<close>

text \<open>The table has at most one row per referred wallet (its column is unique).\<close>

definition referred_unique :: "'p prisma_ops \<Rightarrow> 'p \<Rightarrow> bool" where
  "referred_unique P db \<longleftrightarrow> (\<forall>r \<in> set (px_referrals P db). \<forall>q \<in> set (px_referrals P db).
     rf_referredAddress r = rf_referredAddress q \<longrightarrow> r = q)"

lemma ensure_referral_rows:
  assumes "prisma P"
  shows "ensure_referral P w code db = db \<or>
    (find_referral P w db = None \<and> (\<exists>rr. set (px_referrals P (ensure_referral P w code db)) =
       insert \<lparr>rf_referrerAddress = rr, rf_referredAddress = w, rf_firstDepositAt = None\<rparr> (set (px_referrals P db))))"
  by (auto simp: ensure_referral_def prisma.referrals_create_set[OF assms] split: option.splits)

lemma ensure_referral_keeps:
  assumes "prisma P"
  shows "set (px_referrals P db) \<subseteq> set (px_referrals P (ensure_referral P w code db))"
  using ensure_referral_rows[OF assms, of w code db] by auto

lemma ensure_referral_unique:
  assumes "prisma P" and "referred_unique P db"
  shows "referred_unique P (ensure_referral P w code db)"
proof (cases "ensure_referral P w code db = db")
  case False
  then obtain rr where "find_referral P w db = None" and
    s: "set (px_referrals P (ensure_referral P w code db)) =
       insert \<lparr>rf_referrerAddress = rr, rf_referredAddress = w, rf_firstDepositAt = None\<rparr> (set (px_referrals P db))"
    using ensure_referral_rows[OF assms(1), of w code db] by blast
  then have "\<forall>r \<in> set (px_referrals P db). rf_referredAddress r \<noteq> w"
    by (simp add: find_referral_def find_NoneD)
  with assms(2) show ?thesis unfolding referred_unique_def s by auto
qed (use assms(2) in simp)

lemma stamp_referral_rows:
  assumes "prisma P"
  shows "stamp_referral P now w db = db \<or>
    (\<exists>r. find_referral P w db = Some r \<and> rf_firstDepositAt r = None
       \<and> set (px_referrals P (stamp_referral P now w db)) = stamp_first_deposit w now ` set (px_referrals P db))"
  by (auto simp: stamp_referral_def prisma.referrals_stamp_set[OF assms] split: option.splits)

lemma stamp_referral_unique:
  assumes "prisma P" and "referred_unique P db"
  shows "referred_unique P (stamp_referral P now w db)"
  using stamp_referral_rows[OF assms(1), of now w db] assms(2)
  by (force simp: referred_unique_def stamp_first_deposit_def split: if_splits)

lemma stamp_referral_keeps:
  assumes "prisma P" and "referred_unique P db" and "r \<in> set (px_referrals P db)"
  shows "\<exists>r' \<in> set (px_referrals P (stamp_referral P now w db)).
    rf_referredAddress r' = rf_referredAddress r \<and> rf_referrerAddress r' = rf_referrerAddress r
    \<and> (rf_firstDepositAt r \<noteq> None \<longrightarrow> r' = r)"
proof (cases "stamp_referral P now w db = db")
  case False
  then obtain q where q: "find_referral P w db = Some q" "rf_firstDepositAt q = None"
    and s: "set (px_referrals P (stamp_referral P now w db)) = stamp_first_deposit w now ` set (px_referrals P db)"
    using stamp_referral_rows[OF assms(1), of now w db] by blast
  then have "q \<in> set (px_referrals P db)" "rf_referredAddress q = w"
    using find_SomeD[of _ "px_referrals P db" q] by (auto simp: find_referral_def)
  with assms(2,3) have "rf_referredAddress r = w \<Longrightarrow> r = q" by (auto simp: referred_unique_def)
  with q(2) assms(3) show ?thesis unfolding s
    by (intro bexI[of _ "stamp_first_deposit w now r"]) (auto simp: stamp_first_deposit_def)
qed (use assms(3) in auto)

text \<open>
  A referral is recorded once: whatever deposits follow, by whomever and with whatever codes, a
  referred wallet keeps its one referrer, and the time of its first deposit, once recorded, never
  changes.
\<close>

theorem referral_recorded_once:
  assumes "prisma P" and "referred_unique P (fst st)" and "r \<in> set (px_referrals P (fst st))"
  shows "\<exists>r'. r' \<in> set (px_referrals P (fst (fold (\<lambda>(ok, now, w, code). recordDeposit P rx ok now w code) deposits st)))
    \<and> rf_referredAddress r' = rf_referredAddress r \<and> rf_referrerAddress r' = rf_referrerAddress r
    \<and> (rf_firstDepositAt r \<noteq> None \<longrightarrow> rf_firstDepositAt r' = rf_firstDepositAt r)
    \<and> referred_unique P (fst (fold (\<lambda>(ok, now, w, code). recordDeposit P rx ok now w code) deposits st))"
  using assms(2,3)
proof (induction deposits arbitrary: st r)
  case (Cons d deposits)
  obtain ok now w code where d: "d = (ok, now, w, code)" by (cases d) auto
  let ?st = "recordDeposit P rx ok now w code st"
  have u: "referred_unique P (fst ?st)"
    using stamp_referral_unique[OF assms(1) ensure_referral_unique[OF assms(1) Cons.prems(1)]] Cons.prems(1)
    by (simp add: recordDeposit_def Let_def)
  have "r \<in> set (px_referrals P (ensure_referral P a code (fst st)))" for a
    using ensure_referral_keeps[OF assms(1)] Cons.prems(2) by blast
  then have "\<exists>r1 \<in> set (px_referrals P (fst ?st)). rf_referredAddress r1 = rf_referredAddress r
      \<and> rf_referrerAddress r1 = rf_referrerAddress r \<and> (rf_firstDepositAt r \<noteq> None \<longrightarrow> r1 = r)"
    using stamp_referral_keeps[OF assms(1) ensure_referral_unique[OF assms(1) Cons.prems(1)]] Cons.prems(2)
    by (auto simp: recordDeposit_def Let_def)
  then obtain r1 where r1: "r1 \<in> set (px_referrals P (fst ?st))" "rf_referredAddress r1 = rf_referredAddress r"
    "rf_referrerAddress r1 = rf_referrerAddress r" "rf_firstDepositAt r \<noteq> None \<longrightarrow> r1 = r" by blast
  from Cons.IH[OF u r1(1)] r1(2-4) d show ?case by fastforce
qed auto

definition sample_referral :: referral_row where
  "sample_referral = \<lparr>rf_referrerAddress = ''GB'', rf_referredAddress = ''GA'', rf_firstDepositAt = Some 7\<rparr>"

theorem referral_recorded_once_witness:
  "\<exists>r'. r' \<in> set (tb_referrals (fst (fold (\<lambda>(ok, now, w, code). recordDeposit list_prisma (\<lambda>p k. False) ok now w code)
       [(True, 9, ''GA'', Some ''OTHER''), (True, 12, ''GA'', None)]
       (empty_db\<lparr>tb_referrals := [sample_referral]\<rparr>, new_lru (\<lambda>_. None)))))
    \<and> rf_referrerAddress r' = ''GB'' \<and> rf_firstDepositAt r' = Some 7"
proof -
  let ?st = "(empty_db\<lparr>tb_referrals := [sample_referral]\<rparr>, new_lru (\<lambda>_. None))"
  have "referred_unique list_prisma (fst ?st)" by (simp add: referred_unique_def list_prisma_def)
  moreover have "sample_referral \<in> set (px_referrals list_prisma (fst ?st))" by (simp add: list_prisma_def)
  ultimately show ?thesis
    using referral_recorded_once[OF list_prisma_laws, of ?st sample_referral "\<lambda>p k. False"
        "[(True, 9, ''GA'', Some ''OTHER''), (True, 12, ''GA'', None)]"]
    by (auto simp: sample_referral_def list_prisma_def)
qed

text \<open>Nothing stops a wallet from being its own referrer, nor one that has deposited before from
  attaching a referrer later: its \<open>firstDepositAt\<close> is then the time of that later deposit.\<close>

lemma self_referral_accepted:
  assumes "prisma P" and "find_referral P (normalizeWalletAddress (Some w)) db = None"
    and "find_code P c db = Some row" and "c \<noteq> []" and "rc_ownerAddress row = w"
  shows "\<lparr>rf_referrerAddress = normalizeWalletAddress (Some w), rf_referredAddress = normalizeWalletAddress (Some w),
     rf_firstDepositAt = Some now\<rparr> \<in> set (px_referrals P (fst (recordDeposit P rx True now w (Some c) (db, l))))"
proof -
  let ?a = "normalizeWalletAddress (Some w)"
  let ?r = "\<lparr>rf_referrerAddress = ?a, rf_referredAddress = ?a, rf_firstDepositAt = None\<rparr>"
  let ?db = "ensure_referral P ?a (Some c) db"
  have s: "set (px_referrals P ?db) = insert ?r (set (px_referrals P db))"
    using assms by (simp add: ensure_referral_def truthy_str_def prisma.referrals_create_set)
  have none: "\<forall>r \<in> set (px_referrals P db). rf_referredAddress r \<noteq> ?a"
    using assms(2) by (simp add: find_referral_def find_NoneD)
  have "find_referral P ?a ?db \<noteq> None"
    using s by (auto simp: find_referral_def find_NoneD)
  then obtain q where q: "find_referral P ?a ?db = Some q" by auto
  then have "q \<in> set (px_referrals P ?db)" "rf_referredAddress q = ?a"
    using find_SomeD[of _ "px_referrals P ?db" q] by (auto simp: find_referral_def)
  with s none have "q = ?r" by auto
  with q have "stamp_referral P now ?a ?db = px_set_firstDepositAt P ?a now ?db"
    by (simp add: stamp_referral_def)
  then have "set (px_referrals P (stamp_referral P now ?a ?db)) = stamp_first_deposit ?a now ` set (px_referrals P ?db)"
    by (simp add: prisma.referrals_stamp_set[OF assms(1)])
  moreover have "stamp_first_deposit ?a now ?r = ?r\<lparr>rf_firstDepositAt := Some now\<rparr>"
    by (simp add: stamp_first_deposit_def)
  ultimately have "?r\<lparr>rf_firstDepositAt := Some now\<rparr> \<in> set (px_referrals P (stamp_referral P now ?a ?db))"
    using s by (metis imageI insertI1)
  then show ?thesis by (simp add: recordDeposit_def Let_def)
qed

section \<open>Codes\<close>

lemma first_free_Some: "first_free taken cs = Some c \<Longrightarrow> c \<in> set cs \<and> \<not> taken c"
  by (induction cs) (auto split: if_splits)

lemma first_free_None: "first_free taken cs = None \<longleftrightarrow> (\<forall>c \<in> set cs. taken c)"
  by (induction cs) auto

text \<open>The code returned belongs to the wallet, and no code ever gets two owners.\<close>

lemma referral_code_owner:
  assumes "prisma P" and "getOrCreateReferralCode P draws owner db = (Inr code, db')"
    and "\<forall>c \<in> set (px_referralCodes P db). \<forall>d \<in> set (px_referralCodes P db). rc_code c = rc_code d \<longrightarrow> c = d"
  shows "find_code P code db' = Some \<lparr>rc_code = code, rc_ownerAddress = normalizeWalletAddress (Some owner)\<rparr>"
proof -
  let ?row = "\<lparr>rc_code = code, rc_ownerAddress = normalizeWalletAddress (Some owner)\<rparr>"
  have m: "?row \<in> set (px_referralCodes P db') \<and>
      (\<forall>c \<in> set (px_referralCodes P db'). rc_code c = code \<longrightarrow> c = ?row)"
  proof (cases "List.find (\<lambda>c. rc_ownerAddress c = normalizeWalletAddress (Some owner)) (px_referralCodes P db)")
    case None
    with assms(2) have "first_free (\<lambda>c. find_code P c db \<noteq> None) (map generateReferralCode (take 10 draws)) = Some code"
      and db': "db' = px_create_referralCode P ?row db"
      by (auto simp: getOrCreateReferralCode_def Let_def split: option.splits)
    then have "find_code P code db = None" by (auto dest: first_free_Some)
    with db' show ?thesis
      by (auto simp: prisma.codes_create_set[OF assms(1)] find_code_def find_NoneD)
  next
    case (Some e)
    with assms(2) have "code = rc_code e" "db' = db"
      by (auto simp: getOrCreateReferralCode_def Let_def)
    moreover from find_SomeD[OF Some] have "e \<in> set (px_referralCodes P db)"
      "rc_ownerAddress e = normalizeWalletAddress (Some owner)" by auto
    ultimately show ?thesis using assms(3) by (cases e) auto
  qed
  then have "\<exists>c \<in> set (px_referralCodes P db'). rc_code c = code"
    by (intro bexI[of _ ?row]) simp_all
  then have "find_code P code db' \<noteq> None" by (simp add: find_code_def find_NoneD)
  then obtain c where c: "find_code P code db' = Some c" by auto
  from find_SomeD[OF c[unfolded find_code_def]] m c show ?thesis by auto
qed

section \<open>Yield under a constant share price\<close>

text \<open>What a list of deposits and withdrawals takes out beyond the balance, at a balance \<open>bal\<close>.\<close>

fun overdraft :: "rat \<Rightarrow> (bool \<times> rat) list \<Rightarrow> rat" where
  "overdraft bal [] = 0"
| "overdraft bal ((is_deposit, a) # ops) =
     (if a \<le> 0 then overdraft bal ops
      else if is_deposit then overdraft (bal + a) ops
      else max 0 (a - bal) + overdraft (max 0 (bal - a)) ops)"

definition row_op :: "'d decimal_ops \<Rightarrow> ('d \<Rightarrow> rat) \<Rightarrow> transaction_row \<Rightarrow> bool \<times> rat" where
  "row_op D val r = (tx_type r = ''deposit'', val (parse_amount D (tx_amount r)))"

definition constant_price :: "'d decimal_ops \<Rightarrow> ('d \<Rightarrow> rat) \<Rightarrow> snapshot_row list \<Rightarrow> rat \<Rightarrow> bool" where
  "constant_price D val snapshots p \<longleftrightarrow> 0 < p \<and> val (resolveLatestSharePrice D snapshots) = p
     \<and> (\<forall>t. val (resolveSharePriceForTimestamp D snapshots t) = p)"

lemma overdraft_nonneg: "0 \<le> overdraft bal ops"
  by (induction bal ops rule: overdraft.induct) auto

context exact_decimals
begin

lemma max_scale: "0 < p \<Longrightarrow> max 0 (a - b / p) * p = max 0 (a * p - b)" for a b p :: rat
  by (auto simp: max_def field_simps)

lemma yield_step_val:
  assumes "constant_price D val snapshots p" and "yield_step D snapshots (dep, wd, sh) r = (dep', wd', sh')"
  shows "val sh' * p + val wd' - val dep' + overdraft (val sh' * p) ops
    = val sh * p + val wd - val dep + overdraft (val sh * p) (row_op D val r # ops)"
proof -
  let ?a = "parse_amount D (tx_amount r)"
  have p: "0 < p" "val (resolveSharePriceForTimestamp D snapshots (tx_timestamp r)) = p"
    using assms(1) by (simp_all add: constant_price_def)
  then have d: "val (dc_div D ?a (resolveSharePriceForTimestamp D snapshots (tx_timestamp r))) = val ?a / p"
    by (simp add: val_div)
  consider "val ?a \<le> 0" | "0 < val ?a" "tx_type r = ''deposit''" | "0 < val ?a" "tx_type r \<noteq> ''deposit''"
    by linarith
  then show ?thesis
  proof cases
    case 1
    with assms(2) show ?thesis by (simp add: yield_step_def lte_val row_op_def)
  next
    case 2
    with assms(2) d have "val dep' = val dep + val ?a" "wd' = wd" "val sh' = val sh + val ?a / p"
      by (auto simp: yield_step_def lte_val Let_def val_plus)
    with 2 p(1) show ?thesis by (simp add: row_op_def field_simps)
  next
    case 3
    with assms(2) d have v: "dep' = dep" "val wd' = val wd + val ?a" "val sh' = max 0 (val sh - val ?a / p)"
      by (auto simp: yield_step_def lte_val Let_def val_plus val_max val_minus)
    then have "val sh' * p = max 0 (val sh * p - val ?a)" using max_scale[OF p(1)] by simp
    with 3 v(1,2) show ?thesis by (auto simp: row_op_def max_def)
  qed
qed

lemma yield_fold_val:
  assumes "constant_price D val snapshots p" and "foldl (yield_step D snapshots) (dep, wd, sh) rs = (dep', wd', sh')"
  shows "val sh' * p + val wd' - val dep' =
    val sh * p + val wd - val dep + overdraft (val sh * p) (map (row_op D val) rs)"
  using assms(2)
proof (induction rs arbitrary: dep wd sh)
  case (Cons r rs)
  obtain d1 w1 s1 where st: "yield_step D snapshots (dep, wd, sh) r = (d1, w1, s1)"
    by (cases "yield_step D snapshots (dep, wd, sh) r") auto
  with Cons.prems have "foldl (yield_step D snapshots) (d1, w1, s1) rs = (dep', wd', sh')" by simp
  from Cons.IH[OF this] yield_step_val[OF assms(1) st, of "map (row_op D val) rs"] show ?case by simp
qed simp

lemma net_yield_val:
  assumes "constant_price D val snapshots p"
  shows "val (net_yield D snapshots rs) = overdraft 0 (map (row_op D val) rs)"
proof -
  obtain dep wd sh where f: "foldl (yield_step D snapshots) (dc_zero D, dc_zero D, dc_zero D) rs = (dep, wd, sh)"
    by (cases "foldl (yield_step D snapshots) (dc_zero D, dc_zero D, dc_zero D) rs") auto
  have "val sh * p + val wd - val dep = overdraft 0 (map (row_op D val) rs)"
    using yield_fold_val[OF assms f] by simp
  with f assms overdraft_nonneg[of 0 "map (row_op D val) rs"] show ?thesis
    by (simp add: net_yield_def constant_price_def val_max val_minus val_plus val_mul Let_def)
qed

end

text \<open>
  While the share price stands still, the yield of a wallet, for which its referrer is rewarded,
  is what it withdrew beyond its deposits, to within half a millionth: nothing for a wallet that never
  overdraws, and the whole amount for one that withdraws without having deposited.
\<close>

theorem constant_price_yield:
  assumes "exact_decimals D val" and "constant_price D val (js_sort snapshot_after (px_snapshots P db)) p"
    and "ops = map (row_op D val) (js_sort tx_after
           (filter (yield_row (normalizeWalletAddress (Some w))) (px_transactions P db)))"
  shows "\<bar>val (calculateUserYield D P db w) - overdraft 0 ops\<bar> \<le> 1 / 2000000
    \<and> (overdraft 0 ops = 0 \<longrightarrow> val (calculateUserYield D P db w) = 0)"
proof -
  note dec = exact_decimals.axioms(1)[OF assms(1)]
  let ?rs = "js_sort tx_after (filter (yield_row (normalizeWalletAddress (Some w))) (px_transactions P db))"
  let ?n = "net_yield D (js_sort snapshot_after (px_snapshots P db)) ?rs"
  have n: "val ?n = overdraft 0 ops"
    unfolding assms(3) by (rule exact_decimals.net_yield_val[OF assms(1,2)])
  show ?thesis
  proof (cases "?rs = []")
    case True
    then show ?thesis unfolding assms(3) calculateUserYield_def Let_def True
      by (simp add: decimals.val_zero[OF dec])
  next
    case False
    then have y: "calculateUserYield D P db w = dc_toDecimalPlaces D 6 ?n"
      by (simp add: calculateUserYield_def Let_def)
    have "overdraft 0 ops = 0 \<Longrightarrow> val (dc_toDecimalPlaces D 6 ?n) = 0"
      using decimals.places_exact[OF dec, of ?n 0] n by simp
    moreover have "\<bar>val (dc_toDecimalPlaces D 6 ?n) - overdraft 0 ops\<bar> \<le> 1 / 2000000"
      using decimals.places_close[OF dec, of ?n] n by simp
    ultimately show ?thesis unfolding y by blast
  qed
qed

definition overdrawing_row :: transaction_row where
  "overdrawing_row = \<lparr>tx_id = ''t1'', tx_user = ''GA'', tx_amount = ''100'', tx_type = ''withdrawal'',
     tx_status = Some ''completed'', tx_referralCode = None, tx_timestamp = 5\<rparr>"

lemma parse_100: "parse_amount rat_decimals ''100'' = 100"
proof -
  have "takeWhile is_digit ''100'' = ''100''" "dropWhile is_digit ''100'' = []" "digits_value ''100'' = 100"
    by code_simp+
  then show ?thesis by (simp add: parse_amount_def rat_decimals_def parse_decimal_def parse_unsigned_def)
qed

theorem constant_price_yield_witness:
  "\<bar>calculateUserYield rat_decimals list_prisma (empty_db\<lparr>tb_transactions := [overdrawing_row]\<rparr>) ''ga'' - 100\<bar> \<le> 1 / 2000000"
proof -
  let ?db = "empty_db\<lparr>tb_transactions := [overdrawing_row]\<rparr>"
  have "normalizeWalletAddress (Some ''ga'') = ''GA''" by code_simp
  then have y: "yield_row (normalizeWalletAddress (Some ''ga'')) overdrawing_row"
    by (simp add: yield_row_def overdrawing_row_def)
  have "constant_price rat_decimals (\<lambda>r. r) (js_sort snapshot_after (px_snapshots list_prisma ?db)) 1"
    by (simp add: constant_price_def list_prisma_def empty_db_def resolveLatestSharePrice_def
        resolveSharePriceForTimestamp_def rat_decimals_def dc_one_def)
  from constant_price_yield[OF rat_exact_laws this refl, of "''ga''"] y show ?thesis
    by (simp add: list_prisma_def row_op_def overdrawing_row_def parse_100)
qed

end
