(* ===== verification/Soroban.thy ===== *)
theory Soroban
  imports Http Decimals
begin

text \<open>
  The submission of a vault operation to the Soroban RPC (\<open>backend/src/sorobanClient.ts\<close>).  The SDK's
  checks of keys, addresses, contract identifiers, URLs and integers, the deployment file and \<open>Number\<close> on strings (\<^const>\<open>None\<close> where it is not finite) are parameters; the
  replies of the three RPC calls are inputs, each a result or the message of a rejection.  The model
  returns, next to the result, the contract invocation handed to \<open>sendTransaction\<close>, if it was reached:
  it may have been executed even when its reply is an error.
\<close>

datatype vault_kind = Deposit | Withdrawal

fun show_kind :: "vault_kind \<Rightarrow> string" where
  "show_kind Deposit = ''deposit''"
| "show_kind Withdrawal = ''withdrawal''"

record soroban_error =
  se_message :: string
  se_code :: string
  se_statusCode :: int

record stellar_sdk =
  sdk_isValidEd25519PublicKey :: "string \<Rightarrow> bool"
  sdk_fromSecret_error :: "string \<Rightarrow> string option"
  sdk_deployed_vault :: "string \<Rightarrow> string option"
  sdk_Server_error :: "string \<Rightarrow> string option"
  sdk_Contract_error :: "string \<Rightarrow> string option"
  sdk_i128_error :: "int \<Rightarrow> string option"
  sdk_Number :: "string \<Rightarrow> rat option"

datatype simulation = SimError "string option" | SimRestore | SimSuccess

record send_result =
  sr_status :: string
  sr_hash :: string
  sr_errorXdr :: "string option"

record rpc_replies =
  rp_getAccount :: "string + unit"
  rp_simulate :: "string + simulation"
  rp_send :: "string + send_result"

record invocation =
  iv_contract :: string
  iv_function :: vault_kind
  iv_wallet :: string
  iv_amount :: int
  iv_asset :: string
  iv_network :: string

section \<open>Configuration\<close>

definition rpc_url :: "env \<Rightarrow> string" where
  "rpc_url E = env_or E ''STELLAR_RPC_URL'' ''https://soroban-testnet.stellar.org''"

definition resolveContractId :: "stellar_sdk \<Rightarrow> env \<Rightarrow> string + string" where
  "resolveContractId sdk E =
     (if truthy_str (E ''VAULT_CONTRACT_ID'') then Inr (the (E ''VAULT_CONTRACT_ID''))
      else
        let contract = sdk_deployed_vault sdk (env_or E ''STELLAR_NETWORK'' ''testnet'')
        in if truthy_str contract then Inr (the contract)
           else Inl ''VAULT_CONTRACT_ID is not set and no vault address found in the deployments file'')"

definition testnet_passphrase :: string where
  "testnet_passphrase = ''Test SDF Network ; September 2015''"

definition resolveNetworkPassphrase :: "env \<Rightarrow> string" where
  "resolveNetworkPassphrase E =
     (if truthy_str (E ''STELLAR_NETWORK_PASSPHRASE'') then the (E ''STELLAR_NETWORK_PASSPHRASE'')
      else if env_or E ''STELLAR_NETWORK'' ''testnet'' \<in> {''mainnet'', ''public''}
      then ''Public Global Stellar Network ; September 2015'' else testnet_passphrase)"

definition validateEnvironment :: "stellar_sdk \<Rightarrow> env \<Rightarrow> string + unit" where
  "validateEnvironment sdk E =
     (if \<not> truthy_str (E ''STELLAR_SECRET_KEY'') then Inl ''STELLAR_SECRET_KEY environment variable is not set''
      else case resolveContractId sdk E of Inl e \<Rightarrow> Inl e | Inr _ \<Rightarrow> Inr ())"

definition getSourceKeypair :: "stellar_sdk \<Rightarrow> env \<Rightarrow> string + unit" where
  "getSourceKeypair sdk E =
     (case sdk_fromSecret_error sdk (env_or E ''STELLAR_SECRET_KEY'' []) of
        None \<Rightarrow> Inr ()
      | Some m \<Rightarrow> Inl (''Invalid STELLAR_SECRET_KEY: '' @ m))"

definition getRpcClient :: "stellar_sdk \<Rightarrow> env \<Rightarrow> string + string" where
  "getRpcClient sdk E =
     (let rpcUrl = rpc_url E
      in case sdk_Server_error sdk rpcUrl of None \<Rightarrow> Inr rpcUrl | Some m \<Rightarrow> Inl m)"

section \<open>Submission\<close>

definition simulation_error :: "string \<Rightarrow> string \<Rightarrow> soroban_error" where
  "simulation_error m code = \<lparr>se_message = m, se_code = code, se_statusCode = 502\<rparr>"

text \<open>The \<open>catch\<close> block: an error that is no \<open>SorobanSimulationError\<close> becomes an \<open>INTERNAL_ERROR\<close>.\<close>

definition unexpected_error :: "string \<Rightarrow> soroban_error" where
  "unexpected_error m = simulation_error (''Unexpected error: '' @ m) ''INTERNAL_ERROR''"

definition after_send :: "string + send_result \<Rightarrow> soroban_error + string" where
  "after_send reply =
     (case reply of
        Inl m \<Rightarrow> Inl (unexpected_error m)
      | Inr r \<Rightarrow>
          if sr_status r = ''ERROR'' then
            Inl (simulation_error (''Soroban RPC rejected transaction: '' @ nullish (sr_errorXdr r) ''unknown error'') ''RPC_ERROR'')
          else if sr_status r \<noteq> ''PENDING'' then
            Inl (simulation_error (''Unexpected transaction status: '' @ nullish (sr_errorXdr r) (sr_status r)) ''SUBMISSION_FAILED'')
          else Inr (sr_hash r))"

definition after_simulation :: "string + simulation \<Rightarrow> soroban_error option" where
  "after_simulation reply =
     (case reply of
        Inl m \<Rightarrow> Some (unexpected_error m)
      | Inr (SimError e) \<Rightarrow>
          Some (simulation_error (''Soroban simulation failed: '' @ nullish e ''unknown simulation error'') ''SIMULATION_ERROR'')
      | Inr SimRestore \<Rightarrow>
          Some \<lparr>se_message = ''Contract state requires ledger restore. Please retry in a few minutes.'',
                se_code = ''RESTORE_REQUIRED'', se_statusCode = 503\<rparr>
      | Inr SimSuccess \<Rightarrow> None)"

definition submitVaultOperation ::
  "stellar_sdk \<Rightarrow> env \<Rightarrow> rpc_replies \<Rightarrow> vault_kind \<Rightarrow> string \<Rightarrow> string \<Rightarrow> string \<Rightarrow>
   (soroban_error + string) \<times> invocation option" where
  "submitVaultOperation sdk E replies operationType walletAddress amount asset =
     (case validateEnvironment sdk E of
        Inl m \<Rightarrow> (Inl (unexpected_error m), None)
      | Inr _ \<Rightarrow>
     (case getRpcClient sdk E of
        Inl m \<Rightarrow> (Inl (unexpected_error m), None)
      | Inr _ \<Rightarrow>
     (case getSourceKeypair sdk E of
        Inl m \<Rightarrow> (Inl (unexpected_error m), None)
      | Inr _ \<Rightarrow>
     (case resolveContractId sdk E of
        Inl m \<Rightarrow> (Inl (unexpected_error m), None)
      | Inr contractId \<Rightarrow>
     if \<not> sdk_isValidEd25519PublicKey sdk walletAddress then
       (Inl \<lparr>se_message = ''Invalid Stellar wallet address: '' @ walletAddress, se_code = ''INVALID_ADDRESS'',
              se_statusCode = 422\<rparr>, None)
     else
     (case rp_getAccount replies of
        Inl m \<Rightarrow> (Inl (unexpected_error m), None)
      | Inr _ \<Rightarrow>
     (case sdk_Contract_error sdk contractId of
        Some m \<Rightarrow> (Inl (unexpected_error m), None)
      | None \<Rightarrow>
     (case sdk_Number sdk amount of
        None \<Rightarrow> (Inl \<lparr>se_message = ''Invalid amount value: '' @ amount, se_code = ''INVALID_AMOUNT'',
                     se_statusCode = 422\<rparr>, None)
      | Some n \<Rightarrow>
     (case sdk_i128_error sdk (js_round n) of
        Some m \<Rightarrow> (Inl (unexpected_error m), None)
      | None \<Rightarrow>
     (case after_simulation (rp_simulate replies) of
        Some e \<Rightarrow> (Inl e, None)
      | None \<Rightarrow>
          (after_send (rp_send replies),
           Some \<lparr>iv_contract = contractId, iv_function = operationType, iv_wallet = walletAddress,
                 iv_amount = js_round n, iv_asset = asset, iv_network = resolveNetworkPassphrase E\<rparr>))))))))))"

lemma submit_success:
  assumes "submitVaultOperation sdk E replies kind wallet amount asset = (Inr h, sent)"
  shows "\<exists>n iv. sdk_Number sdk amount = Some n \<and> sent = Some iv \<and> iv_function iv = kind \<and> iv_wallet iv = wallet
    \<and> iv_asset iv = asset \<and> iv_amount iv = js_round n \<and> sdk_isValidEd25519PublicKey sdk wallet"
  using assms by (auto simp: submitVaultOperation_def split: sum.splits option.splits if_splits)

lemma submit_error_status:
  assumes "submitVaultOperation sdk E replies kind wallet amount asset = (Inl e, sent)"
  shows "se_statusCode e \<in> {422, 502, 503}"
  using assms
  by (auto simp: submitVaultOperation_def after_simulation_def after_send_def unexpected_error_def
      simulation_error_def split: sum.splits option.splits if_splits simulation.splits)

text \<open>The contract receives whole units: the amount is rounded to the nearest integer, so the chain
  may move half a unit more or less than the amount asked for and recorded.\<close>

lemma js_round_close: "\<bar>of_int (js_round r) - r\<bar> \<le> 1 / 2"
  unfolding js_round_def using floor_correct[of "r + 1 / 2"] by linarith

lemma js_round_small: "0 \<le> r \<Longrightarrow> r < 1 / 2 \<Longrightarrow> js_round r = 0"
  by (simp add: js_round_def floor_eq_iff)

lemma js_round_int [simp]: "js_round (of_int i) = i"
  by (simp add: js_round_def floor_eq_iff)

end
