(* ===== verification/VaultOps.thy ===== *)
theory VaultOps
  imports Soroban CircuitBreaker Idempotency Wallet ResponseCache Referral
begin

text \<open>
  The deposit and withdrawal handler (\<open>backend/src/vaultEndpoints.ts\<close>).  \<open>handleVaultOperation\<close> waits
  for the idempotency store, the RPC, the database and the referral service, so it is modelled by the
  steps between its waits, over one state that holds the wallet locks, the idempotency store, the
  circuit breaker, the database, the read cache, and what left the process: the contract invocations
  and the emitted webhook events and confirmation mails.  \<open>handleVaultOperation\<close> is the composition of the steps when no other
  request runs in between; \<open>vault_system\<close> interleaves the steps of any number of requests.
\<close>

section \<open>Requests, replies and state\<close>

text \<open>The body as \<open>VaultOperationSchema\<close> returns it.\<close>

record vault_body =
  vb_amount :: rat
  vb_asset :: string
  vb_walletAddress :: string
  vb_email :: "string option"
  vb_referralCode :: "string option"
  vb_nonce :: "string option"
  vb_signature :: "string option"

definition vault_body_json :: "vault_body \<Rightarrow> json" where
  "vault_body_json b = JObj ([(''amount'', JNum (vb_amount b)), (''asset'', JStr (vb_asset b)),
     (''walletAddress'', JStr (vb_walletAddress b))]
     @ opt_prop ''email'' (map_option JStr (vb_email b))
     @ opt_prop ''referralCode'' (map_option JStr (vb_referralCode b))
     @ opt_prop ''nonce'' (map_option JStr (vb_nonce b))
     @ opt_prop ''signature'' (map_option JStr (vb_signature b)))"

datatype vault_error = VaultCircuitOpen int | VaultSoroban soroban_error | VaultOther

record ('c, 'p) vault_state =
  vw_locks :: in_flight
  vw_idem :: "('c, json, vault_error) idempotency_store"
  vw_breaker :: circuit_breaker
  vw_db :: 'p
  vw_cache :: lru_store
  vw_sent :: "invocation list"
  vw_events :: "(string \<times> json) list"
  vw_mails :: "(string \<times> json) list"

text \<open>What the handler calls that is not its own: decimals, the database, the cache of the idempotency
  store and its time to live, the breaker's settings, the SDK, the environment, \<open>String\<close> on numbers,
  the hash of the serialised body, and regular expression matching.\<close>

record ('d, 'c, 'p) vault_services =
  sv_decimal :: "'d decimal_ops"
  sv_prisma :: "'p prisma_ops"
  sv_cache :: "('c, json stored_response) node_cache_ops"
  sv_ttlMs :: int
  sv_circuit :: circuit_config
  sv_sdk :: stellar_sdk
  sv_env :: env
  sv_num :: "rat \<Rightarrow> string"
  sv_hash :: "json \<Rightarrow> string"
  sv_rx :: "string \<Rightarrow> string \<Rightarrow> bool"

text \<open>What the waits of one operation return, with the times at which it wakes up: the replies of the
  RPC, whether the row was created and the accounting transaction and the referral transaction
  committed, and the identifiers drawn.\<close>

record op_replies =
  or_rpc :: rpc_replies
  or_submitted :: time
  or_row_created :: bool
  or_row_id :: string
  or_row_time :: time
  or_accounted :: bool
  or_snapshot_id :: string
  or_accounted_at :: time
  or_referral_commits :: bool
  or_finished :: time
  or_body_id :: string

section \<open>Helpers of the handler\<close>

definition invalidate_read_caches :: "(string \<Rightarrow> string \<Rightarrow> bool) \<Rightarrow> lru_store \<Rightarrow> lru_store" where
  "invalidate_read_caches rx s =
     fold (\<lambda>p s. snd (invalidateCache rx (Some p) s))
       [''GET:/api/v1/vault'', ''GET:/api/v1/transactions'', ''GET:/api/v1/portfolio''] s"

definition invalidateReadCaches :: "(string \<Rightarrow> string \<Rightarrow> bool) \<Rightarrow> request \<Rightarrow> lru_store \<Rightarrow> outcome \<times> lru_store" where
  "invalidateReadCaches rx req s = (Next req, invalidate_read_caches rx s)"

definition generateFingerprint :: "('d, 'c, 'p) vault_services \<Rightarrow> vault_body \<Rightarrow> string" where
  "generateFingerprint V b = sv_hash V (vault_body_json b)"

definition share_price :: "'d decimal_ops \<Rightarrow> 'd \<Rightarrow> 'd \<Rightarrow> 'd" where
  "share_price D assets shares =
     (if dc_gt D assets (dc_zero D) \<and> dc_gt D shares (dc_zero D) then dc_div D assets shares else dc_one D)"

definition next_totals :: "'d decimal_ops \<Rightarrow> vault_kind \<Rightarrow> 'd \<Rightarrow> 'd \<Rightarrow> 'd \<Rightarrow> 'd \<times> 'd" where
  "next_totals D kind amount currentAssets currentShares =
     (let currentSharePrice = share_price D currentAssets currentShares
      in case kind of
           Deposit \<Rightarrow>
             (dc_plus D currentAssets amount, dc_plus D currentShares (dc_div D amount currentSharePrice))
         | Withdrawal \<Rightarrow>
             (dc_max D (dc_zero D) (dc_minus D currentAssets amount),
              dc_max D (dc_zero D) (dc_minus D currentShares (dc_div D amount currentSharePrice))))"

text \<open>The body of the accounting transaction; \<^const>\<open>None\<close> when \<open>new Decimal\<close> throws.\<close>

definition updateVaultStateAndSnapshot ::
  "'d decimal_ops \<Rightarrow> 'p prisma_ops \<Rightarrow> vault_kind \<Rightarrow> string \<Rightarrow> time \<Rightarrow> string \<Rightarrow> 'p \<Rightarrow> 'p option" where
  "updateVaultStateAndSnapshot D P kind amountRaw recordedAt ident db =
     (let current = (case px_vaultState P db of
            None \<Rightarrow> Some (dc_zero D, dc_zero D)
          | Some e \<Rightarrow> (case (dc_of D (vs_totalAssets e), dc_of D (vs_totalShares e)) of
                (Some a, Some s) \<Rightarrow> Some (a, s) | _ \<Rightarrow> None))
      in case (dc_of D amountRaw, current) of
           (Some amount, Some (currentAssets, currentShares)) \<Rightarrow>
             let (nextAssets, nextShares) = next_totals D kind amount currentAssets currentShares
             in Some (px_create_snapshot P
                  \<lparr>sn_sharePrice = dc_toFixed D 6 (share_price D nextAssets nextShares),
                   sn_totalAssets = dc_toFixed D 6 nextAssets, sn_totalShares = dc_toFixed D 6 nextShares,
                   sn_source = ''vault_'' @ show_kind kind, sn_recordedAt = recordedAt,
                   sn_createdAt = recordedAt, sn_id = ident\<rparr>
                  (px_upsert_vaultState P
                     \<lparr>vs_totalAssets = dc_toFixed D 6 nextAssets, vs_totalShares = dc_toFixed D 6 nextShares\<rparr> db))
         | _ \<Rightarrow> None)"

section \<open>The steps of one request\<close>

text \<open>A request that holds its lock: before the RPC replies, before the row is created, before the
  totals are updated, before the referral is recorded, with the operation settled, or waiting for the
  operation \<open>p\<close> another request started under the same key.\<close>

datatype vault_phase =
    Submitting
  | Recording string
  | Accounting string
  | Referring string
  | Settling "vault_error + json operation_result"
  | Waiting nat

record vault_session =
  ss_kind :: vault_kind
  ss_body :: vault_body
  ss_wallet :: string
  ss_op :: "nat option"
  ss_release :: release_fn
  ss_phase :: vault_phase

definition busy_response :: "string \<Rightarrow> response" where
  "busy_response normalizedWallet =
     send_json 409 (JObj [(''error'', JStr ''Conflict''), (''status'', jint 409),
       (''code'', JStr ''WALLET_OPERATION_IN_PROGRESS''),
       (''message'', JStr ''Another operation is already in progress for this wallet''),
       (''walletAddress'', JStr normalizedWallet)])"

definition conflict_message :: string where
  "conflict_message = ''Idempotency key already used for a different request body''"

definition success_response :: "bool \<Rightarrow> json operation_result \<Rightarrow> response" where
  "success_response replayed r =
     send_json_with (if replayed then [(''idempotency-status'', JStr ''replayed'')] else []) (or_statusCode r) (or_body r)"

fun vault_error_response :: "vault_kind \<Rightarrow> vault_error \<Rightarrow> response" where
  "vault_error_response kind (VaultCircuitOpen ms) =
     send_json_with [(''Retry-After'', JStr (show_int (ceil_div ms 1000)))] 503
       (JObj (error_body ''Service Unavailable'' 503 ''Soroban RPC is temporarily unavailable. Please retry later.''
         @ [(''retryAfterMs'', jint ms)]))"
| "vault_error_response kind (VaultSoroban e) =
     send_json (se_statusCode e)
       (JObj [(''error'', JStr (if se_statusCode e = 422 then ''Unprocessable Entity'' else ''Bad Gateway'')),
              (''status'', jint (se_statusCode e)), (''code'', JStr (se_code e)), (''message'', JStr (se_message e))])"
| "vault_error_response kind VaultOther =
     send_error ''Internal Server Error'' 500 (''Failed to process '' @ show_kind kind)"

definition idempotency_key :: "(string \<Rightarrow> string option) \<Rightarrow> string option" where
  "idempotency_key headers = js_or (headers ''idempotency-key'') (headers ''x-idempotency-key'')"

text \<open>Up to the first wait: the lock, the idempotency store, and the admission by the breaker with
  which the operation begins.\<close>

definition enter_operation ::
  "('d, 'c, 'p) vault_services \<Rightarrow> time \<Rightarrow> vault_session \<Rightarrow> ('c, 'p) vault_state \<Rightarrow> vault_session \<times> ('c, 'p) vault_state" where
  "enter_operation V now sess w =
     (case admit (sv_circuit V) now (vw_breaker w) of
        (Inl ms, b) \<Rightarrow> (sess\<lparr>ss_phase := Settling (Inl (VaultCircuitOpen ms))\<rparr>, w\<lparr>vw_breaker := b\<rparr>)
      | (Inr _, b) \<Rightarrow> (sess\<lparr>ss_phase := Submitting\<rparr>, w\<lparr>vw_breaker := b\<rparr>))"

definition vault_start ::
  "('d, 'c, 'p) vault_services \<Rightarrow> time \<Rightarrow> vault_kind \<Rightarrow> (string \<Rightarrow> string option) \<Rightarrow> vault_body \<Rightarrow>
   ('c, 'p) vault_state \<Rightarrow> (response + vault_session) \<times> ('c, 'p) vault_state" where
  "vault_start V now kind headers body w =
     (let idempotencyKey = idempotency_key headers;
          normalizedWallet = normalizeWalletAddress (Some (vb_walletAddress body));
          (walletLock, locks) = tryAcquireWalletLock normalizedWallet (vw_locks w);
          w1 = w\<lparr>vw_locks := locks\<rparr>;
          released = (\<lambda>w. w\<lparr>vw_locks := run_release (wl_release walletLock) (vw_locks w)\<rparr>);
          sess = \<lparr>ss_kind = kind, ss_body = body, ss_wallet = normalizedWallet, ss_op = None,
                  ss_release = wl_release walletLock, ss_phase = Submitting\<rparr>
      in if \<not> wl_acquired walletLock then (Inl (busy_response normalizedWallet), w1)
         else if truthy_str idempotencyKey then
           (case begin_execute (sv_cache V) now (the idempotencyKey) (generateFingerprint V body) (vw_idem w1) of
              (Conflict, i) \<Rightarrow>
                (Inl (send_error ''Conflict'' 409 conflict_message), released (w1\<lparr>vw_idem := i\<rparr>))
            | (Replay r, i) \<Rightarrow>
                (Inl (success_response True r),
                 released (w1\<lparr>vw_idem := i, vw_cache := invalidate_read_caches (sv_rx V) (vw_cache w1)\<rparr>))
            | (AwaitOp p, i) \<Rightarrow> (Inr (sess\<lparr>ss_phase := Waiting p\<rparr>), w1\<lparr>vw_idem := i\<rparr>)
            | (Started p, i) \<Rightarrow>
                (let (s, w2) = enter_operation V now (sess\<lparr>ss_op := Some p\<rparr>) (w1\<lparr>vw_idem := i\<rparr>) in (Inr s, w2)))
         else (let (s, w2) = enter_operation V now sess w1 in (Inr s, w2)))"

text \<open>The last part of the operation, after its last wait: the response body, the webhook event and
  the confirmation mail, which is scheduled when the body has an address.\<close>

definition operation_body :: "vault_session \<Rightarrow> op_replies \<Rightarrow> string \<Rightarrow> json" where
  "operation_body sess r txHash =
     JObj [(''id'', JStr (''tx-'' @ or_body_id r)), (''type'', JStr (show_kind (ss_kind sess))),
       (''amount'', JNum (vb_amount (ss_body sess))), (''asset'', JStr (vb_asset (ss_body sess))),
       (''walletAddress'', JStr (vb_walletAddress (ss_body sess))), (''transactionHash'', JStr txHash),
       (''status'', JStr ''pending''), (''timestamp'', JStr (to_iso_string (or_finished r)))]"

definition event_payload :: "('d, 'c, 'p) vault_services \<Rightarrow> vault_session \<Rightarrow> op_replies \<Rightarrow> string \<Rightarrow> json" where
  "event_payload V sess r txHash =
     JObj [(''transactionId'', JStr (''tx-'' @ or_body_id r)),
       (''amount'', JStr (sv_num V (vb_amount (ss_body sess)))), (''asset'', JStr (vb_asset (ss_body sess))),
       (''walletAddress'', JStr (vb_walletAddress (ss_body sess))), (''transactionHash'', JStr txHash),
       (''status'', JStr ''pending''), (''timestamp'', JStr (to_iso_string (or_finished r)))]"

definition confirmation_mail :: "('d, 'c, 'p) vault_services \<Rightarrow> vault_session \<Rightarrow> string \<Rightarrow> (string \<times> json) list" where
  "confirmation_mail V sess txHash =
     (if truthy_str (vb_email (ss_body sess)) then
        [(the (vb_email (ss_body sess)),
          JObj [(''amount'', JStr (sv_num V (vb_amount (ss_body sess)))), (''asset'', JStr (vb_asset (ss_body sess))),
                (''txHash'', JStr txHash), (''walletAddress'', JStr (vb_walletAddress (ss_body sess)))])]
      else [])"

definition complete_operation ::
  "('d, 'c, 'p) vault_services \<Rightarrow> op_replies \<Rightarrow> string \<Rightarrow> vault_session \<Rightarrow> ('c, 'p) vault_state \<Rightarrow>
   vault_session \<times> ('c, 'p) vault_state" where
  "complete_operation V r txHash sess w =
     (sess\<lparr>ss_phase := Settling (Inr \<lparr>or_statusCode = 201, or_body = operation_body sess r txHash\<rparr>)\<rparr>,
      w\<lparr>vw_events := vw_events w @
            [(''transaction.'' @ show_kind (ss_kind sess) @ ''.created'', event_payload V sess r txHash)],
        vw_mails := vw_mails w @ confirmation_mail V sess txHash\<rparr>)"

definition vault_row :: "('d, 'c, 'p) vault_services \<Rightarrow> op_replies \<Rightarrow> vault_session \<Rightarrow> transaction_row" where
  "vault_row V r sess =
     \<lparr>tx_id = or_row_id r, tx_user = ss_wallet sess, tx_amount = sv_num V (vb_amount (ss_body sess)),
      tx_type = show_kind (ss_kind sess), tx_status = Some ''completed'',
      tx_referralCode = vb_referralCode (ss_body sess), tx_timestamp = or_row_time r\<rparr>"

text \<open>One wait of the operation is over: its reply is taken from \<open>r\<close>.\<close>

definition vault_step ::
  "('d, 'c, 'p) vault_services \<Rightarrow> op_replies \<Rightarrow> vault_session \<Rightarrow> ('c, 'p) vault_state \<Rightarrow>
   vault_session \<times> ('c, 'p) vault_state" where
  "vault_step V r sess w =
     (case ss_phase sess of
        Submitting \<Rightarrow>
          (let (res, iv) = submitVaultOperation (sv_sdk V) (sv_env V) (or_rpc r) (ss_kind sess)
                 (vb_walletAddress (ss_body sess)) (sv_num V (vb_amount (ss_body sess))) (vb_asset (ss_body sess));
               w1 = w\<lparr>vw_sent := vw_sent w @ (case iv of None \<Rightarrow> [] | Some i \<Rightarrow> [i])\<rparr>
           in case res of
                Inl e \<Rightarrow> (sess\<lparr>ss_phase := Settling (Inl (VaultSoroban e))\<rparr>,
                          w1\<lparr>vw_breaker := onFailure (sv_circuit V) (or_submitted r) (vw_breaker w1)\<rparr>)
              | Inr txHash \<Rightarrow> (sess\<lparr>ss_phase := Recording txHash\<rparr>,
                          w1\<lparr>vw_breaker := onSuccess (or_submitted r) (vw_breaker w1)\<rparr>))
      | Recording txHash \<Rightarrow>
          if or_row_created r then
            (sess\<lparr>ss_phase := Accounting txHash\<rparr>,
             w\<lparr>vw_db := px_create_transaction (sv_prisma V) (vault_row V r sess) (vw_db w)\<rparr>)
          else (sess\<lparr>ss_phase := Settling (Inl VaultOther)\<rparr>, w)
      | Accounting txHash \<Rightarrow>
          (case (if or_accounted r then
                   updateVaultStateAndSnapshot (sv_decimal V) (sv_prisma V) (ss_kind sess)
                     (sv_num V (vb_amount (ss_body sess))) (or_accounted_at r) (or_snapshot_id r) (vw_db w)
                 else None) of
             None \<Rightarrow> (sess\<lparr>ss_phase := Settling (Inl VaultOther)\<rparr>, w)
           | Some db \<Rightarrow>
               (case ss_kind sess of
                  Deposit \<Rightarrow> (sess\<lparr>ss_phase := Referring txHash\<rparr>, w\<lparr>vw_db := db\<rparr>)
                | Withdrawal \<Rightarrow> complete_operation V r txHash sess (w\<lparr>vw_db := db\<rparr>)))
      | Referring txHash \<Rightarrow>
          (let (db, cache) = recordDeposit (sv_prisma V) (sv_rx V) (or_referral_commits r) (or_finished r)
                 (ss_wallet sess) (vb_referralCode (ss_body sess)) (vw_db w, vw_cache w)
           in complete_operation V r txHash sess (w\<lparr>vw_db := db, vw_cache := cache\<rparr>))
      | Settling _ \<Rightarrow> (sess, w)
      | Waiting _ \<Rightarrow> (sess, w))"

text \<open>The operation, or the one waited for, has settled: the response and the \<open>finally\<close> block.\<close>

definition answer ::
  "('d, 'c, 'p) vault_services \<Rightarrow> bool \<Rightarrow> vault_session \<Rightarrow> vault_error + json operation_result \<Rightarrow>
   ('c, 'p) vault_state \<Rightarrow> response \<times> ('c, 'p) vault_state" where
  "answer V replayed sess outcome w =
     (let w1 = w\<lparr>vw_locks := run_release (ss_release sess) (vw_locks w)\<rparr>
      in case outcome of
           Inl e \<Rightarrow> (vault_error_response (ss_kind sess) e, w1)
         | Inr r \<Rightarrow> (success_response replayed r, w1\<lparr>vw_cache := invalidate_read_caches (sv_rx V) (vw_cache w1)\<rparr>))"

definition vault_finish ::
  "('d, 'c, 'p) vault_services \<Rightarrow> time \<Rightarrow> vault_session \<Rightarrow> ('c, 'p) vault_state \<Rightarrow>
   (response \<times> ('c, 'p) vault_state) option" where
  "vault_finish V now sess w =
     (case ss_phase sess of
        Settling outcome \<Rightarrow>
          Some (answer V False sess outcome
            (case ss_op sess of
               None \<Rightarrow> w
             | Some p \<Rightarrow> w\<lparr>vw_idem := finish_execute p (settle (sv_cache V) (sv_ttlMs V) now p outcome (vw_idem w))\<rparr>))
      | Waiting p \<Rightarrow> map_option (\<lambda>outcome. answer V True sess outcome w) (awaited p (vw_idem w))
      | _ \<Rightarrow> None)"

text \<open>\<open>handleVaultOperation\<close> with nothing in between; \<^const>\<open>None\<close> while it waits for another request.\<close>

definition run_operation ::
  "('d, 'c, 'p) vault_services \<Rightarrow> op_replies \<Rightarrow> vault_session \<times> ('c, 'p) vault_state \<Rightarrow>
   vault_session \<times> ('c, 'p) vault_state" where
  "run_operation V r = ((\<lambda>(s, w). vault_step V r s w) ^^ 4)"

definition handleVaultOperation ::
  "('d, 'c, 'p) vault_services \<Rightarrow> time \<Rightarrow> vault_kind \<Rightarrow> (string \<Rightarrow> string option) \<Rightarrow> vault_body \<Rightarrow> op_replies \<Rightarrow>
   ('c, 'p) vault_state \<Rightarrow> (response \<times> ('c, 'p) vault_state) option" where
  "handleVaultOperation V now kind headers body r w =
     (case vault_start V now kind headers body w of
        (Inl resp, w1) \<Rightarrow> Some (resp, w1)
      | (Inr sess, w1) \<Rightarrow>
          (let (s, w2) = run_operation V r (sess, w1) in vault_finish V (or_finished r) s w2))"

section \<open>Accounting\<close>

context exact_decimals
begin

lemma share_price_val:
  "0 < val a \<Longrightarrow> 0 < val s \<Longrightarrow> val (share_price D a s) = val a / val s"
  by (simp add: share_price_def gt_val val_div)

end



text \<open>A withdrawal of everything leaves no shares, and with them goes the price: the next deposit
  mints at the default price of one.\<close>

lemma full_withdrawal_resets_price:
  assumes "exact_decimals D val" and "0 < val assets" and "0 < val shares" and "val amount = val assets"
    and "next_totals D Withdrawal amount assets shares = (assets', shares')"
  shows "share_price D assets' shares' = dc_one D"
proof -
  note dec = exact_decimals.axioms(1)[OF assms(1)]
  have "val assets' = 0"
    using assms(4,5) by (auto simp: next_totals_def Let_def decimals.val_max[OF dec] decimals.val_minus[OF dec]
        decimals.val_zero[OF dec])
  then show ?thesis
    by (simp add: share_price_def decimals.gt_val[OF dec] decimals.val_zero[OF dec])
qed

text \<open>The stored totals are never negative and always read back.\<close>

definition totals_wf :: "'d decimal_ops \<Rightarrow> ('d \<Rightarrow> rat) \<Rightarrow> vault_state_row option \<Rightarrow> bool" where
  "totals_wf D val row = (case row of None \<Rightarrow> True | Some r \<Rightarrow>
     (\<exists>a s. dc_of D (vs_totalAssets r) = Some a \<and> 0 \<le> val a \<and> dc_of D (vs_totalShares r) = Some s \<and> 0 \<le> val s))"

context decimals
begin

lemma share_price_pos: "0 < val (share_price D a s)"
  by (simp add: share_price_def gt_val val_div_gt)

lemma next_totals_nonneg:
  assumes "0 \<le> val assets" and "0 \<le> val shares" and "0 \<le> val amount"
    and "next_totals D kind amount assets shares = (assets', shares')"
  shows "0 \<le> val assets' \<and> 0 \<le> val shares'"
  using assms val_div_pos[OF assms(3) share_price_pos]
  by (cases kind) (auto simp: next_totals_def Let_def val_plus val_max)

end

lemma update_totals_wf:
  assumes "decimals D val" and "prisma P" and "totals_wf D val (px_vaultState P db)"
    and "dc_of D raw = Some amount" and "0 \<le> val amount"
    and "updateVaultStateAndSnapshot D P kind raw t ident db = Some db'"
  shows "totals_wf D val (px_vaultState P db')"
proof -
  obtain assets shares where cur: "0 \<le> val assets" "0 \<le> val shares"
    and upd: "updateVaultStateAndSnapshot D P kind raw t ident db =
      (let (nextAssets, nextShares) = next_totals D kind amount assets shares
       in Some (px_create_snapshot P
            \<lparr>sn_sharePrice = dc_toFixed D 6 (share_price D nextAssets nextShares),
             sn_totalAssets = dc_toFixed D 6 nextAssets, sn_totalShares = dc_toFixed D 6 nextShares,
             sn_source = ''vault_'' @ show_kind kind, sn_recordedAt = t, sn_createdAt = t, sn_id = ident\<rparr>
            (px_upsert_vaultState P
               \<lparr>vs_totalAssets = dc_toFixed D 6 nextAssets, vs_totalShares = dc_toFixed D 6 nextShares\<rparr> db)))"
  proof (cases "px_vaultState P db")
    case None
    then show ?thesis using that[of "dc_zero D" "dc_zero D"] assms(4) decimals.val_zero[OF assms(1)]
      by (simp add: updateVaultStateAndSnapshot_def)
  next
    case (Some e)
    with assms(3) obtain a s where "dc_of D (vs_totalAssets e) = Some a" "0 \<le> val a"
      "dc_of D (vs_totalShares e) = Some s" "0 \<le> val s" by (auto simp: totals_wf_def)
    with Some show ?thesis using that[of a s] assms(4) by (simp add: updateVaultStateAndSnapshot_def)
  qed
  obtain a' s' where n: "next_totals D kind amount assets shares = (a', s')" by fastforce
  from decimals.next_totals_nonneg[OF assms(1) cur assms(5) n] have nn: "0 \<le> val a'" "0 \<le> val s'" by simp_all
  have "px_vaultState P db' = Some \<lparr>vs_totalAssets = dc_toFixed D 6 a', vs_totalShares = dc_toFixed D 6 s'\<rparr>"
    using assms(6) n by (auto simp: upd prisma.vaultState_frame[OF assms(2)] prisma.vaultState_upsert[OF assms(2)])
  with decimals.fixed_reads[OF assms(1) nn(1)] decimals.fixed_reads[OF assms(1) nn(2)]
  show ?thesis by (auto simp: totals_wf_def)
qed

lemma recordDeposit_vaultState:
  assumes "prisma P"
  shows "px_vaultState P (fst (recordDeposit P rx ok now w code st)) = px_vaultState P (fst st)"
  by (simp add: recordDeposit_def Let_def stamp_referral_def ensure_referral_def prisma.vaultState_frame[OF assms]
      split: option.splits)

end
