(* ===== verification/VaultRuns.thy ===== *)
theory VaultRuns
  imports VaultOps
begin

text \<open>
  What the vault handler of \<^theory_text>\<open>VaultOps\<close> does over a whole request and over interleaved ones: the
  wallet lock, what a success leaves behind, retries under an idempotency key, the vault totals in
  every reachable state, and a concrete instance of every service, on which the theorems are applied.
\<close>

section \<open>Interleaved requests\<close>

text \<open>Requests run their steps in any order.  \<open>ok\<close> is what the validation before the handler grants of
  a body.  The sessions are the requests between their start and their answer.\<close>

type_synonym sessions = "(nat, vault_session) js_map"

inductive vault_system ::
  "('d, 'c, 'p) vault_services \<Rightarrow> (vault_body \<Rightarrow> bool) \<Rightarrow> ('c, 'p) vault_state \<Rightarrow> ('c, 'p) vault_state \<Rightarrow> sessions \<Rightarrow> bool"
  for V :: "('d, 'c, 'p) vault_services" and ok :: "vault_body \<Rightarrow> bool" and w0 :: "('c, 'p) vault_state" where
  vault_init: "vault_system V ok w0 w0 []"
| vault_reply: "vault_system V ok w0 w S \<Longrightarrow> ok body \<Longrightarrow>
    vault_start V now kind headers body w = (Inl resp, w') \<Longrightarrow> vault_system V ok w0 w' S"
| vault_begin: "vault_system V ok w0 w S \<Longrightarrow> ok body \<Longrightarrow> map_of S n = None \<Longrightarrow>
    vault_start V now kind headers body w = (Inr s, w') \<Longrightarrow> vault_system V ok w0 w' (AList.update n s S)"
| vault_wake: "vault_system V ok w0 w S \<Longrightarrow> map_of S n = Some s \<Longrightarrow>
    vault_step V r s w = (s', w') \<Longrightarrow> vault_system V ok w0 w' (AList.update n s' S)"
| vault_end: "vault_system V ok w0 w S \<Longrightarrow> map_of S n = Some s \<Longrightarrow>
    vault_finish V now s w = Some (resp, w') \<Longrightarrow> vault_system V ok w0 w' (AList.delete n S)"

text \<open>What the steps do to the session and to the lock.\<close>

lemma vault_start_Inl:
  "vault_start V now kind headers body w = (Inl resp, w') \<Longrightarrow> vw_locks w' = vw_locks w \<and> vw_db w' = vw_db w
     \<and> vw_sent w' = vw_sent w"
  using acquire_release_inverse[of "vb_walletAddress body" "vw_locks w"]
  by (auto simp: vault_start_def Let_def enter_operation_def tryAcquireWalletLock_def
      split: prod.splits begun.splits if_splits sum.splits)

lemma enter_operation_session:
  "enter_operation V now sess w = (s, w') \<Longrightarrow>
     ss_wallet s = ss_wallet sess \<and> ss_release s = ss_release sess \<and> ss_body s = ss_body sess \<and> ss_kind s = ss_kind sess
     \<and> ss_op s = ss_op sess \<and> vw_locks w' = vw_locks w \<and> vw_db w' = vw_db w \<and> vw_idem w' = vw_idem w \<and> vw_sent w' = vw_sent w
     \<and> (\<forall>p. ss_phase s \<noteq> Waiting p)"
  by (auto simp: enter_operation_def split: prod.splits sum.splits)

lemma vault_start_Inr:
  assumes "vault_start V now kind headers body w = (Inr s, w')"
  shows "ss_wallet s = normalizeWalletAddress (Some (vb_walletAddress body)) \<and> ss_wallet s \<notin> vw_locks w
    \<and> vw_locks w' = insert (ss_wallet s) (vw_locks w) \<and> ss_release s = ReleaseKey (ss_wallet s) \<and> ss_body s = body
    \<and> ss_kind s = kind \<and> vw_db w' = vw_db w \<and> vw_sent w' = vw_sent w"
  using assms
  by (auto simp: vault_start_def Let_def tryAcquireWalletLock_def
      split: prod.splits begun.splits if_splits dest!: enter_operation_session)

lemma vault_step_session:
  "vault_step V r s w = (s', w') \<Longrightarrow>
     ss_wallet s' = ss_wallet s \<and> ss_release s' = ss_release s \<and> ss_body s' = ss_body s \<and> ss_kind s' = ss_kind s
     \<and> ss_op s' = ss_op s \<and> vw_locks w' = vw_locks w \<and> vw_idem w' = vw_idem w"
  by (auto simp: vault_step_def complete_operation_def Let_def
      split: vault_phase.splits prod.splits sum.splits if_splits option.splits vault_kind.splits)

lemma answer_state:
  "answer V replayed s outcome w = (resp, w') \<Longrightarrow>
     vw_locks w' = run_release (ss_release s) (vw_locks w) \<and> vw_db w' = vw_db w \<and> vw_sent w' = vw_sent w
     \<and> vw_idem w' = vw_idem w"
  by (cases outcome) (auto simp: answer_def Let_def)

lemma vault_finish_state:
  assumes "vault_finish V now s w = Some (resp, w')"
  shows "vw_locks w' = run_release (ss_release s) (vw_locks w) \<and> vw_db w' = vw_db w \<and> vw_sent w' = vw_sent w"
proof (cases "ss_phase s")
  case (Settling outcome)
  with assms answer_state[of V False s outcome _ resp w'] show ?thesis
    by (cases "ss_op s") (force simp: vault_finish_def)+
next
  case (Waiting p)
  with assms obtain outcome where "answer V True s outcome w = (resp, w')"
    by (auto simp: vault_finish_def)
  then show ?thesis by (auto dest: answer_state)
qed (use assms in \<open>simp_all add: vault_finish_def\<close>)

definition lock_inv :: "in_flight \<Rightarrow> (nat \<Rightarrow> vault_session option) \<Rightarrow> bool" where
  "lock_inv locks f \<longleftrightarrow>
     (\<forall>n s. f n = Some s \<longrightarrow> ss_release s = ReleaseKey (ss_wallet s))
     \<and> (\<forall>n m s t. f n = Some s \<longrightarrow> f m = Some t \<longrightarrow> ss_wallet s = ss_wallet t \<longrightarrow> n = m)
     \<and> (\<forall>x. x \<in> locks \<longleftrightarrow> (\<exists>n s. f n = Some s \<and> ss_wallet s = x))"

lemma lock_inv_begin:
  assumes "lock_inv locks f" and "f n = None" and "ss_wallet s \<notin> locks" and "ss_release s = ReleaseKey (ss_wallet s)"
  shows "lock_inv (insert (ss_wallet s) locks) (f(n \<mapsto> s))"
  unfolding lock_inv_def
proof (intro conjI allI impI)
  fix i t assume "(f(n \<mapsto> s)) i = Some t"
  then show "ss_release t = ReleaseKey (ss_wallet t)"
    using assms(1,4) by (auto simp: lock_inv_def split: if_splits)
next
  fix i j t u
  assume a: "(f(n \<mapsto> s)) i = Some t" "(f(n \<mapsto> s)) j = Some u" "ss_wallet t = ss_wallet u"
  have fresh: "ss_wallet s \<noteq> ss_wallet v" if "f m = Some v" for m v
    using assms(1,3) that unfolding lock_inv_def by metis
  show "i = j"
  proof (cases "i = n \<or> j = n")
    case True
    with a fresh[of i t] fresh[of j u] show ?thesis by (auto split: if_splits)
  next
    case False
    with a assms(1) show ?thesis unfolding lock_inv_def by auto
  qed
next
  fix x
  have "f m = Some t \<Longrightarrow> m \<noteq> n" for m t using assms(2) by auto
  then show "x \<in> insert (ss_wallet s) locks \<longleftrightarrow> (\<exists>m t. (f(n \<mapsto> s)) m = Some t \<and> ss_wallet t = x)"
    using assms(1) unfolding lock_inv_def by (auto split: if_splits)
qed

lemma lock_inv_same:
  assumes "lock_inv locks f" and "f n = Some s" and "ss_wallet s' = ss_wallet s" and "ss_release s' = ss_release s"
  shows "lock_inv locks (f(n \<mapsto> s'))"
  unfolding lock_inv_def
proof (intro conjI allI impI)
  fix i t assume "(f(n \<mapsto> s')) i = Some t"
  then show "ss_release t = ReleaseKey (ss_wallet t)"
    using assms by (auto simp: lock_inv_def split: if_splits)
next
  have orig: "\<exists>t'. f i = Some t' \<and> ss_wallet t' = ss_wallet t" if "(f(n \<mapsto> s')) i = Some t" for i t
    using that assms(2,3) by (auto split: if_splits)
  {
    fix i j t u
    assume "(f(n \<mapsto> s')) i = Some t" "(f(n \<mapsto> s')) j = Some u" "ss_wallet t = ss_wallet u"
    with orig[of i t] orig[of j u] obtain t' u' where
      "f i = Some t'" "f j = Some u'" "ss_wallet t' = ss_wallet u'" by auto
    then show "i = j" using assms(1) unfolding lock_inv_def by blast
  }
  fix x
  have "(\<exists>m t. (f(n \<mapsto> s')) m = Some t \<and> ss_wallet t = x) \<longleftrightarrow> (\<exists>m t. f m = Some t \<and> ss_wallet t = x)"
  proof
    assume "\<exists>m t. f m = Some t \<and> ss_wallet t = x"
    then obtain m t where m: "f m = Some t" "ss_wallet t = x" by blast
    then have "(f(n \<mapsto> s')) m = Some (if m = n then s' else t) \<and> ss_wallet (if m = n then s' else t) = x"
      using assms(2,3) by auto
    then show "\<exists>m t. (f(n \<mapsto> s')) m = Some t \<and> ss_wallet t = x" by blast
  qed (use orig in blast)
  then show "x \<in> locks \<longleftrightarrow> (\<exists>m t. (f(n \<mapsto> s')) m = Some t \<and> ss_wallet t = x)"
    using assms(1) unfolding lock_inv_def by auto
qed

lemma lock_inv_end:
  assumes "lock_inv locks f" and "f n = Some s"
  shows "lock_inv (run_release (ss_release s) locks) (f(n := None))"
proof -
  have rel: "ss_release s = ReleaseKey (ss_wallet s)" using assms by (auto simp: lock_inv_def)
  have own: "m = n" if "f m = Some t" "ss_wallet t = ss_wallet s" for m t
    using assms that unfolding lock_inv_def by blast
  have mem: "x \<in> locks \<longleftrightarrow> (\<exists>m t. f m = Some t \<and> ss_wallet t = x)" for x
    using assms(1) unfolding lock_inv_def by blast
  have mem': "x \<in> locks - {ss_wallet s} \<longleftrightarrow> (\<exists>m t. (f(n := None)) m = Some t \<and> ss_wallet t = x)" for x
  proof
    assume "x \<in> locks - {ss_wallet s}"
    with mem[of x] obtain m t where "f m = Some t" "ss_wallet t = x" "ss_wallet t \<noteq> ss_wallet s" by blast
    with assms(2) have "(f(n := None)) m = Some t \<and> ss_wallet t = x" by auto
    then show "\<exists>m t. (f(n := None)) m = Some t \<and> ss_wallet t = x" by blast
  next
    assume "\<exists>m t. (f(n := None)) m = Some t \<and> ss_wallet t = x"
    then obtain m t where m: "m \<noteq> n" "f m = Some t" "ss_wallet t = x" by (auto split: if_splits)
    with own[of m t] have "x \<noteq> ss_wallet s" by auto
    with m mem[of x] show "x \<in> locks - {ss_wallet s}" by blast
  qed
  show ?thesis unfolding lock_inv_def rel run_release.simps
  proof (intro conjI allI impI)
    fix m t assume "(f(n := None)) m = Some t"
    then show "ss_release t = ReleaseKey (ss_wallet t)"
      using assms(1) by (auto simp: lock_inv_def split: if_splits)
  next
    fix i j t u
    assume "(f(n := None)) i = Some t" "(f(n := None)) j = Some u" "ss_wallet t = ss_wallet u"
    then have "f i = Some t" "f j = Some u" "ss_wallet t = ss_wallet u" by (auto split: if_splits)
    then show "i = j" using assms(1) unfolding lock_inv_def by blast
  qed (rule mem')
qed

lemma vault_system_locks:
  "vault_system V ok w0 w S \<Longrightarrow> vw_locks w0 = {} \<Longrightarrow> lock_inv (vw_locks w) (map_of S)"
proof (induction rule: vault_system.induct)
  case (vault_reply w S body now kind headers resp w')
  then show ?case using vault_start_Inl[OF vault_reply.hyps(3)] by simp
next
  case (vault_begin w S body n now kind headers s w')
  note st = vault_start_Inr[OF vault_begin.hyps(4)]
  have "lock_inv (insert (ss_wallet s) (vw_locks w)) ((map_of S)(n \<mapsto> s))"
    by (rule lock_inv_begin) (use vault_begin st in auto)
  then show ?case using st by (simp only: jmap.look_put)
next
  case (vault_wake w S n s r s' w')
  note st = vault_step_session[OF vault_wake.hyps(3)]
  have "lock_inv (vw_locks w) ((map_of S)(n \<mapsto> s'))"
    by (rule lock_inv_same[of _ _ n s]) (use vault_wake st in auto)
  then show ?case using st by (simp only: jmap.look_put)
next
  case (vault_end w S n s now resp w')
  note st = vault_finish_state[OF vault_end.hyps(3)]
  have "lock_inv (run_release (ss_release s) (vw_locks w)) ((map_of S)(n := None))"
    by (rule lock_inv_end) (use vault_end in auto)
  then show ?case using st by (simp only: jmap.look_del)
qed (simp add: lock_inv_def)

text \<open>
  C3.  Whatever requests arrive and however their waits interleave, two requests in progress never
  work for the same wallet, and the locks held are exactly those of the requests in progress: no lock
  is lost and none outlives its request.
\<close>

theorem vault_wallet_exclusive:
  assumes "vault_system V ok w0 w S" and "vw_locks w0 = {}"
  shows "(\<forall>n m s t. map_of S n = Some s \<and> map_of S m = Some t \<and> ss_wallet s = ss_wallet t \<longrightarrow> n = m)
    \<and> vw_locks w = ss_wallet ` ran (map_of S)"
proof -
  have inv: "lock_inv (vw_locks w) (map_of S)" by (rule vault_system_locks[OF assms])
  then have "x \<in> vw_locks w \<longleftrightarrow> (\<exists>n s. map_of S n = Some s \<and> ss_wallet s = x)" for x
    unfolding lock_inv_def by blast
  moreover have "x \<in> ss_wallet ` ran (map_of S) \<longleftrightarrow> (\<exists>n s. map_of S n = Some s \<and> ss_wallet s = x)" for x
    by (auto simp: ran_def)
  ultimately have "vw_locks w = ss_wallet ` ran (map_of S)" by blast
  with inv show ?thesis unfolding lock_inv_def by blast
qed

section \<open>What the operation leaves behind\<close>

text \<open>The handler's operation makes progress with every reply and never waits more than four times.\<close>

fun phase_rank :: "vault_phase \<Rightarrow> nat" where
  "phase_rank Submitting = 4"
| "phase_rank (Recording _) = 3"
| "phase_rank (Accounting _) = 2"
| "phase_rank (Referring _) = 1"
| "phase_rank (Settling _) = 0"
| "phase_rank (Waiting _) = 0"

lemma vault_step_rank:
  "vault_step V r s w = (s', w') \<Longrightarrow> phase_rank (ss_phase s') \<le> phase_rank (ss_phase s) - 1
     \<and> ((\<exists>p. ss_phase s' = Waiting p) \<longleftrightarrow> (\<exists>p. ss_phase s = Waiting p))"
  by (auto simp: vault_step_def complete_operation_def Let_def
      split: vault_phase.splits prod.splits sum.splits if_splits option.splits vault_kind.splits)

lemma run_operation_keeps:
  assumes step: "\<And>s w s' w'. Q s w \<Longrightarrow> vault_step V r s w = (s', w') \<Longrightarrow> Q s' w'" and "Q s w"
  shows "case run_operation V r (s, w) of (s', w') \<Rightarrow> Q s' w'"
proof -
  have "case ((\<lambda>(s, w). vault_step V r s w) ^^ n) (s, w) of (s', w') \<Rightarrow> Q s' w'" for n
  proof (induction n)
    case (Suc n)
    obtain s1 w1 where "((\<lambda>(s, w). vault_step V r s w) ^^ n) (s, w) = (s1, w1)" by fastforce
    with Suc step[of s1 w1] show ?case by (cases "vault_step V r s1 w1") simp
  qed (use assms(2) in simp)
  then show ?thesis by (simp add: run_operation_def)
qed

lemma run_operation_rank:
  "phase_rank (ss_phase (fst (run_operation V r (s, w)))) = 0"
proof -
  have "phase_rank (ss_phase (fst (((\<lambda>(s, w). vault_step V r s w) ^^ n) (s, w)))) \<le> phase_rank (ss_phase s) - n" for n
  proof (induction n)
    case (Suc n)
    obtain s1 w1 where "((\<lambda>(s, w). vault_step V r s w) ^^ n) (s, w) = (s1, w1)" by fastforce
    with Suc vault_step_rank[of V r s1 w1] show ?case by (cases "vault_step V r s1 w1") auto
  qed simp
  from this[of 4] have "phase_rank (ss_phase (fst (run_operation V r (s, w)))) \<le> phase_rank (ss_phase s) - 4"
    by (simp only: run_operation_def)
  moreover have "phase_rank x \<le> 4" for x by (cases x) simp_all
  ultimately show ?thesis by (metis diff_is_0_eq le_zero_eq)
qed

lemma run_operation_settles:
  assumes "\<nexists>p. ss_phase s = Waiting p"
  shows "\<exists>outcome. ss_phase (fst (run_operation V r (s, w))) = Settling outcome"
proof -
  have "case run_operation V r (s, w) of (s', w') \<Rightarrow> \<nexists>p. ss_phase s' = Waiting p"
    by (rule run_operation_keeps) (use assms vault_step_rank in blast)+
  with run_operation_rank[of V r s w] show ?thesis
    by (cases "ss_phase (fst (run_operation V r (s, w)))") (auto simp: split_beta)
qed

text \<open>The state \<open>w\<close> of a session, measured against the state \<open>w0\<close> it started from.\<close>

definition submission :: "('d, 'c, 'p) vault_services \<Rightarrow> op_replies \<Rightarrow> vault_session \<Rightarrow> (soroban_error + string) \<times> invocation option" where
  "submission V r s = submitVaultOperation (sv_sdk V) (sv_env V) (or_rpc r) (ss_kind s)
     (vb_walletAddress (ss_body s)) (sv_num V (vb_amount (ss_body s))) (vb_asset (ss_body s))"

definition sent_once :: "('d, 'c, 'p) vault_services \<Rightarrow> op_replies \<Rightarrow> ('c, 'p) vault_state \<Rightarrow> vault_session \<Rightarrow> string \<Rightarrow> ('c, 'p) vault_state \<Rightarrow> bool" where
  "sent_once V r w0 s h w \<longleftrightarrow> (\<exists>iv. submission V r s = (Inr h, Some iv) \<and> vw_sent w = vw_sent w0 @ [iv])"

definition row_added :: "('d, 'c, 'p) vault_services \<Rightarrow> op_replies \<Rightarrow> ('c, 'p) vault_state \<Rightarrow> vault_session \<Rightarrow> ('c, 'p) vault_state \<Rightarrow> bool" where
  "row_added V r w0 s w \<longleftrightarrow> mset (px_transactions (sv_prisma V) (vw_db w)) =
     add_mset (vault_row V r s) (mset (px_transactions (sv_prisma V) (vw_db w0)))"

fun progress :: "('d, 'c, 'p) vault_services \<Rightarrow> op_replies \<Rightarrow> ('c, 'p) vault_state \<Rightarrow> vault_session \<Rightarrow> vault_phase \<Rightarrow> ('c, 'p) vault_state \<Rightarrow> bool" where
  "progress V r w0 s Submitting w = (vw_sent w = vw_sent w0 \<and> vw_db w = vw_db w0 \<and> vw_events w = vw_events w0)"
| "progress V r w0 s (Recording h) w = (sent_once V r w0 s h w \<and> vw_db w = vw_db w0 \<and> vw_events w = vw_events w0)"
| "progress V r w0 s (Accounting h) w = (sent_once V r w0 s h w \<and> row_added V r w0 s w \<and> vw_events w = vw_events w0)"
| "progress V r w0 s (Referring h) w = (sent_once V r w0 s h w \<and> row_added V r w0 s w \<and> vw_events w = vw_events w0)"
| "progress V r w0 s (Settling (Inr res)) w = (\<exists>h. sent_once V r w0 s h w \<and> row_added V r w0 s w
     \<and> res = \<lparr>or_statusCode = 201, or_body = operation_body s r h\<rparr>
     \<and> vw_events w = vw_events w0 @ [(''transaction.'' @ show_kind (ss_kind s) @ ''.created'', event_payload V s r h)])"
| "progress V r w0 s (Settling (Inl e)) w = (vw_events w = vw_events w0
     \<and> rs_status (vault_error_response (ss_kind s) e) \<in> {422, 500, 502, 503})"
| "progress V r w0 s (Waiting p) w = False"

definition same_request :: "vault_session \<Rightarrow> vault_session \<Rightarrow> bool" where
  "same_request s t \<longleftrightarrow> ss_kind s = ss_kind t \<and> ss_body s = ss_body t \<and> ss_wallet s = ss_wallet t
     \<and> ss_op s = ss_op t \<and> ss_release s = ss_release t"

lemma same_request_values:
  assumes "same_request s t"
  shows "submission V r s = submission V r t" "vault_row V r s = vault_row V r t"
    "operation_body s r h = operation_body t r h" "event_payload V s r h = event_payload V t r h"
  using assms by (simp_all add: same_request_def submission_def vault_row_def operation_body_def event_payload_def)

lemma progress_same_request:
  assumes "same_request s t" and "progress V r w s (Settling outcome) u"
  shows "progress V r w t (Settling outcome) u"
proof -
  note v = same_request_values[OF assms(1)]
  have "sent_once V r w s h u = sent_once V r w t h u" for h by (simp add: sent_once_def v(1))
  moreover have "row_added V r w s u = row_added V r w t u" by (simp add: row_added_def v(2))
  moreover have "ss_kind s = ss_kind t" using assms(1) by (simp add: same_request_def)
  ultimately show ?thesis using assms(2) by (cases outcome) (simp_all add: v(3,4))
qed

lemma vault_step_same: "vault_step V r s w = (s', w') \<Longrightarrow> same_request s' s"
  using vault_step_session[of V r s w s' w'] by (simp add: same_request_def)

lemma submission_shape:
  "submission V r s = (Inr h, iv) \<Longrightarrow> \<exists>i. iv = Some i"
  "submission V r s = (Inl e, iv) \<Longrightarrow> se_statusCode e \<in> {422, 502, 503}"
  unfolding submission_def by (drule submit_success, blast) (drule submit_error_status, simp)

lemma update_transactions:
  assumes "prisma P" and "updateVaultStateAndSnapshot D P kind raw t ident db = Some db'"
  shows "mset (px_transactions P db') = mset (px_transactions P db)"
  using assms(2)
  by (auto simp: updateVaultStateAndSnapshot_def Let_def prisma.transactions_frame[OF assms(1)]
      split: option.splits prod.splits)

lemma recordDeposit_transactions:
  assumes "prisma P"
  shows "mset (px_transactions P (fst (recordDeposit P rx ok now w code st))) = mset (px_transactions P (fst st))"
  by (simp add: recordDeposit_def Let_def stamp_referral_def ensure_referral_def prisma.transactions_frame[OF assms]
      split: option.splits)

lemma progress_complete:
  assumes "same_request s s0" and "complete_operation V r h s w = (s', w')"
    and "sent_once V r w0 s0 h w" and "row_added V r w0 s0 w" and "vw_events w = vw_events w0"
  shows "progress V r w0 s0 (ss_phase s') w'"
  using assms same_request_values[OF assms(1)]
  by (auto simp: complete_operation_def sent_once_def row_added_def same_request_def)

lemma progress_step:
  assumes "prisma (sv_prisma V)" and "same_request s s0" and "progress V r w0 s0 (ss_phase s) w"
    and "vault_step V r s w = (s', w')"
  shows "progress V r w0 s0 (ss_phase s') w'"
proof (cases "ss_phase s")
  case Submitting
  obtain res iv where sub: "submission V r s = (res, iv)" by fastforce
  show ?thesis
  proof (cases res)
    case (Inl e)
    with sub submission_shape(2)[of V r s e iv] assms(3,4) Submitting show ?thesis
      by (auto simp: vault_step_def submission_def Let_def)
  next
    case (Inr h)
    with sub submission_shape(1)[of V r s h iv] obtain i where "iv = Some i" by blast
    with Inr sub assms(3,4) Submitting same_request_values(1)[OF assms(2), of V r] show ?thesis
      by (auto simp: vault_step_def submission_def sent_once_def Let_def)
  qed
next
  case (Recording h)
  with assms(3,4) same_request_values(2)[OF assms(2), of V r] show ?thesis
    by (auto simp: vault_step_def sent_once_def row_added_def prisma.transactions_create[OF assms(1)] split: if_splits)
next
  case (Accounting h)
  show ?thesis
  proof (cases "if or_accounted r then updateVaultStateAndSnapshot (sv_decimal V) (sv_prisma V) (ss_kind s)
      (sv_num V (vb_amount (ss_body s))) (or_accounted_at r) (or_snapshot_id r) (vw_db w) else None")
    case None
    with assms(3,4) Accounting show ?thesis by (auto simp: vault_step_def simp del: if_split)
  next
    case (Some db)
    then have "mset (px_transactions (sv_prisma V) db) = mset (px_transactions (sv_prisma V) (vw_db w))"
      using update_transactions[OF assms(1)] by (auto split: if_splits)
    then have k: "sent_once V r w0 s0 h (w\<lparr>vw_db := db\<rparr>)" "row_added V r w0 s0 (w\<lparr>vw_db := db\<rparr>)"
      "vw_events (w\<lparr>vw_db := db\<rparr>) = vw_events w0"
      using assms(3) Accounting by (auto simp: sent_once_def row_added_def)
    show ?thesis
    proof (cases "ss_kind s")
      case Deposit
      with Some Accounting assms(4) k show ?thesis by (auto simp: vault_step_def simp del: if_split)
    next
      case Withdrawal
      with Some Accounting assms(4) have "complete_operation V r h s (w\<lparr>vw_db := db\<rparr>) = (s', w')"
        by (simp add: vault_step_def del: if_split)
      from progress_complete[OF assms(2) this k] show ?thesis .
    qed
  qed
next
  case (Referring h)
  obtain db cache where d: "recordDeposit (sv_prisma V) (sv_rx V) (or_referral_commits r) (or_finished r)
       (ss_wallet s) (vb_referralCode (ss_body s)) (vw_db w, vw_cache w) = (db, cache)" by fastforce
  have "mset (px_transactions (sv_prisma V) db) = mset (px_transactions (sv_prisma V) (vw_db w))"
    using recordDeposit_transactions[OF assms(1), of "sv_rx V" "or_referral_commits r" "or_finished r"
        "ss_wallet s" "vb_referralCode (ss_body s)" "(vw_db w, vw_cache w)"] d by simp
  then have k: "sent_once V r w0 s0 h (w\<lparr>vw_db := db, vw_cache := cache\<rparr>)"
    "row_added V r w0 s0 (w\<lparr>vw_db := db, vw_cache := cache\<rparr>)"
    "vw_events (w\<lparr>vw_db := db, vw_cache := cache\<rparr>) = vw_events w0"
    using assms(3) Referring by (auto simp: sent_once_def row_added_def)
  have "complete_operation V r h s (w\<lparr>vw_db := db, vw_cache := cache\<rparr>) = (s', w')"
    using assms(4) Referring d by (simp add: vault_step_def)
  from progress_complete[OF assms(2) this k] show ?thesis .
next
  case (Settling outcome)
  with assms(3,4) show ?thesis by (simp add: vault_step_def)
next
  case (Waiting p)
  with assms(3) show ?thesis by simp
qed

lemma run_operation_progress:
  assumes "prisma (sv_prisma V)" and "progress V r w s (ss_phase s) w1"
    and "run_operation V r (s, w1) = (s', w')"
  shows "\<exists>outcome. ss_phase s' = Settling outcome \<and> progress V r w s (Settling outcome) w' \<and> same_request s' s
    \<and> vw_locks w' = vw_locks w1 \<and> vw_idem w' = vw_idem w1"
proof -
  have "case run_operation V r (s, w1) of (s', w') \<Rightarrow> same_request s' s \<and> progress V r w s (ss_phase s') w'
      \<and> vw_locks w' = vw_locks w1 \<and> vw_idem w' = vw_idem w1"
  proof (rule run_operation_keeps)
    fix t u t' u'
    assume a: "same_request t s \<and> progress V r w s (ss_phase t) u \<and> vw_locks u = vw_locks w1 \<and> vw_idem u = vw_idem w1"
      and st: "vault_step V r t u = (t', u')"
    from a have "progress V r w s (ss_phase t') u'" by (intro progress_step[OF assms(1) _ _ st]) simp_all
    moreover have "same_request t' s" using a vault_step_same[OF st] by (simp add: same_request_def)
    ultimately show "same_request t' s \<and> progress V r w s (ss_phase t') u' \<and> vw_locks u' = vw_locks w1 \<and> vw_idem u' = vw_idem w1"
      using a vault_step_session[OF st] by simp
  qed (use assms(2) in \<open>simp add: same_request_def\<close>)
  moreover have "\<nexists>p. ss_phase s = Waiting p" using assms(2) by auto
  ultimately show ?thesis using run_operation_settles[of s V r w1] assms(3) by auto
qed

section \<open>One request at a time\<close>

text \<open>A request that runs its own operation: its wallet is free, and it has no idempotency key or one
  that is neither stored nor in flight.  Its session:\<close>

definition fresh_request ::
  "('d, 'c, 'p) vault_services \<Rightarrow> time \<Rightarrow> (string \<Rightarrow> string option) \<Rightarrow> vault_body \<Rightarrow> ('c, 'p) vault_state \<Rightarrow> bool" where
  "fresh_request V now headers body w \<longleftrightarrow>
     normalizeWalletAddress (Some (vb_walletAddress body)) \<noteq> []
     \<and> normalizeWalletAddress (Some (vb_walletAddress body)) \<notin> vw_locks w
     \<and> (truthy_str (idempotency_key headers) \<longrightarrow>
          nc_get (sv_cache V) now (the (idempotency_key headers)) (completedResponses (vw_idem w)) = None
          \<and> map_of (pendingResponses (vw_idem w)) (the (idempotency_key headers)) = None)"

definition fresh_session :: "vault_kind \<Rightarrow> (string \<Rightarrow> string option) \<Rightarrow> vault_body \<Rightarrow> ('c, 'p) vault_state \<Rightarrow> vault_session" where
  "fresh_session kind headers body w =
     \<lparr>ss_kind = kind, ss_body = body, ss_wallet = normalizeWalletAddress (Some (vb_walletAddress body)),
      ss_op = (if truthy_str (idempotency_key headers) then Some (next_op (vw_idem w)) else None),
      ss_release = ReleaseKey (normalizeWalletAddress (Some (vb_walletAddress body))), ss_phase = Submitting\<rparr>"

lemma begin_fresh:
  assumes "nc_get C now key (completedResponses i) = None" and "map_of (pendingResponses i) key = None"
  shows "begin_execute C now key fp i = (Started (next_op i),
    i\<lparr>heap := AList.update (next_op i)
        \<lparr>po_key = key, po_fingerprint = fp, po_promise = Running, po_metadata = initial_metadata now\<rparr> (heap i),
      pendingResponses := AList.update key (next_op i) (pendingResponses i), next_op := Suc (next_op i)\<rparr>)"
  using assms by (simp add: begin_execute_def)

definition begun_idem ::
  "('d, 'c, 'p) vault_services \<Rightarrow> time \<Rightarrow> (string \<Rightarrow> string option) \<Rightarrow> vault_body \<Rightarrow> ('c, 'p) vault_state \<Rightarrow>
   ('c, json, vault_error) idempotency_store" where
  "begun_idem V now headers body w =
     (if truthy_str (idempotency_key headers)
      then snd (begin_execute (sv_cache V) now (the (idempotency_key headers)) (generateFingerprint V body) (vw_idem w))
      else vw_idem w)"

lemma vault_start_fresh:
  assumes "fresh_request V now headers body w"
  shows "vault_start V now kind headers body w =
    (let (s, w') = enter_operation V now (fresh_session kind headers body w)
           (w\<lparr>vw_locks := insert (normalizeWalletAddress (Some (vb_walletAddress body))) (vw_locks w),
              vw_idem := begun_idem V now headers body w\<rparr>)
     in (Inr s, w'))"
proof -
  let ?k = "normalizeWalletAddress (Some (vb_walletAddress body))"
  have l: "tryAcquireWalletLock ?k (vw_locks w) =
      (\<lparr>wl_acquired = True, wl_key = ?k, wl_release = ReleaseKey ?k\<rparr>, insert ?k (vw_locks w))"
    using assms by (simp add: fresh_request_def tryAcquireWalletLock_def Let_def)
  show ?thesis
  proof (cases "truthy_str (idempotency_key headers)")
    case True
    with assms have "begin_execute (sv_cache V) now (the (idempotency_key headers)) (generateFingerprint V body) (vw_idem w)
        = (Started (next_op (vw_idem w)), begun_idem V now headers body w)"
      by (simp add: fresh_request_def begun_idem_def begin_fresh)
    then show ?thesis using True by (simp add: vault_start_def l fresh_session_def Let_def)
  next
    case False
    then show ?thesis by (simp add: vault_start_def l fresh_session_def begun_idem_def Let_def)
  qed
qed

lemma enter_operation_progress:
  assumes "enter_operation V now s w = (s', w')" and "vw_sent w = vw_sent w0" and "vw_db w = vw_db w0"
    and "vw_events w = vw_events w0"
  shows "progress V r w0 s' (ss_phase s') w'"
  using assms by (auto simp: enter_operation_def split: prod.splits sum.splits)

text \<open>Everything the sequential theorems need of a fresh request: its operation settles, and the
  response and the final state come from \<open>answer\<close>.\<close>

lemma handle_fresh:
  assumes "prisma (sv_prisma V)" and "fresh_request V now headers body w"
    and "handleVaultOperation V now kind headers body r w = Some (resp, w')"
  obtains outcome w2 where "progress V r w (fresh_session kind headers body w) (Settling outcome) w2"
    and "vw_locks w2 = insert (normalizeWalletAddress (Some (vb_walletAddress body))) (vw_locks w)"
    and "vw_idem w2 = begun_idem V now headers body w"
    and "(resp, w') = answer V False (fresh_session kind headers body w) outcome
      (if truthy_str (idempotency_key headers) then
         w2\<lparr>vw_idem := finish_execute (next_op (vw_idem w))
           (settle (sv_cache V) (sv_ttlMs V) (or_finished r) (next_op (vw_idem w)) outcome (vw_idem w2))\<rparr> else w2)"
proof -
  let ?s0 = "fresh_session kind headers body w"
  let ?w0 = "w\<lparr>vw_locks := insert (normalizeWalletAddress (Some (vb_walletAddress body))) (vw_locks w),
              vw_idem := begun_idem V now headers body w\<rparr>"
  obtain s1 w1 where e: "enter_operation V now ?s0 ?w0 = (s1, w1)" by fastforce
  obtain s2 w2 where run: "run_operation V r (s1, w1) = (s2, w2)" by fastforce
  have same: "same_request s1 ?s0" using enter_operation_session[OF e] by (simp add: same_request_def)
  have p1: "progress V r w s1 (ss_phase s1) w1" by (rule enter_operation_progress[OF e]) simp_all
  from run_operation_progress[OF assms(1) p1 run] obtain outcome where
    o: "ss_phase s2 = Settling outcome" "progress V r w s1 (Settling outcome) w2" "same_request s2 s1"
    "vw_locks w2 = vw_locks w1" "vw_idem w2 = vw_idem w1" by blast
  have "vault_finish V (or_finished r) s2 w2 = Some (resp, w')"
    using assms(3) by (simp add: handleVaultOperation_def vault_start_fresh[OF assms(2)] e run)
  then have fin: "(resp, w') = answer V False s2 outcome (case ss_op s2 of None \<Rightarrow> w2
      | Some p \<Rightarrow> w2\<lparr>vw_idem := finish_execute p (settle (sv_cache V) (sv_ttlMs V) (or_finished r) p outcome (vw_idem w2))\<rparr>)"
    using o(1) by (simp add: vault_finish_def)
  have ans: "answer V b t oc u = answer V b t' oc u" if "same_request t t'" for b t t' oc u
    using that by (cases oc) (simp_all add: answer_def same_request_def Let_def)
  have pr: "progress V r w ?s0 (Settling outcome) w2"
    by (rule progress_same_request[OF same o(2)])
  have tot: "same_request s2 ?s0" using o(3) same by (simp add: same_request_def)
  then have "ss_op s2 = (if truthy_str (idempotency_key headers) then Some (next_op (vw_idem w)) else None)"
    by (simp add: same_request_def fresh_session_def)
  with fin ans[OF tot] have "(resp, w') = answer V False ?s0 outcome
      (if truthy_str (idempotency_key headers) then
         w2\<lparr>vw_idem := finish_execute (next_op (vw_idem w))
           (settle (sv_cache V) (sv_ttlMs V) (or_finished r) (next_op (vw_idem w)) outcome (vw_idem w2))\<rparr> else w2)"
    by (simp split: if_splits)
  then show ?thesis using that[OF pr] o(4,5) enter_operation_session[OF e] by simp
qed

text \<open>
  C1.  A success is a success everywhere.  When a request that runs its own operation is answered with
  201, exactly one contract invocation left the process, for its wallet, kind, asset and rounded amount,
  exactly one transaction row was added, and one event was emitted; every other answer has status 422,
  500, 502 or 503 and emits none.  In every case the locks are as before.
\<close>

theorem vault_success_recorded:
  assumes "prisma (sv_prisma V)" and "fresh_request V now headers body w"
    and "handleVaultOperation V now kind headers body r w = Some (resp, w')"
  shows "vw_locks w' = vw_locks w
    \<and> (if rs_status resp = 201 then
         (\<exists>iv n. vw_sent w' = vw_sent w @ [iv] \<and> iv_function iv = kind \<and> iv_wallet iv = vb_walletAddress body
            \<and> iv_asset iv = vb_asset body \<and> sdk_Number (sv_sdk V) (sv_num V (vb_amount body)) = Some n
            \<and> iv_amount iv = js_round n)
         \<and> mset (px_transactions (sv_prisma V) (vw_db w')) =
             add_mset (vault_row V r (fresh_session kind headers body w)) (mset (px_transactions (sv_prisma V) (vw_db w)))
         \<and> length (vw_events w') = Suc (length (vw_events w))
       else rs_status resp \<in> {422, 500, 502, 503} \<and> vw_events w' = vw_events w)"
proof -
  let ?s0 = "fresh_session kind headers body w" and ?k = "normalizeWalletAddress (Some (vb_walletAddress body))"
  from handle_fresh[OF assms] obtain outcome w2 where
    pr: "progress V r w ?s0 (Settling outcome) w2" and l: "vw_locks w2 = insert ?k (vw_locks w)"
    and ans: "(resp, w') = answer V False ?s0 outcome
      (if truthy_str (idempotency_key headers) then
         w2\<lparr>vw_idem := finish_execute (next_op (vw_idem w))
           (settle (sv_cache V) (sv_ttlMs V) (or_finished r) (next_op (vw_idem w)) outcome (vw_idem w2))\<rparr> else w2)"
    by blast
  have st: "vw_locks w' = vw_locks w \<and> vw_db w' = vw_db w2 \<and> vw_sent w' = vw_sent w2 \<and> vw_events w' = vw_events w2"
    using ans l assms(2) by (cases outcome) (auto simp: answer_def Let_def fresh_session_def fresh_request_def split: if_splits)
  show ?thesis
  proof (cases outcome)
    case (Inl e)
    then have "resp = vault_error_response kind e" using ans by (simp add: answer_def Let_def fresh_session_def)
    with Inl pr st show ?thesis by (auto simp: fresh_session_def)
  next
    case (Inr res)
    with pr obtain h where h: "sent_once V r w ?s0 h w2" "row_added V r w ?s0 w2"
      "res = \<lparr>or_statusCode = 201, or_body = operation_body ?s0 r h\<rparr>" "length (vw_events w2) = Suc (length (vw_events w))"
      by auto
    have "rs_status resp = 201" using ans Inr h(3) by (simp add: answer_def success_response_def)
    moreover from h(1) obtain iv where iv: "submission V r ?s0 = (Inr h, Some iv)" "vw_sent w2 = vw_sent w @ [iv]"
      by (auto simp: sent_once_def)
    from submit_success[OF iv(1)[unfolded submission_def]] have
      "\<exists>n. iv_function iv = kind \<and> iv_wallet iv = vb_walletAddress body \<and> iv_asset iv = vb_asset body
        \<and> sdk_Number (sv_sdk V) (sv_num V (vb_amount body)) = Some n \<and> iv_amount iv = js_round n"
      by (auto simp: fresh_session_def)
    ultimately show ?thesis using st h(2,4) iv(2) by (auto simp: row_added_def)
  qed
qed

text \<open>
  C2.  A retry is safe: after a request with an idempotency key was answered with 201, the same request
  sent again within the life time of the entry gets the same body, marked as replayed, and nothing is
  submitted or recorded a second time.
\<close>

theorem vault_retry_replays:
  assumes "prisma (sv_prisma V)" and "node_cache (sv_cache V) std" and "fresh_request V now headers body w"
    and "truthy_str (idempotency_key headers)"
    and "handleVaultOperation V now kind headers body r w = Some (resp, w')" and "rs_status resp = 201"
    and "now' < or_finished r + sv_ttlMs V"
  shows "\<exists>w''. handleVaultOperation V now' kind headers body r' w' =
      Some (send_json_with [(''idempotency-status'', JStr ''replayed'')] 201 (rs_body resp), w'')
    \<and> vw_sent w'' = vw_sent w' \<and> vw_db w'' = vw_db w' \<and> vw_events w'' = vw_events w' \<and> vw_locks w'' = vw_locks w'"
proof -
  let ?s0 = "fresh_session kind headers body w" and ?k = "normalizeWalletAddress (Some (vb_walletAddress body))"
  let ?key = "the (idempotency_key headers)" and ?p = "next_op (vw_idem w)" and ?C = "sv_cache V"
  from handle_fresh[OF assms(1,3,5)] obtain outcome w2 where
    pr: "progress V r w ?s0 (Settling outcome) w2" and l: "vw_locks w2 = insert ?k (vw_locks w)"
    and i: "vw_idem w2 = begun_idem V now headers body w"
    and ans: "(resp, w') = answer V False ?s0 outcome (w2\<lparr>vw_idem := finish_execute ?p
           (settle ?C (sv_ttlMs V) (or_finished r) ?p outcome (vw_idem w2))\<rparr>)"
    using assms(4) by auto
  obtain res where res: "outcome = Inr res" "or_statusCode res = 201" "rs_body resp = or_body res"
  proof (cases outcome)
    case (Inl e)
    with ans pr assms(6) show ?thesis by (auto simp: answer_def fresh_session_def Let_def)
  next
    case (Inr res)
    with ans pr that show ?thesis by (auto simp: answer_def success_response_def Let_def)
  qed
  have idem: "vw_idem w' = finish_execute ?p (settle ?C (sv_ttlMs V) (or_finished r) ?p (Inr res) (vw_idem w2))"
    and locks: "vw_locks w' = vw_locks w"
    using ans l assms(3) res(1) by (auto simp: answer_def Let_def fresh_session_def fresh_request_def)
  have heap: "map_of (heap (vw_idem w2)) ?p = Some \<lparr>po_key = ?key, po_fingerprint = generateFingerprint V body,
      po_promise = Running, po_metadata = initial_metadata now\<rparr>"
    using assms(3,4) by (simp add: i begun_idem_def fresh_request_def begin_fresh jmap.look_put)
  obtain st where st: "nc_get ?C now' ?key (completedResponses (vw_idem w')) = Some st"
    "st_fingerprint st = generateFingerprint V body" "result_of st = res"
  proof -
    let ?st = "\<lparr>or_statusCode = or_statusCode res, or_body = or_body res, st_fingerprint = generateFingerprint V body,
      st_metadata = (initial_metadata now)\<lparr>im_status := Completed, im_lastAccessedAt := or_finished r\<rparr>\<rparr>"
    have "completedResponses (vw_idem w') =
        nc_set ?C (or_finished r) ?key ?st (Some (sv_ttlMs V)) (completedResponses (vw_idem w2))"
      by (simp add: idem settle_def heap finish_execute_def jmap.look_put Let_def)
    moreover have "nc_get ?C now' ?key (nc_set ?C (or_finished r) ?key ?st (Some (sv_ttlMs V)) c) = Some ?st" for c
      using node_cache.nc_get_set_live[OF assms(2), of now' "or_finished r" "Some (sv_ttlMs V)"] assms(7) by simp
    moreover have "result_of ?st = res" by (simp add: result_of_def)
    ultimately show ?thesis using that[of ?st] by simp
  qed
  have lock: "tryAcquireWalletLock ?k (vw_locks w') =
      (\<lparr>wl_acquired = True, wl_key = ?k, wl_release = ReleaseKey ?k\<rparr>, insert ?k (vw_locks w'))"
    using assms(3) locks by (simp add: fresh_request_def tryAcquireWalletLock_def Let_def)
  have "?k \<notin> vw_locks w'" using assms(3) locks by (simp add: fresh_request_def)
  with st res(2,3) assms(4) lock show ?thesis
    by (simp add: handleVaultOperation_def vault_start_def begin_execute_def success_response_def Let_def)
qed

text \<open>Only the first step of an operation submits; a step afterwards leaves the breaker alone, too.\<close>

lemma vault_step_sent:
  "vault_step V r s w = (s', w') \<Longrightarrow> ss_phase s \<noteq> Submitting \<Longrightarrow>
     ss_phase s' \<noteq> Submitting \<and> vw_sent w' = vw_sent w \<and> vw_breaker w' = vw_breaker w"
  by (auto simp: vault_step_def complete_operation_def Let_def
      split: vault_phase.splits prod.splits sum.splits if_splits option.splits vault_kind.splits)

lemma run_operation_sent:
  assumes "submission V r s = (Inr h, Some iv)" and "ss_phase s = Submitting" and "run_operation V r (s, w) = (s', w')"
  shows "vw_sent w' = vw_sent w @ [iv] \<and> vw_breaker w' = onSuccess (or_submitted r) (vw_breaker w)"
proof -
  let ?Q = "\<lambda>t u. ss_phase t \<noteq> Submitting \<and> vw_sent u = vw_sent w @ [iv] \<and> vw_breaker u = onSuccess (or_submitted r) (vw_breaker w)"
  let ?f = "\<lambda>(s, w). vault_step V r s w"
  obtain t1 u1 where 1: "vault_step V r s w = (t1, u1)" by fastforce
  then have q1: "?Q t1 u1" using assms(1,2) by (auto simp: vault_step_def submission_def)
  have all: "case (?f ^^ n) (t1, u1) of (t, u) \<Rightarrow> ?Q t u" for n
  proof (induction n)
    case (Suc n)
    obtain t u where n: "(?f ^^ n) (t1, u1) = (t, u)" by fastforce
    obtain t' u' where st: "vault_step V r t u = (t', u')" by fastforce
    from Suc n vault_step_sent[OF st] show ?case by (simp add: st)
  qed (use q1 in simp)
  have "(?f ^^ 3) (t1, u1) = (s', w')"
    using assms(3) by (simp add: run_operation_def eval_nat_numeral 1 funpow_swap1)
  with all[of 3] show ?thesis by simp
qed

lemma handle_fresh_sent:
  assumes "fresh_request V now headers body w" and "fst (admit (sv_circuit V) now (vw_breaker w)) = Inr ()"
    and "submission V r (fresh_session kind headers body w) = (Inr h, Some iv)"
  shows "\<exists>resp w'. handleVaultOperation V now kind headers body r w = Some (resp, w') \<and> vw_sent w' = vw_sent w @ [iv]"
proof -
  let ?s0 = "fresh_session kind headers body w"
  let ?w0 = "w\<lparr>vw_locks := insert (normalizeWalletAddress (Some (vb_walletAddress body))) (vw_locks w),
              vw_idem := begun_idem V now headers body w\<rparr>"
  obtain b where b: "admit (sv_circuit V) now (vw_breaker w) = (Inr (), b)"
    using assms(2) by (cases "admit (sv_circuit V) now (vw_breaker w)") simp
  let ?s1 = "?s0\<lparr>ss_phase := Submitting\<rparr>"
  have e: "enter_operation V now ?s0 ?w0 = (?s1, ?w0\<lparr>vw_breaker := b\<rparr>)"
    by (simp add: enter_operation_def b)
  obtain s2 w2 where run: "run_operation V r (?s1, ?w0\<lparr>vw_breaker := b\<rparr>) = (s2, w2)" by fastforce
  have "submission V r ?s1 = (Inr h, Some iv)" using assms(3) by (simp add: submission_def)
  from run_operation_sent[OF this _ run] have sent: "vw_sent w2 = vw_sent w @ [iv]" by simp
  from run_operation_settles[of ?s1 V r "?w0\<lparr>vw_breaker := b\<rparr>"] run obtain outcome where
    o: "ss_phase s2 = Settling outcome" by auto
  have h: "handleVaultOperation V now kind headers body r w = vault_finish V (or_finished r) s2 w2"
    by (simp add: handleVaultOperation_def vault_start_fresh[OF assms(1)] e run)
  with o obtain resp w' where hv: "vault_finish V (or_finished r) s2 w2 = Some (resp, w')"
    by (cases "vault_finish V (or_finished r) s2 w2") (auto simp: vault_finish_def)
  with h vault_finish_state[OF hv] sent show ?thesis by auto
qed

lemma admitted_success_closes:
  "admit cfg now b = (Inr (), b') \<Longrightarrow> fst (admit cfg now' (onSuccess t b')) = Inr ()"
  by (auto simp: breaker_defs Let_def split: if_splits option.splits)

text \<open>
  A failure after the submission is not safe to retry: when the row of a submitted operation could
  not be created, the answer is 500 and the key is forgotten, so the same request sent again, under
  the same idempotency key, hands a second invocation to the chain.
\<close>

theorem vault_retry_resubmits:
  assumes "node_cache (sv_cache V) std" and "fresh_request V now headers body w"
    and "fst (admit (sv_circuit V) now (vw_breaker w)) = Inr ()"
    and "submission V r (fresh_session kind headers body w) = (Inr h, Some iv)" and "\<not> or_row_created r"
    and "submission V r' (fresh_session kind headers body w) = (Inr h', Some iv')" and "now \<le> now'"
  shows "\<exists>w1 resp w2. handleVaultOperation V now kind headers body r w = Some (vault_error_response kind VaultOther, w1)
    \<and> handleVaultOperation V now' kind headers body r' w1 = Some (resp, w2) \<and> vw_sent w2 = vw_sent w @ [iv, iv']"
proof -
  let ?s0 = "fresh_session kind headers body w" and ?k = "normalizeWalletAddress (Some (vb_walletAddress body))"
  let ?w0 = "w\<lparr>vw_locks := insert ?k (vw_locks w), vw_idem := begun_idem V now headers body w\<rparr>"
  let ?p = "next_op (vw_idem w)"
  let ?idem = "finish_execute ?p (settle (sv_cache V) (sv_ttlMs V) (or_finished r) ?p (Inl VaultOther) (begun_idem V now headers body w))"
  obtain b where b: "admit (sv_circuit V) now (vw_breaker w) = (Inr (), b)"
    using assms(3) by (cases "admit (sv_circuit V) now (vw_breaker w)") simp
  let ?wa = "?w0\<lparr>vw_breaker := b\<rparr>"
  let ?wb = "?w0\<lparr>vw_sent := vw_sent w @ [iv], vw_breaker := onSuccess (or_submitted r) b\<rparr>"
  have enter: "enter_operation V now ?s0 ?w0 = (?s0\<lparr>ss_phase := Submitting\<rparr>, ?wa)"
    by (simp add: enter_operation_def b)
  have s1: "vault_step V r (?s0\<lparr>ss_phase := Submitting\<rparr>) ?wa = (?s0\<lparr>ss_phase := Recording h\<rparr>, ?wb)"
    using assms(4) by (simp add: vault_step_def submission_def fresh_session_def)
  have s2: "vault_step V r (?s0\<lparr>ss_phase := Recording h\<rparr>) ?wb = (?s0\<lparr>ss_phase := Settling (Inl VaultOther)\<rparr>, ?wb)"
    using assms(5) by (simp add: vault_step_def)
  have s3: "vault_step V r (?s0\<lparr>ss_phase := Settling oc\<rparr>) u = (?s0\<lparr>ss_phase := Settling oc\<rparr>, u)" for oc u
    by (simp add: vault_step_def)
  have run: "run_operation V r (?s0\<lparr>ss_phase := Submitting\<rparr>, ?wa) = (?s0\<lparr>ss_phase := Settling (Inl VaultOther)\<rparr>, ?wb)"
    by (simp add: run_operation_def eval_nat_numeral s1 s2 s3)
  have "handleVaultOperation V now kind headers body r w =
      vault_finish V (or_finished r) (?s0\<lparr>ss_phase := Settling (Inl VaultOther)\<rparr>) ?wb"
    by (simp add: handleVaultOperation_def vault_start_fresh[OF assms(2)] enter run)
  also have "... = Some (vault_error_response kind VaultOther,
      (if truthy_str (idempotency_key headers) then ?wb\<lparr>vw_idem := ?idem\<rparr> else ?wb)
        \<lparr>vw_locks := vw_locks w\<rparr>)"
    using assms(2) by (simp add: vault_finish_def answer_def fresh_session_def fresh_request_def Let_def
        del: vault_error_response.simps)
  finally obtain w1 where h1: "handleVaultOperation V now kind headers body r w = Some (vault_error_response kind VaultOther, w1)"
    and w1: "vw_locks w1 = vw_locks w" "vw_sent w1 = vw_sent w @ [iv]"
      "vw_idem w1 = (if truthy_str (idempotency_key headers) then ?idem else vw_idem w)"
      "vw_breaker w1 = onSuccess (or_submitted r) b"
    by (simp add: begun_idem_def)
  have fresh: "fresh_request V now' headers body w1"
  proof (cases "truthy_str (idempotency_key headers)")
    case True
    with assms(2) have "completedResponses ?idem = completedResponses (vw_idem w)"
      "map_of (pendingResponses ?idem) (the (idempotency_key headers)) = None"
      by (simp_all add: begun_idem_def fresh_request_def begin_fresh settle_def finish_execute_def jmap.look_put jmap.look_del)
    with True assms(2) w1(1,3) node_cache.nc_expired[OF assms(1) _ assms(7)] show ?thesis
      by (simp add: fresh_request_def)
  next
    case False
    with assms(2) w1(1) show ?thesis by (simp add: fresh_request_def)
  qed
  have "submission V r' (fresh_session kind headers body w1) = (Inr h', Some iv')"
    using assms(6) by (simp add: submission_def fresh_session_def)
  from handle_fresh_sent[OF fresh _ this] admitted_success_closes[OF b, of now' "or_submitted r"] w1(4)
  obtain resp w2 where "handleVaultOperation V now' kind headers body r' w1 = Some (resp, w2)"
    "vw_sent w2 = vw_sent w1 @ [iv']" by auto
  with h1 w1(2) show ?thesis by simp
qed

section \<open>The vault totals\<close>

lemma vault_step_totals:
  assumes "decimals (sv_decimal V) val" and "prisma (sv_prisma V)"
    and "totals_wf (sv_decimal V) val (px_vaultState (sv_prisma V) (vw_db w))"
    and "0 \<le> vb_amount (ss_body s)" and "reads_back (sv_decimal V) val (sv_num V) (vb_amount (ss_body s))"
    and "vault_step V r s w = (s', w')"
  shows "totals_wf (sv_decimal V) val (px_vaultState (sv_prisma V) (vw_db w'))"
proof (cases "ss_phase s")
  case Submitting
  then have "vw_db w' = vw_db w"
    using assms(6) by (auto simp: vault_step_def Let_def split: prod.splits sum.splits)
  with assms(3) show ?thesis by simp
next
  case (Recording h)
  with assms(3,6) show ?thesis
    by (auto simp: vault_step_def prisma.vaultState_frame[OF assms(2)] split: if_splits)
next
  case (Accounting h)
  from assms(5) obtain a where a: "dc_of (sv_decimal V) (sv_num V (vb_amount (ss_body s))) = Some a"
    "val a = vb_amount (ss_body s)" by (auto simp: reads_back_def)
  have upd: "totals_wf (sv_decimal V) val (px_vaultState (sv_prisma V) db)"
    if "updateVaultStateAndSnapshot (sv_decimal V) (sv_prisma V) (ss_kind s) (sv_num V (vb_amount (ss_body s)))
          (or_accounted_at r) (or_snapshot_id r) (vw_db w) = Some db" for db
    by (rule update_totals_wf[OF assms(1-3) a(1) _ that]) (simp add: a(2) assms(4))
  show ?thesis
  proof (cases "or_accounted r \<and> updateVaultStateAndSnapshot (sv_decimal V) (sv_prisma V) (ss_kind s)
      (sv_num V (vb_amount (ss_body s))) (or_accounted_at r) (or_snapshot_id r) (vw_db w) \<noteq> None")
    case True
    then obtain db where "or_accounted r" "updateVaultStateAndSnapshot (sv_decimal V) (sv_prisma V) (ss_kind s)
      (sv_num V (vb_amount (ss_body s))) (or_accounted_at r) (or_snapshot_id r) (vw_db w) = Some db" by blast
    with Accounting assms(6) upd[of db] show ?thesis
      by (auto simp: vault_step_def complete_operation_def split: vault_kind.splits)
  next
    case False
    with Accounting assms(3,6) show ?thesis by (auto simp: vault_step_def split: if_splits)
  qed
next
  case (Referring h)
  then have "px_vaultState (sv_prisma V) (vw_db w') = px_vaultState (sv_prisma V) (vw_db w)"
    using assms(6) recordDeposit_vaultState[OF assms(2), of "sv_rx V" "or_referral_commits r" "or_finished r"
        "ss_wallet s" "vb_referralCode (ss_body s)" "(vw_db w, vw_cache w)"]
    by (auto simp: vault_step_def complete_operation_def split: prod.splits)
  with assms(3) show ?thesis by simp
qed (use assms(3,6) in \<open>simp_all add: vault_step_def\<close>)

text \<open>
  C5.  The stored totals stay sound: whatever deposits and withdrawals of non-negative amounts arrive,
  however their waits interleave and whichever replies fail, the vault's assets and shares always read
  back as decimals and are never negative.
\<close>

theorem vault_totals_nonneg:
  assumes "vault_system V ok w0 w S"
    and "decimals (sv_decimal V) val" and "prisma (sv_prisma V)"
    and "\<forall>b. ok b \<longrightarrow> 0 \<le> vb_amount b \<and> reads_back (sv_decimal V) val (sv_num V) (vb_amount b)"
    and "totals_wf (sv_decimal V) val (px_vaultState (sv_prisma V) (vw_db w0))"
  shows "totals_wf (sv_decimal V) val (px_vaultState (sv_prisma V) (vw_db w))"
proof -
  from assms(1) have "(\<forall>n s. map_of S n = Some s \<longrightarrow> ok (ss_body s))
      \<and> totals_wf (sv_decimal V) val (px_vaultState (sv_prisma V) (vw_db w))"
  proof (induction rule: vault_system.induct)
    case vault_init
    then show ?case using assms(5) by simp
  next
    case (vault_reply w S body now kind headers resp w')
    then show ?case using vault_start_Inl[OF vault_reply.hyps(3)] by simp
  next
    case (vault_begin w S body n now kind headers s w')
    then show ?case using vault_start_Inr[OF vault_begin.hyps(4)] by (auto simp: jmap.look_put split: if_splits)
  next
    case (vault_wake w S n s r s' w')
    note st = vault_step_session[OF vault_wake.hyps(3)]
    from vault_wake assms(4) have "0 \<le> vb_amount (ss_body s)"
      "reads_back (sv_decimal V) val (sv_num V) (vb_amount (ss_body s))" by blast+
    from vault_step_totals[OF assms(2,3) _ this vault_wake.hyps(3)] vault_wake st show ?case
      by (auto simp: jmap.look_put split: if_splits)
  next
    case (vault_end w S n s now resp w')
    then show ?case using vault_finish_state[OF vault_end.hyps(3)] by (auto simp: jmap.look_del split: if_splits)
  qed
  then show ?thesis by blast
qed

text \<open>
  A broken RPC is not hammered: while the breaker is open and its cool-down is not over, a new
  request is answered with 503 and the time to wait, and no invocation, row, event or mail comes of it.
\<close>

theorem vault_breaker_open:
  assumes "fresh_request V now headers body w" and "fst (admit (sv_circuit V) now (vw_breaker w)) = Inl ms"
  shows "\<exists>w'. handleVaultOperation V now kind headers body r w = Some (vault_error_response kind (VaultCircuitOpen ms), w')
    \<and> vw_sent w' = vw_sent w \<and> vw_db w' = vw_db w \<and> vw_events w' = vw_events w \<and> vw_mails w' = vw_mails w
    \<and> vw_locks w' = vw_locks w"
proof -
  let ?s0 = "fresh_session kind headers body w" and ?k = "normalizeWalletAddress (Some (vb_walletAddress body))"
  let ?w0 = "w\<lparr>vw_locks := insert ?k (vw_locks w), vw_idem := begun_idem V now headers body w\<rparr>"
  obtain b where b: "admit (sv_circuit V) now (vw_breaker w) = (Inl ms, b)"
    using assms(2) by (cases "admit (sv_circuit V) now (vw_breaker w)") simp
  let ?s1 = "?s0\<lparr>ss_phase := Settling (Inl (VaultCircuitOpen ms))\<rparr>"
  have enter: "enter_operation V now ?s0 ?w0 = (?s1, ?w0\<lparr>vw_breaker := b\<rparr>)"
    by (simp add: enter_operation_def b)
  have "vault_step V r ?s1 u = (?s1, u)" for u by (simp add: vault_step_def)
  then have run: "run_operation V r (?s1, u) = (?s1, u)" for u
    by (simp add: run_operation_def eval_nat_numeral)
  have "handleVaultOperation V now kind headers body r w = vault_finish V (or_finished r) ?s1 (?w0\<lparr>vw_breaker := b\<rparr>)"
    by (simp add: handleVaultOperation_def vault_start_fresh[OF assms(1)] enter run)
  then show ?thesis
    using assms(1) by (simp add: vault_finish_def answer_def fresh_session_def fresh_request_def Let_def
        del: vault_error_response.simps)
qed

text \<open>The result of a fresh request, computed step by step.\<close>

lemma fresh_request_result:
  assumes "fresh_request V now headers body w"
  shows "\<exists>resp w'. handleVaultOperation V now kind headers body r w = Some (resp, w')
    \<and> (fst (admit (sv_circuit V) now (vw_breaker w)) = Inr ()
       \<and> submission V r (fresh_session kind headers body w) = (Inr h, Some iv)
       \<and> or_row_created r \<and> or_accounted r
       \<and> updateVaultStateAndSnapshot (sv_decimal V) (sv_prisma V) kind (sv_num V (vb_amount body)) (or_accounted_at r)
           (or_snapshot_id r) (px_create_transaction (sv_prisma V) (vault_row V r (fresh_session kind headers body w)) (vw_db w))
           = Some db
       \<longrightarrow> rs_status resp = 201 \<and> rs_body resp = operation_body (fresh_session kind headers body w) r h)"
proof -
  let ?s0 = "fresh_session kind headers body w" and ?k = "normalizeWalletAddress (Some (vb_walletAddress body))"
  let ?w0 = "w\<lparr>vw_locks := insert ?k (vw_locks w), vw_idem := begun_idem V now headers body w\<rparr>"
  obtain s1 w1 where e: "enter_operation V now ?s0 ?w0 = (s1, w1)" by fastforce
  obtain s2 w2 where run: "run_operation V r (s1, w1) = (s2, w2)" by fastforce
  have "\<nexists>p. ss_phase s1 = Waiting p" using enter_operation_session[OF e] by blast
  from run_operation_settles[OF this, of V r w1] run obtain outcome where o: "ss_phase s2 = Settling outcome" by auto
  have h: "handleVaultOperation V now kind headers body r w = vault_finish V (or_finished r) s2 w2"
    by (simp add: handleVaultOperation_def vault_start_fresh[OF assms] e run)
  then obtain resp w' where hv: "handleVaultOperation V now kind headers body r w = Some (resp, w')"
    using o by (cases "vault_finish V (or_finished r) s2 w2") (auto simp: vault_finish_def)
  have "rs_status resp = 201 \<and> rs_body resp = operation_body ?s0 r h"
    if ad: "fst (admit (sv_circuit V) now (vw_breaker w)) = Inr ()"
      and sub: "submission V r ?s0 = (Inr h, Some iv)" and ok: "or_row_created r" "or_accounted r"
      and upd: "updateVaultStateAndSnapshot (sv_decimal V) (sv_prisma V) kind (sv_num V (vb_amount body)) (or_accounted_at r)
           (or_snapshot_id r) (px_create_transaction (sv_prisma V) (vault_row V r ?s0) (vw_db w)) = Some db"
  proof -
    from ad obtain b where b: "admit (sv_circuit V) now (vw_breaker w) = (Inr (), b)"
      by (cases "admit (sv_circuit V) now (vw_breaker w)") simp
    have s1: "s1 = ?s0\<lparr>ss_phase := Submitting\<rparr>" "vw_db w1 = vw_db w" using e by (simp_all add: enter_operation_def b, auto)
    obtain t1 u1 where 1: "vault_step V r s1 w1 = (t1, u1)" by fastforce
    then have t1: "t1 = ?s0\<lparr>ss_phase := Recording h\<rparr>" "vw_db u1 = vw_db w"
      using sub s1 by (auto simp: vault_step_def submission_def fresh_session_def)
    obtain t2 u2 where 2: "vault_step V r t1 u1 = (t2, u2)" by fastforce
    have row: "vault_row V r (?s0\<lparr>ss_phase := x\<rparr>) = vault_row V r ?s0" for x by (simp add: vault_row_def)
    from 2 ok(1) have t2: "t2 = ?s0\<lparr>ss_phase := Accounting h\<rparr>"
      "vw_db u2 = px_create_transaction (sv_prisma V) (vault_row V r ?s0) (vw_db w)"
      by (auto simp: vault_step_def t1 row)
    let ?done = "Settling (Inr \<lparr>or_statusCode = 201, or_body = operation_body ?s0 r h\<rparr>)"
    have fin: "ss_phase (fst (complete_operation V r h s u)) = ?done" if "same_request s ?s0" for s u
      using same_request_values(3)[OF that] by (simp add: complete_operation_def)
    have sk: "vault_step V r s u = (s, u)" if "ss_phase s = ?done" for s u using that by (simp add: vault_step_def)
    obtain t3 u3 where 3: "vault_step V r t2 u2 = (t3, u3)" by fastforce
    obtain t4 u4 where 4: "vault_step V r t3 u3 = (t4, u4)" by fastforce
    have "ss_phase t4 = ?done \<and> same_request t4 ?s0"
    proof (cases kind)
      case Deposit
      from 3 ok(2) upd have "t3 = ?s0\<lparr>ss_phase := Referring h\<rparr>"
        by (auto simp: vault_step_def t2 fresh_session_def Deposit)
      with 4 fin[of "?s0\<lparr>ss_phase := Referring h\<rparr>"] vault_step_same[OF 4] show ?thesis
        by (auto simp: vault_step_def same_request_def complete_operation_def split: prod.splits)
    next
      case Withdrawal
      from 3 ok(2) upd have "ss_phase t3 = ?done"
        by (auto simp: vault_step_def t2 fresh_session_def Withdrawal complete_operation_def operation_body_def)
      with sk[of t3 u3] 4 vault_step_same[OF 3] show ?thesis by (simp add: t2 same_request_def)
    qed
    moreover have "t4 = s2" using run by (simp add: run_operation_def eval_nat_numeral 1 2 3 4)
    ultimately show ?thesis using h hv
      by (auto simp: vault_finish_def answer_def success_response_def Let_def split: option.splits)
  qed
  with hv show ?thesis by blast
qed

text \<open>
  C6.  Every request that runs its own operation is answered, and when the breaker admits it, the RPC
  takes the transaction and the database commits, the answer is 201 with the hash of the transaction.
\<close>

theorem vault_request_answered:
  assumes "fresh_request V now headers body w"
  shows "\<exists>resp w'. handleVaultOperation V now kind headers body r w = Some (resp, w')
    \<and> (fst (admit (sv_circuit V) now (vw_breaker w)) = Inr ()
       \<and> submission V r (fresh_session kind headers body w) = (Inr h, Some iv)
       \<and> or_row_created r \<and> or_accounted r
       \<and> updateVaultStateAndSnapshot (sv_decimal V) (sv_prisma V) kind (sv_num V (vb_amount body)) (or_accounted_at r)
           (or_snapshot_id r) (px_create_transaction (sv_prisma V) (vault_row V r (fresh_session kind headers body w)) (vw_db w))
           = Some db
       \<longrightarrow> rs_status resp = 201 \<and> rs_body resp = operation_body (fresh_session kind headers body w) r h)"
  by (rule fresh_request_result[OF assms])

section \<open>A concrete instance\<close>

definition sample_services :: "(rat, json stored_response deadline_map, tables_db) vault_services" where
  "sample_services = \<lparr>sv_decimal = rat_decimals, sv_prisma = list_prisma, sv_cache = deadline_cache 86400000,
     sv_ttlMs = 86400000, sv_circuit = default_circuit,
     sv_sdk = \<lparr>sdk_isValidEd25519PublicKey = (\<lambda>a. a = ''GA''), sdk_fromSecret_error = (\<lambda>_. None),
               sdk_deployed_vault = (\<lambda>_. Some ''CVAULT''), sdk_Server_error = (\<lambda>_. None),
               sdk_Contract_error = (\<lambda>_. None), sdk_i128_error = (\<lambda>_. None), sdk_Number = (\<lambda>_. Some 25)\<rparr>,
     sv_env = [''STELLAR_SECRET_KEY'' \<mapsto> ''S''], sv_num = num_fixed6, sv_hash = (\<lambda>j. ''h''), sv_rx = (\<lambda>p k. False)\<rparr>"

definition sample_state :: "(json stored_response deadline_map, tables_db) vault_state" where
  "sample_state = \<lparr>vw_locks = {}, vw_idem = new_idempotency_store [], vw_breaker = new_breaker 0, vw_db = empty_db,
     vw_cache = new_lru (\<lambda>_. None), vw_sent = [], vw_events = [], vw_mails = []\<rparr>"

definition sample_body :: vault_body where
  "sample_body = \<lparr>vb_amount = 25, vb_asset = ''USDC'', vb_walletAddress = ''GA'', vb_email = None,
     vb_referralCode = None, vb_nonce = None, vb_signature = None\<rparr>"

definition sample_replies :: "bool \<Rightarrow> op_replies" where
  "sample_replies created = \<lparr>or_rpc = \<lparr>rp_getAccount = Inr (), rp_simulate = Inr SimSuccess,
       rp_send = Inr \<lparr>sr_status = ''PENDING'', sr_hash = ''abc'', sr_errorXdr = None\<rparr>\<rparr>,
     or_submitted = 10, or_row_created = created, or_row_id = ''r1'', or_row_time = 11, or_accounted = True,
     or_snapshot_id = ''s1'', or_accounted_at = 12, or_referral_commits = True, or_finished = 13, or_body_id = ''i1''\<rparr>"

definition sample_headers :: "string \<Rightarrow> string option" where
  "sample_headers = [''idempotency-key'' \<mapsto> ''k'']"

lemma sample_laws:
  "prisma (sv_prisma sample_services)" "decimals (sv_decimal sample_services) (\<lambda>r. r)"
  "node_cache (sv_cache sample_services) (86400000)" "sv_ttlMs sample_services = 86400000"
  by (simp_all add: sample_services_def list_prisma_laws rat_decimals_laws deadline.node_cache_axioms)

lemma sample_wallet: "normalizeWalletAddress (Some ''GA'') = ''GA''"
  by code_simp

lemma sample_fresh: "fresh_request sample_services 5 sample_headers sample_body sample_state"
  by (simp add: fresh_request_def sample_body_def sample_wallet sample_state_def sample_services_def
      deadline_cache_def dm_get_def new_idempotency_store_def)

lemma sample_key: "idempotency_key sample_headers = Some ''k''" "truthy_str (idempotency_key sample_headers)"
  by (simp_all add: idempotency_key_def sample_headers_def js_or_def truthy_str_def)

lemma sample_admit: "admit (sv_circuit sample_services) 5 (vw_breaker sample_state) = (Inr (), new_breaker 0)"
  by (simp add: sample_services_def sample_state_def admit_def maybeTransitionToHalfOpen_def new_breaker_def)

definition sample_invocation :: invocation where
  "sample_invocation = \<lparr>iv_contract = ''CVAULT'', iv_function = Deposit, iv_wallet = ''GA'', iv_amount = 25,
     iv_asset = ''USDC'', iv_network = testnet_passphrase\<rparr>"

lemma sample_submission:
  "submission sample_services (sample_replies c) (fresh_session Deposit sample_headers sample_body w) =
     (Inr ''abc'', Some sample_invocation)"
proof -
  have e: "validateEnvironment (sv_sdk sample_services) (sv_env sample_services) = Inr ()"
    "getSourceKeypair (sv_sdk sample_services) (sv_env sample_services) = Inr ()"
    "getRpcClient (sv_sdk sample_services) (sv_env sample_services) = Inr (rpc_url (sv_env sample_services))"
    "resolveContractId (sv_sdk sample_services) (sv_env sample_services) = Inr ''CVAULT''"
    "resolveNetworkPassphrase (sv_env sample_services) = testnet_passphrase"
    by (simp_all add: sample_services_def validateEnvironment_def getSourceKeypair_def getRpcClient_def
        resolveContractId_def resolveNetworkPassphrase_def env_or_def truthy_str_def Let_def)
  have s: "sdk_isValidEd25519PublicKey (sv_sdk sample_services) ''GA''" "sdk_Number (sv_sdk sample_services) x = Some 25"
    "sdk_Contract_error (sv_sdk sample_services) x = None" "sdk_i128_error (sv_sdk sample_services) n = None"
    for x n by (simp_all add: sample_services_def)
  show ?thesis using js_round_int[of 25]
    by (simp add: submission_def submitVaultOperation_def e s sample_replies_def fresh_session_def sample_body_def
        after_simulation_def after_send_def sample_invocation_def)
qed

lemma sample_reads: "reads_back rat_decimals (\<lambda>r. r) num_fixed6 25"
  using reads_back_int[of 25] by simp

lemma sample_accounted:
  "\<exists>db'. updateVaultStateAndSnapshot (sv_decimal sample_services) (sv_prisma sample_services) Deposit
     (sv_num sample_services 25) t i (db\<lparr>tb_vaultState := None\<rparr>) = Some db'"
  using sample_reads
  by (auto simp: sample_services_def updateVaultStateAndSnapshot_def reads_back_def list_prisma_def Let_def
      split: prod.splits)

theorem vault_request_answered_witness:
  "\<exists>resp w'. handleVaultOperation sample_services 5 Deposit sample_headers sample_body (sample_replies True) sample_state
     = Some (resp, w') \<and> rs_status resp = 201"
proof -
  let ?row = "vault_row sample_services (sample_replies True) (fresh_session Deposit sample_headers sample_body sample_state)"
  have "px_create_transaction (sv_prisma sample_services) ?row (vw_db sample_state) =
      empty_db\<lparr>tb_transactions := [?row], tb_vaultState := None\<rparr>"
    by (simp add: sample_services_def list_prisma_def sample_state_def empty_db_def)
  with sample_accounted[of "or_accounted_at (sample_replies True)" "or_snapshot_id (sample_replies True)"
      "empty_db\<lparr>tb_transactions := [?row]\<rparr>"]
  obtain db where "updateVaultStateAndSnapshot (sv_decimal sample_services) (sv_prisma sample_services) Deposit
     (sv_num sample_services (vb_amount sample_body)) (or_accounted_at (sample_replies True))
     (or_snapshot_id (sample_replies True)) (px_create_transaction (sv_prisma sample_services) ?row (vw_db sample_state))
     = Some db" by (auto simp: sample_body_def)
  with vault_request_answered[OF sample_fresh, where kind = Deposit and r = "sample_replies True" and h = "''abc''"
      and iv = sample_invocation and db = db] sample_admit sample_submission[of True sample_state] show ?thesis
    by (auto simp: sample_replies_def)
qed

text \<open>The sample request, run to its answer.\<close>

lemma sample_run:
  "\<exists>resp w'. handleVaultOperation sample_services 5 Deposit sample_headers sample_body (sample_replies True) sample_state
     = Some (resp, w') \<and> rs_status resp = 201"
proof -
  let ?row = "vault_row sample_services (sample_replies True) (fresh_session Deposit sample_headers sample_body sample_state)"
  have "px_create_transaction (sv_prisma sample_services) ?row (vw_db sample_state) =
      empty_db\<lparr>tb_transactions := [?row], tb_vaultState := None\<rparr>"
    by (simp add: sample_services_def list_prisma_def sample_state_def empty_db_def)
  with sample_accounted[of "or_accounted_at (sample_replies True)" "or_snapshot_id (sample_replies True)"
      "empty_db\<lparr>tb_transactions := [?row]\<rparr>"]
  obtain db where "updateVaultStateAndSnapshot (sv_decimal sample_services) (sv_prisma sample_services) Deposit
     (sv_num sample_services (vb_amount sample_body)) (or_accounted_at (sample_replies True))
     (or_snapshot_id (sample_replies True)) (px_create_transaction (sv_prisma sample_services) ?row (vw_db sample_state))
     = Some db" by (auto simp: sample_body_def)
  with fresh_request_result[OF sample_fresh, where kind = Deposit and r = "sample_replies True" and h = "''abc''"
      and iv = sample_invocation and db = db] sample_admit sample_submission[of True sample_state] show ?thesis
    by (auto simp: sample_replies_def)
qed

theorem vault_success_recorded_witness:
  "\<exists>resp w'. handleVaultOperation sample_services 5 Deposit sample_headers sample_body (sample_replies True) sample_state
        = Some (resp, w')
    \<and> length (vw_sent w') = 1 \<and> vw_locks w' = {} \<and> length (tb_transactions (vw_db w')) = 1"
proof -
  obtain resp w' where h: "handleVaultOperation sample_services 5 Deposit sample_headers sample_body (sample_replies True)
      sample_state = Some (resp, w')" "rs_status resp = 201" using sample_run by blast
  from vault_success_recorded[OF sample_laws(1) sample_fresh h(1)] h(2)
  have "length (vw_sent w') = 1 \<and> vw_locks w' = {} \<and> mset (px_transactions (sv_prisma sample_services) (vw_db w')) =
      {#vault_row sample_services (sample_replies True) (fresh_session Deposit sample_headers sample_body sample_state)#}"
    by (auto simp: sample_state_def sample_services_def list_prisma_def empty_db_def)
  moreover have "px_transactions (sv_prisma sample_services) = tb_transactions"
    by (simp add: sample_services_def list_prisma_def)
  ultimately show ?thesis using h(1) by (metis mset_single_iff_right length_Cons list.size(3) One_nat_def)
qed

theorem vault_retry_replays_witness:
  "\<exists>resp w' w''. handleVaultOperation sample_services 5 Deposit sample_headers sample_body (sample_replies True) sample_state
      = Some (resp, w')
    \<and> handleVaultOperation sample_services 20 Deposit sample_headers sample_body (sample_replies True) w'
      = Some (send_json_with [(''idempotency-status'', JStr ''replayed'')] 201 (rs_body resp), w'')
    \<and> vw_sent w'' = vw_sent w'"
proof -
  obtain resp w' where h: "handleVaultOperation sample_services 5 Deposit sample_headers sample_body (sample_replies True)
      sample_state = Some (resp, w')" "rs_status resp = 201" using sample_run by blast
  have "(20 :: int) < or_finished (sample_replies True) + sv_ttlMs sample_services"
    by (simp add: sample_replies_def sample_laws)
  from vault_retry_replays[OF sample_laws(1) sample_laws(3) sample_fresh sample_key(2) h this] h(1)
  show ?thesis by blast
qed

theorem vault_retry_resubmits_witness:
  "\<exists>w1 resp w2. handleVaultOperation sample_services 5 Deposit sample_headers sample_body (sample_replies False) sample_state
      = Some (vault_error_response Deposit VaultOther, w1)
    \<and> handleVaultOperation sample_services 20 Deposit sample_headers sample_body (sample_replies True) w1 = Some (resp, w2)
    \<and> vw_sent w2 = [sample_invocation, sample_invocation]"
proof -
  have "\<not> or_row_created (sample_replies False)" "(5 :: int) \<le> 20" by (simp_all add: sample_replies_def)
  from vault_retry_resubmits[OF sample_laws(3) sample_fresh _ sample_submission this(1) sample_submission this(2)]
    sample_admit show ?thesis by (simp add: sample_state_def)
qed

definition open_state :: "(json stored_response deadline_map, tables_db) vault_state" where
  "open_state = sample_state\<lparr>vw_breaker := \<lparr>cb_state = OPEN, cb_failures = 5, cb_windowStart = 0, cb_openedAt = Some 4\<rparr>\<rparr>"

theorem vault_breaker_open_witness:
  "\<exists>w'. handleVaultOperation sample_services 5 Deposit sample_headers sample_body (sample_replies True) open_state
      = Some (vault_error_response Deposit (VaultCircuitOpen 29999), w') \<and> vw_sent w' = []"
proof -
  have f: "fresh_request sample_services 5 sample_headers sample_body open_state"
    using sample_fresh by (simp add: fresh_request_def open_state_def)
  have "fst (admit (sv_circuit sample_services) 5 (vw_breaker open_state)) = Inl 29999"
    by (simp add: sample_services_def open_state_def admit_def maybeTransitionToHalfOpen_def retryAfterMs_def
        default_circuit_def)
  from vault_breaker_open[OF f this, of Deposit "sample_replies True"] show ?thesis
    by (auto simp: open_state_def sample_state_def)
qed

text \<open>A reachable state with the sample request waiting for the RPC.\<close>

lemma sample_free:
  "normalizeWalletAddress (Some (vb_walletAddress sample_body)) = ''GA''" "vw_locks sample_state = {}"
  by (simp_all add: sample_body_def sample_wallet sample_state_def)

lemma sample_system:
  "\<exists>w s. vault_system sample_services (\<lambda>b. b = sample_body) sample_state w [(0, s)] \<and> ss_wallet s = ''GA''"
proof -
  let ?w0 = "sample_state\<lparr>vw_locks := {''GA''}, vw_idem := begun_idem sample_services 5 sample_headers sample_body sample_state\<rparr>"
  obtain s w where e: "enter_operation sample_services 5 (fresh_session Deposit sample_headers sample_body sample_state) ?w0 = (s, w)"
    by fastforce
  have "ss_wallet s = ''GA''" using enter_operation_session[OF e] by (simp add: fresh_session_def sample_body_def sample_wallet)
  moreover have "vault_start sample_services 5 Deposit sample_headers sample_body sample_state = (Inr s, w)"
    using e by (simp add: vault_start_fresh[OF sample_fresh] sample_free)
  from vault_begin[OF vault_init _ _ this, of "\<lambda>b. b = sample_body" 0]
  have "vault_system sample_services (\<lambda>b. b = sample_body) sample_state w [(0, s)]" by simp
  ultimately show ?thesis by blast
qed

theorem vault_wallet_exclusive_witness:
  "\<exists>w S. vault_system sample_services (\<lambda>b. b = sample_body) sample_state w S \<and> vw_locks w = {''GA''}"
proof -
  obtain w s where h: "vault_system sample_services (\<lambda>b. b = sample_body) sample_state w [(0, s)]" "ss_wallet s = ''GA''"
    using sample_system by blast
  have "ran (map_of [(0 :: nat, s)]) = {s}" by (auto simp: ran_def)
  with vault_wallet_exclusive[OF h(1) sample_free(2)] h have "vw_locks w = {''GA''}" by simp
  with h(1) show ?thesis by blast
qed

theorem vault_totals_nonneg_witness:
  "\<exists>w S. vault_system sample_services (\<lambda>b. b = sample_body) sample_state w S \<and> S \<noteq> []
    \<and> totals_wf (sv_decimal sample_services) (\<lambda>r. r) (px_vaultState (sv_prisma sample_services) (vw_db w))"
proof -
  obtain w s where h: "vault_system sample_services (\<lambda>b. b = sample_body) sample_state w [(0, s)]"
    using sample_system by blast
  have "\<forall>b. b = sample_body \<longrightarrow> 0 \<le> vb_amount b
      \<and> reads_back (sv_decimal sample_services) (\<lambda>r. r) (sv_num sample_services) (vb_amount b)"
    using sample_reads by (simp add: sample_body_def sample_services_def)
  moreover have "totals_wf (sv_decimal sample_services) (\<lambda>r. r) (px_vaultState (sv_prisma sample_services) (vw_db sample_state))"
    by (simp add: totals_wf_def sample_services_def list_prisma_def sample_state_def empty_db_def)
  ultimately show ?thesis using vault_totals_nonneg[OF h sample_laws(2,1)] h by blast
qed

end
