(* ===== verification/Webhooks.thy ===== *)
theory Webhooks
  imports Http Calendar Base64
begin

text \<open>
  Webhooks (\<open>backend/src/webhookDelivery.ts\<close>): the registry of endpoints and their verification, the
  emission of transaction events, delivery with retries and dead letters, and the listings.  A
  function that waits for an endpoint is split at the wait; what it holds across the wait is a value,
  as in the source, where the endpoint objects in the registry are replaced and never changed in
  place.  Deliveries and dead letters are changed in place through references the retries keep, so
  they live in a heap and the lists hold references.

  Arguments stand for what is not the program's own: \<open>hash\<close> (SHA-256 in hexadecimal), \<open>hmac\<close>, URL
  parsing (\<open>protocol\<close>), the random identifiers and tokens, and the replies of the endpoints.  The
  table the endpoints are copied to is never read, so writing it is left out.
\<close>

section \<open>Data\<close>

datatype event_type = DepositCreated | WithdrawalCreated

fun show_event :: "event_type \<Rightarrow> string" where
  "show_event DepositCreated = ''transaction.deposit.created''"
| "show_event WithdrawalCreated = ''transaction.withdrawal.created''"

datatype verification_status = Unverified | Verified | Unconfirmed

fun show_verification :: "verification_status \<Rightarrow> string" where
  "show_verification Unverified = ''pending''"
| "show_verification Verified = ''verified''"
| "show_verification Unconfirmed = ''failed''"

record webhook_endpoint =
  we_id :: string
  we_url :: string
  we_eventTypes :: "event_type list"
  we_enabled :: bool
  we_secret :: "string option"
  we_secretHash :: "string option"
  we_verificationStatus :: verification_status
  we_challengeToken :: "string option"
  we_challengeTokenHash :: "string option"
  we_challengeExpiresAt :: "time option"
  we_verifiedAt :: "time option"
  we_lastVerificationError :: "string option"
  we_createdAt :: time
  we_updatedAt :: time
  we_deletedAt :: "time option"
  we_deletedBy :: "string option"

record endpoint_view =
  ev_id :: string
  ev_url :: string
  ev_eventTypes :: "event_type list"
  ev_enabled :: bool
  ev_hasSecret :: bool
  ev_verificationStatus :: verification_status
  ev_verifiedAt :: "time option"
  ev_lastVerificationError :: "string option"
  ev_createdAt :: time
  ev_updatedAt :: time
  ev_deletedAt :: "time option"
  ev_deletedBy :: "string option"

datatype delivery_status = DeliveryPending | Delivered | DeliveryFailed

record delivery_record =
  de_id :: string
  de_endpointId :: string
  de_endpointUrl :: string
  de_eventType :: event_type
  de_status :: delivery_status
  de_attempts :: int
  de_createdAt :: time
  de_updatedAt :: time
  de_deliveredAt :: "time option"
  de_lastError :: "string option"

datatype letter_status = InDeadLetter | Requeued | LetterDelivered

record dead_letter =
  dl_id :: string
  dl_endpointId :: string
  dl_endpointUrl :: string
  dl_eventType :: event_type
  dl_payload :: json
  dl_attempts :: int
  dl_lastError :: "string option"
  dl_originalDeliveryId :: "string option"
  dl_status :: letter_status
  dl_createdAt :: time
  dl_updatedAt :: time
  dl_retriedAt :: "time option"

record webhook_state =
  wh_endpoints :: "(string, webhook_endpoint) js_map"
  wh_deliveries :: "nat list"
  wh_records :: "(nat, delivery_record) js_map"
  wh_deadLetters :: "nat list"
  wh_letters :: "(nat, dead_letter) js_map"
  wh_next :: nat

definition empty_webhooks :: webhook_state where
  "empty_webhooks = \<lparr>wh_endpoints = [], wh_deliveries = [], wh_records = [], wh_deadLetters = [],
     wh_letters = [], wh_next = 0\<rparr>"

section \<open>Configuration\<close>

text \<open>The constants of the module; \<^const>\<open>None\<close> when one of the numbers does not parse.  The timeout
  only reaches the timer of a request, and the metrics.\<close>

record webhook_config =
  wc_retryBaseDelayMs :: int
  wc_deliveryRetention :: int
  wc_jitterFactor :: rat
  wc_jitterMaxMs :: int
  wc_challengeTtlMs :: int
  wc_deliveryTimeoutMs :: "int option"

definition load_webhook_config :: "env \<Rightarrow> webhook_config option" where
  "load_webhook_config E =
     (case (js_parse_int (env_or E ''WEBHOOK_RETRY_BASE_DELAY_MS'' ''500''),
            js_parse_int (env_or E ''WEBHOOK_DELIVERY_RETENTION'' ''200''),
            js_parse_float (env_or E ''WEBHOOK_JITTER_FACTOR'' ''0.5''),
            js_parse_int (env_or E ''WEBHOOK_JITTER_MAX_MS'' ''30000''),
            js_parse_int (env_or E ''WEBHOOK_CHALLENGE_TTL_SECONDS'' ''900'')) of
        (Some base, Some retention, Some factor, Some cap, Some ttl) \<Rightarrow>
          Some \<lparr>wc_retryBaseDelayMs = base, wc_deliveryRetention = retention, wc_jitterFactor = factor,
                wc_jitterMaxMs = cap, wc_challengeTtlMs = ttl * 1000,
                wc_deliveryTimeoutMs = js_parse_int (env_or E ''WEBHOOK_DELIVERY_TIMEOUT_MS'' ''5000'')\<rparr>
      | _ \<Rightarrow> None)"

definition getMaxAttempts :: "env \<Rightarrow> int option" where
  "getMaxAttempts E = js_parse_int (env_or E ''WEBHOOK_MAX_ATTEMPTS'' ''3'')"

definition isUnverifiedDeliveryAllowed :: "env \<Rightarrow> bool" where
  "isUnverifiedDeliveryAllowed E =
     (case E ''WEBHOOK_ALLOW_UNVERIFIED'' of
        Some v \<Rightarrow> v = ''true''
      | None \<Rightarrow> E ''NODE_ENV'' = Some ''test'')"

section \<open>Registry\<close>

definition sanitizeWebhookEndpoint :: "webhook_endpoint \<Rightarrow> endpoint_view" where
  "sanitizeWebhookEndpoint e =
     \<lparr>ev_id = we_id e, ev_url = we_url e, ev_eventTypes = we_eventTypes e, ev_enabled = we_enabled e,
      ev_hasSecret = truthy_str (we_secretHash e), ev_verificationStatus = we_verificationStatus e,
      ev_verifiedAt = we_verifiedAt e, ev_lastVerificationError = we_lastVerificationError e,
      ev_createdAt = we_createdAt e, ev_updatedAt = we_updatedAt e, ev_deletedAt = we_deletedAt e,
      ev_deletedBy = we_deletedBy e\<rparr>"

text \<open>\<open>!existing || existing.deletedAt\<close>: the endpoint, if it is registered and not deleted.\<close>

definition live_endpoint :: "string \<Rightarrow> webhook_state \<Rightarrow> webhook_endpoint option" where
  "live_endpoint ident s =
     (case map_of (wh_endpoints s) ident of
        None \<Rightarrow> None
      | Some e \<Rightarrow> if we_deletedAt e \<noteq> None then None else Some e)"

definition put_endpoint :: "string \<Rightarrow> webhook_endpoint \<Rightarrow> webhook_state \<Rightarrow> webhook_state" where
  "put_endpoint ident e s = s\<lparr>wh_endpoints := AList.update ident e (wh_endpoints s)\<rparr>"

definition assertValidWebhookUrl :: "(string \<Rightarrow> string option) \<Rightarrow> string \<Rightarrow> string option" where
  "assertValidWebhookUrl protocol url =
     (case protocol url of
        None \<Rightarrow> Some ''Webhook url must be a valid URL''
      | Some p \<Rightarrow> if p \<notin> {''http:'', ''https:''} then Some ''Webhook url protocol must be http or https'' else None)"

section \<open>Verification\<close>

text \<open>\<open>verifyWebhookEndpoint\<close> up to its wait: it returns at once, or it probes the endpoint object it
  read, whose challenge it sends.\<close>

datatype verify_step = VerifyDone "endpoint_view option" | Probing webhook_endpoint

definition verify_begin :: "time \<Rightarrow> string \<Rightarrow> webhook_state \<Rightarrow> verify_step \<times> webhook_state" where
  "verify_begin now ident s =
     (case live_endpoint ident s of
        None \<Rightarrow> (VerifyDone None, s)
      | Some existing \<Rightarrow>
          (case we_challengeExpiresAt existing of
             None \<Rightarrow> (Probing existing, s)
           | Some t \<Rightarrow>
               if t \<le> now then
                 let expired = existing\<lparr>we_verificationStatus := Unconfirmed,
                       we_lastVerificationError := Some ''Verification challenge expired'', we_updatedAt := now\<rparr>
                 in (VerifyDone (Some (sanitizeWebhookEndpoint expired)), put_endpoint ident expired s)
               else (Probing existing, s)))"

text \<open>What the probed endpoint answers: a rejected request with its message, or a response with its
  status, its challenge header, and the challenge in its JSON body.\<close>

record probe_response =
  pr_status :: int
  pr_header :: "string option"
  pr_body_challenge :: "string option"

definition http_ok :: "int \<Rightarrow> bool" where
  "http_ok status \<longleftrightarrow> 200 \<le> status \<and> status < 300"

definition probeWebhookVerification :: "webhook_endpoint \<Rightarrow> string + probe_response \<Rightarrow> string + bool" where
  "probeWebhookVerification endpoint reply =
     (if \<not> truthy_str (we_challengeToken endpoint) then Inr False
      else case reply of
             Inl m \<Rightarrow> Inl m
           | Inr r \<Rightarrow>
               if \<not> http_ok (pr_status r) then
                 Inl (''Verification endpoint returned HTTP '' @ show_int (pr_status r))
               else Inr (pr_header r = we_challengeToken endpoint \<or> pr_body_challenge r = we_challengeToken endpoint))"

definition verify_end ::
  "time \<Rightarrow> string \<Rightarrow> webhook_endpoint \<Rightarrow> string + probe_response \<Rightarrow> webhook_state \<Rightarrow> endpoint_view \<times> webhook_state" where
  "verify_end now ident existing reply s =
     (let result =
        (case probeWebhookVerification existing reply of
           Inl m \<Rightarrow> existing\<lparr>we_verificationStatus := Unconfirmed, we_lastVerificationError := Some m, we_updatedAt := now\<rparr>
         | Inr verified \<Rightarrow>
             if \<not> verified then
               existing\<lparr>we_verificationStatus := Unconfirmed,
                 we_lastVerificationError := Some ''Challenge response did not match'', we_updatedAt := now\<rparr>
             else
               existing\<lparr>we_verificationStatus := Verified, we_verifiedAt := Some now, we_enabled := True,
                 we_challengeToken := None, we_lastVerificationError := None, we_updatedAt := now\<rparr>)
      in (sanitizeWebhookEndpoint result, put_endpoint ident result s))"

section \<open>Changes of the registry\<close>

record register_input =
  ri_url :: string
  ri_eventTypes :: "event_type list option"
  ri_enabled :: "bool option"
  ri_secret :: "string option"

definition new_endpoint ::
  "(string \<Rightarrow> string) \<Rightarrow> env \<Rightarrow> webhook_config \<Rightarrow> time \<Rightarrow> string \<Rightarrow> string \<Rightarrow> register_input \<Rightarrow> webhook_endpoint" where
  "new_endpoint hash E cfg now ident challengeToken input =
     \<lparr>we_id = ident, we_url = ri_url input,
      we_eventTypes = (case ri_eventTypes input of
         Some ts \<Rightarrow> if ts \<noteq> [] then ts else [DepositCreated, WithdrawalCreated]
       | None \<Rightarrow> [DepositCreated, WithdrawalCreated]),
      we_enabled = nullish (ri_enabled input) (isUnverifiedDeliveryAllowed E),
      we_secret = ri_secret input,
      we_secretHash = (if truthy_str (ri_secret input) then Some (hash (the (ri_secret input))) else None),
      we_verificationStatus = Unverified, we_challengeToken = Some challengeToken,
      we_challengeTokenHash = Some (hash challengeToken),
      we_challengeExpiresAt = Some (now + wc_challengeTtlMs cfg),
      we_verifiedAt = None, we_lastVerificationError = None, we_createdAt = now, we_updatedAt = now,
      we_deletedAt = None, we_deletedBy = None\<rparr>"

text \<open>\<open>registerWebhookEndpoint\<close>: a thrown error, or the registered endpoint as the caller sees it and
  the step the verification it started is in.\<close>

definition registerWebhookEndpoint ::
  "(string \<Rightarrow> string) \<Rightarrow> (string \<Rightarrow> string option) \<Rightarrow> env \<Rightarrow> webhook_config \<Rightarrow> time \<Rightarrow> string \<Rightarrow> string \<Rightarrow>
   register_input \<Rightarrow> webhook_state \<Rightarrow> (string + endpoint_view \<times> verify_step) \<times> webhook_state" where
  "registerWebhookEndpoint hash protocol E cfg now ident challengeToken input s =
     (case assertValidWebhookUrl protocol (ri_url input) of
        Some m \<Rightarrow> (Inl m, s)
      | None \<Rightarrow>
          let endpoint = new_endpoint hash E cfg now ident challengeToken input;
              (step, s2) = verify_begin now ident (put_endpoint ident endpoint s)
          in (Inr (sanitizeWebhookEndpoint endpoint, step), s2))"

record update_input =
  ui_enabled :: "bool option"
  ui_eventTypes :: "event_type list option"
  ui_secret :: "string option"

text \<open>A thrown error, or \<open>null\<close>, or the endpoint as the caller sees it.\<close>

definition updateWebhookEndpoint ::
  "(string \<Rightarrow> string) \<Rightarrow> time \<Rightarrow> string \<Rightarrow> update_input \<Rightarrow> webhook_state \<Rightarrow>
   (string + endpoint_view option) \<times> webhook_state" where
  "updateWebhookEndpoint hash now ident input s =
     (case live_endpoint ident s of
        None \<Rightarrow> (Inr None, s)
      | Some existing \<Rightarrow>
          if ui_eventTypes input = Some [] then (Inl ''eventTypes cannot be empty'', s)
          else
            let updated = existing
              \<lparr>we_enabled := nullish (ui_enabled input) (we_enabled existing),
               we_eventTypes := nullish (ui_eventTypes input) (we_eventTypes existing),
               we_secret := (case ui_secret input of Some x \<Rightarrow> Some x | None \<Rightarrow> we_secret existing),
               we_secretHash := (case ui_secret input of Some x \<Rightarrow> Some (hash x) | None \<Rightarrow> we_secretHash existing),
               we_updatedAt := now\<rparr>
            in (Inr (Some (sanitizeWebhookEndpoint updated)), put_endpoint ident updated s))"

definition deleteWebhookEndpoint ::
  "time \<Rightarrow> string \<Rightarrow> string \<Rightarrow> webhook_state \<Rightarrow> endpoint_view option \<times> webhook_state" where
  "deleteWebhookEndpoint now ident actor s =
     (case live_endpoint ident s of
        None \<Rightarrow> (None, s)
      | Some existing \<Rightarrow>
          let updated = existing\<lparr>we_deletedAt := Some now, we_deletedBy := Some actor, we_updatedAt := now\<rparr>
          in (Some (sanitizeWebhookEndpoint updated), put_endpoint ident updated s))"

definition restoreWebhookEndpoint :: "time \<Rightarrow> string \<Rightarrow> webhook_state \<Rightarrow> endpoint_view option \<times> webhook_state" where
  "restoreWebhookEndpoint now ident s =
     (case map_of (wh_endpoints s) ident of
        None \<Rightarrow> (None, s)
      | Some existing \<Rightarrow>
          if we_deletedAt existing = None then (None, s)
          else
            let updated = existing\<lparr>we_deletedAt := None, we_deletedBy := None, we_updatedAt := now\<rparr>
            in (Some (sanitizeWebhookEndpoint updated), put_endpoint ident updated s))"

definition listWebhookEndpoints :: "bool \<Rightarrow> webhook_state \<Rightarrow> endpoint_view list" where
  "listWebhookEndpoints includeDeleted s =
     map sanitizeWebhookEndpoint
       (js_sort (\<lambda>a b. we_createdAt a < we_createdAt b)
         (filter (\<lambda>e. includeDeleted \<or> we_deletedAt e = None) (map snd (wh_endpoints s))))"

section \<open>Emission and delivery\<close>

definition createWebhookSignature ::
  "(string \<Rightarrow> string \<Rightarrow> string) \<Rightarrow> (json \<Rightarrow> string) \<Rightarrow> string \<Rightarrow> json \<Rightarrow> string" where
  "createWebhookSignature hmac stringify secret payload = hmac secret (stringify payload)"

definition verifyWebhookSignature ::
  "(string \<Rightarrow> string \<Rightarrow> string) \<Rightarrow> (json \<Rightarrow> string) \<Rightarrow> string \<Rightarrow> json \<Rightarrow> string \<Rightarrow> bool" where
  "verifyWebhookSignature hmac stringify secret payload signature =
     (let expected = createWebhookSignature hmac stringify secret payload
      in if length signature \<noteq> length expected then False else signature = expected)"

text \<open>One call of \<open>deliverWithRetry\<close>: the endpoint object, the delivery it updates, the payload and the
  number of the attempt.\<close>

record attempt =
  at_endpoint :: webhook_endpoint
  at_delivery :: nat
  at_payload :: json
  at_attempt :: int

record outgoing =
  og_url :: string
  og_headers :: "(string \<times> string) list"
  og_body :: string

definition update_record :: "nat \<Rightarrow> (delivery_record \<Rightarrow> delivery_record) \<Rightarrow> webhook_state \<Rightarrow> webhook_state" where
  "update_record d f s =
     (case map_of (wh_records s) d of
        None \<Rightarrow> s
      | Some r \<Rightarrow> s\<lparr>wh_records := AList.update d (f r) (wh_records s)\<rparr>)"

definition envelope :: "time \<Rightarrow> event_type \<Rightarrow> json \<Rightarrow> json" where
  "envelope now ev payload =
     JObj [(''eventType'', JStr (show_event ev)), (''sentAt'', JStr (to_iso_string now)), (''payload'', payload)]"

text \<open>Up to the wait for the endpoint: the attempt is counted and the request sent.  \<open>r\<close> is the
  delivery's record.\<close>

definition outgoing_request ::
  "(string \<Rightarrow> string \<Rightarrow> string) \<Rightarrow> (json \<Rightarrow> string) \<Rightarrow> time \<Rightarrow> attempt \<Rightarrow> delivery_record \<Rightarrow> outgoing" where
  "outgoing_request hmac stringify now a r =
     (let env = envelope now (de_eventType r) (at_payload a);
          headers = [(''Content-Type'', ''application/json''), (''User-Agent'', ''YieldVault-Webhook-Delivery/1.0''),
            (''X-YieldVault-Event'', show_event (de_eventType r)), (''X-YieldVault-Delivery-Id'', de_id r)];
          secret = we_secret (at_endpoint a)
      in \<lparr>og_url = we_url (at_endpoint a),
          og_headers = (if truthy_str secret
             then headers @ [(''X-YieldVault-Signature'', createWebhookSignature hmac stringify (the secret) env)]
             else headers),
          og_body = stringify env\<rparr>)"

definition attempt_begin :: "time \<Rightarrow> attempt \<Rightarrow> webhook_state \<Rightarrow> webhook_state" where
  "attempt_begin now a s =
     update_record (at_delivery a) (\<lambda>r. r\<lparr>de_attempts := at_attempt a, de_updatedAt := now\<rparr>) s"

text \<open>\<open>calculateBackoffDelay\<close>: \<open>u\<close> is the value of \<open>Math.random\<close>.\<close>

definition pow2 :: "int \<Rightarrow> rat" where
  "pow2 n = (if 0 \<le> n then 2 ^ nat n else 1 / 2 ^ nat (- n))"

definition calculateBackoffDelay :: "webhook_config \<Rightarrow> rat \<Rightarrow> int \<Rightarrow> int" where
  "calculateBackoffDelay cfg u attempt =
     (let baseDelay = of_int (wc_retryBaseDelayMs cfg) * pow2 (attempt - 1);
          jitterRange = min (baseDelay * wc_jitterFactor cfg) (of_int (wc_jitterMaxMs cfg));
          jitter = (u * 2 - 1) * jitterRange
      in max 100 (js_round (baseDelay + jitter)))"

definition new_letter :: "time \<Rightarrow> string \<Rightarrow> attempt \<Rightarrow> delivery_record \<Rightarrow> dead_letter" where
  "new_letter now ident a r =
     \<lparr>dl_id = ident, dl_endpointId = we_id (at_endpoint a), dl_endpointUrl = we_url (at_endpoint a),
      dl_eventType = de_eventType r, dl_payload = at_payload a, dl_attempts = de_attempts r,
      dl_lastError = de_lastError r, dl_originalDeliveryId = Some (de_id r), dl_status = InDeadLetter,
      dl_createdAt = now, dl_updatedAt = now, dl_retriedAt = None\<rparr>"

definition add_letter :: "dead_letter \<Rightarrow> webhook_state \<Rightarrow> webhook_state" where
  "add_letter l s = s\<lparr>wh_deadLetters := wh_next s # wh_deadLetters s,
     wh_letters := AList.update (wh_next s) l (wh_letters s), wh_next := Suc (wh_next s)\<rparr>"

text \<open>The reply of an endpoint to a delivery, when the program sees it, with the random values drawn
  then.\<close>

record attempt_reply =
  ar_reply :: "string + int"
  ar_random :: rat
  ar_letter_id :: string

definition reply_error :: "string + int \<Rightarrow> string option" where
  "reply_error reply =
     (case reply of
        Inl m \<Rightarrow> Some m
      | Inr status \<Rightarrow> if http_ok status then None else Some (''Webhook returned HTTP '' @ show_int status))"

text \<open>After the wait: the next attempt with the delay after which it starts, if there is one.\<close>

definition attempt_end ::
  "env \<Rightarrow> webhook_config \<Rightarrow> time \<Rightarrow> attempt_reply \<Rightarrow> attempt \<Rightarrow> webhook_state \<Rightarrow>
   (attempt \<times> int) option \<times> webhook_state" where
  "attempt_end E cfg now reply a s =
     (case reply_error (ar_reply reply) of
        None \<Rightarrow>
          (None, update_record (at_delivery a)
             (\<lambda>r. r\<lparr>de_status := Delivered, de_deliveredAt := Some now, de_updatedAt := now, de_lastError := None\<rparr>) s)
      | Some m \<Rightarrow>
          let s1 = update_record (at_delivery a) (\<lambda>r. r\<lparr>de_lastError := Some m\<rparr>) s
          in if (case getMaxAttempts E of None \<Rightarrow> False | Some n \<Rightarrow> at_attempt a < n) then
               (Some (a\<lparr>at_attempt := at_attempt a + 1\<rparr>, calculateBackoffDelay cfg (ar_random reply) (at_attempt a)), s1)
             else
               let s2 = update_record (at_delivery a) (\<lambda>r. r\<lparr>de_status := DeliveryFailed, de_updatedAt := now\<rparr>) s1
               in (None, case map_of (wh_records s2) (at_delivery a) of
                           None \<Rightarrow> s2
                         | Some r \<Rightarrow> add_letter (new_letter now (ar_letter_id reply) a r) s2))"

definition active_endpoints :: "env \<Rightarrow> event_type \<Rightarrow> webhook_state \<Rightarrow> webhook_endpoint list" where
  "active_endpoints E ev s =
     filter (\<lambda>e. we_deletedAt e = None \<and> we_enabled e \<and> ev \<in> set (we_eventTypes e)
         \<and> (isUnverifiedDeliveryAllowed E \<or> we_verificationStatus e = Verified))
       (map snd (wh_endpoints s))"

definition new_record :: "time \<Rightarrow> string \<Rightarrow> string \<Rightarrow> string \<Rightarrow> event_type \<Rightarrow> delivery_record" where
  "new_record now ident endpointId url ev =
     \<lparr>de_id = ident, de_endpointId = endpointId, de_endpointUrl = url, de_eventType = ev,
      de_status = DeliveryPending, de_attempts = 0, de_createdAt = now, de_updatedAt = now,
      de_deliveredAt = None, de_lastError = None\<rparr>"

text \<open>\<open>deliveries.unshift(delivery)\<close>.\<close>

definition push_delivery :: "delivery_record \<Rightarrow> webhook_state \<Rightarrow> webhook_state" where
  "push_delivery r s = s\<lparr>wh_deliveries := wh_next s # wh_deliveries s,
     wh_records := AList.update (wh_next s) r (wh_records s), wh_next := Suc (wh_next s)\<rparr>"

text \<open>The loop of \<open>emitTransactionEvent\<close>, with the identifiers drawn; the first attempt of each delivery
  begins at once.  A negative retention is refused as an array length: the loop stops.\<close>

fun emit_loop ::
  "webhook_config \<Rightarrow> time \<Rightarrow> (nat \<Rightarrow> string) \<Rightarrow> event_type \<Rightarrow> json \<Rightarrow> webhook_endpoint list \<Rightarrow> webhook_state \<Rightarrow>
   bool \<times> attempt list \<times> webhook_state" where
  "emit_loop cfg now ids ev payload [] s = (True, [], s)"
| "emit_loop cfg now ids ev payload (e # es) s =
     (let s1 = push_delivery (new_record now (ids (wh_next s)) (we_id e) (we_url e) ev) s;
          over = wc_deliveryRetention cfg < int (length (wh_deliveries s1))
      in if over \<and> wc_deliveryRetention cfg < 0 then (False, [], s1)
         else
           let s2 = (if over then s1\<lparr>wh_deliveries := take (nat (wc_deliveryRetention cfg)) (wh_deliveries s1)\<rparr> else s1);
               a = \<lparr>at_endpoint = e, at_delivery = wh_next s, at_payload = payload, at_attempt = 1\<rparr>;
               (ok, atts, s3) = emit_loop cfg now ids ev payload es (attempt_begin now a s2)
           in (ok, a # atts, s3))"

definition emitTransactionEvent ::
  "env \<Rightarrow> webhook_config \<Rightarrow> time \<Rightarrow> (nat \<Rightarrow> string) \<Rightarrow> event_type \<Rightarrow> json \<Rightarrow> webhook_state \<Rightarrow>
   nat option \<times> attempt list \<times> webhook_state" where
  "emitTransactionEvent E cfg now ids ev payload s =
     (let es = active_endpoints E ev s;
          (ok, atts, s') = emit_loop cfg now ids ev payload es s
      in (if ok then Some (length es) else None, atts, s'))"

section \<open>Dead letters\<close>

definition update_letter :: "nat \<Rightarrow> (dead_letter \<Rightarrow> dead_letter) \<Rightarrow> webhook_state \<Rightarrow> webhook_state" where
  "update_letter l f s =
     (case map_of (wh_letters s) l of
        None \<Rightarrow> s
      | Some e \<Rightarrow> s\<lparr>wh_letters := AList.update l (f e) (wh_letters s)\<rparr>)"

definition find_letter :: "string \<Rightarrow> webhook_state \<Rightarrow> (nat \<times> dead_letter) option" where
  "find_letter ident s =
     List.find (\<lambda>(l, e). dl_id e = ident)
       (List.map_filter (\<lambda>l. map_option (Pair l) (map_of (wh_letters s) l)) (wh_deadLetters s))"

text \<open>\<open>retryWebhookDeadLetter\<close> up to its wait: \<open>null\<close> or the entry at once, or the entry and the
  attempt it waits for.\<close>

datatype retry_step = RetryDone "dead_letter option" | Retrying nat attempt

definition retry_letter_begin :: "time \<Rightarrow> string \<Rightarrow> string \<Rightarrow> webhook_state \<Rightarrow> retry_step \<times> webhook_state" where
  "retry_letter_begin now ident deliveryId s =
     (case find_letter ident s of
        None \<Rightarrow> (RetryDone None, s)
      | Some (l, entry) \<Rightarrow>
          (case live_endpoint (dl_endpointId entry) s of
             None \<Rightarrow>
               let entry' = entry\<lparr>dl_status := InDeadLetter,
                     dl_lastError := Some ''Endpoint not found for dead-letter retry'', dl_updatedAt := now\<rparr>
               in (RetryDone (Some entry'), update_letter l (\<lambda>_. entry') s)
           | Some endpoint \<Rightarrow>
               let d = wh_next s;
                   s1 = push_delivery (new_record now deliveryId (dl_endpointId entry) (dl_endpointUrl entry)
                          (dl_eventType entry)) s;
                   s2 = update_letter l (\<lambda>e. e\<lparr>dl_status := Requeued, dl_retriedAt := Some now, dl_updatedAt := now,
                          dl_attempts := dl_attempts e + 1\<rparr>) s1;
                   a = \<lparr>at_endpoint = endpoint, at_delivery = d, at_payload = dl_payload entry, at_attempt = 1\<rparr>
               in (Retrying l a, attempt_begin now a s2)))"

text \<open>After the first attempt of the retry has ended, later ones being timers.\<close>

definition retry_letter_end :: "time \<Rightarrow> nat \<Rightarrow> nat \<Rightarrow> webhook_state \<Rightarrow> dead_letter option \<times> webhook_state" where
  "retry_letter_end now l d s =
     (let s1 =
        (case map_of (wh_records s) d of
           None \<Rightarrow> s
         | Some r \<Rightarrow>
             (case de_status r of
                Delivered \<Rightarrow> update_letter l (\<lambda>e. e\<lparr>dl_status := LetterDelivered\<rparr>) s
              | DeliveryFailed \<Rightarrow> update_letter l (\<lambda>e. e\<lparr>dl_status := InDeadLetter, dl_lastError := de_lastError r\<rparr>) s
              | DeliveryPending \<Rightarrow> s));
          s2 = update_letter l (\<lambda>e. e\<lparr>dl_updatedAt := now\<rparr>) s1
      in (map_of (wh_letters s2) l, s2))"

record letter_filters =
  lf_endpointId :: "string option"
  lf_eventType :: "event_type option"
  lf_start :: "string option"
  lf_end :: "string option"
  lf_limit :: "int option"

text \<open>\<open>Math.max(1, Math.min(limit ?? 100, 500))\<close>.\<close>

definition page_limit :: "int option \<Rightarrow> nat" where
  "page_limit limit = nat (max 1 (min (nullish limit 100) 500))"

definition letter_matches :: "letter_filters \<Rightarrow> dead_letter \<Rightarrow> bool" where
  "letter_matches f e \<longleftrightarrow>
     (truthy_str (lf_endpointId f) \<longrightarrow> lf_endpointId f = Some (dl_endpointId e))
     \<and> (lf_eventType f \<noteq> None \<longrightarrow> lf_eventType f = Some (dl_eventType e))
     \<and> (truthy_str (lf_start f) \<longrightarrow> \<not> to_iso_string (dl_createdAt e) < the (lf_start f))
     \<and> (truthy_str (lf_end f) \<longrightarrow> \<not> the (lf_end f) < to_iso_string (dl_createdAt e))"

definition dead_letter_list :: "webhook_state \<Rightarrow> dead_letter list" where
  "dead_letter_list s = List.map_filter (map_of (wh_letters s)) (wh_deadLetters s)"

definition listWebhookDeadLetters :: "letter_filters \<Rightarrow> webhook_state \<Rightarrow> dead_letter list" where
  "listWebhookDeadLetters f s =
     take (page_limit (lf_limit f))
       (js_sort (\<lambda>a b. dl_createdAt a < dl_createdAt b) (filter (letter_matches f) (dead_letter_list s)))"

section \<open>Listings and metrics\<close>

definition delivery_list :: "webhook_state \<Rightarrow> delivery_record list" where
  "delivery_list s = List.map_filter (map_of (wh_records s)) (wh_deliveries s)"

text \<open>Newest first; identifiers are lower-case hexadecimal after one prefix, on which \<open>localeCompare\<close>
  is the order of strings.\<close>

definition delivery_after :: "delivery_record \<Rightarrow> delivery_record \<Rightarrow> bool" where
  "delivery_after a b \<longleftrightarrow> de_createdAt a < de_createdAt b \<or> de_createdAt a = de_createdAt b \<and> de_id a < de_id b"

type_synonym delivery_key = "time \<times> string"

record delivery_page =
  dp_deliveries :: "delivery_record list"
  dp_nextCursor :: "string option"
  dp_hasNextPage :: bool

text \<open>A cursor is the base64url coding of a JSON text, which \<open>show\<close> writes and \<open>read\<close> reads; a text
  without either field is refused.\<close>

definition encodeDeliveryCursor :: "(delivery_key \<Rightarrow> string) \<Rightarrow> delivery_record \<Rightarrow> string" where
  "encodeDeliveryCursor show d = base64url (show (de_createdAt d, de_id d))"

definition decodeDeliveryCursor :: "(string \<Rightarrow> delivery_key option) \<Rightarrow> string \<Rightarrow> delivery_key option" where
  "decodeDeliveryCursor read cursor = read (from_base64 cursor)"

text \<open>\<^const>\<open>None\<close> is the error \<open>Invalid or expired cursor\<close>.\<close>

definition listWebhookDeliveryPage ::
  "(delivery_key \<Rightarrow> string) \<Rightarrow> (string \<Rightarrow> delivery_key option) \<Rightarrow> int option \<Rightarrow> string option \<Rightarrow> webhook_state \<Rightarrow>
   delivery_page option" where
  "listWebhookDeliveryPage show read limit cursor s =
     (let normalizedLimit = page_limit limit;
          sorted = js_sort delivery_after (delivery_list s);
          start = (if \<not> truthy_str cursor then Some 0
                   else case decodeDeliveryCursor read (the cursor) of
                          None \<Rightarrow> None
                        | Some (t, i) \<Rightarrow> map_option Suc (find_index (\<lambda>d. de_createdAt d = t \<and> de_id d = i) sorted))
      in case start of
           None \<Rightarrow> None
         | Some startIndex \<Rightarrow>
             let pageItems = js_slice startIndex (startIndex + normalizedLimit + 1) sorted;
                 hasNextPage = normalizedLimit < length pageItems;
                 page = (if hasNextPage then take normalizedLimit pageItems else pageItems)
             in Some \<lparr>dp_deliveries = page,
                  dp_nextCursor = (if hasNextPage \<and> page \<noteq> [] then Some (encodeDeliveryCursor show (last page)) else None),
                  dp_hasNextPage = hasNextPage\<rparr>)"

definition listWebhookDeliveries ::
  "(delivery_key \<Rightarrow> string) \<Rightarrow> (string \<Rightarrow> delivery_key option) \<Rightarrow> int option \<Rightarrow> webhook_state \<Rightarrow> delivery_record list option" where
  "listWebhookDeliveries show read limit s = map_option dp_deliveries (listWebhookDeliveryPage show read limit None s)"

record webhook_metrics =
  wm_totalEndpoints :: nat
  wm_enabledEndpoints :: nat
  wm_totalDeliveries :: nat
  wm_delivered :: nat
  wm_failed :: nat
  wm_pending :: nat
  wm_maxAttempts :: "int option"
  wm_deliveryTimeoutMs :: "int option"

definition count_status :: "delivery_status \<Rightarrow> delivery_record list \<Rightarrow> nat" where
  "count_status st ds = length (filter (\<lambda>d. de_status d = st) ds)"

definition getWebhookDeliveryMetrics :: "env \<Rightarrow> webhook_config \<Rightarrow> webhook_state \<Rightarrow> webhook_metrics" where
  "getWebhookDeliveryMetrics E cfg s =
     \<lparr>wm_totalEndpoints = length (wh_endpoints s),
      wm_enabledEndpoints = length (filter we_enabled (map snd (wh_endpoints s))),
      wm_totalDeliveries = length (delivery_list s),
      wm_delivered = count_status Delivered (delivery_list s),
      wm_failed = count_status DeliveryFailed (delivery_list s),
      wm_pending = count_status DeliveryPending (delivery_list s),
      wm_maxAttempts = getMaxAttempts E, wm_deliveryTimeoutMs = wc_deliveryTimeoutMs cfg\<rparr>"

text \<open>The lists are emptied; a retry still under way keeps its record.\<close>

definition resetWebhookState :: "env \<Rightarrow> webhook_state \<Rightarrow> env \<times> webhook_state" where
  "resetWebhookState E s =
     (E(''WEBHOOK_ALLOW_UNVERIFIED'' := None), s\<lparr>wh_endpoints := [], wh_deliveries := [], wh_deadLetters := []\<rparr>)"

section \<open>A delivery from its first attempt to its end\<close>

text \<open>The attempts of one delivery, each after the timer of the one before: \<open>W n\<close> says when attempt \<open>n\<close>
  starts and ends and what its endpoint answers.  It ends because the attempts are numbered up to
  the maximum.\<close>

record attempt_world =
  aw_start :: time
  aw_end :: time
  aw_reply :: attempt_reply

definition attempts_left :: "env \<Rightarrow> attempt \<Rightarrow> nat" where
  "attempts_left E a = (case getMaxAttempts E of None \<Rightarrow> 0 | Some n \<Rightarrow> nat (n - at_attempt a))"

lemma attempt_end_next:
  "attempt_end E cfg now reply a s = (Some (a', delay), s') \<Longrightarrow>
     at_attempt a' = at_attempt a + 1 \<and> attempts_left E a' < attempts_left E a"
  by (auto simp: attempt_end_def attempts_left_def Let_def split: option.splits if_splits)

function deliver_chain ::
  "env \<Rightarrow> webhook_config \<Rightarrow> (int \<Rightarrow> attempt_world) \<Rightarrow> attempt \<Rightarrow> webhook_state \<Rightarrow> webhook_state" where
  "deliver_chain E cfg W a s =
     (let w = W (at_attempt a)
      in case attempt_end E cfg (aw_end w) (aw_reply w) a (attempt_begin (aw_start w) a s) of
           (None, s') \<Rightarrow> s'
         | (Some (a', delay), s') \<Rightarrow> deliver_chain E cfg W a' s')"
  by pat_completeness auto
termination
  by (relation "measure (\<lambda>(E, cfg, W, a, s). attempts_left E a)") (auto dest!: attempt_end_next[OF sym])

declare deliver_chain.simps [simp del]

end
