(* ===== verification/WebhookRuns.thy ===== *)
theory WebhookRuns
  imports Webhooks
begin

text \<open>
  What the webhook component of \<^theory_text>\<open>Webhooks\<close> does: the outcome of a delivery under every
  sequence of replies, the bounds of its back-off, whom an event reaches, and the reachable states of
  the registry, the probes and the deliveries when all their steps interleave.
\<close>

lemmas record_defs = update_record_def put_endpoint_def add_letter_def push_delivery_def attempt_begin_def
  update_letter_def

lemma update_record_simps [simp]:
  "wh_endpoints (update_record d f s) = wh_endpoints s"
  "wh_deliveries (update_record d f s) = wh_deliveries s"
  "wh_deadLetters (update_record d f s) = wh_deadLetters s"
  "wh_letters (update_record d f s) = wh_letters s"
  "wh_next (update_record d f s) = wh_next s"
  by (simp_all add: update_record_def split: option.splits)

lemma update_record_look:
  "map_of (wh_records (update_record d f s)) d' =
     (if d' = d then map_option f (map_of (wh_records s) d) else map_of (wh_records s) d')"
  by (simp add: update_record_def jmap.look_put split: option.splits)

lemma add_letter_simps [simp]:
  "wh_endpoints (add_letter l s) = wh_endpoints s"
  "wh_records (add_letter l s) = wh_records s"
  "wh_deadLetters (add_letter l s) = wh_next s # wh_deadLetters s"
  "map_of (wh_letters (add_letter l s)) (wh_next s) = Some l"
  "wh_next (add_letter l s) = Suc (wh_next s)"
  by (simp_all add: add_letter_def jmap.look_put)

lemma attempt_begin_simps [simp]:
  "wh_endpoints (attempt_begin now a s) = wh_endpoints s"
  "wh_deliveries (attempt_begin now a s) = wh_deliveries s"
  "wh_deadLetters (attempt_begin now a s) = wh_deadLetters s"
  "wh_next (attempt_begin now a s) = wh_next s"
  by (simp_all add: attempt_begin_def)

lemma attempt_begin_look:
  "map_of (wh_records (attempt_begin now a s)) d =
     (if d = at_delivery a then map_option (\<lambda>r. r\<lparr>de_attempts := at_attempt a, de_updatedAt := now\<rparr>) (map_of (wh_records s) d)
      else map_of (wh_records s) d)"
  by (simp add: attempt_begin_def update_record_look)

section \<open>The outcome of a delivery\<close>

definition max_attempts :: "env \<Rightarrow> int" where
  "max_attempts E = (case getMaxAttempts E of None \<Rightarrow> 1 | Some n \<Rightarrow> max 1 n)"

definition answered :: "(int \<Rightarrow> attempt_world) \<Rightarrow> int \<Rightarrow> bool" where
  "answered W k \<longleftrightarrow> reply_error (ar_reply (aw_reply (W k))) = None"

definition delivery_ended ::
  "env \<Rightarrow> (int \<Rightarrow> attempt_world) \<Rightarrow> attempt \<Rightarrow> int \<Rightarrow> webhook_state \<Rightarrow> webhook_state \<Rightarrow> bool" where
  "delivery_ended E W a k s s' \<longleftrightarrow>
     (\<exists>r. map_of (wh_records s') (at_delivery a) = Some r \<and> de_attempts r = k
        \<and> (if answered W k then de_status r = Delivered \<and> wh_deadLetters s' = wh_deadLetters s
           else k = max_attempts E \<and> de_status r = DeliveryFailed
             \<and> (\<exists>l e. wh_deadLetters s' = l # wh_deadLetters s \<and> map_of (wh_letters s') l = Some e
                  \<and> dl_status e = InDeadLetter \<and> dl_payload e = at_payload a \<and> dl_attempts e = k
                  \<and> dl_lastError e = reply_error (ar_reply (aw_reply (W k))))))"

lemma attempt_end_cases:
  assumes "map_of (wh_records s) (at_delivery a) = Some r" and "1 \<le> at_attempt a" and "at_attempt a \<le> max_attempts E"
  obtains
    (ok) "reply_error (ar_reply reply) = None"
      "attempt_end E cfg now reply a s = (None, update_record (at_delivery a)
         (\<lambda>r. r\<lparr>de_status := Delivered, de_deliveredAt := Some now, de_updatedAt := now, de_lastError := None\<rparr>) s)"
  | (retry) m delay where "reply_error (ar_reply reply) = Some m" "at_attempt a < max_attempts E"
      "attempt_end E cfg now reply a s = (Some (a\<lparr>at_attempt := at_attempt a + 1\<rparr>, delay),
         update_record (at_delivery a) (\<lambda>r. r\<lparr>de_lastError := Some m\<rparr>) s)"
  | (dead) m where "reply_error (ar_reply reply) = Some m" "at_attempt a = max_attempts E"
      "attempt_end E cfg now reply a s = (None, add_letter (new_letter now (ar_letter_id reply) a
           (r\<lparr>de_lastError := Some m, de_status := DeliveryFailed, de_updatedAt := now\<rparr>))
         (update_record (at_delivery a) (\<lambda>r. r\<lparr>de_status := DeliveryFailed, de_updatedAt := now\<rparr>)
           (update_record (at_delivery a) (\<lambda>r. r\<lparr>de_lastError := Some m\<rparr>) s)))"
proof (cases "reply_error (ar_reply reply)")
  case None
  then show thesis by (intro ok) (simp_all add: attempt_end_def)
next
  case (Some m)
  show thesis
  proof (cases "at_attempt a < max_attempts E")
    case True
    with assms(2) have "case getMaxAttempts E of None \<Rightarrow> False | Some n \<Rightarrow> at_attempt a < n"
      by (auto simp: max_attempts_def split: option.splits)
    with Some True show thesis by (intro retry) (simp_all add: attempt_end_def Let_def)
  next
    case False
    with assms(2,3) have "at_attempt a = max_attempts E"
      "\<not> (case getMaxAttempts E of None \<Rightarrow> False | Some n \<Rightarrow> at_attempt a < n)"
      by (auto simp: max_attempts_def split: option.splits)
    with Some assms(1) show thesis by (intro dead) (simp_all add: attempt_end_def Let_def update_record_look)
  qed
qed

lemma deliver_chain_outcome:
  "map_of (wh_records s) (at_delivery a) = Some r \<Longrightarrow> 1 \<le> at_attempt a \<Longrightarrow> at_attempt a \<le> max_attempts E \<Longrightarrow>
   \<exists>k. at_attempt a \<le> k \<and> k \<le> max_attempts E \<and> (\<forall>i. at_attempt a \<le> i \<and> i < k \<longrightarrow> \<not> answered W i)
     \<and> delivery_ended E W a k s (deliver_chain E cfg W a s)"
proof (induction E cfg W a s arbitrary: r rule: deliver_chain.induct)
  case (1 E cfg W a s)
  let ?w = "W (at_attempt a)"
  let ?s1 = "attempt_begin (aw_start ?w) a s"
  let ?r1 = "r\<lparr>de_attempts := at_attempt a, de_updatedAt := aw_start ?w\<rparr>"
  have r1: "map_of (wh_records ?s1) (at_delivery a) = Some ?r1"
    using 1(2) by (simp add: attempt_begin_look)
  from r1 1(3,4) show ?case
  proof (cases rule: attempt_end_cases[where reply = "aw_reply ?w" and cfg = cfg and now = "aw_end ?w"])
    case ok
    then have "deliver_chain E cfg W a s = update_record (at_delivery a)
         (\<lambda>r. r\<lparr>de_status := Delivered, de_deliveredAt := Some (aw_end ?w), de_updatedAt := aw_end ?w, de_lastError := None\<rparr>) ?s1"
      by (simp add: deliver_chain.simps Let_def)
    with ok(1) r1 1(4) show ?thesis
      by (intro exI[of _ "at_attempt a"]) (auto simp: delivery_ended_def update_record_look answered_def)
  next
    case (retry m delay)
    let ?a' = "a\<lparr>at_attempt := at_attempt a + 1\<rparr>"
    let ?s2 = "update_record (at_delivery a) (\<lambda>r. r\<lparr>de_lastError := Some m\<rparr>) ?s1"
    have c: "deliver_chain E cfg W a s = deliver_chain E cfg W ?a' ?s2"
      using retry(3) by (simp add: deliver_chain.simps[of E cfg W a s] Let_def)
    have "\<exists>k. at_attempt ?a' \<le> k \<and> k \<le> max_attempts E \<and> (\<forall>i. at_attempt ?a' \<le> i \<and> i < k \<longrightarrow> \<not> answered W i)
        \<and> delivery_ended E W ?a' k ?s2 (deliver_chain E cfg W ?a' ?s2)"
      using 1(1)[OF refl retry(3)[symmetric] refl refl, of "?r1\<lparr>de_lastError := Some m\<rparr>"] 1(3) retry(2) r1
      by (simp add: update_record_look)
    then obtain k where k: "at_attempt a + 1 \<le> k" "k \<le> max_attempts E"
      "\<forall>i. at_attempt a + 1 \<le> i \<and> i < k \<longrightarrow> \<not> answered W i"
      "delivery_ended E W ?a' k ?s2 (deliver_chain E cfg W ?a' ?s2)" by auto
    have "\<not> answered W (at_attempt a)" using retry(1) by (simp add: answered_def)
    then have "\<forall>i. at_attempt a \<le> i \<and> i < k \<longrightarrow> \<not> answered W i"
      using k(3) by (metis add1_zle_eq order_le_less)
    moreover have "delivery_ended E W a k s x = delivery_ended E W ?a' k ?s2 x" for x
      by (simp add: delivery_ended_def)
    ultimately have "at_attempt a \<le> k \<and> k \<le> max_attempts E \<and> (\<forall>i. at_attempt a \<le> i \<and> i < k \<longrightarrow> \<not> answered W i)
        \<and> delivery_ended E W a k s (deliver_chain E cfg W a s)" using k(1,2,4) c by simp
    then show ?thesis by blast
  next
    case (dead m)
    then have "deliver_chain E cfg W a s = add_letter (new_letter (aw_end ?w) (ar_letter_id (aw_reply ?w)) a
           (?r1\<lparr>de_lastError := Some m, de_status := DeliveryFailed, de_updatedAt := aw_end ?w\<rparr>))
         (update_record (at_delivery a) (\<lambda>r. r\<lparr>de_status := DeliveryFailed, de_updatedAt := aw_end ?w\<rparr>)
           (update_record (at_delivery a) (\<lambda>r. r\<lparr>de_lastError := Some m\<rparr>) ?s1))"
      by (simp add: deliver_chain.simps Let_def)
    with dead(1,2) r1 1(3,4) show ?thesis
      by (intro exI[of _ "at_attempt a"])
        (auto simp: delivery_ended_def update_record_look answered_def new_letter_def add_letter_def jmap.look_put)
  qed
qed

text \<open>
  C14.  A delivery ends after at most the maximum number of attempts, whatever its endpoint answers: with
  the first attempt that succeeds it is delivered and leaves no dead letter, and when all of them
  fail it is failed and one dead letter with its payload and its last error heads the list.
\<close>

theorem webhook_delivery_outcome:
  assumes "map_of (wh_records s) (at_delivery a) = Some r" and "at_attempt a = 1"
  shows "\<exists>k. 1 \<le> k \<and> k \<le> max_attempts E \<and> (\<forall>i. 1 \<le> i \<and> i < k \<longrightarrow> \<not> answered W i)
     \<and> delivery_ended E W a k s (deliver_chain E cfg W a s)"
proof -
  have "1 \<le> max_attempts E" by (simp add: max_attempts_def split: option.splits)
  with deliver_chain_outcome[OF assms(1), of E W cfg] assms(2) show ?thesis by simp
qed

section \<open>Back-off\<close>

lemma js_round_mono: "a \<le> b \<Longrightarrow> js_round a \<le> js_round b"
  by (simp add: js_round_def floor_mono)

lemma jitter_within: "0 \<le> (u :: rat) \<Longrightarrow> u < 1 \<Longrightarrow> 0 \<le> c \<Longrightarrow> - c \<le> (u * 2 - 1) * c \<and> (u * 2 - 1) * c \<le> c"
proof -
  assume u: "0 \<le> u" "u < 1" and c: "0 \<le> c"
  have "- 1 * c \<le> (u * 2 - 1) * c" using u c by (intro mult_right_mono) simp_all
  moreover have "(u * 2 - 1) * c \<le> 1 * c" using u c by (intro mult_right_mono) simp_all
  ultimately show ?thesis by simp
qed

definition base_delay :: "webhook_config \<Rightarrow> int \<Rightarrow> rat" where
  "base_delay cfg attempt = of_int (wc_retryBaseDelayMs cfg) * 2 ^ nat (attempt - 1)"

definition jitter_range :: "webhook_config \<Rightarrow> int \<Rightarrow> rat" where
  "jitter_range cfg attempt = min (base_delay cfg attempt * wc_jitterFactor cfg) (of_int (wc_jitterMaxMs cfg))"

text \<open>
  The delay before a retry doubles with every attempt, up to the jitter: it is at least a tenth
  of a second and lies, rounded, within the jitter range of the doubled base delay; the range never
  exceeds its configured cap.
\<close>

theorem backoff_bounds:
  assumes "0 \<le> u" and "u < 1" and "0 \<le> wc_retryBaseDelayMs cfg" and "0 \<le> wc_jitterFactor cfg"
    and "0 \<le> wc_jitterMaxMs cfg" and "1 \<le> attempt"
  shows "100 \<le> calculateBackoffDelay cfg u attempt
    \<and> js_round (base_delay cfg attempt - jitter_range cfg attempt) \<le> calculateBackoffDelay cfg u attempt
    \<and> calculateBackoffDelay cfg u attempt \<le> max 100 (js_round (base_delay cfg attempt + jitter_range cfg attempt))
    \<and> base_delay cfg (attempt + 1) = 2 * base_delay cfg attempt \<and> jitter_range cfg attempt \<le> of_int (wc_jitterMaxMs cfg)"
proof -
  have base: "of_int (wc_retryBaseDelayMs cfg) * pow2 (attempt - 1) = base_delay cfg attempt"
    using assms(6) by (simp add: pow2_def base_delay_def)
  have "0 \<le> base_delay cfg attempt" using assms(3) by (simp add: base_delay_def)
  then have "0 \<le> jitter_range cfg attempt" using assms(4,5) by (simp add: jitter_range_def)
  note j = jitter_within[OF assms(1,2) this]
  have c: "calculateBackoffDelay cfg u attempt = max 100 (js_round (base_delay cfg attempt + (u * 2 - 1) * jitter_range cfg attempt))"
    by (simp add: calculateBackoffDelay_def base Let_def jitter_range_def)
  have "nat (attempt + 1 - 1) = Suc (nat (attempt - 1))" using assms(6) by simp
  then have dbl: "base_delay cfg (attempt + 1) = 2 * base_delay cfg attempt" by (simp add: base_delay_def)
  have "js_round (base_delay cfg attempt - jitter_range cfg attempt) \<le> js_round (base_delay cfg attempt + (u * 2 - 1) * jitter_range cfg attempt)"
    "js_round (base_delay cfg attempt + (u * 2 - 1) * jitter_range cfg attempt) \<le> js_round (base_delay cfg attempt + jitter_range cfg attempt)"
    using j by (intro js_round_mono; simp)+
  then show ?thesis unfolding c dbl by (auto simp: jitter_range_def)
qed

section \<open>Whom an event reaches\<close>

lemma push_delivery_simps [simp]:
  "wh_endpoints (push_delivery r s) = wh_endpoints s"
  "wh_deliveries (push_delivery r s) = wh_next s # wh_deliveries s"
  "wh_next (push_delivery r s) = Suc (wh_next s)"
  "wh_deadLetters (push_delivery r s) = wh_deadLetters s"
  "map_of (wh_records (push_delivery r s)) = (map_of (wh_records s))(wh_next s \<mapsto> r)"
  by (simp_all add: push_delivery_def jmap.look_put)

definition emitted :: "time \<Rightarrow> (nat \<Rightarrow> string) \<Rightarrow> event_type \<Rightarrow> attempt \<Rightarrow> delivery_record" where
  "emitted now ids ev a =
     (new_record now (ids (at_delivery a)) (we_id (at_endpoint a)) (we_url (at_endpoint a)) ev)\<lparr>de_attempts := 1\<rparr>"

lemma emit_loop_result:
  "0 \<le> wc_deliveryRetention cfg \<Longrightarrow> emit_loop cfg now ids ev payload es s = (ok, atts, s') \<Longrightarrow>
   ok \<and> map at_endpoint atts = es \<and> wh_endpoints s' = wh_endpoints s \<and> wh_next s' = wh_next s + length es
   \<and> map at_delivery atts = [wh_next s..<wh_next s + length es]
   \<and> (\<forall>a \<in> set atts. at_attempt a = 1 \<and> at_payload a = payload
        \<and> map_of (wh_records s') (at_delivery a) = Some (emitted now ids ev a))
   \<and> (\<forall>d. d < wh_next s \<longrightarrow> map_of (wh_records s') d = map_of (wh_records s) d)
   \<and> (es \<noteq> [] \<longrightarrow> int (length (wh_deliveries s')) \<le> wc_deliveryRetention cfg)"
proof (induction es arbitrary: s ok atts s')
  case (Cons e es)
  let ?s1 = "push_delivery (new_record now (ids (wh_next s)) (we_id e) (we_url e) ev) s"
  let ?over = "wc_deliveryRetention cfg < int (length (wh_deliveries ?s1))"
  let ?s2 = "if ?over then ?s1\<lparr>wh_deliveries := take (nat (wc_deliveryRetention cfg)) (wh_deliveries ?s1)\<rparr> else ?s1"
  let ?a = "\<lparr>at_endpoint = e, at_delivery = wh_next s, at_payload = payload, at_attempt = 1\<rparr>"
  let ?s3 = "attempt_begin now ?a ?s2"
  obtain ok' atts' where r: "emit_loop cfg now ids ev payload es ?s3 = (ok', atts', s')" "atts = ?a # atts'" "ok = ok'"
    using Cons.prems by (auto simp: Let_def split: prod.splits)
  have n: "wh_next ?s3 = Suc (wh_next s)" "wh_endpoints ?s3 = wh_endpoints s" by simp_all
  note IH = Cons.IH[OF Cons.prems(1) r(1)]
  have len: "int (length (wh_deliveries ?s3)) \<le> wc_deliveryRetention cfg" using Cons.prems(1) by auto
  have rec: "map_of (wh_records ?s3) (wh_next s) = Some (emitted now ids ev ?a)"
    by (auto simp: attempt_begin_look emitted_def new_record_def)
  have old: "map_of (wh_records ?s3) d = map_of (wh_records s) d" if "d < wh_next s" for d
    using that by (auto simp: attempt_begin_look)
  from IH n have low: "\<forall>d. d < Suc (wh_next s) \<longrightarrow> map_of (wh_records s') d = map_of (wh_records ?s3) d" by simp
  have "int (length (wh_deliveries s')) \<le> wc_deliveryRetention cfg"
    using IH len r(1) by (cases es) auto
  moreover have "\<forall>a \<in> set atts. at_attempt a = 1 \<and> at_payload a = payload
        \<and> map_of (wh_records s') (at_delivery a) = Some (emitted now ids ev a)"
    using IH low rec r(2) by simp
  moreover have "map at_delivery atts = [wh_next s..<wh_next s + length (e # es)]"
    using IH n r(2) by (simp add: upt_conv_Cons[symmetric] del: upt_Suc)
  ultimately show ?case using IH n r(2,3) low old by simp
qed auto

text \<open>
  An event reaches exactly the endpoints that are registered, enabled, subscribed to it and verified
  (or any, where unverified delivery is allowed), each once, with a fresh delivery whose first attempt
  has begun; no other delivery is touched, and the list keeps at most its retention.
\<close>

theorem event_reaches_active_endpoints:
  assumes "0 \<le> wc_deliveryRetention cfg"
    and "emitTransactionEvent E cfg now ids ev payload s = (count, atts, s')"
  shows "count = Some (length (active_endpoints E ev s)) \<and> map at_endpoint atts = active_endpoints E ev s
    \<and> distinct (map at_delivery atts) \<and> (\<forall>a \<in> set atts. wh_next s \<le> at_delivery a \<and> at_payload a = payload
        \<and> map_of (wh_records s') (at_delivery a) = Some (emitted now ids ev a))
    \<and> (\<forall>d. d < wh_next s \<longrightarrow> map_of (wh_records s') d = map_of (wh_records s) d)
    \<and> (atts \<noteq> [] \<longrightarrow> int (length (wh_deliveries s')) \<le> wc_deliveryRetention cfg)"
proof -
  obtain ok where l: "emit_loop cfg now ids ev payload (active_endpoints E ev s) s = (ok, atts, s')"
    "count = (if ok then Some (length (active_endpoints E ev s)) else None)"
    using assms(2) by (auto simp: emitTransactionEvent_def Let_def split: prod.splits)
  note r = emit_loop_result[OF assms(1) l(1)]
  then have d: "map at_delivery atts = [wh_next s..<wh_next s + length (active_endpoints E ev s)]" by simp
  have low: "wh_next s \<le> at_delivery a" if "a \<in> set atts" for a
  proof -
    from that have "at_delivery a \<in> set (map at_delivery atts)" by simp
    then show ?thesis unfolding d by simp
  qed
  have "distinct (map at_delivery atts)" unfolding d by simp
  with r l(2) low show ?thesis by auto
qed

section \<open>Verification\<close>

lemma live_put [simp]:
  "live_endpoint ident (put_endpoint ident e s) = (if we_deletedAt e = None then Some e else None)"
  by (simp add: live_endpoint_def put_endpoint_def jmap.look_put)

text \<open>
  An endpoint becomes verified only by answering its own challenge: after \<open>verify_end\<close> it is
  verified exactly when the probe was answered with a success status and the token, in the header or
  the body; every other answer, and a rejected request, leaves it unverified with the reason.
\<close>

theorem verified_only_by_challenge:
  assumes "verify_end now ident existing reply s = (view, s')"
  shows "(ev_verificationStatus view = Verified \<longleftrightarrow> truthy_str (we_challengeToken existing)
      \<and> (\<exists>r. reply = Inr r \<and> http_ok (pr_status r)
           \<and> (pr_header r = we_challengeToken existing \<or> pr_body_challenge r = we_challengeToken existing)))
    \<and> (ev_verificationStatus view \<noteq> Verified \<longrightarrow> ev_verificationStatus view = Unconfirmed
        \<and> ev_lastVerificationError view \<noteq> None \<and> ev_enabled view = we_enabled existing)
    \<and> map_option we_verificationStatus (map_of (wh_endpoints s') ident) = Some (ev_verificationStatus view)"
  using assms
  by (auto simp: verify_end_def probeWebhookVerification_def Let_def sanitizeWebhookEndpoint_def put_endpoint_def
      jmap.look_put split: sum.splits if_splits)

text \<open>
  A deletion can be lost: when an endpoint is deleted while its probe is under way, the probe's
  success writes back the endpoint as it was before, so it is registered, enabled and verified again,
  and the next event is sent to it.
\<close>

theorem verification_revives_deleted_endpoint:
  assumes "live_endpoint ident s = Some e" and "we_challengeToken e = Some token" and "token \<noteq> []"
    and "\<forall>t. we_challengeExpiresAt e = Some t \<longrightarrow> now < t" and "ev \<in> set (we_eventTypes e)"
  shows "verify_begin now ident s = (Probing e, s)
    \<and> (let s1 = snd (deleteWebhookEndpoint now ident actor s);
           s2 = snd (verify_end now' ident e (Inr \<lparr>pr_status = 200, pr_header = Some token, pr_body_challenge = None\<rparr>) s1)
       in live_endpoint ident s1 = None
        \<and> (\<exists>e'. live_endpoint ident s2 = Some e' \<and> we_verificationStatus e' = Verified \<and> we_enabled e'
             \<and> we_url e' = we_url e \<and> e' \<in> set (active_endpoints E ev s2)))"
proof -
  let ?r = "Inr \<lparr>pr_status = 200, pr_header = Some token, pr_body_challenge = None\<rparr>"
  let ?e' = "e\<lparr>we_verificationStatus := Verified, we_verifiedAt := Some now', we_enabled := True,
                 we_challengeToken := None, we_lastVerificationError := None, we_updatedAt := now'\<rparr>"
  have del: "we_deletedAt e = None" using assms(1) by (auto simp: live_endpoint_def split: option.splits if_splits)
  have b: "verify_begin now ident s = (Probing e, s)"
    using assms(1,4) by (auto simp: verify_begin_def split: option.splits)
  have v: "snd (verify_end now' ident e ?r u) = put_endpoint ident ?e' u" for u
    using assms(2,3) by (simp add: verify_end_def probeWebhookVerification_def http_ok_def truthy_str_def Let_def)
  have "?e' \<in> snd ` set (wh_endpoints (put_endpoint ident ?e' u))" for u
    using map_of_SomeD[of "wh_endpoints (put_endpoint ident ?e' u)" ident ?e']
    by (force simp: put_endpoint_def jmap.look_put)
  then have "?e' \<in> set (active_endpoints E ev (put_endpoint ident ?e' u))" for u
    using assms(5) del by (simp add: active_endpoints_def)
  then show ?thesis using b del assms(1) by (simp add: v deleteWebhookEndpoint_def Let_def)
qed

text \<open>
  Verification does not survive being repeated: verifying a verified endpoint again always marks
  it failed, whatever it answers, because its challenge was erased, and as no later operation draws a
  new one it stays without events until it is registered anew.
\<close>

theorem reverification_fails:
  assumes "live_endpoint ident s = Some e" and "we_verificationStatus e = Verified" and "we_challengeToken e = None"
    and "\<not> isUnverifiedDeliveryAllowed E"
    and "case verify_begin now ident s of (VerifyDone v, s1) \<Rightarrow> s' = s1
         | (Probing e1, s1) \<Rightarrow> s' = snd (verify_end now' ident e1 reply s1)"
  shows "\<exists>e'. map_of (wh_endpoints s') ident = Some e' \<and> we_verificationStatus e' = Unconfirmed
    \<and> we_challengeToken e' = None \<and> e' \<notin> set (active_endpoints E ev s')"
proof -
  let ?put = "\<lambda>e'. s' = put_endpoint ident e' s \<and> we_verificationStatus e' = Unconfirmed \<and> we_challengeToken e' = None"
  have put: "s' = put_endpoint ident e1 s \<Longrightarrow> we_verificationStatus e1 = Unconfirmed \<Longrightarrow>
      we_challengeToken e1 = we_challengeToken e \<Longrightarrow> \<exists>e'. ?put e'" for e1
    using assms(3) by auto
  have "\<exists>e'. ?put e'"
  proof (cases "\<exists>t. we_challengeExpiresAt e = Some t \<and> t \<le> now")
    case True
    with assms(1,5) have "s' = put_endpoint ident (e\<lparr>we_verificationStatus := Unconfirmed,
      we_lastVerificationError := Some ''Verification challenge expired'', we_updatedAt := now\<rparr>) s"
      by (auto simp: verify_begin_def Let_def)
    from put[OF this] show ?thesis by simp
  next
    case False
    with assms(1) have "verify_begin now ident s = (Probing e, s)"
      by (auto simp: verify_begin_def split: option.splits)
    with assms(3,5) have "s' = put_endpoint ident (e\<lparr>we_verificationStatus := Unconfirmed,
      we_lastVerificationError := Some ''Challenge response did not match'', we_updatedAt := now'\<rparr>) s"
      by (simp add: verify_end_def probeWebhookVerification_def truthy_str_def Let_def)
    from put[OF this] show ?thesis by simp
  qed
  then obtain e' where "?put e'" ..
  with assms(4) show ?thesis
    by (auto simp: put_endpoint_def jmap.look_put active_endpoints_def)
qed

section \<open>All steps interleaved\<close>

text \<open>An attempt is under way: its request is sent, or it waits for its timer.  A state of the system has
  the probes and the attempts under way next to the component's own state.\<close>

datatype job = Sent attempt | Sleeping attempt

fun job_attempt :: "job \<Rightarrow> attempt" where
  "job_attempt (Sent a) = a"
| "job_attempt (Sleeping a) = a"

definition job_delivery :: "job \<Rightarrow> nat" where
  "job_delivery j = at_delivery (job_attempt j)"

inductive webhook_system ::
  "(string \<Rightarrow> string) \<Rightarrow> (string \<Rightarrow> string option) \<Rightarrow> env \<Rightarrow> webhook_config \<Rightarrow>
   webhook_state \<Rightarrow> (string \<times> webhook_endpoint) list \<Rightarrow> job list \<Rightarrow> bool"
  for hash :: "string \<Rightarrow> string" and protocol :: "string \<Rightarrow> string option" and E :: env and cfg :: webhook_config where
  ws_init: "webhook_system hash protocol E cfg empty_webhooks [] []"
| ws_register: "webhook_system hash protocol E cfg s P J \<Longrightarrow>
    registerWebhookEndpoint hash protocol E cfg now ident token input s = (r, s') \<Longrightarrow>
    webhook_system hash protocol E cfg s' ((case r of Inr (_, Probing e) \<Rightarrow> [(ident, e)] | _ \<Rightarrow> []) @ P) J"
| ws_update: "webhook_system hash protocol E cfg s P J \<Longrightarrow>
    updateWebhookEndpoint hash now ident upd s = (x, s') \<Longrightarrow> webhook_system hash protocol E cfg s' P J"
| ws_delete: "webhook_system hash protocol E cfg s P J \<Longrightarrow>
    deleteWebhookEndpoint now ident actor s = (x, s') \<Longrightarrow> webhook_system hash protocol E cfg s' P J"
| ws_restore: "webhook_system hash protocol E cfg s P J \<Longrightarrow>
    restoreWebhookEndpoint now ident s = (x, s') \<Longrightarrow> webhook_system hash protocol E cfg s' P J"
| ws_verify: "webhook_system hash protocol E cfg s P J \<Longrightarrow> verify_begin now ident s = (v, s') \<Longrightarrow>
    webhook_system hash protocol E cfg s' ((case v of Probing e \<Rightarrow> [(ident, e)] | _ \<Rightarrow> []) @ P) J"
| ws_probed: "webhook_system hash protocol E cfg s P J \<Longrightarrow> (ident, e) \<in> set P \<Longrightarrow>
    verify_end now ident e reply s = (x, s') \<Longrightarrow> webhook_system hash protocol E cfg s' (remove1 (ident, e) P) J"
| ws_emit: "webhook_system hash protocol E cfg s P J \<Longrightarrow>
    emitTransactionEvent E cfg now ids ev payload s = (x, atts, s') \<Longrightarrow>
    webhook_system hash protocol E cfg s' P (map Sent atts @ J)"
| ws_reply: "webhook_system hash protocol E cfg s P (J1 @ Sent a # J2) \<Longrightarrow>
    attempt_end E cfg now rep a s = (next, s') \<Longrightarrow>
    webhook_system hash protocol E cfg s' P
      (J1 @ (case next of None \<Rightarrow> [] | Some (a', delay) \<Rightarrow> [Sleeping a']) @ J2)"
| ws_wake: "webhook_system hash protocol E cfg s P (J1 @ Sleeping a # J2) \<Longrightarrow>
    webhook_system hash protocol E cfg (attempt_begin now a s) P (J1 @ Sent a # J2)"
| ws_retry: "webhook_system hash protocol E cfg s P J \<Longrightarrow> retry_letter_begin now ident did s = (step, s') \<Longrightarrow>
    webhook_system hash protocol E cfg s' P ((case step of Retrying l a \<Rightarrow> [Sent a] | _ \<Rightarrow> []) @ J)"
| ws_retried: "webhook_system hash protocol E cfg s P J \<Longrightarrow>
    webhook_system hash protocol E cfg (snd (retry_letter_end now l d s)) P J"

text \<open>What holds of every endpoint object: its hash is that of its secret, its challenge hash that of its
  challenge, and a verified endpoint has used its challenge up.\<close>

definition endpoint_wf :: "(string \<Rightarrow> string) \<Rightarrow> webhook_endpoint \<Rightarrow> bool" where
  "endpoint_wf hash e \<longleftrightarrow>
     (\<forall>h. we_secretHash e = Some h \<longrightarrow> (\<exists>x. we_secret e = Some x \<and> h = hash x))
     \<and> (\<forall>t. we_challengeToken e = Some t \<longrightarrow> we_challengeTokenHash e = Some (hash t))
     \<and> (we_verificationStatus e = Verified \<longrightarrow> we_challengeToken e = None \<and> we_verifiedAt e \<noteq> None)
     \<and> we_eventTypes e \<noteq> []"

definition registry_wf :: "(string \<Rightarrow> string) \<Rightarrow> webhook_state \<Rightarrow> (string \<times> webhook_endpoint) list \<Rightarrow> bool" where
  "registry_wf hash s P \<longleftrightarrow> (\<forall>ident e. map_of (wh_endpoints s) ident = Some e \<longrightarrow> endpoint_wf hash e)
     \<and> (\<forall>ident e. (ident, e) \<in> set P \<longrightarrow> endpoint_wf hash e)"

definition jobs_wf :: "env \<Rightarrow> webhook_state \<Rightarrow> job list \<Rightarrow> bool" where
  "jobs_wf E s J \<longleftrightarrow> distinct (map job_delivery J)
     \<and> (\<forall>j \<in> set J. 1 \<le> at_attempt (job_attempt j) \<and> at_attempt (job_attempt j) \<le> max_attempts E
          \<and> (\<exists>r. map_of (wh_records s) (job_delivery j) = Some r \<and> de_status r = DeliveryPending))
     \<and> (\<forall>d r. map_of (wh_records s) d = Some r \<longrightarrow>
          d < wh_next s \<and> (de_status r = DeliveryPending \<longrightarrow> d \<in> job_delivery ` set J))"

lemma registry_put:
  "registry_wf hash s P \<Longrightarrow> endpoint_wf hash e \<Longrightarrow> registry_wf hash (put_endpoint ident e s) P"
  by (auto simp: registry_wf_def put_endpoint_def jmap.look_put)

lemma live_endpoint_wf: "registry_wf hash s P \<Longrightarrow> live_endpoint ident s = Some e \<Longrightarrow> endpoint_wf hash e"
  by (auto simp: registry_wf_def live_endpoint_def split: option.splits if_splits)

lemma registry_wf_cong: "wh_endpoints s' = wh_endpoints s \<Longrightarrow> registry_wf hash s' P = registry_wf hash s P"
  by (simp add: registry_wf_def)

lemma verify_begin_wf:
  assumes "registry_wf hash s P" and "verify_begin now ident s = (v, s')"
  shows "registry_wf hash s' ((case v of Probing e \<Rightarrow> [(ident, e)] | _ \<Rightarrow> []) @ P)"
proof (cases "live_endpoint ident s")
  case None
  with assms show ?thesis by (auto simp: verify_begin_def)
next
  case (Some e)
  note wf = live_endpoint_wf[OF assms(1) Some]
  show ?thesis
  proof (cases "\<exists>t. we_challengeExpiresAt e = Some t \<and> t \<le> now")
    case True
    let ?e' = "e\<lparr>we_verificationStatus := Unconfirmed,
                  we_lastVerificationError := Some ''Verification challenge expired'', we_updatedAt := now\<rparr>"
    have "s' = put_endpoint ident ?e' s" "(case v of Probing e \<Rightarrow> [(ident, e)] | _ \<Rightarrow> []) = []"
      using True assms(2) Some by (auto simp: verify_begin_def Let_def)
    moreover have "endpoint_wf hash ?e'" using wf by (simp add: endpoint_wf_def)
    ultimately show ?thesis using registry_put[OF assms(1), of ?e' ident] by simp
  next
    case False
    with assms(2) Some have "v = Probing e" "s' = s" by (auto simp: verify_begin_def split: option.splits if_splits)
    with assms(1) wf show ?thesis by (auto simp: registry_wf_def)
  qed
qed

lemma verify_end_wf:
  assumes "registry_wf hash s P" and "endpoint_wf hash e" and "verify_end now ident e reply s = (x, s')"
  shows "registry_wf hash s' P"
proof -
  obtain e' where "s' = put_endpoint ident e' s" "endpoint_wf hash e'"
    using assms(2,3) by (cases "probeWebhookVerification e reply")
      (auto simp: verify_end_def Let_def endpoint_wf_def split: if_splits)
  with registry_put[OF assms(1)] show ?thesis by simp
qed

lemma emitted_endpoints: "0 \<le> wc_deliveryRetention cfg \<Longrightarrow>
  emitTransactionEvent E cfg now ids ev payload s = (x, atts, s') \<Longrightarrow> wh_endpoints s' = wh_endpoints s"
  by (auto simp: emitTransactionEvent_def Let_def dest!: emit_loop_result split: prod.splits)

lemma attempt_end_endpoints: "attempt_end E cfg now rep a s = (x, s') \<Longrightarrow> wh_endpoints s' = wh_endpoints s"
  by (auto simp: attempt_end_def Let_def split: option.splits if_splits)

lemma update_letter_simps [simp]:
  "wh_endpoints (update_letter l f s) = wh_endpoints s" "wh_records (update_letter l f s) = wh_records s"
  "wh_next (update_letter l f s) = wh_next s"
  by (simp_all add: update_letter_def split: option.splits)

lemma retry_endpoints: "retry_letter_begin now ident did s = (step, s') \<Longrightarrow> wh_endpoints s' = wh_endpoints s"
  by (auto simp: retry_letter_begin_def Let_def split: option.splits prod.splits)

lemma retry_end_keeps:
  "wh_endpoints (snd (retry_letter_end now l d s)) = wh_endpoints s"
  "wh_records (snd (retry_letter_end now l d s)) = wh_records s"
  "wh_next (snd (retry_letter_end now l d s)) = wh_next s"
  by (auto simp: retry_letter_end_def Let_def split: option.splits delivery_status.splits)

lemma registry_invariant:
  "webhook_system hash protocol E cfg s P J \<Longrightarrow> 0 \<le> wc_deliveryRetention cfg \<Longrightarrow> registry_wf hash s P"
proof (induction rule: webhook_system.induct)
  case ws_init
  show ?case by (simp add: registry_wf_def empty_webhooks_def)
next
  case (ws_register s P J now ident token input r s')
  show ?case
  proof (cases "assertValidWebhookUrl protocol (ri_url input)")
    case None
    let ?e = "new_endpoint hash E cfg now ident token input"
    have "endpoint_wf hash ?e"
      by (auto simp: endpoint_wf_def new_endpoint_def truthy_str_def split: option.splits if_splits)
    with ws_register have "registry_wf hash (put_endpoint ident ?e s) P" by (simp add: registry_put)
    moreover obtain v where "verify_begin now ident (put_endpoint ident ?e s) = (v, s')"
      "r = Inr (sanitizeWebhookEndpoint ?e, v)"
      using ws_register.hyps None by (auto simp: registerWebhookEndpoint_def Let_def split: prod.splits)
    ultimately show ?thesis using verify_begin_wf by simp
  next
    case (Some m)
    with ws_register show ?thesis by (auto simp: registerWebhookEndpoint_def)
  qed
next
  case (ws_update s P J now ident upd x s')
  show ?case
  proof (cases "live_endpoint ident s")
    case (Some e)
    with live_endpoint_wf[OF ws_update.IH Some] ws_update show ?thesis
      by (auto simp: updateWebhookEndpoint_def Let_def endpoint_wf_def nullish_def split: if_splits option.splits
          intro!: registry_put)
  qed (use ws_update in \<open>auto simp: updateWebhookEndpoint_def\<close>)
next
  case (ws_delete s P J now ident actor x s')
  show ?case
  proof (cases "live_endpoint ident s")
    case (Some e)
    with live_endpoint_wf[OF ws_delete.IH Some] ws_delete show ?thesis
      by (auto simp: deleteWebhookEndpoint_def Let_def endpoint_wf_def intro!: registry_put)
  qed (use ws_delete in \<open>auto simp: deleteWebhookEndpoint_def\<close>)
next
  case (ws_restore s P J now ident x s')
  show ?case
  proof (cases "map_of (wh_endpoints s) ident")
    case (Some e)
    with ws_restore have "endpoint_wf hash e" by (auto simp: registry_wf_def)
    with Some ws_restore show ?thesis
      by (auto simp: restoreWebhookEndpoint_def Let_def endpoint_wf_def split: if_splits intro!: registry_put)
  qed (use ws_restore in \<open>auto simp: restoreWebhookEndpoint_def\<close>)
next
  case (ws_verify s P J now ident v s')
  then show ?case using verify_begin_wf by blast
next
  case (ws_probed s P J ident e now reply x s')
  then have "endpoint_wf hash e" by (auto simp: registry_wf_def)
  from verify_end_wf[OF _ this ws_probed.hyps(3)] ws_probed have "registry_wf hash s' P" by blast
  then show ?case by (auto simp: registry_wf_def dest: notin_set_remove1 set_remove1_subset[THEN subsetD])
next
  case (ws_emit s P J now ids ev payload x atts s')
  then show ?case using registry_wf_cong[OF emitted_endpoints[OF ws_emit.prems ws_emit.hyps(2)]] by simp
next
  case (ws_reply s P J1 a J2 now rep x s')
  then show ?case using registry_wf_cong[OF attempt_end_endpoints[OF ws_reply.hyps(2)]] by simp
next
  case (ws_wake s P J1 a J2 now)
  then show ?case using registry_wf_cong[of "attempt_begin now a s" s] by simp
next
  case (ws_retry s P J now ident did step s')
  then show ?case using registry_wf_cong[OF retry_endpoints[OF ws_retry.hyps(2)]] by simp
next
  case (ws_retried s P J now l d)
  then show ?case using registry_wf_cong[OF retry_end_keeps(1)] by blast
qed

text \<open>How the steps change the attempts under way.\<close>

lemma max_attempts_pos: "1 \<le> max_attempts E"
  by (simp add: max_attempts_def split: option.splits)

lemma jobs_wf_cong:
  "wh_records s' = wh_records s \<Longrightarrow> wh_next s' = wh_next s \<Longrightarrow> jobs_wf E s' J = jobs_wf E s J"
  by (simp add: jobs_wf_def)

lemma jobs_wf_push:
  assumes "jobs_wf E s J" and "de_status r = DeliveryPending" and "at_delivery a = wh_next s" and "at_attempt a = 1"
    and "map_of (wh_records s') = (map_of (wh_records s))(wh_next s \<mapsto> r)" and "wh_next s' = Suc (wh_next s)"
  shows "jobs_wf E s' (Sent a # J)"
proof -
  have fresh: "job_delivery j \<noteq> wh_next s" if "j \<in> set J" for j
    using assms(1) that unfolding jobs_wf_def by (metis less_irrefl)
  then have "wh_next s \<notin> set (map job_delivery J)" by (metis imageE list.set_map)
  moreover have "job_delivery (Sent a) = wh_next s" using assms(3) by (simp add: job_delivery_def)
  ultimately have "distinct (map job_delivery (Sent a # J))"
    using assms(1) by (simp add: jobs_wf_def)
  then show ?thesis using assms fresh max_attempts_pos[of E] \<open>job_delivery (Sent a) = wh_next s\<close>
    unfolding jobs_wf_def by (auto simp: less_Suc_eq)
qed

lemma emit_loop_jobs:
  "0 \<le> wc_deliveryRetention cfg \<Longrightarrow> emit_loop cfg now ids ev payload es s = (ok, atts, s') \<Longrightarrow>
   jobs_wf E s J \<Longrightarrow> jobs_wf E s' (map Sent atts @ J)"
proof (induction es arbitrary: s ok atts s' J)
  case (Cons e es)
  let ?r = "new_record now (ids (wh_next s)) (we_id e) (we_url e) ev"
  let ?s1 = "push_delivery ?r s"
  let ?over = "wc_deliveryRetention cfg < int (length (wh_deliveries ?s1))"
  let ?s2 = "if ?over then ?s1\<lparr>wh_deliveries := take (nat (wc_deliveryRetention cfg)) (wh_deliveries ?s1)\<rparr> else ?s1"
  let ?a = "\<lparr>at_endpoint = e, at_delivery = wh_next s, at_payload = payload, at_attempt = 1\<rparr>"
  let ?s3 = "attempt_begin now ?a ?s2"
  obtain ok' atts' where r: "emit_loop cfg now ids ev payload es ?s3 = (ok', atts', s')" "atts = ?a # atts'"
    using Cons.prems by (auto simp: Let_def split: prod.splits)
  have "map_of (wh_records ?s3) = (map_of (wh_records s))(wh_next s \<mapsto> ?r\<lparr>de_attempts := 1, de_updatedAt := now\<rparr>)"
    by (rule ext) (auto simp: attempt_begin_look)
  then have "jobs_wf E ?s3 (Sent ?a # J)"
    by (intro jobs_wf_push[OF Cons.prems(3), of "?r\<lparr>de_attempts := 1, de_updatedAt := now\<rparr>" ?a])
      (simp_all add: new_record_def)
  from Cons.IH[OF Cons.prems(1) r(1) this] have j: "jobs_wf E s' (map Sent atts' @ Sent ?a # J)" .
  then show ?case unfolding r(2) by (auto simp: jobs_wf_def)
qed auto

lemma jobs_wf_split:
  "jobs_wf E s (J1 @ j # J2) \<longleftrightarrow> jobs_wf E s (j # J1 @ J2)"
  by (auto simp: jobs_wf_def)

lemma jobs_wf_replace:
  assumes wf: "jobs_wf E s (j # J)" and rec: "map_of (wh_records s') = (map_of (wh_records s))(job_delivery j \<mapsto> r)"
    and nxt: "wh_next s \<le> wh_next s'"
    and K: "K = [] \<and> de_status r \<noteq> DeliveryPending \<or> de_status r = DeliveryPending \<and> (\<exists>i. K = [i] \<and> job_delivery i = job_delivery j
      \<and> 1 \<le> at_attempt (job_attempt i) \<and> at_attempt (job_attempt i) \<le> max_attempts E)"
  shows "jobs_wf E s' (K @ J)"
proof -
  from wf have d: "job_delivery j \<notin> job_delivery ` set J" "distinct (map job_delivery J)"
    by (simp_all add: jobs_wf_def)
  have jobs: "1 \<le> at_attempt (job_attempt i) \<and> at_attempt (job_attempt i) \<le> max_attempts E
      \<and> (\<exists>q. map_of (wh_records s') (job_delivery i) = Some q \<and> de_status q = DeliveryPending)" if "i \<in> set J" for i
  proof -
    have "job_delivery i \<noteq> job_delivery j" using d(1) that by (metis image_eqI)
    with wf that rec show ?thesis by (simp add: jobs_wf_def)
  qed
  have records: "d < wh_next s' \<and> (de_status q = DeliveryPending \<longrightarrow> d \<in> job_delivery ` set (K @ J))"
    if q: "map_of (wh_records s') d = Some q" for d q
  proof (cases "d = job_delivery j")
    case True
    from wf obtain p where "map_of (wh_records s) (job_delivery j) = Some p" by (auto simp: jobs_wf_def)
    with wf have "job_delivery j < wh_next s" by (simp add: jobs_wf_def)
    with True q rec K nxt show ?thesis by auto
  next
    case False
    with q rec have "map_of (wh_records s) d = Some q" by simp
    with wf have "d < wh_next s" "de_status q = DeliveryPending \<longrightarrow> d \<in> job_delivery ` set (j # J)"
      by (simp_all add: jobs_wf_def)
    with False nxt show ?thesis by auto
  qed
  from K show ?thesis
  proof (elim disjE conjE exE)
    assume "K = []" with d(2) jobs records show ?thesis by (simp add: jobs_wf_def)
  next
    fix i assume i: "de_status r = DeliveryPending" "K = [i]" "job_delivery i = job_delivery j"
      "1 \<le> at_attempt (job_attempt i)" "at_attempt (job_attempt i) \<le> max_attempts E"
    have "distinct (map job_delivery (K @ J))" using d i(2,3) by simp
    moreover have "\<exists>q. map_of (wh_records s') (job_delivery i) = Some q \<and> de_status q = DeliveryPending"
      using rec i(1,3) by simp
    ultimately show ?thesis using jobs records i(2,4,5) by (simp add: jobs_wf_def)
  qed
qed

lemma attempt_end_jobs:
  assumes "jobs_wf E s (J1 @ Sent a # J2)" and "attempt_end E cfg now rep a s = (nxt, s')"
  shows "jobs_wf E s' (J1 @ (case nxt of None \<Rightarrow> [] | Some (a', delay) \<Rightarrow> [Sleeping a']) @ J2)"
proof -
  let ?d = "at_delivery a"
  have d: "job_delivery (Sent a) = ?d" by (simp add: job_delivery_def)
  from assms(1) obtain r where r: "map_of (wh_records s) ?d = Some r" "de_status r = DeliveryPending"
    "1 \<le> at_attempt a" "at_attempt a \<le> max_attempts E" by (auto simp: jobs_wf_def job_delivery_def)
  have wf: "jobs_wf E s (Sent a # J1 @ J2)" using assms(1) by (simp add: jobs_wf_split)
  note replace = jobs_wf_replace[OF wf, unfolded d]
  from r(1,3,4) show ?thesis
  proof (cases rule: attempt_end_cases[where reply = rep and cfg = cfg and now = now])
    case ok
    have "map_of (wh_records s') = (map_of (wh_records s))(?d \<mapsto> r\<lparr>de_status := Delivered, de_deliveredAt := Some now,
        de_updatedAt := now, de_lastError := None\<rparr>)" "wh_next s \<le> wh_next s'"
      using ok(2) assms(2) r(1) by (auto intro!: ext simp: update_record_look)
    from replace[OF this, of "[]"] ok(2) assms(2) show ?thesis by simp
  next
    case (retry m delay)
    have "map_of (wh_records s') = (map_of (wh_records s))(?d \<mapsto> r\<lparr>de_lastError := Some m\<rparr>)"
      "wh_next s \<le> wh_next s'"
      using retry(3) assms(2) r(1) by (auto intro!: ext simp: update_record_look)
    from replace[OF this, of "[Sleeping (a\<lparr>at_attempt := at_attempt a + 1\<rparr>)]"] retry(2,3) assms(2) r(2,3)
    show ?thesis by (simp add: jobs_wf_split job_delivery_def)
  next
    case (dead m)
    have "map_of (wh_records s') = (map_of (wh_records s))(?d \<mapsto> r\<lparr>de_lastError := Some m, de_status := DeliveryFailed,
        de_updatedAt := now\<rparr>)" "wh_next s \<le> wh_next s'"
      using dead(3) assms(2) r(1) by (auto intro!: ext simp: update_record_look)
    from replace[OF this, of "[]"] dead(3) assms(2) show ?thesis by simp
  qed
qed

lemma retry_letter_Retrying:
  assumes "retry_letter_begin now ident did s = (Retrying l a, s')"
  obtains entry endpoint where "find_letter ident s = Some (l, entry)"
    and "a = \<lparr>at_endpoint = endpoint, at_delivery = wh_next s, at_payload = dl_payload entry, at_attempt = 1\<rparr>"
    and "s' = attempt_begin now a (update_letter l (\<lambda>e. e\<lparr>dl_status := Requeued, dl_retriedAt := Some now,
        dl_updatedAt := now, dl_attempts := dl_attempts e + 1\<rparr>) (push_delivery
          (new_record now did (dl_endpointId entry) (dl_endpointUrl entry) (dl_eventType entry)) s))"
proof -
  obtain k entry where f: "find_letter ident s = Some (k, entry)"
    using assms by (auto simp: retry_letter_begin_def split: option.splits)
  then obtain endpoint where live: "live_endpoint (dl_endpointId entry) s = Some endpoint"
    using assms by (cases "live_endpoint (dl_endpointId entry) s") (auto simp: retry_letter_begin_def Let_def)
  let ?a = "\<lparr>at_endpoint = endpoint, at_delivery = wh_next s, at_payload = dl_payload entry, at_attempt = 1\<rparr>"
  have "retry_letter_begin now ident did s = (Retrying k ?a, attempt_begin now ?a
      (update_letter k (\<lambda>e. e\<lparr>dl_status := Requeued, dl_retriedAt := Some now,
        dl_updatedAt := now, dl_attempts := dl_attempts e + 1\<rparr>) (push_delivery
          (new_record now did (dl_endpointId entry) (dl_endpointUrl entry) (dl_eventType entry)) s)))"
    using f live by (simp add: retry_letter_begin_def Let_def)
  from this[unfolded assms] that[of entry endpoint] f show ?thesis by simp
qed

lemma retry_letter_jobs:
  assumes "jobs_wf E s J" and "retry_letter_begin now ident did s = (step, s')"
  shows "jobs_wf E s' ((case step of Retrying l a \<Rightarrow> [Sent a] | _ \<Rightarrow> []) @ J)"
proof (cases step)
  case st: (Retrying l a)
  from assms(2)[unfolded st] obtain entry endpoint where f: "find_letter ident s = Some (l, entry)" and
    a: "a = \<lparr>at_endpoint = endpoint, at_delivery = wh_next s, at_payload = dl_payload entry, at_attempt = 1\<rparr>"
    and s': "s' = attempt_begin now a (update_letter l (\<lambda>e. e\<lparr>dl_status := Requeued, dl_retriedAt := Some now,
        dl_updatedAt := now, dl_attempts := dl_attempts e + 1\<rparr>) (push_delivery
          (new_record now did (dl_endpointId entry) (dl_endpointUrl entry) (dl_eventType entry)) s))"
    by (rule retry_letter_Retrying)
  let ?r = "(new_record now did (dl_endpointId entry) (dl_endpointUrl entry) (dl_eventType entry))
      \<lparr>de_attempts := 1, de_updatedAt := now\<rparr>"
  have "map_of (wh_records s') = (map_of (wh_records s))(wh_next s \<mapsto> ?r)"
    by (rule ext) (auto simp: s' a attempt_begin_look)
  then have "jobs_wf E s' (Sent a # J)"
    by (intro jobs_wf_push[OF assms(1), of ?r a]) (simp_all add: s' a new_record_def)
  then show ?thesis by (simp add: st)
next
  case (RetryDone x)
  then have "wh_records s' = wh_records s" "wh_next s' = wh_next s"
    using assms(2) by (auto simp: retry_letter_begin_def Let_def split: option.splits prod.splits)
  from jobs_wf_cong[OF this] assms(1) RetryDone show ?thesis by simp
qed

lemma put_endpoint_simps [simp]:
  "wh_records (put_endpoint i e s) = wh_records s" "wh_next (put_endpoint i e s) = wh_next s"
  by (simp_all add: put_endpoint_def)

lemma registry_steps_keep:
  "verify_begin now ident s = (v, s') \<Longrightarrow> wh_records s' = wh_records s \<and> wh_next s' = wh_next s"
  "registerWebhookEndpoint hash protocol E cfg now ident token input s = (r, s') \<Longrightarrow>
     wh_records s' = wh_records s \<and> wh_next s' = wh_next s"
  "updateWebhookEndpoint hash now ident upd s = (x, s') \<Longrightarrow> wh_records s' = wh_records s \<and> wh_next s' = wh_next s"
  "deleteWebhookEndpoint now ident actor s = (y, s') \<Longrightarrow> wh_records s' = wh_records s \<and> wh_next s' = wh_next s"
  "restoreWebhookEndpoint now ident s = (z, s') \<Longrightarrow> wh_records s' = wh_records s \<and> wh_next s' = wh_next s"
  "verify_end now ident e reply s = (u, s') \<Longrightarrow> wh_records s' = wh_records s \<and> wh_next s' = wh_next s"
proof -
  show v: "verify_begin now ident s = (v, s') \<Longrightarrow> wh_records s' = wh_records s \<and> wh_next s' = wh_next s" for s v s'
    by (auto simp: verify_begin_def Let_def split: option.splits if_splits)
  show "registerWebhookEndpoint hash protocol E cfg now ident token input s = (r, s') \<Longrightarrow>
     wh_records s' = wh_records s \<and> wh_next s' = wh_next s"
    by (auto simp: registerWebhookEndpoint_def Let_def split: option.splits prod.splits dest!: v)
qed (auto simp: updateWebhookEndpoint_def deleteWebhookEndpoint_def restoreWebhookEndpoint_def verify_end_def Let_def
      split: option.splits if_splits)

lemma jobs_invariant:
  "webhook_system hash protocol E cfg s P J \<Longrightarrow> 0 \<le> wc_deliveryRetention cfg \<Longrightarrow> jobs_wf E s J"
proof (induction rule: webhook_system.induct)
  case (ws_emit s P J now ids ev payload x atts s')
  obtain ok where "emit_loop cfg now ids ev payload (active_endpoints E ev s) s = (ok, atts, s')"
    using ws_emit.hyps(2) by (auto simp: emitTransactionEvent_def Let_def split: prod.splits)
  with emit_loop_jobs ws_emit show ?case by blast
next
  case (ws_wake s P J1 a J2 now)
  then have wf: "jobs_wf E s (Sleeping a # J1 @ J2)" by (simp add: jobs_wf_split)
  then obtain r where r: "map_of (wh_records s) (at_delivery a) = Some r" "de_status r = DeliveryPending"
    by (auto simp: jobs_wf_def job_delivery_def)
  have "map_of (wh_records (attempt_begin now a s)) =
      (map_of (wh_records s))(at_delivery a \<mapsto> r\<lparr>de_attempts := at_attempt a, de_updatedAt := now\<rparr>)"
    using r(1) by (intro ext) (simp add: attempt_begin_look)
  with wf r have "jobs_wf E (attempt_begin now a s) (Sent a # J1 @ J2)"
    unfolding jobs_wf_def by (auto simp: job_delivery_def)
  then show ?case by (simp add: jobs_wf_split)
next
  case (ws_retried s P J now l d)
  then show ?case using jobs_wf_cong[OF retry_end_keeps(2,3)] by blast
next
  case ws_init
  show ?case by (simp add: jobs_wf_def empty_webhooks_def)
next
  case (ws_reply s P J1 a J2 now rep nxt s')
  then show ?case using attempt_end_jobs by blast
next
  case (ws_retry s P J now ident did step s')
  then show ?case using retry_letter_jobs by blast
qed (use registry_steps_keep jobs_wf_cong in metis)+

text \<open>
  C13.  However registrations, probes, events, retries and timers interleave, no delivery is forgotten
  and none is sent twice at a time: a delivery is pending exactly while one attempt of it is under way,
  numbered within the maximum, and delivered and failed ones have none.  Every endpoint object, in the
  registry or held by a probe, carries the hash of its own secret and challenge, and a verified one has
  spent its challenge.
\<close>

theorem webhook_system_invariant:
  assumes "webhook_system hash protocol E cfg s P J" and "0 \<le> wc_deliveryRetention cfg"
  shows "distinct (map job_delivery J)
    \<and> (\<forall>d r. map_of (wh_records s) d = Some r \<longrightarrow>
         (de_status r = DeliveryPending \<longleftrightarrow>
            (\<exists>j \<in> set J. job_delivery j = d \<and> 1 \<le> at_attempt (job_attempt j) \<and> at_attempt (job_attempt j) \<le> max_attempts E)))
    \<and> (\<forall>ident e. map_of (wh_endpoints s) ident = Some e \<or> (ident, e) \<in> set P \<longrightarrow> endpoint_wf hash e)"
proof -
  have j: "jobs_wf E s J" and w: "registry_wf hash s P"
    using jobs_invariant[OF assms] registry_invariant[OF assms] by blast+
  have "de_status r = DeliveryPending \<longleftrightarrow>
      (\<exists>j \<in> set J. job_delivery j = d \<and> 1 \<le> at_attempt (job_attempt j) \<and> at_attempt (job_attempt j) \<le> max_attempts E)"
    if "map_of (wh_records s) d = Some r" for d r
    using j that unfolding jobs_wf_def by (metis (no_types, lifting) imageE option.inject)
  moreover have "distinct (map job_delivery J)" using j by (simp add: jobs_wf_def)
  ultimately show ?thesis using w unfolding registry_wf_def by blast
qed

section \<open>Signatures and dead letters\<close>

text \<open>A receiver that knows the secret accepts the request as it was sent, and no other signature.\<close>

lemma webhook_signature_roundtrip:
  "verifyWebhookSignature hmac stringify secret payload sig \<longleftrightarrow> sig = hmac secret (stringify payload)"
  by (auto simp: verifyWebhookSignature_def createWebhookSignature_def Let_def)

text \<open>
  A request to an endpoint with a secret is signed over exactly the body that is sent: the receiver's
  check of the signature header against the body it received succeeds, under that secret only as far as
  the HMAC distinguishes it.
\<close>

theorem sent_body_is_signed:
  assumes "truthy_str (we_secret (at_endpoint a))"
  shows "map_of (og_headers (outgoing_request hmac stringify now a r)) ''X-YieldVault-Signature'' =
      Some (hmac (the (we_secret (at_endpoint a))) (og_body (outgoing_request hmac stringify now a r)))
    \<and> (\<exists>payload. og_body (outgoing_request hmac stringify now a r) = stringify payload
         \<and> verifyWebhookSignature hmac stringify (the (we_secret (at_endpoint a))) payload
             (the (map_of (og_headers (outgoing_request hmac stringify now a r)) ''X-YieldVault-Signature'')))"
  using assms by (auto simp: outgoing_request_def Let_def createWebhookSignature_def webhook_signature_roundtrip)

text \<open>
  A requeued dead letter never learns of a late success: unless the first attempt of its retry
  settles it, the entry stays requeued and keeps its old error, even when a later attempt delivers.
\<close>

theorem requeued_letter_stays:
  assumes "retry_letter_begin now ident did s = (Retrying l a, s1)" and "2 \<le> max_attempts E"
    and "reply_error (ar_reply rep) = Some m"
    and "attempt_end E cfg now1 rep a s1 = (nxt, s2)" and "retry_letter_end now2 l (at_delivery a) s2 = (x, s3)"
  shows "(\<exists>a' delay. nxt = Some (a', delay) \<and> at_delivery a' = at_delivery a)
    \<and> (\<exists>e. x = Some e \<and> dl_status e = Requeued)"
proof -
  from assms(1) obtain entry endpoint where f: "find_letter ident s = Some (l, entry)" and
    a0: "a = \<lparr>at_endpoint = endpoint, at_delivery = wh_next s, at_payload = dl_payload entry, at_attempt = 1\<rparr>"
    and s1: "s1 = attempt_begin now a (update_letter l (\<lambda>e. e\<lparr>dl_status := Requeued, dl_retriedAt := Some now,
        dl_updatedAt := now, dl_attempts := dl_attempts e + 1\<rparr>) (push_delivery
          (new_record now did (dl_endpointId entry) (dl_endpointUrl entry) (dl_eventType entry)) s))"
    by (rule retry_letter_Retrying)
  from a0 have a: "at_attempt a = 1" "at_delivery a = wh_next s" by simp_all
  have r: "\<exists>q. map_of (wh_records s1) (wh_next s) = Some q \<and> de_status q = DeliveryPending"
    by (simp add: s1 a0 attempt_begin_look new_record_def)
  have w: "wh_letters s1 = wh_letters (update_letter l (\<lambda>e. e\<lparr>dl_status := Requeued, dl_retriedAt := Some now,
        dl_updatedAt := now, dl_attempts := dl_attempts e + 1\<rparr>) s)"
    by (simp add: s1 attempt_begin_def update_letter_def push_delivery_def split: option.splits)
  from f have "(l, entry) \<in> set (List.map_filter (\<lambda>l. map_option (Pair l) (map_of (wh_letters s) l)) (wh_deadLetters s))"
    unfolding find_letter_def by (rule find_SomeD[THEN conjunct1])
  then have "\<exists>e. map_of (wh_letters s) l = Some e" by (auto simp: List.map_filter_def)
  with w obtain e where e: "map_of (wh_letters s1) l = Some e" "dl_status e = Requeued"
    by (auto simp: update_letter_def jmap.look_put)
  from r obtain q where q: "map_of (wh_records s1) (at_delivery a) = Some q" "de_status q = DeliveryPending"
    using a(2) by auto
  have le: "at_attempt a \<le> max_attempts E" using a(1) assms(2) by simp
  obtain delay where n: "nxt = Some (a\<lparr>at_attempt := at_attempt a + 1\<rparr>, delay)"
    "s2 = update_record (at_delivery a) (\<lambda>r. r\<lparr>de_lastError := Some m\<rparr>) s1"
    using attempt_end_cases[OF q(1) _ le, of rep cfg now1] assms(2-4) a(1) by auto
  have "map_of (wh_records s2) (at_delivery a) = Some (q\<lparr>de_lastError := Some m\<rparr>)"
    using n(2) q(1) by (simp add: update_record_look)
  then have "x = Some (e\<lparr>dl_updatedAt := now2\<rparr>)"
    using assms(5) q(2) e(1) n(2) by (auto simp: retry_letter_end_def update_letter_def jmap.look_put)
  with n(1) e(2) show ?thesis by simp
qed

section \<open>A concrete instance\<close>

definition sample_webhook_env :: env where
  "sample_webhook_env = (\<lambda>_. None)"

definition sample_webhook_config :: webhook_config where
  "sample_webhook_config = \<lparr>wc_retryBaseDelayMs = 500, wc_deliveryRetention = 200, wc_jitterFactor = 1 / 2,
     wc_jitterMaxMs = 30000, wc_challengeTtlMs = 900000, wc_deliveryTimeoutMs = Some 5000\<rparr>"

definition sample_endpoint :: webhook_endpoint where
  "sample_endpoint = \<lparr>we_id = ''wh'', we_url = ''https://a'', we_eventTypes = [DepositCreated], we_enabled = True,
     we_secret = Some ''s'', we_secretHash = Some ''s'', we_verificationStatus = Unverified, we_challengeToken = Some ''t'',
     we_challengeTokenHash = Some ''t'', we_challengeExpiresAt = Some 900, we_verifiedAt = None,
     we_lastVerificationError = None, we_createdAt = 0, we_updatedAt = 0, we_deletedAt = None, we_deletedBy = None\<rparr>"

definition verified_endpoint :: webhook_endpoint where
  "verified_endpoint = sample_endpoint\<lparr>we_verificationStatus := Verified, we_challengeToken := None, we_verifiedAt := Some 5\<rparr>"

definition sample_attempt :: attempt where
  "sample_attempt = \<lparr>at_endpoint = verified_endpoint, at_delivery = 0, at_payload = JNull, at_attempt = 1\<rparr>"

definition sample_record :: delivery_record where
  "sample_record = new_record 1 ''whd'' ''wh'' ''https://a'' DepositCreated"

definition sample_webhooks :: "webhook_endpoint \<Rightarrow> webhook_state" where
  "sample_webhooks e = empty_webhooks\<lparr>wh_endpoints := [(''wh'', e)], wh_records := [(0, sample_record)],
     wh_deliveries := [0], wh_next := 1\<rparr>"

definition sample_world :: "int \<Rightarrow> attempt_world" where
  "sample_world n = \<lparr>aw_start = n, aw_end = n, aw_reply = \<lparr>ar_reply = Inr (if n < 3 then 500 else 200),
     ar_random = 0, ar_letter_id = ''l''\<rparr>\<rparr>"

lemma sample_max_attempts: "max_attempts sample_webhook_env = 3"
proof -
  have "js_parse_int ''3'' = Some 3" by code_simp
  then show ?thesis by (simp add: max_attempts_def getMaxAttempts_def sample_webhook_env_def env_or_def)
qed

theorem webhook_delivery_outcome_witness:
  "\<exists>k. 1 \<le> k \<and> k \<le> 3 \<and> delivery_ended sample_webhook_env sample_world sample_attempt k
     (sample_webhooks verified_endpoint)
     (deliver_chain sample_webhook_env sample_webhook_config sample_world sample_attempt (sample_webhooks verified_endpoint))"
  using webhook_delivery_outcome[of "sample_webhooks verified_endpoint" sample_attempt sample_record
      sample_webhook_env sample_world sample_webhook_config] sample_max_attempts
  by (auto simp: sample_webhooks_def sample_attempt_def)

theorem backoff_bounds_witness:
  "100 \<le> calculateBackoffDelay sample_webhook_config (1 / 2) 2 \<and> base_delay sample_webhook_config 3 = 2000"
  using backoff_bounds[of "1 / 2" sample_webhook_config 2] by (simp add: sample_webhook_config_def base_delay_def)

theorem event_reaches_active_endpoints_witness:
  "map at_endpoint (fst (snd (emitTransactionEvent sample_webhook_env sample_webhook_config 9 (\<lambda>n. ''d'') DepositCreated JNull
     (sample_webhooks verified_endpoint)))) = [verified_endpoint]"
proof -
  obtain c atts s' where e: "emitTransactionEvent sample_webhook_env sample_webhook_config 9 (\<lambda>n. ''d'') DepositCreated JNull
     (sample_webhooks verified_endpoint) = (c, atts, s')" by (metis prod_cases3)
  have "active_endpoints sample_webhook_env DepositCreated (sample_webhooks verified_endpoint) = [verified_endpoint]"
    by (simp add: active_endpoints_def sample_webhooks_def verified_endpoint_def sample_endpoint_def)
  with event_reaches_active_endpoints[OF _ e] e show ?thesis by (simp add: sample_webhook_config_def)
qed

lemma sample_live: "we_deletedAt e = None \<Longrightarrow> live_endpoint ''wh'' (sample_webhooks e) = Some e"
  by (simp add: live_endpoint_def sample_webhooks_def)

theorem verified_only_by_challenge_witness:
  "ev_verificationStatus (fst (verify_end 7 ''wh'' sample_endpoint
     (Inr \<lparr>pr_status = 200, pr_header = Some ''x'', pr_body_challenge = None\<rparr>) (sample_webhooks sample_endpoint))) = Unconfirmed"
proof -
  obtain v s' where e: "verify_end 7 ''wh'' sample_endpoint
     (Inr \<lparr>pr_status = 200, pr_header = Some ''x'', pr_body_challenge = None\<rparr>) (sample_webhooks sample_endpoint) = (v, s')"
    by fastforce
  from verified_only_by_challenge[OF e] e show ?thesis by (auto simp: sample_endpoint_def)
qed

theorem verification_revives_deleted_endpoint_witness:
  "live_endpoint ''wh'' (snd (deleteWebhookEndpoint 5 ''wh'' ''admin'' (sample_webhooks sample_endpoint))) = None
   \<and> live_endpoint ''wh'' (snd (verify_end 6 ''wh'' sample_endpoint
        (Inr \<lparr>pr_status = 200, pr_header = Some ''t'', pr_body_challenge = None\<rparr>)
        (snd (deleteWebhookEndpoint 5 ''wh'' ''admin'' (sample_webhooks sample_endpoint))))) \<noteq> None"
proof -
  have "we_deletedAt sample_endpoint = None" by (simp add: sample_endpoint_def)
  from verification_revives_deleted_endpoint[OF sample_live[OF this], of "''t''" 5 DepositCreated "''admin''" 6]
  show ?thesis by (auto simp: sample_endpoint_def Let_def)
qed

theorem reverification_fails_witness:
  "\<exists>e'. map_of (wh_endpoints (snd (verify_end 8 ''wh'' verified_endpoint
        (Inr \<lparr>pr_status = 200, pr_header = Some ''t'', pr_body_challenge = None\<rparr>) (sample_webhooks verified_endpoint)))) ''wh'' = Some e'
     \<and> we_verificationStatus e' = Unconfirmed"
proof -
  let ?s = "sample_webhooks verified_endpoint"
  let ?r = "Inr \<lparr>pr_status = 200, pr_header = Some ''t'', pr_body_challenge = None\<rparr>"
  have v: "we_deletedAt verified_endpoint = None" "we_verificationStatus verified_endpoint = Verified"
    "we_challengeToken verified_endpoint = None" "we_challengeExpiresAt verified_endpoint = Some 900"
    by (simp_all add: verified_endpoint_def sample_endpoint_def)
  have "verify_begin 7 ''wh'' ?s = (Probing verified_endpoint, ?s)"
    using sample_live[OF v(1)] v(4) by (simp add: verify_begin_def)
  with reverification_fails[OF sample_live[OF v(1)] v(2,3), where E = sample_webhook_env and now = 7 and now' = 8
      and reply = ?r and s' = "snd (verify_end 8 ''wh'' verified_endpoint ?r ?s)" and ev = DepositCreated]
  show ?thesis by (auto simp: isUnverifiedDeliveryAllowed_def sample_webhook_env_def)
qed

theorem webhook_system_invariant_witness:
  "\<exists>s J. webhook_system (\<lambda>x. x) (\<lambda>u. Some ''https:'') sample_webhook_env sample_webhook_config s
       [(''wh'', the (map_of (wh_endpoints s) ''wh''))] J
     \<and> (\<forall>e. map_of (wh_endpoints s) ''wh'' = Some e \<longrightarrow> endpoint_wf (\<lambda>x. x) e)"
proof -
  let ?input = "\<lparr>ri_url = ''https://a'', ri_eventTypes = None, ri_enabled = None, ri_secret = Some ''s''\<rparr>"
  let ?e = "new_endpoint (\<lambda>x. x) sample_webhook_env sample_webhook_config 1 ''wh'' ''t'' ?input"
  have live: "live_endpoint ''wh'' (put_endpoint ''wh'' ?e empty_webhooks) = Some ?e"
    by (simp add: new_endpoint_def)
  have "we_challengeExpiresAt ?e = Some 900001" by (simp add: new_endpoint_def sample_webhook_config_def)
  with live have vb: "verify_begin 1 ''wh'' (put_endpoint ''wh'' ?e empty_webhooks) =
      (Probing ?e, put_endpoint ''wh'' ?e empty_webhooks)" by (simp add: verify_begin_def)
  have "registerWebhookEndpoint (\<lambda>x. x) (\<lambda>u. Some ''https:'') sample_webhook_env sample_webhook_config 1 ''wh'' ''t'' ?input
      empty_webhooks = (Inr (sanitizeWebhookEndpoint ?e, Probing ?e), put_endpoint ''wh'' ?e empty_webhooks)"
    by (simp add: registerWebhookEndpoint_def assertValidWebhookUrl_def Let_def vb)
  from ws_register[OF ws_init this]
  have sys: "webhook_system (\<lambda>x. x) (\<lambda>u. Some ''https:'') sample_webhook_env sample_webhook_config
      (put_endpoint ''wh'' ?e empty_webhooks) [(''wh'', ?e)] []" by simp
  have "0 \<le> wc_deliveryRetention sample_webhook_config" by (simp add: sample_webhook_config_def)
  from webhook_system_invariant[OF sys this] sys show ?thesis
    by (intro exI[of _ "put_endpoint ''wh'' ?e empty_webhooks"] exI[of _ "[]"])
      (auto simp: put_endpoint_def empty_webhooks_def)
qed

theorem sent_body_is_signed_witness:
  "map_of (og_headers (outgoing_request (\<lambda>k m. k @ m) (\<lambda>j. ''{}'') 1 sample_attempt sample_record)) ''X-YieldVault-Signature''
     = Some ''s{}''"
  using sent_body_is_signed[of sample_attempt "\<lambda>k m. k @ m" "\<lambda>j. ''{}''" 1 sample_record]
  by (simp add: sample_attempt_def verified_endpoint_def sample_endpoint_def truthy_str_def outgoing_request_def Let_def)

definition sample_letter :: dead_letter where
  "sample_letter = \<lparr>dl_id = ''l'', dl_endpointId = ''wh'', dl_endpointUrl = ''https://a'', dl_eventType = DepositCreated,
     dl_payload = JNull, dl_attempts = 3, dl_lastError = None, dl_originalDeliveryId = None, dl_status = InDeadLetter,
     dl_createdAt = 0, dl_updatedAt = 0, dl_retriedAt = None\<rparr>"

theorem requeued_letter_stays_witness:
  "\<exists>l a s1 nxt s2 x s3. retry_letter_begin 5 ''l'' ''d2'' ((sample_webhooks verified_endpoint)\<lparr>wh_deadLetters := [7],
       wh_letters := [(7, sample_letter)]\<rparr>) = (Retrying l a, s1)
     \<and> attempt_end sample_webhook_env sample_webhook_config 6 \<lparr>ar_reply = Inr 500, ar_random = 0, ar_letter_id = ''x''\<rparr> a s1 = (nxt, s2)
     \<and> retry_letter_end 7 l (at_delivery a) s2 = (x, s3) \<and> map_option dl_status x = Some Requeued"
proof -
  let ?s = "(sample_webhooks verified_endpoint)\<lparr>wh_deadLetters := [7], wh_letters := [(7, sample_letter)]\<rparr>"
  have "find_letter ''l'' ?s = Some (7, sample_letter)"
    by (simp add: find_letter_def List.map_filter_def sample_letter_def)
  moreover have "live_endpoint (dl_endpointId sample_letter) ?s = Some verified_endpoint"
    by (simp add: live_endpoint_def sample_webhooks_def sample_letter_def verified_endpoint_def sample_endpoint_def)
  ultimately obtain l a s1 where b: "retry_letter_begin 5 ''l'' ''d2'' ?s = (Retrying l a, s1)"
    by (auto simp: retry_letter_begin_def Let_def)
  let ?rep = "\<lparr>ar_reply = Inr 500, ar_random = 0, ar_letter_id = ''x''\<rparr>"
  obtain nxt s2 where e: "attempt_end sample_webhook_env sample_webhook_config 6 ?rep a s1 = (nxt, s2)" by fastforce
  obtain x s3 where f: "retry_letter_end 7 l (at_delivery a) s2 = (x, s3)" by fastforce
  have "2 \<le> max_attempts sample_webhook_env" by (simp add: sample_max_attempts)
  then have "\<exists>e. x = Some e \<and> dl_status e = Requeued"
  proof -
    have "\<exists>m. reply_error (ar_reply ?rep) = Some m" by (simp add: reply_error_def http_ok_def)
    then obtain m where "reply_error (ar_reply ?rep) = Some m" by blast
    from requeued_letter_stays[OF b \<open>2 \<le> max_attempts sample_webhook_env\<close> this e f] show ?thesis by blast
  qed
  with b e f show ?thesis by fastforce
qed

end
