(* ===== verification/EventPolling.thy ===== *)
theory EventPolling
  imports Http
begin

text \<open>
  The polling of contract events (\<open>backend/src/eventPollingService.ts\<close>): the replay of ledger ranges and
  the polling loop over a table of processed events and a cursor, and the leader lock in Redis.  The
  two tables, the commands of Redis on the one key of the lock, and the replies of the RPC are
  parameters.  \<open>replay_batches\<close> is the replay loop when nothing fails or interferes; \<open>polling_system\<close>
  interleaves the steps of any number of polls and replays, each of which may be cut off anywhere.
\<close>

section \<open>Events and tables\<close>

record stellar_event =
  ste_id :: string
  ste_type :: string
  ste_ledger :: int
  ste_contractId :: string
  ste_txHash :: string

record processed_row =
  pe_id :: string
  pe_ledgerSeq :: int
  pe_eventType :: string
  pe_contractId :: string
  pe_txHash :: string

record 'p event_tables =
  et_cursor :: "'p \<Rightarrow> int option"
  et_set_cursor :: "int \<Rightarrow> 'p \<Rightarrow> 'p"
  et_row :: "'p \<Rightarrow> string \<Rightarrow> processed_row option"
  et_upsert :: "processed_row \<Rightarrow> 'p \<Rightarrow> 'p"

text \<open>An upsert with an empty update keeps the row that is there.\<close>

locale event_store =
  fixes T :: "'p event_tables"
  assumes cursor_set: "et_cursor T (et_set_cursor T l d) = Some l"
    and cursor_upsert: "et_cursor T (et_upsert T r d) = et_cursor T d"
    and row_set: "et_row T (et_set_cursor T l d) = et_row T d"
    and row_upsert: "et_row T (et_upsert T r d) =
      (if et_row T d (pe_id r) = None then (et_row T d)(pe_id r \<mapsto> r) else et_row T d)"
begin

lemma row_kept: "et_row T d i = Some r \<Longrightarrow> et_row T (et_upsert T q d) i = Some r"
  by (auto simp: row_upsert)

lemma row_stored: "et_row T (et_upsert T q d) (pe_id q) \<noteq> None"
  by (auto simp: row_upsert)

end

type_synonym event_db = "int option \<times> (string, processed_row) js_map"

definition list_tables :: "event_db event_tables" where
  "list_tables = \<lparr>et_cursor = fst, et_set_cursor = (\<lambda>l d. (Some l, snd d)), et_row = (\<lambda>d. map_of (snd d)),
     et_upsert = (\<lambda>r d. if map_of (snd d) (pe_id r) = None then (fst d, AList.update (pe_id r) r (snd d)) else d)\<rparr>"

interpretation list_events: event_store list_tables
  by unfold_locales (auto simp: list_tables_def jmap.look_put)

lemma list_tables_laws: "event_store list_tables"
  by (rule list_events.event_store_axioms)

definition getLastProcessedLedger :: "'p event_tables \<Rightarrow> 'p \<Rightarrow> int" where
  "getLastProcessedLedger T d = nullish (et_cursor T d) 0"

definition updateCursor :: "'p event_tables \<Rightarrow> int \<Rightarrow> 'p \<Rightarrow> 'p" where
  "updateCursor T l d = et_set_cursor T l d"

definition isEventProcessed :: "'p event_tables \<Rightarrow> string \<Rightarrow> 'p \<Rightarrow> bool" where
  "isEventProcessed T i d \<longleftrightarrow> et_row T d i \<noteq> None"

definition processEvent :: "'p event_tables \<Rightarrow> stellar_event \<Rightarrow> 'p \<Rightarrow> 'p" where
  "processEvent T e d = et_upsert T \<lparr>pe_id = ste_id e, pe_ledgerSeq = ste_ledger e, pe_eventType = ste_type e,
     pe_contractId = ste_contractId e, pe_txHash = ste_txHash e\<rparr> d"

text \<open>The replies of the RPC: the message of a rejection, or the response, whose \<open>result\<close> is absent when
  it reports an error.\<close>

definition getCurrentLedger :: "string + int option \<Rightarrow> int" where
  "getCurrentLedger reply = (case reply of Inl m \<Rightarrow> 0 | Inr r \<Rightarrow> nullish r 0)"

type_synonym events_reply = "string + stellar_event list option"

definition fetchEventsForLedgerRange :: "int \<Rightarrow> int \<Rightarrow> events_reply \<Rightarrow> string + stellar_event list" where
  "fetchEventsForLedgerRange startLedger endLedger reply =
     (case reply of
        Inl m \<Rightarrow> Inl m
      | Inr events \<Rightarrow> Inr (filter (\<lambda>e. startLedger \<le> ste_ledger e \<and> ste_ledger e \<le> endLedger) (nullish events [])))"

section \<open>Replay of a range\<close>

record replay_counts =
  rc_processed :: nat
  rc_duplicate :: nat

text \<open>The loop over the events of a batch.\<close>

fun process_events :: "'p event_tables \<Rightarrow> stellar_event list \<Rightarrow> replay_counts \<times> 'p \<Rightarrow> replay_counts \<times> 'p" where
  "process_events T [] st = st"
| "process_events T (e # es) (c, d) =
     process_events T es
       (if isEventProcessed T (ste_id e) d then (c\<lparr>rc_duplicate := Suc (rc_duplicate c)\<rparr>, d)
        else (c\<lparr>rc_processed := Suc (rc_processed c)\<rparr>, processEvent T e d))"

text \<open>The loop over the batches, \<open>rpc l h\<close> being the reply to \<open>getEvents\<close>; a rejection is thrown, and a
  batch size that is not positive never ends it.\<close>

partial_function (option) replay_batches ::
  "'p event_tables \<Rightarrow> (int \<Rightarrow> int \<Rightarrow> events_reply) \<Rightarrow> int \<Rightarrow> int \<Rightarrow> int \<Rightarrow> replay_counts \<times> 'p \<Rightarrow>
   ((string + replay_counts) \<times> 'p) option" where
  "replay_batches T rpc batchSize toLedger ledger st =
     (if toLedger < ledger then Some (Inr (fst st), snd st)
      else
        let endLedger = min (ledger + batchSize - 1) toLedger
        in case fetchEventsForLedgerRange ledger endLedger (rpc ledger endLedger) of
             Inl m \<Rightarrow> Some (Inl m, snd st)
           | Inr events \<Rightarrow>
               let (c, d) = process_events T events st
               in replay_batches T rpc batchSize toLedger (ledger + batchSize) (c, updateCursor T endLedger d))"

declare replay_batches.simps [code]

definition max_range_size :: "env \<Rightarrow> int option" where
  "max_range_size E = js_parse_int (env_or E ''EVENT_REPLAY_MAX_RANGE_SIZE'' ''1000'')"

definition replayEventsForRange ::
  "'p event_tables \<Rightarrow> env \<Rightarrow> (int \<Rightarrow> int \<Rightarrow> events_reply) \<Rightarrow> int \<Rightarrow> int \<Rightarrow> int \<Rightarrow> 'p \<Rightarrow>
   ((string + replay_counts) \<times> 'p) option" where
  "replayEventsForRange T E rpc batchSize fromLedger toLedger d =
     (if toLedger < fromLedger then
        Some (Inl (''Invalid ledger range: fromLedger ('' @ show_int fromLedger @ '') must be <= toLedger ('' @ show_int toLedger @ '')''), d)
      else
        let rangeSize = toLedger - fromLedger + 1
        in case max_range_size E of
             Some maxRangeSize \<Rightarrow>
               if maxRangeSize < rangeSize then
                 Some (Inl (''Ledger range too large: '' @ show_int rangeSize @ '' ledgers exceeds maximum allowed '' @ show_int maxRangeSize), d)
               else replay_batches T rpc batchSize toLedger fromLedger (\<lparr>rc_processed = 0, rc_duplicate = 0\<rparr>, d)
           | None \<Rightarrow> replay_batches T rpc batchSize toLedger fromLedger (\<lparr>rc_processed = 0, rc_duplicate = 0\<rparr>, d))"

definition replayMissedEvents ::
  "'p event_tables \<Rightarrow> (int \<Rightarrow> int \<Rightarrow> events_reply) \<Rightarrow> string + int option \<Rightarrow> int \<Rightarrow> 'p \<Rightarrow>
   ((string + replay_counts) \<times> 'p) option" where
  "replayMissedEvents T rpc latest batchSize d =
     (let cursor = getLastProcessedLedger T d;
          currentLedger = getCurrentLedger latest
      in if currentLedger \<le> cursor then Some (Inr \<lparr>rc_processed = 0, rc_duplicate = 0\<rparr>, d)
         else replay_batches T rpc batchSize currentLedger (cursor + 1) (\<lparr>rc_processed = 0, rc_duplicate = 0\<rparr>, d))"

text \<open>One poll, when nothing fails but the RPC; it swallows its errors.\<close>

definition pollEvents ::
  "'p event_tables \<Rightarrow> (int \<Rightarrow> int \<Rightarrow> events_reply) \<Rightarrow> string + int option \<Rightarrow> 'p \<Rightarrow> 'p" where
  "pollEvents T rpc latest d =
     (let lastLedger = getLastProcessedLedger T d;
          currentLedger = getCurrentLedger latest
      in if currentLedger \<le> lastLedger then d
         else case fetchEventsForLedgerRange (lastLedger + 1) currentLedger (rpc (lastLedger + 1) currentLedger) of
                Inl m \<Rightarrow> d
              | Inr events \<Rightarrow>
                  updateCursor T currentLedger (snd (process_events T events (\<lparr>rc_processed = 0, rc_duplicate = 0\<rparr>, d))))"

section \<open>Polls and replays step by step\<close>

text \<open>A poll or replay between two of its waits: the cursor read, a batch asked for, the events of the
  batch still to check, the event about to be stored.  \<open>wk_batch\<close> is \<^const>\<open>None\<close> for a poll, which has
  one batch.  \<open>Locating\<close> waits for the latest ledger.\<close>

datatype worker_phase =
    Locating int
  | Fetching
  | Checking "stellar_event list"
  | Storing stellar_event "stellar_event list"

record worker =
  wk_batch :: "int option"
  wk_to :: int
  wk_ledger :: int
  wk_end :: int
  wk_phase :: worker_phase

definition batch_end :: "int option \<Rightarrow> int \<Rightarrow> int \<Rightarrow> int" where
  "batch_end batch ledger to = (case batch of None \<Rightarrow> to | Some b \<Rightarrow> min (ledger + b - 1) to)"

definition start_range :: "int option \<Rightarrow> int \<Rightarrow> int \<Rightarrow> worker" where
  "start_range batch fromLedger toLedger =
     \<lparr>wk_batch = batch, wk_to = toLedger, wk_ledger = fromLedger, wk_end = batch_end batch fromLedger toLedger,
      wk_phase = Fetching\<rparr>"

definition start_locating :: "'p event_tables \<Rightarrow> int option \<Rightarrow> 'p \<Rightarrow> worker" where
  "start_locating T batch d =
     \<lparr>wk_batch = batch, wk_to = 0, wk_ledger = 0, wk_end = 0, wk_phase = Locating (getLastProcessedLedger T d)\<rparr>"

definition next_batch :: "worker \<Rightarrow> worker option" where
  "next_batch w =
     (case wk_batch w of
        None \<Rightarrow> None
      | Some b \<Rightarrow>
          if wk_to w < wk_ledger w + b then None else Some (start_range (wk_batch w) (wk_ledger w + b) (wk_to w)))"

definition worker_step ::
  "'p event_tables \<Rightarrow> string + int option \<Rightarrow> events_reply \<Rightarrow> worker \<Rightarrow> 'p \<Rightarrow> worker option \<times> 'p" where
  "worker_step T latest reply w d =
     (case wk_phase w of
        Locating cursor \<Rightarrow>
          (let currentLedger = getCurrentLedger latest
           in if currentLedger \<le> cursor then (None, d)
              else (Some (start_range (wk_batch w) (cursor + 1) currentLedger), d))
      | Fetching \<Rightarrow>
          (case fetchEventsForLedgerRange (wk_ledger w) (wk_end w) reply of
             Inl m \<Rightarrow> (None, d)
           | Inr events \<Rightarrow> (Some (w\<lparr>wk_phase := Checking events\<rparr>), d))
      | Checking [] \<Rightarrow> (next_batch w, updateCursor T (wk_end w) d)
      | Checking (e # es) \<Rightarrow>
          (Some (w\<lparr>wk_phase := (if isEventProcessed T (ste_id e) d then Checking es else Storing e es)\<rparr>), d)
      | Storing e es \<Rightarrow> (Some (w\<lparr>wk_phase := Checking es\<rparr>), processEvent T e d))"

section \<open>The leader lock\<close>

text \<open>The commands on the key of the lock: \<open>SET v PX ms NX\<close>, \<open>SET v PX ms XX\<close> and the script that deletes
  the key if it holds \<open>v\<close>.\<close>

record 'l lock_key =
  lk_get :: "time \<Rightarrow> 'l \<Rightarrow> string option"
  lk_set_nx :: "time \<Rightarrow> string \<Rightarrow> int \<Rightarrow> 'l \<Rightarrow> bool \<times> 'l"
  lk_set_xx :: "time \<Rightarrow> string \<Rightarrow> int \<Rightarrow> 'l \<Rightarrow> bool \<times> 'l"
  lk_delete_if :: "time \<Rightarrow> string \<Rightarrow> 'l \<Rightarrow> 'l"

locale redis_lock =
  fixes K :: "'l lock_key"
  assumes nx_free: "lk_get K t l = None \<Longrightarrow> fst (lk_set_nx K t v ms l)"
    and nx_held: "lk_get K t l = Some x \<Longrightarrow> \<not> fst (lk_set_nx K t v ms l) \<and> lk_get K t' (snd (lk_set_nx K t v ms l)) = lk_get K t' l"
    and nx_set: "lk_get K t l = None \<Longrightarrow> t \<le> t' \<Longrightarrow>
      lk_get K t' (snd (lk_set_nx K t v ms l)) = (if t' < t + ms then Some v else None)"
    and xx_held: "lk_get K t l = Some x \<Longrightarrow> fst (lk_set_xx K t v ms l)"
    and xx_set: "lk_get K t l = Some x \<Longrightarrow> t \<le> t' \<Longrightarrow>
      lk_get K t' (snd (lk_set_xx K t v ms l)) = (if t' < t + ms then Some v else None)"
    and xx_free: "lk_get K t l = None \<Longrightarrow> \<not> fst (lk_set_xx K t v ms l)"
    and delete_if: "lk_get K t l = Some v \<Longrightarrow> lk_get K t' (lk_delete_if K t v l) = None"
    and delete_other: "lk_get K t l \<noteq> Some v \<Longrightarrow> t \<le> t' \<Longrightarrow> lk_get K t' (lk_delete_if K t v l) = lk_get K t' l"

type_synonym held_lock = "(string \<times> time) option"

definition held_get :: "time \<Rightarrow> held_lock \<Rightarrow> string option" where
  "held_get t l = (case l of None \<Rightarrow> None | Some (v, e) \<Rightarrow> if t < e then Some v else None)"

definition held_key :: "held_lock lock_key" where
  "held_key = \<lparr>lk_get = held_get,
     lk_set_nx = (\<lambda>t v ms l. if held_get t l = None then (True, Some (v, t + ms)) else (False, l)),
     lk_set_xx = (\<lambda>t v ms l. if held_get t l = None then (False, l) else (True, Some (v, t + ms))),
     lk_delete_if = (\<lambda>t v l. if held_get t l = Some v then None else l)\<rparr>"

interpretation held: redis_lock held_key
  by unfold_locales (auto simp: held_key_def held_get_def split: option.splits prod.splits if_splits)

lemma held_key_laws: "redis_lock held_key"
  by (rule held.redis_lock_axioms)

record polling_service =
  ps_isRunning :: bool
  ps_pollTimer :: bool
  ps_lockValue :: string
  ps_lockRenewalTimer :: bool
  ps_isLeader :: bool

definition new_service :: polling_service where
  "new_service = \<lparr>ps_isRunning = False, ps_pollTimer = False, ps_lockValue = [], ps_lockRenewalTimer = False,
     ps_isLeader = False\<rparr>"

definition lock_ms :: int where
  "lock_ms = 30000"

text \<open>\<open>ready\<close>: there is a Redis client and it is connected; \<open>ok\<close>: the command is answered.  The lock
  value drawn is \<open>fresh\<close>.\<close>

definition acquireLeaderLock ::
  "'l lock_key \<Rightarrow> bool \<Rightarrow> bool \<Rightarrow> time \<Rightarrow> string \<Rightarrow> polling_service \<Rightarrow> 'l \<Rightarrow> polling_service \<times> 'l" where
  "acquireLeaderLock K ready ok now fresh s l =
     (if \<not> ready then (s\<lparr>ps_isLeader := True\<rparr>, l)
      else
        let s1 = s\<lparr>ps_lockValue := fresh\<rparr>
        in if \<not> ok then (s1\<lparr>ps_isLeader := False\<rparr>, l)
           else case lk_set_nx K now fresh lock_ms l of
                  (True, l') \<Rightarrow> (s1\<lparr>ps_isLeader := True, ps_lockRenewalTimer := True\<rparr>, l')
                | (False, l') \<Rightarrow> (s1\<lparr>ps_isLeader := False\<rparr>, l'))"

definition releaseLeaderLock :: "'l lock_key \<Rightarrow> bool \<Rightarrow> bool \<Rightarrow> time \<Rightarrow> polling_service \<Rightarrow> 'l \<Rightarrow> 'l" where
  "releaseLeaderLock K ready ok now s l =
     (if \<not> ps_isLeader s \<or> ps_lockValue s = [] then l
      else if \<not> ready then l
      else if ok then lk_delete_if K now (ps_lockValue s) l else l)"

text \<open>The renewal timer fires.\<close>

definition renew_lock ::
  "'l lock_key \<Rightarrow> bool \<Rightarrow> bool \<Rightarrow> time \<Rightarrow> polling_service \<Rightarrow> 'l \<Rightarrow> polling_service \<times> 'l" where
  "renew_lock K ready ok now s l =
     (if \<not> ps_lockRenewalTimer s \<or> \<not> ps_isLeader s \<or> ps_lockValue s = [] then (s, l)
      else if \<not> ready then (s, l)
      else if \<not> ok then (s, l)
      else case lk_set_xx K now (ps_lockValue s) lock_ms l of
             (True, l') \<Rightarrow> (s, l')
           | (False, l') \<Rightarrow> (s\<lparr>ps_isLeader := False\<rparr>, l'))"

text \<open>\<open>start\<close>: up to the lock, and after the replay of missed events, which may have thrown.\<close>

definition service_start ::
  "'l lock_key \<Rightarrow> bool \<Rightarrow> bool \<Rightarrow> time \<Rightarrow> string \<Rightarrow> polling_service \<Rightarrow> 'l \<Rightarrow> bool \<times> polling_service \<times> 'l" where
  "service_start K ready ok now fresh s l =
     (if ps_isRunning s then (False, s, l)
      else let (s', l') = acquireLeaderLock K ready ok now fresh (s\<lparr>ps_isRunning := True\<rparr>) l in (True, s', l'))"

definition service_started :: "bool \<Rightarrow> polling_service \<Rightarrow> polling_service" where
  "service_started replayed s = (if replayed \<and> ps_isLeader s then s\<lparr>ps_pollTimer := True\<rparr> else s)"

definition service_stop :: "'l lock_key \<Rightarrow> bool \<Rightarrow> bool \<Rightarrow> time \<Rightarrow> polling_service \<Rightarrow> 'l \<Rightarrow> polling_service \<times> 'l" where
  "service_stop K ready ok now s l =
     (if \<not> ps_isRunning s then (s, l)
      else let s' = s\<lparr>ps_isRunning := False, ps_pollTimer := False\<rparr>
           in (s', releaseLeaderLock K ready ok now s' l))"

definition isCurrentLeader :: "polling_service \<Rightarrow> bool" where
  "isCurrentLeader s = ps_isLeader s"

text \<open>The singleton.\<close>

definition startEventPollingService ::
  "'l lock_key \<Rightarrow> bool \<Rightarrow> bool \<Rightarrow> time \<Rightarrow> string \<Rightarrow> polling_service option \<Rightarrow> 'l \<Rightarrow> polling_service \<times> 'l" where
  "startEventPollingService K ready ok now fresh svc l =
     (case svc of Some s \<Rightarrow> (s, l) | None \<Rightarrow> snd (service_start K ready ok now fresh new_service l))"

definition stopEventPollingService ::
  "'l lock_key \<Rightarrow> bool \<Rightarrow> bool \<Rightarrow> time \<Rightarrow> polling_service option \<Rightarrow> 'l \<Rightarrow> polling_service option \<times> 'l" where
  "stopEventPollingService K ready ok now svc l =
     (case svc of None \<Rightarrow> (None, l) | Some s \<Rightarrow> (None, snd (service_stop K ready ok now s l)))"

section \<open>The outcome of a replay\<close>

context event_store
begin

lemma processed_kept: "isEventProcessed T i d \<Longrightarrow> isEventProcessed T i (processEvent T e d)"
  by (auto simp: isEventProcessed_def processEvent_def row_upsert)

lemma processed_now: "isEventProcessed T (ste_id e) (processEvent T e d)"
  by (simp add: isEventProcessed_def processEvent_def row_upsert)

lemma processed_other: "i \<noteq> ste_id e \<Longrightarrow> isEventProcessed T i (processEvent T e d) = isEventProcessed T i d"
  by (simp add: isEventProcessed_def processEvent_def row_upsert)

lemma processed_cursor [simp]: "isEventProcessed T i (updateCursor T l d) = isEventProcessed T i d"
  by (simp add: isEventProcessed_def updateCursor_def row_set)

lemma cursor_process [simp]: "getLastProcessedLedger T (processEvent T e d) = getLastProcessedLedger T d"
  by (simp add: getLastProcessedLedger_def processEvent_def cursor_upsert)

lemma cursor_update [simp]: "getLastProcessedLedger T (updateCursor T l d) = l"
  by (simp add: getLastProcessedLedger_def updateCursor_def cursor_set)

lemma process_events_result:
  "process_events T es (c, d) = (c', d') \<Longrightarrow>
     (\<forall>i. isEventProcessed T i d' \<longleftrightarrow> isEventProcessed T i d \<or> i \<in> ste_id ` set es)
     \<and> getLastProcessedLedger T d' = getLastProcessedLedger T d
     \<and> rc_processed c' + rc_duplicate c' = rc_processed c + rc_duplicate c + length es"
proof (induction es arbitrary: c d)
  case (Cons e es)
  show ?case
  proof (cases "isEventProcessed T (ste_id e) d")
    case True
    with Cons.prems Cons.IH[of _ d] show ?thesis by auto
  next
    case False
    with Cons.prems have "process_events T es (c\<lparr>rc_processed := Suc (rc_processed c)\<rparr>, processEvent T e d) = (c', d')" by simp
    from Cons.IH[OF this] processed_now[of e d] processed_other[of _ e d] processed_kept[of _ d e] show ?thesis by auto
  qed
qed simp

end

text \<open>The events of the chain, and an RPC that answers every range with the events in it.\<close>

definition in_range :: "int \<Rightarrow> int \<Rightarrow> stellar_event \<Rightarrow> bool" where
  "in_range l h e \<longleftrightarrow> l \<le> ste_ledger e \<and> ste_ledger e \<le> h"

definition faithful_rpc :: "stellar_event set \<Rightarrow> (int \<Rightarrow> int \<Rightarrow> events_reply) \<Rightarrow> bool" where
  "faithful_rpc chain rpc \<longleftrightarrow>
     (\<forall>l h. \<exists>es. rpc l h = Inr (Some es) \<and> {e \<in> set es. in_range l h e} = {e \<in> chain. in_range l h e})"

lemma faithful_fetch:
  assumes "faithful_rpc chain rpc"
  obtains es where "fetchEventsForLedgerRange l h (rpc l h) = Inr es" "set es = {e \<in> chain. in_range l h e}"
proof -
  from assms obtain es where "rpc l h = Inr (Some es)" "{e \<in> set es. in_range l h e} = {e \<in> chain. in_range l h e}"
    unfolding faithful_rpc_def by blast
  then show thesis using that[of "filter (in_range l h) es"]
    by (auto simp: fetchEventsForLedgerRange_def in_range_def[abs_def])
qed

lemma replay_batches_result:
  assumes "event_store T" and "0 < b" and "faithful_rpc chain rpc"
  shows "\<exists>c' d'. replay_batches T rpc b to ledger (c, d) = Some (Inr c', d')
    \<and> (\<forall>i. isEventProcessed T i d' \<longleftrightarrow> isEventProcessed T i d \<or> (\<exists>e \<in> chain. in_range ledger to e \<and> ste_id e = i))
    \<and> getLastProcessedLedger T d' = (if ledger \<le> to then to else getLastProcessedLedger T d)"
proof (induction "nat (to + 1 - ledger)" arbitrary: ledger c d rule: less_induct)
  case less
  show ?case
  proof (cases "to < ledger")
    case True
    then show ?thesis by (subst replay_batches.simps) (auto simp: in_range_def)
  next
    case False
    let ?h = "min (ledger + b - 1) to"
    obtain es where es: "fetchEventsForLedgerRange ledger ?h (rpc ledger ?h) = Inr es"
      "set es = {e \<in> chain. in_range ledger ?h e}" by (rule faithful_fetch[OF assms(3)])
    obtain c1 d1 where p: "process_events T es (c, d) = (c1, d1)" by fastforce
    note pr = event_store.process_events_result[OF assms(1) p]
    have lt: "nat (to + 1 - (ledger + b)) < nat (to + 1 - ledger)" using assms(2) False by simp
    obtain c' d' where r: "replay_batches T rpc b to (ledger + b) (c1, updateCursor T ?h d1) = Some (Inr c', d')"
      "\<forall>i. isEventProcessed T i d' \<longleftrightarrow> isEventProcessed T i (updateCursor T ?h d1)
         \<or> (\<exists>e \<in> chain. in_range (ledger + b) to e \<and> ste_id e = i)"
      "getLastProcessedLedger T d' = (if ledger + b \<le> to then to else getLastProcessedLedger T (updateCursor T ?h d1))"
      using less[OF lt] by blast
    have "replay_batches T rpc b to ledger (c, d) = Some (Inr c', d')"
      using False es(1) p r(1) by (subst replay_batches.simps) (simp add: Let_def)
    moreover have "isEventProcessed T i d' \<longleftrightarrow> isEventProcessed T i d \<or> (\<exists>e \<in> chain. in_range ledger to e \<and> ste_id e = i)" for i
    proof -
      have "in_range ledger to e \<longleftrightarrow> in_range ledger ?h e \<or> in_range (ledger + b) to e" for e
        using assms(2) False by (auto simp: in_range_def)
      then show ?thesis using r(2) pr es(2) by (auto simp: event_store.processed_cursor[OF assms(1)])
    qed
    moreover have "getLastProcessedLedger T d' = to"
      using r(3) False by (auto simp: event_store.cursor_update[OF assms(1)])
    ultimately show ?thesis using False by auto
  qed
qed

text \<open>
  A replay ends and is independent of its batch size: with a positive batch size and an RPC that
  answers with the events of the chain, the loop over any range terminates, the table then holds
  exactly what it held before and the chain's events of that range, and the cursor stands at its end.
\<close>

theorem replay_terminates:
  assumes "event_store T" and "0 < batchSize" and "faithful_rpc chain rpc" and "fromLedger \<le> toLedger"
    and "\<forall>m. max_range_size E = Some m \<longrightarrow> toLedger - fromLedger + 1 \<le> m"
  shows "\<exists>c d'. replayEventsForRange T E rpc batchSize fromLedger toLedger d = Some (Inr c, d')
    \<and> (\<forall>i. isEventProcessed T i d' \<longleftrightarrow>
         isEventProcessed T i d \<or> (\<exists>e \<in> chain. in_range fromLedger toLedger e \<and> ste_id e = i))
    \<and> getLastProcessedLedger T d' = toLedger"
proof -
  have "replayEventsForRange T E rpc batchSize fromLedger toLedger d =
      replay_batches T rpc batchSize toLedger fromLedger (\<lparr>rc_processed = 0, rc_duplicate = 0\<rparr>, d)"
    using assms(4,5) by (auto simp: replayEventsForRange_def Let_def split: option.splits)
  with replay_batches_result[OF assms(1-3), of toLedger fromLedger] assms(4) show ?thesis by auto
qed

section \<open>No event is lost\<close>

text \<open>The polls and replays of any number of instances, interleaved: each starts, makes a step with
  whatever the RPC answers, or is cut off by a failure.  A reply that is no rejection holds the
  chain's events of its range.  A manual replay starts at most one ledger after the cursor.\<close>

definition complete_reply :: "stellar_event set \<Rightarrow> worker \<Rightarrow> events_reply \<Rightarrow> bool" where
  "complete_reply chain w reply \<longleftrightarrow>
     (\<forall>r. reply = Inr r \<longrightarrow> (\<forall>e \<in> chain. in_range (wk_ledger w) (wk_end w) e \<longrightarrow> e \<in> set (nullish r [])))"

inductive polling_system ::
  "'p event_tables \<Rightarrow> stellar_event set \<Rightarrow> 'p \<Rightarrow> 'p \<Rightarrow> worker list \<Rightarrow> bool"
  for T :: "'p event_tables" and chain :: "stellar_event set" and d0 :: 'p where
  pl_init: "polling_system T chain d0 d0 []"
| pl_poll: "polling_system T chain d0 d ws \<Longrightarrow> polling_system T chain d0 d (start_locating T batch d # ws)"
| pl_replay: "polling_system T chain d0 d ws \<Longrightarrow> fromLedger \<le> getLastProcessedLedger T d + 1 \<Longrightarrow>
    polling_system T chain d0 d (start_range (Some b) fromLedger toLedger # ws)"
| pl_step: "polling_system T chain d0 d (ws1 @ w # ws2) \<Longrightarrow> complete_reply chain w reply \<Longrightarrow>
    worker_step T latest reply w d = (next, d') \<Longrightarrow>
    polling_system T chain d0 d' (ws1 @ (case next of None \<Rightarrow> [] | Some w' \<Rightarrow> [w']) @ ws2)"
| pl_fail: "polling_system T chain d0 d (ws1 @ w # ws2) \<Longrightarrow> polling_system T chain d0 d (ws1 @ ws2)"

text \<open>Everything of the chain after ledger \<open>c0\<close> and up to \<open>l\<close> is in the table.\<close>

definition covered :: "'p event_tables \<Rightarrow> stellar_event set \<Rightarrow> int \<Rightarrow> 'p \<Rightarrow> int \<Rightarrow> bool" where
  "covered T chain c0 d l \<longleftrightarrow>
     (\<forall>e \<in> chain. c0 < ste_ledger e \<and> ste_ledger e \<le> l \<longrightarrow> isEventProcessed T (ste_id e) d)"

definition worker_covered :: "'p event_tables \<Rightarrow> stellar_event set \<Rightarrow> int \<Rightarrow> 'p \<Rightarrow> worker \<Rightarrow> bool" where
  "worker_covered T chain c0 d w \<longleftrightarrow>
     (case wk_phase w of
        Locating c \<Rightarrow> covered T chain c0 d c
      | ph \<Rightarrow>
          covered T chain c0 d (wk_ledger w - 1) \<and> wk_end w = batch_end (wk_batch w) (wk_ledger w) (wk_to w)
          \<and> (let todo = (case ph of Checking es \<Rightarrow> set es | Storing e es \<Rightarrow> insert e (set es) | _ \<Rightarrow> UNIV)
             in \<forall>e \<in> chain. in_range (wk_ledger w) (wk_end w) e \<longrightarrow> isEventProcessed T (ste_id e) d \<or> e \<in> todo))"

lemma covered_mono:
  "covered T chain c0 d l \<Longrightarrow> l' \<le> l \<Longrightarrow> (\<And>i. isEventProcessed T i d \<Longrightarrow> isEventProcessed T i d') \<Longrightarrow> covered T chain c0 d' l'"
  by (auto simp: covered_def)

lemma worker_covered_mono:
  assumes "worker_covered T chain c0 d w" and m: "\<And>i. isEventProcessed T i d \<Longrightarrow> isEventProcessed T i d'"
  shows "worker_covered T chain c0 d' w"
  using assms(1) covered_mono[OF _ order_refl m] m
  unfolding worker_covered_def by (auto simp: Let_def split: worker_phase.splits)

lemma worker_step_grows:
  assumes "event_store T" and "worker_step T latest reply w d = (nxt, d')" and "isEventProcessed T i d"
  shows "isEventProcessed T i d'"
  using assms(2,3) event_store.processed_kept[OF assms(1)]
  by (auto simp: worker_step_def Let_def event_store.processed_cursor[OF assms(1)]
      split: worker_phase.splits sum.splits list.splits if_splits)

lemma start_range_covered:
  "covered T chain c0 d (l - 1) \<Longrightarrow> worker_covered T chain c0 d (start_range batch l to)"
  by (simp add: worker_covered_def start_range_def)

lemma batch_done:
  assumes "covered T chain c0 d (wk_ledger w - 1)"
    and "\<forall>e \<in> chain. in_range (wk_ledger w) (wk_end w) e \<longrightarrow> isEventProcessed T (ste_id e) d"
  shows "covered T chain c0 d (wk_end w)"
  using assms by (auto simp: covered_def in_range_def) (meson not_le zle_diff1_eq)

lemma worker_step_covered:
  assumes "event_store T" and "worker_covered T chain c0 d w" and "covered T chain c0 d (getLastProcessedLedger T d)"
    and "complete_reply chain w reply" and "worker_step T latest reply w d = (nxt, d')"
  shows "covered T chain c0 d' (getLastProcessedLedger T d')
    \<and> (\<forall>w'. nxt = Some w' \<longrightarrow> worker_covered T chain c0 d' w')"
proof (cases "wk_phase w")
  case (Locating c)
  with assms(2,3,5) start_range_covered[of T chain c0 d "c + 1"] show ?thesis
    by (auto simp: worker_step_def worker_covered_def Let_def split: if_splits)
next
  case Fetching
  show ?thesis
  proof (cases "fetchEventsForLedgerRange (wk_ledger w) (wk_end w) reply")
    case (Inl m)
    with Fetching assms(3,5) show ?thesis by (auto simp: worker_step_def)
  next
    case (Inr es)
    then obtain r where r: "reply = Inr r" "es = filter (in_range (wk_ledger w) (wk_end w)) (nullish r [])"
      by (cases reply) (simp_all add: fetchEventsForLedgerRange_def in_range_def[abs_def])
    with assms(4) have "\<forall>e \<in> chain. in_range (wk_ledger w) (wk_end w) e \<longrightarrow> e \<in> set es"
      by (auto simp: complete_reply_def)
    with Inr Fetching assms(2,3,5) show ?thesis
      by (auto simp: worker_step_def worker_covered_def Let_def)
  qed
next
  case (Checking es)
  show ?thesis
  proof (cases es)
    case Nil
    with assms(2) Checking have c: "covered T chain c0 d (wk_end w)"
      by (intro batch_done) (auto simp: worker_covered_def)
    have d': "d' = updateCursor T (wk_end w) d" and n: "nxt = next_batch w"
      using assms(5) Checking Nil by (simp_all add: worker_step_def)
    have grow: "isEventProcessed T i d \<Longrightarrow> isEventProcessed T i d'" for i
      by (simp add: d' event_store.processed_cursor[OF assms(1)])
    have "worker_covered T chain c0 d' w'" if "nxt = Some w'" for w'
    proof -
      from that n obtain b where b: "wk_batch w = Some b" "wk_ledger w + b \<le> wk_to w"
        "w' = start_range (wk_batch w) (wk_ledger w + b) (wk_to w)"
        by (auto simp: next_batch_def split: option.splits if_splits)
      have "wk_end w = batch_end (wk_batch w) (wk_ledger w) (wk_to w)"
        using assms(2) Checking by (simp add: worker_covered_def)
      with b have "wk_end w = wk_ledger w + b - 1" by (simp add: batch_end_def)
      with c grow show ?thesis unfolding b(3)
        by (intro start_range_covered) (auto intro: covered_mono)
    qed
    moreover have "covered T chain c0 d' (getLastProcessedLedger T d')"
      using covered_mono[OF c order_refl grow] by (simp add: d' event_store.cursor_update[OF assms(1)])
    ultimately show ?thesis by blast
  next
    case (Cons e es')
    with Checking assms(2,3,5) show ?thesis
      by (auto simp: worker_step_def worker_covered_def Let_def split: if_splits)
  qed
next
  case (Storing e es)
  then have d': "d' = processEvent T e d" and n: "nxt = Some (w\<lparr>wk_phase := Checking es\<rparr>)"
    using assms(5) by (simp_all add: worker_step_def)
  have grow: "isEventProcessed T i d \<Longrightarrow> isEventProcessed T i d'" for i
    by (simp add: d' event_store.processed_kept[OF assms(1)])
  have "covered T chain c0 d' (getLastProcessedLedger T d')"
    using covered_mono[OF assms(3) order_refl grow] by (simp add: d' event_store.cursor_process[OF assms(1)])
  moreover have "worker_covered T chain c0 d' (w\<lparr>wk_phase := Checking es\<rparr>)"
    using worker_covered_mono[OF assms(2) grow] Storing event_store.processed_now[OF assms(1), of e d]
    by (auto simp: worker_covered_def Let_def d')
  ultimately show ?thesis using n by simp
qed

lemma polling_invariant:
  assumes "event_store T" and "polling_system T chain d0 d ws"
  shows "covered T chain (getLastProcessedLedger T d0) d (getLastProcessedLedger T d)
    \<and> (\<forall>w \<in> set ws. worker_covered T chain (getLastProcessedLedger T d0) d w)"
  using assms(2)
proof (induction rule: polling_system.induct)
  case pl_init
  show ?case by (auto simp: covered_def)
next
  case (pl_poll d ws batch)
  then show ?case by (simp add: worker_covered_def start_locating_def)
next
  case (pl_replay d ws fromLedger b toLedger)
  then have "covered T chain (getLastProcessedLedger T d0) d (fromLedger - 1)"
    by (auto intro: covered_mono)
  with pl_replay start_range_covered show ?case by (metis set_ConsD)
next
  case (pl_step d ws1 w ws2 reply latest nxt d')
  note grow = worker_step_grows[OF assms(1) pl_step.hyps(3)]
  from worker_step_covered[OF assms(1) _ _ pl_step.hyps(2,3)] pl_step.IH have
    "covered T chain (getLastProcessedLedger T d0) d' (getLastProcessedLedger T d')"
    "\<forall>w'. nxt = Some w' \<longrightarrow> worker_covered T chain (getLastProcessedLedger T d0) d' w'" by auto
  moreover have "worker_covered T chain (getLastProcessedLedger T d0) d' v" if "v \<in> set ws1 \<union> set ws2" for v
    using pl_step.IH that by (intro worker_covered_mono[OF _ grow]) auto
  ultimately show ?case by (auto split: option.splits)
qed auto


section \<open>How events get lost\<close>

text \<open>A sequence of polls; each has the RPC's answers and the latest ledger it reports.\<close>

definition poll_all ::
  "'p event_tables \<Rightarrow> ((int \<Rightarrow> int \<Rightarrow> events_reply) \<times> (string + int option)) list \<Rightarrow> 'p \<Rightarrow> 'p" where
  "poll_all T polls d = fold (\<lambda>(rpc, latest). pollEvents T rpc latest) polls d"

definition distinct_id :: "stellar_event \<Rightarrow> (int \<Rightarrow> int \<Rightarrow> events_reply) \<Rightarrow> bool" where
  "distinct_id e rpc \<longleftrightarrow> (\<forall>l h es e'. rpc l h = Inr (Some es) \<longrightarrow> e' \<in> set es \<longrightarrow> ste_id e' = ste_id e \<longrightarrow> e' = e)"

lemma poll_keeps_lost:
  assumes "event_store T" and "\<not> isEventProcessed T (ste_id e) d" and "ste_ledger e \<le> getLastProcessedLedger T d"
    and "distinct_id e rpc"
  shows "\<not> isEventProcessed T (ste_id e) (pollEvents T rpc latest d)
    \<and> ste_ledger e \<le> getLastProcessedLedger T (pollEvents T rpc latest d)"
proof -
  let ?l = "getLastProcessedLedger T d" and ?c = "getCurrentLedger latest"
  show ?thesis
  proof (cases "?c \<le> ?l \<or> (\<exists>m. rpc (?l + 1) ?c = Inl m)")
    case True
    with assms(2,3) show ?thesis by (auto simp: pollEvents_def fetchEventsForLedgerRange_def Let_def)
  next
    case False
    then obtain r where r: "rpc (?l + 1) ?c = Inr r" "?l < ?c" by (cases "rpc (?l + 1) ?c") auto
    let ?es = "filter (\<lambda>e. ?l + 1 \<le> ste_ledger e \<and> ste_ledger e \<le> ?c) (nullish r [])"
    obtain c' d' where p: "process_events T ?es (\<lparr>rc_processed = 0, rc_duplicate = 0\<rparr>, d) = (c', d')" by fastforce
    have poll: "pollEvents T rpc latest d = updateCursor T ?c d'"
      using r p by (simp add: pollEvents_def fetchEventsForLedgerRange_def Let_def)
    have "ste_id e \<notin> ste_id ` set ?es"
    proof
      assume "ste_id e \<in> ste_id ` set ?es"
      then obtain e' where e': "e' \<in> set (nullish r [])" "?l + 1 \<le> ste_ledger e'" "ste_id e' = ste_id e" by auto
      then obtain es where "r = Some es" by (cases r) auto
      with e' r(1) assms(4) have "e' = e" unfolding distinct_id_def by auto
      with e'(2) assms(3) show False by simp
    qed
    with event_store.process_events_result[OF assms(1) p] assms(2,3) r(2) show ?thesis
      by (simp add: poll event_store.processed_cursor[OF assms(1)] event_store.cursor_update[OF assms(1)])
  qed
qed

text \<open>
  An event the RPC leaves out of one reply is lost for good.  A poll moves the cursor to the latest
  ledger whatever the reply holds: one with an error instead of a result, or one cut at the page size
  of 1000, makes it skip events, and no later poll, whatever it is answered, stores them.
\<close>

theorem incomplete_reply_loses_event:
  assumes "event_store T" and "getLastProcessedLedger T d < ste_ledger e" and "ste_ledger e \<le> getCurrentLedger latest"
    and "\<not> isEventProcessed T (ste_id e) d"
    and "rpc (getLastProcessedLedger T d + 1) (getCurrentLedger latest) = Inr r"
    and "\<forall>e' \<in> set (nullish r []). ste_id e' \<noteq> ste_id e" and "\<forall>(rpc', latest') \<in> set later. distinct_id e rpc'"
  shows "getLastProcessedLedger T (pollEvents T rpc latest d) = getCurrentLedger latest
    \<and> \<not> isEventProcessed T (ste_id e) (poll_all T later (pollEvents T rpc latest d))"
proof -
  let ?l = "getLastProcessedLedger T d" and ?c = "getCurrentLedger latest"
  let ?es = "filter (\<lambda>e. ?l + 1 \<le> ste_ledger e \<and> ste_ledger e \<le> ?c) (nullish r [])"
  obtain c' d' where p: "process_events T ?es (\<lparr>rc_processed = 0, rc_duplicate = 0\<rparr>, d) = (c', d')" by fastforce
  have poll: "pollEvents T rpc latest d = updateCursor T ?c d'"
    using assms(2,3,5) p by (simp add: pollEvents_def fetchEventsForLedgerRange_def Let_def)
  have cur: "getLastProcessedLedger T (pollEvents T rpc latest d) = ?c"
    by (simp add: poll event_store.cursor_update[OF assms(1)])
  have "\<not> isEventProcessed T (ste_id e) (pollEvents T rpc latest d)"
    using event_store.process_events_result[OF assms(1) p] assms(4,6)
    by (auto simp: poll event_store.processed_cursor[OF assms(1)])
  moreover have "\<not> isEventProcessed T (ste_id e) u \<Longrightarrow> ste_ledger e \<le> getLastProcessedLedger T u \<Longrightarrow>
      \<not> isEventProcessed T (ste_id e) (poll_all T later u)" for u
    using assms(7)
  proof (induction later arbitrary: u)
    case (Cons p later)
    obtain rpc' latest' where "p = (rpc', latest')" by fastforce
    with Cons.prems Cons.IH poll_keeps_lost[OF assms(1) Cons.prems(1,2), of rpc' latest'] show ?case
      by (simp add: poll_all_def)
  qed (simp add: poll_all_def)
  ultimately show ?thesis using cur assms(3) by simp
qed

section \<open>The leader\<close>

text \<open>
  The lock does not keep two instances from leading: once the lock of a leader has run out and a
  second instance has taken it, the first one's renewal, which only asks that the key exists,
  succeeds and overwrites the lock, and both go on as leaders; the second then cannot release it.
\<close>

theorem lock_renewal_split_brain:
  assumes "redis_lock K" and "lk_get K t l = None" and "ps_isLeader a" and "ps_lockRenewalTimer a"
    and "ps_lockValue a \<noteq> []" and "ps_lockValue a \<noteq> fresh" and "fresh \<noteq> []" and "t \<le> t'" and "t' < t + lock_ms"
    and "acquireLeaderLock K True True t fresh b l = (b', l1)" and "renew_lock K True True t' a l1 = (a', l2)"
  shows "ps_isLeader b' \<and> ps_isLeader a' \<and> lk_get K t' l1 = Some fresh \<and> lk_get K t' l2 = Some (ps_lockValue a)
    \<and> lk_get K t' (releaseLeaderLock K True True t' b' l2) = Some (ps_lockValue a)"
proof -
  note L = redis_lock.nx_free[OF assms(1,2)] redis_lock.nx_set[OF assms(1,2)]
  obtain ok l1' where nx: "lk_set_nx K t fresh lock_ms l = (ok, l1')" by fastforce
  with L(1)[of fresh lock_ms] have ok: ok by simp
  with assms(10) nx have b: "b' = b\<lparr>ps_lockValue := fresh, ps_isLeader := True, ps_lockRenewalTimer := True\<rparr>" "l1 = l1'"
    by (auto simp: acquireLeaderLock_def Let_def)
  have held: "lk_get K t' l1 = Some fresh" using L(2)[OF assms(8), of fresh lock_ms] nx assms(9) b(2) by simp
  obtain ok2 l2' where xx: "lk_set_xx K t' (ps_lockValue a) lock_ms l1 = (ok2, l2')" by fastforce
  with redis_lock.xx_held[OF assms(1) held] have "ok2" by (metis fst_conv)
  with assms(3-5,11) xx have a: "a' = a" "l2 = l2'" by (auto simp: renew_lock_def)
  have l2: "lk_get K t' l2 = Some (ps_lockValue a)"
    using redis_lock.xx_set[OF assms(1) held order_refl, of "ps_lockValue a" lock_ms] xx a(2) by (simp add: lock_ms_def)
  then have "lk_get K t' (lk_delete_if K t' fresh l2) = Some (ps_lockValue a)"
    using redis_lock.delete_other[OF assms(1), of t' l2 fresh t'] assms(6) by simp
  with l2 held a b(1) assms(3,7) show ?thesis by (simp add: releaseLeaderLock_def)
qed

text \<open>While the lock is held no other instance becomes leader through it; but losing the lock does not
  stop the polling timer, and stopping the service does not stop the renewal.\<close>

lemma held_lock_excludes:
  assumes "redis_lock K" and "lk_get K t l = Some x" and "acquireLeaderLock K True True t fresh b l = (b', l')"
  shows "\<not> ps_isLeader b' \<and> lk_get K t' l' = lk_get K t' l"
  using redis_lock.nx_held[OF assms(1,2), of fresh lock_ms t'] assms(3)
  by (auto simp: acquireLeaderLock_def Let_def split: prod.splits bool.splits)

lemma renewal_keeps_polling: "ps_pollTimer (fst (renew_lock K ready ok now s l)) = ps_pollTimer s"
  by (auto simp: renew_lock_def split: prod.splits bool.splits)

lemma stop_keeps_renewing:
  "ps_lockRenewalTimer (fst (service_stop K ready ok now s l)) = ps_lockRenewalTimer s
   \<and> ps_isLeader (fst (service_stop K ready ok now s l)) = ps_isLeader s"
  by (simp add: service_stop_def Let_def)

section \<open>A concrete instance\<close>

definition sample_event :: stellar_event where
  "sample_event = \<lparr>ste_id = ''e1'', ste_type = ''contract'', ste_ledger = 7, ste_contractId = ''C'', ste_txHash = ''h''\<rparr>"

definition sample_rpc :: "int \<Rightarrow> int \<Rightarrow> events_reply" where
  "sample_rpc l h = Inr (Some [sample_event])"

lemma sample_faithful: "faithful_rpc {sample_event} sample_rpc"
  by (auto simp: faithful_rpc_def sample_rpc_def)

lemma empty_cursor: "getLastProcessedLedger list_tables (None, []) = 0"
  by (simp add: getLastProcessedLedger_def list_tables_def)

theorem replay_terminates_witness:
  "\<exists>c d'. replayEventsForRange list_tables (\<lambda>_. None) sample_rpc 3 5 10 (None, []) = Some (Inr c, d')
    \<and> isEventProcessed list_tables ''e1'' d' \<and> getLastProcessedLedger list_tables d' = 10"
proof -
  have "max_range_size (\<lambda>_. None) = Some 1000"
  proof -
    have "js_parse_int ''1000'' = Some 1000" by code_simp
    then show ?thesis by (simp add: max_range_size_def env_or_def)
  qed
  then have "\<forall>m. max_range_size (\<lambda>_. None) = Some m \<longrightarrow> (10 :: int) - 5 + 1 \<le> m" by simp
  from replay_terminates[OF list_tables_laws _ sample_faithful _ this, of 3 "(None, [])"] show ?thesis
    by (auto simp: in_range_def sample_event_def)
qed


theorem incomplete_reply_loses_event_witness:
  "getLastProcessedLedger list_tables (pollEvents list_tables (\<lambda>l h. Inr None) (Inr (Some 9)) (None, [])) = 9
   \<and> \<not> isEventProcessed list_tables ''e1'' (poll_all list_tables [(sample_rpc, Inr (Some 20))]
        (pollEvents list_tables (\<lambda>l h. Inr None) (Inr (Some 9)) (None, [])))"
proof -
  have "\<forall>(rpc', latest') \<in> set [(sample_rpc, Inr (Some 20) :: string + int option)]. distinct_id sample_event rpc'"
    by (simp add: distinct_id_def sample_rpc_def)
  moreover have "\<not> isEventProcessed list_tables (ste_id sample_event) (None, [])"
    by (simp add: isEventProcessed_def list_tables_def)
  ultimately show ?thesis
    using incomplete_reply_loses_event[OF list_tables_laws, of "(None, [])" sample_event "Inr (Some 9)" "\<lambda>l h. Inr None" None
        "[(sample_rpc, Inr (Some 20))]"]
    by (simp add: empty_cursor sample_event_def getCurrentLedger_def)
qed

definition old_leader :: polling_service where
  "old_leader = \<lparr>ps_isRunning = True, ps_pollTimer = True, ps_lockValue = ''leader-a'', ps_lockRenewalTimer = True,
     ps_isLeader = True\<rparr>"

theorem lock_renewal_split_brain_witness:
  "\<exists>b' l1 a' l2. acquireLeaderLock held_key True True 40000 ''leader-b'' new_service (Some (''leader-a'', 30000)) = (b', l1)
    \<and> renew_lock held_key True True 45000 old_leader l1 = (a', l2)
    \<and> ps_isLeader a' \<and> ps_isLeader b' \<and> held_get 45000 l2 = Some ''leader-a''"
proof -
  obtain b' l1 where b: "acquireLeaderLock held_key True True 40000 ''leader-b'' new_service (Some (''leader-a'', 30000)) = (b', l1)"
    by fastforce
  obtain a' l2 where a: "renew_lock held_key True True 45000 old_leader l1 = (a', l2)" by fastforce
  have "lk_get held_key 40000 (Some (''leader-a'', 30000)) = None" by (simp add: held_key_def held_get_def)
  from lock_renewal_split_brain[OF held_key_laws this _ _ _ _ _ _ _ b a] a b show ?thesis
    by (simp add: old_leader_def lock_ms_def held_key_def)
qed

end
