(* ===== verification/Impersonation.thy ===== *)
theory Impersonation
  imports Http Calendar Wallet
begin

text \<open>
  Administrative impersonation sessions (\<open>backend/src/impersonationSessionService.ts\<close>): their two stores,
  the process's memory and the database, the three storage modes, and the ledger every use of a
  session is entered in.  The two tables are a parameter; \<open>up n\<close> says whether the \<open>n\<close>-th database call
  of an operation succeeds.  Metadata is stored as JSON text and read back, which is the identity on
  the objects stored; the database stamps a ledger row with the time of its call, here the entry's.
\<close>

section \<open>Data\<close>

datatype session_status = SessionActive | SessionEnded | SessionExpired

fun show_session_status :: "session_status \<Rightarrow> string" where
  "show_session_status SessionActive = ''active''"
| "show_session_status SessionEnded = ''ended''"
| "show_session_status SessionExpired = ''expired''"

datatype ledger_event = SessionStarted | SessionWasEnded | SessionWasExpired | SessionAccess

record imp_session =
  is_id :: string
  is_actor :: string
  is_apiKeyHash :: string
  is_targetWallet :: string
  is_reason :: string
  is_startedAt :: time
  is_expiresAt :: time
  is_endedAt :: "time option"
  is_status :: session_status
  is_ipAddress :: string
  is_userAgent :: string

record ledger_entry =
  il_id :: string
  il_sessionId :: string
  il_eventType :: ledger_event
  il_actor :: string
  il_metadata :: json
  il_createdAt :: time

record start_input =
  si_actor :: string
  si_apiKeyHash :: string
  si_targetWallet :: string
  si_reason :: string
  si_ipAddress :: string
  si_userAgent :: string

text \<open>The tables: an upsert creates the row, or sets the end and the status of the row that is there.\<close>

record 'p imp_tables =
  im_find :: "'p \<Rightarrow> string \<Rightarrow> imp_session option"
  im_rows :: "'p \<Rightarrow> imp_session list"
  im_upsert :: "imp_session \<Rightarrow> 'p \<Rightarrow> 'p"
  im_ledger :: "'p \<Rightarrow> ledger_entry list"
  im_append :: "ledger_entry \<Rightarrow> 'p \<Rightarrow> 'p"

definition upserted :: "imp_session \<Rightarrow> imp_session option \<Rightarrow> imp_session" where
  "upserted s old = (case old of None \<Rightarrow> s | Some o1 \<Rightarrow> o1\<lparr>is_endedAt := is_endedAt s, is_status := is_status s\<rparr>)"

locale imp_store =
  fixes T :: "'p imp_tables"
  assumes find_upsert: "im_find T (im_upsert T s d) = (im_find T d)(is_id s \<mapsto> upserted s (im_find T d (is_id s)))"
    and find_append: "im_find T (im_append T e d) = im_find T d"
    and find_row: "im_find T d i = Some s \<Longrightarrow> s \<in> set (im_rows T d) \<and> is_id s = i"
    and ledger_append: "set (im_ledger T (im_append T e d)) = insert e (set (im_ledger T d))"
    and ledger_upsert: "set (im_ledger T (im_upsert T s d)) = set (im_ledger T d)"

datatype storage_mode = MemoryMode | PrismaMode | HybridMode

record 'p imp_state =
  ip_db :: 'p
  ip_sessions :: "(string, imp_session) js_map"
  ip_ledger :: "ledger_entry list"

definition normalizeStorageMode :: "string option \<Rightarrow> storage_mode" where
  "normalizeStorageMode raw =
     (if raw = Some ''prisma'' then PrismaMode else if raw = Some ''memory'' then MemoryMode else HybridMode)"

definition storage_mode_of :: "env \<Rightarrow> storage_mode" where
  "storage_mode_of E = normalizeStorageMode (E ''IMPERSONATION_SESSION_STORAGE'')"

definition getSessionTtlMs :: "env \<Rightarrow> int" where
  "getSessionTtlMs E =
     (let seconds = (if truthy_str (E ''IMPERSONATION_SESSION_TTL_SECONDS'')
            then js_parse_int (the (E ''IMPERSONATION_SESSION_TTL_SECONDS'')) else Some 900)
      in case seconds of None \<Rightarrow> 900000 | Some n \<Rightarrow> if n \<le> 0 then 900000 else n * 1000)"

definition resolveEffectiveStatus :: "time \<Rightarrow> imp_session \<Rightarrow> session_status" where
  "resolveEffectiveStatus now s =
     (if is_status s = SessionEnded then SessionEnded
      else if is_expiresAt s \<le> now then SessionExpired
      else is_status s)"

section \<open>Stores\<close>

definition appendLedgerEntry ::
  "'p imp_tables \<Rightarrow> storage_mode \<Rightarrow> bool \<Rightarrow> ledger_entry \<Rightarrow> 'p imp_state \<Rightarrow> (string + unit) \<times> 'p imp_state" where
  "appendLedgerEntry T mode up entry st =
     (if mode = MemoryMode then (Inr (), st\<lparr>ip_ledger := entry # ip_ledger st\<rparr>)
      else if up then (Inr (), st\<lparr>ip_db := im_append T entry (ip_db st)\<rparr>)
      else if mode = PrismaMode then (Inl ''Failed to persist impersonation ledger entry'', st)
      else (Inr (), st\<lparr>ip_ledger := entry # ip_ledger st\<rparr>))"

definition persistSession ::
  "'p imp_tables \<Rightarrow> storage_mode \<Rightarrow> bool \<Rightarrow> imp_session \<Rightarrow> 'p imp_state \<Rightarrow> (string + unit) \<times> 'p imp_state" where
  "persistSession T mode up s st =
     (if mode = MemoryMode then (Inr (), st\<lparr>ip_sessions := AList.update (is_id s) s (ip_sessions st)\<rparr>)
      else if up then (Inr (), st\<lparr>ip_db := im_upsert T s (ip_db st)\<rparr>)
      else if mode = PrismaMode then (Inl ''Failed to persist impersonation session'', st)
      else (Inr (), st\<lparr>ip_sessions := AList.update (is_id s) s (ip_sessions st)\<rparr>))"

definition getSessionById ::
  "'p imp_tables \<Rightarrow> storage_mode \<Rightarrow> bool \<Rightarrow> string \<Rightarrow> 'p imp_state \<Rightarrow> string + imp_session option" where
  "getSessionById T mode up ident st =
     (if mode = MemoryMode then Inr (map_of (ip_sessions st) ident)
      else if up then Inr (im_find T (ip_db st) ident)
      else if mode = PrismaMode then Inl ''Failed to read impersonation session''
      else Inr (map_of (ip_sessions st) ident))"

text \<open>A session is persisted and its event entered, the first failure ending the operation.\<close>

definition persist_and_log ::
  "'p imp_tables \<Rightarrow> storage_mode \<Rightarrow> (nat \<Rightarrow> bool) \<Rightarrow> imp_session \<Rightarrow> ledger_entry \<Rightarrow> 'p imp_state \<Rightarrow>
   (string + unit) \<times> 'p imp_state" where
  "persist_and_log T mode up s entry st =
     (case persistSession T mode (up 1) s st of
        (Inl m, st1) \<Rightarrow> (Inl m, st1)
      | (Inr _, st1) \<Rightarrow> appendLedgerEntry T mode (up 2) entry st1)"

section \<open>Operations\<close>

definition startImpersonationSession ::
  "'p imp_tables \<Rightarrow> env \<Rightarrow> (nat \<Rightarrow> bool) \<Rightarrow> time \<Rightarrow> string \<Rightarrow> string \<Rightarrow> start_input \<Rightarrow> 'p imp_state \<Rightarrow>
   (string + imp_session) \<times> 'p imp_state" where
  "startImpersonationSession T E up now sessionId entryId input st =
     (let targetWallet = normalizeWalletAddress (Some (si_targetWallet input));
          session = \<lparr>is_id = sessionId, is_actor = si_actor input, is_apiKeyHash = si_apiKeyHash input,
            is_targetWallet = targetWallet, is_reason = js_trim (si_reason input), is_startedAt = now,
            is_expiresAt = now + getSessionTtlMs E, is_endedAt = None, is_status = SessionActive,
            is_ipAddress = si_ipAddress input, is_userAgent = si_userAgent input\<rparr>;
          entry = \<lparr>il_id = entryId, il_sessionId = sessionId, il_eventType = SessionStarted, il_actor = si_actor input,
            il_metadata = JObj [(''targetWallet'', JStr targetWallet), (''reason'', JStr (is_reason session)),
              (''expiresAt'', JStr (to_iso_string (is_expiresAt session)))], il_createdAt = now\<rparr>
      in case persist_and_log T (storage_mode_of E) up session entry st of
           (Inl m, st') \<Rightarrow> (Inl m, st')
         | (Inr _, st') \<Rightarrow> (Inr session, st'))"

definition endImpersonationSession ::
  "'p imp_tables \<Rightarrow> env \<Rightarrow> (nat \<Rightarrow> bool) \<Rightarrow> time \<Rightarrow> string \<Rightarrow> string \<Rightarrow> string \<Rightarrow> 'p imp_state \<Rightarrow>
   (string + imp_session option) \<times> 'p imp_state" where
  "endImpersonationSession T E up now entryId sessionId actor st =
     (case getSessionById T (storage_mode_of E) (up 0) sessionId st of
        Inl m \<Rightarrow> (Inl m, st)
      | Inr None \<Rightarrow> (Inr None, st)
      | Inr (Some session) \<Rightarrow>
          (case resolveEffectiveStatus now session of
             SessionExpired \<Rightarrow> (Inr None, st)
           | SessionEnded \<Rightarrow> (Inr (Some session), st)
           | SessionActive \<Rightarrow>
               let ended = session\<lparr>is_status := SessionEnded, is_endedAt := Some now\<rparr>;
                   entry = \<lparr>il_id = entryId, il_sessionId = is_id ended, il_eventType = SessionWasEnded, il_actor = actor,
                     il_metadata = JObj [(''targetWallet'', JStr (is_targetWallet ended)),
                       (''endedAt'', JStr (to_iso_string now))], il_createdAt = now\<rparr>
               in case persist_and_log T (storage_mode_of E) up ended entry st of
                    (Inl m, st') \<Rightarrow> (Inl m, st')
                  | (Inr _, st') \<Rightarrow> (Inr (Some ended), st')))"

definition markSessionExpired ::
  "'p imp_tables \<Rightarrow> env \<Rightarrow> (nat \<Rightarrow> bool) \<Rightarrow> time \<Rightarrow> string \<Rightarrow> imp_session \<Rightarrow> string \<Rightarrow> 'p imp_state \<Rightarrow>
   (string + imp_session) \<times> 'p imp_state" where
  "markSessionExpired T E up now entryId session actor st =
     (let expired = session\<lparr>is_status := SessionExpired, is_endedAt := Some (nullish (is_endedAt session) now)\<rparr>;
          entry = \<lparr>il_id = entryId, il_sessionId = is_id expired, il_eventType = SessionWasExpired, il_actor = actor,
            il_metadata = JObj [(''targetWallet'', JStr (is_targetWallet expired)),
              (''expiresAt'', JStr (to_iso_string (is_expiresAt expired)))], il_createdAt = now\<rparr>
      in case persist_and_log T (storage_mode_of E) up expired entry st of
           (Inl m, st') \<Rightarrow> (Inl m, st')
         | (Inr _, st') \<Rightarrow> (Inr expired, st'))"

datatype refusal = NotFound | Expired | Ended | WalletMismatch | ActorMismatch

datatype validation = Valid imp_session | Invalid refusal

definition validateImpersonationSession ::
  "'p imp_tables \<Rightarrow> env \<Rightarrow> (nat \<Rightarrow> bool) \<Rightarrow> time \<Rightarrow> string \<Rightarrow> string \<Rightarrow> string \<Rightarrow> string \<Rightarrow> 'p imp_state \<Rightarrow>
   (string + validation) \<times> 'p imp_state" where
  "validateImpersonationSession T E up now entryId sessionId targetWallet actor st =
     (case getSessionById T (storage_mode_of E) (up 0) sessionId st of
        Inl m \<Rightarrow> (Inl m, st)
      | Inr None \<Rightarrow> (Inr (Invalid NotFound), st)
      | Inr (Some session) \<Rightarrow>
          let normalizedTarget = normalizeWalletAddress (Some targetWallet)
          in if is_actor session \<noteq> actor then (Inr (Invalid ActorMismatch), st)
             else if is_targetWallet session \<noteq> normalizedTarget then (Inr (Invalid WalletMismatch), st)
             else (case resolveEffectiveStatus now session of
                SessionEnded \<Rightarrow> (Inr (Invalid Ended), st)
              | SessionExpired \<Rightarrow>
                  if is_status session \<noteq> SessionExpired then
                    (case markSessionExpired T E up now entryId session actor st of
                       (Inl m, st') \<Rightarrow> (Inl m, st')
                     | (Inr _, st') \<Rightarrow> (Inr (Invalid Expired), st'))
                  else (Inr (Invalid Expired), st)
              | SessionActive \<Rightarrow>
                  (case appendLedgerEntry T (storage_mode_of E) (up 1)
                      \<lparr>il_id = entryId, il_sessionId = is_id session, il_eventType = SessionAccess, il_actor = actor,
                       il_metadata = JObj [(''targetWallet'', JStr normalizedTarget)], il_createdAt = now\<rparr> st of
                     (Inl m, st') \<Rightarrow> (Inl m, st')
                   | (Inr _, st') \<Rightarrow> (Inr (Valid session), st'))))"

section \<open>Listings\<close>

record session_filters =
  sf_status :: "session_status option"
  sf_actor :: "string option"
  sf_targetWallet :: "string option"
  sf_limit :: nat

definition session_matches :: "session_filters \<Rightarrow> imp_session \<Rightarrow> bool" where
  "session_matches f s \<longleftrightarrow>
     (truthy_str (sf_actor f) \<longrightarrow> sf_actor f = Some (is_actor s))
     \<and> (truthy_str (sf_targetWallet f) \<longrightarrow> is_targetWallet s = normalizeWalletAddress (sf_targetWallet f))"

definition with_effective_status :: "time \<Rightarrow> imp_session \<Rightarrow> imp_session" where
  "with_effective_status now s = s\<lparr>is_status := resolveEffectiveStatus now s\<rparr>"

definition started_after :: "imp_session \<Rightarrow> imp_session \<Rightarrow> bool" where
  "started_after a b \<longleftrightarrow> is_startedAt a < is_startedAt b"

definition list_memory :: "time \<Rightarrow> session_filters \<Rightarrow> 'p imp_state \<Rightarrow> imp_session list" where
  "list_memory now f st =
     map (with_effective_status now) (take (sf_limit f) (js_sort started_after
       (filter (\<lambda>s. (sf_status f \<noteq> None \<longrightarrow> sf_status f = Some (resolveEffectiveStatus now s)) \<and> session_matches f s)
         (map snd (ip_sessions st)))))"

definition list_database :: "'p imp_tables \<Rightarrow> time \<Rightarrow> session_filters \<Rightarrow> 'p imp_state \<Rightarrow> imp_session list" where
  "list_database T now f st =
     map (with_effective_status now) (take (sf_limit f) (js_sort started_after
       (filter (\<lambda>s. (sf_status f \<noteq> None \<longrightarrow> sf_status f = Some (is_status s)) \<and> session_matches f s)
         (im_rows T (ip_db st)))))"

definition listImpersonationSessions ::
  "'p imp_tables \<Rightarrow> env \<Rightarrow> bool \<Rightarrow> time \<Rightarrow> session_filters \<Rightarrow> 'p imp_state \<Rightarrow> string + imp_session list" where
  "listImpersonationSessions T E up now f st =
     (case storage_mode_of E of
        MemoryMode \<Rightarrow> Inr (list_memory now f st)
      | PrismaMode \<Rightarrow> if up then Inr (list_database T now f st) else Inl ''Failed to list impersonation sessions''
      | HybridMode \<Rightarrow> Inr (if up then list_database T now f st else list_memory now f st))"

definition entry_after :: "ledger_entry \<Rightarrow> ledger_entry \<Rightarrow> bool" where
  "entry_after a b \<longleftrightarrow> il_createdAt a < il_createdAt b"

definition listImpersonationLedgerEntries ::
  "'p imp_tables \<Rightarrow> env \<Rightarrow> bool \<Rightarrow> string \<Rightarrow> 'p imp_state \<Rightarrow> string + ledger_entry list" where
  "listImpersonationLedgerEntries T E up sessionId st =
     (let mine = filter (\<lambda>e. il_sessionId e = sessionId)
      in case storage_mode_of E of
           MemoryMode \<Rightarrow> Inr (js_sort entry_after (mine (ip_ledger st)))
         | PrismaMode \<Rightarrow>
             if up then Inr (js_sort entry_after (mine (im_ledger T (ip_db st))))
             else Inl ''Failed to list impersonation ledger entries''
         | HybridMode \<Rightarrow>
             Inr (if up then js_sort entry_after (mine (im_ledger T (ip_db st))) else mine (ip_ledger st)))"

record session_context =
  sc_actor :: string
  sc_apiKeyHash :: string
  sc_ipAddress :: string
  sc_userAgent :: string

definition or_unknown :: "string option \<Rightarrow> string" where
  "or_unknown v = nullish (js_or v (Some ''unknown'')) ''unknown''"

definition resolveImpersonationSessionContext :: "request \<Rightarrow> session_context" where
  "resolveImpersonationSessionContext req =
     \<lparr>sc_actor = or_unknown (js_or (rq_headers req ''x-admin-address'')
         (js_or (rq_headers req ''x-admin-id'') (rq_headers req ''x-wallet-address''))),
      sc_apiKeyHash = or_unknown (rq_authApiKeyHash req), sc_ipAddress = or_unknown (rq_ip req),
      sc_userAgent = or_unknown (rq_headers req ''user-agent'')\<rparr>"

definition clearImpersonationSessionsForTests :: "'p imp_state \<Rightarrow> 'p imp_state" where
  "clearImpersonationSessionsForTests st = st\<lparr>ip_sessions := [], ip_ledger := []\<rparr>"

section \<open>Access\<close>

type_synonym imp_db = "imp_session list \<times> ledger_entry list"

definition find_session :: "imp_session list \<Rightarrow> string \<Rightarrow> imp_session option" where
  "find_session rows i = List.find (\<lambda>s. is_id s = i) rows"

definition upsert_row :: "imp_session \<Rightarrow> imp_session list \<Rightarrow> imp_session list" where
  "upsert_row s rows =
     (if find_session rows (is_id s) = None then rows @ [s]
      else map (\<lambda>o1. if is_id o1 = is_id s then upserted s (Some o1) else o1) rows)"

definition list_imp :: "imp_db imp_tables" where
  "list_imp = \<lparr>im_find = (\<lambda>d. find_session (fst d)), im_rows = fst,
     im_upsert = (\<lambda>s d. (upsert_row s (fst d), snd d)), im_ledger = snd, im_append = (\<lambda>e d. (fst d, e # snd d))\<rparr>"

lemma find_append_row:
  "find_session (rows @ [s]) i =
     (case find_session rows i of None \<Rightarrow> if is_id s = i then Some s else None | Some r \<Rightarrow> Some r)"
  by (induction rows) (auto simp: find_session_def)

lemma find_map_row:
  "find_session (map (\<lambda>o1. if is_id o1 = is_id s then upserted s (Some o1) else o1) rows) i =
     (if i = is_id s then map_option (\<lambda>o1. upserted s (Some o1)) (find_session rows i) else find_session rows i)"
  by (induction rows) (auto simp: find_session_def upserted_def)

lemma find_upsert_row:
  "find_session (upsert_row s rows) = (find_session rows)(is_id s \<mapsto> upserted s (find_session rows (is_id s)))"
  by (rule ext) (auto simp: upsert_row_def find_append_row find_map_row upserted_def split: option.splits)

interpretation list_imp: imp_store list_imp
  by unfold_locales (auto simp: list_imp_def find_upsert_row find_session_def dest: find_SomeD)

lemma list_imp_laws: "imp_store list_imp"
  by (rule list_imp.imp_store_axioms)

lemma append_entry:
  assumes "imp_store T" and "appendLedgerEntry T mode up e st = (Inr u, st')"
  shows "e \<in> set (ip_ledger st') \<union> set (im_ledger T (ip_db st'))"
  using assms by (auto simp: appendLedgerEntry_def imp_store.ledger_append split: if_splits)

text \<open>
  An impersonation is allowed exactly to the actor who opened the session, for its wallet in any
  spelling, while it is active and not past its time, and only if the access can be entered in the
  ledger; and every access allowed is in the ledger, under the session and the actor.
\<close>

theorem impersonation_access:
  assumes "imp_store T"
    and "validateImpersonationSession T E up now entryId sid wallet actor st = (result, st')"
  shows "(result = Inr (Valid s) \<longleftrightarrow>
      getSessionById T (storage_mode_of E) (up 0) sid st = Inr (Some s) \<and> is_actor s = actor
      \<and> is_targetWallet s = normalizeWalletAddress (Some wallet) \<and> is_status s = SessionActive \<and> now < is_expiresAt s
      \<and> (storage_mode_of E = PrismaMode \<longrightarrow> up 1))
    \<and> (result = Inr (Valid s) \<longrightarrow>
        (\<exists>e \<in> set (ip_ledger st') \<union> set (im_ledger T (ip_db st')).
           il_eventType e = SessionAccess \<and> il_sessionId e = is_id s \<and> il_actor e = actor \<and> il_createdAt e = now))"
proof (cases "getSessionById T (storage_mode_of E) (up 0) sid st")
  case (Inl m)
  with assms(2) show ?thesis by (auto simp: validateImpersonationSession_def)
next
  case (Inr found)
  show ?thesis
  proof (cases found)
    case None
    with Inr assms(2) show ?thesis by (auto simp: validateImpersonationSession_def)
  next
    case (Some session)
    let ?e = "\<lparr>il_id = entryId, il_sessionId = is_id session, il_eventType = SessionAccess, il_actor = actor,
      il_metadata = JObj [(''targetWallet'', JStr (normalizeWalletAddress (Some wallet)))], il_createdAt = now\<rparr>"
    show ?thesis
    proof (cases "is_actor session = actor \<and> is_targetWallet session = normalizeWalletAddress (Some wallet)
        \<and> resolveEffectiveStatus now session = SessionActive")
      case True
      obtain x st1 where a: "appendLedgerEntry T (storage_mode_of E) (up 1) ?e st = (x, st1)" by fastforce
      have ok: "(\<exists>u. x = Inr u) \<longleftrightarrow> (storage_mode_of E = PrismaMode \<longrightarrow> up 1)"
        using a by (auto simp: appendLedgerEntry_def split: if_splits)
      have st: "is_status session = SessionActive \<and> now < is_expiresAt session"
        using True by (auto simp: resolveEffectiveStatus_def split: if_splits)
      have r: "result = (case x of Inl m \<Rightarrow> Inl m | Inr _ \<Rightarrow> Inr (Valid session))" "st' = st1"
        using assms(2) Inr Some True a by (auto simp: validateImpersonationSession_def Let_def split: sum.splits)
      show ?thesis
      proof (cases x)
        case (Inl m)
        with r ok Inr Some show ?thesis by auto
      next
        case (Inr u)
        with append_entry[OF assms(1), of _ _ ?e st u st1] a
        have "?e \<in> set (ip_ledger st') \<union> set (im_ledger T (ip_db st'))" by (simp add: r(2))
        then have "\<exists>e \<in> set (ip_ledger st') \<union> set (im_ledger T (ip_db st')).
            il_eventType e = SessionAccess \<and> il_sessionId e = is_id session \<and> il_actor e = actor \<and> il_createdAt e = now"
          by (rule bexI[rotated]) simp
        moreover have "result = Inr (Valid session)" using r(1) Inr by simp
        moreover have "storage_mode_of E = PrismaMode \<longrightarrow> up 1" using ok Inr by blast
        ultimately show ?thesis using st True \<open>getSessionById T (storage_mode_of E) (up 0) sid st = Inr found\<close> Some by auto
      qed
    next
      case False
      then have "\<forall>s. result \<noteq> Inr (Valid s)"
        using assms(2) Inr Some
        by (auto simp: validateImpersonationSession_def Let_def split: session_status.splits if_splits prod.splits sum.splits)
      moreover have "is_status session = SessionActive \<and> now < is_expiresAt session \<longrightarrow>
          resolveEffectiveStatus now session = SessionActive" by (simp add: resolveEffectiveStatus_def)
      ultimately show ?thesis using False Inr Some by auto
    qed
  qed
qed

section \<open>The end of a session\<close>

datatype imp_op =
    StartOp string string start_input
  | EndOp string string string
  | ValidateOp string string string string

definition imp_run ::
  "'p imp_tables \<Rightarrow> env \<Rightarrow> (nat \<Rightarrow> bool) \<times> time \<times> imp_op \<Rightarrow> 'p imp_state \<Rightarrow> 'p imp_state" where
  "imp_run T E x st =
     (case x of
        (up, now, StartOp sid eid input) \<Rightarrow> snd (startImpersonationSession T E up now sid eid input st)
      | (up, now, EndOp eid sid actor) \<Rightarrow> snd (endImpersonationSession T E up now eid sid actor st)
      | (up, now, ValidateOp eid sid wallet actor) \<Rightarrow>
          snd (validateImpersonationSession T E up now eid sid wallet actor st))"

text \<open>The session as the mode's first store has it.\<close>

definition stored :: "'p imp_tables \<Rightarrow> env \<Rightarrow> string \<Rightarrow> 'p imp_state \<Rightarrow> imp_session option" where
  "stored T E sid st =
     (if storage_mode_of E = MemoryMode then map_of (ip_sessions st) sid else im_find T (ip_db st) sid)"

definition is_ended :: "'p imp_tables \<Rightarrow> env \<Rightarrow> string \<Rightarrow> 'p imp_state \<Rightarrow> bool" where
  "is_ended T E sid st \<longleftrightarrow> (\<exists>s. stored T E sid st = Some s \<and> is_status s = SessionEnded)"

definition keyed :: "'p imp_tables \<Rightarrow> 'p imp_state \<Rightarrow> bool" where
  "keyed T st \<longleftrightarrow> (\<forall>k s. map_of (ip_sessions st) k = Some s \<longrightarrow> is_id s = k)"

lemma stored_append:
  assumes "imp_store T" and "appendLedgerEntry T (storage_mode_of E) up e st = (x, st')"
  shows "stored T E sid st' = stored T E sid st \<and> ip_sessions st' = ip_sessions st"
  using assms by (auto simp: appendLedgerEntry_def stored_def imp_store.find_append split: if_splits)

lemma persist_keeps:
  assumes "imp_store T" and "persist_and_log T (storage_mode_of E) up s e st = (x, st')"
    and "storage_mode_of E = HybridMode \<longrightarrow> (\<forall>n. up n)" and "is_id s \<noteq> sid" and "keyed T st"
  shows "stored T E sid st' = stored T E sid st \<and> keyed T st'"
proof -
  obtain y st1 where p: "persistSession T (storage_mode_of E) (up 1) s st = (y, st1)" by fastforce
  then have 1: "stored T E sid st1 = stored T E sid st \<and> keyed T st1"
    using assms(3-5) by (auto simp: persistSession_def stored_def keyed_def jmap.look_put imp_store.find_upsert[OF assms(1)]
        split: if_splits)
  show ?thesis
  proof (cases y)
    case (Inl m)
    with p 1 assms(2) show ?thesis by (auto simp: persist_and_log_def)
  next
    case (Inr u)
    with p assms(2) have "appendLedgerEntry T (storage_mode_of E) (up 2) e st1 = (x, st')"
      by (simp add: persist_and_log_def)
    from stored_append[OF assms(1) this] 1 show ?thesis by (auto simp: keyed_def)
  qed
qed

lemma found_stored:
  assumes "storage_mode_of E = HybridMode \<longrightarrow> up" and "getSessionById T (storage_mode_of E) up i st = Inr r"
  shows "r = stored T E i st"
  using assms by (cases "storage_mode_of E") (auto simp: getSessionById_def stored_def split: if_splits)

lemma imp_run_ended:
  assumes "imp_store T" and "is_ended T E sid st" and "keyed T st"
    and "storage_mode_of E = HybridMode \<longrightarrow> (\<forall>n. up n)"
    and "\<forall>eid input. oper \<noteq> StartOp sid eid input"
  shows "is_ended T E sid (imp_run T E (up, now, oper) st) \<and> keyed T (imp_run T E (up, now, oper) st)"
proof -
  from assms(2) obtain s where s: "stored T E sid st = Some s" "is_status s = SessionEnded" by (auto simp: is_ended_def)
  have id: "is_id q = i" if "stored T E i st = Some q" for i q
    using that assms(3) imp_store.find_row[OF assms(1)] by (auto simp: stored_def keyed_def split: if_splits)
  have done_if: "is_ended T E sid st' \<and> keyed T st'" if "stored T E sid st' = stored T E sid st" "keyed T st'" for st'
    using that assms(2) by (simp add: is_ended_def)
  have pers: "is_ended T E sid st' \<and> keyed T st'"
    if "persist_and_log T (storage_mode_of E) up q e st = (x, st')" "is_id q \<noteq> sid" for q e x st'
    using persist_keeps[OF assms(1) that(1) assms(4) that(2) assms(3)] done_if by blast
  have app: "is_ended T E sid st' \<and> keyed T st'"
    if "appendLedgerEntry T (storage_mode_of E) b e st = (x, st')" for b e x st'
    using stored_append[OF assms(1) that] assms(3) done_if by (simp add: keyed_def)
  have here: "is_ended T E sid st \<and> keyed T st" using assms(2,3) by simp
  show ?thesis
  proof (cases oper)
    case (StartOp sid' eid input)
    with assms(5) have "sid' \<noteq> sid" by auto
    with StartOp pers show ?thesis
      by (auto simp: imp_run_def startImpersonationSession_def Let_def split: prod.splits sum.splits)
  next
    case (EndOp eid sid' actor)
    show ?thesis
    proof (cases "getSessionById T (storage_mode_of E) (up 0) sid' st")
      case (Inl m)
      with EndOp here show ?thesis by (simp add: imp_run_def endImpersonationSession_def)
    next
      case (Inr r)
      have r: "r = stored T E sid' st" using found_stored[OF _ Inr] assms(4) by blast
      show ?thesis
      proof (cases "sid' = sid")
        case True
        with Inr r s EndOp here show ?thesis
          by (simp add: imp_run_def endImpersonationSession_def resolveEffectiveStatus_def)
      next
        case False
        with Inr r EndOp here pers id show ?thesis
          by (auto simp: imp_run_def endImpersonationSession_def Let_def split: option.splits session_status.splits
              prod.splits sum.splits)
      qed
    qed
  next
    case (ValidateOp eid sid' wallet actor)
    show ?thesis
    proof (cases "getSessionById T (storage_mode_of E) (up 0) sid' st")
      case (Inl m)
      with ValidateOp here show ?thesis by (simp add: imp_run_def validateImpersonationSession_def)
    next
      case (Inr r)
      have r: "r = stored T E sid' st" using found_stored[OF _ Inr] assms(4) by blast
      show ?thesis
      proof (cases "sid' = sid")
        case True
        with Inr r s ValidateOp here show ?thesis
          by (simp add: imp_run_def validateImpersonationSession_def resolveEffectiveStatus_def Let_def)
      next
        case False
        with Inr r ValidateOp here pers app id show ?thesis
          by (auto simp: imp_run_def validateImpersonationSession_def markSessionExpired_def Let_def
              split: option.splits session_status.splits prod.splits sum.splits)
      qed
    qed
  qed
qed

text \<open>
  C18.  The end of a session is final: in the memory and the database mode, and in the mixed mode while the
  database answers, no sequence of starts, ends and uses of sessions makes an ended session valid
  again, for any actor, wallet and time, whichever database calls fail.
\<close>

theorem ended_session_stays_ended:
  assumes "imp_store T" and "keyed T st" and "is_ended T E sid st"
    and "\<forall>(up, now, oper) \<in> set ops. (storage_mode_of E = HybridMode \<longrightarrow> (\<forall>n. up n)) \<and> (\<forall>eid input. oper \<noteq> StartOp sid eid input)"
    and "storage_mode_of E = HybridMode \<longrightarrow> (\<forall>n. up' n)"
  shows "fst (validateImpersonationSession T E up' now' eid' sid wallet actor (fold (imp_run T E) ops st)) \<noteq> Inr (Valid s)"
proof -
  have "is_ended T E sid (fold (imp_run T E) ops st) \<and> keyed T (fold (imp_run T E) ops st)"
    using assms(2-4)
  proof (induction ops arbitrary: st)
    case (Cons x ops)
    obtain up now oper where x: "x = (up, now, oper)" by (cases x) auto
    with Cons.prems imp_run_ended[OF assms(1) Cons.prems(2,1), of up oper now] have
      "is_ended T E sid (imp_run T E x st)" "keyed T (imp_run T E x st)" by auto
    with Cons show ?case by simp
  qed simp
  then obtain q where q: "stored T E sid (fold (imp_run T E) ops st) = Some q" "is_status q = SessionEnded"
    by (auto simp: is_ended_def)
  obtain r st' where v: "validateImpersonationSession T E up' now' eid' sid wallet actor (fold (imp_run T E) ops st) = (r, st')"
    by fastforce
  show ?thesis
  proof
    assume "fst (validateImpersonationSession T E up' now' eid' sid wallet actor (fold (imp_run T E) ops st)) = Inr (Valid s)"
    with v impersonation_access[OF assms(1) v, of s] have
      g: "getSessionById T (storage_mode_of E) (up' 0) sid (fold (imp_run T E) ops st) = Inr (Some s)"
      "is_status s = SessionActive" by auto
    from found_stored[OF _ g(1)] assms(5) q g(2) show False by auto
  qed
qed

text \<open>
  In the mixed mode, the default, an outage undoes the end of a session: when the database is down for
  the moment of the write, the end goes to the process's memory and is reported as done, and with the
  database back the session is active and its next use is allowed.
\<close>

theorem hybrid_outage_revives_session:
  assumes "imp_store T" and "storage_mode_of E = HybridMode" and "im_find T (ip_db st) sid = Some s"
    and "is_status s = SessionActive" and "now < is_expiresAt s" and "now' < is_expiresAt s"
    and "up 0" and "\<not> up 1" and "\<forall>n. up' n"
  shows "\<exists>ended st'. endImpersonationSession T E up now eid sid actor st = (Inr (Some ended), st')
    \<and> is_status ended = SessionEnded \<and> (\<forall>w. normalizeWalletAddress (Some w) = is_targetWallet s \<longrightarrow>
        fst (validateImpersonationSession T E up' now' eid' sid w (is_actor s) st') = Inr (Valid s))"
proof -
  have eff: "resolveEffectiveStatus now s = SessionActive" using assms(4,5) by (simp add: resolveEffectiveStatus_def)
  have id: "is_id s = sid" using imp_store.find_row[OF assms(1,3)] by simp
  let ?ended = "s\<lparr>is_status := SessionEnded, is_endedAt := Some now\<rparr>"
  let ?entry = "\<lparr>il_id = eid, il_sessionId = is_id ?ended, il_eventType = SessionWasEnded, il_actor = actor,
    il_metadata = JObj [(''targetWallet'', JStr (is_targetWallet ?ended)), (''endedAt'', JStr (to_iso_string now))],
    il_createdAt = now\<rparr>"
  obtain x st' where p: "persist_and_log T HybridMode up ?ended ?entry st = (x, st')" by fastforce
  have st': "\<exists>u. x = Inr u" "im_find T (ip_db st') = im_find T (ip_db st)"
    using p assms(8) by (auto simp: persist_and_log_def persistSession_def appendLedgerEntry_def
        imp_store.find_append[OF assms(1)] split: if_splits)
  have e: "endImpersonationSession T E up now eid sid actor st = (Inr (Some ?ended), st')"
    using assms(2,3,7) eff p st'(1) by (auto simp: endImpersonationSession_def getSessionById_def Let_def)
  have "fst (validateImpersonationSession T E up' now' eid' sid w (is_actor s) st') = Inr (Valid s)"
    if w: "normalizeWalletAddress (Some w) = is_targetWallet s" for w
  proof -
    obtain r st2 where v: "validateImpersonationSession T E up' now' eid' sid w (is_actor s) st' = (r, st2)" by fastforce
    have "getSessionById T (storage_mode_of E) (up' 0) sid st' = Inr (Some s)"
      using assms(2,3,9) st'(2) by (simp add: getSessionById_def)
    with impersonation_access[OF assms(1) v, of s] w assms(2,4,6) v show ?thesis by simp
  qed
  with e show ?thesis by auto
qed

text \<open>The database listing filters by the stored status, the memory listing by the effective one: a
  session whose time is over but was not used since is listed as active by the one and as expired by
  the other.\<close>

lemma listings_disagree:
  assumes "is_status s = SessionActive" and "is_expiresAt s \<le> now" and "session_matches f s" and "0 < sf_limit f"
    and "sf_status f = Some SessionActive" and "im_rows T (ip_db st) = [s]" and "ip_sessions st = [(is_id s, s)]"
  shows "list_database T now f st = [s\<lparr>is_status := SessionExpired\<rparr>] \<and> list_memory now f st = []"
  using assms by (simp add: list_database_def list_memory_def with_effective_status_def resolveEffectiveStatus_def
      take_Cons')

section \<open>A concrete instance\<close>

definition sample_session :: imp_session where
  "sample_session = \<lparr>is_id = ''s1'', is_actor = ''alice'', is_apiKeyHash = ''k'', is_targetWallet = ''GA'',
     is_reason = ''audit'', is_startedAt = 0, is_expiresAt = 900, is_endedAt = None, is_status = SessionActive,
     is_ipAddress = ''ip'', is_userAgent = ''ua''\<rparr>"

definition imp_sample :: "imp_session \<Rightarrow> imp_db imp_state" where
  "imp_sample s = \<lparr>ip_db = ([s], []), ip_sessions = [], ip_ledger = []\<rparr>"

lemma imp_sample_simps [simp]:
  "im_find list_imp (ip_db (imp_sample s)) (is_id s) = Some s" "keyed list_imp (imp_sample s)"
  by (simp_all add: imp_sample_def list_imp_def find_session_def keyed_def)

lemma default_mode: "storage_mode_of (\<lambda>_. None) = HybridMode"
  by (simp add: storage_mode_of_def normalizeStorageMode_def)

lemma sample_spelling: "normalizeWalletAddress (Some '' ga'') = ''GA''"
  by code_simp

theorem impersonation_access_witness:
  "fst (validateImpersonationSession list_imp (\<lambda>_. None) (\<lambda>_. True) 5 ''e'' ''s1'' '' ga'' ''alice'' (imp_sample sample_session))
     = Inr (Valid sample_session)"
proof -
  obtain r st' where v: "validateImpersonationSession list_imp (\<lambda>_. None) (\<lambda>_. True) 5 ''e'' ''s1'' '' ga'' ''alice''
    (imp_sample sample_session) = (r, st')" by fastforce
  have "getSessionById list_imp HybridMode True ''s1'' (imp_sample sample_session) = Inr (Some sample_session)"
    using imp_sample_simps(1)[of sample_session] by (simp add: getSessionById_def sample_session_def)
  with impersonation_access[OF list_imp_laws v, of sample_session] v show ?thesis
    by (simp add: default_mode sample_spelling sample_session_def)
qed

theorem ended_session_stays_ended_witness:
  "fst (validateImpersonationSession list_imp (\<lambda>_. None) (\<lambda>_. True) 9 ''e2'' ''s1'' ''GA'' ''alice''
     (fold (imp_run list_imp (\<lambda>_. None)) [(\<lambda>_. True, 7, ValidateOp ''e1'' ''s1'' ''GA'' ''alice'')]
        (imp_sample (sample_session\<lparr>is_status := SessionEnded\<rparr>)))) \<noteq> Inr (Valid sample_session)"
proof -
  have "is_ended list_imp (\<lambda>_. None) ''s1'' (imp_sample (sample_session\<lparr>is_status := SessionEnded\<rparr>))"
    using imp_sample_simps(1)[of "sample_session\<lparr>is_status := SessionEnded\<rparr>"]
    by (simp add: is_ended_def stored_def default_mode sample_session_def)
  from ended_session_stays_ended[OF list_imp_laws imp_sample_simps(2) this,
      of "[(\<lambda>_. True, 7, ValidateOp ''e1'' ''s1'' ''GA'' ''alice'')]" "\<lambda>_. True" 9 "''e2''" "''GA''" "''alice''" sample_session]
  show ?thesis by simp
qed

theorem hybrid_outage_revives_session_witness:
  "\<exists>ended st'. endImpersonationSession list_imp (\<lambda>_. None) (\<lambda>n. n = 0) 5 ''e'' ''s1'' ''bob'' (imp_sample sample_session)
      = (Inr (Some ended), st') \<and> is_status ended = SessionEnded
    \<and> fst (validateImpersonationSession list_imp (\<lambda>_. None) (\<lambda>_. True) 6 ''e2'' ''s1'' '' ga'' ''alice'' st') = Inr (Valid sample_session)"
proof -
  have f: "im_find list_imp (ip_db (imp_sample sample_session)) ''s1'' = Some sample_session"
    using imp_sample_simps(1)[of sample_session] by (simp add: sample_session_def)
  from hybrid_outage_revives_session[OF list_imp_laws default_mode f, of 5 6 "\<lambda>n. n = 0" "\<lambda>_. True" "''e''" "''bob''" "''e2''"]
    sample_spelling show ?thesis by (fastforce simp: sample_session_def)
qed

end
