(* ===== verification/JobGovernance.thy ===== *)
theory JobGovernance
  imports Http
begin

text \<open>
  Background jobs (\<open>backend/src/jobGovernance.ts\<close>): retries with exponential back-off, dead letters and
  the metrics the health check reads.  A run waits for its task and for the delays between attempts, so
  it is a beginning and an end, with the attempts in between as a function of what the task answers.
\<close>

section \<open>Policies and state\<close>

datatype job_name = PriceRefresh | PositionReconciliation | ReportGeneration | DatabaseBackup

record job_policy =
  jp_maxAttempts :: int
  jp_baseDelayMs :: int
  jp_backoffMultiplier :: int
  jp_deadLetterThreshold :: int

fun JOB_POLICIES :: "job_name \<Rightarrow> job_policy" where
  "JOB_POLICIES PriceRefresh =
     \<lparr>jp_maxAttempts = 3, jp_baseDelayMs = 1000, jp_backoffMultiplier = 2, jp_deadLetterThreshold = 3\<rparr>"
| "JOB_POLICIES PositionReconciliation =
     \<lparr>jp_maxAttempts = 4, jp_baseDelayMs = 2000, jp_backoffMultiplier = 2, jp_deadLetterThreshold = 2\<rparr>"
| "JOB_POLICIES ReportGeneration =
     \<lparr>jp_maxAttempts = 5, jp_baseDelayMs = 5000, jp_backoffMultiplier = 2, jp_deadLetterThreshold = 2\<rparr>"
| "JOB_POLICIES DatabaseBackup =
     \<lparr>jp_maxAttempts = 3, jp_baseDelayMs = 10000, jp_backoffMultiplier = 2, jp_deadLetterThreshold = 2\<rparr>"

record job_letter =
  jl_jobName :: job_name
  jl_attempts :: int
  jl_error :: string
  jl_payload :: json
  jl_failedAt :: time

record job_metric =
  jm_totalRuns :: int
  jm_successfulRuns :: int
  jm_failedRuns :: int
  jm_inFlight :: int
  jm_lastRunAt :: "time option"
  jm_lastSuccessAt :: "time option"
  jm_lastFailureAt :: "time option"
  jm_lastDurationMs :: "int option"
  jm_averageDurationMs :: int

record governance =
  jg_deadLetters :: "job_letter list"
  jg_failureCounts :: "(job_name, int) js_map"
  jg_runtime :: "(job_name, job_metric) js_map"

definition empty_governance :: governance where
  "empty_governance = \<lparr>jg_deadLetters = [], jg_failureCounts = [], jg_runtime = []\<rparr>"

definition fresh_metric :: job_metric where
  "fresh_metric = \<lparr>jm_totalRuns = 0, jm_successfulRuns = 0, jm_failedRuns = 0, jm_inFlight = 0, jm_lastRunAt = None,
     jm_lastSuccessAt = None, jm_lastFailureAt = None, jm_lastDurationMs = None, jm_averageDurationMs = 0\<rparr>"

section \<open>The store\<close>

definition ensureRuntimeMetric :: "job_name \<Rightarrow> governance \<Rightarrow> job_metric" where
  "ensureRuntimeMetric j g = nullish (map_of (jg_runtime g) j) fresh_metric"

definition set_metric :: "job_name \<Rightarrow> job_metric \<Rightarrow> governance \<Rightarrow> governance" where
  "set_metric j m g = g\<lparr>jg_runtime := AList.update j m (jg_runtime g)\<rparr>"

definition markStarted :: "time \<Rightarrow> job_name \<Rightarrow> governance \<Rightarrow> governance" where
  "markStarted now j g =
     (let m = ensureRuntimeMetric j g
      in set_metric j (m\<lparr>jm_totalRuns := jm_totalRuns m + 1, jm_inFlight := jm_inFlight m + 1, jm_lastRunAt := Some now\<rparr>) g)"

definition average_duration :: "job_metric \<Rightarrow> int \<Rightarrow> int" where
  "average_duration m durationMs =
     (let completedRuns = jm_successfulRuns m + jm_failedRuns m
      in if completedRuns = 0 then durationMs
         else js_round (of_int (jm_averageDurationMs m * completedRuns + durationMs) / of_int (completedRuns + 1)))"

definition markCompleted :: "time \<Rightarrow> job_name \<Rightarrow> int \<Rightarrow> bool \<Rightarrow> governance \<Rightarrow> governance" where
  "markCompleted now j durationMs success g =
     (let m = ensureRuntimeMetric j g;
          m1 = m\<lparr>jm_inFlight := max 0 (jm_inFlight m - 1), jm_lastDurationMs := Some durationMs,
            jm_averageDurationMs := average_duration m durationMs\<rparr>
      in set_metric j
           (if success then m1\<lparr>jm_successfulRuns := jm_successfulRuns m1 + 1, jm_lastSuccessAt := Some now\<rparr>
            else m1\<lparr>jm_failedRuns := jm_failedRuns m1 + 1, jm_lastFailureAt := Some now\<rparr>) g)"

definition recordDeadLetter :: "job_letter \<Rightarrow> governance \<Rightarrow> governance" where
  "recordDeadLetter r g =
     g\<lparr>jg_deadLetters := r # jg_deadLetters g,
       jg_failureCounts := AList.update (jl_jobName r) (nullish (map_of (jg_failureCounts g) (jl_jobName r)) 0 + 1)
         (jg_failureCounts g)\<rparr>"

definition recurringFailures :: "governance \<Rightarrow> (job_name, int) js_map" where
  "recurringFailures g = filter (\<lambda>(j, n). jp_deadLetterThreshold (JOB_POLICIES j) \<le> n) (jg_failureCounts g)"

definition hasRecurringFailures :: "governance \<Rightarrow> bool" where
  "hasRecurringFailures g \<longleftrightarrow> recurringFailures g \<noteq> []"

definition getJobHealthStatus :: "governance \<Rightarrow> string" where
  "getJobHealthStatus g = (if hasRecurringFailures g then ''degraded'' else ''up'')"

record job_report =
  jr_totalDeadLetters :: nat
  jr_failureCounts :: "(job_name, int) js_map"
  jr_recurringFailures :: "(job_name, int) js_map"
  jr_deadLetters :: "job_letter list"
  jr_runtime :: "(job_name, job_metric) js_map"

definition getJobMetrics :: "governance \<Rightarrow> job_report" where
  "getJobMetrics g = \<lparr>jr_totalDeadLetters = length (jg_deadLetters g), jr_failureCounts = jg_failureCounts g,
     jr_recurringFailures = recurringFailures g, jr_deadLetters = jg_deadLetters g, jr_runtime = jg_runtime g\<rparr>"

definition resetJobGovernance :: "governance \<Rightarrow> governance" where
  "resetJobGovernance g = empty_governance"

section \<open>Runs\<close>

definition job_backoff :: "job_policy \<Rightarrow> int \<Rightarrow> int" where
  "job_backoff p attempt = jp_baseDelayMs p * jp_backoffMultiplier p ^ nat (attempt - 1)"

text \<open>The loop over the attempts: \<open>task n\<close> is what the \<open>n\<close>-th call of the task gives, its result or
  the message of its error.  The outcome comes with the delays slept and the number of calls.\<close>

function run_attempts :: "job_policy \<Rightarrow> (int \<Rightarrow> string + 'a) \<Rightarrow> int \<Rightarrow> string \<Rightarrow> (string + 'a) \<times> int list \<times> int" where
  "run_attempts p task attempt lastError =
     (if jp_maxAttempts p < attempt then (Inl lastError, [], 0)
      else case task attempt of
             Inr r \<Rightarrow> (Inr r, [], 1)
           | Inl e \<Rightarrow>
               (case run_attempts p task (attempt + 1) e of
                  (res, delays, calls) \<Rightarrow>
                    (res, (if attempt < jp_maxAttempts p then [job_backoff p attempt] else []) @ delays, calls + 1)))"
  by pat_completeness auto
termination by (relation "measure (\<lambda>(p, task, attempt, e). nat (jp_maxAttempts p + 1 - attempt))") auto

declare run_attempts.simps [simp del]

definition job_end ::
  "time \<Rightarrow> int \<Rightarrow> job_name \<Rightarrow> json \<Rightarrow> string + 'a \<Rightarrow> governance \<Rightarrow> governance" where
  "job_end now durationMs j payload res g =
     (case res of
        Inr r \<Rightarrow> markCompleted now j durationMs True g
      | Inl e \<Rightarrow> markCompleted now j durationMs False
          (recordDeadLetter \<lparr>jl_jobName = j, jl_attempts = jp_maxAttempts (JOB_POLICIES j), jl_error = e,
             jl_payload = payload, jl_failedAt = now\<rparr> g))"

definition runJobWithRetry ::
  "time \<Rightarrow> time \<Rightarrow> job_name \<Rightarrow> json \<Rightarrow> (int \<Rightarrow> string + 'a) \<Rightarrow> governance \<Rightarrow> (string + 'a) \<times> governance" where
  "runJobWithRetry startedAt now j payload task g =
     (let g1 = markStarted startedAt j g;
          (res, delays, calls) = run_attempts (JOB_POLICIES j) task 1 ''Unknown job failure''
      in (res, job_end now (now - startedAt) j payload res g1))"

section \<open>Attempts\<close>

definition first_success :: "(int \<Rightarrow> string + 'a) \<Rightarrow> int \<Rightarrow> int \<Rightarrow> 'a \<Rightarrow> bool" where
  "first_success task a k r \<longleftrightarrow> a \<le> k \<and> task k = Inr r \<and> (\<forall>i. a \<le> i \<and> i < k \<longrightarrow> (\<exists>e. task i = Inl e))"

lemma run_attempts_result:
  "a \<le> jp_maxAttempts p + 1 \<Longrightarrow> run_attempts p task a e = (res, delays, calls) \<Longrightarrow>
    (\<exists>k r. k \<le> jp_maxAttempts p \<and> first_success task a k r \<and> res = Inr r \<and> calls = k - a + 1
       \<and> delays = map (job_backoff p) [a..k - 1])
    \<or> ((\<forall>i. a \<le> i \<and> i \<le> jp_maxAttempts p \<longrightarrow> (\<exists>m. task i = Inl m)) \<and> calls = jp_maxAttempts p - a + 1
       \<and> res = Inl (if jp_maxAttempts p < a then e else projl (task (jp_maxAttempts p)))
       \<and> delays = map (job_backoff p) [a..jp_maxAttempts p - 1])"
proof (induction p task a e arbitrary: res delays calls rule: run_attempts.induct)
  case (1 p task a e)
  show ?case
  proof (cases "jp_maxAttempts p < a")
    case True
    with 1(3) show ?thesis by (subst (asm) run_attempts.simps) (use 1(2) True in auto)
  next
    case False
    show ?thesis
    proof (cases "task a")
      case (Inr r)
      with 1(3) False have "res = Inr r \<and> delays = [] \<and> calls = 1" by (subst (asm) run_attempts.simps) auto
      with Inr False show ?thesis
        by (intro disjI1 exI[of _ a] exI[of _ r]) (auto simp: first_success_def)
    next
      case (Inl m)
      obtain res' delays' calls' where r: "run_attempts p task (a + 1) m = (res', delays', calls')"
        by (cases "run_attempts p task (a + 1) m") auto
      have eq: "res = res'" "calls = calls' + 1"
        "delays = (if a < jp_maxAttempts p then [job_backoff p a] else []) @ delays'"
        using 1(3) False Inl r by (subst (asm) run_attempts.simps, auto)+
      have le: "a + 1 \<le> jp_maxAttempts p + 1" using False by simp
      from 1(1)[OF False Inl le r] show ?thesis
      proof
        assume "\<exists>k r. k \<le> jp_maxAttempts p \<and> first_success task (a + 1) k r \<and> res' = Inr r \<and> calls' = k - (a + 1) + 1
          \<and> delays' = map (job_backoff p) [a + 1..k - 1]"
        then obtain k r where k: "k \<le> jp_maxAttempts p" "first_success task (a + 1) k r" "res' = Inr r"
          "calls' = k - (a + 1) + 1" "delays' = map (job_backoff p) [a + 1..k - 1]" by blast
        then have "a + 1 \<le> k" by (simp add: first_success_def)
        have "\<exists>e. task i = Inl e" if "a \<le> i" "i < k" for i
          using k(2) Inl that by (cases "i = a") (auto simp: first_success_def)
        then have fs: "first_success task a k r" using k(2) \<open>a + 1 \<le> k\<close> by (simp add: first_success_def)
        have "[a..k - 1] = a # [a + 1..k - 1]" using \<open>a + 1 \<le> k\<close> by (simp add: upto_rec1)
        then have "delays = map (job_backoff p) [a..k - 1]" using eq(3) k(1,5) \<open>a + 1 \<le> k\<close> by simp
        with fs k eq show ?thesis by auto
      next
        assume f: "(\<forall>i. a + 1 \<le> i \<and> i \<le> jp_maxAttempts p \<longrightarrow> (\<exists>m. task i = Inl m)) \<and> calls' = jp_maxAttempts p - (a + 1) + 1
          \<and> res' = Inl (if jp_maxAttempts p < a + 1 then m else projl (task (jp_maxAttempts p)))
          \<and> delays' = map (job_backoff p) [a + 1..jp_maxAttempts p - 1]"
        have "\<exists>m. task i = Inl m" if "a \<le> i" "i \<le> jp_maxAttempts p" for i
          using f Inl that by (cases "i = a") auto
        moreover have "delays = map (job_backoff p) [a..jp_maxAttempts p - 1]"
          using eq(3) f False by (cases "a < jp_maxAttempts p") (simp_all add: upto_rec1)
        moreover have "res = Inl (if jp_maxAttempts p < a then e else projl (task (jp_maxAttempts p)))"
          using eq(1) f False Inl by (cases "a = jp_maxAttempts p") auto
        ultimately show ?thesis using eq(2) f by auto
      qed
    qed
  qed
qed

text \<open>
  A job calls its task until the first success and at most as often as its policy allows, sleeping
  before each repetition twice as long as before the last, and never after the last call; it succeeds
  exactly when one of the calls does, and otherwise fails with the error of the last call.
\<close>

theorem job_attempts:
  assumes "run_attempts (JOB_POLICIES j) task 1 e0 = (res, delays, calls)"
  shows "1 \<le> calls \<and> calls \<le> jp_maxAttempts (JOB_POLICIES j) \<and> (\<forall>i. 1 \<le> i \<and> i < calls \<longrightarrow> (\<exists>e. task i = Inl e))
    \<and> res = task calls \<and> ((\<exists>m. res = Inl m) \<longrightarrow> calls = jp_maxAttempts (JOB_POLICIES j))
    \<and> delays = map (\<lambda>i. jp_baseDelayMs (JOB_POLICIES j) * 2 ^ nat (i - 1)) [1..calls - 1]"
proof -
  have max: "3 \<le> jp_maxAttempts (JOB_POLICIES j)" "jp_backoffMultiplier (JOB_POLICIES j) = 2" by (cases j; simp)+
  have b: "job_backoff (JOB_POLICIES j) = (\<lambda>i. jp_baseDelayMs (JOB_POLICIES j) * 2 ^ nat (i - 1))"
    by (rule ext) (simp add: job_backoff_def max(2))
  have "1 \<le> jp_maxAttempts (JOB_POLICIES j) + 1" using max(1) by simp
  from run_attempts_result[OF this assms] show ?thesis
  proof
    assume "\<exists>k r. k \<le> jp_maxAttempts (JOB_POLICIES j) \<and> first_success task 1 k r \<and> res = Inr r \<and> calls = k - 1 + 1
      \<and> delays = map (job_backoff (JOB_POLICIES j)) [1..k - 1]"
    then show ?thesis by (auto simp: first_success_def b)
  next
    assume f: "(\<forall>i. 1 \<le> i \<and> i \<le> jp_maxAttempts (JOB_POLICIES j) \<longrightarrow> (\<exists>m. task i = Inl m))
      \<and> calls = jp_maxAttempts (JOB_POLICIES j) - 1 + 1
      \<and> res = Inl (if jp_maxAttempts (JOB_POLICIES j) < 1 then e0 else projl (task (jp_maxAttempts (JOB_POLICIES j))))
      \<and> delays = map (job_backoff (JOB_POLICIES j)) [1..jp_maxAttempts (JOB_POLICIES j) - 1]"
    then obtain m where "task (jp_maxAttempts (JOB_POLICIES j)) = Inl m" using max(1) by fastforce
    with f max(1) show ?thesis by (auto simp: b)
  qed
qed

theorem job_attempts_witness:
  "run_attempts (JOB_POLICIES PriceRefresh) (\<lambda>i. if i = 3 then Inr (7::nat) else Inl ''busy'') 1 ''none''
     = (Inr 7, [1000, 2000], 3)
   \<and> (let task = (\<lambda>i::int. if i = 3 then Inr (7::nat) else Inl ''busy'')
      in Inr 7 = task 3 \<and> (\<forall>i. 1 \<le> i \<and> i < 3 \<longrightarrow> (\<exists>e. task i = Inl e)))"
proof -
  have r: "run_attempts (JOB_POLICIES PriceRefresh) (\<lambda>i. if i = 3 then Inr (7::nat) else Inl ''busy'') 1 ''none''
     = (Inr 7, [1000, 2000], 3)"
    by (simp add: run_attempts.simps job_backoff_def)
  from job_attempts[OF r] r show ?thesis by (simp add: Let_def)
qed

section \<open>Runs side by side\<close>

text \<open>Several runs, of one job or of different ones, may be under way at once; \<open>running j\<close> counts the
  runs of \<open>j\<close> that have begun and not ended.  A run ends with the outcome of its attempts.\<close>

inductive job_system :: "governance \<Rightarrow> (job_name \<Rightarrow> nat) \<Rightarrow> bool" where
  js_boot: "job_system empty_governance (\<lambda>_. 0)"
| js_start: "job_system g running \<Longrightarrow> job_system (markStarted now j g) (running(j := running j + 1))"
| js_end: "job_system g running \<Longrightarrow> 0 < running j \<Longrightarrow>
    job_system (job_end now durationMs j payload (res :: string + json) g) (running(j := running j - 1))"

definition letters_of :: "job_name \<Rightarrow> governance \<Rightarrow> nat" where
  "letters_of j g = length (filter (\<lambda>l. jl_jobName l = j) (jg_deadLetters g))"

definition failures_of :: "job_name \<Rightarrow> governance \<Rightarrow> int" where
  "failures_of j g = nullish (map_of (jg_failureCounts g) j) 0"

lemma metric_set: "ensureRuntimeMetric i (set_metric j m g) = (if i = j then m else ensureRuntimeMetric i g)"
  by (simp add: ensureRuntimeMetric_def set_metric_def update_conv')

lemma ledger_set_metric [simp]:
  "jg_deadLetters (set_metric j m g) = jg_deadLetters g" "jg_failureCounts (set_metric j m g) = jg_failureCounts g"
  by (simp_all add: set_metric_def)

lemma ledger_marked [simp]:
  "jg_deadLetters (markStarted now j g) = jg_deadLetters g" "jg_failureCounts (markStarted now j g) = jg_failureCounts g"
  "jg_deadLetters (markCompleted now j d ok g) = jg_deadLetters g"
  "jg_failureCounts (markCompleted now j d ok g) = jg_failureCounts g"
  by (simp_all add: markStarted_def markCompleted_def Let_def)

lemma metric_dead_letter [simp]: "ensureRuntimeMetric i (recordDeadLetter r g) = ensureRuntimeMetric i g"
  by (simp add: ensureRuntimeMetric_def recordDeadLetter_def)

lemma metric_started:
  "ensureRuntimeMetric i (markStarted now j g) =
    (let m = ensureRuntimeMetric i g in if i = j
     then m\<lparr>jm_totalRuns := jm_totalRuns m + 1, jm_inFlight := jm_inFlight m + 1, jm_lastRunAt := Some now\<rparr> else m)"
  by (simp add: markStarted_def Let_def metric_set)

definition metrics_add_up :: "governance \<Rightarrow> (job_name \<Rightarrow> nat) \<Rightarrow> job_name \<Rightarrow> bool" where
  "metrics_add_up g running j \<longleftrightarrow>
     (let m = ensureRuntimeMetric j g
      in jm_inFlight m = int (running j) \<and> jm_totalRuns m = jm_successfulRuns m + jm_failedRuns m + jm_inFlight m
        \<and> jm_failedRuns m = int (letters_of j g) \<and> failures_of j g = int (letters_of j g))"

lemma metrics_started:
  "metrics_add_up g running i \<Longrightarrow> metrics_add_up (markStarted now j g) (running(j := running j + 1)) i"
  by (cases "i = j") (simp_all add: metrics_add_up_def metric_started Let_def letters_of_def failures_of_def)

lemma metrics_ended:
  "metrics_add_up g running i \<Longrightarrow> 0 < running j \<Longrightarrow>
    metrics_add_up (job_end now d j payload res g) (running(j := running j - 1)) i"
  by (cases res)
    (auto simp: metrics_add_up_def job_end_def markCompleted_def metric_set Let_def letters_of_def failures_of_def
      recordDeadLetter_def ensureRuntimeMetric_def update_conv' of_nat_diff set_metric_def)

lemma job_system_metrics: "job_system g running \<Longrightarrow> metrics_add_up g running j"
proof (induction rule: job_system.induct)
  case js_boot
  show ?case
    by (simp add: metrics_add_up_def empty_governance_def ensureRuntimeMetric_def fresh_metric_def letters_of_def failures_of_def)
qed (rule metrics_started metrics_ended; assumption)+

lemma recurring_iff:
  "hasRecurringFailures g \<longleftrightarrow>
    (\<exists>j n. (j, n) \<in> set (jg_failureCounts g) \<and> jp_deadLetterThreshold (JOB_POLICIES j) \<le> n)"
  by (auto simp: hasRecurringFailures_def recurringFailures_def filter_empty_conv)

lemma job_system_counts_distinct: "job_system g running \<Longrightarrow> distinct (map fst (jg_failureCounts g))"
  by (induction rule: job_system.induct)
    (auto simp: empty_governance_def job_end_def recordDeadLetter_def distinct_update split: sum.splits)

lemma threshold_pos: "0 < jp_deadLetterThreshold (JOB_POLICIES j)"
  by (cases j) simp_all

lemma recurring_letters:
  assumes "job_system g running"
  shows "hasRecurringFailures g \<longleftrightarrow> (\<exists>j. jp_deadLetterThreshold (JOB_POLICIES j) \<le> int (letters_of j g))"
proof -
  have count: "nullish (map_of (jg_failureCounts g) j) 0 = int (letters_of j g)" for j
    using job_system_metrics[OF assms, of j] by (simp add: metrics_add_up_def failures_of_def Let_def)
  note d = job_system_counts_distinct[OF assms]
  have "(\<exists>n. (j, n) \<in> set (jg_failureCounts g) \<and> jp_deadLetterThreshold (JOB_POLICIES j) \<le> n)
      \<longleftrightarrow> jp_deadLetterThreshold (JOB_POLICIES j) \<le> int (letters_of j g)" for j
    unfolding map_of_eq_Some_iff[OF d, symmetric] using count[of j] threshold_pos[of j]
    by (cases "map_of (jg_failureCounts g) j") auto
  then show ?thesis by (simp add: recurring_iff)
qed

lemma letters_of_end:
  "letters_of i g \<le> letters_of i (job_end now d j payload res g)"
  by (cases res) (simp_all add: job_end_def letters_of_def recordDeadLetter_def)

text \<open>
  Whatever the interleaving of runs, the metrics of every job add up: the runs begun are the ones
  that succeeded, failed or are in flight, and every failed run has left one dead letter; and the health
  check reports \<open>degraded\<close> exactly when some job has as many dead letters as its threshold, however long
  ago, so that no later success brings \<open>up\<close> back.
\<close>

theorem job_metrics_consistent:
  assumes "job_system g running"
  shows "(let m = ensureRuntimeMetric j g
      in jm_inFlight m = int (running j) \<and> jm_totalRuns m = jm_successfulRuns m + jm_failedRuns m + int (running j)
        \<and> jm_failedRuns m = int (letters_of j g))
    \<and> (getJobHealthStatus g = ''degraded'' \<longleftrightarrow>
         (\<exists>i. jp_deadLetterThreshold (JOB_POLICIES i) \<le> int (letters_of i g)))
    \<and> getJobHealthStatus (job_end now durationMs j payload (Inr res :: string + json) g) = getJobHealthStatus g"
proof -
  have m: "metrics_add_up g running j" by (rule job_system_metrics[OF assms])
  have h: "getJobHealthStatus g = ''degraded'' \<longleftrightarrow>
      (\<exists>i. jp_deadLetterThreshold (JOB_POLICIES i) \<le> int (letters_of i g))"
    using recurring_letters[OF assms] by (simp add: getJobHealthStatus_def)
  have "getJobHealthStatus (job_end now durationMs j payload (Inr res :: string + json) g) = getJobHealthStatus g"
    by (simp add: getJobHealthStatus_def hasRecurringFailures_def recurringFailures_def job_end_def)
  with m h show ?thesis by (simp add: metrics_add_up_def Let_def)
qed

definition failing_end :: "governance \<Rightarrow> governance" where
  "failing_end g = job_end 5 5 ReportGeneration JNull (Inl ''disk full'' :: string + json) (markStarted 0 ReportGeneration g)"

lemma failing_end_system: "job_system g (\<lambda>_. 0) \<Longrightarrow> job_system (failing_end g) (\<lambda>_. 0)"
  using js_end[OF js_start[of g "\<lambda>_. 0" 0 ReportGeneration], of ReportGeneration 5 5 JNull "Inl ''disk full''"]
  by (simp add: failing_end_def fun_upd_def cong: if_cong)

theorem job_metrics_consistent_witness:
  "(let g = failing_end (failing_end empty_governance)
    in letters_of ReportGeneration g = 2 \<and> getJobHealthStatus g = ''degraded''
       \<and> jm_failedRuns (ensureRuntimeMetric ReportGeneration g) = 2)"
proof -
  have s: "job_system (failing_end (failing_end empty_governance)) (\<lambda>_. 0)"
    by (intro failing_end_system js_boot)
  have l: "letters_of ReportGeneration (failing_end (failing_end empty_governance)) = 2"
    by (simp add: failing_end_def letters_of_def job_end_def recordDeadLetter_def empty_governance_def)
  have "jp_deadLetterThreshold (JOB_POLICIES ReportGeneration)
      \<le> int (letters_of ReportGeneration (failing_end (failing_end empty_governance)))"
    by (simp add: l)
  then have "\<exists>i. jp_deadLetterThreshold (JOB_POLICIES i) \<le> int (letters_of i (failing_end (failing_end empty_governance)))"
    by blast
  with job_metrics_consistent[OF s, of ReportGeneration] l show ?thesis by (simp add: Let_def)
qed

end
