(* ===== verification/EmailQueue.thy ===== *)
theory EmailQueue
  imports Http
begin

text \<open>
  Outgoing mail (\<open>backend/src/emailQueue.ts\<close>, \<open>backend/src/emailService.ts\<close>): the confirmation
  messages, the provider call, and the queue in the table \<open>EmailQueue\<close> with its worker.  The table is a
  parameter with the laws of the locale \<open>email_store\<close>; the reply of \<open>fetch\<close> is an argument.  One message
  is processed in three steps, between which the process waits: it is marked, sent and settled.
  \<open>email_system\<close> interleaves the steps of any number of server processes, each with its own worker,
  with requests that queue or replay a message and with crashes.
\<close>

section \<open>Messages and rows\<close>

record email_options =
  eo_to :: string
  eo_subject :: string
  eo_text :: string
  eo_html :: string

record transaction_email_details =
  td_amount :: string
  td_asset :: string
  td_date :: string
  td_txHash :: string
  td_walletAddress :: string

record email_row =
  eq_id :: string
  eq_to :: string
  eq_subject :: string
  eq_text :: "string option"
  eq_html :: "string option"
  eq_status :: string
  eq_retryCount :: int
  eq_maxRetries :: int
  eq_lastError :: "string option"
  eq_nextRetryAt :: "time option"
  eq_createdAt :: time

record 't email_table =
  el_rows :: "'t \<Rightarrow> email_row list"
  el_create :: "email_row \<Rightarrow> 't \<Rightarrow> 't"
  el_update :: "string \<Rightarrow> (email_row \<Rightarrow> email_row) \<Rightarrow> 't \<Rightarrow> 't"

definition el_look :: "'t email_table \<Rightarrow> 't \<Rightarrow> string \<Rightarrow> email_row option" where
  "el_look T t i = find (\<lambda>r. eq_id r = i) (el_rows T t)"

locale email_store =
  fixes T :: "'t email_table"
  assumes look_create: "el_look T t (eq_id r) = None \<Longrightarrow> el_look T (el_create T r t) = (el_look T t)(eq_id r \<mapsto> r)"
    and look_update: "(\<And>r. eq_id (f r) = eq_id r) \<Longrightarrow>
      el_look T (el_update T i f t) = (el_look T t)(i := map_option f (el_look T t i))"
    and ids_distinct: "distinct (map eq_id (el_rows T t))"
begin

lemma look_iff_row: "el_look T t i = Some r \<longleftrightarrow> r \<in> set (el_rows T t) \<and> eq_id r = i"
proof
  assume "el_look T t i = Some r"
  then show "r \<in> set (el_rows T t) \<and> eq_id r = i" by (auto simp: el_look_def dest: find_SomeD)
next
  assume r: "r \<in> set (el_rows T t) \<and> eq_id r = i"
  then obtain q where q: "el_look T t i = Some q"
    by (cases "el_look T t i") (auto simp: el_look_def find_None_iff)
  then have "q \<in> set (el_rows T t) \<and> eq_id q = i" by (auto simp: el_look_def dest: find_SomeD)
  with r have "q = r" using ids_distinct[of t] by (auto simp: distinct_map inj_on_def)
  with q show "el_look T t i = Some r" by simp
qed

end

text \<open>Rows with distinct identifiers; a second row of an identifier is refused, as the primary key does.\<close>

typedef email_rows = "{rs :: email_row list. distinct (map eq_id rs)}"
  morphisms rows_of Rows_of
  by (rule exI[of _ "[]"]) simp

setup_lifting type_definition_email_rows

lift_definition no_emails :: email_rows is "[]" by simp

lift_definition insert_email :: "email_row \<Rightarrow> email_rows \<Rightarrow> email_rows" is
  "\<lambda>r rs. if eq_id r \<in> eq_id ` set rs then rs else rs @ [r]"
  by auto

lift_definition change_email :: "string \<Rightarrow> (email_row \<Rightarrow> email_row) \<Rightarrow> email_rows \<Rightarrow> email_rows" is
  "\<lambda>i f rs. map (\<lambda>r. if eq_id r = i then (f r)\<lparr>eq_id := i\<rparr> else r) rs"
  by (simp add: comp_def if_distrib cong: if_cong)

definition list_emails :: "email_rows email_table" where
  "list_emails = \<lparr>el_rows = rows_of, el_create = insert_email, el_update = change_email\<rparr>"

lemma find_append_fresh:
  "x \<notin> key ` set rs \<Longrightarrow> find (\<lambda>r. key r = i) (rs @ [r]) = (if key r = i \<and> find (\<lambda>r. key r = i) rs = None then Some r
    else find (\<lambda>r. key r = i) rs)"
  by (induction rs) auto

lemma find_map_key:
  "(\<And>r. eq_id (f r) = eq_id r) \<Longrightarrow>
    find (\<lambda>r. eq_id r = k) (map (\<lambda>r. if eq_id r = i then (f r)\<lparr>eq_id := i\<rparr> else r) rs)
    = (if k = i then map_option f (find (\<lambda>r. eq_id r = i) rs) else find (\<lambda>r. eq_id r = k) rs)"
  by (induction rs) (auto intro: email_row.equality)

interpretation list_emails: email_store list_emails
proof unfold_locales
  fix t :: email_rows and r :: email_row
  assume n: "el_look list_emails t (eq_id r) = None"
  then have "eq_id r \<notin> eq_id ` set (rows_of t)"
    by (auto simp: el_look_def list_emails_def find_None_iff)
  with n show "el_look list_emails (el_create list_emails r t) = (el_look list_emails t)(eq_id r \<mapsto> r)"
    by (intro ext) (auto simp: el_look_def list_emails_def insert_email.rep_eq find_append_fresh)
next
  fix f :: "email_row \<Rightarrow> email_row" and i t
  assume "\<And>r. eq_id (f r) = eq_id r"
  then show "el_look list_emails (el_update list_emails i f t)
      = (el_look list_emails t)(i := map_option f (el_look list_emails t i))"
    by (intro ext) (simp add: el_look_def list_emails_def change_email.rep_eq find_map_key)
next
  fix t
  show "distinct (map eq_id (el_rows list_emails t))" using rows_of[of t] by (simp add: list_emails_def)
qed

section \<open>The service\<close>

record email_service =
  em_provider :: string
  em_apiKey :: string
  em_fromEmail :: string

definition EmailService :: "env \<Rightarrow> email_service" where
  "EmailService env = \<lparr>em_provider = env_or env ''EMAIL_PROVIDER'' ''resend'', em_apiKey = env_or env ''EMAIL_API_KEY'' [],
     em_fromEmail = env_or env ''EMAIL_FROM_ADDRESS'' ''notifications@yieldvault.finance''\<rparr>"

definition enqueueEmail :: "string \<Rightarrow> time \<Rightarrow> email_options \<Rightarrow> email_row" where
  "enqueueEmail uuid now opts =
     \<lparr>eq_id = uuid, eq_to = eo_to opts, eq_subject = eo_subject opts, eq_text = Some (eo_text opts),
      eq_html = Some (eo_html opts), eq_status = ''pending'', eq_retryCount = 0, eq_maxRetries = 5, eq_lastError = None,
      eq_nextRetryAt = None, eq_createdAt = now\<rparr>"

text \<open>\<open>stored\<close>: whether the \<open>create\<close> succeeds.\<close>

definition sendEmail :: "'t email_table \<Rightarrow> bool \<Rightarrow> string \<Rightarrow> time \<Rightarrow> email_options \<Rightarrow> 't \<Rightarrow> bool \<times> 't" where
  "sendEmail T stored uuid now opts t = (if stored then (True, el_create T (enqueueEmail uuid now opts) t) else (False, t))"

text \<open>A call of \<open>fetch\<close>: address, headers and body; \<open>None\<close> when it throws, else \<open>response.ok\<close>.\<close>

type_synonym fetch_ok = "string \<Rightarrow> (string \<times> string) list \<Rightarrow> json \<Rightarrow> bool option"

definition provider_headers :: "email_service \<Rightarrow> (string \<times> string) list" where
  "provider_headers svc = [(''Content-Type'', ''application/json''), (''Authorization'', ''Bearer '' @ em_apiKey svc)]"

definition resend_body :: "email_service \<Rightarrow> email_options \<Rightarrow> json" where
  "resend_body svc opts = JObj [(''from'', JStr (em_fromEmail svc)), (''to'', JStr (eo_to opts)),
     (''subject'', JStr (eo_subject opts)), (''text'', JStr (eo_text opts)), (''html'', JStr (eo_html opts))]"

definition sendgrid_body :: "email_service \<Rightarrow> email_options \<Rightarrow> json" where
  "sendgrid_body svc opts = JObj
     [(''personalizations'', JArr [JObj [(''to'', JArr [JObj [(''email'', JStr (eo_to opts))]])]]),
      (''from'', JObj [(''email'', JStr (em_fromEmail svc))]), (''subject'', JStr (eo_subject opts)),
      (''content'', JArr [JObj [(''type'', JStr ''text/plain''), (''value'', JStr (eo_text opts))],
         JObj [(''type'', JStr ''text/html''), (''value'', JStr (eo_html opts))]])]"

definition simulateProviderCall :: "email_service \<Rightarrow> fetch_ok \<Rightarrow> email_options \<Rightarrow> bool" where
  "simulateProviderCall svc fetch opts =
     (if em_provider svc = ''resend''
      then nullish (fetch ''https://api.resend.com/emails'' (provider_headers svc) (resend_body svc opts)) False
      else if em_provider svc = ''sendgrid''
      then nullish (fetch ''https://api.sendgrid.com/v3/mail/send'' (provider_headers svc) (sendgrid_body svc opts)) False
      else False)"

definition sendEmailDirectly :: "env \<Rightarrow> email_service \<Rightarrow> fetch_ok \<Rightarrow> email_options \<Rightarrow> bool" where
  "sendEmailDirectly env svc fetch opts =
     (if env ''NODE_ENV'' \<noteq> Some ''production'' \<and> em_apiKey svc = [] then True
      else if em_apiKey svc = [] then False
      else simulateProviderCall svc fetch opts)"

definition lines_of :: "string list \<Rightarrow> string" where
  "lines_of = js_join [CHR 0x0A]"

definition explorer_link :: "transaction_email_details \<Rightarrow> string" where
  "explorer_link d = ''https://stellar.expert/explorer/testnet/tx/'' @ td_txHash d"

definition confirmation_text :: "string \<Rightarrow> transaction_email_details \<Rightarrow> string" where
  "confirmation_text what d = lines_of
     [''Your '' @ what @ '' of '' @ td_amount d @ '' '' @ td_asset d @ '' has been confirmed on-chain.'',
      ''Date: '' @ td_date d,
      ''Transaction Hash: '' @ td_txHash d,
      ''View on Stellar Explorer: '' @ explorer_link d]"

definition confirmation_html :: "string \<Rightarrow> string \<Rightarrow> transaction_email_details \<Rightarrow> string" where
  "confirmation_html title what d = lines_of
     [[],
      ''      <h1>'' @ title @ '' Confirmed</h1>'',
      ''      <p>Your '' @ what @ '' of <strong>'' @ td_amount d @ '' '' @ td_asset d
        @ ''</strong> has been confirmed on-chain.</p>'',
      ''      <ul>'',
      ''        <li><strong>Date:</strong> '' @ td_date d @ ''</li>'',
      ''        <li><strong>Transaction Hash:</strong> <code style=\"word-break: break-all;\">'' @ td_txHash d @ ''</code></li>'',
      ''      </ul>'',
      ''      <p><a href=\"'' @ explorer_link d @ ''\" target=\"_blank\" style=\"padding: 10px 20px; background-color: #0070f3;''
        @ '' color: white; text-decoration: none; border-radius: 5px;\">View on Stellar Explorer</a></p>'',
      ''    '']"

definition deposit_confirmation :: "string \<Rightarrow> transaction_email_details \<Rightarrow> email_options" where
  "deposit_confirmation recipient d =
     \<lparr>eo_to = recipient, eo_subject = ''Deposit Confirmed - '' @ td_amount d @ '' '' @ td_asset d,
      eo_text = confirmation_text ''deposit'' d, eo_html = confirmation_html ''Deposit'' ''deposit'' d\<rparr>"

definition withdrawal_confirmation :: "string \<Rightarrow> transaction_email_details \<Rightarrow> email_options" where
  "withdrawal_confirmation recipient d =
     \<lparr>eo_to = recipient, eo_subject = ''Withdrawal Confirmed - '' @ td_amount d @ '' '' @ td_asset d,
      eo_text = confirmation_text ''withdrawal'' d, eo_html = confirmation_html ''Withdrawal'' ''withdrawal'' d\<rparr>"

section \<open>The queue\<close>

text \<open>The interval timer of the worker: its period while it is set.\<close>

definition startWorker :: "int \<Rightarrow> int option \<Rightarrow> int option" where
  "startWorker intervalMs timer = (case timer of None \<Rightarrow> Some intervalMs | Some t \<Rightarrow> Some t)"

definition stopWorker :: "int option \<Rightarrow> int option" where
  "stopWorker timer = None"

definition calculateNextRetry :: "time \<Rightarrow> int \<Rightarrow> time" where
  "calculateNextRetry now retryCount = now + min (1000 * 2 ^ nat retryCount) 60000"

definition is_due :: "time \<Rightarrow> email_row \<Rightarrow> bool" where
  "is_due now r \<longleftrightarrow> eq_status r \<in> {''pending'', ''failed''} \<and> (case eq_nextRetryAt r of None \<Rightarrow> True | Some w \<Rightarrow> w \<le> now)"

definition due_emails :: "'t email_table \<Rightarrow> time \<Rightarrow> 't \<Rightarrow> email_row list" where
  "due_emails T now t = take 10 (js_sort (\<lambda>a b. eq_createdAt b < eq_createdAt a) (filter (is_due now) (el_rows T t)))"

definition set_status :: "string \<Rightarrow> email_row \<Rightarrow> email_row" where
  "set_status st r = r\<lparr>eq_status := st\<rparr>"

definition failed_row :: "time \<Rightarrow> email_row \<Rightarrow> string \<Rightarrow> email_row \<Rightarrow> email_row" where
  "failed_row now email msg r =
     (let n = eq_retryCount email + 1
      in if eq_maxRetries email \<le> n
         then r\<lparr>eq_status := ''dead-letter'', eq_retryCount := n, eq_lastError := Some msg\<rparr>
         else r\<lparr>eq_status := ''failed'', eq_retryCount := n, eq_lastError := Some msg,
                eq_nextRetryAt := Some (calculateNextRetry now n)\<rparr>)"

definition replayed_row :: "email_row \<Rightarrow> email_row" where
  "replayed_row r = r\<lparr>eq_status := ''pending'', eq_retryCount := 0, eq_lastError := None, eq_nextRetryAt := None\<rparr>"

definition replayEmail :: "'t email_table \<Rightarrow> string \<Rightarrow> 't \<Rightarrow> (email_row \<times> 't) option" where
  "replayEmail T i t =
     (case el_look T t i of None \<Rightarrow> None | Some r \<Rightarrow> Some (replayed_row r, el_update T i replayed_row t))"

definition getEmailQueue :: "'t email_table \<Rightarrow> string option \<Rightarrow> 't \<Rightarrow> email_row list" where
  "getEmailQueue T status t =
     js_sort (\<lambda>a b. eq_createdAt a < eq_createdAt b)
       (filter (\<lambda>r. truthy_str status \<longrightarrow> Some (eq_status r) = status) (el_rows T t))"

definition row_message :: "email_row \<Rightarrow> email_options" where
  "row_message r = \<lparr>eo_to = eq_to r, eo_subject = eq_subject r, eo_text = nullish (eq_text r) [], eo_html = nullish (eq_html r) []\<rparr>"

text \<open>The worker of one process: between two runs, about to take the next message of its batch, waiting
  for the provider, or about to record what the provider answered.\<close>

datatype email_worker =
    EIdle
  | EBatch "email_row list"
  | ESending email_row "email_row list"
  | ESettling email_row bool "email_row list"

text \<open>The error handler; a fault is the message of the error with which a database call is rejected.  A
  second error leaves the loop over the batch.\<close>

definition handleFailure ::
  "'t email_table \<Rightarrow> time \<Rightarrow> string option \<Rightarrow> email_row \<Rightarrow> string \<Rightarrow> email_row list \<Rightarrow> 't \<Rightarrow> email_worker \<times> 't" where
  "handleFailure T now fault email msg rest t =
     (case fault of None \<Rightarrow> (EBatch rest, el_update T (eq_id email) (failed_row now email msg) t) | Some e \<Rightarrow> (EIdle, t))"

definition take_email ::
  "'t email_table \<Rightarrow> time \<Rightarrow> string option \<Rightarrow> string option \<Rightarrow> email_row \<Rightarrow> email_row list \<Rightarrow> 't \<Rightarrow> email_worker \<times> 't" where
  "take_email T now fault fault2 email rest t =
     (case fault of
        None \<Rightarrow> (ESending email rest, el_update T (eq_id email) (set_status ''processing'') t)
      | Some e \<Rightarrow> handleFailure T now fault2 email e rest t)"

definition settle_email ::
  "'t email_table \<Rightarrow> time \<Rightarrow> string option \<Rightarrow> string option \<Rightarrow> email_row \<Rightarrow> bool \<Rightarrow> email_row list \<Rightarrow> 't \<Rightarrow> email_worker \<times> 't" where
  "settle_email T now fault fault2 email success rest t =
     (case fault of
        None \<Rightarrow>
          (if success then (EBatch rest, el_update T (eq_id email) (set_status ''completed'') t)
           else handleFailure T now None email ''Email send failed'' rest t)
      | Some e \<Rightarrow> handleFailure T now fault2 email e rest t)"

end
