(* ===== verification/EmailRuns.thy ===== *)
theory EmailRuns
  imports EmailQueue
begin

text \<open>
  Runs of the mail queue.  \<open>email_system\<close> interleaves the steps of any number of server processes, each
  with its own worker, with requests that queue or replay a message and with crashes, which lose a
  worker's memory and keep the table.
\<close>

section \<open>The processes and the table\<close>

text \<open>\<open>es_sent\<close> and \<open>es_replayed\<close> are the histories: the rows handed to \<open>sendEmailDirectly\<close> with its
  answer, and the identifiers replayed.\<close>

record 't email_state =
  es_table :: 't
  es_workers :: "nat \<Rightarrow> email_worker"
  es_sent :: "(email_row \<times> bool) list"
  es_replayed :: "string list"

datatype email_act =
    Enqueue string time email_options
  | Replay string
  | Poll nat time
  | Take nat time "string option" "string option"
  | Send nat bool
  | Settle nat time "string option" "string option"
  | Finish nat
  | Crash nat

definition put_worker :: "nat \<Rightarrow> email_worker \<times> 't \<Rightarrow> 't email_state \<Rightarrow> 't email_state" where
  "put_worker p wt s = s\<lparr>es_table := snd wt, es_workers := (es_workers s)(p := fst wt)\<rparr>"

fun email_step :: "'t email_table \<Rightarrow> email_act \<Rightarrow> 't email_state \<Rightarrow> 't email_state" where
  "email_step T (Enqueue i now opts) s =
     (if el_look T (es_table s) i = None then s\<lparr>es_table := el_create T (enqueueEmail i now opts) (es_table s)\<rparr> else s)"
| "email_step T (Replay i) s =
     (case replayEmail T i (es_table s) of
        None \<Rightarrow> s
      | Some (r, t) \<Rightarrow> s\<lparr>es_table := t, es_replayed := i # es_replayed s\<rparr>)"
| "email_step T (Poll p now) s =
     (if es_workers s p = EIdle then put_worker p (EBatch (due_emails T now (es_table s)), es_table s) s else s)"
| "email_step T (Take p now f f2) s =
     (case es_workers s p of
        EBatch (e # rest) \<Rightarrow> put_worker p (take_email T now f f2 e rest (es_table s)) s
      | _ \<Rightarrow> s)"
| "email_step T (Send p ok) s =
     (case es_workers s p of
        ESending e rest \<Rightarrow> (put_worker p (ESettling e ok rest, es_table s) s)\<lparr>es_sent := (e, ok) # es_sent s\<rparr>
      | _ \<Rightarrow> s)"
| "email_step T (Settle p now f f2) s =
     (case es_workers s p of
        ESettling e ok rest \<Rightarrow> put_worker p (settle_email T now f f2 e ok rest (es_table s)) s
      | _ \<Rightarrow> s)"
| "email_step T (Finish p) s = (if es_workers s p = EBatch [] then put_worker p (EIdle, es_table s) s else s)"
| "email_step T (Crash p) s = put_worker p (EIdle, es_table s) s"

definition email_boot :: "'t \<Rightarrow> 't email_state" where
  "email_boot t = \<lparr>es_table = t, es_workers = (\<lambda>_. EIdle), es_sent = [], es_replayed = []\<rparr>"

fun act_process :: "email_act \<Rightarrow> nat option" where
  "act_process (Enqueue i now opts) = None"
| "act_process (Replay i) = None"
| "act_process (Poll p now) = Some p"
| "act_process (Take p now f f2) = Some p"
| "act_process (Send p ok) = Some p"
| "act_process (Settle p now f f2) = Some p"
| "act_process (Finish p) = Some p"
| "act_process (Crash p) = Some p"

inductive email_system :: "'t email_table \<Rightarrow> nat set \<Rightarrow> 't email_state \<Rightarrow> bool" for T procs where
  em_boot: "el_rows T t = [] \<Longrightarrow> email_system T procs (email_boot t)"
| em_step: "email_system T procs s \<Longrightarrow> set_option (act_process a) \<subseteq> procs \<Longrightarrow> email_system T procs (email_step T a s)"

fun run_email_acts :: "'t email_table \<Rightarrow> email_act list \<Rightarrow> 't email_state \<Rightarrow> 't email_state" where
  "run_email_acts T [] s = s"
| "run_email_acts T (a # as) s = run_email_acts T as (email_step T a s)"

lemma email_system_run:
  "email_system T procs s \<Longrightarrow> (\<And>a. a \<in> set as \<Longrightarrow> set_option (act_process a) \<subseteq> procs) \<Longrightarrow>
    email_system T procs (run_email_acts T as s)"
  by (induction "as" arbitrary: s) (simp_all add: em_step)

fun held_emails :: "email_worker \<Rightarrow> email_row list" where
  "held_emails EIdle = []"
| "held_emails (EBatch es) = es"
| "held_emails (ESending e rest) = e # rest"
| "held_emails (ESettling e ok rest) = e # rest"

section \<open>Counts of attempts\<close>

definition row_ok :: "email_row \<Rightarrow> bool" where
  "row_ok r \<longleftrightarrow> eq_maxRetries r = 5 \<and> 0 \<le> eq_retryCount r \<and> eq_retryCount r \<le> 5
     \<and> eq_status r \<in> {''pending'', ''failed'', ''processing'', ''completed'', ''dead-letter''}
     \<and> (eq_status r \<in> {''pending'', ''failed''} \<longrightarrow> eq_retryCount r < 5)
     \<and> (eq_status r = ''dead-letter'' \<longrightarrow> eq_retryCount r = 5)"

definition snapshot_ok :: "email_row \<Rightarrow> bool" where
  "snapshot_ok r \<longleftrightarrow> eq_maxRetries r = 5 \<and> 0 \<le> eq_retryCount r \<and> eq_retryCount r < 5"

lemma row_ok_changes:
  "row_ok r \<Longrightarrow> row_ok (set_status ''processing'' r)"
  "row_ok r \<Longrightarrow> row_ok (set_status ''completed'' r)"
  "row_ok r \<Longrightarrow> row_ok (replayed_row r)"
  "row_ok (enqueueEmail i now opts)"
  "row_ok r \<Longrightarrow> snapshot_ok e \<Longrightarrow> row_ok (failed_row now e msg r)"
  by (auto simp: row_ok_def set_status_def replayed_row_def enqueueEmail_def failed_row_def snapshot_ok_def Let_def)

lemma due_snapshot: "row_ok r \<Longrightarrow> is_due now r \<Longrightarrow> snapshot_ok r"
  by (auto simp: row_ok_def is_due_def snapshot_ok_def)

lemma changes_keep_id:
  "eq_id (set_status st r) = eq_id r" "eq_id (replayed_row r) = eq_id r" "eq_id (failed_row now e msg r) = eq_id r"
  by (simp_all add: set_status_def replayed_row_def failed_row_def Let_def)

lemma enqueued_id [simp]: "eq_id (enqueueEmail i now opts) = i"
  by (simp add: enqueueEmail_def)

lemma due_emails_subset: "r \<in> set (due_emails T now t) \<Longrightarrow> r \<in> set (el_rows T t) \<and> is_due now r"
  unfolding due_emails_def by (auto dest: in_set_takeD)

definition counts_ok :: "'t email_table \<Rightarrow> 't email_state \<Rightarrow> bool" where
  "counts_ok T s \<longleftrightarrow> (\<forall>i r. el_look T (es_table s) i = Some r \<longrightarrow> row_ok r)
     \<and> (\<forall>p e. e \<in> set (held_emails (es_workers s p)) \<longrightarrow> snapshot_ok e)"

context email_store
begin

lemma look_set_status:
  "el_look T (el_update T i (set_status st) t) = (el_look T t)(i := map_option (set_status st) (el_look T t i))"
  by (rule look_update) (simp add: changes_keep_id)

lemma look_failed_row:
  "el_look T (el_update T i (failed_row now e msg) t) = (el_look T t)(i := map_option (failed_row now e msg) (el_look T t i))"
  by (rule look_update) (simp add: changes_keep_id)

lemma look_replayed_row:
  "el_look T (el_update T i replayed_row t) = (el_look T t)(i := map_option replayed_row (el_look T t i))"
  by (rule look_update) (simp add: changes_keep_id)

lemmas look_changes = look_set_status look_failed_row look_replayed_row look_create

lemma due_look: "r \<in> set (due_emails T now t) \<Longrightarrow> el_look T t (eq_id r) = Some r \<and> is_due now r"
  by (auto simp: look_iff_row dest: due_emails_subset)

lemma counts_held: "counts_ok T s \<Longrightarrow> e \<in> set (held_emails (es_workers s p)) \<Longrightarrow> snapshot_ok e"
  by (simp add: counts_ok_def)

lemma counts_put_worker:
  assumes "counts_ok T s" "\<And>e. e \<in> set (held_emails (fst wt)) \<Longrightarrow> snapshot_ok e"
    "\<And>i r. el_look T (snd wt) i = Some r \<Longrightarrow> row_ok r"
  shows "counts_ok T (put_worker p wt s)"
  using assms by (auto simp: counts_ok_def put_worker_def)

lemma counts_handleFailure:
  assumes "counts_ok T s" "\<And>e. e \<in> set (email # rest) \<Longrightarrow> snapshot_ok e"
  shows "counts_ok T (put_worker p (handleFailure T now f email msg rest (es_table s)) s)"
  using assms by (intro counts_put_worker)
    (auto simp: handleFailure_def look_changes row_ok_changes counts_ok_def split: option.splits if_splits)

lemma counts_status:
  assumes "counts_ok T s" "\<And>e. e \<in> set (held_emails w) \<Longrightarrow> snapshot_ok e" "st \<in> {''processing'', ''completed''}"
  shows "counts_ok T (put_worker p (w, el_update T i (set_status st) (es_table s)) s)"
  using assms by (intro counts_put_worker)
    (auto simp: look_changes row_ok_changes counts_ok_def split: if_splits)

lemma counts_step: "counts_ok T s \<Longrightarrow> counts_ok T (email_step T a s)"
proof (cases a)
  case (Poll p now)
  assume "counts_ok T s"
  then show ?thesis
    by (auto simp: Poll counts_ok_def put_worker_def dest!: due_look dest: due_snapshot)
next
  case (Enqueue i now opts)
  assume "counts_ok T s"
  moreover have "el_look T (el_create T (enqueueEmail i now opts) (es_table s))
      = (el_look T (es_table s))(i \<mapsto> enqueueEmail i now opts)" if "el_look T (es_table s) i = None"
    using look_create[of "es_table s" "enqueueEmail i now opts"] that by simp
  ultimately show ?thesis by (auto simp: Enqueue counts_ok_def row_ok_changes)
next
  case (Replay i)
  assume "counts_ok T s"
  then show ?thesis
    by (auto simp: Replay counts_ok_def replayEmail_def look_changes row_ok_changes split: option.splits)
next
  case (Take p now f f2)
  assume c: "counts_ok T s"
  show ?thesis
  proof (cases "\<exists>e rest. es_workers s p = EBatch (e # rest)")
    case True
    then obtain e rest where w: "es_workers s p = EBatch (e # rest)" by blast
    have h: "\<And>x. x \<in> set (e # rest) \<Longrightarrow> snapshot_ok x" using c w unfolding counts_ok_def by (metis held_emails.simps(2))
    show ?thesis
      using counts_handleFailure[OF c h] counts_status[OF c, of "ESending e rest"] h
      by (auto simp: Take w take_email_def split: option.splits)
  qed (use c Take in \<open>auto split: email_worker.splits list.splits\<close>)
next
  case (Settle p now f f2)
  assume c: "counts_ok T s"
  show ?thesis
  proof (cases "es_workers s p")
    case (ESettling e ok rest)
    have h: "\<And>x. x \<in> set (e # rest) \<Longrightarrow> snapshot_ok x" using c ESettling unfolding counts_ok_def by (metis held_emails.simps(4))
    show ?thesis
      using counts_handleFailure[OF c h] counts_status[OF c, of "EBatch rest"] h
      by (auto simp: Settle ESettling settle_email_def split: option.splits)
  qed (use c Settle in auto)
next
  case (Send p ok)
  assume c: "counts_ok T s"
  show ?thesis
    using c counts_held[OF c, where p = p]
    by (cases "es_workers s p") (auto simp: Send counts_ok_def put_worker_def)
qed (auto simp: counts_ok_def put_worker_def)

lemma system_counts: "email_system T procs s \<Longrightarrow> counts_ok T s"
  by (induction rule: email_system.induct)
    (simp_all add: counts_step, simp add: counts_ok_def email_boot_def el_look_def)

end

section \<open>Calls of the provider\<close>

text \<open>With one process, a message is handed to the provider at most five times for each time it is
  queued.  \<open>attempts_at\<close> bounds the calls for one message by what its row, the worker's copy of it and
  the number of replays say.\<close>

definition sends :: "string \<Rightarrow> 't email_state \<Rightarrow> int" where
  "sends i s = int (length (filter (\<lambda>(e, ok). eq_id e = i) (es_sent s)))"

definition replays :: "string \<Rightarrow> 't email_state \<Rightarrow> int" where
  "replays i s = int (count_list (es_replayed s) i)"

definition row_bound :: "int \<Rightarrow> email_row \<Rightarrow> int" where
  "row_bound R r = 5 * R + eq_retryCount r + (if eq_status r \<in> {''processing'', ''completed''} then 1 else 0)"

definition in_rest :: "int \<Rightarrow> int \<Rightarrow> email_row option \<Rightarrow> email_row \<Rightarrow> bool" where
  "in_rest S R L e \<longleftrightarrow> S \<le> 5 * R + eq_retryCount e \<and> (\<exists>r. L = Some r \<and> eq_status r \<in> {''pending'', ''failed''})"

fun worker_at :: "string \<Rightarrow> int \<Rightarrow> int \<Rightarrow> email_row option \<Rightarrow> email_worker \<Rightarrow> bool" where
  "worker_at i S R L EIdle = True"
| "worker_at i S R L (EBatch es) = (\<forall>e\<in>set es. eq_id e = i \<longrightarrow> in_rest S R L e)"
| "worker_at i S R L (ESending e rest) =
     (if eq_id e = i
      then S \<le> 5 * R + eq_retryCount e \<and> (\<exists>r. L = Some r \<and> eq_retryCount r \<le> 4 \<and> S + 1 \<le> row_bound R r)
      else \<forall>e\<in>set rest. eq_id e = i \<longrightarrow> in_rest S R L e)"
| "worker_at i S R L (ESettling e ok rest) =
     (if eq_id e = i
      then S \<le> 5 * R + eq_retryCount e + 1 \<and> (\<exists>r. L = Some r \<and> eq_retryCount r \<le> 4)
      else \<forall>e\<in>set rest. eq_id e = i \<longrightarrow> in_rest S R L e)"

definition row_at :: "int \<Rightarrow> int \<Rightarrow> email_row option \<Rightarrow> bool" where
  "row_at S R L \<longleftrightarrow>
     (case L of None \<Rightarrow> S = 0
      | Some r \<Rightarrow> row_ok r \<and> S \<le> row_bound R r \<and> (eq_status r \<in> {''processing'', ''completed''} \<longrightarrow> eq_retryCount r \<le> 4))"

definition attempts_at :: "string \<Rightarrow> int \<Rightarrow> int \<Rightarrow> email_row option \<Rightarrow> email_worker \<Rightarrow> bool" where
  "attempts_at i S R L w \<longleftrightarrow> 0 \<le> R \<and> row_at S R L \<and> worker_at i S R L w \<and> distinct (map eq_id (held_emails w))
     \<and> (\<forall>e\<in>set (held_emails w). snapshot_ok e)"

lemmas attempts_defs = attempts_at_def row_at_def in_rest_def row_bound_def snapshot_ok_def

lemma worker_rest: "distinct (map eq_id (e # rest)) \<Longrightarrow> eq_id e = i \<Longrightarrow> worker_at i S R L (EBatch rest)"
  by (auto simp: image_iff)

lemma attempts_step:
  assumes "attempts_at i S R L w" "row_at S' R L'" "worker_at i S' R L' w'"
    "set (held_emails w') \<subseteq> set (held_emails w)" "distinct (map eq_id (held_emails w'))"
  shows "attempts_at i S' R L' w'"
  using assms by (auto simp: attempts_at_def)

lemma attempts_take:
  assumes "attempts_at i S R L (EBatch (e # rest))"
  shows "attempts_at i S R (if eq_id e = i then map_option (set_status ''processing'') L else L) (ESending e rest)"
proof (cases "eq_id e = i")
  case True
  with assms have r: "in_rest S R L e" and at: "row_at S R L" by (simp_all add: attempts_at_def)
  then obtain r where r: "L = Some r" "S \<le> 5 * R + eq_retryCount e" "eq_status r \<in> {''pending'', ''failed''}"
    by (auto simp: in_rest_def)
  with at have "S \<le> 5 * R + eq_retryCount r" "eq_retryCount r \<le> 4" "row_ok r"
    by (auto simp: row_at_def row_bound_def row_ok_def)
  with True r show ?thesis
    by (intro attempts_step[OF assms]) (use assms in \<open>simp_all add: row_at_def row_bound_def row_ok_def set_status_def attempts_at_def\<close>)
next
  case False
  then show ?thesis by (intro attempts_step[OF assms]) (use assms in \<open>simp_all add: attempts_at_def\<close>)
qed

lemma row_failed_at:
  assumes "row_at S R (Some r)" "S \<le> 5 * R + eq_retryCount e + 1" "snapshot_ok e"
  shows "row_at S R (Some (failed_row now e msg r))"
proof -
  have "row_ok (failed_row now e msg r)" using assms row_ok_changes(5) by (simp add: row_at_def)
  moreover have "S \<le> row_bound R (failed_row now e msg r)"
    using assms(2) by (simp add: row_bound_def failed_row_def Let_def)
  ultimately show ?thesis by (simp add: row_at_def failed_row_def Let_def)
qed

lemma attempts_fail:
  assumes "attempts_at i S R L w" "w = EBatch (e # rest) \<or> w = ESettling e ok rest"
  shows "attempts_at i S R (if eq_id e = i then map_option (failed_row now e msg) L else L) (EBatch rest)"
proof (cases "eq_id e = i")
  case True
  have "worker_at i S R L w" using assms(1) by (simp add: attempts_at_def)
  with True assms(2) obtain r where r: "L = Some r" "S \<le> 5 * R + eq_retryCount e + 1" by (auto simp: in_rest_def)
  have h: "distinct (map eq_id (e # rest))" "snapshot_ok e" "row_at S R L" "set rest \<subseteq> set (held_emails w)"
    using assms by (auto simp: attempts_at_def)
  show ?thesis
    using True r h row_failed_at[of S R r e now msg] by (intro attempts_step[OF assms(1)]) (auto simp: image_iff)
next
  case False
  then show ?thesis
    by (intro attempts_step[OF assms(1)]) (use assms in \<open>auto simp: attempts_at_def\<close>)
qed

lemma attempts_send:
  assumes "attempts_at i S R L (ESending e rest)"
  shows "attempts_at i (if eq_id e = i then S + 1 else S) R L (ESettling e ok rest)"
proof (cases "eq_id e = i")
  case True
  then obtain r where r: "L = Some r" "S \<le> 5 * R + eq_retryCount e" "eq_retryCount r \<le> 4" "S + 1 \<le> row_bound R r"
    using assms by (auto simp: attempts_at_def)
  with True show ?thesis
    by (intro attempts_step[OF assms]) (use assms in \<open>simp_all add: row_at_def attempts_at_def\<close>)
next
  case False
  then show ?thesis by (intro attempts_step[OF assms]) (use assms in \<open>simp_all add: attempts_at_def\<close>)
qed

lemma attempts_complete:
  assumes "attempts_at i S R L (ESettling e ok rest)"
  shows "attempts_at i S R (if eq_id e = i then map_option (set_status ''completed'') L else L) (EBatch rest)"
proof (cases "eq_id e = i")
  case True
  then obtain r where r: "L = Some r" "eq_retryCount r \<le> 4" using assms by (auto simp: attempts_at_def)
  have at: "row_at S R (Some r)" and d: "distinct (map eq_id (e # rest))" using assms r by (simp_all add: attempts_at_def)
  have "row_at S R (Some (set_status ''completed'' r))"
    using at r(2) by (auto simp: row_at_def row_bound_def row_ok_def set_status_def split: if_splits)
  with True r d show ?thesis
    by (intro attempts_step[OF assms]) (auto simp: image_iff)
next
  case False
  then show ?thesis by (intro attempts_step[OF assms]) (use assms in \<open>simp_all add: attempts_at_def subset_insertI\<close>)
qed

lemma attempts_idle: "attempts_at i S R L w \<Longrightarrow> attempts_at i S R L EIdle"
  by (simp add: attempts_at_def)

lemma worker_replay:
  assumes "worker_at i S R (Some r) w" "eq_retryCount (replayed_row r) = 0" "\<forall>e\<in>set (held_emails w). snapshot_ok e"
  shows "worker_at i S (R + 1) (Some (replayed_row r)) w"
proof -
  have rest: "in_rest S (R + 1) (Some (replayed_row r)) e" if "in_rest S R (Some r) e" for e
    using that by (simp add: in_rest_def replayed_row_def)
  show ?thesis
  proof (cases w)
    case (ESending e es)
    with assms rest show ?thesis by (simp add: snapshot_ok_def row_bound_def replayed_row_def split: if_splits)
  next
    case (ESettling e ok es)
    with assms rest show ?thesis by (simp split: if_splits)
  qed (use assms rest in simp_all)
qed

lemma attempts_replay:
  assumes "attempts_at i S R (Some r) w"
  shows "attempts_at i S (R + 1) (Some (replayed_row r)) w"
proof -
  have "row_ok (replayed_row r)" "S \<le> row_bound (R + 1) (replayed_row r)"
    using assms by (auto simp: attempts_at_def row_at_def row_ok_changes row_bound_def replayed_row_def row_ok_def split: if_splits)
  then have "row_at S (R + 1) (Some (replayed_row r))" by (simp add: row_at_def replayed_row_def)
  moreover have "worker_at i S (R + 1) (Some (replayed_row r)) w"
    using assms by (intro worker_replay) (simp_all add: attempts_at_def replayed_row_def)
  ultimately show ?thesis using assms by (simp add: attempts_at_def)
qed

lemma worker_create: "worker_at i S R None w \<Longrightarrow> worker_at i S R (Some r) w"
  by (cases w) (auto simp: in_rest_def split: if_splits)

lemma attempts_create:
  assumes "attempts_at i S R None w"
  shows "attempts_at i S R (Some (enqueueEmail i now opts)) w"
proof -
  have "row_at S R (Some (enqueueEmail i now opts))"
    using assms row_ok_changes(4)[of i now opts] by (simp add: attempts_at_def row_at_def row_bound_def enqueueEmail_def)
  with assms worker_create show ?thesis by (simp add: attempts_at_def)
qed

lemma attempts_poll:
  assumes "attempts_at i S R L EIdle" "distinct (map eq_id es)" "\<And>e. e \<in> set es \<Longrightarrow> snapshot_ok e \<and> is_due now e"
    "\<And>e. e \<in> set es \<Longrightarrow> eq_id e = i \<Longrightarrow> L = Some e"
  shows "attempts_at i S R L (EBatch es)"
proof -
  have "in_rest S R L e" if e: "e \<in> set es" "eq_id e = i" for e
  proof -
    have "L = Some e" "is_due now e" using assms(3,4) e by auto
    with assms(1) show ?thesis by (auto simp: attempts_at_def row_at_def in_rest_def row_bound_def is_due_def)
  qed
  with assms show ?thesis by (simp add: attempts_at_def)
qed

definition provider_inv :: "'t email_table \<Rightarrow> string \<Rightarrow> 't email_state \<Rightarrow> bool" where
  "provider_inv T i s \<longleftrightarrow> attempts_at i (sends i s) (replays i s) (el_look T (es_table s) i) (es_workers s 0)"

lemma ledger_put_worker [simp]:
  "sends i (put_worker p wt s) = sends i s" "replays i (put_worker p wt s) = replays i s"
  "es_table (put_worker p wt s) = snd wt" "es_workers (put_worker p wt s) = (es_workers s)(p := fst wt)"
  by (simp_all add: sends_def replays_def put_worker_def)

lemma ledger_updates [simp]:
  "sends i (s\<lparr>es_table := t\<rparr>) = sends i s" "replays i (s\<lparr>es_table := t\<rparr>) = replays i s"
  "sends i (s\<lparr>es_table := t, es_replayed := rs\<rparr>) = sends i s"
  "replays i (s\<lparr>es_table := t, es_replayed := j # es_replayed s\<rparr>) = (if i = j then replays i s + 1 else replays i s)"
  "replays i (s\<lparr>es_sent := xs\<rparr>) = replays i s"
  by (simp_all add: sends_def replays_def)

lemma sends_sent [simp]:
  "sends i ((put_worker p wt s)\<lparr>es_sent := (e, ok) # es_sent s\<rparr>) = (if eq_id e = i then sends i s + 1 else sends i s)"
  by (simp add: sends_def)

context email_store
begin

lemma due_distinct: "distinct (map eq_id (due_emails T now t))"
proof -
  let ?f = "filter (is_due now) (el_rows T t)"
  let ?s = "js_sort (\<lambda>a b. eq_createdAt b < eq_createdAt a) ?f"
  have "distinct (map eq_id ?f)" by (rule distinct_map_filter[OF ids_distinct])
  then have "distinct (map eq_id ?s)" by (simp add: distinct_map)
  then show ?thesis by (simp add: due_emails_def take_map[symmetric] distinct_take)
qed

lemma provider_handleFailure:
  assumes "provider_inv T i s" "es_workers s 0 = EBatch (e # rest) \<or> es_workers s 0 = ESettling e ok rest"
  shows "provider_inv T i (put_worker 0 (handleFailure T now f e msg rest (es_table s)) s)"
  using attempts_fail[OF assms(1)[unfolded provider_inv_def] assms(2)] attempts_idle assms(1)
  by (cases f) (auto simp: provider_inv_def handleFailure_def look_changes split: if_splits)

lemma provider_step:
  assumes p: "provider_inv T i s" and c: "counts_ok T s" and a: "set_option (act_process a) \<subseteq> {0}"
  shows "provider_inv T i (email_step T a s)"
proof (cases a)
  case (Enqueue j now opts)
  have "el_look T (el_create T (enqueueEmail j now opts) (es_table s))
      = (el_look T (es_table s))(j \<mapsto> enqueueEmail j now opts)" if "el_look T (es_table s) j = None"
    using look_create[of "es_table s" "enqueueEmail j now opts"] that by simp
  with p show ?thesis by (auto simp: Enqueue provider_inv_def intro: attempts_create)
next
  case (Replay j)
  show ?thesis
  proof (cases "el_look T (es_table s) j")
    case (Some r)
    with p show ?thesis
      by (auto simp: Replay provider_inv_def replayEmail_def look_changes intro: attempts_replay)
  qed (simp add: Replay replayEmail_def p)
next
  case (Poll q now)
  have q: "q = 0" using a Poll by simp
  show ?thesis
  proof (cases "es_workers s 0 = EIdle")
    case True
    have "attempts_at i (sends i s) (replays i s) (el_look T (es_table s) i) (EBatch (due_emails T now (es_table s)))"
    proof (rule attempts_poll)
      show "attempts_at i (sends i s) (replays i s) (el_look T (es_table s) i) EIdle" using p True by (simp add: provider_inv_def)
      show "distinct (map eq_id (due_emails T now (es_table s)))" by (rule due_distinct)
    next
      fix e assume "e \<in> set (due_emails T now (es_table s))"
      from due_look[OF this] c show "snapshot_ok e \<and> is_due now e" by (auto simp: counts_ok_def intro: due_snapshot)
    next
      fix e assume "e \<in> set (due_emails T now (es_table s))" "eq_id e = i"
      with due_look[OF this(1)] show "el_look T (es_table s) i = Some e" by simp
    qed
    with True show ?thesis by (simp add: Poll q provider_inv_def)
  qed (simp add: Poll q p)
next
  case (Take q now f f2)
  have q: "q = 0" using a Take by simp
  show ?thesis
  proof (cases "\<exists>e rest. es_workers s 0 = EBatch (e # rest)")
    case True
    then obtain e rest where w: "es_workers s 0 = EBatch (e # rest)" by blast
    have "provider_inv T i (put_worker 0 (ESending e rest, el_update T (eq_id e) (set_status ''processing'') (es_table s)) s)"
      using attempts_take[OF p[unfolded provider_inv_def w]] by (auto simp: provider_inv_def look_changes split: if_splits)
    with provider_handleFailure[OF p] w show ?thesis by (auto simp: Take q take_email_def split: option.splits)
  qed (use p in \<open>auto simp: Take q split: email_worker.splits list.splits\<close>)
next
  case (Send q ok)
  have q: "q = 0" using a Send by simp
  show ?thesis
  proof (cases "es_workers s 0")
    case (ESending e rest)
    with attempts_send[OF p[unfolded provider_inv_def ESending], of ok] show ?thesis
      by (simp add: Send q provider_inv_def split: if_splits)
  qed (simp_all add: Send q p)
next
  case (Settle q now f f2)
  have q: "q = 0" using a Settle by simp
  show ?thesis
  proof (cases "es_workers s 0")
    case (ESettling e ok rest)
    have "provider_inv T i (put_worker 0 (EBatch rest, el_update T (eq_id e) (set_status ''completed'') (es_table s)) s)"
      using attempts_complete[OF p[unfolded provider_inv_def ESettling]]
      by (auto simp: provider_inv_def look_changes split: if_splits)
    with provider_handleFailure[OF p] ESettling show ?thesis
      by (auto simp: Settle q settle_email_def split: option.splits)
  qed (simp_all add: Settle q p)
next
  case (Finish q)
  with a p attempts_idle show ?thesis by (auto simp: provider_inv_def)
next
  case (Crash q)
  with a p attempts_idle show ?thesis by (auto simp: provider_inv_def)
qed

lemma system_provider: "email_system T {0} s \<Longrightarrow> provider_inv T i s"
proof (induction rule: email_system.induct)
  case (em_boot t)
  then show ?case
    by (simp add: provider_inv_def attempts_at_def row_at_def email_boot_def el_look_def sends_def replays_def)
next
  case (em_step s a)
  then show ?case by (intro provider_step system_counts)
qed

lemma sends_bounded:
  assumes "email_system T {0} s"
  shows "sends i s \<le> 5 * (1 + replays i s)"
proof -
  from system_provider[OF assms, of i] have r: "row_at (sends i s) (replays i s) (el_look T (es_table s) i)"
    and "0 \<le> replays i s" by (simp_all add: provider_inv_def attempts_at_def)
  then show ?thesis
    by (cases "el_look T (es_table s) i") (auto simp: row_at_def row_bound_def row_ok_def split: if_splits)
qed

lemma processing_stuck:
  assumes "el_look T (es_table s) i = Some r" "eq_status r = ''processing''"
    "\<And>p e. e \<in> set (held_emails (es_workers s p)) \<Longrightarrow> eq_id e \<noteq> i" "a \<noteq> Replay i"
  shows "el_look T (es_table (email_step T a s)) i = Some r \<and> sends i (email_step T a s) = sends i s
    \<and> (\<forall>p e. e \<in> set (held_emails (es_workers (email_step T a s) p)) \<longrightarrow> eq_id e \<noteq> i)"
proof (cases a)
  case (Enqueue j now opts)
  have "el_look T (el_create T (enqueueEmail j now opts) (es_table s))
      = (el_look T (es_table s))(j \<mapsto> enqueueEmail j now opts)" if "el_look T (es_table s) j = None"
    using look_create[of "es_table s" "enqueueEmail j now opts"] that by simp
  with assms show ?thesis by (auto simp: Enqueue)
next
  case (Replay j)
  with assms show ?thesis by (auto simp: replayEmail_def look_changes split: option.splits)
next
  case (Poll q now)
  have "eq_id e \<noteq> i" if "e \<in> set (due_emails T now (es_table s))" for e
    using due_look[OF that] assms(1,2) by (auto simp: is_due_def)
  with assms show ?thesis by (auto simp: Poll)
next
  case (Take q now f f2)
  obtain w where w: "es_workers s q = w" and h: "\<forall>e\<in>set (held_emails w). eq_id e \<noteq> i" using assms(3) by blast
  have all: "\<forall>p. \<forall>e\<in>set (held_emails (es_workers s p)). eq_id e \<noteq> i" using assms(3) by blast
  show ?thesis using h all assms(1,2)
    by (auto simp: Take w take_email_def handleFailure_def look_changes split: email_worker.splits list.splits option.splits)
next
  case (Send q ok)
  obtain w where w: "es_workers s q = w" and h: "\<forall>e\<in>set (held_emails w). eq_id e \<noteq> i" using assms(3) by blast
  have all: "\<forall>p. \<forall>e\<in>set (held_emails (es_workers s p)). eq_id e \<noteq> i" using assms(3) by blast
  show ?thesis using h all assms(1,2) by (auto simp: Send w split: email_worker.splits)
next
  case (Settle q now f f2)
  obtain w where w: "es_workers s q = w" and h: "\<forall>e\<in>set (held_emails w). eq_id e \<noteq> i" using assms(3) by blast
  have all: "\<forall>p. \<forall>e\<in>set (held_emails (es_workers s p)). eq_id e \<noteq> i" using assms(3) by blast
  show ?thesis using h all assms(1,2)
    by (auto simp: Settle w settle_email_def handleFailure_def look_changes split: email_worker.splits option.splits if_splits)
qed (use assms in auto)

end

section \<open>Properties\<close>

text \<open>
  With one server process, whatever the order of requests, runs of the worker, rejected database
  calls and crashes, a message is handed to the provider at most five times for each time it was queued
  or replayed; a message still to be sent has at most four failures behind it, and one given up has five.
\<close>

theorem email_attempts_bounded:
  assumes "email_store T" and "email_system T {0} s"
  shows "sends i s \<le> 5 * (1 + replays i s)
    \<and> (\<forall>r. el_look T (es_table s) i = Some r \<longrightarrow>
         (eq_status r \<in> {''pending'', ''failed''} \<longrightarrow> 0 \<le> eq_retryCount r \<and> eq_retryCount r < 5)
         \<and> (eq_status r = ''dead-letter'' \<longrightarrow> eq_retryCount r = 5))"
proof -
  show ?thesis
    using email_store.sends_bounded[OF assms] email_store.system_counts[OF assms] by (auto simp: counts_ok_def row_ok_def)
qed

definition sample_email :: email_options where
  "sample_email = \<lparr>eo_to = ''a@b.c'', eo_subject = ''s'', eo_text = ''t'', eo_html = []\<rparr>"

lemma empty_emails: "el_rows list_emails no_emails = []"
  by (simp add: list_emails_def no_emails.rep_eq)

lemmas email_eval = list_emails_def el_look_def insert_email.rep_eq change_email.rep_eq no_emails.rep_eq email_boot_def
  put_worker_def due_emails_def is_due_def enqueueEmail_def take_email_def settle_email_def handleFailure_def
  set_status_def failed_row_def calculateNextRetry_def sends_def replays_def replayEmail_def replayed_row_def sample_email_def

definition twice_sent_run :: "email_act list" where
  "twice_sent_run = [Enqueue ''m'' 0 sample_email, Poll 0 10, Take 0 11 None None, Send 0 True,
     Settle 0 12 (Some ''connection lost'') None, Finish 0, Poll 0 2012, Take 0 2013 None None, Send 0 True]"

lemma twice_sent_system: "email_system list_emails {0} (run_email_acts list_emails twice_sent_run (email_boot no_emails))"
  by (rule email_system_run[OF em_boot[OF empty_emails]]) (auto simp: twice_sent_run_def)

text \<open>A message the provider has accepted is sent again when the update that records it is rejected.\<close>

lemma email_sent_twice:
  "(let s = run_email_acts list_emails twice_sent_run (email_boot no_emails)
    in sends ''m'' s = 2 \<and> map snd (es_sent s) = [True, True] \<and> es_replayed s = [])"
  by (simp add: twice_sent_run_def email_eval Let_def)

theorem email_attempts_bounded_witness:
  "(let s = run_email_acts list_emails twice_sent_run (email_boot no_emails) in 2 \<le> sends ''m'' s \<and> sends ''m'' s \<le> 5)"
  using email_attempts_bounded[OF list_emails.email_store_axioms twice_sent_system, of "''m''"] email_sent_twice
  by (simp add: Let_def replays_def)

text \<open>
  A message whose row says \<open>processing\<close> while no worker holds it (its process stopped between marking
  and settling it) stays so: no later poll takes it, however many processes run, until it is replayed.
\<close>

theorem email_processing_stuck:
  assumes "email_store T" and "el_look T (es_table s) i = Some r" and "eq_status r = ''processing''"
    and "\<And>p e. e \<in> set (held_emails (es_workers s p)) \<Longrightarrow> eq_id e \<noteq> i"
    and "Replay i \<notin> set acts"
  shows "el_look T (es_table (run_email_acts T acts s)) i = Some r \<and> sends i (run_email_acts T acts s) = sends i s"
  using assms(2,4,5)
proof (induction acts arbitrary: s)
  case (Cons a acts)
  have step: "el_look T (es_table (email_step T a s)) i = Some r \<and> sends i (email_step T a s) = sends i s
    \<and> (\<forall>p e. e \<in> set (held_emails (es_workers (email_step T a s) p)) \<longrightarrow> eq_id e \<noteq> i)"
    by (rule email_store.processing_stuck[OF assms(1) Cons(2) assms(3) Cons(3)]) (use Cons(4) in auto)
  with Cons(1)[of "email_step T a s"] Cons(4) show ?case by simp
qed simp

definition crashed_run :: "email_act list" where
  "crashed_run = [Enqueue ''m'' 0 sample_email, Poll 0 10, Take 0 11 None None, Crash 0]"

theorem email_processing_stuck_witness:
  "(let s = run_email_acts list_emails crashed_run (email_boot no_emails);
        s' = run_email_acts list_emails [Poll 0 90000, Take 0 90001 None None, Send 0 True] s
    in map_option eq_status (el_look list_emails (es_table s) ''m'') = Some ''processing''
       \<and> map_option eq_status (el_look list_emails (es_table s') ''m'') = Some ''processing'' \<and> sends ''m'' s' = 0)"
proof -
  let ?s = "run_email_acts list_emails crashed_run (email_boot no_emails)"
  let ?r = "(enqueueEmail ''m'' 0 sample_email)\<lparr>eq_status := ''processing''\<rparr>"
  have l: "el_look list_emails (es_table ?s) ''m'' = Some ?r" by (simp add: crashed_run_def email_eval)
  have w: "es_workers ?s p = EIdle" for p by (simp add: crashed_run_def email_eval)
  have z: "sends ''m'' ?s = 0" by (simp add: crashed_run_def email_eval)
  have "el_look list_emails (es_table (run_email_acts list_emails [Poll 0 90000, Take 0 90001 None None, Send 0 True] ?s)) ''m''
      = Some ?r \<and> sends ''m'' (run_email_acts list_emails [Poll 0 90000, Take 0 90001 None None, Send 0 True] ?s) = sends ''m'' ?s"
    by (rule email_processing_stuck[OF list_emails.email_store_axioms l]) (simp_all add: w)
  with l z show ?thesis by (simp add: Let_def)
qed

end
