(* ===== verification/Latency.thy ===== *)
theory Latency
  imports Decimals Http Calendar
begin

text \<open>
  Latency monitoring (\<open>backend/src/latencyMonitoring.ts\<close>): rolling windows of measurements per endpoint,
  their 95th percentile, and the alerts on a breach of the service level, spaced by a cool-down.
  Limits that are read from the environment are \<open>parseInt\<close> results, \<open>None\<close> for \<open>NaN\<close>; a comparison with
  one is false.  The two symbols outside ASCII in the Slack message are their UTF-8 bytes.
\<close>

section \<open>Trackers\<close>

datatype endpoint_type = ReadEndpoint | WriteEndpoint

record slo_config =
  sl_readEndpoints :: "int option"
  sl_writeEndpoints :: "int option"
  sl_evaluationWindowMs :: "int option"
  sl_alertCooldownMs :: "int option"

record data_point =
  dp_timestamp :: time
  dp_latency :: rat

record latency_tracker =
  tk_endpoint :: string
  tk_type :: endpoint_type
  tk_threshold :: "int option"
  tk_window :: "int option"
  tk_cooldown :: "int option"
  tk_points :: "data_point list"
  tk_cached :: "data_point list"
  tk_uncached :: "data_point list"
  tk_lastAlertTime :: time

definition new_tracker :: "string \<Rightarrow> endpoint_type \<Rightarrow> int option \<Rightarrow> int option \<Rightarrow> int option \<Rightarrow> latency_tracker" where
  "new_tracker endpoint ty threshold window cooldown =
     \<lparr>tk_endpoint = endpoint, tk_type = ty, tk_threshold = threshold, tk_window = window, tk_cooldown = cooldown,
      tk_points = [], tk_cached = [], tk_uncached = [], tk_lastAlertTime = 0\<rparr>"

definition in_window :: "int option \<Rightarrow> time \<Rightarrow> data_point \<Rightarrow> bool" where
  "in_window window now p = (case window of None \<Rightarrow> False | Some w \<Rightarrow> now - w < dp_timestamp p)"

definition pruneStaleData :: "time \<Rightarrow> latency_tracker \<Rightarrow> latency_tracker" where
  "pruneStaleData now tk =
     (let keep = filter (in_window (tk_window tk) now)
      in tk\<lparr>tk_points := keep (tk_points tk), tk_cached := keep (tk_cached tk), tk_uncached := keep (tk_uncached tk)\<rparr>)"

definition addLatencyMeasurement :: "time \<Rightarrow> rat \<Rightarrow> bool option \<Rightarrow> latency_tracker \<Rightarrow> latency_tracker" where
  "addLatencyMeasurement now latencyMs cached tk =
     (let point = \<lparr>dp_timestamp = now, dp_latency = latencyMs\<rparr>;
          tk1 = tk\<lparr>tk_points := tk_points tk @ [point]\<rparr>;
          tk2 = (case cached of
                   Some True \<Rightarrow> tk1\<lparr>tk_cached := tk_cached tk1 @ [point]\<rparr>
                 | Some False \<Rightarrow> tk1\<lparr>tk_uncached := tk_uncached tk1 @ [point]\<rparr>
                 | None \<Rightarrow> tk1)
      in pruneStaleData now tk2)"

definition computeP95 :: "data_point list \<Rightarrow> rat" where
  "computeP95 points =
     (if points = [] then 0
      else let sorted = sort (map dp_latency points)
           in sorted ! nat (ceil_div (int (length sorted) * 95) 100 - 1))"

text \<open>The methods below prune before they look; each returns the pruned tracker with its value.\<close>

definition calculateP95 :: "time \<Rightarrow> latency_tracker \<Rightarrow> rat \<times> latency_tracker" where
  "calculateP95 now tk = (let t = pruneStaleData now tk in (computeP95 (tk_points t), t))"

definition getCachedP95 :: "time \<Rightarrow> latency_tracker \<Rightarrow> rat option \<times> latency_tracker" where
  "getCachedP95 now tk =
     (let t = pruneStaleData now tk in (if tk_cached t \<noteq> [] then Some (computeP95 (tk_cached t)) else None, t))"

definition getUncachedP95 :: "time \<Rightarrow> latency_tracker \<Rightarrow> rat option \<times> latency_tracker" where
  "getUncachedP95 now tk =
     (let t = pruneStaleData now tk in (if tk_uncached t \<noteq> [] then Some (computeP95 (tk_uncached t)) else None, t))"

definition getDataPointCount :: "time \<Rightarrow> latency_tracker \<Rightarrow> nat \<times> latency_tracker" where
  "getDataPointCount now tk = (let t = pruneStaleData now tk in (length (tk_points t), t))"

definition isSLOBreached :: "time \<Rightarrow> latency_tracker \<Rightarrow> bool \<times> latency_tracker" where
  "isSLOBreached now tk =
     (let (p95, t) = calculateP95 now tk
      in (case tk_threshold tk of None \<Rightarrow> False | Some s \<Rightarrow> of_int s < p95, t))"

definition shouldAlert :: "time \<Rightarrow> latency_tracker \<Rightarrow> bool \<times> latency_tracker" where
  "shouldAlert now tk =
     (let cooldownExpired = (case tk_cooldown tk of None \<Rightarrow> False | Some c \<Rightarrow> c < now - tk_lastAlertTime tk);
          (isBreaching, t) = isSLOBreached now tk;
          isFirstBreach = (tk_lastAlertTime tk = 0 \<and> isBreaching)
      in (isBreaching \<and> (cooldownExpired \<or> isFirstBreach), t))"

definition recordAlert :: "time \<Rightarrow> latency_tracker \<Rightarrow> latency_tracker" where
  "recordAlert now tk = tk\<lparr>tk_lastAlertTime := now\<rparr>"

section \<open>Alerts\<close>

record slo_violation =
  vl_endpoint :: string
  vl_type :: endpoint_type
  vl_currentP95 :: rat
  vl_threshold :: "int option"
  vl_dataPoints :: nat

datatype alert_integration = SlackAlert | PagerDutyAlert

definition to_fixed2 :: "rat \<Rightarrow> string" where
  "to_fixed2 x = show_fixed 2 (round_to 2 x)"

definition show_limit :: "int option \<Rightarrow> string" where
  "show_limit l = (case l of None \<Rightarrow> ''NaN'' | Some i \<Rightarrow> show_int i)"

fun type_name :: "endpoint_type \<Rightarrow> string" where
  "type_name ReadEndpoint = ''read''"
| "type_name WriteEndpoint = ''write''"

definition slack_line :: "slo_violation \<Rightarrow> string" where
  "slack_line v = [CHR 0xE2, CHR 0x80, CHR 0xA2, CHR '' ''] @ vl_endpoint v @ '': P95 = '' @ to_fixed2 (vl_currentP95 v)
     @ ''ms (SLO: '' @ show_limit (vl_threshold v) @ ''ms, '' @ show_nat (vl_dataPoints v) @ '' samples)''"

definition formatSlackMessage :: "time \<Rightarrow> slo_violation list \<Rightarrow> json" where
  "formatSlackMessage now violations = JObj
     [(''text'', JStr ([CHR 0xF0, CHR 0x9F, CHR 0x9A, CHR 0xA8] @ '' API Latency SLO Breach Detected'')),
      (''attachments'', JArr [JObj
        [(''color'', JStr ''danger''),
         (''fields'', JArr
           [JObj [(''title'', JStr ''Affected Endpoints''),
              (''value'', JStr (js_join [CHR 0x0A] (map slack_line violations))), (''short'', JBool False)],
            JObj [(''title'', JStr ''Time''), (''value'', JStr (to_iso_string now)), (''short'', JBool True)],
            JObj [(''title'', JStr ''Service''), (''value'', JStr ''YieldVault Backend''), (''short'', JBool True)]]),
         (''footer'', JStr ''Latency Monitoring System''),
         (''ts'', jint (now div 1000))]])]"

definition violation_json :: "slo_violation \<Rightarrow> json" where
  "violation_json v = JObj [(''endpoint'', JStr (vl_endpoint v)), (''type'', JStr (type_name (vl_type v))),
     (''currentP95'', JNum (vl_currentP95 v)), (''threshold'', json_opt jint (vl_threshold v)),
     (''dataPoints'', jint (int (vl_dataPoints v)))]"

definition formatPagerDutyPayload :: "env \<Rightarrow> time \<Rightarrow> slo_violation list \<Rightarrow> json" where
  "formatPagerDutyPayload env now violations = JObj
     [(''routing_key'', json_opt JStr (env ''PAGERDUTY_INTEGRATION_KEY'')),
      (''event_action'', JStr ''trigger''),
      (''payload'', JObj
        [(''summary'', JStr (''API Latency SLO Breach: '' @ js_join '', '' (map (\<lambda>v. vl_endpoint v @ '': P95=''
            @ to_fixed2 (vl_currentP95 v) @ ''ms (SLO='' @ show_limit (vl_threshold v) @ ''ms)'') violations))),
         (''source'', JStr ''yieldvault-backend''),
         (''severity'', JStr ''critical''),
         (''timestamp'', JStr (to_iso_string now)),
         (''component'', JStr ''api-latency-monitoring''),
         (''group'', JStr ''performance''),
         (''class'', JStr ''latency-slo''),
         (''custom_details'', JObj
           [(''violations'', JArr (map violation_json violations)),
            (''service'', JStr ''YieldVault Backend''),
            (''monitoring_system'', JStr ''Latency SLO Monitor'')])])]"

text \<open>The request of an integration: none when it is not configured.\<close>

definition alert_request ::
  "env \<Rightarrow> time \<Rightarrow> slo_violation list \<Rightarrow> alert_integration \<Rightarrow> (string \<times> json) option" where
  "alert_request env now violations i =
     (case i of
        SlackAlert \<Rightarrow>
          if truthy_str (env ''SLACK_WEBHOOK_URL'')
          then Some (the (env ''SLACK_WEBHOOK_URL''), formatSlackMessage now violations) else None
      | PagerDutyAlert \<Rightarrow>
          if truthy_str (env ''PAGERDUTY_INTEGRATION_KEY'')
          then Some (''https://events.pagerduty.com/v2/enqueue'', formatPagerDutyPayload env now violations) else None)"

text \<open>\<open>fetch\<close> throws a message or answers a status; a rejected promise is its message.\<close>

definition sendAlert ::
  "env \<Rightarrow> (string \<Rightarrow> json \<Rightarrow> string + int) \<Rightarrow> time \<Rightarrow> slo_violation list \<Rightarrow> alert_integration \<Rightarrow> string option" where
  "sendAlert env fetch now violations i =
     (case alert_request env now violations i of
        None \<Rightarrow> None
      | Some (url, body) \<Rightarrow>
          (case fetch url body of
             Inl m \<Rightarrow> Some m
           | Inr status \<Rightarrow>
               if 200 \<le> status \<and> status \<le> 299 then None
               else Some ((case i of SlackAlert \<Rightarrow> ''Slack'' | PagerDutyAlert \<Rightarrow> ''PagerDuty'')
                 @ '' API responded with status: '' @ show_int status)))"

section \<open>The service\<close>

text \<open>\<open>sv_alerts\<close> is the history of \<open>sendAlerts\<close>, newest first; the timer is its period while set.\<close>

record latency_service =
  sv_trackers :: "(string, latency_tracker) js_map"
  sv_integrations :: "alert_integration list"
  sv_monitoring :: "int option option"
  sv_alerts :: "(time \<times> slo_violation list) list"

definition getSLOConfig :: "env \<Rightarrow> slo_config" where
  "getSLOConfig env =
     \<lparr>sl_readEndpoints = js_parse_int (env_or env ''SLO_READ_THRESHOLD_MS'' ''200''),
      sl_writeEndpoints = js_parse_int (env_or env ''SLO_WRITE_THRESHOLD_MS'' ''500''),
      sl_evaluationWindowMs = js_parse_int (env_or env ''SLO_EVALUATION_WINDOW_MS'' ''300000''),
      sl_alertCooldownMs = js_parse_int (env_or env ''SLO_ALERT_COOLDOWN_MS'' ''900000'')\<rparr>"

definition endpoint_mappings :: "(string \<times> endpoint_type) list" where
  "endpoint_mappings =
     [(''/api/v1/vault/summary'', ReadEndpoint),
      (''/api/v1/vault/metrics'', ReadEndpoint),
      (''/api/v1/vault/apy'', ReadEndpoint),
      (''/api/v1/vault/:id'', ReadEndpoint),
      (''/health'', ReadEndpoint),
      (''/ready'', ReadEndpoint),
      (''/metrics'', ReadEndpoint),
      (''/admin/api-keys/audit-events'', ReadEndpoint),
      (''/admin/exports/jobs'', ReadEndpoint),
      (''/api/v1/vault/deposit'', WriteEndpoint),
      (''/api/v1/vault/withdraw'', WriteEndpoint),
      (''/api/v1/vault/create'', WriteEndpoint),
      (''/admin/cache/invalidate'', WriteEndpoint),
      (''/admin/api-keys/register'', WriteEndpoint),
      (''/admin/api-keys/rotate'', WriteEndpoint),
      (''/admin/api-keys/revoke'', WriteEndpoint),
      (''/admin/exports/jobs/:id/verify'', WriteEndpoint)]"

definition mapped_tracker :: "slo_config \<Rightarrow> string \<Rightarrow> endpoint_type \<Rightarrow> latency_tracker" where
  "mapped_tracker cfg endpoint ty =
     new_tracker endpoint ty (case ty of ReadEndpoint \<Rightarrow> sl_readEndpoints cfg | WriteEndpoint \<Rightarrow> sl_writeEndpoints cfg)
       (sl_evaluationWindowMs cfg) (sl_alertCooldownMs cfg)"

definition initializeEndpointMappings :: "env \<Rightarrow> (string, latency_tracker) js_map" where
  "initializeEndpointMappings env = map (\<lambda>(e, ty). (e, mapped_tracker (getSLOConfig env) e ty)) endpoint_mappings"

definition initializeAlertIntegrations :: "env \<Rightarrow> alert_integration list" where
  "initializeAlertIntegrations env =
     (let alertType = js_lower (env_or env ''ALERT_TYPE'' ''slack'')
      in if alertType = ''pagerduty'' then [PagerDutyAlert]
         else if alertType = ''slack'' then [SlackAlert]
         else if alertType = ''both'' then [PagerDutyAlert, SlackAlert]
         else [SlackAlert])"

definition LatencyMonitoringService :: "env \<Rightarrow> latency_service" where
  "LatencyMonitoringService env = \<lparr>sv_trackers = initializeEndpointMappings env,
     sv_integrations = initializeAlertIntegrations env, sv_monitoring = None, sv_alerts = []\<rparr>"

definition vault_id_path :: "string \<Rightarrow> bool" where
  "vault_id_path p \<longleftrightarrow> (let n = length ''/api/v1/vault/''
     in take n p = ''/api/v1/vault/'' \<and> drop n p \<noteq> [] \<and> CHR ''/'' \<notin> set (drop n p))"

definition normalizeEndpoint :: "string \<Rightarrow> latency_service \<Rightarrow> string" where
  "normalizeEndpoint endpoint s =
     (if jm_has (sv_trackers s) endpoint then endpoint
      else if vault_id_path endpoint then ''/api/v1/vault/:id''
      else endpoint)"

definition violation_of :: "time \<Rightarrow> string \<Rightarrow> latency_tracker \<Rightarrow> slo_violation" where
  "violation_of now endpoint tk =
     \<lparr>vl_endpoint = endpoint, vl_type = tk_type tk, vl_currentP95 = fst (calculateP95 now tk),
      vl_threshold = tk_threshold tk, vl_dataPoints = fst (getDataPointCount now tk)\<rparr>"

definition sendAlerts :: "time \<Rightarrow> slo_violation list \<Rightarrow> latency_service \<Rightarrow> latency_service" where
  "sendAlerts now violations s = s\<lparr>sv_alerts := (now, violations) # sv_alerts s\<rparr>"

definition recordLatency :: "env \<Rightarrow> time \<Rightarrow> string \<Rightarrow> rat \<Rightarrow> bool option \<Rightarrow> latency_service \<Rightarrow> latency_service" where
  "recordLatency env now endpoint latencyMs cached s =
     (let normalized = normalizeEndpoint endpoint s
      in case map_of (sv_trackers s) normalized of
           Some tk \<Rightarrow>
             (let (alert, t) = shouldAlert now (addLatencyMeasurement now latencyMs cached tk);
                  put = (\<lambda>t. s\<lparr>sv_trackers := AList.update normalized t (sv_trackers s)\<rparr>)
              in if alert then sendAlerts now [violation_of now normalized t] (put (recordAlert now t)) else put t)
         | None \<Rightarrow>
             s\<lparr>sv_trackers := AList.update normalized
                (addLatencyMeasurement now latencyMs cached (mapped_tracker (getSLOConfig env) normalized ReadEndpoint))
                (sv_trackers s)\<rparr>)"

definition checked_tracker :: "time \<Rightarrow> latency_tracker \<Rightarrow> latency_tracker" where
  "checked_tracker now tk = (let (alert, t) = shouldAlert now tk in if alert then recordAlert now t else t)"

definition checkSLOViolations :: "time \<Rightarrow> latency_service \<Rightarrow> latency_service" where
  "checkSLOViolations now s =
     (let violations = map (\<lambda>(e, tk). violation_of now e (snd (shouldAlert now tk)))
            (filter (\<lambda>(e, tk). fst (shouldAlert now tk)) (sv_trackers s));
          s1 = s\<lparr>sv_trackers := map (\<lambda>(e, tk). (e, checked_tracker now tk)) (sv_trackers s)\<rparr>
      in if violations \<noteq> [] then sendAlerts now violations s1 else s1)"

definition startMonitoring :: "env \<Rightarrow> latency_service \<Rightarrow> latency_service" where
  "startMonitoring env s =
     (case sv_monitoring s of
        Some p \<Rightarrow> s
      | None \<Rightarrow> s\<lparr>sv_monitoring := Some (js_parse_int (env_or env ''SLO_CHECK_INTERVAL_MS'' ''60000''))\<rparr>)"

definition stopMonitoring :: "latency_service \<Rightarrow> latency_service" where
  "stopMonitoring s = s\<lparr>sv_monitoring := None\<rparr>"

definition resetForTests :: "env \<Rightarrow> latency_service \<Rightarrow> latency_service" where
  "resetForTests env s = (stopMonitoring s)\<lparr>sv_trackers := initializeEndpointMappings env,
     sv_integrations := initializeAlertIntegrations env\<rparr>"

record latency_status =
  st_endpointsTracked :: nat
  st_monitoringActive :: bool
  st_alertIntegrations :: "alert_integration list"

definition getStatus :: "latency_service \<Rightarrow> latency_status" where
  "getStatus s = \<lparr>st_endpointsTracked = length (sv_trackers s), st_monitoringActive = (sv_monitoring s \<noteq> None),
     st_alertIntegrations = sv_integrations s\<rparr>"

record endpoint_metrics =
  me_endpoint :: string
  me_type :: endpoint_type
  me_currentP95 :: rat
  me_threshold :: "int option"
  me_isBreaching :: bool
  me_dataPoints :: nat
  me_lastAlertTime :: "time option"
  me_cachedP95 :: "rat option"
  me_uncachedP95 :: "rat option"

definition getDetailedMetrics :: "time \<Rightarrow> latency_service \<Rightarrow> endpoint_metrics list \<times> latency_service" where
  "getDetailedMetrics now s =
     (map (\<lambda>(e, tk). \<lparr>me_endpoint = e, me_type = tk_type tk, me_currentP95 = fst (calculateP95 now tk),
         me_threshold = tk_threshold tk, me_isBreaching = fst (isSLOBreached now tk),
         me_dataPoints = fst (getDataPointCount now tk),
         me_lastAlertTime = (if tk_lastAlertTime tk = 0 then None else Some (tk_lastAlertTime tk)),
         me_cachedP95 = fst (getCachedP95 now tk), me_uncachedP95 = fst (getUncachedP95 now tk)\<rparr>) (sv_trackers s),
      s\<lparr>sv_trackers := map (\<lambda>(e, tk). (e, pruneStaleData now tk)) (sv_trackers s)\<rparr>)"

section \<open>The percentile\<close>

lemma sorted_count_le:
  fixes s :: "'a :: linorder list"
  assumes "sorted s" "k < length s"
  shows "k + 1 \<le> length (filter (\<lambda>y. y \<le> s ! k) s)"
proof -
  have "y \<le> s ! k" if "y \<in> set (take (k + 1) s)" for y
    using that assms by (auto simp: in_set_conv_nth sorted_iff_nth_mono)
  then have "filter (\<lambda>y. y \<le> s ! k) (take (k + 1) s) = take (k + 1) s" by (simp add: filter_id_conv)
  then have "length (filter (\<lambda>y. y \<le> s ! k) (take (k + 1) s)) = k + 1" using assms(2) by simp
  moreover have "length (filter (\<lambda>y. y \<le> s ! k) s)
      = length (filter (\<lambda>y. y \<le> s ! k) (take (k + 1) s)) + length (filter (\<lambda>y. y \<le> s ! k) (drop (k + 1) s))"
    by (metis append_take_drop_id filter_append length_append)
  ultimately show ?thesis by linarith
qed

lemma sorted_count_below:
  fixes s :: "'a :: linorder list"
  assumes "sorted s" "k < length s" "x < s ! k"
  shows "length (filter (\<lambda>y. y \<le> x) s) \<le> k"
proof -
  have "\<not> y \<le> x" if y: "y \<in> set (drop k s)" for y
  proof -
    obtain i where "i < length s - k" "y = s ! (k + i)" using y assms(2) by (auto simp: in_set_conv_nth)
    then have "s ! k \<le> y" using assms(1) by (auto simp: sorted_iff_nth_mono)
    with assms(3) show ?thesis by simp
  qed
  then have "filter (\<lambda>y. y \<le> x) (drop k s) = []" by (simp add: filter_empty_conv)
  then have "filter (\<lambda>y. y \<le> x) s = filter (\<lambda>y. y \<le> x) (take k s)"
    by (metis append_take_drop_id append_Nil2 filter_append)
  then have "length (filter (\<lambda>y. y \<le> x) s) \<le> length (take k s)" by (metis length_filter_le)
  then show ?thesis by simp
qed

lemma rank_bounds:
  assumes "0 < n"
  shows "1 \<le> ceil_div (int n * 95) 100" "ceil_div (int n * 95) 100 \<le> int n"
    "int n * 95 \<le> 100 * ceil_div (int n * 95) 100" "100 * ceil_div (int n * 95) 100 < int n * 95 + 100"
  using ceil_div_bounds[of 100 "int n * 95"] assms by auto

definition share_below :: "rat \<Rightarrow> data_point list \<Rightarrow> nat" where
  "share_below v points = length (filter (\<lambda>p. dp_latency p \<le> v) points)"

lemma share_below_sort: "share_below v points = length (filter (\<lambda>y. y \<le> v) (sort (map dp_latency points)))"
proof -
  have "length (filter (\<lambda>y. y \<le> v) (sort xs)) = length (filter (\<lambda>y. y \<le> v) xs)" for xs :: "rat list"
    by (metis filter_sort length_sort)
  then show ?thesis by (simp add: share_below_def filter_map comp_def)
qed

text \<open>
  C20.  The reported 95th percentile is the nearest-rank percentile: it is one of the measured latencies, at
  least 95 percent of the measurements are at most as large, and no smaller latency has this property.
\<close>

theorem p95_nearest_rank:
  assumes "points \<noteq> []"
  shows "computeP95 points \<in> dp_latency ` set points
    \<and> 95 * length points \<le> 100 * share_below (computeP95 points) points
    \<and> (\<forall>x. x < computeP95 points \<longrightarrow> 100 * share_below x points < 95 * length points)"
proof -
  let ?s = "sort (map dp_latency points)" and ?n = "length points"
  let ?c = "ceil_div (int ?n * 95) 100"
  let ?k = "nat (?c - 1)"
  have n: "0 < ?n" using assms by simp
  note c = rank_bounds[OF n]
  have k: "?k < length ?s" using c(1,2) by simp
  have v: "computeP95 points = ?s ! ?k" using assms by (simp add: computeP95_def Let_def)
  have "?s ! ?k \<in> set ?s" using k by (rule nth_mem)
  then have mem: "computeP95 points \<in> dp_latency ` set points" by (simp add: v)
  have "int (?k + 1) = ?c" using c(1) by simp
  moreover have "?k + 1 \<le> share_below (computeP95 points) points"
    unfolding share_below_sort v by (rule sorted_count_le[OF sorted_sort k])
  ultimately have "95 * int ?n \<le> 100 * int (share_below (computeP95 points) points)"
    using c(3) by linarith
  then have most: "95 * ?n \<le> 100 * share_below (computeP95 points) points" by linarith
  have "100 * share_below x points < 95 * ?n" if "x < computeP95 points" for x
  proof -
    have "share_below x points \<le> ?k"
      unfolding share_below_sort by (rule sorted_count_below[OF sorted_sort k]) (use that v in simp)
    then have "int (share_below x points) \<le> ?c - 1" using c(1) by linarith
    with c(4) show ?thesis by linarith
  qed
  with mem most show ?thesis by blast
qed

definition sample_points :: "data_point list" where
  "sample_points = map (\<lambda>l. \<lparr>dp_timestamp = 0, dp_latency = l\<rparr>) [30, 10, 250, 20]"

theorem p95_nearest_rank_witness:
  "computeP95 sample_points = 250 \<and> 95 * length sample_points \<le> 100 * share_below 250 sample_points"
proof -
  have "computeP95 sample_points = 250" by (simp add: computeP95_def sample_points_def ceil_div_def)
  with p95_nearest_rank[of sample_points] show ?thesis by (simp add: sample_points_def)
qed

section \<open>The window\<close>

text \<open>The reference: a tracker that forgets nothing.  What is shown at \<open>now\<close> are the measurements of the
  whole history that are younger than the window.\<close>

datatype tracker_op = Measure time rat "bool option" | Look time | Alerted time

fun run_tracker :: "tracker_op list \<Rightarrow> latency_tracker \<Rightarrow> latency_tracker" where
  "run_tracker [] tk = tk"
| "run_tracker (Measure t l c # xs) tk = run_tracker xs (addLatencyMeasurement t l c tk)"
| "run_tracker (Look t # xs) tk = run_tracker xs (pruneStaleData t tk)"
| "run_tracker (Alerted t # xs) tk = run_tracker xs (recordAlert t tk)"

fun op_time :: "tracker_op \<Rightarrow> time" where
  "op_time (Measure t l c) = t"
| "op_time (Look t) = t"
| "op_time (Alerted t) = t"

fun full_history :: "tracker_op list \<Rightarrow> (data_point \<times> bool option) list" where
  "full_history [] = []"
| "full_history (Measure t l c # xs) = (\<lparr>dp_timestamp = t, dp_latency = l\<rparr>, c) # full_history xs"
| "full_history (Look t # xs) = full_history xs"
| "full_history (Alerted t # xs) = full_history xs"

definition window_view :: "int option \<Rightarrow> time \<Rightarrow> (data_point \<times> bool option) list \<Rightarrow> data_point list" where
  "window_view window now hist = filter (in_window window now) (map fst hist)"

definition tracker_shows :: "int option \<Rightarrow> time \<Rightarrow> (data_point \<times> bool option) list \<Rightarrow> latency_tracker \<Rightarrow> bool" where
  "tracker_shows window now hist tk \<longleftrightarrow> tk_window tk = window
     \<and> tk_points tk = window_view window now hist
     \<and> tk_cached tk = window_view window now (filter (\<lambda>(p, c). c = Some True) hist)
     \<and> tk_uncached tk = window_view window now (filter (\<lambda>(p, c). c = Some False) hist)"

lemma window_shrinks: "u \<le> v \<Longrightarrow> in_window window v p \<Longrightarrow> in_window window u p"
  by (auto simp: in_window_def split: option.splits)

lemma window_view_later:
  "u \<le> v \<Longrightarrow> filter (in_window window v) (window_view window u hist) = window_view window v hist"
  by (auto simp: window_view_def intro: filter_cong dest: window_shrinks)

lemma window_view_append: "window_view window now (xs @ ys) = window_view window now xs @ window_view window now ys"
  by (simp add: window_view_def)

lemma shows_prune:
  assumes "tracker_shows window u hist tk" "u \<le> v"
  shows "tracker_shows window v hist (pruneStaleData v tk)"
  using assms by (simp add: tracker_shows_def pruneStaleData_def Let_def window_view_later)

lemma shows_measure:
  assumes "tracker_shows window u hist tk" "u \<le> v"
  shows "tracker_shows window v (hist @ [(\<lparr>dp_timestamp = v, dp_latency = l\<rparr>, c)]) (addLatencyMeasurement v l c tk)"
proof -
  have one: "window_view window v [(p, x)] = filter (in_window window v) [p]" for p and x :: "bool option"
    by (simp add: window_view_def)
  have none: "window_view window v [] = []" by (simp add: window_view_def)
  consider "c = None" | "c = Some True" | "c = Some False" by (cases c) auto
  then show ?thesis
    using assms(1)
    by cases (simp_all add: tracker_shows_def addLatencyMeasurement_def pruneStaleData_def Let_def one
      window_view_later[OF assms(2)] window_view_append none)
qed

lemma shows_alert: "tracker_shows window u hist tk \<Longrightarrow> tracker_shows window u hist (recordAlert t tk)"
  by (simp add: tracker_shows_def recordAlert_def)

lemma run_tracker_shows:
  assumes "tracker_shows window u hist tk" "sorted (u # map op_time ops)" "\<forall>o' \<in> set ops. op_time o' \<le> now" "u \<le> now"
  shows "tracker_shows window now (hist @ full_history ops) (pruneStaleData now (run_tracker ops tk))"
  using assms
proof (induction ops arbitrary: u hist tk)
  case Nil
  then show ?case by (simp add: shows_prune)
next
  case (Cons a ops)
  show ?case
  proof (cases a)
    case (Measure t l c)
    from Cons.prems Measure have "tracker_shows window t (hist @ [(\<lparr>dp_timestamp = t, dp_latency = l\<rparr>, c)]) (addLatencyMeasurement t l c tk)"
      by (intro shows_measure) auto
    from Cons.IH[OF this] Cons.prems Measure show ?thesis by simp
  next
    case (Look t)
    from Cons.prems Look have "tracker_shows window t hist (pruneStaleData t tk)" by (intro shows_prune) auto
    from Cons.IH[OF this] Cons.prems Look show ?thesis by simp
  next
    case (Alerted t)
    from Cons.prems(1) have "tracker_shows window u hist (recordAlert t tk)" by (rule shows_alert)
    from Cons.IH[OF this] Cons.prems Alerted show ?thesis by auto
  qed
qed

text \<open>
  C19.  The pruned lists refine the full history: after any measurements, reads and alerts in the order of
  their times, the number of points and the percentiles (over all, cached and uncached responses) are those of
  the measurements of the whole history that are younger than the window.
\<close>

theorem tracker_refines_history:
  assumes "tk = run_tracker ops (new_tracker endpoint ty threshold window cooldown)"
    and "sorted (map op_time ops @ [now])"
  shows "fst (calculateP95 now tk) = computeP95 (window_view window now (full_history ops))
    \<and> fst (getDataPointCount now tk) = length (window_view window now (full_history ops))
    \<and> fst (getCachedP95 now tk) = (let ps = window_view window now (filter (\<lambda>(p, c). c = Some True) (full_history ops))
         in if ps = [] then None else Some (computeP95 ps))
    \<and> fst (getUncachedP95 now tk) = (let ps = window_view window now (filter (\<lambda>(p, c). c = Some False) (full_history ops))
         in if ps = [] then None else Some (computeP95 ps))"
proof -
  let ?u = "case ops of [] \<Rightarrow> now | a # _ \<Rightarrow> op_time a"
  have 0: "tracker_shows window ?u [] (new_tracker endpoint ty threshold window cooldown)"
    by (simp add: tracker_shows_def new_tracker_def window_view_def)
  have "tracker_shows window now ([] @ full_history ops) (pruneStaleData now tk)"
    unfolding assms(1) by (rule run_tracker_shows[OF 0]) (use assms(2) in \<open>auto simp: sorted_append split: list.splits\<close>)
  then show ?thesis
    by (simp add: tracker_shows_def calculateP95_def getDataPointCount_def getCachedP95_def getUncachedP95_def Let_def)
qed

theorem tracker_refines_history_witness:
  "fst (getDataPointCount 400000 (run_tracker [Measure 1 80 (Some True), Measure 350000 9 None]
     (new_tracker ''/health'' ReadEndpoint (Some 200) (Some 300000) None))) = 1"
proof -
  have "sorted (map op_time [Measure 1 80 (Some True), Measure 350000 9 None] @ [400000])" by simp
  from tracker_refines_history[OF refl this] show ?thesis by (simp add: window_view_def in_window_def)
qed

end
