(* ===== verification/LatencyAlerts.thy ===== *)
theory LatencyAlerts
  imports Latency
begin

text \<open>
  The alerts of the latency monitor over whole runs of the service: measurements, periodic checks and
  reads of the metrics in any order.
\<close>

section \<open>Runs\<close>

datatype latency_event =
    Recorded time string rat "bool option"
  | Checked time
  | Shown time
  | Started
  | Stopped

fun latency_step :: "env \<Rightarrow> latency_event \<Rightarrow> latency_service \<Rightarrow> latency_service" where
  "latency_step env (Recorded t e l c) s = recordLatency env t e l c s"
| "latency_step env (Checked t) s = checkSLOViolations t s"
| "latency_step env (Shown t) s = snd (getDetailedMetrics t s)"
| "latency_step env Started s = startMonitoring env s"
| "latency_step env Stopped s = stopMonitoring s"

fun event_positive :: "latency_event \<Rightarrow> bool" where
  "event_positive (Recorded t e l c) \<longleftrightarrow> 0 < t"
| "event_positive (Checked t) \<longleftrightarrow> 0 < t"
| "event_positive (Shown t) \<longleftrightarrow> True"
| "event_positive Started \<longleftrightarrow> True"
| "event_positive Stopped \<longleftrightarrow> True"

definition alert_times :: "string \<Rightarrow> latency_service \<Rightarrow> time list" where
  "alert_times e s = map fst (filter (\<lambda>(t, vs). e \<in> vl_endpoint ` set vs) (sv_alerts s))"

section \<open>One endpoint\<close>

definition spaced :: "int \<Rightarrow> time list \<Rightarrow> bool" where
  "spaced c ts \<longleftrightarrow> sorted_wrt (\<lambda>later earlier. c < later - earlier) ts \<and> (\<forall>t \<in> set ts. 0 < t)"

lemma spaced_Nil [simp]: "spaced c []"
  by (simp add: spaced_def)

definition endpoint_ok :: "int \<Rightarrow> latency_tracker option \<Rightarrow> time list \<Rightarrow> bool" where
  "endpoint_ok c L ts \<longleftrightarrow> spaced c ts \<and>
     (case L of None \<Rightarrow> ts = []
      | Some tk \<Rightarrow> tk_cooldown tk = Some c \<and> tk_lastAlertTime tk = (case ts of [] \<Rightarrow> 0 | t # _ \<Rightarrow> t))"

lemma prune_fields [simp]:
  "tk_cooldown (pruneStaleData now tk) = tk_cooldown tk"
  "tk_lastAlertTime (pruneStaleData now tk) = tk_lastAlertTime tk"
  "tk_threshold (pruneStaleData now tk) = tk_threshold tk"
  "tk_window (pruneStaleData now tk) = tk_window tk"
  by (simp_all add: pruneStaleData_def Let_def)

lemma prune_type [simp]: "tk_type (pruneStaleData now tk) = tk_type tk"
  by (simp add: pruneStaleData_def Let_def)

lemma add_fields [simp]:
  "tk_cooldown (addLatencyMeasurement now l c tk) = tk_cooldown tk"
  "tk_lastAlertTime (addLatencyMeasurement now l c tk) = tk_lastAlertTime tk"
  "tk_threshold (addLatencyMeasurement now l c tk) = tk_threshold tk"
  "tk_type (addLatencyMeasurement now l c tk) = tk_type tk"
  by (auto simp: addLatencyMeasurement_def Let_def split: option.splits bool.splits)

lemma prune_prune [simp]: "pruneStaleData now (pruneStaleData now tk) = pruneStaleData now tk"
  by (simp add: pruneStaleData_def Let_def)

lemma snd_shouldAlert [simp]: "snd (shouldAlert now tk) = pruneStaleData now tk"
  by (simp add: shouldAlert_def isSLOBreached_def calculateP95_def Let_def)

lemma shouldAlert_iff:
  "fst (shouldAlert now tk) \<longleftrightarrow>
    (\<exists>s. tk_threshold tk = Some s \<and> of_int s < fst (calculateP95 now tk))
    \<and> ((\<exists>c. tk_cooldown tk = Some c \<and> c < now - tk_lastAlertTime tk) \<or> tk_lastAlertTime tk = 0)"
  by (auto simp: shouldAlert_def isSLOBreached_def calculateP95_def Let_def split: option.splits)

lemma violation_breaches:
  assumes "fst (shouldAlert now tk)"
  shows "\<exists>s. vl_threshold (violation_of now e (pruneStaleData now tk)) = Some s
    \<and> of_int s < vl_currentP95 (violation_of now e (pruneStaleData now tk))"
  using assms by (auto simp: shouldAlert_iff violation_of_def calculateP95_def Let_def)

lemma spaced_Cons:
  assumes "spaced c ts" "0 \<le> c" "0 < now" "\<forall>t r. ts = t # r \<longrightarrow> c < now - t"
  shows "spaced c (now # ts)"
proof -
  have "c < now - t" if t: "t \<in> set ts" for t
  proof (cases ts)
    case (Cons a r)
    with assms(1) t have "t = a \<or> c < a - t" by (auto simp: spaced_def)
    with assms(2,4) Cons show ?thesis by auto
  qed (use t in simp)
  with assms(1,3) show ?thesis by (auto simp: spaced_def)
qed

lemma endpoint_alert:
  assumes "endpoint_ok c (Some tk) ts" "fst (shouldAlert now tk)" "0 \<le> c" "0 < now"
    "tk_cooldown tk' = tk_cooldown tk"
  shows "endpoint_ok c (Some (recordAlert now tk')) (now # ts)"
proof -
  have "c < now - t" if "ts = t # r" for t r
    using assms(1,2) that by (auto simp: endpoint_ok_def spaced_def shouldAlert_iff)
  with assms have "spaced c (now # ts)" by (intro spaced_Cons) (auto simp: endpoint_ok_def)
  with assms(1,5) show ?thesis by (simp add: endpoint_ok_def recordAlert_def)
qed

lemma endpoint_same:
  "endpoint_ok c (Some tk) ts \<Longrightarrow> tk_cooldown tk' = tk_cooldown tk \<Longrightarrow> tk_lastAlertTime tk' = tk_lastAlertTime tk \<Longrightarrow>
    endpoint_ok c (Some tk') ts"
  by (simp add: endpoint_ok_def)

section \<open>The service\<close>

definition alerts_ok :: "int \<Rightarrow> latency_service \<Rightarrow> bool" where
  "alerts_ok c s \<longleftrightarrow> distinct (map fst (sv_trackers s))
     \<and> (\<forall>e. endpoint_ok c (map_of (sv_trackers s) e) (alert_times e s))
     \<and> (\<forall>(t, vs) \<in> set (sv_alerts s). \<forall>v \<in> set vs. \<exists>h. vl_threshold v = Some h \<and> of_int h < vl_currentP95 v)"

lemma violation_endpoint [simp]: "vl_endpoint (violation_of now e tk) = e"
  by (simp add: violation_of_def)

lemma alert_times_send:
  "alert_times e (sendAlerts now vs s) = (if e \<in> vl_endpoint ` set vs then now # alert_times e s else alert_times e s)"
  by (simp add: alert_times_def sendAlerts_def)

lemma alert_times_trackers [simp]: "alert_times e (s\<lparr>sv_trackers := ts\<rparr>) = alert_times e s"
  by (simp add: alert_times_def)

lemma sendAlerts_fields [simp]:
  "sv_trackers (sendAlerts now vs s) = sv_trackers s" "sv_alerts (sendAlerts now vs s) = (now, vs) # sv_alerts s"
  by (simp_all add: sendAlerts_def)

lemma alerts_ok_put:
  assumes "alerts_ok c s" "endpoint_ok c (Some tk) (alert_times e s)"
  shows "alerts_ok c (s\<lparr>sv_trackers := AList.update e tk (sv_trackers s)\<rparr>)"
  using assms by (simp add: alerts_ok_def update_conv' distinct_update)

lemma mapped_cooldown [simp]:
  "tk_cooldown (mapped_tracker cfg e ty) = sl_alertCooldownMs cfg" "tk_lastAlertTime (mapped_tracker cfg e ty) = 0"
  by (simp_all add: mapped_tracker_def new_tracker_def)

lemma alerts_record:
  assumes "alerts_ok c s" "sl_alertCooldownMs (getSLOConfig env) = Some c" "0 \<le> c" "0 < now"
  shows "alerts_ok c (recordLatency env now endpoint l cached s)"
proof -
  let ?e = "normalizeEndpoint endpoint s"
  have ep: "endpoint_ok c (map_of (sv_trackers s) ?e) (alert_times ?e s)" using assms(1) by (simp add: alerts_ok_def)
  show ?thesis
  proof (cases "map_of (sv_trackers s) ?e")
    case None
    with ep assms(2) have "endpoint_ok c (Some (addLatencyMeasurement now l cached (mapped_tracker (getSLOConfig env) ?e ReadEndpoint)))
        (alert_times ?e s)"
      by (simp add: endpoint_ok_def)
    from alerts_ok_put[OF assms(1) this] None show ?thesis by (simp add: recordLatency_def Let_def)
  next
    case (Some tk)
    let ?tk = "addLatencyMeasurement now l cached tk"
    have ok: "endpoint_ok c (Some ?tk) (alert_times ?e s)" using ep Some by (auto intro: endpoint_same)
    show ?thesis
    proof (cases "fst (shouldAlert now ?tk)")
      case False
      have "endpoint_ok c (Some (pruneStaleData now ?tk)) (alert_times ?e s)" using ok by (rule endpoint_same) simp_all
      from alerts_ok_put[OF assms(1) this] False Some show ?thesis
        by (simp add: recordLatency_def Let_def case_prod_unfold)
    next
      case True
      let ?t = "recordAlert now (pruneStaleData now ?tk)"
      let ?s = "sendAlerts now [violation_of now ?e (pruneStaleData now ?tk)]
         (s\<lparr>sv_trackers := AList.update ?e ?t (sv_trackers s)\<rparr>)"
      have "endpoint_ok c (Some ?t) (now # alert_times ?e s)"
        using ok True assms(3,4) by (rule endpoint_alert) simp
      then have "alerts_ok c ?s"
        using assms(1) violation_breaches[OF True]
        by (simp add: alerts_ok_def update_conv' distinct_update alert_times_send)
      with True Some show ?thesis by (simp add: recordLatency_def Let_def case_prod_unfold)
    qed
  qed
qed

lemma map_of_values: "map_of (map (\<lambda>(e, tk). (e, f tk)) xs) e = map_option f (map_of xs e)"
  by (induction xs) auto

lemma map_fst_values: "map fst (map (\<lambda>(e, tk). (e, f tk)) xs) = map fst xs"
  by (induction xs) auto

lemma alerts_endpoint: "alerts_ok c s \<Longrightarrow> endpoint_ok c (map_of (sv_trackers s) e) (alert_times e s)"
  by (simp add: alerts_ok_def)

lemma alerts_retrack:
  assumes "alerts_ok c s" "\<And>tk. tk_cooldown (f tk) = tk_cooldown tk" "\<And>tk. tk_lastAlertTime (f tk) = tk_lastAlertTime tk"
  shows "alerts_ok c (s\<lparr>sv_trackers := map (\<lambda>(e, tk). (e, f tk)) (sv_trackers s)\<rparr>)"
proof -
  have "endpoint_ok c (map_option f (map_of (sv_trackers s) e)) (alert_times e s)" for e
  proof -
    have "endpoint_ok c (map_of (sv_trackers s) e) (alert_times e s)" using assms(1) by (simp add: alerts_ok_def)
    then show ?thesis using assms(2,3) by (cases "map_of (sv_trackers s) e") (simp_all add: endpoint_ok_def)
  qed
  with assms(1) show ?thesis by (simp add: alerts_ok_def map_of_values map_fst_values del: map_map)
qed

lemma alerts_check:
  assumes "alerts_ok c s" "0 \<le> c" "0 < now"
  shows "alerts_ok c (checkSLOViolations now s)"
proof -
  define hot where "hot = filter (\<lambda>(e, tk). fst (shouldAlert now tk)) (sv_trackers s)"
  define vs where "vs = map (\<lambda>(e, tk). violation_of now e (pruneStaleData now tk)) hot"
  define s1 where "s1 = s\<lparr>sv_trackers := map (\<lambda>(e, tk). (e, checked_tracker now tk)) (sv_trackers s)\<rparr>"
  have d: "distinct (map fst (sv_trackers s))" using assms(1) by (simp add: alerts_ok_def)
  have eq: "checkSLOViolations now s = (if vs \<noteq> [] then sendAlerts now vs s1 else s1)"
    by (simp add: checkSLOViolations_def vs_def hot_def s1_def Let_def)
  have in_vs: "e \<in> vl_endpoint ` set vs \<longleftrightarrow> (\<exists>tk. map_of (sv_trackers s) e = Some tk \<and> fst (shouldAlert now tk))" for e
    using map_of_eq_Some_iff[OF d] by (force simp: vs_def hot_def)
  have chk: "checked_tracker now tk = (if fst (shouldAlert now tk) then recordAlert now (pruneStaleData now tk) else pruneStaleData now tk)" for tk
    by (simp add: checked_tracker_def case_prod_unfold Let_def)
  have ep: "endpoint_ok c (map_option (checked_tracker now) (map_of (sv_trackers s) e))
      (if e \<in> vl_endpoint ` set vs then now # alert_times e s else alert_times e s)" for e
  proof (cases "map_of (sv_trackers s) e")
    case None
    with alerts_endpoint[OF assms(1), of e] in_vs[of e] show ?thesis by simp
  next
    case (Some tk)
    with assms(1) have ok: "endpoint_ok c (Some tk) (alert_times e s)" by (metis alerts_endpoint)
    show ?thesis
    proof (cases "fst (shouldAlert now tk)")
      case True
      with Some in_vs[of e] endpoint_alert[OF ok True assms(2,3)] show ?thesis by (simp add: chk)
    next
      case False
      have "endpoint_ok c (Some (pruneStaleData now tk)) (alert_times e s)" using ok by (rule endpoint_same) simp_all
      with False Some in_vs[of e] show ?thesis by (simp add: chk)
    qed
  qed
  have br: "\<exists>h. vl_threshold v = Some h \<and> of_int h < vl_currentP95 v" if "v \<in> set vs" for v
    using that violation_breaches by (auto simp: vs_def hot_def)
  have "alert_times e (checkSLOViolations now s)
      = (if e \<in> vl_endpoint ` set vs then now # alert_times e s else alert_times e s)" for e
    by (auto simp: eq alert_times_send s1_def)
  moreover have "sv_trackers (checkSLOViolations now s) = map (\<lambda>(e, tk). (e, checked_tracker now tk)) (sv_trackers s)"
    by (simp add: eq s1_def)
  moreover have "\<forall>(t, us) \<in> set (sv_alerts (checkSLOViolations now s)). \<forall>v \<in> set us. \<exists>h. vl_threshold v = Some h \<and> of_int h < vl_currentP95 v"
    using assms(1) br by (auto simp: eq s1_def alerts_ok_def)
  ultimately show ?thesis using ep d by (simp add: alerts_ok_def map_of_values map_fst_values del: map_map)
qed

lemma alerts_step:
  assumes "alerts_ok c s" "sl_alertCooldownMs (getSLOConfig env) = Some c" "0 \<le> c" "event_positive ev"
  shows "alerts_ok c (latency_step env ev s)"
proof (cases ev)
  case (Shown t)
  have "alerts_ok c (s\<lparr>sv_trackers := map (\<lambda>(e, tk). (e, pruneStaleData t tk)) (sv_trackers s)\<rparr>)"
    by (rule alerts_retrack[OF assms(1)]) simp_all
  then show ?thesis by (simp add: Shown getDetailedMetrics_def)
next
  case (Recorded t e l cached)
  with assms alerts_record show ?thesis by simp
next
  case (Checked t)
  with assms alerts_check show ?thesis by simp
next
  case Started
  with assms(1) show ?thesis by (simp add: startMonitoring_def alerts_ok_def alert_times_def split: option.splits)
next
  case Stopped
  with assms(1) show ?thesis by (simp add: stopMonitoring_def alerts_ok_def alert_times_def)
qed

lemma map_of_mappings:
  "map_of (initializeEndpointMappings env) e = map_option (mapped_tracker (getSLOConfig env) e) (map_of endpoint_mappings e)"
proof -
  have "map_of (map (\<lambda>(e, ty). (e, f e ty)) xs) e = map_option (f e) (map_of xs e)"
    for f :: "string \<Rightarrow> endpoint_type \<Rightarrow> latency_tracker" and xs
    by (induction xs) auto
  then show ?thesis by (simp add: initializeEndpointMappings_def)
qed

lemma alerts_boot:
  assumes "sl_alertCooldownMs (getSLOConfig env) = Some c"
  shows "alerts_ok c (LatencyMonitoringService env)"
proof -
  have "endpoint_ok c (map_of (initializeEndpointMappings env) e) []" for e
    using assms by (cases "map_of endpoint_mappings e") (simp_all add: endpoint_ok_def map_of_mappings)
  moreover have "distinct (map fst (initializeEndpointMappings env))"
    by (simp add: initializeEndpointMappings_def endpoint_mappings_def)
  ultimately show ?thesis by (simp add: alerts_ok_def LatencyMonitoringService_def alert_times_def)
qed

text \<open>
  Alerts are spaced and justified: whatever is measured, checked or read, in whatever order, two alerts
  for one endpoint are further apart than the cool-down, and every endpoint named in an alert had a
  percentile above its threshold.
\<close>

theorem latency_alerts_spaced:
  assumes "sl_alertCooldownMs (getSLOConfig env) = Some c" and "0 \<le> c" and "\<forall>ev \<in> set evs. event_positive ev"
    and "s = fold (latency_step env) evs (LatencyMonitoringService env)"
  shows "sorted_wrt (\<lambda>later earlier. c < later - earlier) (alert_times e s)
    \<and> (\<forall>(t, vs) \<in> set (sv_alerts s). \<forall>v \<in> set vs. \<exists>h. vl_threshold v = Some h \<and> of_int h < vl_currentP95 v)"
proof -
  have "alerts_ok c (fold (latency_step env) evs s0)" if "alerts_ok c s0" for s0
    using that assms(3) by (induction evs arbitrary: s0) (simp_all add: alerts_step[OF _ assms(1,2)])
  from this[OF alerts_boot[OF assms(1)]] assms(4) have ok: "alerts_ok c s" by simp
  then have "endpoint_ok c (map_of (sv_trackers s) e) (alert_times e s)" by (simp add: alerts_ok_def)
  with ok show ?thesis by (simp add: alerts_ok_def endpoint_ok_def spaced_def)
qed

definition quiet_env :: env where
  "quiet_env k = (if k = ''SLO_ALERT_COOLDOWN_MS'' then Some ''1000'' else None)"

definition slow_run :: "latency_event list" where
  "slow_run = [Recorded 10 ''/health'' 900 None, Recorded 500 ''/health'' 901 None, Recorded 1500 ''/health'' 902 None]"

lemma quiet_cooldown: "sl_alertCooldownMs (getSLOConfig quiet_env) = Some 1000"
  by code_simp

lemma slow_run_alerts: "alert_times ''/health'' (fold (latency_step quiet_env) slow_run (LatencyMonitoringService quiet_env)) = [1500, 10]"
  by code_simp

theorem latency_alerts_spaced_witness:
  "alert_times ''/health'' (fold (latency_step quiet_env) slow_run (LatencyMonitoringService quiet_env)) = [1500, 10]
   \<and> sorted_wrt (\<lambda>later earlier. 1000 < later - earlier)
       (alert_times ''/health'' (fold (latency_step quiet_env) slow_run (LatencyMonitoringService quiet_env)))"
proof -
  have "\<forall>ev \<in> set slow_run. event_positive ev" by (simp add: slow_run_def)
  from latency_alerts_spaced[OF quiet_cooldown _ this refl, of "''/health''"] slow_run_alerts show ?thesis by simp
qed

text \<open>The routes of a router are known by their path inside it, which the table of service levels does not
  list: a deposit is judged by the limit of reads.\<close>

lemma deposit_judged_as_read:
  assumes "sl_readEndpoints (getSLOConfig env) = Some h"
  shows "\<exists>tk. map_of (sv_trackers (recordLatency env now ''/deposits'' l c (LatencyMonitoringService env))) ''/deposits'' = Some tk
    \<and> tk_type tk = ReadEndpoint \<and> tk_threshold tk = Some h"
proof -
  let ?s = "LatencyMonitoringService env"
  have no: "map_of endpoint_mappings ''/deposits'' = None" by (simp add: endpoint_mappings_def)
  have norm: "normalizeEndpoint ''/deposits'' ?s = ''/deposits''"
    by (simp add: normalizeEndpoint_def vault_id_path_def)
  have none: "map_of (sv_trackers ?s) ''/deposits'' = None"
    by (simp add: LatencyMonitoringService_def map_of_mappings no)
  show ?thesis
    using assms by (simp add: recordLatency_def Let_def norm none update_conv' mapped_tracker_def new_tracker_def)
qed

end
