(* ===== verification/JsonText.thy ===== *)
theory JsonText
  imports Idempotency
begin

text \<open>
  \<open>JSON.stringify\<close> without indentation: objects keep their field order, strings are escaped as in the
  fingerprints, a number is printed by the engine (the argument \<open>num\<close>).
\<close>

primrec json_text :: "(rat \<Rightarrow> string) \<Rightarrow> json \<Rightarrow> string" where
  "json_text num JNull = ''null''"
| "json_text num (JBool b) = (if b then ''true'' else ''false'')"
| "json_text num (JNum r) = num r"
| "json_text num (JStr s) = json_string s"
| "json_text num (JArr xs) = ''['' @ js_join '','' (map (json_text num) xs) @ '']''"
| "json_text num (JObj kvs) =
     ''{'' @ js_join '','' (map (\<lambda>(k, v). json_string k @ '':'' @ v) (map (map_prod id (json_text num)) kvs)) @ ''}''"

lemma js_join_Cons: "js_join sep (x # xs) = x @ concat (map (\<lambda>y. sep @ y) xs)"
  by (induction xs arbitrary: x) auto

lemma js_join_concat:
  "js_join sep xs = (case xs of [] \<Rightarrow> [] | x # ys \<Rightarrow> x @ concat (map (\<lambda>y. sep @ y) ys))"
  by (cases xs) (simp_all add: js_join_Cons del: js_join.simps(3))

end
