(* ===== verification/Listings.thy ===== *)
theory Listings
  imports Pagination JsonText RefreshTokens AccessControl Database Decimals
begin

text \<open>
  The read endpoints (\<open>backend/src/listEndpoints.ts\<close>, \<open>backend/src/transactionEndpoints.ts\<close>): transactions,
  holdings and the history of the vault, filtered, sorted and paged, the export of transactions as JSON
  or CSV, and the listing of one wallet's transactions from the database.  \<open>Date.parse\<close> is the argument
  \<open>parse\<close>, \<open>localeCompare\<close> is \<open>lc\<close>.  The rows the first three endpoints serve are drawn at module load
  (\<open>MOCK_\<close> constants), with the random numbers as arguments; the listings take any rows.
\<close>

section \<open>Rows\<close>

record list_tx =
  lt_id :: string
  lt_type :: string
  lt_status :: string
  lt_amount :: string
  lt_asset :: string
  lt_timestamp :: string
  lt_transactionHash :: string
  lt_walletAddress :: string

record holding =
  ho_id :: string
  ho_asset :: string
  ho_vaultName :: string
  ho_symbol :: string
  ho_shares :: rat
  ho_apy :: rat
  ho_valueUsd :: rat
  ho_unrealizedGainUsd :: rat
  ho_issuer :: string
  ho_status :: string
  ho_walletAddress :: string

record history_point =
  hp_date :: string
  hp_value :: rat

definition MOCK_WALLET_ADDRESS :: string where
  "MOCK_WALLET_ADDRESS = ''G234567ABCDEFGHIJKLMNOPQRSTUVWXYZ234567ABCDEFGHIJKLMNOPQ''"

definition mock_assets :: "string list" where
  "mock_assets = [''XLM'', ''USDC'', ''yUSDC'', ''RWA'']"

definition mock_transaction :: "time \<Rightarrow> (nat \<Rightarrow> rat) \<Rightarrow> (nat \<Rightarrow> string) \<Rightarrow> nat \<Rightarrow> list_tx" where
  "mock_transaction now u suffix i =
     \<lparr>lt_id = ''tx-'' @ show_nat (i + 1), lt_type = (if i mod 2 = 0 then ''deposit'' else ''withdrawal''),
      lt_status = (if i mod 11 = 0 then ''failed'' else if i mod 3 = 0 then ''pending'' else ''completed''),
      lt_amount = show_fixed 2 (round_to 2 (u i * 1000)), lt_asset = mock_assets ! (i mod 4),
      lt_timestamp = to_iso_string (now - int i * 3600000),
      lt_transactionHash = ''hash-'' @ show_nat (i + 1) @ ''-'' @ suffix i, lt_walletAddress = MOCK_WALLET_ADDRESS\<rparr>"

definition MOCK_TRANSACTIONS :: "time \<Rightarrow> (nat \<Rightarrow> rat) \<Rightarrow> (nat \<Rightarrow> string) \<Rightarrow> list_tx list" where
  "MOCK_TRANSACTIONS now u suffix = map (mock_transaction now u suffix) [0..<100]"

definition MOCK_PORTFOLIO_HOLDINGS :: "(nat \<Rightarrow> nat \<Rightarrow> rat) \<Rightarrow> holding list" where
  "MOCK_PORTFOLIO_HOLDINGS u = map (\<lambda>i.
     \<lparr>ho_id = ''holding-'' @ show_nat (i + 1), ho_asset = mock_assets ! (i mod 4),
      ho_vaultName = ''Vault '' @ show_nat (i div 4 + 1), ho_symbol = mock_assets ! (i mod 4),
      ho_shares = of_int \<lfloor>u i 0 * 1000\<rfloor>, ho_apy = 2 + u i 1 * 8, ho_valueUsd = u i 2 * 10000,
      ho_unrealizedGainUsd = u i 3 * 1000 - 500, ho_issuer = ''YieldVault'',
      ho_status = (if i mod 10 = 0 then ''pending'' else ''active''), ho_walletAddress = MOCK_WALLET_ADDRESS\<rparr>) [0..<50]"

definition MOCK_VAULT_HISTORY :: "time \<Rightarrow> (nat \<Rightarrow> rat) \<Rightarrow> history_point list" where
  "MOCK_VAULT_HISTORY now u = map (\<lambda>i.
     \<lparr>hp_date = iso_date (utc_day (now - (365 - int i) * 86400000)), hp_value = 100 + of_nat i * (5 / 100) + u i * (1 / 10)\<rparr>)
     [0..<365]"

definition list_config :: "int \<Rightarrow> int \<Rightarrow> string \<Rightarrow> pagination_config" where
  "list_config dflt maximum sortBy = \<lparr>pc_defaultLimit = dflt, pc_maxLimit = maximum, pc_includeTotal = True,
     pc_defaultSortBy = Some sortBy, pc_defaultSortOrder = Desc\<rparr>"

definition TRANSACTION_PAGINATION_CONFIG :: pagination_config where
  "TRANSACTION_PAGINATION_CONFIG = list_config 20 100 ''timestamp''"

definition PORTFOLIO_PAGINATION_CONFIG :: pagination_config where
  "PORTFOLIO_PAGINATION_CONFIG = list_config 20 100 ''valueUsd''"

definition VAULT_HISTORY_PAGINATION_CONFIG :: pagination_config where
  "VAULT_HISTORY_PAGINATION_CONFIG = list_config 30 365 ''date''"

text \<open>The fields by name, as sorting reads them.\<close>

definition tx_item :: "list_tx \<Rightarrow> item" where
  "tx_item t = map_of [(''id'', FString (lt_id t)), (''type'', FString (lt_type t)), (''status'', FString (lt_status t)),
     (''amount'', FString (lt_amount t)), (''asset'', FString (lt_asset t)), (''timestamp'', FString (lt_timestamp t)),
     (''transactionHash'', FString (lt_transactionHash t)), (''walletAddress'', FString (lt_walletAddress t))]"

definition holding_item :: "holding \<Rightarrow> item" where
  "holding_item h = map_of [(''id'', FString (ho_id h)), (''asset'', FString (ho_asset h)),
     (''vaultName'', FString (ho_vaultName h)), (''symbol'', FString (ho_symbol h)), (''shares'', FNumber (ho_shares h)),
     (''apy'', FNumber (ho_apy h)), (''valueUsd'', FNumber (ho_valueUsd h)),
     (''unrealizedGainUsd'', FNumber (ho_unrealizedGainUsd h)), (''issuer'', FString (ho_issuer h)),
     (''status'', FString (ho_status h)), (''walletAddress'', FString (ho_walletAddress h))]"

definition point_item :: "history_point \<Rightarrow> item" where
  "point_item p = map_of [(''date'', FString (hp_date p)), (''value'', FNumber (hp_value p))]"

text \<open>\<open>sortItems\<close> on rows seen through their fields; every field of these rows is a string or a number.\<close>

type_synonym locale_compare = "string \<Rightarrow> string \<Rightarrow> int"

definition field_text :: "field_value \<Rightarrow> string" where
  "field_text v = (case v of FString s \<Rightarrow> s | _ \<Rightarrow> [])"

definition sort_rows :: "locale_compare \<Rightarrow> ('a \<Rightarrow> item) \<Rightarrow> 'a list \<Rightarrow> string \<Rightarrow> sort_order \<Rightarrow> 'a list" where
  "sort_rows lc f rows sortBy order =
     js_sort (\<lambda>a b. 0 < compare_items lc field_text sortBy order (f a) (f b)) rows"

section \<open>Filters\<close>

record list_query =
  lq_limit :: "int option"
  lq_cursor :: "string option"
  lq_page :: "int option"
  lq_sortBy :: "string option"
  lq_sortOrder :: "sort_order option"
  lq_type :: "string option"
  lq_status :: "string option"
  lq_from :: "string option"
  lq_to :: "string option"
  lq_walletAddress :: "string option"
  lq_startDate :: "string option"
  lq_endDate :: "string option"

definition keeps_all :: "string option \<Rightarrow> string \<Rightarrow> bool" where
  "keeps_all f v \<longleftrightarrow> (truthy_str f \<and> f \<noteq> Some ''all'' \<longrightarrow> f = Some v)"

text \<open>A bound of the range: absent, or what \<open>Date.parse\<close> makes of it.  Nothing is smaller or greater than
  \<open>NaN\<close>, so a bound that does not parse excludes nothing.\<close>

definition date_bound :: "(string \<Rightarrow> time option) \<Rightarrow> string option \<Rightarrow> time option" where
  "date_bound parse f = (if truthy_str f then parse (the f) else None)"

definition filterTransactions ::
  "(string \<Rightarrow> time option) \<Rightarrow> string option \<Rightarrow> string option \<Rightarrow> string option \<Rightarrow> string option \<Rightarrow> string option \<Rightarrow>
   list_tx list \<Rightarrow> list_tx list" where
  "filterTransactions parse fType fStatus fWallet fFrom fTo txs =
     (let from = date_bound parse fFrom;
          till = date_bound parse fTo;
          normalizedWallet = (if truthy_str fWallet then normalizeWalletAddress fWallet else [])
      in filter (\<lambda>tx. keeps_all fType (lt_type tx) \<and> keeps_all fStatus (lt_status tx)
           \<and> (normalizedWallet \<noteq> [] \<longrightarrow> normalizeWalletAddress (Some (lt_walletAddress tx)) = normalizedWallet)
           \<and> (case parse (lt_timestamp tx) of
                None \<Rightarrow> False
              | Some t \<Rightarrow> (case from of None \<Rightarrow> True | Some a \<Rightarrow> a \<le> t) \<and> (case till of None \<Rightarrow> True | Some b \<Rightarrow> t \<le> b)))
           txs)"

definition filterPortfolioHoldings :: "string option \<Rightarrow> string option \<Rightarrow> holding list \<Rightarrow> holding list" where
  "filterPortfolioHoldings fStatus fWallet hs =
     filter (\<lambda>h. keeps_all fStatus (ho_status h) \<and> (truthy_str fWallet \<longrightarrow> fWallet = Some (ho_walletAddress h))) hs"

definition filterVaultHistory :: "string option \<Rightarrow> string option \<Rightarrow> history_point list \<Rightarrow> history_point list" where
  "filterVaultHistory fFrom fTo ps =
     filter (\<lambda>p. (truthy_str fFrom \<longrightarrow> \<not> hp_date p < the fFrom) \<and> (truthy_str fTo \<longrightarrow> \<not> the fTo < hp_date p)) ps"

section \<open>Listings\<close>

definition list_pagination :: "pagination_config \<Rightarrow> list_query \<Rightarrow> pagination_query" where
  "list_pagination cfg q =
     \<lparr>pq_limit = Some (nullish (lq_limit q) (pc_defaultLimit cfg)), pq_cursor = lq_cursor q, pq_page = lq_page q,
      pq_sortBy = (case lq_sortBy q of None \<Rightarrow> pc_defaultSortBy cfg | Some s \<Rightarrow> Some s),
      pq_sortOrder = Some (nullish (lq_sortOrder q) (pc_defaultSortOrder cfg))\<rparr>"

definition sort_listing :: "locale_compare \<Rightarrow> ('a \<Rightarrow> item) \<Rightarrow> pagination_query \<Rightarrow> 'a list \<Rightarrow> 'a list" where
  "sort_listing lc f pq rows =
     (if truthy_str (pq_sortBy pq) then sort_rows lc f rows (the (pq_sortBy pq)) (nullish (pq_sortOrder pq) Desc) else rows)"

definition range_extra :: "parsed_utc_date_range \<Rightarrow> parsed_utc_date_range option" where
  "range_extra r = (if truthy_str (dr_start r) \<or> truthy_str (dr_end r) then Some r else None)"

definition buildTransactionsResponse ::
  "(string \<Rightarrow> time option) \<Rightarrow> locale_compare \<Rightarrow> int \<Rightarrow> time \<Rightarrow> list_tx list \<Rightarrow> list_query \<Rightarrow>
   string + list_tx paginated_response" where
  "buildTransactionsResponse parse lc defaultMax now txs q =
     (let pg = list_pagination TRANSACTION_PAGINATION_CONFIG q
      in case parseUtcDateRange parse defaultMax (lq_from q) (lq_to q) None of
           Inl msg \<Rightarrow> Inl msg
         | Inr r \<Rightarrow>
             (let filtered = sort_listing lc tx_item pg (filterTransactions parse (lq_type q) (lq_status q)
                    (lq_walletAddress q) (dr_normalizedStart r) (dr_normalizedEnd r) txs);
                  (data, meta) = (if num_or (pq_page pg) 0 \<noteq> 0 then paginateWithOffset filtered pg
                    else paginateWithCursor filtered pg (\<lambda>tx. encodeCursor (lt_id tx)))
              in Inr (createPaginatedResponse now data meta (range_extra r))))"

definition buildPortfolioHoldingsResponse ::
  "locale_compare \<Rightarrow> time \<Rightarrow> holding list \<Rightarrow> list_query \<Rightarrow> holding paginated_response" where
  "buildPortfolioHoldingsResponse lc now hs q =
     (let pg = (list_pagination PORTFOLIO_PAGINATION_CONFIG q)\<lparr>pq_page := None\<rparr>;
          filtered = sort_listing lc holding_item pg (filterPortfolioHoldings (lq_status q) (lq_walletAddress q) hs);
          (data, meta) = paginateWithCursor filtered pg (\<lambda>h. encodeCursor (ho_id h))
      in createPaginatedResponse now data meta None)"

definition buildVaultHistoryResponse ::
  "(string \<Rightarrow> time option) \<Rightarrow> locale_compare \<Rightarrow> int \<Rightarrow> time \<Rightarrow> history_point list \<Rightarrow> list_query \<Rightarrow>
   string + history_point paginated_response" where
  "buildVaultHistoryResponse parse lc defaultMax now ps q =
     (let pg = (list_pagination VAULT_HISTORY_PAGINATION_CONFIG q)\<lparr>pq_page := None\<rparr>
      in case parseUtcDateRange parse defaultMax (lq_from q) (lq_to q) None of
           Inl msg \<Rightarrow> Inl msg
         | Inr r \<Rightarrow>
             (let filtered = sort_listing lc point_item pg (filterVaultHistory
                    (map_option (take 10) (dr_normalizedStart r)) (map_option (take 10) (dr_normalizedEnd r)) ps);
                  (data, meta) = paginateWithCursor filtered pg (\<lambda>p. encodeCursor (hp_date p))
              in Inr (createPaginatedResponse now data meta (range_extra r))))"

section \<open>Exports\<close>

datatype export_format = Csv | Json

definition resolveExportFormat :: "string option \<Rightarrow> export_format option" where
  "resolveExportFormat raw =
     (if raw = Some ''csv'' then Some Csv else if raw = Some ''json'' then Some Json else None)"

fun show_format :: "export_format \<Rightarrow> string" where
  "show_format Csv = ''csv''"
| "show_format Json = ''json''"

definition getTransactionsForExport ::
  "(string \<Rightarrow> time option) \<Rightarrow> locale_compare \<Rightarrow> list_tx list \<Rightarrow> list_query \<Rightarrow> list_tx list" where
  "getTransactionsForExport parse lc txs q =
     (let from = (case lq_startDate q of None \<Rightarrow> lq_from q | Some s \<Rightarrow> Some s);
          till = (case lq_endDate q of None \<Rightarrow> lq_to q | Some s \<Rightarrow> Some s);
          pg = list_pagination TRANSACTION_PAGINATION_CONFIG q
      in sort_listing lc tx_item pg
           (filterTransactions parse (lq_type q) (lq_status q) (lq_walletAddress q) from till txs))"

definition double_quotes :: "string \<Rightarrow> string" where
  "double_quotes s = concat (map (\<lambda>c. if c = CHR 0x22 then [c, c] else [c]) s)"

definition escapeCsvValue :: "string \<Rightarrow> string" where
  "escapeCsvValue v = CHR 0x22 # double_quotes v @ [CHR 0x22]"

definition crlf :: string where
  "crlf = [CHR 0x0D, CHR 0x0A]"

definition csv_columns :: "string list" where
  "csv_columns = [''id'', ''type'', ''status'', ''amount'', ''asset'', ''timestamp'', ''transactionHash'', ''walletAddress'']"

definition tx_values :: "list_tx \<Rightarrow> string list" where
  "tx_values t = [lt_id t, lt_type t, lt_status t, lt_amount t, lt_asset t, lt_timestamp t, lt_transactionHash t,
     lt_walletAddress t]"

definition buildCsvRow :: "list_tx \<Rightarrow> string" where
  "buildCsvRow t = js_join '','' (map escapeCsvValue (tx_values t))"

definition buildTransactionsCsvExportBody :: "list_tx list \<Rightarrow> string" where
  "buildTransactionsCsvExportBody txs =
     js_join '','' csv_columns @ crlf @ concat (map (\<lambda>r. r @ crlf) (map buildCsvRow txs))"

definition tx_json :: "list_tx \<Rightarrow> json" where
  "tx_json t = JObj (zip csv_columns (map JStr (tx_values t)))"

definition buildTransactionsJsonExportBody :: "(rat \<Rightarrow> string) \<Rightarrow> list_tx list \<Rightarrow> string" where
  "buildTransactionsJsonExportBody num txs = json_text num (JObj [(''data'', JArr (map tx_json txs))])"

text \<open>The chunks the two generators yield, in order.\<close>

definition createTransactionsJsonExportStream :: "(rat \<Rightarrow> string) \<Rightarrow> list_tx list \<Rightarrow> string list" where
  "createTransactionsJsonExportStream num txs =
     [''{'' @ [CHR 0x22] @ ''data'' @ [CHR 0x22] @ '':['']
     @ concat (map (\<lambda>i. (if 0 < i then ['',''] else []) @ [json_text num (tx_json (txs ! i))]) [0..<length txs])
     @ ['']}'']"

definition createTransactionsCsvExportStream :: "list_tx list \<Rightarrow> string list" where
  "createTransactionsCsvExportStream txs = (js_join '','' csv_columns @ crlf) # map (\<lambda>t. buildCsvRow t @ crlf) txs"

record export_artifact =
  ea_body :: string
  ea_checksum :: string
  ea_rowCount :: nat
  ea_contentType :: string
  ea_extension :: export_format

definition buildTransactionExportArtifact ::
  "(string \<Rightarrow> string) \<Rightarrow> (rat \<Rightarrow> string) \<Rightarrow> export_format \<Rightarrow> list_tx list \<Rightarrow> export_artifact" where
  "buildTransactionExportArtifact sha256 num format transactions =
     (let body = (case format of Csv \<Rightarrow> buildTransactionsCsvExportBody transactions
                  | Json \<Rightarrow> buildTransactionsJsonExportBody num transactions)
      in \<lparr>ea_body = body, ea_checksum = sha256 body, ea_rowCount = length transactions,
          ea_contentType = (case format of Csv \<Rightarrow> ''text/csv; charset=utf-8'' | Json \<Rightarrow> ''application/json; charset=utf-8''),
          ea_extension = format\<rparr>)"

section \<open>CSV and JSON bodies\<close>

text \<open>A reader of quoted CSV as RFC 4180 describes it, the reference for the bodies written here: a quoted
  field ends at a quotation mark that is not doubled, a row at CR LF.\<close>

fun read_quoted :: "string \<Rightarrow> (string \<times> string) option" where
  "read_quoted [] = None"
| "read_quoted (c # cs) =
     (if c \<noteq> CHR 0x22 then map_option (\<lambda>(f, r). (c # f, r)) (read_quoted cs)
      else case cs of
             d # ds \<Rightarrow> if d = CHR 0x22 then map_option (\<lambda>(f, r). (c # f, r)) (read_quoted ds) else Some ([], cs)
           | [] \<Rightarrow> Some ([], []))"

lemma read_quoted_shorter: "read_quoted s = Some (f, r) \<Longrightarrow> length r < length s"
proof (induction s arbitrary: f r rule: read_quoted.induct)
  case (2 c cs)
  show ?case
  proof (cases "c \<noteq> CHR 0x22")
    case True
    with 2 show ?thesis by fastforce
  next
    case False
    show ?thesis
    proof (cases cs)
      case (Cons d ds)
      with 2 False show ?thesis by (cases "d = CHR 0x22") fastforce+
    qed (use 2 False in simp)
  qed
qed simp

function read_row :: "string \<Rightarrow> (string list \<times> string) option" where
  "read_row s =
     (case s of
        [] \<Rightarrow> None
      | q # cs \<Rightarrow> if q \<noteq> CHR 0x22 then None
          else (case read_quoted cs of
                  None \<Rightarrow> None
                | Some (f, r) \<Rightarrow>
                    (if take 2 r = crlf then Some ([f], drop 2 r)
                     else if take 1 r = '','' then map_option (\<lambda>(fs, r'). (f # fs, r')) (read_row (drop 1 r))
                     else None)))"
  by pat_completeness auto
termination
  by (relation "measure length") (auto dest!: read_quoted_shorter)

declare read_row.simps [simp del]

fun read_rows :: "nat \<Rightarrow> string \<Rightarrow> string list list option" where
  "read_rows 0 s = (if s = [] then Some [] else None)"
| "read_rows (Suc n) s =
     (if s = [] then Some []
      else case read_row s of None \<Rightarrow> None | Some (fs, r) \<Rightarrow> map_option (Cons fs) (read_rows n r))"

text \<open>A body of \<open>n\<close> rows at most, after its header line.\<close>

definition read_csv_body :: "nat \<Rightarrow> string \<Rightarrow> string list list option" where
  "read_csv_body n body =
     (let header = js_join '','' csv_columns @ crlf
      in if take (length header) body = header then read_rows n (drop (length header) body) else None)"

lemma read_quoted_double: "take 1 r \<noteq> [CHR 0x22] \<Longrightarrow> read_quoted (double_quotes v @ CHR 0x22 # r) = Some (v, r)"
  by (induction v) (auto simp: double_quotes_def split: list.splits)

lemma read_row_value:
  "read_row (escapeCsvValue v @ r) =
     (if take 2 r = crlf then Some ([v], drop 2 r)
      else if take 1 r = '','' then map_option (\<lambda>(fs, r'). (v # fs, r')) (read_row (drop 1 r)) else None)"
  if "take 1 r \<noteq> [CHR 0x22]"
  using that by (subst read_row.simps) (simp add: escapeCsvValue_def read_quoted_double)

lemma read_row_values:
  "vs \<noteq> [] \<Longrightarrow> read_row (js_join '','' (map escapeCsvValue vs) @ crlf @ r) = Some (vs, r)"
proof (induction vs)
  case (Cons v vs)
  show ?case
  proof (cases vs)
    case Nil
    then show ?thesis by (simp add: read_row_value crlf_def)
  next
    case (Cons w ws)
    with Cons.IH show ?thesis by (simp add: read_row_value crlf_def)
  qed
qed simp

lemma read_rows_values:
  "read_rows (length txs) (concat (map (\<lambda>r. r @ crlf) (map buildCsvRow txs))) = Some (map tx_values txs)"
proof (induction txs)
  case (Cons t txs)
  have "read_row (buildCsvRow t @ crlf @ r) = Some (tx_values t, r)" for r
    unfolding buildCsvRow_def by (rule read_row_values) (simp add: tx_values_def)
  with Cons show ?case by (simp add: crlf_def)
qed simp

text \<open>
  C27.  A CSV export reads back: whatever the transactions hold, quotation marks, commas and line breaks
  included, a reader of quoted CSV finds in the body exactly one row per transaction with its eight values;
  and the streamed variants deliver the same bytes as the bodies whose checksum is stored.
\<close>

theorem csv_export_roundtrip:
  "read_csv_body (length txs) (buildTransactionsCsvExportBody txs) = Some (map tx_values txs)
    \<and> concat (createTransactionsCsvExportStream txs) = buildTransactionsCsvExportBody txs
    \<and> concat (createTransactionsJsonExportStream num txs) = buildTransactionsJsonExportBody num txs"
proof -
  have json: "concat (concat (map (\<lambda>i. (if 0 < i then ['',''] else []) @ [f (txs ! i)]) [0..<length txs]))
      = js_join '','' (map f txs)" for f :: "list_tx \<Rightarrow> string"
  proof (cases txs)
    case (Cons t ts)
    have "concat (concat (map (\<lambda>i. (if 0 < i then ['',''] else []) @ [f ((t # ts) ! i)]) [0..<Suc (length ts)]))
        = f t @ concat (concat (map (\<lambda>i. ['','', f (ts ! i)]) [0..<length ts]))"
      by (simp add: upt_conv_Cons map_Suc_upt[symmetric] comp_def del: upt_Suc)
    also have "concat (concat (map (\<lambda>i. ['','', f (ts ! i)]) [0..<length ts])) = concat (map (\<lambda>x. '','' @ f x) ts)"
    proof -
      have cc: "concat (concat xss) = concat (map concat xss)" for xss :: "string list list" by (induction xss) auto
      have "concat (map (\<lambda>x. '','' @ f x) (map (\<lambda>i. ts ! i) [0..<length ts]))
          = concat (concat (map (\<lambda>i. ['','', f (ts ! i)]) [0..<length ts]))"
        by (simp only: cc map_map comp_def) simp
      then show ?thesis by (simp only: map_nth)
    qed
    finally show ?thesis by (simp add: Cons js_join_Cons comp_def del: js_join.simps(3))
  qed simp
  have "json_text num (JObj [(''data'', JArr xs)])
      = ''{'' @ [CHR 0x22] @ ''data'' @ [CHR 0x22] @ '':['' @ js_join '','' (map (json_text num) xs) @ '']}''" for xs
    by (simp add: json_string_def json_escape_def Let_def)
  then have "concat (createTransactionsJsonExportStream num txs) = buildTransactionsJsonExportBody num txs"
    using json[of "\<lambda>t. json_text num (tx_json t)"]
    by (simp add: createTransactionsJsonExportStream_def buildTransactionsJsonExportBody_def comp_def)
  then show ?thesis
    using read_rows_values[of txs]
    by (simp add: read_csv_body_def Let_def buildTransactionsCsvExportBody_def createTransactionsCsvExportStream_def comp_def)
qed

end
