(* ===== verification/Exports.thy ===== *)
theory Exports
  imports Listings
begin

text \<open>
  Export jobs (\<open>backend/src/exportJobs.ts\<close>), the identities and fingerprints of \<open>backend/src/apiKeyAudit.ts\<close>
  they use, the export route of \<open>backend/src/listEndpoints.ts\<close>, and the routes of \<open>backend/src/index.ts\<close> that
  verify an export.  The table \<open>ExportJob\<close> is a parameter with the laws of the locale \<open>export_store\<close>;
  \<open>sha256\<close> and \<open>JSON.parse\<close> are arguments.
\<close>

section \<open>Fingerprints and identities\<close>

definition hex_char :: "char \<Rightarrow> bool" where
  "hex_char c \<longleftrightarrow> is_digit c \<or> (97 \<le> (of_char c :: nat) \<and> (of_char c :: nat) \<le> 102)"

definition isApiKeyHash :: "json option \<Rightarrow> bool" where
  "isApiKeyHash v =
     (case v of Some (JStr s) \<Rightarrow> length (js_trim s) = 64 \<and> list_all (\<lambda>c. hex_char (js_lower_char c)) (js_trim s) | _ \<Rightarrow> False)"

definition getApiKeyFingerprintFromHash :: "string \<Rightarrow> string" where
  "getApiKeyFingerprintFromHash h = ''sha256:'' @ take 16 (js_lower (js_trim h))"

definition getApiKeyFingerprintFromValue :: "(string \<Rightarrow> string) \<Rightarrow> string \<Rightarrow> string" where
  "getApiKeyFingerprintFromValue sha256 key = getApiKeyFingerprintFromHash (hashApiKey sha256 key)"

fun first_truthy :: "string option list \<Rightarrow> string \<Rightarrow> string" where
  "first_truthy [] d = d"
| "first_truthy (x # xs) d = (if truthy_str x then the x else first_truthy xs d)"

definition resolveExportGeneratedBy :: "request \<Rightarrow> string" where
  "resolveExportGeneratedBy req =
     (if truthy_str (rq_authApiKeyHash req)
      then ''apiKey:'' @ getApiKeyFingerprintFromHash (the (rq_authApiKeyHash req))
      else first_truthy [map_option jwt_sub (rq_jwtPayload req), rq_headers req ''x-admin-address'',
             rq_headers req ''x-admin-id'', rq_headers req ''x-wallet-address''] ''unknown'')"

definition resolveApiKeyAuditActor :: "request \<Rightarrow> string" where
  "resolveApiKeyAuditActor req =
     first_truthy [rq_headers req ''x-admin-address'', rq_headers req ''x-admin-id'', rq_headers req ''x-wallet-address'',
       map_option (\<lambda>h. ''apiKey:'' @ getApiKeyFingerprintFromHash h)
         (if truthy_str (rq_authApiKeyHash req) then rq_authApiKeyHash req else None)] ''unknown''"

section \<open>Export jobs\<close>

text \<open>A row keeps the text of its filters, a job their value.\<close>

record export_row =
  xr_id :: string
  xr_format :: export_format
  xr_fileName :: string
  xr_contentType :: string
  xr_checksum :: string
  xr_checksumAlgorithm :: string
  xr_generatedBy :: string
  xr_walletAddress :: "string option"
  xr_rowCount :: nat
  xr_filters :: string
  xr_createdAt :: time

record export_job =
  xj_id :: string
  xj_format :: export_format
  xj_fileName :: string
  xj_contentType :: string
  xj_checksum :: string
  xj_checksumAlgorithm :: string
  xj_generatedBy :: string
  xj_walletAddress :: "string option"
  xj_rowCount :: nat
  xj_filters :: json
  xj_createdAt :: time

record 't export_table =
  xt_rows :: "'t \<Rightarrow> export_row list"
  xt_insert :: "export_row \<Rightarrow> 't \<Rightarrow> 't"

locale export_store =
  fixes X :: "'t export_table"
  assumes rows_insert: "set (xt_rows X (xt_insert X r t)) = insert r (set (xt_rows X t))"
begin

lemma inserted_row: "r \<in> set (xt_rows X (xt_insert X r t))"
  by (simp add: rows_insert)

end

definition list_exports :: "export_row list export_table" where
  "list_exports = \<lparr>xt_rows = (\<lambda>t. t), xt_insert = (\<lambda>r t. t @ [r])\<rparr>"

interpretation list_exports: export_store list_exports
  by unfold_locales (simp add: list_exports_def)

record export_input =
  xi_format :: export_format
  xi_fileName :: string
  xi_contentType :: string
  xi_checksum :: string
  xi_checksumAlgorithm :: string
  xi_generatedBy :: string
  xi_walletAddress :: "string option"
  xi_rowCount :: nat
  xi_filters :: json
  xi_createdAt :: "time option"

definition createExportJobId :: "time \<Rightarrow> string \<Rightarrow> string" where
  "createExportJobId now hex = ''export_'' @ show_int now @ ''_'' @ hex"

text \<open>\<open>fault\<close> is the message of the error with which the insertion is rejected.\<close>

definition recordExportJob ::
  "'t export_table \<Rightarrow> (json \<Rightarrow> string) \<Rightarrow> time \<Rightarrow> string \<Rightarrow> string option \<Rightarrow> export_input \<Rightarrow> 't \<Rightarrow> (string + export_job) \<times> 't" where
  "recordExportJob X stringify now hex fault inp t =
     (let ident = createExportJobId now hex;
          wallet = (if truthy_str (xi_walletAddress inp) then xi_walletAddress inp else None);
          createdAt = nullish (xi_createdAt inp) now
      in case fault of
           Some m \<Rightarrow> (Inl m, t)
         | None \<Rightarrow>
             (Inr \<lparr>xj_id = ident, xj_format = xi_format inp, xj_fileName = xi_fileName inp,
                xj_contentType = xi_contentType inp, xj_checksum = xi_checksum inp,
                xj_checksumAlgorithm = xi_checksumAlgorithm inp, xj_generatedBy = xi_generatedBy inp,
                xj_walletAddress = wallet, xj_rowCount = xi_rowCount inp, xj_filters = xi_filters inp, xj_createdAt = createdAt\<rparr>,
              xt_insert X \<lparr>xr_id = ident, xr_format = xi_format inp, xr_fileName = xi_fileName inp,
                xr_contentType = xi_contentType inp, xr_checksum = xi_checksum inp,
                xr_checksumAlgorithm = xi_checksumAlgorithm inp, xr_generatedBy = xi_generatedBy inp,
                xr_walletAddress = wallet, xr_rowCount = xi_rowCount inp, xr_filters = stringify (xi_filters inp),
                xr_createdAt = createdAt\<rparr> t))"

definition safeParseFilters :: "(string \<Rightarrow> json option) \<Rightarrow> string \<Rightarrow> json" where
  "safeParseFilters parse raw =
     (case parse raw of Some (JObj fs) \<Rightarrow> JObj fs | Some (JArr xs) \<Rightarrow> JArr xs | _ \<Rightarrow> JObj [])"

definition mapExportJobRow :: "(string \<Rightarrow> json option) \<Rightarrow> export_row \<Rightarrow> export_job" where
  "mapExportJobRow parse r =
     \<lparr>xj_id = xr_id r, xj_format = xr_format r, xj_fileName = xr_fileName r, xj_contentType = xr_contentType r,
      xj_checksum = xr_checksum r, xj_checksumAlgorithm = xr_checksumAlgorithm r, xj_generatedBy = xr_generatedBy r,
      xj_walletAddress = xr_walletAddress r, xj_rowCount = xr_rowCount r,
      xj_filters = safeParseFilters parse (xr_filters r), xj_createdAt = xr_createdAt r\<rparr>"

record export_filters =
  xf_format :: "export_format option"
  xf_generatedBy :: "string option"
  xf_walletAddress :: "string option"
  xf_checksum :: "string option"
  xf_start :: "time option"
  xf_end :: "time option"
  xf_limit :: nat

definition export_row_matches :: "export_filters \<Rightarrow> export_row \<Rightarrow> bool" where
  "export_row_matches f r \<longleftrightarrow>
     (xf_format f \<noteq> None \<longrightarrow> xf_format f = Some (xr_format r))
     \<and> (truthy_str (xf_generatedBy f) \<longrightarrow> xf_generatedBy f = Some (xr_generatedBy r))
     \<and> (truthy_str (xf_walletAddress f) \<longrightarrow> xf_walletAddress f = xr_walletAddress r)
     \<and> (truthy_str (xf_checksum f) \<longrightarrow> js_lower (the (xf_checksum f)) = xr_checksum r)
     \<and> (case xf_start f of None \<Rightarrow> True | Some a \<Rightarrow> a \<le> xr_createdAt r)
     \<and> (case xf_end f of None \<Rightarrow> True | Some b \<Rightarrow> xr_createdAt r \<le> b)"

definition listExportJobs ::
  "'t export_table \<Rightarrow> (string \<Rightarrow> json option) \<Rightarrow> export_filters \<Rightarrow> 't \<Rightarrow> export_job list" where
  "listExportJobs X parse f t =
     map (mapExportJobRow parse) (take (xf_limit f)
       (js_sort (\<lambda>a b. xr_createdAt a < xr_createdAt b) (filter (export_row_matches f) (xt_rows X t))))"

definition getExportJobById ::
  "'t export_table \<Rightarrow> (string \<Rightarrow> json option) \<Rightarrow> string \<Rightarrow> 't \<Rightarrow> export_job option" where
  "getExportJobById X parse i t = map_option (mapExportJobRow parse) (find (\<lambda>r. xr_id r = i) (xt_rows X t))"

definition export_metadata :: "export_job \<Rightarrow> json" where
  "export_metadata j = JObj [(''exportJobId'', JStr (xj_id j)), (''checksum'', JStr (xj_checksum j)),
     (''checksumAlgorithm'', JStr (xj_checksumAlgorithm j)), (''generatedBy'', JStr (xj_generatedBy j)),
     (''rowCount'', jint (int (xj_rowCount j))), (''createdAt'', JStr (to_iso_string (xj_createdAt j)))]"

definition buildExportMetadataHeaderValue :: "(json \<Rightarrow> string) \<Rightarrow> export_job \<Rightarrow> string" where
  "buildExportMetadataHeaderValue stringify j = stringify (export_metadata j)"

section \<open>The export route\<close>

definition authenticateTransactionExport ::
  "session_env \<Rightarrow> (string \<Rightarrow> string) \<Rightarrow> api_keys \<Rightarrow> time \<Rightarrow> request \<Rightarrow> outcome" where
  "authenticateTransactionExport SE sha256 keys now req =
     (if starts_with ''ApiKey '' (header_or_empty req ''authorization'')
      then (case validateApiKey sha256 keys req of
              Respond r \<Rightarrow> Respond r
            | Next req1 \<Rightarrow>
                if hasPermission req1 EXPORTS_WRITE then Next (req1\<lparr>rq_exportAsAdmin := Some True\<rparr>)
                else Respond (send_json 403 (JObj (error_body ''Forbidden'' 403
                  ''Operator role or higher is required for admin transaction export''
                  @ [(''requiredPermission'', JStr (show_permission EXPORTS_WRITE))]))))
      else (case requireAuth SE now req of
              Respond r \<Rightarrow> Respond r
            | Next req1 \<Rightarrow> Next (req1\<lparr>rq_exportAsAdmin := Some False\<rparr>)))"

record 't export_env =
  xe_sha256 :: "string \<Rightarrow> string"
  xe_num :: "rat \<Rightarrow> string"
  xe_parse_date :: "string \<Rightarrow> time option"
  xe_locale :: locale_compare
  xe_rows :: "list_tx list"
  xe_table :: "'t export_table"

definition export_query :: "request \<Rightarrow> string \<Rightarrow> list_query" where
  "export_query req wallet =
     \<lparr>lq_limit = None, lq_cursor = None, lq_page = None, lq_sortBy = rq_query req ''sortBy'',
      lq_sortOrder = Some (if rq_query req ''sortOrder'' = Some ''asc'' then Asc else Desc),
      lq_type = rq_query req ''type'', lq_status = rq_query req ''status'', lq_from = None, lq_to = None,
      lq_walletAddress = Some wallet, lq_startDate = rq_query req ''startDate'', lq_endDate = rq_query req ''endDate''\<rparr>"

definition export_job_filters :: "request \<Rightarrow> string \<Rightarrow> json" where
  "export_job_filters req wallet =
     (let q = (\<lambda>k. json_opt JStr (rq_query req k))
      in JObj [(''type'', q ''type''), (''status'', q ''status''), (''sortBy'', q ''sortBy''),
           (''sortOrder'', JStr (if rq_query req ''sortOrder'' = Some ''asc'' then ''asc'' else ''desc'')),
           (''startDate'', q ''startDate''), (''endDate'', q ''endDate''), (''walletAddress'', JStr wallet)])"

definition export_answer :: "(json \<Rightarrow> string) \<Rightarrow> export_artifact \<Rightarrow> string \<Rightarrow> export_job \<Rightarrow> response" where
  "export_answer stringify a fileName job =
     send_json_with
       [(''Content-Type'', JStr (ea_contentType a)),
        (''Content-Disposition'', JStr (''attachment; filename='' @ [CHR 0x22] @ fileName @ [CHR 0x22])),
        (''X-Export-Job-Id'', JStr (xj_id job)),
        (''X-Export-Checksum'', JStr (ea_checksum a)),
        (''X-Export-Checksum-Algorithm'', JStr ''sha256''),
        (''X-Export-Metadata'', JStr (buildExportMetadataHeaderValue stringify job))]
       200 (JStr (ea_body a))"

definition export_transactions ::
  "'t export_env \<Rightarrow> time \<Rightarrow> string \<Rightarrow> string option \<Rightarrow> request \<Rightarrow> 't \<Rightarrow> response \<times> 't" where
  "export_transactions XE now hex fault req t =
     (case resolveExportFormat (rq_query req ''format'') of
        None \<Rightarrow> (send_error ''Bad Request'' 400 ''format query parameter must be either csv or json'', t)
      | Some format \<Rightarrow>
          let requestedWallet = rq_query req ''walletAddress'';
              asAdmin = (rq_exportAsAdmin req = Some True);
              sub = map_option jwt_sub (rq_jwtPayload req);
              walletAddress = (if asAdmin then requestedWallet else sub)
          in if \<not> asAdmin \<and> truthy_str requestedWallet \<and> requestedWallet \<noteq> sub
             then (send_error ''Forbidden'' 403 ''Users can only export their own wallet transaction history'', t)
             else if \<not> truthy_str walletAddress
             then (send_error ''Bad Request'' 400 ''walletAddress is required for admin exports'', t)
             else
               let wallet = the walletAddress;
                   stringify = json_text (xe_num XE);
                   fileName = ''transaction-history-'' @ take 8 wallet @ ''-'' @ take 10 (to_iso_string now) @ ''.'' @ show_format format;
                   rows = getTransactionsForExport (xe_parse_date XE) (xe_locale XE) (xe_rows XE) (export_query req wallet);
                   artifact = buildTransactionExportArtifact (xe_sha256 XE) (xe_num XE) format rows
               in case recordExportJob (xe_table XE) stringify now hex fault
                      \<lparr>xi_format = format, xi_fileName = fileName, xi_contentType = ea_contentType artifact,
                       xi_checksum = ea_checksum artifact, xi_checksumAlgorithm = ''sha256'',
                       xi_generatedBy = resolveExportGeneratedBy req, xi_walletAddress = Some wallet,
                       xi_rowCount = ea_rowCount artifact, xi_filters = export_job_filters req wallet, xi_createdAt = None\<rparr> t of
                    (Inl m, t') \<Rightarrow> (send_error ''Internal Server Error'' 500 m, t')
                  | (Inr job, t') \<Rightarrow> (export_answer stringify artifact fileName job, t'))"

definition export_route ::
  "'t export_env \<Rightarrow> session_env \<Rightarrow> api_keys \<Rightarrow> time \<Rightarrow> string \<Rightarrow> string option \<Rightarrow> request \<Rightarrow> 't \<Rightarrow> response \<times> 't" where
  "export_route XE SE keys now hex fault req t =
     (case authenticateTransactionExport SE (xe_sha256 XE) keys now req of
        Respond r \<Rightarrow> (r, t)
      | Next req1 \<Rightarrow> export_transactions XE now hex fault req1 t)"

section \<open>Verification of an export\<close>

definition given_checksum :: "request \<Rightarrow> string" where
  "given_checksum req =
     (case body_string req ''checksum'' of
        Some c \<Rightarrow> js_lower (js_trim c)
      | None \<Rightarrow> (case rq_query req ''checksum'' of Some c \<Rightarrow> js_lower (js_trim c) | None \<Rightarrow> []))"

definition verify_export ::
  "'t export_table \<Rightarrow> (string \<Rightarrow> json option) \<Rightarrow> string \<Rightarrow> request \<Rightarrow> 't \<Rightarrow> response" where
  "verify_export X parse ident req t =
     (let checksum = given_checksum req
      in if checksum = [] then send_error ''Bad Request'' 400 ''checksum is required''
         else case getExportJobById X parse ident t of
                None \<Rightarrow> send_error ''Not Found'' 404 ''Export job not found''
              | Some job \<Rightarrow> send_json 200 (JObj
                  [(''exportJobId'', JStr (xj_id job)), (''valid'', JBool (js_lower (xj_checksum job) = checksum)),
                   (''expectedChecksum'', JStr (xj_checksum job)), (''providedChecksum'', JStr checksum),
                   (''checksumAlgorithm'', JStr (xj_checksumAlgorithm job)), (''generatedBy'', JStr (xj_generatedBy job)),
                   (''createdAt'', JStr (to_iso_string (xj_createdAt job))), (''fileName'', JStr (xj_fileName job)),
                   (''format'', JStr (show_format (xj_format job))), (''rowCount'', jint (int (xj_rowCount job)))]))"

section \<open>Whose transactions\<close>

lemma set_sort_listing [simp]: "set (sort_listing lc f pg rows) = set rows"
  by (simp add: sort_listing_def sort_rows_def)

lemma exported_rows_wallet:
  assumes "x \<in> set (getTransactionsForExport parse lc txs q)" "lq_walletAddress q = Some w"
    "normalizeWalletAddress (Some w) \<noteq> []" "w \<noteq> []"
  shows "x \<in> set txs \<and> normalizeWalletAddress (Some (lt_walletAddress x)) = normalizeWalletAddress (Some w)"
  using assms by (auto simp: getTransactionsForExport_def filterTransactions_def Let_def truthy_str_def)

lemma recordExportJob_ok:
  "recordExportJob X stringify now hex fault inp t = (Inr job, t') \<Longrightarrow> fault = None
    \<and> xj_id job = createExportJobId now hex \<and> xj_checksum job = xi_checksum inp \<and> xj_rowCount job = xi_rowCount inp
    \<and> (\<exists>r. t' = xt_insert X r t \<and> xr_id r = xj_id job \<and> xr_checksum r = xi_checksum inp \<and> xr_rowCount r = xi_rowCount inp
         \<and> xr_walletAddress r = (if truthy_str (xi_walletAddress inp) then xi_walletAddress inp else None))"
  by (auto simp: recordExportJob_def Let_def split: option.splits)

definition exported :: "'t export_env \<Rightarrow> export_format \<Rightarrow> list_tx list \<Rightarrow> string" where
  "exported XE format rows = ea_body (buildTransactionExportArtifact (xe_sha256 XE) (xe_num XE) format rows)"

lemma export_transactions_ok:
  assumes "export_transactions XE now hex fault req t = (resp, t')" "rs_status resp = 200"
  shows "\<exists>format wallet rows r.
    resolveExportFormat (rq_query req ''format'') = Some format \<and> wallet \<noteq> []
    \<and> rows = getTransactionsForExport (xe_parse_date XE) (xe_locale XE) (xe_rows XE) (export_query req wallet)
    \<and> Some wallet = (if rq_exportAsAdmin req = Some True then rq_query req ''walletAddress''
        else map_option jwt_sub (rq_jwtPayload req))
    \<and> rs_body resp = JStr (exported XE format rows)
    \<and> map_of (rs_headers resp) ''X-Export-Job-Id'' = Some (JStr (createExportJobId now hex))
    \<and> t' = xt_insert (xe_table XE) r t \<and> xr_id r = createExportJobId now hex
    \<and> xr_checksum r = xe_sha256 XE (exported XE format rows) \<and> xr_rowCount r = length rows
    \<and> xr_walletAddress r = Some wallet"
proof -
  obtain format where f: "resolveExportFormat (rq_query req ''format'') = Some format"
    using assms by (cases "resolveExportFormat (rq_query req ''format'')") (auto simp: export_transactions_def)
  let ?wallet = "if rq_exportAsAdmin req = Some True then rq_query req ''walletAddress'' else map_option jwt_sub (rq_jwtPayload req)"
  obtain wallet where w: "?wallet = Some wallet" "wallet \<noteq> []"
    using assms f by (cases ?wallet) (auto simp: export_transactions_def Let_def truthy_str_def split: if_splits)
  define rows where "rows = getTransactionsForExport (xe_parse_date XE) (xe_locale XE) (xe_rows XE) (export_query req wallet)"
  define artifact where "artifact = buildTransactionExportArtifact (xe_sha256 XE) (xe_num XE) format rows"
  define inp where "inp = \<lparr>xi_format = format,
      xi_fileName = ''transaction-history-'' @ take 8 wallet @ ''-'' @ take 10 (to_iso_string now) @ ''.'' @ show_format format,
      xi_contentType = ea_contentType artifact, xi_checksum = ea_checksum artifact, xi_checksumAlgorithm = ''sha256'',
      xi_generatedBy = resolveExportGeneratedBy req, xi_walletAddress = Some wallet,
      xi_rowCount = ea_rowCount artifact, xi_filters = export_job_filters req wallet, xi_createdAt = None\<rparr>"
  have guard: "\<not> (rq_exportAsAdmin req \<noteq> Some True \<and> truthy_str (rq_query req ''walletAddress'')
      \<and> rq_query req ''walletAddress'' \<noteq> map_option jwt_sub (rq_jwtPayload req))"
  proof
    assume "rq_exportAsAdmin req \<noteq> Some True \<and> truthy_str (rq_query req ''walletAddress'')
      \<and> rq_query req ''walletAddress'' \<noteq> map_option jwt_sub (rq_jwtPayload req)"
    then have "export_transactions XE now hex fault req t =
        (send_error ''Forbidden'' 403 ''Users can only export their own wallet transaction history'', t)"
      using f by (simp add: export_transactions_def Let_def)
    with assms show False by auto
  qed
  have eq: "export_transactions XE now hex fault req t =
      (case recordExportJob (xe_table XE) (json_text (xe_num XE)) now hex fault inp t of
         (Inl m, t') \<Rightarrow> (send_error ''Internal Server Error'' 500 m, t')
       | (Inr job, t') \<Rightarrow> (export_answer (json_text (xe_num XE)) artifact (xi_fileName inp) job, t'))"
  proof -
    have t: "truthy_str (Some wallet)" using w(2) by (simp add: truthy_str_def)
    show ?thesis unfolding export_transactions_def Let_def inp_def artifact_def rows_def
      by (simp only: f option.case guard if_False w(1) t not_True_eq_False option.sel export_input.simps)
  qed
  obtain job where j: "recordExportJob (xe_table XE) (json_text (xe_num XE)) now hex fault inp t = (Inr job, t')"
      "resp = export_answer (json_text (xe_num XE)) artifact (xi_fileName inp) job"
    using assms unfolding eq by (auto split: prod.splits sum.splits)
  from recordExportJob_ok[OF j(1)] obtain r where r: "t' = xt_insert (xe_table XE) r t" "xr_id r = createExportJobId now hex"
      "xr_checksum r = ea_checksum artifact" "xr_rowCount r = ea_rowCount artifact" "xr_walletAddress r = Some wallet"
      "xj_id job = createExportJobId now hex"
    using w(2) by (auto simp: inp_def truthy_str_def)
  have art: "ea_checksum artifact = xe_sha256 XE (exported XE format rows)" "ea_rowCount artifact = length rows"
    by (simp_all add: artifact_def exported_def buildTransactionExportArtifact_def Let_def)
  have "rs_body resp = JStr (exported XE format rows)
      \<and> map_of (rs_headers resp) ''X-Export-Job-Id'' = Some (JStr (createExportJobId now hex))"
    using j(2) r(6) by (simp add: export_answer_def exported_def artifact_def)
  with f w r art show ?thesis unfolding rows_def by (intro exI[of _ format] exI[of _ wallet] exI[of _ rows] exI[of _ r]) (auto simp: rows_def)
qed

lemma user_request:
  assumes "authenticateTransactionExport SE sha256 keys now req = Next req1"
    "\<not> starts_with ''ApiKey '' (header_or_empty req ''authorization'')"
  shows "\<exists>token payload. scheme_match True ''Bearer'' (header_or_empty req ''authorization'') = Some token
    \<and> verifyJwt (se_hmac SE) (se_parse SE) (se_env SE) now token = Inr payload
    \<and> rq_jwtPayload req1 = Some payload \<and> rq_exportAsAdmin req1 = Some False \<and> rq_query req1 = rq_query req"
  using assms by (auto simp: authenticateTransactionExport_def requireAuth_def split: option.splits sum.splits outcome.splits)


definition sample_export_env :: "export_row list export_env" where
  "sample_export_env = \<lparr>xe_sha256 = (\<lambda>s. show_nat (length s)), xe_num = (\<lambda>x. ''0''), xe_parse_date = (\<lambda>s. Some 0),
     xe_locale = (\<lambda>a b. 0),
     xe_rows = [\<lparr>lt_id = ''1'', lt_type = ''deposit'', lt_status = ''completed'', lt_amount = ''5'', lt_asset = ''USDC'',
         lt_timestamp = ''2026'', lt_transactionHash = ''h'', lt_walletAddress = jwt_sub sample_payload\<rparr>,
       \<lparr>lt_id = ''2'', lt_type = ''deposit'', lt_status = ''completed'', lt_amount = ''6'', lt_asset = ''USDC'',
         lt_timestamp = ''2026'', lt_transactionHash = ''h'', lt_walletAddress = ''Z''\<rparr>],
     xe_table = list_exports\<rparr>"

definition sample_export_session :: session_env where
  "sample_export_session = \<lparr>se_hmac = (\<lambda>k m. show_nat (length m)), se_stringify = (\<lambda>p. ''p''),
     se_parse = (\<lambda>s. Some sample_payload), se_env = (\<lambda>k. None), se_accessTtl = 900, se_refreshTtl = 604800\<rparr>"

definition sample_export_request :: request where
  "sample_export_request = blank_request\<lparr>rq_headers := [''authorization'' \<mapsto> ''Bearer a.b.3''],
     rq_query := [''format'' \<mapsto> ''csv'']\<rparr>"

lemma sample_export_answers:
  "rs_status (fst (export_transactions sample_export_env 0 ''aa'' None
     (sample_export_request\<lparr>rq_jwtPayload := Some sample_payload, rq_exportAsAdmin := Some False\<rparr>) [])) = 200"
  by (simp add: export_transactions_def sample_export_request_def blank_request_def resolveExportFormat_def truthy_str_def
      recordExportJob_def export_answer_def send_json_with_def sample_payload_def Let_def)

definition sample_export :: "response \<times> export_row list" where
  "sample_export = export_route sample_export_env sample_export_session [] 0 ''aa'' None sample_export_request []"


section \<open>Checksums\<close>

definition hex_digest :: "(string \<Rightarrow> string) \<Rightarrow> bool" where
  "hex_digest h \<longleftrightarrow> (\<forall>s. h s \<noteq> [] \<and> list_all hex_char (h s))"

lemma hex_char_lower: "hex_char c \<Longrightarrow> js_lower_char c = c"
  by (auto simp: hex_char_def is_digit_def js_lower_char_def Let_def)

lemma hex_char_not_ws: "hex_char c \<Longrightarrow> \<not> js_ws c"
  by (auto simp: hex_char_def is_digit_def js_ws_def)

lemma lower_hex: "list_all hex_char s \<Longrightarrow> js_lower s = s"
  by (induction s) (simp_all add: js_lower_def hex_char_lower)

lemma trim_hex: "list_all hex_char s \<Longrightarrow> js_trim s = s"
proof -
  assume h: "list_all hex_char s"
  have "dropWhile js_ws xs = xs" if "list_all hex_char xs" for xs
    using that by (cases xs) (auto simp: hex_char_not_ws)
  with h show ?thesis by (simp add: js_trim_def list_all_rev)
qed

definition with_checksum :: "string \<Rightarrow> request" where
  "with_checksum c = blank_request\<lparr>rq_body := JObj [(''checksum'', JStr c)]\<rparr>"

text \<open>
  An export can be verified later: for the job named in the response, the verification answers
  \<open>valid\<close> for the checksum of the delivered body, and for a file it answers \<open>valid\<close> only if the file has
  the checksum of that body.
\<close>

theorem export_verifies:
  assumes "export_store (xe_table XE)" and "hex_digest (xe_sha256 XE)"
    and "export_transactions XE now hex fault req t = (resp, t')" and "rs_status resp = 200"
    and "\<forall>r \<in> set (xt_rows (xe_table XE) t). xr_id r \<noteq> createExportJobId now hex"
  shows "\<exists>ident body. map_of (rs_headers resp) ''X-Export-Job-Id'' = Some (JStr ident) \<and> rs_body resp = JStr body
    \<and> (\<forall>doc. \<exists>fs. rs_body (verify_export (xe_table XE) parse ident (with_checksum (xe_sha256 XE doc)) t') = JObj fs
         \<and> map_of fs ''valid'' = Some (JBool (xe_sha256 XE doc = xe_sha256 XE body)))"
proof -
  from export_transactions_ok[OF assms(3,4)] obtain format rows r where x:
    "rs_body resp = JStr (exported XE format rows)"
    "map_of (rs_headers resp) ''X-Export-Job-Id'' = Some (JStr (createExportJobId now hex))"
    "t' = xt_insert (xe_table XE) r t" "xr_id r = createExportJobId now hex"
    "xr_checksum r = xe_sha256 XE (exported XE format rows)" by blast
  have rows: "set (xt_rows (xe_table XE) t') = insert r (set (xt_rows (xe_table XE) t))"
    by (simp add: x(3) export_store.rows_insert[OF assms(1)])
  then obtain q where q: "find (\<lambda>r. xr_id r = createExportJobId now hex) (xt_rows (xe_table XE) t') = Some q"
    using x(4) by (cases "find (\<lambda>r. xr_id r = createExportJobId now hex) (xt_rows (xe_table XE) t')") (auto simp: find_None_iff)
  from find_SomeD[OF q] rows assms(5) have "q = r" by auto
  with q have g: "getExportJobById (xe_table XE) parse (createExportJobId now hex) t' = Some (mapExportJobRow parse r)"
    by (simp add: getExportJobById_def)
  have h: "xe_sha256 XE s \<noteq> []" "js_lower (xe_sha256 XE s) = xe_sha256 XE s" "js_trim (xe_sha256 XE s) = xe_sha256 XE s" for s
    using assms(2) lower_hex trim_hex by (simp_all add: hex_digest_def)
  have c: "given_checksum (with_checksum (xe_sha256 XE doc)) = xe_sha256 XE doc" for doc
    by (simp add: given_checksum_def with_checksum_def blank_request_def body_string_def body_field_def h)
  have "\<exists>fs. rs_body (verify_export (xe_table XE) parse (createExportJobId now hex) (with_checksum (xe_sha256 XE doc)) t') = JObj fs
      \<and> map_of fs ''valid'' = Some (JBool (xe_sha256 XE doc = xe_sha256 XE (exported XE format rows)))" for doc
    using h x(5) by (auto simp: verify_export_def Let_def c g mapExportJobRow_def)
  with x show ?thesis by blast
qed

definition sample_user_export :: "response \<times> export_row list" where
  "sample_user_export = export_transactions sample_export_env 0 ''aa'' None
     (sample_export_request\<lparr>rq_jwtPayload := Some sample_payload, rq_exportAsAdmin := Some False\<rparr>) []"

theorem export_verifies_witness:
  "\<exists>ident body. map_of (rs_headers (fst sample_user_export)) ''X-Export-Job-Id'' = Some (JStr ident)
     \<and> rs_body (fst sample_user_export) = JStr body"
proof -
  have s: "rs_status (fst sample_user_export) = 200" by (simp add: sample_user_export_def sample_export_answers)
  have d: "hex_digest (xe_sha256 sample_export_env)"
    by (auto simp: hex_digest_def sample_export_env_def list_all_iff hex_char_def show_nat_nonempty dest: show_nat_digits)
  have e: "export_transactions sample_export_env 0 ''aa'' None
      (sample_export_request\<lparr>rq_jwtPayload := Some sample_payload, rq_exportAsAdmin := Some False\<rparr>) []
      = (fst sample_user_export, snd sample_user_export)"
    by (simp add: sample_user_export_def)
  have l: "export_store (xe_table sample_export_env)"
    by (simp add: sample_export_env_def list_exports.export_store_axioms)
  have n: "\<forall>r \<in> set (xt_rows (xe_table sample_export_env) []). xr_id r \<noteq> createExportJobId 0 ''aa''"
    by (simp add: sample_export_env_def list_exports_def)
  from export_verifies[OF l d e s n, of "\<lambda>x. None"] show ?thesis
    by (elim exE conjE) (intro exI conjI, assumption+)
qed

end
