(* ===== verification/Redaction.thy ===== *)
theory Redaction
  imports Http
begin

text \<open>
  Redaction of the attributes that reach logs and audit trails (\<open>backend/src/redaction.ts\<close>,
  \<open>backend/src/auditRedaction.ts\<close>) and sanitisation of request bodies (\<open>backend/src/sanitization.ts\<close>).
  An assignment to the key \<open>__proto__\<close> of a fresh object sets its prototype, so that key never is a field of
  a copy.  A number of a body is finite here: \<open>JSON.parse\<close> makes no other, except from a literal beyond the
  range of doubles.
\<close>

definition REDACTED :: json where
  "REDACTED = JStr ''[REDACTED]''"

definition assigned_fields :: "(string \<Rightarrow> bool) \<Rightarrow> (string \<times> json) list \<Rightarrow> (string \<times> json) list" where
  "assigned_fields sensitive fs =
     map (\<lambda>(k, v). (k, if sensitive k then REDACTED else v)) (filter (\<lambda>(k, v). k \<noteq> ''__proto__'') fs)"

section \<open>Attributes of log entries\<close>

definition DEFAULT_SENSITIVE_KEYS :: "string list" where
  "DEFAULT_SENSITIVE_KEYS = [''authorization'', ''api_key'', ''apikey'', ''access_token'', ''refresh_token'', ''token'',
     ''secret'', ''password'', ''signature'', ''private_key'', ''nonce'', ''passphrase'', ''credential'']"

definition key_char :: "char \<Rightarrow> char" where
  "key_char c = (if is_lower c \<or> is_digit c \<or> c = CHR ''_'' then c else CHR ''_'')"

definition isSensitiveKey :: "string \<Rightarrow> bool" where
  "isSensitiveKey key =
     (let normalized = map key_char (js_lower (js_trim key))
      in list_ex (\<lambda>s. contains_sub s normalized) DEFAULT_SENSITIVE_KEYS)"

primrec redactSensitiveAttributes :: "json \<Rightarrow> json" where
  "redactSensitiveAttributes JNull = JNull"
| "redactSensitiveAttributes (JBool b) = JBool b"
| "redactSensitiveAttributes (JNum r) = JNum r"
| "redactSensitiveAttributes (JStr s) = JStr s"
| "redactSensitiveAttributes (JArr xs) = JArr (map redactSensitiveAttributes xs)"
| "redactSensitiveAttributes (JObj fs) =
     JObj (assigned_fields isSensitiveKey (map (map_prod id redactSensitiveAttributes) fs))"

section \<open>Attributes of the administrative audit log\<close>

definition sensitive_key :: "string \<Rightarrow> bool" where
  "sensitive_key key =
     list_ex (\<lambda>s. contains_sub s (js_lower key))
       [''pass'', ''secret'', ''token'', ''apikey'', ''api-key'', ''api_key'', ''authorization'', ''cookie'', ''session'',
        ''privatekey'', ''private-key'', ''private_key'', ''seed'', ''mnemonic'', ''credential'']"

definition alnum :: "char \<Rightarrow> bool" where
  "alnum c \<longleftrightarrow> is_lower c \<or> is_digit c"

definition starts_class :: "(char \<Rightarrow> bool) \<Rightarrow> string \<Rightarrow> bool" where
  "starts_class P s = (case s of [] \<Rightarrow> False | c # _ \<Rightarrow> P c)"

text \<open>The four alternatives of the pattern at the beginning of a string in lower case.\<close>

definition secret_prefix :: "string \<Rightarrow> bool" where
  "secret_prefix s \<longleftrightarrow>
     (starts_with ''bearer'' s \<and> starts_class js_ws (drop 6 s)
        \<and> starts_class (\<lambda>c. alnum c \<or> c \<in> set ''._-'') (dropWhile js_ws (drop 6 s)))
     \<or> ((starts_with ''sk_live_'' s \<or> starts_with ''sk_test_'' s) \<and> starts_class alnum (drop 8 s))
     \<or> (starts_with ''xox'' s \<and> starts_class (\<lambda>c. c \<in> set ''baprs'') (drop 3 s) \<and> starts_with ''-'' (drop 4 s)
        \<and> starts_class (\<lambda>c. alnum c \<or> c = CHR ''-'') (drop 5 s))
     \<or> (starts_with ''ghp_'' s \<and> starts_class alnum (drop 4 s))"

fun some_suffix :: "(string \<Rightarrow> bool) \<Rightarrow> string \<Rightarrow> bool" where
  "some_suffix P [] = P []"
| "some_suffix P (c # cs) = (P (c # cs) \<or> some_suffix P cs)"

definition sensitive_value :: "string \<Rightarrow> bool" where
  "sensitive_value s = some_suffix secret_prefix (js_lower s)"

primrec redactSensitiveLogAttributes :: "json \<Rightarrow> json" where
  "redactSensitiveLogAttributes JNull = JNull"
| "redactSensitiveLogAttributes (JBool b) = JBool b"
| "redactSensitiveLogAttributes (JNum r) = JNum r"
| "redactSensitiveLogAttributes (JStr s) = (if sensitive_value s then REDACTED else JStr s)"
| "redactSensitiveLogAttributes (JArr xs) = JArr (map redactSensitiveLogAttributes xs)"
| "redactSensitiveLogAttributes (JObj fs) =
     JObj (assigned_fields sensitive_key (map (map_prod id redactSensitiveLogAttributes) fs))"

section \<open>Sanitisation of bodies\<close>

definition MAX_SAFE_NUMBER :: rat where
  "MAX_SAFE_NUMBER = 9007199254740991"

definition validateNumber :: "rat \<Rightarrow> string + rat" where
  "validateNumber r =
     (if MAX_SAFE_NUMBER < r \<or> r < - MAX_SAFE_NUMBER then Inl ''Numeric parameter is out of acceptable range'' else Inr r)"

definition malicious_key :: "string \<Rightarrow> bool" where
  "malicious_key k \<longleftrightarrow> k = ''__proto__'' \<or> k = ''constructor'' \<or> k = ''prototype'' \<or> starts_with ''$'' k"

text \<open>A list of results, or the first error.\<close>

fun all_results :: "('e + 'a) list \<Rightarrow> 'e + 'a list" where
  "all_results [] = Inr []"
| "all_results (r # rs) =
     (case r of Inl e \<Rightarrow> Inl e | Inr x \<Rightarrow> (case all_results rs of Inl e \<Rightarrow> Inl e | Inr xs \<Rightarrow> Inr (x # xs)))"

definition keep_key :: "string \<times> ('e + 'a) \<Rightarrow> 'e + string \<times> 'a" where
  "keep_key kr = (case snd kr of Inl e \<Rightarrow> Inl e | Inr v \<Rightarrow> Inr (fst kr, v))"

primrec sanitize_value :: "json \<Rightarrow> string + json" where
  "sanitize_value JNull = Inr JNull"
| "sanitize_value (JBool b) = Inr (JBool b)"
| "sanitize_value (JNum r) = map_sum id JNum (validateNumber r)"
| "sanitize_value (JStr s) = Inr (JStr s)"
| "sanitize_value (JArr xs) = map_sum id JArr (all_results (map sanitize_value xs))"
| "sanitize_value (JObj fs) =
     map_sum id JObj (all_results (map keep_key
       (filter (\<lambda>kv. \<not> malicious_key (fst kv)) (map (map_prod id sanitize_value) fs))))"

definition is_object :: "json \<Rightarrow> bool" where
  "is_object v = (case v of JArr _ \<Rightarrow> True | JObj _ \<Rightarrow> True | _ \<Rightarrow> False)"

definition sanitizeObject :: "json \<Rightarrow> string + json" where
  "sanitizeObject v = (if is_object v then sanitize_value v else Inr v)"

definition sanitizationMiddleware :: "request \<Rightarrow> outcome" where
  "sanitizationMiddleware req =
     (if \<not> is_object (rq_body req) then Next req
      else case sanitizeObject (rq_body req) of
             Inr b \<Rightarrow> Next (req\<lparr>rq_body := b\<rparr>)
           | Inl msg \<Rightarrow> Respond (send_error ''Bad Request'' 400 msg))"

section \<open>Nothing sensitive is left\<close>

text \<open>At every depth: a sensitive key holds the redaction token, no string has a sensitive value, and no
  key is \<open>__proto__\<close>.\<close>

primrec nothing_exposed :: "(string \<Rightarrow> bool) \<Rightarrow> (string \<Rightarrow> bool) \<Rightarrow> json \<Rightarrow> bool" where
  "nothing_exposed sk sv JNull = True"
| "nothing_exposed sk sv (JBool b) = True"
| "nothing_exposed sk sv (JNum r) = True"
| "nothing_exposed sk sv (JStr s) = (\<not> sv s)"
| "nothing_exposed sk sv (JArr xs) = list_all id (map (nothing_exposed sk sv) xs)"
| "nothing_exposed sk sv (JObj fs) =
     (list_all (\<lambda>(k, v). k \<noteq> ''__proto__'' \<and> (sk k \<longrightarrow> v = REDACTED)) fs
      \<and> list_all snd (map (map_prod id (nothing_exposed sk sv)) fs))"

lemma token_harmless: "\<not> sensitive_value ''[REDACTED]''"
  by code_simp

lemma assigned_fields_exposed:
  assumes "\<And>k v. (k, v) \<in> set fs \<Longrightarrow> nothing_exposed sk sv v" "\<not> sv ''[REDACTED]''"
  shows "nothing_exposed sk sv (JObj (assigned_fields sk fs))"
  using assms by (auto simp: assigned_fields_def REDACTED_def list_all_iff)

lemma map_fields_id: "(\<And>k v. (k, v) \<in> set fs \<Longrightarrow> f v = v) \<Longrightarrow> map (map_prod id f) fs = fs"
  by (rule map_idI) auto

lemma assigned_fields_quiet:
  "list_all (\<lambda>(k, v). k \<noteq> ''__proto__'' \<and> (sk k \<longrightarrow> v = REDACTED)) fs \<Longrightarrow> assigned_fields sk fs = fs"
  by (induction fs) (auto simp: assigned_fields_def)

lemma quiet_object:
  "nothing_exposed sk sv (JObj fs) \<Longrightarrow> (k, v) \<in> set fs \<Longrightarrow> nothing_exposed sk sv v"
  by (auto simp: list_all_iff)

lemma log_redacted: "nothing_exposed sensitive_key sensitive_value (redactSensitiveLogAttributes v)"
proof (induction v)
  case (JObj fs)
  then show ?case unfolding redactSensitiveLogAttributes.simps
    by (intro assigned_fields_exposed) (auto simp: token_harmless)
qed (auto simp: REDACTED_def token_harmless list_all_iff)

lemma log_quiet: "nothing_exposed sensitive_key sensitive_value v \<Longrightarrow> redactSensitiveLogAttributes v = v"
proof (induction v)
  case (JArr xs)
  then show ?case by (simp add: list_all_iff map_idI)
next
  case (JObj fs)
  then have "map (map_prod id redactSensitiveLogAttributes) fs = fs"
    using quiet_object[OF JObj.prems] by (intro map_fields_id) (auto dest: quiet_object)
  then show ?case using JObj.prems by (simp add: assigned_fields_quiet)
qed simp_all

lemma attributes_redacted: "nothing_exposed isSensitiveKey (\<lambda>s. False) (redactSensitiveAttributes v)"
proof (induction v)
  case (JObj fs)
  then show ?case unfolding redactSensitiveAttributes.simps by (intro assigned_fields_exposed) auto
qed (auto simp: list_all_iff)

lemma attributes_quiet: "nothing_exposed isSensitiveKey (\<lambda>s. False) v \<Longrightarrow> redactSensitiveAttributes v = v"
proof (induction v)
  case (JArr xs)
  then show ?case by (simp add: list_all_iff map_idI)
next
  case (JObj fs)
  then have "map (map_prod id redactSensitiveAttributes) fs = fs"
    using quiet_object[OF JObj.prems] by (intro map_fields_id) (auto dest: quiet_object)
  then show ?case using JObj.prems by (simp add: assigned_fields_quiet)
qed simp_all

text \<open>
  Redaction leaves nothing exposed at any depth (a sensitive key holds the token; in the audit log no
  string looks like a credential either), and it changes exactly the values that expose something: it is the
  identity on the others, so redacting twice is redacting once.
\<close>

theorem redaction_exact:
  "nothing_exposed sensitive_key sensitive_value (redactSensitiveLogAttributes v)
   \<and> (redactSensitiveLogAttributes v = v) = nothing_exposed sensitive_key sensitive_value v
   \<and> nothing_exposed isSensitiveKey (\<lambda>s. False) (redactSensitiveAttributes v)
   \<and> (redactSensitiveAttributes v = v) = nothing_exposed isSensitiveKey (\<lambda>s. False) v"
  using log_redacted[of v] log_quiet[of v] attributes_redacted[of v] attributes_quiet[of v] by metis

text \<open>The two lists of keys differ: a key in camel case passes the first.\<close>

lemma camel_case_key_kept:
  "redactSensitiveAttributes (JObj [(''privateKey'', JStr s)]) = JObj [(''privateKey'', JStr s)]"
  "redactSensitiveLogAttributes (JObj [(''privateKey'', JStr s)]) = JObj [(''privateKey'', REDACTED)]"
proof -
  have "\<not> isSensitiveKey ''privateKey''" "sensitive_key ''privateKey''" by code_simp+
  then show "redactSensitiveAttributes (JObj [(''privateKey'', JStr s)]) = JObj [(''privateKey'', JStr s)]"
    "redactSensitiveLogAttributes (JObj [(''privateKey'', JStr s)]) = JObj [(''privateKey'', REDACTED)]"
    by (simp_all add: assigned_fields_def)
qed

section \<open>What a sanitised body is\<close>

primrec strip_keys :: "json \<Rightarrow> json" where
  "strip_keys JNull = JNull"
| "strip_keys (JBool b) = JBool b"
| "strip_keys (JNum r) = JNum r"
| "strip_keys (JStr s) = JStr s"
| "strip_keys (JArr xs) = JArr (map strip_keys xs)"
| "strip_keys (JObj fs) = JObj (filter (\<lambda>kv. \<not> malicious_key (fst kv)) (map (map_prod id strip_keys) fs))"

primrec json_sat :: "(string \<Rightarrow> bool) \<Rightarrow> (rat \<Rightarrow> bool) \<Rightarrow> json \<Rightarrow> bool" where
  "json_sat key num JNull = True"
| "json_sat key num (JBool b) = True"
| "json_sat key num (JNum r) = num r"
| "json_sat key num (JStr s) = True"
| "json_sat key num (JArr xs) = list_all id (map (json_sat key num) xs)"
| "json_sat key num (JObj fs) = (list_all (\<lambda>kv. key (fst kv)) fs \<and> list_all snd (map (map_prod id (json_sat key num)) fs))"

definition safe_number :: "rat \<Rightarrow> bool" where
  "safe_number r \<longleftrightarrow> - MAX_SAFE_NUMBER \<le> r \<and> r \<le> MAX_SAFE_NUMBER"

definition range_message :: string where
  "range_message = ''Numeric parameter is out of acceptable range''"

definition result_if :: "bool \<Rightarrow> 'a \<Rightarrow> string + 'a" where
  "result_if b x = (if b then Inr x else Inl range_message)"

lemma all_results_if:
  "(\<And>x. x \<in> set xs \<Longrightarrow> f x = result_if (P x) (g x)) \<Longrightarrow>
     all_results (map f xs) = result_if (list_all P xs) (map g xs)"
  by (induction xs) (auto simp: result_if_def)

lemma filter_fields:
  "filter (\<lambda>kv. \<not> malicious_key (fst kv)) (map (map_prod id f) fs) =
     map (map_prod id f) (filter (\<lambda>kv. \<not> malicious_key (fst kv)) fs)"
  by (induction fs) auto

lemma sanitize_value_spec:
  "sanitize_value v = result_if (json_sat (\<lambda>k. True) safe_number (strip_keys v)) (strip_keys v)"
proof (induction v)
  case (JNum r)
  then show ?case
    by (auto simp: validateNumber_def result_if_def safe_number_def range_message_def)
next
  case (JArr xs)
  then have "all_results (map sanitize_value xs) =
      result_if (list_all (\<lambda>x. json_sat (\<lambda>k. True) safe_number (strip_keys x)) xs) (map strip_keys xs)"
    by (intro all_results_if) auto
  then show ?case by (simp add: result_if_def list.pred_map o_def)
next
  case (JObj fs)
  let ?gs = "filter (\<lambda>kv. \<not> malicious_key (fst kv)) fs"
  have "all_results (map keep_key (map (map_prod id sanitize_value) ?gs)) =
      result_if (list_all (\<lambda>kv. json_sat (\<lambda>k. True) safe_number (strip_keys (snd kv))) ?gs)
        (map (map_prod id strip_keys) ?gs)"
    unfolding map_map
  proof (intro all_results_if)
    fix x
    assume "x \<in> set ?gs"
    then show "(keep_key \<circ> map_prod id sanitize_value) x =
        result_if (json_sat (\<lambda>k. True) safe_number (strip_keys (snd x))) (map_prod id strip_keys x)"
    proof -
      obtain k v where x: "x = (k, v)" by (cases x)
      with \<open>x \<in> set ?gs\<close> have "sanitize_value v = result_if (json_sat (\<lambda>k. True) safe_number (strip_keys v)) (strip_keys v)"
        using JObj[of "(k, v)" v] by auto
      with x show ?thesis by (auto simp: keep_key_def result_if_def)
    qed
  qed
  then show ?case
    unfolding sanitize_value.simps strip_keys.simps json_sat.simps filter_fields
    by (simp add: result_if_def list.pred_map o_def list.pred_True)
qed (simp_all add: result_if_def)

lemma strip_keys_clean: "json_sat (\<lambda>k. \<not> malicious_key k) (\<lambda>r. True) (strip_keys v)"
  by (induction v) (auto simp: list_all_iff)

text \<open>
  A body passes the sanitiser without any key that could pollute a prototype or inject an operator, at
  any depth, and with every other field as sent; it is refused with 400 exactly when one of the numbers that
  remain is beyond the safe integers.
\<close>

theorem sanitized_body:
  "json_sat (\<lambda>k. \<not> malicious_key k) (\<lambda>r. True) (strip_keys (rq_body req))
   \<and> sanitizationMiddleware req =
     (if \<not> is_object (rq_body req) then Next req
      else if json_sat (\<lambda>k. True) safe_number (strip_keys (rq_body req)) then Next (req\<lparr>rq_body := strip_keys (rq_body req)\<rparr>)
      else Respond (send_error ''Bad Request'' 400 range_message))"
  by (simp add: strip_keys_clean sanitizationMiddleware_def sanitizeObject_def sanitize_value_spec result_if_def)

end
