(* ===== verification/BulkExport.thy ===== *)
theory BulkExport
  imports Exports
begin

text \<open>
  Bulk exports (\<open>backend/src/bulkExportJobs.ts\<close> and their routes in \<open>backend/src/index.ts\<close>).  The awaits inside a job
  are on functions that do no input or output, so a job runs in one turn of the event loop.  A row is a list of
  named strings; the random fields of the simulated rows are the argument \<open>gen\<close>, the coercion of a string or
  an array to a number is the argument \<open>number\<close>.  The writes to the table \<open>BulkExportJob\<close> are not awaited and never read back; the state
  keeps the records they were asked to write.
\<close>

datatype bulk_status = Pending | Processing | Completed | Failed | Cancelled

fun show_bulk_status :: "bulk_status \<Rightarrow> string" where
  "show_bulk_status Pending = ''pending''"
| "show_bulk_status Processing = ''processing''"
| "show_bulk_status Completed = ''completed''"
| "show_bulk_status Failed = ''failed''"
| "show_bulk_status Cancelled = ''cancelled''"

record bulk_job =
  bj_id :: string
  bj_status :: bulk_status
  bj_format :: export_format
  bj_generatedBy :: string
  bj_filters :: json
  bj_totalRows :: nat
  bj_processedRows :: nat
  bj_errorRows :: nat
  bj_artifactId :: "string option"
  bj_errorMessage :: "string option"
  bj_createdAt :: time
  bj_updatedAt :: time
  bj_completedAt :: "time option"

record bulk_artifact =
  ba_id :: string
  ba_body :: string
  ba_contentType :: string
  ba_checksum :: string
  ba_checksumAlgorithm :: string
  ba_rowCount :: nat

type_synonym bulk_row = "(string \<times> string) list"

record bulk_state =
  bs_jobs :: "(string, bulk_job) js_map"
  bs_artifacts :: "(string, bulk_artifact) js_map"
  bs_persisted :: "bulk_job list"

record bulk_env =
  be_sha256 :: "string \<Rightarrow> string"
  be_number :: "json \<Rightarrow> rat option"
  be_gen :: "nat \<Rightarrow> bulk_row"
  be_batchSize :: "int option"

definition resetBulkExportState :: "bulk_state \<Rightarrow> bulk_state" where
  "resetBulkExportState s = s\<lparr>bs_jobs := [], bs_artifacts := []\<rparr>"

section \<open>Jobs\<close>

definition put_job :: "string \<Rightarrow> bulk_job \<Rightarrow> bulk_state \<Rightarrow> bulk_state" where
  "put_job i j s = s\<lparr>bs_jobs := AList.update i j (bs_jobs s), bs_persisted := bs_persisted s @ [j]\<rparr>"

definition createBulkExportJobId :: "time \<Rightarrow> string \<Rightarrow> string" where
  "createBulkExportJobId now hex = ''bulk_'' @ show_int now @ ''_'' @ hex"

definition createBulkExportJob ::
  "time \<Rightarrow> string \<Rightarrow> export_format \<Rightarrow> string \<Rightarrow> json \<Rightarrow> bulk_state \<Rightarrow> bulk_job \<times> bulk_state" where
  "createBulkExportJob now hex format generatedBy filters s =
     (let job = \<lparr>bj_id = createBulkExportJobId now hex, bj_status = Pending, bj_format = format,
            bj_generatedBy = generatedBy, bj_filters = filters, bj_totalRows = 0, bj_processedRows = 0, bj_errorRows = 0,
            bj_artifactId = None, bj_errorMessage = None, bj_createdAt = now, bj_updatedAt = now, bj_completedAt = None\<rparr>
      in (job, put_job (bj_id job) job s))"

definition getBulkExportJob :: "string \<Rightarrow> bulk_state \<Rightarrow> bulk_job option" where
  "getBulkExportJob i s = map_of (bs_jobs s) i"

definition listBulkExportJobs :: "nat \<Rightarrow> bulk_state \<Rightarrow> bulk_job list" where
  "listBulkExportJobs limit s =
     take limit (js_sort (\<lambda>a b. bj_createdAt a < bj_createdAt b) (map snd (bs_jobs s)))"

record bulk_progress =
  bp_status :: "bulk_status option"
  bp_processedRows :: "nat option"
  bp_errorRows :: "nat option"
  bp_totalRows :: "nat option"
  bp_artifactId :: "string option option"
  bp_errorMessage :: "string option option"

definition no_progress :: bulk_progress where
  "no_progress = \<lparr>bp_status = None, bp_processedRows = None, bp_errorRows = None, bp_totalRows = None,
     bp_artifactId = None, bp_errorMessage = None\<rparr>"

definition progressed :: "time \<Rightarrow> bulk_progress \<Rightarrow> bulk_job \<Rightarrow> bulk_job" where
  "progressed now p j = j\<lparr>bj_status := nullish (bp_status p) (bj_status j),
     bj_processedRows := nullish (bp_processedRows p) (bj_processedRows j),
     bj_errorRows := nullish (bp_errorRows p) (bj_errorRows j),
     bj_totalRows := nullish (bp_totalRows p) (bj_totalRows j),
     bj_artifactId := nullish (bp_artifactId p) (bj_artifactId j),
     bj_errorMessage := nullish (bp_errorMessage p) (bj_errorMessage j),
     bj_updatedAt := now,
     bj_completedAt := (if bp_status p = Some Completed \<or> bp_status p = Some Failed then Some now else bj_completedAt j)\<rparr>"

definition updateBulkExportProgress :: "time \<Rightarrow> string \<Rightarrow> bulk_progress \<Rightarrow> bulk_state \<Rightarrow> bulk_state" where
  "updateBulkExportProgress now i p s =
     (case map_of (bs_jobs s) i of None \<Rightarrow> s | Some j \<Rightarrow> put_job i (progressed now p j) s)"

definition cancelBulkExportJob :: "time \<Rightarrow> string \<Rightarrow> bulk_state \<Rightarrow> bool \<times> bulk_state" where
  "cancelBulkExportJob now i s =
     (case map_of (bs_jobs s) i of
        None \<Rightarrow> (False, s)
      | Some j \<Rightarrow>
          if bj_status j = Completed \<or> bj_status j = Failed \<or> bj_status j = Cancelled then (False, s)
          else (True, updateBulkExportProgress now i
                  (no_progress\<lparr>bp_status := Some Cancelled, bp_errorMessage := Some (Some ''Cancelled by admin'')\<rparr>) s))"

definition storeBulkExportArtifact :: "string \<Rightarrow> bulk_artifact \<Rightarrow> bulk_state \<Rightarrow> bulk_state" where
  "storeBulkExportArtifact i a s = s\<lparr>bs_artifacts := AList.update i a (bs_artifacts s)\<rparr>"

definition getBulkExportArtifact :: "string \<Rightarrow> bulk_state \<Rightarrow> bulk_artifact option" where
  "getBulkExportArtifact i s = map_of (bs_artifacts s) i"

section \<open>Rows and bodies\<close>

definition nl :: string where
  "nl = [CHR 0x0A]"

definition bulk_csv_value :: "string \<Rightarrow> string" where
  "bulk_csv_value v =
     (if CHR '','' \<in> set v \<or> CHR 0x22 \<in> set v \<or> CHR 0x0A \<in> set v then escapeCsvValue v else v)"

definition bulk_csv :: "bulk_row list \<Rightarrow> string" where
  "bulk_csv rows =
     (case rows of
        [] \<Rightarrow> []
      | r # _ \<Rightarrow>
          let headers = map fst r;
              line = (\<lambda>row. js_join '','' (map (\<lambda>h. bulk_csv_value (nullish (map_of row h) [])) headers))
          in js_join nl (js_join '','' headers # map line rows))"

text \<open>\<open>JSON.stringify\<close> with an indentation of two, for a list of flat objects.\<close>

definition pretty_row :: "bulk_row \<Rightarrow> string" where
  "pretty_row row =
     (if row = [] then ''  {}''
      else ''  {'' @ nl @ js_join ('','' @ nl) (map (\<lambda>(k, v). ''    '' @ json_string k @ '': '' @ json_string v) row)
        @ nl @ ''  }'')"

definition bulk_json :: "bulk_row list \<Rightarrow> string" where
  "bulk_json rows = (if rows = [] then ''[]'' else ''['' @ nl @ js_join ('','' @ nl) (map pretty_row rows) @ nl @ '']'')"

definition buildBulkExportArtifact :: "bulk_env \<Rightarrow> time \<Rightarrow> string \<Rightarrow> export_format \<Rightarrow> bulk_row list \<Rightarrow> bulk_artifact" where
  "buildBulkExportArtifact BE now hex format rows =
     (let body = (case format of Csv \<Rightarrow> bulk_csv rows | Json \<Rightarrow> bulk_json rows)
      in \<lparr>ba_id = ''bulk_art_'' @ show_int now @ ''_'' @ hex, ba_body = body,
          ba_contentType = (case format of Csv \<Rightarrow> ''text/csv'' | Json \<Rightarrow> ''application/json''),
          ba_checksum = be_sha256 BE body, ba_checksumAlgorithm = ''sha256'', ba_rowCount = length rows\<rparr>)"

definition json_number :: "bulk_env \<Rightarrow> json option \<Rightarrow> rat option" where
  "json_number BE v =
     (case v of
        Some (JNum r) \<Rightarrow> Some r
      | Some (JStr s) \<Rightarrow> be_number BE (JStr s)
      | Some (JArr xs) \<Rightarrow> be_number BE (JArr xs)
      | Some (JBool b) \<Rightarrow> Some (if b then 1 else 0)
      | Some JNull \<Rightarrow> Some 0
      | _ \<Rightarrow> None)"

definition json_get :: "json \<Rightarrow> string \<Rightarrow> json option" where
  "json_get v k = (case v of JObj fs \<Rightarrow> map_of fs k | _ \<Rightarrow> None)"

definition bulk_row_count :: "bulk_env \<Rightarrow> json \<Rightarrow> rat" where
  "bulk_row_count BE filters =
     (let n = (case json_number BE (json_get filters ''limit'') of None \<Rightarrow> 100 | Some r \<Rightarrow> if r = 0 then 100 else r)
      in min (max n 1) 50000)"

definition simulateTransactionFetch :: "bulk_env \<Rightarrow> json \<Rightarrow> bulk_row list" where
  "simulateTransactionFetch BE filters =
     map (\<lambda>i. (''id'', ''tx_'' @ show_nat i) # be_gen BE i) [0..<nat \<lceil>bulk_row_count BE filters\<rceil>]"

text \<open>The loop over the rows: \<open>batch\<close> rows since the last report, \<open>processed\<close> rows so far.\<close>

fun bulk_rows :: "int option \<Rightarrow> time \<Rightarrow> string \<Rightarrow> nat \<Rightarrow> bulk_row list \<Rightarrow> nat \<Rightarrow> nat \<Rightarrow> bulk_state \<Rightarrow> nat \<times> bulk_state" where
  "bulk_rows bsz now i totalRows [] batch processed s = (processed, s)"
| "bulk_rows bsz now i totalRows (r # rs) batch processed s =
     (let batch' = batch + 1; processed' = processed + 1
      in if (case bsz of None \<Rightarrow> False | Some b \<Rightarrow> b \<le> int batch') \<or> processed' = totalRows
         then bulk_rows bsz now i totalRows rs 0 processed'
                (updateBulkExportProgress now i (no_progress\<lparr>bp_processedRows := Some processed', bp_errorRows := Some 0\<rparr>) s)
         else bulk_rows bsz now i totalRows rs batch' processed' s)"

text \<open>\<open>fault\<close> is the message of an error raised while the artifact is built.\<close>

definition processBulkExportJob ::
  "bulk_env \<Rightarrow> time \<Rightarrow> string \<Rightarrow> string option \<Rightarrow> string \<Rightarrow> bulk_state \<Rightarrow> bulk_state" where
  "processBulkExportJob BE now hex fault i s =
     (case map_of (bs_jobs s) i of
        None \<Rightarrow> s
      | Some job \<Rightarrow>
          if bj_status job \<noteq> Pending then s
          else
            let s1 = updateBulkExportProgress now i (no_progress\<lparr>bp_status := Some Processing\<rparr>) s;
                rows = simulateTransactionFetch BE (bj_filters job);
                s2 = updateBulkExportProgress now i (no_progress\<lparr>bp_totalRows := Some (length rows)\<rparr>) s1;
                (processed, s3) = bulk_rows (be_batchSize BE) now i (length rows) rows 0 0 s2
            in case fault of
                 Some m \<Rightarrow> updateBulkExportProgress now i
                     (no_progress\<lparr>bp_status := Some Failed, bp_errorMessage := Some (Some m)\<rparr>) s3
               | None \<Rightarrow>
                   let artifact = buildBulkExportArtifact BE now hex (bj_format job) rows
                   in updateBulkExportProgress now i
                        (no_progress\<lparr>bp_status := Some Completed, bp_processedRows := Some processed, bp_errorRows := Some 0,
                           bp_artifactId := Some (Some (ba_id artifact))\<rparr>)
                        (storeBulkExportArtifact (ba_id artifact) artifact s3))"

section \<open>Routes\<close>

definition bulk_status_prop :: "bulk_job \<Rightarrow> json" where
  "bulk_status_prop j = JObj
     [(''id'', JStr (bj_id j)), (''status'', JStr (show_bulk_status (bj_status j))), (''format'', JStr (show_format (bj_format j))),
      (''generatedBy'', JStr (bj_generatedBy j)), (''filters'', bj_filters j), (''totalRows'', jint (int (bj_totalRows j))),
      (''processedRows'', jint (int (bj_processedRows j))), (''errorRows'', jint (int (bj_errorRows j))),
      (''artifactId'', json_opt JStr (bj_artifactId j)), (''errorMessage'', json_opt JStr (bj_errorMessage j)),
      (''createdAt'', JStr (to_iso_string (bj_createdAt j))), (''updatedAt'', JStr (to_iso_string (bj_updatedAt j))),
      (''completedAt'', json_opt (\<lambda>t. JStr (to_iso_string t)) (bj_completedAt j))]"

definition json_truthy :: "json option \<Rightarrow> bool" where
  "json_truthy v =
     (case v of None \<Rightarrow> False | Some JNull \<Rightarrow> False | Some (JBool b) \<Rightarrow> b | Some (JNum r) \<Rightarrow> r \<noteq> 0 | Some (JStr t) \<Rightarrow> t \<noteq> []
      | _ \<Rightarrow> True)"

definition post_bulk ::
  "bulk_env \<Rightarrow> time \<Rightarrow> string \<Rightarrow> string \<Rightarrow> string option \<Rightarrow> request \<Rightarrow> bulk_state \<Rightarrow> response \<times> bulk_state" where
  "post_bulk BE now hexJob hexArtifact fault req s =
     (case resolveExportFormat (body_string req ''format'') of
        None \<Rightarrow> (send_error ''Bad Request'' 400 ''format must be either csv or json'', s)
      | Some format \<Rightarrow>
          let filters = (if json_truthy (body_field req ''filters'') then the (body_field req ''filters'') else JObj []);
              (job, s1) = createBulkExportJob now hexJob format (resolveExportGeneratedBy req) filters s
          in (send_json 201 (JObj [(''message'', JStr ''Bulk export job created''), (''job'', bulk_status_prop job),
                (''timestamp'', JStr (to_iso_string now))]),
              processBulkExportJob BE now hexArtifact fault (bj_id job) s1))"

definition get_bulk :: "string \<Rightarrow> bulk_state \<Rightarrow> response" where
  "get_bulk i s =
     (case getBulkExportJob i s of
        None \<Rightarrow> send_error ''Not Found'' 404 ''Bulk export job not found''
      | Some j \<Rightarrow> send_json 200 (JObj [(''job'', bulk_status_prop j)]))"

definition cancel_bulk :: "time \<Rightarrow> string \<Rightarrow> bulk_state \<Rightarrow> response \<times> bulk_state" where
  "cancel_bulk now i s =
     (case cancelBulkExportJob now i s of
        (True, s') \<Rightarrow> (send_json 200 (JObj [(''message'', JStr ''Bulk export job cancelled''),
            (''timestamp'', JStr (to_iso_string now))]), s')
      | (False, s') \<Rightarrow>
          (case getBulkExportJob i s' of
             None \<Rightarrow> (send_error ''Not Found'' 404 ''Bulk export job not found'', s')
           | Some j \<Rightarrow> (send_error ''Conflict'' 409 (''Bulk export job is already '' @ show_bulk_status (bj_status j)
               @ '' and cannot be cancelled''), s')))"

definition get_artifact :: "string \<Rightarrow> bulk_state \<Rightarrow> response" where
  "get_artifact i s =
     (case getBulkExportArtifact i s of
        None \<Rightarrow> send_error ''Not Found'' 404 ''Bulk export artifact not found or expired''
      | Some a \<Rightarrow> send_json_with
          [(''Content-Type'', JStr (ba_contentType a)),
           (''Content-Disposition'', JStr (''attachment; filename='' @ [CHR 0x22] @ ''bulk-export-'' @ ba_id a @ ''.''
              @ (if ba_contentType a = ''text/csv'' then ''csv'' else ''json'') @ [CHR 0x22])),
           (''X-Artifact-Checksum'', JStr (ba_checksum a)),
           (''X-Artifact-Checksum-Algorithm'', JStr (ba_checksumAlgorithm a)),
           (''X-Artifact-Row-Count'', JStr (show_nat (ba_rowCount a)))]
          200 (JStr (ba_body a)))"

section \<open>A job runs to its end\<close>

lemma jobs_update:
  "map_of (bs_jobs s) i = Some j \<Longrightarrow>
     updateBulkExportProgress now i p s = put_job i (progressed now p j) s"
  by (simp add: updateBulkExportProgress_def)

lemma put_job_simps [simp]:
  "map_of (bs_jobs (put_job i j s)) k = (if k = i then Some j else map_of (bs_jobs s) k)"
  "bs_artifacts (put_job i j s) = bs_artifacts s"
  by (simp_all add: put_job_def update_conv')

lemma store_artifact_simps [simp]:
  "bs_jobs (storeBulkExportArtifact i a s) = bs_jobs s"
  "bs_artifacts (storeBulkExportArtifact i a s) = AList.update i a (bs_artifacts s)"
  by (simp_all add: storeBulkExportArtifact_def)

lemma bulk_rows_spec:
  assumes "map_of (bs_jobs s) i = Some j" "bj_id j = i"
  shows "\<exists>s' a b c. bulk_rows bsz now i totalRows rows batch processed s = (processed + length rows, s')
    \<and> map_of (bs_jobs s') i = Some (j\<lparr>bj_processedRows := a, bj_errorRows := b, bj_updatedAt := c\<rparr>)
    \<and> (\<forall>k. k \<noteq> i \<longrightarrow> map_of (bs_jobs s') k = map_of (bs_jobs s) k) \<and> bs_artifacts s' = bs_artifacts s"
  using assms
proof (induction bsz now i totalRows rows batch processed s arbitrary: j rule: bulk_rows.induct)
  case (1 bsz now i totalRows batch processed s)
  then show ?case
    by (intro exI[of _ s] exI[of _ "bj_processedRows j"] exI[of _ "bj_errorRows j"] exI[of _ "bj_updatedAt j"]) simp
next
  case (2 bsz now i totalRows r rs batch processed s)
  show ?case
  proof (cases "(case bsz of None \<Rightarrow> False | Some b \<Rightarrow> b \<le> int (batch + 1)) \<or> processed + 1 = totalRows")
    case True
    let ?s = "updateBulkExportProgress now i (no_progress\<lparr>bp_processedRows := Some (processed + 1), bp_errorRows := Some 0\<rparr>) s"
    let ?j = "j\<lparr>bj_processedRows := processed + 1, bj_errorRows := 0, bj_updatedAt := now\<rparr>"
    have u: "?s = put_job i ?j s"
      using 2(3,4) by (simp add: jobs_update progressed_def no_progress_def)
    then have "map_of (bs_jobs ?s) i = Some ?j" "bj_id ?j = i" using 2(4) by simp_all
    note ih = 2(1)[OF refl refl True this]
    have "bulk_rows bsz now i totalRows (r # rs) batch processed s = bulk_rows bsz now i totalRows rs 0 (processed + 1) ?s"
      by (simp only: bulk_rows.simps Let_def True if_True)
    with ih u 2(4) show ?thesis by auto
  next
    case False
    have "bulk_rows bsz now i totalRows (r # rs) batch processed s = bulk_rows bsz now i totalRows rs (batch + 1) (processed + 1) s"
      by (simp only: bulk_rows.simps Let_def False if_False)
    with 2(2)[OF refl refl False 2(3,4)] show ?thesis by simp
  qed
qed

definition finished :: "time \<Rightarrow> nat \<Rightarrow> string \<Rightarrow> bulk_job \<Rightarrow> bulk_job" where
  "finished now n a j = j\<lparr>bj_status := Completed, bj_totalRows := n, bj_processedRows := n, bj_errorRows := 0,
     bj_artifactId := Some a, bj_updatedAt := now, bj_completedAt := Some now\<rparr>"

lemma process_pending:
  assumes j: "map_of (bs_jobs s) i = Some j" "bj_id j = i" "bj_status j = Pending"
  shows "\<exists>j'. map_of (bs_jobs (processBulkExportJob BE now hex fault i s)) i = Some j'
    \<and> (\<forall>k. k \<noteq> i \<longrightarrow> map_of (bs_jobs (processBulkExportJob BE now hex fault i s)) k = map_of (bs_jobs s) k)
    \<and> (case fault of
          None \<Rightarrow>
            let rows = simulateTransactionFetch BE (bj_filters j);
                a = buildBulkExportArtifact BE now hex (bj_format j) rows
            in j' = finished now (length rows) (ba_id a) j
               \<and> bs_artifacts (processBulkExportJob BE now hex fault i s) = AList.update (ba_id a) a (bs_artifacts s)
        | Some m \<Rightarrow> bj_status j' = Failed \<and> bj_id j' = i \<and> bj_errorMessage j' = Some m
            \<and> bs_artifacts (processBulkExportJob BE now hex fault i s) = bs_artifacts s)"
proof -
  define rows where "rows = simulateTransactionFetch BE (bj_filters j)"
  define s1 where "s1 = updateBulkExportProgress now i (no_progress\<lparr>bp_status := Some Processing\<rparr>) s"
  define s2 where "s2 = updateBulkExportProgress now i (no_progress\<lparr>bp_totalRows := Some (length rows)\<rparr>) s1"
  let ?j2 = "j\<lparr>bj_status := Processing, bj_totalRows := length rows, bj_updatedAt := now\<rparr>"
  have s1: "s1 = put_job i (j\<lparr>bj_status := Processing, bj_updatedAt := now\<rparr>) s"
    using j by (simp add: s1_def jobs_update progressed_def no_progress_def)
  have s2: "s2 = put_job i ?j2 s1"
    unfolding s2_def using j by (subst jobs_update[of _ _ "j\<lparr>bj_status := Processing, bj_updatedAt := now\<rparr>"])
      (simp_all add: s1 progressed_def no_progress_def)
  have "map_of (bs_jobs s2) i = Some ?j2" "bj_id ?j2 = i" using j by (simp_all add: s2)
  from bulk_rows_spec[OF this, of "be_batchSize BE" now "length rows" rows 0 0] obtain s3 a b c where s3:
    "bulk_rows (be_batchSize BE) now i (length rows) rows 0 0 s2 = (length rows, s3)"
    "map_of (bs_jobs s3) i = Some (?j2\<lparr>bj_processedRows := a, bj_errorRows := b, bj_updatedAt := c\<rparr>)"
    "\<forall>k. k \<noteq> i \<longrightarrow> map_of (bs_jobs s3) k = map_of (bs_jobs s) k" "bs_artifacts s3 = bs_artifacts s"
    using j by (auto simp: s1 s2)
  let ?art = "buildBulkExportArtifact BE now hex (bj_format j) rows"
  have eq: "processBulkExportJob BE now hex fault i s =
      (case fault of
         Some m \<Rightarrow> updateBulkExportProgress now i
             (no_progress\<lparr>bp_status := Some Failed, bp_errorMessage := Some (Some m)\<rparr>) s3
       | None \<Rightarrow> updateBulkExportProgress now i
             (no_progress\<lparr>bp_status := Some Completed, bp_processedRows := Some (length rows), bp_errorRows := Some 0,
                bp_artifactId := Some (Some (ba_id ?art))\<rparr>) (storeBulkExportArtifact (ba_id ?art) ?art s3))"
    using j s3(1)
    by (cases fault) (simp_all add: processBulkExportJob_def Let_def rows_def[symmetric] s1_def[symmetric] s2_def[symmetric])
  show ?thesis
  proof (cases fault)
    case None
    have "map_of (bs_jobs (storeBulkExportArtifact (ba_id ?art) ?art s3)) i =
        Some (?j2\<lparr>bj_processedRows := a, bj_errorRows := b, bj_updatedAt := c\<rparr>)"
      using s3(2) by simp
    note u = jobs_update[OF this]
    show ?thesis unfolding eq using j s3(3,4)
      by (simp add: None u progressed_def no_progress_def finished_def rows_def[symmetric] Let_def)
  next
    case (Some m)
    show ?thesis unfolding eq using j s3(3,4)
      by (simp add: Some jobs_update[OF s3(2)] progressed_def no_progress_def)
  qed
qed

section \<open>Runs of the routes\<close>

definition settled_job :: "bulk_job \<Rightarrow> bool" where
  "settled_job j \<longleftrightarrow> bj_status j = Failed \<or>
     (bj_status j = Completed \<and> bj_processedRows j = bj_totalRows j \<and> bj_errorRows j = 0
      \<and> bj_artifactId j \<noteq> None \<and> bj_completedAt j \<noteq> None)"

definition all_settled :: "bulk_state \<Rightarrow> bool" where
  "all_settled s \<longleftrightarrow> (\<forall>i j. map_of (bs_jobs s) i = Some j \<longrightarrow> settled_job j)"

datatype bulk_call = PostBulk time string string "string option" request | CancelBulk time string

fun bulk_call_step :: "bulk_env \<Rightarrow> bulk_call \<Rightarrow> bulk_state \<Rightarrow> response \<times> bulk_state" where
  "bulk_call_step BE (PostBulk now hexJob hexArtifact fault req) s = post_bulk BE now hexJob hexArtifact fault req s"
| "bulk_call_step BE (CancelBulk now i) s = cancel_bulk now i s"

fun bulk_run :: "bulk_env \<Rightarrow> bulk_call list \<Rightarrow> bulk_state \<Rightarrow> bulk_state" where
  "bulk_run BE [] s = s"
| "bulk_run BE (c # cs) s = bulk_run BE cs (snd (bulk_call_step BE c s))"

definition no_bulk_jobs :: bulk_state where
  "no_bulk_jobs = \<lparr>bs_jobs = [], bs_artifacts = [], bs_persisted = []\<rparr>"

lemma post_bulk_settled:
  assumes "all_settled s"
  shows "all_settled (snd (post_bulk BE now hexJob hexArtifact fault req s))"
proof (cases "resolveExportFormat (body_string req ''format'')")
  case None
  then show ?thesis using assms by (simp add: post_bulk_def)
next
  case (Some format)
  define filters where "filters = (if json_truthy (body_field req ''filters'') then the (body_field req ''filters'') else JObj [])"
  obtain job s1 where c: "createBulkExportJob now hexJob format (resolveExportGeneratedBy req) filters s = (job, s1)"
    by fastforce
  then have j: "map_of (bs_jobs s1) (bj_id job) = Some job" "bj_status job = Pending"
    and frame: "k \<noteq> bj_id job \<Longrightarrow> map_of (bs_jobs s1) k = map_of (bs_jobs s) k" for k
    by (auto simp: createBulkExportJob_def Let_def)
  have eq: "snd (post_bulk BE now hexJob hexArtifact fault req s) = processBulkExportJob BE now hexArtifact fault (bj_id job) s1"
    using Some c by (simp add: post_bulk_def filters_def Let_def)
  from process_pending[OF j(1) refl j(2), of BE now hexArtifact fault] obtain j' where
    j': "map_of (bs_jobs (processBulkExportJob BE now hexArtifact fault (bj_id job) s1)) (bj_id job) = Some j'" "settled_job j'"
    "\<forall>k. k \<noteq> bj_id job \<longrightarrow>
       map_of (bs_jobs (processBulkExportJob BE now hexArtifact fault (bj_id job) s1)) k = map_of (bs_jobs s1) k"
    by (cases fault) (auto simp: settled_job_def finished_def Let_def)
  show ?thesis unfolding eq all_settled_def
  proof (intro allI impI)
    fix k x
    assume "map_of (bs_jobs (processBulkExportJob BE now hexArtifact fault (bj_id job) s1)) k = Some x"
    then show "settled_job x" using j' frame assms by (cases "k = bj_id job") (auto simp: all_settled_def)
  qed
qed

lemma cancel_settled:
  assumes "all_settled s"
  shows "cancelBulkExportJob now i s = (False, s)"
  using assms by (auto simp: all_settled_def settled_job_def cancelBulkExportJob_def split: option.splits)

lemma bulk_run_settled: "all_settled s \<Longrightarrow> all_settled (bulk_run BE cs s)"
proof (induction cs arbitrary: s)
  case (Cons c cs)
  then show ?case
  proof (cases c)
    case (CancelBulk now i)
    then have "snd (bulk_call_step BE c s) = s"
      using cancel_settled[OF Cons.prems] by (simp add: cancel_bulk_def split: option.splits)
    with Cons show ?thesis by simp
  qed (simp add: post_bulk_settled)
qed simp

text \<open>
  Whatever requests create and cancel bulk exports, every job a later request sees has ended: it failed, or
  it is completed with all its rows processed and an artifact.  No cancellation ever succeeds: it is answered
  404 for an unknown job and 409 otherwise, and changes nothing.
\<close>

theorem bulk_jobs_settle:
  "all_settled (bulk_run BE cs no_bulk_jobs)
   \<and> snd (cancel_bulk now i (bulk_run BE cs no_bulk_jobs)) = bulk_run BE cs no_bulk_jobs
   \<and> rs_status (fst (cancel_bulk now i (bulk_run BE cs no_bulk_jobs))) =
       (if map_of (bs_jobs (bulk_run BE cs no_bulk_jobs)) i = None then 404 else 409)"
proof -
  have a: "all_settled (bulk_run BE cs no_bulk_jobs)"
    by (rule bulk_run_settled) (simp add: all_settled_def no_bulk_jobs_def)
  show ?thesis using a cancel_settled[OF a, of now i] by (simp add: cancel_bulk_def getBulkExportJob_def split: option.splits)
qed

text \<open>
  A bulk export that is created and meets no error is complete: the job counts exactly the rows fetched for
  its filters, and the artifact it names is stored with their number, the body in the format asked for and the
  checksum of that body.  Other jobs are untouched.
\<close>

theorem bulk_export_completes:
  assumes "resolveExportFormat (body_string req ''format'') = Some format"
    and "body_field req ''filters'' = Some (JObj fs)"
    and "post_bulk BE now hexJob hexArtifact None req s = (resp, s')"
  shows "\<exists>i j a. rs_status resp = 201 \<and> i = createBulkExportJobId now hexJob \<and> map_of (bs_jobs s') i = Some j \<and> bj_status j = Completed
    \<and> bj_totalRows j = length (simulateTransactionFetch BE (JObj fs)) \<and> bj_processedRows j = bj_totalRows j
    \<and> bj_artifactId j = Some (ba_id a) \<and> map_of (bs_artifacts s') (ba_id a) = Some a
    \<and> ba_rowCount a = bj_totalRows j \<and> ba_checksum a = be_sha256 BE (ba_body a)
    \<and> ba_body a = (case format of Csv \<Rightarrow> bulk_csv (simulateTransactionFetch BE (JObj fs))
        | Json \<Rightarrow> bulk_json (simulateTransactionFetch BE (JObj fs)))
    \<and> (\<forall>k. k \<noteq> i \<longrightarrow> map_of (bs_jobs s') k = map_of (bs_jobs s) k)"
proof -
  obtain job s1 where c: "createBulkExportJob now hexJob format (resolveExportGeneratedBy req) (JObj fs) s = (job, s1)"
    by fastforce
  then have j: "map_of (bs_jobs s1) (bj_id job) = Some job" "bj_status job = Pending" "bj_filters job = JObj fs"
      "bj_format job = format" "bj_id job = createBulkExportJobId now hexJob"
    and frame: "k \<noteq> bj_id job \<Longrightarrow> map_of (bs_jobs s1) k = map_of (bs_jobs s) k" for k
    by (auto simp: createBulkExportJob_def Let_def)
  have eq: "s' = processBulkExportJob BE now hexArtifact None (bj_id job) s1" "rs_status resp = 201"
    using assms c by (auto simp: post_bulk_def json_truthy_def Let_def)
  define a where "a = buildBulkExportArtifact BE now hexArtifact format (simulateTransactionFetch BE (JObj fs))"
  from process_pending[OF j(1) refl j(2), of BE now hexArtifact None] j
  have p: "map_of (bs_jobs (processBulkExportJob BE now hexArtifact None (bj_id job) s1)) (bj_id job) =
        Some (finished now (length (simulateTransactionFetch BE (JObj fs))) (ba_id a) job)"
    "\<forall>k. k \<noteq> bj_id job \<longrightarrow> map_of (bs_jobs (processBulkExportJob BE now hexArtifact None (bj_id job) s1)) k = map_of (bs_jobs s1) k"
    "map_of (bs_artifacts (processBulkExportJob BE now hexArtifact None (bj_id job) s1)) (ba_id a) = Some a"
    by (simp_all add: a_def[symmetric] Let_def update_conv')
  show ?thesis
    by (rule exI[of _ "bj_id job"],
        rule exI[of _ "finished now (length (simulateTransactionFetch BE (JObj fs))) (ba_id a) job"], rule exI[of _ a])
      (use p eq frame j(5) in \<open>simp add: finished_def a_def buildBulkExportArtifact_def Let_def\<close>)
qed

definition sample_bulk_env :: bulk_env where
  "sample_bulk_env = \<lparr>be_sha256 = (\<lambda>s. show_nat (length s)), be_number = (\<lambda>v. None),
     be_gen = (\<lambda>i. [(''user'', ''G'' @ show_nat i), (''amount'', ''1.00'')]), be_batchSize = Some 2\<rparr>"

definition sample_bulk_request :: request where
  "sample_bulk_request = blank_request\<lparr>rq_body := JObj [(''format'', JStr ''csv''), (''filters'', JObj [(''limit'', JNum 3)])]\<rparr>"

theorem bulk_export_completes_witness:
  "\<exists>i j. i = createBulkExportJobId 0 ''aa''
     \<and> map_of (bs_jobs (snd (post_bulk sample_bulk_env 0 ''aa'' ''bb'' None sample_bulk_request no_bulk_jobs))) i = Some j
     \<and> bj_status j = Completed"
proof -
  have "resolveExportFormat (body_string sample_bulk_request ''format'') = Some Csv"
    "body_field sample_bulk_request ''filters'' = Some (JObj [(''limit'', JNum 3)])"
    by (simp_all add: sample_bulk_request_def body_string_def body_field_def resolveExportFormat_def)
  from bulk_export_completes[OF this, of sample_bulk_env 0 "''aa''" "''bb''" no_bulk_jobs, OF surjective_pairing]
  show ?thesis by (elim exE conjE) (intro exI conjI, assumption+)
qed

end
