(* ===== verification/DatabasePool.thy ===== *)
theory DatabasePool
  imports Http
begin

text \<open>
  Routing of queries between the primary database and its read replica (\<open>backend/src/database.ts\<close>).  A pool is
  the interface \<open>IDatabasePool\<close>: a query gives rows or the message of an error, and changes the pool.  The pool
  the program builds is \<open>MockDatabasePool\<close>.
\<close>

type_synonym db_rows = "json list"

record 'p db_pool =
  pl_query :: "string \<Rightarrow> json list \<Rightarrow> 'p \<Rightarrow> (string + db_rows) \<times> 'p"
  pl_isHealthy :: "'p \<Rightarrow> bool option"

record 'p db_manager =
  dm_primary :: 'p
  dm_replica :: 'p

definition isReadQuery :: "string \<Rightarrow> bool" where
  "isReadQuery text0 =
     (let trimmed = js_lower (js_trim text0) in starts_with ''select'' trimmed \<or> starts_with ''with'' trimmed)"

definition queryPrimary :: "'p db_pool \<Rightarrow> string \<Rightarrow> json list \<Rightarrow> 'p db_manager \<Rightarrow> (string + db_rows) \<times> 'p db_manager" where
  "queryPrimary P text0 params m =
     (let (r, p) = pl_query P text0 params (dm_primary m) in (r, m\<lparr>dm_primary := p\<rparr>))"

definition queryReplica :: "'p db_pool \<Rightarrow> string \<Rightarrow> json list \<Rightarrow> 'p db_manager \<Rightarrow> (string + db_rows) \<times> 'p db_manager" where
  "queryReplica P text0 params m =
     (let (r, p) = pl_query P text0 params (dm_replica m) in (r, m\<lparr>dm_replica := p\<rparr>))"

definition db_query :: "'p db_pool \<Rightarrow> string \<Rightarrow> json list \<Rightarrow> 'p db_manager \<Rightarrow> (string + db_rows) \<times> 'p db_manager" where
  "db_query P text0 params m =
     (if isReadQuery text0
      then (case queryReplica P text0 params m of
              (Inr rows, m') \<Rightarrow> (Inr rows, m')
            | (Inl e, m') \<Rightarrow> queryPrimary P text0 params m')
      else queryPrimary P text0 params m)"

definition estimatedCount :: "'p db_pool \<Rightarrow> string \<Rightarrow> 'p db_manager \<Rightarrow> (string + json) \<times> 'p db_manager" where
  "estimatedCount P table m =
     (case queryReplica P (''SELECT COUNT(*) as count FROM '' @ [CHR 0x22] @ table @ [CHR 0x22]) [] m of
        (Inl e, m') \<Rightarrow> (Inl e, m')
      | (Inr rows, m') \<Rightarrow>
          (Inr (case rows of JObj fs # _ \<Rightarrow> (case map_of fs ''count'' of Some JNull \<Rightarrow> JNum 0 | Some c \<Rightarrow> c | None \<Rightarrow> JNum 0)
                | _ \<Rightarrow> JNum 0), m'))"

definition isReplicaHealthy :: "'p db_pool \<Rightarrow> 'p db_manager \<Rightarrow> bool option" where
  "isReplicaHealthy P m = pl_isHealthy P (dm_replica m)"

definition getHealth :: "'p db_pool \<Rightarrow> 'p db_manager \<Rightarrow> string \<times> string" where
  "getHealth P m =
     (let up = (\<lambda>p. if pl_isHealthy P p = Some True then ''up'' else ''down'') in (up (dm_primary m), up (dm_replica m)))"

section \<open>The pool of the program\<close>

record mock_pool =
  mp_name :: string
  mp_failNext :: bool

definition mock_query :: "string \<Rightarrow> json list \<Rightarrow> mock_pool \<Rightarrow> (string + db_rows) \<times> mock_pool" where
  "mock_query text0 params p =
     (if mp_failNext p then (Inl (''Database error in '' @ mp_name p), p\<lparr>mp_failNext := False\<rparr>) else (Inr [], p))"

definition setFailNext :: "bool \<Rightarrow> mock_pool \<Rightarrow> mock_pool" where
  "setFailNext b p = p\<lparr>mp_failNext := b\<rparr>"

definition MockDatabasePool :: "mock_pool db_pool" where
  "MockDatabasePool = \<lparr>pl_query = mock_query, pl_isHealthy = (\<lambda>p. Some (\<not> mp_failNext p))\<rparr>"

definition DatabaseManager :: "mock_pool db_manager" where
  "DatabaseManager = \<lparr>dm_primary = \<lparr>mp_name = ''primary'', mp_failNext = False\<rparr>,
     dm_replica = \<lparr>mp_name = ''replica'', mp_failNext = False\<rparr>\<rparr>"

section \<open>Routing\<close>

lemma write_on_primary:
  "\<not> isReadQuery q \<Longrightarrow> db_query P q ps m = queryPrimary P q ps m \<and> dm_replica (snd (db_query P q ps m)) = dm_replica m"
  by (simp add: db_query_def queryPrimary_def split: prod.splits)

lemma read_fails_over:
  "isReadQuery q \<Longrightarrow> fst (db_query P q ps m) =
     (case fst (pl_query P q ps (dm_replica m)) of Inr rows \<Rightarrow> Inr rows | Inl e \<Rightarrow> fst (pl_query P q ps (dm_primary m)))"
  by (simp add: db_query_def queryReplica_def queryPrimary_def split: prod.splits sum.splits)

text \<open>A statement that begins with a common table expression is routed as a read, even when it writes.\<close>

lemma with_write_on_replica: "isReadQuery ''WITH moved AS (DELETE FROM a RETURNING id) INSERT INTO b SELECT id FROM moved''"
  by code_simp

text \<open>
  A query is answered whenever the primary answers it, and fails only with the error of the primary; a
  query that is not a read leaves the replica alone.
\<close>

theorem query_answered_by_primary:
  assumes "fst (db_query P q ps m) = Inl e"
  shows "fst (pl_query P q ps (dm_primary m)) = Inl e
    \<and> (isReadQuery q \<or> dm_replica (snd (db_query P q ps m)) = dm_replica m)"
  using assms read_fails_over[of q P ps m] write_on_primary[of q P ps m]
  by (cases "isReadQuery q") (auto simp: queryPrimary_def split: prod.splits sum.splits)

end
