(* ===== verification/CalendarOrder.thy ===== *)
theory CalendarOrder
  imports Calendar
begin

text \<open>
  The dates \<open>YYYY-MM-DD\<close> of the years 0 to 9999 are ordered, as strings, like the days they name.  The civil date
  of a day is compared through its month index and its day of the month, which grow from each day to the next.
\<close>

lemma div_step:
  assumes "0 < (k :: int)"
  shows "a div k \<le> (a + 1) div k" "(a + 1) div k \<le> a div k + 1"
proof -
  show "a div k \<le> (a + 1) div k" using assms by (intro zdiv_mono1) simp_all
  have "(a + 1) div k \<le> (a + k) div k" using assms by (intro zdiv_mono1) simp_all
  then show "(a + 1) div k \<le> a div k + 1" using assms by simp
qed

lemma div_bounds:
  assumes "0 < (k :: int)"
  shows "k * (n div k) \<le> n" "n < k * (n div k) + k"
  using assms pos_mod_bound[of k n] pos_mod_sign[of k n] mult_div_mod_eq[of k n] by linarith+

section \<open>Years of an era\<close>

definition era_year :: "int \<Rightarrow> int" where
  "era_year doe = (doe - doe div 1460 + doe div 36524 - doe div 146096) div 365"

definition year_start :: "int \<Rightarrow> int" where
  "year_start y = 365 * y + y div 4 - y div 100"

lemma numerator_step:
  "a' \<le> a + 1 \<Longrightarrow> c \<le> c' \<Longrightarrow> b = 0 \<Longrightarrow> b' = 0 \<or> (b' = 1 \<and> c = 3 \<and> c' = 4) \<Longrightarrow>
     x - a + c - b \<le> (x + 1) - a' + c' - (b' :: int)"
  by auto

lemma era_year_step:
  assumes "0 \<le> doe" "doe < 146096"
  shows "era_year doe \<le> era_year (doe + 1)"
proof -
  have "(doe + 1) div 146096 = 0 \<or> ((doe + 1) div 146096 = 1 \<and> doe div 36524 = 3 \<and> (doe + 1) div 36524 = 4)"
  proof (cases "doe + 1 = 146096")
    case True
    then have "doe = 146095" by linarith
    then show ?thesis by simp
  qed (use assms in \<open>auto intro: div_pos_pos_trivial\<close>)
  moreover have "doe div 146096 = 0" using assms by (simp add: div_pos_pos_trivial)
  ultimately show ?thesis unfolding era_year_def
    by (intro zdiv_mono1 numerator_step div_step) simp_all
qed

lemma era_year_mono:
  assumes "0 \<le> a" "a \<le> b" "b \<le> 146096"
  shows "era_year a \<le> era_year b"
  using assms(2,3)
proof (induction b rule: int_ge_induct)
  case (step i)
  then show ?case using era_year_step[of i] assms(1) by simp
qed simp

lemma year_starts:
  "list_all (\<lambda>y. era_year (year_start y) = y \<and> (y = 0 \<or> era_year (year_start y - 1) = y - 1)
     \<and> year_start (y + 1) \<le> year_start y + 366 \<and> year_start y \<le> 146096) [0..399]"
  by code_simp

lemma year_start_facts:
  assumes "0 \<le> y" "y \<le> 399"
  shows "era_year (year_start y) = y" "y \<noteq> 0 \<Longrightarrow> era_year (year_start y - 1) = y - 1"
    "year_start (y + 1) \<le> year_start y + 366" "year_start y \<le> 146096"
  using year_starts assms by (auto simp: list_all_iff)

lemma year_of_day:
  assumes "0 \<le> doe" "doe \<le> 146096"
  shows "0 \<le> era_year doe" "era_year doe \<le> 399" "year_start (era_year doe) \<le> doe"
    "doe \<le> year_start (era_year doe) + 365"
proof -
  have e: "era_year 0 = 0" "era_year 146096 = 399" by code_simp+
  show y: "0 \<le> era_year doe" "era_year doe \<le> 399"
    using era_year_mono[of 0 doe] era_year_mono[of doe 146096] assms e by simp_all
  show lo: "year_start (era_year doe) \<le> doe"
  proof (rule ccontr)
    assume n: "\<not> year_start (era_year doe) \<le> doe"
    have "era_year doe \<noteq> 0" using n assms(1) by (auto simp: year_start_def)
    then have "era_year doe \<le> era_year doe - 1"
      using year_start_facts(2,4)[OF y] era_year_mono[of doe "year_start (era_year doe) - 1"] n assms by simp
    then show False by simp
  qed
  show "doe \<le> year_start (era_year doe) + 365"
  proof (cases "era_year doe = 399")
    case True
    then show ?thesis using assms(2) by (simp add: year_start_def)
  next
    case False
    then have b: "0 \<le> era_year doe + 1" "era_year doe + 1 \<le> 399" using y by simp_all
    have "doe < year_start (era_year doe + 1)"
    proof (rule ccontr)
      assume "\<not> doe < year_start (era_year doe + 1)"
      then have "year_start (era_year doe + 1) \<le> doe" by simp
      moreover have "0 \<le> year_start (era_year doe + 1)" using b by (simp add: year_start_def)
      ultimately have "era_year doe + 1 \<le> era_year doe"
        using year_start_facts(1)[OF b] era_year_mono[of "year_start (era_year doe + 1)" doe] assms by simp
      then show False by simp
    qed
    then show ?thesis using year_start_facts(3)[OF y] by simp
  qed
qed

section \<open>Month index and day\<close>

definition march_year :: "int \<Rightarrow> int" where
  "march_year day = era_year ((day + 719468) mod 146097) + (day + 719468) div 146097 * 400"

definition day_of_year :: "int \<Rightarrow> int" where
  "day_of_year day = (day + 719468) mod 146097 - year_start (era_year ((day + 719468) mod 146097))"

definition march_month :: "int \<Rightarrow> int" where
  "march_month doy = (5 * doy + 2) div 153"

definition month_day :: "int \<Rightarrow> int" where
  "month_day doy = doy - (153 * march_month doy + 2) div 5 + 1"

lemma day_of_year_bounds: "0 \<le> day_of_year day" "day_of_year day \<le> 365"
proof -
  have "0 \<le> (day + 719468) mod 146097" "(day + 719468) mod 146097 \<le> 146096"
    using pos_mod_bound[of 146097 "day + 719468"] by simp_all
  from year_of_day(3,4)[OF this] show "0 \<le> day_of_year day" "day_of_year day \<le> 365"
    unfolding day_of_year_def by linarith+
qed

lemma march_month_bounds: "0 \<le> doy \<Longrightarrow> doy \<le> 365 \<Longrightarrow> 0 \<le> march_month doy \<and> march_month doy \<le> 11"
  using zdiv_mono1[of 2 "5 * doy + 2" 153] zdiv_mono1[of "5 * doy + 2" 1827 153] by (simp add: march_month_def)

lemma month_day_bounds: "1 \<le> month_day doy \<and> month_day doy \<le> 31"
proof -
  have "153 * march_month doy \<le> 5 * doy + 2" "5 * doy + 2 < 153 * march_month doy + 153"
    unfolding march_month_def by (rule div_bounds; simp)+
  moreover have "5 * ((153 * march_month doy + 2) div 5) \<le> 153 * march_month doy + 2"
    "153 * march_month doy + 2 < 5 * ((153 * march_month doy + 2) div 5) + 5"
    by (rule div_bounds; simp)+
  ultimately show ?thesis unfolding month_day_def by linarith
qed

lemma month_day_step:
  "march_month doy < march_month (doy + 1)
   \<or> (march_month (doy + 1) = march_month doy \<and> month_day (doy + 1) = month_day doy + 1)"
proof -
  have "march_month doy \<le> march_month (doy + 1)" unfolding march_month_def by (rule zdiv_mono1) simp_all
  then show ?thesis by (auto simp: month_day_def)
qed

lemma civil_of_day_eq:
  "civil_of_day day =
     (let mp = march_month (day_of_year day); m = (if mp < 10 then mp + 3 else mp - 9)
      in (march_year day + (if m \<le> 2 then 1 else 0), m, month_day (day_of_year day)))"
  unfolding civil_of_day_def march_year_def day_of_year_def month_day_def march_month_def era_year_def
    year_start_def Let_def by (rule refl)

definition month_index :: "int \<Rightarrow> int" where
  "month_index day = 12 * march_year day + march_month (day_of_year day)"

lemma next_day:
  "month_index day < month_index (day + 1)
   \<or> (month_index (day + 1) = month_index day \<and> month_day (day_of_year (day + 1)) = month_day (day_of_year day) + 1)"
proof -
  define e where "e = (day + 719468) div 146097"
  define doe where "doe = (day + 719468) mod 146097"
  have d: "day + 719468 = 146097 * e + doe" "0 \<le> doe" "doe \<le> 146096" by (simp_all add: e_def doe_def)
  note b = march_month_bounds[OF day_of_year_bounds[of day]] march_month_bounds[OF day_of_year_bounds[of "day + 1"]]
  show ?thesis
  proof (cases "doe = 146096")
    case True
    then have "day + 1 + 719468 = 146097 * (e + 1)" using d(1) by simp
    then have n: "(day + 1 + 719468) div 146097 = e + 1" "(day + 1 + 719468) mod 146097 = 0"
      by (simp_all only: mod_mult_self1_is_0 nonzero_mult_div_cancel_left zero_neq_numeral not_False_eq_True simp_thms)
    have "march_year (day + 1) = 400 * (e + 1)" unfolding march_year_def n by (simp add: era_year_def)
    moreover have "march_year day \<le> 399 + 400 * e"
      using year_of_day(2)[OF d(2,3)] by (simp add: march_year_def e_def[symmetric] doe_def[symmetric])
    ultimately show ?thesis using b by (simp add: month_index_def)
  next
    case False
    then have "day + 1 + 719468 = 146097 * e + (doe + 1)" "doe + 1 < 146097" using d by simp_all
    then have n: "(day + 1 + 719468) div 146097 = e" "(day + 1 + 719468) mod 146097 = doe + 1"
      using d(2) by (simp_all add: int_div_pos_eq int_mod_pos_eq)
    have y: "march_year day = era_year doe + e * 400" "march_year (day + 1) = era_year (doe + 1) + e * 400"
      unfolding march_year_def n by (simp_all add: e_def doe_def)
    show ?thesis
    proof (cases "era_year (doe + 1) = era_year doe")
      case True
      then have "day_of_year (day + 1) = day_of_year day + 1"
        unfolding day_of_year_def n by (simp add: doe_def[symmetric])
      then show ?thesis using month_day_step[of "day_of_year day"] y True by (auto simp: month_index_def)
    next
      case f: False
      then have "era_year doe + 1 \<le> era_year (doe + 1)" using era_year_step[of doe] d False by simp
      then show ?thesis using y b by (simp add: month_index_def)
    qed
  qed
qed

lemma month_index_order:
  assumes "a < b"
  shows "month_index a < month_index b
    \<or> (month_index a = month_index b \<and> month_day (day_of_year a) < month_day (day_of_year b))"
  using assms
proof (induction b rule: int_gr_induct)
  case base
  then show ?case using next_day[of a] by auto
next
  case (step i)
  then show ?case using next_day[of i] by auto
qed

section \<open>Digits of a fixed width\<close>

fun digits :: "nat \<Rightarrow> nat \<Rightarrow> string" where
  "digits 0 a = []"
| "digits (Suc n) a = digits n (a div 10) @ [char_of (48 + a mod 10)]"

lemma length_digits [simp]: "length (digits n a) = n"
  by (induction n arbitrary: a) simp_all

lemma char_of_48 [simp]: "char_of (48 :: nat) = CHR ''0''"
  by code_simp

lemma digits_0: "digits n 0 = replicate n (CHR ''0'')"
  by (induction n) (simp_all add: replicate_append_same flip: replicate_Suc)

lemma pad_show_nat: "a < 10 ^ Suc n \<Longrightarrow> pad_left (Suc n) (show_nat a) = digits (Suc n) a"
proof (induction n arbitrary: a)
  case 0
  then show ?case by (subst show_nat.simps) simp
next
  case (Suc n)
  show ?case
  proof (cases "a < 10")
    case True
    then show ?thesis
      by (subst show_nat.simps) (simp add: digits_0 replicate_append_same flip: replicate_Suc)
  next
    case False
    have "a div 10 < 10 ^ Suc n" using Suc.prems by (simp add: less_mult_imp_div_less mult.commute)
    from Suc.IH[OF this] show ?thesis using False by (subst show_nat.simps) simp
  qed
qed

lemma less_append: "length u = length v \<Longrightarrow> (u :: string) < v \<Longrightarrow> u @ x < v @ y"
proof (induction u v rule: list_induct2)
  case (Cons a u b v)
  then show ?case by auto
qed simp

lemma less_append_same: "(x :: string) < y \<Longrightarrow> u @ x < u @ y"
  by (induction u) auto

lemma digit_less: "a < b \<Longrightarrow> b < 10 \<Longrightarrow> (char_of (48 + a :: nat) :: char) < char_of (48 + b :: nat)"
  by (simp add: less_char_def)

lemma digits_less: "a < b \<Longrightarrow> b < 10 ^ n \<Longrightarrow> digits n a < digits n b"
proof (induction n arbitrary: a b)
  case (Suc n)
  show ?case
  proof (cases "a div 10 < b div 10")
    case True
    then show ?thesis using Suc.IH[OF True] Suc.prems(2)
      by (auto intro!: less_append simp: less_mult_imp_div_less mult.commute)
  next
    case False
    then have "a div 10 = b div 10" using Suc.prems(1) by (simp add: div_le_mono le_antisym)
    moreover from this have "a mod 10 < b mod 10"
      using Suc.prems(1) by (metis div_mult_mod_eq nat_add_left_cancel_less)
    ultimately show ?thesis using digit_less[of "a mod 10" "b mod 10"] by (auto intro!: less_append_same)
  qed
qed simp

definition year_text :: "int \<Rightarrow> string" where
  "year_text y = pad_left 4 (show_int y)"

definition two_digits :: "int \<Rightarrow> string" where
  "two_digits y = pad_left 2 (show_int y)"

lemma year_text_digits: "0 \<le> y \<Longrightarrow> y < 10000 \<Longrightarrow> year_text y = digits 4 (nat y)"
  using pad_show_nat[of "nat y" 3] by (simp add: year_text_def show_int_def nat_less_iff)

lemma two_digits_digits: "0 \<le> y \<Longrightarrow> y < 100 \<Longrightarrow> two_digits y = digits 2 (nat y)"
  using pad_show_nat[of "nat y" 1]
  by (simp add: two_digits_def show_int_def nat_less_iff numeral_2_eq_2[symmetric] del: digits.simps)

section \<open>Dates\<close>

definition year_of :: "int \<Rightarrow> int" where
  "year_of day = fst (civil_of_day day)"

definition month_of :: "int \<Rightarrow> int" where
  "month_of day = fst (snd (civil_of_day day))"

definition date_of :: "int \<Rightarrow> int" where
  "date_of day = snd (snd (civil_of_day day))"

lemma iso_date_parts:
  "iso_date day = year_text (year_of day) @ ''-'' @ two_digits (month_of day) @ ''-'' @ two_digits (date_of day)"
  by (simp add: iso_date_def year_text_def two_digits_def year_of_def month_of_def date_of_def split: prod.splits)

lemma civil_bounds: "1 \<le> month_of day \<and> month_of day \<le> 12 \<and> 1 \<le> date_of day \<and> date_of day \<le> 31"
  using march_month_bounds[OF day_of_year_bounds[of day]] month_day_bounds[of "day_of_year day"]
  by (simp add: month_of_def date_of_def civil_of_day_eq Let_def)

lemma civil_index: "12 * year_of day + month_of day = month_index day + 3"
  using march_month_bounds[OF day_of_year_bounds[of day]]
  by (auto simp: year_of_def month_of_def month_index_def civil_of_day_eq Let_def)

lemma civil_order:
  assumes "a < b"
  shows "year_of a < year_of b \<or> (year_of a = year_of b \<and>
    (month_of a < month_of b \<or> (month_of a = month_of b \<and> date_of a < date_of b)))"
proof -
  have d: "date_of x = month_day (day_of_year x)" for x by (simp add: date_of_def civil_of_day_eq Let_def)
  show ?thesis
    using month_index_order[OF assms] civil_index[of a] civil_index[of b] civil_bounds[of a] civil_bounds[of b]
    unfolding d by linarith
qed

definition common_era :: "int \<Rightarrow> bool" where
  "common_era day \<longleftrightarrow> 0 \<le> year_of day \<and> year_of day < 10000"

text \<open>The string order of dates is the order of the days.\<close>

theorem iso_date_less:
  assumes "a < b" "common_era a" "common_era b"
  shows "iso_date a < iso_date b"
proof -
  have y: "year_text (year_of x) = digits 4 (nat (year_of x))" if "common_era x" for x
    using that by (simp add: common_era_def year_text_digits)
  have m: "two_digits (month_of x) = digits 2 (nat (month_of x))" "two_digits (date_of x) = digits 2 (nat (date_of x))" for x
    using civil_bounds[of x] by (simp_all add: two_digits_digits)
  consider "year_of a < year_of b" | "year_of a = year_of b" "month_of a < month_of b"
    | "year_of a = year_of b" "month_of a = month_of b" "date_of a < date_of b"
    using civil_order[OF assms(1)] by blast
  then show ?thesis
  proof cases
    case 1
    then have "digits 4 (nat (year_of a)) < digits 4 (nat (year_of b))"
      using assms(2,3) by (intro digits_less) (simp_all add: common_era_def)
    then show ?thesis unfolding iso_date_parts y[OF assms(2)] y[OF assms(3)] by (intro less_append) simp_all
  next
    case 2
    then have "digits 2 (nat (month_of a)) < digits 2 (nat (month_of b))"
      using civil_bounds[of a] civil_bounds[of b] by (intro digits_less) (simp_all add: nat_less_iff)
    then show ?thesis unfolding iso_date_parts y[OF assms(2)] y[OF assms(3)] 2(1) m(1)
      by (intro less_append_same less_append) simp_all
  next
    case 3
    then have "digits 2 (nat (date_of a)) < digits 2 (nat (date_of b))"
      using civil_bounds[of a] civil_bounds[of b] by (intro digits_less) (simp_all add: nat_less_iff)
    then show ?thesis unfolding iso_date_parts y[OF assms(2)] y[OF assms(3)] 3(1,2) m(2)
      by (intro less_append_same) simp_all
  qed
qed

lemma iso_date_le_iff:
  assumes "common_era a" "common_era b"
  shows "iso_date a \<le> iso_date b \<longleftrightarrow> a \<le> b"
  using iso_date_less[of a b] iso_date_less[of b a] assms by (cases a b rule: linorder_cases) auto

lemma iso_date_inject:
  assumes "common_era a" "common_era b"
  shows "iso_date a = iso_date b \<longleftrightarrow> a = b"
  using iso_date_less[of a b] iso_date_less[of b a] assms by (cases a b rule: linorder_cases) auto

lemma common_era_between: "common_era a \<Longrightarrow> common_era b \<Longrightarrow> a \<le> d \<Longrightarrow> d \<le> b \<Longrightarrow> common_era d"
  using civil_order[of a d] civil_order[of d b] by (cases "a = d"; cases "d = b") (auto simp: common_era_def)

lemma length_iso_date: "common_era a \<Longrightarrow> length (iso_date a) = 10"
  using civil_bounds[of a] by (simp add: iso_date_parts year_text_digits two_digits_digits common_era_def)

end
