(* ===== verification/ApySnapshot.thy ===== *)
theory ApySnapshot
  imports CalendarOrder Http
begin

text \<open>
  Nightly snapshots of the yield (\<open>backend/src/apySnapshot.ts\<close>): the job, its scheduler, the backfill of a range
  of days and the history served to charts.  The store is the map of dates to yields; the replies of the
  database and the random parts are arguments, an error of the database is its message.  \<open>Date.parse\<close> is the
  argument \<open>parse\<close>; the locale \<open>iso_reader\<close> states that it reads the midnight of the days it is used on.
\<close>

section \<open>Dates\<close>

definition todayUtc :: "time \<Rightarrow> string" where
  "todayUtc now = take 10 (to_iso_string now)"

text \<open>\<open>None\<close> is the \<open>RangeError\<close> \<open>toISOString\<close> throws for a date that does not parse.\<close>

definition datePlusDays :: "(string \<Rightarrow> time option) \<Rightarrow> string \<Rightarrow> int \<Rightarrow> string option" where
  "datePlusDays parse date days =
     map_option (\<lambda>t. take 10 (to_iso_string (t + days * ms_per_day))) (parse (date @ ''T00:00:00Z''))"

definition dateMinusDays :: "(string \<Rightarrow> time option) \<Rightarrow> string \<Rightarrow> int \<Rightarrow> string option" where
  "dateMinusDays parse from days =
     map_option (\<lambda>t. take 10 (to_iso_string (t - days * ms_per_day))) (parse (from @ ''T00:00:00Z''))"

definition invalid_time :: string where
  "invalid_time = ''Invalid time value''"

locale iso_reader =
  fixes parse :: "string \<Rightarrow> time option" and lo hi :: int
  assumes reads: "lo \<le> d \<Longrightarrow> d \<le> hi \<Longrightarrow> parse (iso_date d @ ''T00:00:00Z'') = Some (day_start d)"
    and years: "common_era lo" "common_era hi"
begin

lemma in_era: "lo \<le> d \<Longrightarrow> d \<le> hi \<Longrightarrow> common_era d"
  using common_era_between[OF years] by blast

lemma date_le: "lo \<le> a \<Longrightarrow> a \<le> hi \<Longrightarrow> lo \<le> b \<Longrightarrow> b \<le> hi \<Longrightarrow> iso_date a \<le> iso_date b \<longleftrightarrow> a \<le> b"
  by (simp add: iso_date_le_iff in_era)

end

lemma take_iso_string: "common_era (utc_day t) \<Longrightarrow> take 10 (to_iso_string t) = iso_date (utc_day t)"
  by (simp add: to_iso_string_def Let_def length_iso_date)

lemma utc_day_start [simp]: "utc_day (day_start d) = d"
  by (simp add: utc_day_def day_start_def ms_per_day_def)

lemma day_start_shift: "day_start d + n * ms_per_day = day_start (d + n)" "day_start d - n * ms_per_day = day_start (d - n)"
  by (simp_all add: day_start_def algebra_simps)

context iso_reader
begin

lemma plus_days:
  "lo \<le> d \<Longrightarrow> d \<le> hi \<Longrightarrow> lo \<le> d + n \<Longrightarrow> d + n \<le> hi \<Longrightarrow> datePlusDays parse (iso_date d) n = Some (iso_date (d + n))"
  by (simp add: datePlusDays_def reads day_start_shift take_iso_string in_era)

lemma minus_days:
  "lo \<le> d \<Longrightarrow> d \<le> hi \<Longrightarrow> lo \<le> d - n \<Longrightarrow> d - n \<le> hi \<Longrightarrow> dateMinusDays parse (iso_date d) n = Some (iso_date (d - n))"
  by (simp add: dateMinusDays_def reads day_start_shift take_iso_string in_era)

end

text \<open>A reader of the midnights of a range of days, found by search.\<close>

definition day_reader :: "int \<Rightarrow> int \<Rightarrow> string \<Rightarrow> time option" where
  "day_reader lo hi s = map_option day_start (List.find (\<lambda>d. iso_date d @ ''T00:00:00Z'' = s) [lo..hi])"

lemma day_reader_reads:
  assumes "common_era lo" "common_era hi"
  shows "iso_reader (day_reader lo hi) lo hi"
proof
  fix d
  assume d: "lo \<le> d" "d \<le> hi"
  let ?P = "\<lambda>x. iso_date x @ ''T00:00:00Z'' = iso_date d @ ''T00:00:00Z''"
  obtain x where x: "List.find ?P [lo..hi] = Some x"
    using d by (cases "List.find ?P [lo..hi]") (auto simp: find_None_iff)
  from find_SomeD[OF x] have "iso_date x = iso_date d" "lo \<le> x" "x \<le> hi" by auto
  then have "x = d"
    using iso_date_inject common_era_between[OF assms] d by metis
  with x show "day_reader lo hi (iso_date d @ ''T00:00:00Z'') = Some (day_start d)" by (simp add: day_reader_def)
qed (fact assms)+

lemma early_2026: "common_era 20454" "common_era 20470"
  by code_simp+

interpretation january_2026: iso_reader "day_reader 20454 20470" 20454 20470
  by (rule day_reader_reads[OF early_2026])

section \<open>The job\<close>

definition RETENTION_DAYS :: int where
  "RETENTION_DAYS = 365"

type_synonym snapshot_store = "(string, rat) js_map"

definition round4 :: "rat \<Rightarrow> rat" where
  "round4 x = of_int (js_round (x * 10000)) / 10000"

definition fetchCurrentApy :: "string option \<Rightarrow> rat \<Rightarrow> string + rat" where
  "fetchCurrentApy fault random =
     (case fault of Some m \<Rightarrow> Inl m | None \<Rightarrow> Inr (round4 (85 / 10 + (random - 1 / 2) * (4 / 10))))"

definition persistSnapshot :: "string \<Rightarrow> rat \<Rightarrow> string option \<Rightarrow> snapshot_store \<Rightarrow> (string + unit) \<times> snapshot_store" where
  "persistSnapshot date apy fault st =
     (case fault of Some m \<Rightarrow> (Inl m, st) | None \<Rightarrow> (Inr (), AList.update date apy st))"

definition pruneOldSnapshots ::
  "(string \<Rightarrow> time option) \<Rightarrow> time \<Rightarrow> string option \<Rightarrow> snapshot_store \<Rightarrow> (string + unit) \<times> snapshot_store" where
  "pruneOldSnapshots parse now fault st =
     (case dateMinusDays parse (todayUtc now) RETENTION_DAYS of
        None \<Rightarrow> (Inl invalid_time, st)
      | Some cutoff \<Rightarrow>
          (case fault of Some m \<Rightarrow> (Inl m, st) | None \<Rightarrow> (Inr (), filter (\<lambda>(k, v). \<not> k < cutoff) st)))"

text \<open>The three faults are those of the query, the insertion and the deletion; the result is the error that
  rejects the job or the prefix of the cache entries that are invalidated.\<close>

definition runApySnapshotJob ::
  "(string \<Rightarrow> time option) \<Rightarrow> time \<Rightarrow> rat \<Rightarrow> string option \<times> string option \<times> string option \<Rightarrow> snapshot_store \<Rightarrow>
   (string + string) \<times> snapshot_store" where
  "runApySnapshotJob parse now random faults st =
     (case faults of (f1, f2, f3) \<Rightarrow>
       (case fetchCurrentApy f1 random of
          Inl m \<Rightarrow> (Inl m, st)
        | Inr apy \<Rightarrow>
            (case persistSnapshot (todayUtc now) apy f2 st of
               (Inl m, st1) \<Rightarrow> (Inl m, st1)
             | (Inr u, st1) \<Rightarrow>
                 (case pruneOldSnapshots parse now f3 st1 of
                    (Inl m, st2) \<Rightarrow> (Inl m, st2)
                  | (Inr u, st2) \<Rightarrow> (Inr ''GET:/api/v1/vault/apy'', st2)))))"

definition msUntilNextMidnightUtc :: "time \<Rightarrow> rat \<Rightarrow> int" where
  "msUntilNextMidnightUtc now random =
     (let midnight = day_start (utc_day now + 1) in (midnight - now) + \<lfloor>random * 5 * 60 * 1000\<rfloor>)"

text \<open>The scheduler: the time its timer fires, and whether its job runs.\<close>

record apy_scheduler =
  as_timer :: "time option"
  as_running :: bool

definition startApySnapshotScheduler :: "env \<Rightarrow> time \<Rightarrow> rat \<Rightarrow> apy_scheduler \<Rightarrow> apy_scheduler" where
  "startApySnapshotScheduler E now random s =
     (if E ''APY_SNAPSHOT_ENABLED'' = Some ''false'' then s
      else s\<lparr>as_timer := Some (now + msUntilNextMidnightUtc now random)\<rparr>)"

definition apy_timer_fires :: "apy_scheduler \<Rightarrow> apy_scheduler" where
  "apy_timer_fires s = (if as_timer s = None then s else s\<lparr>as_running := True\<rparr>)"

definition apy_job_done :: "time \<Rightarrow> rat \<Rightarrow> apy_scheduler \<Rightarrow> apy_scheduler" where
  "apy_job_done now random s =
     (if as_running s then \<lparr>as_timer = Some (now + msUntilNextMidnightUtc now random), as_running = False\<rparr> else s)"

definition cancel_apy_scheduler :: "apy_scheduler \<Rightarrow> apy_scheduler" where
  "cancel_apy_scheduler s = s\<lparr>as_timer := None\<rparr>"

text \<open>A cancellation while the job runs does not stop the scheduler: the job sets the next timer when it ends.\<close>

lemma cancel_while_running:
  "as_running s \<Longrightarrow> as_timer (apy_job_done now random (cancel_apy_scheduler s)) \<noteq> None"
  by (simp add: apy_job_done_def cancel_apy_scheduler_def)

text \<open>
  Every run of the scheduler is planned within five minutes after the next midnight UTC.
\<close>

theorem apy_run_after_midnight:
  assumes "0 \<le> random" "random < 1" "E ''APY_SNAPSHOT_ENABLED'' \<noteq> Some ''false''"
  shows "\<exists>t. as_timer (startApySnapshotScheduler E now random s) = Some t
    \<and> day_start (utc_day now + 1) \<le> t \<and> t < day_start (utc_day now + 1) + 300000"
proof -
  have "0 \<le> \<lfloor>random * 5 * 60 * 1000\<rfloor>" using assms by simp
  moreover have "\<lfloor>random * 5 * 60 * 1000\<rfloor> < 300000" using assms by (simp add: floor_less_iff)
  ultimately show ?thesis using assms(3) by (simp add: startApySnapshotScheduler_def msUntilNextMidnightUtc_def Let_def)
qed

theorem apy_run_after_midnight_witness:
  "\<exists>t. as_timer (startApySnapshotScheduler (\<lambda>k. None) 1000 (1 / 2) \<lparr>as_timer = None, as_running = False\<rparr>) = Some t
    \<and> day_start (utc_day 1000 + 1) \<le> t \<and> t < day_start (utc_day 1000 + 1) + 300000"
  by (rule apy_run_after_midnight) simp_all

section \<open>Backfill\<close>

record backfill_result =
  br_created :: nat
  br_skipped :: nat
  br_dates :: "string list"

definition no_backfill :: backfill_result where
  "no_backfill = \<lparr>br_created = 0, br_skipped = 0, br_dates = []\<rparr>"

text \<open>\<open>live d\<close> is what fetching the yield and inserting the row for the date \<open>d\<close> gives.\<close>

definition backfill_date ::
  "(string \<Rightarrow> string + rat) \<Rightarrow> string set \<Rightarrow> string \<Rightarrow> backfill_result \<times> snapshot_store \<Rightarrow>
   string + (backfill_result \<times> snapshot_store)" where
  "backfill_date live existing cursor rs =
     (case rs of (r, st) \<Rightarrow>
        if cursor \<in> existing then Inr (r\<lparr>br_skipped := br_skipped r + 1\<rparr>, st)
        else (case live cursor of
                Inl m \<Rightarrow> Inl m
              | Inr apy \<Rightarrow> Inr (r\<lparr>br_dates := br_dates r @ [cursor], br_created := br_created r + 1\<rparr>, AList.update cursor apy st)))"

partial_function (option) backfill_loop ::
  "(string \<Rightarrow> time option) \<Rightarrow> (string \<Rightarrow> string + rat) \<Rightarrow> string set \<Rightarrow> string \<Rightarrow> string \<Rightarrow>
   backfill_result \<times> snapshot_store \<Rightarrow> ((string + backfill_result) \<times> snapshot_store) option" where
  [code]: "backfill_loop parse live existing endDate cursor rs =
     (if cursor \<le> endDate then
        (case backfill_date live existing cursor rs of
           Inl m \<Rightarrow> Some (Inl m, snd rs)
         | Inr rs' \<Rightarrow>
             (case datePlusDays parse cursor 1 of
                None \<Rightarrow> Some (Inl invalid_time, snd rs')
              | Some c \<Rightarrow> backfill_loop parse live existing endDate c rs'))
      else Some (Inr (fst rs), snd rs))"

text \<open>\<open>rows\<close> are the dates the database answers, or its error; the result \<^const>\<open>None\<close> means that the loop never ends.\<close>

definition backfillApySnapshots ::
  "(string \<Rightarrow> time option) \<Rightarrow> string + string list \<Rightarrow> (string \<Rightarrow> string + rat) \<Rightarrow> string \<Rightarrow> string \<Rightarrow> snapshot_store \<Rightarrow>
   ((string + backfill_result) \<times> snapshot_store) option" where
  "backfillApySnapshots parse rows live startDate endDate st =
     (case rows of
        Inl m \<Rightarrow> Some (Inl m, st)
      | Inr dates \<Rightarrow>
          backfill_loop parse live (set dates \<union> set (filter (\<lambda>d. startDate \<le> d \<and> d \<le> endDate) (map fst st))) endDate startDate
            (no_backfill, st))"

definition days_from :: "int \<Rightarrow> nat \<Rightarrow> string list" where
  "days_from a n = map (\<lambda>i. iso_date (a + int i)) [0..<n]"

lemma days_from_simps: "days_from a 0 = []" "days_from a (Suc n) = iso_date a # days_from (a + 1) n"
  by (simp_all add: days_from_def upt_conv_Cons map_Suc_upt[symmetric] add.assoc del: upt_Suc)

definition backfilled :: "(string \<Rightarrow> rat) \<Rightarrow> string set \<Rightarrow> string list \<Rightarrow> snapshot_store \<Rightarrow> snapshot_store" where
  "backfilled val existing ds st = fold (\<lambda>d. AList.update d (val d)) (filter (\<lambda>d. d \<notin> existing) ds) st"

definition counted :: "string set \<Rightarrow> string list \<Rightarrow> backfill_result \<Rightarrow> backfill_result" where
  "counted existing ds r = r\<lparr>br_created := br_created r + length (filter (\<lambda>d. d \<notin> existing) ds),
     br_skipped := br_skipped r + length (filter (\<lambda>d. d \<in> existing) ds),
     br_dates := br_dates r @ filter (\<lambda>d. d \<notin> existing) ds\<rparr>"

context iso_reader
begin

lemma backfill_loop_ends:
  assumes "lo \<le> a" "a + int n \<le> hi" "b = a + int n - 1" "lo \<le> b" "\<And>d. live d = Inr (val d)"
  shows "backfill_loop parse live existing (iso_date b) (iso_date a) (r, st) =
    Some (Inr (counted existing (days_from a n) r), backfilled val existing (days_from a n) st)"
  using assms
proof (induction n arbitrary: a r st)
  case 0
  then have "\<not> iso_date a \<le> iso_date b" by (subst date_le) simp_all
  then show ?case by (subst backfill_loop.simps) (simp add: days_from_simps counted_def backfilled_def)
next
  case (Suc n)
  have le: "iso_date a \<le> iso_date b" using Suc.prems(1-4) by (subst date_le) simp_all
  have plus: "datePlusDays parse (iso_date a) 1 = Some (iso_date (a + 1))"
    using Suc.prems(1-4) by (intro plus_days) simp_all
  have ih: "backfill_loop parse live existing (iso_date b) (iso_date (a + 1)) (r, st) =
      Some (Inr (counted existing (days_from (a + 1) n) r), backfilled val existing (days_from (a + 1) n) st)" for r st
    using Suc.prems by (intro Suc.IH) simp_all
  show ?case
    by (subst backfill_loop.simps)
      (simp add: le plus ih Suc.prems(5) backfill_date_def days_from_simps, simp add: counted_def backfilled_def)
qed

end

section \<open>History\<close>

definition with_rows :: "(string \<times> rat) list \<Rightarrow> snapshot_store \<Rightarrow> snapshot_store" where
  "with_rows rows st = fold (\<lambda>(d, a). AList.update d a) rows st"

partial_function (option) history_loop ::
  "(string \<Rightarrow> time option) \<Rightarrow> snapshot_store \<Rightarrow> string \<Rightarrow> string \<Rightarrow> rat option \<Rightarrow> (string \<times> rat) list \<Rightarrow>
   (string + (string \<times> rat) list) option" where
  [code]: "history_loop parse st today cursor lastKnown acc =
     (if cursor \<le> today then
        (let stored = map_of st cursor;
             lastKnown' = (if stored \<noteq> None then stored else lastKnown);
             acc' = (case lastKnown' of None \<Rightarrow> acc | Some v \<Rightarrow> acc @ [(cursor, v)])
         in case datePlusDays parse cursor 1 of
              None \<Rightarrow> Some (Inl invalid_time)
            | Some c \<Rightarrow> history_loop parse st today c lastKnown' acc')
      else Some (Inr acc))"

definition getApyHistory ::
  "(string \<Rightarrow> time option) \<Rightarrow> time \<Rightarrow> int \<Rightarrow> string + (string \<times> rat) list \<Rightarrow> snapshot_store \<Rightarrow>
   (string + (string \<times> rat) list) option \<times> snapshot_store" where
  "getApyHistory parse now days rows st =
     (let clampedDays = min (max 1 days) RETENTION_DAYS;
          today = todayUtc now
      in case dateMinusDays parse today (clampedDays - 1) of
           None \<Rightarrow> (Some (Inl invalid_time), st)
         | Some from \<Rightarrow>
             (case rows of
                Inl m \<Rightarrow> (Some (Inl m), st)
              | Inr rs \<Rightarrow> (let st' = with_rows rs st in (history_loop parse st' today from None [], st'))))"

text \<open>The value known on the day \<open>a + n\<close>: the one stored last, from the day \<open>a\<close> on.\<close>

fun known :: "snapshot_store \<Rightarrow> int \<Rightarrow> nat \<Rightarrow> rat option" where
  "known st a 0 = map_of st (iso_date a)"
| "known st a (Suc n) =
     (case map_of st (iso_date (a + int (Suc n))) of Some v \<Rightarrow> Some v | None \<Rightarrow> known st a n)"

definition history_spec :: "snapshot_store \<Rightarrow> int \<Rightarrow> nat \<Rightarrow> (string \<times> rat) list" where
  "history_spec st a n =
     concat (map (\<lambda>i. case known st a i of None \<Rightarrow> [] | Some v \<Rightarrow> [(iso_date (a + int i), v)]) [0..<n])"

definition known_before :: "snapshot_store \<Rightarrow> int \<Rightarrow> nat \<Rightarrow> rat option" where
  "known_before st a k = (case k of 0 \<Rightarrow> None | Suc j \<Rightarrow> known st a j)"

lemma known_step:
  "known st a k = (if map_of st (iso_date (a + int k)) \<noteq> None then map_of st (iso_date (a + int k)) else known_before st a k)"
  by (cases k) (auto simp: known_before_def split: option.splits)

context iso_reader
begin

lemma history_loop_ends:
  assumes "lo \<le> a" "a + int n \<le> hi" "b = a + int n - 1" "lo \<le> b" "k \<le> n"
  shows "history_loop parse st (iso_date b) (iso_date (a + int k)) (known_before st a k) (history_spec st a k) =
    Some (Inr (history_spec st a n))"
  using assms(5)
proof (induction "n - k" arbitrary: k)
  case 0
  then have "k = n" by simp
  moreover have "\<not> iso_date (a + int n) \<le> iso_date b" using assms by (subst date_le) simp_all
  ultimately show ?case by (subst history_loop.simps) simp
next
  case (Suc m)
  then have k: "k < n" by simp
  have le: "iso_date (a + int k) \<le> iso_date b" using assms k by (subst date_le) simp_all
  have plus: "datePlusDays parse (iso_date (a + int k)) 1 = Some (iso_date (a + int (Suc k)))"
    using assms k plus_days[of "a + int k" 1] by (simp add: algebra_simps)
  have spec: "history_spec st a (Suc k) =
      (case known st a k of None \<Rightarrow> history_spec st a k | Some v \<Rightarrow> history_spec st a k @ [(iso_date (a + int k), v)])"
    by (simp add: history_spec_def split: option.splits)
  have before: "known_before st a (Suc k) = known st a k" by (simp add: known_before_def)
  have ih: "history_loop parse st (iso_date b) (iso_date (a + int (Suc k))) (known st a k) (history_spec st a (Suc k)) =
      Some (Inr (history_spec st a n))"
    using Suc(1)[of "Suc k"] Suc(2) k unfolding before by simp
  show ?case
    by (subst history_loop.simps) (simp only: le plus if_True Let_def known_step[symmetric] spec[symmetric] option.case ih)
qed

lemma history_ends:
  assumes "1 \<le> n" "lo \<le> a" "a + int n \<le> hi" "b = a + int n - 1"
  shows "history_loop parse st (iso_date b) (iso_date a) None [] = Some (Inr (history_spec st a n))"
  using history_loop_ends[of a n b 0 st] assms by (simp add: known_before_def history_spec_def)

end

section \<open>What the loops compute\<close>

lemma map_of_fold_update:
  "map_of (fold (\<lambda>d. AList.update d (f d)) ds st) k = (if k \<in> set ds then Some (f k) else map_of st k)"
  by (induction ds arbitrary: st) (auto simp: update_conv')

lemma map_of_backfilled:
  "map_of (backfilled f existing ds st) k = (if k \<in> set ds \<and> k \<notin> existing then Some (f k) else map_of st k)"
  by (simp add: backfilled_def map_of_fold_update)

text \<open>
  A backfill between two dates ends: every day of the range is counted once, as created or as skipped,
  afterwards the days that had no snapshot have the yield fetched for them, and no other entry of the store has
  changed; in particular nothing that was stored is overwritten.
\<close>

theorem backfill_fills_gaps:
  assumes "iso_reader parse lo hi" "lo \<le> a" "a \<le> b" "b < hi" "\<And>d. live d = Inr (val d)"
  shows "\<exists>r st'. backfillApySnapshots parse (Inr dates) live (iso_date a) (iso_date b) st = Some (Inr r, st')
    \<and> int (br_created r + br_skipped r) = b - a + 1 \<and> br_created r = length (br_dates r)
    \<and> (\<forall>k. map_of st' k = (if k \<in> set (br_dates r) then Some (val k) else map_of st k))
    \<and> (\<forall>d. d \<in> set (br_dates r) \<longrightarrow> d \<notin> set dates \<and> map_of st d = None)
    \<and> (\<forall>d. a \<le> d \<and> d \<le> b \<and> iso_date d \<notin> set dates \<longrightarrow> map_of st' (iso_date d) \<noteq> None)"
proof -
  define n where "n = nat (b - a + 1)"
  define ex where "ex = set dates \<union> set (filter (\<lambda>d. iso_date a \<le> d \<and> d \<le> iso_date b) (map fst st))"
  define ds where "ds = days_from a n"
  have run: "backfillApySnapshots parse (Inr dates) live (iso_date a) (iso_date b) st =
      Some (Inr (counted ex ds no_backfill), backfilled val ex ds st)"
  proof -
    have "backfill_loop parse live ex (iso_date b) (iso_date a) (no_backfill, st) =
        Some (Inr (counted ex ds no_backfill), backfilled val ex ds st)"
      unfolding ds_def by (rule iso_reader.backfill_loop_ends[OF assms(1)]) (use assms(2-5) in \<open>simp_all add: n_def\<close>)
    then show ?thesis unfolding backfillApySnapshots_def sum.case ex_def .
  qed
  have "length (filter (\<lambda>d. d \<notin> ex) ds) + length (filter (\<lambda>d. d \<in> ex) ds) = n"
    using sum_length_filter_compl[of "\<lambda>d. d \<notin> ex" ds] by (simp add: ds_def days_from_def)
  then have total: "int (br_created (counted ex ds no_backfill) + br_skipped (counted ex ds no_backfill)) = b - a + 1"
    using assms(3) by (simp add: counted_def no_backfill_def n_def)
  have created: "br_dates (counted ex ds no_backfill) = filter (\<lambda>d. d \<notin> ex) ds"
    "br_created (counted ex ds no_backfill) = length (filter (\<lambda>d. d \<notin> ex) ds)"
    by (simp_all add: counted_def no_backfill_def)
  have in_ds: "d \<in> set ds \<longleftrightarrow> (\<exists>x. a \<le> x \<and> x \<le> b \<and> d = iso_date x)" for d
  proof
    assume "\<exists>x. a \<le> x \<and> x \<le> b \<and> d = iso_date x"
    then obtain x where x: "a \<le> x" "x \<le> b" "d = iso_date x" by blast
    then have "d = iso_date (a + int (nat (x - a)))" "nat (x - a) < n" by (simp_all add: n_def)
    moreover have "set ds = (\<lambda>i. iso_date (a + int i)) ` {0..<n}" by (simp add: ds_def days_from_def)
    ultimately show "d \<in> set ds" by (metis atLeastLessThan_iff imageI zero_le)
  next
    assume "d \<in> set ds"
    then obtain i where "i < n" "d = iso_date (a + int i)" by (auto simp: ds_def days_from_def)
    then show "\<exists>x. a \<le> x \<and> x \<le> b \<and> d = iso_date x" by (intro exI[of _ "a + int i"]) (simp add: n_def)
  qed
  have none: "map_of st d = None" if "d \<in> set ds" "d \<notin> ex" for d
  proof -
    from that(1) obtain x where x: "a \<le> x" "x \<le> b" "d = iso_date x" using in_ds by blast
    then have "iso_date a \<le> d" "d \<le> iso_date b"
      using iso_reader.date_le[OF assms(1), of a x] iso_reader.date_le[OF assms(1), of x b] assms(2-4) by simp_all
    then show ?thesis using that(2) by (auto simp: ex_def map_of_eq_None_iff)
  qed
  have kept: "map_of (backfilled val ex ds st) (iso_date d) \<noteq> None" if "a \<le> d" "d \<le> b" "iso_date d \<notin> set dates" for d
  proof -
    have "iso_date d \<in> set ds" using that(1,2) in_ds by blast
    then show ?thesis using that(3) none[of "iso_date d"]
      by (auto simp: map_of_backfilled ex_def dest: weak_map_of_SomeI)
  qed
  show ?thesis
    by (rule exI[of _ "counted ex ds no_backfill"], rule exI[of _ "backfilled val ex ds st"])
      (use run total created none kept in \<open>auto simp: map_of_backfilled ex_def\<close>)
qed

theorem backfill_fills_gaps_witness:
  "\<exists>r st'. backfillApySnapshots (day_reader 20454 20470) (Inr []) (\<lambda>d. Inr 8) (iso_date 20455) (iso_date 20457) [(iso_date 20456, 7)]
      = Some (Inr r, st')
    \<and> map_of st' (iso_date 20456) = Some 7 \<and> br_created r + br_skipped r = 3"
proof -
  from backfill_fills_gaps[OF january_2026.iso_reader_axioms, of 20455 20457 "\<lambda>d. Inr 8" "\<lambda>d. 8" "[]" "[(iso_date 20456, 7)]"]
  obtain r st' where r: "backfillApySnapshots (day_reader 20454 20470) (Inr []) (\<lambda>d. Inr 8) (iso_date 20455) (iso_date 20457)
        [(iso_date 20456, 7)] = Some (Inr r, st')" "int (br_created r + br_skipped r) = 3"
    "\<forall>k. map_of st' k = (if k \<in> set (br_dates r) then Some 8 else map_of [(iso_date 20456, 7)] k)"
    "\<forall>d. d \<in> set (br_dates r) \<longrightarrow> map_of [(iso_date 20456, 7 :: rat)] d = None"
    by auto
  moreover have "(iso_date 20456) \<notin> set (br_dates r)" using r(4) by auto
  ultimately show ?thesis by (intro exI[of _ r] exI[of _ st']) auto
qed

lemma known_Some_iff:
  "known st a i = Some v \<longleftrightarrow> (\<exists>j\<le>i. map_of st (iso_date (a + int j)) = Some v
     \<and> (\<forall>m. j < m \<and> m \<le> i \<longrightarrow> map_of st (iso_date (a + int m)) = None))"
proof (induction i)
  case (Suc i)
  show ?case
  proof (cases "map_of st (iso_date (a + int (Suc i)))")
    case None
    then show ?thesis using Suc by (auto simp: le_Suc_eq)
  next
    case (Some w)
    then have "\<not> (j < Suc i \<and> (\<forall>m. j < m \<and> m \<le> Suc i \<longrightarrow> map_of st (iso_date (a + int m)) = None))" for j
      by (metis le_refl option.distinct(1))
    then show ?thesis using Some by (auto simp: le_Suc_eq less_Suc_eq_le) (metis option.distinct(1))
  qed
qed auto

lemma known_before_window:
  "known st a i = Some v \<longleftrightarrow> (\<exists>e. a \<le> e \<and> e \<le> a + int i \<and> map_of st (iso_date e) = Some v
     \<and> (\<forall>x. e < x \<and> x \<le> a + int i \<longrightarrow> map_of st (iso_date x) = None))"
proof
  assume "known st a i = Some v"
  then obtain j where j: "j \<le> i" "map_of st (iso_date (a + int j)) = Some v"
      "\<forall>m. j < m \<and> m \<le> i \<longrightarrow> map_of st (iso_date (a + int m)) = None" by (auto simp: known_Some_iff)
  have "map_of st (iso_date x) = None" if "a + int j < x" "x \<le> a + int i" for x
  proof -
    have "a \<le> x" using that(1) by simp
    then show ?thesis using j(3)[rule_format, of "nat (x - a)"] that by (simp add: nat_le_iff)
  qed
  with j(1,2) show "\<exists>e. a \<le> e \<and> e \<le> a + int i \<and> map_of st (iso_date e) = Some v
     \<and> (\<forall>x. e < x \<and> x \<le> a + int i \<longrightarrow> map_of st (iso_date x) = None)"
    by (intro exI[of _ "a + int j"]) simp
next
  assume "\<exists>e. a \<le> e \<and> e \<le> a + int i \<and> map_of st (iso_date e) = Some v
     \<and> (\<forall>x. e < x \<and> x \<le> a + int i \<longrightarrow> map_of st (iso_date x) = None)"
  then obtain e where e: "a \<le> e" "e \<le> a + int i" "map_of st (iso_date e) = Some v"
      "\<forall>x. e < x \<and> x \<le> a + int i \<longrightarrow> map_of st (iso_date x) = None" by blast
  then show "known st a i = Some v" unfolding known_Some_iff
    by (intro exI[of _ "nat (e - a)"]) auto
qed

lemma mem_history_spec:
  "(s, v) \<in> set (history_spec st a n) \<longleftrightarrow> (\<exists>j<n. s = iso_date (a + int j) \<and> known st a j = Some v)"
proof (induction n)
  case (Suc n)
  have "history_spec st a (Suc n) = history_spec st a n @
      (case known st a n of None \<Rightarrow> [] | Some v \<Rightarrow> [(iso_date (a + int n), v)])"
    by (simp add: history_spec_def)
  with Suc show ?case by (cases "known st a n") (auto simp: less_Suc_eq)
qed (simp add: history_spec_def)

lemma sorted_history:
  assumes "iso_reader parse lo hi" "lo \<le> a" "a + int n \<le> hi"
  shows "sorted_wrt (<) (map fst (history_spec st a n))"
  using assms(3)
proof (induction n)
  case (Suc n)
  have e: "history_spec st a (Suc n) = history_spec st a n @
      (case known st a n of None \<Rightarrow> [] | Some v \<Rightarrow> [(iso_date (a + int n), v)])"
    by (simp add: history_spec_def)
  have l: "iso_date (a + int j) < iso_date (a + int n)" if "j < n" for j
    using that Suc.prems assms(2) by (intro iso_date_less iso_reader.in_era[OF assms(1)]) simp_all
  have "x < iso_date (a + int n)" if "x \<in> set (map fst (history_spec st a n))" for x
  proof -
    from that obtain v where "(x, v) \<in> set (history_spec st a n)" by auto
    then show ?thesis using l unfolding mem_history_spec by blast
  qed
  then show ?case using Suc unfolding e by (cases "known st a n") (simp_all add: sorted_wrt_append)
qed (simp add: history_spec_def)

lemma date_mem_history:
  assumes "iso_reader parse lo hi" "lo \<le> a" "a + int n \<le> hi" "i < n"
  shows "(iso_date (a + int i), v) \<in> set (history_spec st a n) \<longleftrightarrow> known st a i = Some v"
proof -
  have "j = i" if "j < n" "iso_date (a + int i) = iso_date (a + int j)" for j
  proof -
    have "common_era (a + int j)" "common_era (a + int i)"
      using that(1) assms by (simp_all add: iso_reader.in_era[OF assms(1)])
    with that(2) show ?thesis by (simp add: iso_date_inject)
  qed
  then show ?thesis unfolding mem_history_spec using assms(4) by blast
qed

text \<open>
  The history of the yield is complete: it gives its dates in order, at most one value a day, and the value of
  a day is the one stored last on or before that day within the window; a day is missing only when nothing is
  stored from the beginning of the window to that day.
\<close>

theorem apy_history_complete:
  assumes "iso_reader parse lo hi" "lo \<le> a" "utc_day now < hi" "a = utc_day now - (min (max 1 days) RETENTION_DAYS - 1)"
    and "st' = with_rows rows st"
  shows "\<exists>h. getApyHistory parse now days (Inr rows) st = (Some (Inr h), st') \<and> sorted_wrt (<) (map fst h)
    \<and> (\<forall>d v. a \<le> d \<and> d \<le> utc_day now \<longrightarrow> ((iso_date d, v) \<in> set h \<longleftrightarrow>
         (\<exists>e. a \<le> e \<and> e \<le> d \<and> map_of st' (iso_date e) = Some v
            \<and> (\<forall>x. e < x \<and> x \<le> d \<longrightarrow> map_of st' (iso_date x) = None))))"
proof -
  define n where "n = nat (min (max 1 days) RETENTION_DAYS)"
  have n: "1 \<le> n" "int n = min (max 1 days) RETENTION_DAYS" "utc_day now = a + int n - 1"
    using assms(4) by (simp_all add: n_def RETENTION_DAYS_def)
  have in_lo: "lo \<le> utc_day now" using assms(2) n by simp
  have today: "todayUtc now = iso_date (utc_day now)"
    unfolding todayUtc_def using in_lo assms(3) by (intro take_iso_string iso_reader.in_era[OF assms(1)]) simp_all
  have a: "utc_day now - (int n - 1) = a" using n(3) by linarith
  have "dateMinusDays parse (iso_date (utc_day now)) (int n - 1) = Some (iso_date (utc_day now - (int n - 1)))"
    by (rule iso_reader.minus_days[OF assms(1) in_lo]) (use a assms(2,3) n(1,3) in linarith)+
  then have start: "dateMinusDays parse (iso_date (utc_day now)) (int n - 1) = Some (iso_date a)" unfolding a .
  have "history_loop parse st' (iso_date (utc_day now)) (iso_date a) None [] = Some (Inr (history_spec st' a n))"
    by (rule iso_reader.history_ends[OF assms(1) n(1) assms(2) _ n(3)]) (use n(3) assms(3) in simp)
  then have run: "getApyHistory parse now days (Inr rows) st = (Some (Inr (history_spec st' a n)), st')"
    unfolding getApyHistory_def Let_def today n(2)[symmetric] start by (simp add: assms(5))
  have hi: "a + int n \<le> hi" using n(3) assms(3) by simp
  have mem: "(iso_date d, v) \<in> set (history_spec st' a n) \<longleftrightarrow>
      (\<exists>e. a \<le> e \<and> e \<le> d \<and> map_of st' (iso_date e) = Some v
         \<and> (\<forall>x. e < x \<and> x \<le> d \<longrightarrow> map_of st' (iso_date x) = None))" if "a \<le> d" "d \<le> utc_day now" for d v
  proof -
    have i: "a + int (nat (d - a)) = d" "nat (d - a) < n" using that n(3) by simp_all
    show ?thesis
      using date_mem_history[OF assms(1,2) hi i(2), of v st'] known_before_window[of st' a "nat (d - a)" v]
      unfolding i(1) by (rule trans)
  qed
  show ?thesis
    by (rule exI[of _ "history_spec st' a n"]) (intro conjI allI impI run sorted_history[OF assms(1,2) hi] mem; simp)
qed

theorem apy_history_complete_witness:
  "\<exists>h. getApyHistory (day_reader 20454 20470) (day_start 20457) 3 (Inr [(''2026-01-03'', 7)]) [] =
      (Some (Inr h), with_rows [(''2026-01-03'', 7)] []) \<and> sorted_wrt (<) (map fst h)"
proof -
  have "20454 \<le> (20455 :: int)" "utc_day (day_start 20457) < 20470"
    "20455 = utc_day (day_start 20457) - (min (max 1 3) RETENTION_DAYS - 1)"
    by (simp_all add: RETENTION_DAYS_def)
  from apy_history_complete[OF january_2026.iso_reader_axioms this refl, of "[(''2026-01-03'', 7)]" "[]"]
  show ?thesis by (elim exE conjE) (intro exI conjI, assumption+)
qed

end
