(* ===== verification/ReadRoutes.thy ===== *)
theory ReadRoutes
  imports Listings ApySnapshot
begin

text \<open>
  The read routes of \<open>backend/src/listEndpoints.ts\<close> and the transaction history of
  \<open>backend/src/transactionEndpoints.ts\<close>, behind the cache.  A handler gives a page (status 200) or an error
  response.  The reads of one request see one state of the table \<open>Transaction\<close>.
\<close>

record read_env =
  re_parse :: "string \<Rightarrow> time option"
  re_locale :: locale_compare
  re_maxDays :: int

type_synonym 'a answer = "response + 'a paginated_response"

definition listing_query :: "request \<Rightarrow> pagination_query \<Rightarrow> list_query" where
  "listing_query req pg =
     \<lparr>lq_limit = pq_limit pg, lq_cursor = pq_cursor pg, lq_page = pq_page pg, lq_sortBy = pq_sortBy pg,
      lq_sortOrder = pq_sortOrder pg, lq_type = rq_query req ''type'', lq_status = rq_query req ''status'',
      lq_from = rq_query req ''from'', lq_to = rq_query req ''to'', lq_walletAddress = rq_query req ''walletAddress'',
      lq_startDate = None, lq_endDate = None\<rparr>"

definition date_range_answer :: "string + 'a paginated_response \<Rightarrow> 'a answer" where
  "date_range_answer r = (case r of Inl msg \<Rightarrow> Inl (send_error ''Bad Request'' 400 msg) | Inr p \<Rightarrow> Inr p)"

definition get_transactions :: "read_env \<Rightarrow> time \<Rightarrow> list_tx list \<Rightarrow> request \<Rightarrow> list_tx answer" where
  "get_transactions RE now txs req =
     date_range_answer (buildTransactionsResponse (re_parse RE) (re_locale RE) (re_maxDays RE) now txs
       (listing_query req (parsePaginationQuery req TRANSACTION_PAGINATION_CONFIG)))"

definition get_holdings :: "read_env \<Rightarrow> time \<Rightarrow> holding list \<Rightarrow> request \<Rightarrow> holding answer" where
  "get_holdings RE now hs req =
     Inr (buildPortfolioHoldingsResponse (re_locale RE) now hs
       (listing_query req (parsePaginationQuery req PORTFOLIO_PAGINATION_CONFIG)))"

definition get_vault_history :: "read_env \<Rightarrow> time \<Rightarrow> history_point list \<Rightarrow> request \<Rightarrow> history_point answer" where
  "get_vault_history RE now ps req =
     date_range_answer (buildVaultHistoryResponse (re_parse RE) (re_locale RE) (re_maxDays RE) now ps
       (listing_query req (parsePaginationQuery req VAULT_HISTORY_PAGINATION_CONFIG)))"

definition get_apy_history ::
  "(string \<Rightarrow> time option) \<Rightarrow> time \<Rightarrow> string + (string \<times> rat) list \<Rightarrow> request \<Rightarrow> snapshot_store \<Rightarrow>
   response option \<times> snapshot_store" where
  "get_apy_history parse now rows req st =
     (let rawDays = js_parse_int (if truthy_str (rq_query req ''days'') then the (rq_query req ''days'') else ''30'');
          days = nullish rawDays 30
      in case getApyHistory parse now days rows st of
           (None, st') \<Rightarrow> (None, st')
         | (Some (Inl m), st') \<Rightarrow> (Some (send_error ''Internal Server Error'' 500 ''Failed to fetch APY history''), st')
         | (Some (Inr data), st') \<Rightarrow>
             (Some (send_json 200 (JObj
                [(''data'', JArr (map (\<lambda>(d, a). JObj [(''date'', JStr d), (''apy'', JNum a)]) data)),
                 (''days'', jint days), (''count'', jint (int (length data)))])), st'))"

section \<open>Transactions of a wallet\<close>

definition valid_types :: "string list" where
  "valid_types = [''deposit'', ''withdrawal'']"

text \<open>\<open>Inl\<close> when a type is not known; no type means no filter.\<close>

definition type_filter :: "string option \<Rightarrow> string + string list" where
  "type_filter ty =
     (if \<not> truthy_str ty then Inr []
      else let types = map js_trim (js_split (CHR '','') (the ty))
           in if list_all (\<lambda>t. t \<in> set valid_types) types then Inr types
              else Inl (''Invalid type filter. Allowed values: '' @ js_join '', '' valid_types))"

definition no_range :: parsed_utc_date_range where
  "no_range = \<lparr>dr_start = None, dr_end = None, dr_rawStart = None, dr_rawEnd = None, dr_normalizedStart = None,
     dr_normalizedEnd = None\<rparr>"

record tx_where =
  tw_types :: "string list"
  tw_status :: "string option"
  tw_user :: string
  tw_gte :: "time option"
  tw_lte :: "time option"

definition tx_matches :: "tx_where \<Rightarrow> transaction_row \<Rightarrow> bool" where
  "tx_matches w r \<longleftrightarrow>
     (tw_types w \<noteq> [] \<longrightarrow> tx_type r \<in> set (tw_types w)) \<and> (tw_status w \<noteq> None \<longrightarrow> tx_status r = tw_status w)
     \<and> tx_user r = tw_user w
     \<and> (case tw_gte w of None \<Rightarrow> True | Some t \<Rightarrow> t \<le> tx_timestamp r)
     \<and> (case tw_lte w of None \<Rightarrow> True | Some t \<Rightarrow> tx_timestamp r \<le> t)"

definition goes_after :: "sort_order \<Rightarrow> transaction_row \<Rightarrow> transaction_row \<Rightarrow> bool" where
  "goes_after order a b =
     (case order of Desc \<Rightarrow> tx_timestamp a < tx_timestamp b | Asc \<Rightarrow> tx_timestamp b < tx_timestamp a)"

definition ordered_rows :: "sort_order \<Rightarrow> tx_where \<Rightarrow> transaction_row list \<Rightarrow> transaction_row list" where
  "ordered_rows order w rows = js_sort (goes_after order) (filter (tx_matches w) rows)"

text \<open>The rows strictly before the row of the cursor: \<open>None\<close> when there is no row with its id.\<close>

definition cursor_skip :: "sort_order \<Rightarrow> tx_where \<Rightarrow> transaction_row list \<Rightarrow> string option \<Rightarrow> nat option" where
  "cursor_skip order w rows cursor =
     (if \<not> truthy_str cursor then Some 0
      else (case List.find (\<lambda>r. tx_id r = decodeCursor (the cursor)) rows of
              None \<Rightarrow> None
            | Some c \<Rightarrow> Some (length (filter (\<lambda>r. tx_matches w r \<and> goes_after order c r) rows))))"

definition tx_page ::
  "sort_order \<Rightarrow> tx_where \<Rightarrow> transaction_row list \<Rightarrow> nat \<Rightarrow> nat \<Rightarrow> transaction_row list \<times> pagination_meta" where
  "tx_page order w rows limit skip =
     (let transactions = take (limit + 1) (drop skip (ordered_rows order w rows));
          hasMore = limit < length transactions;
          data = (if hasMore then take limit transactions else transactions)
      in (data, createPaginationEnvelope (int (length data)) (int limit) (Some (int (length (filter (tx_matches w) rows))))
           (if hasMore \<and> data \<noteq> [] then Some (encodeCursor (tx_id (last data))) else None) None None None hasMore (0 < skip)))"

definition bound_time :: "(string \<Rightarrow> time option) \<Rightarrow> string option \<Rightarrow> string + time option" where
  "bound_time parse s =
     (if truthy_str s then (case parse (the s) of None \<Rightarrow> Inl ''Invalid Date'' | Some t \<Rightarrow> Inr (Some t)) else Inr None)"

definition tx_config :: pagination_config where
  "tx_config = DEFAULT_PAGINATION_CONFIG\<lparr>pc_defaultSortBy := Some ''timestamp'', pc_defaultSortOrder := Desc\<rparr>"

definition tx_failure :: response where
  "tx_failure = send_error ''Internal Server Error'' 500 ''Failed to retrieve transaction history''"

text \<open>The branch with a wallet; \<open>fault\<close> says that the database rejects a read.\<close>

definition wallet_transactions ::
  "read_env \<Rightarrow> time \<Rightarrow> bool \<Rightarrow> transaction_row list \<Rightarrow> request \<Rightarrow> string \<Rightarrow> transaction_row answer" where
  "wallet_transactions RE now fault rows req wallet =
     (let q = rq_query req in
      case type_filter (q ''type'') of
        Inl msg \<Rightarrow> Inl (send_error ''Bad Request'' 400 msg)
      | Inr types \<Rightarrow>
          let pg = parsePaginationQuery req tx_config
          in case (if truthy_str (q ''from'') \<or> truthy_str (q ''to'')
                   then parseUtcDateRange (re_parse RE) (re_maxDays RE) (q ''from'') (q ''to'') (Some 366) else Inr no_range) of
               Inl msg \<Rightarrow> Inl (send_error ''Bad Request'' 400 msg)
             | Inr dates \<Rightarrow>
                 (case (bound_time (re_parse RE) (dr_start dates), bound_time (re_parse RE) (dr_end dates)) of
                    (Inr gte, Inr lte) \<Rightarrow>
                      if fault then Inl tx_failure
                      else
                        let w = \<lparr>tw_types = types, tw_status = (if truthy_str (q ''status'') then q ''status'' else None),
                                 tw_user = normalizeWalletAddress (Some wallet), tw_gte = gte, tw_lte = lte\<rparr>;
                            order = (if pq_sortOrder pg = Some Asc then Asc else Desc);
                            limit = nat (num_or (pq_limit pg) (pc_defaultLimit DEFAULT_PAGINATION_CONFIG))
                        in (case cursor_skip order w rows (pq_cursor pg) of
                              None \<Rightarrow> Inl (send_error ''Bad Request'' 400 ''Invalid cursor value'')
                            | Some skip \<Rightarrow>
                                (let (data, meta) = tx_page order w rows limit skip
                                 in Inr (createPaginatedResponse now data meta None)))
                  | _ \<Rightarrow> Inl tx_failure))"

definition mock_transactions ::
  "read_env \<Rightarrow> time \<Rightarrow> list_tx list \<Rightarrow> request \<Rightarrow> list_tx answer" where
  "mock_transactions RE now txs req =
     (let q = rq_query req
      in date_range_answer (buildTransactionsResponse (re_parse RE) (re_locale RE) (re_maxDays RE) now txs
           \<lparr>lq_limit = Option.bind (q ''limit'') js_parse_int, lq_cursor = q ''cursor'',
            lq_page = Option.bind (q ''page'') js_parse_int, lq_sortBy = q ''sortBy'',
            lq_sortOrder = Some (if q ''sortOrder'' = Some ''asc'' then Asc else Desc), lq_type = q ''type'',
            lq_status = q ''status'', lq_from = q ''from'', lq_to = q ''to'', lq_walletAddress = None,
            lq_startDate = None, lq_endDate = None\<rparr>))"

datatype tx_answer = MockAnswer "list_tx answer" | RowAnswer "transaction_row answer"

definition transaction_history ::
  "read_env \<Rightarrow> time \<Rightarrow> bool \<Rightarrow> list_tx list \<Rightarrow> transaction_row list \<Rightarrow> request \<Rightarrow> tx_answer" where
  "transaction_history RE now fault txs rows req =
     (if \<not> truthy_str (rq_query req ''walletAddress'') then MockAnswer (mock_transactions RE now txs req)
      else RowAnswer (wallet_transactions RE now fault rows req (the (rq_query req ''walletAddress''))))"

section \<open>Pages of the history\<close>

lemma length_filter_js_insert: "length (filter P (js_insert gt x ys)) = length (filter P (x # ys))"
  by (induction ys) auto

lemma length_filter_js_sort: "length (filter P (js_sort gt xs)) = length (filter P xs)"
  by (induction xs) (simp_all add: length_filter_js_insert)

text \<open>In a sorted list the elements before \<open>c\<close> are a prefix.\<close>

lemma filter_sorted_prefix:
  assumes "sorted_wrt (\<lambda>a b. P b \<longrightarrow> P a) xs"
  shows "filter P xs = takeWhile P xs"
  using assms by (induction xs) (auto simp: filter_empty_conv)

lemma drop_sorted_prefix:
  assumes "sorted_wrt (\<lambda>a b. P b \<longrightarrow> P a) xs"
  shows "drop (length (filter P xs)) xs = dropWhile P xs"
  by (simp add: filter_sorted_prefix[OF assms] dropWhile_eq_drop)

lemma ordered_rows_sorted: "sorted_wrt (\<lambda>a b. \<not> goes_after order a b) (ordered_rows order w rows)"
  unfolding ordered_rows_def by (rule sorted_js_sort) (auto simp: goes_after_def split: sort_order.splits)

lemma set_ordered_rows: "set (ordered_rows order w rows) = {r \<in> set rows. tx_matches w r}"
  by (auto simp: ordered_rows_def)

lemma rows_from_cursor:
  assumes "List.find (\<lambda>r. tx_id r = decodeCursor (the cursor)) rows = Some c" "truthy_str cursor"
  shows "\<exists>skip. cursor_skip order w rows cursor = Some skip
    \<and> drop skip (ordered_rows order w rows) = dropWhile (goes_after order c) (ordered_rows order w rows)"
proof -
  let ?xs = "ordered_rows order w rows"
  have "sorted_wrt (\<lambda>a b. goes_after order c b \<longrightarrow> goes_after order c a) ?xs"
    by (rule sorted_wrt_mono_rel[OF _ ordered_rows_sorted]) (auto simp: goes_after_def split: sort_order.splits)
  from drop_sorted_prefix[OF this]
  have d: "drop (length (filter (goes_after order c) ?xs)) ?xs = dropWhile (goes_after order c) ?xs" .
  have "length (filter (goes_after order c) ?xs) = length (filter (\<lambda>r. tx_matches w r \<and> goes_after order c r) rows)"
    by (simp add: ordered_rows_def length_filter_js_sort conj_commute)
  with d assms show ?thesis by (simp add: cursor_skip_def)
qed

text \<open>
  A page asked for with the cursor of a row loses no row but repeats rows: it begins with the rows that have
  the time of the cursor's row, the cursor's row itself among them, although the page that gave the cursor
  ended with it; when no two rows have the same time it begins with exactly that row, so with a limit of one
  every following page is the same.
\<close>

theorem cursor_page_repeats:
  assumes "List.find (\<lambda>r. tx_id r = decodeCursor (the cursor)) rows = Some c" "truthy_str cursor"
    and "tx_matches w c" "0 < limit" "inj_on tx_timestamp {r \<in> set rows. tx_matches w r}"
  shows "\<exists>skip rest. cursor_skip order w rows cursor = Some skip \<and> fst (tx_page order w rows limit skip) = c # rest
    \<and> (\<forall>r \<in> set (take skip (ordered_rows order w rows)). goes_after order c r)"
proof -
  let ?xs = "ordered_rows order w rows"
  from rows_from_cursor[OF assms(1,2)] obtain skip where
    s: "cursor_skip order w rows cursor = Some skip" "drop skip ?xs = dropWhile (goes_after order c) ?xs" by blast
  have c: "c \<in> set ?xs" using find_SomeD[OF assms(1)] assms(3) by (simp add: set_ordered_rows)
  have nc: "\<not> goes_after order c c" by (simp add: goes_after_def split: sort_order.splits)
  obtain y ys where y: "dropWhile (goes_after order c) ?xs = y # ys"
    using c nc by (cases "dropWhile (goes_after order c) ?xs") (auto simp: dropWhile_eq_Nil_conv)
  have "y = c"
  proof (rule ccontr)
    assume ne: "y \<noteq> c"
    have ny: "\<not> goes_after order c y" using y by (metis hd_dropWhile list.distinct(1) list.sel(1))
    have "y \<in> set ?xs" using y by (metis list.set_intros(1) set_dropWhileD)
    have "?xs = takeWhile (goes_after order c) ?xs @ y # ys" using y by (metis takeWhile_dropWhile_id)
    moreover have "c \<notin> set (takeWhile (goes_after order c) ?xs)" using nc by (auto dest: set_takeWhileD)
    ultimately have "c \<in> set ys" using c ne by (metis Un_iff set_ConsD set_append)
    moreover have "sorted_wrt (\<lambda>a b. \<not> goes_after order a b) (y # ys)"
      using ordered_rows_sorted[of order w rows] y by (metis sorted_wrt_append takeWhile_dropWhile_id)
    ultimately have "\<not> goes_after order y c" by simp
    with ny have "tx_timestamp y = tx_timestamp c" by (cases order) (auto simp: goes_after_def)
    with assms(5) c \<open>y \<in> set ?xs\<close> ne show False by (auto simp: inj_on_def set_ordered_rows)
  qed
  then have d: "drop skip ?xs = c # ys" using s(2) y by simp
  have "fst (tx_page order w rows limit skip) = take limit (c # ys)"
    using assms(4) by (cases limit) (simp_all add: tx_page_def d Let_def)
  then have p: "fst (tx_page order w rows limit skip) = c # take (limit - 1) ys" using assms(4) by (simp add: take_Cons')
  have "take skip ?xs = takeWhile (goes_after order c) ?xs"
    using s(2) by (metis append_take_drop_id append_same_eq takeWhile_dropWhile_id)
  then show ?thesis using s(1) p by (auto dest: set_takeWhileD)
qed

definition sample_rows :: "transaction_row list" where
  "sample_rows = map (\<lambda>(i, t). \<lparr>tx_id = i, tx_user = ''GW'', tx_amount = ''1'', tx_type = ''deposit'', tx_status = None,
     tx_referralCode = None, tx_timestamp = t\<rparr>) [(''a'', 10), (''b'', 30), (''c'', 20)]"

definition sample_where :: tx_where where
  "sample_where = \<lparr>tw_types = [], tw_status = None, tw_user = ''GW'', tw_gte = None, tw_lte = None\<rparr>"

theorem cursor_page_repeats_witness:
  "\<exists>skip rest. cursor_skip Desc sample_where sample_rows (Some (encodeCursor ''c'')) = Some skip
     \<and> map tx_id (fst (tx_page Desc sample_where sample_rows 1 skip)) = ''c'' # rest"
proof -
  have "List.find (\<lambda>r. tx_id r = decodeCursor (the (Some (encodeCursor ''c'')))) sample_rows = Some (sample_rows ! 2)"
    "truthy_str (Some (encodeCursor ''c''))" "tx_matches sample_where (sample_rows ! 2)"
    "tx_id (sample_rows ! 2) = ''c''"
    by (simp_all add: sample_rows_def sample_where_def cursor_roundtrip tx_matches_def, code_simp)
  moreover have "inj_on tx_timestamp {r \<in> set sample_rows. tx_matches sample_where r}"
    by (auto simp: inj_on_def sample_rows_def)
  ultimately show ?thesis
    using cursor_page_repeats[of "Some (encodeCursor ''c'')" sample_rows "sample_rows ! 2" sample_where 1 Desc] by fastforce
qed

end
