(* ===== verification/Tables.thy ===== *)
theory Tables
  imports Prelude
begin

text \<open>
  A database table that only grows, as a parameter: its rows and the insertion of a row.  The locale states
  what an insertion promises; the table as a list is the instance.
\<close>

record ('r, 't) row_table =
  rt_rows :: "'t \<Rightarrow> 'r list"
  rt_insert :: "'r \<Rightarrow> 't \<Rightarrow> 't"

locale growing_table =
  fixes T :: "('r, 't) row_table"
  assumes rows_insert: "set (rt_rows T (rt_insert T r t)) = insert r (set (rt_rows T t))"
begin

lemma inserted: "r \<in> set (rt_rows T (rt_insert T r t))"
  by (simp add: rows_insert)

lemma kept: "q \<in> set (rt_rows T t) \<Longrightarrow> q \<in> set (rt_rows T (rt_insert T r t))"
  by (simp add: rows_insert)

lemma find_inserted:
  assumes "P r" "\<forall>q \<in> set (rt_rows T t). \<not> P q"
  shows "List.find P (rt_rows T (rt_insert T r t)) = Some r"
proof -
  have "r \<in> set (rt_rows T (rt_insert T r t))" by (rule inserted)
  with assms(1) obtain q where q: "List.find P (rt_rows T (rt_insert T r t)) = Some q"
    by (cases "List.find P (rt_rows T (rt_insert T r t))") (auto simp: find_None_iff)
  from find_SomeD[OF q] have "q = r" using assms(2) by (auto simp: rows_insert)
  with q show ?thesis by simp
qed

end

definition list_table :: "('r, 'r list) row_table" where
  "list_table = \<lparr>rt_rows = (\<lambda>t. t), rt_insert = (\<lambda>r t. t @ [r])\<rparr>"

interpretation list_table: growing_table list_table
  by unfold_locales (simp add: list_table_def)

lemma list_table_laws: "growing_table list_table"
  by (rule list_table.growing_table_axioms)

end
