(* ===== verification/AdminAudit.thy ===== *)
theory AdminAudit
  imports Redaction Tables AccessControl JsonText Calendar
begin

text \<open>
  The audit trails of administrative requests: the ring of \<open>backend/src/auditLog.ts\<close>, the log of
  \<open>backend/src/adminAudit.ts\<close> with its storage modes, and the signed receipts of \<open>backend/src/adminReceipt.ts\<close>.
  Random identifiers, the clock and \<open>sha256\<close> are arguments; the tables are growing tables, and a \<open>fault\<close> says that
  the database rejects the call.
\<close>

section \<open>The ring of audit entries\<close>

record audit_entry =
  ae_id :: string
  ae_timestamp :: time
  ae_actor :: string
  ae_method :: string
  ae_path :: string
  ae_action :: string
  ae_statusCode :: int
  ae_durationMs :: int
  ae_ip :: string
  ae_correlationId :: "string option"
  ae_metadata :: "json option"

definition buildAction :: "request \<Rightarrow> string" where
  "buildAction req =
     (if truthy_str (rq_auditAction req) then the (rq_auditAction req) else js_upper (rq_method req) @ '' '' @ rq_path req)"

text \<open>\<open>override\<close> is the actor a handler has set on the request.\<close>

definition resolveActor :: "(string \<Rightarrow> string) \<Rightarrow> string option \<Rightarrow> request \<Rightarrow> string" where
  "resolveActor sha256 override req =
     (let h = rq_headers req
      in if truthy_str override then the override
         else if truthy_str (h ''x-admin-address'') then the (h ''x-admin-address'')
         else if truthy_str (h ''x-admin-id'') then the (h ''x-admin-id'')
         else if truthy_str (h ''x-wallet-address'') then the (h ''x-wallet-address'')
         else if truthy_str (rq_auditAction req) then ''unknown''
         else if \<not> truthy_str (h ''authorization'') then ''anonymous''
         else (case scheme_match True ''ApiKey'' (the (h ''authorization'')) of
                 Some key \<Rightarrow> ''apiKey:'' @ take 12 (sha256 key)
               | None \<Rightarrow> ''authenticated''))"

definition audit_entry_of ::
  "(string \<Rightarrow> string) \<Rightarrow> time \<Rightarrow> time \<Rightarrow> string \<Rightarrow> string option \<Rightarrow> int \<Rightarrow> request \<Rightarrow> audit_entry" where
  "audit_entry_of sha256 startedAt now hex override status req =
     \<lparr>ae_id = ''audit_'' @ hex, ae_timestamp = now, ae_actor = resolveActor sha256 override req, ae_method = rq_method req,
      ae_path = (if rq_originalUrl req \<noteq> [] then rq_originalUrl req else rq_path req), ae_action = buildAction req,
      ae_statusCode = status, ae_durationMs = now - startedAt,
      ae_ip = (if truthy_str (rq_ip req) then the (rq_ip req) else ''unknown''),
      ae_correlationId = (if truthy_str (rq_headers req ''x-correlation-id'') then rq_headers req ''x-correlation-id'' else None),
      ae_metadata = (if rq_auditMetadata req = JNull then None else Some (redactSensitiveAttributes (rq_auditMetadata req)))\<rparr>"

text \<open>The retention is a number that is not negative, or \<open>NaN\<close>, which never trims.\<close>

definition audit_entryLimit :: "env \<Rightarrow> nat option" where
  "audit_entryLimit E = map_option nat (js_parse_int (env_or E ''AUDIT_LOG_RETENTION'' ''500''))"

definition push_entry :: "nat option \<Rightarrow> audit_entry \<Rightarrow> audit_entry list \<Rightarrow> audit_entry list" where
  "push_entry limit e es = (case limit of None \<Rightarrow> e # es | Some n \<Rightarrow> take n (e # es))"

text \<open>What the middleware does when the response is finished.\<close>

definition createAdminAuditMiddleware ::
  "(string \<Rightarrow> string) \<Rightarrow> env \<Rightarrow> time \<Rightarrow> time \<Rightarrow> string \<Rightarrow> string option \<Rightarrow> int \<Rightarrow> request \<Rightarrow> audit_entry list \<Rightarrow> audit_entry list" where
  "createAdminAuditMiddleware sha256 E startedAt now hex override status req es =
     push_entry (audit_entryLimit E) (audit_entry_of sha256 startedAt now hex override status req) es"

record audit_filters =
  af_actor :: "string option"
  af_action :: "string option"
  af_path :: "string option"
  af_statusCode :: "int option"
  af_limit :: "int option"

definition filter_includes :: "string option \<Rightarrow> string \<Rightarrow> bool" where
  "filter_includes f s \<longleftrightarrow> (truthy_str f \<longrightarrow> contains_sub (the f) s)"

definition audit_matches :: "audit_filters \<Rightarrow> audit_entry \<Rightarrow> bool" where
  "audit_matches f e \<longleftrightarrow> filter_includes (af_actor f) (ae_actor e) \<and> filter_includes (af_action f) (ae_action e)
     \<and> filter_includes (af_path f) (ae_path e) \<and> (af_statusCode f \<noteq> None \<longrightarrow> af_statusCode f = Some (ae_statusCode e))"

definition getAuditLogs :: "audit_filters \<Rightarrow> audit_entry list \<Rightarrow> audit_entry list" where
  "getAuditLogs f es = take (nat (max 1 (min (nullish (af_limit f) 100) 500))) (filter (audit_matches f) es)"

definition getAuditLogMetrics :: "env \<Rightarrow> audit_entry list \<Rightarrow> json" where
  "getAuditLogMetrics E es = JObj
     [(''totalEntries'', jint (int (length es))), (''retentionLimit'', json_opt (\<lambda>n. jint (int n)) (audit_entryLimit E)),
      (''latestTimestamp'', case es of [] \<Rightarrow> JNull | e # _ \<Rightarrow> JStr (to_iso_string (ae_timestamp e)))]"

section \<open>The log of administrative actions\<close>

datatype audit_storage = MemoryStorage | PrismaStorage | HybridStorage

definition audit_normalizeStorageMode :: "string option \<Rightarrow> audit_storage" where
  "audit_normalizeStorageMode raw =
     (if raw = Some ''prisma'' then PrismaStorage else if raw = Some ''memory'' then MemoryStorage else HybridStorage)"

record admin_log =
  al_id :: string
  al_action :: string
  al_method :: string
  al_path :: string
  al_statusCode :: int
  al_actor :: string
  al_apiKeyHash :: string
  al_ipAddress :: string
  al_userAgent :: string
  al_metadata :: json
  al_createdAt :: time

text \<open>A row keeps the text of the metadata.\<close>

record admin_log_row =
  ar_id :: string
  ar_action :: string
  ar_method :: string
  ar_path :: string
  ar_statusCode :: int
  ar_actor :: string
  ar_apiKeyHash :: string
  ar_ipAddress :: string
  ar_userAgent :: string
  ar_metadata :: string
  ar_createdAt :: time

record 't admin_log_state =
  as_memory :: "admin_log list"
  as_rows :: 't

definition log_actor :: "request \<Rightarrow> string" where
  "log_actor req =
     (let h = rq_headers req
      in if truthy_str (h ''x-admin-id'') then the (h ''x-admin-id'')
         else if truthy_str (h ''x-admin-email'') then the (h ''x-admin-email'')
         else if truthy_str (h ''x-wallet-address'') then the (h ''x-wallet-address'') else ''unknown'')"

definition admin_log_of :: "time \<Rightarrow> string \<Rightarrow> request \<Rightarrow> string \<Rightarrow> int \<Rightarrow> json \<Rightarrow> admin_log" where
  "admin_log_of now hex req action statusCode metadata =
     \<lparr>al_id = ''audit_'' @ show_int now @ ''_'' @ hex, al_action = action, al_method = rq_method req, al_path = rq_path req,
      al_statusCode = statusCode, al_actor = log_actor req,
      al_apiKeyHash = (if truthy_str (rq_authApiKeyHash req) then the (rq_authApiKeyHash req) else ''unknown''),
      al_ipAddress = (if truthy_str (rq_ip req) then the (rq_ip req) else ''unknown''),
      al_userAgent = (if truthy_str (rq_headers req ''user-agent'') then the (rq_headers req ''user-agent'') else ''unknown''),
      al_metadata = redactSensitiveLogAttributes metadata, al_createdAt = now\<rparr>"

definition admin_row :: "(json \<Rightarrow> string) \<Rightarrow> admin_log \<Rightarrow> admin_log_row" where
  "admin_row stringify e =
     \<lparr>ar_id = al_id e, ar_action = al_action e, ar_method = al_method e, ar_path = al_path e, ar_statusCode = al_statusCode e,
      ar_actor = al_actor e, ar_apiKeyHash = al_apiKeyHash e, ar_ipAddress = al_ipAddress e, ar_userAgent = al_userAgent e,
      ar_metadata = stringify (al_metadata e), ar_createdAt = al_createdAt e\<rparr>"

definition addInMemory :: "admin_log \<Rightarrow> admin_log list \<Rightarrow> admin_log list" where
  "addInMemory e es = take 1000 (e # es)"

text \<open>\<open>Inl\<close> is the message with which the call rejects.\<close>

definition recordAdminAuditLog ::
  "(admin_log_row, 't) row_table \<Rightarrow> (json \<Rightarrow> string) \<Rightarrow> env \<Rightarrow> time \<Rightarrow> string \<Rightarrow> bool \<Rightarrow>
   request \<Rightarrow> string \<Rightarrow> int \<Rightarrow> json \<Rightarrow> 't admin_log_state \<Rightarrow> (string + unit) \<times> 't admin_log_state" where
  "recordAdminAuditLog T stringify E now hex fault req action statusCode metadata s =
     (let storageMode = audit_normalizeStorageMode (E ''ADMIN_AUDIT_LOG_STORAGE'');
          entry = admin_log_of now hex req action statusCode metadata
      in if storageMode = MemoryStorage then (Inr (), s\<lparr>as_memory := addInMemory entry (as_memory s)\<rparr>)
         else if \<not> fault then (Inr (), s\<lparr>as_rows := rt_insert T (admin_row stringify entry) (as_rows s)\<rparr>)
         else if storageMode = PrismaStorage then (Inl ''Failed to persist admin audit log to Prisma storage'', s)
         else (Inr (), s\<lparr>as_memory := addInMemory entry (as_memory s)\<rparr>))"

record admin_log_filters =
  lf_action :: "string option"
  lf_actor :: "string option"
  lf_statusCode :: "int option"
  lf_limit :: nat

definition log_matches :: "admin_log_filters \<Rightarrow> string \<Rightarrow> string \<Rightarrow> int \<Rightarrow> bool" where
  "log_matches f action actor status \<longleftrightarrow>
     (truthy_str (lf_action f) \<longrightarrow> lf_action f = Some action) \<and> (truthy_str (lf_actor f) \<longrightarrow> lf_actor f = Some actor)
     \<and> (lf_statusCode f \<noteq> None \<longrightarrow> lf_statusCode f = Some status)"

definition listFromMemory :: "admin_log_filters \<Rightarrow> admin_log list \<Rightarrow> admin_log list" where
  "listFromMemory f es =
     take (lf_limit f) (filter (\<lambda>e. log_matches f (al_action e) (al_actor e) (al_statusCode e)) es)"

definition safeParseMetadata :: "(string \<Rightarrow> json option) \<Rightarrow> string \<Rightarrow> json" where
  "safeParseMetadata parse raw =
     (case parse raw of Some (JObj fs) \<Rightarrow> JObj fs | Some (JArr xs) \<Rightarrow> JArr xs | _ \<Rightarrow> JObj [])"

definition log_of_row :: "(string \<Rightarrow> json option) \<Rightarrow> admin_log_row \<Rightarrow> admin_log" where
  "log_of_row parse r =
     \<lparr>al_id = ar_id r, al_action = ar_action r, al_method = ar_method r, al_path = ar_path r, al_statusCode = ar_statusCode r,
      al_actor = ar_actor r, al_apiKeyHash = ar_apiKeyHash r, al_ipAddress = ar_ipAddress r, al_userAgent = ar_userAgent r,
      al_metadata = safeParseMetadata parse (ar_metadata r), al_createdAt = ar_createdAt r\<rparr>"

definition listAdminAuditLogs ::
  "(admin_log_row, 't) row_table \<Rightarrow> (string \<Rightarrow> json option) \<Rightarrow> env \<Rightarrow> bool \<Rightarrow> admin_log_filters \<Rightarrow> 't admin_log_state \<Rightarrow>
   string + admin_log list" where
  "listAdminAuditLogs T parse E fault f s =
     (let storageMode = audit_normalizeStorageMode (E ''ADMIN_AUDIT_LOG_STORAGE'')
      in if storageMode = MemoryStorage then Inr (listFromMemory f (as_memory s))
         else if \<not> fault then
           Inr (map (log_of_row parse) (take (lf_limit f) (js_sort (\<lambda>a b. ar_createdAt a < ar_createdAt b)
             (filter (\<lambda>r. log_matches f (ar_action r) (ar_actor r) (ar_statusCode r)) (rt_rows T (as_rows s))))))
         else if storageMode = PrismaStorage then Inl ''Failed to read admin audit logs from Prisma storage''
         else Inr (listFromMemory f (as_memory s)))"

section \<open>Receipts\<close>

record admin_receipt =
  rp_id :: string
  rp_action :: string
  rp_actor :: string
  rp_timestamp :: string
  rp_inputHash :: string
  rp_resultingState :: json
  rp_signature :: string

record receipt_row =
  rr_id :: string
  rr_action :: string
  rr_actor :: string
  rr_timestamp :: time
  rr_inputHash :: string
  rr_resultingState :: string
  rr_signature :: string

record receipt_env =
  rc_sha256 :: "string \<Rightarrow> string"
  rc_hmac :: "string \<Rightarrow> string \<Rightarrow> string"
  rc_num :: "rat \<Rightarrow> string"
  rc_parse :: "string \<Rightarrow> json option"
  rc_env :: env

definition RECEIPT_SECRET :: "env \<Rightarrow> string" where
  "RECEIPT_SECRET E = env_or E ''ADMIN_ACTION_RECEIPT_SECRET'' ''dev-receipt-secret-change-me''"

definition receipt_payload :: "admin_receipt \<Rightarrow> json" where
  "receipt_payload r = JObj [(''action'', JStr (rp_action r)), (''actor'', JStr (rp_actor r)), (''timestamp'', JStr (rp_timestamp r)),
     (''inputHash'', JStr (rp_inputHash r)), (''resultingState'', rp_resultingState r)]"

definition expected_signature :: "receipt_env \<Rightarrow> admin_receipt \<Rightarrow> string" where
  "expected_signature RC r = rc_hmac RC (RECEIPT_SECRET (rc_env RC)) (json_text (rc_num RC) (receipt_payload r))"

definition receipt_row_of :: "receipt_env \<Rightarrow> time \<Rightarrow> admin_receipt \<Rightarrow> receipt_row" where
  "receipt_row_of RC now r =
     \<lparr>rr_id = rp_id r, rr_action = rp_action r, rr_actor = rp_actor r, rr_timestamp = now, rr_inputHash = rp_inputHash r,
      rr_resultingState = json_text (rc_num RC) (rp_resultingState r), rr_signature = rp_signature r\<rparr>"

text \<open>\<open>ident\<close> is the id the database chooses.\<close>

definition generateAdminReceipt ::
  "receipt_env \<Rightarrow> (receipt_row, 't) row_table \<Rightarrow> time \<Rightarrow> string \<Rightarrow> string option \<Rightarrow> string \<Rightarrow> string \<Rightarrow> json \<Rightarrow> json \<Rightarrow> 't \<Rightarrow>
   (string + admin_receipt) \<times> 't" where
  "generateAdminReceipt RC T now ident fault action actor input resultingState t =
     (let unsigned = \<lparr>rp_id = ident, rp_action = action, rp_actor = actor, rp_timestamp = to_iso_string now,
            rp_inputHash = rc_sha256 RC (json_text (rc_num RC) input), rp_resultingState = resultingState, rp_signature = []\<rparr>;
          r = unsigned\<lparr>rp_signature := expected_signature RC unsigned\<rparr>
      in case fault of
           Some m \<Rightarrow> (Inl m, t)
         | None \<Rightarrow> (Inr r, rt_insert T (receipt_row_of RC now r) t))"

definition verifyReceiptSignature :: "receipt_env \<Rightarrow> admin_receipt \<Rightarrow> bool" where
  "verifyReceiptSignature RC r =
     (let expected = expected_signature RC r
      in if length (rp_signature r) \<noteq> length expected then False else rp_signature r = expected)"

text \<open>\<open>None\<close> when the stored text does not parse: \<open>JSON.parse\<close> throws.\<close>

definition receipt_of_row :: "receipt_env \<Rightarrow> receipt_row \<Rightarrow> admin_receipt option" where
  "receipt_of_row RC r = map_option (\<lambda>st.
     \<lparr>rp_id = rr_id r, rp_action = rr_action r, rp_actor = rr_actor r, rp_timestamp = to_iso_string (rr_timestamp r),
      rp_inputHash = rr_inputHash r, rp_resultingState = st, rp_signature = rr_signature r\<rparr>) (rc_parse RC (rr_resultingState r))"

definition getAdminReceipt ::
  "receipt_env \<Rightarrow> (receipt_row, 't) row_table \<Rightarrow> string \<Rightarrow> 't \<Rightarrow> string + admin_receipt option" where
  "getAdminReceipt RC T i t =
     (case List.find (\<lambda>r. rr_id r = i) (rt_rows T t) of
        None \<Rightarrow> Inr None
      | Some r \<Rightarrow> (case receipt_of_row RC r of None \<Rightarrow> Inl ''Unexpected token in JSON'' | Some x \<Rightarrow> Inr (Some x)))"

definition listAdminReceipts ::
  "receipt_env \<Rightarrow> (receipt_row, 't) row_table \<Rightarrow> string option \<Rightarrow> string option \<Rightarrow> nat \<Rightarrow> 't \<Rightarrow> string + admin_receipt list" where
  "listAdminReceipts RC T action actor limit t =
     (let rows = take (if limit = 0 then 50 else limit) (js_sort (\<lambda>a b. rr_timestamp a < rr_timestamp b)
            (filter (\<lambda>r. (truthy_str action \<longrightarrow> action = Some (rr_action r)) \<and> (truthy_str actor \<longrightarrow> actor = Some (rr_actor r)))
               (rt_rows T t)))
      in if list_all (\<lambda>r. receipt_of_row RC r \<noteq> None) rows then Inr (List.map_filter (receipt_of_row RC) rows)
         else Inl ''Unexpected token in JSON'')"

section \<open>Properties\<close>

text \<open>
  The ring refines the full history: it shows, newest first, exactly the most recent entries up to the
  retention limit (all of them without a limit), and a query answers the newest of them that match, at most 500.
\<close>

theorem audit_ring_refines_history:
  "fold (push_entry (audit_entryLimit E)) hist [] =
     (case audit_entryLimit E of None \<Rightarrow> rev hist | Some n \<Rightarrow> take n (rev hist))
   \<and> getAuditLogs f (fold (push_entry (audit_entryLimit E)) hist []) =
     take (nat (max 1 (min (nullish (af_limit f) 100) 500)))
       (filter (audit_matches f) (case audit_entryLimit E of None \<Rightarrow> rev hist | Some n \<Rightarrow> take n (rev hist)))"
proof -
  have "fold (push_entry limit) hist [] = (case limit of None \<Rightarrow> rev hist | Some n \<Rightarrow> take n (rev hist))" for limit
  proof (induction hist rule: rev_induct)
    case (snoc e hist)
    then show ?case by (cases limit) (auto simp: push_entry_def take_Cons' take_take min_def)
  qed (simp split: option.splits)
  then show ?thesis by (simp add: getAuditLogs_def)
qed

record log_call =
  lc_now :: time
  lc_hex :: string
  lc_fault :: bool
  lc_request :: request
  lc_action :: string
  lc_status :: int
  lc_metadata :: json

definition log_run ::
  "(admin_log_row, 't) row_table \<Rightarrow> (json \<Rightarrow> string) \<Rightarrow> env \<Rightarrow> log_call list \<Rightarrow> 't admin_log_state \<Rightarrow> 't admin_log_state" where
  "log_run T stringify E cs s =
     fold (\<lambda>c s. snd (recordAdminAuditLog T stringify E (lc_now c) (lc_hex c) (lc_fault c) (lc_request c) (lc_action c)
       (lc_status c) (lc_metadata c) s)) cs s"

lemma log_run_simps:
  "log_run T stringify E [] s = s"
  "log_run T stringify E (c # cs) s = log_run T stringify E cs (snd (recordAdminAuditLog T stringify E (lc_now c) (lc_hex c)
     (lc_fault c) (lc_request c) (lc_action c) (lc_status c) (lc_metadata c) s))"
  by (simp_all add: log_run_def)

definition log_clean :: "(admin_log_row, 't) row_table \<Rightarrow> (json \<Rightarrow> string) \<Rightarrow> 't admin_log_state \<Rightarrow> bool" where
  "log_clean T stringify s \<longleftrightarrow>
     (\<forall>e \<in> set (as_memory s). nothing_exposed sensitive_key sensitive_value (al_metadata e))
     \<and> (\<forall>r \<in> set (rt_rows T (as_rows s)). \<exists>j. ar_metadata r = stringify j \<and> nothing_exposed sensitive_key sensitive_value j)
     \<and> length (as_memory s) \<le> 1000"

lemma record_clean:
  assumes "growing_table T" "log_clean T stringify s"
  shows "log_clean T stringify (snd (recordAdminAuditLog T stringify E now hex fault req action status metadata s))"
proof -
  have q: "nothing_exposed sensitive_key sensitive_value (al_metadata (admin_log_of now hex req action status metadata))"
    by (simp add: admin_log_of_def log_redacted)
  then have r: "\<exists>j. ar_metadata (admin_row stringify (admin_log_of now hex req action status metadata)) = stringify j
      \<and> nothing_exposed sensitive_key sensitive_value j"
    by (auto simp: admin_row_def)
  show ?thesis
    using assms(2) q r by (auto simp: recordAdminAuditLog_def log_clean_def addInMemory_def Let_def
        growing_table.rows_insert[OF assms(1)] dest: in_set_takeD)
qed

text \<open>
  C34.  The administrative log exposes nothing: whatever calls are made, in every storage mode and whether or not
  the database fails, the metadata of every entry kept in memory or written to the table is redacted at every
  depth, and the memory keeps at most a thousand entries.
\<close>

theorem admin_log_exposes_nothing:
  assumes "growing_table T" "rt_rows T t = []"
  shows "log_clean T stringify (log_run T stringify E cs \<lparr>as_memory = [], as_rows = t\<rparr>)"
proof -
  have "log_clean T stringify (log_run T stringify E cs s)" if "log_clean T stringify s" for s
    using that by (induction cs arbitrary: s) (simp_all add: log_run_simps record_clean[OF assms(1)])
  moreover have "log_clean T stringify \<lparr>as_memory = [], as_rows = t\<rparr>" using assms(2) by (simp add: log_clean_def)
  ultimately show ?thesis .
qed

theorem admin_log_exposes_nothing_witness:
  "log_clean list_table (json_text (\<lambda>r. ''0'')) (log_run list_table (json_text (\<lambda>r. ''0'')) (\<lambda>k. None)
     [\<lparr>lc_now = 0, lc_hex = ''a'', lc_fault = True, lc_request = blank_request, lc_action = ''maintenance.toggle'', lc_status = 200,
        lc_metadata = JObj [(''token'', JStr ''abc'')]\<rparr>] \<lparr>as_memory = [], as_rows = []\<rparr>)"
  by (rule admin_log_exposes_nothing[OF list_table_laws]) (simp add: list_table_def)

text \<open>
  A receipt can be proved later: the receipt read back under its id is the one that was handed out and its
  signature verifies; and a receipt verifies only with the server's HMAC of exactly its action, actor, time,
  input hash and resulting state.
\<close>

theorem receipt_verifies:
  assumes "growing_table T" "\<forall>r \<in> set (rt_rows T t). rr_id r \<noteq> ident"
    and "rc_parse RC (json_text (rc_num RC) st) = Some st"
    and "generateAdminReceipt RC T now ident fault action actor input st t = (Inr receipt, t')"
  shows "getAdminReceipt RC T ident t' = Inr (Some receipt) \<and> verifyReceiptSignature RC receipt
    \<and> rp_action receipt = action \<and> rp_actor receipt = actor \<and> rp_resultingState receipt = st
    \<and> (\<forall>r. verifyReceiptSignature RC r \<longrightarrow> rp_signature r =
         rc_hmac RC (RECEIPT_SECRET (rc_env RC)) (json_text (rc_num RC) (receipt_payload r)))"
proof -
  have g: "rp_id receipt = ident" "t' = rt_insert T (receipt_row_of RC now receipt) t" "rp_signature receipt = expected_signature RC receipt"
    "rp_timestamp receipt = to_iso_string now" "rp_action receipt = action" "rp_actor receipt = actor" "rp_resultingState receipt = st"
    using assms(4)
    by (auto simp: generateAdminReceipt_def Let_def expected_signature_def receipt_payload_def split: option.splits)
  have f: "List.find (\<lambda>r. rr_id r = ident) (rt_rows T t') = Some (receipt_row_of RC now receipt)"
    unfolding g(2) by (rule growing_table.find_inserted[OF assms(1)]) (use assms(2) g(1) in \<open>simp_all add: receipt_row_of_def\<close>)
  have "receipt_of_row RC (receipt_row_of RC now receipt) = Some receipt"
    using assms(3) g(1,4,7) by (simp add: receipt_of_row_def receipt_row_of_def)
  then have "getAdminReceipt RC T ident t' = Inr (Some receipt)" using f by (simp add: getAdminReceipt_def)
  moreover have v: "verifyReceiptSignature RC r \<longleftrightarrow> rp_signature r = expected_signature RC r" for r
    by (auto simp: verifyReceiptSignature_def Let_def)
  ultimately show ?thesis unfolding v using g(3,5-7) by (simp add: expected_signature_def)
qed

definition sample_receipt_env :: receipt_env where
  "sample_receipt_env = \<lparr>rc_sha256 = (\<lambda>s. show_nat (length s)), rc_hmac = (\<lambda>k m. m), rc_num = (\<lambda>r. ''0''),
     rc_parse = (\<lambda>s. Some (JObj [(''enabled'', JBool True)])), rc_env = (\<lambda>k. None)\<rparr>"

theorem receipt_verifies_witness:
  "\<exists>receipt t'. generateAdminReceipt sample_receipt_env list_table 0 ''r1'' None ''maintenance.toggle'' ''admin'' JNull
       (JObj [(''enabled'', JBool True)]) [] = (Inr receipt, t')
     \<and> getAdminReceipt sample_receipt_env list_table ''r1'' t' = Inr (Some receipt)"
proof -
  obtain receipt t' where g: "generateAdminReceipt sample_receipt_env list_table 0 ''r1'' None ''maintenance.toggle'' ''admin'' JNull
      (JObj [(''enabled'', JBool True)]) [] = (Inr receipt, t')"
    by (simp add: generateAdminReceipt_def Let_def)
  have "\<forall>r \<in> set (rt_rows list_table []). rr_id r \<noteq> ''r1''" by (simp add: list_table_def)
  moreover have "rc_parse sample_receipt_env (json_text (rc_num sample_receipt_env) (JObj [(''enabled'', JBool True)])) =
      Some (JObj [(''enabled'', JBool True)])" by (simp add: sample_receipt_env_def)
  ultimately show ?thesis using receipt_verifies[OF list_table_laws _ _ g] g by blast
qed

end
