(* ===== verification/AdminRoutes.thy ===== *)
theory AdminRoutes
  imports AdminAudit Gates Pagination DateRange
begin

text \<open>
  The administrative routes of \<open>backend/src/index.ts\<close> that change the maintenance mode and the allow list, with
  their previews, receipts and audit entries, and the routes that read receipts and audit logs.  A change
  is cut at the wait for its receipt: \<open>_begin\<close> is everything before it, \<open>finish_change\<close> everything after.
  \<open>None\<close> in the place of a response means that the promise of the handler is rejected: Express 4 then never
  answers.  Audit entries are not awaited, so their failure has no effect on the answer.
\<close>

section \<open>Helpers of the routes\<close>

definition resolveActingAdminAddress :: "request \<Rightarrow> string" where
  "resolveActingAdminAddress req =
     (let h = rq_headers req;
          address = (if truthy_str (h ''x-admin-address'') then the (h ''x-admin-address'')
            else if truthy_str (h ''x-admin-id'') then the (h ''x-admin-id'')
            else if truthy_str (h ''x-wallet-address'') then the (h ''x-wallet-address'') else ''unknown'')
      in if address = ''unknown'' then address else normalizeWalletAddress (Some address))"

definition parseLimited :: "string option \<Rightarrow> int \<Rightarrow> int \<Rightarrow> int \<Rightarrow> int" where
  "parseLimited v fallback mn mx =
     (case js_parse_int (nullish v []) of None \<Rightarrow> fallback | Some n \<Rightarrow> min (max n mn) mx)"

definition isDryRunRequest :: "request \<Rightarrow> bool" where
  "isDryRunRequest req =
     (let from_query = map_option JStr (rq_query req ''dryRun'');
          v = (case body_field req ''dryRun'' of None \<Rightarrow> from_query | Some JNull \<Rightarrow> from_query | Some b \<Rightarrow> Some b)
      in v = Some (JBool True) \<or> v = Some (JStr ''true'') \<or> v = Some (JStr ''1''))"

text \<open>\<open>None\<close> is \<open>NaN\<close>.\<close>

definition countInclusiveDays :: "(string \<Rightarrow> time option) \<Rightarrow> string \<Rightarrow> string \<Rightarrow> int option" where
  "countInclusiveDays parse start fin =
     (case (parse (start @ ''T00:00:00.000Z''), parse (fin @ ''T00:00:00.000Z'')) of
        (Some startMs, Some endMs) \<Rightarrow> Some ((endMs - startMs) div 86400000 + 1)
      | _ \<Rightarrow> None)"

definition paginateByLimit :: "'a list \<Rightarrow> int \<Rightarrow> 'a list \<times> bool" where
  "paginateByLimit rows limit =
     (let hasNextPage = limit < int (length rows) in (if hasNextPage then take (nat limit) rows else rows, hasNextPage))"

definition meta_json :: "pagination_meta \<Rightarrow> json" where
  "meta_json m = JObj
     [(''count'', jint (pm_count m)), (''limit'', jint (pm_limit m)), (''total'', json_opt jint (pm_total m)),
      (''nextCursor'', json_opt JStr (pm_nextCursor m)), (''prevCursor'', json_opt JStr (pm_prevCursor m)),
      (''currentPage'', json_opt jint (pm_currentPage m)), (''totalPages'', json_opt jint (pm_totalPages m)),
      (''hasNextPage'', JBool (pm_hasNextPage m)), (''hasPrevPage'', JBool (pm_hasPrevPage m))]"

text \<open>What the routes pass: the data as JSON, the limit, whether there is a next or previous page, the cursor, the
  total when it is not the number of rows, and the extra fields, which win over fields of the same name.\<close>

record list_envelope =
  le_data :: "json list"
  le_limit :: int
  le_hasNextPage :: bool
  le_hasPrevPage :: bool
  le_nextCursor :: "string option"
  le_total :: "int option"
  le_extras :: "(string \<times> json) list"

definition envelope_of :: "json list \<Rightarrow> int \<Rightarrow> bool \<Rightarrow> (string \<times> json) list \<Rightarrow> list_envelope" where
  "envelope_of data limit hasNext extras =
     \<lparr>le_data = data, le_limit = limit, le_hasNextPage = hasNext, le_hasPrevPage = False, le_nextCursor = None,
      le_total = None, le_extras = extras\<rparr>"

definition sendStandardListEnvelope :: "time \<Rightarrow> list_envelope \<Rightarrow> response" where
  "sendStandardListEnvelope now e =
     (let n = int (length (le_data e));
          p = createPaginatedResponse now (le_data e)
            \<lparr>pm_count = n, pm_limit = le_limit e, pm_total = Some (nullish (le_total e) n), pm_nextCursor = le_nextCursor e,
             pm_prevCursor = None, pm_currentPage = None, pm_totalPages = None, pm_hasNextPage = le_hasNextPage e,
             pm_hasPrevPage = le_hasPrevPage e\<rparr> None
      in send_json 200 (JObj (fold (\<lambda>(k, v). AList.update k v) (le_extras e)
           [(''data'', JArr (pr_data p)), (''pagination'', meta_json (pr_pagination p)),
            (''timestamp'', JStr (to_iso_string (pr_timestamp p)))])))"

section \<open>The state the routes change\<close>

record ('rc, 'lg) admin_world =
  ad_maintenance :: "maintenance_state option"
  ad_allowlist :: allowlist
  ad_receipts :: 'rc
  ad_log :: "'lg admin_log_state"

record ('rc, 'lg) admin_env =
  an_env :: env
  an_envState :: maintenance_state
  an_receipt :: receipt_env
  an_receipts :: "(receipt_row, 'rc) row_table"
  an_logs :: "(admin_log_row, 'lg) row_table"
  an_stringify :: "json \<Rightarrow> string"

text \<open>What a call takes from its surroundings: its time, the id of the audit entry and whether its insertion
  fails; and, after the wait, the time, the id of the receipt and the error of its insertion.\<close>

record admin_call =
  cl_now :: time
  cl_hex :: string
  cl_logFault :: bool

record receipt_reply =
  ry_now :: time
  ry_ident :: string
  ry_fault :: "string option"

definition audit_note ::
  "('rc, 'lg) admin_env \<Rightarrow> admin_call \<Rightarrow> request \<Rightarrow> string \<Rightarrow> int \<Rightarrow> json \<Rightarrow> ('rc, 'lg) admin_world \<Rightarrow> ('rc, 'lg) admin_world" where
  "audit_note N c req action status metadata w =
     w\<lparr>ad_log := snd (recordAdminAuditLog (an_logs N) (an_stringify N) (an_env N) (cl_now c) (cl_hex c) (cl_logFault c)
        req action status metadata (ad_log w))\<rparr>"

text \<open>A change that waits for its receipt.\<close>

datatype change =
    Toggled maintenance_state maintenance_state
  | Added string bool
  | Removed string

record pending_change =
  pg_change :: change
  pg_request :: request
  pg_actor :: string
  pg_action :: string
  pg_input :: json
  pg_state :: json

datatype begun_change = Answered response | Threw | Waiting pending_change

section \<open>Maintenance mode\<close>

definition maintenance_json :: "maintenance_state \<Rightarrow> json" where
  "maintenance_json m = JObj
     ([(''enabled'', JBool (mm_enabled m))] @ opt_prop ''reason'' (map_option JStr (mm_reason m))
      @ [(''updatedAt'', JStr (to_iso_string (mm_updatedAt m)))] @ opt_prop ''updatedBy'' (map_option JStr (mm_updatedBy m))
      @ [(''retryAfterSeconds'', json_opt jint (mm_retryAfterSeconds m))])"

definition get_maintenance :: "('rc, 'lg) admin_env \<Rightarrow> time \<Rightarrow> ('rc, 'lg) admin_world \<Rightarrow> response" where
  "get_maintenance N now w =
     send_json 200 (JObj [(''maintenance'', maintenance_json (getMaintenanceModeState (an_envState N) (ad_maintenance w))),
       (''timestamp'', JStr (to_iso_string now))])"

text \<open>\<open>None\<close> is a reason without \<open>trim\<close>.  The state keeps whole numbers of seconds: other numbers are rounded
  down and values that are no numbers read as absent, where the code keeps them.\<close>

definition read_reason :: "request \<Rightarrow> reason_update option" where
  "read_reason req =
     (case body_field req ''reason'' of
        None \<Rightarrow> Some ReasonAbsent
      | Some JNull \<Rightarrow> Some ReasonNull
      | Some (JStr s) \<Rightarrow> Some (ReasonText s)
      | _ \<Rightarrow> None)"

definition read_seconds :: "request \<Rightarrow> int option" where
  "read_seconds req = (case body_field req ''retryAfterSeconds'' of Some (JNum r) \<Rightarrow> Some \<lfloor>r\<rfloor> | _ \<Rightarrow> None)"

definition maintenance_preview :: "time \<Rightarrow> string \<Rightarrow> bool \<Rightarrow> request \<Rightarrow> maintenance_state \<Rightarrow> maintenance_state" where
  "maintenance_preview now actor enabled req previous =
     \<lparr>mm_enabled = enabled,
      mm_reason = (case body_field req ''reason'' of
          None \<Rightarrow> mm_reason previous
        | Some (JStr s) \<Rightarrow> non_blank (Some (js_trim s))
        | _ \<Rightarrow> None),
      mm_updatedAt = now, mm_updatedBy = Some actor,
      mm_retryAfterSeconds = (case read_seconds req of None \<Rightarrow> mm_retryAfterSeconds previous | Some r \<Rightarrow> Some r)\<rparr>"

definition toggled_state :: "maintenance_state \<Rightarrow> maintenance_state \<Rightarrow> json" where
  "toggled_state previous nxt = JObj
     ([(''enabled'', JBool (mm_enabled nxt))] @ opt_prop ''reason'' (map_option JStr (mm_reason nxt))
      @ [(''retryAfterSeconds'', json_opt jint (mm_retryAfterSeconds nxt)), (''previousEnabled'', JBool (mm_enabled previous))])"

definition maintenance_begin ::
  "('rc, 'lg) admin_env \<Rightarrow> admin_call \<Rightarrow> request \<Rightarrow> ('rc, 'lg) admin_world \<Rightarrow> begun_change \<times> ('rc, 'lg) admin_world" where
  "maintenance_begin N c req w =
     (case body_field req ''enabled'' of
        Some (JBool enabled) \<Rightarrow>
          let actor = resolveActingAdminAddress req;
              previous = getMaintenanceModeState (an_envState N) (ad_maintenance w);
              preview = maintenance_preview (cl_now c) actor enabled req previous
          in if isDryRunRequest req then
               (Answered (send_json 200 (JObj
                  [(''dryRun'', JBool True),
                   (''message'', JStr (''Maintenance mode would be '' @ (if mm_enabled preview then ''enabled'' else ''disabled''))),
                   (''previous'', maintenance_json previous), (''maintenance'', maintenance_json preview),
                   (''timestamp'', JStr (to_iso_string (cl_now c)))])),
                audit_note N c req ''maintenance.toggle.dry_run'' 200
                  (JObj ([(''enabled'', JBool (mm_enabled preview)), (''previousEnabled'', JBool (mm_enabled previous))]
                    @ opt_prop ''reason'' (map_option JStr (mm_reason preview)) @ [(''actor'', JStr actor)])) w)
             else (case read_reason req of
                 None \<Rightarrow> (Threw, w)
               | Some reason \<Rightarrow>
                   let (nxt, run) = updateMaintenanceModeState (an_envState N) (cl_now c)
                         \<lparr>mu_enabled = Some enabled, mu_reason = reason, mu_retryAfterSeconds = read_seconds req,
                          mu_actor = Some actor\<rparr> (ad_maintenance w)
                   in (Waiting \<lparr>pg_change = Toggled previous nxt, pg_request = req, pg_actor = actor,
                         pg_action = ''maintenance.toggle'',
                         pg_input = JObj ([(''enabled'', JBool enabled)] @ opt_prop ''reason'' (body_field req ''reason'')
                           @ opt_prop ''retryAfterSeconds'' (body_field req ''retryAfterSeconds'')),
                         pg_state = toggled_state previous nxt\<rparr>,
                       w\<lparr>ad_maintenance := run\<rparr>))
      | _ \<Rightarrow> (Answered (send_error ''Bad Request'' 400 ''`enabled` (boolean) is required''), w))"

section \<open>Allow list\<close>

definition body_wallet :: "request \<Rightarrow> string option" where
  "body_wallet req = (if truthy_str (body_string req ''walletAddress'') then body_string req ''walletAddress'' else None)"

definition bare_error :: "int \<Rightarrow> string \<Rightarrow> response" where
  "bare_error status msg = send_json status (JObj [(''error'', JStr msg)])"

definition allowlist_add_begin ::
  "request \<Rightarrow> ('rc, 'lg) admin_world \<Rightarrow> begun_change \<times> ('rc, 'lg) admin_world" where
  "allowlist_add_begin req w =
     (case body_wallet req of
        None \<Rightarrow> (Answered (bare_error 400 ''Missing or invalid walletAddress in request body''), w)
      | Some wallet \<Rightarrow>
          let (added, al) = addAddress wallet (ad_allowlist w)
          in (Waiting \<lparr>pg_change = Added wallet added, pg_request = req, pg_actor = resolveActingAdminAddress req,
                pg_action = ''allowlist.add'', pg_input = JObj [(''walletAddress'', JStr wallet)],
                pg_state = JObj [(''added'', JBool added), (''totalCount'', jint (int (allowlistSize al)))]\<rparr>,
              w\<lparr>ad_allowlist := al\<rparr>))"

definition allowlist_remove_begin ::
  "request \<Rightarrow> ('rc, 'lg) admin_world \<Rightarrow> begun_change \<times> ('rc, 'lg) admin_world" where
  "allowlist_remove_begin req w =
     (case body_wallet req of
        None \<Rightarrow> (Answered (bare_error 400 ''Missing or invalid walletAddress in request body''), w)
      | Some wallet \<Rightarrow>
          let (removed, al) = removeAddress wallet (ad_allowlist w)
          in if \<not> removed then (Answered (bare_error 404 ''Wallet address not found in allowlist''), w\<lparr>ad_allowlist := al\<rparr>)
             else (Waiting \<lparr>pg_change = Removed wallet, pg_request = req, pg_actor = resolveActingAdminAddress req,
                pg_action = ''allowlist.remove'', pg_input = JObj [(''walletAddress'', JStr wallet)],
                pg_state = JObj [(''removed'', JBool True), (''totalCount'', jint (int (allowlistSize al)))]\<rparr>,
              w\<lparr>ad_allowlist := al\<rparr>))"

definition get_allowlist :: "env \<Rightarrow> ('rc, 'lg) admin_world \<Rightarrow> response" where
  "get_allowlist E w = send_json 200 (JObj
     [(''addresses'', JArr (map JStr (listAddresses (ad_allowlist w)))), (''count'', jint (int (allowlistSize (ad_allowlist w)))),
      (''enabled'', JBool (E ''ALLOWLIST_ENABLED'' \<noteq> Some ''false''))])"

section \<open>After the receipt\<close>

definition receipt_json :: "admin_receipt \<Rightarrow> json" where
  "receipt_json r = JObj
     [(''id'', JStr (rp_id r)), (''action'', JStr (rp_action r)), (''actor'', JStr (rp_actor r)), (''timestamp'', JStr (rp_timestamp r)),
      (''inputHash'', JStr (rp_inputHash r)), (''resultingState'', rp_resultingState r), (''signature'', JStr (rp_signature r))]"

definition change_status :: "change \<Rightarrow> int" where
  "change_status ch = (case ch of Added _ added \<Rightarrow> if added then 201 else 200 | _ \<Rightarrow> 200)"

definition change_note :: "change \<Rightarrow> string \<Rightarrow> admin_receipt \<Rightarrow> json" where
  "change_note ch actor r =
     (case ch of
        Toggled previous nxt \<Rightarrow> JObj ([(''enabled'', JBool (mm_enabled nxt)), (''previousEnabled'', JBool (mm_enabled previous))]
          @ opt_prop ''reason'' (map_option JStr (mm_reason nxt)) @ [(''actor'', JStr actor), (''receiptId'', JStr (rp_id r))])
      | Added wallet added \<Rightarrow> JObj [(''walletAddress'', JStr wallet), (''added'', JBool added), (''actor'', JStr actor),
          (''receiptId'', JStr (rp_id r))]
      | Removed wallet \<Rightarrow> JObj [(''walletAddress'', JStr wallet), (''actor'', JStr actor), (''receiptId'', JStr (rp_id r))])"

definition change_body :: "time \<Rightarrow> nat \<Rightarrow> change \<Rightarrow> admin_receipt \<Rightarrow> json" where
  "change_body now n ch r =
     (case ch of
        Toggled previous nxt \<Rightarrow> JObj
          [(''message'', JStr (''Maintenance mode '' @ (if mm_enabled nxt then ''enabled'' else ''disabled''))),
           (''maintenance'', maintenance_json nxt), (''timestamp'', JStr (to_iso_string now)), (''receipt'', receipt_json r)]
      | Added wallet added \<Rightarrow> JObj
          [(''message'', JStr (if added then ''Wallet added to allowlist'' else ''Wallet already in allowlist'')),
           (''walletAddress'', JStr (js_upper (js_trim wallet))), (''count'', jint (int n)), (''receipt'', receipt_json r)]
      | Removed wallet \<Rightarrow> JObj
          [(''message'', JStr ''Wallet removed from allowlist''),
           (''walletAddress'', JStr (js_upper (js_trim wallet))), (''count'', jint (int n)), (''receipt'', receipt_json r)])"

definition finish_change ::
  "('rc, 'lg) admin_env \<Rightarrow> admin_call \<Rightarrow> receipt_reply \<Rightarrow> pending_change \<Rightarrow> ('rc, 'lg) admin_world \<Rightarrow>
   response option \<times> ('rc, 'lg) admin_world" where
  "finish_change N c ry p w =
     (case generateAdminReceipt (an_receipt N) (an_receipts N) (cl_now c) (ry_ident ry) (ry_fault ry) (pg_action p) (pg_actor p)
        (pg_input p) (pg_state p) (ad_receipts w) of
        (Inl m, t) \<Rightarrow> (None, w\<lparr>ad_receipts := t\<rparr>)
      | (Inr r, t) \<Rightarrow>
          let w1 = audit_note N c (pg_request p) (pg_action p) (change_status (pg_change p))
                (change_note (pg_change p) (pg_actor p) r) (w\<lparr>ad_receipts := t\<rparr>)
          in (Some (send_json (change_status (pg_change p))
                (change_body (ry_now ry) (allowlistSize (ad_allowlist w1)) (pg_change p) r)), w1))"

definition answered_change ::
  "('rc, 'lg) admin_env \<Rightarrow> admin_call \<Rightarrow> receipt_reply \<Rightarrow> begun_change \<times> ('rc, 'lg) admin_world \<Rightarrow>
   response option \<times> ('rc, 'lg) admin_world" where
  "answered_change N c ry b =
     (case b of
        (Answered r, w) \<Rightarrow> (Some r, w)
      | (Threw, w) \<Rightarrow> (None, w)
      | (Waiting p, w) \<Rightarrow> finish_change N c ry p w)"

section \<open>A preview shows what the change would do\<close>

definition body_part :: "response \<Rightarrow> string \<Rightarrow> json option" where
  "body_part r k = (case rs_body r of JObj fs \<Rightarrow> map_of fs k | _ \<Rightarrow> None)"

text \<open>
  The preview of a maintenance change is exact: a dry run changes nothing but the audit log, and the state it
  shows is the one that the same request without the dry run sets.
\<close>

theorem maintenance_preview_exact:
  assumes "body_field req ''enabled'' = Some (JBool b)" "read_reason req = Some reason"
    and "isDryRunRequest req" "\<not> isDryRunRequest req1"
    and "\<forall>k \<in> {''enabled'', ''reason'', ''retryAfterSeconds''}. body_field req1 k = body_field req k"
    and "resolveActingAdminAddress req1 = resolveActingAdminAddress req"
  shows "\<exists>r log shown p. maintenance_begin N c req w = (Answered r, w\<lparr>ad_log := log\<rparr>) \<and> rs_status r = 200
    \<and> body_part r ''maintenance'' = Some (maintenance_json shown)
    \<and> maintenance_begin N c req1 w = (Waiting p, w\<lparr>ad_maintenance := Some shown\<rparr>)"
proof -
  define previous where "previous = getMaintenanceModeState (an_envState N) (ad_maintenance w)"
  define actor where "actor = resolveActingAdminAddress req"
  define shown where "shown = maintenance_preview (cl_now c) actor b req previous"
  have same: "body_field req1 ''enabled'' = Some (JBool b)" "read_reason req1 = Some reason" "read_seconds req1 = read_seconds req"
    using assms(1,2,5) by (simp_all add: read_reason_def read_seconds_def)
  have upd: "updateMaintenanceModeState (an_envState N) (cl_now c)
      \<lparr>mu_enabled = Some b, mu_reason = reason, mu_retryAfterSeconds = read_seconds req, mu_actor = Some actor\<rparr> (ad_maintenance w)
      = (shown, Some shown)"
    using assms(2)
    by (auto simp: updateMaintenanceModeState_def Let_def shown_def previous_def maintenance_preview_def read_reason_def
        split: option.splits json.splits)
  have "\<exists>p. maintenance_begin N c req1 w = (Waiting p, w\<lparr>ad_maintenance := Some shown\<rparr>)"
    using same upd assms(4,6) by (simp add: maintenance_begin_def Let_def actor_def)
  moreover obtain r log where "maintenance_begin N c req w = (Answered r, w\<lparr>ad_log := log\<rparr>)" "rs_status r = 200"
      "body_part r ''maintenance'' = Some (maintenance_json shown)"
    using assms(1,3)
    by (simp add: maintenance_begin_def Let_def audit_note_def body_part_def shown_def previous_def actor_def)
  ultimately show ?thesis by blast
qed

definition sample_admin_env :: "(receipt_row list, admin_log_row list) admin_env" where
  "sample_admin_env = \<lparr>an_env = (\<lambda>k. None), an_envState = readEnvState (\<lambda>k. None) 0, an_receipt = sample_receipt_env,
     an_receipts = list_table, an_logs = list_table, an_stringify = json_text (\<lambda>r. ''0'')\<rparr>"

definition sample_admin_world :: "(receipt_row list, admin_log_row list) admin_world" where
  "sample_admin_world = \<lparr>ad_maintenance = None, ad_allowlist = [], ad_receipts = [],
     ad_log = \<lparr>as_memory = [], as_rows = []\<rparr>\<rparr>"

definition sample_toggle :: "(string \<times> json) list \<Rightarrow> request" where
  "sample_toggle extra = blank_request\<lparr>rq_body := JObj ([(''enabled'', JBool True), (''reason'', JStr ''upgrade'')] @ extra)\<rparr>"

theorem maintenance_preview_exact_witness:
  "\<exists>r log shown p. maintenance_begin sample_admin_env \<lparr>cl_now = 5, cl_hex = ''a'', cl_logFault = False\<rparr>
      (sample_toggle [(''dryRun'', JBool True)]) sample_admin_world = (Answered r, sample_admin_world\<lparr>ad_log := log\<rparr>)
    \<and> rs_status r = 200 \<and> body_part r ''maintenance'' = Some (maintenance_json shown)
    \<and> maintenance_begin sample_admin_env \<lparr>cl_now = 5, cl_hex = ''a'', cl_logFault = False\<rparr> (sample_toggle []) sample_admin_world
        = (Waiting p, sample_admin_world\<lparr>ad_maintenance := Some shown\<rparr>)"
  by (rule maintenance_preview_exact[where b = True and reason = "ReasonText ''upgrade''"])
    (simp_all add: sample_toggle_def blank_request_def body_field_def read_reason_def isDryRunRequest_def
      resolveActingAdminAddress_def Let_def)

section \<open>The receipts account for the state\<close>

datatype admin_route = MaintenanceRoute | AddRoute | RemoveRoute

fun begin_route ::
  "('rc, 'lg) admin_env \<Rightarrow> admin_route \<Rightarrow> admin_call \<Rightarrow> request \<Rightarrow> ('rc, 'lg) admin_world \<Rightarrow>
   begun_change \<times> ('rc, 'lg) admin_world" where
  "begin_route N MaintenanceRoute c req w = maintenance_begin N c req w"
| "begin_route N AddRoute c req w = allowlist_add_begin req w"
| "begin_route N RemoveRoute c req w = allowlist_remove_begin req w"

text \<open>A run: calls begin and receipts come back in any order.  \<open>rn_changes\<close> lists the changes made and \<open>rn_lost\<close>
  those whose receipt was refused.\<close>

record ('rc, 'lg) admin_run =
  rn_world :: "('rc, 'lg) admin_world"
  rn_pending :: "(admin_call \<times> pending_change) list"
  rn_changes :: "pending_change list"
  rn_lost :: "pending_change list"

datatype admin_event = Call admin_route admin_call request | Reply nat receipt_reply

fun admin_step :: "('rc, 'lg) admin_env \<Rightarrow> admin_event \<Rightarrow> ('rc, 'lg) admin_run \<Rightarrow> ('rc, 'lg) admin_run" where
  "admin_step N (Call route c req) s =
     (case begin_route N route c req (rn_world s) of
        (Waiting p, w) \<Rightarrow> s\<lparr>rn_world := w, rn_pending := rn_pending s @ [(c, p)], rn_changes := rn_changes s @ [p]\<rparr>
      | (_, w) \<Rightarrow> s\<lparr>rn_world := w\<rparr>)"
| "admin_step N (Reply i ry) s =
     (if i < length (rn_pending s) then
        let (c, p) = rn_pending s ! i; (answer, w) = finish_change N c ry p (rn_world s)
        in s\<lparr>rn_world := w, rn_pending := take i (rn_pending s) @ drop (Suc i) (rn_pending s),
             rn_lost := (if answer = None then rn_lost s @ [p] else rn_lost s)\<rparr>
      else s)"

definition receipt_of :: "receipt_env \<Rightarrow> pending_change \<Rightarrow> receipt_row \<Rightarrow> bool" where
  "receipt_of RC p row \<longleftrightarrow>
     rr_action row = pg_action p \<and> rr_actor row = pg_actor p \<and> rr_inputHash row = rc_sha256 RC (json_text (rc_num RC) (pg_input p))
     \<and> rr_resultingState row = json_text (rc_num RC) (pg_state p)
     \<and> rr_signature row = rc_hmac RC (RECEIPT_SECRET (rc_env RC)) (json_text (rc_num RC)
         (JObj [(''action'', JStr (pg_action p)), (''actor'', JStr (pg_actor p)), (''timestamp'', JStr (to_iso_string (rr_timestamp row))),
            (''inputHash'', JStr (rr_inputHash row)), (''resultingState'', pg_state p)]))"

fun replay_change :: "change \<Rightarrow> string set \<times> maintenance_state option \<Rightarrow> string set \<times> maintenance_state option" where
  "replay_change (Toggled previous nxt) (al, m) = (al, Some nxt)"
| "replay_change (Added wallet added) (al, m) = (insert (normalizeWalletAddress (Some wallet)) al, m)"
| "replay_change (Removed wallet) (al, m) = (al - {normalizeWalletAddress (Some wallet)}, m)"

definition replayed :: "pending_change list \<Rightarrow> string set \<times> maintenance_state option \<Rightarrow> string set \<times> maintenance_state option" where
  "replayed ps x = fold (\<lambda>p. replay_change (pg_change p)) ps x"

definition accounted :: "('rc, 'lg) admin_env \<Rightarrow> ('rc, 'lg) admin_world \<Rightarrow> ('rc, 'lg) admin_run \<Rightarrow> bool" where
  "accounted N w0 s \<longleftrightarrow>
     (set (ad_allowlist (rn_world s)), ad_maintenance (rn_world s))
        = replayed (rn_changes s) (set (ad_allowlist w0), ad_maintenance w0)
   \<and> (\<forall>p \<in> set (rn_changes s). p \<in> snd ` set (rn_pending s) \<or> p \<in> set (rn_lost s)
        \<or> (\<exists>row \<in> set (rt_rows (an_receipts N) (ad_receipts (rn_world s))). receipt_of (an_receipt N) p row))
   \<and> (\<forall>row \<in> set (rt_rows (an_receipts N) (ad_receipts (rn_world s))). \<exists>p \<in> set (rn_changes s). receipt_of (an_receipt N) p row)
   \<and> snd ` set (rn_pending s) \<subseteq> set (rn_changes s)"

lemma audit_note_simps [simp]:
  "ad_allowlist (audit_note N c req action status md w) = ad_allowlist w"
  "ad_maintenance (audit_note N c req action status md w) = ad_maintenance w"
  "ad_receipts (audit_note N c req action status md w) = ad_receipts w"
  by (simp_all add: audit_note_def)

lemma finish_change_cases:
  obtains (refused) "finish_change N c ry p w = (None, w)"
  | (stored) a w' row where "finish_change N c ry p w = (Some a, w')" "ad_allowlist w' = ad_allowlist w"
      "ad_maintenance w' = ad_maintenance w" "ad_receipts w' = rt_insert (an_receipts N) row (ad_receipts w)"
      "receipt_of (an_receipt N) p row"
  by (cases "ry_fault ry")
    (auto simp: finish_change_def generateAdminReceipt_def Let_def receipt_of_def receipt_row_of_def expected_signature_def
      receipt_payload_def)

text \<open>A call that starts a change has made it; any other call changes neither the list nor the mode.\<close>

definition change_effect ::
  "begun_change \<Rightarrow> ('rc, 'lg) admin_world \<Rightarrow> ('rc, 'lg) admin_world \<Rightarrow> bool" where
  "change_effect b w w' \<longleftrightarrow> ad_receipts w' = ad_receipts w
     \<and> (set (ad_allowlist w'), ad_maintenance w') = (case b of
           Waiting p \<Rightarrow> replay_change (pg_change p) (set (ad_allowlist w), ad_maintenance w)
         | _ \<Rightarrow> (set (ad_allowlist w), ad_maintenance w))"

lemma change_effect_refl [simp]: "change_effect (Answered r) w w" "change_effect Threw w w"
  by (simp_all add: change_effect_def)

lemma maintenance_effect: "change_effect (fst (maintenance_begin N c req w)) w (snd (maintenance_begin N c req w))"
proof (cases "\<exists>b. body_field req ''enabled'' = Some (JBool b)")
  case True
  then show ?thesis
    by (cases "isDryRunRequest req"; cases "read_reason req")
      (auto simp: maintenance_begin_def Let_def change_effect_def updateMaintenanceModeState_def)
next
  case False
  then have "maintenance_begin N c req w = (Answered (send_error ''Bad Request'' 400 ''`enabled` (boolean) is required''), w)"
    by (auto simp: maintenance_begin_def split: option.splits json.splits)
  then show ?thesis by simp
qed

lemma add_effect: "change_effect (fst (allowlist_add_begin req w)) w (snd (allowlist_add_begin req w))"
proof (cases "body_wallet req")
  case (Some wallet)
  then show ?thesis using add_address_set[of wallet "ad_allowlist w"]
    by (cases "addAddress wallet (ad_allowlist w)") (simp add: allowlist_add_begin_def change_effect_def)
qed (simp add: allowlist_add_begin_def)

lemma remove_effect: "change_effect (fst (allowlist_remove_begin req w)) w (snd (allowlist_remove_begin req w))"
proof (cases "body_wallet req")
  case (Some wallet)
  obtain removed al where r: "removeAddress wallet (ad_allowlist w) = (removed, al)" by force
  have "set al = set (ad_allowlist w) - {normalizeWalletAddress (Some wallet)}"
      "removed \<longleftrightarrow> normalizeWalletAddress (Some wallet) \<in> set (ad_allowlist w)"
    using remove_address_set[of wallet "ad_allowlist w"] remove_address_result[of wallet "ad_allowlist w"] r
    by (simp_all add: isAllowed_def)
  then show ?thesis using Some r by (cases removed) (simp_all add: allowlist_remove_begin_def change_effect_def)
qed (simp add: allowlist_remove_begin_def)

lemma begin_route_effect: "begin_route N route c req w = (b, w') \<Longrightarrow> change_effect b w w'"
  using maintenance_effect[of N c req w] add_effect[of req w] remove_effect[of req w] by (cases route) simp_all

lemma accounted_call:
  assumes "accounted N w0 s"
  shows "accounted N w0 (admin_step N (Call route c req) s)"
proof -
  obtain b w where e: "begin_route N route c req (rn_world s) = (b, w)" by (cases "begin_route N route c req (rn_world s)")
  from begin_route_effect[OF e] show ?thesis
    using assms e by (cases b) (auto simp: accounted_def change_effect_def replayed_def)
qed

lemma snd_remove_nth:
  "i < length xs \<Longrightarrow> set xs = insert (xs ! i) (set (take i xs @ drop (Suc i) xs))"
  by (metis id_take_nth_drop list.set(2) set_append Un_insert_right)

lemma accounted_reply:
  assumes "accounted N w0 s" "growing_table (an_receipts N)"
  shows "accounted N w0 (admin_step N (Reply i ry) s)"
proof (cases "i < length (rn_pending s)")
  case True
  obtain c p where cp: "rn_pending s ! i = (c, p)" by force
  have pend: "set (rn_pending s) = insert (c, p) (set (take i (rn_pending s) @ drop (Suc i) (rn_pending s)))"
    using snd_remove_nth[OF True] cp by simp
  show ?thesis
  proof (cases rule: finish_change_cases[of N c ry p "rn_world s"])
    case refused
    then show ?thesis using assms(1) True cp pend unfolding accounted_def by auto
  next
    case (stored a w' row)
    then show ?thesis using assms(1) True cp pend unfolding accounted_def
      by (auto simp: growing_table.rows_insert[OF assms(2)])
  qed
next
  case False
  then show ?thesis using assms(1) by simp
qed



end
