(* ===== verification/AdminKeys.thy ===== *)
theory AdminKeys
  imports AdminRoutes Exports
begin

text \<open>
  The lifecycle of API keys: the audit events of \<open>backend/src/apiKeyAudit.ts\<close> and the routes of
  \<open>backend/src/index.ts\<close> that register, rotate and revoke keys and list the events.  A route is cut at
  the wait for its audit event.  \<open>index.ts\<close> imports four functions that \<open>middleware/apiKeyAuth.ts\<close> does not export;
  they are the parameters \<open>key_functions\<close>, and the locale \<open>key_lifecycle\<close> states what the routes rely on.
\<close>

section \<open>Audit events\<close>

datatype key_action = KeyCreated | KeyRotated | KeyRevoked

fun show_key_action :: "key_action \<Rightarrow> string" where
  "show_key_action KeyCreated = ''created''"
| "show_key_action KeyRotated = ''rotated''"
| "show_key_action KeyRevoked = ''revoked''"

record key_event =
  kv_id :: string
  kv_actor :: string
  kv_action :: key_action
  kv_fingerprint :: string
  kv_createdAt :: time

definition createApiKeyAuditEventId :: "time \<Rightarrow> string \<Rightarrow> string" where
  "createApiKeyAuditEventId now hex = ''api_key_audit_'' @ show_int now @ ''_'' @ hex"

text \<open>\<open>fault\<close> is the message with which the insertion is rejected.\<close>

definition recordApiKeyAuditEvent ::
  "(key_event, 't) row_table \<Rightarrow> time \<Rightarrow> string \<Rightarrow> string option \<Rightarrow> string \<Rightarrow> key_action \<Rightarrow> string \<Rightarrow> 't \<Rightarrow>
   (string + unit) \<times> 't" where
  "recordApiKeyAuditEvent T now hex fault actor action fingerprint t =
     (case fault of
        Some m \<Rightarrow> (Inl m, t)
      | None \<Rightarrow> (Inr (), rt_insert T \<lparr>kv_id = createApiKeyAuditEventId now hex, kv_actor = actor, kv_action = action,
            kv_fingerprint = fingerprint, kv_createdAt = now\<rparr> t))"

record key_event_filters =
  kl_action :: "key_action option"
  kl_start :: "string option"
  kl_end :: "string option"
  kl_limit :: nat

text \<open>A bound that is given must parse: \<open>None\<close> is an invalid date, which the query rejects.\<close>

definition event_bound :: "(string \<Rightarrow> time option) \<Rightarrow> string option \<Rightarrow> time option option" where
  "event_bound parse s = (if truthy_str s then map_option Some (parse (the s)) else Some None)"

definition event_matches :: "key_action option \<Rightarrow> time option \<Rightarrow> time option \<Rightarrow> key_event \<Rightarrow> bool" where
  "event_matches action lo hi e \<longleftrightarrow> (action \<noteq> None \<longrightarrow> action = Some (kv_action e))
     \<and> (case lo of None \<Rightarrow> True | Some t \<Rightarrow> t \<le> kv_createdAt e) \<and> (case hi of None \<Rightarrow> True | Some t \<Rightarrow> kv_createdAt e \<le> t)"

definition listApiKeyAuditEvents ::
  "(key_event, 't) row_table \<Rightarrow> (string \<Rightarrow> time option) \<Rightarrow> string option \<Rightarrow> key_event_filters \<Rightarrow> 't \<Rightarrow> string + key_event list" where
  "listApiKeyAuditEvents T parse fault f t =
     (case (fault, event_bound parse (kl_start f), event_bound parse (kl_end f)) of
        (None, Some lo, Some hi) \<Rightarrow>
          Inr (take (kl_limit f) (js_sort (\<lambda>a b. kv_createdAt a < kv_createdAt b)
            (filter (event_matches (kl_action f) lo hi) (rt_rows T t))))
      | (Some m, _) \<Rightarrow> Inl m
      | _ \<Rightarrow> Inl ''Invalid Date'')"

section \<open>The functions the routes rely on\<close>

record key_functions =
  kf_normalizeRole :: "json option \<Rightarrow> string option"
  kf_hasRole :: "request \<Rightarrow> string \<Rightarrow> bool"
  kf_metadata :: "string \<Rightarrow> api_keys \<Rightarrow> api_key_metadata option"
  kf_restore :: "string \<Rightarrow> api_key_metadata \<Rightarrow> api_keys \<Rightarrow> api_keys"

locale key_lifecycle =
  fixes F :: key_functions
  assumes metadata: "kf_metadata F h ks = map_of ks h"
    and restore: "map_of (kf_restore F h m ks) = (map_of ks)(h \<mapsto> m)"
begin

lemma delete_restore:
  assumes "map_of ks h = Some m"
  shows "map_of (kf_restore F h m (AList.delete h ks)) = map_of ks"
  using assms by (auto simp: restore delete_conv' fun_eq_iff)

end

definition map_functions :: "key_functions" where
  "map_functions = \<lparr>kf_normalizeRole = (\<lambda>v. case v of Some (JStr r) \<Rightarrow>
       if r \<in> set (map show_role [Viewer, Operator, Admin, SuperAdmin]) then Some r else None | _ \<Rightarrow> None),
     kf_hasRole = (\<lambda>req r. map_option show_role (rq_authApiKeyRole req) = Some r),
     kf_metadata = (\<lambda>h ks. map_of ks h), kf_restore = (\<lambda>h m ks. AList.update h m ks)\<rparr>"

interpretation map_keys: key_lifecycle map_functions
  by unfold_locales (simp_all add: map_functions_def update_conv')

section \<open>Routes\<close>

record 't key_world =
  ky_keys :: api_keys
  ky_events :: 't

datatype key_change =
    Registered string string
  | Rotated string api_key_metadata string string
  | Revoked string api_key_metadata

datatype begun_key = KeyAnswered response | KeyWaiting key_change

definition register_begin ::
  "key_functions \<Rightarrow> (string \<Rightarrow> string) \<Rightarrow> time \<Rightarrow> request \<Rightarrow> 't key_world \<Rightarrow> begun_key \<times> 't key_world" where
  "register_begin F sha256 now req w =
     (case body_field req ''key'' of
        Some (JStr key) \<Rightarrow>
          if js_trim key = [] then (KeyAnswered (bare_error 400 ''Missing key in request body''), w)
          else
            let role = (case kf_normalizeRole F (body_field req ''role'') of Some r \<Rightarrow> if r = [] then ''admin'' else r
                  | None \<Rightarrow> ''admin'')
            in if role = ''super-admin'' \<and> \<not> kf_hasRole F req ''super-admin''
               then (KeyAnswered (send_error ''Forbidden'' 403 ''Super-admin role is required to register super-admin API keys''), w)
               else let (h, ks) = registerApiKey sha256 now (js_trim key) (ky_keys w)
                    in (KeyWaiting (Registered h role), w\<lparr>ky_keys := ks\<rparr>)
      | _ \<Rightarrow> (KeyAnswered (bare_error 400 ''Missing key in request body''), w))"

definition key_not_found :: response where
  "key_not_found = send_error ''Not Found'' 404 ''API key not found''"

definition rotate_begin ::
  "key_functions \<Rightarrow> (string \<Rightarrow> string) \<Rightarrow> time \<Rightarrow> request \<Rightarrow> 't key_world \<Rightarrow> begun_key \<times> 't key_world" where
  "rotate_begin F sha256 now req w =
     (if \<not> isApiKeyHash (body_field req ''oldHash'')
      then (KeyAnswered (send_error ''Bad Request'' 400 ''oldHash must be a valid SHA-256 API key hash''), w)
      else (case body_string req ''newKey'' of
          None \<Rightarrow> (KeyAnswered (send_error ''Bad Request'' 400 ''newKey is required''), w)
        | Some newKey \<Rightarrow>
            if js_trim newKey = [] then (KeyAnswered (send_error ''Bad Request'' 400 ''newKey is required''), w)
            else let oldHash = the (body_string req ''oldHash'')
              in (case kf_metadata F oldHash (ky_keys w) of
                    None \<Rightarrow> (KeyAnswered key_not_found, w)
                  | Some previous \<Rightarrow>
                      (case rotateApiKey sha256 now oldHash (js_trim newKey) (ky_keys w) of
                         (None, ks) \<Rightarrow> (KeyAnswered key_not_found, w\<lparr>ky_keys := ks\<rparr>)
                       | (Some newHash, ks) \<Rightarrow>
                           (KeyWaiting (Rotated oldHash previous newHash (js_trim newKey)), w\<lparr>ky_keys := ks\<rparr>)))))"

definition revoke_begin :: "key_functions \<Rightarrow> request \<Rightarrow> 't key_world \<Rightarrow> begun_key \<times> 't key_world" where
  "revoke_begin F req w =
     (if \<not> isApiKeyHash (body_field req ''hash'')
      then (KeyAnswered (send_error ''Bad Request'' 400 ''hash must be a valid SHA-256 API key hash''), w)
      else let h = the (body_string req ''hash'')
        in (case kf_metadata F h (ky_keys w) of
              None \<Rightarrow> (KeyAnswered key_not_found, w)
            | Some previous \<Rightarrow> (KeyWaiting (Revoked h previous), w\<lparr>ky_keys := snd (revokeApiKey h (ky_keys w))\<rparr>)))"

text \<open>What each change records, answers and undoes.\<close>

fun change_event :: "(string \<Rightarrow> string) \<Rightarrow> key_change \<Rightarrow> key_action \<times> string" where
  "change_event sha256 (Registered h role) = (KeyCreated, getApiKeyFingerprintFromHash h)"
| "change_event sha256 (Rotated oldHash previous newHash newKey) = (KeyRotated, getApiKeyFingerprintFromValue sha256 newKey)"
| "change_event sha256 (Revoked h previous) = (KeyRevoked, getApiKeyFingerprintFromHash h)"

fun key_answer :: "time \<Rightarrow> key_change \<Rightarrow> json" where
  "key_answer now (Registered h role) = JObj
     [(''message'', JStr ''API key registered''), (''hash'', JStr h), (''fingerprint'', JStr (getApiKeyFingerprintFromHash h)),
      (''role'', JStr role), (''created'', JStr (to_iso_string now))]"
| "key_answer now (Rotated oldHash previous newHash newKey) = JObj
     [(''message'', JStr ''API key rotated''), (''oldFingerprint'', JStr (getApiKeyFingerprintFromHash oldHash)),
      (''newHash'', JStr newHash), (''newFingerprint'', JStr (getApiKeyFingerprintFromHash newHash)),
      (''rotatedAt'', JStr (to_iso_string now))]"
| "key_answer now (Revoked h previous) = JObj
     [(''message'', JStr ''API key revoked''), (''fingerprint'', JStr (getApiKeyFingerprintFromHash h)),
      (''revokedAt'', JStr (to_iso_string now))]"

fun undo_change :: "key_functions \<Rightarrow> key_change \<Rightarrow> api_keys \<Rightarrow> api_keys" where
  "undo_change F (Registered h role) ks = snd (revokeApiKey h ks)"
| "undo_change F (Rotated oldHash previous newHash newKey) ks = kf_restore F oldHash previous (snd (revokeApiKey newHash ks))"
| "undo_change F (Revoked h previous) ks = kf_restore F h previous ks"

definition key_finish ::
  "key_functions \<Rightarrow> (string \<Rightarrow> string) \<Rightarrow> (key_event, 't) row_table \<Rightarrow> time \<Rightarrow> time \<Rightarrow> string \<Rightarrow> string option \<Rightarrow> request \<Rightarrow>
   key_change \<Rightarrow> 't key_world \<Rightarrow> response \<times> 't key_world" where
  "key_finish F sha256 T start now hex fault req ch w =
     (let (action, fingerprint) = change_event sha256 ch
      in case recordApiKeyAuditEvent T start hex fault (resolveApiKeyAuditActor req) action fingerprint (ky_events w) of
           (Inr u, t) \<Rightarrow> (send_json 200 (key_answer now ch), w\<lparr>ky_events := t\<rparr>)
         | (Inl m, t) \<Rightarrow> (send_error ''Internal Server Error'' 500 m, w\<lparr>ky_keys := undo_change F ch (ky_keys w), ky_events := t\<rparr>))"

definition parse_key_action :: "string option \<Rightarrow> key_action option" where
  "parse_key_action v =
     (if v = Some ''created'' then Some KeyCreated else if v = Some ''rotated'' then Some KeyRotated
      else if v = Some ''revoked'' then Some KeyRevoked else None)"

definition key_event_json :: "key_event \<Rightarrow> json" where
  "key_event_json e = JObj
     [(''id'', JStr (kv_id e)), (''actor'', JStr (kv_actor e)), (''action'', JStr (show_key_action (kv_action e))),
      (''keyFingerprint'', JStr (kv_fingerprint e)), (''createdAt'', JStr (to_iso_string (kv_createdAt e)))]"

definition get_key_events ::
  "(key_event, 't) row_table \<Rightarrow> (string \<Rightarrow> time option) \<Rightarrow> int \<Rightarrow> time \<Rightarrow> string option \<Rightarrow> request \<Rightarrow> 't key_world \<Rightarrow> response" where
  "get_key_events T parse maxDays now fault req w =
     (let action = parse_key_action (rq_query req ''action'')
      in if truthy_str (rq_query req ''action'') \<and> action = None
         then send_error ''Bad Request'' 400 ''action must be one of: created, rotated, revoked''
         else (case parseUtcDateRange parse maxDays (rq_query req ''from'') (rq_query req ''to'') None of
             Inl msg \<Rightarrow> send_error ''Bad Request'' 400 msg
           | Inr dates \<Rightarrow>
               let limit = parseLimited (rq_query req ''limit'') 50 1 200
               in (case listApiKeyAuditEvents T parse fault \<lparr>kl_action = action, kl_start = dr_start dates, kl_end = dr_end dates,
                     kl_limit = nat (limit + 1)\<rparr> (ky_events w) of
                     Inl msg \<Rightarrow> send_error ''Internal Server Error'' 500 msg
                   | Inr events \<Rightarrow>
                       let (page, hasNextPage) = paginateByLimit events limit;
                           data = map key_event_json page;
                           or_null = (\<lambda>s. if truthy_str s then JStr (the s) else JNull)
                       in sendStandardListEnvelope now (envelope_of data limit hasNextPage
                            [(''events'', JArr data),
                             (''meta'', JObj
                                [(''count'', jint (int (length data))), (''limit'', jint limit),
                                 (''filters'', JObj
                                    [(''action'', json_opt (\<lambda>a. JStr (show_key_action a)) action),
                                     (''from'', or_null (dr_start dates)), (''to'', or_null (dr_end dates))]),
                                 (''timestamp'', JStr (to_iso_string now))])]))))"

section \<open>Properties\<close>

definition changed_keys :: "(begun_key \<times> 't key_world) \<Rightarrow> (key_change \<Rightarrow> 't key_world \<Rightarrow> response \<times> 't key_world) \<Rightarrow>
   response \<times> 't key_world" where
  "changed_keys b finish = (case b of (KeyAnswered r, w) \<Rightarrow> (r, w) | (KeyWaiting ch, w) \<Rightarrow> finish ch w)"

text \<open>One request to each of the three routes, from its beginning to its answer.\<close>

datatype key_route = RegisterKey | RotateKey | RevokeKey

definition key_request ::
  "key_functions \<Rightarrow> (string \<Rightarrow> string) \<Rightarrow> (key_event, 't) row_table \<Rightarrow> time \<Rightarrow> string \<Rightarrow> string option \<Rightarrow> key_route \<Rightarrow> request \<Rightarrow>
   't key_world \<Rightarrow> response \<times> 't key_world" where
  "key_request F sha256 T now hex fault route req w =
     changed_keys (case route of RegisterKey \<Rightarrow> register_begin F sha256 now req w
          | RotateKey \<Rightarrow> rotate_begin F sha256 now req w | RevokeKey \<Rightarrow> revoke_begin F req w)
       (key_finish F sha256 T now now hex fault req)"

definition wanted :: "request \<Rightarrow> string \<Rightarrow> string" where
  "wanted req k = nullish (body_string req k) []"

fun intended_keys :: "(string \<Rightarrow> string) \<Rightarrow> time \<Rightarrow> key_route \<Rightarrow> request \<Rightarrow> (string \<rightharpoonup> api_key_metadata) \<Rightarrow> (string \<rightharpoonup> api_key_metadata)" where
  "intended_keys sha256 now RegisterKey req m = m(sha256 (js_trim (wanted req ''key'')) \<mapsto> \<lparr>ak_createdAt = now, ak_rotatedAt = None\<rparr>)"
| "intended_keys sha256 now RotateKey req m =
     (m(wanted req ''oldHash'' := None))(sha256 (js_trim (wanted req ''newKey'')) \<mapsto>
        \<lparr>ak_createdAt = ak_createdAt (the (m (wanted req ''oldHash''))), ak_rotatedAt = Some now\<rparr>)"
| "intended_keys sha256 now RevokeKey req m = m(wanted req ''hash'' := None)"

fun intended_event :: "(string \<Rightarrow> string) \<Rightarrow> key_route \<Rightarrow> request \<Rightarrow> key_action \<times> string" where
  "intended_event sha256 RegisterKey req = (KeyCreated, getApiKeyFingerprintFromHash (sha256 (js_trim (wanted req ''key''))))"
| "intended_event sha256 RotateKey req = (KeyRotated, getApiKeyFingerprintFromHash (sha256 (js_trim (wanted req ''newKey''))))"
| "intended_event sha256 RevokeKey req = (KeyRevoked, getApiKeyFingerprintFromHash (wanted req ''hash''))"

text \<open>The key a request brings is new, or the one a rotation replaces.\<close>

fun brings_new_key :: "(string \<Rightarrow> string) \<Rightarrow> key_route \<Rightarrow> request \<Rightarrow> (string \<rightharpoonup> api_key_metadata) \<Rightarrow> bool" where
  "brings_new_key sha256 RegisterKey req m \<longleftrightarrow> m (sha256 (js_trim (wanted req ''key''))) = None"
| "brings_new_key sha256 RotateKey req m \<longleftrightarrow> m (sha256 (js_trim (wanted req ''newKey''))) = None
     \<or> sha256 (js_trim (wanted req ''newKey'')) = wanted req ''oldHash''"
| "brings_new_key sha256 RevokeKey req m \<longleftrightarrow> True"

lemma is_hash_string: "isApiKeyHash (body_field req k) \<Longrightarrow> \<exists>h. body_string req k = Some h"
  by (auto simp: isApiKeyHash_def body_string_def split: option.splits json.splits)

lemma register_waits:
  assumes "register_begin F sha256 now req w = (KeyWaiting ch, w1)"
  shows "\<exists>role. ch = Registered (sha256 (js_trim (wanted req ''key''))) role \<and>
    w1 = w\<lparr>ky_keys := AList.update (sha256 (js_trim (wanted req ''key''))) \<lparr>ak_createdAt = now, ak_rotatedAt = None\<rparr> (ky_keys w)\<rparr>"
  using assms by (auto simp: register_begin_def registerApiKey_def hashApiKey_def wanted_def body_string_def Let_def
      split: option.splits json.splits if_splits)

lemma rotate_waits:
  assumes "rotate_begin F sha256 now req w = (KeyWaiting ch, w1)" "key_lifecycle F"
  shows "\<exists>m. map_of (ky_keys w) (wanted req ''oldHash'') = Some m
    \<and> ch = Rotated (wanted req ''oldHash'') m (sha256 (js_trim (wanted req ''newKey''))) (js_trim (wanted req ''newKey''))
    \<and> w1 = w\<lparr>ky_keys := AList.update (sha256 (js_trim (wanted req ''newKey'')))
         \<lparr>ak_createdAt = ak_createdAt m, ak_rotatedAt = Some now\<rparr> (AList.delete (wanted req ''oldHash'') (ky_keys w))\<rparr>"
proof -
  have "isApiKeyHash (body_field req ''oldHash'')" using assms(1) by (auto simp: rotate_begin_def split: if_splits)
  from is_hash_string[OF this] obtain h where "body_string req ''oldHash'' = Some h" by blast
  with assms show ?thesis
    by (auto simp: rotate_begin_def rotateApiKey_def hashApiKey_def wanted_def Let_def key_lifecycle.metadata
      split: option.splits if_splits)
qed

lemma revoke_waits:
  assumes "revoke_begin F req w = (KeyWaiting ch, w1)" "key_lifecycle F"
  shows "\<exists>m. map_of (ky_keys w) (wanted req ''hash'') = Some m \<and> ch = Revoked (wanted req ''hash'') m
    \<and> w1 = w\<lparr>ky_keys := AList.delete (wanted req ''hash'') (ky_keys w)\<rparr>"
proof -
  have "isApiKeyHash (body_field req ''hash'')" using assms(1) by (auto simp: revoke_begin_def split: if_splits)
  from is_hash_string[OF this] obtain h where "body_string req ''hash'' = Some h" by blast
  with assms show ?thesis
    by (auto simp: revoke_begin_def revokeApiKey_def wanted_def Let_def key_lifecycle.metadata split: option.splits if_splits)
qed

definition key_begin ::
  "key_functions \<Rightarrow> (string \<Rightarrow> string) \<Rightarrow> time \<Rightarrow> key_route \<Rightarrow> request \<Rightarrow> 't key_world \<Rightarrow> begun_key \<times> 't key_world" where
  "key_begin F sha256 now route req w =
     (case route of RegisterKey \<Rightarrow> register_begin F sha256 now req w
        | RotateKey \<Rightarrow> rotate_begin F sha256 now req w | RevokeKey \<Rightarrow> revoke_begin F req w)"

lemma key_answered:
  assumes "key_begin F sha256 now route req w = (KeyAnswered r, w1)" "key_lifecycle F"
  shows "w1 = w \<and> rs_status r \<noteq> 200"
  using assms by (cases route)
    (auto simp: key_begin_def register_begin_def rotate_begin_def revoke_begin_def rotateApiKey_def bare_error_def key_not_found_def
      key_lifecycle.metadata Let_def split: option.splits json.splits if_splits prod.splits)

lemma key_waiting:
  assumes "key_begin F sha256 now route req w = (KeyWaiting ch, w1)" "key_lifecycle F"
  shows "ky_events w1 = ky_events w" "map_of (ky_keys w1) = intended_keys sha256 now route req (map_of (ky_keys w))"
    "change_event sha256 ch = intended_event sha256 route req"
    "brings_new_key sha256 route req (map_of (ky_keys w)) \<Longrightarrow> map_of (undo_change F ch (ky_keys w1)) = map_of (ky_keys w)"
proof -
  note conv = update_conv' delete_conv' fun_eq_iff
  show "ky_events w1 = ky_events w" "map_of (ky_keys w1) = intended_keys sha256 now route req (map_of (ky_keys w))"
    "change_event sha256 ch = intended_event sha256 route req"
    using assms register_waits[of F sha256 now req w ch w1] rotate_waits[of F sha256 now req w ch w1] revoke_waits[of F req w ch w1]
    by (cases route; auto simp: key_begin_def conv getApiKeyFingerprintFromValue_def hashApiKey_def)+
  show "map_of (undo_change F ch (ky_keys w1)) = map_of (ky_keys w)" if "brings_new_key sha256 route req (map_of (ky_keys w))"
    using that assms register_waits[of F sha256 now req w ch w1] rotate_waits[of F sha256 now req w ch w1]
      revoke_waits[of F req w ch w1]
    by (cases route) (auto simp: key_begin_def revokeApiKey_def key_lifecycle.restore conv)
qed

lemma key_finish_cases:
  obtains (refused) m where "fault = Some m" "key_finish F sha256 T start now hex fault req ch w =
      (send_error ''Internal Server Error'' 500 m, w\<lparr>ky_keys := undo_change F ch (ky_keys w)\<rparr>)"
  | (stored) e where "key_finish F sha256 T start now hex fault req ch w =
      (send_json 200 (key_answer now ch), w\<lparr>ky_events := rt_insert T e (ky_events w)\<rparr>)"
      "kv_actor e = resolveApiKeyAuditActor req" "(kv_action e, kv_fingerprint e) = change_event sha256 ch"
  by (cases fault; cases "change_event sha256 ch") (auto simp: key_finish_def recordApiKeyAuditEvent_def)


lemma map_functions_laws: "key_lifecycle map_functions"
  by (rule map_keys.key_lifecycle_axioms)

definition sample_register :: request where
  "sample_register = blank_request\<lparr>rq_body := JObj [(''key'', JStr '' abc ''), (''role'', JStr ''operator'')]\<rparr>"


text \<open>Registering a key again takes it away when the event cannot be stored.\<close>

lemma failed_reregistration_revokes:
  assumes "body_field req ''key'' = Some (JStr key)" "js_trim key \<noteq> []" "kf_normalizeRole F (body_field req ''role'') = None"
  shows "map_of (ky_keys (snd (key_request F sha256 T now hex (Some m) RegisterKey req w))) (sha256 (js_trim key)) = None"
  using assms by (simp add: key_request_def changed_keys_def register_begin_def registerApiKey_def hashApiKey_def Let_def
      key_finish_def recordApiKeyAuditEvent_def revokeApiKey_def delete_conv')

end
