(* ===== verification/SessionRoutes.thy ===== *)
theory SessionRoutes
  imports AdminRoutes Impersonation ReadRoutes Referral
begin

text \<open>
  The routes of \<open>backend/src/index.ts\<close> on impersonation sessions and the view of a wallet they give, and the
  logout routes.  The role check \<open>hasRole\<close> is imported from \<open>middleware/apiKeyAuth.ts\<close>, which does not export it, and
  is a parameter.  A handler annotates the request for the audit log; it returns the annotated request, and the
  actor of the annotation is always the acting administrator.
\<close>

section \<open>Sessions\<close>

definition session_json :: "imp_session \<Rightarrow> json" where
  "session_json s = JObj
     [(''id'', JStr (is_id s)), (''actor'', JStr (is_actor s)), (''apiKeyHash'', JStr (is_apiKeyHash s)),
      (''targetWallet'', JStr (is_targetWallet s)), (''reason'', JStr (is_reason s)),
      (''startedAt'', JStr (to_iso_string (is_startedAt s))), (''expiresAt'', JStr (to_iso_string (is_expiresAt s))),
      (''endedAt'', json_opt (\<lambda>t. JStr (to_iso_string t)) (is_endedAt s)), (''status'', JStr (show_session_status (is_status s))),
      (''ipAddress'', JStr (is_ipAddress s)), (''userAgent'', JStr (is_userAgent s))]"

definition role_label :: "request \<Rightarrow> string" where
  "role_label req = show_role (nullish (rq_authApiKeyRole req) Admin)"

definition mark :: "string \<Rightarrow> (string \<times> json) list \<Rightarrow> request \<Rightarrow> request" where
  "mark action about req =
     req\<lparr>rq_auditAction := Some action,
         rq_auditMetadata := JObj ([(''actingAdminAddress'', JStr (resolveActingAdminAddress req)),
           (''adminRole'', JStr (role_label req))] @ about @ [(''impersonation'', JBool True)])\<rparr>"

definition trimmed_body :: "request \<Rightarrow> string \<Rightarrow> string" where
  "trimmed_body req k = js_trim (nullish (body_string req k) [])"

definition or_text :: "string \<Rightarrow> string \<Rightarrow> string" where
  "or_text s d = (if s = [] then d else s)"

definition start_session ::
  "'p imp_tables \<Rightarrow> env \<Rightarrow> (request \<Rightarrow> string \<Rightarrow> bool) \<Rightarrow> (nat \<Rightarrow> bool) \<Rightarrow> time \<Rightarrow> string \<Rightarrow> string \<Rightarrow> request \<Rightarrow> 'p imp_state \<Rightarrow>
   response \<times> request \<times> 'p imp_state" where
  "start_session T E hasRole up now sessionId entryId req st =
     (let targetWallet = trimmed_body req ''targetWallet'';
          reason = trimmed_body req ''reason'';
          ctx = resolveImpersonationSessionContext req;
          about = [(''targetWallet'', JStr (or_text targetWallet ''unknown''))]
      in if targetWallet = [] \<or> reason = []
         then (send_error ''Bad Request'' 400 ''targetWallet and reason are required'',
               mark ''admin.impersonate.session.invalid'' about req, st)
         else if \<not> hasRole req ''super-admin''
         then (send_error ''Forbidden'' 403 ''Super-admin role is required for impersonation sessions'',
               mark ''admin.impersonate.session.denied'' about req, st)
         else (case startImpersonationSession T E up now sessionId entryId
                 \<lparr>si_actor = resolveActingAdminAddress req, si_apiKeyHash = sc_apiKeyHash ctx, si_targetWallet = targetWallet,
                  si_reason = reason, si_ipAddress = sc_ipAddress ctx, si_userAgent = sc_userAgent ctx\<rparr> st of
              (Inr session, st') \<Rightarrow>
                (send_json 201 (JObj [(''session'', session_json session)]),
                 mark ''admin.impersonate.session.started''
                   (about @ [(''sessionId'', JStr (is_id session)), (''expiresAt'', JStr (to_iso_string (is_expiresAt session)))]) req, st')
            | (Inl m, st') \<Rightarrow>
                (send_error ''Internal Server Error'' 500 ''Failed to start impersonation session'',
                 mark ''admin.impersonate.session.failed'' (about @ [(''error'', JStr m)]) req, st')))"

definition parse_session_status :: "string option \<Rightarrow> session_status option" where
  "parse_session_status v =
     (if v = Some ''active'' then Some SessionActive else if v = Some ''ended'' then Some SessionEnded
      else if v = Some ''expired'' then Some SessionExpired else None)"

definition list_sessions ::
  "'p imp_tables \<Rightarrow> env \<Rightarrow> (request \<Rightarrow> string \<Rightarrow> bool) \<Rightarrow> bool \<Rightarrow> time \<Rightarrow> request \<Rightarrow> 'p imp_state \<Rightarrow> response \<times> request" where
  "list_sessions T E hasRole up now req st =
     (if \<not> hasRole req ''super-admin''
      then (send_error ''Forbidden'' 403 ''Super-admin role is required to list impersonation sessions'',
            mark ''admin.impersonate.session.list.denied'' [] req)
      else
        let limit = parseLimited (rq_query req ''limit'') 50 1 200
        in (case listImpersonationSessions T E up now
               \<lparr>sf_status = parse_session_status (rq_query req ''status''), sf_actor = rq_query req ''actor'',
                sf_targetWallet = rq_query req ''targetWallet'', sf_limit = nat (limit + 1)\<rparr> st of
              Inl m \<Rightarrow> (send_error ''Internal Server Error'' 500 ''Failed to list impersonation sessions'',
                 mark ''admin.impersonate.session.list.failed'' [(''error'', JStr m)] req)
            | Inr sessions \<Rightarrow>
                let (page, hasNextPage) = paginateByLimit sessions limit;
                    data = map session_json page
                in (sendStandardListEnvelope now (envelope_of data limit hasNextPage
                      [(''sessions'', JArr data), (''count'', jint (int (length data)))]),
                    mark ''admin.impersonate.session.list'' [] req)))"

definition end_session ::
  "'p imp_tables \<Rightarrow> env \<Rightarrow> (request \<Rightarrow> string \<Rightarrow> bool) \<Rightarrow> (nat \<Rightarrow> bool) \<Rightarrow> time \<Rightarrow> string \<Rightarrow> string \<Rightarrow> request \<Rightarrow> 'p imp_state \<Rightarrow>
   response \<times> request \<times> 'p imp_state" where
  "end_session T E hasRole up now entryId param req st =
     (let sessionId = js_trim param;
          about = [(''sessionId'', JStr (or_text sessionId ''unknown''))]
      in if sessionId = []
         then (send_error ''Bad Request'' 400 ''session id is required'', mark ''admin.impersonate.session.end.invalid'' about req, st)
         else if \<not> hasRole req ''super-admin''
         then (send_error ''Forbidden'' 403 ''Super-admin role is required to end impersonation sessions'',
               mark ''admin.impersonate.session.end.denied'' about req, st)
         else (case endImpersonationSession T E up now entryId sessionId (resolveActingAdminAddress req) st of
              (Inr None, st') \<Rightarrow>
                (send_error ''Not Found'' 404 ''Impersonation session not found or already expired'',
                 mark ''admin.impersonate.session.end.not_found'' about req, st')
            | (Inr (Some session), st') \<Rightarrow>
                (send_json 200 (JObj [(''session'', session_json session)]), mark ''admin.impersonate.session.ended'' about req, st')
            | (Inl m, st') \<Rightarrow>
                (send_error ''Internal Server Error'' 500 ''Failed to end impersonation session'',
                 mark ''admin.impersonate.session.end.failed'' (about @ [(''error'', JStr m)]) req, st')))"

section \<open>The view of a wallet\<close>

text \<open>The summary is constant.\<close>

definition buildVaultSummaryResponse :: "time \<Rightarrow> json" where
  "buildVaultSummaryResponse now = JObj
     [(''totalAssets'', jint 0), (''totalShares'', jint 0), (''apy'', jint 0), (''timestamp'', JStr (to_iso_string now))]"

record ('d, 'p) view_env =
  ve_read :: read_env
  ve_decimals :: "'d decimal_ops"
  ve_prisma :: "'p prisma_ops"
  ve_reward :: 'd
  ve_holdings :: "holding list"
  ve_points :: "history_point list"
  ve_draws :: "rat list list"

record vault_view =
  vv_walletAddress :: string
  vv_summary :: json
  vv_transactions :: "transaction_row paginated_response"
  vv_holdings :: "holding paginated_response"
  vv_history :: "history_point paginated_response"
  vv_referralStats :: "int \<times> referral_stats option"
  vv_referralCode :: string

definition buildReferralStatsSnapshot :: "('d, 'p) view_env \<Rightarrow> string \<Rightarrow> 'p \<Rightarrow> int \<times> referral_stats option" where
  "buildReferralStatsSnapshot V wallet db =
     (case getReferralStats (ve_decimals V) (ve_prisma V) (ve_reward V) db (normalizeWalletAddress (Some wallet)) of
        None \<Rightarrow> (404, None)
      | Some stats \<Rightarrow> (200, Some stats))"

definition buildWalletTransactionsSnapshot ::
  "('d, 'p) view_env \<Rightarrow> time \<Rightarrow> string \<Rightarrow> 'p \<Rightarrow> transaction_row paginated_response" where
  "buildWalletTransactionsSnapshot V now wallet db =
     (let (data, meta) = tx_page Desc
            \<lparr>tw_types = [], tw_status = None, tw_user = normalizeWalletAddress (Some wallet), tw_gte = None, tw_lte = None\<rparr>
            (px_transactions (ve_prisma V) db) 20 0
      in createPaginatedResponse now data meta None)"

definition no_listing_query :: list_query where
  "no_listing_query = \<lparr>lq_limit = None, lq_cursor = None, lq_page = None, lq_sortBy = None, lq_sortOrder = None, lq_type = None,
     lq_status = None, lq_from = None, lq_to = None, lq_walletAddress = None, lq_startDate = None, lq_endDate = None\<rparr>"

text \<open>\<open>fault\<close> is the error of a database read; the last step may create a referral code.\<close>

definition buildImpersonatedVaultState ::
  "('d, 'p) view_env \<Rightarrow> time \<Rightarrow> string option \<Rightarrow> string \<Rightarrow> 'p \<Rightarrow> (string + vault_view) \<times> 'p" where
  "buildImpersonatedVaultState V now fault wallet db =
     (let w = normalizeWalletAddress (Some wallet); R = ve_read V
      in case fault of
           Some m \<Rightarrow> (Inl m, db)
         | None \<Rightarrow>
             (case (buildVaultHistoryResponse (re_parse R) (re_locale R) (re_maxDays R) now (ve_points V) no_listing_query,
                    getOrCreateReferralCode (ve_prisma V) (ve_draws V) w db) of
                (Inr history, (Inr code, db')) \<Rightarrow>
                  (Inr \<lparr>vv_walletAddress = w, vv_summary = buildVaultSummaryResponse now,
                        vv_transactions = buildWalletTransactionsSnapshot V now w db,
                        vv_holdings = buildPortfolioHoldingsResponse (re_locale R) now (ve_holdings V)
                          (no_listing_query\<lparr>lq_walletAddress := Some w\<rparr>),
                        vv_history = history, vv_referralStats = buildReferralStatsSnapshot V w db, vv_referralCode = code\<rparr>, db')
              | (Inl m, _) \<Rightarrow> (Inl m, db)
              | (_, (Inl m, db')) \<Rightarrow> (Inl m, db')))"

fun refusal_action :: "refusal \<Rightarrow> string" where
  "refusal_action Expired = ''admin.impersonate.session.expired''"
| "refusal_action Ended = ''admin.impersonate.session.ended''"
| "refusal_action WalletMismatch = ''admin.impersonate.session.wallet_mismatch''"
| "refusal_action ActorMismatch = ''admin.impersonate.session.actor_mismatch''"
| "refusal_action NotFound = ''admin.impersonate.session.invalid''"

fun refusal_reason :: "refusal \<Rightarrow> string" where
  "refusal_reason Expired = ''expired''"
| "refusal_reason Ended = ''ended''"
| "refusal_reason WalletMismatch = ''wallet_mismatch''"
| "refusal_reason ActorMismatch = ''actor_mismatch''"
| "refusal_reason NotFound = ''not_found''"

fun refusal_message :: "refusal \<Rightarrow> string" where
  "refusal_message Expired = ''Impersonation session has expired''"
| "refusal_message Ended = ''Impersonation session has ended''"
| "refusal_message WalletMismatch = ''Session wallet does not match target wallet''"
| "refusal_message ActorMismatch = ''Session actor does not match requesting admin''"
| "refusal_message NotFound = ''Impersonation session is invalid''"

definition refusal_response :: "refusal \<Rightarrow> response" where
  "refusal_response r =
     (if r = NotFound then send_error ''Not Found'' 404 (refusal_message r) else send_error ''Forbidden'' 403 (refusal_message r))"

datatype inspection = Refused response | Shown vault_view "imp_session option"

definition inspect_wallet ::
  "'s imp_tables \<Rightarrow> ('d, 'p) view_env \<Rightarrow> env \<Rightarrow> (request \<Rightarrow> string \<Rightarrow> bool) \<Rightarrow> (nat \<Rightarrow> bool) \<Rightarrow> time \<Rightarrow> string \<Rightarrow> string option \<Rightarrow>
   string \<Rightarrow> request \<Rightarrow> 's imp_state \<Rightarrow> 'p \<Rightarrow> inspection \<times> request \<times> 's imp_state \<times> 'p" where
  "inspect_wallet T V E hasRole up now entryId fault param req st db =
     (let wallet = js_trim param;
          actor = resolveActingAdminAddress req;
          sessionId = js_trim (header_or_empty req ''x-impersonation-session-id'');
          about = [(''targetWallet'', JStr (or_text wallet ''unknown''))]
            @ opt_prop ''sessionId'' (if sessionId = [] then None else Some (JStr sessionId));
          show = (\<lambda>session st1.
            case buildImpersonatedVaultState V now fault wallet db of
              (Inr view, db') \<Rightarrow> (Shown view session, mark ''admin.impersonate'' about req, st1, db')
            | (Inl m, db') \<Rightarrow>
                (Refused (send_error ''Internal Server Error'' 500 ''Failed to build impersonated vault state''),
                 mark ''admin.impersonate.failed'' (about @ [(''error'', JStr m)]) req, st1, db'))
      in if wallet = []
         then (Refused (send_error ''Bad Request'' 400 ''wallet path parameter is required''),
               mark ''admin.impersonate.invalid'' about req, st, db)
         else if \<not> hasRole req ''super-admin''
         then (Refused (send_error ''Forbidden'' 403 ''Super-admin role is required for impersonation''),
               mark ''admin.impersonate.denied'' about req, st, db)
         else if sessionId = [] \<and> truthy_str (E ''IMPERSONATION_SESSION_STORAGE'')
         then (Refused (send_error ''Bad Request'' 400 ''x-impersonation-session-id header is required''),
               mark ''admin.impersonate.session.required'' about req, st, db)
         else if sessionId = [] then show None st
         else (case validateImpersonationSession T E up now entryId sessionId wallet actor st of
              (Inl m, st1) \<Rightarrow>
                (Refused (send_error ''Internal Server Error'' 500 ''Failed to build impersonated vault state''),
                 mark ''admin.impersonate.failed'' (about @ [(''error'', JStr m)]) req, st1, db)
            | (Inr (Invalid r), st1) \<Rightarrow>
                (Refused (refusal_response r),
                 mark (refusal_action r) (about @ [(''validationReason'', JStr (refusal_reason r))]) req, st1, db)
            | (Inr (Valid session), st1) \<Rightarrow> show (Some session) st1))"

section \<open>Logging out\<close>

text \<open>Both handlers run after \<open>requireAuth\<close>.  The last character of the shortened address is an ellipsis, here the
  bytes of its encoding.\<close>

definition ellipsis :: string where
  "ellipsis = [CHR 0xE2, CHR 0x80, CHR 0xA6]"

definition logout_answer :: "time \<Rightarrow> string \<Rightarrow> (string \<times> json) list \<Rightarrow> request \<Rightarrow> response" where
  "logout_answer now message extra req =
     (let sub = Option.bind (rq_jwtPayload req) (\<lambda>p. if jwt_sub p = [] then None else Some (jwt_sub p))
      in case sub of
           None \<Rightarrow> send_error ''Internal Server Error'' 500 ''Unable to determine authenticated wallet''
         | Some walletAddress \<Rightarrow> send_json 200 (JObj
             ([(''message'', JStr message), (''walletAddress'', JStr (take 8 walletAddress @ ellipsis))] @ extra
              @ [(''timestamp'', JStr (to_iso_string now))])))"

definition logout :: "time \<Rightarrow> request \<Rightarrow> response" where
  "logout now req = logout_answer now ''Session revoked successfully'' [] req"

definition logout_all :: "time \<Rightarrow> request \<Rightarrow> response" where
  "logout_all now req =
     logout_answer now ''All sessions revoked successfully'' [(''revokedCount'', jint 1)] req"

section \<open>Who may look\<close>

lemma set_js_sort_filter: "set (ordered_rows order w rows) \<subseteq> {r. tx_matches w r}"
  by (auto simp: ordered_rows_def)

lemma tx_page_matches:
  assumes "tx_page order w rows limit skip = (data, meta)"
  shows "\<forall>r \<in> set data. tx_matches w r"
proof -
  have "set (take n (drop skip (ordered_rows order w rows))) \<subseteq> {r. tx_matches w r}" for n
    using set_js_sort_filter[of order w rows] by (auto dest!: in_set_takeD in_set_dropD)
  moreover have "data = take limit (drop skip (ordered_rows order w rows)) \<or> data = take (limit + 1) (drop skip (ordered_rows order w rows))"
    using assms by (auto simp: tx_page_def Let_def split: if_splits)
  ultimately show ?thesis by blast
qed

lemma view_of_wallet:
  assumes "buildImpersonatedVaultState V now fault wallet db = (Inr view, db')"
  shows "vv_walletAddress view = normalizeWalletAddress (Some wallet)
    \<and> (\<forall>r \<in> set (pr_data (vv_transactions view)). tx_user r = normalizeWalletAddress (Some wallet))"
proof -
  let ?w = "normalizeWalletAddress (Some wallet)"
  have t: "vv_walletAddress view = ?w \<and> vv_transactions view = buildWalletTransactionsSnapshot V now ?w db"
    using assms by (auto simp: buildImpersonatedVaultState_def Let_def split: option.splits sum.splits prod.splits)
  obtain data meta where p: "tx_page Desc \<lparr>tw_types = [], tw_status = None, tw_user = normalizeWalletAddress (Some ?w),
      tw_gte = None, tw_lte = None\<rparr> (px_transactions (ve_prisma V) db) 20 0 = (data, meta)" by force
  from tx_page_matches[OF p] show ?thesis
    using t p by (simp add: buildWalletTransactionsSnapshot_def createPaginatedResponse_def tx_matches_def)
qed

lemma show_inspection:
  assumes "(case buildImpersonatedVaultState V now fault wallet db of
      (Inr view, db') \<Rightarrow> (Shown view session, ra view, st1, db') | (Inl m, db') \<Rightarrow> (Refused (rb m), rc m, st1, db')) = (Shown v s, req', st', d')"
  shows "s = session \<and> st' = st1 \<and> req' = ra v \<and> buildImpersonatedVaultState V now fault wallet db = (Inr v, d')"
  using assms by (auto split: prod.splits sum.splits)

text \<open>
  C17.  An administrator sees a wallet only as allowed: a view is shown only to a caller with the super-admin role, it
  holds the transactions of that wallet alone, it is marked for the audit log, and it is backed by a live session
  of this very administrator for this very wallet, whose access is in the ledger; the one way around a session is a
  server whose session storage is not configured, for a call without a session header.
\<close>

theorem inspection_authorised:
  assumes "imp_store T"
    and "inspect_wallet T V E hasRole up now entryId fault param req st db = (Shown view session, req', st', db')"
  shows "hasRole req ''super-admin''
    \<and> vv_walletAddress view = normalizeWalletAddress (Some (js_trim param))
    \<and> (\<forall>r \<in> set (pr_data (vv_transactions view)). tx_user r = normalizeWalletAddress (Some (js_trim param)))
    \<and> rq_auditAction req' = Some ''admin.impersonate''
    \<and> (case session of
         None \<Rightarrow> \<not> truthy_str (E ''IMPERSONATION_SESSION_STORAGE'')
           \<and> js_trim (header_or_empty req ''x-impersonation-session-id'') = []
       | Some s \<Rightarrow> getSessionById T (storage_mode_of E) (up 0) (js_trim (header_or_empty req ''x-impersonation-session-id'')) st = Inr (Some s)
           \<and> is_actor s = resolveActingAdminAddress req \<and> is_targetWallet s = vv_walletAddress view
           \<and> is_status s = SessionActive \<and> now < is_expiresAt s
           \<and> (\<exists>e \<in> set (ip_ledger st') \<union> set (im_ledger T (ip_db st')).
                il_eventType e = SessionAccess \<and> il_sessionId e = is_id s \<and> il_createdAt e = now))"
proof -
  let ?wallet = "js_trim param" and ?sid = "js_trim (header_or_empty req ''x-impersonation-session-id'')"
  let ?actor = "resolveActingAdminAddress req"
  have role: "hasRole req ''super-admin''"
    using assms(2) by (auto simp: inspect_wallet_def Let_def split: if_splits)
  obtain st1 d' about where b: "buildImpersonatedVaultState V now fault ?wallet db = (Inr view, d')"
      and r: "req' = mark ''admin.impersonate'' about req"
      and s: "(session = None \<and> ?sid = [] \<and> \<not> truthy_str (E ''IMPERSONATION_SESSION_STORAGE''))
        \<or> (\<exists>sn. session = Some sn \<and> validateImpersonationSession T E up now entryId ?sid ?wallet ?actor st = (Inr (Valid sn), st'))"
    using assms(2) unfolding inspect_wallet_def Let_def
    by (auto split: if_splits prod.splits sum.splits validation.splits dest!: show_inspection)
  from view_of_wallet[OF b] have v: "vv_walletAddress view = normalizeWalletAddress (Some ?wallet)"
    "\<forall>r \<in> set (pr_data (vv_transactions view)). tx_user r = normalizeWalletAddress (Some ?wallet)" by blast+
  have a: "rq_auditAction req' = Some ''admin.impersonate''" by (simp add: r mark_def)
  show ?thesis
  proof (cases session)
    case None
    then show ?thesis using role v a s by auto
  next
    case (Some sn)
    then have val: "validateImpersonationSession T E up now entryId ?sid ?wallet ?actor st = (Inr (Valid sn), st')"
      using s by auto
    from impersonation_access[OF assms(1) val, of sn] show ?thesis using Some role v a by auto
  qed
qed

definition sample_view_env :: "(rat, tables_db) view_env" where
  "sample_view_env = \<lparr>ve_read = \<lparr>re_parse = (\<lambda>s. None), re_locale = (\<lambda>a b. 0), re_maxDays = 366\<rparr>, ve_decimals = rat_decimals,
     ve_prisma = list_prisma, ve_reward = 0, ve_holdings = [], ve_points = [], ve_draws = []\<rparr>"

definition sample_view_db :: tables_db where
  "sample_view_db = \<lparr>tb_transactions = [], tb_vaultState = None, tb_snapshots = [], tb_referrals = [],
     tb_referralCodes = [\<lparr>rc_code = ''C1'', rc_ownerAddress = ''GA''\<rparr>]\<rparr>"

definition sample_inspector :: request where
  "sample_inspector = blank_request\<lparr>rq_headers := [''x-admin-id'' \<mapsto> ''alice'', ''x-impersonation-session-id'' \<mapsto> ''s1'']\<rparr>"

lemma sample_inspector_facts:
  "resolveActingAdminAddress sample_inspector = ''ALICE''"
  "js_trim (header_or_empty sample_inspector ''x-impersonation-session-id'') = ''s1''"
  "normalizeWalletAddress (Some ''ga'') = ''GA''" "normalizeWalletAddress (Some ''GA'') = ''GA''" "js_trim ''ga'' = ''ga''"
  by (code_simp+)

theorem inspection_authorised_witness:
  "\<exists>view s req' st' db'. inspect_wallet list_imp sample_view_env (\<lambda>_. None) (\<lambda>req r. True) (\<lambda>_. True) 5 ''e'' None ''ga'' sample_inspector
       (imp_sample (Impersonation.sample_session\<lparr>is_actor := ''ALICE''\<rparr>)) sample_view_db = (Shown view (Some s), req', st', db')
     \<and> vv_walletAddress view = ''GA'' \<and> is_actor s = ''ALICE''"
proof -
  let ?s = "Impersonation.sample_session\<lparr>is_actor := ''ALICE''\<rparr>"
  have "buildVaultHistoryResponse (\<lambda>s. None) (\<lambda>a b. 0) 366 5 [] no_listing_query \<noteq> Inl m" for m
    by (auto simp: buildVaultHistoryResponse_def no_listing_query_def parseUtcDateRange_def normalizeBoundary_def Let_def
        split: prod.splits)
  then obtain h where h: "buildVaultHistoryResponse (\<lambda>s. None) (\<lambda>a b. 0) 366 5 [] no_listing_query = Inr h"
    by (cases "buildVaultHistoryResponse (\<lambda>s. None) (\<lambda>a b. 0) 366 5 [] no_listing_query") auto
  have "getOrCreateReferralCode list_prisma [] ''GA'' sample_view_db = (Inr ''C1'', sample_view_db)"
    by (simp add: getOrCreateReferralCode_def sample_inspector_facts sample_view_db_def list_prisma_def)
  with h obtain view where b: "buildImpersonatedVaultState sample_view_env 5 None ''ga'' sample_view_db = (Inr view, sample_view_db)"
    by (simp add: buildImpersonatedVaultState_def sample_view_env_def sample_inspector_facts Let_def)
  obtain r st' where v: "validateImpersonationSession list_imp (\<lambda>_. None) (\<lambda>_. True) 5 ''e'' ''s1'' ''ga'' ''ALICE'' (imp_sample ?s) = (r, st')"
    by fastforce
  have "getSessionById list_imp HybridMode True ''s1'' (imp_sample ?s) = Inr (Some ?s)"
    using imp_sample_simps(1)[of ?s] by (simp add: getSessionById_def Impersonation.sample_session_def)
  with impersonation_access[OF list_imp_laws v, of ?s] v
  have v': "validateImpersonationSession list_imp (\<lambda>_. None) (\<lambda>_. True) 5 ''e'' ''s1'' ''ga'' ''ALICE'' (imp_sample ?s) = (Inr (Valid ?s), st')"
    by (simp add: default_mode sample_inspector_facts Impersonation.sample_session_def)
  obtain req' where i: "inspect_wallet list_imp sample_view_env (\<lambda>_. None) (\<lambda>req r. True) (\<lambda>_. True) 5 ''e'' None ''ga'' sample_inspector
      (imp_sample ?s) sample_view_db = (Shown view (Some ?s), req', st', sample_view_db)"
    by (simp add: inspect_wallet_def sample_inspector_facts v' b Let_def)
  from inspection_authorised[OF list_imp_laws i] have "vv_walletAddress view = ''GA''" "is_actor ?s = ''ALICE''"
    by (simp_all add: sample_inspector_facts)
  with i show ?thesis by blast
qed

end
