(* ===== verification/ToolRoutes.thy ===== *)
theory ToolRoutes
  imports AdminRoutes ResponseCache ApySnapshot EventPolling WithdrawalLimit EmailQueue Idempotency
begin

text \<open>
  The administrative tools of \<open>backend/src/index.ts\<close>: the response cache, the idempotency store, the backfill of APY
  snapshots, the replay of contract events, overrides of the withdrawal limit and the mail queue.  \<open>hasRole\<close> is
  imported from \<open>middleware/apiKeyAuth.ts\<close>, which does not export it.  Regular expressions, \<open>decodeURIComponent\<close> and
  the conversion of values to strings are arguments.  \<open>None\<close> in the place of a response: no answer is sent.
\<close>

section \<open>Response cache\<close>

definition cache_stats_json :: "lru_store \<Rightarrow> json" where
  "cache_stats_json s = (let (n, entries) = getCacheStats s in JObj [(''size'', jint (int n)), (''entries'', JArr (map JStr entries))])"

text \<open>The hit rate is read from the text of the metrics registry, a third-party library.\<close>

definition get_cache_stats :: "time \<Rightarrow> rat option \<Rightarrow> lru_store \<Rightarrow> response" where
  "get_cache_stats now hitRate s =
     (let (n, entries) = getCacheStats s
      in send_json 200 (JObj [(''entryCount'', jint (int n)), (''entries'', JArr (map JStr entries)), (''hitRate'', json_opt JNum hitRate),
           (''timestamp'', JStr (to_iso_string now))]))"

text \<open>\<open>invalid p\<close> is the message of the error that \<open>new RegExp(p)\<close> throws, if it does.\<close>

definition delete_cache ::
  "(string \<Rightarrow> string option) \<Rightarrow> (string \<Rightarrow> string \<Rightarrow> bool) \<Rightarrow> time \<Rightarrow> request \<Rightarrow> lru_store \<Rightarrow> response \<times> lru_store" where
  "delete_cache invalid rx now req s =
     (let answer = (\<lambda>pattern. let (removed, s') = invalidateCache rx pattern s
            in (send_json 200 (JObj [(''removed'', jint (int removed)), (''pattern'', json_opt JStr pattern),
                  (''timestamp'', JStr (to_iso_string now))]), s'))
      in case rq_query req ''pattern'' of
           None \<Rightarrow> answer None
         | Some p \<Rightarrow>
             if js_trim p = [] then
               (send_error ''Bad Request'' 400 ''pattern query parameter must not be empty; omit it to clear the entire cache'', s)
             else (case invalid p of
                 Some m \<Rightarrow> (send_error ''Bad Request'' 400
                   (''Invalid regex pattern '' @ [CHR 0x22] @ p @ [CHR 0x22] @ '': '' @ m), s)
               | None \<Rightarrow> answer (Some p)))"

text \<open>The pattern of a body as \<open>new RegExp\<close> reads it; a falsy pattern is none.\<close>

definition body_pattern :: "(json \<Rightarrow> string) \<Rightarrow> request \<Rightarrow> string option" where
  "body_pattern coerce req =
     (case body_field req ''pattern'' of
        None \<Rightarrow> None
      | Some JNull \<Rightarrow> None
      | Some (JBool False) \<Rightarrow> None
      | Some (JStr s) \<Rightarrow> (if s = [] then None else Some s)
      | Some (JNum r) \<Rightarrow> (if r = 0 then None else Some (coerce (JNum r)))
      | Some v \<Rightarrow> Some (coerce v))"

text \<open>\<open>Inl\<close> is the message of an error thrown to the error handler of the server.\<close>

definition invalidate_cache ::
  "(json \<Rightarrow> string) \<Rightarrow> (string \<Rightarrow> string option) \<Rightarrow> (string \<Rightarrow> string \<Rightarrow> bool) \<Rightarrow> time \<Rightarrow> request \<Rightarrow> lru_store \<Rightarrow>
   (string + response) \<times> lru_store" where
  "invalidate_cache coerce invalid rx now req s =
     (let pattern = body_pattern coerce req; shown = opt_prop ''pattern'' (body_field req ''pattern'')
      in if isDryRunRequest req then
           (Inr (send_json 200 (JObj ([(''dryRun'', JBool True), (''message'', JStr ''Cache invalidation dry-run preview'')] @ shown
              @ [(''wouldInvalidate'', JBool True), (''stats'', cache_stats_json s), (''timestamp'', JStr (to_iso_string now))]))), s)
         else (case Option.bind pattern invalid of
             Some m \<Rightarrow> (Inl m, s)
           | None \<Rightarrow>
               let (removed, s') = invalidateCache rx pattern s
               in (Inr (send_json 200 (JObj ([(''message'', JStr ''Cache invalidated'')] @ shown @ [(''stats'', cache_stats_json s')]))), s')))"

section \<open>Idempotency store\<close>

definition idem_metrics_json :: "idempotency_metrics \<Rightarrow> json" where
  "idem_metrics_json m = JObj
     [(''hits'', jint (int (ix_hits m))), (''conflicts'', jint (int (ix_conflicts m))), (''evictions'', jint (int (ix_evictions m))),
      (''activeKeys'', jint (int (ix_activeKeys m))), (''pendingKeys'', jint (int (ix_pendingKeys m)))]"

definition key_info_json :: "string \<times> idem_metadata \<Rightarrow> json" where
  "key_info_json ki = JObj
     [(''key'', JStr (fst ki)), (''metadata'', JObj
        [(''createdAt'', JStr (to_iso_string (im_createdAt (snd ki)))),
         (''lastAccessedAt'', JStr (to_iso_string (im_lastAccessedAt (snd ki)))), (''replayCount'', jint (int (im_replayCount (snd ki)))),
         (''status'', JStr (case im_status (snd ki) of Pending \<Rightarrow> ''pending'' | Completed \<Rightarrow> ''completed''))])]"

definition list_idempotency_keys ::
  "('c, 'b stored_response) node_cache_ops \<Rightarrow> time \<Rightarrow> request \<Rightarrow> ('c, 'b, 'e) idempotency_store \<Rightarrow> response" where
  "list_idempotency_keys C now req s =
     (let keys = inspectKeys C now (rq_query req ''prefix'') s
      in send_json 200 (JObj [(''keys'', JArr (map key_info_json keys)), (''count'', jint (int (length keys))),
           (''metrics'', idem_metrics_json (idem_getMetrics C s)), (''timestamp'', JStr (to_iso_string now))]))"

definition quoted :: "string \<Rightarrow> string" where
  "quoted key = [CHR 0x27] @ key @ [CHR 0x27]"

text \<open>\<open>decode\<close> is \<open>decodeURIComponent\<close>; \<open>None\<close> is the error it throws.\<close>

definition delete_idempotency_key ::
  "('c, 'b stored_response) node_cache_ops \<Rightarrow> (string \<Rightarrow> string option) \<Rightarrow> time \<Rightarrow> string \<Rightarrow> request \<Rightarrow>
   ('c, 'b, 'e) idempotency_store \<Rightarrow> (string + response) \<times> ('c, 'b, 'e) idempotency_store" where
  "delete_idempotency_key C decode now param req s =
     (case decode param of
        None \<Rightarrow> (Inl ''URI malformed'', s)
      | Some key \<Rightarrow>
          if isDryRunRequest req then
            let exists1 = key \<in> set (map fst (inspectKeys C now None s))
            in (Inr (send_json (if exists1 then 200 else 404) (JObj
                 [(''dryRun'', JBool True),
                  (''message'', JStr (''Idempotency key '' @ quoted key @ (if exists1 then '' would be deleted'' else '' not found''))),
                  (''key'', JStr key), (''wouldDelete'', JBool exists1), (''metrics'', idem_metrics_json (idem_getMetrics C s)),
                  (''timestamp'', JStr (to_iso_string now))])), s)
          else
            let (deleted, s') = deleteKey C key s
            in if \<not> deleted then (Inr (send_error ''Not Found'' 404 (''Idempotency key '' @ quoted key @ '' not found'')), s')
               else (Inr (send_json 200 (JObj [(''message'', JStr (''Idempotency key '' @ quoted key @ '' deleted'')),
                       (''metrics'', idem_metrics_json (idem_getMetrics C s')), (''timestamp'', JStr (to_iso_string now))])), s'))"

definition flush_idempotency_keys ::
  "('c, 'b stored_response) node_cache_ops \<Rightarrow> (request \<Rightarrow> api_key_role \<Rightarrow> bool) \<Rightarrow> time \<Rightarrow> request \<Rightarrow>
   ('c, 'b, 'e) idempotency_store \<Rightarrow> response \<times> ('c, 'b, 'e) idempotency_store" where
  "flush_idempotency_keys C hasRole now req s =
     (if \<not> hasRole req SuperAdmin
      then (send_error ''Forbidden'' 403 ''Super-admin role is required to flush the idempotency store'', s)
      else if isDryRunRequest req then
        (send_json 200 (JObj [(''dryRun'', JBool True), (''message'', JStr ''Idempotency store flush dry-run preview''),
           (''wouldFlush'', JBool True), (''keyCount'', jint (int (length (inspectKeys C now None s)))),
           (''metrics'', idem_metrics_json (idem_getMetrics C s)), (''timestamp'', JStr (to_iso_string now))]), s)
      else
        let s' = clear_store C s
        in (send_json 200 (JObj [(''message'', JStr ''Idempotency store flushed''),
              (''metrics'', idem_metrics_json (idem_getMetrics C s')), (''timestamp'', JStr (to_iso_string now))]), s'))"

definition get_idempotency_metrics ::
  "('c, 'b stored_response) node_cache_ops \<Rightarrow> time \<Rightarrow> ('c, 'b, 'e) idempotency_store \<Rightarrow> response" where
  "get_idempotency_metrics C now s =
     send_json 200 (JObj [(''metrics'', idem_metrics_json (idem_getMetrics C s)), (''timestamp'', JStr (to_iso_string now))])"

section \<open>Backfill of APY snapshots\<close>

text \<open>A route is cut at its wait for the service: \<open>_begin\<close> answers or hands a job over.\<close>

record backfill_job =
  bk_start :: string
  bk_end :: string
  bk_actor :: string

definition datePattern :: "string \<Rightarrow> bool" where
  "datePattern s \<longleftrightarrow> length s = 10 \<and> s ! 4 = CHR ''-'' \<and> s ! 7 = CHR ''-'' \<and>
     list_all (\<lambda>i. is_digit (s ! i)) [0, 1, 2, 3, 5, 6, 8, 9]"

definition backfill_begin ::
  "(string \<Rightarrow> time option) \<Rightarrow> ('rc, 'lg) admin_env \<Rightarrow> admin_call \<Rightarrow> request \<Rightarrow> ('rc, 'lg) admin_world \<Rightarrow>
   (response + backfill_job) \<times> ('rc, 'lg) admin_world" where
  "backfill_begin parse N c req w =
     (case (non_blank (body_string req ''start''), non_blank (body_string req ''end'')) of
        (Some start, Some fin) \<Rightarrow>
          if \<not> datePattern start \<or> \<not> datePattern fin then
            (Inl (send_error ''Bad Request'' 400 ''`start` and `end` must be in YYYY-MM-DD format''), w)
          else if fin < start then (Inl (send_error ''Bad Request'' 400 ''`end` must be >= `start`''), w)
          else
            let actor = resolveActingAdminAddress req
            in if isDryRunRequest req then
                 (Inl (send_json 200 (JObj
                    [(''dryRun'', JBool True), (''message'', JStr ''APY backfill dry-run preview''), (''start'', JStr start),
                     (''end'', JStr fin), (''estimatedDates'', json_opt jint (countInclusiveDays parse start fin)),
                     (''wouldCreateSnapshots'', JBool True), (''timestamp'', JStr (to_iso_string (cl_now c)))])),
                  audit_note N c req ''apy.backfill.dry_run'' 200 (JObj
                    [(''start'', JStr start), (''end'', JStr fin), (''actor'', JStr actor),
                     (''estimatedDates'', json_opt jint (countInclusiveDays parse start fin))]) w)
               else (Inr \<lparr>bk_start = start, bk_end = fin, bk_actor = actor\<rparr>, w)
      | _ \<Rightarrow> (Inl (send_error ''Bad Request'' 400 ''`start` and `end` (YYYY-MM-DD) are required''), w))"

definition server_error :: "string \<Rightarrow> response" where
  "server_error m = send_error ''Internal Server Error'' 500 m"

definition backfill_finish ::
  "('rc, 'lg) admin_env \<Rightarrow> admin_call \<Rightarrow> receipt_reply \<Rightarrow> int \<Rightarrow> request \<Rightarrow> backfill_job \<Rightarrow> string + backfill_result \<Rightarrow>
   ('rc, 'lg) admin_world \<Rightarrow> response \<times> ('rc, 'lg) admin_world" where
  "backfill_finish N c ry durationMs req j outcome w =
     (case outcome of
        Inl m \<Rightarrow> (server_error m, w)
      | Inr r \<Rightarrow>
          let figures = [(''created'', jint (int (br_created r))), (''skipped'', jint (int (br_skipped r)))];
              took = [(''durationMs'', jint durationMs)];
              span = [(''start'', JStr (bk_start j)), (''end'', JStr (bk_end j))]
          in case generateAdminReceipt (an_receipt N) (an_receipts N) (cl_now c) (ry_ident ry) (ry_fault ry) ''apy.backfill''
               (bk_actor j) (JObj span) (JObj (figures @ took)) (ad_receipts w) of
               (Inl m, t) \<Rightarrow> (server_error m, w\<lparr>ad_receipts := t\<rparr>)
             | (Inr rc, t) \<Rightarrow>
                 (send_json 200 (JObj ([(''message'', JStr ''APY backfill completed'')] @ span @ figures
                    @ [(''dates'', JArr (map JStr (br_dates r)))] @ took
                    @ [(''timestamp'', JStr (to_iso_string (ry_now ry))), (''receipt'', receipt_json rc)])),
                  audit_note N c req ''apy.backfill'' 200 (JObj (span @ figures @ took
                    @ [(''actor'', JStr (bk_actor j)), (''receiptId'', JStr (rp_id rc))])) (w\<lparr>ad_receipts := t\<rparr>)))"

text \<open>The whole route; \<^const>\<open>None\<close> means that the service never returns.\<close>

definition post_apy_backfill ::
  "(string \<Rightarrow> time option) \<Rightarrow> ('rc, 'lg) admin_env \<Rightarrow> admin_call \<Rightarrow> receipt_reply \<Rightarrow> int \<Rightarrow> string + string list \<Rightarrow>
   (string \<Rightarrow> string + rat) \<Rightarrow> request \<Rightarrow> ('rc, 'lg) admin_world \<times> snapshot_store \<Rightarrow>
   (response \<times> ('rc, 'lg) admin_world \<times> snapshot_store) option" where
  "post_apy_backfill parse N c ry durationMs rows live req ws =
     (case backfill_begin parse N c req (fst ws) of
        (Inl r, w) \<Rightarrow> Some (r, w, snd ws)
      | (Inr j, w) \<Rightarrow>
          (case backfillApySnapshots parse rows live (bk_start j) (bk_end j) (snd ws) of
             None \<Rightarrow> None
           | Some (outcome, st) \<Rightarrow>
               let (r, w1) = backfill_finish N c ry durationMs req j outcome w in Some (r, w1, st)))"

section \<open>Replay of contract events\<close>

record replay_job =
  rj_from :: rat
  rj_to :: rat
  rj_actor :: string

definition replay_begin ::
  "('rc, 'lg) admin_env \<Rightarrow> admin_call \<Rightarrow> request \<Rightarrow> ('rc, 'lg) admin_world \<Rightarrow>
   (response + replay_job) \<times> ('rc, 'lg) admin_world" where
  "replay_begin N c req w =
     (case (body_field req ''fromLedger'', body_field req ''toLedger'') of
        (Some f, Some t) \<Rightarrow>
          (case (f, t) of
             (JNum lo, JNum hi) \<Rightarrow>
               if lo < 0 \<or> hi < 0 \<or> hi < lo then
                 (Inl (send_error ''Bad Request'' 400
                    ''fromLedger must be >= 0, toLedger must be >= 0, and fromLedger must be <= toLedger''), w)
               else
                 let actor = resolveActingAdminAddress req;
                     span = [(''fromLedger'', JNum lo), (''toLedger'', JNum hi), (''ledgerCount'', JNum (hi - lo + 1))];
                     stamp = (''timestamp'', JStr (to_iso_string (cl_now c)))
                 in if isDryRunRequest req then
                      (Inl (send_json 200 (JObj ([(''dryRun'', JBool True), (''message'', JStr ''Event replay dry-run preview'')]
                         @ span @ [(''wouldReplay'', JBool True), stamp]))),
                       audit_note N c req ''events.replay.manual.dry_run'' 200 (JObj (span @ [(''actor'', JStr actor), stamp])) w)
                    else (Inr \<lparr>rj_from = lo, rj_to = hi, rj_actor = actor\<rparr>, w)
           | _ \<Rightarrow> (Inl (send_error ''Bad Request'' 400 ''fromLedger and toLedger must be numbers''), w))
      | _ \<Rightarrow> (Inl (send_error ''Bad Request'' 400 ''fromLedger and toLedger are required in request body''), w))"

definition replay_failed ::
  "('rc, 'lg) admin_env \<Rightarrow> admin_call \<Rightarrow> request \<Rightarrow> string \<Rightarrow> ('rc, 'lg) admin_world \<Rightarrow> response \<times> ('rc, 'lg) admin_world" where
  "replay_failed N c req m w =
     (server_error m, audit_note N c req ''events.replay.manual.failed'' 500
        (JObj [(''error'', JStr m), (''timestamp'', JStr (to_iso_string (cl_now c)))]) w)"

definition replay_finish ::
  "('rc, 'lg) admin_env \<Rightarrow> admin_call \<Rightarrow> receipt_reply \<Rightarrow> int \<Rightarrow> request \<Rightarrow> replay_job \<Rightarrow> string + replay_counts \<Rightarrow>
   ('rc, 'lg) admin_world \<Rightarrow> response \<times> ('rc, 'lg) admin_world" where
  "replay_finish N c ry duration req j outcome w =
     (case outcome of
        Inl m \<Rightarrow> replay_failed N c req m w
      | Inr r \<Rightarrow>
          let figures = [(''processedCount'', jint (int (rc_processed r))), (''duplicateCount'', jint (int (rc_duplicate r))),
                (''durationMs'', jint duration)];
              span = [(''fromLedger'', JNum (rj_from j)), (''toLedger'', JNum (rj_to j))];
              stamp = (''timestamp'', JStr (to_iso_string (ry_now ry)))
          in case generateAdminReceipt (an_receipt N) (an_receipts N) (cl_now c) (ry_ident ry) (ry_fault ry) ''events.replay.manual''
               (rj_actor j) (JObj span) (JObj figures) (ad_receipts w) of
               (Inl m, t) \<Rightarrow> replay_failed N c req m (w\<lparr>ad_receipts := t\<rparr>)
             | (Inr rc, t) \<Rightarrow>
                 (send_json 200 (JObj ([(''message'', JStr ''Event replay completed successfully'')] @ span @ figures
                    @ [stamp, (''receipt'', receipt_json rc)])),
                  audit_note N c req ''events.replay.manual'' 200 (JObj (span @ figures
                    @ [stamp, (''receiptId'', JStr (rp_id rc))])) (w\<lparr>ad_receipts := t\<rparr>)))"

text \<open>The whole route.  \<open>service\<close> is \<open>replayEventsForRange\<close>, on the numbers of the request.\<close>

definition post_events_replay ::
  "('rc, 'lg) admin_env \<Rightarrow> admin_call \<Rightarrow> receipt_reply \<Rightarrow> int \<Rightarrow>
   (rat \<Rightarrow> rat \<Rightarrow> 'p \<Rightarrow> ((string + replay_counts) \<times> 'p) option) \<Rightarrow> request \<Rightarrow> ('rc, 'lg) admin_world \<times> 'p \<Rightarrow>
   (response \<times> ('rc, 'lg) admin_world \<times> 'p) option" where
  "post_events_replay N c ry duration service req wd =
     (case replay_begin N c req (fst wd) of
        (Inl r, w) \<Rightarrow> Some (r, w, snd wd)
      | (Inr j, w) \<Rightarrow>
          (case service (rj_from j) (rj_to j) (snd wd) of
             None \<Rightarrow> None
           | Some (outcome, d) \<Rightarrow> let (r, w1) = replay_finish N c ry duration req j outcome w in Some (r, w1, d)))"

section \<open>Overrides of the withdrawal limit\<close>

definition override_json :: "override_record \<Rightarrow> json" where
  "override_json r = JObj
     [(''wallet'', JStr (ov_wallet r)), (''reason'', JStr (ov_reason r)), (''actor'', JStr (ov_actor r)),
      (''createdAt'', JStr (to_iso_string (ov_createdAt r))), (''expiresAt'', JStr (to_iso_string (ov_expiresAt r)))]"

definition override_ttl :: "request \<Rightarrow> rat" where
  "override_ttl req = (case body_field req ''ttlSeconds'' of Some (JNum t) \<Rightarrow> if 0 < t then t else 3600 | _ \<Rightarrow> 3600)"

definition max_date_ms :: int where
  "max_date_ms = 8640000000000000"

text \<open>An expiry that is no date makes \<open>toISOString\<close> throw before the override is stored.  The audit entry is
  awaited: when its insertion fails, the override stands and no answer is sent.\<close>

definition post_withdrawal_override ::
  "('rc, 'lg) admin_env \<Rightarrow> (request \<Rightarrow> api_key_role \<Rightarrow> bool) \<Rightarrow> admin_call \<Rightarrow> request \<Rightarrow>
   ('rc, 'lg) admin_world \<times> limit_state \<Rightarrow> response option \<times> ('rc, 'lg) admin_world \<times> limit_state" where
  "post_withdrawal_override N hasRole c req ws =
     (let walletAddress = js_trim (nullish (body_string req ''walletAddress'') []);
          reason = js_trim (nullish (body_string req ''reason'') []);
          ttlSeconds = override_ttl req
      in if walletAddress = [] \<or> reason = [] then
           (Some (send_error ''Bad Request'' 400 ''walletAddress and reason are required''), ws)
         else if \<not> hasRole req SuperAdmin then
           (Some (send_error ''Forbidden'' 403 ''Super-admin role is required to override withdrawal limits''), ws)
         else
           let actor = resolveActingAdminAddress req
           in if max_date_ms < cl_now c + \<lfloor>ttlSeconds * 1000\<rfloor> then (None, ws)
              else
                let (ov, l) = setWithdrawalLimitOverride (cl_now c) walletAddress reason actor ttlSeconds (snd ws);
                    (res, log) = recordAdminAuditLog (an_logs N) (an_stringify N) (an_env N) (cl_now c) (cl_hex c) (cl_logFault c)
                      req ''withdrawal.limit.override.grant'' 201
                      (JObj [(''walletAddress'', JStr (ov_wallet ov)), (''reason'', JStr (ov_reason ov)),
                         (''expiresAt'', JStr (to_iso_string (ov_expiresAt ov))), (''actor'', JStr actor)]) (ad_log (fst ws))
                in ((case res of Inl _ \<Rightarrow> None | Inr _ \<Rightarrow> Some (send_json 201 (JObj [(''override'', override_json ov)]))),
                    (fst ws)\<lparr>ad_log := log\<rparr>, l))"

definition get_withdrawal_audit :: "time \<Rightarrow> request \<Rightarrow> limit_state \<Rightarrow> response" where
  "get_withdrawal_audit now req s =
     (let limit = parseLimited (rq_query req ''limit'') 50 1 200;
          (data, hasNextPage) = paginateByLimit (listWithdrawalLimitAuditEntries (nat (limit + 1)) s) limit
      in sendStandardListEnvelope now (envelope_of data limit hasNextPage [(''entries'', JArr data)]))"

section \<open>Mail queue\<close>

text \<open>\<open>updatedAt\<close> is the column that the ORM maintains and the model's rows leave out.\<close>

definition email_row_json :: "(string \<Rightarrow> time) \<Rightarrow> email_row \<Rightarrow> json" where
  "email_row_json updatedAt r = JObj
     [(''id'', JStr (eq_id r)), (''to'', JStr (eq_to r)), (''subject'', JStr (eq_subject r)), (''text'', json_opt JStr (eq_text r)),
      (''html'', json_opt JStr (eq_html r)), (''status'', JStr (eq_status r)), (''retryCount'', jint (eq_retryCount r)),
      (''maxRetries'', jint (eq_maxRetries r)), (''nextRetryAt'', json_opt (\<lambda>t. JStr (to_iso_string t)) (eq_nextRetryAt r)),
      (''lastError'', json_opt JStr (eq_lastError r)), (''createdAt'', JStr (to_iso_string (eq_createdAt r))),
      (''updatedAt'', JStr (to_iso_string (updatedAt (eq_id r))))]"

definition get_email_queue :: "'t email_table \<Rightarrow> (string \<Rightarrow> time) \<Rightarrow> request \<Rightarrow> 't \<Rightarrow> response" where
  "get_email_queue T updatedAt req t =
     (let emails = getEmailQueue T (rq_query req ''status'') t
      in send_json 200 (JObj [(''emails'', JArr (map (email_row_json updatedAt) emails)), (''count'', jint (int (length emails)))]))"

text \<open>\<open>fault\<close>: the database rejects a query.  Every error reads as a missing message.\<close>

definition post_email_replay ::
  "'t email_table \<Rightarrow> (string \<Rightarrow> time) \<Rightarrow> bool \<Rightarrow> string \<Rightarrow> 't \<Rightarrow> response \<times> 't" where
  "post_email_replay T updatedAt fault ident t =
     (case (if fault then None else replayEmail T ident t) of
        None \<Rightarrow> (send_error ''Not Found'' 404 ''Email queue item not found'', t)
      | Some (r, t') \<Rightarrow> (send_json 200 (JObj [(''message'', JStr ''Email requeued successfully''),
            (''email'', email_row_json updatedAt r)]), t'))"

section \<open>Properties\<close>

text \<open>Deletion of idempotency keys.\<close>

lemma listed_key_deleted:
  assumes "node_cache C ttl" "key \<in> set (map fst (inspectKeys C now None s))"
  shows "fst (deleteKey C key s)"
proof -
  have "nc_get C now key (completedResponses s) \<noteq> None \<or> map_of (pendingResponses s) key \<noteq> None"
    using assms(2)
    by (force simp: inspectKeys_def Let_def completed_infos_def pending_infos_def map_filter_def prefix_matches_def
        map_of_eq_None_iff split: option.splits if_splits)
  then show ?thesis using node_cache.nc_del_count[OF assms(1), of now key "completedResponses s"]
    by (auto simp: deleteKey_def Let_def jm_has_def split: prod.splits)
qed

lemma deleted_key_unlisted:
  assumes "node_cache C ttl"
  shows "key \<notin> set (map fst (inspectKeys C t prefix (snd (deleteKey C key s))))"
proof -
  let ?s = "snd (deleteKey C key s)"
  have "nc_get C t key (completedResponses ?s) = None" "map_of (pendingResponses ?s) key = None"
    using node_cache.nc_get_del_same[OF assms, of t key "completedResponses s"]
    by (auto simp: deleteKey_def Let_def delete_conv' split: prod.splits)
  then show ?thesis
    by (force simp: inspectKeys_def Let_def completed_infos_def pending_infos_def map_filter_def map_of_eq_None_iff
        split: if_splits option.splits)
qed

text \<open>
  The preview of the deletion of an idempotency key can be relied on: a dry run changes nothing, and if it
  announces the deletion, then the request itself answers 200 and the key is in no listing afterwards.
\<close>

theorem idempotency_deletion_previewed:
  assumes "node_cache C ttl" "isDryRunRequest req" "\<not> isDryRunRequest req1" "decode param = Some key"
    and "delete_idempotency_key C decode now param req s = (Inr r, s0)"
  shows "s0 = s"
    and "rs_status r = 200 \<Longrightarrow> \<exists>r1 s1. delete_idempotency_key C decode now param req1 s = (Inr r1, s1) \<and> rs_status r1 = 200
      \<and> (\<forall>t prefix. key \<notin> set (map fst (inspectKeys C t prefix s1)))"
proof -
  show "s0 = s" using assms(2,4,5) by (auto simp: delete_idempotency_key_def Let_def)
  assume "rs_status r = 200"
  then have "key \<in> set (map fst (inspectKeys C now None s))"
    using assms(2,4,5) by (auto simp: delete_idempotency_key_def Let_def send_json_def split: if_splits)
  from listed_key_deleted[OF assms(1) this] deleted_key_unlisted[OF assms(1), of key _ _ s] assms(3,4)
  show "\<exists>r1 s1. delete_idempotency_key C decode now param req1 s = (Inr r1, s1) \<and> rs_status r1 = 200
      \<and> (\<forall>t prefix. key \<notin> set (map fst (inspectKeys C t prefix s1)))"
    by (cases "deleteKey C key s") (auto simp: delete_idempotency_key_def send_json_def)
qed

text \<open>The text of a day passes the pattern of the route.\<close>

lemma list_all_digits: "list_all is_digit (digits n a)"
proof (induction n arbitrary: a)
  case (Suc n)
  have "\<forall>k \<in> set [0..<10]. is_digit (char_of (48 + k :: nat))" by code_simp
  then have "is_digit (char_of (48 + a mod 10))" by (rule bspec) simp
  with Suc show ?case by (simp only: digits.simps list_all_append list.pred_inject simp_thms)
qed simp

lemma two_chars: "length xs = 2 \<Longrightarrow> \<exists>a b. xs = [a, b]"
  by (auto simp: length_Suc_conv numeral_2_eq_2)

lemma four_chars: "length xs = 4 \<Longrightarrow> \<exists>a b c d. xs = [a, b, c, d]"
  by (auto simp: length_Suc_conv numeral_eq_Suc)

lemma datePattern_iso: "common_era d \<Longrightarrow> datePattern (iso_date d)"
proof -
  assume e: "common_era d"
  define y m t where "y = nat (year_of d)" and "m = nat (month_of d)" and "t = nat (date_of d)"
  have "year_text (year_of d) = digits 4 y" "two_digits (month_of d) = digits 2 m" "two_digits (date_of d) = digits 2 t"
    using e civil_bounds[of d] unfolding y_def m_def t_def common_era_def by (intro year_text_digits two_digits_digits; linarith)+
  then have y: "iso_date d = digits 4 y @ ''-'' @ digits 2 m @ ''-'' @ digits 2 t" by (simp only: iso_date_parts)
  obtain a0 a1 a2 a3 where "digits 4 y = [a0, a1, a2, a3]" using four_chars[OF length_digits] by blast
  moreover obtain b0 b1 where "digits 2 m = [b0, b1]" using two_chars[OF length_digits] by blast
  moreover obtain c0 c1 where "digits 2 t = [c0, c1]" using two_chars[OF length_digits] by blast
  ultimately show ?thesis
    using list_all_digits[of 4 y] list_all_digits[of 2 m] list_all_digits[of 2 t]
    by (simp add: y datePattern_def)
qed

lemma backfill_dry_run:
  assumes "body_string req ''start'' = Some s1" "body_string req ''end'' = Some s2" "non_blank (Some s1) = Some s1"
    and "non_blank (Some s2) = Some s2" "datePattern s1" "datePattern s2" "\<not> s2 < s1" "isDryRunRequest req"
    and "countInclusiveDays parse s1 s2 = Some n"
  shows "\<exists>r entries. backfill_begin parse N c req w = (Inl r, w\<lparr>ad_log := entries\<rparr>) \<and> rs_status r = 200
    \<and> body_part r ''estimatedDates'' = Some (jint n)"
proof -
  obtain r where r: "backfill_begin parse N c req w = (Inl r, audit_note N c req ''apy.backfill.dry_run'' 200 (JObj
      [(''start'', JStr s1), (''end'', JStr s2), (''actor'', JStr (resolveActingAdminAddress req)), (''estimatedDates'', jint n)]) w)"
    "rs_status r = 200" "body_part r ''estimatedDates'' = Some (jint n)"
    using assms by (simp add: backfill_begin_def Let_def body_part_def send_json_def json_opt_def)
  show ?thesis by (rule exI[of _ r]) (simp add: r audit_note_def, blast)
qed


text \<open>A reader of both texts of a midnight that the routes use.\<close>

definition midnight_reader :: "int \<Rightarrow> int \<Rightarrow> string \<Rightarrow> time option" where
  "midnight_reader lo hi s = map_option day_start
     (List.find (\<lambda>d. s = iso_date d @ ''T00:00:00Z'' \<or> s = iso_date d @ ''T00:00:00.000Z'') [lo..hi])"

lemma midnight_reads:
  assumes "common_era lo" "common_era hi" "lo \<le> d" "d \<le> hi" "end1 \<in> {''T00:00:00Z'', ''T00:00:00.000Z''}"
  shows "midnight_reader lo hi (iso_date d @ end1) = Some (day_start d)"
proof -
  let ?P = "\<lambda>x. iso_date d @ end1 = iso_date x @ ''T00:00:00Z'' \<or> iso_date d @ end1 = iso_date x @ ''T00:00:00.000Z''"
  obtain x where x: "List.find ?P [lo..hi] = Some x"
    using assms(3-5) by (cases "List.find ?P [lo..hi]") (auto simp: find_None_iff)
  have era: "common_era x" "common_era d" if "lo \<le> x" "x \<le> hi" for x
    using common_era_between[OF assms(1,2)] assms(3,4) that by blast+
  have "lo \<le> x" "x \<le> hi" "?P x" using find_SomeD[OF x] by auto
  then have "iso_date d = iso_date x" using era[of x] by (auto simp: append_eq_append_conv length_iso_date)
  then have "x = d" using iso_date_inject era \<open>lo \<le> x\<close> \<open>x \<le> hi\<close> by metis
  with x show ?thesis by (simp add: midnight_reader_def)
qed

definition dated_request :: "bool \<Rightarrow> request" where
  "dated_request dry = blank_request\<lparr>rq_body :=
     JObj ([(''start'', JStr (iso_date 20455)), (''end'', JStr (iso_date 20457))] @ (if dry then [(''dryRun'', JBool True)] else []))\<rparr>"

lemma midnight_iso: "iso_reader (midnight_reader 20454 20470) 20454 20470"
  by unfold_locales (simp_all add: midnight_reads[OF early_2026] early_2026)

lemma sample_midnights:
  "\<forall>d \<in> {20455, 20457}. midnight_reader 20454 20470 (iso_date d @ ''T00:00:00.000Z'') = Some (day_start d)"
  by (simp add: midnight_reads[OF early_2026])


definition key_request :: "bool \<Rightarrow> request" where
  "key_request dry = blank_request\<lparr>rq_body := JObj (if dry then [(''dryRun'', JStr ''1'')] else [])\<rparr>"

theorem idempotency_deletion_previewed_witness:
  "\<exists>r1 s1. delete_idempotency_key (deadline_cache 1000) Some 5 ''k'' (key_request False) sample_started = (Inr r1, s1)
     \<and> rs_status r1 = 200 \<and> (\<forall>t prefix. ''k'' \<notin> set (map fst (inspectKeys (deadline_cache 1000) t prefix s1)))"
proof -
  have dry: "isDryRunRequest (key_request True)" "\<not> isDryRunRequest (key_request False)"
    by (simp_all add: key_request_def isDryRunRequest_def body_field_def blank_request_def)
  have "''k'' \<in> set (map fst (inspectKeys (deadline_cache 1000) 5 None sample_started))" by code_simp
  then obtain r where r: "delete_idempotency_key (deadline_cache 1000) Some 5 ''k'' (key_request True) sample_started = (Inr r, sample_started)"
    "rs_status r = 200"
    using dry(1) by (simp add: delete_idempotency_key_def send_json_def Let_def)
  from idempotency_deletion_previewed(2)[OF deadline.node_cache_axioms dry _ r(1)] r(2) show ?thesis by simp
qed

section \<open>A granted override\<close>

text \<open>
  C11.  An override is granted to a super-admin only and means what it says: when the route answers 201, the wallet it
  names may withdraw any amount until the time that the answer shows, whatever it has withdrawn already, and the
  overrides of other wallets are as they were; every other answer leaves the overrides alone.
\<close>

theorem granted_override_admits:
  assumes "post_withdrawal_override N hasRole c req (w, s) = (Some r, w1, s1)"
  shows "(rs_status r \<noteq> 201 \<longrightarrow> s1 = s) \<and> (rs_status r = 201 \<longrightarrow> hasRole req SuperAdmin
      \<and> (\<exists>ov. body_part r ''override'' = Some (override_json ov)
          \<and> ov_wallet ov = normalizeWalletAddress (Some (js_trim (nullish (body_string req ''walletAddress'') [])))
          \<and> ov_expiresAt ov = cl_now c + \<lfloor>override_ttl req * 1000\<rfloor>
          \<and> (\<forall>v. v \<noteq> ov_wallet ov \<longrightarrow> map_of (inMemoryOverrides s1) v = map_of (inMemoryOverrides s) v)
          \<and> (\<forall>(D :: 'd decimal_ops) (P :: 'p prisma_ops) E now db wallet amount check.
               normalizeWalletAddress (Some wallet) = ov_wallet ov \<and> now < ov_expiresAt ov
               \<and> fst (evaluateWithdrawalLimit D P E now db wallet amount False s1) = Some check
               \<longrightarrow> lc_allowed check \<and> lc_overridden check)))"
proof (rule conjI; rule impI)
  let ?wallet = "js_trim (nullish (body_string req ''walletAddress'') [])" and ?reason = "js_trim (nullish (body_string req ''reason'') [])"
  let ?set = "setWithdrawalLimitOverride (cl_now c) ?wallet ?reason (resolveActingAdminAddress req) (override_ttl req) s"
  show "s1 = s" if "rs_status r \<noteq> 201"
    using assms that by (auto simp: post_withdrawal_override_def Let_def send_json_def split: if_splits prod.splits sum.splits)
  assume "rs_status r = 201"
  with assms have ok: "hasRole req SuperAdmin" "body_part r ''override'' = Some (override_json (fst ?set))" "s1 = snd ?set"
    by (auto simp: post_withdrawal_override_def Let_def send_json_def body_part_def split: if_splits prod.splits sum.splits)
  have "lc_allowed check \<and> lc_overridden check"
    if "normalizeWalletAddress (Some wallet) = ov_wallet (fst ?set)" "now < ov_expiresAt (fst ?set)"
      "fst (evaluateWithdrawalLimit D P E now db wallet amount False s1) = Some check"
    for D :: "'d decimal_ops" and P :: "'p prisma_ops" and E now db wallet amount check
  proof -
    have "fst (getActiveOverride now (normalizeWalletAddress (Some wallet)) s1) \<noteq> None"
      using that(1,2) ok(3) by (simp add: setWithdrawalLimitOverride_def getActiveOverride_def Let_def update_conv')
    with that(3) show ?thesis
      by (auto simp: evaluateWithdrawalLimit_def Let_def split: prod.splits option.splits)
  qed
  moreover have "\<forall>v. v \<noteq> ov_wallet (fst ?set) \<longrightarrow> map_of (inMemoryOverrides s1) v = map_of (inMemoryOverrides s) v"
    using ok(3) by (simp add: setWithdrawalLimitOverride_def Let_def update_conv')
  moreover have "ov_wallet (fst ?set) = normalizeWalletAddress (Some ?wallet)"
      "ov_expiresAt (fst ?set) = cl_now c + \<lfloor>override_ttl req * 1000\<rfloor>"
    by (simp_all add: setWithdrawalLimitOverride_def Let_def)
  ultimately show "hasRole req SuperAdmin
      \<and> (\<exists>ov. body_part r ''override'' = Some (override_json ov)
          \<and> ov_wallet ov = normalizeWalletAddress (Some (js_trim (nullish (body_string req ''walletAddress'') [])))
          \<and> ov_expiresAt ov = cl_now c + \<lfloor>override_ttl req * 1000\<rfloor>
          \<and> (\<forall>v. v \<noteq> ov_wallet ov \<longrightarrow> map_of (inMemoryOverrides s1) v = map_of (inMemoryOverrides s) v)
          \<and> (\<forall>(D :: 'd decimal_ops) (P :: 'p prisma_ops) E now db wallet amount check.
               normalizeWalletAddress (Some wallet) = ov_wallet ov \<and> now < ov_expiresAt ov
               \<and> fst (evaluateWithdrawalLimit D P E now db wallet amount False s1) = Some check
               \<longrightarrow> lc_allowed check \<and> lc_overridden check))"
    using ok(1,2) by blast
qed

definition override_request :: request where
  "override_request = blank_request\<lparr>rq_body := JObj [(''walletAddress'', JStr ''GA''), (''reason'', JStr ''audit'')]\<rparr>"

theorem granted_override_admits_witness:
  "\<exists>r w1 s1. post_withdrawal_override sample_admin_env (\<lambda>_ _. True) \<lparr>cl_now = 0, cl_hex = ''a'', cl_logFault = False\<rparr> override_request
      (sample_admin_world, empty_limit_state) = (Some r, w1, s1) \<and> rs_status r = 201
    \<and> (\<forall>check. fst (evaluateWithdrawalLimit rat_decimals list_prisma limit_env 3599999 empty_db ''GA'' (Some 500) False s1) = Some check
        \<longrightarrow> lc_allowed check)"
proof -
  let ?N = sample_admin_env and ?c = "\<lparr>cl_now = 0, cl_hex = ''a'', cl_logFault = False\<rparr>"
  have body: "body_string override_request ''walletAddress'' = Some ''GA''" "body_string override_request ''reason'' = Some ''audit''"
    "override_ttl override_request = 3600"
    by (simp_all add: override_request_def blank_request_def body_string_def body_field_def override_ttl_def)
  have trim: "js_trim ''GA'' = ''GA''" "js_trim ''audit'' = ''audit''" by code_simp+
  have logged: "fst (recordAdminAuditLog T f E t h False q a n m st) = Inr ()" for T :: "(admin_log_row, 't) row_table" and f E t h q a n m st
    by (simp add: recordAdminAuditLog_def Let_def)
  obtain r w1 s1 where run: "post_withdrawal_override ?N (\<lambda>_ _. True) ?c override_request (sample_admin_world, empty_limit_state)
      = (Some r, w1, s1)" "rs_status r = 201"
    by (simp add: post_withdrawal_override_def body trim max_date_ms_def logged Let_def send_json_def nullish_def split_beta)
  from granted_override_admits[OF run(1), where ?'d = rat and ?'p = tables_db, THEN conjunct2, rule_format, OF run(2)] obtain ov :: override_record where ov:
      "ov_wallet ov = normalizeWalletAddress (Some (js_trim (nullish (body_string override_request ''walletAddress'') [])))"
      "ov_expiresAt ov = cl_now ?c + \<lfloor>override_ttl override_request * 1000\<rfloor>"
      "\<forall>(D :: rat decimal_ops) (P :: tables_db prisma_ops) E now db wallet amount check.
         normalizeWalletAddress (Some wallet) = ov_wallet ov \<and> now < ov_expiresAt ov
         \<and> fst (evaluateWithdrawalLimit D P E now db wallet amount False s1) = Some check
         \<longrightarrow> lc_allowed check \<and> lc_overridden check"
    by (elim conjE exE) (rule that; assumption)
  have "ov_wallet ov = normalizeWalletAddress (Some ''GA'')" "ov_expiresAt ov = 3600000"
    using ov(1,2) by (simp_all add: body trim nullish_def)
  note at = this
  have "\<forall>check. fst (evaluateWithdrawalLimit rat_decimals list_prisma limit_env 3599999 empty_db ''GA'' (Some 500) False s1) = Some check
      \<longrightarrow> lc_allowed check"
    using ov(3)[THEN spec, of rat_decimals, THEN spec, of list_prisma, THEN spec, of limit_env, THEN spec, of 3599999, THEN spec,
        of empty_db, THEN spec, of "''GA''", THEN spec, of "Some 500"] by (simp add: at)
  with run show ?thesis by blast
qed

end
