(* ===== verification/OperatorRoutes.thy ===== *)
theory OperatorRoutes
  imports AdminRoutes Webhooks AccessControl
begin

text \<open>
  Routes of \<open>backend/src/index.ts\<close> for operators: receipts, the two listings of audit entries, the registry of
  webhooks, its dead letters and deliveries, and the check of a webhook signature.  Bodies whose fields are not
  of the type the code declares for them are outside the model: for those, reading a body gives \<open>None\<close>.
  A route that waits is cut there, as in \<open>AdminRoutes\<close>.
\<close>

section \<open>Receipts\<close>

definition internal_error :: "string \<Rightarrow> response" where
  "internal_error m = send_error ''Internal Server Error'' 500 m"

text \<open>\<open>fault\<close> is the message of a rejected query.\<close>

definition get_receipts ::
  "('rc, 'lg) admin_env \<Rightarrow> time \<Rightarrow> string option \<Rightarrow> request \<Rightarrow> ('rc, 'lg) admin_world \<Rightarrow> response" where
  "get_receipts N now fault req w =
     (let limit = parseLimited (rq_query req ''limit'') 50 1 200
      in case (case fault of Some m \<Rightarrow> Inl m
          | None \<Rightarrow> listAdminReceipts (an_receipt N) (an_receipts N) (rq_query req ''action'') (rq_query req ''actor'') (nat (limit + 1)) (ad_receipts w)) of
           Inl m \<Rightarrow> internal_error m
         | Inr receipts \<Rightarrow>
             let (data, hasNextPage) = paginateByLimit (map receipt_json receipts) limit
             in sendStandardListEnvelope now (envelope_of data limit hasNextPage
                  [(''receipts'', JArr data), (''count'', jint (int (length data)))]))"

definition read_receipt ::
  "('rc, 'lg) admin_env \<Rightarrow> string option \<Rightarrow> string \<Rightarrow> (admin_receipt \<Rightarrow> json) \<Rightarrow> ('rc, 'lg) admin_world \<Rightarrow> response" where
  "read_receipt N fault ident answer w =
     (case (case fault of Some m \<Rightarrow> Inl m | None \<Rightarrow> getAdminReceipt (an_receipt N) (an_receipts N) ident (ad_receipts w)) of
        Inl m \<Rightarrow> internal_error m
      | Inr None \<Rightarrow> bare_error 404 ''Receipt not found''
      | Inr (Some r) \<Rightarrow> send_json 200 (answer r))"

definition get_receipt :: "('rc, 'lg) admin_env \<Rightarrow> string option \<Rightarrow> string \<Rightarrow> ('rc, 'lg) admin_world \<Rightarrow> response" where
  "get_receipt N fault ident w = read_receipt N fault ident receipt_json w"

definition verify_receipt :: "('rc, 'lg) admin_env \<Rightarrow> time \<Rightarrow> string option \<Rightarrow> string \<Rightarrow> ('rc, 'lg) admin_world \<Rightarrow> response" where
  "verify_receipt N now fault ident w =
     read_receipt N fault ident (\<lambda>r. JObj [(''id'', JStr (rp_id r)), (''isValid'', JBool (verifyReceiptSignature (an_receipt N) r)),
       (''timestamp'', JStr (to_iso_string now))]) w"

section \<open>Audit entries\<close>

definition audit_entry_json :: "audit_entry \<Rightarrow> json" where
  "audit_entry_json e = JObj
     ([(''id'', JStr (ae_id e)), (''timestamp'', JStr (to_iso_string (ae_timestamp e))), (''actor'', JStr (ae_actor e)),
       (''method'', JStr (ae_method e)), (''path'', JStr (ae_path e)), (''action'', JStr (ae_action e)),
       (''statusCode'', jint (ae_statusCode e)), (''durationMs'', jint (ae_durationMs e)), (''ip'', JStr (ae_ip e))]
      @ opt_prop ''correlationId'' (map_option JStr (ae_correlationId e)) @ opt_prop ''metadata'' (ae_metadata e))"

text \<open>\<open>parseInt\<close> of a text that is no number is \<open>NaN\<close>, which equals no status: -1.\<close>

definition status_filter :: "string option \<Rightarrow> int option" where
  "status_filter v = (case non_blank v of None \<Rightarrow> None | Some s \<Rightarrow> Some (nullish (js_parse_int s) (-1)))"

definition get_audit_logs :: "env \<Rightarrow> time \<Rightarrow> request \<Rightarrow> audit_entry list \<Rightarrow> response" where
  "get_audit_logs E now req es =
     (let limit = parseLimited (rq_query req ''limit'') 100 1 500;
          logs = getAuditLogs \<lparr>af_actor = non_blank (rq_query req ''actor''), af_action = non_blank (rq_query req ''action''),
            af_path = non_blank (rq_query req ''path''), af_statusCode = status_filter (rq_query req ''statusCode''),
            af_limit = Some (limit + 1)\<rparr> es;
          (data, hasNextPage) = paginateByLimit (map audit_entry_json logs) limit
      in sendStandardListEnvelope now (envelope_of data limit hasNextPage
           [(''logs'', JArr data), (''metrics'', getAuditLogMetrics E es)]))"

definition get_admin_audit_logs ::
  "('rc, 'lg) admin_env \<Rightarrow> admin_call \<Rightarrow> request \<Rightarrow> audit_entry list \<Rightarrow> ('rc, 'lg) admin_world \<Rightarrow> response \<times> ('rc, 'lg) admin_world" where
  "get_admin_audit_logs N c req es w =
     (let limit = parseLimited (rq_query req ''limit'') 50 1 200;
          statusCode = map_option (\<lambda>s. parseLimited (Some s) 0 100 599) (non_blank (rq_query req ''statusCode''));
          rows = getAuditLogs \<lparr>af_actor = rq_query req ''actor'', af_action = rq_query req ''action'', af_path = None,
            af_statusCode = statusCode, af_limit = Some (limit + 1)\<rparr> es;
          (data, hasNextPage) = paginateByLimit (map audit_entry_json rows) limit
      in (sendStandardListEnvelope (cl_now c) (envelope_of data limit hasNextPage
            [(''meta'', JObj [(''count'', jint (int (length data))), (''limit'', jint limit),
               (''timestamp'', JStr (to_iso_string (cl_now c)))])]),
          audit_note N c req ''audit-logs.read'' 200 (JObj [(''limit'', jint limit), (''returned'', jint (int (length data)))]) w))"

section \<open>Registry of webhooks\<close>

definition endpoint_json :: "endpoint_view \<Rightarrow> json" where
  "endpoint_json v = JObj
     ([(''id'', JStr (ev_id v)), (''url'', JStr (ev_url v)), (''eventTypes'', JArr (map (\<lambda>t. JStr (show_event t)) (ev_eventTypes v))),
       (''enabled'', JBool (ev_enabled v)), (''hasSecret'', JBool (ev_hasSecret v)),
       (''verificationStatus'', JStr (show_verification (ev_verificationStatus v)))]
      @ opt_prop ''verifiedAt'' (map_option (\<lambda>t. JStr (to_iso_string t)) (ev_verifiedAt v))
      @ opt_prop ''lastVerificationError'' (map_option JStr (ev_lastVerificationError v))
      @ [(''createdAt'', JStr (to_iso_string (ev_createdAt v))), (''updatedAt'', JStr (to_iso_string (ev_updatedAt v)))]
      @ opt_prop ''deletedAt'' (map_option (\<lambda>t. JStr (to_iso_string t)) (ev_deletedAt v))
      @ opt_prop ''deletedBy'' (map_option JStr (ev_deletedBy v)))"

definition endpoint_answer :: "int \<Rightarrow> string \<Rightarrow> endpoint_view \<Rightarrow> response" where
  "endpoint_answer status message v = send_json status (JObj [(''message'', JStr message), (''endpoint'', endpoint_json v)])"

text \<open>A field of a body: absent or \<open>null\<close>, of its type, or of another type (\<open>None\<close>).\<close>

definition read_bool :: "json option \<Rightarrow> bool option option" where
  "read_bool v = (case v of None \<Rightarrow> Some None | Some JNull \<Rightarrow> Some None | Some (JBool b) \<Rightarrow> Some (Some b) | _ \<Rightarrow> None)"

definition read_string :: "json option \<Rightarrow> string option option" where
  "read_string v = (case v of None \<Rightarrow> Some None | Some JNull \<Rightarrow> Some None | Some (JStr s) \<Rightarrow> Some (Some s) | _ \<Rightarrow> None)"

definition read_event :: "json \<Rightarrow> event_type option" where
  "read_event v =
     (if v = JStr (show_event DepositCreated) then Some DepositCreated
      else if v = JStr (show_event WithdrawalCreated) then Some WithdrawalCreated else None)"

definition read_events :: "json option \<Rightarrow> event_type list option option" where
  "read_events v =
     (case v of None \<Rightarrow> Some None | Some JNull \<Rightarrow> Some None | Some (JArr js) \<Rightarrow> map_option Some (those (map read_event js)) | _ \<Rightarrow> None)"

text \<open>Where the code's own check of the \<open>url\<close> fails, the answer is 400.\<close>

definition read_register :: "request \<Rightarrow> (response + register_input) option" where
  "read_register req =
     (case non_blank (body_string req ''url'') of
        None \<Rightarrow> Some (Inl (send_error ''Bad Request'' 400 ''url is required and must be a string''))
      | Some url \<Rightarrow>
          (case (read_events (body_field req ''eventTypes''), read_bool (body_field req ''enabled''), read_string (body_field req ''secret'')) of
             (Some ts, Some en, Some secret) \<Rightarrow> Some (Inr
               \<lparr>ri_url = url, ri_eventTypes = ts, ri_enabled = Some (nullish en True), ri_secret = secret\<rparr>)
           | _ \<Rightarrow> None))"

record webhook_env =
  wn_hash :: "string \<Rightarrow> string"
  wn_protocol :: "string \<Rightarrow> string option"
  wn_env :: env
  wn_cfg :: webhook_config

text \<open>The answer, and the step of the verification that the registration starts.\<close>

definition post_webhook ::
  "webhook_env \<Rightarrow> time \<Rightarrow> string \<Rightarrow> string \<Rightarrow> request \<Rightarrow> webhook_state \<Rightarrow> (response \<times> verify_step option \<times> webhook_state) option" where
  "post_webhook W now ident token req s =
     (case read_register req of
        None \<Rightarrow> None
      | Some (Inl r) \<Rightarrow> Some (r, None, s)
      | Some (Inr input) \<Rightarrow>
          (case registerWebhookEndpoint (wn_hash W) (wn_protocol W) (wn_env W) (wn_cfg W) now ident token input s of
             (Inl m, s1) \<Rightarrow> Some (send_error ''Unprocessable Entity'' 422 m, None, s1)
           | (Inr (v, step), s1) \<Rightarrow> Some (endpoint_answer 201 ''Webhook endpoint registered'' v, Some step, s1)))"

definition not_found :: "string \<Rightarrow> response" where
  "not_found m = send_error ''Not Found'' 404 m"

text \<open>What the verification route does once the verification has ended; the audit entry is awaited, and its
  failure reads as a failure of the verification.\<close>

definition verified_answer ::
  "('rc, 'lg) admin_env \<Rightarrow> admin_call \<Rightarrow> request \<Rightarrow> endpoint_view option \<Rightarrow> ('rc, 'lg) admin_world \<Rightarrow> response \<times> ('rc, 'lg) admin_world" where
  "verified_answer N c req v w =
     (case v of
        None \<Rightarrow> (not_found ''Webhook endpoint not found'', w)
      | Some e \<Rightarrow>
          let status = (if ev_verificationStatus e = Verified then 200 else 422);
              (res, entries) = recordAdminAuditLog (an_logs N) (an_stringify N) (an_env N) (cl_now c) (cl_hex c) (cl_logFault c)
                req ''webhook.verify'' status
                (JObj ([(''endpointId'', JStr (ev_id e)), (''verificationStatus'', JStr (show_verification (ev_verificationStatus e)))]
                  @ opt_prop ''lastVerificationError'' (map_option JStr (ev_lastVerificationError e)))) (ad_log w)
          in (case res of
                Inl m \<Rightarrow> internal_error m
              | Inr _ \<Rightarrow> endpoint_answer status
                  (if ev_verificationStatus e = Verified then ''Webhook endpoint verified'' else ''Webhook endpoint verification failed'') e,
              w\<lparr>ad_log := entries\<rparr>))"

definition post_webhook_verify ::
  "('rc, 'lg) admin_env \<Rightarrow> admin_call \<Rightarrow> time \<Rightarrow> request \<Rightarrow> string \<Rightarrow> string + probe_response \<Rightarrow> ('rc, 'lg) admin_world \<times> webhook_state \<Rightarrow>
   response \<times> ('rc, 'lg) admin_world \<times> webhook_state" where
  "post_webhook_verify N c started req ident reply ws =
     (case verify_begin started ident (snd ws) of
        (VerifyDone v, s) \<Rightarrow> (let (r, w) = verified_answer N c req v (fst ws) in (r, w, s))
      | (Probing e, s) \<Rightarrow>
          (let (v, s1) = verify_end (cl_now c) ident e reply s; (r, w) = verified_answer N c req (Some v) (fst ws) in (r, w, s1)))"

definition read_update :: "request \<Rightarrow> update_input option" where
  "read_update req =
     (case (read_bool (body_field req ''enabled''), read_events (body_field req ''eventTypes''), read_string (body_field req ''secret'')) of
        (Some en, Some ts, Some secret) \<Rightarrow> Some \<lparr>ui_enabled = en, ui_eventTypes = ts, ui_secret = secret\<rparr>
      | _ \<Rightarrow> None)"

definition patch_webhook :: "webhook_env \<Rightarrow> time \<Rightarrow> request \<Rightarrow> string \<Rightarrow> webhook_state \<Rightarrow> (response \<times> webhook_state) option" where
  "patch_webhook W now req ident s =
     (case assertWebhookParameterUpdate req of
        Some r \<Rightarrow> Some (r, s)
      | None \<Rightarrow>
          (case read_update req of
             None \<Rightarrow> None
           | Some input \<Rightarrow>
               (case updateWebhookEndpoint (wn_hash W) now ident input s of
                  (Inl m, s1) \<Rightarrow> Some (send_error ''Unprocessable Entity'' 422 m, s1)
                | (Inr None, s1) \<Rightarrow> Some (not_found ''Webhook endpoint not found'', s1)
                | (Inr (Some v), s1) \<Rightarrow> Some (endpoint_answer 200 ''Webhook endpoint updated'' v, s1))))"

definition webhook_metrics_json :: "webhook_metrics \<Rightarrow> json" where
  "webhook_metrics_json m = JObj
     [(''totalEndpoints'', jint (int (wm_totalEndpoints m))), (''enabledEndpoints'', jint (int (wm_enabledEndpoints m))),
      (''totalDeliveries'', jint (int (wm_totalDeliveries m))), (''delivered'', jint (int (wm_delivered m))),
      (''failed'', jint (int (wm_failed m))), (''pending'', jint (int (wm_pending m))),
      (''maxAttempts'', json_opt jint (wm_maxAttempts m)), (''deliveryTimeoutMs'', json_opt jint (wm_deliveryTimeoutMs m))]"

definition get_webhooks :: "webhook_env \<Rightarrow> time \<Rightarrow> request \<Rightarrow> webhook_state \<Rightarrow> response" where
  "get_webhooks W now req s =
     (let limit = parseLimited (rq_query req ''limit'') 100 1 500;
          allEndpoints = listWebhookEndpoints (rq_query req ''includeDeleted'' = Some ''true'') s;
          (data, hasNextPage) = paginateByLimit (map endpoint_json (take (nat (limit + 1)) allEndpoints)) limit
      in sendStandardListEnvelope now ((envelope_of data limit hasNextPage
           [(''endpoints'', JArr data), (''metrics'', webhook_metrics_json (getWebhookDeliveryMetrics (wn_env W) (wn_cfg W) s))])
             \<lparr>le_total := Some (int (length allEndpoints))\<rparr>))"

definition delete_webhook ::
  "('rc, 'lg) admin_env \<Rightarrow> admin_call \<Rightarrow> request \<Rightarrow> string \<Rightarrow> ('rc, 'lg) admin_world \<times> webhook_state \<Rightarrow>
   response \<times> ('rc, 'lg) admin_world \<times> webhook_state" where
  "delete_webhook N c req ident ws =
     (let actor = resolveActingAdminAddress req
      in case deleteWebhookEndpoint (cl_now c) ident actor (snd ws) of
           (None, s) \<Rightarrow> (not_found ''Webhook endpoint not found or already deleted'', fst ws, s)
         | (Some v, s) \<Rightarrow>
             (endpoint_answer 200 ''Webhook endpoint soft-deleted'' v,
              audit_note N c req ''webhook.delete'' 200
                (JObj [(''endpointId'', JStr (ev_id v)), (''url'', JStr (ev_url v)), (''actor'', JStr actor)]) (fst ws), s))"

definition restore_webhook ::
  "('rc, 'lg) admin_env \<Rightarrow> admin_call \<Rightarrow> request \<Rightarrow> string \<Rightarrow> ('rc, 'lg) admin_world \<times> webhook_state \<Rightarrow>
   response \<times> ('rc, 'lg) admin_world \<times> webhook_state" where
  "restore_webhook N c req ident ws =
     (let actor = resolveActingAdminAddress req
      in case restoreWebhookEndpoint (cl_now c) ident (snd ws) of
           (None, s) \<Rightarrow> (not_found ''Webhook endpoint not found or not deleted'', fst ws, s)
         | (Some v, s) \<Rightarrow>
             (endpoint_answer 200 ''Webhook endpoint restored'' v,
              audit_note N c req ''webhook.restore'' 200
                (JObj [(''endpointId'', JStr (ev_id v)), (''url'', JStr (ev_url v)), (''actor'', JStr actor)]) (fst ws), s))"

section \<open>Dead letters and deliveries\<close>

definition show_letter :: "letter_status \<Rightarrow> string" where
  "show_letter st = (case st of InDeadLetter \<Rightarrow> ''dead-letter'' | Requeued \<Rightarrow> ''requeued'' | LetterDelivered \<Rightarrow> ''delivered'')"

definition show_delivery :: "delivery_status \<Rightarrow> string" where
  "show_delivery st = (case st of DeliveryPending \<Rightarrow> ''pending'' | Delivered \<Rightarrow> ''delivered'' | DeliveryFailed \<Rightarrow> ''failed'')"

definition letter_json :: "dead_letter \<Rightarrow> json" where
  "letter_json e = JObj
     ([(''id'', JStr (dl_id e)), (''endpointId'', JStr (dl_endpointId e)), (''endpointUrl'', JStr (dl_endpointUrl e)),
       (''eventType'', JStr (show_event (dl_eventType e))), (''payload'', dl_payload e), (''attempts'', jint (dl_attempts e))]
      @ opt_prop ''lastError'' (map_option JStr (dl_lastError e)) @ opt_prop ''originalDeliveryId'' (map_option JStr (dl_originalDeliveryId e))
      @ [(''status'', JStr (show_letter (dl_status e))), (''createdAt'', JStr (to_iso_string (dl_createdAt e))),
         (''updatedAt'', JStr (to_iso_string (dl_updatedAt e)))]
      @ opt_prop ''retriedAt'' (map_option (\<lambda>t. JStr (to_iso_string t)) (dl_retriedAt e)))"

definition delivery_json :: "delivery_record \<Rightarrow> json" where
  "delivery_json d = JObj
     ([(''id'', JStr (de_id d)), (''endpointId'', JStr (de_endpointId d)), (''endpointUrl'', JStr (de_endpointUrl d)),
       (''eventType'', JStr (show_event (de_eventType d))), (''status'', JStr (show_delivery (de_status d))),
       (''attempts'', jint (de_attempts d)), (''createdAt'', JStr (to_iso_string (de_createdAt d))),
       (''updatedAt'', JStr (to_iso_string (de_updatedAt d)))]
      @ opt_prop ''deliveredAt'' (map_option (\<lambda>t. JStr (to_iso_string t)) (de_deliveredAt d))
      @ opt_prop ''lastError'' (map_option JStr (de_lastError d)))"

text \<open>An event type the code does not know matches no letter.\<close>

definition get_dead_letters :: "time \<Rightarrow> request \<Rightarrow> webhook_state \<Rightarrow> response" where
  "get_dead_letters now req s =
     (let limit = parseLimited (rq_query req ''limit'') 100 1 500;
          wanted = map_option (\<lambda>t. read_event (JStr t)) (non_blank (rq_query req ''eventType''));
          rows = (if wanted = Some None then []
            else listWebhookDeadLetters (letter_filters.make (rq_query req ''endpointId'') (Option.bind wanted id)
              (rq_query req ''start'') (rq_query req ''end'') (Some (limit + 1))) s);
          (data, hasNextPage) = paginateByLimit (map letter_json rows) limit
      in sendStandardListEnvelope now (envelope_of data limit hasNextPage [(''deadLetters'', JArr data)]))"

definition retried_answer :: "dead_letter option \<Rightarrow> response" where
  "retried_answer v =
     (case v of
        None \<Rightarrow> not_found ''Dead-letter entry not found''
      | Some e \<Rightarrow> send_json 200 (JObj [(''message'', JStr ''Dead-letter entry re-queued for delivery''), (''deadLetter'', letter_json e)]))"

text \<open>Up to its wait: the answer, or the letter and the attempt it waits for; and after it.\<close>

definition retry_begin :: "time \<Rightarrow> string \<Rightarrow> string \<Rightarrow> webhook_state \<Rightarrow> (response + nat \<times> attempt) \<times> webhook_state" where
  "retry_begin now ident deliveryId s =
     (case retry_letter_begin now ident deliveryId s of
        (RetryDone v, s1) \<Rightarrow> (Inl (retried_answer v), s1)
      | (Retrying l a, s1) \<Rightarrow> (Inr (l, a), s1))"

definition retry_end :: "time \<Rightarrow> nat \<Rightarrow> attempt \<Rightarrow> webhook_state \<Rightarrow> response \<times> webhook_state" where
  "retry_end now l a s = (let (v, s1) = retry_letter_end now l (at_delivery a) s in (retried_answer v, s1))"

definition get_deliveries ::
  "webhook_env \<Rightarrow> (delivery_key \<Rightarrow> string) \<Rightarrow> (string \<Rightarrow> delivery_key option) \<Rightarrow> time \<Rightarrow> request \<Rightarrow> webhook_state \<Rightarrow> response" where
  "get_deliveries W show read now req s =
     (let limit = parseLimited (rq_query req ''limit'') 100 1 500; cursor = rq_query req ''cursor''
      in case listWebhookDeliveryPage show read (Some limit) cursor s of
           None \<Rightarrow> send_error ''Bad Request'' 400 ''Invalid or expired cursor. Start a new page without a cursor.''
         | Some page \<Rightarrow>
             let data = map delivery_json (dp_deliveries page)
             in sendStandardListEnvelope now
                  \<lparr>le_data = data, le_limit = limit, le_hasNextPage = dp_hasNextPage page, le_hasPrevPage = truthy_str cursor,
                   le_nextCursor = dp_nextCursor page, le_total = None,
                   le_extras = [(''deliveries'', JArr data)] @ opt_prop ''nextCursor'' (map_option JStr (dp_nextCursor page))
                     @ [(''hasNextPage'', JBool (dp_hasNextPage page)),
                        (''metrics'', webhook_metrics_json (getWebhookDeliveryMetrics (wn_env W) (wn_cfg W) s))]\<rparr>)"

definition post_signature_check ::
  "(string \<Rightarrow> string \<Rightarrow> string) \<Rightarrow> (json \<Rightarrow> string) \<Rightarrow> request \<Rightarrow> response" where
  "post_signature_check hmac stringify req =
     (case body_field req ''secret'' of
        Some (JStr secret) \<Rightarrow>
          if js_trim secret = [] then send_error ''Bad Request'' 400 ''secret is required and must be a non-empty string''
          else (case body_field req ''payload'' of
              None \<Rightarrow> send_error ''Bad Request'' 400 ''payload is required''
            | Some payload \<Rightarrow> send_json 200 (JObj
                [(''algorithm'', JStr ''HMAC-SHA256''), (''signature'', JStr (createWebhookSignature hmac stringify secret payload)),
                 (''verified'', json_opt (\<lambda>g. JBool (verifyWebhookSignature hmac stringify secret payload g))
                    (non_blank (body_string req ''signature'')))]))
      | _ \<Rightarrow> send_error ''Bad Request'' 400 ''secret is required and must be a non-empty string'')"

section \<open>Pages of audit entries\<close>

definition audit_query :: "request \<Rightarrow> int \<Rightarrow> audit_filters" where
  "audit_query req limit =
     \<lparr>af_actor = non_blank (rq_query req ''actor''), af_action = non_blank (rq_query req ''action''),
      af_path = non_blank (rq_query req ''path''), af_statusCode = status_filter (rq_query req ''statusCode''), af_limit = Some limit\<rparr>"

lemma audit_matches_limit: "audit_matches (audit_query req n) = audit_matches (audit_query req m)"
  by (intro ext) (simp add: audit_matches_def audit_query_def)

lemma parseLimited_bounds: "lo \<le> fb \<Longrightarrow> fb \<le> hi \<Longrightarrow> lo \<le> hi \<Longrightarrow> lo \<le> parseLimited v fb lo hi \<and> parseLimited v fb lo hi \<le> hi"
  by (auto simp: parseLimited_def split: option.splits)


section \<open>Secrets of webhooks\<close>

text \<open>What the registry shows of a state: everything but the secrets, of which it is only known whether there is one.\<close>

definition blank_secrets :: "webhook_endpoint \<Rightarrow> webhook_endpoint" where
  "blank_secrets e = e\<lparr>we_secret := None, we_secretHash := (if truthy_str (we_secretHash e) then Some ''set'' else None),
     we_challengeToken := None, we_challengeTokenHash := None\<rparr>"

definition without_secrets :: "webhook_state \<Rightarrow> webhook_state" where
  "without_secrets s = s\<lparr>wh_endpoints := map (\<lambda>(i, e). (i, blank_secrets e)) (wh_endpoints s)\<rparr>"

datatype registry_call =
    Register string string request
  | Patch request string
  | List request
  | Delete request string
  | Restore request string
  | Deliveries request
  | Letters request

text \<open>A call with its answer; the verification that a registration starts is a call of its own and left out here.\<close>

fun registry_step ::
  "('rc, 'lg) admin_env \<Rightarrow> webhook_env \<Rightarrow> (delivery_key \<Rightarrow> string) \<Rightarrow> (string \<Rightarrow> delivery_key option) \<Rightarrow> admin_call \<times> registry_call \<Rightarrow>
   ('rc, 'lg) admin_world \<times> webhook_state \<Rightarrow> response option \<times> ('rc, 'lg) admin_world \<times> webhook_state" where
  "registry_step N W show read (c, Register i token req) (w, s) =
     (case post_webhook W (cl_now c) i token req s of None \<Rightarrow> (None, w, s) | Some (r, _, s1) \<Rightarrow> (Some r, w, s1))"
| "registry_step N W show read (c, Patch req i) (w, s) =
     (case patch_webhook W (cl_now c) req i s of None \<Rightarrow> (None, w, s) | Some (r, s1) \<Rightarrow> (Some r, w, s1))"
| "registry_step N W show read (c, List req) (w, s) = (Some (get_webhooks W (cl_now c) req s), w, s)"
| "registry_step N W show read (c, Delete req i) ws = (let (r, ws1) = delete_webhook N c req i ws in (Some r, ws1))"
| "registry_step N W show read (c, Restore req i) ws = (let (r, ws1) = restore_webhook N c req i ws in (Some r, ws1))"
| "registry_step N W show read (c, Deliveries req) (w, s) = (Some (get_deliveries W show read (cl_now c) req s), w, s)"
| "registry_step N W show read (c, Letters req) (w, s) = (Some (get_dead_letters (cl_now c) req s), w, s)"

fun registry_run where
  "registry_run N W show read [] ws = ([], ws)"
| "registry_run N W show read (c # cs) ws =
     (let (r, ws1) = registry_step N W show read c ws; (rs, ws2) = registry_run N W show read cs ws1 in (r # rs, ws2))"

lemma sanitize_blank [simp]: "sanitizeWebhookEndpoint (blank_secrets e) = sanitizeWebhookEndpoint e"
  by (simp add: sanitizeWebhookEndpoint_def blank_secrets_def truthy_str_def)

lemma blank_idem [simp]: "blank_secrets (blank_secrets e) = blank_secrets e"
  by (simp add: blank_secrets_def truthy_str_def)

lemma without_idem [simp]: "without_secrets (without_secrets s) = without_secrets s"
  by (simp add: without_secrets_def comp_def split_def)

lemma blank_fields [simp]:
  "we_enabled (blank_secrets e) = we_enabled e" "we_deletedAt (blank_secrets e) = we_deletedAt e"
  "we_createdAt (blank_secrets e) = we_createdAt e" "we_eventTypes (blank_secrets e) = we_eventTypes e"
  by (simp_all add: blank_secrets_def)

lemma without_fields [simp]:
  "wh_deliveries (without_secrets s) = wh_deliveries s" "wh_records (without_secrets s) = wh_records s"
  "wh_deadLetters (without_secrets s) = wh_deadLetters s" "wh_letters (without_secrets s) = wh_letters s"
  "wh_next (without_secrets s) = wh_next s"
  by (simp_all add: without_secrets_def)

lemma update_map_snd: "AList.update k (g v) (map (\<lambda>(i, e). (i, g e)) m) = map (\<lambda>(i, e). (i, g e)) (AList.update k v m)"
  by (induction m) auto

lemma without_put [simp]:
  "without_secrets (put_endpoint i e s) = put_endpoint i (blank_secrets e) (without_secrets s)"
  by (simp add: without_secrets_def put_endpoint_def update_map_snd)

lemma look_without: "map_of (wh_endpoints (without_secrets s)) i = map_option blank_secrets (map_of (wh_endpoints s) i)"
proof -
  have "map_of (map (\<lambda>(i, e). (i, blank_secrets e)) m) i = map_option blank_secrets (map_of m i)" for m
    by (induction m) auto
  then show ?thesis by (simp add: without_secrets_def)
qed

lemma live_without: "live_endpoint i (without_secrets s) = map_option blank_secrets (live_endpoint i s)"
  by (simp add: live_endpoint_def look_without split: option.splits)

lemma js_sort_map: "(\<And>a b. gt' (f a) (f b) = gt a b) \<Longrightarrow> map f (js_sort gt xs) = js_sort gt' (map f xs)"
proof (induction xs)
  case (Cons x xs)
  have "map f (js_insert gt x ys) = js_insert gt' (f x) (map f ys)" for ys
    by (induction ys) (simp_all add: Cons.prems)
  with Cons show ?case by simp
qed simp

lemma filter_map_blank:
  "filter (\<lambda>e. b \<or> we_deletedAt e = None) (map blank_secrets es) = map blank_secrets (filter (\<lambda>e. b \<or> we_deletedAt e = None) es)"
  by (simp add: filter_map comp_def)

lemma endpoints_without: "map snd (wh_endpoints (without_secrets s)) = map blank_secrets (map snd (wh_endpoints s))"
  by (simp add: without_secrets_def comp_def split_def)

lemma listing_without: "listWebhookEndpoints b (without_secrets s) = listWebhookEndpoints b s"
proof -
  have "js_sort (\<lambda>a b. we_createdAt a < we_createdAt b) (map blank_secrets xs) = map blank_secrets (js_sort (\<lambda>a b. we_createdAt a < we_createdAt b) xs)" for xs
    by (rule js_sort_map[symmetric]) simp
  note sort = this
  show ?thesis unfolding listWebhookEndpoints_def endpoints_without filter_map_blank sort by simp
qed

lemma metrics_without: "getWebhookDeliveryMetrics E cfg (without_secrets s) = getWebhookDeliveryMetrics E cfg s"
proof -
  have enabled: "length (filter we_enabled (map blank_secrets es)) = length (filter we_enabled es)" for es
    by (induction es) simp_all
  have size1: "length (wh_endpoints (without_secrets s)) = length (wh_endpoints s)" by (simp add: without_secrets_def)
  show ?thesis by (simp only: getWebhookDeliveryMetrics_def endpoints_without enabled size1 delivery_list_def without_fields)
qed

text \<open>Two states that show the same, after a step with the same answer.\<close>

definition same_step where
  "same_step x y \<longleftrightarrow> fst x = fst y \<and> fst (snd x) = fst (snd y) \<and> without_secrets (snd (snd x)) = without_secrets (snd (snd y))"

lemma verify_begin_without:
  "without_secrets (snd (verify_begin t i (without_secrets s))) = without_secrets (snd (verify_begin t i s))"
  by (auto simp: verify_begin_def live_without Let_def blank_secrets_def truthy_str_def split: option.splits)

lemma verify_put_without:
  "without_secrets (snd (verify_begin t i (put_endpoint i e (without_secrets s)))) = without_secrets (snd (verify_begin t i (put_endpoint i e s)))"
  using verify_begin_without[of t i "put_endpoint i e s"] verify_begin_without[of t i "put_endpoint i e (without_secrets s)"] by simp

lemma register_without:
  "same_step (registry_step N W show read (c, Register i token req) (w, s)) (registry_step N W show read (c, Register i token req) (w, without_secrets s))"
  by (simp add: same_step_def post_webhook_def registerWebhookEndpoint_def Let_def split_beta verify_put_without split: option.split sum.split)

lemma patch_without:
  "same_step (registry_step N W show read (c, Patch req i) (w, s)) (registry_step N W show read (c, Patch req i) (w, without_secrets s))"
  by (auto simp: same_step_def patch_webhook_def updateWebhookEndpoint_def live_without Let_def sanitizeWebhookEndpoint_def blank_secrets_def truthy_str_def
      split: option.splits sum.splits)

lemma delete_without:
  "same_step (registry_step N W show read (c, Delete req i) (w, s)) (registry_step N W show read (c, Delete req i) (w, without_secrets s))"
  by (auto simp: same_step_def delete_webhook_def deleteWebhookEndpoint_def live_without Let_def sanitizeWebhookEndpoint_def blank_secrets_def truthy_str_def
      split: option.splits sum.splits)

lemma restore_without:
  "same_step (registry_step N W show read (c, Restore req i) (w, s)) (registry_step N W show read (c, Restore req i) (w, without_secrets s))"
  by (auto simp: same_step_def restore_webhook_def restoreWebhookEndpoint_def look_without Let_def sanitizeWebhookEndpoint_def blank_secrets_def truthy_str_def
      split: option.splits sum.splits)

lemma lists_without:
  "delivery_list (without_secrets s) = delivery_list s" "dead_letter_list (without_secrets s) = dead_letter_list s"
  by (simp_all add: delivery_list_def dead_letter_list_def)

lemma pages_without:
  "get_webhooks W now req (without_secrets s) = get_webhooks W now req s"
  "get_deliveries W show read now req (without_secrets s) = get_deliveries W show read now req s"
  "get_dead_letters now req (without_secrets s) = get_dead_letters now req s"
  unfolding get_webhooks_def get_deliveries_def get_dead_letters_def listWebhookDeliveryPage_def listWebhookDeadLetters_def
    lists_without metrics_without listing_without by (rule refl)+

lemma step_without: "same_step (registry_step N W show read (c, k) (w, s)) (registry_step N W show read (c, k) (w, without_secrets s))"
  by (cases k; simp only: register_without patch_without delete_without restore_without)
    (simp_all add: same_step_def pages_without)

lemma same_step_states:
  assumes "without_secrets s = without_secrets s'"
  shows "same_step (registry_step N W show read c (w, s)) (registry_step N W show read c (w, s'))"
proof -
  obtain a k where c: "c = (a, k)" by (cases c)
  show ?thesis
    using step_without[of N W "show" read a k w s] step_without[of N W "show" read a k w s'] assms unfolding c same_step_def by simp
qed


section \<open>Signatures\<close>

text \<open>The signature that the route computes is one that it accepts, and the only one.\<close>

lemma signature_check_accepts:
  assumes "body_field req ''secret'' = Some (JStr secret)" "js_trim secret \<noteq> []" "body_field req ''payload'' = Some payload"
    and "body_string req ''signature'' = Some g" "g \<noteq> []"
  shows "body_part (post_signature_check hmac stringify req) ''verified''
    = Some (JBool (body_part (post_signature_check hmac stringify req) ''signature'' = Some (JStr g)))"
  using assms by (auto simp: post_signature_check_def body_part_def send_json_def json_opt_def non_blank_def verifyWebhookSignature_def Let_def)

section \<open>Examples\<close>

definition secret_endpoint :: "string \<Rightarrow> webhook_state" where
  "secret_endpoint secret = empty_webhooks\<lparr>wh_endpoints := [(''wh_1'',
     \<lparr>we_id = ''wh_1'', we_url = ''https://x'', we_eventTypes = [DepositCreated], we_enabled = True, we_secret = Some secret,
      we_secretHash = Some (''h'' @ secret), we_verificationStatus = Verified, we_challengeToken = None, we_challengeTokenHash = Some secret,
      we_challengeExpiresAt = None, we_verifiedAt = Some 3, we_lastVerificationError = None, we_createdAt = 1, we_updatedAt = 3,
      we_deletedAt = None, we_deletedBy = None\<rparr>)]\<rparr>"

definition sample_webhook_routes :: webhook_env where
  "sample_webhook_routes = \<lparr>wn_hash = id, wn_protocol = (\<lambda>_. Some ''https:''), wn_env = (\<lambda>_. None),
     wn_cfg = the (load_webhook_config (\<lambda>_. None))\<rparr>"


definition many_entries :: "audit_entry list" where
  "many_entries = replicate 600 \<lparr>ae_id = ''audit_1'', ae_timestamp = 0, ae_actor = ''a'', ae_method = ''GET'', ae_path = ''/'',
     ae_action = ''x'', ae_statusCode = 200, ae_durationMs = 1, ae_ip = ''i'', ae_correlationId = None, ae_metadata = None\<rparr>"


end
