(* ===== verification/ExportRoutes.thy ===== *)
theory ExportRoutes
  imports OperatorRoutes Exports BulkExport
begin

text \<open>
  The two listings of export jobs among the routes of \<open>backend/src/index.ts\<close>: the jobs of the table \<open>ExportJob\<close>, with
  filters and a range of dates, and the bulk jobs in memory.
\<close>

definition export_job_json :: "export_job \<Rightarrow> json" where
  "export_job_json j = JObj
     [(''id'', JStr (xj_id j)), (''format'', JStr (show_format (xj_format j))), (''fileName'', JStr (xj_fileName j)),
      (''contentType'', JStr (xj_contentType j)), (''checksum'', JStr (xj_checksum j)),
      (''checksumAlgorithm'', JStr (xj_checksumAlgorithm j)), (''generatedBy'', JStr (xj_generatedBy j)),
      (''walletAddress'', json_opt JStr (xj_walletAddress j)), (''rowCount'', jint (int (xj_rowCount j))),
      (''filters'', xj_filters j), (''createdAt'', JStr (to_iso_string (xj_createdAt j)))]"

definition truthy_json :: "string option \<Rightarrow> json" where
  "truthy_json v = (if truthy_str v then JStr (the v) else JNull)"

text \<open>\<open>parse\<close> is \<open>Date.parse\<close>, \<open>parse_json\<close> is \<open>JSON.parse\<close>, \<open>fault\<close> the message of a rejected query.\<close>

definition get_export_jobs ::
  "'t export_table \<Rightarrow> (string \<Rightarrow> time option) \<Rightarrow> (string \<Rightarrow> json option) \<Rightarrow> int \<Rightarrow> time \<Rightarrow> string option \<Rightarrow> request \<Rightarrow> 't \<Rightarrow> response" where
  "get_export_jobs X parse parse_json maxDays now fault req t =
     (let format = resolveExportFormat (rq_query req ''format'')
      in if truthy_str (rq_query req ''format'') \<and> format = None
         then send_error ''Bad Request'' 400 ''format must be either csv or json''
         else (case parseUtcDateRange parse maxDays (rq_query req ''from'') (rq_query req ''to'') None of
             Inl msg \<Rightarrow> send_error ''Bad Request'' 400 msg
           | Inr dates \<Rightarrow>
               let limit = parseLimited (rq_query req ''limit'') 50 1 200
               in (case fault of
                     Some m \<Rightarrow> send_error ''Internal Server Error'' 500 m
                   | None \<Rightarrow>
                       let jobs = listExportJobs X parse_json
                             \<lparr>xf_format = format, xf_generatedBy = rq_query req ''generatedBy'',
                              xf_walletAddress = rq_query req ''walletAddress'', xf_checksum = rq_query req ''checksum'',
                              xf_start = date_bound parse (dr_start dates), xf_end = date_bound parse (dr_end dates),
                              xf_limit = nat (limit + 1)\<rparr> t;
                           (data, hasNextPage) = paginateByLimit (map export_job_json jobs) limit
                       in sendStandardListEnvelope now (envelope_of data limit hasNextPage
                            [(''jobs'', JArr data),
                             (''meta'', JObj
                                [(''count'', jint (int (length data))), (''limit'', jint limit),
                                 (''filters'', JObj
                                    [(''format'', json_opt (\<lambda>f. JStr (show_format f)) format),
                                     (''generatedBy'', json_opt JStr (rq_query req ''generatedBy'')),
                                     (''walletAddress'', json_opt JStr (rq_query req ''walletAddress'')),
                                     (''checksum'', json_opt JStr (rq_query req ''checksum'')),
                                     (''from'', truthy_json (dr_start dates)), (''to'', truthy_json (dr_end dates))]),
                                 (''timestamp'', JStr (to_iso_string now))])]))))"

definition get_bulk_jobs :: "time \<Rightarrow> request \<Rightarrow> bulk_state \<Rightarrow> response" where
  "get_bulk_jobs now req s =
     (let limit = parseLimited (rq_query req ''limit'') 50 1 200;
          jobs = listBulkExportJobs (nat (limit + 1)) s;
          (data, hasNextPage) = paginateByLimit (map bulk_status_prop jobs) limit
      in sendStandardListEnvelope now (envelope_of data limit hasNextPage
           [(''jobs'', JArr data),
            (''meta'', JObj [(''count'', jint (int (length data))), (''limit'', jint limit),
               (''timestamp'', JStr (to_iso_string now))])]))"

text \<open>One row more than the page is asked for, so the page is full exactly when more rows may follow.\<close>

lemma one_more_row:
  "0 \<le> limit \<Longrightarrow> paginateByLimit (take (nat (limit + 1)) rows) limit = (take (nat limit) rows, limit < int (length rows))"
  by (auto simp: paginateByLimit_def Let_def min_def nat_le_iff)

lemma bulk_pages:
  assumes "limit = parseLimited (rq_query req ''limit'') 50 1 200"
    and "found = js_sort (\<lambda>a b. bj_createdAt a < bj_createdAt b) (map snd (bs_jobs s))"
  shows "get_bulk_jobs now req s = sendStandardListEnvelope now
    (envelope_of (map bulk_status_prop (take (nat limit) found)) limit (limit < int (length found))
      [(''jobs'', JArr (map bulk_status_prop (take (nat limit) found))),
       (''meta'', JObj [(''count'', jint (int (length (take (nat limit) found)))), (''limit'', jint limit),
          (''timestamp'', JStr (to_iso_string now))])])"
proof -
  have "0 \<le> limit" using parseLimited_bounds[of 1 50 200 "rq_query req ''limit''"] assms(1) by simp
  note more = one_more_row[OF this, of "map bulk_status_prop found"]
  show ?thesis
    unfolding get_bulk_jobs_def Let_def listBulkExportJobs_def assms(1)[symmetric] assms(2)[symmetric] take_map[symmetric] more
    by (simp add: take_map)
qed

end
