(* ===== verification/DbBackup.thy ===== *)
theory DbBackup
  imports JobGovernance EmailQueue CalendarOrder
begin

text \<open>
  The daily backup of the database, \<open>backend/src/dbBackupJob.ts\<close>: the dump as the events of \<open>pg_dump\<close> and of the
  compressor, the upload, the deletion of old backups, the alert and the scheduler.  The object store is a parameter
  with the documented laws of listing in pages; \<open>rejects n\<close> is the error of the \<open>n\<close>th request to it, if it fails.
\<close>

section \<open>Configuration\<close>

text \<open>\<^const>\<open>None\<close> is \<open>NaN\<close>.\<close>

definition getRetentionDays :: "env \<Rightarrow> int option" where
  "getRetentionDays E = js_parse_int (env_or E ''BACKUP_RETENTION_DAYS'' ''30'')"

definition getS3Prefix :: "env \<Rightarrow> string" where
  "getS3Prefix E = env_or E ''BACKUP_S3_PREFIX'' ''backups/''"

record s3_config =
  sc_region :: string
  sc_endpoint :: "string option"
  sc_credentials :: "(string \<times> string) option"
  sc_forcePathStyle :: bool

definition buildS3Client :: "env \<Rightarrow> s3_config" where
  "buildS3Client E =
     \<lparr>sc_region = env_or E ''BACKUP_S3_REGION'' ''us-east-1'',
      sc_endpoint = (if truthy_str (E ''BACKUP_S3_ENDPOINT'') then E ''BACKUP_S3_ENDPOINT'' else None),
      sc_credentials = (case E ''AWS_ACCESS_KEY_ID'' of
          None \<Rightarrow> None
        | Some k \<Rightarrow> if k = [] then None else Some (k, env_or E ''AWS_SECRET_ACCESS_KEY'' [])),
      sc_forcePathStyle = truthy_str (E ''BACKUP_S3_ENDPOINT'')\<rparr>"

section \<open>Dump\<close>

text \<open>The exit code of \<open>ChildClose\<close> is \<^const>\<open>None\<close> when a signal ended the process.\<close>

datatype 'b dump_event =
    Chunk "'b list"
  | GzipEnd
  | GzipError string
  | ChildError string
  | ChildClose "int option"

text \<open>The chunks received, and how the promise was settled: only the first time counts.\<close>

type_synonym 'b dump_state = "'b list list \<times> (string + 'b list) option"

definition settle_dump :: "string + 'b list \<Rightarrow> 'b dump_state \<Rightarrow> 'b dump_state" where
  "settle_dump r st = (case st of (chunks, None) \<Rightarrow> (chunks, Some r) | _ \<Rightarrow> st)"

fun dump_step :: "'b dump_event \<Rightarrow> 'b dump_state \<Rightarrow> 'b dump_state" where
  "dump_step (Chunk c) (chunks, out) = (chunks @ [c], out)"
| "dump_step GzipEnd (chunks, out) = settle_dump (Inr (concat chunks)) (chunks, out)"
| "dump_step (GzipError m) st = settle_dump (Inl m) st"
| "dump_step (ChildError m) st = settle_dump (Inl m) st"
| "dump_step (ChildClose code) st =
     (if code = Some 0 then st
      else settle_dump (Inl (''pg_dump exited with code '' @ (case code of None \<Rightarrow> ''null'' | Some n \<Rightarrow> show_int n))) st)"

text \<open>\<^const>\<open>None\<close>: the promise is never settled.\<close>

definition dumpDatabase :: "env \<Rightarrow> 'b dump_event list \<Rightarrow> (string + 'b list) option" where
  "dumpDatabase E events =
     (if \<not> truthy_str (E ''DATABASE_URL'') then Some (Inl ''DATABASE_URL is not set'')
      else snd (fold dump_step events ([], None)))"

section \<open>The object store\<close>

record ('s, 'b) s3_ops =
  s3_put :: "string \<Rightarrow> 'b list \<Rightarrow> time \<Rightarrow> 's \<Rightarrow> 's"
  s3_delete :: "string \<Rightarrow> 's \<Rightarrow> 's"
  s3_list :: "string \<Rightarrow> string option \<Rightarrow> 's \<Rightarrow> (string \<times> time) list \<times> string option"
  s3_look :: "'s \<Rightarrow> string \<Rightarrow> (time \<times> 'b list) option"

text \<open>A listing goes through the keys of a prefix page by page: \<open>after tok k\<close> says that the key \<open>k\<close> is yet to come
  at the token \<open>tok\<close>.\<close>

locale object_store =
  fixes S :: "('s, 'b) s3_ops"
    and after :: "string option \<Rightarrow> string \<Rightarrow> bool"
  assumes look_put: "s3_look S (s3_put S k b t s) = (s3_look S s)(k \<mapsto> (t, b))"
    and look_delete: "s3_look S (s3_delete S k s) = (s3_look S s)(k := None)"
    and finitely_many: "finite (dom (s3_look S s))"
    and after_start: "after None k"
    and page_sound: "s3_list S p tok s = (cs, nxt) \<Longrightarrow> (k, t) \<in> set cs \<Longrightarrow>
      starts_with p k \<and> after tok k \<and> (\<exists>b. s3_look S s k = Some (t, b))"
    and page_complete: "s3_list S p tok s = (cs, nxt) \<Longrightarrow> starts_with p k \<Longrightarrow> after tok k \<Longrightarrow> s3_look S s k = Some (t, b) \<Longrightarrow>
      (case nxt of None \<Rightarrow> (k, t) \<in> set cs | Some u \<Rightarrow> (k, t) \<in> set cs \<and> \<not> after nxt k \<or> (k, t) \<notin> set cs \<and> after nxt k)"
    and page_distinct: "s3_list S p tok s = (cs, nxt) \<Longrightarrow> distinct (map fst cs)"
    and page_progress: "s3_list S p tok s = (cs, Some u) \<Longrightarrow> u \<noteq> [] \<and> cs \<noteq> [] \<and> (\<forall>k. after (Some u) k \<longrightarrow> after tok k)"

section \<open>Upload and retention\<close>

definition no_bucket :: string where
  "no_bucket = ''BACKUP_S3_BUCKET is not set''"

definition uploadBackup ::
  "('s, 'b) s3_ops \<Rightarrow> env \<Rightarrow> string option \<Rightarrow> time \<Rightarrow> string \<Rightarrow> 'b list \<Rightarrow> 's \<Rightarrow> (string + unit) \<times> 's" where
  "uploadBackup S E fault now key body s =
     (if \<not> truthy_str (E ''BACKUP_S3_BUCKET'') then (Inl no_bucket, s)
      else case fault of Some m \<Rightarrow> (Inl m, s) | None \<Rightarrow> (Inr (), s3_put S key body now s))"

text \<open>\<^const>\<open>None\<close> is an invalid date, which no date is before.\<close>

definition valid_date :: "int \<Rightarrow> time option" where
  "valid_date t = (if \<bar>t\<bar> \<le> 8640000000000000 then Some t else None)"

definition backup_cutoff :: "env \<Rightarrow> time \<Rightarrow> time option" where
  "backup_cutoff E now = Option.bind (getRetentionDays E) (\<lambda>days. valid_date (now - days * ms_per_day))"

definition before :: "time \<Rightarrow> time option \<Rightarrow> bool" where
  "before t cutoff = (case cutoff of None \<Rightarrow> False | Some c \<Rightarrow> t < c)"

text \<open>The loop over a page: the number of requests made, the number of objects deleted, the store.\<close>

fun prune_page ::
  "('s, 'b) s3_ops \<Rightarrow> time option \<Rightarrow> (nat \<Rightarrow> string option) \<Rightarrow> (string \<times> time) list \<Rightarrow> nat \<times> nat \<times> 's \<Rightarrow>
   (string + nat \<times> nat) \<times> 's" where
  "prune_page S cutoff rejects [] (n, deleted, s) = (Inr (n, deleted), s)"
| "prune_page S cutoff rejects ((k, t) # os) (n, deleted, s) =
     (if k \<noteq> [] \<and> before t cutoff then
        (case rejects n of
           Some m \<Rightarrow> (Inl m, s)
         | None \<Rightarrow> prune_page S cutoff rejects os (Suc n, Suc deleted, s3_delete S k s))
      else prune_page S cutoff rejects os (n, deleted, s))"

partial_function (option) prune_pages ::
  "('s, 'b) s3_ops \<Rightarrow> string \<Rightarrow> time option \<Rightarrow> (nat \<Rightarrow> string option) \<Rightarrow> string option \<Rightarrow> nat \<times> nat \<times> 's \<Rightarrow>
   ((string + nat) \<times> 's) option" where
  "prune_pages S prefix cutoff rejects tok st =
     (case rejects (fst st) of
        Some m \<Rightarrow> Some (Inl m, snd (snd st))
      | None \<Rightarrow>
          (case s3_list S prefix tok (snd (snd st)) of (contents, nxt) \<Rightarrow>
             (case prune_page S cutoff rejects contents (Suc (fst st), snd st) of
                (Inl m, s) \<Rightarrow> Some (Inl m, s)
              | (Inr (n, deleted), s) \<Rightarrow>
                  if truthy_str nxt then prune_pages S prefix cutoff rejects nxt (n, deleted, s)
                  else Some (Inr deleted, s))))"

declare prune_pages.simps [code]

definition pruneOldBackups ::
  "('s, 'b) s3_ops \<Rightarrow> env \<Rightarrow> (nat \<Rightarrow> string option) \<Rightarrow> time \<Rightarrow> 's \<Rightarrow> ((string + nat) \<times> 's) option" where
  "pruneOldBackups S E rejects now s =
     (if \<not> truthy_str (E ''BACKUP_S3_BUCKET'') then Some (Inl no_bucket, s)
      else prune_pages S (getS3Prefix E) (backup_cutoff E now) rejects None (0, 0, s))"

section \<open>The job\<close>

record backup_result =
  bu_key :: string
  bu_sizeBytes :: nat
  bu_deletedCount :: nat

definition backup_key :: "env \<Rightarrow> time \<Rightarrow> string" where
  "backup_key E now =
     (let timestamp = map (\<lambda>ch. if ch = CHR '':'' \<or> ch = CHR ''.'' then CHR ''-'' else ch) (to_iso_string now);
          date = take 10 (to_iso_string now)
      in getS3Prefix E @ date @ ''/'' @ timestamp @ ''.sql.gz'')"

text \<open>The times at which the job starts, uploads and prunes.\<close>

record backup_times =
  bt_start :: time
  bt_upload :: time
  bt_prune :: time

definition runDbBackupJob ::
  "('s, 'b) s3_ops \<Rightarrow> env \<Rightarrow> backup_times \<Rightarrow> 'b dump_event list \<Rightarrow> string option \<Rightarrow> (nat \<Rightarrow> string option) \<Rightarrow> 's \<Rightarrow>
   ((string + backup_result) \<times> 's) option" where
  "runDbBackupJob S E ts events fault rejects s =
     (let key = backup_key E (bt_start ts)
      in case dumpDatabase E events of
           None \<Rightarrow> None
         | Some (Inl m) \<Rightarrow> Some (Inl m, s)
         | Some (Inr body) \<Rightarrow>
             (case uploadBackup S E fault (bt_upload ts) key body s of
                (Inl m, s1) \<Rightarrow> Some (Inl m, s1)
              | (Inr u, s1) \<Rightarrow>
                  (case pruneOldBackups S E rejects (bt_prune ts) s1 of
                     None \<Rightarrow> None
                   | Some (Inl m, s2) \<Rightarrow> Some (Inl m, s2)
                   | Some (Inr n, s2) \<Rightarrow> Some (Inr \<lparr>bu_key = key, bu_sizeBytes = length body, bu_deletedCount = n\<rparr>, s2))))"

section \<open>Alerts\<close>

definition alert_text :: "time \<Rightarrow> string \<Rightarrow> string" where
  "alert_text now m = ''Database backup failed at '' @ to_iso_string now @ '': '' @ m"

definition alert_mail :: "string \<Rightarrow> string \<Rightarrow> email_options" where
  "alert_mail address message =
     \<lparr>eo_to = address, eo_subject = ''YieldVault: Database Backup Failed'', eo_text = message,
      eo_html = ''<p><strong>Database backup failed</strong></p><p>'' @ message @ ''</p>''\<rparr>"

definition env_text :: "string option \<Rightarrow> string option" where
  "env_text v = (if truthy_str v then v else None)"

text \<open>The body posted to the Slack hook, if any (its outcome is only logged), and the queue of mails.\<close>

definition sendBackupFailureAlert ::
  "'t email_table \<Rightarrow> env \<Rightarrow> bool \<Rightarrow> string \<Rightarrow> time \<Rightarrow> string \<Rightarrow> 't \<Rightarrow> (string \<times> json) option \<times> 't" where
  "sendBackupFailureAlert T E stored uuid now m t =
     (let message = alert_text now m;
          slack = (case env_text (E ''BACKUP_SLACK_WEBHOOK_URL'') of
              None \<Rightarrow> None
            | Some url \<Rightarrow> Some (url, JObj [(''text'', JStr ('':rotating_light: *YieldVault DB Backup Failed*'' @ [CHR 0x0A] @ ''>'' @ message))]))
      in (slack, case env_text (E ''BACKUP_ALERT_EMAIL'') of
            None \<Rightarrow> t
          | Some address \<Rightarrow> snd (sendEmail T stored uuid now (alert_mail address message) t)))"

section \<open>Scheduler\<close>

text \<open>\<^const>\<open>None\<close> is \<open>NaN\<close>: the hour is no number, or too large for a date.\<close>

definition msUntilNextBackupUtc :: "env \<Rightarrow> time \<Rightarrow> int option" where
  "msUntilNextBackupUtc E now =
     Option.bind (js_parse_int (env_or E ''BACKUP_SCHEDULE_HOUR_UTC'' ''2'')) (\<lambda>scheduleHour.
       map_option (\<lambda>slot. (if slot \<le> now then slot + ms_per_day else slot) - now)
         (valid_date (day_start (utc_day now) + scheduleHour * 3600000)))"

text \<open>What \<open>setTimeout\<close> makes of a delay.\<close>

definition timeout_delay :: "int \<Rightarrow> int" where
  "timeout_delay n = (if n < 1 \<or> 2147483647 < n then 1 else n)"

record backup_scheduler =
  bs_timer :: "time option"
  bs_running :: bool

text \<open>The log entry of the next run throws on an invalid date, before the timer is set.\<close>

definition schedule_backup :: "env \<Rightarrow> time \<Rightarrow> backup_scheduler \<Rightarrow> (string + unit) \<times> backup_scheduler" where
  "schedule_backup E now s =
     (case msUntilNextBackupUtc E now of
        None \<Rightarrow> (Inl ''Invalid time value'', s)
      | Some delay \<Rightarrow>
          (case valid_date (now + delay) of
             None \<Rightarrow> (Inl ''Invalid time value'', s)
           | Some nextRun \<Rightarrow> (Inr (), s\<lparr>bs_timer := Some (now + timeout_delay delay)\<rparr>)))"

definition startDbBackupScheduler :: "env \<Rightarrow> time \<Rightarrow> backup_scheduler \<Rightarrow> (string + unit) \<times> backup_scheduler" where
  "startDbBackupScheduler E now s =
     (if E ''BACKUP_ENABLED'' = Some ''false'' then (Inr (), s) else schedule_backup E now s)"

definition backup_timer_fires :: "backup_scheduler \<Rightarrow> backup_scheduler" where
  "backup_timer_fires s = (if bs_timer s = None then s else s\<lparr>bs_running := True\<rparr>)"

text \<open>A run of the job under its retry policy: what it posts and queues when it fails, and the next timer.\<close>

definition backup_run_end ::
  "'t email_table \<Rightarrow> env \<Rightarrow> bool \<Rightarrow> string \<Rightarrow> time \<Rightarrow> time \<Rightarrow> (int \<Rightarrow> string + backup_result) \<Rightarrow> governance \<times> 't \<times> backup_scheduler \<Rightarrow>
   (string \<times> json) option \<times> governance \<times> 't \<times> backup_scheduler" where
  "backup_run_end T E stored uuid startedAt now task st =
     (case st of (g, t, s) \<Rightarrow>
        (case runJobWithRetry startedAt now DatabaseBackup JNull task g of (res, g1) \<Rightarrow>
           let (slack, t1) = (case res of Inl m \<Rightarrow> sendBackupFailureAlert T E stored uuid now m t | Inr _ \<Rightarrow> (None, t))
           in (slack, g1, t1, snd (schedule_backup E now (s\<lparr>bs_running := False\<rparr>)))))"

definition cancel_backup_scheduler :: "backup_scheduler \<Rightarrow> backup_scheduler" where
  "cancel_backup_scheduler s = s\<lparr>bs_timer := None\<rparr>"

section \<open>What pruning removes\<close>

definition outdated :: "time option \<Rightarrow> string \<times> time \<Rightarrow> bool" where
  "outdated cutoff o1 \<longleftrightarrow> fst o1 \<noteq> [] \<and> before (snd o1) cutoff"

context object_store
begin

definition old_keys :: "string \<Rightarrow> time option \<Rightarrow> string option \<Rightarrow> 's \<Rightarrow> string set" where
  "old_keys p cutoff tok s =
     {k. starts_with p k \<and> after tok k \<and> k \<noteq> [] \<and> (\<exists>t b. s3_look S s k = Some (t, b) \<and> before t cutoff)}"

lemma finite_old: "finite (old_keys p cutoff tok s)"
  by (rule finite_subset[OF _ finitely_many[of s]]) (auto simp: old_keys_def)

lemma prune_page_spec:
  "\<exists>n' s'. prune_page S cutoff (\<lambda>_. None) os (n, d, s) = (Inr (n', d + length (filter (outdated cutoff) os)), s')
    \<and> s3_look S s' = (\<lambda>k. if k \<in> fst ` set (filter (outdated cutoff) os) then None else s3_look S s k)"
proof (induction os arbitrary: n d s)
  case (Cons o1 os)
  obtain k t where o1: "o1 = (k, t)" by (cases o1)
  show ?case
  proof (cases "outdated cutoff (k, t)")
    case True
    from Cons[of "Suc n" "Suc d" "s3_delete S k s"] obtain n' s' where
      one: "prune_page S cutoff (\<lambda>_. None) os (Suc n, Suc d, s3_delete S k s) = (Inr (n', Suc d + length (filter (outdated cutoff) os)), s')"
      and two: "s3_look S s' = (\<lambda>j. if j \<in> fst ` set (filter (outdated cutoff) os) then None else s3_look S (s3_delete S k s) j)" by blast
    show ?thesis
    proof (intro exI conjI)
      show "prune_page S cutoff (\<lambda>_. None) (o1 # os) (n, d, s) = (Inr (n', d + length (filter (outdated cutoff) (o1 # os))), s')"
        using True one by (simp add: o1 outdated_def)
      show "s3_look S s' = (\<lambda>k. if k \<in> fst ` set (filter (outdated cutoff) (o1 # os)) then None else s3_look S s k)"
        using True unfolding two look_delete o1 by (auto simp: fun_eq_iff)
    qed
  next
    case False
    with Cons[of n d s] show ?thesis by (auto simp: o1 outdated_def)
  qed
qed simp

lemma page_split:
  assumes "s3_list S p tok s = (cs, nxt)"
    and "s3_look S s' = (\<lambda>k. if k \<in> fst ` set (filter (outdated cutoff) cs) then None else s3_look S s k)"
  shows "nxt = None \<Longrightarrow> old_keys p cutoff tok s = fst ` set (filter (outdated cutoff) cs)"
    and "nxt = Some u \<Longrightarrow> old_keys p cutoff tok s = fst ` set (filter (outdated cutoff) cs) \<union> old_keys p cutoff nxt s'"
    and "nxt = Some u \<Longrightarrow> fst ` set (filter (outdated cutoff) cs) \<inter> old_keys p cutoff nxt s' = {}"
proof -
  let ?D = "fst ` set (filter (outdated cutoff) cs)"
  have D: "?D \<subseteq> old_keys p cutoff tok s"
  proof
    fix k assume "k \<in> ?D"
    then obtain t where t: "(k, t) \<in> set cs" "k \<noteq> []" "before t cutoff" by (auto simp: outdated_def)
    with page_sound[OF assms(1) t(1)] show "k \<in> old_keys p cutoff tok s" by (auto simp: old_keys_def)
  qed
  have in_D: "k \<in> ?D" if "(k, t) \<in> set cs" "k \<noteq> []" "before t cutoff" for k t
    using that by (force simp: outdated_def)
  show "old_keys p cutoff tok s = ?D" if "nxt = None"
  proof (rule subset_antisym[OF _ D], rule subsetI)
    fix k assume "k \<in> old_keys p cutoff tok s"
    then obtain t b where t: "starts_with p k" "after tok k" "k \<noteq> []" "s3_look S s k = Some (t, b)" "before t cutoff"
      by (auto simp: old_keys_def)
    from page_complete[OF assms(1) t(1,2,4)] in_D[of k t] t(3,5) that show "k \<in> ?D" by auto
  qed
  assume u: "nxt = Some u"
  show "?D \<inter> old_keys p cutoff nxt s' = {}" by (auto simp: old_keys_def assms(2))
  have "old_keys p cutoff nxt s' \<subseteq> old_keys p cutoff tok s"
    using page_progress assms(1) u by (auto simp: old_keys_def assms(2) split: if_splits)
  moreover have "k \<in> ?D \<union> old_keys p cutoff nxt s'" if k: "k \<in> old_keys p cutoff tok s" for k
  proof -
    from k obtain t b where t: "starts_with p k" "after tok k" "k \<noteq> []" "s3_look S s k = Some (t, b)" "before t cutoff"
      by (auto simp: old_keys_def)
    from page_complete[OF assms(1) t(1,2,4)] in_D[of k t] t(3,5) show ?thesis
      unfolding u by (auto simp: old_keys_def assms(2) t(1,3,4,5))
  qed
  ultimately show "old_keys p cutoff tok s = ?D \<union> old_keys p cutoff nxt s'" using D by blast
qed

lemma prune_pages_spec:
  "\<exists>s'. prune_pages S p cutoff (\<lambda>_. None) tok (n, d, s) = Some (Inr (d + card (old_keys p cutoff tok s)), s')
    \<and> s3_look S s' = (\<lambda>k. if k \<in> old_keys p cutoff tok s then None else s3_look S s k)"
proof (induction "card {k \<in> dom (s3_look S s). after tok k}" arbitrary: tok n d s rule: less_induct)
  case less
  obtain cs nxt where page: "s3_list S p tok s = (cs, nxt)" by fastforce
  let ?D = "fst ` set (filter (outdated cutoff) cs)"
  have card_D: "card ?D = length (filter (outdated cutoff) cs)"
    using page_distinct[OF page] by (metis distinct_card distinct_map_filter length_map set_map)
  from prune_page_spec[of cutoff cs "Suc n" d s] obtain n' s1 where
    one: "prune_page S cutoff (\<lambda>_. None) cs (Suc n, d, s) = (Inr (n', d + card ?D), s1)"
      "s3_look S s1 = (\<lambda>k. if k \<in> ?D then None else s3_look S s k)"
    unfolding card_D by blast
  show ?case
  proof (cases nxt)
    case None
    then show ?thesis using page_split(1)[OF page one(2)]
      by (subst prune_pages.simps) (simp add: page one truthy_str_def)
  next
    case (Some u)
    note prog = page_progress[OF page[unfolded Some]]
    have "{k \<in> dom (s3_look S s1). after nxt k} \<subset> {k \<in> dom (s3_look S s). after tok k}"
    proof -
      obtain k t where kt: "(k, t) \<in> set cs" using prog by (metis list.set_intros(1) neq_Nil_conv surj_pair)
      from page_sound[OF page kt] obtain b where k: "starts_with p k" "after tok k" "s3_look S s k = Some (t, b)" by blast
      from page_complete[OF page k] kt Some have "\<not> after nxt k" by auto
      moreover have "{k \<in> dom (s3_look S s1). after nxt k} \<subseteq> {k \<in> dom (s3_look S s). after tok k}"
        using prog by (auto simp: one(2) Some dom_def split: if_splits)
      ultimately show ?thesis using k(2,3) by blast
    qed
    then have "card {k \<in> dom (s3_look S s1). after nxt k} < card {k \<in> dom (s3_look S s). after tok k}"
      using finitely_many[of s] by (intro psubset_card_mono) auto
    from less[OF this, of n' "d + card ?D"] obtain s' where rest:
      "prune_pages S p cutoff (\<lambda>_. None) nxt (n', d + card ?D, s1) = Some (Inr (d + card ?D + card (old_keys p cutoff nxt s1)), s')"
      "s3_look S s' = (\<lambda>k. if k \<in> old_keys p cutoff nxt s1 then None else s3_look S s1 k)" by blast
    have "card (old_keys p cutoff tok s) = card ?D + card (old_keys p cutoff nxt s1)"
      unfolding page_split(2)[OF page one(2) Some] by (rule card_Un_disjoint[OF _ finite_old page_split(3)[OF page one(2) Some]]) simp
    moreover have "s3_look S s' = (\<lambda>k. if k \<in> old_keys p cutoff tok s then None else s3_look S s k)"
      unfolding page_split(2)[OF page one(2) Some] rest(2) one(2) by auto
    moreover have "prune_pages S p cutoff (\<lambda>_. None) tok (n, d, s) = prune_pages S p cutoff (\<lambda>_. None) nxt (n', d + card ?D, s1)"
      using prog by (subst prune_pages.simps) (simp add: page one truthy_str_def Some)
    ultimately show ?thesis using rest(1) by (simp add: add.assoc)
  qed
qed

end

section \<open>A store in memory\<close>

text \<open>Objects by key, listed in the order of the keys in pages of \<open>n + 1\<close>; the token ends with the last key of the page.\<close>

type_synonym 'b bucket = "(string \<times> time \<times> 'b list) list"

fun bucket_after :: "string option \<Rightarrow> string \<Rightarrow> bool" where
  "bucket_after (Some (ch # l)) k = (l < k)"
| "bucket_after _ k = True"

definition bucket_keys :: "string \<Rightarrow> string option \<Rightarrow> 'b bucket \<Rightarrow> string list" where
  "bucket_keys p tok s = sort (remdups (filter (\<lambda>k. starts_with p k \<and> bucket_after tok k) (map fst s)))"

definition bucket_list :: "nat \<Rightarrow> string \<Rightarrow> string option \<Rightarrow> 'b bucket \<Rightarrow> (string \<times> time) list \<times> string option" where
  "bucket_list n p tok s =
     (let ks = bucket_keys p tok s; cs = take (Suc n) ks
      in (map (\<lambda>k. (k, fst (the (map_of s k)))) cs, if Suc n < length ks then Some (CHR ''t'' # last cs) else None))"

definition bucket :: "nat \<Rightarrow> ('b bucket, 'b) s3_ops" where
  "bucket n = \<lparr>s3_put = \<lambda>k b t. AList.update k (t, b), s3_delete = AList.delete, s3_list = bucket_list n, s3_look = map_of\<rparr>"

lemma take_below_last:
  assumes "sorted ks" "distinct ks" "Suc n < length ks" "k \<in> set ks"
  shows "k \<in> set (take (Suc n) ks) \<longleftrightarrow> \<not> last (take (Suc n) ks) < (k :: string)"
proof -
  from assms(4) obtain i where i: "i < length ks" "ks ! i = k" by (auto simp: in_set_conv_nth)
  have "sorted_wrt (<) ks" using assms(1,2) by (simp add: strict_sorted_iff)
  then have "n < i \<longleftrightarrow> ks ! n < ks ! i"
    using assms(3) i(1) sorted_wrt_nth_less[of "(<)" ks] by (metis linorder_neqE_nat order_less_asym order_less_irrefl Suc_lessD)
  moreover have "last (take (Suc n) ks) = ks ! n"
    using assms(3) by (simp add: take_Suc_conv_app_nth)
  moreover have "k \<in> set (take (Suc n) ks) \<longleftrightarrow> i < Suc n"
    using i assms(2,3) by (force simp: in_set_conv_nth nth_eq_iff_index_eq)
  ultimately show ?thesis using i(2) by auto
qed

lemma bucket_keys_facts:
  "sorted (bucket_keys p tok s)" "distinct (bucket_keys p tok s)"
  "set (bucket_keys p tok s) = {k \<in> fst ` set s. starts_with p k \<and> bucket_after tok k}"
  by (auto simp: bucket_keys_def)

lemma bucket_list_fst:
  "bucket_list n p tok s = (cs, nxt) \<Longrightarrow> map fst cs = take (Suc n) (bucket_keys p tok s)"
  by (auto simp: bucket_list_def Let_def comp_def)

lemma bucket_list_mem:
  "bucket_list n p tok s = (cs, nxt) \<Longrightarrow> (k, t) \<in> set cs \<longleftrightarrow>
     k \<in> set (take (Suc n) (bucket_keys p tok s)) \<and> t = fst (the (map_of s k))"
  by (auto simp: bucket_list_def Let_def)

lemma bucket_list_next:
  "bucket_list n p tok s = (cs, nxt) \<Longrightarrow> nxt =
     (if Suc n < length (bucket_keys p tok s) then Some (CHR ''t'' # last (take (Suc n) (bucket_keys p tok s))) else None)"
  by (auto simp: bucket_list_def Let_def)

interpretation s3: object_store "bucket n" bucket_after for n
proof (unfold_locales, goal_cases)
  case (5 p tok s cs nxt k t)
  then have "k \<in> set (bucket_keys p tok s)" "t = fst (the (map_of s k))"
    using bucket_list_mem[of n p tok s cs nxt k t] by (auto simp: bucket_def dest: in_set_takeD)
  then show ?case by (auto simp: bucket_keys_facts bucket_def image_iff map_of_eq_None_iff dest!: weak_map_of_SomeI)
next
  case (6 p tok s cs nxt k t b)
  then have page: "bucket_list n p tok s = (cs, nxt)" and k: "map_of s k = Some (t, b)" by (simp_all add: bucket_def)
  then have mem: "k \<in> set (bucket_keys p tok s)"
    using 6 by (force simp: bucket_keys_facts dest: map_of_SomeD)
  have iff: "(k, t) \<in> set cs \<longleftrightarrow> k \<in> set (take (Suc n) (bucket_keys p tok s))"
    using bucket_list_mem[OF page, of k t] k by simp
  show ?case
  proof (cases "Suc n < length (bucket_keys p tok s)")
    case True
    with take_below_last[OF bucket_keys_facts(1,2) True mem] show ?thesis
      by (auto simp: iff bucket_list_next[OF page])
  next
    case False
    then show ?thesis using mem by (simp add: iff bucket_list_next[OF page])
  qed
next
  case (7 p tok s cs nxt)
  then show ?case by (simp add: bucket_def bucket_list_fst bucket_keys_facts)
next
  case (8 p tok s cs u)
  then have page: "bucket_list n p tok s = (cs, Some u)" by (simp add: bucket_def)
  let ?ks = "bucket_keys p tok s"
  from bucket_list_next[OF page] have len: "Suc n < length ?ks" and u: "u = CHR ''t'' # last (take (Suc n) ?ks)"
    by (auto split: if_splits)
  have "take (Suc n) ?ks \<noteq> []" using len by auto
  then have "last (take (Suc n) ?ks) \<in> set ?ks" by (meson in_set_takeD last_in_set)
  then have "bucket_after tok (last (take (Suc n) ?ks))" by (simp add: bucket_keys_facts)
  then have "\<forall>k. bucket_after (Some u) k \<longrightarrow> bucket_after tok k"
    unfolding u by (cases tok rule: option.exhaust; cases "the tok") (auto elim: less_trans)
  moreover have "cs \<noteq> []" using bucket_list_fst[OF page] \<open>take (Suc n) ?ks \<noteq> []\<close> by auto
  ultimately show ?case using u by simp
qed (auto simp: bucket_def update_conv' delete_conv' finite_dom_map_of)

section \<open>A whole run\<close>

definition expired :: "env \<Rightarrow> time option \<Rightarrow> string \<Rightarrow> (time \<times> 'b list) option \<Rightarrow> bool" where
  "expired E cutoff k object1 \<longleftrightarrow>
     starts_with (getS3Prefix E) k \<and> k \<noteq> [] \<and> (case object1 of None \<Rightarrow> False | Some (t, b) \<Rightarrow> before t cutoff)"

lemma backup_key_nonempty: "backup_key E t \<noteq> []"
  by (simp add: backup_key_def Let_def)

lemma backup_run:
  assumes store: "object_store S after"
    and bucket: "truthy_str (E ''BACKUP_S3_BUCKET'')"
    and dump: "dumpDatabase E events = Some (Inr body)"
    and look: "look = (s3_look S s)(backup_key E (bt_start ts) \<mapsto> (bt_upload ts, body))"
    and old: "old = {k. expired E (backup_cutoff E (bt_prune ts)) k (look k)}"
  shows "\<exists>s'. runDbBackupJob S E ts events None (\<lambda>_. None) s =
      Some (Inr \<lparr>bu_key = backup_key E (bt_start ts), bu_sizeBytes = length body, bu_deletedCount = card old\<rparr>, s')
    \<and> s3_look S s' = (\<lambda>k. if k \<in> old then None else look k)"
proof -
  define s1 where "s1 = s3_put S (backup_key E (bt_start ts)) body (bt_upload ts) s"
  have look1: "s3_look S s1 = look" by (simp add: s1_def object_store.look_put[OF store] look)
  have old1: "object_store.old_keys S after (getS3Prefix E) (backup_cutoff E (bt_prune ts)) None s1 = old"
    unfolding object_store.old_keys_def[OF store] look1 old expired_def
    by (auto simp: object_store.after_start[OF store] split: option.splits)
  from object_store.prune_pages_spec[OF store, of "getS3Prefix E" "backup_cutoff E (bt_prune ts)" None 0 0 s1,
      unfolded old1 look1 add_0] obtain s' where
    "prune_pages S (getS3Prefix E) (backup_cutoff E (bt_prune ts)) (\<lambda>_. None) None (0, 0, s1) = Some (Inr (card old), s')"
    "s3_look S s' = (\<lambda>k. if k \<in> old then None else look k)" by blast
  then show ?thesis
    by (intro exI[of _ s']) (simp add: runDbBackupJob_def dump uploadBackup_def bucket pruneOldBackups_def Let_def flip: s1_def)
qed

text \<open>C24.  A run whose dump ends well and whose requests to the object store succeed stores the dump under its key and then
  deletes, through all the pages of the listing, exactly the objects under the prefix that were last modified before the
  cutoff; it reports how many.  The new backup is never one of them when the cutoff is not after the upload.\<close>

theorem backup_retention:
  assumes "object_store S after" and "truthy_str (E ''BACKUP_S3_BUCKET'')" and "dumpDatabase E events = Some (Inr body)"
    and "backup_cutoff E (bt_prune ts) = Some c" and "c \<le> bt_upload ts"
  shows "\<exists>s'. runDbBackupJob S E ts events None (\<lambda>_. None) s =
      Some (Inr \<lparr>bu_key = backup_key E (bt_start ts), bu_sizeBytes = length body,
        bu_deletedCount = card {k. k \<noteq> backup_key E (bt_start ts) \<and> expired E (Some c) k (s3_look S s k)}\<rparr>, s')
    \<and> s3_look S s' (backup_key E (bt_start ts)) = Some (bt_upload ts, body)
    \<and> (\<forall>k. k \<noteq> backup_key E (bt_start ts) \<longrightarrow>
        s3_look S s' k = (if expired E (Some c) k (s3_look S s k) then None else s3_look S s k))"
proof -
  let ?key = "backup_key E (bt_start ts)"
  define old where "old = {k. expired E (backup_cutoff E (bt_prune ts)) k (((s3_look S s)(?key \<mapsto> (bt_upload ts, body))) k)}"
  have old_eq: "old = {k. k \<noteq> ?key \<and> expired E (Some c) k (s3_look S s k)}"
    using assms(4,5) by (auto simp: old_def expired_def before_def)
  from backup_run[OF assms(1,2,3) refl old_def] obtain s' where
    run: "runDbBackupJob S E ts events None (\<lambda>_. None) s =
      Some (Inr \<lparr>bu_key = ?key, bu_sizeBytes = length body, bu_deletedCount = card old\<rparr>, s')"
    and look: "s3_look S s' = (\<lambda>k. if k \<in> old then None else ((s3_look S s)(?key \<mapsto> (bt_upload ts, body))) k)" by blast
  show ?thesis
  proof (intro exI conjI allI impI)
    show "s3_look S s' k = (if expired E (Some c) k (s3_look S s k) then None else s3_look S s k)" if "k \<noteq> ?key" for k
      using that by (simp add: look old_eq)
  qed (simp_all only: run look, simp_all add: old_eq)
qed

definition backup_env :: env where
  "backup_env = (\<lambda>_. None)(''DATABASE_URL'' \<mapsto> ''postgres://db'', ''BACKUP_S3_BUCKET'' \<mapsto> ''vault'')"

definition old_objects :: "nat bucket" where
  "old_objects = [(''backups/a'', 1000, [1]), (''backups/b'', 4000000000, [2]), (''logs/a'', 1000, [3]), (''backups/c'', 2000, [4])]"

lemma expired_old_objects:
  "expired backup_env (Some 2408000200) k (map_of old_objects k) \<longleftrightarrow> k = ''backups/a'' \<or> k = ''backups/c''"
proof -
  have "getS3Prefix backup_env = ''backups/''" by code_simp
  then show ?thesis by (simp add: expired_def before_def old_objects_def)
qed

lemma backup_retention_witness:
  "\<exists>s'. runDbBackupJob (bucket 0) backup_env \<lparr>bt_start = 5000000000, bt_upload = 5000000100, bt_prune = 5000000200\<rparr>
      [Chunk [7, 8], Chunk [9], GzipEnd, ChildClose (Some 0)] None (\<lambda>_. None) old_objects =
      Some (Inr \<lparr>bu_key = ''backups/1970-02-27/1970-02-27T20-53-20-000Z.sql.gz'', bu_sizeBytes = 3, bu_deletedCount = 2\<rparr>, s')
    \<and> s3_look (bucket 0) s' ''backups/a'' = None \<and> s3_look (bucket 0) s' ''logs/a'' = Some (1000, [3 :: nat])"
proof -
  let ?ts = "\<lparr>bt_start = 5000000000, bt_upload = 5000000100, bt_prune = 5000000200\<rparr>"
  have key: "backup_key backup_env 5000000000 = ''backups/1970-02-27/1970-02-27T20-53-20-000Z.sql.gz''" by code_simp
  have look: "s3_look (bucket 0) old_objects = map_of old_objects" by (simp add: bucket_def)
  have env: "truthy_str (backup_env ''BACKUP_S3_BUCKET'')" "backup_cutoff backup_env 5000000200 = Some 2408000200" by code_simp+
  have dump: "dumpDatabase backup_env [Chunk [7, 8], Chunk [9], GzipEnd, ChildClose (Some 0)] = Some (Inr [7, 8, 9 :: nat])"
    by code_simp
  have two: "card {k. k \<noteq> ''backups/1970-02-27/1970-02-27T20-53-20-000Z.sql.gz'' \<and> (k = ''backups/a'' \<or> k = ''backups/c'')} = 2"
  proof -
    have "{k. k \<noteq> ''backups/1970-02-27/1970-02-27T20-53-20-000Z.sql.gz'' \<and> (k = ''backups/a'' \<or> k = ''backups/c'')} =
      {''backups/a'', ''backups/c''}" by auto
    then show ?thesis by simp
  qed
  from backup_retention[where S = "bucket 0" and E = backup_env and ts = ?ts and s = old_objects and c = 2408000200,
      OF s3.object_store_axioms env(1) dump] env(2)
  obtain s' where s': "runDbBackupJob (bucket 0) backup_env ?ts [Chunk [7, 8], Chunk [9], GzipEnd, ChildClose (Some 0)] None (\<lambda>_. None) old_objects =
      Some (Inr \<lparr>bu_key = ''backups/1970-02-27/1970-02-27T20-53-20-000Z.sql.gz'', bu_sizeBytes = 3, bu_deletedCount = 2\<rparr>, s')"
    and keep: "\<And>k. k \<noteq> ''backups/1970-02-27/1970-02-27T20-53-20-000Z.sql.gz'' \<Longrightarrow>
      s3_look (bucket 0) s' k = (if k = ''backups/a'' \<or> k = ''backups/c'' then None else map_of old_objects k)"
    by (auto simp: key look expired_old_objects two)
  show ?thesis
    by (intro exI conjI, rule s') (simp_all add: keep, simp add: old_objects_def)
qed

section \<open>What can go wrong\<close>

text \<open>The compressor may end before the exit code of a failed \<open>pg_dump\<close> is known: what it got is stored as a backup.\<close>

lemma truncated_dump_accepted:
  "E ''DATABASE_URL'' = Some (ch # cs) \<Longrightarrow> code \<noteq> Some 0 \<Longrightarrow>
     dumpDatabase E [Chunk part, GzipEnd, ChildClose code] = Some (Inr part)"
  by (simp add: dumpDatabase_def truthy_str_def settle_dump_def)

lemma failed_dump_rejected:
  "E ''DATABASE_URL'' = Some (ch # cs) \<Longrightarrow> code \<noteq> Some 0 \<Longrightarrow>
     \<exists>m. dumpDatabase E [Chunk part, ChildClose code, GzipEnd] = Some (Inl m)"
  by (simp add: dumpDatabase_def truthy_str_def settle_dump_def)

text \<open>With no retention the job deletes the backup it has just made.\<close>

lemma zero_retention:
  assumes "object_store S after" "truthy_str (E ''BACKUP_S3_BUCKET'')" "dumpDatabase E events = Some (Inr body)"
    and "backup_cutoff E (bt_prune ts) = Some c" "bt_upload ts < c"
  shows "\<exists>r s'. runDbBackupJob S E ts events None (\<lambda>_. None) s = Some (Inr r, s') \<and> s3_look S s' (bu_key r) = None"
proof -
  have "starts_with (getS3Prefix E) (backup_key E (bt_start ts))"
    by (simp add: backup_key_def Let_def starts_with_append)
  with backup_run[OF assms(1,2,3) refl refl, where s = s and ts = ts] show ?thesis
    using assms(4,5) backup_key_nonempty[of E "bt_start ts"] by (auto simp: expired_def before_def)
qed

lemma next_backup_within_a_day:
  assumes "js_parse_int (env_or E ''BACKUP_SCHEDULE_HOUR_UTC'' ''2'') = Some h" "0 \<le> h" "h < 24"
    and "msUntilNextBackupUtc E now = Some d"
  shows "0 < d \<and> d \<le> ms_per_day \<and> (now + d) mod ms_per_day = h * 3600000"
proof -
  let ?D = "day_start (utc_day now)"
  have slot: "(?D + h * 3600000) mod ms_per_day = h * 3600000" "(?D + h * 3600000 + ms_per_day) mod ms_per_day = h * 3600000"
    using assms(2,3) by (simp_all add: day_start_def ms_per_day_def)
  have "d = ?D + h * 3600000 - now \<or> d = ?D + h * 3600000 + ms_per_day - now \<and> ?D + h * 3600000 \<le> now"
    "?D + h * 3600000 \<le> now \<longrightarrow> d = ?D + h * 3600000 + ms_per_day - now"
    using assms(1,4) by (auto simp: msUntilNextBackupUtc_def valid_date_def split: if_splits)
  moreover have "?D \<le> now" "now < ?D + ms_per_day"
    using day_start_le[of now] lt_next_day_start[of now] by (simp_all add: day_start_def algebra_simps)
  ultimately show ?thesis using assms(2,3) slot by (auto simp: ms_per_day_def)
qed

lemma hour_must_be_a_number:
  "js_parse_int (env_or E ''BACKUP_SCHEDULE_HOUR_UTC'' ''2'') = None \<Longrightarrow> E ''BACKUP_ENABLED'' \<noteq> Some ''false'' \<Longrightarrow>
     startDbBackupScheduler E now s = (Inl ''Invalid time value'', s)"
  by (simp add: startDbBackupScheduler_def schedule_backup_def msUntilNextBackupUtc_def)

end
