(* ===== verification/Lifecycle.thy ===== *)
theory Lifecycle
  imports DbBackup DatabasePool CircuitBreaker
begin

text \<open>
  The life of the server process: the graceful shutdown (\<open>backend/src/gracefulShutdown.ts\<close>) as steps over the open
  connections and the drain timers, the health and readiness probes, the last two handlers of \<open>backend/src/index.ts\<close>,
  and the two middlewares every request passes (\<open>middleware/cors.ts\<close>, \<open>middleware/correlationId.ts\<close>).
  \<open>rx p o\<close> is whether the regular expression \<open>p\<close> matches \<open>o\<close>, and \<^const>\<open>None\<close> when \<open>p\<close> does not compile.
\<close>

section \<open>Origins\<close>

datatype cors_origin = Literal string | Pattern string

definition localhost_pattern :: string where
  "localhost_pattern = ''http:'' @ [CHR 0x5C] @ ''/'' @ [CHR 0x5C] @ ''/localhost:'' @ [CHR 0x5C] @ ''d+''"

definition ends_with_slash :: "string \<Rightarrow> bool" where
  "ends_with_slash s \<longleftrightarrow> s \<noteq> [] \<and> last s = CHR ''/''"

definition parse_origin :: "string \<Rightarrow> cors_origin" where
  "parse_origin origin =
     (let trimmed = js_trim origin
      in if starts_with ''/'' trimmed \<and> ends_with_slash trimmed
         then Pattern (take (length trimmed - 2) (drop 1 trimmed)) else Literal trimmed)"

definition getCORSOrigins :: "env \<Rightarrow> cors_origin list" where
  "getCORSOrigins E =
     (if \<not> truthy_str (E ''CORS_ALLOWED_ORIGINS'')
      then (if E ''NODE_ENV'' \<noteq> Some ''production'' then [Pattern localhost_pattern] else [])
      else map parse_origin (js_split (CHR '','') (the (E ''CORS_ALLOWED_ORIGINS''))))"

text \<open>Building the list throws on a pattern that does not compile, before the origin is looked at.\<close>

definition compiles :: "(string \<Rightarrow> string \<Rightarrow> bool option) \<Rightarrow> cors_origin \<Rightarrow> bool" where
  "compiles rx a = (case a of Literal s \<Rightarrow> True | Pattern p \<Rightarrow> rx p [] \<noteq> None)"

definition origin_matches :: "(string \<Rightarrow> string \<Rightarrow> bool option) \<Rightarrow> string \<Rightarrow> cors_origin \<Rightarrow> bool" where
  "origin_matches rx origin a = (case a of Literal s \<Rightarrow> s = origin | Pattern p \<Rightarrow> rx p origin = Some True)"

datatype cors_decision = Allowed | Blocked | Throws

definition cors_origin_check :: "(string \<Rightarrow> string \<Rightarrow> bool option) \<Rightarrow> env \<Rightarrow> string option \<Rightarrow> cors_decision" where
  "cors_origin_check rx E origin =
     (let allowedOrigins = getCORSOrigins E
      in if \<not> list_all (compiles rx) allowedOrigins then Throws
         else case origin of
           None \<Rightarrow> Allowed
         | Some u \<Rightarrow> if u = [] \<or> list_ex (origin_matches rx u) allowedOrigins then Allowed else Blocked)"

text \<open>\<^const>\<open>None\<close>: the request goes on.  What the package adds to the response is its own.\<close>

definition corsMiddleware :: "(string \<Rightarrow> string \<Rightarrow> bool option) \<Rightarrow> env \<Rightarrow> request \<Rightarrow> (string + response option)" where
  "corsMiddleware rx E req =
     (case cors_origin_check rx E (rq_headers req ''origin'') of
        Throws \<Rightarrow> Inl ''Invalid regular expression''
      | Allowed \<Rightarrow> Inr None
      | Blocked \<Rightarrow> Inr (Some (send_error ''Forbidden'' 403 ''CORS policy: This origin is not allowed access.'')))"

section \<open>Correlation identifiers\<close>

text \<open>The identifier of the request, which is also the header of the response.\<close>

definition correlationIdMiddleware :: "string \<Rightarrow> request \<Rightarrow> string" where
  "correlationIdMiddleware uuid req =
     (case rq_headers req ''x-correlation-id'' of None \<Rightarrow> uuid | Some c \<Rightarrow> if c = [] then uuid else c)"

section \<open>The last handlers\<close>

definition errorHandler :: "string \<Rightarrow> string \<Rightarrow> string option \<Rightarrow> response" where
  "errorHandler nodeEnv message correlationId =
     send_json 500 (JObj (error_body ''Internal Server Error'' 500
       (if nodeEnv = ''production'' then ''An unexpected error occurred'' else message) @
       opt_prop ''correlationId'' (map_option JStr correlationId)))"

definition not_found_handler :: "request \<Rightarrow> response" where
  "not_found_handler req =
     send_json 404 (JObj [(''error'', JStr ''Not Found''), (''status'', jint 404), (''path'', JStr (rq_path req)),
       (''message'', JStr (rq_method req @ '' '' @ rq_path req @ '' not found''))])"

section \<open>Probes\<close>

text \<open>The cache is the package \<open>node-cache\<close>: what it gives back for the key just set, \<^const>\<open>None\<close> when a call throws.\<close>

definition getCacheHealth :: "bool option \<Rightarrow> string" where
  "getCacheHealth value = (if value = Some True then ''up'' else ''down'')"

definition checkCacheDependency :: "bool option \<Rightarrow> bool" where
  "checkCacheDependency value \<longleftrightarrow> getCacheHealth value = ''up''"

definition getPrismaHealth :: "(string + unit) \<Rightarrow> string" where
  "getPrismaHealth answer = (case answer of Inl m \<Rightarrow> ''down'' | Inr u \<Rightarrow> ''up'')"

definition getStellarRpcHealth :: "env \<Rightarrow> string" where
  "getStellarRpcHealth E = (if truthy_str (E ''STELLAR_RPC_URL'') then ''up'' else ''down'')"

definition checkStellarRpcDependency :: "env \<Rightarrow> bool" where
  "checkStellarRpcDependency E \<longleftrightarrow> getStellarRpcHealth E = ''up''"

definition show_circuit :: "circuit_state \<Rightarrow> string" where
  "show_circuit c = (case c of CLOSED \<Rightarrow> ''CLOSED'' | OPEN \<Rightarrow> ''OPEN'' | HALF_OPEN \<Rightarrow> ''HALF_OPEN'')"

definition health_checks :: "env \<Rightarrow> bool option \<Rightarrow> string \<times> string \<Rightarrow> (string + unit) \<Rightarrow> governance \<Rightarrow> (string \<times> string) list" where
  "health_checks E value dbHealth answer g =
     [(''api'', ''up''), (''cache'', getCacheHealth value), (''stellarRpc'', getStellarRpcHealth E),
      (''databasePrimary'', fst dbHealth), (''databaseReplica'', snd dbHealth), (''prisma'', getPrismaHealth answer),
      (''jobs'', getJobHealthStatus g)]"

definition get_health ::
  "circuit_config \<Rightarrow> env \<Rightarrow> string \<Rightarrow> time \<Rightarrow> rat \<Rightarrow> bool option \<Rightarrow> string \<times> string \<Rightarrow> (string + unit) \<Rightarrow> governance \<Rightarrow> circuit_breaker \<Rightarrow>
   response \<times> circuit_breaker" where
  "get_health cfg E nodeEnv now uptime value dbHealth answer g b =
     (let (circuitSnapshot, b1) = toHealthSnapshot cfg now b;
          checks = health_checks E value dbHealth answer g;
          allHealthy = list_all (\<lambda>(k, v). v = ''up'') checks
      in (send_json (if allHealthy then 200 else 503) (JObj
           [(''status'', JStr ''healthy''), (''timestamp'', JStr (to_iso_string now)), (''uptime'', JNum uptime),
            (''environment'', JStr nodeEnv), (''checks'', JObj (map (\<lambda>(k, v). (k, JStr v)) checks)),
            (''sorobanCircuitBreaker'', JObj [(''state'', JStr (show_circuit (snap_state circuitSnapshot))),
               (''failures'', jint (snap_failures circuitSnapshot)), (''retryAfterMs'', jint (snap_retryAfterMs circuitSnapshot))])]), b1))"

definition get_ready :: "env \<Rightarrow> time \<Rightarrow> bool option \<Rightarrow> string \<times> string \<Rightarrow> (string + unit) \<Rightarrow> response" where
  "get_ready E now value dbHealth answer =
     (let deps = [(''cache'', checkCacheDependency value), (''stellarRpc'', checkStellarRpcDependency E),
            (''database'', fst dbHealth = ''up''), (''prisma'', getPrismaHealth answer = ''up'')];
          isReady = list_all snd deps
      in send_json (if isReady then 200 else 503) (JObj
           [(''ready'', JBool isReady), (''timestamp'', JStr (to_iso_string now)),
            (''dependencies'', JObj (map (\<lambda>(k, v). (k, JBool v)) deps))]))"

section \<open>Graceful shutdown\<close>

text \<open>\<open>sh_deadlines\<close>: when the drain timers of the runs in progress fire.  \<open>sh_cleaning\<close>: the runs whose cleanup tasks
  are not all settled.  \<open>sh_closing\<close>: \<open>server.close\<close> has been called.\<close>

record shutdown_state =
  sh_drainTimeout :: "int option"
  sh_activeConnections :: "nat set"
  sh_listening :: bool
  sh_cleaning :: nat
  sh_closing :: bool
  sh_deadlines :: "time list"
  sh_exit :: "int option"

definition registered :: "int option \<Rightarrow> shutdown_state" where
  "registered drainTimeoutMs =
     \<lparr>sh_drainTimeout = drainTimeoutMs, sh_activeConnections = {}, sh_listening = True, sh_cleaning = 0,
      sh_closing = False, sh_deadlines = [], sh_exit = None\<rparr>"

definition drain_delay :: "int option \<Rightarrow> int" where
  "drain_delay d = (case d of None \<Rightarrow> 1 | Some n \<Rightarrow> timeout_delay n)"

text \<open>The server has closed when it takes no connection and the last one has ended.\<close>

definition close_if_drained :: "shutdown_state \<Rightarrow> shutdown_state" where
  "close_if_drained s =
     (if sh_closing s \<and> sh_activeConnections s = {} then s\<lparr>sh_deadlines := [], sh_exit := Some 0\<rparr> else s)"

datatype shutdown_event = Connect nat | Disconnect nat | Stop_signal | Cleanup_done | Drain_timer

fun shutdown_step :: "time \<Rightarrow> shutdown_event \<Rightarrow> shutdown_state \<Rightarrow> shutdown_state" where
  "shutdown_step now (Connect socket) s =
     (if sh_listening s then s\<lparr>sh_activeConnections := insert socket (sh_activeConnections s)\<rparr> else s)"
| "shutdown_step now (Disconnect socket) s =
     close_if_drained (s\<lparr>sh_activeConnections := sh_activeConnections s - {socket}\<rparr>)"
| "shutdown_step now Stop_signal s =
     s\<lparr>sh_cleaning := Suc (sh_cleaning s), sh_deadlines := sh_deadlines s @ [now + drain_delay (sh_drainTimeout s)]\<rparr>"
| "shutdown_step now Cleanup_done s =
     (case sh_cleaning s of
        0 \<Rightarrow> s
      | Suc n \<Rightarrow> close_if_drained (s\<lparr>sh_cleaning := n, sh_listening := False, sh_closing := True\<rparr>))"
| "shutdown_step now Drain_timer s =
     (if list_ex (\<lambda>t. t \<le> now) (sh_deadlines s) then s\<lparr>sh_activeConnections := {}, sh_exit := Some 1\<rparr> else s)"

fun shutdown_run :: "(time \<times> shutdown_event) list \<Rightarrow> shutdown_state \<Rightarrow> shutdown_state" where
  "shutdown_run [] s = s"
| "shutdown_run ((now, e) # es) s = (if sh_exit s \<noteq> None then s else shutdown_run es (shutdown_step now e s))"

definition shutdown_inv :: "(time \<times> shutdown_event) list \<Rightarrow> shutdown_state \<Rightarrow> bool" where
  "shutdown_inv past s \<longleftrightarrow>
     (sh_exit s = None \<longrightarrow> sh_deadlines s = map (\<lambda>(t, e). t + drain_delay (sh_drainTimeout s)) (filter (\<lambda>(t, e). e = Stop_signal) past))
   \<and> (sh_closing s \<longrightarrow> \<not> sh_listening s)
   \<and> (sh_closing s \<or> sh_cleaning s \<noteq> 0 \<longrightarrow> (\<exists>t. (t, Stop_signal) \<in> set past))
   \<and> (sh_closing s \<and> sh_exit s = None \<longrightarrow> sh_activeConnections s \<noteq> {})
   \<and> (sh_exit s \<noteq> None \<longrightarrow> sh_activeConnections s = {} \<and>
        (sh_exit s = Some 0 \<and> sh_closing s \<or>
         sh_exit s = Some 1 \<and> (\<exists>t u e. (t, Stop_signal) \<in> set past \<and> (u, e) \<in> set past \<and> t + drain_delay (sh_drainTimeout s) \<le> u)))"

lemma shutdown_step_inv:
  assumes "shutdown_inv past s" "sh_exit s = None"
  shows "shutdown_inv (past @ [(now, e)]) (shutdown_step now e s)"
  using assms
  by (cases e) (auto simp: shutdown_inv_def close_if_drained_def list_ex_iff split: nat.splits if_splits)

lemma shutdown_step_timeout: "sh_drainTimeout (shutdown_step now e s) = sh_drainTimeout s"
  by (cases e) (auto simp: close_if_drained_def split: nat.splits)

lemma shutdown_run_inv:
  "shutdown_inv past s \<Longrightarrow> \<exists>past1. (\<exists>rest. es = past1 @ rest) \<and> shutdown_inv (past @ past1) (shutdown_run es s)
     \<and> (sh_exit (shutdown_run es s) = None \<longrightarrow> past1 = es)"
proof (induction es arbitrary: past s)
  case (Cons e1 es)
  obtain now e where e1: "e1 = (now, e)" by (cases e1)
  show ?case
  proof (cases "sh_exit s = None")
    case True
    from Cons.IH[OF shutdown_step_inv[OF Cons.prems True, of now e]] obtain past1 rest where
      "es = past1 @ rest" "shutdown_inv (past @ (now, e) # past1) (shutdown_run es (shutdown_step now e s))"
      "sh_exit (shutdown_run es (shutdown_step now e s)) = None \<longrightarrow> past1 = es" by auto
    then show ?thesis by (intro exI[of _ "(now, e) # past1"]) (auto simp: e1 True)
  next
    case False
    then show ?thesis using Cons.prems by (intro exI[of _ "[]"]) (auto simp: e1)
  qed
qed simp

lemma shutdown_run_stopped [simp]: "sh_exit s \<noteq> None \<Longrightarrow> shutdown_run es s = s"
  by (cases es) auto

lemma shutdown_run_append: "shutdown_run (a @ b) s = shutdown_run b (shutdown_run a s)"
  by (induction a s rule: shutdown_run.induct) auto

lemma registered_inv: "shutdown_inv [] (registered d)"
  by (simp add: shutdown_inv_def registered_def)

lemma shutdown_run_timeout: "sh_drainTimeout (shutdown_run es s) = sh_drainTimeout s"
  by (induction es s rule: shutdown_run.induct) (auto simp: shutdown_step_timeout)

lemma shutdown_stops:
  assumes "t + drain_delay d \<le> u"
  shows "sh_exit (shutdown_run (a @ (t, Stop_signal) # b @ (u, Drain_timer) # c) (registered d)) \<noteq> None"
proof -
  define m where "m = shutdown_run (a @ (t, Stop_signal) # b) (registered d)"
  have all: "shutdown_run (a @ (t, Stop_signal) # b @ (u, Drain_timer) # c) (registered d) = shutdown_run ((u, Drain_timer) # c) m"
    by (simp add: m_def flip: shutdown_run_append)
  show ?thesis
  proof (cases "sh_exit m")
    case None
    from shutdown_run_inv[OF registered_inv, of "a @ (t, Stop_signal) # b" d] None have
      "shutdown_inv (a @ (t, Stop_signal) # b) m" by (auto simp flip: m_def)
    then have "t + drain_delay (sh_drainTimeout m) \<in> set (sh_deadlines m)" using None by (auto simp: shutdown_inv_def)
    then have "list_ex (\<lambda>t. t \<le> u) (sh_deadlines m)"
      using assms by (auto simp: list_ex_iff m_def shutdown_run_timeout registered_def intro!: bexI)
    then show ?thesis unfolding all by (simp add: None)
  qed (simp add: all)
qed

text \<open>C25.  Once a stop signal has been received and the drain timer it started is due, the process has exited, whatever
  connections, cleanup tasks and further signals came in between, and no connection is left open: with code 0 when
  the cleanup was over and every connection had ended by itself, with code 1 only when the drain time of some signal had passed.\<close>

theorem shutdown_settles:
  assumes "t + drain_delay d \<le> u"
    and "s = shutdown_run (a @ (t, Stop_signal) # b @ (u, Drain_timer) # c) (registered d)"
  shows "sh_activeConnections s = {} \<and>
    (sh_exit s = Some 0 \<and> \<not> sh_listening s
     \<or> sh_exit s = Some 1 \<and> (\<exists>t1 u1 e. (t1, Stop_signal) \<in> set (a @ (t, Stop_signal) # b @ (u, Drain_timer) # c) \<and>
         (u1, e) \<in> set (a @ (t, Stop_signal) # b @ (u, Drain_timer) # c) \<and> t1 + drain_delay d \<le> u1))"
proof -
  let ?es = "a @ (t, Stop_signal) # b @ (u, Drain_timer) # c"
  from shutdown_run_inv[OF registered_inv, of ?es d] obtain past1 rest where
    es: "?es = past1 @ rest" and p: "shutdown_inv past1 s" unfolding assms(2) append_Nil by blast
  have "set past1 \<subseteq> set ?es" unfolding es by simp
  note p = this p
  have "sh_exit s \<noteq> None" using shutdown_stops[OF assms(1)] by (simp add: assms(2))
  moreover have "sh_drainTimeout s = d" by (simp add: assms(2) shutdown_run_timeout registered_def)
  ultimately have inv: "sh_activeConnections s = {}" "sh_closing s \<longrightarrow> \<not> sh_listening s"
    "sh_exit s = Some 0 \<and> sh_closing s \<or> sh_exit s = Some 1 \<and>
      (\<exists>t u e. (t, Stop_signal) \<in> set past1 \<and> (u, e) \<in> set past1 \<and> t + drain_delay d \<le> u)"
    using p(2) by (simp_all add: shutdown_inv_def)
  from inv(3) show ?thesis
  proof
    assume "sh_exit s = Some 0 \<and> sh_closing s"
    then show ?thesis using inv(1,2) by simp
  next
    assume one: "sh_exit s = Some 1 \<and> (\<exists>t u e. (t, Stop_signal) \<in> set past1 \<and> (u, e) \<in> set past1 \<and> t + drain_delay d \<le> u)"
    then obtain t1 u1 e where "(t1, Stop_signal) \<in> set past1" "(u1, e) \<in> set past1" "t1 + drain_delay d \<le> u1" by blast
    with p(1) have "\<exists>t1 u1 e. (t1, Stop_signal) \<in> set ?es \<and> (u1, e) \<in> set ?es \<and> t1 + drain_delay d \<le> u1" by blast
    then show ?thesis using one inv(1) by blast
  qed
qed

lemma shutdown_settles_witness:
  "sh_activeConnections (shutdown_run [(0, Connect 1), (5, Stop_signal), (6, Cleanup_done), (7, Stop_signal), (30005, Drain_timer)]
     (registered (Some 30000))) = {}"
  using shutdown_settles[of 5 "Some 30000" 30005 _ "[(0, Connect 1)]" "[(6, Cleanup_done), (7, Stop_signal)]" "[]", OF _ refl]
  by (simp add: drain_delay_def timeout_delay_def)

text \<open>While the cleanup tasks run, the server still takes connections: the database is shut down before the server.\<close>

lemma connection_during_cleanup:
  "sh_activeConnections (shutdown_run [(0, Stop_signal), (1, Connect 7)] (registered d)) = {7}"
  by (simp add: registered_def)

text \<open>Without a number in \<open>DRAIN_TIMEOUT_MS\<close> the connections have one millisecond.\<close>

lemma no_drain_time:
  "sh_exit (shutdown_run [(0, Connect 7), (0, Stop_signal), (1, Drain_timer)] (registered None)) = Some 1"
  by (simp add: registered_def drain_delay_def)

section \<open>What the probes and the origins say\<close>

text \<open>A server that is healthy is ready.\<close>

lemma healthy_is_ready:
  "rs_status (fst (get_health cfg E nodeEnv now uptime value dbHealth answer g b)) = 200 \<Longrightarrow>
     rs_status (get_ready E now1 value dbHealth answer) = 200"
  by (auto simp: get_health_def get_ready_def health_checks_def send_json_def checkCacheDependency_def
      checkStellarRpcDependency_def Let_def split: prod.splits if_splits)

lemma failing_jobs_unhealthy:
  "hasRecurringFailures g \<Longrightarrow> rs_status (fst (get_health cfg E nodeEnv now uptime value dbHealth answer g b)) = 503"
  by (auto simp: get_health_def health_checks_def send_json_def getJobHealthStatus_def Let_def split: prod.splits)

text \<open>With a list of plain origins, those and no others are let through, in every environment.\<close>

lemma listed_origins_allowed:
  assumes "E ''CORS_ALLOWED_ORIGINS'' = Some (js_join '','' origins)" and "origins \<noteq> []" "js_join '','' origins \<noteq> []"
    and "list_all (\<lambda>w. CHR '','' \<notin> set w \<and> js_trim w = w \<and> \<not> starts_with ''/'' w) origins" and "u \<noteq> []"
  shows "cors_origin_check rx E (Some u) = (if u \<in> set origins then Allowed else Blocked)"
proof -
  have "map parse_origin origins = map Literal origins"
    using assms(4) by (auto simp: parse_origin_def list_all_iff)
  moreover have "js_split (CHR '','') (js_join '','' origins) = origins"
    using assms(2,4) by (intro js_split_join) (auto simp: list_all_iff)
  ultimately have "getCORSOrigins E = map Literal origins"
    using assms(1,3) by (simp add: getCORSOrigins_def truthy_str_def)
  then show ?thesis using assms(5)
    by (auto simp: cors_origin_check_def list_all_iff compiles_def list_ex_iff origin_matches_def)
qed

end
