(* ===== verification/ApiClient.thy ===== *)
theory ApiClient
  imports Http JsonText "HOL-Library.Sublist"
begin

text \<open>
  The HTTP client of the web application, \<open>frontend/src/lib/api\<close>: classification of errors (\<open>error.ts\<close>), correlation
  identifiers (\<open>correlationInterceptors.ts\<close>), telemetry (\<open>telemetry.ts\<close>), the client with its interceptors and retries
  (\<open>client.ts\<close>).  \<open>fetch\<close>, \<open>URL\<close>, the clock and \<open>Math.random\<close> are arguments; an interceptor is a function of its
  input, and listeners do not throw.  The body of a response is what \<open>json()\<close> and \<open>text()\<close> give, \<open>None\<close> being
  \<open>undefined\<close>.
\<close>

section \<open>Errors\<close>

datatype error_code = NETWORK_ERROR | TIMEOUT | ABORTED | AUTH_ERROR | HTTP_ERROR | INVALID_RESPONSE | UNKNOWN_ERROR

text \<open>A value that is thrown, as \<open>normalizeApiError\<close> tells it apart: \<open>NoError\<close> is no instance of \<open>Error\<close>.\<close>

datatype thrown = AbortError | TypeError string | SyntaxError string | OtherError string | NoError

record api_error =
  ap_code :: error_code
  ap_message :: string
  ap_userMessage :: string
  ap_retryable :: bool
  ap_status :: "int option"
  ap_statusText :: "string option"
  ap_url :: "string option"
  ap_method :: "string option"
  ap_traceId :: "string option"
  ap_correlationId :: "string option"
  ap_details :: "json option"
  ap_cause :: "thrown option"

datatype caught = ApiErr api_error | Foreign thrown

record normalize_options =
  no_status :: "int option"
  no_statusText :: "string option"
  no_url :: "string option"
  no_method :: "string option"
  no_details :: "json option"
  no_traceId :: "string option"
  no_correlationId :: "string option"

definition no_options :: normalize_options where
  "no_options = \<lparr>no_status = None, no_statusText = None, no_url = None, no_method = None, no_details = None,
     no_traceId = None, no_correlationId = None\<rparr>"

definition DEFAULT_USER_MESSAGE :: string where
  "DEFAULT_USER_MESSAGE = ''Something went wrong while loading data. Please try again.''"

definition RETRYABLE_STATUS_CODES :: "int list" where
  "RETRYABLE_STATUS_CODES = [408, 425, 429, 500, 502, 503, 504]"

definition AUTH_STATUS_CODES :: "int list" where
  "AUTH_STATUS_CODES = [401, 403]"

definition isRetryableStatus :: "int option \<Rightarrow> bool" where
  "isRetryableStatus status = (case status of None \<Rightarrow> False | Some s \<Rightarrow> s \<in> set RETRYABLE_STATUS_CODES)"

definition api_error_of ::
  "normalize_options \<Rightarrow> thrown \<Rightarrow> error_code \<Rightarrow> string \<Rightarrow> string \<Rightarrow> bool \<Rightarrow> api_error" where
  "api_error_of opts cause code message userMessage retryable =
     \<lparr>ap_code = code, ap_message = message, ap_userMessage = userMessage, ap_retryable = retryable, ap_status = None,
      ap_statusText = None, ap_url = no_url opts, ap_method = no_method opts, ap_traceId = no_traceId opts,
      ap_correlationId = no_correlationId opts, ap_details = no_details opts,
      ap_cause = (if cause = NoError then None else Some cause)\<rparr>"

definition unknown_error :: "normalize_options \<Rightarrow> thrown \<Rightarrow> api_error" where
  "unknown_error opts t = api_error_of opts t UNKNOWN_ERROR
     (case t of OtherError m \<Rightarrow> m | _ \<Rightarrow> ''An unknown API error occurred.'') DEFAULT_USER_MESSAGE False"

definition normalizeApiError :: "caught \<Rightarrow> normalize_options \<Rightarrow> api_error" where
  "normalizeApiError error opts =
     (case error of
        ApiErr e \<Rightarrow> e
      | Foreign t \<Rightarrow>
          (case t of
             AbortError \<Rightarrow> api_error_of opts t ABORTED ''The request was aborted.''
               ''The request was cancelled. Please try again.'' False
           | TypeError m \<Rightarrow> api_error_of opts t NETWORK_ERROR (if m = [] then ''Network request failed.'' else m)
               ''We could not reach the server. Check your connection and try again.'' True
           | SyntaxError m \<Rightarrow> api_error_of opts t INVALID_RESPONSE m
               ''We received an unexpected response from the server. Please try again.'' False
           | _ \<Rightarrow>
               (case no_status opts of
                  Some s \<Rightarrow>
                    if s \<noteq> 0 \<and> s \<in> set AUTH_STATUS_CODES then
                      (api_error_of opts t AUTH_ERROR (''Request failed with status '' @ show_int s @ '': authorization required.'')
                         ''Your session has expired. Please reconnect your wallet to continue.'' False)
                        \<lparr>ap_status := Some s, ap_statusText := no_statusText opts\<rparr>
                    else if s \<noteq> 0 then
                      (api_error_of opts t HTTP_ERROR (''Request failed with status '' @ show_int s @ ''.'')
                         (if 500 \<le> s then ''The service is temporarily unavailable. Please try again shortly.''
                          else ''We could not complete that request. Please review your input and try again.'')
                         (isRetryableStatus (Some s)))
                        \<lparr>ap_status := Some s, ap_statusText := no_statusText opts\<rparr>
                    else unknown_error opts t
                | None \<Rightarrow> unknown_error opts t)))"

section \<open>Requests\<close>

datatype http_method = GET | POST | PUT | PATCH | DELETE

definition method_name :: "http_method \<Rightarrow> string" where
  "method_name m = (case m of GET \<Rightarrow> ''GET'' | POST \<Rightarrow> ''POST'' | PUT \<Rightarrow> ''PUT'' | PATCH \<Rightarrow> ''PATCH'' | DELETE \<Rightarrow> ''DELETE'')"

text \<open>Options of retries, delays in whole milliseconds; \<open>Some None\<close> stands for \<open>false\<close>, \<open>None\<close> for \<open>undefined\<close>.\<close>

record retry_options =
  ro_attempts :: "int option"
  ro_baseDelayMs :: "int option"
  ro_maxDelayMs :: "int option"

record full_retry_options =
  fr_attempts :: int
  fr_baseDelayMs :: int
  fr_maxDelayMs :: int

type_synonym retry_setting = "retry_options option option"

definition DEFAULT_RETRY_OPTIONS :: full_retry_options where
  "DEFAULT_RETRY_OPTIONS = \<lparr>fr_attempts = 3, fr_baseDelayMs = 250, fr_maxDelayMs = 2000\<rparr>"

text \<open>A \<open>Headers\<close> object: names are read in lower case.\<close>

type_synonym headers = "(string, string) js_map"

definition headers_set :: "string \<Rightarrow> string \<Rightarrow> headers \<Rightarrow> headers" where
  "headers_set k v h = AList.update (js_lower k) v h"

definition headers_get :: "headers \<Rightarrow> string \<Rightarrow> string option" where
  "headers_get h k = map_of h (js_lower k)"

definition new_headers :: "(string \<times> string) list \<Rightarrow> headers" where
  "new_headers init = fold (\<lambda>(k, v). headers_set k v) init []"

text \<open>A body that is no plain object (a form, a blob, a text) is of the type \<open>'b\<close>.\<close>

datatype 'b request_body = ObjectBody json | OtherBody 'b

datatype 'b sent_body = NullBody | TextBody string | AsIs 'b

record 'b api_options =
  ao_method :: "http_method option"
  ao_query :: "(string \<times> string option) list"
  ao_body :: "'b request_body option"
  ao_headers :: "(string \<times> string) list"
  ao_retry :: retry_setting

record 'b api_request =
  aq_method :: http_method
  aq_url :: string
  aq_headers :: headers
  aq_body :: "'b sent_body"
  aq_retry :: retry_setting

record 'u url_ops =
  ur_new :: "string \<Rightarrow> string \<Rightarrow> 'u option"
  ur_set :: "string \<Rightarrow> string \<Rightarrow> 'u \<Rightarrow> 'u"
  ur_text :: "'u \<Rightarrow> string"

record client_config =
  cc_baseUrl :: "string option"
  cc_headers :: "(string \<times> string) list"

text \<open>Values of the query are texts already; \<^const>\<open>None\<close> is \<open>null\<close> or \<open>undefined\<close>.\<close>

definition buildUrl ::
  "'u url_ops \<Rightarrow> string \<Rightarrow> string option \<Rightarrow> string \<Rightarrow> (string \<times> string option) list \<Rightarrow> string option" where
  "buildUrl U origin baseUrl path query =
     map_option (\<lambda>url. ur_text U (fold (\<lambda>(k, v) u. case v of None \<Rightarrow> u | Some t \<Rightarrow> ur_set U k t u) query url))
       (ur_new U path (nullish baseUrl origin))"

definition createRequestContext ::
  "'u url_ops \<Rightarrow> string \<Rightarrow> (rat \<Rightarrow> string) \<Rightarrow> client_config \<Rightarrow> string \<Rightarrow> 'b api_options \<Rightarrow> thrown + 'b api_request" where
  "createRequestContext U origin num cfg path opts =
     (let own = fold (\<lambda>(k, v). headers_set k v) (new_headers (ao_headers opts)) (new_headers (cc_headers cfg));
          (hs, body) = (case ao_body opts of
              None \<Rightarrow> (own, NullBody)
            | Some (ObjectBody j) \<Rightarrow> (headers_set ''content-type'' ''application/json'' own, TextBody (json_text num j))
            | Some (OtherBody b) \<Rightarrow> (own, AsIs b))
      in case buildUrl U origin (cc_baseUrl cfg) path (ao_query opts) of
           None \<Rightarrow> Inl (TypeError ''Invalid URL'')
         | Some url \<Rightarrow> Inr \<lparr>aq_method = nullish (ao_method opts) GET, aq_url = url, aq_headers = hs, aq_body = body,
             aq_retry = ao_retry opts\<rparr>)"

definition getRetryOptions :: "'b api_request \<Rightarrow> full_retry_options option" where
  "getRetryOptions q =
     (case aq_retry q of
        Some None \<Rightarrow> None
      | None \<Rightarrow> Some DEFAULT_RETRY_OPTIONS
      | Some (Some ro) \<Rightarrow> Some
          \<lparr>fr_attempts = nullish (ro_attempts ro) (fr_attempts DEFAULT_RETRY_OPTIONS),
           fr_baseDelayMs = nullish (ro_baseDelayMs ro) (fr_baseDelayMs DEFAULT_RETRY_OPTIONS),
           fr_maxDelayMs = nullish (ro_maxDelayMs ro) (fr_maxDelayMs DEFAULT_RETRY_OPTIONS)\<rparr>)"

definition shouldRetry :: "'b api_request \<Rightarrow> api_error \<Rightarrow> nat \<Rightarrow> bool" where
  "shouldRetry q e attempt =
     (case getRetryOptions q of
        None \<Rightarrow> False
      | Some ro \<Rightarrow>
          if \<not> (aq_method q = GET \<or> aq_method q = DELETE) then False
          else ap_retryable e \<and> int attempt < fr_attempts ro)"

text \<open>\<open>jitter\<close> is \<open>Math.round(Math.random() * 100)\<close>.\<close>

definition getRetryDelay :: "'b api_request \<Rightarrow> int \<Rightarrow> nat \<Rightarrow> int" where
  "getRetryDelay q jitter attempt =
     (let ro = nullish (getRetryOptions q) DEFAULT_RETRY_OPTIONS;
          exponentialDelay = fr_baseDelayMs ro * 2 ^ (attempt - 1)
      in min (exponentialDelay + jitter) (fr_maxDelayMs ro))"

definition correlation :: "'b api_request \<Rightarrow> string option" where
  "correlation q = headers_get (aq_headers q) ''X-Correlation-ID''"

definition buildApiError :: "caught \<Rightarrow> 'b api_request \<Rightarrow> normalize_options \<Rightarrow> api_error" where
  "buildApiError error q opts = normalizeApiError error
     (opts\<lparr>no_method := Some (method_name (aq_method q)), no_url := Some (aq_url q), no_correlationId := correlation q\<rparr>)"

section \<open>Responses\<close>

record http_reply =
  hr_status :: int
  hr_statusText :: string
  hr_headers :: headers
  hr_json :: "thrown + json"
  hr_text :: "thrown + string"

definition reply_ok :: "http_reply \<Rightarrow> bool" where
  "reply_ok r \<longleftrightarrow> 200 \<le> hr_status r \<and> hr_status r \<le> 299"

definition parseResponseData :: "http_reply \<Rightarrow> thrown + json option" where
  "parseResponseData r =
     (if hr_status r = 204 then Inr None
      else if sublist ''application/json'' (nullish (headers_get (hr_headers r) ''content-type'') []) then map_sum id Some (hr_json r)
      else map_sum id (\<lambda>t. Some (JStr t)) (hr_text r))"

record 'b response_context =
  rx_request :: "'b api_request"
  rx_response :: http_reply
  rx_data :: "json option"

section \<open>Correlation identifiers\<close>

text \<open>\<open>uuid\<close> is what \<open>crypto.randomUUID\<close> gives where it exists.\<close>

definition generateCorrelationId :: "string option \<Rightarrow> time \<Rightarrow> string" where
  "generateCorrelationId uuid now = (case uuid of Some u \<Rightarrow> u | None \<Rightarrow> ''fallback-'' @ show_int now)"

definition correlate_request :: "string \<Rightarrow> 'b api_request \<Rightarrow> 'b api_request" where
  "correlate_request correlationId q = q\<lparr>aq_headers := headers_set ''X-Correlation-ID'' correlationId (aq_headers q)\<rparr>"

definition correlate_response :: "'b response_context \<Rightarrow> 'b response_context" where
  "correlate_response ctx =
     (case headers_get (hr_headers (rx_response ctx)) ''X-Correlation-ID'' of
        None \<Rightarrow> ctx
      | Some echoed \<Rightarrow>
          if echoed = [] then ctx
          else ctx\<lparr>rx_request := correlate_request echoed (rx_request ctx)\<rparr>)"

section \<open>Telemetry\<close>

datatype telemetry_body =
    Requested
  | Retrying int error_code
  | Succeeded int int
  | Failed int api_error

record telemetry_event =
  te_method :: string
  te_url :: string
  te_attempt :: nat
  te_correlationId :: "string option"
  te_body :: telemetry_body

text \<open>The listeners, each known by a number: a \<open>Set\<close> calls them in the order of subscription.\<close>

type_synonym listeners = "(nat \<times> telemetry_event list) list"

definition emitApiTelemetry :: "telemetry_event \<Rightarrow> listeners \<Rightarrow> listeners" where
  "emitApiTelemetry event ls = map (\<lambda>(l, seen). (l, seen @ [event])) ls"

definition subscribeToApiTelemetry :: "nat \<Rightarrow> listeners \<Rightarrow> listeners" where
  "subscribeToApiTelemetry l ls = (if l \<in> fst ` set ls then ls else ls @ [(l, [])])"

definition unsubscribeFromApiTelemetry :: "nat \<Rightarrow> listeners \<Rightarrow> listeners" where
  "unsubscribeFromApiTelemetry l ls = filter (\<lambda>x. fst x \<noteq> l) ls"

section \<open>The client\<close>

text \<open>Interceptors are known by a number, the identity of the function that was registered.\<close>

record 'b api_client =
  ac_config :: client_config
  ac_request :: "(nat \<times> ('b api_request \<Rightarrow> thrown + 'b api_request)) list"
  ac_response :: "(nat \<times> ('b response_context \<Rightarrow> caught + 'b response_context)) list"
  ac_error :: "(nat \<times> (api_error \<Rightarrow> 'b api_request \<Rightarrow> caught + api_error)) list"

definition register :: "nat \<times> 'f \<Rightarrow> (nat \<times> 'f) list \<Rightarrow> (nat \<times> 'f) list" where
  "register f fs = fs @ [f]"

text \<open>\<open>splice(index, 1)\<close>: a negative index counts from the end.\<close>

definition splice1 :: "int \<Rightarrow> 'a list \<Rightarrow> 'a list" where
  "splice1 index xs =
     (let i = (if index < 0 then max 0 (int (length xs) + index) else index)
      in take (nat i) xs @ drop (nat i + 1) xs)"

definition js_index_of :: "'a \<Rightarrow> 'a list \<Rightarrow> int" where
  "js_index_of x xs = (if x \<in> set xs then int (length (takeWhile (\<lambda>y. y \<noteq> x) xs)) else -1)"

definition unregister :: "nat \<Rightarrow> (nat \<times> 'f) list \<Rightarrow> (nat \<times> 'f) list" where
  "unregister n fs = splice1 (js_index_of n (map fst fs)) fs"

text \<open>The identifier is drawn anew for every request: \<open>correlationId\<close> is the one of the request at hand.\<close>

definition new_api_client :: "client_config \<Rightarrow> string \<Rightarrow> 'b api_client" where
  "new_api_client cfg correlationId =
     \<lparr>ac_config = cfg, ac_request = [(0, Inr \<circ> correlate_request correlationId)], ac_response = [(1, Inr \<circ> correlate_response)],
      ac_error = []\<rparr>"

fun run_interceptors :: "('a \<Rightarrow> 'e + 'a) list \<Rightarrow> 'a \<Rightarrow> 'e + 'a" where
  "run_interceptors [] x = Inr x"
| "run_interceptors (f # fs) x = (case f x of Inl e \<Rightarrow> Inl e | Inr y \<Rightarrow> run_interceptors fs y)"

section \<open>One attempt\<close>

definition failed_details :: "http_reply \<Rightarrow> json option" where
  "failed_details r = (case parseResponseData r of Inl _ \<Rightarrow> None | Inr d \<Rightarrow> d)"

text \<open>What the \<open>try\<close> block of an attempt gives, \<open>reply\<close> being the outcome of \<open>fetch\<close>.\<close>

definition try_attempt :: "'b api_client \<Rightarrow> 'b api_request \<Rightarrow> thrown + http_reply \<Rightarrow> caught + (int \<times> json option)" where
  "try_attempt A q reply =
     (case reply of
        Inl t \<Rightarrow> Inl (Foreign t)
      | Inr r \<Rightarrow>
          if \<not> reply_ok r then
            Inl (ApiErr (buildApiError (Foreign NoError) q (no_options
              \<lparr>no_status := Some (hr_status r), no_statusText := Some (hr_statusText r), no_details := failed_details r,
               no_traceId := headers_get (hr_headers r) ''x-trace-id''\<rparr>)))
          else (case parseResponseData r of
              Inl t \<Rightarrow> Inl (Foreign t)
            | Inr d \<Rightarrow> map_sum id (\<lambda>ctx. (hr_status r, rx_data ctx))
                (run_interceptors (map snd (ac_response A)) \<lparr>rx_request = q, rx_response = r, rx_data = d\<rparr>)))"

text \<open>What the \<open>catch\<close> block makes of it before it decides.\<close>

definition caught_error :: "'b api_client \<Rightarrow> 'b api_request \<Rightarrow> caught \<Rightarrow> caught + api_error" where
  "caught_error A q e =
     run_interceptors (map (\<lambda>(_, f) x. f x q) (ac_error A)) (buildApiError e q no_options)"

definition telemetry :: "'b api_request \<Rightarrow> nat \<Rightarrow> telemetry_body \<Rightarrow> telemetry_event" where
  "telemetry q attempt b =
     \<lparr>te_method = method_name (aq_method q), te_url = aq_url q, te_attempt = attempt, te_correlationId = correlation q, te_body = b\<rparr>"

section \<open>The loop\<close>

text \<open>The replies, the jitter and the measured times of the attempts.\<close>

record surroundings =
  sr_reply :: "nat \<Rightarrow> thrown + http_reply"
  sr_jitter :: "nat \<Rightarrow> int"
  sr_duration :: "nat \<Rightarrow> int"

function attempts_from ::
  "'b api_client \<Rightarrow> surroundings \<Rightarrow> 'b api_request \<Rightarrow> nat \<Rightarrow> (caught + json option) \<times> telemetry_event list" where
  "attempts_from A S q attempt =
     (let begun = telemetry q attempt Requested
      in case try_attempt A q (sr_reply S attempt) of
           Inr (status, d) \<Rightarrow> (Inr d, [begun, telemetry q attempt (Succeeded (sr_duration S attempt) status)])
         | Inl e \<Rightarrow>
             (case caught_error A q e of
                Inl c \<Rightarrow> (Inl c, [begun])
              | Inr ae \<Rightarrow>
                  if shouldRetry q ae attempt then
                    let (out, events) = attempts_from A S q (Suc attempt)
                    in (out, begun # telemetry q attempt (Retrying (getRetryDelay q (sr_jitter S attempt) attempt) (ap_code ae)) # events)
                  else (Inl (ApiErr ae), [begun, telemetry q attempt (Failed (sr_duration S attempt) ae)])))"
  by pat_completeness auto

termination
proof (relation "measure (\<lambda>(A, S, q, attempt).
    nat ((case getRetryOptions q of None \<Rightarrow> 0 | Some ro \<Rightarrow> fr_attempts ro) - int attempt))")
qed (auto simp: shouldRetry_def split: option.splits if_splits)

declare attempts_from.simps [simp del]

definition client_request ::
  "'u url_ops \<Rightarrow> string \<Rightarrow> (rat \<Rightarrow> string) \<Rightarrow> surroundings \<Rightarrow> 'b api_client \<Rightarrow> string \<Rightarrow> 'b api_options \<Rightarrow>
   (caught + json option) \<times> telemetry_event list" where
  "client_request U origin num S A path opts =
     (case createRequestContext U origin num (ac_config A) path opts of
        Inl t \<Rightarrow> (Inl (Foreign t), [])
      | Inr q0 \<Rightarrow>
          (case run_interceptors (map snd (ac_request A)) q0 of
             Inl t \<Rightarrow> (Inl (Foreign t), [])
           | Inr q \<Rightarrow> attempts_from A S q 1))"

definition api_get where
  "api_get U origin num S A path opts = client_request U origin num S A path (opts\<lparr>ao_method := Some GET\<rparr>)"

definition api_post where
  "api_post U origin num S A path opts = client_request U origin num S A path (opts\<lparr>ao_method := Some POST\<rparr>)"

section \<open>Interceptors\<close>

lemma index_of_absent: "x \<notin> set xs \<Longrightarrow> js_index_of x xs = -1"
  by (simp add: js_index_of_def)

lemma index_of_last: "x \<notin> set xs \<Longrightarrow> js_index_of x (xs @ [x]) = int (length xs)"
  by (induction xs) (auto simp: js_index_of_def)

lemma unregister_registered: "n \<notin> fst ` set fs \<Longrightarrow> unregister n (register (n, f) fs) = fs"
  by (simp add: unregister_def register_def index_of_last splice1_def)

text \<open>A second call of the same unsubscribe function removes the interceptor that was registered last.\<close>

lemma unregister_again: "n \<notin> fst ` set fs \<Longrightarrow> unregister n fs = butlast fs"
  by (cases fs rule: rev_cases) (simp_all add: unregister_def index_of_absent splice1_def)

section \<open>Attempts\<close>

text \<open>Whether an attempt is followed by another one, and what the request gives when it is not.\<close>

definition retried :: "'b api_client \<Rightarrow> surroundings \<Rightarrow> 'b api_request \<Rightarrow> nat \<Rightarrow> bool" where
  "retried A S q i \<longleftrightarrow>
     (case try_attempt A q (sr_reply S i) of
        Inr _ \<Rightarrow> False
      | Inl e \<Rightarrow> (case caught_error A q e of Inl _ \<Rightarrow> False | Inr ae \<Rightarrow> shouldRetry q ae i))"

definition final_outcome :: "'b api_client \<Rightarrow> surroundings \<Rightarrow> 'b api_request \<Rightarrow> nat \<Rightarrow> caught + json option" where
  "final_outcome A S q i =
     (case try_attempt A q (sr_reply S i) of
        Inr (_, d) \<Rightarrow> Inr d
      | Inl e \<Rightarrow> (case caught_error A q e of Inl c \<Rightarrow> Inl c | Inr ae \<Rightarrow> Inl (ApiErr ae)))"

definition sends :: "telemetry_event list \<Rightarrow> nat list" where
  "sends events = map te_attempt (filter (\<lambda>e. te_body e = Requested) events)"

definition delays :: "telemetry_event list \<Rightarrow> int list" where
  "delays events = concat (map (\<lambda>e. case te_body e of Retrying d _ \<Rightarrow> [d] | _ \<Rightarrow> []) events)"

lemma sends_simps [simp]:
  "sends [] = []" "sends (telemetry q a b # events) = (if b = Requested then [a] else []) @ sends events"
  by (simp_all add: sends_def telemetry_def)

lemma delays_simps [simp]:
  "delays [] = []" "delays (telemetry q a b # events) = (case b of Retrying d _ \<Rightarrow> [d] | _ \<Rightarrow> []) @ delays events"
  by (simp_all add: delays_def telemetry_def)

lemma attempts_last:
  "\<not> retried A S q a \<Longrightarrow> \<exists>events. attempts_from A S q a = (final_outcome A S q a, events) \<and> sends events = [a] \<and> delays events = []"
  by (subst attempts_from.simps) (auto simp: retried_def final_outcome_def Let_def split: sum.splits)

lemma attempts_next:
  "retried A S q a \<Longrightarrow> \<exists>c. attempts_from A S q a =
     (fst (attempts_from A S q (Suc a)), telemetry q a Requested
       # telemetry q a (Retrying (getRetryDelay q (sr_jitter S a) a) c) # snd (attempts_from A S q (Suc a)))"
  by (subst attempts_from.simps) (auto simp: retried_def Let_def split: sum.splits prod.splits)

lemma retried_bound: "retried A S q i \<Longrightarrow> int i < fr_attempts (nullish (getRetryOptions q) DEFAULT_RETRY_OPTIONS)"
  by (auto simp: retried_def shouldRetry_def nullish_def split: sum.splits option.splits if_splits)

lemma retried_safe: "retried A S q i \<Longrightarrow> aq_method q \<in> {GET, DELETE} \<and> aq_retry q \<noteq> Some None"
  by (auto simp: retried_def shouldRetry_def getRetryOptions_def split: sum.splits option.splits if_splits)

lemma attempts_run:
  "\<exists>k\<ge>a. (\<forall>i. a \<le> i \<and> i < k \<longrightarrow> retried A S q i) \<and> \<not> retried A S q k
     \<and> fst (attempts_from A S q a) = final_outcome A S q k
     \<and> sends (snd (attempts_from A S q a)) = [a..<Suc k]
     \<and> delays (snd (attempts_from A S q a)) = map (\<lambda>i. getRetryDelay q (sr_jitter S i) i) [a..<k]"
proof (induction "nat (fr_attempts (nullish (getRetryOptions q) DEFAULT_RETRY_OPTIONS) - int a)" arbitrary: a rule: less_induct)
  case less
  show ?case
  proof (cases "retried A S q a")
    case False
    with attempts_last[OF this] show ?thesis by (intro exI[of _ a]) auto
  next
    case True
    from less[of "Suc a"] retried_bound[OF True]
    obtain k where k: "Suc a \<le> k" "\<forall>i. Suc a \<le> i \<and> i < k \<longrightarrow> retried A S q i" "\<not> retried A S q k"
      "fst (attempts_from A S q (Suc a)) = final_outcome A S q k"
      "sends (snd (attempts_from A S q (Suc a))) = [Suc a..<Suc k]"
      "delays (snd (attempts_from A S q (Suc a))) = map (\<lambda>i. getRetryDelay q (sr_jitter S i) i) [Suc a..<k]"
      by force
    from attempts_next[OF True] obtain c where c: "attempts_from A S q a =
       (fst (attempts_from A S q (Suc a)), telemetry q a Requested
         # telemetry q a (Retrying (getRetryDelay q (sr_jitter S a) a) c) # snd (attempts_from A S q (Suc a)))" by blast
    have "\<forall>i. a \<le> i \<and> i < k \<longrightarrow> retried A S q i" using k(2) True by (metis Suc_le_eq le_neq_implies_less)
    moreover have "sends (snd (attempts_from A S q a)) = [a..<Suc k]" using k(1,5) by (simp add: c upt_conv_Cons del: upt_Suc)
    moreover have "delays (snd (attempts_from A S q a)) = map (\<lambda>i. getRetryDelay q (sr_jitter S i) i) [a..<k]"
      using k(1,6) by (simp add: c upt_conv_Cons Suc_le_lessD del: upt_Suc)
    ultimately show ?thesis using k(1,3,4) c by (intro exI[of _ k]) simp
  qed
qed

text \<open>
  C29.  A request makes a bounded number of attempts and its outcome is that of the last one: every earlier attempt
  failed with an error that may be retried, \<open>fetch\<close> is called once per attempt, at most as often as the options
  allow, only once when the method is not safe or retries are off, and no wait exceeds the largest delay.
\<close>

theorem api_request_bounded:
  "\<exists>k\<ge>1. (\<forall>i. 1 \<le> i \<and> i < k \<longrightarrow> retried A S q i) \<and> \<not> retried A S q k
     \<and> fst (attempts_from A S q 1) = final_outcome A S q k
     \<and> sends (snd (attempts_from A S q 1)) = [1..<Suc k]
     \<and> int k \<le> max 1 (fr_attempts (nullish (getRetryOptions q) DEFAULT_RETRY_OPTIONS))
     \<and> (aq_method q \<notin> {GET, DELETE} \<or> aq_retry q = Some None \<longrightarrow> k = 1)
     \<and> (\<forall>d \<in> set (delays (snd (attempts_from A S q 1))).
          d \<le> fr_maxDelayMs (nullish (getRetryOptions q) DEFAULT_RETRY_OPTIONS))"
proof -
  obtain k where k: "1 \<le> k" "\<forall>i. 1 \<le> i \<and> i < k \<longrightarrow> retried A S q i" "\<not> retried A S q k"
      "fst (attempts_from A S q 1) = final_outcome A S q k"
      "sends (snd (attempts_from A S q 1)) = [1..<Suc k]"
      "delays (snd (attempts_from A S q 1)) = map (\<lambda>i. getRetryDelay q (sr_jitter S i) i) [1..<k]"
    using attempts_run[of 1 A S q] by blast
  have earlier: "k = 1 \<or> retried A S q (k - 1)" using k(1,2) by (cases "k = 1") auto
  then have "int k \<le> max 1 (fr_attempts (nullish (getRetryOptions q) DEFAULT_RETRY_OPTIONS))"
    using retried_bound[of A S q "k - 1"] k(1) by (auto simp: of_nat_diff)
  moreover have "aq_method q \<notin> {GET, DELETE} \<or> aq_retry q = Some None \<longrightarrow> k = 1"
    using earlier retried_safe[of A S q "k - 1"] by auto
  moreover have "\<forall>d \<in> set (delays (snd (attempts_from A S q 1))).
      d \<le> fr_maxDelayMs (nullish (getRetryOptions q) DEFAULT_RETRY_OPTIONS)"
    unfolding k(6) by (auto simp: getRetryDelay_def Let_def)
  ultimately show ?thesis using k(1-5) by (intro exI[of _ k]) simp
qed

section \<open>The client as it is made\<close>

lemma correlation_set [simp]: "correlation (correlate_request cid q) = Some cid"
  by (simp add: correlation_def correlate_request_def headers_get_def headers_set_def update_conv')

lemma correlate_request_keeps [simp]:
  "aq_method (correlate_request cid q) = aq_method q" "aq_retry (correlate_request cid q) = aq_retry q"
  by (simp_all add: correlate_request_def)

lemma attempts_correlated: "e \<in> set (snd (attempts_from A S q a)) \<Longrightarrow> te_correlationId e = correlation q"
proof (induction A S q a rule: attempts_from.induct)
  case (1 A S q a)
  show ?case
  proof (cases "retried A S q a")
    case True
    from attempts_next[OF True] obtain c where c: "attempts_from A S q a =
       (fst (attempts_from A S q (Suc a)), telemetry q a Requested
         # telemetry q a (Retrying (getRetryDelay q (sr_jitter S a) a) c) # snd (attempts_from A S q (Suc a)))" by blast
    from True obtain x ae where "try_attempt A q (sr_reply S a) = Inl x" "caught_error A q x = Inr ae" "shouldRetry q ae a"
      by (auto simp: retried_def split: sum.splits)
    from "1.IH"[OF refl this] "1.prems" c show ?thesis by (auto simp: telemetry_def)
  next
    case False
    with "1.prems" show ?thesis
      by (subst (asm) attempts_from.simps) (auto simp: retried_def Let_def telemetry_def split: sum.splits)
  qed
qed

lemma made_client [simp]:
  "map snd (ac_request (new_api_client cfg cid)) = [Inr \<circ> correlate_request cid]"
  "map snd (ac_response (new_api_client cfg cid)) = [Inr \<circ> correlate_response]"
  "ac_error (new_api_client cfg cid) = []" "ac_config (new_api_client cfg cid) = cfg"
  by (simp_all add: new_api_client_def)

lemma made_request: "client_request U origin num S (new_api_client cfg cid) path opts =
    (case createRequestContext U origin num cfg path opts of
       Inl t \<Rightarrow> (Inl (Foreign t), [])
     | Inr q \<Rightarrow> attempts_from (new_api_client cfg cid) S (correlate_request cid q) 1)"
  by (simp add: client_request_def split: sum.splits)

lemma context_method: "createRequestContext U origin num cfg path (opts\<lparr>ao_method := Some m\<rparr>) = Inr q \<Longrightarrow> aq_method q = m"
  by (auto simp: createRequestContext_def Let_def nullish_def split: prod.splits option.splits)

text \<open>A \<open>POST\<close> is never sent twice.\<close>

lemma post_sent_once: "length (sends (snd (api_post U origin num S (new_api_client cfg cid) path opts))) \<le> 1"
proof (cases "createRequestContext U origin num cfg path (opts\<lparr>ao_method := Some POST\<rparr>)")
  case (Inr q)
  then have "\<not> retried (new_api_client cfg cid) S (correlate_request cid q) 1"
    using context_method[OF Inr] by (auto simp: retried_def shouldRetry_def split: sum.splits option.splits)
  from attempts_last[OF this] Inr show ?thesis by (auto simp: api_post_def made_request)
qed (simp add: api_post_def made_request)

section \<open>Recovery\<close>

text \<open>A reply that is worth another attempt: the server was not reached, or its status may be retried.\<close>

definition transient :: "thrown + http_reply \<Rightarrow> bool" where
  "transient reply = (case reply of Inl (TypeError _) \<Rightarrow> True | Inl _ \<Rightarrow> False | Inr r \<Rightarrow> isRetryableStatus (Some (hr_status r)))"

lemma retryable_http: "isRetryableStatus (no_status opts) \<Longrightarrow> ap_retryable (buildApiError (Foreign NoError) q opts)"
  by (auto simp: buildApiError_def normalizeApiError_def isRetryableStatus_def RETRYABLE_STATUS_CODES_def AUTH_STATUS_CODES_def
      api_error_of_def split: option.splits)

lemma transient_retried:
  assumes "transient (sr_reply S i)" "aq_method q = GET" "getRetryOptions q = Some ro" "int i < fr_attempts ro"
  shows "retried (new_api_client cfg cid) S q i"
proof -
  obtain x where x: "try_attempt (new_api_client cfg cid) q (sr_reply S i) = Inl x"
    "ap_retryable (buildApiError x q no_options)"
  proof (cases "sr_reply S i")
    case (Inl t)
    then show ?thesis using assms(1) that[of "Foreign t"]
      by (auto simp: transient_def try_attempt_def buildApiError_def normalizeApiError_def api_error_of_def split: thrown.splits)
  next
    case (Inr r)
    then have s: "isRetryableStatus (Some (hr_status r))" using assms(1) by (simp add: transient_def)
    then have "\<not> reply_ok r" by (auto simp: isRetryableStatus_def RETRYABLE_STATUS_CODES_def reply_ok_def)
    moreover have "buildApiError (ApiErr e) q opts = e" for e opts by (simp add: buildApiError_def normalizeApiError_def)
    ultimately show ?thesis
      using that[of "ApiErr (buildApiError (Foreign NoError) q (no_options
          \<lparr>no_status := Some (hr_status r), no_statusText := Some (hr_statusText r), no_details := failed_details r,
           no_traceId := headers_get (hr_headers r) ''x-trace-id''\<rparr>))"] Inr s
      by (simp add: try_attempt_def retryable_http)
  qed
  then show ?thesis using assms(2-4) by (simp add: retried_def caught_error_def shouldRetry_def)
qed

text \<open>
  A read survives transient failures: if every attempt before the \<open>k\<close>th fails to reach the server or is answered
  with a status that may be retried, and the \<open>k\<close>th is answered with data, the caller gets this data after exactly \<open>k\<close>
  calls of \<open>fetch\<close>, and every telemetry event carries the correlation identifier of the request.
\<close>

theorem api_get_recovers:
  assumes "createRequestContext U origin num cfg path (opts\<lparr>ao_method := Some GET\<rparr>) = Inr q0"
    and "getRetryOptions q0 = Some ro" "1 \<le> k" "int k \<le> fr_attempts ro \<or> k = 1"
    and "\<forall>i. 1 \<le> i \<and> i < k \<longrightarrow> transient (sr_reply S i)"
    and "sr_reply S k = Inr r" "reply_ok r" "parseResponseData r = Inr d"
  shows "\<exists>events. api_get U origin num S (new_api_client cfg cid) path opts = (Inr d, events) \<and> sends events = [1..<Suc k]
    \<and> (\<forall>e \<in> set events. te_correlationId e = Some cid)"
proof -
  let ?A = "new_api_client cfg cid" and ?q = "correlate_request cid q0"
  have run: "api_get U origin num S ?A path opts = attempts_from ?A S ?q 1"
    using assms(1) by (simp add: api_get_def made_request)
  have opts: "getRetryOptions ?q = Some ro" using assms(2) by (simp add: getRetryOptions_def)
  have before: "retried ?A S ?q i" if "1 \<le> i" "i < k" for i
    using transient_retried[OF _ _ opts, of S i] assms(4,5) context_method[OF assms(1)] that by force
  have good: "try_attempt ?A ?q (sr_reply S k) = Inr (hr_status r, d)"
    using assms(6-8) by (simp add: try_attempt_def correlate_response_def split: option.splits)
  obtain j where j: "1 \<le> j" "\<forall>i. 1 \<le> i \<and> i < j \<longrightarrow> retried ?A S ?q i" "\<not> retried ?A S ?q j"
    "fst (attempts_from ?A S ?q 1) = final_outcome ?A S ?q j" "sends (snd (attempts_from ?A S ?q 1)) = [1..<Suc j]"
    using attempts_run[of 1 ?A S ?q] by blast
  have "\<not> retried ?A S ?q k" using good by (simp add: retried_def)
  with j(1-3) before assms(3) have "j = k" by (metis linorder_neqE_nat)
  with j(4,5) good have "attempts_from ?A S ?q 1 = (Inr d, snd (attempts_from ?A S ?q 1))"
    "sends (snd (attempts_from ?A S ?q 1)) = [1..<Suc k]"
    by (simp_all add: final_outcome_def prod_eq_iff)
  then show ?thesis using run attempts_correlated[of _ ?A S ?q 1] by (intro exI[of _ "snd (attempts_from ?A S ?q 1)"]) auto
qed

section \<open>Examples\<close>

definition plain_urls :: "string url_ops" where
  "plain_urls = \<lparr>ur_new = (\<lambda>path base. Some (base @ path)), ur_set = (\<lambda>k v u. u @ ''?'' @ k @ ''='' @ v), ur_text = id\<rparr>"

definition sample_options :: "unit api_options" where
  "sample_options = \<lparr>ao_method = None, ao_query = [(''page'', Some ''2''), (''type'', None)], ao_body = None, ao_headers = [], ao_retry = None\<rparr>"

definition sample_reply :: "int \<Rightarrow> http_reply" where
  "sample_reply status = \<lparr>hr_status = status, hr_statusText = [], hr_headers = [(''content-type'', ''application/json'')],
     hr_json = Inr (JObj []), hr_text = Inr []\<rparr>"

definition sample_surroundings :: surroundings where
  "sample_surroundings = \<lparr>sr_reply = (\<lambda>i. if i = 1 then Inl (TypeError []) else if i = 2 then Inr (sample_reply 503) else Inr (sample_reply 200)),
     sr_jitter = (\<lambda>i. 7), sr_duration = (\<lambda>i. 20)\<rparr>"

definition sample_config :: client_config where
  "sample_config = \<lparr>cc_baseUrl = Some ''https://api'', cc_headers = []\<rparr>"

theorem api_get_recovers_witness:
  "\<exists>events. api_get plain_urls [] (\<lambda>_. []) sample_surroundings (new_api_client sample_config ''id-1'') ''/vault'' sample_options
      = (Inr (Some (JObj [])), events) \<and> sends events = [1, 2, 3] \<and> (\<forall>e \<in> set events. te_correlationId e = Some ''id-1'')"
proof -
  let ?q = "\<lparr>aq_method = GET, aq_url = ''https://api/vault?page=2'', aq_headers = [], aq_body = NullBody, aq_retry = None\<rparr> :: unit api_request"
  have "createRequestContext plain_urls [] (\<lambda>_. []) sample_config ''/vault'' (sample_options\<lparr>ao_method := Some GET\<rparr>) = Inr ?q"
    by (simp add: createRequestContext_def buildUrl_def plain_urls_def sample_config_def sample_options_def new_headers_def nullish_def)
  moreover have fr: "fr_attempts DEFAULT_RETRY_OPTIONS = 3" by (simp add: DEFAULT_RETRY_OPTIONS_def)
  moreover have "getRetryOptions ?q = Some DEFAULT_RETRY_OPTIONS" by (simp add: getRetryOptions_def)
  moreover have "\<forall>i. 1 \<le> i \<and> i < (3 :: nat) \<longrightarrow> transient (sr_reply sample_surroundings i)"
  proof (intro allI impI)
    fix i :: nat
    assume "1 \<le> i \<and> i < 3"
    then have "i = 1 \<or> i = 2" by auto
    then show "transient (sr_reply sample_surroundings i)"
      by (auto simp: sample_surroundings_def sample_reply_def transient_def isRetryableStatus_def RETRYABLE_STATUS_CODES_def)
  qed
  moreover have "sr_reply sample_surroundings 3 = Inr (sample_reply 200)" "reply_ok (sample_reply 200)"
    by (simp_all add: sample_surroundings_def reply_ok_def sample_reply_def)
  moreover have "parseResponseData (sample_reply 200) = Inr (Some (JObj []))" by code_simp
  ultimately have "\<exists>events. api_get plain_urls [] (\<lambda>_. []) sample_surroundings (new_api_client sample_config ''id-1'') ''/vault'' sample_options
      = (Inr (Some (JObj [])), events) \<and> sends events = [1..<Suc 3] \<and> (\<forall>e \<in> set events. te_correlationId e = Some ''id-1'')"
    by (intro api_get_recovers[where ?q0.0 = ?q and ro = DEFAULT_RETRY_OPTIONS and r = "sample_reply 200"]) (simp_all add: fr)
  moreover have "[1..<Suc 3] = [1, 2, 3 :: nat]" by code_simp
  ultimately show ?thesis by (simp only:)
qed

theorem api_request_bounded_witness:
  "\<exists>k\<ge>1. sends (snd (attempts_from (new_api_client sample_config []) sample_surroundings
      \<lparr>aq_method = POST, aq_url = [], aq_headers = [], aq_body = NullBody :: unit sent_body, aq_retry = None\<rparr> 1)) = [1..<Suc k] \<and> k = 1"
proof -
  let ?q = "\<lparr>aq_method = POST, aq_url = [], aq_headers = [], aq_body = NullBody :: unit sent_body, aq_retry = None\<rparr>"
  from api_request_bounded[of "new_api_client sample_config []" sample_surroundings ?q]
  show ?thesis by (auto simp: DEFAULT_RETRY_OPTIONS_def)
qed

end
