(* ===== verification/UrlState.thy ===== *)
theory UrlState
  imports Prelude
begin

text \<open>
  State that the web application keeps in the address bar: \<open>frontend/src/hooks/useUrlState.ts\<close> (page, size, sort and
  filters of a table) and \<open>hooks/useTransactionFilters.ts\<close> (the filters of the history of transactions).  A hook is
  its reader of the parameters and one function per callback; the callbacks are called one after another, each on
  the parameters that the one before left.  \<open>Number\<close>, \<open>String\<close> of a number and \<open>Date.parse\<close> are arguments.
\<close>

section \<open>Parameters and history\<close>

text \<open>\<open>URLSearchParams\<close>: a list of pairs in which a name may come twice.\<close>

type_synonym search_params = "(string \<times> string) list"

definition sp_get :: "search_params \<Rightarrow> string \<Rightarrow> string option" where
  "sp_get sp k = map_of sp k"

definition sp_delete :: "string \<Rightarrow> search_params \<Rightarrow> search_params" where
  "sp_delete k sp = filter (\<lambda>p. fst p \<noteq> k) sp"

fun sp_set :: "string \<Rightarrow> string \<Rightarrow> search_params \<Rightarrow> search_params" where
  "sp_set k v [] = [(k, v)]"
| "sp_set k v (p # sp) = (if fst p = k then (k, v) # sp_delete k sp else p # sp_set k v sp)"

lemma sp_get_delete [simp]: "sp_get (sp_delete k sp) j = (if j = k then None else sp_get sp j)"
  by (induction sp) (auto simp: sp_get_def sp_delete_def)

lemma sp_get_set [simp]: "sp_get (sp_set k v sp) j = (if j = k then Some v else sp_get sp j)"
proof (induction sp)
  case (Cons p sp)
  show ?case
  proof (cases "fst p = k")
    case True
    then show ?thesis using sp_get_delete[of k sp j] by (auto simp: sp_get_def)
  next
    case False
    with Cons show ?thesis by (cases p) (auto simp: sp_get_def)
  qed
qed (simp add: sp_get_def)

text \<open>The history of the browser: \<open>setSearchParams\<close> adds an entry, or replaces the present one.\<close>

record browser =
  bw_back :: "search_params list"
  bw_now :: search_params

definition setSearchParams :: "bool \<Rightarrow> (search_params \<Rightarrow> search_params) \<Rightarrow> browser \<Rightarrow> browser" where
  "setSearchParams replace f b =
     (if replace then b\<lparr>bw_now := f (bw_now b)\<rparr> else \<lparr>bw_back = bw_now b # bw_back b, bw_now = f (bw_now b)\<rparr>)"

definition go_back :: "browser \<Rightarrow> browser" where
  "go_back b = (case bw_back b of [] \<Rightarrow> b | sp # rest \<Rightarrow> \<lparr>bw_back = rest, bw_now = sp\<rparr>)"

section \<open>The state of a table\<close>

datatype sort_direction = Asc | Desc

definition direction_name :: "sort_direction \<Rightarrow> string" where
  "direction_name d = (case d of Asc \<Rightarrow> ''asc'' | Desc \<Rightarrow> ''desc'')"

definition read_direction :: "string option \<Rightarrow> sort_direction option" where
  "read_direction s = (if s = Some ''asc'' then Some Asc else if s = Some ''desc'' then Some Desc else None)"

record url_state_config =
  uc_defaultPage :: "rat option"
  uc_defaultPageSize :: "rat option"
  uc_defaultSortBy :: "string option"
  uc_defaultSortDirection :: "sort_direction option"
  uc_defaultFilters :: "(string \<times> string) list option"

record url_state =
  us_page :: rat
  us_pageSize :: rat
  us_sortBy :: string
  us_sortDirection :: sort_direction
  us_filters :: "(string, string) js_map"

text \<open>\<open>to_number s\<close> is \<open>Number(s)\<close> where it is finite.\<close>

definition positive :: "(string \<Rightarrow> rat option) \<Rightarrow> string option \<Rightarrow> rat option" where
  "positive to_number raw =
     (case Option.bind raw to_number of None \<Rightarrow> None | Some n \<Rightarrow> if 0 < n then Some n else None)"

definition read_url_state :: "(string \<Rightarrow> rat option) \<Rightarrow> url_state_config \<Rightarrow> search_params \<Rightarrow> url_state" where
  "read_url_state to_number cfg sp =
     \<lparr>us_page = (case positive to_number (sp_get sp ''page'') of Some n \<Rightarrow> n | None \<Rightarrow> nullish (uc_defaultPage cfg) 1),
      us_pageSize = (case positive to_number (sp_get sp ''pageSize'') of Some n \<Rightarrow> min n 100 | None \<Rightarrow> nullish (uc_defaultPageSize cfg) 25),
      us_sortBy = (case sp_get sp ''sortBy'' of Some v \<Rightarrow> v | None \<Rightarrow> nullish (uc_defaultSortBy cfg) []),
      us_sortDirection =
        (let raw = (case sp_get sp ''direction'' of None \<Rightarrow> sp_get sp ''sortDirection'' | Some d \<Rightarrow> Some d)
         in case read_direction raw of Some d \<Rightarrow> d | None \<Rightarrow> nullish (uc_defaultSortDirection cfg) Asc),
      us_filters = map (\<lambda>(k, d). (k, case sp_get sp k of Some v \<Rightarrow> v | None \<Rightarrow> d)) (nullish (uc_defaultFilters cfg) [])\<rparr>"

text \<open>A filter that is \<^const>\<open>None\<close> is \<open>undefined\<close>.\<close>

record url_updates =
  up_page :: "rat option"
  up_pageSize :: "rat option"
  up_sortBy :: "string option"
  up_sortDirection :: "sort_direction option"
  up_filters :: "(string, string option) js_map option"

definition no_updates :: url_updates where
  "no_updates = \<lparr>up_page = None, up_pageSize = None, up_sortBy = None, up_sortDirection = None, up_filters = None\<rparr>"

definition apply_filter :: "string \<times> string option \<Rightarrow> search_params \<Rightarrow> search_params" where
  "apply_filter f sp = (if truthy_str (snd f) then sp_set (fst f) (the (snd f)) sp else sp_delete (fst f) sp)"

definition with_updates :: "(rat \<Rightarrow> string) \<Rightarrow> url_updates \<Rightarrow> search_params \<Rightarrow> search_params" where
  "with_updates num u sp =
     (let set_opt = (\<lambda>k v s. case v of None \<Rightarrow> s | Some t \<Rightarrow> sp_set k t s);
          s1 = set_opt ''page'' (map_option num (up_page u)) sp;
          s2 = set_opt ''pageSize'' (map_option num (up_pageSize u)) s1;
          s3 = set_opt ''sortBy'' (up_sortBy u) s2;
          s4 = (case up_sortDirection u of None \<Rightarrow> s3
                | Some d \<Rightarrow> sp_delete ''sortDirection'' (sp_set ''direction'' (direction_name d) s3))
      in fold apply_filter (nullish (up_filters u) []) s4)"

definition updateUrl :: "(rat \<Rightarrow> string) \<Rightarrow> url_updates \<Rightarrow> browser \<Rightarrow> browser" where
  "updateUrl num u b = setSearchParams False (with_updates num u) b"

definition setPage :: "(rat \<Rightarrow> string) \<Rightarrow> rat \<Rightarrow> browser \<Rightarrow> browser" where
  "setPage num page = updateUrl num (no_updates\<lparr>up_page := Some page\<rparr>)"

definition setPageSize :: "(rat \<Rightarrow> string) \<Rightarrow> rat \<Rightarrow> browser \<Rightarrow> browser" where
  "setPageSize num pageSize = updateUrl num (no_updates\<lparr>up_pageSize := Some pageSize, up_page := Some 1\<rparr>)"

definition setSort :: "(rat \<Rightarrow> string) \<Rightarrow> url_state \<Rightarrow> string \<Rightarrow> sort_direction option \<Rightarrow> browser \<Rightarrow> browser" where
  "setSort num st sortBy sortDirection =
     (let d = (case sortDirection of Some d \<Rightarrow> d
          | None \<Rightarrow> if us_sortBy st = sortBy \<and> us_sortDirection st = Asc then Desc else Asc)
      in updateUrl num (no_updates\<lparr>up_sortBy := Some sortBy, up_sortDirection := Some d, up_page := Some 1\<rparr>))"

definition merged_filters :: "url_state \<Rightarrow> (string, string option) js_map \<Rightarrow> (string, string option) js_map" where
  "merged_filters st new = fold (\<lambda>(k, v). AList.update k v) new (map (\<lambda>(k, v). (k, Some v)) (us_filters st))"

definition setFilters :: "(rat \<Rightarrow> string) \<Rightarrow> url_state \<Rightarrow> (string, string option) js_map \<Rightarrow> browser \<Rightarrow> browser" where
  "setFilters num st newFilters = updateUrl num (no_updates\<lparr>up_filters := Some (merged_filters st newFilters), up_page := Some 1\<rparr>)"

definition setTableSearch :: "(rat \<Rightarrow> string) \<Rightarrow> url_state \<Rightarrow> string \<Rightarrow> browser \<Rightarrow> browser" where
  "setTableSearch num st searchQuery = setFilters num st [(''search'', Some searchQuery)]"

definition reset_url :: "url_state_config \<Rightarrow> browser \<Rightarrow> browser" where
  "reset_url cfg = setSearchParams False
     (fold sp_delete ([''page'', ''pageSize'', ''sortBy'', ''sortDirection'', ''direction''] @ map fst (nullish (uc_defaultFilters cfg) [])))"

section \<open>Filters of transactions\<close>

definition VALID_TX_TYPES :: "string list" where
  "VALID_TX_TYPES = [''deposit'', ''withdrawal'', ''transfer'', ''trade'']"

definition VALID_TX_STATUSES :: "string list" where
  "VALID_TX_STATUSES = [''pending'', ''completed'', ''failed'']"

record transaction_filters =
  tf_search :: string
  tf_asset :: string
  tf_types :: "string list"
  tf_statuses :: "string list"
  tf_dateFrom :: string
  tf_dateTo :: string
  tf_amountMin :: string
  tf_amountMax :: string

definition parseCommaList :: "string option \<Rightarrow> string list \<Rightarrow> string list" where
  "parseCommaList raw validValues =
     (if \<not> truthy_str raw then []
      else filter (\<lambda>v. v \<in> set validValues) (map (\<lambda>v. js_lower (js_trim v)) (js_split (CHR '','') (the raw))))"

definition date_shape :: "string \<Rightarrow> bool" where
  "date_shape s \<longleftrightarrow> length s = 10 \<and> s ! 4 = CHR ''-'' \<and> s ! 7 = CHR ''-''
     \<and> list_all (\<lambda>i. s ! i \<in> set ''0123456789'') [0, 1, 2, 3, 5, 6, 8, 9]"

definition parseIsoDate :: "(string \<Rightarrow> int option) \<Rightarrow> string option \<Rightarrow> string" where
  "parseIsoDate parse raw =
     (if \<not> truthy_str raw then [] else if \<not> date_shape (the raw) then [] else if parse (the raw) = None then [] else the raw)"

definition parsePositiveNumericString :: "string option \<Rightarrow> string" where
  "parsePositiveNumericString raw =
     (if \<not> truthy_str raw then []
      else case js_parse_float (the raw) of None \<Rightarrow> [] | Some n \<Rightarrow> if n < 0 then [] else the raw)"

definition read_filters :: "(string \<Rightarrow> int option) \<Rightarrow> search_params \<Rightarrow> transaction_filters" where
  "read_filters parse sp =
     \<lparr>tf_search = nullish (sp_get sp ''search'') [],
      tf_asset = js_trim (nullish (sp_get sp ''asset'') []),
      tf_types = parseCommaList (sp_get sp ''types'') VALID_TX_TYPES,
      tf_statuses = parseCommaList (sp_get sp ''statuses'') VALID_TX_STATUSES,
      tf_dateFrom = parseIsoDate parse (sp_get sp ''dateFrom''),
      tf_dateTo = parseIsoDate parse (sp_get sp ''dateTo''),
      tf_amountMin = parsePositiveNumericString (sp_get sp ''amountMin''),
      tf_amountMax = parsePositiveNumericString (sp_get sp ''amountMax'')\<rparr>"

definition hasActiveFilters :: "transaction_filters \<Rightarrow> bool" where
  "hasActiveFilters f \<longleftrightarrow> tf_search f \<noteq> [] \<or> tf_asset f \<noteq> [] \<or> tf_types f \<noteq> [] \<or> tf_statuses f \<noteq> []
     \<or> tf_dateFrom f \<noteq> [] \<or> tf_dateTo f \<noteq> [] \<or> tf_amountMin f \<noteq> [] \<or> tf_amountMax f \<noteq> []"

definition updateParams :: "(search_params \<Rightarrow> search_params) \<Rightarrow> browser \<Rightarrow> browser" where
  "updateParams updater = setSearchParams True (\<lambda>prev. sp_set ''page'' ''1'' (updater prev))"

definition set_or_delete :: "string \<Rightarrow> string \<Rightarrow> search_params \<Rightarrow> search_params" where
  "set_or_delete k v sp = (if v \<noteq> [] then sp_set k v sp else sp_delete k sp)"

definition setSearch :: "string \<Rightarrow> browser \<Rightarrow> browser" where
  "setSearch value = updateParams (set_or_delete ''search'' value)"

definition setTypes :: "string list \<Rightarrow> browser \<Rightarrow> browser" where
  "setTypes types = updateParams (if types \<noteq> [] then sp_set ''types'' (js_join '','' types) else sp_delete ''types'')"

definition setStatuses :: "string list \<Rightarrow> browser \<Rightarrow> browser" where
  "setStatuses statuses = updateParams (if statuses \<noteq> [] then sp_set ''statuses'' (js_join '','' statuses) else sp_delete ''statuses'')"

definition setDateFrom :: "string \<Rightarrow> browser \<Rightarrow> browser" where
  "setDateFrom value = updateParams (set_or_delete ''dateFrom'' value)"

definition setDateTo :: "string \<Rightarrow> browser \<Rightarrow> browser" where
  "setDateTo value = updateParams (set_or_delete ''dateTo'' value)"

definition setAmountMin :: "string \<Rightarrow> browser \<Rightarrow> browser" where
  "setAmountMin value = updateParams (set_or_delete ''amountMin'' value)"

definition setAmountMax :: "string \<Rightarrow> browser \<Rightarrow> browser" where
  "setAmountMax value = updateParams (set_or_delete ''amountMax'' value)"

definition setAsset :: "string \<Rightarrow> browser \<Rightarrow> browser" where
  "setAsset value = updateParams (set_or_delete ''asset'' (js_trim value))"

definition clearAll :: "browser \<Rightarrow> browser" where
  "clearAll = updateParams (fold sp_delete
     [''search'', ''types'', ''statuses'', ''dateFrom'', ''dateTo'', ''amountMin'', ''amountMax'', ''asset''])"

section \<open>Filters read back\<close>

lemma bw_now_update [simp]: "bw_now (updateParams f b) = sp_set ''page'' ''1'' (f (bw_now b))"
  "bw_back (updateParams f b) = bw_back b"
  by (simp_all add: updateParams_def setSearchParams_def)

lemma set_or_delete_get [simp]:
  "sp_get (set_or_delete k v sp) j = (if j = k then (if v = [] then None else Some v) else sp_get sp j)"
  by (simp add: set_or_delete_def)

text \<open>Words that survive a comma list: no comma in them, and in lower case without blanks around.\<close>

definition list_words :: "string list \<Rightarrow> bool" where
  "list_words ws \<longleftrightarrow> (\<forall>w \<in> set ws. w \<noteq> [] \<and> CHR '','' \<notin> set w \<and> js_lower (js_trim w) = w)"

lemma valid_words: "list_words VALID_TX_TYPES" "list_words VALID_TX_STATUSES"
  by code_simp+

lemma comma_list_roundtrip:
  assumes "list_words valid" "set ts \<subseteq> set valid"
  shows "parseCommaList (if ts = [] then None else Some (js_join '','' ts)) valid = ts"
proof (cases "ts = []")
  case False
  have w: "\<And>x. x \<in> set ts \<Longrightarrow> x \<noteq> [] \<and> CHR '','' \<notin> set x \<and> js_lower (js_trim x) = x"
    using assms by (auto simp: list_words_def)
  have "js_split (CHR '','') (js_join '','' ts) = ts" using w False by (intro js_split_join) auto
  moreover have "js_join '','' ts \<noteq> []" using w False by (cases ts; cases "tl ts") auto
  moreover have "map (\<lambda>v. js_lower (js_trim v)) ts = ts" using w by (simp add: map_idI)
  moreover have "filter (\<lambda>v. v \<in> set valid) ts = ts" using assms(2) by (intro filter_True) auto
  ultimately show ?thesis using False by (simp add: parseCommaList_def truthy_str_def)
qed (simp add: parseCommaList_def truthy_str_def)

text \<open>
  C37.  The filters of the history survive the address bar: a callback changes the filter it names to the value it was
  given, as far as the reader accepts it, and no other one; it sends the reader to the first page without adding
  an entry to the history of the browser, and clearing leaves no filter active.
\<close>

theorem filters_roundtrip:
  assumes "set ts \<subseteq> set VALID_TX_TYPES" "set ss \<subseteq> set VALID_TX_STATUSES"
  shows "read_filters parse (bw_now (setTypes ts b)) = (read_filters parse (bw_now b))\<lparr>tf_types := ts\<rparr>
    \<and> read_filters parse (bw_now (setStatuses ss b)) = (read_filters parse (bw_now b))\<lparr>tf_statuses := ss\<rparr>
    \<and> read_filters parse (bw_now (setSearch v b)) = (read_filters parse (bw_now b))\<lparr>tf_search := v\<rparr>
    \<and> read_filters parse (bw_now (setAsset v b)) = (read_filters parse (bw_now b))\<lparr>tf_asset := js_trim v\<rparr>
    \<and> read_filters parse (bw_now (setDateFrom v b)) = (read_filters parse (bw_now b))\<lparr>tf_dateFrom := parseIsoDate parse (Some v)\<rparr>
    \<and> read_filters parse (bw_now (setDateTo v b)) = (read_filters parse (bw_now b))\<lparr>tf_dateTo := parseIsoDate parse (Some v)\<rparr>
    \<and> read_filters parse (bw_now (setAmountMin v b)) = (read_filters parse (bw_now b))\<lparr>tf_amountMin := parsePositiveNumericString (Some v)\<rparr>
    \<and> read_filters parse (bw_now (setAmountMax v b)) = (read_filters parse (bw_now b))\<lparr>tf_amountMax := parsePositiveNumericString (Some v)\<rparr>
    \<and> \<not> hasActiveFilters (read_filters parse (bw_now (clearAll b)))
    \<and> (\<forall>b' \<in> {setTypes ts b, setStatuses ss b, setSearch v b, setAsset v b, setDateFrom v b, setDateTo v b, setAmountMin v b,
      setAmountMax v b, clearAll b}. sp_get (bw_now b') ''page'' = Some ''1'' \<and> bw_back b' = bw_back b)"
proof (intro conjI)
  note callbacks = setTypes_def setStatuses_def setSearch_def setAsset_def setDateFrom_def setDateTo_def setAmountMin_def
    setAmountMax_def clearAll_def
  note readers = read_filters_def parseIsoDate_def parsePositiveNumericString_def truthy_str_def nullish_def
  have types: "parseCommaList (Some (js_join '','' ts)) VALID_TX_TYPES = ts" if "ts \<noteq> []"
    using comma_list_roundtrip[OF valid_words(1) assms(1)] that by simp
  have statuses: "parseCommaList (Some (js_join '','' ss)) VALID_TX_STATUSES = ss" if "ss \<noteq> []"
    using comma_list_roundtrip[OF valid_words(2) assms(2)] that by simp
  have none: "parseCommaList None valid = []" for valid by (simp add: parseCommaList_def truthy_str_def)
  show "read_filters parse (bw_now (setTypes ts b)) = (read_filters parse (bw_now b))\<lparr>tf_types := ts\<rparr>"
    using types none by (simp add: callbacks read_filters_def)
  show "read_filters parse (bw_now (setStatuses ss b)) = (read_filters parse (bw_now b))\<lparr>tf_statuses := ss\<rparr>"
    using statuses none by (simp add: callbacks read_filters_def)
  show "read_filters parse (bw_now (setSearch v b)) = (read_filters parse (bw_now b))\<lparr>tf_search := v\<rparr>"
    by (simp add: callbacks readers)
  show "read_filters parse (bw_now (setAsset v b)) = (read_filters parse (bw_now b))\<lparr>tf_asset := js_trim v\<rparr>"
    by (simp add: callbacks readers)
  show "read_filters parse (bw_now (setDateFrom v b)) = (read_filters parse (bw_now b))\<lparr>tf_dateFrom := parseIsoDate parse (Some v)\<rparr>"
    "read_filters parse (bw_now (setDateTo v b)) = (read_filters parse (bw_now b))\<lparr>tf_dateTo := parseIsoDate parse (Some v)\<rparr>"
    "read_filters parse (bw_now (setAmountMin v b)) = (read_filters parse (bw_now b))\<lparr>tf_amountMin := parsePositiveNumericString (Some v)\<rparr>"
    "read_filters parse (bw_now (setAmountMax v b)) = (read_filters parse (bw_now b))\<lparr>tf_amountMax := parsePositiveNumericString (Some v)\<rparr>"
    by (simp_all add: callbacks readers)
  show "\<not> hasActiveFilters (read_filters parse (bw_now (clearAll b)))"
    by (simp add: callbacks readers parseCommaList_def hasActiveFilters_def)
  show "\<forall>b' \<in> {setTypes ts b, setStatuses ss b, setSearch v b, setAsset v b, setDateFrom v b, setDateTo v b, setAmountMin v b,
      setAmountMax v b, clearAll b}. sp_get (bw_now b') ''page'' = Some ''1'' \<and> bw_back b' = bw_back b"
    by (simp add: callbacks)
qed

theorem filters_roundtrip_witness:
  "tf_types (read_filters (\<lambda>_. None) (bw_now (setTypes [''deposit'', ''trade''] \<lparr>bw_back = [], bw_now = [(''search'', ''x'')]\<rparr>)))
    = [''deposit'', ''trade'']"
proof -
  have "set [''deposit'', ''trade''] \<subseteq> set VALID_TX_TYPES" "set [] \<subseteq> set VALID_TX_STATUSES"
    by (simp_all add: VALID_TX_TYPES_def)
  from filters_roundtrip[OF this, THEN conjunct1] show ?thesis by simp
qed

section \<open>A table read back\<close>

lemma get_fold_filters:
  "distinct (map fst fs) \<Longrightarrow> sp_get (fold apply_filter fs sp) k =
    (case map_of fs k of None \<Rightarrow> sp_get sp k | Some v \<Rightarrow> if truthy_str v then v else None)"
proof (induction fs arbitrary: sp)
  case (Cons f fs)
  have "map_of fs (fst f) = None" using Cons.prems by (simp add: map_of_eq_None_iff)
  with Cons show ?case
    by (cases f) (auto simp: apply_filter_def truthy_str_def split: option.splits)
qed simp

lemma distinct_merged: "distinct (map fst base) \<Longrightarrow> distinct (map fst (fold (\<lambda>(k, v). AList.update k v) new base))"
  by (induction new arbitrary: base) (auto simp: distinct_update)

lemma map_of_merged:
  "distinct (map fst new) \<Longrightarrow> map_of (fold (\<lambda>(k, v). AList.update k v) new base) k =
    (case map_of new k of None \<Rightarrow> map_of base k | Some v \<Rightarrow> Some v)"
proof (induction new arbitrary: base)
  case (Cons p new)
  have "map_of new (fst p) = None" using Cons.prems by (simp add: map_of_eq_None_iff)
  with Cons show ?case by (cases p) (auto simp: update_conv' split: option.splits)
qed simp

lemma map_of_tagged: "map_of (map (\<lambda>(k, v). (k, Some v)) fs) k = map_option Some (map_of fs k)"
  by (induction fs) auto

definition RESERVED :: "string set" where
  "RESERVED = {''page'', ''pageSize'', ''sortBy'', ''sortDirection'', ''direction''}"

text \<open>A size read from the address is positive and at most a hundred.\<close>

lemma page_size_bounds:
  "0 < nullish (uc_defaultPageSize cfg) 25 \<Longrightarrow> 0 < us_pageSize (read_url_state to_number cfg sp)
    \<and> us_pageSize (read_url_state to_number cfg sp) \<le> max 100 (nullish (uc_defaultPageSize cfg) 25)"
  by (auto simp: read_url_state_def positive_def split: option.splits if_splits)

text \<open>
  Filters of a table survive the address bar: after \<open>setFilters\<close> each filter reads as its new value, or as the
  one it had when it was not named, an empty one falling back to its default; the page is the first, size and order
  are kept, and going back restores the parameters.
\<close>

theorem table_filters_roundtrip:
  assumes "uc_defaultFilters cfg = Some ds" "distinct (map fst ds)" "fst ` set ds \<inter> RESERVED = {}"
    and "distinct (map fst new)" "fst ` set new \<subseteq> fst ` set ds" "to_number (num 1) = Some 1"
    and "st = read_url_state to_number cfg (bw_now b)"
    and "st' = read_url_state to_number cfg (bw_now (setFilters num st new b))"
  shows "\<forall>(k, d) \<in> set ds. map_of (us_filters st') k =
      (let v = (case map_of new k of None \<Rightarrow> map_of (us_filters st) k | Some v \<Rightarrow> v) in Some (if truthy_str v then the v else d))"
    and "us_page st' = 1" "us_pageSize st' = us_pageSize st" "us_sortBy st' = us_sortBy st"
    and "us_sortDirection st' = us_sortDirection st" "go_back (setFilters num st new b) = b"
proof -
  let ?fs = "merged_filters st new" and ?s1 = "sp_set ''page'' (num 1) (bw_now b)"
  have now: "bw_now (setFilters num st new b) = fold apply_filter ?fs ?s1"
    by (simp add: setFilters_def updateUrl_def setSearchParams_def with_updates_def no_updates_def nullish_def Let_def)
  have keys: "map fst (us_filters st) = map fst ds"
    using assms(1,7) by (simp add: read_url_state_def nullish_def comp_def split_def)
  have dist: "distinct (map fst ?fs)" unfolding merged_filters_def
    by (rule distinct_merged) (use keys assms(2) in \<open>simp add: comp_def split_def\<close>)
  have look: "map_of ?fs k = (case map_of new k of None \<Rightarrow> map_option Some (map_of (us_filters st) k) | Some v \<Rightarrow> Some v)" for k
    unfolding merged_filters_def map_of_merged[OF assms(4)] map_of_tagged ..
  have get: "sp_get (fold apply_filter ?fs ?s1) k =
      (case map_of ?fs k of None \<Rightarrow> sp_get ?s1 k | Some v \<Rightarrow> if truthy_str v then v else None)" for k
    by (rule get_fold_filters[OF dist])
  have reserved: "sp_get (fold apply_filter ?fs ?s1) k = sp_get ?s1 k" if "k \<in> RESERVED" for k
  proof -
    have "k \<notin> fst ` set ds" using assms(3) that by blast
    moreover have "fst ` set (us_filters st) = fst ` set ds" using keys by (metis set_map)
    ultimately have "map_of new k = None" "map_of (us_filters st) k = None"
      using assms(5) by (auto simp: map_of_eq_None_iff)
    then show ?thesis by (simp add: get look)
  qed
  have r: "sp_get (fold apply_filter ?fs ?s1) ''page'' = Some (num 1)"
    "sp_get (fold apply_filter ?fs ?s1) ''pageSize'' = sp_get (bw_now b) ''pageSize''"
    "sp_get (fold apply_filter ?fs ?s1) ''sortBy'' = sp_get (bw_now b) ''sortBy''"
    "sp_get (fold apply_filter ?fs ?s1) ''direction'' = sp_get (bw_now b) ''direction''"
    "sp_get (fold apply_filter ?fs ?s1) ''sortDirection'' = sp_get (bw_now b) ''sortDirection''"
    using reserved by (simp_all add: RESERVED_def)
  show "us_page st' = 1" using assms(6,8) by (simp add: now r read_url_state_def positive_def)
  let ?read = "read_url_state to_number cfg"
  have "us_pageSize (?read (fold apply_filter ?fs ?s1)) = us_pageSize (?read (bw_now b))"
    "us_sortBy (?read (fold apply_filter ?fs ?s1)) = us_sortBy (?read (bw_now b))"
    "us_sortDirection (?read (fold apply_filter ?fs ?s1)) = us_sortDirection (?read (bw_now b))"
    by (simp_all add: r read_url_state_def cong: option.case_cong)
  then show "us_pageSize st' = us_pageSize st" "us_sortBy st' = us_sortBy st" "us_sortDirection st' = us_sortDirection st"
    unfolding assms(8) now assms(7)[symmetric] .
  show "go_back (setFilters num st new b) = b"
    by (simp add: setFilters_def updateUrl_def setSearchParams_def go_back_def)
  have read: "map_of (us_filters st') k = Some (case sp_get (fold apply_filter ?fs ?s1) k of None \<Rightarrow> d | Some v \<Rightarrow> v)"
    if "(k, d) \<in> set ds" for k d
  proof -
    have "map_of (map (\<lambda>(k, d). (k, case sp_get sp k of None \<Rightarrow> d | Some v \<Rightarrow> v)) ds) k = map_option (\<lambda>d. case sp_get sp k of None \<Rightarrow> d | Some v \<Rightarrow> v) (map_of ds k)" for sp
      by (induction ds) (auto split: option.splits)
    moreover have "map_of ds k = Some d" using assms(2) that by simp
    ultimately show ?thesis by (simp add: assms(1,8) now read_url_state_def nullish_def)
  qed
  show "\<forall>(k, d) \<in> set ds. map_of (us_filters st') k =
      (let v = (case map_of new k of None \<Rightarrow> map_of (us_filters st) k | Some v \<Rightarrow> v) in Some (if truthy_str v then the v else d))"
  proof (intro ballI, clarify)
    fix k d
    assume kd: "(k, d) \<in> set ds"
    then have "map_of (us_filters st) k \<noteq> None" using keys by (metis map_of_eq_None_iff fst_conv image_eqI set_map)
    with read[OF kd] show "map_of (us_filters st') k =
      (let v = (case map_of new k of None \<Rightarrow> map_of (us_filters st) k | Some v \<Rightarrow> v) in Some (if truthy_str v then the v else d))"
      by (auto simp: get look truthy_str_def Let_def split: option.splits)
  qed
qed

definition sample_table :: url_state_config where
  "sample_table = \<lparr>uc_defaultPage = None, uc_defaultPageSize = None, uc_defaultSortBy = None, uc_defaultSortDirection = None,
     uc_defaultFilters = Some [(''status'', ''all''), (''search'', [])]\<rparr>"

theorem table_filters_roundtrip_witness:
  "\<exists>st st' b. st = read_url_state (\<lambda>_. Some 1) sample_table (bw_now b)
    \<and> st' = read_url_state (\<lambda>_. Some 1) sample_table (bw_now (setFilters (\<lambda>_. ''1'') st [(''status'', Some ''failed'')] b))
    \<and> map_of (us_filters st') ''status'' = Some ''failed'' \<and> us_page st' = 1"
proof -
  define b where "b = \<lparr>bw_back = [], bw_now = [(''status'', ''pending''), (''page'', ''3'')]\<rparr>"
  define st where "st = read_url_state (\<lambda>_. Some 1) sample_table (bw_now b)"
  define st' where "st' = read_url_state (\<lambda>_. Some 1) sample_table (bw_now (setFilters (\<lambda>_. ''1'') st [(''status'', Some ''failed'')] b))"
  have "uc_defaultFilters sample_table = Some [(''status'', ''all''), (''search'', [])]" by (simp add: sample_table_def)
  note read = table_filters_roundtrip[OF this _ _ _ _ _ st_def st'_def]
  have "map_of (us_filters st') ''status'' = Some ''failed''" using read(1) by (simp add: RESERVED_def truthy_str_def)
  moreover have "us_page st' = 1" using read(2) by (simp add: RESERVED_def)
  ultimately show ?thesis using st_def st'_def by blast
qed

end
