(* ===== verification/OptimisticCache.thy ===== *)
theory OptimisticCache
  imports Decimals
begin

text \<open>
  Deposits and withdrawals in the web application with an optimistic view of their effect,
  \<open>frontend/src/hooks/useVaultMutations.ts\<close>.  The query client of TanStack is a parameter: reading, writing and
  invalidating a key, with the law that writing \<open>undefined\<close> leaves the data as it is.
\<close>

section \<open>What the cache holds\<close>

record portfolio_holding =
  ph_id :: string
  ph_asset :: string
  ph_vaultName :: string
  ph_symbol :: string
  ph_shares :: rat
  ph_apy :: rat
  ph_valueUsd :: rat
  ph_unrealizedGainUsd :: rat
  ph_issuer :: string
  ph_status :: string

text \<open>Of the summary the fields the mutations write; the others are \<open>vs_rest\<close>.\<close>

record 'r vault_summary =
  vs_tvl :: rat
  vs_updatedAt :: time
  vs_rest :: 'r

record wallet_tx =
  wt_id :: string
  wt_type :: string
  wt_status :: string
  wt_amount :: string
  wt_asset :: string
  wt_timestamp :: time
  wt_transactionHash :: string

datatype query_key = Balance string | PortfolioOf string | Summary | Transactions string

datatype 'r query_value =
    Amount rat
  | Holdings "portfolio_holding list"
  | SummaryOf "'r vault_summary"
  | Txs "wallet_tx list"

record ('s, 'r) query_ops =
  qc_get :: "'s \<Rightarrow> query_key \<Rightarrow> 'r query_value option"
  qc_set :: "query_key \<Rightarrow> 'r query_value option \<Rightarrow> 's \<Rightarrow> 's"
  qc_invalidate :: "query_key \<Rightarrow> 's \<Rightarrow> 's"

locale query_cache =
  fixes Q :: "('s, 'r) query_ops"
  assumes get_set: "qc_get Q (qc_set Q k v s) = (case v of None \<Rightarrow> qc_get Q s | Some x \<Rightarrow> (qc_get Q s)(k \<mapsto> x))"
    and get_invalidate: "qc_get Q (qc_invalidate Q k s) = qc_get Q s"

definition map_cache :: "(query_key \<rightharpoonup> 'r query_value, 'r) query_ops" where
  "map_cache = \<lparr>qc_get = (\<lambda>s. s), qc_set = (\<lambda>k v s. case v of None \<Rightarrow> s | Some x \<Rightarrow> s(k \<mapsto> x)), qc_invalidate = (\<lambda>k s. s)\<rparr>"

interpretation map_cache: query_cache map_cache
  by unfold_locales (simp_all add: map_cache_def split: option.split)

section \<open>The optimistic values\<close>

datatype vault_action = Deposit | Withdrawal

definition action_name :: "vault_action \<Rightarrow> string" where
  "action_name a = (case a of Deposit \<Rightarrow> ''deposit'' | Withdrawal \<Rightarrow> ''withdrawal'')"

definition buildPendingTransaction :: "time \<Rightarrow> vault_action \<Rightarrow> rat \<Rightarrow> wallet_tx" where
  "buildPendingTransaction now action amount =
     \<lparr>wt_id = ''optimistic-'' @ action_name action @ ''-'' @ show_int now, wt_type = action_name action, wt_status = ''pending'',
      wt_amount = show_fixed 2 (round_to 2 amount), wt_asset = ''USDC'', wt_timestamp = now,
      wt_transactionHash = ''pending-'' @ show_int now\<rparr>"

definition updateHoldings :: "portfolio_holding list option \<Rightarrow> rat \<Rightarrow> portfolio_holding list option" where
  "updateHoldings current deltaUsd =
     (case current of
        Some (h # hs) \<Rightarrow> Some (h\<lparr>ph_valueUsd := max (ph_valueUsd h + deltaUsd) 0, ph_status := ''pending''\<rparr> # hs)
      | c \<Rightarrow> c)"

definition new_tvl :: "vault_action \<Rightarrow> rat \<Rightarrow> rat \<Rightarrow> rat" where
  "new_tvl action amount tvl = (case action of Deposit \<Rightarrow> tvl + amount | Withdrawal \<Rightarrow> max (tvl - amount) 0)"

definition signed_amount :: "vault_action \<Rightarrow> rat \<Rightarrow> rat" where
  "signed_amount action amount = (case action of Deposit \<Rightarrow> amount | Withdrawal \<Rightarrow> - amount)"

section \<open>A mutation\<close>

record mutation_params =
  mu_walletAddress :: string
  mu_amount :: rat

text \<open>What is sent: the amount of a deposit, the shares of a withdrawal.\<close>

definition submitted :: "vault_action \<Rightarrow> rat \<Rightarrow> rat" where
  "submitted action amount = (case action of Deposit \<Rightarrow> amount | Withdrawal \<Rightarrow> of_int (max 1 (js_round amount)))"

record 'r optimistic_snapshot =
  os_balance :: "'r query_value option"
  os_holdings :: "'r query_value option"
  os_summary :: "'r query_value option"
  os_transactions :: "'r query_value option"

definition take_snapshot :: "('s, 'r) query_ops \<Rightarrow> string \<Rightarrow> 's \<Rightarrow> 'r optimistic_snapshot" where
  "take_snapshot Q wallet s =
     \<lparr>os_balance = qc_get Q s (Balance wallet), os_holdings = qc_get Q s (PortfolioOf wallet), os_summary = qc_get Q s Summary,
      os_transactions = qc_get Q s (Transactions wallet)\<rparr>"

definition next_balance :: "rat \<Rightarrow> 'r query_value option \<Rightarrow> 'r query_value option" where
  "next_balance amount v = Some (Amount (max ((case v of Some (Amount b) \<Rightarrow> b | _ \<Rightarrow> 0) - amount) 0))"

definition next_holdings :: "vault_action \<Rightarrow> rat \<Rightarrow> 'r query_value option \<Rightarrow> 'r query_value option" where
  "next_holdings action amount v =
     (case v of Some (Holdings hs) \<Rightarrow> map_option Holdings (updateHoldings (Some hs) (signed_amount action amount)) | v \<Rightarrow> v)"

definition next_summary :: "time \<Rightarrow> vault_action \<Rightarrow> rat \<Rightarrow> 'r query_value option \<Rightarrow> 'r query_value option" where
  "next_summary now action amount v =
     (case v of
        Some (SummaryOf u) \<Rightarrow> Some (SummaryOf (u\<lparr>vs_tvl := new_tvl action amount (vs_tvl u), vs_updatedAt := now\<rparr>))
      | v \<Rightarrow> v)"

definition next_transactions :: "time \<Rightarrow> vault_action \<Rightarrow> rat \<Rightarrow> 'r query_value option \<Rightarrow> 'r query_value option" where
  "next_transactions now action amount v =
     Some (Txs (buildPendingTransaction now action amount # (case v of Some (Txs xs) \<Rightarrow> xs | _ \<Rightarrow> [])))"

definition update_query :: "('s, 'r) query_ops \<Rightarrow> query_key \<Rightarrow> ('r query_value option \<Rightarrow> 'r query_value option) \<Rightarrow> 's \<Rightarrow> 's" where
  "update_query Q k f s = qc_set Q k (f (qc_get Q s k)) s"

definition onMutate ::
  "('s, 'r) query_ops \<Rightarrow> time \<Rightarrow> vault_action \<Rightarrow> mutation_params \<Rightarrow> 's \<Rightarrow> 'r optimistic_snapshot \<times> 's" where
  "onMutate Q now action p s =
     (let wallet = mu_walletAddress p; amount = mu_amount p;
          s1 = update_query Q (Balance wallet) (next_balance amount) s;
          s2 = update_query Q (PortfolioOf wallet) (next_holdings action amount) s1;
          s3 = update_query Q Summary (next_summary now action amount) s2;
          s4 = update_query Q (Transactions wallet) (next_transactions now action amount) s3
      in (take_snapshot Q wallet s, s4))"

definition onError :: "('s, 'r) query_ops \<Rightarrow> mutation_params \<Rightarrow> 'r optimistic_snapshot \<Rightarrow> 's \<Rightarrow> 's" where
  "onError Q p snapshot s =
     (let wallet = mu_walletAddress p
      in qc_set Q (Transactions wallet) (os_transactions snapshot) (qc_set Q Summary (os_summary snapshot)
           (qc_set Q (PortfolioOf wallet) (os_holdings snapshot) (qc_set Q (Balance wallet) (os_balance snapshot) s))))"

definition mutation_onSuccess :: "('s, 'r) query_ops \<Rightarrow> mutation_params \<Rightarrow> 's \<Rightarrow> 's" where
  "mutation_onSuccess Q p s =
     (let wallet = mu_walletAddress p
      in qc_invalidate Q (Transactions wallet) (qc_invalidate Q Summary
           (qc_invalidate Q (PortfolioOf wallet) (qc_invalidate Q (Balance wallet) s))))"

text \<open>A mutation that no other one overlaps; \<open>outcome\<close> is that of the submission.\<close>

definition run_mutation ::
  "('s, 'r) query_ops \<Rightarrow> time \<Rightarrow> vault_action \<Rightarrow> mutation_params \<Rightarrow> string + unit \<Rightarrow> 's \<Rightarrow> 's" where
  "run_mutation Q now action p outcome s =
     (let (snapshot, s1) = onMutate Q now action p s
      in case outcome of Inl e \<Rightarrow> onError Q p snapshot s1 | Inr u \<Rightarrow> mutation_onSuccess Q p s1)"

definition useDepositMutation :: "('s, 'r) query_ops \<Rightarrow> time \<Rightarrow> mutation_params \<Rightarrow> string + unit \<Rightarrow> 's \<Rightarrow> 's" where
  "useDepositMutation Q now = run_mutation Q now Deposit"

definition useWithdrawMutation :: "('s, 'r) query_ops \<Rightarrow> time \<Rightarrow> mutation_params \<Rightarrow> string + unit \<Rightarrow> 's \<Rightarrow> 's" where
  "useWithdrawMutation Q now = run_mutation Q now Withdrawal"

section \<open>Rollback\<close>

definition touched :: "string \<Rightarrow> query_key set" where
  "touched wallet = {Balance wallet, PortfolioOf wallet, Summary, Transactions wallet}"

context query_cache
begin

lemma get_update: "qc_get Q (update_query Q k f s) = (\<lambda>j. if j = k \<and> f (qc_get Q s k) \<noteq> None then f (qc_get Q s k) else qc_get Q s j)"
  by (auto simp: update_query_def get_set fun_eq_iff split: option.splits)

lemma mutate_elsewhere: "k \<notin> touched (mu_walletAddress p) \<Longrightarrow> qc_get Q (snd (onMutate Q now action p s)) k = qc_get Q s k"
  by (simp add: onMutate_def touched_def Let_def get_update)

lemma get_error:
  "qc_get Q (onError Q p snap s) k =
     (let old = (if k = Balance (mu_walletAddress p) then os_balance snap
                 else if k = PortfolioOf (mu_walletAddress p) then os_holdings snap
                 else if k = Summary then os_summary snap
                 else if k = Transactions (mu_walletAddress p) then os_transactions snap else None)
      in if old = None then qc_get Q s k else old)"
  by (auto simp: onError_def Let_def get_set split: option.splits)

lemma rollback:
  "onMutate Q now action p s = (snap, s1) \<Longrightarrow>
     qc_get Q (onError Q p snap s1) k =
       (if k \<in> {Balance (mu_walletAddress p), Transactions (mu_walletAddress p)} \<and> qc_get Q s k = None
        then qc_get Q s1 k else qc_get Q s k)"
  by (auto simp: get_error onMutate_def take_snapshot_def Let_def get_update next_holdings_def next_summary_def
      split: option.splits query_value.splits)

end

text \<open>C35.  A failed mutation that nothing else has interfered with puts back all data the cache held before it, whatever the
  cache; only a balance or a list of transactions the cache did not hold keeps the value the mutation made up.\<close>

theorem rollback_restores:
  assumes "query_cache Q" and "onMutate Q now action p s = (snapshot, s1)"
  shows "qc_get Q (onError Q p snapshot s1) k =
    (if qc_get Q s k = None \<and> k \<in> {Balance (mu_walletAddress p), Transactions (mu_walletAddress p)}
     then qc_get Q s1 k else qc_get Q s k)"
  using query_cache.rollback[OF assms, of k] by auto

definition sample_params :: mutation_params where
  "sample_params = \<lparr>mu_walletAddress = ''G1'', mu_amount = 10\<rparr>"

lemma rollback_restores_witness:
  "qc_get map_cache (onError map_cache sample_params (fst (onMutate map_cache 0 Deposit sample_params [Balance ''G1'' \<mapsto> Amount 100]))
      (snd (onMutate map_cache 0 Deposit sample_params [Balance ''G1'' \<mapsto> Amount (100 :: rat) :: unit query_value]))) (Balance ''G1'') = Some (Amount 100)"
  by (subst rollback_restores[OF map_cache.query_cache_axioms surjective_pairing]) (simp add: map_cache_def)

text \<open>A balance that was not known is shown as zero after the failure.\<close>

lemma unknown_balance_becomes_zero:
  assumes "query_cache Q" "qc_get Q s (Balance (mu_walletAddress p)) = None" "0 \<le> mu_amount p"
    and "onMutate Q now action p s = (snapshot, s1)"
  shows "qc_get Q (onError Q p snapshot s1) (Balance (mu_walletAddress p)) = Some (Amount 0)"
  using assms(2,3,4) query_cache.rollback[OF assms(1,4), of "Balance (mu_walletAddress p)"]
  by (auto simp: onMutate_def Let_def query_cache.get_update[OF assms(1)] next_balance_def)

text \<open>Two mutations at once: the failure of the first wipes out the second, the failure of the second brings the first back.\<close>

lemma mutate_balance:
  assumes "query_cache Q" "onMutate Q now action p s = (snap, s1)"
  shows "os_balance snap = qc_get Q s (Balance (mu_walletAddress p))"
    and "qc_get Q s1 (Balance (mu_walletAddress p)) = next_balance (mu_amount p) (qc_get Q s (Balance (mu_walletAddress p)))"
  using assms(2) by (auto simp: onMutate_def take_snapshot_def Let_def query_cache.get_update[OF assms(1)] next_balance_def)

lemma stale_rollback:
  assumes Q: "query_cache Q" and "qc_get Q s (Balance (mu_walletAddress p)) = Some (Amount 100)" "mu_amount p = 10"
    and "onMutate Q t action p s = (snap1, s1)" "onMutate Q u action1 p s1 = (snap2, s2)"
  shows "qc_get Q s2 (Balance (mu_walletAddress p)) = Some (Amount 80)
    \<and> qc_get Q (onError Q p snap1 s2) (Balance (mu_walletAddress p)) = Some (Amount 100)
    \<and> qc_get Q (onError Q p snap2 (onError Q p snap1 s2)) (Balance (mu_walletAddress p)) = Some (Amount 90)"
  using mutate_balance[OF Q assms(4)] mutate_balance[OF Q assms(5)]
  by (simp add: query_cache.get_error[OF Q] Let_def assms(2,3) next_balance_def)

text \<open>At least one share is redeemed, also for an amount of nearly nothing.\<close>

lemma tiny_withdrawal: "0 < amount \<Longrightarrow> amount < 1 / 2 \<Longrightarrow> submitted Withdrawal amount = 1"
proof -
  assume "0 < amount" "amount < 1 / 2"
  then have "\<lfloor>amount + 1 / 2\<rfloor> = 0" by (simp add: floor_eq_iff)
  then show ?thesis by (simp add: submitted_def js_round_def)
qed

end
