(* ===== verification/ClientHooks.thy ===== *)
theory ClientHooks
  imports Lifecycle
begin

text \<open>
  Hooks of the web application that watch the server and the chain (\<open>frontend/src/hooks\<close>): the timeline of a
  transaction (\<open>useTransactionTimeline.ts\<close>) as steps over its references, timers and requests in flight, the polling
  guard (\<open>usePolling.ts\<close>) and the view of the server's health (\<open>useHealthStatus.ts\<close>).
\<close>

section \<open>The timeline of a transaction\<close>

datatype tx_status = Tx_pending | Tx_confirming | Tx_finalized | Tx_failed

datatype horizon_reply = Found bool | Not_found_404 | Bad_status int | No_reply

datatype tx_result = Is_finalized | Is_failed | Is_pending

text \<open>\<^const>\<open>None\<close>: it throws.\<close>

definition fetchTxStatus :: "horizon_reply \<Rightarrow> tx_result option" where
  "fetchTxStatus res =
     (case res of
        Not_found_404 \<Rightarrow> Some Is_pending
      | Bad_status n \<Rightarrow> None
      | No_reply \<Rightarrow> None
      | Found successful \<Rightarrow> Some (if successful then Is_finalized else Is_failed))"

definition MAX_POLL_ATTEMPTS :: nat where
  "MAX_POLL_ATTEMPTS = 40"

datatype loop_phase = Waiting | Fetching

text \<open>A loop is a run of the polling effect, numbered, with its hash.  \<open>tl_finalized\<close> lists the calls of \<open>onFinalized\<close>,
  \<open>tl_fetches\<close> the hashes asked for, both in order.\<close>

record timeline =
  tl_status :: tx_status
  tl_errorMessage :: "string option"
  tl_attempts :: nat
  tl_isTerminal :: bool
  tl_finalized :: "bool list"
  tl_fetches :: "string list"
  tl_loops :: "(nat, string \<times> loop_phase) js_map"
  tl_effect :: nat
  tl_cleanup :: bool

definition new_timeline :: timeline where
  "new_timeline =
     \<lparr>tl_status = Tx_pending, tl_errorMessage = None, tl_attempts = 0, tl_isTerminal = False, tl_finalized = [],
      tl_fetches = [], tl_loops = [], tl_effect = 0, tl_cleanup = False\<rparr>"

definition end_loop :: "nat \<Rightarrow> timeline \<Rightarrow> timeline" where
  "end_loop i s = s\<lparr>tl_loops := AList.delete i (tl_loops s)\<rparr>"

definition finish_timeline :: "nat \<Rightarrow> tx_status \<Rightarrow> string option \<Rightarrow> bool \<Rightarrow> timeline \<Rightarrow> timeline" where
  "finish_timeline i status message success s =
     end_loop i (s\<lparr>tl_isTerminal := True, tl_status := status, tl_errorMessage := (if message = None then tl_errorMessage s else message),
       tl_finalized := tl_finalized s @ [success]\<rparr>)"

definition timeout_message :: string where
  "timeout_message = ''Transaction timed out. It may still confirm on-chain.''"

definition rejected_message :: string where
  "rejected_message = ''Transaction was rejected by the network.''"

definition poll :: "nat \<Rightarrow> string \<Rightarrow> timeline \<Rightarrow> timeline" where
  "poll i h s =
     (if tl_isTerminal s then end_loop i s
      else
        let n = Suc (tl_attempts s);
            s1 = s\<lparr>tl_attempts := n, tl_status := (if n = 2 then Tx_confirming else tl_status s)\<rparr>
        in if MAX_POLL_ATTEMPTS < n then finish_timeline i Tx_failed (Some timeout_message) False s1
           else s1\<lparr>tl_fetches := tl_fetches s1 @ [h], tl_loops := AList.update i (h, Fetching) (tl_loops s1)\<rparr>)"

definition poll_answered :: "nat \<Rightarrow> string \<Rightarrow> horizon_reply \<Rightarrow> timeline \<Rightarrow> timeline" where
  "poll_answered i h res s =
     (case fetchTxStatus res of
        Some Is_finalized \<Rightarrow> finish_timeline i Tx_finalized None True s
      | Some Is_failed \<Rightarrow> finish_timeline i Tx_failed (Some rejected_message) False s
      | _ \<Rightarrow> s\<lparr>tl_loops := AList.update i (h, Waiting) (tl_loops s)\<rparr>)"

text \<open>The clean-up of an effect clears its timer; a request in flight goes on.  An effect without a hash has none.\<close>

definition leave_effect :: "timeline \<Rightarrow> timeline" where
  "leave_effect s =
     (if \<not> tl_cleanup s then s
      else s\<lparr>tl_isTerminal := True, tl_cleanup := False,
             tl_loops := (case map_of (tl_loops s) (tl_effect s) of
               Some (h, Waiting) \<Rightarrow> AList.delete (tl_effect s) (tl_loops s) | _ \<Rightarrow> tl_loops s)\<rparr>)"

definition enter_effect :: "string option \<Rightarrow> timeline \<Rightarrow> timeline" where
  "enter_effect txHash s =
     (let s1 = s\<lparr>tl_effect := Suc (tl_effect s)\<rparr>
      in case txHash of
           None \<Rightarrow> s1
         | Some h \<Rightarrow> if h = [] then s1
             else poll (tl_effect s1) h
               (s1\<lparr>tl_isTerminal := False, tl_attempts := 0, tl_status := Tx_pending, tl_errorMessage := None, tl_cleanup := True\<rparr>))"

definition reset_timeline :: "timeline \<Rightarrow> timeline" where
  "reset_timeline s = s\<lparr>tl_status := Tx_pending, tl_errorMessage := None, tl_attempts := 0, tl_isTerminal := False\<rparr>"

datatype timeline_event = Track "string option" | Timer nat | Reply nat horizon_reply | Reset | Unmount

fun timeline_step :: "timeline_event \<Rightarrow> timeline \<Rightarrow> timeline" where
  "timeline_step (Track txHash) s = enter_effect txHash (leave_effect s)"
| "timeline_step (Timer i) s = (case map_of (tl_loops s) i of Some (h, Waiting) \<Rightarrow> poll i h s | _ \<Rightarrow> s)"
| "timeline_step (Reply i res) s = (case map_of (tl_loops s) i of Some (h, Fetching) \<Rightarrow> poll_answered i h res s | _ \<Rightarrow> s)"
| "timeline_step Reset s = reset_timeline s"
| "timeline_step Unmount s = leave_effect s"

fun timeline_run :: "timeline_event list \<Rightarrow> timeline \<Rightarrow> timeline" where
  "timeline_run [] s = s"
| "timeline_run (e # es) s = timeline_run es (timeline_step e s)"

text \<open>One hash from the first poll to the end: the replies in order, each wait over.\<close>

fun follow :: "nat \<Rightarrow> (nat \<Rightarrow> horizon_reply) \<Rightarrow> nat \<Rightarrow> timeline_event list" where
  "follow i replies 0 = []"
| "follow i replies (Suc n) = follow i replies n @ [Reply i (replies n), Timer i]"

section \<open>One hash\<close>

text \<open>A decisive reply ends the tracking.\<close>

definition decisive :: "horizon_reply \<Rightarrow> bool" where
  "decisive r \<longleftrightarrow> fetchTxStatus r \<in> {Some Is_finalized, Some Is_failed}"

lemma timeline_run_append: "timeline_run (a @ b) s = timeline_run b (timeline_run a s)"
  by (induction a s rule: timeline_run.induct) auto

text \<open>The state of the first effect after \<open>n\<close> polls without a decisive reply, the last one unanswered.\<close>

definition polling :: "string \<Rightarrow> nat \<Rightarrow> timeline" where
  "polling h n = \<lparr>tl_status = (if n \<le> 1 then Tx_pending else Tx_confirming), tl_errorMessage = None, tl_attempts = n,
     tl_isTerminal = False, tl_finalized = [], tl_fetches = replicate n h, tl_loops = [(1, h, Fetching)], tl_effect = 1, tl_cleanup = True\<rparr>"

definition ended :: "string \<Rightarrow> nat \<Rightarrow> nat \<Rightarrow> tx_status \<Rightarrow> string option \<Rightarrow> bool \<Rightarrow> timeline" where
  "ended h attempts fetches status message success = \<lparr>tl_status = status, tl_errorMessage = message, tl_attempts = attempts,
     tl_isTerminal = True, tl_finalized = [success], tl_fetches = replicate fetches h, tl_loops = [], tl_effect = 1, tl_cleanup = True\<rparr>"

lemma track_first: "h \<noteq> [] \<Longrightarrow> timeline_step (Track (Some h)) new_timeline = polling h 1"
  by (simp add: leave_effect_def enter_effect_def new_timeline_def poll_def polling_def MAX_POLL_ATTEMPTS_def Let_def)

lemma undecided_step:
  "\<not> decisive r \<Longrightarrow> 1 \<le> n \<Longrightarrow> n < MAX_POLL_ATTEMPTS \<Longrightarrow> timeline_run [Reply 1 r, Timer 1] (polling h n) = polling h (Suc n)"
  by (auto simp: polling_def poll_answered_def poll_def decisive_def Let_def MAX_POLL_ATTEMPTS_def replicate_append_same
      simp flip: replicate_Suc split: option.splits tx_result.splits)

lemma undecided_run:
  "\<forall>j < n. \<not> decisive (replies j) \<Longrightarrow> n < MAX_POLL_ATTEMPTS \<Longrightarrow> timeline_run (follow 1 replies n) (polling h 1) = polling h (Suc n)"
proof (induction n)
  case (Suc n)
  then show ?case using undecided_step[of "replies n" "Suc n" h] by (simp add: timeline_run_append)
qed simp

lemma ended_stays: "timeline_run (follow 1 replies n) (ended h a f st m b) = ended h a f st m b"
  by (induction n) (simp_all add: timeline_run_append ended_def)

lemma follow_split: "k \<le> n \<Longrightarrow> follow i replies n = follow i replies k @ follow i (\<lambda>j. replies (k + j)) (n - k)"
proof (induction n)
  case (Suc n)
  then show ?case by (cases "k = Suc n") (simp_all add: Suc_diff_le)
qed simp

lemma decided_step:
  "decisive r \<Longrightarrow> timeline_run [Reply 1 r, Timer 1] (polling h n) =
     (if fetchTxStatus r = Some Is_finalized then ended h n n Tx_finalized None True
      else ended h n n Tx_failed (Some rejected_message) False)"
  by (auto simp: decisive_def polling_def ended_def poll_answered_def finish_timeline_def end_loop_def)

lemma last_step:
  "\<not> decisive r \<Longrightarrow> timeline_run [Reply 1 r, Timer 1] (polling h MAX_POLL_ATTEMPTS) =
     ended h (Suc MAX_POLL_ATTEMPTS) MAX_POLL_ATTEMPTS Tx_failed (Some timeout_message) False"
  by (auto simp: polling_def ended_def poll_answered_def poll_def decisive_def finish_timeline_def end_loop_def Let_def
      MAX_POLL_ATTEMPTS_def split: option.splits tx_result.splits)



section \<open>Several hashes\<close>

text \<open>A reply for the hash tracked before settles the one tracked now, and of two loops both go on.\<close>

lemma reply_for_other_hash:
  "tl_status (timeline_run [Track (Some ''aa''), Track (Some ''bb''), Reply 1 (Found True)] new_timeline) = Tx_finalized"
  "tl_finalized (timeline_run [Track (Some ''aa''), Track (Some ''bb''), Reply 1 (Found True)] new_timeline) = [True]"
  "tl_fetches (timeline_run [Track (Some ''aa''), Track (Some ''bb''), Reply 1 Not_found_404, Timer 1] new_timeline) = [''aa'', ''bb'', ''aa'']"
  by code_simp+

text \<open>After a reset nothing polls.\<close>

lemma reset_polls_nothing:
  "tl_loops (timeline_run [Track (Some ''aa''), Reply 1 (Found False), Reset] new_timeline) = []"
  by code_simp

section \<open>Polling\<close>

record polling_options =
  po_interval :: int
  po_enabled :: bool
  po_pauseOnHidden :: bool
  po_pauseOnOffline :: bool

record polling_state =
  ps_manualPause :: bool
  ps_isHidden :: bool
  ps_isOffline :: bool
  ps_isRefetching :: bool

datatype pause_reason = Hidden | Offline | Manual

definition getPauseReason :: "polling_options \<Rightarrow> polling_state \<Rightarrow> pause_reason option" where
  "getPauseReason o1 s =
     (if ps_manualPause s then Some Manual
      else if po_pauseOnHidden o1 \<and> ps_isHidden s then Some Hidden
      else if po_pauseOnOffline o1 \<and> ps_isOffline s then Some Offline
      else None)"

text \<open>Whether a refetch starts, and the state after.\<close>

definition refetch_begin :: "polling_state \<Rightarrow> bool \<times> polling_state" where
  "refetch_begin s = (if ps_isRefetching s then (False, s) else (True, s\<lparr>ps_isRefetching := True\<rparr>))"

definition refetch_end :: "polling_state \<Rightarrow> polling_state" where
  "refetch_end s = s\<lparr>ps_isRefetching := False\<rparr>"

definition handleOnline :: "polling_options \<Rightarrow> polling_state \<Rightarrow> bool \<times> polling_state" where
  "handleOnline o1 s =
     (let s1 = s\<lparr>ps_isOffline := False\<rparr>
      in if po_enabled o1 \<and> \<not> ps_manualPause s \<and> \<not> (po_pauseOnHidden o1 \<and> ps_isHidden s) then refetch_begin s1 else (False, s1))"

definition shouldPoll :: "polling_options \<Rightarrow> polling_state \<Rightarrow> bool" where
  "shouldPoll o1 s \<longleftrightarrow> po_enabled o1 \<and> \<not> ps_manualPause s \<and> \<not> (po_pauseOnHidden o1 \<and> ps_isHidden s)
     \<and> \<not> (po_pauseOnOffline o1 \<and> ps_isOffline s)"

record polling_view =
  pv_isPolling :: bool
  pv_isPaused :: bool
  pv_pauseReason :: "pause_reason option"

definition polling_result :: "polling_options \<Rightarrow> polling_state \<Rightarrow> polling_view" where
  "polling_result o1 s =
     \<lparr>pv_isPolling = (shouldPoll o1 s \<and> 0 < po_interval o1), pv_isPaused = (\<not> shouldPoll o1 s \<and> po_enabled o1),
      pv_pauseReason = (if po_enabled o1 then getPauseReason o1 s else None)\<rparr>"

definition poll_tick :: "polling_options \<Rightarrow> polling_state \<Rightarrow> bool \<times> polling_state" where
  "poll_tick o1 s = (if pv_isPolling (polling_result o1 s) then refetch_begin s else (False, s))"

lemma paused_has_reason: "pv_isPaused (polling_result o1 s) \<longleftrightarrow> pv_pauseReason (polling_result o1 s) \<noteq> None"
  by (auto simp: polling_result_def shouldPoll_def getPauseReason_def)

text \<open>Without an interval nothing is polled, and no pause is shown.\<close>

lemma no_interval_not_paused:
  "po_interval o1 \<le> 0 \<Longrightarrow> shouldPoll o1 s \<Longrightarrow> \<not> pv_isPolling (polling_result o1 s) \<and> \<not> pv_isPaused (polling_result o1 s)"
  by (simp add: polling_result_def)

section \<open>The view of the server's health\<close>

datatype health_state = Healthy | Degraded | Unhealthy

record health_status =
  hs_state :: health_state
  hs_message :: json
  hs_checks :: "(string \<times> json) list option"
  hs_lastChecked :: "time option"

definition INITIAL_STATUS :: health_status where
  "INITIAL_STATUS = \<lparr>hs_state = Healthy, hs_message = JStr ''All systems operational'', hs_checks = None, hs_lastChecked = None\<rparr>"

datatype health_reply = Health_aborted | Health_failed | Health_answer int json

definition fetchHealth :: "time \<Rightarrow> health_reply \<Rightarrow> health_status \<Rightarrow> health_status" where
  "fetchHealth now reply prev =
     (let unreachable = \<lparr>hs_state = Unhealthy, hs_message = JStr ''Unable to connect to health service'',
            hs_checks = hs_checks prev, hs_lastChecked = Some now\<rparr>
      in case reply of
           Health_aborted \<Rightarrow> prev
         | Health_failed \<Rightarrow> unreachable
         | Health_answer status JNull \<Rightarrow> unreachable
         | Health_answer status data \<Rightarrow>
             let props = (case data of JObj ps \<Rightarrow> ps | _ \<Rightarrow> []);
                 checks = (case map_of props ''checks'' of Some (JObj cs) \<Rightarrow> Some cs | _ \<Rightarrow> None);
                 downServices = map fst (filter (\<lambda>(k, v). v \<noteq> JStr ''up'') (nullish checks []))
             in if status < 200 \<or> 299 < status then
                  \<lparr>hs_state = Unhealthy,
                   hs_message = (case map_of props ''message'' of None \<Rightarrow> JStr ''System unavailable''
                     | Some JNull \<Rightarrow> JStr ''System unavailable'' | Some m \<Rightarrow> m),
                   hs_checks = checks, hs_lastChecked = Some now\<rparr>
                else if downServices \<noteq> [] then
                  \<lparr>hs_state = Degraded, hs_message = JStr (''Issues with: '' @ js_join '', '' downServices), hs_checks = checks,
                   hs_lastChecked = Some now\<rparr>
                else \<lparr>hs_state = Healthy, hs_message = JStr ''All systems operational'', hs_checks = checks, hs_lastChecked = Some now\<rparr>)"

text \<open>The server answers 503 when any check is down, so its health is never shown as degraded.\<close>

lemma server_never_degraded:
  assumes "r = fst (get_health cfg E nodeEnv t uptime value dbHealth answer g b)"
  shows "hs_state (fetchHealth now (Health_answer (rs_status r) (rs_body r)) prev) \<noteq> Degraded"
    and "rs_status r = 200 \<longleftrightarrow> hs_state (fetchHealth now (Health_answer (rs_status r) (rs_body r)) prev) = Healthy"
proof -
  obtain sn b1 where sn: "toHealthSnapshot cfg t b = (sn, b1)" by fastforce
  have ok: "filter (\<lambda>(k, v). v \<noteq> JStr ''up'') (map (\<lambda>(k, v). (k, JStr v)) cs) = [] \<longleftrightarrow> list_all (\<lambda>(k, v). v = ''up'') cs"
    for cs :: "(string \<times> string) list" by (induction cs) auto
  define cs where "cs = health_checks E value dbHealth answer g"
  obtain rest where r: "rs_status r = (if list_all (\<lambda>(k, v). v = ''up'') cs then 200 else 503)"
      "rs_body r = JObj rest" "map_of rest ''checks'' = Some (JObj (map (\<lambda>(k, v). (k, JStr v)) cs))"
    by (simp add: assms get_health_def sn Let_def send_json_def flip: cs_def)
  show "hs_state (fetchHealth now (Health_answer (rs_status r) (rs_body r)) prev) \<noteq> Degraded"
    and "rs_status r = 200 \<longleftrightarrow> hs_state (fetchHealth now (Health_answer (rs_status r) (rs_body r)) prev) = Healthy"
    using ok[of cs] by (simp_all add: fetchHealth_def r nullish_def Let_def del: filter_empty_conv filter_map)
qed

end
