(* ===== verification/ClientForms.thy ===== *)
theory ClientForms
  imports Decimals
begin

text \<open>
  Forms of the web application: the validator \<open>frontend/src/forms/validate.ts\<close>, the form state \<open>forms/useForm.ts\<close>, the
  checks of \<open>lib/security.ts\<close>, the flags of \<open>lib/walletSession.ts\<close> with \<open>lib/sessionCleanup.ts\<close>, and the summary shown
  before a transaction is signed, \<open>lib/transactionConfirmationBuilder.ts\<close>.  The values of a form are strings; \<open>number\<close>
  is \<open>Number\<close> on finite decimals (\<^const>\<open>None\<close> is \<open>NaN\<close>), \<open>show_num\<close> prints a number.
\<close>

section \<open>Validation\<close>

type_synonym form_values = "(string, string) js_map"
type_synonym form_errors = "(string, string) js_map"

datatype required_flag = Not_required | Required | Required_with string

record validation_rule =
  vr_required :: required_flag
  vr_min :: "int option"
  vr_max :: "int option"
  vr_minVal :: "rat option"
  vr_maxVal :: "rat option"
  vr_pattern :: "(string \<Rightarrow> bool) option"
  vr_custom :: "(string \<Rightarrow> form_values \<Rightarrow> string option) option"
  vr_messages :: "string \<Rightarrow> string option"

type_synonym validation_schema = "(string \<times> validation_rule) list"

definition is_required :: "validation_rule \<Rightarrow> bool" where
  "is_required rule = (case vr_required rule of Not_required \<Rightarrow> False | Required \<Rightarrow> True | Required_with m \<Rightarrow> m \<noteq> [])"

definition requiredMessage :: "validation_rule \<Rightarrow> string" where
  "requiredMessage rule =
     (case vr_required rule of Required_with m \<Rightarrow> m | _ \<Rightarrow> nullish (vr_messages rule ''required'') ''This field is required.'')"

definition toComparableString :: "string option \<Rightarrow> string" where
  "toComparableString v = nullish v []"

definition below :: "rat option \<Rightarrow> rat option \<Rightarrow> bool" where
  "below bound n = (case bound of None \<Rightarrow> False | Some m \<Rightarrow> (case n of None \<Rightarrow> True | Some x \<Rightarrow> x < m))"

definition above :: "rat option \<Rightarrow> rat option \<Rightarrow> bool" where
  "above bound n = (case bound of None \<Rightarrow> False | Some m \<Rightarrow> (case n of None \<Rightarrow> True | Some x \<Rightarrow> m < x))"

text \<open>The first failing check of a field.\<close>

definition field_error ::
  "(string \<Rightarrow> rat option) \<Rightarrow> (rat \<Rightarrow> string) \<Rightarrow> form_values \<Rightarrow> string \<Rightarrow> validation_rule \<Rightarrow> string option" where
  "field_error number show_num values field rule =
     (let v = js_trim (toComparableString (map_of values field)); len = int (length v); num = number v; say = vr_messages rule
      in if is_required rule \<and> v = [] then Some (requiredMessage rule)
         else if v = [] then None
         else if (case vr_min rule of None \<Rightarrow> False | Some m \<Rightarrow> len < m)
           then Some (nullish (say ''min'') (''Must be at least '' @ show_int (the (vr_min rule)) @ '' characters.''))
         else if (case vr_max rule of None \<Rightarrow> False | Some m \<Rightarrow> m < len)
           then Some (nullish (say ''max'') (''Must be at most '' @ show_int (the (vr_max rule)) @ '' characters.''))
         else if below (vr_minVal rule) num
           then Some (nullish (say ''minVal'') (''Value must be at least '' @ show_num (the (vr_minVal rule)) @ ''.''))
         else if above (vr_maxVal rule) num
           then Some (nullish (say ''maxVal'') (''Value must be at most '' @ show_num (the (vr_maxVal rule)) @ ''.''))
         else if (case vr_pattern rule of None \<Rightarrow> False | Some p \<Rightarrow> \<not> p v)
           then Some (nullish (say ''pattern'') ''Invalid format.'')
         else (case vr_custom rule of
             None \<Rightarrow> None
           | Some custom \<Rightarrow> if truthy_str (custom v values) then custom v values else None))"

definition validate ::
  "(string \<Rightarrow> rat option) \<Rightarrow> (rat \<Rightarrow> string) \<Rightarrow> validation_schema \<Rightarrow> form_values \<Rightarrow> form_errors" where
  "validate number show_num schema values =
     List.map_filter (\<lambda>(field, rule). map_option (Pair field) (field_error number show_num values field rule)) schema"

section \<open>The state of a form\<close>

record form_state =
  fm_values :: form_values
  fm_errors :: form_errors
  fm_touched :: "(string, bool) js_map"
  fm_isSubmitting :: bool

definition new_form :: "form_values \<Rightarrow> form_state" where
  "new_form initialValues = \<lparr>fm_values = initialValues, fm_errors = [], fm_touched = [], fm_isSubmitting = False\<rparr>"

definition handleChange :: "string \<Rightarrow> string \<Rightarrow> form_state \<Rightarrow> form_state" where
  "handleChange name v s = s\<lparr>fm_values := AList.update name v (fm_values s)\<rparr>"

definition is_touched :: "(string, bool) js_map \<Rightarrow> string \<Rightarrow> bool" where
  "is_touched m field = (map_of m field = Some True)"

definition handleBlur ::
  "(string \<Rightarrow> rat option) \<Rightarrow> (rat \<Rightarrow> string) \<Rightarrow> validation_schema \<Rightarrow> string \<Rightarrow> form_state \<Rightarrow> form_state" where
  "handleBlur number show_num schema name s =
     (let nextTouched = AList.update name True (fm_touched s);
          nextErrors = validate number show_num schema (fm_values s)
      in s\<lparr>fm_touched := nextTouched, fm_errors := filter (\<lambda>(field, m). is_touched nextTouched field) nextErrors\<rparr>)"

definition setFieldError :: "string \<Rightarrow> string \<Rightarrow> form_state \<Rightarrow> form_state" where
  "setFieldError name m s =
     s\<lparr>fm_errors := AList.update name m (fm_errors s), fm_touched := AList.update name True (fm_touched s)\<rparr>"

text \<open>Submitting up to the wait: the values handed to \<open>onSubmit\<close>, if it is called; and after it.\<close>

definition submit_begin ::
  "(string \<Rightarrow> rat option) \<Rightarrow> (rat \<Rightarrow> string) \<Rightarrow> validation_schema \<Rightarrow> form_state \<Rightarrow> form_values option \<times> form_state" where
  "submit_begin number show_num schema s =
     (let nextErrors = validate number show_num schema (fm_values s);
          s1 = s\<lparr>fm_touched := fold (\<lambda>(field, r). AList.update field True) schema (fm_touched s), fm_errors := nextErrors\<rparr>
      in if nextErrors \<noteq> [] then (None, s1) else (Some (fm_values s), s1\<lparr>fm_isSubmitting := True\<rparr>))"

definition submit_end :: "form_state \<Rightarrow> form_state" where
  "submit_end s = s\<lparr>fm_isSubmitting := False\<rparr>"

section \<open>What is submitted\<close>

definition passes ::
  "(string \<Rightarrow> rat option) \<Rightarrow> form_values \<Rightarrow> string \<times> validation_rule \<Rightarrow> bool" where
  "passes number values fr \<longleftrightarrow>
     (let v = js_trim (toComparableString (map_of values (fst fr))); rule = snd fr
      in (v = [] \<longrightarrow> \<not> is_required rule)
       \<and> (v \<noteq> [] \<longrightarrow>
           (\<forall>m. vr_min rule = Some m \<longrightarrow> m \<le> int (length v)) \<and> (\<forall>m. vr_max rule = Some m \<longrightarrow> int (length v) \<le> m)
         \<and> (\<forall>m. vr_minVal rule = Some m \<longrightarrow> (\<exists>x. number v = Some x \<and> m \<le> x))
         \<and> (\<forall>m. vr_maxVal rule = Some m \<longrightarrow> (\<exists>x. number v = Some x \<and> x \<le> m))
         \<and> (\<forall>p. vr_pattern rule = Some p \<longrightarrow> p v)
         \<and> (\<forall>c. vr_custom rule = Some c \<longrightarrow> \<not> truthy_str (c v values))))"

lemma field_error_None: "field_error number show_num values field rule = None \<longleftrightarrow> passes number values (field, rule)"
proof -
  let ?v = "js_trim (toComparableString (map_of values field))"
  show ?thesis
  proof (cases "?v = []")
    case True
    then show ?thesis by (simp add: field_error_def passes_def Let_def)
  next
    case False
    have a: "below (vr_minVal rule) (number ?v) \<longleftrightarrow> \<not> (\<forall>m. vr_minVal rule = Some m \<longrightarrow> (\<exists>x. number ?v = Some x \<and> m \<le> x))"
      "above (vr_maxVal rule) (number ?v) \<longleftrightarrow> \<not> (\<forall>m. vr_maxVal rule = Some m \<longrightarrow> (\<exists>x. number ?v = Some x \<and> x \<le> m))"
      by (auto simp: below_def above_def not_le not_less split: option.splits)
    have b: "(case vr_min rule of None \<Rightarrow> False | Some m \<Rightarrow> int (length ?v) < m) \<longleftrightarrow> \<not> (\<forall>m. vr_min rule = Some m \<longrightarrow> m \<le> int (length ?v))"
      "(case vr_max rule of None \<Rightarrow> False | Some m \<Rightarrow> m < int (length ?v)) \<longleftrightarrow> \<not> (\<forall>m. vr_max rule = Some m \<longrightarrow> int (length ?v) \<le> m)"
      "(case vr_pattern rule of None \<Rightarrow> False | Some p \<Rightarrow> \<not> p ?v) \<longleftrightarrow> \<not> (\<forall>p. vr_pattern rule = Some p \<longrightarrow> p ?v)"
      "(case vr_custom rule of None \<Rightarrow> None | Some custom \<Rightarrow> if truthy_str (custom ?v values) then custom ?v values else None) = None
        \<longleftrightarrow> (\<forall>c. vr_custom rule = Some c \<longrightarrow> \<not> truthy_str (c ?v values))"
      by (auto simp: truthy_str_def split: option.splits)
    show ?thesis unfolding field_error_def passes_def Let_def fst_conv snd_conv a b using False b(4) by auto
  qed
qed

lemma validate_empty: "validate number show_num schema values = [] \<longleftrightarrow> list_all (passes number values) schema"
proof (induction schema)
  case (Cons a schema)
  then show ?case using field_error_None[of number show_num "values" "fst a" "snd a"]
    by (cases "field_error number show_num values (fst a) (snd a)") (auto simp: validate_def List.map_filter_simps split_beta)
qed (simp add: validate_def List.map_filter_simps)

lemma touched_all: "is_touched (fold (\<lambda>(field, r). AList.update field True) schema m) f \<longleftrightarrow> f \<in> fst ` set schema \<or> is_touched m f"
proof (induction schema arbitrary: m)
  case (Cons a schema)
  have "is_touched (AList.update (fst a) True m) f \<longleftrightarrow> f = fst a \<or> is_touched m f"
    by (simp add: is_touched_def update_conv')
  with Cons show ?case by (auto simp: split_beta)
qed simp

text \<open>Submitting hands the values to the application exactly when every field of the schema passes its checks; otherwise
  errors are shown, and every field of the schema counts as touched either way.\<close>

theorem submits_only_valid:
  "fst (submit_begin number show_num schema s) =
     (if list_all (passes number (fm_values s)) schema then Some (fm_values s) else None)
   \<and> (fm_errors (snd (submit_begin number show_num schema s)) = [] \<longleftrightarrow> list_all (passes number (fm_values s)) schema)
   \<and> (\<forall>f \<in> fst ` set schema. is_touched (fm_touched (snd (submit_begin number show_num schema s))) f)"
  using validate_empty[of number show_num schema "fm_values s"]
  by (auto simp: submit_begin_def Let_def touched_all)

text \<open>A field left shows errors only where the user has been.\<close>

lemma blur_errors_touched:
  "(f, m) \<in> set (fm_errors (handleBlur number show_num schema name s)) \<Longrightarrow> f = name \<or> is_touched (fm_touched s) f"
  by (auto simp: handleBlur_def Let_def is_touched_def update_conv' split: if_splits)

section \<open>Checks of texts from outside\<close>

definition hash_digit :: "char \<Rightarrow> bool" where
  "hash_digit ch \<longleftrightarrow> is_digit ch \<or> js_lower_char ch \<in> {CHR ''a'', CHR ''b'', CHR ''c'', CHR ''d'', CHR ''e'', CHR ''f''}"

definition isValidTransactionHash :: "string \<Rightarrow> bool" where
  "isValidTransactionHash hash \<longleftrightarrow> length hash = 64 \<and> list_all hash_digit hash"

definition base32_char :: "char \<Rightarrow> bool" where
  "base32_char ch \<longleftrightarrow> ch \<in> set ''ABCDEFGHIJKLMNOPQRSTUVWXYZ234567''"

definition client_isValidStellarAddress :: "string \<Rightarrow> bool" where
  "client_isValidStellarAddress address \<longleftrightarrow>
     (case address of [] \<Rightarrow> False | g # r \<Rightarrow> g = CHR ''G'' \<and> length r = 55 \<and> list_all base32_char r)"

text \<open>\<open>URL\<close>: the protocol, the host name and the normalised text, or \<^const>\<open>None\<close> when it throws.\<close>

type_synonym url_parser = "string \<Rightarrow> (string \<times> string \<times> string) option"

definition sanitizeExternalUrl :: "url_parser \<Rightarrow> string \<Rightarrow> string list \<Rightarrow> string" where
  "sanitizeExternalUrl parse_url url allowedDomains =
     (case parse_url url of
        None \<Rightarrow> ''#''
      | Some (protocol, hostname, text1) \<Rightarrow>
          if protocol \<notin> {''http:'', ''https:''} then ''#''
          else if hostname \<notin> set allowedDomains then ''#''
          else text1)"

definition ALLOWED_EXTERNAL_DOMAINS :: "string list" where
  "ALLOWED_EXTERNAL_DOMAINS = [''stellar.expert'', ''horizon.stellar.org'', ''horizon-testnet.stellar.org'', ''stellar.org'']"

definition sanitizeExternalLink :: "url_parser \<Rightarrow> string \<Rightarrow> string" where
  "sanitizeExternalLink parse_url url = sanitizeExternalUrl parse_url url ALLOWED_EXTERNAL_DOMAINS"

definition getStellarExplorerUrl :: "string \<Rightarrow> bool \<Rightarrow> string" where
  "getStellarExplorerUrl transactionHash mainnet =
     (if \<not> isValidTransactionHash transactionHash then ''#''
      else (if mainnet then ''https://stellar.expert/explorer/public'' else ''https://stellar.expert/explorer/testnet'')
        @ ''/tx/'' @ transactionHash)"

definition letter :: "char \<Rightarrow> bool" where
  "letter ch \<longleftrightarrow> js_lower_char ch \<in> set ''abcdefghijklmnopqrstuvwxyz''"

definition isAlphanumericSafe :: "string \<Rightarrow> bool" where
  "isAlphanumericSafe text1 \<longleftrightarrow>
     text1 \<noteq> [] \<and> list_all (\<lambda>ch. letter ch \<or> is_digit ch \<or> js_ws ch \<or> ch \<in> {CHR ''-'', CHR ''_'', CHR ''.''}) text1"

definition truncateSafe :: "string \<Rightarrow> nat \<Rightarrow> string" where
  "truncateSafe text1 maxLength = (if length text1 \<le> maxLength then text1 else take maxLength text1 @ ''...'')"

text \<open>A link that is shown leads to an allowed host over \<open>http\<close> or \<open>https\<close>, or nowhere.\<close>

lemma external_link_allowed:
  "sanitizeExternalLink parse_url url \<noteq> ''#'' \<Longrightarrow>
     \<exists>protocol hostname. parse_url url = Some (protocol, hostname, sanitizeExternalLink parse_url url)
       \<and> protocol \<in> {''http:'', ''https:''} \<and> hostname \<in> set ALLOWED_EXTERNAL_DOMAINS"
  by (auto simp: sanitizeExternalLink_def sanitizeExternalUrl_def split: option.splits if_splits)

text \<open>A truncated text is longer than the limit by its dots.\<close>

lemma truncated_length: "length (truncateSafe text1 n) \<le> n + 3 \<and> (length (truncateSafe text1 n) \<le> n \<longleftrightarrow> length text1 \<le> n)"
  by (simp add: truncateSafe_def)

section \<open>The flags of a wallet\<close>

record browser_storage =
  bw_session :: "(string, string) js_map"
  bw_local :: "(string, string) js_map"

definition WALLET_MANUAL_DISCONNECT_KEY :: string where
  "WALLET_MANUAL_DISCONNECT_KEY = ''yieldvault_wallet_manual_disconnect''"

definition WALLET_LAST_PROVIDER_KEY :: string where
  "WALLET_LAST_PROVIDER_KEY = ''yieldvault_last_wallet_provider''"

definition WALLET_RECONNECT_PROMPT_DISMISS_KEY :: string where
  "WALLET_RECONNECT_PROMPT_DISMISS_KEY = ''yieldvault_wallet_reconnect_prompt_dismissed''"

definition session_flag :: "string \<Rightarrow> browser_storage \<Rightarrow> bool" where
  "session_flag k b \<longleftrightarrow> map_of (bw_session b) k = Some ''1''"

definition set_session_flag :: "string \<Rightarrow> browser_storage \<Rightarrow> browser_storage" where
  "set_session_flag k b = b\<lparr>bw_session := AList.update k ''1'' (bw_session b)\<rparr>"

definition clear_session_flag :: "string \<Rightarrow> browser_storage \<Rightarrow> browser_storage" where
  "clear_session_flag k b = b\<lparr>bw_session := AList.delete k (bw_session b)\<rparr>"

definition isWalletManualDisconnectSet :: "browser_storage \<Rightarrow> bool" where
  "isWalletManualDisconnectSet = session_flag WALLET_MANUAL_DISCONNECT_KEY"

definition setWalletManualDisconnect :: "browser_storage \<Rightarrow> browser_storage" where
  "setWalletManualDisconnect = set_session_flag WALLET_MANUAL_DISCONNECT_KEY"

definition clearWalletManualDisconnect :: "browser_storage \<Rightarrow> browser_storage" where
  "clearWalletManualDisconnect = clear_session_flag WALLET_MANUAL_DISCONNECT_KEY"

definition getLastWalletProvider :: "browser_storage \<Rightarrow> string option" where
  "getLastWalletProvider b = (if map_of (bw_local b) WALLET_LAST_PROVIDER_KEY = Some ''freighter'' then Some ''freighter'' else None)"

definition setLastWalletProvider :: "string \<Rightarrow> browser_storage \<Rightarrow> browser_storage" where
  "setLastWalletProvider provider b = b\<lparr>bw_local := AList.update WALLET_LAST_PROVIDER_KEY provider (bw_local b)\<rparr>"

definition clearLastWalletProvider :: "browser_storage \<Rightarrow> browser_storage" where
  "clearLastWalletProvider b = b\<lparr>bw_local := AList.delete WALLET_LAST_PROVIDER_KEY (bw_local b)\<rparr>"

definition isReconnectPromptDismissed :: "browser_storage \<Rightarrow> bool" where
  "isReconnectPromptDismissed = session_flag WALLET_RECONNECT_PROMPT_DISMISS_KEY"

definition setReconnectPromptDismissed :: "browser_storage \<Rightarrow> browser_storage" where
  "setReconnectPromptDismissed = set_session_flag WALLET_RECONNECT_PROMPT_DISMISS_KEY"

definition clearReconnectPromptDismissed :: "browser_storage \<Rightarrow> browser_storage" where
  "clearReconnectPromptDismissed = clear_session_flag WALLET_RECONNECT_PROMPT_DISMISS_KEY"

text \<open>\<open>reply\<close> is what the extension answers, \<^const>\<open>None\<close> when the call fails; there is a window.\<close>

definition isProviderAvailable :: "bool option \<Rightarrow> string \<Rightarrow> bool" where
  "isProviderAvailable reply provider \<longleftrightarrow>
     provider = ''freighter'' \<and> (case reply of None \<Rightarrow> False | Some c \<Rightarrow> c \<or> True)"

lemma missing_extension_available: "isProviderAvailable (Some False) ''freighter''"
  by (simp add: isProviderAvailable_def)

definition SESSION_STORAGE_KEYS :: "string list" where
  "SESSION_STORAGE_KEYS = [''sessionToken'', ''accessToken'', ''refreshToken'', ''authToken'', ''walletAddress'',
     ''yv.auth.token'', ''yv.refresh.token'', ''yv.wallet.address'']"

definition LOCAL_STORAGE_KEYS :: "string list" where
  "LOCAL_STORAGE_KEYS = [''wallet_session_start'']"

text \<open>Besides this the query cache is emptied.\<close>

definition clearWalletSessionState :: "browser_storage \<Rightarrow> browser_storage" where
  "clearWalletSessionState b = b\<lparr>bw_local := fold AList.delete (SESSION_STORAGE_KEYS @ LOCAL_STORAGE_KEYS) (bw_local b)\<rparr>"

lemma map_of_fold_delete: "map_of (fold AList.delete ks m) k = (if k \<in> set ks then None else map_of m k)"
  by (induction ks arbitrary: m) (auto simp: delete_conv')

text \<open>Items of the session storage survive, whatever the name of the list says.\<close>

lemma session_cleared:
  "map_of (bw_local (clearWalletSessionState b)) k =
     (if k \<in> set (SESSION_STORAGE_KEYS @ LOCAL_STORAGE_KEYS) then None else map_of (bw_local b) k)
   \<and> bw_session (clearWalletSessionState b) = bw_session b"
  by (simp add: clearWalletSessionState_def map_of_fold_delete del: set_append fold_append)

section \<open>Before signing\<close>

record transaction_summary =
  sm_amount :: string
  sm_asset :: string
  sm_network :: string
  sm_estimatedFee :: string
  sm_contractAddress :: string
  sm_contractName :: "string option"
  sm_actionType :: string
  sm_isUnusualAmount :: bool
  sm_isUnusualFee :: bool
  sm_isUnknownContract :: bool

definition TRUSTED_CONTRACT_ADDRESSES :: "(string, string) js_map" where
  "TRUSTED_CONTRACT_ADDRESSES = []"

definition buildTransactionSummary :: "bool \<Rightarrow> string \<Rightarrow> rat \<Rightarrow> string \<Rightarrow> rat \<Rightarrow> string \<Rightarrow> transaction_summary" where
  "buildTransactionSummary isTestnet actionType amount asset feeXlm contractAddress =
     (let contractName = (case map_of TRUSTED_CONTRACT_ADDRESSES contractAddress of None \<Rightarrow> None | Some n \<Rightarrow> if n = [] then None else Some n)
      in \<lparr>sm_amount = show_fixed 2 (round_to 2 amount) @ '' '' @ asset, sm_asset = asset,
          sm_network = (if isTestnet then ''Testnet'' else ''Mainnet''),
          sm_estimatedFee = show_fixed 6 (round_to 6 feeXlm) @ '' XLM'', sm_contractAddress = contractAddress,
          sm_contractName = contractName, sm_actionType = actionType, sm_isUnusualAmount = (10000 \<le> amount),
          sm_isUnusualFee = (1 / 100000 * 5 < feeXlm), sm_isUnknownContract = (contractName = None)\<rparr>)"

definition buildDepositSummary :: "bool \<Rightarrow> rat \<Rightarrow> rat \<Rightarrow> string \<Rightarrow> transaction_summary" where
  "buildDepositSummary isTestnet amount feeXlm contractAddress =
     buildTransactionSummary isTestnet ''deposit'' amount ''USDC'' feeXlm contractAddress"

definition buildWithdrawalSummary :: "bool \<Rightarrow> rat \<Rightarrow> rat \<Rightarrow> string \<Rightarrow> transaction_summary" where
  "buildWithdrawalSummary isTestnet amount feeXlm contractAddress =
     buildTransactionSummary isTestnet ''withdraw'' amount ''USDC'' feeXlm contractAddress"

text \<open>No contract is trusted, so every transaction is shown with the warning of an unknown contract.\<close>

lemma every_contract_unknown: "sm_isUnknownContract (buildTransactionSummary isTestnet actionType amount asset feeXlm contractAddress)"
  by (simp add: buildTransactionSummary_def TRUSTED_CONTRACT_ADDRESSES_def Let_def)

end
