(* ===== verification/ClientViews.thy ===== *)
theory ClientViews
  imports Decimals "HOL-Library.Multiset"
begin

text \<open>
  State of the web application that several pages share: the expiry of a session (\<open>frontend/src/context/AuthContext.tsx\<close>),
  toasts (\<open>context/ToastContext.tsx\<close>), the slippage setting (\<open>hooks/useSlippage.ts\<close>) and
  tables sorted and paged in the browser (\<open>hooks/useClientDataTable.ts\<close>).
\<close>

section \<open>The session\<close>

datatype session_state = Session_idle | Session_warning | Session_expired

record session_view =
  sw_state :: session_state
  sw_intendedPath :: string

text \<open>\<open>stored\<close> is the item \<open>wallet_session_start\<close> of the local storage.\<close>

definition checkSessionExpiry :: "time \<Rightarrow> string option \<Rightarrow> session_view \<Rightarrow> session_view" where
  "checkSessionExpiry now stored s =
     (if \<not> truthy_str stored then s
      else case js_parse_int (the stored) of
        None \<Rightarrow> s
      | Some startTime \<Rightarrow>
          let sessionDuration = now - startTime; sessionTimeout = 30 * 60 * 1000; warningTime = 5 * 60 * 1000
          in if sessionTimeout \<le> sessionDuration then s\<lparr>sw_state := Session_expired\<rparr>
             else if sessionTimeout - warningTime \<le> sessionDuration \<and> sw_state s = Session_idle
               then s\<lparr>sw_state := Session_warning\<rparr>
             else s)"

text \<open>The effect runs again when the state has changed, and checks at once.\<close>

definition changed_to :: "time \<Rightarrow> string option \<Rightarrow> session_view \<Rightarrow> session_view \<Rightarrow> session_view" where
  "changed_to now stored s s1 = (if sw_state s1 = sw_state s then s1 else checkSessionExpiry now stored s1)"

definition check_tick :: "time \<Rightarrow> string option \<Rightarrow> session_view \<Rightarrow> session_view" where
  "check_tick now stored s = changed_to now stored s (checkSessionExpiry now stored s)"

definition setSessionWarning :: "time \<Rightarrow> string option \<Rightarrow> session_view \<Rightarrow> session_view" where
  "setSessionWarning now stored s = changed_to now stored s (s\<lparr>sw_state := Session_warning\<rparr>)"

definition setSessionExpired :: "time \<Rightarrow> string option \<Rightarrow> string \<Rightarrow> session_view \<Rightarrow> session_view" where
  "setSessionExpired now stored path s =
     (if sw_state s = Session_expired then s
      else changed_to now stored s (s\<lparr>sw_state := Session_expired, sw_intendedPath := path\<rparr>))"

definition clearSessionExpired :: "time \<Rightarrow> string option \<Rightarrow> session_view \<Rightarrow> session_view" where
  "clearSessionExpired now stored s = changed_to now stored s (s\<lparr>sw_state := Session_idle\<rparr>)"

definition dismissSessionWarning :: "time \<Rightarrow> string option \<Rightarrow> session_view \<Rightarrow> session_view" where
  "dismissSessionWarning now stored s = changed_to now stored s (s\<lparr>sw_state := Session_idle\<rparr>)"

lemma check_idem: "checkSessionExpiry now stored (checkSessionExpiry now stored s) = checkSessionExpiry now stored s"
  by (auto simp: checkSessionExpiry_def Let_def split: option.splits)

text \<open>A warning cannot be dismissed: the check that follows raises it again.\<close>

lemma dismissed_warning_returns:
  assumes "stored = Some text0" "text0 \<noteq> []" "js_parse_int text0 = Some start"
    and "start + 25 * 60 * 1000 \<le> now" "now < start + 30 * 60 * 1000" "sw_state s = Session_warning"
  shows "dismissSessionWarning now stored s = s"
  using assms by (cases s) (auto simp: dismissSessionWarning_def changed_to_def checkSessionExpiry_def truthy_str_def Let_def)

text \<open>An expiry is cleared only when the start of the session is gone or renewed.\<close>

lemma cleared_expiry_returns:
  assumes "stored = Some text0" "text0 \<noteq> []" "js_parse_int text0 = Some start" "start + 30 * 60 * 1000 \<le> now" "sw_state s = Session_expired"
  shows "clearSessionExpired now stored s = s" and "sw_state (clearSessionExpired now None s) = Session_idle"
  using assms by (cases s; auto simp: clearSessionExpired_def changed_to_def checkSessionExpiry_def truthy_str_def Let_def)+

text \<open>An expired session stays expired while its start is stored, whatever time passes.\<close>

lemma expired_stays: "sw_state s = Session_expired \<Longrightarrow> check_tick now stored s = s"
  by (cases s) (auto simp: check_tick_def changed_to_def checkSessionExpiry_def Let_def split: option.splits)

section \<open>Toasts\<close>

datatype toast_variant = Toast_success | Toast_error | Toast_warning | Toast_info

record toast_options =
  to_title :: string
  to_description :: "string option"
  to_duration :: "int option"
  to_variant :: "toast_variant option"

record toast_item =
  ti_id :: string
  ti_title :: string
  ti_description :: "string option"
  ti_duration :: int
  ti_variant :: toast_variant

text \<open>The timers by toast, with the time each is due.\<close>

record toast_state =
  ts_toasts :: "toast_item list"
  ts_nextToastId :: nat
  ts_timeouts :: "(string, time) js_map"

definition no_toasts :: toast_state where
  "no_toasts = \<lparr>ts_toasts = [], ts_nextToastId = 0, ts_timeouts = []\<rparr>"

definition dismissToast :: "string \<Rightarrow> toast_state \<Rightarrow> toast_state" where
  "dismissToast i s =
     s\<lparr>ts_toasts := filter (\<lambda>t. ti_id t \<noteq> i) (ts_toasts s), ts_timeouts := AList.delete i (ts_timeouts s)\<rparr>"

definition showToast :: "time \<Rightarrow> toast_options \<Rightarrow> toast_state \<Rightarrow> string \<times> toast_state" where
  "showToast now o1 s =
     (let n = Suc (ts_nextToastId s); i = ''toast-'' @ show_nat n; duration = nullish (to_duration o1) 5000;
          toast = \<lparr>ti_id = i, ti_title = to_title o1, ti_description = to_description o1, ti_duration = duration,
            ti_variant = nullish (to_variant o1) Toast_info\<rparr>
      in (i, s\<lparr>ts_nextToastId := n, ts_toasts := ts_toasts s @ [toast],
              ts_timeouts := AList.update i (now + max duration 0) (ts_timeouts s)\<rparr>))"

definition toast_timer :: "time \<Rightarrow> string \<Rightarrow> toast_state \<Rightarrow> toast_state" where
  "toast_timer now i s =
     (case map_of (ts_timeouts s) i of None \<Rightarrow> s | Some due \<Rightarrow> if due \<le> now then dismissToast i s else s)"

datatype toast_event = Show_toast toast_options | Dismiss_toast string | Toast_timer string

fun toast_step :: "time \<times> toast_event \<Rightarrow> toast_state \<Rightarrow> toast_state" where
  "toast_step (now, Show_toast o1) s = snd (showToast now o1 s)"
| "toast_step (now, Dismiss_toast i) s = dismissToast i s"
| "toast_step (now, Toast_timer i) s = toast_timer now i s"

text \<open>Every toast on the screen has its own name and a timer, and no timer is left without its toast.\<close>

definition toast_inv :: "toast_state \<Rightarrow> bool" where
  "toast_inv s \<longleftrightarrow>
     distinct (map ti_id (ts_toasts s)) \<and> distinct (map fst (ts_timeouts s))
   \<and> set (map fst (ts_timeouts s)) = set (map ti_id (ts_toasts s))
   \<and> (\<forall>t \<in> set (ts_toasts s). \<exists>k \<le> ts_nextToastId s. ti_id t = ''toast-'' @ show_nat k)"

lemma toast_step_inv:
  assumes inv: "toast_inv s"
  shows "toast_inv (toast_step e s)"
proof -
  have dismiss: "toast_inv (dismissToast i s)" for i
    using inv unfolding toast_inv_def dismissToast_def by (simp add: distinct_map_filter delete_keys distinct_removeAll) auto
  obtain now e1 where e: "e = (now, e1)" by (cases e)
  show ?thesis
  proof (cases e1)
    case (Show_toast o1)
    let ?i = "''toast-'' @ show_nat (Suc (ts_nextToastId s))"
    have new: "?i \<notin> set (map ti_id (ts_toasts s))"
    proof
      assume "?i \<in> set (map ti_id (ts_toasts s))"
      then obtain t where t: "t \<in> set (ts_toasts s)" "ti_id t = ?i" by auto
      then obtain k where "k \<le> ts_nextToastId s" "ti_id t = ''toast-'' @ show_nat k" using inv unfolding toast_inv_def by blast
      then show False using t(2) digits_value_show_nat[of k] digits_value_show_nat[of "Suc (ts_nextToastId s)"] by simp
    qed
    have keys: "set (map fst (AList.update ?i d (ts_timeouts s))) = insert ?i (set (map fst (ts_timeouts s)))" for d
      using dom_update[of ?i d "ts_timeouts s"] by simp
    let ?s = "toast_step (now, Show_toast o1) s"
    obtain toast where toast: "ts_toasts ?s = ts_toasts s @ [toast]" "ti_id toast = ?i"
      by (simp add: showToast_def Let_def)
    have nxt: "ts_nextToastId ?s = Suc (ts_nextToastId s)" by (simp add: showToast_def Let_def)
    obtain d where times: "ts_timeouts ?s = AList.update ?i d (ts_timeouts s)" by (simp add: showToast_def Let_def)
    show ?thesis unfolding e Show_toast toast_inv_def
    proof (intro conjI ballI)
      show "distinct (map ti_id (ts_toasts ?s))" using inv new unfolding toast(1) toast_inv_def by (simp add: toast(2))
      show "distinct (map fst (ts_timeouts ?s))" using inv unfolding times toast_inv_def by (simp add: distinct_update)
      show "set (map fst (ts_timeouts ?s)) = set (map ti_id (ts_toasts ?s))"
        using inv unfolding times keys toast(1) toast_inv_def by (simp add: toast(2))
      fix t assume "t \<in> set (ts_toasts ?s)"
      then have "t \<in> set (ts_toasts s) \<or> t = toast" unfolding toast(1) by auto
      then show "\<exists>k \<le> ts_nextToastId ?s. ti_id t = ''toast-'' @ show_nat k"
      proof
        assume "t \<in> set (ts_toasts s)"
        then obtain k where "k \<le> ts_nextToastId s" "ti_id t = ''toast-'' @ show_nat k" using inv unfolding toast_inv_def by blast
        then show ?thesis unfolding nxt by (meson le_SucI)
      next
        assume "t = toast"
        then show ?thesis unfolding nxt using toast(2) by blast
      qed
    qed
  next
    case (Toast_timer i)
    then show ?thesis using dismiss[of i] inv by (auto simp: e toast_timer_def split: option.splits)
  qed (simp add: e dismiss)
qed

lemma toasts_inv: "toast_inv (fold toast_step es no_toasts)"
proof -
  have "toast_inv s \<Longrightarrow> toast_inv (fold toast_step es s)" for s by (induction es arbitrary: s) (simp_all add: toast_step_inv)
  then show ?thesis by (simp add: toast_inv_def no_toasts_def)
qed

text \<open>Every toast goes when its timer fires.\<close>

lemma toast_goes:
  assumes "toast_inv s" "t \<in> set (ts_toasts s)"
  shows "\<exists>due. map_of (ts_timeouts s) (ti_id t) = Some due \<and> (\<forall>now \<ge> due. t \<notin> set (ts_toasts (toast_timer now (ti_id t) s)))"
proof -
  from assms have "ti_id t \<in> fst ` set (ts_timeouts s)" by (auto simp: toast_inv_def)
  then obtain due where "map_of (ts_timeouts s) (ti_id t) = Some due" by (metis map_of_eq_None_iff not_None_eq)
  then show ?thesis by (auto simp: toast_timer_def dismissToast_def)
qed

section \<open>Slippage\<close>

text \<open>\<open>raw\<close> is the stored text, \<^const>\<open>None\<close> when there is none or the storage throws.\<close>

definition readStored :: "string option \<Rightarrow> rat" where
  "readStored raw =
     (case raw of
        None \<Rightarrow> 1 / 2
      | Some t \<Rightarrow> (case js_parse_float t of None \<Rightarrow> 1 / 2 | Some n \<Rightarrow> if 0 \<le> n then n else 1 / 2))"

definition minReceived :: "rat \<Rightarrow> rat \<Rightarrow> rat" where
  "minReceived slippage amount = max (amount * (1 - slippage / 100)) 0"

definition isHighSlippage :: "rat \<Rightarrow> bool" where
  "isHighSlippage slippage \<longleftrightarrow> 5 < slippage"

lemma min_received_bounds: "0 \<le> amount \<Longrightarrow> 0 \<le> minReceived (readStored raw) amount \<and> minReceived (readStored raw) amount \<le> amount"
proof -
  assume a: "0 \<le> amount"
  have "0 \<le> readStored raw" by (simp add: readStored_def split: option.split)
  with a show ?thesis by (simp add: minReceived_def algebra_simps)
qed

section \<open>Tables in the browser\<close>

record table_state =
  tb_search :: string
  tb_descending :: bool
  tb_page :: nat
  tb_pageSize :: nat

text \<open>The page and its size are positive whole numbers; \<open>sort_value\<close> is the value of a row in the column sorted by.\<close>

definition filteredRows :: "('a \<Rightarrow> string) \<Rightarrow> ('a \<Rightarrow> bool) option \<Rightarrow> table_state \<Rightarrow> 'a list \<Rightarrow> 'a list" where
  "filteredRows getSearchValue filterRow st rows =
     (let search = js_lower (js_trim (tb_search st));
          found = (if search \<noteq> [] then filter (\<lambda>r. contains_sub search (js_lower (getSearchValue r))) rows else rows)
      in case filterRow of None \<Rightarrow> found | Some f \<Rightarrow> filter f found)"

definition sortedRows :: "('a \<Rightarrow> 'k :: linorder) \<Rightarrow> table_state \<Rightarrow> 'a list \<Rightarrow> 'a list" where
  "sortedRows sort_value st rows =
     js_sort (\<lambda>a b. if tb_descending st then sort_value a < sort_value b else sort_value b < sort_value a) rows"

record 'a table_page =
  tp_rows :: "'a list"
  tp_totalItems :: nat
  tp_totalPages :: nat
  tp_page :: nat

definition useClientDataTable ::
  "('a \<Rightarrow> string) \<Rightarrow> ('a \<Rightarrow> 'k :: linorder) \<Rightarrow> ('a \<Rightarrow> bool) option \<Rightarrow> table_state \<Rightarrow> 'a list \<Rightarrow> 'a table_page" where
  "useClientDataTable getSearchValue sort_value filterRow st rows =
     (let sorted1 = sortedRows sort_value st (filteredRows getSearchValue filterRow st rows);
          totalItems = length sorted1;
          totalPages = max 1 ((totalItems + tb_pageSize st - 1) div tb_pageSize st);
          safePage = min (tb_page st) totalPages;
          startIndex = (safePage - 1) * tb_pageSize st
      in \<lparr>tp_rows = js_slice startIndex (startIndex + tb_pageSize st) sorted1, tp_totalItems = totalItems,
          tp_totalPages = totalPages, tp_page = safePage\<rparr>)"

definition table_matches :: "('a \<Rightarrow> string) \<Rightarrow> ('a \<Rightarrow> bool) option \<Rightarrow> table_state \<Rightarrow> 'a \<Rightarrow> bool" where
  "table_matches getSearchValue filterRow st r \<longleftrightarrow>
     contains_sub (js_lower (js_trim (tb_search st))) (js_lower (getSearchValue r))
   \<and> (case filterRow of None \<Rightarrow> True | Some f \<Rightarrow> f r)"

lemma contains_empty: "contains_sub [] w"
  by (induction w) auto

lemma mset_sortedRows [simp]: "mset (sortedRows k st rows) = mset rows"
proof -
  have "mset (js_insert gt x ys) = add_mset x (mset ys)" for gt and x :: 'a and ys by (induction ys) auto
  then have "mset (js_sort gt ys) = mset ys" for gt and ys :: "'a list" by (induction ys) auto
  then show ?thesis by (simp add: sortedRows_def)
qed

lemma filtered_rows: "filteredRows g f st rows = filter (table_matches g f st) rows"
  by (auto simp: filteredRows_def Let_def table_matches_def contains_empty conj_commute intro!: filter_cong split: option.splits)

lemma pages_concat:
  "0 < n \<Longrightarrow> concat (map (\<lambda>p. js_slice (p * n) (p * n + n) xs) [0..<m]) = take (m * n) xs"
proof (induction m)
  case (Suc m)
  have "take (m * n) xs @ take n (drop (m * n) xs) = take (m * n + n) xs" by (simp add: take_add)
  then show ?case using Suc by (simp add: js_slice_def add.commute)
qed simp

text \<open>The pages of a table in the browser, put together from the first to the last, are the rows that match the search
  and the filter, each as often as it occurs, and a page beyond the last shows the last one.\<close>

theorem table_pages_partition:
  assumes "0 < tb_pageSize st"
  shows "mset (concat (map (\<lambda>p. tp_rows (useClientDataTable g k f (st\<lparr>tb_page := p\<rparr>) rows))
      [1..<Suc (tp_totalPages (useClientDataTable g k f st rows))])) = filter_mset (table_matches g f st) (mset rows)
    \<and> tp_page (useClientDataTable g k f st rows) \<le> tp_totalPages (useClientDataTable g k f st rows)"
proof (rule conjI)
  let ?rows = "sortedRows k st (filteredRows g f st rows)" and ?n = "tb_pageSize st"
  let ?m = "max 1 ((length ?rows + ?n - 1) div ?n)"
  have pages: "tp_totalPages (useClientDataTable g k f st rows) = ?m" by (simp add: useClientDataTable_def Let_def)
  have row: "tp_rows (useClientDataTable g k f (st\<lparr>tb_page := Suc p\<rparr>) rows) = js_slice (p * ?n) (p * ?n + ?n) ?rows" if "p < ?m" for p
  proof -
    have "min (Suc p) ?m = Suc p" using that by simp
    then show ?thesis by (simp add: useClientDataTable_def Let_def sortedRows_def filteredRows_def)
  qed
  have "length ?rows \<le> ?m * ?n"
  proof -
    have "length ?rows \<le> ((length ?rows + ?n - 1) div ?n) * ?n"
      using assms div_mod_decomp[of "length ?rows + ?n - 1" ?n] mod_less_divisor[OF assms, of "length ?rows + ?n - 1"] by linarith
    then show ?thesis by (meson le_trans max.cobounded2 mult_le_mono1)
  qed
  then have "concat (map (\<lambda>p. js_slice (p * ?n) (p * ?n + ?n) ?rows) [0..<?m]) = ?rows"
    using pages_concat[OF assms, of ?rows ?m] by simp
  moreover have "map (\<lambda>p. tp_rows (useClientDataTable g k f (st\<lparr>tb_page := p\<rparr>) rows)) [1..<Suc ?m] =
      map (\<lambda>p. js_slice (p * ?n) (p * ?n + ?n) ?rows) [0..<?m]"
    unfolding One_nat_def map_Suc_upt[symmetric] map_map comp_def by (rule map_cong[OF refl]) (use row in auto)
  ultimately show "mset (concat (map (\<lambda>p. tp_rows (useClientDataTable g k f (st\<lparr>tb_page := p\<rparr>) rows))
      [1..<Suc (tp_totalPages (useClientDataTable g k f st rows))])) = filter_mset (table_matches g f st) (mset rows)"
    by (simp only: pages) (simp add: filtered_rows)
  show "tp_page (useClientDataTable g k f st rows) \<le> tp_totalPages (useClientDataTable g k f st rows)"
    by (simp add: useClientDataTable_def Let_def)
qed

end
