(* ===== verification/ClientData.thy ===== *)
theory ClientData
  imports Http Calendar "HOL-Library.Word" "HOL-Library.Signed_Division"
begin

unbundle bit_operations_syntax

text \<open>
  What the web application reads from the chain and the vault, under \<open>frontend/src\<close>: the share price and the history
  (\<open>lib/vaultApi.ts\<close>), the transactions of a wallet (\<open>lib/transactionApi.ts\<close>), its address and balances
  (\<open>lib/stellarAccount.ts\<close>), the ranges of a chart (\<open>lib/dateUtils.ts\<close>), the allowance of a token
  (\<open>hooks/useTokenAllowance.ts\<close>) and the age of data (\<open>hooks/useStaleIndicator.ts\<close>).  The replies of the RPC and of
  Horizon are arguments; numbers are exact rationals, the rounding of a double is left out.
\<close>

section \<open>The share price\<close>

definition FIXED_POINT_DIVISOR :: int where
  "FIXED_POINT_DIVISOR = 1000000000000000000"

definition decodeSharePrice :: "int \<Rightarrow> rat" where
  "decodeSharePrice raw =
     (let integerPart = raw sdiv FIXED_POINT_DIVISOR; remainder = raw smod FIXED_POINT_DIVISOR
      in of_int integerPart + of_int remainder / of_int FIXED_POINT_DIVISOR)"

text \<open>The two halves of an \<open>i128\<close>: a signed and an unsigned number of 64 bits.\<close>

definition rawBigInt :: "64 word \<Rightarrow> 64 word \<Rightarrow> int" where
  "rawBigInt hi lo = push_bit 64 (sint hi) OR uint lo"

datatype price_reply = Rpc_failed string | Simulation_error string | No_value | Value "64 word" "64 word"

definition getSharePrice :: "string \<Rightarrow> price_reply \<Rightarrow> string + rat" where
  "getSharePrice contractId simResult =
     (if contractId = [] then Inl ''Vault contract ID is not configured''
      else case simResult of
        Rpc_failed cause \<Rightarrow> Inl (''RPC call failed: '' @ cause)
      | Simulation_error err \<Rightarrow> Inl (''Contract simulation error: '' @ err)
      | No_value \<Rightarrow> Inl ''Contract returned no value''
      | Value hi lo \<Rightarrow> Inr (decodeSharePrice (rawBigInt hi lo)))"

lemma rawBigInt_value: "rawBigInt hi lo = sint hi * 2 ^ 64 + uint lo"
proof -
  have "push_bit 64 (sint hi) AND uint lo = 0"
    by (rule bit_eqI) (auto simp: bit_simps dest: bit_imp_le_length)
  then have "push_bit 64 (sint hi) + uint lo = push_bit 64 (sint hi) OR uint lo" by (rule disjunctive_add_eq_or)
  then show ?thesis by (simp add: rawBigInt_def push_bit_eq_mult)
qed

lemma decodeSharePrice_exact: "decodeSharePrice raw = of_int raw / of_int FIXED_POINT_DIVISOR"
proof -
  have "(of_int raw :: rat) = of_int (raw sdiv FIXED_POINT_DIVISOR * FIXED_POINT_DIVISOR + raw smod FIXED_POINT_DIVISOR)"
    by (simp only: sdiv_mult_smod_eq)
  then show ?thesis by (simp add: decodeSharePrice_def Let_def FIXED_POINT_DIVISOR_def add_divide_distrib)
qed

text \<open>The price shown is the number of 128 bits the contract returns, with eighteen decimals.\<close>

lemma share_price_decoded:
  "contractId \<noteq> [] \<Longrightarrow> getSharePrice contractId (Value hi lo) = Inr (of_int (sint hi * 2 ^ 64 + uint lo) / 10 ^ 18)"
  by (simp add: getSharePrice_def decodeSharePrice_exact rawBigInt_value FIXED_POINT_DIVISOR_def)

section \<open>The history of the vault\<close>

record history_row =
  hr_date :: string
  hr_value :: rat

definition valid_point :: "json \<Rightarrow> history_row option" where
  "valid_point p =
     (case p of
        JObj props \<Rightarrow>
          (case (map_of props ''date'', map_of props ''value'') of
             (Some (JStr d), Some (JNum v)) \<Rightarrow> Some \<lparr>hr_date = d, hr_value = v\<rparr> | _ \<Rightarrow> None)
      | _ \<Rightarrow> None)"

definition isValidHistory :: "json \<Rightarrow> bool" where
  "isValidHistory d = (case d of JArr ps \<Rightarrow> ps \<noteq> [] \<and> list_all (\<lambda>p. valid_point p \<noteq> None) ps | _ \<Rightarrow> False)"

definition history_rows :: "json \<Rightarrow> history_row list" where
  "history_rows d = (case d of JArr ps \<Rightarrow> List.map_filter valid_point ps | _ \<Rightarrow> [])"

text \<open>\<open>mock\<close> is the table \<open>MOCK_VAULT_HISTORY\<close>; a request that fails is \<^const>\<open>None\<close>.\<close>

definition getVaultHistory :: "history_row list \<Rightarrow> json option \<Rightarrow> history_row list" where
  "getVaultHistory mock reply =
     (case reply of None \<Rightarrow> mock | Some d \<Rightarrow> if isValidHistory d then history_rows d else mock)"

lemma history_never_empty: "mock \<noteq> [] \<Longrightarrow> getVaultHistory mock reply \<noteq> []"
  by (auto simp: getVaultHistory_def isValidHistory_def history_rows_def List.map_filter_def neq_Nil_conv
      split: option.splits json.splits)

text \<open>One malformed point hides the whole history behind the mock.\<close>

lemma malformed_point_mocks: "valid_point p = None \<Longrightarrow> getVaultHistory mock (Some (JArr (ps @ p # qs))) = mock"
  by (simp add: getVaultHistory_def isValidHistory_def)

section \<open>Transactions of a wallet\<close>

record horizon_operation =
  ho_id :: string
  ho_type :: string
  ho_to :: "string option"
  ho_amount :: "string option"
  ho_asset_type :: "string option"
  ho_asset_code :: "string option"
  ho_created_at :: string
  ho_transaction_hash :: string

record chain_transaction =
  ct_id :: string
  ct_type :: string
  ct_status :: string
  ct_amount :: "string option"
  ct_asset :: "string option"
  ct_timestamp :: string
  ct_transactionHash :: string

definition normalizeOperation :: "horizon_operation \<Rightarrow> string \<Rightarrow> chain_transaction" where
  "normalizeOperation op walletAddress =
     \<lparr>ct_id = ho_id op, ct_type = (if ho_to op = Some walletAddress then ''deposit'' else ''withdrawal''), ct_status = ''completed'',
      ct_amount = ho_amount op, ct_asset = (if ho_asset_type op = Some ''native'' then Some ''XLM'' else ho_asset_code op),
      ct_timestamp = ho_created_at op, ct_transactionHash = ho_transaction_hash op\<rparr>"

record transaction_query =
  tq_walletAddress :: string
  tq_limit :: nat
  tq_order :: string
  tq_type :: string

definition transactions_url :: "transaction_query \<Rightarrow> string" where
  "transactions_url q =
     ''https://horizon-testnet.stellar.org/accounts/'' @ tq_walletAddress q @ ''/operations?limit='' @ show_nat (tq_limit q)
       @ ''&order='' @ tq_order q"

text \<open>The query has passed \<open>TransactionQuerySchema\<close>.  The reply: the status and its text, or the records.\<close>

definition getTransactions :: "transaction_query \<Rightarrow> (int \<times> string) + horizon_operation list \<Rightarrow> string + chain_transaction list" where
  "getTransactions q reply =
     (case reply of
        Inl (status, statusText) \<Rightarrow> Inl (''Horizon API error: '' @ show_int status @ '' '' @ statusText)
      | Inr records \<Rightarrow> Inr (filter (\<lambda>t. tq_type q = ''all'' \<or> ct_type t = tq_type q)
          (map (\<lambda>op. normalizeOperation op (tq_walletAddress q))
            (filter (\<lambda>op. ho_type op = ''payment'' \<or> ho_type op = ''create_account'') records))))"

definition truncateHash :: "string \<Rightarrow> string" where
  "truncateHash hash = take 8 hash @ ''...'' @ last_n 4 hash"

text \<open>Every transaction shown is a deposit or a withdrawal, though \<open>TxType\<close> has four.\<close>

lemma shown_types: "getTransactions q (Inr rs) = Inr ts \<Longrightarrow> t \<in> set ts \<Longrightarrow> ct_type t \<in> {''deposit'', ''withdrawal''}"
  unfolding getTransactions_def by (auto simp: normalizeOperation_def split: if_splits)

text \<open>Horizon names the new account of a \<open>create_account\<close> operation \<open>account\<close> and its amount \<open>starting_balance\<close>, so the
  creation of the wallet itself is shown as a withdrawal without an amount.\<close>

lemma creation_is_withdrawal:
  "ho_to op = None \<Longrightarrow> ho_amount op = None \<Longrightarrow>
     ct_type (normalizeOperation op w) = ''withdrawal'' \<and> ct_amount (normalizeOperation op w) = None"
  by (simp add: normalizeOperation_def)

section \<open>Address and balances\<close>

text \<open>What the extension says: whether the site is allowed, and the address; \<^const>\<open>None\<close> when a call fails.\<close>

definition discoverConnectedAddress :: "(bool \<times> string) option \<Rightarrow> string option" where
  "discoverConnectedAddress reply =
     (case reply of None \<Rightarrow> None | Some (isAllowed, address) \<Rightarrow> if \<not> isAllowed \<or> address = [] then None else Some address)"

text \<open>The address found, and the number of waits.\<close>

fun discover_from :: "(nat \<Rightarrow> (bool \<times> string) option) \<Rightarrow> nat \<Rightarrow> nat \<Rightarrow> string option \<times> nat" where
  "discover_from replies i 0 = (None, 0)"
| "discover_from replies i (Suc n) =
     (case discoverConnectedAddress (replies i) of
        Some a \<Rightarrow> (Some a, 0)
      | None \<Rightarrow> (case discover_from replies (Suc i) n of (r, waits) \<Rightarrow> (r, if n = 0 then 0 else Suc waits)))"

definition discoverConnectedAddressWithRetry :: "nat \<Rightarrow> (nat \<Rightarrow> (bool \<times> string) option) \<Rightarrow> string option \<times> nat" where
  "discoverConnectedAddressWithRetry retries replies = discover_from replies 0 retries"

lemma discover_first:
  "discover_from replies i n =
     (case find (\<lambda>k. discoverConnectedAddress (replies k) \<noteq> None) [i..<i + n] of
        Some k \<Rightarrow> (discoverConnectedAddress (replies k), k - i) | None \<Rightarrow> (None, n - 1))"
proof (induction n arbitrary: i)
  case (Suc n)
  have up: "[i..<i + Suc n] = i # [Suc i..<Suc i + n]" by (simp add: upt_conv_Cons)
  show ?case
  proof (cases "discoverConnectedAddress (replies i)")
    case None
    have "k - i = Suc (k - Suc i)" "n \<noteq> 0"
      if "find (\<lambda>k. discoverConnectedAddress (replies k) \<noteq> None) [Suc i..<Suc i + n] = Some k" for k
    proof -
      have "k \<in> set [Suc i..<Suc i + n]" using that by (auto simp del: upt_Suc simp: find_Some_iff)
      then show "k - i = Suc (k - Suc i)" "n \<noteq> 0" by auto
    qed
    with None show ?thesis unfolding up
      by (auto simp del: upt_Suc simp: Suc.IH split: option.split)
  next
    case (Some a)
    then show ?thesis unfolding up by simp
  qed
qed simp

text \<open>The address is that of the first reply with one, after a wait for each reply before it.\<close>

lemma discovered_address:
  "discoverConnectedAddressWithRetry retries replies =
     (case find (\<lambda>k. discoverConnectedAddress (replies k) \<noteq> None) [0..<retries] of
        Some k \<Rightarrow> (discoverConnectedAddress (replies k), k) | None \<Rightarrow> (None, retries - 1))"
  unfolding discoverConnectedAddressWithRetry_def by (subst discover_first) (simp add: option.case_eq_if)

definition toHorizonUrl :: "env \<Rightarrow> string \<Rightarrow> string" where
  "toHorizonUrl E rpcUrl =
     (if contains_sub ''soroban-testnet.stellar.org'' rpcUrl then ''https://horizon-testnet.stellar.org''
      else if contains_sub ''soroban-mainnet.stellar.org'' rpcUrl then ''https://horizon.stellar.org''
      else env_or E ''VITE_HORIZON_URL'' ''https://horizon-testnet.stellar.org'')"

record balance_line =
  bl_asset_type :: string
  bl_asset_code :: "string option"
  bl_asset_issuer :: "string option"
  bl_balance :: string

definition isCreditBalance :: "balance_line \<Rightarrow> bool" where
  "isCreditBalance b \<longleftrightarrow> bl_asset_type b = ''credit_alphanum4'' \<or> bl_asset_type b = ''credit_alphanum12''"

definition is_usdc :: "env \<Rightarrow> balance_line \<Rightarrow> bool" where
  "is_usdc E b \<longleftrightarrow> isCreditBalance b \<and> bl_asset_code b = Some ''USDC''
     \<and> (truthy_str (E ''VITE_USDC_ISSUER'') \<longrightarrow> bl_asset_issuer b = E ''VITE_USDC_ISSUER'')"

text \<open>\<open>number\<close> is \<open>Number\<close>, \<^const>\<open>None\<close> for \<open>NaN\<close>.\<close>

definition balance_where :: "(string \<Rightarrow> rat option) \<Rightarrow> (balance_line \<Rightarrow> bool) \<Rightarrow> balance_line list \<Rightarrow> rat option" where
  "balance_where number p balances = (case find p balances of None \<Rightarrow> Some 0 | Some b \<Rightarrow> number (bl_balance b))"

definition fetchUsdcBalance :: "(string \<Rightarrow> rat option) \<Rightarrow> env \<Rightarrow> balance_line list \<Rightarrow> rat option" where
  "fetchUsdcBalance number E balances = balance_where number (is_usdc E) balances"

definition fetchXlmBalance :: "(string \<Rightarrow> rat option) \<Rightarrow> balance_line list \<Rightarrow> rat option" where
  "fetchXlmBalance number balances = balance_where number (\<lambda>b. bl_asset_type b = ''native'') balances"

text \<open>Without a configured issuer any asset called USDC counts.\<close>

lemma any_issuer_counts:
  "\<not> truthy_str (E ''VITE_USDC_ISSUER'') \<Longrightarrow> isCreditBalance b \<Longrightarrow> bl_asset_code b = Some ''USDC'' \<Longrightarrow>
     fetchUsdcBalance number E (b # bs) = number (bl_balance b)"
  by (simp add: fetchUsdcBalance_def balance_where_def is_usdc_def)

section \<open>Ranges, allowance and age\<close>

datatype time_range = Range_7D | Range_1M | Range_3M

definition RANGE_DAYS :: "time_range \<Rightarrow> int" where
  "RANGE_DAYS r = (case r of Range_7D \<Rightarrow> 7 | Range_1M \<Rightarrow> 30 | Range_3M \<Rightarrow> 90)"

definition getCutoffDate :: "time_range \<Rightarrow> time \<Rightarrow> time" where
  "getCutoffDate r now = now - RANGE_DAYS r * ms_per_day"

datatype approval_status = Approval_idle | Approval_pending | Approval_confirmed | Approval_error

record token_allowance =
  ta_allowance :: rat
  ta_status :: approval_status

definition needsApproval :: "string option \<Rightarrow> token_allowance \<Rightarrow> rat \<Rightarrow> bool" where
  "needsApproval walletAddress s depositAmount \<longleftrightarrow> walletAddress \<noteq> None \<and> ta_allowance s < depositAmount \<and> 0 < depositAmount"

definition approve_begin :: "token_allowance \<Rightarrow> token_allowance" where
  "approve_begin s = s\<lparr>ta_status := Approval_pending\<rparr>"

definition approve_end :: "rat \<Rightarrow> string + unit \<Rightarrow> token_allowance \<Rightarrow> token_allowance" where
  "approve_end amount outcome s =
     (case outcome of
        Inr u \<Rightarrow> s\<lparr>ta_allowance := amount, ta_status := Approval_confirmed\<rparr>
      | Inl e \<Rightarrow> s\<lparr>ta_status := Approval_error\<rparr>)"

definition resetApproval :: "token_allowance \<Rightarrow> token_allowance" where
  "resetApproval s = s\<lparr>ta_status := Approval_idle\<rparr>"

lemma approved_amounts: "needsApproval w (approve_end amount (Inr ()) s) d \<longleftrightarrow> w \<noteq> None \<and> amount < d \<and> 0 < d"
  by (auto simp: needsApproval_def approve_end_def)

text \<open>A second approval replaces the first, also by less.\<close>

lemma approval_replaced: "ta_allowance (approve_end b (Inr ()) (approve_end a (Inr ()) s)) = b"
  by (simp add: approve_end_def)

definition computeSnapshot :: "time \<Rightarrow> time option \<Rightarrow> bool \<times> string" where
  "computeSnapshot now lastUpdated =
     (case lastUpdated of
        None \<Rightarrow> (False, [])
      | Some t \<Rightarrow>
          let ageMs = now - t; seconds = ageMs div 1000; minutes = seconds div 60
          in (60000 < ageMs,
              if seconds < 60 then ''just now'' else if minutes = 1 then ''1 min ago'' else show_int minutes @ '' min ago''))"

text \<open>Data exactly a minute old is not stale, but no longer from just now.\<close>

lemma minute_old: "computeSnapshot (t + 60000) (Some t) = (False, ''1 min ago'')"
  by (simp add: computeSnapshot_def)

end
