(* ===== verification/ClientDashboard.thy ===== *)
theory ClientDashboard
  imports ClientForms UrlState
begin

text \<open>
  The dashboard of the web application, under \<open>frontend/src\<close>: the forms of a deposit and a withdrawal
  (\<open>forms/schemas\<close>), the fee estimate (\<open>hooks/useFeeEstimate.ts\<close>), the figures of the vault
  (\<open>context/VaultContext.tsx\<close>), the question before a signature (\<open>hooks/useTransactionConfirmation.tsx\<close>), the errors of
  the server (\<open>lib/errorMappers.ts\<close>), the state in the address (\<open>hooks/useDashboardUrlState.ts\<close>) and the wizard of
  \<open>components/VaultDashboard.tsx\<close>.  \<open>number\<close> is \<open>Number\<close> on finite decimals, \<open>fixed n\<close> is \<open>toFixed(n)\<close>.
\<close>

section \<open>The two forms\<close>

definition MIN_DEPOSIT_AMOUNT :: rat where
  "MIN_DEPOSIT_AMOUNT = 1"

definition check_deposit ::
  "(string \<Rightarrow> rat option) \<Rightarrow> (nat \<Rightarrow> rat \<Rightarrow> string) \<Rightarrow> rat \<Rightarrow> bool \<Rightarrow> rat \<Rightarrow> rat \<Rightarrow> string \<Rightarrow> string option" where
  "check_deposit number fixed availableBalance isCapReached xlmBalance feeXlm v =
     (case number v of
        None \<Rightarrow> Some ''Enter a valid number.''
      | Some num \<Rightarrow>
          if num \<le> 0 then Some ''Amount must be greater than 0.''
          else if num < MIN_DEPOSIT_AMOUNT then Some (''Minimum deposit is '' @ fixed 2 MIN_DEPOSIT_AMOUNT @ '' USDC.'')
          else if isCapReached then Some ''Deposits are temporarily disabled because the vault is at capacity.''
          else if availableBalance < num
            then Some (''Deposit amount cannot exceed your available USDC balance of '' @ fixed 2 availableBalance @ ''.'')
          else if xlmBalance < feeXlm
            then Some (''Insufficient XLM balance for network fees. You need '' @ fixed 7 feeXlm @ '' XLM.'')
          else None)"

definition check_withdraw :: "(string \<Rightarrow> rat option) \<Rightarrow> (nat \<Rightarrow> rat \<Rightarrow> string) \<Rightarrow> rat \<Rightarrow> string \<Rightarrow> string option" where
  "check_withdraw number fixed availableBalance v =
     (case number v of
        None \<Rightarrow> Some ''Enter a valid number.''
      | Some num \<Rightarrow>
          if num \<le> 0 then Some ''Amount must be greater than 0.''
          else if availableBalance < num
            then Some (''Withdrawal amount cannot exceed your available vault balance of '' @ fixed 2 availableBalance @ ''.'')
          else None)"

definition amount_rule :: "(string \<Rightarrow> string option) \<Rightarrow> validation_schema" where
  "amount_rule check =
     [(''amount'', \<lparr>vr_required = Required_with ''Amount is required.'', vr_min = None, vr_max = None, vr_minVal = None,
        vr_maxVal = None, vr_pattern = None, vr_custom = Some (\<lambda>v values. check v), vr_messages = (\<lambda>k. None)\<rparr>)]"

definition createDepositFormSchema ::
  "(string \<Rightarrow> rat option) \<Rightarrow> (nat \<Rightarrow> rat \<Rightarrow> string) \<Rightarrow> rat \<Rightarrow> bool \<Rightarrow> rat \<Rightarrow> rat \<Rightarrow> validation_schema" where
  "createDepositFormSchema number fixed availableBalance isCapReached xlmBalance feeXlm =
     amount_rule (check_deposit number fixed availableBalance isCapReached xlmBalance feeXlm)"

definition createWithdrawFormSchema ::
  "(string \<Rightarrow> rat option) \<Rightarrow> (nat \<Rightarrow> rat \<Rightarrow> string) \<Rightarrow> rat \<Rightarrow> validation_schema" where
  "createWithdrawFormSchema number fixed availableBalance = amount_rule (check_withdraw number fixed availableBalance)"

lemma amount_rule_accepts:
  "validate number show_num (amount_rule check) [(''amount'', v)] = []
     \<longleftrightarrow> js_trim v \<noteq> [] \<and> \<not> truthy_str (check (js_trim v))"
  by (simp add: validate_def List.map_filter_def amount_rule_def field_error_def is_required_def toComparableString_def Let_def
      below_def above_def truthy_str_def split: option.splits)

text \<open>The forms accept exactly the amounts that can be carried out.\<close>

lemma deposit_form_accepts:
  "validate number show_num (createDepositFormSchema number fixed balance cap xlm fee) [(''amount'', v)] = []
     \<longleftrightarrow> js_trim v \<noteq> [] \<and> (\<exists>x. number (js_trim v) = Some x \<and> 1 \<le> x \<and> x \<le> balance) \<and> \<not> cap \<and> fee \<le> xlm"
  by (auto simp: createDepositFormSchema_def amount_rule_accepts check_deposit_def MIN_DEPOSIT_AMOUNT_def truthy_str_def
      split: option.splits)

lemma withdraw_form_accepts:
  "validate number show_num (createWithdrawFormSchema number fixed balance) [(''amount'', v)] = []
     \<longleftrightarrow> js_trim v \<noteq> [] \<and> (\<exists>x. number (js_trim v) = Some x \<and> 0 < x \<and> x \<le> balance)"
  by (auto simp: createWithdrawFormSchema_def amount_rule_accepts check_withdraw_def truthy_str_def split: option.splits)

section \<open>The estimated fee\<close>

record fee_estimate =
  fe_feeXlm :: rat
  fe_feeUsd :: rat
  fe_isEstimating :: bool

definition no_fee :: fee_estimate where
  "no_fee = \<lparr>fe_feeXlm = 0, fe_feeUsd = 0, fe_isEstimating = False\<rparr>"

text \<open>The effect: whether an estimate is scheduled, and the state.\<close>

definition fee_effect :: "(string \<Rightarrow> rat option) \<Rightarrow> string option \<Rightarrow> string \<Rightarrow> fee_estimate \<Rightarrow> bool \<times> fee_estimate" where
  "fee_effect number walletAddress amount s =
     (if \<not> truthy_str walletAddress \<or> (case number amount of None \<Rightarrow> True | Some x \<Rightarrow> x \<le> 0)
      then (False, s\<lparr>fe_feeXlm := 0, fe_feeUsd := 0\<rparr>) else (True, s))"

definition fee_begin :: "fee_estimate \<Rightarrow> fee_estimate" where
  "fee_begin s = s\<lparr>fe_isEstimating := True\<rparr>"

text \<open>An estimate arrives, \<^const>\<open>None\<close> when it failed; nothing is kept of one whose effect has been cleaned up.\<close>

definition fee_end :: "bool \<Rightarrow> rat \<Rightarrow> rat option \<Rightarrow> fee_estimate \<Rightarrow> fee_estimate" where
  "fee_end isCancelled xlmPrice fee s =
     (if isCancelled then s
      else case fee of
        None \<Rightarrow> s\<lparr>fe_isEstimating := False\<rparr>
      | Some x \<Rightarrow> s\<lparr>fe_feeXlm := x, fe_feeUsd := x * xlmPrice, fe_isEstimating := False\<rparr>)"

definition feeToValueRatio :: "(string \<Rightarrow> rat option) \<Rightarrow> string \<Rightarrow> fee_estimate \<Rightarrow> rat" where
  "feeToValueRatio number amount s =
     (case number amount of Some x \<Rightarrow> if 0 < x then fe_feeUsd s / x else 0 | None \<Rightarrow> 0)"

definition isHighFee :: "(string \<Rightarrow> rat option) \<Rightarrow> string \<Rightarrow> fee_estimate \<Rightarrow> bool" where
  "isHighFee number amount s \<longleftrightarrow> 1 / 100 < feeToValueRatio number amount s"

text \<open>The dashboard asks for the fee of the amount \<open>""\<close>, which \<open>Number\<close> reads as zero: no estimate is ever made, the fee
  is zero, and the deposit form never refuses a wallet without XLM.\<close>

lemma dashboard_fee_never_estimated:
  "number [] = Some 0 \<Longrightarrow> fee_effect number w [] no_fee = (False, no_fee)"
  by (simp add: fee_effect_def no_fee_def)

lemma deposit_without_xlm:
  assumes "number [] = Some 0" "number (js_trim v) = Some x" "js_trim v \<noteq> []" "1 \<le> x" "x \<le> balance"
  shows "validate number show_num
    (createDepositFormSchema number fixed balance False 0 (fe_feeXlm (snd (fee_effect number w [] no_fee)))) [(''amount'', v)] = []"
proof -
  have "fe_feeXlm (snd (fee_effect number w [] no_fee)) = 0"
    using assms(1) by (simp add: dashboard_fee_never_estimated) (simp add: no_fee_def)
  with assms show ?thesis by (simp add: deposit_form_accepts)
qed

section \<open>The figures of the vault\<close>

record vault_figures =
  vf_tvl :: rat
  vf_depositCap :: rat
  vf_apy :: rat
  vf_contractPaused :: bool

definition DEFAULT_SUMMARY :: vault_figures where
  "DEFAULT_SUMMARY = \<lparr>vf_tvl = 12450800, vf_depositCap = 15000000, vf_apy = 845 / 100, vf_contractPaused = False\<rparr>"

definition summary_shown :: "vault_figures option \<Rightarrow> vault_figures" where
  "summary_shown data = nullish data DEFAULT_SUMMARY"

definition utilization :: "vault_figures \<Rightarrow> rat" where
  "utilization s = (if 0 < vf_depositCap s then vf_tvl s / vf_depositCap s else 0)"

definition isCapWarning :: "vault_figures \<Rightarrow> bool" where
  "isCapWarning s \<longleftrightarrow> 9 / 10 < utilization s \<and> utilization s < 1"

definition isCapReached :: "vault_figures \<Rightarrow> bool" where
  "isCapReached s \<longleftrightarrow> 1 \<le> utilization s"

lemma cap_reached_iff: "isCapReached s \<longleftrightarrow> 0 < vf_depositCap s \<and> vf_depositCap s \<le> vf_tvl s"
  by (simp add: isCapReached_def utilization_def le_divide_eq)

lemma cap_flags_exclusive: "\<not> (isCapWarning s \<and> isCapReached s)"
  by (simp add: isCapWarning_def isCapReached_def)

text \<open>A cap of zero is no cap, and without an answer from the server the vault is shown open.\<close>

lemma zero_cap_open: "vf_depositCap s \<le> 0 \<Longrightarrow> \<not> isCapReached s"
  by (simp add: cap_reached_iff)

lemma unknown_vault_open: "\<not> isCapReached (summary_shown None) \<and> \<not> vf_contractPaused (summary_shown None)"
  by (simp add: cap_reached_iff summary_shown_def DEFAULT_SUMMARY_def)

section \<open>The question before a signature\<close>

text \<open>\<open>cf_resolve\<close> is the request whose promise the reference holds, \<open>cf_timers\<close> the timers set by the confirm button,
  \<open>cf_answers\<close> the promises settled so far.  Requests are numbered.\<close>

record confirmation =
  cf_summary :: "transaction_summary option"
  cf_isLoading :: bool
  cf_resolve :: "nat option"
  cf_timers :: nat
  cf_next :: nat
  cf_answers :: "(nat \<times> bool) list"

definition no_confirmation :: confirmation where
  "no_confirmation = \<lparr>cf_summary = None, cf_isLoading = False, cf_resolve = None, cf_timers = 0, cf_next = 0, cf_answers = []\<rparr>"

definition requestConfirmation :: "transaction_summary \<Rightarrow> confirmation \<Rightarrow> confirmation" where
  "requestConfirmation sm s =
     s\<lparr>cf_summary := Some sm, cf_isLoading := False, cf_resolve := Some (cf_next s), cf_next := Suc (cf_next s)\<rparr>"

definition settle_answer :: "bool \<Rightarrow> confirmation \<Rightarrow> confirmation" where
  "settle_answer b s =
     s\<lparr>cf_answers := cf_answers s @ (case cf_resolve s of None \<Rightarrow> [] | Some n \<Rightarrow> [(n, b)]),
       cf_summary := None, cf_isLoading := False, cf_resolve := None\<rparr>"

definition handleConfirm :: "confirmation \<Rightarrow> confirmation" where
  "handleConfirm s = s\<lparr>cf_isLoading := True, cf_timers := (if cf_resolve s = None then cf_timers s else Suc (cf_timers s))\<rparr>"

definition confirm_timer :: "confirmation \<Rightarrow> confirmation" where
  "confirm_timer s = (if cf_timers s = 0 then s else settle_answer True (s\<lparr>cf_timers := cf_timers s - 1\<rparr>))"

definition handleCancel :: "confirmation \<Rightarrow> confirmation" where
  "handleCancel s = (if cf_resolve s = None then s else settle_answer False s)"

datatype confirm_event = Ask transaction_summary | Press_confirm | Confirm_timer | Press_cancel

fun confirm_step :: "confirm_event \<Rightarrow> confirmation \<Rightarrow> confirmation" where
  "confirm_step (Ask sm) s = requestConfirmation sm s"
| "confirm_step Press_confirm s = handleConfirm s"
| "confirm_step Confirm_timer s = confirm_timer s"
| "confirm_step Press_cancel s = handleCancel s"

inductive confirm_reach :: "confirm_event list \<Rightarrow> confirmation \<Rightarrow> bool" where
  Confirm_start: "confirm_reach [] no_confirmation"
| Confirm_next: "confirm_reach es s \<Longrightarrow> confirm_reach (es @ [e]) (confirm_step e s)"

text \<open>No promise is settled twice, and there are no more confirmed transactions than presses of the button.\<close>

definition presses :: "confirm_event list \<Rightarrow> nat" where
  "presses es = length (filter (\<lambda>e. e = Press_confirm) es)"

definition confirm_inv :: "nat \<Rightarrow> confirmation \<Rightarrow> bool" where
  "confirm_inv n s \<longleftrightarrow>
     distinct (map fst (cf_answers s)) \<and> (\<forall>i \<in> fst ` set (cf_answers s). i < cf_next s)
     \<and> (\<forall>i. cf_resolve s = Some i \<longrightarrow> i < cf_next s \<and> i \<notin> fst ` set (cf_answers s))
     \<and> length (filter snd (cf_answers s)) + cf_timers s \<le> n"

lemmas confirm_defs = requestConfirmation_def settle_answer_def handleConfirm_def confirm_timer_def handleCancel_def

lemma confirm_inv_step:
  "confirm_inv n s \<Longrightarrow> confirm_inv (n + (if e = Press_confirm then 1 else 0)) (confirm_step e s)"
  by (cases e) (fastforce simp: confirm_inv_def confirm_defs less_Suc_eq split: option.splits)+

lemma confirm_reach_inv: "confirm_reach es s \<Longrightarrow> confirm_inv (presses es) s"
proof (induction rule: confirm_reach.induct)
  case (Confirm_next es s e)
  then show ?case using confirm_inv_step[of "presses es" s e] by (auto simp: presses_def split: if_splits)
qed (simp add: confirm_inv_def no_confirmation_def presses_def)

lemma confirmations_pressed:
  "confirm_reach es s \<Longrightarrow> distinct (map fst (cf_answers s)) \<and> length (filter snd (cf_answers s)) \<le> presses es"
  using confirm_reach_inv[of es s] by (auto simp: confirm_inv_def)

text \<open>A request made while another is open takes over the dialogue; the promise of the first is never settled.\<close>

lemma unanswered_step:
  "i < cf_next s \<Longrightarrow> cf_resolve s \<noteq> Some i \<Longrightarrow> i \<notin> fst ` set (cf_answers s) \<Longrightarrow>
     i < cf_next (confirm_step e s) \<and> cf_resolve (confirm_step e s) \<noteq> Some i \<and> i \<notin> fst ` set (cf_answers (confirm_step e s))"
  by (cases e) (auto simp: confirm_defs split: option.splits)

lemma replaced_request_hangs:
  assumes "i < cf_next s" "cf_resolve s \<noteq> Some i" "i \<notin> fst ` set (cf_answers s)"
  shows "i \<notin> fst ` set (cf_answers (fold confirm_step es s))"
  using assms
proof (induction es arbitrary: s)
  case (Cons e es)
  then show ?case using unanswered_step[OF Cons.prems, of e] by simp
qed simp

section \<open>Errors of the server\<close>

text \<open>What is thrown: an object with a message, the field its details name, whether it is an \<open>Error\<close>, and for a
  \<open>ValidationError\<close> the message of its first detail; or something else.\<close>

record thrown_object =
  to_message :: string
  to_field :: "string option"
  to_isError :: bool
  to_validation :: "string option option"

datatype thrown_value = Thrown_object thrown_object | Thrown_other

definition fallback_message :: string where
  "fallback_message = ''An error occurred. Please try again.''"

text \<open>\<open>strip\<close> is the three replacements (stack traces, constraints, dotted names).\<close>

definition sanitizeErrorMessage :: "(string \<Rightarrow> string) \<Rightarrow> string \<Rightarrow> string" where
  "sanitizeErrorMessage strip m =
     (if m = [] then fallback_message
      else let sanitized = js_trim (strip m); cut = (if 200 < length sanitized then take 197 sanitized @ ''...'' else sanitized)
           in if cut = [] then fallback_message else cut)"

text \<open>The errors by field, and the general error.\<close>

definition mapServerError :: "(string \<Rightarrow> string) \<Rightarrow> thrown_value \<Rightarrow> (string \<times> string) list \<times> string option" where
  "mapServerError strip err =
     (case err of
        Thrown_other \<Rightarrow> ([], Some fallback_message)
      | Thrown_object e \<Rightarrow>
          if truthy_str (to_field e) \<and> to_message e \<noteq> []
            then ([(the (to_field e), sanitizeErrorMessage strip (to_message e))], None)
          else if to_message e \<noteq> [] then ([], Some (sanitizeErrorMessage strip (to_message e)))
          else ([], None))"

lemma sanitized_length: "0 < length (sanitizeErrorMessage strip m) \<and> length (sanitizeErrorMessage strip m) \<le> 200"
  by (auto simp: sanitizeErrorMessage_def fallback_message_def Let_def)

section \<open>The state in the address\<close>

record dashboard_state =
  ds_tab :: string
  ds_step :: string
  ds_amount :: string

definition read_dashboard :: "search_params \<Rightarrow> dashboard_state" where
  "read_dashboard sp =
     \<lparr>ds_tab = nullish (sp_get sp ''tab'') ''deposit'', ds_step = nullish (sp_get sp ''step'') ''amount'',
      ds_amount = nullish (sp_get sp ''amount'') []\<rparr>"

definition set_tab :: "string \<Rightarrow> search_params \<Rightarrow> search_params" where
  "set_tab tab = sp_set ''tab'' tab"

definition set_step :: "string \<Rightarrow> search_params \<Rightarrow> search_params" where
  "set_step s = sp_set ''step'' s"

definition set_amount :: "string \<Rightarrow> search_params \<Rightarrow> search_params" where
  "set_amount a sp = (if a = [] then sp_delete ''amount'' sp else sp_set ''amount'' a sp)"

definition reset_dashboard :: "search_params \<Rightarrow> search_params" where
  "reset_dashboard sp = sp_delete ''amount'' (sp_delete ''step'' (sp_delete ''tab'' sp))"

text \<open>The router documents that calls of \<open>setSearchParams\<close> in the same tick do not build on each other: each starts
  from the parameters of the render, and the last one stays.\<close>

definition same_tick :: "(search_params \<Rightarrow> search_params) list \<Rightarrow> search_params \<Rightarrow> search_params" where
  "same_tick fs rendered = (if fs = [] then rendered else last fs rendered)"

lemma dashboard_roundtrip:
  "read_dashboard (set_tab t (set_step s (set_amount a sp))) = \<lparr>ds_tab = t, ds_step = s, ds_amount = a\<rparr>"
  by (simp add: read_dashboard_def set_tab_def set_step_def set_amount_def)

text \<open>Switching the tab sets the tab and then clears the amount, and the tab is lost; starting over sets the step and then
  clears the amount, and the step is lost.\<close>

definition onValueChange :: "string \<Rightarrow> search_params \<Rightarrow> search_params" where
  "onValueChange tab = same_tick [set_tab tab, set_amount []]"

definition resetWizard :: "search_params \<Rightarrow> search_params" where
  "resetWizard = same_tick [set_step ''amount'', set_amount []]"

lemma tab_switch_lost: "ds_tab (read_dashboard (onValueChange tab sp)) = ds_tab (read_dashboard sp)"
  by (simp add: onValueChange_def same_tick_def read_dashboard_def set_amount_def)

lemma wizard_reset_lost: "ds_step (read_dashboard (resetWizard sp)) = ds_step (read_dashboard sp)"
  by (simp add: resetWizard_def same_tick_def read_dashboard_def set_amount_def)

section \<open>The wizard\<close>

text \<open>\<open>goToReview\<close> looks at the errors the form has; \<^const>\<open>None\<close> is the warning.\<close>

definition goToReview :: "form_state \<Rightarrow> search_params \<Rightarrow> search_params option" where
  "goToReview form sp = (if fm_errors form \<noteq> [] then None else Some (set_step ''review'' sp))"

definition isSubmitDisabled :: "string option \<Rightarrow> bool \<Rightarrow> form_state \<Rightarrow> string \<Rightarrow> bool \<Rightarrow> bool" where
  "isSubmitDisabled walletAddress isBusy form tab capReached \<longleftrightarrow>
     \<not> truthy_str walletAddress \<or> isBusy \<or> truthy_str (map_of (fm_errors form) ''amount'')
     \<or> nullish (map_of (fm_values form) ''amount'') [] = [] \<or> (tab = ''deposit'' \<and> capReached)"

text \<open>The errors of a form come with the first blur: an amount that is out of bounds in the link reaches the review.\<close>

lemma linked_amount_unchecked: "goToReview (new_form [(''amount'', a)]) sp = Some (set_step ''review'' sp)"
  by (simp add: goToReview_def new_form_def)

definition managementFeeBps :: rat where
  "managementFeeBps = 35"

definition estimatedFee :: "rat \<Rightarrow> rat" where
  "estimatedFee enteredAmount = enteredAmount * managementFeeBps / 10000"

definition estimatedNetAmount :: "rat \<Rightarrow> rat" where
  "estimatedNetAmount enteredAmount = max (enteredAmount - estimatedFee enteredAmount) 0"

lemma net_amount_bounds: "0 \<le> a \<Longrightarrow> 0 \<le> estimatedNetAmount a \<and> estimatedNetAmount a \<le> a \<and> estimatedNetAmount a + estimatedFee a = a"
  by (auto simp: estimatedNetAmount_def estimatedFee_def managementFeeBps_def max_def field_simps)

text \<open>The part of a transaction before the wait: the summary to confirm, unless no wallet is connected.\<close>

definition transaction_question :: "bool \<Rightarrow> string option \<Rightarrow> string \<Rightarrow> rat \<Rightarrow> rat \<Rightarrow> string \<Rightarrow> transaction_summary option" where
  "transaction_question isTestnet walletAddress actionType amount feeXlm contractAddress =
     (if \<not> truthy_str walletAddress then None
      else Some (if actionType = ''deposit'' then buildDepositSummary isTestnet amount feeXlm contractAddress
                 else buildWithdrawalSummary isTestnet amount feeXlm contractAddress))"

record transaction_result =
  tr_success :: bool
  tr_message :: string

text \<open>What the wizard holds when the transaction is over: the result, the errors set on fields, the step of the address,
  and whether the wallet is noted to have deposited.\<close>

record wizard_end =
  we_result :: transaction_result
  we_fields :: "(string \<times> string) list"
  we_params :: search_params
  we_deposited :: bool

definition default_failure :: string where
  "default_failure = ''An error occurred during the transaction.''"

definition failure_message :: "(string \<Rightarrow> string) \<Rightarrow> thrown_value \<Rightarrow> string" where
  "failure_message strip err =
     (case err of
        Thrown_object e \<Rightarrow>
          (case to_validation e of
             Some detail \<Rightarrow> if truthy_str detail then the detail else default_failure
           | None \<Rightarrow> if to_isError e then to_message e else nullish (js_or (snd (mapServerError strip err)) None) default_failure)
      | Thrown_other \<Rightarrow> nullish (js_or (snd (mapServerError strip err)) None) default_failure)"

definition transaction_failed :: "(string \<Rightarrow> string) \<Rightarrow> thrown_value \<Rightarrow> bool \<Rightarrow> search_params \<Rightarrow> wizard_end" where
  "transaction_failed strip err deposited sp =
     (let fields = fst (mapServerError strip err)
      in \<lparr>we_result = \<lparr>tr_success = False, tr_message = failure_message strip err\<rparr>, we_fields = fields,
          we_params = same_tick ((if fields \<noteq> [] then [set_step ''amount''] else []) @ [set_step ''result'']) sp,
          we_deposited = deposited\<rparr>)"

definition transaction_done :: "(nat \<Rightarrow> rat \<Rightarrow> string) \<Rightarrow> string \<Rightarrow> rat \<Rightarrow> bool \<Rightarrow> search_params \<Rightarrow> wizard_end" where
  "transaction_done fixed actionType amount deposited sp =
     \<lparr>we_result = \<lparr>tr_success = True,
         tr_message = fixed 2 amount
           @ (if actionType = ''deposit'' then '' USDC has been deposited into the vault.''
              else '' USDC has been withdrawn from the vault.'')\<rparr>,
      we_fields = [], we_params = set_step ''result'' sp, we_deposited = deposited\<rparr>"

text \<open>The rest: \<open>confirmed\<close> is the answer, \<open>outcome\<close> that of the mutation, \<open>confetti\<close> that of the celebration, which a first
  deposit starts outside tests (the local storage works); when it throws it is called once more by the handler of storage errors.\<close>

definition handleTransaction ::
  "(string \<Rightarrow> string) \<Rightarrow> (nat \<Rightarrow> rat \<Rightarrow> string) \<Rightarrow> bool \<Rightarrow> thrown_value + unit \<Rightarrow> string \<Rightarrow> rat \<Rightarrow> bool \<Rightarrow> thrown_value + unit \<Rightarrow> bool
     \<Rightarrow> search_params \<Rightarrow> wizard_end option" where
  "handleTransaction strip fixed isTest confetti actionType amount confirmed outcome deposited sp =
     (if \<not> confirmed then None
      else Some (case outcome of
        Inl err \<Rightarrow> transaction_failed strip err deposited sp
      | Inr u \<Rightarrow>
          if actionType = ''deposit'' \<and> \<not> deposited \<and> \<not> isTest
          then (case confetti of
                  Inl err \<Rightarrow> transaction_failed strip err deposited sp
                | Inr u \<Rightarrow> transaction_done fixed actionType amount True sp)
          else transaction_done fixed actionType amount deposited sp))"

text \<open>Every confirmed transaction ends on the result page, also where a field is in error, whose page is overtaken.\<close>

lemma ends_on_result:
  "handleTransaction strip fixed isTest confetti actionType amount confirmed outcome deposited sp = Some w
     \<Longrightarrow> ds_step (read_dashboard (we_params w)) = ''result''"
  by (auto simp: handleTransaction_def transaction_failed_def transaction_done_def same_tick_def set_step_def read_dashboard_def
      Let_def split: if_splits sum.splits)

text \<open>A success is shown only when the mutation has succeeded; not the other way round: where the celebration throws, a
  deposit that was made is shown as failed.\<close>

lemma success_is_success:
  "handleTransaction strip fixed isTest confetti actionType amount confirmed outcome deposited sp = Some w
     \<Longrightarrow> tr_success (we_result w) \<Longrightarrow> outcome = Inr ()"
  by (auto simp: handleTransaction_def transaction_failed_def Let_def split: if_splits sum.splits)

lemma deposit_shown_as_failed:
  "handleTransaction strip fixed False (Inl err) ''deposit'' amount True (Inr ()) False sp
     = Some (transaction_failed strip err False sp)"
  by (simp add: handleTransaction_def)

text \<open>The message of an \<open>Error\<close> is shown as it is: the sanitised one is used for nothing but objects that are none.\<close>

lemma raw_message_shown:
  "to_validation e = None \<Longrightarrow> to_isError e \<Longrightarrow>
     tr_message (we_result (transaction_failed strip (Thrown_object e) d sp)) = to_message e"
  by (simp add: transaction_failed_def failure_message_def Let_def)

end
