(* ===== verification/ClientLayout.thy ===== *)
theory ClientLayout
  imports ClientViews
begin

text \<open>
  Widgets of the web application that compute, under \<open>frontend/src\<close>: the place of a floating panel
  (\<open>hooks/useFloating.ts\<close>), the numbers of a pager (\<open>components/Pagination.tsx\<close>), keyboard shortcuts
  (\<open>hooks/useKeyboardShortcuts.ts\<close>, \<open>context/KeyboardShortcutContext.tsx\<close>), the upload list
  (\<open>components/FileUpload.tsx\<close>) and the notice before a session ends (\<open>components/SessionExpiryWarning.tsx\<close>).
\<close>

section \<open>Floating panels\<close>

text \<open>A placement is the side its name starts with and the alignment it ends with, as the code reads it.\<close>

datatype axis = Axis_top | Axis_bottom | Axis_left | Axis_right
datatype alignment = Align_center | Align_start | Align_end
datatype placement = Placement axis alignment

fun getPrimaryAxis :: "placement \<Rightarrow> axis" where
  "getPrimaryAxis (Placement a l) = a"

fun opposite_axis :: "axis \<Rightarrow> axis" where
  "opposite_axis Axis_top = Axis_bottom"
| "opposite_axis Axis_bottom = Axis_top"
| "opposite_axis Axis_left = Axis_right"
| "opposite_axis Axis_right = Axis_left"

fun getOppositePlacement :: "placement \<Rightarrow> placement" where
  "getOppositePlacement (Placement a l) = Placement (opposite_axis a) l"

record dom_rect =
  rc_top :: rat
  rc_bottom :: rat
  rc_left :: rat
  rc_right :: rat

text \<open>The width and the height of the panel, of the window, and the offset.\<close>

record panel_geometry =
  pg_width :: rat
  pg_height :: rat
  pg_innerWidth :: rat
  pg_innerHeight :: rat
  pg_offset :: rat

fun primary_top :: "dom_rect \<Rightarrow> panel_geometry \<Rightarrow> placement \<Rightarrow> rat" where
  "primary_top r g (Placement Axis_top l) = rc_top r - pg_height g - pg_offset g"
| "primary_top r g (Placement Axis_bottom l) = rc_bottom r + pg_offset g"
| "primary_top r g (Placement a Align_start) = rc_top r"
| "primary_top r g (Placement a Align_end) = rc_bottom r - pg_height g"
| "primary_top r g (Placement a Align_center) = rc_top r + (rc_bottom r - rc_top r) / 2 - pg_height g / 2"

fun primary_left :: "dom_rect \<Rightarrow> panel_geometry \<Rightarrow> placement \<Rightarrow> rat" where
  "primary_left r g (Placement Axis_left l) = rc_left r - pg_width g - pg_offset g"
| "primary_left r g (Placement Axis_right l) = rc_right r + pg_offset g"
| "primary_left r g (Placement a Align_start) = rc_left r"
| "primary_left r g (Placement a Align_end) = rc_right r - pg_width g"
| "primary_left r g (Placement a Align_center) = rc_left r + (rc_right r - rc_left r) / 2 - pg_width g / 2"

definition clamp :: "rat \<Rightarrow> rat \<Rightarrow> rat" where
  "clamp room x = max 0 (min room x)"

text \<open>The top and the left of the panel.\<close>

definition computePosition :: "dom_rect \<Rightarrow> panel_geometry \<Rightarrow> placement \<Rightarrow> rat \<times> rat" where
  "computePosition r g p =
     (clamp (pg_innerHeight g - pg_height g) (primary_top r g p), clamp (pg_innerWidth g - pg_width g) (primary_left r g p))"

definition wouldOverflow :: "dom_rect \<Rightarrow> panel_geometry \<Rightarrow> placement \<Rightarrow> bool" where
  "wouldOverflow r g p =
     (case getPrimaryAxis p of
        Axis_top \<Rightarrow> rc_top r - pg_height g - pg_offset g < 0
      | Axis_bottom \<Rightarrow> pg_innerHeight g < rc_bottom r + pg_height g + pg_offset g
      | Axis_left \<Rightarrow> rc_left r - pg_width g - pg_offset g < 0
      | Axis_right \<Rightarrow> pg_innerWidth g < rc_right r + pg_width g + pg_offset g)"

definition isTriggerOutOfViewport :: "panel_geometry \<Rightarrow> dom_rect \<Rightarrow> bool" where
  "isTriggerOutOfViewport g r \<longleftrightarrow>
     rc_bottom r < 0 \<or> pg_innerHeight g < rc_top r \<or> rc_right r < 0 \<or> pg_innerWidth g < rc_left r"

definition effectivePlacement :: "dom_rect \<Rightarrow> panel_geometry \<Rightarrow> placement \<Rightarrow> placement" where
  "effectivePlacement r g p =
     (if wouldOverflow r g p \<and> \<not> wouldOverflow r g (getOppositePlacement p) then getOppositePlacement p else p)"

record floating_state =
  fl_style :: "rat \<times> rat"
  fl_actual :: placement
  fl_hidden :: bool

text \<open>\<open>trigger\<close> is the rectangle of the trigger, if it is mounted.\<close>

definition calculatePosition :: "dom_rect option \<Rightarrow> panel_geometry \<Rightarrow> placement \<Rightarrow> floating_state \<Rightarrow> floating_state" where
  "calculatePosition trigger g p s =
     (case trigger of
        None \<Rightarrow> s
      | Some r \<Rightarrow>
          if isTriggerOutOfViewport g r then s\<lparr>fl_hidden := True\<rparr>
          else \<lparr>fl_style = computePosition r g (effectivePlacement r g p), fl_actual = effectivePlacement r g p, fl_hidden = False\<rparr>)"

text \<open>A panel that fits the window lies inside it.\<close>

lemma clamp_bounds: "0 \<le> room \<Longrightarrow> 0 \<le> clamp room x \<and> clamp room x \<le> room"
  by (auto simp: clamp_def)

lemma panel_in_window:
  "pg_width g \<le> pg_innerWidth g \<Longrightarrow> pg_height g \<le> pg_innerHeight g \<Longrightarrow> computePosition r g p = (t, l)
     \<Longrightarrow> 0 \<le> t \<and> t + pg_height g \<le> pg_innerHeight g \<and> 0 \<le> l \<and> l + pg_width g \<le> pg_innerWidth g"
  using clamp_bounds[of "pg_innerHeight g - pg_height g" "primary_top r g p"]
    clamp_bounds[of "pg_innerWidth g - pg_width g" "primary_left r g p"]
  by (auto simp: computePosition_def)

text \<open>The panel overflows its side only if it would overflow both.\<close>

lemma flips_if_it_helps:
  "wouldOverflow r g (effectivePlacement r g p) \<longleftrightarrow> wouldOverflow r g p \<and> wouldOverflow r g (getOppositePlacement p)"
  by (auto simp: effectivePlacement_def)

text \<open>A panel that does not overflow stands clear of its trigger, at the offset.\<close>

definition clear_of :: "dom_rect \<Rightarrow> panel_geometry \<Rightarrow> axis \<Rightarrow> rat \<times> rat \<Rightarrow> bool" where
  "clear_of r g a pos =
     (case a of
        Axis_top \<Rightarrow> fst pos + pg_height g + pg_offset g = rc_top r
      | Axis_bottom \<Rightarrow> fst pos = rc_bottom r + pg_offset g
      | Axis_left \<Rightarrow> snd pos + pg_width g + pg_offset g = rc_left r
      | Axis_right \<Rightarrow> snd pos = rc_right r + pg_offset g)"

lemma clamp_id: "0 \<le> x \<Longrightarrow> x \<le> room \<Longrightarrow> clamp room x = x"
  by (simp add: clamp_def)

lemma panel_clear:
  assumes "\<not> isTriggerOutOfViewport g r" "0 \<le> pg_offset g" "\<not> wouldOverflow r g p"
  shows "clear_of r g (getPrimaryAxis p) (computePosition r g p)"
proof -
  obtain a l where p: "p = Placement a l" by (cases p)
  show ?thesis
    using assms unfolding p
    by (cases a) (auto simp: clear_of_def computePosition_def wouldOverflow_def isTriggerOutOfViewport_def clamp_id)
qed

section \<open>Page numbers\<close>

datatype page_item = Page int | Gap

definition totalPages :: "int \<Rightarrow> int \<Rightarrow> int" where
  "totalPages totalItems pageSize = (let n = ceil_div totalItems pageSize in if n = 0 then 1 else n)"

definition getPageNumbers :: "int \<Rightarrow> int \<Rightarrow> page_item list" where
  "getPageNumbers pages page =
     (if pages \<le> 5 then map Page [1..pages]
      else if page \<le> 3 then [Page 1, Page 2, Page 3, Page 4, Gap, Page pages]
      else if pages - 2 \<le> page then [Page 1, Gap, Page (pages - 3), Page (pages - 2), Page (pages - 1), Page pages]
      else [Page 1, Gap, Page (page - 1), Page page, Page (page + 1), Gap, Page pages])"

definition startItem :: "int \<Rightarrow> int \<Rightarrow> int \<Rightarrow> int" where
  "startItem page pageSize totalItems = (if totalItems = 0 then 0 else (page - 1) * pageSize + 1)"

definition endItem :: "int \<Rightarrow> int \<Rightarrow> int \<Rightarrow> int" where
  "endItem page pageSize totalItems = min (page * pageSize) totalItems"

fun shown_pages :: "page_item list \<Rightarrow> int list" where
  "shown_pages [] = []"
| "shown_pages (Page n # xs) = n # shown_pages xs"
| "shown_pages (Gap # xs) = shown_pages xs"

lemma shown_pages_map [simp]: "shown_pages (map Page ns) = ns"
  by (induction ns) auto

text \<open>The pager shows the first, the last and the current page, in order, in at most seven places.\<close>

lemma pager_complete:
  assumes "1 \<le> page" "page \<le> pages"
  shows "{1, page, pages} \<subseteq> set (shown_pages (getPageNumbers pages page))
    \<and> set (shown_pages (getPageNumbers pages page)) \<subseteq> {1..pages}
    \<and> sorted_wrt (<) (shown_pages (getPageNumbers pages page)) \<and> length (getPageNumbers pages page) \<le> 7"
  using assms by (auto simp: getPageNumbers_def)

text \<open>The rows announced on a page in range are at most \<open>pageSize\<close> and at least one.\<close>

lemma rows_announced:
  assumes "0 < pageSize" "0 < totalItems" "1 \<le> page" "page \<le> totalPages totalItems pageSize"
  shows "1 \<le> endItem page pageSize totalItems - startItem page pageSize totalItems + 1
    \<and> endItem page pageSize totalItems - startItem page pageSize totalItems + 1 \<le> pageSize"
proof -
  have n: "totalPages totalItems pageSize = ceil_div totalItems pageSize"
    using ceil_div_pos[OF assms(1,2)] by (simp add: totalPages_def)
  have "(page - 1) * pageSize \<le> (ceil_div totalItems pageSize - 1) * pageSize"
    using assms n by (intro mult_right_mono) auto
  then have "(page - 1) * pageSize < totalItems"
    using ceil_div_bounds(2)[OF assms(1), of totalItems] by (simp add: left_diff_distrib)
  moreover have "page * pageSize = (page - 1) * pageSize + pageSize" by (simp add: left_diff_distrib)
  ultimately show ?thesis using assms by (auto simp: startItem_def endItem_def)
qed

section \<open>Keyboard shortcuts\<close>

record 'c shortcut =
  sc_key :: string
  sc_ctrlKey :: bool
  sc_metaKey :: bool
  sc_shiftKey :: bool
  sc_altKey :: bool
  sc_action :: 'c

record keyboard_event =
  ke_key :: string
  ke_ctrlKey :: bool
  ke_metaKey :: bool
  ke_shiftKey :: bool
  ke_altKey :: bool
  ke_repeat :: bool
  ke_in_text_input :: bool

definition matchesShortcut :: "keyboard_event \<Rightarrow> 'c shortcut \<Rightarrow> bool" where
  "matchesShortcut e sc \<longleftrightarrow>
     js_lower (ke_key e) = js_lower (sc_key sc) \<and> sc_ctrlKey sc = (ke_ctrlKey e \<or> ke_metaKey e)
     \<and> sc_shiftKey sc = ke_shiftKey e \<and> sc_altKey sc = ke_altKey e"

text \<open>The action run, if any; the event is then not passed on.\<close>

definition handleKeyDown :: "'c shortcut list \<Rightarrow> keyboard_event \<Rightarrow> 'c option" where
  "handleKeyDown shortcuts e =
     (if ke_repeat e \<or> ke_in_text_input e then None else map_option sc_action (find (matchesShortcut e) shortcuts))"

datatype command = Navigate string | Run_deposit | Run_withdraw | Connect_wallet | Show_shortcuts | Open_palette | Close_modal

definition plain_key :: "string \<Rightarrow> command \<Rightarrow> command shortcut" where
  "plain_key k c = \<lparr>sc_key = k, sc_ctrlKey = False, sc_metaKey = False, sc_shiftKey = False, sc_altKey = False, sc_action = c\<rparr>"

definition provider_shortcuts :: "command shortcut list" where
  "provider_shortcuts =
     [plain_key ''g'' (Navigate ''/''), plain_key ''p'' (Navigate ''/portfolio''), plain_key ''a'' (Navigate ''/analytics''),
      plain_key ''h'' (Navigate ''/transactions''), plain_key ''d'' Run_deposit, plain_key ''w'' Run_withdraw,
      plain_key ''c'' Connect_wallet, plain_key ''s'' (Navigate ''/settings''),
      (plain_key ''?'' Show_shortcuts)\<lparr>sc_shiftKey := True\<rparr>, (plain_key ''k'' Open_palette)\<lparr>sc_metaKey := True\<rparr>,
      plain_key ''Escape'' Close_modal]"

text \<open>What a command does outside the provider: a page it goes to, an event it dispatches (a deposit and a withdrawal
  after a short wait).\<close>

datatype ui_effect = Goto string | Dispatch string

record shortcut_ui =
  su_help :: bool
  su_palette :: bool
  su_effects :: "ui_effect list"

definition run_command :: "string option \<Rightarrow> command \<Rightarrow> shortcut_ui \<Rightarrow> shortcut_ui" where
  "run_command walletAddress c s =
     (let emit = \<lambda>es. s\<lparr>su_effects := su_effects s @ es\<rparr>;
          connect = emit [Dispatch ''TRIGGER_WALLET_CONNECT''];
          with_wallet = \<lambda>ev. if truthy_str walletAddress then emit [Goto ''/'', Dispatch ev] else connect
      in case c of
           Navigate path \<Rightarrow> emit [Goto path]
         | Run_deposit \<Rightarrow> with_wallet ''TRIGGER_DEPOSIT''
         | Run_withdraw \<Rightarrow> with_wallet ''TRIGGER_WITHDRAW''
         | Connect_wallet \<Rightarrow> connect
         | Show_shortcuts \<Rightarrow> s\<lparr>su_help := True\<rparr>
         | Open_palette \<Rightarrow> s\<lparr>su_palette := True\<rparr>
         | Close_modal \<Rightarrow> s\<lparr>su_palette := False, su_help := False\<rparr>)"

text \<open>Nothing runs while the user types, and nothing of the provider's with control or command held: not even the
  palette, which the help shows as \<open>Ctrl+K\<close> and a plain \<open>k\<close> opens.\<close>

lemma typing_runs_nothing: "ke_in_text_input e \<Longrightarrow> handleKeyDown shortcuts e = None"
  by (simp add: handleKeyDown_def)

lemma provider_no_ctrl: "sc \<in> set provider_shortcuts \<Longrightarrow> \<not> sc_ctrlKey sc"
  by (auto simp: provider_shortcuts_def plain_key_def)

lemma ctrl_runs_nothing:
  assumes "ke_ctrlKey e \<or> ke_metaKey e" shows "handleKeyDown provider_shortcuts e = None"
proof -
  have "find (matchesShortcut e) provider_shortcuts = None"
    unfolding find_None_iff using assms provider_no_ctrl by (auto simp: matchesShortcut_def)
  then show ?thesis by (simp add: handleKeyDown_def)
qed

lemma plain_k_opens_palette:
  "handleKeyDown provider_shortcuts
     \<lparr>ke_key = ''k'', ke_ctrlKey = False, ke_metaKey = False, ke_shiftKey = False, ke_altKey = False, ke_repeat = False,
      ke_in_text_input = False\<rparr> = Some Open_palette"
  by code_simp

section \<open>The upload list\<close>

text \<open>\<open>floor (log bytes / log 1024)\<close>.  \<open>fixed1\<close> is \<open>toFixed(1)\<close>.\<close>

fun size_unit :: "nat \<Rightarrow> nat" where
  "size_unit n = (if n < 1024 then 0 else Suc (size_unit (n div 1024)))"

declare size_unit.simps [simp del]

definition formatBytes :: "(rat \<Rightarrow> string) \<Rightarrow> nat \<Rightarrow> string" where
  "formatBytes fixed1 bytes =
     (if bytes = 0 then ''0 B''
      else let i = size_unit bytes; sizes = [''B'', ''KB'', ''MB'', ''GB'']
           in fixed1 (of_nat bytes / 1024 ^ i) @ '' '' @ (if i < 4 then sizes ! i else ''undefined''))"

record upload_source =
  fi_name :: string
  fi_size :: nat
  fi_type :: string

record file_validation =
  fv_maxSize :: "nat option"
  fv_accept :: "string list option"

definition DEFAULT_MAX_SIZE :: nat where
  "DEFAULT_MAX_SIZE = 10 * 1024 * 1024"

definition file_ext :: "string \<Rightarrow> string" where
  "file_ext name = ''.'' @ js_lower (last (js_split (CHR ''.'') name))"

definition validateFile :: "(rat \<Rightarrow> string) \<Rightarrow> file_validation \<Rightarrow> upload_source \<Rightarrow> string option" where
  "validateFile fixed1 rules f =
     (let maxSize = nullish (fv_maxSize rules) DEFAULT_MAX_SIZE; accept = nullish (fv_accept rules) []
      in if maxSize < fi_size f
           then Some (''File exceeds '' @ formatBytes fixed1 maxSize @ '' limit ('' @ formatBytes fixed1 (fi_size f) @ '')'')
         else if accept \<noteq> []
           \<and> \<not> list_ex (\<lambda>a. js_lower a = js_lower (fi_type f) \<or> js_lower a = file_ext (fi_name f)) accept
           then Some (''File type not allowed. Accepted: '' @ js_join '', '' accept)
         else None)"

datatype upload_status = Upload_pending | Uploading | Upload_success | Upload_error

record upload_file =
  uf_id :: string
  uf_source :: upload_source
  uf_progress :: int
  uf_status :: upload_status
  uf_errorMessage :: "string option"

text \<open>\<open>us_intervals\<close> are the running intervals with the file each carries and its progress, \<open>us_completed\<close> the files
  \<open>onUploadComplete\<close> was called with.\<close>

record upload_state =
  us_files :: "upload_file list"
  us_counter :: nat
  us_intervals :: "(nat, upload_file \<times> rat) js_map"
  us_next :: nat
  us_completed :: "upload_source list"

definition no_uploads :: upload_state where
  "no_uploads = \<lparr>us_files = [], us_counter = 0, us_intervals = [], us_next = 0, us_completed = []\<rparr>"

definition update_file :: "string \<Rightarrow> (upload_file \<Rightarrow> upload_file) \<Rightarrow> upload_state \<Rightarrow> upload_state" where
  "update_file i f s = s\<lparr>us_files := map (\<lambda>u. if uf_id u = i then f u else u) (us_files s)\<rparr>"

definition simulateUpload :: "upload_file \<Rightarrow> upload_state \<Rightarrow> upload_state" where
  "simulateUpload u s =
     (let s1 = update_file (uf_id u) (\<lambda>f. f\<lparr>uf_status := Uploading\<rparr>) s
      in s1\<lparr>us_intervals := AList.update (us_next s1) (u, 0) (us_intervals s1), us_next := Suc (us_next s1)\<rparr>)"

text \<open>One tick of an interval; \<open>growth\<close> is the random step, from 5 up to 20.\<close>

definition upload_tick :: "nat \<Rightarrow> rat \<Rightarrow> upload_state \<Rightarrow> upload_state" where
  "upload_tick k growth s =
     (case map_of (us_intervals s) k of
        None \<Rightarrow> s
      | Some (u, p) \<Rightarrow>
          let progress = p + growth
          in if 100 \<le> progress
             then (update_file (uf_id u) (\<lambda>f. f\<lparr>uf_progress := 100, uf_status := Upload_success\<rparr>) s)
                    \<lparr>us_intervals := AList.delete k (us_intervals s), us_completed := us_completed s @ [uf_source u]\<rparr>
             else (update_file (uf_id u) (\<lambda>f. f\<lparr>uf_progress := js_round progress\<rparr>) s)
                    \<lparr>us_intervals := AList.update k (u, progress) (us_intervals s)\<rparr>)"

definition new_upload :: "(rat \<Rightarrow> string) \<Rightarrow> file_validation \<Rightarrow> nat \<Rightarrow> upload_source \<Rightarrow> upload_file" where
  "new_upload fixed1 rules n f =
     (let e = validateFile fixed1 rules f
      in \<lparr>uf_id = ''file-'' @ show_nat n, uf_source = f, uf_progress = 0,
          uf_status = (if e = None then Upload_pending else Upload_error), uf_errorMessage = e\<rparr>)"

definition addFiles :: "(rat \<Rightarrow> string) \<Rightarrow> file_validation \<Rightarrow> upload_source list \<Rightarrow> upload_state \<Rightarrow> upload_state" where
  "addFiles fixed1 rules incoming s =
     (let c = us_counter s;
          new = map2 (new_upload fixed1 rules) [c + 1..<c + 1 + length incoming] incoming;
          s1 = s\<lparr>us_files := us_files s @ new, us_counter := c + length incoming\<rparr>
      in fold simulateUpload (filter (\<lambda>u. uf_status u = Upload_pending) new) s1)"

definition retry_upload :: "string \<Rightarrow> upload_state \<Rightarrow> upload_state" where
  "retry_upload i s =
     (let s1 = update_file i (\<lambda>f. f\<lparr>uf_status := Upload_pending, uf_progress := 0, uf_errorMessage := None\<rparr>) s
      in case find (\<lambda>f. uf_id f = i) (us_files s) of None \<Rightarrow> s1 | Some f \<Rightarrow> simulateUpload f s1)"

definition cancel_upload :: "string \<Rightarrow> upload_state \<Rightarrow> upload_state" where
  "cancel_upload i s = s\<lparr>us_files := filter (\<lambda>f. uf_id f \<noteq> i) (us_files s)\<rparr>"

datatype upload_event = Add_files "upload_source list" | Tick nat rat | Retry_upload string | Cancel_upload string

fun upload_step :: "(rat \<Rightarrow> string) \<Rightarrow> file_validation \<Rightarrow> upload_event \<Rightarrow> upload_state \<Rightarrow> upload_state" where
  "upload_step fixed1 rules (Add_files fs) s = addFiles fixed1 rules fs s"
| "upload_step fixed1 rules (Tick k growth) s = upload_tick k growth s"
| "upload_step fixed1 rules (Retry_upload i) s = retry_upload i s"
| "upload_step fixed1 rules (Cancel_upload i) s = cancel_upload i s"

text \<open>Without a retry only files that pass the checks are uploaded.\<close>

definition all_valid :: "(rat \<Rightarrow> string) \<Rightarrow> file_validation \<Rightarrow> upload_state \<Rightarrow> bool" where
  "all_valid fixed1 rules s \<longleftrightarrow>
     (\<forall>x \<in> set (us_intervals s). validateFile fixed1 rules (uf_source (fst (snd x))) = None)
     \<and> (\<forall>f \<in> set (us_completed s). validateFile fixed1 rules f = None)"

lemma update_file_other [simp]:
  "us_intervals (update_file i f s) = us_intervals s" "us_completed (update_file i f s) = us_completed s"
  by (simp_all add: update_file_def)

lemma set_update_subset: "set (AList.update k v m) \<subseteq> insert (k, v) (set m)"
  by (induction m) auto

lemma set_delete_subset: "set (AList.delete k m) \<subseteq> set m"
  by (induction m) auto

lemma simulateUpload_valid:
  "all_valid fixed1 rules s \<Longrightarrow> validateFile fixed1 rules (uf_source u) = None \<Longrightarrow> all_valid fixed1 rules (simulateUpload u s)"
  using set_update_subset[of "us_next (update_file (uf_id u) (\<lambda>f. f\<lparr>uf_status := Uploading\<rparr>) s)" "(u, 0)" "us_intervals s"]
  by (fastforce simp: all_valid_def simulateUpload_def Let_def)

lemma fold_upload_valid:
  "all_valid fixed1 rules s \<Longrightarrow> \<forall>u \<in> set us. validateFile fixed1 rules (uf_source u) = None
     \<Longrightarrow> all_valid fixed1 rules (fold simulateUpload us s)"
  by (induction us arbitrary: s) (auto intro: simulateUpload_valid)

lemma new_upload_pending:
  "uf_status (new_upload fixed1 rules n f) = Upload_pending \<Longrightarrow>
     validateFile fixed1 rules (uf_source (new_upload fixed1 rules n f)) = None"
  by (auto simp: new_upload_def Let_def split: if_splits)

lemma addFiles_valid: "all_valid fixed1 rules s \<Longrightarrow> all_valid fixed1 rules (addFiles fixed1 rules fs s)"
  unfolding addFiles_def Let_def
  by (rule fold_upload_valid) (auto simp: all_valid_def dest!: new_upload_pending in_set_zipE)

lemma upload_tick_valid:
  assumes "all_valid fixed1 rules s" shows "all_valid fixed1 rules (upload_tick k growth s)"
proof (cases "map_of (us_intervals s) k")
  case (Some x)
  then obtain u p where x: "x = (u, p)" "(k, u, p) \<in> set (us_intervals s)" by (cases x) (auto dest: map_of_SomeD)
  with assms have "validateFile fixed1 rules (uf_source u) = None" by (force simp: all_valid_def)
  with assms Some x(1) show ?thesis
    using set_update_subset[of k "(u, p + growth)" "us_intervals s"] set_delete_subset[of k "us_intervals s"]
    by (fastforce simp: all_valid_def upload_tick_def Let_def)
qed (simp add: upload_tick_def assms)

lemma cancel_upload_valid: "all_valid fixed1 rules s \<Longrightarrow> all_valid fixed1 rules (cancel_upload i s)"
  by (simp add: all_valid_def cancel_upload_def)

lemma uploads_pass_checks:
  "\<forall>e \<in> set es. \<forall>i. e \<noteq> Retry_upload i \<Longrightarrow> all_valid fixed1 rules s \<Longrightarrow>
     all_valid fixed1 rules (fold (upload_step fixed1 rules) es s)"
proof (induction es arbitrary: s)
  case (Cons e es)
  have "all_valid fixed1 rules (upload_step fixed1 rules e s)"
    using Cons.prems by (cases e) (simp_all add: addFiles_valid upload_tick_valid cancel_upload_valid)
  with Cons show ?case by simp
qed simp

text \<open>The button that retries is shown for files with an error, and the checks are the only source of errors: each retry
  uploads a file the checks refused.  Cancelling takes a file off the list and leaves its upload running.\<close>

lemma retry_uploads_refused:
  "find (\<lambda>f. uf_id f = i) (us_files s) = Some u \<Longrightarrow> 100 \<le> growth \<Longrightarrow>
     last (us_completed (upload_tick (us_next s) growth (retry_upload i s))) = uf_source u"
  by (simp add: retry_upload_def simulateUpload_def upload_tick_def update_file_def Let_def update_conv')

lemma cancelled_upload_runs: "us_intervals (cancel_upload i s) = us_intervals s"
  by (simp add: cancel_upload_def)

text \<open>An upload that runs ends within twenty ticks.\<close>

fun ticks :: "nat \<Rightarrow> rat list \<Rightarrow> upload_state \<Rightarrow> upload_state" where
  "ticks k [] s = s"
| "ticks k (g # gs) s = ticks k gs (upload_tick k g s)"

lemma tick_progress:
  "jm_wf (us_intervals s) \<Longrightarrow> map_of (us_intervals s) k = Some (u, p) \<Longrightarrow>
     map_of (us_intervals (upload_tick k g s)) k = (if 100 \<le> p + g then None else Some (u, p + g))
     \<and> jm_wf (us_intervals (upload_tick k g s))"
  by (simp add: upload_tick_def Let_def update_conv' delete_conv')

lemma tick_gone: "map_of (us_intervals s) k = None \<Longrightarrow> ticks k gs s = s"
  by (induction gs) (simp_all add: upload_tick_def)

lemma upload_ends_from:
  assumes "jm_wf (us_intervals s)" "map_of (us_intervals s) k = Some (u, p)" "\<forall>g \<in> set gs. 5 \<le> g" "100 \<le> p + 5 * of_nat (length gs)"
    "p < 100"
  shows "map_of (us_intervals (ticks k gs s)) k = None"
  using assms
proof (induction gs arbitrary: s p)
  case (Cons g gs)
  show ?case
  proof (cases "100 \<le> p + g")
    case True
    then have "map_of (us_intervals (upload_tick k g s)) k = None" using tick_progress[OF Cons.prems(1,2)] by simp
    then show ?thesis by (simp add: tick_gone)
  next
    case False
    then show ?thesis using tick_progress[OF Cons.prems(1,2), of g] Cons.prems(3,4) Cons.IH[of "upload_tick k g s" "p + g"] by simp
  qed
qed simp

lemma upload_ends:
  "jm_wf (us_intervals s) \<Longrightarrow> map_of (us_intervals s) k = Some (u, 0) \<Longrightarrow> \<forall>g \<in> set gs. 5 \<le> g \<Longrightarrow> 20 \<le> length gs
     \<Longrightarrow> map_of (us_intervals (ticks k gs s)) k = None"
  by (rule upload_ends_from[where u = u and p = 0]) auto

section \<open>The notice before a session ends\<close>

record expiry_notice =
  en_timeRemaining :: int
  en_isVisible :: bool

definition checkSession :: "time \<Rightarrow> string option \<Rightarrow> expiry_notice \<Rightarrow> expiry_notice" where
  "checkSession now sessionStart n =
     (if \<not> truthy_str sessionStart then n\<lparr>en_isVisible := False\<rparr>
      else case js_parse_int (the sessionStart) of
        None \<Rightarrow> n\<lparr>en_isVisible := False\<rparr>
      | Some startTime \<Rightarrow>
          let sessionDuration = now - startTime; sessionTimeout = 1800000; warningTime = 300000
          in if sessionTimeout - warningTime \<le> sessionDuration \<and> sessionDuration < sessionTimeout
             then \<lparr>en_timeRemaining = ceil_div (sessionTimeout - sessionDuration) 60000, en_isVisible = True\<rparr>
             else n\<lparr>en_isVisible := False\<rparr>)"

definition dismiss_notice :: "expiry_notice \<Rightarrow> expiry_notice" where
  "dismiss_notice n = n\<lparr>en_isVisible := False\<rparr>"

text \<open>The minutes shown are one to five.\<close>

lemma minutes_shown:
  assumes "en_isVisible (checkSession now st n)"
  shows "1 \<le> en_timeRemaining (checkSession now st n) \<and> en_timeRemaining (checkSession now st n) \<le> 5"
proof -
  from assms obtain t where t: "truthy_str st" "js_parse_int (the st) = Some t" "1500000 \<le> now - t" "now - t < 1800000"
    by (auto simp: checkSession_def Let_def split: if_splits option.splits)
  then have "en_timeRemaining (checkSession now st n) = ceil_div (1800000 - (now - t)) 60000"
    by (simp add: checkSession_def)
  then show ?thesis
    using ceil_div_bounds[of 60000 "1800000 - (now - t)"] t by simp
qed

text \<open>A notice that is dismissed is back with the next check, a second later.\<close>

lemma dismissal_undone: "checkSession now st (dismiss_notice n) = checkSession now st n \<or> \<not> en_isVisible (checkSession now st n)"
  by (auto simp: checkSession_def dismiss_notice_def Let_def split: option.splits)

end
