(* ===== verification/RequestSchemas.thy ===== *)
theory RequestSchemas
  imports Http UrlState "HOL-Library.Multiset"
begin

text \<open>
  Validation of requests on both sides: the fields and the middleware of \<open>backend/src/middleware/validate.ts\<close>, and
  \<open>frontend/src/lib/api/schemas.ts\<close> with \<open>validation.ts\<close>.  A field schema is the check it makes on a string or number; the
  parser zod builds from the object schemas is an argument.  \<open>lc\<close> is \<open>localeCompare\<close>, \<open>number\<close> is \<open>Number\<close> on finite
  decimals.
\<close>

section \<open>Fields\<close>

definition is_alnum :: "char \<Rightarrow> bool" where
  "is_alnum c \<longleftrightarrow> is_digit c \<or> is_lower c \<or> is_upper c"

definition is_base32 :: "char \<Rightarrow> bool" where
  "is_base32 c \<longleftrightarrow> is_upper c \<or> c \<in> set ''234567''"

text \<open>The server's \<open>/^G[A-Za-z0-9]{55,63}$/\<close> and the client's \<open>/^G[A-Z2-7]{55}$/\<close>, which trims first.\<close>

definition walletAddressSchema :: "string \<Rightarrow> bool" where
  "walletAddressSchema s =
     (case s of [] \<Rightarrow> False | c # r \<Rightarrow> c = CHR ''G'' \<and> list_all is_alnum r \<and> 55 \<le> length r \<and> length r \<le> 63)"

definition StellarAddressSchema :: "string \<Rightarrow> string option" where
  "StellarAddressSchema s =
     (case js_trim s of
        [] \<Rightarrow> None
      | c # r \<Rightarrow> if c = CHR ''G'' \<and> list_all is_base32 r \<and> length r = 55 then Some (js_trim s) else None)"

text \<open>\<open>/^\d+(\.\d+)?$/\<close>, with at most \<open>places\<close> digits after the point if there is a bound.\<close>

definition decimal_text :: "nat option \<Rightarrow> string \<Rightarrow> bool" where
  "decimal_text places s =
     (case js_split (CHR ''.'') s of
        [w] \<Rightarrow> w \<noteq> [] \<and> list_all is_digit w
      | [w, f] \<Rightarrow> w \<noteq> [] \<and> list_all is_digit w \<and> f \<noteq> [] \<and> list_all is_digit f
          \<and> (case places of None \<Rightarrow> True | Some n \<Rightarrow> length f \<le> n)
      | _ \<Rightarrow> False)"

definition amountSchema :: "(string \<Rightarrow> rat option) \<Rightarrow> json \<Rightarrow> rat option" where
  "amountSchema number j =
     (case (case j of JNum v \<Rightarrow> Some v | JStr s \<Rightarrow> if decimal_text None s then number s else None | _ \<Rightarrow> None) of
        None \<Rightarrow> None | Some v \<Rightarrow> if 0 < v then Some v else None)"

definition AmountSchema :: "string \<Rightarrow> string option" where
  "AmountSchema s =
     (let v = js_trim s
      in if v \<noteq> [] \<and> decimal_text (Some 7) v \<and> (case js_parse_float v of None \<Rightarrow> False | Some x \<Rightarrow> 0 < x) then Some v else None)"

definition ShareCountSchema :: "rat \<Rightarrow> bool" where
  "ShareCountSchema v \<longleftrightarrow> v \<in> \<int> \<and> 0 < v \<and> v \<le> 1000000000"

definition slippageBps :: "rat \<Rightarrow> bool" where
  "slippageBps v \<longleftrightarrow> v \<in> \<int> \<and> 0 \<le> v \<and> v \<le> 500"

definition ASSET_CODES :: "string list" where
  "ASSET_CODES = [''XLM'', ''USDC'', ''yUSDC'', ''RWA'']"

definition AssetCodeSchema :: "string \<Rightarrow> bool" where
  "AssetCodeSchema s \<longleftrightarrow> s \<in> set ASSET_CODES"

definition text_length :: "nat \<Rightarrow> nat \<Rightarrow> string \<Rightarrow> bool" where
  "text_length lo hi s \<longleftrightarrow> lo \<le> length s \<and> length s \<le> hi"

definition asset_field :: "string \<Rightarrow> bool" where
  "asset_field = text_length 1 12"

text \<open>\<open>from\<close> not after \<open>to\<close>, by the order of the texts; \<open>le\<close> is \<open><=\<close> on strings.\<close>

definition VaultHistoryQuerySchema :: "(string \<Rightarrow> string \<Rightarrow> bool) \<Rightarrow> string option \<Rightarrow> string option \<Rightarrow> rat option \<Rightarrow> bool" where
  "VaultHistoryQuerySchema le fromDate toDate limit \<longleftrightarrow>
     (\<forall>s. fromDate = Some s \<longrightarrow> date_shape s) \<and> (\<forall>s. toDate = Some s \<longrightarrow> date_shape s)
     \<and> (\<forall>n. limit = Some n \<longrightarrow> n \<in> \<int> \<and> 1 \<le> n \<and> n \<le> 365)
     \<and> (\<forall>s t. fromDate = Some s \<and> toDate = Some t \<longrightarrow> le s t)"

text \<open>What the client lets through the server accepts: the address, the amount and the asset of a deposit.\<close>

lemma base32_alnum: "is_base32 c \<Longrightarrow> is_alnum c"
  by (auto simp: is_base32_def is_alnum_def is_digit_def)

lemma client_address_accepted: "StellarAddressSchema s = Some a \<Longrightarrow> walletAddressSchema a"
  by (auto simp: StellarAddressSchema_def walletAddressSchema_def list.pred_mono_strong base32_alnum split: list.splits if_splits
      elim: list.pred_mono_strong)

lemma decimal_text_relax: "decimal_text (Some n) s \<Longrightarrow> decimal_text None s"
  by (auto simp: decimal_text_def split: list.splits)

lemma client_amount_accepted:
  assumes "\<And>s. decimal_text None s \<Longrightarrow> number s = js_parse_float s" "AmountSchema s = Some v"
  shows "\<exists>x. amountSchema number (JStr v) = Some x \<and> 0 < x \<and> js_parse_float v = Some x"
  using assms by (auto simp: AmountSchema_def amountSchema_def Let_def decimal_text_relax split: if_splits option.splits)

lemma client_asset_accepted: "AssetCodeSchema s \<Longrightarrow> asset_field s"
  by (auto simp: AssetCodeSchema_def ASSET_CODES_def asset_field_def text_length_def)

text \<open>The server also accepts what the client never sends, such as an address in lower case.\<close>

lemma lower_case_address: "walletAddressSchema (CHR ''G'' # replicate 55 (CHR ''a'')) \<and> StellarAddressSchema (CHR ''G'' # replicate 55 (CHR ''a'')) = None"
  by code_simp

section \<open>The middleware of the server\<close>

record zod_issue =
  zi_path :: "string list"
  zi_code :: string
  zi_message :: string

datatype parsed = Parsed json | Zod_error "zod_issue list" | Thrown_error

definition joined_path :: "zod_issue \<Rightarrow> string" where
  "joined_path i = js_join ''.'' (zi_path i)"

definition issue_gt :: "(string \<Rightarrow> string \<Rightarrow> int) \<Rightarrow> zod_issue \<Rightarrow> zod_issue \<Rightarrow> bool" where
  "issue_gt lc a b =
     (if joined_path a \<noteq> joined_path b then 0 < lc (joined_path a) (joined_path b)
      else if zi_code a \<noteq> zi_code b then 0 < lc (zi_code a) (zi_code b)
      else 0 < lc (zi_message a) (zi_message b))"

definition sortIssuesDeterministically :: "(string \<Rightarrow> string \<Rightarrow> int) \<Rightarrow> zod_issue list \<Rightarrow> zod_issue list" where
  "sortIssuesDeterministically lc issues = js_sort (issue_gt lc) issues"

definition ISSUE_CODES :: "(string, string) js_map" where
  "ISSUE_CODES =
     [(''invalid_type'', ''INVALID_TYPE''), (''invalid_string'', ''INVALID_STRING''), (''too_small'', ''VALUE_TOO_SMALL''),
      (''too_big'', ''VALUE_TOO_BIG''), (''invalid_enum_value'', ''INVALID_ENUM_VALUE''),
      (''unrecognized_keys'', ''UNRECOGNIZED_KEYS''), (''invalid_union'', ''INVALID_UNION''),
      (''custom'', ''CUSTOM_VALIDATION_FAILED'')]"

definition mapIssueCode :: "zod_issue \<Rightarrow> string" where
  "mapIssueCode i = nullish (map_of ISSUE_CODES (zi_code i)) ''INVALID_VALUE''"

definition issue_line :: "zod_issue \<Rightarrow> string" where
  "issue_line i = (if zi_path i \<noteq> [] then joined_path i @ '': '' else []) @ zi_message i"

definition formatZodError :: "zod_issue list \<Rightarrow> string" where
  "formatZodError issues = js_join ''; '' (map issue_line issues)"

definition issue_detail :: "zod_issue \<Rightarrow> json" where
  "issue_detail i =
     JObj [(''code'', JStr (mapIssueCode i)), (''field'', JStr (joined_path i)), (''message'', JStr (zi_message i))]"

definition validation_response :: "(string \<Rightarrow> string \<Rightarrow> int) \<Rightarrow> zod_issue list \<Rightarrow> response" where
  "validation_response lc errors =
     (let issues = sortIssuesDeterministically lc errors; details = JArr (map issue_detail issues)
      in send_json 400 (JObj [(''error'', JStr ''Bad Request''), (''status'', jint 400), (''code'', JStr ''VALIDATION_ERROR''),
           (''summary'', JStr ''Request validation failed''), (''message'', JStr (formatZodError issues)),
           (''errors'', details), (''details'', details)]))"

text \<open>A request is its body, query and parameters.  The schemas are tried in this order, the first error ends it.\<close>

record validate_targets =
  vt_body :: "(json \<Rightarrow> parsed) option"
  vt_query :: "(json \<Rightarrow> parsed) option"
  vt_params :: "(json \<Rightarrow> parsed) option"

record input_parts =
  ip_body :: json
  ip_query :: json
  ip_params :: json

datatype validated = Valid input_parts | Invalid response | Passed_on

definition parse_target :: "(json \<Rightarrow> parsed) option \<Rightarrow> json \<Rightarrow> parsed" where
  "parse_target schema j = (case schema of None \<Rightarrow> Parsed j | Some p \<Rightarrow> p j)"

definition validate_middleware :: "(string \<Rightarrow> string \<Rightarrow> int) \<Rightarrow> validate_targets \<Rightarrow> input_parts \<Rightarrow> validated" where
  "validate_middleware lc schemas r =
     (case parse_target (vt_body schemas) (ip_body r) of
        Thrown_error \<Rightarrow> Passed_on | Zod_error es \<Rightarrow> Invalid (validation_response lc es)
      | Parsed b \<Rightarrow>
       (case parse_target (vt_query schemas) (ip_query r) of
          Thrown_error \<Rightarrow> Passed_on | Zod_error es \<Rightarrow> Invalid (validation_response lc es)
        | Parsed q \<Rightarrow>
         (case parse_target (vt_params schemas) (ip_params r) of
            Thrown_error \<Rightarrow> Passed_on | Zod_error es \<Rightarrow> Invalid (validation_response lc es)
          | Parsed p \<Rightarrow> Valid \<lparr>ip_body = b, ip_query = q, ip_params = p\<rparr>)))"

text \<open>The handler sees parsed input only.\<close>

lemma handler_sees_parsed:
  "validate_middleware lc schemas r = Valid v \<Longrightarrow>
     parse_target (vt_body schemas) (ip_body r) = Parsed (ip_body v) \<and> parse_target (vt_query schemas) (ip_query r) = Parsed (ip_query v)
     \<and> parse_target (vt_params schemas) (ip_params r) = Parsed (ip_params v)"
  by (auto simp: validate_middleware_def split: parsed.splits)

section \<open>The answer does not depend on the order of the issues\<close>

text \<open>What the order of two issues reads.\<close>

definition issue_key :: "zod_issue \<Rightarrow> string \<times> string \<times> string" where
  "issue_key i = (joined_path i, zi_code i, zi_message i)"

definition issue_key_gt :: "(string \<Rightarrow> string \<Rightarrow> int) \<Rightarrow> string \<times> string \<times> string \<Rightarrow> string \<times> string \<times> string \<Rightarrow> bool" where
  "issue_key_gt lc a b =
     (if fst a \<noteq> fst b then 0 < lc (fst a) (fst b)
      else if fst (snd a) \<noteq> fst (snd b) then 0 < lc (fst (snd a)) (fst (snd b))
      else 0 < lc (snd (snd a)) (snd (snd b)))"

lemma issue_gt_key: "issue_gt lc a b \<longleftrightarrow> issue_key_gt lc (issue_key a) (issue_key b)"
  by (simp add: issue_gt_def issue_key_gt_def issue_key_def)

lemma map_js_insert:
  "(\<And>a b. gt a b \<longleftrightarrow> kgt (k a) (k b)) \<Longrightarrow> map k (js_insert gt x ys) = js_insert kgt (k x) (map k ys)"
  by (induction ys) auto

lemma map_js_sort: "(\<And>a b. gt a b \<longleftrightarrow> kgt (k a) (k b)) \<Longrightarrow> map k (js_sort gt xs) = js_sort kgt (map k xs)"
  by (induction xs) (simp_all add: map_js_insert)

text \<open>\<open>localeCompare\<close> orders strings, and tells any two apart that are different; texts that only differ in how accents
  are encoded are not, and do not occur in names and messages of the schemas.\<close>

locale string_collation =
  fixes lc :: "string \<Rightarrow> string \<Rightarrow> int"
  assumes lc_neg: "0 < lc x y \<longleftrightarrow> lc y x < 0"
    and lc_zero: "lc x y = 0 \<longleftrightarrow> x = y"
    and lc_trans: "0 < lc x y \<Longrightarrow> 0 < lc y z \<Longrightarrow> 0 < lc x z"
begin

lemma lc_total: "x \<noteq> y \<Longrightarrow> 0 < lc x y \<or> 0 < lc y x"
  using lc_zero[of x y] lc_neg[of x y] lc_neg[of y x] by linarith

lemma lc_asym: "0 < lc x y \<Longrightarrow> \<not> 0 < lc y x"
  using lc_neg[of x y] by linarith

lemma key_gt_total: "a \<noteq> b \<Longrightarrow> issue_key_gt lc a b \<or> issue_key_gt lc b a"
  using lc_total[of "fst a" "fst b"] lc_total[of "fst (snd a)" "fst (snd b)"] lc_total[of "snd (snd a)" "snd (snd b)"]
  by (auto simp: issue_key_gt_def prod_eq_iff)

lemma key_gt_asym: "issue_key_gt lc a b \<Longrightarrow> \<not> issue_key_gt lc b a"
  using lc_asym[of "fst a" "fst b"] lc_asym[of "fst (snd a)" "fst (snd b)"] lc_asym[of "snd (snd a)" "snd (snd b)"]
  by (auto simp: issue_key_gt_def split: if_splits)

lemma key_gt_trans: "issue_key_gt lc a b \<Longrightarrow> issue_key_gt lc b c \<Longrightarrow> issue_key_gt lc a c"
  using lc_trans[of "fst a" "fst b" "fst c"] lc_trans[of "fst (snd a)" "fst (snd b)" "fst (snd c)"]
    lc_trans[of "snd (snd a)" "snd (snd b)" "snd (snd c)"] lc_asym
  unfolding issue_key_gt_def by (smt (verit, best))

lemma insert_commute_gt:
  assumes "issue_key_gt lc x y"
  shows "js_insert (issue_key_gt lc) x (js_insert (issue_key_gt lc) y zs) = js_insert (issue_key_gt lc) y (js_insert (issue_key_gt lc) x zs)"
proof (induction zs)
  case Nil
  show ?case using assms key_gt_asym[OF assms] by simp
next
  case (Cons z zs)
  have up: "issue_key_gt lc x z" if "issue_key_gt lc y z" using assms that by (rule key_gt_trans)
  show ?case
    using assms key_gt_asym[OF assms] up Cons by (cases "issue_key_gt lc x z"; cases "issue_key_gt lc y z") simp_all
qed

lemma insert_commute:
  "js_insert (issue_key_gt lc) x (js_insert (issue_key_gt lc) y zs) = js_insert (issue_key_gt lc) y (js_insert (issue_key_gt lc) x zs)"
proof (cases "x = y")
  case False
  then consider "issue_key_gt lc x y" | "issue_key_gt lc y x" using key_gt_total by blast
  then show ?thesis by cases (rule insert_commute_gt, assumption, rule insert_commute_gt[symmetric], assumption)
qed simp

lemma sort_permuted:
  assumes "mset xs = mset ys" shows "js_sort (issue_key_gt lc) xs = js_sort (issue_key_gt lc) ys"
proof -
  have "fold (js_insert (issue_key_gt lc)) (rev xs) = fold (js_insert (issue_key_gt lc)) (rev ys)"
    by (rule fold_multiset_equiv) (use assms in \<open>auto simp: fun_eq_iff insert_commute\<close>)
  then show ?thesis by (simp add: js_sort_def foldr_conv_fold)
qed

text \<open>The message and the details can be read off the keys, where no path is a single empty name.\<close>

lemma response_of_keys:
  assumes "map issue_key xs = map issue_key ys" "\<forall>i \<in> set (xs @ ys). joined_path i = [] \<longrightarrow> zi_path i = []"
  shows "formatZodError xs = formatZodError ys \<and> map issue_detail xs = map issue_detail ys"
proof -
  have len: "length xs = length ys" using assms(1) by (rule map_eq_imp_length_eq)
  from len assms have "map issue_line xs = map issue_line ys \<and> map issue_detail xs = map issue_detail ys"
  proof (induction xs ys rule: list_induct2)
    case (Cons x xs y ys)
    from Cons.prems(1) have eq: "joined_path x = joined_path y" "zi_code x = zi_code y" "zi_message x = zi_message y"
      by (simp_all add: issue_key_def)
    from Cons.prems(1) have rest: "map issue_key xs = map issue_key ys" by simp
    have nil: "joined_path i = [] \<longleftrightarrow> zi_path i = []" if "i \<in> {x, y}" for i
    proof -
      have "i \<in> set ((x # xs) @ y # ys)" using that by auto
      with Cons.prems(2) have "joined_path i = [] \<longrightarrow> zi_path i = []" by (rule bspec)
      moreover have "zi_path i = [] \<longrightarrow> joined_path i = []" unfolding joined_path_def by simp
      ultimately show ?thesis by blast
    qed
    have "zi_path x = [] \<longleftrightarrow> zi_path y = []" using nil[of x] nil[of y] eq(1) by simp
    then have "issue_line x = issue_line y" by (simp add: issue_line_def eq)
    moreover have "issue_detail x = issue_detail y" by (simp add: issue_detail_def mapIssueCode_def eq)
    moreover have "\<forall>i \<in> set (xs @ ys). joined_path i = [] \<longrightarrow> zi_path i = []" using Cons.prems(2) by simp
    ultimately show ?case using Cons.IH[OF rest] by (simp del: map_eq_conv)
  qed simp
  then show ?thesis by (simp add: formatZodError_def)
qed

lemma response_order_free:
  assumes "mset es = mset es'" "\<forall>i \<in> set es. joined_path i = [] \<longrightarrow> zi_path i = []"
  shows "validation_response lc es = validation_response lc es'"
proof -
  have eq: "map issue_key (js_sort (issue_gt lc) xs) = js_sort (issue_key_gt lc) (map issue_key xs)" for xs
    by (rule map_js_sort) (rule issue_gt_key)
  have "mset (map issue_key es) = mset (map issue_key es')" using assms(1) by simp
  then have keys: "map issue_key (js_sort (issue_gt lc) es) = map issue_key (js_sort (issue_gt lc) es')"
    unfolding eq by (rule sort_permuted)
  have "set es' = set es" using assms(1) by (metis set_mset_mset)
  then have "\<forall>i \<in> set (js_sort (issue_gt lc) es @ js_sort (issue_gt lc) es'). joined_path i = [] \<longrightarrow> zi_path i = []"
    using assms(2) by simp
  with keys have "formatZodError (js_sort (issue_gt lc) es) = formatZodError (js_sort (issue_gt lc) es')
    \<and> map issue_detail (js_sort (issue_gt lc) es) = map issue_detail (js_sort (issue_gt lc) es')"
    by (rule response_of_keys)
  then show ?thesis by (simp add: validation_response_def sortIssuesDeterministically_def Let_def)
qed

end

text \<open>The order of the texts as lists of codes is a collation.\<close>

definition code_compare :: "string \<Rightarrow> string \<Rightarrow> int" where
  "code_compare a b = (if a = b then 0 else if a < b then - 1 else 1)"

interpretation codes: string_collation code_compare
  by unfold_locales (auto simp: code_compare_def split: if_splits)

section \<open>The layer of the client\<close>

text \<open>An issue as the client reads it: the path, the message, and the input zod put on it, as a string if it is a scalar
  or as the name of its type.\<close>

record client_issue =
  ci_path :: "string list"
  ci_message :: string
  ci_received :: "string option"

record error_detail =
  ed_field :: string
  ed_message :: string
  ed_received :: "string option"

record validation_error =
  ve_message :: string
  ve_userMessage :: string
  ve_details :: "error_detail list"

definition buildUserMessage :: "error_detail list \<Rightarrow> string" where
  "buildUserMessage details =
     (case details of
        [d] \<Rightarrow> ''Invalid value for '' @ [CHR 0x22] @ ed_field d @ [CHR 0x22] @ '': '' @ ed_message d @ ''.''
      | _ \<Rightarrow>
          ''Please fix the following fields: '' @ js_join '', '' (map ed_field (take 3 details))
            @ (if 3 < length details then '' and '' @ show_nat (length details - 3) @ '' more'' else []) @ ''.'')"

definition client_detail :: "client_issue \<Rightarrow> error_detail" where
  "client_detail i =
     \<lparr>ed_field = (if ci_path i \<noteq> [] then js_join ''.'' (ci_path i) else ''(root)''), ed_message = ci_message i,
      ed_received = ci_received i\<rparr>"

definition client_validate :: "('a \<Rightarrow> client_issue list + 'b) \<Rightarrow> string option \<Rightarrow> 'a \<Rightarrow> validation_error + 'b" where
  "client_validate safeParse label input =
     (case safeParse input of
        Inr d \<Rightarrow> Inr d
      | Inl issues \<Rightarrow>
          let details = map client_detail issues
          in Inl \<lparr>ve_message = ''Validation failed'' @ (if truthy_str label then '' ['' @ the label @ '']'' else []) @ '': ''
                    @ (case issues of [] \<Rightarrow> ''invalid input'' | i # rest \<Rightarrow> ci_message i),
                  ve_userMessage = buildUserMessage details, ve_details = details\<rparr>)"

text \<open>The input goes out as the schema read it or not at all.\<close>

lemma client_sends_parsed: "client_validate safeParse label input = Inr d \<longleftrightarrow> safeParse input = Inr d"
  by (auto simp: client_validate_def Let_def split: sum.splits)

lemma client_names_fields:
  "safeParse input = Inl issues \<Longrightarrow> client_validate safeParse label input = Inl e \<Longrightarrow> map ed_message (ve_details e) = map ci_message issues"
  by (auto simp: client_validate_def client_detail_def Let_def)

end
