(* ===== verification/WebhookConsumer.thy ===== *)
theory WebhookConsumer
  imports JsonText Calendar
begin

text \<open>
  The example consumer of contract events, \<open>docs/examples/webhook_consumer.ts\<close>: parsing, verification, detection of
  replays and anomalies, and the listening loop, one round at a time.  \<open>native\<close> is \<open>scValToNative\<close> of the Stellar
  SDK (\<^const>\<open>None\<close> when it throws), \<open>num\<close> prints a number; a big integer is kept apart, as \<open>JSON.stringify\<close>
  throws on it.  What the handlers print is left out, what they throw is not.
\<close>

section \<open>Configuration\<close>

record consumer_config =
  cc_network :: string
  cc_rpcUrl :: string
  cc_networkPassphrase :: string
  cc_contractId :: string
  cc_pollingInterval :: int

definition getConfig :: "string \<Rightarrow> string + consumer_config" where
  "getConfig network =
     (if network = ''testnet'' then Inr
        \<lparr>cc_network = ''testnet'', cc_rpcUrl = ''https://soroban-testnet.stellar.org'',
         cc_networkPassphrase = ''Test SDF Network ; September 2015'',
         cc_contractId = ''CAAAAAAAAAAAAAAAAAAAAAAAAAAAAAAAAAAAAAAAAAAAAAAAAAAABSC4'', cc_pollingInterval = 5000\<rparr>
      else if network = ''mainnet'' then Inr
        \<lparr>cc_network = ''mainnet'', cc_rpcUrl = ''https://soroban-mainnet.stellar.org'',
         cc_networkPassphrase = ''Public Global Stellar Network ; September 2015'',
         cc_contractId = ''CBBBBBBBBBBBBBBBBBBBBBBBBBBBBBBBBBBBBBBBBBBBBBBBBBBSC4'', cc_pollingInterval = 5000\<rparr>
      else Inl (''Unknown network: '' @ network))"

section \<open>Parsing\<close>

datatype native_value = Big int | Plain json

record 'x raw_event =
  rw_type :: string
  rw_topic :: "string list"
  rw_fields :: "'x list option"
  rw_ledger :: int
  rw_ledger_close_time :: string
  rw_contractId :: string
  rw_txHash :: "string option"

record vault_event =
  vt_type :: string
  vt_ledger :: int
  vt_ledger_closed_at :: string
  vt_contract_id :: string
  vt_topics :: "string list"
  vt_data :: "(string \<times> native_value) list"
  vt_transactionHash :: "string option"

definition field_names :: "string \<Rightarrow> (string \<times> string) option" where
  "field_names t =
     (if t = ''deposit'' then Some (''amount'', ''shares_minted'')
      else if t = ''pndwdraw'' then Some (''shares'', ''unlock_timestamp'')
      else if t = ''withdraw'' then Some (''assets_returned'', ''shares_burned'')
      else if t = ''feechg'' then Some (''old_bps'', ''new_bps'')
      else if t = ''mindepchg'' then Some (''old_min'', ''new_min'')
      else None)"

definition parse_data :: "('x \<Rightarrow> native_value option) \<Rightarrow> string \<times> string \<Rightarrow> 'x list option \<Rightarrow> (string \<times> native_value) list option" where
  "parse_data native names fs =
     (case fs of
        Some (a # b # r) \<Rightarrow>
          (case (native a, native b) of (Some x, Some y) \<Rightarrow> Some [(fst names, x), (snd names, y)] | _ \<Rightarrow> None)
      | _ \<Rightarrow> Some [])"

definition parseVaultEvent :: "('x \<Rightarrow> native_value option) \<Rightarrow> 'x raw_event \<Rightarrow> vault_event option" where
  "parseVaultEvent native raw =
     (case rw_topic raw of
        t0 # eventType # r \<Rightarrow>
          if eventType = [] then None
          else (case field_names eventType of
              None \<Rightarrow> None
            | Some names \<Rightarrow>
                (case parse_data native names (rw_fields raw) of
                   None \<Rightarrow> None
                 | Some d \<Rightarrow> Some
                     \<lparr>vt_type = eventType, vt_ledger = rw_ledger raw, vt_ledger_closed_at = rw_ledger_close_time raw,
                      vt_contract_id = rw_contractId raw, vt_topics = rw_topic raw, vt_data = d,
                      vt_transactionHash = rw_txHash raw\<rparr>))
      | _ \<Rightarrow> None)"

section \<open>Verification and replays\<close>

text \<open>\<open>current\<close> is the newest ledger, or the error of asking for it; the result the reason of a rejection.\<close>

definition verifyEventSource :: "string + int \<Rightarrow> string \<Rightarrow> vault_event \<Rightarrow> string option" where
  "verifyEventSource current expectedContractId e =
     (if vt_contract_id e \<noteq> expectedContractId
      then Some (''Contract ID mismatch. Expected '' @ expectedContractId @ '', got '' @ vt_contract_id e)
      else case current of
        Inl err \<Rightarrow> Some (''Failed to verify ledger: '' @ err)
      | Inr currentLedger \<Rightarrow>
          let ledgerDiff = currentLedger - vt_ledger e
          in if ledgerDiff < 0
             then Some (''Event is from the future (ledger '' @ show_int (vt_ledger e) @ '' vs current '' @ show_int currentLedger @ '')'')
             else if 1000000 < ledgerDiff then Some (''Event is too old ('' @ show_int ledgerDiff @ '' ledgers ago)'')
             else None)"

text \<open>\<^const>\<open>None\<close>: the data holds a big integer, and \<open>JSON.stringify\<close> throws.\<close>

definition plain_data :: "(string \<times> native_value) list \<Rightarrow> (string \<times> json) list option" where
  "plain_data d = those (map (\<lambda>(k, v). case v of Big n \<Rightarrow> None | Plain j \<Rightarrow> Some (k, j)) d)"

definition event_hash :: "(rat \<Rightarrow> string) \<Rightarrow> vault_event \<Rightarrow> string option" where
  "event_hash num e =
     map_option (\<lambda>d. vt_contract_id e @ '':'' @ show_int (vt_ledger e) @ '':'' @ vt_type e @ '':'' @ json_text num (JObj d))
       (plain_data (vt_data e))"

section \<open>Anomalies and handlers\<close>

text \<open>\<open>Number\<close> of a value, \<^const>\<open>None\<close> for \<open>NaN\<close>; \<open>number\<close> reads a string.\<close>

definition number_of :: "(string \<Rightarrow> rat option) \<Rightarrow> native_value option \<Rightarrow> rat option" where
  "number_of number v =
     (case v of
        Some (Big n) \<Rightarrow> Some (of_int n)
      | Some (Plain (JNum r)) \<Rightarrow> Some r
      | Some (Plain (JStr s)) \<Rightarrow> number s
      | Some (Plain (JBool b)) \<Rightarrow> Some (if b then 1 else 0)
      | Some (Plain JNull) \<Rightarrow> Some 0
      | _ \<Rightarrow> None)"

datatype event_alert = Large_deposit | Large_fee_change

definition detectAnomalies :: "(string \<Rightarrow> rat option) \<Rightarrow> vault_event \<Rightarrow> event_alert option" where
  "detectAnomalies number e =
     (let n = (\<lambda>k. number_of number (map_of (vt_data e) k))
      in if vt_type e = ''deposit'' \<and> (case n ''amount'' of None \<Rightarrow> False | Some a \<Rightarrow> 10000000000 < a) then Some Large_deposit
         else if vt_type e = ''feechg'' \<and>
           (case (n ''new_bps'', n ''old_bps'') of (Some a, Some b) \<Rightarrow> 100 < \<bar>a - b\<bar> | _ \<Rightarrow> False) then Some Large_fee_change
         else None)"

text \<open>Whether the handler ends without an exception: the time of a pending withdrawal must be a date.\<close>

definition handleEvent :: "(string \<Rightarrow> rat option) \<Rightarrow> vault_event \<Rightarrow> bool" where
  "handleEvent number e \<longleftrightarrow>
     vt_type e \<noteq> ''pndwdraw'' \<or>
     (case number_of number (map_of (vt_data e) ''unlock_timestamp'') of
        None \<Rightarrow> False
      | Some u \<Rightarrow> \<bar>u * 1000\<bar> \<le> 8640000000000000)"

section \<open>Listening\<close>

record listener =
  ls_cursor :: int
  ls_processed :: "string list"
  ls_alerts :: "event_alert list"
  ls_handled :: "vault_event list"

definition new_listener :: "int \<Rightarrow> listener" where
  "new_listener startLedger = \<lparr>ls_cursor = startLedger, ls_processed = [], ls_alerts = [], ls_handled = []\<rparr>"

record 'x consumer =
  cn_native :: "'x \<Rightarrow> native_value option"
  cn_number :: "string \<Rightarrow> rat option"
  cn_num :: "rat \<Rightarrow> string"
  cn_contractId :: string

text \<open>One event with the answer to the question for the newest ledger.  \<^const>\<open>None\<close>: it throws, and the batch ends.\<close>

definition consume_event :: "'x consumer \<Rightarrow> 'x raw_event \<times> (string + int) \<Rightarrow> listener \<Rightarrow> bool \<times> listener" where
  "consume_event C rc s =
     (case rc of (raw, current) \<Rightarrow>
        if rw_type raw \<noteq> ''contract'' then (True, s)
        else case parseVaultEvent (cn_native C) raw of
          None \<Rightarrow> (True, s)
        | Some e \<Rightarrow>
            (case verifyEventSource current (cn_contractId C) e of
               Some reason \<Rightarrow> (True, s)
             | None \<Rightarrow>
                 (case event_hash (cn_num C) e of
                    None \<Rightarrow> (False, s)
                  | Some h \<Rightarrow>
                      if h \<in> set (ls_processed s) then (True, s)
                      else
                        let s1 = s\<lparr>ls_processed := ls_processed s @ [h],
                              ls_alerts := ls_alerts s @ (case detectAnomalies (cn_number C) e of None \<Rightarrow> [] | Some a \<Rightarrow> [a])\<rparr>
                        in if \<not> handleEvent (cn_number C) e then (False, s1)
                           else (True, s1\<lparr>ls_handled := ls_handled s @ [e], ls_cursor := vt_ledger e + 1\<rparr>))))"

fun consume_events :: "'x consumer \<Rightarrow> ('x raw_event \<times> (string + int)) list \<Rightarrow> listener \<Rightarrow> bool \<times> listener" where
  "consume_events C [] s = (True, s)"
| "consume_events C (rc # rcs) s = (case consume_event C rc s of (False, s1) \<Rightarrow> (False, s1) | (True, s1) \<Rightarrow> consume_events C rcs s1)"

text \<open>A round: the reply to \<open>getEvents\<close> from the cursor, with the wait before the next round in milliseconds.\<close>

definition listen_round ::
  "'x consumer \<Rightarrow> int \<Rightarrow> (string + ('x raw_event \<times> (string + int)) list) \<Rightarrow> listener \<Rightarrow> int \<times> listener" where
  "listen_round C pollingInterval response s =
     (case response of
        Inl err \<Rightarrow> (10000, s)
      | Inr events \<Rightarrow> (case consume_events C events s of (ok, s1) \<Rightarrow> (if ok then pollingInterval else 10000, s1)))"

text \<open>\<open>rpc cursor n\<close> is the reply in round \<open>n\<close> to the request from a cursor.\<close>

fun listenForEvents ::
  "'x consumer \<Rightarrow> int \<Rightarrow> (int \<Rightarrow> nat \<Rightarrow> string + ('x raw_event \<times> (string + int)) list) \<Rightarrow> nat \<Rightarrow> listener \<Rightarrow> listener" where
  "listenForEvents C iv rpc 0 s = s"
| "listenForEvents C iv rpc (Suc n) s =
     (let s1 = listenForEvents C iv rpc n s in snd (listen_round C iv (rpc (ls_cursor s1) n) s1))"

section \<open>At most once\<close>

definition genuine :: "'x consumer \<Rightarrow> vault_event \<Rightarrow> bool" where
  "genuine C e \<longleftrightarrow> vt_contract_id e = cn_contractId C \<and> field_names (vt_type e) \<noteq> None \<and> handleEvent (cn_number C) e"

definition listener_inv :: "'x consumer \<Rightarrow> listener \<Rightarrow> bool" where
  "listener_inv C s \<longleftrightarrow>
     distinct (ls_processed s)
   \<and> distinct (map (event_hash (cn_num C)) (ls_handled s))
   \<and> event_hash (cn_num C) ` set (ls_handled s) \<subseteq> Some ` set (ls_processed s)
   \<and> (\<forall>e \<in> set (ls_handled s). genuine C e)"

lemma parsed_type: "parseVaultEvent native raw = Some e \<Longrightarrow> field_names (vt_type e) \<noteq> None"
  by (auto simp: parseVaultEvent_def split: list.splits if_splits option.splits)

lemma consume_event_inv: "listener_inv C s \<Longrightarrow> listener_inv C (snd (consume_event C rc s))"
  unfolding consume_event_def Let_def
  by (auto simp: listener_inv_def genuine_def verifyEventSource_def dest: parsed_type
      split: prod.splits option.splits if_splits sum.splits)

lemma consume_events_inv: "listener_inv C s \<Longrightarrow> listener_inv C (snd (consume_events C rcs s))"
proof (induction C rcs s rule: consume_events.induct)
  case (2 C rc rcs s)
  then show ?case using consume_event_inv[of C s rc] by (auto split: prod.splits bool.splits)
qed simp

text \<open>Whatever the replies of the RPC in whatever rounds, events that are handled come from the contract, are of a known
  kind, and no two of them have the same key (contract, ledger, kind and data).\<close>

theorem consumer_at_most_once:
  "distinct (map (event_hash (cn_num C)) (ls_handled (listenForEvents C iv rpc n (new_listener start))))
   \<and> (\<forall>e \<in> set (ls_handled (listenForEvents C iv rpc n (new_listener start))). genuine C e)"
proof -
  have "listener_inv C (listenForEvents C iv rpc n (new_listener start))"
  proof (induction n)
    case 0
    show ?case by (simp add: listener_inv_def new_listener_def)
  next
    case (Suc n)
    let ?s = "listenForEvents C iv rpc n (new_listener start)"
    show ?case
    proof (cases "rpc (ls_cursor ?s) n")
      case (Inr events)
      with consume_events_inv[OF Suc, of events] show ?thesis by (simp add: listen_round_def Let_def split_beta)
    qed (simp add: listen_round_def Let_def Suc)
  qed
  then show ?thesis by (simp add: listener_inv_def)
qed

section \<open>What is lost\<close>

definition sample_consumer :: "native_value consumer" where
  "sample_consumer = \<lparr>cn_native = Some, cn_number = (\<lambda>s. None), cn_num = (\<lambda>r. show_int \<lfloor>r\<rfloor>), cn_contractId = ''C1''\<rparr>"

definition sample_deposit :: "int \<Rightarrow> string \<Rightarrow> native_value \<Rightarrow> native_value raw_event" where
  "sample_deposit ledger tx amount =
     \<lparr>rw_type = ''contract'', rw_topic = [''vault'', ''deposit''], rw_fields = Some [amount, Plain (JNum 5)], rw_ledger = ledger,
      rw_ledger_close_time = ''t'', rw_contractId = ''C1'', rw_txHash = Some tx\<rparr>"

text \<open>Amounts are big integers in the SDK: such an event stops its batch before it is handled, in every round.\<close>

lemma big_amount_stops:
  "verifyEventSource current ''C1'' e = None \<Longrightarrow> parseVaultEvent Some (sample_deposit l tx (Big n)) = Some e \<Longrightarrow>
     consume_events sample_consumer ((sample_deposit l tx (Big n), current) # rcs) s = (False, s)"
  by (auto simp: consume_event_def sample_consumer_def sample_deposit_def parseVaultEvent_def field_names_def parse_data_def
      event_hash_def plain_data_def)

text \<open>Two equal deposits of different transactions in one ledger count as one.\<close>

lemma equal_deposits_merged:
  "map vt_transactionHash (ls_handled (snd (consume_events sample_consumer
     [(sample_deposit 7 ''t1'' (Plain (JNum 10)), Inr 9), (sample_deposit 7 ''t2'' (Plain (JNum 10)), Inr 9)] (new_listener 0)))) = [Some ''t1'']"
  by code_simp

text \<open>The next request starts after the ledger of the last event, also when the page ended in the middle of that ledger.\<close>

lemma cursor_skips_ledger:
  "ls_cursor (snd (consume_events sample_consumer [(sample_deposit 7 ''t1'' (Plain (JNum 10)), Inr 9)] (new_listener 7))) = 8"
  by code_simp

end
