(* ===== verification/Spec2Isabelle.thy ===== *)
theory Spec2Isabelle
  imports Wallet WalletNonce WalletSignature CircuitBreaker Idempotency RateLimiter ResponseCache
    DateRange Pagination Auth RefreshTokens AccessControl Decimals Database Gates WithdrawalLimit
    Referral Soroban VaultRuns WebhookRuns EventPolling Impersonation JobGovernance EmailRuns
    LatencyAlerts Exports Redaction BulkExport DatabasePool ReadRoutes AdminKeys SessionRoutes
    ToolRoutes OperatorRoutes ExportRoutes DbBackup Lifecycle ApiClient UrlState
    OptimisticCache ClientHooks ClientForms ClientViews ClientData
    ClientDashboard ClientLayout RequestSchemas WebhookConsumer
begin

text \<open>
  YieldVault backend: a verification development.

  The program.  The TypeScript server under \<open>src/backend/src\<close> fronts a tokenised real-world-asset vault on
  Stellar.  A client authenticates a wallet (access tokens, refresh tokens, signed one-time messages),
  deposits and withdraws through the Soroban contract, and reads listings; administrators use API keys.
  Around the vault operation stand an idempotency store, a lock per wallet, a circuit breaker before the
  RPC, rate limits, request gates and a daily limit; behind it the database, a referral programme,
  webhooks, mails, caches, background jobs and the polling of contract events.

  How the code is modelled.  A component is one theory: its state a record, an operation a function from
  the arguments and the state to the result and the new state.  The clock is an argument (\<open>now\<close>), a JavaScript
  \<open>Map\<close> an association list in insertion order, a rejected promise or exception an \<open>Inl\<close> or \<open>None\<close>.  A number
  is the rational or integer it stands for, a date its milliseconds.  Where a function waits and other requests
  may run meanwhile, it is cut at the \<open>await\<close> into steps, and an inductive step relation or a function
  over event lists interleaves the steps of any number of requests, workers or processes.  Libraries and
  services outside the repository (node-cache, Redis, Prisma, decimal.js, cryptography, the Stellar SDK,
  \<open>fetch\<close>) are parameters: records of functions whose documented laws are locales, each with an
  interpretation on a concrete instance, on which the witnesses run.  Logging, metrics and tracing have no
  effect on the results and are left out.

  Theories and sources (under \<open>src/backend/src\<close> unless a path is given).
  \<^item> \<open>Prelude\<close>: JavaScript strings, numbers, maps and sorting, and the lemmas on them; \<open>Http\<close>: JSON, requests,
    responses and middleware; \<open>Calendar\<close>, \<open>Base64\<close>: dates and encodings of the runtime; \<open>Stores\<close>: node-cache and
    Redis; \<open>Decimals\<close>: decimal.js; \<open>Database\<close>: the tables of \<open>src/backend/prisma/schema.prisma\<close> and the Prisma client.
  \<^item> \<open>Wallet\<close>: \<open>walletUtils.ts\<close>, \<open>walletLock.ts\<close>.  \<open>WalletNonce\<close>, \<open>WalletSignature\<close>: \<open>walletNonce.ts\<close>,
    \<open>walletSignature.ts\<close>, \<open>middleware/walletSignedAction.ts\<close>.
  \<^item> \<open>CircuitBreaker\<close>, \<open>Idempotency\<close>, \<open>RateLimiter\<close>, \<open>ResponseCache\<close>: \<open>circuitBreaker.ts\<close>, \<open>idempotency.ts\<close>,
    \<open>rateLimiter.ts\<close>, \<open>middleware/cache.ts\<close>.  \<open>DateRange\<close>, \<open>Pagination\<close>: \<open>dateRange.ts\<close>, \<open>pagination.ts\<close>.
  \<^item> \<open>Auth\<close>, \<open>RefreshTokens\<close>: \<open>auth.ts\<close>.  \<open>AccessControl\<close>: \<open>middleware/payloadLimit.ts\<close>, \<open>middleware/apiKeyAuth.ts\<close>,
    \<open>middleware/rbac.ts\<close>.  \<open>Gates\<close>: allow list, feature flags, maintenance mode and geofencing.  \<open>WithdrawalLimit\<close>:
    \<open>middleware/withdrawalDailyLimit.ts\<close>.
  \<^item> \<open>Soroban\<close>: \<open>sorobanClient.ts\<close>.  \<open>VaultOps\<close>: \<open>vaultEndpoints.ts\<close>, the handler in steps and its accounting;
    \<open>VaultRuns\<close>: its runs.  \<open>Referral\<close>: \<open>referralService.ts\<close>, \<open>referralEndpoints.ts\<close>.
  \<^item> \<open>Webhooks\<close>, \<open>WebhookRuns\<close>: \<open>webhookDelivery.ts\<close>.  \<open>EventPolling\<close>: \<open>eventPollingService.ts\<close>.  \<open>Impersonation\<close>:
    \<open>impersonationSessionService.ts\<close>.  \<open>JobGovernance\<close>: \<open>jobGovernance.ts\<close>.  \<open>EmailQueue\<close>, \<open>EmailRuns\<close>:
    \<open>emailQueue.ts\<close>, \<open>emailService.ts\<close>.
  \<^item> \<open>Latency\<close>, \<open>LatencyAlerts\<close>: \<open>latencyMonitoring.ts\<close>, the trackers and the alerts of a running service.
  \<^item> \<open>JsonText\<close>: the text of JSON values; \<open>Listings\<close>, \<open>ReadRoutes\<close>: \<open>listEndpoints.ts\<close>, \<open>transactionEndpoints.ts\<close>.
    \<open>Exports\<close>: \<open>exportJobs.ts\<close> and the export route.  \<open>BulkExport\<close>: \<open>bulkExportJobs.ts\<close> and its routes.
  \<^item> \<open>CalendarOrder\<close>: dates are ordered as their texts; \<open>ApySnapshot\<close>: \<open>apySnapshot.ts\<close>.  \<open>DatabasePool\<close>: \<open>database.ts\<close>.
  \<^item> \<open>Redaction\<close>: \<open>redaction.ts\<close>, \<open>auditRedaction.ts\<close>, \<open>sanitization.ts\<close>.  \<open>Tables\<close>: tables that grow;
    \<open>AdminAudit\<close>: \<open>auditLog.ts\<close>, \<open>adminAudit.ts\<close>, \<open>adminReceipt.ts\<close>.
  \<^item> \<open>AdminRoutes\<close>, \<open>AdminKeys\<close>, \<open>SessionRoutes\<close>: routes of \<open>index.ts\<close> (maintenance mode and allow list with their
    receipts; API keys and \<open>apiKeyAudit.ts\<close>; impersonation, the view of a wallet, logout).
  \<^item> \<open>ToolRoutes\<close>: routes of \<open>index.ts\<close> over the cache, the idempotency keys, the APY history, the event replay, the
    withdrawal overrides and the mail queue.  \<open>OperatorRoutes\<close>, \<open>ExportRoutes\<close>: receipts, audit entries, webhooks, exports.
  \<^item> \<open>DbBackup\<close>: \<open>dbBackupJob.ts\<close>.  \<open>Lifecycle\<close>: \<open>gracefulShutdown.ts\<close>, \<open>middleware/cors.ts\<close>,
    \<open>middleware/correlationId.ts\<close>, the probes and the last handlers of \<open>index.ts\<close>.
  \<^item> \<open>ApiClient\<close>: the client of the frontend, \<open>src/frontend/src/lib/api\<close>.  \<open>UrlState\<close>: its filters in the query
    string, \<open>useUrlState.ts\<close> and \<open>useTransactionFilters.ts\<close> of \<open>src/frontend/src/hooks\<close>.
  \<^item> More of the frontend, under \<open>src/frontend/src\<close>.  \<open>OptimisticCache\<close>: \<open>hooks/useVaultMutations.ts\<close>.  \<open>ClientHooks\<close>:
    \<open>hooks/useTransactionTimeline.ts\<close>, \<open>usePolling.ts\<close>, \<open>useHealthStatus.ts\<close>.  \<open>ClientForms\<close>: \<open>forms\<close>, \<open>lib/security.ts\<close>,
    \<open>walletSession.ts\<close>, \<open>sessionCleanup.ts\<close>, \<open>transactionConfirmationBuilder.ts\<close>.  \<open>ClientViews\<close>:
    \<open>context/AuthContext.tsx\<close>, \<open>ToastContext.tsx\<close>, \<open>hooks/useSlippage.ts\<close>, \<open>useClientDataTable.ts\<close>.
  \<^item> \<open>ClientData\<close>: \<open>lib/vaultApi.ts\<close>, \<open>transactionApi.ts\<close>, \<open>stellarAccount.ts\<close>, \<open>dateUtils.ts\<close> of \<open>src/frontend/src\<close>.
  \<^item> \<open>ClientDashboard\<close>: \<open>components/VaultDashboard.tsx\<close> with the forms, the fee estimate, the confirmation and the address
    state it uses.  \<open>ClientLayout\<close>: \<open>hooks/useFloating.ts\<close>, \<open>components/Pagination.tsx\<close>, \<open>FileUpload.tsx\<close>, the shortcuts.
  \<^item> \<open>RequestSchemas\<close>: \<open>middleware/validate.ts\<close> and the schemas of the client, \<open>lib/api/schemas.ts\<close>, \<open>validation.ts\<close>.
  \<^item> \<open>WebhookConsumer\<close>: the example of a consumer of contract events, \<open>src/docs/examples/webhook_consumer.ts\<close>.

  What the lemmas show.  The vault operation: answers, rows, invocations and locks agree for every reply
  of the RPC and the database, retries replay, the totals stay readable and non-negative under any
  interleaving, and the share price is preserved.  Stores and tokens: nonces, refresh tokens and
  idempotency keys are used at most once under any interleaving of requests.  Limits: windows, daily
  amounts, attempts and back-offs stay within their bounds.  Background work: deliveries, replays and
  retry loops end, with the outcome the code promises, and no event or delivery is lost unless a
  reply is incomplete.  Operations: pruning keeps the newest backups and a shutdown settles.  The frontend: requests and
  retries are bounded, filters survive the address bar, failed mutations are rolled back, forms accept what can be
  carried out, a dialogue confirms no more than was pressed.  Some properties state what the code does against its purpose (a race of the daily
  limit, a lost event, an ignored role); the findings of the manifest say where.

  Bounds and fuel.  Loops over lists are structural; the retry loop of a job and the replay of a ledger
  range end by a measure that decreases (attempts or ledgers left), and the delivery chain of a webhook
  runs with as many rounds as there are attempts left, which is proved to suffice.  No theorem rests on
  fuel that could run out.

  Composition.  Middlewares compose by \<open>run_middlewares\<close>; the vault operation calls the lock, the
  idempotency store, the breaker, the SDK, the accounting and the referral programme of their own theories, so
  that its properties hold of the composed definitions.

  Not modelled.  The mounting of routers and middleware in \<open>index.ts\<close>, its dashboards of jobs and metrics, logging, tracing, metrics
  and client set-up call third-party code and keep no state of their own.  The object schemas of zod are arguments.  Of
  the React frontend under \<open>src/frontend\<close> the API client and the hooks, contexts, libraries and components named above
  are modelled; the other components and pages render and hold local state of the user interface, and the formatters
  choose options of \<open>Intl\<close>.  The Rust contracts under \<open>src/contracts\<close> are outside the development.
\<close>

end
